(* ===== verification/Bal_Prelude.thy ===== *)
theory Bal_Prelude
  imports Main "HOL-Library.Word"
begin

text \<open>
  Shared material of the development: the machine integer types of the C code, the
  collections of rewrite rules the component theories use, little-endian byte sequences
  (what the \<open>memcpy\<close> of a 32 or 64 bit integer writes on the supported hosts), and the
  generic facts about words and lists that several components need.
\<close>

unbundle bit_operations_syntax

type_synonym u8 = "8 word"
type_synonym u16 = "16 word"
type_synonym u32 = "32 word"
type_synonym u64 = "64 word"
type_synonym size_t = "64 word"

definition SIZE_MAX :: size_t where
  "SIZE_MAX = -1"

text \<open>
  \<open>emit_simps\<close>: equations that turn a code emitting routine into the bytes it appends;
  \<open>frame_simps\<close>: fields that an operation leaves alone;
  \<open>wf_intros\<close>: preservation of the components' invariants.
\<close>

named_theorems emit_simps
named_theorems frame_simps
named_theorems wf_intros

section \<open>Pointers\<close>

text \<open>
  A pointer argument that the C code tests against \<open>NULL\<close> is an option in the model.
  A \<open>void\<close> operation that returns at once on \<open>NULL\<close> is the lifting of the operation on
  the structure behind the pointer.
\<close>

definition on_pointer :: "('s \<Rightarrow> 's) \<Rightarrow> 's option \<Rightarrow> 's option" where
  "on_pointer f p = (case p of None \<Rightarrow> None | Some s \<Rightarrow> Some (f s))"

lemma on_pointer_simps [simp]:
  "on_pointer f None = None"
  "on_pointer f (Some s) = Some (f s)"
  by (simp_all add: on_pointer_def)

section \<open>Little-endian bytes\<close>

definition le_bytes32 :: "u32 \<Rightarrow> u8 list" where
  "le_bytes32 w = [ucast w, ucast (drop_bit 8 w), ucast (drop_bit 16 w), ucast (drop_bit 24 w)]"

definition le_bytes64 :: "u64 \<Rightarrow> u8 list" where
  "le_bytes64 w = le_bytes32 (ucast w) @ le_bytes32 (ucast (drop_bit 32 w))"

definition of_le32 :: "u8 \<Rightarrow> u8 \<Rightarrow> u8 \<Rightarrow> u8 \<Rightarrow> u32" where
  "of_le32 a b c d =
     ucast a OR push_bit 8 (ucast b) OR push_bit 16 (ucast c) OR push_bit 24 (ucast d)"

lemma length_le_bytes [simp]:
  "length (le_bytes32 w) = 4"
  "length (le_bytes64 v) = 8"
  by (simp_all add: le_bytes32_def le_bytes64_def)

lemma of_le32_bytes [simp]:
  "of_le32 (ucast w) (ucast (drop_bit 8 w)) (ucast (drop_bit 16 w)) (ucast (drop_bit 24 w)) = w"
  unfolding of_le32_def
proof (rule bit_word_eqI, goal_cases)
  case (1 n)
  then consider "n < 8" | "8 \<le> n \<and> n < 16" | "16 \<le> n \<and> n < 24" | "24 \<le> n \<and> n < 32"
    by fastforce
  then show ?case by cases (auto simp: bit_simps)
qed

lemma ucast_halves64 [simp]:
  "ucast (ucast (w :: u64) :: u32) OR push_bit 32 (ucast (ucast (drop_bit 32 w) :: u32)) = w"
  by (rule bit_word_eqI) (auto simp: bit_simps)

section \<open>Words\<close>

lemma unat_add_of_nat:
  fixes x :: "64 word"
  assumes "unat x + n < 2 ^ 64"
  shows "unat (x + of_nat n) = unat x + n"
proof -
  from assms have n: "n < 2 ^ 64" by simp
  then have "unat (of_nat n :: 64 word) = n" by (simp add: unat_of_nat take_bit_eq_mod)
  with assms show ?thesis by (simp add: unat_word_ariths)
qed

lemma length_bound_size_t: "unat (c :: size_t) < 2 ^ 64"
  using unsigned_less [of c, where 'a = nat] by simp

end
