(* ===== verification/Bal_Errors.thy ===== *)
theory Bal_Errors
  imports Bal_Prelude
begin

text \<open>
  The error codes of \<open>include/bal_errors.h\<close> and their messages
  (\<open>src/bal_errors.c\<close>).
\<close>

datatype bal_error_t =
    BAL_SUCCESS
  | BAL_ERROR_INVALID_ARGUMENT
  | BAL_ERROR_ALLOCATION_FAILED
  | BAL_ERROR_STRUCT_CORRUPTED
  | BAL_ERROR_BUFFER_OVERFLOW
  | BAL_ERROR_MEMORY_ALIGNMENT
  | BAL_ERROR_MEMORY_FAULT
  | BAL_ERROR_ENGINE_ALREADY_RUNNING
  | BAL_ERROR_PC_ALIGNMENT
  | BAL_ERROR_UNKNOWN_INSTRUCTION
  | BAL_ERROR_THREAD_CREATION
  | BAL_ERROR_THREAD_CLEANUP
  | BAL_ERROR_INSTRUCTION_OVERFLOW
  | BAL_ERROR_INCORRECT_REGISTER_TYPE
  | BAL_ERROR_BRANCH_OFFSET_OVERFLOW
  | BAL_ERROR_CAPACITY_TOO_BIG
  | BAL_ERROR_REGISTER_ALLOCATOR_CORRUPTED

primrec bal_error_code :: "bal_error_t \<Rightarrow> int" where
  "bal_error_code BAL_SUCCESS = 0"
| "bal_error_code BAL_ERROR_INVALID_ARGUMENT = -1"
| "bal_error_code BAL_ERROR_ALLOCATION_FAILED = -2"
| "bal_error_code BAL_ERROR_STRUCT_CORRUPTED = -3"
| "bal_error_code BAL_ERROR_BUFFER_OVERFLOW = -4"
| "bal_error_code BAL_ERROR_MEMORY_ALIGNMENT = -50"
| "bal_error_code BAL_ERROR_MEMORY_FAULT = -51"
| "bal_error_code BAL_ERROR_ENGINE_ALREADY_RUNNING = -100"
| "bal_error_code BAL_ERROR_PC_ALIGNMENT = -101"
| "bal_error_code BAL_ERROR_UNKNOWN_INSTRUCTION = -102"
| "bal_error_code BAL_ERROR_THREAD_CREATION = -150"
| "bal_error_code BAL_ERROR_THREAD_CLEANUP = -151"
| "bal_error_code BAL_ERROR_INSTRUCTION_OVERFLOW = -200"
| "bal_error_code BAL_ERROR_INCORRECT_REGISTER_TYPE = -201"
| "bal_error_code BAL_ERROR_BRANCH_OFFSET_OVERFLOW = -202"
| "bal_error_code BAL_ERROR_CAPACITY_TOO_BIG = -203"
| "bal_error_code BAL_ERROR_REGISTER_ALLOCATOR_CORRUPTED = -204"

text \<open>
  \<open>bal_error_to_string\<close> switches on the integer value, so that a value outside the
  enumeration reaches the default case.
\<close>

definition bal_error_to_string :: "int \<Rightarrow> string" where
  "bal_error_to_string error =
    (if error = 0 then ''there is no error''
     else if error = -1 then ''function argument is NULL or invalid''
     else if error = -2 then ''failed to allocate memory''
     else if error = -3 then ''struct integrity check failed''
     else if error = -4 then ''buffer overflow''
     else if error = -50 then ''buffer is not aligned to the required memory alignment''
     else if error = -51 then ''accessed invalid or unmapped guest memory''
     else if error = -100 then ''engine is already executing guest code''
     else if error = -101 then ''guest code tried to execute an unaligned instruction''
     else if error = -102 then ''failed to decode ARM instruction''
     else if error = -150 then ''could not create background thread''
     else if error = -151 then ''could not clean up background thread''
     else if error = -200 then ''instruction buffer or IR arena overflowed''
     else if error = -201 then ''decoded register type mismatch''
     else if error = -202 then ''relative branch offset exceeds displacement limit''
     else if error = -203 then
       ''buffer capacity is too large and would cause integer overflow''
     else if error = -204 then
       ''register allocator mapping tables are corrupted or inconsistent''
     else ''unknown error code'')"

lemma bal_error_code_inject [simp]: "bal_error_code e = bal_error_code f \<longleftrightarrow> e = f"
  by (cases e; cases f) simp_all

instantiation bal_error_t :: linorder
begin

definition less_eq_bal_error_t :: "bal_error_t \<Rightarrow> bal_error_t \<Rightarrow> bool" where
  "less_eq_bal_error_t e f \<longleftrightarrow> bal_error_code e \<le> bal_error_code f"

definition less_bal_error_t :: "bal_error_t \<Rightarrow> bal_error_t \<Rightarrow> bool" where
  "less_bal_error_t e f \<longleftrightarrow> bal_error_code e < bal_error_code f"

instance
  by standard (auto simp: less_eq_bal_error_t_def less_bal_error_t_def)

end

lemma bal_error_le_success [simp]: "e \<le> BAL_SUCCESS"
  by (cases e) (simp_all add: less_eq_bal_error_t_def)

end
