(* ===== verification/Bal_Safety.thy ===== *)
theory Bal_Safety
  imports Bal_Errors
begin

text \<open>
  The structure integrity marks of \<open>include/bal_safety.h\<close>: the magic numbers, the texts for
  them, and the alignment test on pointers. \<open>BAL_CHECK_MAGIC\<close> compares a structure's magic
  number with the expected one and makes the caller return
  \<open>BAL_ERROR_STRUCT_CORRUPTED\<close>; \<open>magic_ok\<close> is its test.
\<close>

definition BAL_MAGIC_UNINITIALIZED :: u32 where "BAL_MAGIC_UNINITIALIZED = 0"
definition BAL_ASSEMBLER_MAGIC_ALIVE :: u32 where "BAL_ASSEMBLER_MAGIC_ALIVE = 0xBA11A550"
definition BAL_ASSEMBLER_MAGIC_DEAD :: u32 where "BAL_ASSEMBLER_MAGIC_DEAD = 0xDEADBA11"
definition BAL_JIT_DEBUG_MAGIC_ALIVE :: u32 where "BAL_JIT_DEBUG_MAGIC_ALIVE = 0x717DE801"
definition BAL_JIT_DEBUG_MAGIC_DEAD :: u32 where "BAL_JIT_DEBUG_MAGIC_DEAD = 0xDEAD717D"

lemmas magic_defs = BAL_MAGIC_UNINITIALIZED_def BAL_ASSEMBLER_MAGIC_ALIVE_def
  BAL_ASSEMBLER_MAGIC_DEAD_def BAL_JIT_DEBUG_MAGIC_ALIVE_def BAL_JIT_DEBUG_MAGIC_DEAD_def

definition bal_decode_magic :: "u32 \<Rightarrow> string" where
  "bal_decode_magic magic =
    (if magic = BAL_MAGIC_UNINITIALIZED then ''Uninitialized Memory''
     else if magic = BAL_ASSEMBLER_MAGIC_ALIVE then ''BALLISTO''
     else if magic = BAL_ASSEMBLER_MAGIC_DEAD then ''DEADBALL''
     else if magic = BAL_JIT_DEBUG_MAGIC_ALIVE then ''JITDEBUG''
     else if magic = BAL_JIT_DEBUG_MAGIC_DEAD then ''DEADJIT''
     else ''Unknown (Likely Buffer Overflow)'')"

definition bal_diagnose_magic_failure :: "u32 \<Rightarrow> u32 \<Rightarrow> string" where
  "bal_diagnose_magic_failure actual_magic dead_magic =
    (if actual_magic = BAL_MAGIC_UNINITIALIZED then ''Struct was never initialized.''
     else if actual_magic = dead_magic then ''Struct was explicitly destroyed (Double Free?).''
     else ''Memory corruption or wrong struct type passed.'')"

definition bal_pointer_is_aligned :: "u64 \<Rightarrow> size_t \<Rightarrow> bool" where
  "bal_pointer_is_aligned pointer alignment = (pointer mod alignment = 0)"

definition magic_ok :: "u32 \<Rightarrow> u32 \<Rightarrow> bool" where
  "magic_ok magic alive_magic = (magic = alive_magic)"

end
