(* ===== verification/Bal_Memory.thy ===== *)
theory Bal_Memory
  imports Bal_Safety "HOL-Library.Multiset"
begin

text \<open>
  The memory component (\<open>include/bal_memory.h\<close>, \<open>src/bal_memory.c\<close>): the allocator
  interface the host supplies, the default allocator over the C library, and the flat
  translation interface that maps guest addresses to one host buffer.

  A function pointer of an interface structure is an option (it may be \<open>NULL\<close>); the host
  state its functions work on is the type parameter \<open>'h\<close>, passed and returned explicitly.
  A pointer is a 64 bit address, 0 the null pointer. The executable mappings of the default
  allocator are in \<^theory_text>\<open>Executable_Memory\<close>.
\<close>

section \<open>The interfaces\<close>

text \<open>
  Beside its two pointers the record of an executable buffer has a ghost flag: whether the
  mapping at \<open>rx_pointer\<close> may be written. A write through that pointer faults when it may
  not; the default allocator's mapping may not, an allocator with one mapping for both
  purposes may return one that may.
\<close>

record bal_executable_buffer_t =
  eb_rw_pointer :: u64
  eb_rx_pointer :: u64
  eb_rx_writable :: bool

record 'h bal_allocator_t =
  al_allocate :: "('h \<Rightarrow> size_t \<Rightarrow> size_t \<Rightarrow> u64 \<times> 'h) option"
  al_free :: "('h \<Rightarrow> u64 \<Rightarrow> size_t \<Rightarrow> 'h) option"
  al_allocate_executable :: "('h \<Rightarrow> size_t \<Rightarrow> size_t \<Rightarrow> bal_executable_buffer_t \<times> 'h) option"
  al_free_executable :: "('h \<Rightarrow> bal_executable_buffer_t \<Rightarrow> size_t \<Rightarrow> 'h) option"
  al_protect_rw :: "('h \<Rightarrow> bal_executable_buffer_t \<Rightarrow> size_t \<Rightarrow> 'h) option"
  al_protect_rx :: "('h \<Rightarrow> bal_executable_buffer_t \<Rightarrow> size_t \<Rightarrow> 'h) option"

text \<open>
  The translation callback: from the interface's context and a guest address to a host
  address (0 when it fails) and, on success, the number of readable bytes there. The header
  documents the callback's first argument as the context; the one caller, the compiler,
  passes the address of the interface, and the one implementation in the source expects that
  and takes the context out of it. The record cannot refer to itself, so the callback gets
  the context here; for the flat interface that is the same.
\<close>

record 'c bal_memory_interface_t =
  mi_context :: "'c option"
  mi_translate :: "('c option \<Rightarrow> u64 \<Rightarrow> u64 \<times> size_t) option"

section \<open>The default allocator\<close>

text \<open>
  The part of the C library's heap the allocator uses: the blocks handed out and not yet
  freed, and the addresses the library will choose next. The record is extended where the
  process has more state than its heap. A request fails when there is no
  further address, when the next one is 0 or not fresh, and when the alignment is not one
  that \<open>posix_memalign\<close> accepts (a power of two times the size of a pointer).
\<close>

record libc_heap =
  lh_live :: "(u64 \<times> size_t) list"
  lh_next :: "u64 list"

definition memalign_accepts :: "size_t \<Rightarrow> bool" where
  "memalign_accepts alignment =
     (alignment mod 8 = 0 \<and> alignment \<noteq> 0 \<and> alignment AND (alignment - 1) = 0)"

definition posix_memalign ::
  "'p libc_heap_scheme \<Rightarrow> size_t \<Rightarrow> size_t \<Rightarrow> u64 \<times> 'p libc_heap_scheme" where
  "posix_memalign heap alignment bytes =
    (if \<not> memalign_accepts alignment then (0, heap)
     else case lh_next heap of
       [] \<Rightarrow> (0, heap)
     | a # as \<Rightarrow>
        (let heap = heap\<lparr>lh_next := as\<rparr> in
         if a = 0 \<or> \<not> bal_pointer_is_aligned a alignment \<or> a \<in> fst ` set (lh_live heap) then (0, heap)
         else (a, heap\<lparr>lh_live := (a, bytes) # lh_live heap\<rparr>)))"

definition libc_free :: "'p libc_heap_scheme \<Rightarrow> u64 \<Rightarrow> 'p libc_heap_scheme" where
  "libc_free heap p = heap\<lparr>lh_live := filter (\<lambda>b. fst b \<noteq> p) (lh_live heap)\<rparr>"

definition bal_default_allocate ::
  "'p libc_heap_scheme \<Rightarrow> size_t \<Rightarrow> size_t \<Rightarrow> u64 \<times> 'p libc_heap_scheme" where
  "bal_default_allocate heap alignment bytes =
    (if bytes = 0 then (0, heap) else posix_memalign heap alignment bytes)"

definition bal_default_free :: "'p libc_heap_scheme \<Rightarrow> u64 \<Rightarrow> size_t \<Rightarrow> 'p libc_heap_scheme" where
  "bal_default_free heap pointer bytes = (if pointer = 0 then heap else libc_free heap pointer)"

section \<open>The flat translation interface\<close>

record flat_translation_interface_t =
  ft_host :: u64
  ft_size :: size_t
  ft_block :: u64

text \<open>
  \<open>ft_block\<close> is the address of the structure itself, which the destructor frees. The function
  gets the context the C code reads from the interface it is passed. Where it fails the C code
  leaves its out parameter unwritten and the model has the size 0, which the caller never
  reads; its test for a null out parameter is left out, as the caller passes the address of a
  local variable.
\<close>

definition bal_flat_translation_interface_translate ::
  "flat_translation_interface_t option \<Rightarrow> u64 \<Rightarrow> u64 \<times> size_t" where
  "bal_flat_translation_interface_translate context guest_address =
    (case context of
       None \<Rightarrow> (0, 0)
     | Some c \<Rightarrow>
        if ft_size c \<le> guest_address then (0, 0)
        else (ft_host c + guest_address, ft_size c - guest_address))"

definition bal_flat_translation_interface_init ::
  "(('h \<Rightarrow> size_t \<Rightarrow> size_t \<Rightarrow> u64 \<times> 'h) option) \<Rightarrow> 'h \<Rightarrow>
   flat_translation_interface_t bal_memory_interface_t option \<Rightarrow> u64 \<Rightarrow> size_t \<Rightarrow>
   bal_error_t \<times> flat_translation_interface_t bal_memory_interface_t option \<times> 'h" where
  "bal_flat_translation_interface_init allocator heap interface buffer bytes =
    (case (allocator, interface) of
       (Some allocate, Some i) \<Rightarrow>
         if buffer = 0 \<or> bytes = 0 then (BAL_ERROR_INVALID_ARGUMENT, interface, heap)
         else if buffer AND 15 \<noteq> 0 then (BAL_ERROR_MEMORY_ALIGNMENT, interface, heap)
         else
          (let (flat_interface, heap) = allocate heap 16 32 in
           if flat_interface = 0 then (BAL_ERROR_ALLOCATION_FAILED, interface, heap)
           else (BAL_SUCCESS,
             Some (i\<lparr>mi_context := Some \<lparr>ft_host = buffer, ft_size = bytes,
                      ft_block = flat_interface\<rparr>,
                    mi_translate := Some bal_flat_translation_interface_translate\<rparr>), heap))
     | _ \<Rightarrow> (BAL_ERROR_INVALID_ARGUMENT, interface, heap))"

definition bal_flat_translation_interface_destroy ::
  "(('h \<Rightarrow> u64 \<Rightarrow> size_t \<Rightarrow> 'h) option) \<Rightarrow> 'h \<Rightarrow>
   flat_translation_interface_t bal_memory_interface_t option \<Rightarrow>
   bal_error_t \<times> flat_translation_interface_t bal_memory_interface_t option \<times> 'h" where
  "bal_flat_translation_interface_destroy allocator heap interface =
    (case (allocator, interface) of
       (Some free, Some i) \<Rightarrow>
         (case mi_context i of
            None \<Rightarrow> (BAL_SUCCESS, Some (i\<lparr>mi_context := None, mi_translate := None\<rparr>), heap)
          | Some c \<Rightarrow> (BAL_SUCCESS, Some (i\<lparr>mi_context := None, mi_translate := None\<rparr>),
              free heap (ft_block c) 32))
     | _ \<Rightarrow> (BAL_ERROR_INVALID_ARGUMENT, interface, heap))"

section \<open>The contract of an allocator\<close>

text \<open>
  What the library relies on: \<open>live\<close> is the multiset of blocks handed out; a successful
  request adds a fresh block, a failed one changes nothing, and freeing a live block
  removes it.
\<close>

locale heap_allocator =
  fixes allocate :: "'h \<Rightarrow> size_t \<Rightarrow> size_t \<Rightarrow> u64 \<times> 'h"
    and free :: "'h \<Rightarrow> u64 \<Rightarrow> size_t \<Rightarrow> 'h"
    and wf :: "'h \<Rightarrow> bool"
    and live :: "'h \<Rightarrow> (u64 \<times> size_t) multiset"
  assumes allocate_wf: "wf h \<Longrightarrow> wf (snd (allocate h al n))"
    and free_wf: "wf h \<Longrightarrow> wf (free h p n)"
    and allocate_none: "wf h \<Longrightarrow> fst (allocate h al n) = 0 \<Longrightarrow> live (snd (allocate h al n)) = live h"
    and allocate_some: "wf h \<Longrightarrow> fst (allocate h al n) \<noteq> 0 \<Longrightarrow>
      live (snd (allocate h al n)) = add_mset (fst (allocate h al n), n) (live h)"
    and free_live: "wf h \<Longrightarrow> p \<noteq> 0 \<Longrightarrow> live h = add_mset (p, n) M \<Longrightarrow> live (free h p n) = M"
begin

lemma allocate_live: "wf h \<Longrightarrow> allocate h al n = (p, h') \<Longrightarrow>
    wf h' \<and> live h' = (if p = 0 then live h else add_mset (p, n) (live h))"
  using allocate_wf [of h al n] allocate_none [of h al n] allocate_some [of h al n] by auto

text \<open>Allocating and freeing again restores the heap's live blocks.\<close>

lemma allocate_free:
  "wf h \<Longrightarrow> allocate h al n = (p, h') \<Longrightarrow> p \<noteq> 0 \<Longrightarrow> live (free h' p n) = live h"
  using allocate_live [of h al n p h'] by (auto intro: free_live)

text \<open>
  The flat translation interface neither leaks nor frees twice: a failed initialisation
  allocates nothing, and a successful one followed by the destruction restores the heap.
\<close>

lemma flat_init_live:
  assumes "wf h" "bal_flat_translation_interface_init (Some allocate) h i b n = (e, i', h')"
  shows "wf h'" and "e \<noteq> BAL_SUCCESS \<Longrightarrow> live h' = live h"
    and "e = BAL_SUCCESS \<Longrightarrow> \<exists>i2 c. i' = Some i2 \<and> mi_context i2 = Some c \<and> ft_block c \<noteq> 0 \<and>
           live h' = add_mset (ft_block c, 32) (live h)"
  using assms allocate_wf [of h 16 32] allocate_none [of h 16 32] allocate_some [of h 16 32]
  by (auto simp: bal_flat_translation_interface_init_def Let_def case_prod_unfold
      split: option.splits if_splits prod.splits)

lemma flat_init_destroy:
  assumes "wf h" "bal_flat_translation_interface_init (Some allocate) h i b n = (BAL_SUCCESS, i', h')"
  shows "live (snd (snd (bal_flat_translation_interface_destroy (Some free) h' i'))) = live h"
  using flat_init_live [OF assms] free_live
  by (auto simp: bal_flat_translation_interface_destroy_def)

end

section \<open>The default allocator keeps the contract\<close>

definition lh_wf :: "'p libc_heap_scheme \<Rightarrow> bool" where
  "lh_wf h = (distinct (map fst (lh_live h)) \<and> 0 \<notin> fst ` set (lh_live h))"

lemma filter_other_blocks:
  "distinct (map fst xs) \<Longrightarrow> (p, n) \<in> set xs \<Longrightarrow>
   mset (filter (\<lambda>b. fst b \<noteq> p) xs) = mset xs - {#(p, n)#}"
proof (induction xs)
  case (Cons x xs)
  show ?case
  proof (cases "x = (p, n)")
    case True
    with Cons.prems have "filter (\<lambda>b. fst b \<noteq> p) xs = xs"
      by (intro filter_True) force
    with True show ?thesis by simp
  next
    case False
    with Cons.prems have "fst x \<noteq> p" by (auto simp: image_iff)
    with False Cons show ?thesis by (simp add: add_mset_remove_trivial_If)
  qed
qed simp

interpretation libc: heap_allocator bal_default_allocate bal_default_free lh_wf
  "\<lambda>h. mset (lh_live h)"
proof
  fix h al n p M
  assume wf: "lh_wf h"
  show "lh_wf (snd (bal_default_allocate h al n))"
    using wf by (auto simp: bal_default_allocate_def posix_memalign_def lh_wf_def Let_def
        split: list.split)
  show "lh_wf (bal_default_free h p n)"
    using wf by (auto simp: bal_default_free_def libc_free_def lh_wf_def
        intro: distinct_map_filter)
  show "fst (bal_default_allocate h al n) = 0 \<Longrightarrow>
      mset (lh_live (snd (bal_default_allocate h al n))) = mset (lh_live h)"
    by (auto simp: bal_default_allocate_def posix_memalign_def Let_def split: list.splits if_splits)
  show "fst (bal_default_allocate h al n) \<noteq> 0 \<Longrightarrow>
      mset (lh_live (snd (bal_default_allocate h al n))) =
      add_mset (fst (bal_default_allocate h al n), n) (mset (lh_live h))"
    by (auto simp: bal_default_allocate_def posix_memalign_def Let_def split: list.splits if_splits)
  assume p: "p \<noteq> 0" "mset (lh_live h) = add_mset (p, n) M"
  then have "(p, n) \<in> set (lh_live h)" by (metis set_mset_mset union_single_eq_member)
  with wf filter_other_blocks [of "lh_live h" p n]
  have "mset (filter (\<lambda>b. fst b \<noteq> p) (lh_live h)) = M"
    by (simp add: lh_wf_def p(2) del: mset_filter)
  with p(1) show "mset (lh_live (bal_default_free h p n)) = M"
    by (simp add: bal_default_free_def libc_free_def)
qed

section \<open>Properties\<close>

text \<open>
  C12: the flat translation interface keeps every access inside its buffer. A guest address
  below the size is mapped to the byte of the buffer with that index, together with exactly
  the number of bytes from there to the end; every other address is refused.
\<close>

theorem flat_translate_bounds:
  assumes "unat (ft_host c) + unat (ft_size c) < 2 ^ 64" "ft_host c \<noteq> 0"
  shows "bal_flat_translation_interface_translate (Some c) g =
      (if g < ft_size c then (ft_host c + g, ft_size c - g) else (0, 0)) \<and>
    (let (p, n) = bal_flat_translation_interface_translate (Some c) g in
       p \<noteq> 0 \<longrightarrow> unat p = unat (ft_host c) + unat g \<and>
                unat p + unat n = unat (ft_host c) + unat (ft_size c))"
proof (cases "g < ft_size c")
  case True
  then have lt: "unat g < unat (ft_size c)" by (simp add: word_less_nat_alt)
  with assms have p: "unat (ft_host c + g) = unat (ft_host c) + unat g"
    by (simp add: unat_word_ariths)
  have "unat (ft_size c - g) = unat (ft_size c) - unat g"
    using True by (simp add: unat_sub)
  moreover have "\<not> ft_size c \<le> g" using True by simp
  ultimately show ?thesis
    using True p lt by (simp add: bal_flat_translation_interface_translate_def)
qed (auto simp: bal_flat_translation_interface_translate_def not_less dest: leD)

theorem flat_translate_bounds_witness:
  "bal_flat_translation_interface_translate
     (Some \<lparr>ft_host = 0x10000, ft_size = 4096, ft_block = 16\<rparr>) 4092 = (0x10FFC, 4)"
  using flat_translate_bounds [of "\<lparr>ft_host = 0x10000, ft_size = 4096, ft_block = 16\<rparr>" 4092]
  by simp

text \<open>
  No leak, no double free. Over the default allocator, an initialisation of the flat
  interface that fails leaves the heap's live blocks as they were, and one that succeeds
  has them restored by the destruction.
\<close>

theorem flat_interface_no_leak:
  assumes "lh_wf h"
    and "bal_flat_translation_interface_init (Some bal_default_allocate) h i b n = (e, i', h')"
  shows "mset (lh_live (if e = BAL_SUCCESS
      then snd (snd (bal_flat_translation_interface_destroy (Some bal_default_free) h' i'))
      else h')) = mset (lh_live h)"
  using libc.flat_init_live(2) [OF assms] libc.flat_init_destroy [of h i b n i' h'] assms by auto

definition heap_example :: libc_heap where
  "heap_example = \<lparr>lh_live = [(0x100, 8)], lh_next = [0x200]\<rparr>"

definition no_interface :: "flat_translation_interface_t bal_memory_interface_t" where
  "no_interface = \<lparr>mi_context = None, mi_translate = None\<rparr>"

theorem flat_interface_no_leak_witness:
  "let (e, i, h) = bal_flat_translation_interface_init (Some bal_default_allocate) heap_example
         (Some no_interface) 0x10000 4096
   in e = BAL_SUCCESS \<and> lh_live h = [(0x200, 32), (0x100, 8)] \<and>
      mset (lh_live (snd (snd (bal_flat_translation_interface_destroy (Some bal_default_free) h i)))) =
        {#(0x100, 8)#}"
proof -
  let ?r = "bal_flat_translation_interface_init (Some bal_default_allocate) heap_example
         (Some no_interface) 0x10000 4096"
  have wf: "lh_wf heap_example" by code_simp
  have ok: "fst ?r = BAL_SUCCESS" "lh_live (snd (snd ?r)) = [(0x200, 32), (0x100, 8)]"
    by code_simp+
  have "?r = (fst ?r, fst (snd ?r), snd (snd ?r))" by simp
  from flat_interface_no_leak [OF wf this] ok show ?thesis
    by (simp add: case_prod_unfold heap_example_def)
qed

end
