(* ===== verification/X86_Registers.thy ===== *)
theory X86_Registers
  imports Bal_Prelude
begin

text \<open>
  The enumerations of \<open>include/backend/x86/bal_x86_assembler.h\<close>: the x86 registers (with
  \<open>BAL_X86_INVALID\<close>) and the condition codes of \<open>SETcc\<close> and \<open>Jcc\<close>. \<open>reg_int\<close> and
  \<open>cond_nibble\<close> are the integer values the C code computes with; \<open>reg_of_int\<close> is the cast
  of an integer to the register enumeration (every integer that is not an enumerator is
  taken to \<open>BAL_X86_INVALID\<close>: all of them fail the range checks of the code alike).
\<close>

datatype bal_x86_register_t =
    BAL_X86_INVALID
  | BAL_X86_RAX
  | BAL_X86_RCX
  | BAL_X86_RDX
  | BAL_X86_RBX
  | BAL_X86_RSP
  | BAL_X86_RBP
  | BAL_X86_RSI
  | BAL_X86_RDI
  | BAL_X86_R8
  | BAL_X86_R9
  | BAL_X86_R10
  | BAL_X86_R11
  | BAL_X86_R12
  | BAL_X86_R13
  | BAL_X86_R14
  | BAL_X86_R15

primrec reg_int :: "bal_x86_register_t \<Rightarrow> int" where
  "reg_int BAL_X86_INVALID = -1"
| "reg_int BAL_X86_RAX = 0"
| "reg_int BAL_X86_RCX = 1"
| "reg_int BAL_X86_RDX = 2"
| "reg_int BAL_X86_RBX = 3"
| "reg_int BAL_X86_RSP = 4"
| "reg_int BAL_X86_RBP = 5"
| "reg_int BAL_X86_RSI = 6"
| "reg_int BAL_X86_RDI = 7"
| "reg_int BAL_X86_R8 = 8"
| "reg_int BAL_X86_R9 = 9"
| "reg_int BAL_X86_R10 = 10"
| "reg_int BAL_X86_R11 = 11"
| "reg_int BAL_X86_R12 = 12"
| "reg_int BAL_X86_R13 = 13"
| "reg_int BAL_X86_R14 = 14"
| "reg_int BAL_X86_R15 = 15"

definition reg_of_int :: "int \<Rightarrow> bal_x86_register_t" where
  "reg_of_int i =
    (if i = 0 then BAL_X86_RAX
     else if i = 1 then BAL_X86_RCX
     else if i = 2 then BAL_X86_RDX
     else if i = 3 then BAL_X86_RBX
     else if i = 4 then BAL_X86_RSP
     else if i = 5 then BAL_X86_RBP
     else if i = 6 then BAL_X86_RSI
     else if i = 7 then BAL_X86_RDI
     else if i = 8 then BAL_X86_R8
     else if i = 9 then BAL_X86_R9
     else if i = 10 then BAL_X86_R10
     else if i = 11 then BAL_X86_R11
     else if i = 12 then BAL_X86_R12
     else if i = 13 then BAL_X86_R13
     else if i = 14 then BAL_X86_R14
     else if i = 15 then BAL_X86_R15
     else BAL_X86_INVALID)"

datatype bal_x86_condition_t =
    BAL_X86_COND_O
  | BAL_X86_COND_NO
  | BAL_X86_COND_B
  | BAL_X86_COND_AE
  | BAL_X86_COND_E
  | BAL_X86_COND_NE
  | BAL_X86_COND_BE
  | BAL_X86_COND_A
  | BAL_X86_COND_S
  | BAL_X86_COND_NS
  | BAL_X86_COND_P
  | BAL_X86_COND_NP
  | BAL_X86_COND_L
  | BAL_X86_COND_GE
  | BAL_X86_COND_LE
  | BAL_X86_COND_G

primrec cond_nibble :: "bal_x86_condition_t \<Rightarrow> u8" where
  "cond_nibble BAL_X86_COND_O = 0"
| "cond_nibble BAL_X86_COND_NO = 1"
| "cond_nibble BAL_X86_COND_B = 2"
| "cond_nibble BAL_X86_COND_AE = 3"
| "cond_nibble BAL_X86_COND_E = 4"
| "cond_nibble BAL_X86_COND_NE = 5"
| "cond_nibble BAL_X86_COND_BE = 6"
| "cond_nibble BAL_X86_COND_A = 7"
| "cond_nibble BAL_X86_COND_S = 8"
| "cond_nibble BAL_X86_COND_NS = 9"
| "cond_nibble BAL_X86_COND_P = 10"
| "cond_nibble BAL_X86_COND_NP = 11"
| "cond_nibble BAL_X86_COND_L = 12"
| "cond_nibble BAL_X86_COND_GE = 13"
| "cond_nibble BAL_X86_COND_LE = 14"
| "cond_nibble BAL_X86_COND_G = 15"

definition cond_of_nibble :: "u8 \<Rightarrow> bal_x86_condition_t" where
  "cond_of_nibble n =
    (if n = 0 then BAL_X86_COND_O
     else if n = 1 then BAL_X86_COND_NO
     else if n = 2 then BAL_X86_COND_B
     else if n = 3 then BAL_X86_COND_AE
     else if n = 4 then BAL_X86_COND_E
     else if n = 5 then BAL_X86_COND_NE
     else if n = 6 then BAL_X86_COND_BE
     else if n = 7 then BAL_X86_COND_A
     else if n = 8 then BAL_X86_COND_S
     else if n = 9 then BAL_X86_COND_NS
     else if n = 10 then BAL_X86_COND_P
     else if n = 11 then BAL_X86_COND_NP
     else if n = 12 then BAL_X86_COND_L
     else if n = 13 then BAL_X86_COND_GE
     else if n = 14 then BAL_X86_COND_LE
     else BAL_X86_COND_G)"

lemma reg_int_inject [simp]: "reg_int r = reg_int s \<longleftrightarrow> r = s"
  by (cases r; cases s) simp_all

lemma reg_of_int_reg_int [simp]: "reg_of_int (reg_int r) = r"
  by (cases r) (simp_all add: reg_of_int_def)

lemma reg_int_range: "-1 \<le> reg_int r" "reg_int r \<le> 15"
  by (cases r; simp)+

lemma reg_int_nonneg: "0 \<le> reg_int r \<longleftrightarrow> r \<noteq> BAL_X86_INVALID"
  by (cases r) simp_all

lemma reg_int_of_int: "0 \<le> i \<Longrightarrow> i \<le> 15 \<Longrightarrow> reg_int (reg_of_int i) = i"
  by (simp add: reg_of_int_def) arith

lemma cond_of_nibble [simp]: "cond_of_nibble (cond_nibble c) = c"
  by (cases c) (simp_all add: cond_of_nibble_def)

lemma cond_nibble_range: "cond_nibble c < 16"
  by (cases c) simp_all

instantiation bal_x86_register_t :: linorder
begin

definition less_eq_bal_x86_register_t :: "bal_x86_register_t \<Rightarrow> bal_x86_register_t \<Rightarrow> bool" where
  "less_eq_bal_x86_register_t r s \<longleftrightarrow> reg_int r \<le> reg_int s"

definition less_bal_x86_register_t :: "bal_x86_register_t \<Rightarrow> bal_x86_register_t \<Rightarrow> bool" where
  "less_bal_x86_register_t r s \<longleftrightarrow> reg_int r < reg_int s"

instance
  by standard (auto simp: less_eq_bal_x86_register_t_def less_bal_x86_register_t_def)

end

end
