(* ===== verification/X86_Isa.thy ===== *)
theory X86_Isa
  imports X86_Registers
begin

text \<open>
  The target of the code generator, written from the Intel manual and independent of the
  assembler's source: the x86-64 instructions Ballistic emits, a decoder from machine code
  bytes, and their effect on registers, flags, memory and stack. It is the specification
  the assembler, the sliding window and the block translator are measured against; it
  models no code of the repository.
\<close>

section \<open>Instructions\<close>

datatype x86_alu = Alu_Add | Alu_Or | Alu_And | Alu_Sub | Alu_Xor | Alu_Cmp

datatype x86_shift = Sh_Ror | Sh_Shl | Sh_Shr | Sh_Sar

text \<open>
  Displacements, 32 bit immediates and jump offsets are kept as the 32 bits of the
  encoding and are sign extended by the semantics.
\<close>

datatype x86_instr =
    X_alu_rr x86_alu bal_x86_register_t bal_x86_register_t
  | X_alu_ri x86_alu bal_x86_register_t u32
  | X_alu_mi x86_alu bal_x86_register_t u32 u32
  | X_cmp_m8 bal_x86_register_t u32 u8
  | X_mov_rr bal_x86_register_t bal_x86_register_t
  | X_mov_ri bal_x86_register_t u64
  | X_load bal_x86_register_t bal_x86_register_t u32
  | X_store bal_x86_register_t u32 bal_x86_register_t
  | X_shift x86_shift bal_x86_register_t u8
  | X_test bal_x86_register_t bal_x86_register_t
  | X_setcc bal_x86_condition_t bal_x86_register_t u32
  | X_push bal_x86_register_t
  | X_pop bal_x86_register_t
  | X_jcc bal_x86_condition_t u32
  | X_jmp u32
  | X_jmp_r bal_x86_register_t
  | X_ret
  | X_ud2

section \<open>Decoding\<close>

text \<open>A register number from its REX extension bit and the three bits of a ModRM field.\<close>

definition xreg :: "bool \<Rightarrow> u8 \<Rightarrow> bal_x86_register_t" where
  "xreg e f = reg_of_int ((if e then 8 else 0) + uint f)"

text \<open>The operand of the ModRM \<open>rm\<close> field: a register, or base plus displacement.\<close>

datatype x86_rm = Rm_reg bal_x86_register_t | Rm_mem bal_x86_register_t u32

fun take_le32 :: "u8 list \<Rightarrow> (u32 \<times> u8 list) option" where
  "take_le32 (a # b # c # d # rest) = Some (of_le32 a b c d, rest)"
| "take_le32 _ = None"

fun take_le64 :: "u8 list \<Rightarrow> (u64 \<times> u8 list) option" where
  "take_le64 (a # b # c # d # e # f # g # h # rest) =
     Some (ucast (of_le32 a b c d) OR push_bit 32 (ucast (of_le32 e f g h)), rest)"
| "take_le64 _ = None"

text \<open>
  ModRM with \<open>mod = 11\<close> (register), \<open>10\<close> (base and 32 bit displacement), \<open>01\<close> (base and
  8 bit displacement) and \<open>00\<close> (base only, or the SIB byte \<open>0x24\<close> that names the base
  RSP or R12 with no index). RIP relative addressing and index registers are outside the
  subset.
\<close>

definition decode_modrm :: "bool \<Rightarrow> bool \<Rightarrow> u8 list \<Rightarrow> (u8 \<times> bal_x86_register_t \<times> x86_rm \<times> u8 list) option" where
  "decode_modrm r b bytes = (case bytes of [] \<Rightarrow> None
    | m # rest \<Rightarrow>
      (let md = drop_bit 6 m; reg = drop_bit 3 m AND 7; rm = m AND 7 in
       if md = 3 then Some (reg, xreg r reg, Rm_reg (xreg b rm), rest)
       else if md = 2 \<and> rm \<noteq> 4 then
         map_option (\<lambda>(d, rest). (reg, xreg r reg, Rm_mem (xreg b rm) d, rest)) (take_le32 rest)
       else if md = 1 \<and> rm \<noteq> 4 then
         (case rest of [] \<Rightarrow> None
          | d # rest \<Rightarrow> Some (reg, xreg r reg, Rm_mem (xreg b rm) (scast d), rest))
       else if md = 0 \<and> rm = 4 then
         (case rest of [] \<Rightarrow> None
          | s # rest \<Rightarrow> if s = 0x24 then Some (reg, xreg r reg, Rm_mem (xreg b 4) 0, rest)
                        else None)
       else if md = 0 \<and> rm \<noteq> 5 then Some (reg, xreg r reg, Rm_mem (xreg b rm) 0, rest)
       else None))"

definition alu_of_opcode :: "u8 \<Rightarrow> x86_alu option" where
  "alu_of_opcode opc =
    (if opc = 0x03 then Some Alu_Add else if opc = 0x0B then Some Alu_Or
     else if opc = 0x23 then Some Alu_And else if opc = 0x2B then Some Alu_Sub
     else if opc = 0x33 then Some Alu_Xor else if opc = 0x3B then Some Alu_Cmp else None)"

definition alu_of_digit :: "u8 \<Rightarrow> x86_alu option" where
  "alu_of_digit d =
    (if d = 0 then Some Alu_Add else if d = 1 then Some Alu_Or
     else if d = 4 then Some Alu_And else if d = 5 then Some Alu_Sub
     else if d = 6 then Some Alu_Xor else if d = 7 then Some Alu_Cmp else None)"

definition shift_of_digit :: "u8 \<Rightarrow> x86_shift option" where
  "shift_of_digit d =
    (if d = 1 then Some Sh_Ror else if d = 4 then Some Sh_Shl
     else if d = 5 then Some Sh_Shr else if d = 7 then Some Sh_Sar else None)"

text \<open>The group 1 instructions: an ALU operation with an immediate operand.\<close>

definition decode_group1 ::
  "u8 \<Rightarrow> x86_rm \<Rightarrow> (u32 \<times> u8 list) option \<Rightarrow> (x86_instr \<times> u8 list) option" where
  "decode_group1 d rm imm = (case (alu_of_digit d, imm) of
      (Some opn, Some (i, rest)) \<Rightarrow>
        Some (case rm of Rm_reg r \<Rightarrow> X_alu_ri opn r i | Rm_mem b disp \<Rightarrow> X_alu_mi opn b disp i, rest)
    | _ \<Rightarrow> None)"

fun take_sx8 :: "u8 list \<Rightarrow> (u32 \<times> u8 list) option" where
  "take_sx8 (i # rest) = Some (scast i, rest)"
| "take_sx8 [] = None"

text \<open>Two byte opcodes, after the escape byte \<open>0x0F\<close>.\<close>

definition decode_0f :: "bool \<Rightarrow> bool \<Rightarrow> u8 list \<Rightarrow> (x86_instr \<times> u8 list) option" where
  "decode_0f r b bytes = (case bytes of [] \<Rightarrow> None
    | opc # rest \<Rightarrow>
       if opc = 0x0B then Some (X_ud2, rest)
       else if drop_bit 4 opc = 8 then
         map_option (\<lambda>(d, rest). (X_jcc (cond_of_nibble (opc AND 15)) d, rest)) (take_le32 rest)
       else if drop_bit 4 opc = 9 then
         (case decode_modrm r b rest of
            Some (_, _, Rm_mem base d, rest) \<Rightarrow> Some (X_setcc (cond_of_nibble (opc AND 15)) base d, rest)
          | _ \<Rightarrow> None)
       else None)"

text \<open>The opcodes of the subset whose operand is a ModRM byte, with 64 bit operands.\<close>

definition decode_modrm64 :: "bool \<Rightarrow> bool \<Rightarrow> u8 \<Rightarrow> u8 list \<Rightarrow> (x86_instr \<times> u8 list) option" where
  "decode_modrm64 r b opc bytes = (case decode_modrm r b bytes of None \<Rightarrow> None
    | Some (d, reg, rm, rest) \<Rightarrow>
       if opc = 0x81 then decode_group1 d rm (take_le32 rest)
       else if opc = 0x83 then decode_group1 d rm (take_sx8 rest)
       else if opc = 0x85 then
         (case rm of Rm_reg x \<Rightarrow> Some (X_test x reg, rest) | _ \<Rightarrow> None)
       else if opc = 0x89 then
         (case rm of Rm_mem base disp \<Rightarrow> Some (X_store base disp reg, rest)
          | Rm_reg x \<Rightarrow> Some (X_mov_rr x reg, rest))
       else if opc = 0x8B then
         (case rm of Rm_mem base disp \<Rightarrow> Some (X_load reg base disp, rest)
          | Rm_reg x \<Rightarrow> Some (X_mov_rr reg x, rest))
       else if opc = 0xC1 then
         (case (shift_of_digit d, rm, rest) of
            (Some sh, Rm_reg x, i # rest) \<Rightarrow> Some (X_shift sh x i, rest) | _ \<Rightarrow> None)
       else (case (alu_of_opcode opc, rm) of
            (Some opn, Rm_reg x) \<Rightarrow> Some (X_alu_rr opn reg x, rest) | _ \<Rightarrow> None))"

definition decode_op :: "bool \<Rightarrow> bool \<Rightarrow> bool \<Rightarrow> u8 list \<Rightarrow> (x86_instr \<times> u8 list) option" where
  "decode_op w r b bytes = (case bytes of [] \<Rightarrow> None
    | opc # rest \<Rightarrow>
       if opc = 0x0F then decode_0f r b rest
       else if opc = 0xC3 then Some (X_ret, rest)
       else if opc = 0xE9 then map_option (\<lambda>(d, rest). (X_jmp d, rest)) (take_le32 rest)
       else if drop_bit 3 opc = 10 then Some (X_push (xreg b (opc AND 7)), rest)
       else if drop_bit 3 opc = 11 then Some (X_pop (xreg b (opc AND 7)), rest)
       else if drop_bit 3 opc = 23 then
         (if w then map_option (\<lambda>(i, rest). (X_mov_ri (xreg b (opc AND 7)) i, rest)) (take_le64 rest)
          else map_option (\<lambda>(i, rest). (X_mov_ri (xreg b (opc AND 7)) (ucast i), rest)) (take_le32 rest))
       else if opc = 0xFF then
         (case decode_modrm r b rest of
            Some (d, _, Rm_reg x, rest) \<Rightarrow> if d = 4 then Some (X_jmp_r x, rest) else None
          | _ \<Rightarrow> None)
       else if opc = 0x80 then
         (case decode_modrm r b rest of
            Some (d, _, Rm_mem base disp, i # rest) \<Rightarrow>
              if d = 7 then Some (X_cmp_m8 base disp i, rest) else None
          | _ \<Rightarrow> None)
       else if w then decode_modrm64 r b opc rest
       else None)"

definition x86_decode :: "u8 list \<Rightarrow> (x86_instr \<times> u8 list) option" where
  "x86_decode bytes = (case bytes of [] \<Rightarrow> None
    | p # rest \<Rightarrow>
       if drop_bit 4 p = 4 then
         (if bit p 1 then None else decode_op (bit p 3) (bit p 2) (bit p 0) rest)
       else decode_op False False False bytes)"

text \<open>
  \<open>encodes bs i\<close>: the bytes are one instruction \<open>i\<close>, whatever follows them.
  \<open>encodes_seq\<close> lifts it to instruction sequences.
\<close>

definition encodes :: "u8 list \<Rightarrow> x86_instr \<Rightarrow> bool" where
  "encodes bs i \<longleftrightarrow> (\<forall>rest. x86_decode (bs @ rest) = Some (i, rest))"

inductive encodes_seq :: "u8 list \<Rightarrow> x86_instr list \<Rightarrow> bool" where
  Nil: "encodes_seq [] []"
| Cons: "encodes b i \<Longrightarrow> encodes_seq bs is \<Longrightarrow> encodes_seq (b @ bs) (i # is)"

inductive_cases encodes_seq_NilE: "encodes_seq bs []"
inductive_cases encodes_seq_ConsE: "encodes_seq bs (i # is)"

lemma encodes_seq_append:
  "encodes_seq bs is \<Longrightarrow> encodes_seq cs js \<Longrightarrow> encodes_seq (bs @ cs) (is @ js)"
  by (induction rule: encodes_seq.induct) (auto intro: encodes_seq.intros)

lemma encodes_seq_single: "encodes bs i \<Longrightarrow> encodes_seq bs [i]"
  using encodes_seq.Cons [OF _ encodes_seq.Nil] by simp

lemma x86_decode_Nil [simp]: "x86_decode [] = None"
  by (simp add: x86_decode_def)

lemma encodes_nonempty: "encodes bs i \<Longrightarrow> bs \<noteq> []"
  unfolding encodes_def using x86_decode_Nil by force

end
