(* ===== verification/X86_Semantics.thy ===== *)
theory X86_Semantics
  imports X86_Isa
begin

text \<open>
  The effect of the instructions of \<^theory_text>\<open>X86_Isa\<close>: registers, byte memory, status
  flags and a stack. The stack is a list of 64 bit slots kept apart from byte memory (the
  generated code never addresses its stack through a base register). Like the decoder this
  is specification, not a model of repository code. The overflow flag after a shift by
  more than one bit is undefined by the architecture; it is given the value of the one bit
  formula, and no theorem depends on it.
\<close>

record x86_state =
  xs_reg :: "bal_x86_register_t \<Rightarrow> u64"
  xs_mem :: "u64 \<Rightarrow> u8"
  xs_stack :: "u64 list"
  xs_cf :: bool
  xs_zf :: bool
  xs_sf :: bool
  xs_of :: bool
  xs_pf :: bool

section \<open>Memory\<close>

definition load64 :: "(u64 \<Rightarrow> u8) \<Rightarrow> u64 \<Rightarrow> u64" where
  "load64 m a = ucast (of_le32 (m a) (m (a + 1)) (m (a + 2)) (m (a + 3))) OR
     push_bit 32 (ucast (of_le32 (m (a + 4)) (m (a + 5)) (m (a + 6)) (m (a + 7))))"

definition store64 :: "(u64 \<Rightarrow> u8) \<Rightarrow> u64 \<Rightarrow> u64 \<Rightarrow> (u64 \<Rightarrow> u8)" where
  "store64 m a v = (\<lambda>p. let k = unat (p - a) in
     if k < 8 then ucast (drop_bit (8 * k) v) else m p)"

definition ea :: "x86_state \<Rightarrow> bal_x86_register_t \<Rightarrow> u32 \<Rightarrow> u64" where
  "ea s b d = xs_reg s b + scast d"

section \<open>Operations\<close>

primrec alu_value :: "x86_alu \<Rightarrow> u64 \<Rightarrow> u64 \<Rightarrow> u64" where
  "alu_value Alu_Add a b = a + b"
| "alu_value Alu_Or a b = a OR b"
| "alu_value Alu_And a b = a AND b"
| "alu_value Alu_Sub a b = a - b"
| "alu_value Alu_Xor a b = a XOR b"
| "alu_value Alu_Cmp a b = a - b"

primrec alu_carry :: "x86_alu \<Rightarrow> u64 \<Rightarrow> u64 \<Rightarrow> bool" where
  "alu_carry Alu_Add a b = (a + b < a)"
| "alu_carry Alu_Or a b = False"
| "alu_carry Alu_And a b = False"
| "alu_carry Alu_Sub a b = (a < b)"
| "alu_carry Alu_Xor a b = False"
| "alu_carry Alu_Cmp a b = (a < b)"

primrec alu_overflow :: "x86_alu \<Rightarrow> u64 \<Rightarrow> u64 \<Rightarrow> bool" where
  "alu_overflow Alu_Add a b = (bit a 63 = bit b 63 \<and> bit (a + b) 63 \<noteq> bit a 63)"
| "alu_overflow Alu_Or a b = False"
| "alu_overflow Alu_And a b = False"
| "alu_overflow Alu_Sub a b = (bit a 63 \<noteq> bit b 63 \<and> bit (a - b) 63 \<noteq> bit a 63)"
| "alu_overflow Alu_Xor a b = False"
| "alu_overflow Alu_Cmp a b = (bit a 63 \<noteq> bit b 63 \<and> bit (a - b) 63 \<noteq> bit a 63)"

definition parity_even :: "u64 \<Rightarrow> bool" where
  "parity_even v = even (length (filter (bit v) [0..<8]))"

definition set_flags :: "bool \<Rightarrow> bool \<Rightarrow> u64 \<Rightarrow> x86_state \<Rightarrow> x86_state" where
  "set_flags c ov v s =
     s\<lparr>xs_cf := c, xs_of := ov, xs_zf := (v = 0), xs_sf := bit v 63, xs_pf := parity_even v\<rparr>"

definition alu_flags :: "x86_alu \<Rightarrow> u64 \<Rightarrow> u64 \<Rightarrow> x86_state \<Rightarrow> x86_state" where
  "alu_flags opn a b s = set_flags (alu_carry opn a b) (alu_overflow opn a b) (alu_value opn a b) s"

definition write_reg :: "bal_x86_register_t \<Rightarrow> u64 \<Rightarrow> x86_state \<Rightarrow> x86_state" where
  "write_reg r v s = s\<lparr>xs_reg := (xs_reg s)(r := v)\<rparr>"

definition write_mem64 :: "u64 \<Rightarrow> u64 \<Rightarrow> x86_state \<Rightarrow> x86_state" where
  "write_mem64 a v s = s\<lparr>xs_mem := store64 (xs_mem s) a v\<rparr>"

definition write_mem8 :: "u64 \<Rightarrow> u8 \<Rightarrow> x86_state \<Rightarrow> x86_state" where
  "write_mem8 a v s = s\<lparr>xs_mem := (xs_mem s)(a := v)\<rparr>"

primrec shift_value :: "x86_shift \<Rightarrow> u64 \<Rightarrow> nat \<Rightarrow> u64" where
  "shift_value Sh_Ror v n = word_rotr n v"
| "shift_value Sh_Shl v n = push_bit n v"
| "shift_value Sh_Shr v n = drop_bit n v"
| "shift_value Sh_Sar v n = signed_drop_bit n v"

definition shift_exec :: "x86_shift \<Rightarrow> bal_x86_register_t \<Rightarrow> u8 \<Rightarrow> x86_state \<Rightarrow> x86_state" where
  "shift_exec sh r i s =
    (let n = unat i mod 64; v = xs_reg s r; v' = shift_value sh v n in
     if n = 0 then s
     else if sh = Sh_Ror then
       (write_reg r v' s)\<lparr>xs_cf := bit v' 63, xs_of := (bit v' 63 \<noteq> bit v' 62)\<rparr>
     else write_reg r v' (set_flags
       (if sh = Sh_Shl then bit v (64 - n) else bit v (n - 1)) (bit v 63 \<noteq> bit v' 63) v' s))"

primrec cond_holds :: "bal_x86_condition_t \<Rightarrow> x86_state \<Rightarrow> bool" where
  "cond_holds BAL_X86_COND_O s = xs_of s"
| "cond_holds BAL_X86_COND_NO s = (\<not> xs_of s)"
| "cond_holds BAL_X86_COND_B s = xs_cf s"
| "cond_holds BAL_X86_COND_AE s = (\<not> xs_cf s)"
| "cond_holds BAL_X86_COND_E s = xs_zf s"
| "cond_holds BAL_X86_COND_NE s = (\<not> xs_zf s)"
| "cond_holds BAL_X86_COND_BE s = (xs_cf s \<or> xs_zf s)"
| "cond_holds BAL_X86_COND_A s = (\<not> xs_cf s \<and> \<not> xs_zf s)"
| "cond_holds BAL_X86_COND_S s = xs_sf s"
| "cond_holds BAL_X86_COND_NS s = (\<not> xs_sf s)"
| "cond_holds BAL_X86_COND_P s = xs_pf s"
| "cond_holds BAL_X86_COND_NP s = (\<not> xs_pf s)"
| "cond_holds BAL_X86_COND_L s = (xs_sf s \<noteq> xs_of s)"
| "cond_holds BAL_X86_COND_GE s = (xs_sf s = xs_of s)"
| "cond_holds BAL_X86_COND_LE s = (xs_zf s \<or> xs_sf s \<noteq> xs_of s)"
| "cond_holds BAL_X86_COND_G s = (\<not> xs_zf s \<and> xs_sf s = xs_of s)"

section \<open>Straight-line steps\<close>

text \<open>
  \<open>x86_step i s\<close> is \<open>None\<close> for the instructions that leave the straight line (jumps,
  return, trap) and for a pop from an empty stack.
\<close>

fun x86_step :: "x86_instr \<Rightarrow> x86_state \<Rightarrow> x86_state option" where
  "x86_step (X_alu_rr opn d r) s =
     (let a = xs_reg s d; b = xs_reg s r; s' = alu_flags opn a b s in
      Some (if opn = Alu_Cmp then s' else write_reg d (alu_value opn a b) s'))"
| "x86_step (X_alu_ri opn d i) s =
     (let a = xs_reg s d; b = scast i; s' = alu_flags opn a b s in
      Some (if opn = Alu_Cmp then s' else write_reg d (alu_value opn a b) s'))"
| "x86_step (X_alu_mi opn base disp i) s =
     (let p = ea s base disp; a = load64 (xs_mem s) p; b = scast i; s' = alu_flags opn a b s in
      Some (if opn = Alu_Cmp then s' else write_mem64 p (alu_value opn a b) s'))"
| "x86_step (X_cmp_m8 base disp i) s =
     (let a = xs_mem s (ea s base disp) in
      Some (s\<lparr>xs_cf := a < i, xs_zf := (a = i), xs_sf := bit (a - i) 7,
              xs_of := (bit a 7 \<noteq> bit i 7 \<and> bit (a - i) 7 \<noteq> bit a 7),
              xs_pf := parity_even (ucast (a - i))\<rparr>))"
| "x86_step (X_mov_rr d r) s = Some (write_reg d (xs_reg s r) s)"
| "x86_step (X_mov_ri d i) s = Some (write_reg d i s)"
| "x86_step (X_load d base disp) s = Some (write_reg d (load64 (xs_mem s) (ea s base disp)) s)"
| "x86_step (X_store base disp r) s = Some (write_mem64 (ea s base disp) (xs_reg s r) s)"
| "x86_step (X_shift sh r i) s = Some (shift_exec sh r i s)"
| "x86_step (X_test d r) s =
     (let v = xs_reg s d AND xs_reg s r in Some (set_flags False False v s))"
| "x86_step (X_setcc c base disp) s =
     Some (write_mem8 (ea s base disp) (if cond_holds c s then 1 else 0) s)"
| "x86_step (X_push r) s = Some (s\<lparr>xs_stack := xs_reg s r # xs_stack s\<rparr>)"
| "x86_step (X_pop r) s = (case xs_stack s of [] \<Rightarrow> None
     | v # vs \<Rightarrow> Some ((write_reg r v s)\<lparr>xs_stack := vs\<rparr>))"
| "x86_step _ s = None"

fun x86_exec :: "x86_instr list \<Rightarrow> x86_state \<Rightarrow> x86_state option" where
  "x86_exec [] s = Some s"
| "x86_exec (i # is) s = Option.bind (x86_step i s) (x86_exec is)"

lemma x86_exec_append:
  "x86_exec (is @ js) s = Option.bind (x86_exec is s) (x86_exec js)"
  by (induction "is" arbitrary: s) (auto split: Option.bind_split)

section \<open>Running machine code\<close>

text \<open>
  How a run of a code block ends: it returned to the address it popped, it trapped, it left
  the decodable subset, or the step budget ran out.
\<close>

datatype x86_outcome =
    X_returned u64 x86_state
  | X_trapped x86_state
  | X_stuck x86_state
  | X_out_of_fuel x86_state

fun x86_run :: "nat \<Rightarrow> u8 list \<Rightarrow> int \<Rightarrow> x86_state \<Rightarrow> x86_outcome" where
  "x86_run 0 code ip s = X_out_of_fuel s"
| "x86_run (Suc n) code ip s =
    (if ip < 0 then X_stuck s
     else case x86_decode (drop (nat ip) code) of None \<Rightarrow> X_stuck s
     | Some (i, rest) \<Rightarrow>
        (let next = int (length code - length rest) in
         case i of
           X_ret \<Rightarrow> (case xs_stack s of [] \<Rightarrow> X_stuck s
                    | ra # st \<Rightarrow> X_returned ra (s\<lparr>xs_stack := st\<rparr>))
         | X_ud2 \<Rightarrow> X_trapped s
         | X_jmp d \<Rightarrow> x86_run n code (next + sint d) s
         | X_jcc c d \<Rightarrow> x86_run n code (if cond_holds c s then next + sint d else next) s
         | X_jmp_r r \<Rightarrow> X_stuck s
         | _ \<Rightarrow> (case x86_step i s of None \<Rightarrow> X_stuck s | Some s' \<Rightarrow> x86_run n code next s')))"

end
