(* ===== verification/X86_Assembler.thy ===== *)
theory X86_Assembler
  imports Bal_Memory X86_Semantics
begin

text \<open>
  The x86-64 assembler (\<open>src/backend/x86/bal_x86_assembler.c\<close>): a bounded code buffer with a
  sticky error status and one emitter per instruction. Each emitter is translated with all its
  guards in the order of the source: the status test (some emitters overwrite the error
  they find with \<open>BAL_ERROR_INVALID_ARGUMENT\<close>, some keep it), the register tests,
  \<open>can_emit\<close>, the byte emission and the final \<open>BAL_ASSERT_MSG\<close>. Log calls are left out.

  Beside the fields of the C structure the record has the memory behind the buffer
  (\<open>xa_mem\<close>) and three ghost flags: \<open>xa_oob\<close> is set by a write outside that memory,
  \<open>xa_abort\<close> when an assertion fails (the program would have aborted there), and
  \<open>xa_rx_writable\<close> says whether the executable view may be written. The read-write
  and the executable pointer are two views of the same memory. The \<open>NULL\<close> test at the head
  of every routine is the \<open>None\<close> case of \<open>on_pointer\<close> (see \<open>x86_api\<close>); callers inside the
  program always pass the address of an embedded structure.
\<close>

section \<open>State\<close>

record bal_x86_assembler_t =
  xa_buffer :: u64
  xa_rx_buffer :: u64
  xa_capacity :: size_t
  xa_offset :: size_t
  xa_status :: bal_error_t
  xa_mem :: "u8 list"
  xa_oob :: bool
  xa_abort :: bool
  xa_rx_writable :: bool

definition bal_assert_msg :: "bool \<Rightarrow> bal_x86_assembler_t \<Rightarrow> bal_x86_assembler_t" where
  "bal_assert_msg expression assembler =
     (if expression then assembler else assembler\<lparr>xa_abort := True\<rparr>)"

text \<open>
  The memory behind the buffer is an argument of the initialisation, as is the old content
  of the structure.
\<close>

definition bal_x86_assembler_init ::
  "bal_x86_assembler_t option \<Rightarrow> bal_executable_buffer_t \<Rightarrow> u8 list \<Rightarrow> size_t \<Rightarrow>
   bal_error_t \<times> bal_x86_assembler_t option" where
  "bal_x86_assembler_init assembler executable_buffer mem buffer_size =
    (case assembler of
       None \<Rightarrow> (BAL_ERROR_INVALID_ARGUMENT, None)
     | Some a \<Rightarrow>
        if eb_rx_pointer executable_buffer = 0 \<or> eb_rw_pointer executable_buffer = 0 then
          (BAL_ERROR_INVALID_ARGUMENT, Some a)
        else if buffer_size = 0 then (BAL_ERROR_INVALID_ARGUMENT, Some a)
        else
          (BAL_SUCCESS, Some (a\<lparr>
             xa_buffer := eb_rw_pointer executable_buffer,
             xa_rx_buffer := eb_rx_pointer executable_buffer,
             xa_capacity := buffer_size,
             xa_offset := 0,
             xa_status := BAL_SUCCESS,
             xa_mem := mem,
             xa_rx_writable := eb_rx_writable executable_buffer\<rparr>)))"

text \<open>
  The reset clears the memory twice, through its two views. The second \<open>memset\<close> writes
  through the executable pointer: where that view may not be written the process gets a
  segmentation fault, the result \<open>None\<close>. (A \<open>memset\<close> of no bytes writes nothing.)
\<close>

definition clear_code :: "bal_x86_assembler_t \<Rightarrow> bal_x86_assembler_t" where
  "clear_code assembler =
     (let n = unat (xa_capacity assembler) in
      assembler\<lparr>xa_mem := replicate (min n (length (xa_mem assembler))) 0 @ drop n (xa_mem assembler),
        xa_oob := (xa_oob assembler \<or> length (xa_mem assembler) < n)\<rparr>)"

definition can_clear_rx :: "bal_x86_assembler_t \<Rightarrow> bool" where
  "can_clear_rx assembler \<longleftrightarrow> xa_rx_writable assembler \<or> xa_capacity assembler = 0"

definition bal_x86_assembler_reset :: "bal_x86_assembler_t \<Rightarrow> bal_x86_assembler_t option" where
  "bal_x86_assembler_reset assembler =
     (let assembler = assembler\<lparr>xa_offset := 0, xa_status := BAL_SUCCESS\<rparr>;
          assembler = clear_code assembler
      in if can_clear_rx assembler then Some (clear_code assembler) else None)"

section \<open>Byte emission\<close>

definition poke :: "bal_x86_assembler_t \<Rightarrow> size_t \<Rightarrow> u8 \<Rightarrow> bal_x86_assembler_t" where
  "poke assembler i value =
     (if unat i < length (xa_mem assembler)
      then assembler\<lparr>xa_mem := (xa_mem assembler)[unat i := value]\<rparr>
      else assembler\<lparr>xa_oob := True\<rparr>)"

definition emit8 :: "bal_x86_assembler_t \<Rightarrow> u8 \<Rightarrow> bal_x86_assembler_t" where
  "emit8 assembler value =
     (if xa_buffer assembler = 0 then assembler
      else (poke assembler (xa_offset assembler) value)\<lparr>xa_offset := xa_offset assembler + 1\<rparr>)"

text \<open>\<open>memcpy\<close> of the bytes of a little-endian integer to the current position.\<close>

fun poke_bytes :: "bal_x86_assembler_t \<Rightarrow> size_t \<Rightarrow> u8 list \<Rightarrow> bal_x86_assembler_t" where
  "poke_bytes assembler i [] = assembler"
| "poke_bytes assembler i (b # bs) = poke_bytes (poke assembler i b) (i + 1) bs"

definition emit32 :: "bal_x86_assembler_t \<Rightarrow> u32 \<Rightarrow> bal_x86_assembler_t" where
  "emit32 assembler value =
     (if xa_buffer assembler = 0 then assembler
      else (poke_bytes assembler (xa_offset assembler) (le_bytes32 value))
             \<lparr>xa_offset := xa_offset assembler + 4\<rparr>)"

definition emit64 :: "bal_x86_assembler_t \<Rightarrow> u64 \<Rightarrow> bal_x86_assembler_t" where
  "emit64 assembler value =
     (if xa_buffer assembler = 0 then assembler
      else (poke_bytes assembler (xa_offset assembler) (le_bytes64 value))
             \<lparr>xa_offset := xa_offset assembler + 8\<rparr>)"

definition emit_rex :: "bal_x86_assembler_t \<Rightarrow> u8 \<Rightarrow> u8 \<Rightarrow> u8 \<Rightarrow> bal_x86_assembler_t" where
  "emit_rex assembler w r b =
     (let safe_w = w AND 1; safe_r = r AND 1; safe_b = b AND 1;
          rex = 0x40 OR push_bit 3 safe_w OR push_bit 2 safe_r OR safe_b
      in emit8 assembler rex)"

definition emit_modrm_register :: "bal_x86_assembler_t \<Rightarrow> int \<Rightarrow> int \<Rightarrow> bal_x86_assembler_t" where
  "emit_modrm_register assembler reg rm =
     (let safe_reg = (word_of_int reg :: u8) AND 7; safe_rm = (word_of_int rm :: u8) AND 7;
          modrm = 0xC0 OR push_bit 3 safe_reg OR safe_rm
      in emit8 assembler modrm)"

definition emit_modrm_memory_disp32_rbp :: "bal_x86_assembler_t \<Rightarrow> int \<Rightarrow> bal_x86_assembler_t" where
  "emit_modrm_memory_disp32_rbp assembler reg =
     (let safe_reg = (word_of_int reg :: u8) AND 7;
          modrm = 0x80 OR push_bit 3 safe_reg OR 0x05
      in emit8 assembler modrm)"

definition is_valid_register :: "int \<Rightarrow> bool" where
  "is_valid_register reg \<longleftrightarrow> reg_int BAL_X86_RAX \<le> reg \<and> reg \<le> reg_int BAL_X86_R15"

definition can_emit :: "bal_x86_assembler_t \<Rightarrow> size_t \<Rightarrow> bool \<times> bal_x86_assembler_t" where
  "can_emit assembler n =
     (if xa_status assembler \<noteq> BAL_SUCCESS then (False, assembler)
      else if SIZE_MAX - xa_offset assembler < n then
        (False, assembler\<lparr>xa_status := BAL_ERROR_INSTRUCTION_OVERFLOW\<rparr>)
      else
        (let assembler_size = xa_offset assembler + n in
         if assembler_size > xa_capacity assembler then
           (False, assembler\<lparr>xa_status := BAL_ERROR_INSTRUCTION_OVERFLOW\<rparr>)
         else (True, assembler)))"

text \<open>The casts \<open>(uint8_t)reg >> 3\<close> and \<open>(uint8_t)reg & 7\<close> of a register number.\<close>

definition reg_high :: "bal_x86_register_t \<Rightarrow> u8" where
  "reg_high reg = drop_bit 3 (word_of_int (reg_int reg))"

definition reg_low :: "bal_x86_register_t \<Rightarrow> u8" where
  "reg_low reg = word_of_int (reg_int reg) AND 7"

section \<open>Emitters\<close>

definition bal_x86_emit_add_mem64_rbp_offset_imm ::
  "bal_x86_assembler_t \<Rightarrow> u32 \<Rightarrow> u32 \<Rightarrow> bal_x86_assembler_t" where
  "bal_x86_emit_add_mem64_rbp_offset_imm assembler offset immediate =
    (if xa_status assembler \<noteq> BAL_SUCCESS then assembler
     else
      (let fit_in_8_bits = (-128 \<le> sint immediate \<and> sint immediate \<le> 127);
           instruction_size_bytes = (if fit_in_8_bits then 8 else 11);
           (can_emit_status, assembler) = can_emit assembler instruction_size_bytes in
       if \<not> can_emit_status then assembler
       else
        (let old_offset = xa_offset assembler;
             w = 1;
             r = 0;
             b = 0;
             opcode = (if fit_in_8_bits then 0x83 else 0x81);
             assembler = emit_rex assembler w r b;
             assembler = emit8 assembler opcode;
             assembler = emit_modrm_memory_disp32_rbp assembler (reg_int BAL_X86_RAX);
             assembler = emit32 assembler offset;
             assembler = (if fit_in_8_bits then emit8 assembler (ucast immediate)
               else emit32 assembler immediate);
             bytes_emitted = xa_offset assembler - old_offset in
         bal_assert_msg (bytes_emitted = instruction_size_bytes) assembler)))"

definition bal_x86_emit_and_r64_r64 ::
  "bal_x86_assembler_t \<Rightarrow> bal_x86_register_t \<Rightarrow> bal_x86_register_t \<Rightarrow> bal_x86_assembler_t" where
  "bal_x86_emit_and_r64_r64 assembler destination source =
    (if xa_status assembler \<noteq> BAL_SUCCESS then assembler
     else if \<not> is_valid_register (reg_int destination) then
       assembler\<lparr>xa_status := BAL_ERROR_INVALID_ARGUMENT\<rparr>
     else if \<not> is_valid_register (reg_int source) then
       assembler\<lparr>xa_status := BAL_ERROR_INVALID_ARGUMENT\<rparr>
     else
      (let instruction_size_bytes = 3;
           (can_emit_status, assembler) = can_emit assembler instruction_size_bytes in
       if \<not> can_emit_status then assembler
       else
        (let old_offset = xa_offset assembler;
             w = 1;
             r = reg_high destination;
             b = reg_high source;
             opcode = 0x23;
             assembler = emit_rex assembler w r b;
             assembler = emit8 assembler opcode;
             assembler = emit_modrm_register assembler (reg_int destination) (reg_int source);
             bytes_emitted = xa_offset assembler - old_offset in
         bal_assert_msg (bytes_emitted = instruction_size_bytes) assembler)))"

definition bal_x86_emit_jmp_r64 ::
  "bal_x86_assembler_t \<Rightarrow> bal_x86_register_t \<Rightarrow> bal_x86_assembler_t" where
  "bal_x86_emit_jmp_r64 assembler reg =
    (if xa_status assembler \<noteq> BAL_SUCCESS then assembler
     else if \<not> is_valid_register (reg_int reg) then
       assembler\<lparr>xa_status := BAL_ERROR_INVALID_ARGUMENT\<rparr>
     else
      (let instruction_size_bytes = 2;
           (can_emit_status, assembler) = can_emit assembler instruction_size_bytes in
       if \<not> can_emit_status then assembler
       else
        (let old_offset = xa_offset assembler;
             assembler = (if reg_int reg > 7 then emit_rex assembler 0 0 (reg_high reg) else assembler);
             instruction_size_bytes = (if reg_int reg > 7 then instruction_size_bytes + 1
               else instruction_size_bytes);
             opcode = 0xFF;
             assembler = emit8 assembler opcode;
             modrm = 0xC0 OR push_bit 3 4 OR reg_low reg;
             assembler = emit8 assembler modrm;
             bytes_emitted = xa_offset assembler - old_offset in
         bal_assert_msg (bytes_emitted = instruction_size_bytes) assembler)))"

definition bal_x86_emit_jmp_rel32 ::
  "bal_x86_assembler_t \<Rightarrow> u32 \<Rightarrow> bal_x86_assembler_t" where
  "bal_x86_emit_jmp_rel32 assembler offset =
    (if xa_status assembler \<noteq> BAL_SUCCESS then assembler
     else
      (let instruction_size_bytes = 5;
           (can_emit_status, assembler) = can_emit assembler instruction_size_bytes in
       if \<not> can_emit_status then assembler
       else
        (let old_offset = xa_offset assembler;
             opcode = 0xE9;
             assembler = emit8 assembler opcode;
             assembler = emit32 assembler offset;
             bytes_emitted = xa_offset assembler - old_offset in
         bal_assert_msg (bytes_emitted = instruction_size_bytes) assembler)))"

definition bal_x86_emit_load_r64_rbp_offset ::
  "bal_x86_assembler_t \<Rightarrow> bal_x86_register_t \<Rightarrow> u32 \<Rightarrow> bal_x86_assembler_t" where
  "bal_x86_emit_load_r64_rbp_offset assembler destination offset =
    (if xa_status assembler \<noteq> BAL_SUCCESS then assembler
     else if \<not> is_valid_register (reg_int destination) then
       assembler\<lparr>xa_status := BAL_ERROR_INVALID_ARGUMENT\<rparr>
     else
      (let instruction_size_bytes = 7;
           (can_emit_status, assembler) = can_emit assembler instruction_size_bytes in
       if \<not> can_emit_status then assembler
       else
        (let old_offset = xa_offset assembler;
             w = 1;
             r = reg_high destination;
             b = 0;
             opcode = 0x8B;
             assembler = emit_rex assembler w r b;
             assembler = emit8 assembler opcode;
             assembler = emit_modrm_memory_disp32_rbp assembler (reg_int destination);
             assembler = emit32 assembler offset;
             bytes_emitted = xa_offset assembler - old_offset in
         bal_assert_msg (bytes_emitted = instruction_size_bytes) assembler)))"

definition bal_x86_emit_load_r64_from_r64 ::
  "bal_x86_assembler_t \<Rightarrow> bal_x86_register_t \<Rightarrow> bal_x86_register_t \<Rightarrow> bal_x86_assembler_t" where
  "bal_x86_emit_load_r64_from_r64 assembler destination base =
    (if xa_status assembler \<noteq> BAL_SUCCESS then assembler
     else if \<not> is_valid_register (reg_int destination) then
       assembler\<lparr>xa_status := BAL_ERROR_INVALID_ARGUMENT\<rparr>
     else if \<not> is_valid_register (reg_int base) then
       assembler\<lparr>xa_status := BAL_ERROR_INVALID_ARGUMENT\<rparr>
     else
      (let base_low = reg_low base;
           needs_sib = (base_low = 4);
           needs_disp8 = (base_low = 5);
           instruction_size_bytes = (if needs_sib then 4 else if needs_disp8 then 4 else 3);
           (can_emit_status, assembler) = can_emit assembler instruction_size_bytes in
       if \<not> can_emit_status then assembler
       else
        (let old_offset = xa_offset assembler;
             w = 1;
             r = reg_high destination;
             b = reg_high base;
             opcode = 0x8B;
             assembler = emit_rex assembler w r b;
             assembler = emit8 assembler opcode;
             safe_destination = reg_low destination;
             assembler = (if needs_sib then emit8 (emit8 assembler (push_bit 3 safe_destination OR 4)) 0x24
               else if needs_disp8 then
                 emit8 (emit8 assembler (0x40 OR push_bit 3 safe_destination OR 5)) 0x00
               else emit8 assembler (push_bit 3 safe_destination OR base_low));
             bytes_emitted = xa_offset assembler - old_offset in
         bal_assert_msg (bytes_emitted = instruction_size_bytes) assembler)))"

definition bal_x86_emit_store_r64_rbp_offset ::
  "bal_x86_assembler_t \<Rightarrow> bal_x86_register_t \<Rightarrow> u32 \<Rightarrow> bal_x86_assembler_t" where
  "bal_x86_emit_store_r64_rbp_offset assembler source offset =
    (if xa_status assembler \<noteq> BAL_SUCCESS then assembler
     else if \<not> is_valid_register (reg_int source) then
       assembler\<lparr>xa_status := BAL_ERROR_INVALID_ARGUMENT\<rparr>
     else
      (let instruction_size_bytes = 7;
           (can_emit_status, assembler) = can_emit assembler instruction_size_bytes in
       if \<not> can_emit_status then assembler
       else
        (let old_offset = xa_offset assembler;
             w = 1;
             r = reg_high source;
             b = 0;
             opcode = 0x89;
             assembler = emit_rex assembler w r b;
             assembler = emit8 assembler opcode;
             assembler = emit_modrm_memory_disp32_rbp assembler (reg_int source);
             assembler = emit32 assembler offset;
             bytes_emitted = xa_offset assembler - old_offset in
         bal_assert_msg (bytes_emitted = instruction_size_bytes) assembler)))"

definition bal_x86_emit_mov_r64_r64 ::
  "bal_x86_assembler_t \<Rightarrow> bal_x86_register_t \<Rightarrow> bal_x86_register_t \<Rightarrow> bal_x86_assembler_t" where
  "bal_x86_emit_mov_r64_r64 assembler destination source =
    (if xa_status assembler \<noteq> BAL_SUCCESS then assembler\<lparr>xa_status := BAL_ERROR_INVALID_ARGUMENT\<rparr>
     else if \<not> is_valid_register (reg_int source) then
       assembler\<lparr>xa_status := BAL_ERROR_INVALID_ARGUMENT\<rparr>
     else if \<not> is_valid_register (reg_int destination) then
       assembler\<lparr>xa_status := BAL_ERROR_INVALID_ARGUMENT\<rparr>
     else
      (let instruction_size_bytes = 3;
           (can_emit_status, assembler) = can_emit assembler instruction_size_bytes in
       if \<not> can_emit_status then assembler
       else
        (let old_offset = xa_offset assembler;
             w = 1;
             r = reg_high destination;
             b = reg_high source;
             opcode = 0x8B;
             assembler = emit_rex assembler w r b;
             assembler = emit8 assembler opcode;
             assembler = emit_modrm_register assembler (reg_int destination) (reg_int source);
             bytes_emitted = xa_offset assembler - old_offset in
         bal_assert_msg (bytes_emitted = instruction_size_bytes) assembler)))"

definition bal_x86_emit_mov_r64_imm64 ::
  "bal_x86_assembler_t \<Rightarrow> bal_x86_register_t \<Rightarrow> u64 \<Rightarrow> bal_x86_assembler_t" where
  "bal_x86_emit_mov_r64_imm64 assembler destination immediate =
    (if xa_status assembler \<noteq> BAL_SUCCESS then assembler\<lparr>xa_status := BAL_ERROR_INVALID_ARGUMENT\<rparr>
     else if \<not> is_valid_register (reg_int destination) then
       assembler\<lparr>xa_status := BAL_ERROR_INVALID_ARGUMENT\<rparr>
     else
      (let fits_in_32_bits = (immediate \<le> 0xFFFFFFFF);
           b = reg_high destination;
           instruction_size_bytes = (if fits_in_32_bits then (if b > 0 then 6 else 5) else 10);
           (can_emit_status, assembler) = can_emit assembler instruction_size_bytes in
       if \<not> can_emit_status then assembler
       else
        (let old_offset = xa_offset assembler;
             assembler = (if fits_in_32_bits then
                 emit32
                   (emit8 (if b > 0 then emit_rex assembler 0 0 b else assembler)
                     (0xB8 + reg_low destination))
                   (ucast immediate)
               else
                 emit64 (emit8 (emit_rex assembler 1 0 b) (0xB8 + reg_low destination)) immediate);
             bytes_emitted = xa_offset assembler - old_offset in
         bal_assert_msg (bytes_emitted = instruction_size_bytes) assembler)))"

definition bal_x86_emit_ret ::
  "bal_x86_assembler_t \<Rightarrow> bal_x86_assembler_t" where
  "bal_x86_emit_ret assembler =
    (if xa_status assembler \<noteq> BAL_SUCCESS then assembler\<lparr>xa_status := BAL_ERROR_INVALID_ARGUMENT\<rparr>
     else
      (let instruction_size_bytes = 1;
           (can_emit_status, assembler) = can_emit assembler instruction_size_bytes in
       if \<not> can_emit_status then assembler
       else emit8 assembler 0xC3))"

definition bal_x86_emit_or_r64_r64 ::
  "bal_x86_assembler_t \<Rightarrow> bal_x86_register_t \<Rightarrow> bal_x86_register_t \<Rightarrow> bal_x86_assembler_t" where
  "bal_x86_emit_or_r64_r64 assembler destination source =
    (if xa_status assembler \<noteq> BAL_SUCCESS then assembler\<lparr>xa_status := BAL_ERROR_INVALID_ARGUMENT\<rparr>
     else if \<not> is_valid_register (reg_int source) then
       assembler\<lparr>xa_status := BAL_ERROR_INVALID_ARGUMENT\<rparr>
     else if \<not> is_valid_register (reg_int destination) then
       assembler\<lparr>xa_status := BAL_ERROR_INVALID_ARGUMENT\<rparr>
     else
      (let instruction_size_bytes = 3;
           (can_emit_status, assembler) = can_emit assembler instruction_size_bytes in
       if \<not> can_emit_status then assembler
       else
        (let old_offset = xa_offset assembler;
             w = 1;
             r = reg_high destination;
             b = reg_high source;
             opcode = 0x0B;
             assembler = emit_rex assembler w r b;
             assembler = emit8 assembler opcode;
             assembler = emit_modrm_register assembler (reg_int destination) (reg_int source);
             bytes_emitted = xa_offset assembler - old_offset in
         bal_assert_msg (bytes_emitted = instruction_size_bytes) assembler)))"

definition emit_shift_r64_imm8 ::
  "bal_x86_assembler_t \<Rightarrow> bal_x86_register_t \<Rightarrow> u8 \<Rightarrow> u8 \<Rightarrow> bal_x86_assembler_t" where
  "emit_shift_r64_imm8 assembler destination immediate opcode_extension =
    (if xa_status assembler \<noteq> BAL_SUCCESS then assembler
     else if \<not> is_valid_register (reg_int destination) then
       assembler\<lparr>xa_status := BAL_ERROR_INVALID_ARGUMENT\<rparr>
     else if immediate > 63 then
       assembler\<lparr>xa_status := BAL_ERROR_INVALID_ARGUMENT\<rparr>
     else if opcode_extension > 7 then
       assembler\<lparr>xa_status := BAL_ERROR_INVALID_ARGUMENT\<rparr>
     else
      (let instruction_size_bytes = 4;
           (can_emit_status, assembler) = can_emit assembler instruction_size_bytes in
       if \<not> can_emit_status then assembler
       else
        (let w = 1;
             r = 0;
             b = reg_high destination;
             old_offset = xa_offset assembler;
             assembler = emit_rex assembler w r b;
             assembler = emit8 assembler 0xC1;
             assembler = emit_modrm_register assembler (uint opcode_extension) (reg_int destination);
             assembler = emit8 assembler immediate;
             bytes_emitted = xa_offset assembler - old_offset in
         bal_assert_msg (bytes_emitted = instruction_size_bytes) assembler)))"

definition bal_x86_emit_ror_r64_imm8 ::
  "bal_x86_assembler_t \<Rightarrow> bal_x86_register_t \<Rightarrow> u8 \<Rightarrow> bal_x86_assembler_t" where
  "bal_x86_emit_ror_r64_imm8 assembler destination immediate =
     (let opcode_extension = 1 in
      emit_shift_r64_imm8 assembler destination immediate opcode_extension)"

definition bal_x86_emit_sar_r64_imm8 ::
  "bal_x86_assembler_t \<Rightarrow> bal_x86_register_t \<Rightarrow> u8 \<Rightarrow> bal_x86_assembler_t" where
  "bal_x86_emit_sar_r64_imm8 assembler destination immediate =
     (let opcode_extension = 7 in
      emit_shift_r64_imm8 assembler destination immediate opcode_extension)"

definition bal_x86_emit_shl_r64_imm8 ::
  "bal_x86_assembler_t \<Rightarrow> bal_x86_register_t \<Rightarrow> u8 \<Rightarrow> bal_x86_assembler_t" where
  "bal_x86_emit_shl_r64_imm8 assembler destination immediate =
     (let opcode_extension = 4 in
      emit_shift_r64_imm8 assembler destination immediate opcode_extension)"

definition bal_x86_emit_shr_r64_imm8 ::
  "bal_x86_assembler_t \<Rightarrow> bal_x86_register_t \<Rightarrow> u8 \<Rightarrow> bal_x86_assembler_t" where
  "bal_x86_emit_shr_r64_imm8 assembler destination immediate =
     (let opcode_extension = 5 in
      emit_shift_r64_imm8 assembler destination immediate opcode_extension)"

definition bal_x86_emit_push_r64 ::
  "bal_x86_assembler_t \<Rightarrow> bal_x86_register_t \<Rightarrow> bal_x86_assembler_t" where
  "bal_x86_emit_push_r64 assembler reg =
    (if xa_status assembler \<noteq> BAL_SUCCESS then assembler\<lparr>xa_status := BAL_ERROR_INVALID_ARGUMENT\<rparr>
     else if \<not> is_valid_register (reg_int reg) then
       assembler\<lparr>xa_status := BAL_ERROR_INVALID_ARGUMENT\<rparr>
     else
      (let instruction_size_bytes = 1;
           (can_emit_status, assembler) = can_emit assembler instruction_size_bytes in
       if \<not> can_emit_status then assembler
       else
        (let old_offset = xa_offset assembler;
             assembler = (if reg_int reg > 7 then emit_rex assembler 0 0 (reg_high reg) else assembler);
             instruction_size_bytes = (if reg_int reg > 7 then instruction_size_bytes + 1
               else instruction_size_bytes);
             opcode = 0x50;
             assembler = emit8 assembler (opcode + reg_low reg);
             bytes_emitted = xa_offset assembler - old_offset in
         bal_assert_msg (bytes_emitted \<le> instruction_size_bytes) assembler)))"

definition bal_x86_emit_pop_r64 ::
  "bal_x86_assembler_t \<Rightarrow> bal_x86_register_t \<Rightarrow> bal_x86_assembler_t" where
  "bal_x86_emit_pop_r64 assembler reg =
    (if xa_status assembler \<noteq> BAL_SUCCESS then assembler\<lparr>xa_status := BAL_ERROR_INVALID_ARGUMENT\<rparr>
     else if \<not> is_valid_register (reg_int reg) then
       assembler\<lparr>xa_status := BAL_ERROR_INVALID_ARGUMENT\<rparr>
     else
      (let instruction_size_bytes = 1;
           (can_emit_status, assembler) = can_emit assembler instruction_size_bytes in
       if \<not> can_emit_status then assembler
       else
        (let old_offset = xa_offset assembler;
             assembler = (if reg_int reg > 7 then emit_rex assembler 0 0 (reg_high reg) else assembler);
             instruction_size_bytes = (if reg_int reg > 7 then instruction_size_bytes + 1
               else instruction_size_bytes);
             opcode = 0x58;
             assembler = emit8 assembler (opcode + reg_low reg);
             bytes_emitted = xa_offset assembler - old_offset in
         bal_assert_msg (bytes_emitted = instruction_size_bytes) assembler)))"

definition bal_x86_emit_setcc_mem8_rbp_offset ::
  "bal_x86_assembler_t \<Rightarrow> bal_x86_condition_t \<Rightarrow> u32 \<Rightarrow> bal_x86_assembler_t" where
  "bal_x86_emit_setcc_mem8_rbp_offset assembler condition offset =
    (if xa_status assembler \<noteq> BAL_SUCCESS then assembler\<lparr>xa_status := BAL_ERROR_INVALID_ARGUMENT\<rparr>
     else
      (let instruction_size_bytes = 7;
           (can_emit_status, assembler) = can_emit assembler instruction_size_bytes in
       if \<not> can_emit_status then assembler
       else
        (let old_offset = xa_offset assembler;
             assembler = emit8 assembler 0x0F;
             assembler = emit8 assembler (0x90 + cond_nibble condition);
             assembler = emit_modrm_memory_disp32_rbp assembler (reg_int BAL_X86_RAX);
             assembler = emit32 assembler offset;
             bytes_emitted = xa_offset assembler - old_offset in
         bal_assert_msg (bytes_emitted = instruction_size_bytes) assembler)))"

definition bal_x86_emit_jcc_rel32 ::
  "bal_x86_assembler_t \<Rightarrow> bal_x86_condition_t \<Rightarrow> u32 \<Rightarrow> bal_x86_assembler_t" where
  "bal_x86_emit_jcc_rel32 assembler condition offset =
    (if xa_status assembler \<noteq> BAL_SUCCESS then assembler\<lparr>xa_status := BAL_ERROR_INVALID_ARGUMENT\<rparr>
     else
      (let instruction_size_bytes = 6;
           (can_emit_status, assembler) = can_emit assembler instruction_size_bytes in
       if \<not> can_emit_status then assembler
       else
        (let old_offset = xa_offset assembler;
             assembler = emit8 assembler 0x0F;
             assembler = emit8 assembler (0x80 + cond_nibble condition);
             assembler = emit32 assembler offset;
             bytes_emitted = xa_offset assembler - old_offset in
         bal_assert_msg (bytes_emitted = instruction_size_bytes) assembler)))"

definition bal_x86_emit_add_r64_r64 ::
  "bal_x86_assembler_t \<Rightarrow> bal_x86_register_t \<Rightarrow> bal_x86_register_t \<Rightarrow> bal_x86_assembler_t" where
  "bal_x86_emit_add_r64_r64 assembler destination source =
    (if xa_status assembler \<noteq> BAL_SUCCESS then assembler\<lparr>xa_status := BAL_ERROR_INVALID_ARGUMENT\<rparr>
     else if \<not> is_valid_register (reg_int source) then
       assembler\<lparr>xa_status := BAL_ERROR_INVALID_ARGUMENT\<rparr>
     else if \<not> is_valid_register (reg_int destination) then
       assembler\<lparr>xa_status := BAL_ERROR_INVALID_ARGUMENT\<rparr>
     else
      (let instruction_size_bytes = 3;
           (can_emit_status, assembler) = can_emit assembler instruction_size_bytes in
       if \<not> can_emit_status then assembler
       else
        (let old_offset = xa_offset assembler;
             w = 1;
             r = reg_high destination;
             b = reg_high source;
             opcode = 0x03;
             assembler = emit_rex assembler w r b;
             assembler = emit8 assembler opcode;
             assembler = emit_modrm_register assembler (reg_int destination) (reg_int source);
             bytes_emitted = xa_offset assembler - old_offset in
         bal_assert_msg (bytes_emitted = instruction_size_bytes) assembler)))"

definition bal_x86_emit_sub_r64_r64 ::
  "bal_x86_assembler_t \<Rightarrow> bal_x86_register_t \<Rightarrow> bal_x86_register_t \<Rightarrow> bal_x86_assembler_t" where
  "bal_x86_emit_sub_r64_r64 assembler destination source =
    (if xa_status assembler \<noteq> BAL_SUCCESS then assembler\<lparr>xa_status := BAL_ERROR_INVALID_ARGUMENT\<rparr>
     else if \<not> is_valid_register (reg_int source) then
       assembler\<lparr>xa_status := BAL_ERROR_INVALID_ARGUMENT\<rparr>
     else if \<not> is_valid_register (reg_int destination) then
       assembler\<lparr>xa_status := BAL_ERROR_INVALID_ARGUMENT\<rparr>
     else
      (let instruction_size_bytes = 3;
           (can_emit_status, assembler) = can_emit assembler instruction_size_bytes in
       if \<not> can_emit_status then assembler
       else
        (let old_offset = xa_offset assembler;
             w = 1;
             r = reg_high destination;
             b = reg_high source;
             opcode = 0x2B;
             assembler = emit_rex assembler w r b;
             assembler = emit8 assembler opcode;
             assembler = emit_modrm_register assembler (reg_int destination) (reg_int source);
             bytes_emitted = xa_offset assembler - old_offset in
         bal_assert_msg (bytes_emitted = instruction_size_bytes) assembler)))"

definition bal_x86_emit_add_r64_imm32 ::
  "bal_x86_assembler_t \<Rightarrow> bal_x86_register_t \<Rightarrow> u32 \<Rightarrow> bal_x86_assembler_t" where
  "bal_x86_emit_add_r64_imm32 assembler destination immediate =
    (if xa_status assembler \<noteq> BAL_SUCCESS then assembler\<lparr>xa_status := BAL_ERROR_INVALID_ARGUMENT\<rparr>
     else if \<not> is_valid_register (reg_int destination) then
       assembler\<lparr>xa_status := BAL_ERROR_INVALID_ARGUMENT\<rparr>
     else
      (let fit_in_8_bits = (-128 \<le> sint immediate \<and> sint immediate < 127);
           instruction_size_bytes = (if fit_in_8_bits then 4 else 7);
           (can_emit_status, assembler) = can_emit assembler instruction_size_bytes in
       if \<not> can_emit_status then assembler
       else
        (let old_offset = xa_offset assembler;
             b = reg_high destination;
             w = 1;
             r = 0;
             assembler = emit_rex assembler w r b;
             opcode = (if fit_in_8_bits then 0x83 else 0x81);
             assembler = emit8 assembler opcode;
             assembler = emit_modrm_register assembler (reg_int BAL_X86_RAX) (reg_int destination);
             assembler = (if fit_in_8_bits then emit8 assembler (ucast immediate)
               else emit32 assembler immediate);
             bytes_emitted = xa_offset assembler - old_offset in
         bal_assert_msg (bytes_emitted = instruction_size_bytes) assembler)))"

definition bal_x86_emit_test_r64_r64 ::
  "bal_x86_assembler_t \<Rightarrow> bal_x86_register_t \<Rightarrow> bal_x86_register_t \<Rightarrow> bal_x86_assembler_t" where
  "bal_x86_emit_test_r64_r64 assembler destination source =
    (if xa_status assembler \<noteq> BAL_SUCCESS then assembler
     else if \<not> is_valid_register (reg_int destination) then
       assembler\<lparr>xa_status := BAL_ERROR_INVALID_ARGUMENT\<rparr>
     else if \<not> is_valid_register (reg_int source) then
       assembler\<lparr>xa_status := BAL_ERROR_INVALID_ARGUMENT\<rparr>
     else
      (let instruction_size_bytes = 3;
           (can_emit_status, assembler) = can_emit assembler instruction_size_bytes in
       if \<not> can_emit_status then assembler
       else
        (let old_offset = xa_offset assembler;
             w = 1;
             r = reg_high source;
             b = reg_high destination;
             opcode = 0x85;
             assembler = emit_rex assembler w r b;
             assembler = emit8 assembler opcode;
             assembler = emit_modrm_register assembler (reg_int source) (reg_int destination);
             bytes_emitted = xa_offset assembler - old_offset in
         bal_assert_msg (bytes_emitted = instruction_size_bytes) assembler)))"

definition bal_x86_emit_xor_r64_r64 ::
  "bal_x86_assembler_t \<Rightarrow> bal_x86_register_t \<Rightarrow> bal_x86_register_t \<Rightarrow> bal_x86_assembler_t" where
  "bal_x86_emit_xor_r64_r64 assembler destination source =
    (if xa_status assembler \<noteq> BAL_SUCCESS then assembler\<lparr>xa_status := BAL_ERROR_INVALID_ARGUMENT\<rparr>
     else if \<not> is_valid_register (reg_int source) then
       assembler\<lparr>xa_status := BAL_ERROR_INVALID_ARGUMENT\<rparr>
     else if \<not> is_valid_register (reg_int destination) then
       assembler\<lparr>xa_status := BAL_ERROR_INVALID_ARGUMENT\<rparr>
     else
      (let instruction_size_bytes = 3;
           (can_emit_status, assembler) = can_emit assembler instruction_size_bytes in
       if \<not> can_emit_status then assembler
       else
        (let old_offset = xa_offset assembler;
             w = 1;
             r = reg_high destination;
             b = reg_high source;
             opcode = 0x33;
             assembler = emit_rex assembler w r b;
             assembler = emit8 assembler opcode;
             assembler = emit_modrm_register assembler (reg_int destination) (reg_int source);
             bytes_emitted = xa_offset assembler - old_offset in
         bal_assert_msg (bytes_emitted = instruction_size_bytes) assembler)))"

definition bal_x86_emit_sub_r64_imm32 ::
  "bal_x86_assembler_t \<Rightarrow> bal_x86_register_t \<Rightarrow> u32 \<Rightarrow> bal_x86_assembler_t" where
  "bal_x86_emit_sub_r64_imm32 assembler destination immediate =
    (if xa_status assembler \<noteq> BAL_SUCCESS then assembler
     else if \<not> is_valid_register (reg_int destination) then
       assembler\<lparr>xa_status := BAL_ERROR_INVALID_ARGUMENT\<rparr>
     else
      (let fit_in_8_bits = (-128 \<le> sint immediate \<and> sint immediate < 127);
           instruction_size_bytes = (if fit_in_8_bits then 4 else 7);
           (can_emit_status, assembler) = can_emit assembler instruction_size_bytes in
       if \<not> can_emit_status then assembler
       else
        (let old_offset = xa_offset assembler;
             b = reg_high destination;
             w = 1;
             r = 0;
             assembler = emit_rex assembler w r b;
             opcode = (if fit_in_8_bits then 0x83 else 0x81);
             assembler = emit8 assembler opcode;
             assembler = emit_modrm_register assembler (reg_int BAL_X86_RBP) (reg_int destination);
             assembler = (if fit_in_8_bits then emit8 assembler (ucast immediate)
               else emit32 assembler immediate);
             bytes_emitted = xa_offset assembler - old_offset in
         bal_assert_msg (bytes_emitted = instruction_size_bytes) assembler)))"

definition bal_x86_emit_cmp_mem8_rbp_offset_imm ::
  "bal_x86_assembler_t \<Rightarrow> u32 \<Rightarrow> u8 \<Rightarrow> bal_x86_assembler_t" where
  "bal_x86_emit_cmp_mem8_rbp_offset_imm assembler offset immediate =
    (if xa_status assembler \<noteq> BAL_SUCCESS then assembler
     else
      (let instruction_size_bytes = 8;
           (can_emit_status, assembler) = can_emit assembler instruction_size_bytes in
       if \<not> can_emit_status then assembler
       else
        (let old_offset = xa_offset assembler;
             w = 0;
             r = 0;
             b = 0;
             opcode = 0x80;
             assembler = emit_rex assembler w r b;
             assembler = emit8 assembler opcode;
             assembler = emit_modrm_memory_disp32_rbp assembler (reg_int BAL_X86_RDI);
             assembler = emit32 assembler offset;
             assembler = emit8 assembler immediate;
             bytes_emitted = xa_offset assembler - old_offset in
         bal_assert_msg (bytes_emitted = instruction_size_bytes) assembler)))"

definition bal_x86_emit_ud2 ::
  "bal_x86_assembler_t \<Rightarrow> bal_x86_assembler_t" where
  "bal_x86_emit_ud2 assembler =
    (if xa_status assembler \<noteq> BAL_SUCCESS then assembler
     else
      (let instruction_size_bytes = 2;
           (can_emit_status, assembler) = can_emit assembler instruction_size_bytes in
       if \<not> can_emit_status then assembler
       else
        (let old_offset = xa_offset assembler;
             assembler = emit8 assembler 0x0F;
             assembler = emit8 assembler 0x0B;
             bytes_emitted = xa_offset assembler - old_offset in
         bal_assert_msg (bytes_emitted = instruction_size_bytes) assembler)))"

section \<open>The emitter interface\<close>

text \<open>Every emitter call of \<open>bal_x86_assembler.h\<close>, as data.\<close>

datatype x86_call =
    Emit_add_mem64_rbp_offset_imm u32 u32
  | Emit_and_r64_r64 bal_x86_register_t bal_x86_register_t
  | Emit_jmp_r64 bal_x86_register_t
  | Emit_jmp_rel32 u32
  | Emit_load_r64_rbp_offset bal_x86_register_t u32
  | Emit_load_r64_from_r64 bal_x86_register_t bal_x86_register_t
  | Emit_store_r64_rbp_offset bal_x86_register_t u32
  | Emit_mov_r64_r64 bal_x86_register_t bal_x86_register_t
  | Emit_mov_r64_imm64 bal_x86_register_t u64
  | Emit_ret
  | Emit_or_r64_r64 bal_x86_register_t bal_x86_register_t
  | Emit_ror_r64_imm8 bal_x86_register_t u8
  | Emit_sar_r64_imm8 bal_x86_register_t u8
  | Emit_shl_r64_imm8 bal_x86_register_t u8
  | Emit_shr_r64_imm8 bal_x86_register_t u8
  | Emit_push_r64 bal_x86_register_t
  | Emit_pop_r64 bal_x86_register_t
  | Emit_setcc_mem8_rbp_offset bal_x86_condition_t u32
  | Emit_jcc_rel32 bal_x86_condition_t u32
  | Emit_add_r64_r64 bal_x86_register_t bal_x86_register_t
  | Emit_sub_r64_r64 bal_x86_register_t bal_x86_register_t
  | Emit_add_r64_imm32 bal_x86_register_t u32
  | Emit_test_r64_r64 bal_x86_register_t bal_x86_register_t
  | Emit_xor_r64_r64 bal_x86_register_t bal_x86_register_t
  | Emit_sub_r64_imm32 bal_x86_register_t u32
  | Emit_cmp_mem8_rbp_offset_imm u32 u8
  | Emit_ud2

primrec x86_emit :: "bal_x86_assembler_t \<Rightarrow> x86_call \<Rightarrow> bal_x86_assembler_t" where
  "x86_emit a (Emit_add_mem64_rbp_offset_imm x y) = bal_x86_emit_add_mem64_rbp_offset_imm a x y"
| "x86_emit a (Emit_and_r64_r64 x y) = bal_x86_emit_and_r64_r64 a x y"
| "x86_emit a (Emit_jmp_r64 x) = bal_x86_emit_jmp_r64 a x"
| "x86_emit a (Emit_jmp_rel32 x) = bal_x86_emit_jmp_rel32 a x"
| "x86_emit a (Emit_load_r64_rbp_offset x y) = bal_x86_emit_load_r64_rbp_offset a x y"
| "x86_emit a (Emit_load_r64_from_r64 x y) = bal_x86_emit_load_r64_from_r64 a x y"
| "x86_emit a (Emit_store_r64_rbp_offset x y) = bal_x86_emit_store_r64_rbp_offset a x y"
| "x86_emit a (Emit_mov_r64_r64 x y) = bal_x86_emit_mov_r64_r64 a x y"
| "x86_emit a (Emit_mov_r64_imm64 x y) = bal_x86_emit_mov_r64_imm64 a x y"
| "x86_emit a Emit_ret = bal_x86_emit_ret a"
| "x86_emit a (Emit_or_r64_r64 x y) = bal_x86_emit_or_r64_r64 a x y"
| "x86_emit a (Emit_ror_r64_imm8 x y) = bal_x86_emit_ror_r64_imm8 a x y"
| "x86_emit a (Emit_sar_r64_imm8 x y) = bal_x86_emit_sar_r64_imm8 a x y"
| "x86_emit a (Emit_shl_r64_imm8 x y) = bal_x86_emit_shl_r64_imm8 a x y"
| "x86_emit a (Emit_shr_r64_imm8 x y) = bal_x86_emit_shr_r64_imm8 a x y"
| "x86_emit a (Emit_push_r64 x) = bal_x86_emit_push_r64 a x"
| "x86_emit a (Emit_pop_r64 x) = bal_x86_emit_pop_r64 a x"
| "x86_emit a (Emit_setcc_mem8_rbp_offset x y) = bal_x86_emit_setcc_mem8_rbp_offset a x y"
| "x86_emit a (Emit_jcc_rel32 x y) = bal_x86_emit_jcc_rel32 a x y"
| "x86_emit a (Emit_add_r64_r64 x y) = bal_x86_emit_add_r64_r64 a x y"
| "x86_emit a (Emit_sub_r64_r64 x y) = bal_x86_emit_sub_r64_r64 a x y"
| "x86_emit a (Emit_add_r64_imm32 x y) = bal_x86_emit_add_r64_imm32 a x y"
| "x86_emit a (Emit_test_r64_r64 x y) = bal_x86_emit_test_r64_r64 a x y"
| "x86_emit a (Emit_xor_r64_r64 x y) = bal_x86_emit_xor_r64_r64 a x y"
| "x86_emit a (Emit_sub_r64_imm32 x y) = bal_x86_emit_sub_r64_imm32 a x y"
| "x86_emit a (Emit_cmp_mem8_rbp_offset_imm x y) = bal_x86_emit_cmp_mem8_rbp_offset_imm a x y"
| "x86_emit a Emit_ud2 = bal_x86_emit_ud2 a"

definition x86_api :: "x86_call \<Rightarrow> bal_x86_assembler_t option \<Rightarrow> bal_x86_assembler_t option" where
  "x86_api c = on_pointer (\<lambda>a. x86_emit a c)"

end
