(* ===== verification/Code_Buffer.thy ===== *)
theory Code_Buffer
  imports Bal_Prelude
begin

text \<open>
  The contract both assemblers of the program offer their clients: a structure that
  collects code units, an \<open>ok\<close> test (no error, nothing written outside), and emit calls
  that either append exactly the units of the call or leave \<open>ok\<close> false from then on.
  What a client needs to know about a whole sequence of calls follows here once.
\<close>

locale code_buffer =
  fixes emit :: "'s \<Rightarrow> 'c \<Rightarrow> 's"
    and units :: "'c \<Rightarrow> 'u list"
    and wf :: "'s \<Rightarrow> bool"
    and ok :: "'s \<Rightarrow> bool"
    and code :: "'s \<Rightarrow> 'u list"
  assumes emit_wf: "wf s \<Longrightarrow> wf (emit s c)"
    and emit_ok: "wf s \<Longrightarrow> ok (emit s c) \<Longrightarrow> ok s"
    and emit_code: "wf s \<Longrightarrow> ok (emit s c) \<Longrightarrow> code (emit s c) = code s @ units c"
begin

lemma run_wf: "wf s \<Longrightarrow> wf (foldl emit s cs)"
  by (induction cs arbitrary: s) (simp_all add: emit_wf)

lemma run_ok: "wf s \<Longrightarrow> ok (foldl emit s cs) \<Longrightarrow> ok s"
  by (induction cs arbitrary: s) (auto dest: emit_ok intro: emit_wf)

lemma run_code:
  "wf s \<Longrightarrow> ok (foldl emit s cs) \<Longrightarrow> code (foldl emit s cs) = code s @ concat (map units cs)"
proof (induction cs arbitrary: s)
  case (Cons c cs)
  from Cons.prems have "wf (emit s c)" by (simp add: emit_wf)
  moreover from this Cons.prems have "ok (emit s c)" by (auto dest: run_ok)
  ultimately show ?case using Cons by (simp add: emit_code)
qed simp

text \<open>Code that is already there never changes while the buffer is ok.\<close>

lemma run_prefix:
  "wf s \<Longrightarrow> ok (foldl emit s cs) \<Longrightarrow> take (length (code s)) (code (foldl emit s cs)) = code s"
  by (simp add: run_code)

lemma run_length:
  "wf s \<Longrightarrow> ok (foldl emit s cs) \<Longrightarrow>
   length (code (foldl emit s cs)) = length (code s) + (\<Sum>c\<leftarrow>cs. length (units c))"
  by (simp add: run_code length_concat comp_def)

end

end
