(* ===== verification/X86_Assembler_Facts.thy ===== *)
theory X86_Assembler_Facts
  imports X86_Assembler Code_Buffer
begin

text \<open>
  What the x86 assembler does, on every branch. \<open>emit_guarded\<close> is the common shape of all
  emitters (status test, argument test, room test, bytes); \<open>x86_emit_guarded\<close> shows that
  each of the 27 translated emitters is an instance of it, with the bytes, the argument
  test and the number of bytes it asks room for given by tables over the calls. Everything
  else (memory safety, sticky errors, the code that is produced) is proved once for
  \<open>emit_guarded\<close>.
\<close>

section \<open>Appending bytes\<close>

definition emit_bytes :: "bal_x86_assembler_t \<Rightarrow> u8 list \<Rightarrow> bal_x86_assembler_t" where
  "emit_bytes a bs = fold (\<lambda>b a. emit8 a b) bs a"

definition xa_code :: "bal_x86_assembler_t \<Rightarrow> u8 list" where
  "xa_code a = take (unat (xa_offset a)) (xa_mem a)"

lemma emit_bytes_Nil [simp]: "emit_bytes a [] = a"
  by (simp add: emit_bytes_def)

lemma emit_bytes_Cons: "emit_bytes a (b # bs) = emit_bytes (emit8 a b) bs"
  by (simp add: emit_bytes_def)

lemma emit_bytes_append [emit_simps]: "emit_bytes (emit_bytes a bs) cs = emit_bytes a (bs @ cs)"
  by (simp add: emit_bytes_def)

lemma emit8_bytes [emit_simps]: "emit8 a b = emit_bytes a [b]"
  by (simp add: emit_bytes_def)

lemma poke_frame [simp]:
  "xa_buffer (poke a i b) = xa_buffer a" "xa_offset (poke a i b) = xa_offset a"
  "xa_capacity (poke a i b) = xa_capacity a" "xa_status (poke a i b) = xa_status a"
  "xa_abort (poke a i b) = xa_abort a" "xa_rx_buffer (poke a i b) = xa_rx_buffer a"
  "xa_rx_writable (poke a i b) = xa_rx_writable a"
  "length (xa_mem (poke a i b)) = length (xa_mem a)"
  by (simp_all add: poke_def)

lemma poke_offset: "poke (a\<lparr>xa_offset := k\<rparr>) i b = (poke a i b)\<lparr>xa_offset := k\<rparr>"
  by (simp add: poke_def)

lemma poke_bytes_offset: "poke_bytes (a\<lparr>xa_offset := k\<rparr>) i bs = (poke_bytes a i bs)\<lparr>xa_offset := k\<rparr>"
  by (induction bs arbitrary: a i) (simp_all add: poke_offset)

lemma poke_bytes_emit:
  "xa_buffer a \<noteq> 0 \<Longrightarrow>
   emit_bytes a bs = (poke_bytes a (xa_offset a) bs)\<lparr>xa_offset := xa_offset a + of_nat (length bs)\<rparr>"
proof (induction bs arbitrary: a)
  case (Cons b bs)
  then show ?case
    by (simp add: emit_bytes_Cons emit8_def poke_bytes_offset add.assoc)
qed simp

lemma emit_bytes_null: "xa_buffer a = 0 \<Longrightarrow> emit_bytes a bs = a"
  by (induction bs) (simp_all add: emit_bytes_Cons emit8_def)

lemma emit32_bytes [emit_simps]: "emit32 a v = emit_bytes a (le_bytes32 v)"
  by (simp add: emit32_def poke_bytes_emit emit_bytes_null)

lemma emit64_bytes [emit_simps]: "emit64 a v = emit_bytes a (le_bytes64 v)"
  by (simp add: emit64_def poke_bytes_emit emit_bytes_null)

lemma emit_bytes_frame [frame_simps]:
  "xa_buffer (emit_bytes a bs) = xa_buffer a"
  "xa_capacity (emit_bytes a bs) = xa_capacity a"
  "xa_status (emit_bytes a bs) = xa_status a"
  "xa_abort (emit_bytes a bs) = xa_abort a"
  "xa_rx_buffer (emit_bytes a bs) = xa_rx_buffer a"
  "xa_rx_writable (emit_bytes a bs) = xa_rx_writable a"
  "length (xa_mem (emit_bytes a bs)) = length (xa_mem a)"
  by (induction bs arbitrary: a) (simp_all add: emit_bytes_Cons emit8_def)

lemma emit_bytes_offset:
  "xa_buffer a \<noteq> 0 \<Longrightarrow> xa_offset (emit_bytes a bs) = xa_offset a + of_nat (length bs)"
  by (simp add: poke_bytes_emit)

text \<open>With room for all bytes the memory grows by exactly them and nothing is out of bounds.\<close>

lemma poke_bytes_fits:
  "unat i + length bs \<le> length (xa_mem a) \<Longrightarrow> length (xa_mem a) < 2 ^ 64 \<Longrightarrow>
   poke_bytes a i bs =
     a\<lparr>xa_mem := take (unat i) (xa_mem a) @ bs @ drop (unat i + length bs) (xa_mem a)\<rparr>"
proof (induction bs arbitrary: a i)
  case (Cons b bs)
  have i1: "unat (i + 1) = Suc (unat i)"
    using Cons.prems unat_add_of_nat [of i 1] by simp
  have i: "unat i < length (xa_mem a)" using Cons.prems by simp
  show ?case using Cons.prems i
    by (simp add: Cons.IH i1 poke_def take_Suc_conv_app_nth take_update_swap [symmetric]
        upd_conv_take_nth_drop min_def add.commute [of "length bs"])
qed simp

lemma emit_bytes_fits:
  assumes "xa_buffer a \<noteq> 0" "unat (xa_offset a) + length bs \<le> length (xa_mem a)"
    and "length (xa_mem a) < 2 ^ 64"
  shows "xa_code (emit_bytes a bs) = xa_code a @ bs"
    and "xa_oob (emit_bytes a bs) = xa_oob a"
    and "unat (xa_offset (emit_bytes a bs)) = unat (xa_offset a) + length bs"
proof -
  have off: "unat (xa_offset a + of_nat (length bs)) = unat (xa_offset a) + length bs"
    using assms by (intro unat_add_of_nat) simp
  show "xa_code (emit_bytes a bs) = xa_code a @ bs"
    using assms by (simp add: poke_bytes_emit poke_bytes_fits xa_code_def off)
  show "xa_oob (emit_bytes a bs) = xa_oob a"
    using assms by (simp add: poke_bytes_emit poke_bytes_fits)
  show "unat (xa_offset (emit_bytes a bs)) = unat (xa_offset a) + length bs"
    using assms by (simp add: emit_bytes_offset off)
qed

text \<open>Without that room at least one byte is written outside.\<close>

lemma poke_bytes_oob_sticky: "xa_oob a \<Longrightarrow> xa_oob (poke_bytes a i bs)"
  by (induction bs arbitrary: a i) (simp_all add: poke_def)

lemma poke_bytes_overrun:
  "length (xa_mem a) < unat i + length bs \<Longrightarrow> unat i \<le> length (xa_mem a) \<Longrightarrow>
   length (xa_mem a) < 2 ^ 64 \<Longrightarrow> xa_oob (poke_bytes a i bs)"
proof (induction bs arbitrary: a i)
  case (Cons b bs)
  show ?case
  proof (cases "unat i = length (xa_mem a)")
    case True
    then show ?thesis by (simp add: poke_def poke_bytes_oob_sticky)
  next
    case False
    then have "unat (i + 1) = Suc (unat i)"
      using Cons.prems unat_add_of_nat [of i 1] by simp
    then show ?thesis using Cons False by simp
  qed
qed simp

section \<open>Invariant and the common shape of the emitters\<close>

text \<open>
  The structure invariant: a buffer of \<open>capacity\<close> bytes, the write position inside it
  unless a write has already gone outside.
\<close>

definition xa_wf :: "bal_x86_assembler_t \<Rightarrow> bool" where
  "xa_wf a \<longleftrightarrow> xa_buffer a \<noteq> 0 \<and> unat (xa_capacity a) = length (xa_mem a) \<and>
     (xa_oob a \<or> unat (xa_offset a) \<le> length (xa_mem a))"

text \<open>\<open>xa_ok\<close>: no error so far and every byte is inside the buffer.\<close>

definition xa_ok :: "bal_x86_assembler_t \<Rightarrow> bool" where
  "xa_ok a \<longleftrightarrow> xa_status a = BAL_SUCCESS \<and> \<not> xa_oob a"

definition emit_guarded ::
  "bool \<Rightarrow> bool \<Rightarrow> size_t \<Rightarrow> u8 list \<Rightarrow> bal_x86_assembler_t \<Rightarrow> bal_x86_assembler_t" where
  "emit_guarded masks valid n bs a =
     (if xa_status a \<noteq> BAL_SUCCESS then
        (if masks then a\<lparr>xa_status := BAL_ERROR_INVALID_ARGUMENT\<rparr> else a)
      else if \<not> valid then a\<lparr>xa_status := BAL_ERROR_INVALID_ARGUMENT\<rparr>
      else (case can_emit a n of (ok, a) \<Rightarrow> if ok then emit_bytes a bs else a))"

lemma xa_wf_mem: "xa_wf a \<Longrightarrow> length (xa_mem a) < 2 ^ 64"
  unfolding xa_wf_def using length_bound_size_t [of "xa_capacity a"] by simp

lemma can_emit_iff:
  assumes "xa_status a = BAL_SUCCESS"
  shows "fst (can_emit a n) \<longleftrightarrow> unat (xa_offset a) + unat n \<le> unat (xa_capacity a)"
    and "snd (can_emit a n) = (if fst (can_emit a n) then a
           else a\<lparr>xa_status := BAL_ERROR_INSTRUCTION_OVERFLOW\<rparr>)"
proof -
  have wrap: "SIZE_MAX - xa_offset a < n \<longleftrightarrow> \<not> unat (xa_offset a) + unat n < 2 ^ 64"
  proof -
    have "unat (SIZE_MAX - xa_offset a) = 2 ^ 64 - 1 - unat (xa_offset a)"
    proof -
      have le: "xa_offset a \<le> SIZE_MAX" by (simp add: SIZE_MAX_def)
      show ?thesis by (simp add: unat_sub [OF le]) (simp add: SIZE_MAX_def unsigned_minus_1_eq_mask mask_eq_exp_minus_1)
    qed
    moreover have "unat (xa_offset a) < 2 ^ 64" by (rule length_bound_size_t)
    ultimately show ?thesis unfolding word_less_nat_alt by arith
  qed
  show "fst (can_emit a n) \<longleftrightarrow> unat (xa_offset a) + unat n \<le> unat (xa_capacity a)"
  proof (cases "unat (xa_offset a) + unat n < 2 ^ 64")
    case True
    then have "unat (xa_offset a + n) = unat (xa_offset a) + unat n"
      by (simp add: unat_word_ariths)
    with True assms wrap show ?thesis
      by (auto simp: can_emit_def Let_def word_less_nat_alt)
  next
    case False
    moreover have "unat (xa_capacity a) < 2 ^ 64" by (rule length_bound_size_t)
    ultimately show ?thesis using assms wrap by (simp add: can_emit_def)
  qed
  show "snd (can_emit a n) = (if fst (can_emit a n) then a
           else a\<lparr>xa_status := BAL_ERROR_INSTRUCTION_OVERFLOW\<rparr>)"
    using assms by (simp add: can_emit_def Let_def)
qed

text \<open>The four ways an emitter call can go.\<close>

lemma emit_guarded_cases:
  "emit_guarded masks valid n bs a =
    (if xa_status a \<noteq> BAL_SUCCESS then
       (if masks then a\<lparr>xa_status := BAL_ERROR_INVALID_ARGUMENT\<rparr> else a)
     else if \<not> valid then a\<lparr>xa_status := BAL_ERROR_INVALID_ARGUMENT\<rparr>
     else if unat (xa_offset a) + unat n \<le> unat (xa_capacity a) then emit_bytes a bs
     else a\<lparr>xa_status := BAL_ERROR_INSTRUCTION_OVERFLOW\<rparr>)"
  using can_emit_iff [of a n]
  by (simp add: emit_guarded_def case_prod_unfold)


section \<open>The tables of the emitter interface\<close>

definition rex_byte :: "u8 \<Rightarrow> u8 \<Rightarrow> u8 \<Rightarrow> u8" where
  "rex_byte w r b = 0x40 OR push_bit 3 (w AND 1) OR push_bit 2 (r AND 1) OR (b AND 1)"

definition modrm_byte :: "u8 \<Rightarrow> u8 \<Rightarrow> u8" where
  "modrm_byte reg rm = 0xC0 OR push_bit 3 reg OR rm"

definition modrm_rbp_byte :: "u8 \<Rightarrow> u8" where
  "modrm_rbp_byte reg = 0x80 OR push_bit 3 reg OR 0x05"

definition rr_bytes :: "u8 \<Rightarrow> bal_x86_register_t \<Rightarrow> bal_x86_register_t \<Rightarrow> u8 list" where
  "rr_bytes opc reg rm =
     [rex_byte 1 (reg_high reg) (reg_high rm), opc, modrm_byte (reg_low reg) (reg_low rm)]"

definition mem_bytes :: "u8 \<Rightarrow> bal_x86_register_t \<Rightarrow> u32 \<Rightarrow> u8 list" where
  "mem_bytes opc reg disp =
     [rex_byte 1 (reg_high reg) 0, opc, modrm_rbp_byte (reg_low reg)] @ le_bytes32 disp"

definition fits8 :: "u32 \<Rightarrow> bool" where
  "fits8 i \<longleftrightarrow> -128 \<le> sint i \<and> sint i < 127"

definition ri_bytes :: "u8 \<Rightarrow> bal_x86_register_t \<Rightarrow> u32 \<Rightarrow> u8 list" where
  "ri_bytes ext d i =
     (if fits8 i then [rex_byte 1 0 (reg_high d), 0x83, modrm_byte ext (reg_low d), ucast i]
      else [rex_byte 1 0 (reg_high d), 0x81, modrm_byte ext (reg_low d)] @ le_bytes32 i)"

definition shift_bytes :: "u8 \<Rightarrow> bal_x86_register_t \<Rightarrow> u8 \<Rightarrow> u8 list" where
  "shift_bytes ext d i = [rex_byte 1 0 (reg_high d), 0xC1, modrm_byte ext (reg_low d), i]"

text \<open>A REX prefix that is only there for the registers R8 to R15.\<close>

definition opt_rex :: "bal_x86_register_t \<Rightarrow> u8 list" where
  "opt_rex r = (if reg_int r > 7 then [rex_byte 0 0 (reg_high r)] else [])"

definition load_r64_bytes :: "bal_x86_register_t \<Rightarrow> bal_x86_register_t \<Rightarrow> u8 list" where
  "load_r64_bytes d base = [rex_byte 1 (reg_high d) (reg_high base), 0x8B] @
     (if reg_low base = 4 then [push_bit 3 (reg_low d) OR 4, 0x24]
      else if reg_low base = 5 then [0x40 OR push_bit 3 (reg_low d) OR 5, 0]
      else [push_bit 3 (reg_low d) OR reg_low base])"

text \<open>The bytes of a call, its argument test, whether it overwrites an earlier error, the room it
  asks for, and the instruction it stands for.\<close>

primrec x86_bytes :: "x86_call \<Rightarrow> u8 list" where
  "x86_bytes (Emit_add_mem64_rbp_offset_imm off i) = (if -128 \<le> sint i \<and> sint i \<le> 127
      then [rex_byte 1 0 0, 0x83, modrm_rbp_byte 0] @ le_bytes32 off @ [ucast i]
      else [rex_byte 1 0 0, 0x81, modrm_rbp_byte 0] @ le_bytes32 off @ le_bytes32 i)"
| "x86_bytes (Emit_and_r64_r64 d r) = rr_bytes 0x23 d r"
| "x86_bytes (Emit_jmp_r64 r) = opt_rex r @ [0xFF, modrm_byte 4 (reg_low r)]"
| "x86_bytes (Emit_jmp_rel32 off) = 0xE9 # le_bytes32 off"
| "x86_bytes (Emit_load_r64_rbp_offset d off) = mem_bytes 0x8B d off"
| "x86_bytes (Emit_load_r64_from_r64 d base) = load_r64_bytes d base"
| "x86_bytes (Emit_store_r64_rbp_offset r off) = mem_bytes 0x89 r off"
| "x86_bytes (Emit_mov_r64_r64 d r) = rr_bytes 0x8B d r"
| "x86_bytes (Emit_mov_r64_imm64 d i) = (if i \<le> 0xFFFFFFFF
      then (if reg_high d > 0 then [rex_byte 0 0 (reg_high d)] else []) @
        [0xB8 + reg_low d] @ le_bytes32 (ucast i)
      else [rex_byte 1 0 (reg_high d), 0xB8 + reg_low d] @ le_bytes64 i)"
| "x86_bytes Emit_ret = [0xC3]"
| "x86_bytes (Emit_or_r64_r64 d r) = rr_bytes 0x0B d r"
| "x86_bytes (Emit_ror_r64_imm8 d i) = shift_bytes 1 d i"
| "x86_bytes (Emit_sar_r64_imm8 d i) = shift_bytes 7 d i"
| "x86_bytes (Emit_shl_r64_imm8 d i) = shift_bytes 4 d i"
| "x86_bytes (Emit_shr_r64_imm8 d i) = shift_bytes 5 d i"
| "x86_bytes (Emit_push_r64 r) = opt_rex r @ [0x50 + reg_low r]"
| "x86_bytes (Emit_pop_r64 r) = opt_rex r @ [0x58 + reg_low r]"
| "x86_bytes (Emit_setcc_mem8_rbp_offset c off) = [0x0F, 0x90 + cond_nibble c, modrm_rbp_byte 0] @ le_bytes32 off"
| "x86_bytes (Emit_jcc_rel32 c off) = [0x0F, 0x80 + cond_nibble c] @ le_bytes32 off"
| "x86_bytes (Emit_add_r64_r64 d r) = rr_bytes 0x03 d r"
| "x86_bytes (Emit_sub_r64_r64 d r) = rr_bytes 0x2B d r"
| "x86_bytes (Emit_add_r64_imm32 d i) = ri_bytes 0 d i"
| "x86_bytes (Emit_test_r64_r64 d r) = rr_bytes 0x85 r d"
| "x86_bytes (Emit_xor_r64_r64 d r) = rr_bytes 0x33 d r"
| "x86_bytes (Emit_sub_r64_imm32 d i) = ri_bytes 5 d i"
| "x86_bytes (Emit_cmp_mem8_rbp_offset_imm off i) = [rex_byte 0 0 0, 0x80, modrm_rbp_byte 7] @ le_bytes32 off @ [i]"
| "x86_bytes Emit_ud2 = [0x0F, 0x0B]"


primrec x86_valid :: "x86_call \<Rightarrow> bool" where
  "x86_valid (Emit_add_mem64_rbp_offset_imm off i) = True"
| "x86_valid (Emit_and_r64_r64 d r) = (is_valid_register (reg_int d) \<and> is_valid_register (reg_int r))"
| "x86_valid (Emit_jmp_r64 r) = (is_valid_register (reg_int r))"
| "x86_valid (Emit_jmp_rel32 off) = True"
| "x86_valid (Emit_load_r64_rbp_offset d off) = (is_valid_register (reg_int d))"
| "x86_valid (Emit_load_r64_from_r64 d base) = (is_valid_register (reg_int d) \<and> is_valid_register (reg_int base))"
| "x86_valid (Emit_store_r64_rbp_offset r off) = (is_valid_register (reg_int r))"
| "x86_valid (Emit_mov_r64_r64 d r) = (is_valid_register (reg_int d) \<and> is_valid_register (reg_int r))"
| "x86_valid (Emit_mov_r64_imm64 d i) = (is_valid_register (reg_int d))"
| "x86_valid Emit_ret = True"
| "x86_valid (Emit_or_r64_r64 d r) = (is_valid_register (reg_int d) \<and> is_valid_register (reg_int r))"
| "x86_valid (Emit_ror_r64_imm8 d i) = (is_valid_register (reg_int d) \<and> i \<le> 63)"
| "x86_valid (Emit_sar_r64_imm8 d i) = (is_valid_register (reg_int d) \<and> i \<le> 63)"
| "x86_valid (Emit_shl_r64_imm8 d i) = (is_valid_register (reg_int d) \<and> i \<le> 63)"
| "x86_valid (Emit_shr_r64_imm8 d i) = (is_valid_register (reg_int d) \<and> i \<le> 63)"
| "x86_valid (Emit_push_r64 r) = (is_valid_register (reg_int r))"
| "x86_valid (Emit_pop_r64 r) = (is_valid_register (reg_int r))"
| "x86_valid (Emit_setcc_mem8_rbp_offset c off) = True"
| "x86_valid (Emit_jcc_rel32 c off) = True"
| "x86_valid (Emit_add_r64_r64 d r) = (is_valid_register (reg_int d) \<and> is_valid_register (reg_int r))"
| "x86_valid (Emit_sub_r64_r64 d r) = (is_valid_register (reg_int d) \<and> is_valid_register (reg_int r))"
| "x86_valid (Emit_add_r64_imm32 d i) = (is_valid_register (reg_int d))"
| "x86_valid (Emit_test_r64_r64 d r) = (is_valid_register (reg_int d) \<and> is_valid_register (reg_int r))"
| "x86_valid (Emit_xor_r64_r64 d r) = (is_valid_register (reg_int d) \<and> is_valid_register (reg_int r))"
| "x86_valid (Emit_sub_r64_imm32 d i) = (is_valid_register (reg_int d))"
| "x86_valid (Emit_cmp_mem8_rbp_offset_imm off i) = True"
| "x86_valid Emit_ud2 = True"


primrec x86_masks :: "x86_call \<Rightarrow> bool" where
  "x86_masks (Emit_add_mem64_rbp_offset_imm off i) = False"
| "x86_masks (Emit_and_r64_r64 d r) = False"
| "x86_masks (Emit_jmp_r64 r) = False"
| "x86_masks (Emit_jmp_rel32 off) = False"
| "x86_masks (Emit_load_r64_rbp_offset d off) = False"
| "x86_masks (Emit_load_r64_from_r64 d base) = False"
| "x86_masks (Emit_store_r64_rbp_offset r off) = False"
| "x86_masks (Emit_mov_r64_r64 d r) = True"
| "x86_masks (Emit_mov_r64_imm64 d i) = True"
| "x86_masks Emit_ret = True"
| "x86_masks (Emit_or_r64_r64 d r) = True"
| "x86_masks (Emit_ror_r64_imm8 d i) = False"
| "x86_masks (Emit_sar_r64_imm8 d i) = False"
| "x86_masks (Emit_shl_r64_imm8 d i) = False"
| "x86_masks (Emit_shr_r64_imm8 d i) = False"
| "x86_masks (Emit_push_r64 r) = True"
| "x86_masks (Emit_pop_r64 r) = True"
| "x86_masks (Emit_setcc_mem8_rbp_offset c off) = True"
| "x86_masks (Emit_jcc_rel32 c off) = True"
| "x86_masks (Emit_add_r64_r64 d r) = True"
| "x86_masks (Emit_sub_r64_r64 d r) = True"
| "x86_masks (Emit_add_r64_imm32 d i) = True"
| "x86_masks (Emit_test_r64_r64 d r) = False"
| "x86_masks (Emit_xor_r64_r64 d r) = True"
| "x86_masks (Emit_sub_r64_imm32 d i) = False"
| "x86_masks (Emit_cmp_mem8_rbp_offset_imm off i) = False"
| "x86_masks Emit_ud2 = False"


primrec x86_size :: "x86_call \<Rightarrow> size_t" where
  "x86_size (Emit_add_mem64_rbp_offset_imm off i) = (if -128 \<le> sint i \<and> sint i \<le> 127 then 8 else 11)"
| "x86_size (Emit_and_r64_r64 d r) = 3"
| "x86_size (Emit_jmp_r64 r) = 2"
| "x86_size (Emit_jmp_rel32 off) = 5"
| "x86_size (Emit_load_r64_rbp_offset d off) = 7"
| "x86_size (Emit_load_r64_from_r64 d base) = (if reg_low base = 4 then 4 else if reg_low base = 5 then 4 else 3)"
| "x86_size (Emit_store_r64_rbp_offset r off) = 7"
| "x86_size (Emit_mov_r64_r64 d r) = 3"
| "x86_size (Emit_mov_r64_imm64 d i) = (if i \<le> 0xFFFFFFFF then (if reg_high d > 0 then 6 else 5) else 10)"
| "x86_size Emit_ret = 1"
| "x86_size (Emit_or_r64_r64 d r) = 3"
| "x86_size (Emit_ror_r64_imm8 d i) = 4"
| "x86_size (Emit_sar_r64_imm8 d i) = 4"
| "x86_size (Emit_shl_r64_imm8 d i) = 4"
| "x86_size (Emit_shr_r64_imm8 d i) = 4"
| "x86_size (Emit_push_r64 r) = 1"
| "x86_size (Emit_pop_r64 r) = 1"
| "x86_size (Emit_setcc_mem8_rbp_offset c off) = 7"
| "x86_size (Emit_jcc_rel32 c off) = 6"
| "x86_size (Emit_add_r64_r64 d r) = 3"
| "x86_size (Emit_sub_r64_r64 d r) = 3"
| "x86_size (Emit_add_r64_imm32 d i) = (if fits8 i then 4 else 7)"
| "x86_size (Emit_test_r64_r64 d r) = 3"
| "x86_size (Emit_xor_r64_r64 d r) = 3"
| "x86_size (Emit_sub_r64_imm32 d i) = (if fits8 i then 4 else 7)"
| "x86_size (Emit_cmp_mem8_rbp_offset_imm off i) = 8"
| "x86_size Emit_ud2 = 2"


primrec x86_instr_of :: "x86_call \<Rightarrow> x86_instr" where
  "x86_instr_of (Emit_add_mem64_rbp_offset_imm off i) = (X_alu_mi Alu_Add BAL_X86_RBP off i)"
| "x86_instr_of (Emit_and_r64_r64 d r) = (X_alu_rr Alu_And d r)"
| "x86_instr_of (Emit_jmp_r64 r) = (X_jmp_r r)"
| "x86_instr_of (Emit_jmp_rel32 off) = (X_jmp off)"
| "x86_instr_of (Emit_load_r64_rbp_offset d off) = (X_load d BAL_X86_RBP off)"
| "x86_instr_of (Emit_load_r64_from_r64 d base) = (X_load d base 0)"
| "x86_instr_of (Emit_store_r64_rbp_offset r off) = (X_store BAL_X86_RBP off r)"
| "x86_instr_of (Emit_mov_r64_r64 d r) = (X_mov_rr d r)"
| "x86_instr_of (Emit_mov_r64_imm64 d i) = (X_mov_ri d i)"
| "x86_instr_of Emit_ret = X_ret"
| "x86_instr_of (Emit_or_r64_r64 d r) = (X_alu_rr Alu_Or d r)"
| "x86_instr_of (Emit_ror_r64_imm8 d i) = (X_shift Sh_Ror d i)"
| "x86_instr_of (Emit_sar_r64_imm8 d i) = (X_shift Sh_Sar d i)"
| "x86_instr_of (Emit_shl_r64_imm8 d i) = (X_shift Sh_Shl d i)"
| "x86_instr_of (Emit_shr_r64_imm8 d i) = (X_shift Sh_Shr d i)"
| "x86_instr_of (Emit_push_r64 r) = (X_push r)"
| "x86_instr_of (Emit_pop_r64 r) = (X_pop r)"
| "x86_instr_of (Emit_setcc_mem8_rbp_offset c off) = (X_setcc c BAL_X86_RBP off)"
| "x86_instr_of (Emit_jcc_rel32 c off) = (X_jcc c off)"
| "x86_instr_of (Emit_add_r64_r64 d r) = (X_alu_rr Alu_Add d r)"
| "x86_instr_of (Emit_sub_r64_r64 d r) = (X_alu_rr Alu_Sub d r)"
| "x86_instr_of (Emit_add_r64_imm32 d i) = (X_alu_ri Alu_Add d i)"
| "x86_instr_of (Emit_test_r64_r64 d r) = (X_test d r)"
| "x86_instr_of (Emit_xor_r64_r64 d r) = (X_alu_rr Alu_Xor d r)"
| "x86_instr_of (Emit_sub_r64_imm32 d i) = (X_alu_ri Alu_Sub d i)"
| "x86_instr_of (Emit_cmp_mem8_rbp_offset_imm off i) = (X_cmp_m8 BAL_X86_RBP off i)"
| "x86_instr_of Emit_ud2 = X_ud2"


section \<open>Every emitter is guarded emission of its bytes\<close>

lemma emit_rex_bytes [emit_simps]: "emit_rex a w r b = emit_bytes a [rex_byte w r b]"
  by (simp add: emit_rex_def rex_byte_def emit8_bytes)

lemma emit_modrm_register_bytes [emit_simps]:
  "emit_modrm_register a reg rm =
     emit_bytes a [modrm_byte (word_of_int reg AND 7) (word_of_int rm AND 7)]"
  by (simp add: emit_modrm_register_def modrm_byte_def emit8_bytes)

lemma emit_modrm_rbp_bytes [emit_simps]:
  "emit_modrm_memory_disp32_rbp a reg = emit_bytes a [modrm_rbp_byte (word_of_int reg AND 7)]"
  by (simp add: emit_modrm_memory_disp32_rbp_def modrm_rbp_byte_def emit8_bytes)

lemma bal_assert_msg_simps [simp]:
  "bal_assert_msg True a = a" "bal_assert_msg False a = a\<lparr>xa_abort := True\<rparr>"
  by (simp_all add: bal_assert_msg_def)

lemma can_emit_branch:
  "(case can_emit a n of (ok, b) \<Rightarrow> if \<not> ok then b else f b) =
     (if fst (can_emit a n) then f a else snd (can_emit a n))"
  "(case can_emit a n of (ok, b) \<Rightarrow> if ok then f b else b) =
     (if fst (can_emit a n) then f a else snd (can_emit a n))"
  by (simp_all add: can_emit_def Let_def)

lemma emitted_size:
  "xa_buffer a \<noteq> 0 \<Longrightarrow> xa_offset (emit_bytes a bs) - xa_offset a = of_nat (length bs)"
  by (simp add: emit_bytes_offset)

lemmas emitter_defs =
  bal_x86_emit_add_mem64_rbp_offset_imm_def bal_x86_emit_and_r64_r64_def
  bal_x86_emit_jmp_r64_def bal_x86_emit_jmp_rel32_def bal_x86_emit_load_r64_rbp_offset_def
  bal_x86_emit_load_r64_from_r64_def bal_x86_emit_store_r64_rbp_offset_def
  bal_x86_emit_mov_r64_r64_def bal_x86_emit_mov_r64_imm64_def bal_x86_emit_ret_def
  bal_x86_emit_or_r64_r64_def emit_shift_r64_imm8_def bal_x86_emit_ror_r64_imm8_def
  bal_x86_emit_sar_r64_imm8_def bal_x86_emit_shl_r64_imm8_def bal_x86_emit_shr_r64_imm8_def
  bal_x86_emit_push_r64_def bal_x86_emit_pop_r64_def bal_x86_emit_setcc_mem8_rbp_offset_def
  bal_x86_emit_jcc_rel32_def bal_x86_emit_add_r64_r64_def bal_x86_emit_sub_r64_r64_def
  bal_x86_emit_add_r64_imm32_def bal_x86_emit_test_r64_r64_def bal_x86_emit_xor_r64_r64_def
  bal_x86_emit_sub_r64_imm32_def bal_x86_emit_cmp_mem8_rbp_offset_imm_def bal_x86_emit_ud2_def

lemmas byte_table_defs =
  rr_bytes_def mem_bytes_def ri_bytes_def shift_bytes_def opt_rex_def load_r64_bytes_def
  fits8_def reg_low_def

theorem x86_emit_guarded:
  assumes "xa_buffer a \<noteq> 0"
  shows "x86_emit a c = emit_guarded (x86_masks c) (x86_valid c) (x86_size c) (x86_bytes c) a"
  by (cases c)
    (simp_all only: x86_emit.simps x86_masks.simps x86_valid.simps x86_size.simps x86_bytes.simps
      emitter_defs emit_guarded_def Let_def can_emit_branch,
     simp_all add: byte_table_defs modrm_byte_def emit_simps emitted_size assms)


section \<open>The bytes decode to the intended instruction\<close>

lemma rex_byte_bools:
  "rex_byte w r b = 0x40 OR (if bit w 0 then 8 else 0) OR (if bit r 0 then 4 else 0) OR
     (if bit b 0 then 1 else 0)"
proof -
  have one: "x AND 1 = (if bit x 0 then 1 else 0)" for x :: u8
    by (simp add: and_one_eq bit_0 odd_iff_mod_2_eq_one) 
  show ?thesis by (simp add: rex_byte_def one)
qed

lemma rex_byte_fields [simp]:
  "drop_bit 4 (rex_byte w r b) = 4" "\<not> bit (rex_byte w r b) (Suc 0)"
  "bit (rex_byte w r b) 3 = bit w 0" "bit (rex_byte w r b) 2 = bit r 0"
  "bit (rex_byte w r b) 0 = bit b 0"
  by (simp_all add: rex_byte_bools)

lemma u8_below_8:
  assumes "(x :: u8) < 8"
  obtains "x = 0" | "x = 1" | "x = 2" | "x = 3" | "x = 4" | "x = 5" | "x = 6" | "x = 7"
proof -
  from assms have "unat x < 8" by (simp add: word_less_nat_alt)
  then consider "unat x = 0" | "unat x = 1" | "unat x = 2" | "unat x = 3" | "unat x = 4"
    | "unat x = 5" | "unat x = 6" | "unat x = 7" by linarith
  moreover have "x = word_of_nat (unat x)" by simp
  ultimately show thesis by cases (use that in simp_all)
qed

lemma modrm_byte_fields [simp]:
  assumes "x < 8" "y < 8"
  shows "drop_bit 6 (modrm_byte x y) = 3" "drop_bit 3 (modrm_byte x y) AND 7 = x"
    "modrm_byte x y AND 7 = y"
  using assms by (elim u8_below_8; simp add: modrm_byte_def)+

lemma modrm_rbp_byte_fields [simp]:
  assumes "x < 8"
  shows "drop_bit 6 (modrm_rbp_byte x) = 2" "drop_bit 3 (modrm_rbp_byte x) AND 7 = x"
    "modrm_rbp_byte x AND 7 = 5"
  using assms by (elim u8_below_8; simp add: modrm_rbp_byte_def)+

lemma reg_low_range [simp]: "is_valid_register (reg_int r) \<Longrightarrow> reg_low r < 8"
  by (cases r) (simp_all add: reg_low_def is_valid_register_def)

lemma xreg_high_low [simp]:
  "is_valid_register (reg_int r) \<Longrightarrow> xreg (bit (reg_high r) 0) (reg_low r) = r"
  by (cases r) (simp_all add: reg_low_def reg_high_def xreg_def is_valid_register_def reg_of_int_def)

lemma xreg_consts [simp]:
  "xreg False 5 = BAL_X86_RBP"
  by (simp_all add: xreg_def reg_of_int_def)

lemma take_le32_bytes [simp]: "take_le32 (le_bytes32 v @ rest) = Some (v, rest)"
  by (simp add: le_bytes32_def)

lemma take_le64_bytes [simp]: "take_le64 (le_bytes64 v @ rest) = Some (v, rest)"
  by (simp add: le_bytes64_def le_bytes32_def)

lemma fits8_scast:
  assumes "-128 \<le> sint (i :: u32)" "sint i \<le> 127"
  shows "scast (ucast i :: u8) = i"
proof -
  have "sint (ucast i :: u8) = signed_take_bit 7 (sint i)"
    by (simp add: sint_uint signed_take_bit_take_bit unsigned_ucast_eq)
  also have "\<dots> = sint i" using assms by (simp add: signed_take_bit_int_eq_self)
  finally show ?thesis by (simp add: scast_eq)
qed


text \<open>The ModRM forms the emitters produce.\<close>

lemma decode_modrm_register:
  assumes "x < 8" "is_valid_register (reg_int r)"
  shows "decode_modrm e (bit (reg_high r) 0) (modrm_byte x (reg_low r) # rest) =
    Some (x, xreg e x, Rm_reg r, rest)"
  using assms by (simp add: decode_modrm_def Let_def)

lemma decode_modrm_rbp:
  assumes "x < 8"
  shows "decode_modrm e False (modrm_rbp_byte x # le_bytes32 disp @ rest) =
    Some (x, xreg e x, Rm_mem BAL_X86_RBP disp, rest)"
  using assms by (simp add: decode_modrm_def Let_def)

lemma decode_modrm_base:
  fixes x y :: u8
  assumes "x < 8"
  shows "decode_modrm e f ((push_bit 3 x OR 4) # 0x24 # rest) =
      Some (x, xreg e x, Rm_mem (xreg f 4) 0, rest)"
    and "decode_modrm e f ((0x40 OR push_bit 3 x OR 5) # 0 # rest) =
      Some (x, xreg e x, Rm_mem (xreg f 5) 0, rest)"
    and "y < 8 \<Longrightarrow> y \<noteq> 4 \<Longrightarrow> y \<noteq> 5 \<Longrightarrow> decode_modrm e f ((push_bit 3 x OR y) # rest) =
      Some (x, xreg e x, Rm_mem (xreg f y) 0, rest)"
  using assms by (elim u8_below_8; simp add: decode_modrm_def)+

lemma opcode_plus_reg:
  fixes x :: u8
  assumes "x < 8"
  shows "drop_bit 4 (0x50 + x) = 5" "drop_bit 3 (0x50 + x) = 10" "(0x50 + x) AND 7 = x"
    "drop_bit 4 (0x58 + x) = 5" "drop_bit 3 (0x58 + x) = 11" "(0x58 + x) AND 7 = x"
    "drop_bit 4 (0xB8 + x) = 11" "drop_bit 3 (0xB8 + x) = 23" "(0xB8 + x) AND 7 = x"
    

    "0x50 + x \<noteq> 0x0F" "0x50 + x \<noteq> 0xC3" "0x50 + x \<noteq> 0xE9"
    "0x58 + x \<noteq> 0x0F" "0x58 + x \<noteq> 0xC3" "0x58 + x \<noteq> 0xE9"
    "0xB8 + x \<noteq> 0x0F" "0xB8 + x \<noteq> 0xC3" "0xB8 + x \<noteq> 0xE9"
  using assms by (elim u8_below_8; simp)+

lemma opcode_plus_cond:
  "drop_bit 4 (0x80 + cond_nibble c) = 8" "(0x80 + cond_nibble c) AND 15 = cond_nibble c"
  "drop_bit 4 (0x90 + cond_nibble c) = 9" "(0x90 + cond_nibble c) AND 15 = cond_nibble c"
  "0x80 + cond_nibble c \<noteq> 0x0B" "0x90 + cond_nibble c \<noteq> 0x0B"
  by (cases c; simp)+

lemma low_register:
  assumes "is_valid_register (reg_int r)"
  shows "reg_high r = 0 \<Longrightarrow> xreg False (reg_low r) = r"
    and "7 < reg_int r \<longleftrightarrow> reg_high r \<noteq> 0"
proof -
  show "reg_high r = 0 \<Longrightarrow> xreg False (reg_low r) = r"
    using assms by (cases r) (simp_all add: reg_low_def reg_high_def xreg_def reg_of_int_def)
  show "7 < reg_int r \<longleftrightarrow> reg_high r \<noteq> 0"
    using assms by (cases r) (simp_all add: reg_high_def is_valid_register_def)
qed


lemma x86_decode_rex:
  "x86_decode (rex_byte w r b # rest) = decode_op (bit w 0) (bit r 0) (bit b 0) rest"
  by (simp add: x86_decode_def)

lemma x86_decode_plain: "drop_bit 4 p \<noteq> 4 \<Longrightarrow> x86_decode (p # rest) = decode_op False False False (p # rest)"
  by (simp add: x86_decode_def)

lemma decode_op_modrm64:
  "opc \<in> {0x03, 0x0B, 0x23, 0x2B, 0x33, 0x81, 0x83, 0x85, 0x89, 0x8B, 0xC1} \<Longrightarrow>
   decode_op True r b (opc # rest) = decode_modrm64 r b opc rest"
  by (auto simp: decode_op_def)

lemma rr_bytes_decode:
  assumes "is_valid_register (reg_int d)" "is_valid_register (reg_int r)"
    and "opc \<in> {0x03, 0x0B, 0x23, 0x2B, 0x33, 0x81, 0x83, 0x85, 0x89, 0x8B, 0xC1}"
  shows "x86_decode (rr_bytes opc d r @ rest) =
    decode_modrm64 (bit (reg_high d) 0) (bit (reg_high r) 0) opc (modrm_byte (reg_low d) (reg_low r) # rest)"
  using assms by (simp add: rr_bytes_def x86_decode_rex decode_op_modrm64)

lemma alu_rr_encodes:
  assumes "is_valid_register (reg_int d)" "is_valid_register (reg_int r)" "alu_of_opcode opc = Some opn" "opn \<noteq> Alu_Cmp"
  shows "encodes (rr_bytes opc d r) (X_alu_rr opn d r)"
proof -
  from assms(3,4) have "opc \<in> {0x03, 0x0B, 0x23, 0x2B, 0x33}"
    by (auto simp: alu_of_opcode_def split: if_splits)
  with assms show ?thesis
    by (auto simp: encodes_def rr_bytes_decode decode_modrm64_def decode_modrm_register)
qed

lemma mem_encodes:
  assumes "is_valid_register (reg_int r)"
  shows "encodes (mem_bytes 0x8B r off) (X_load r BAL_X86_RBP off)"
    and "encodes (mem_bytes 0x89 r off) (X_store BAL_X86_RBP off r)"
  using assms
  by (simp_all add: encodes_def mem_bytes_def x86_decode_rex decode_op_modrm64 decode_modrm64_def
      decode_modrm_rbp)

lemma ri_encodes:
  assumes "is_valid_register (reg_int d)" "ext < 8" "alu_of_digit ext = Some opn"
  shows "encodes (ri_bytes ext d i) (X_alu_ri opn d i)"
  using assms
  by (auto simp: encodes_def ri_bytes_def x86_decode_rex decode_op_modrm64 decode_modrm64_def
      decode_modrm_register decode_group1_def fits8_def fits8_scast)

lemma shift_encodes:
  assumes "is_valid_register (reg_int d)" "ext < 8" "shift_of_digit ext = Some sh"
  shows "encodes (shift_bytes ext d i) (X_shift sh d i)"
  using assms
  by (simp add: encodes_def shift_bytes_def x86_decode_rex decode_op_modrm64 decode_modrm64_def
      decode_modrm_register)

lemma mov_imm64_encodes:
  assumes "is_valid_register (reg_int d)"
  shows "encodes (x86_bytes (Emit_mov_r64_imm64 d i)) (X_mov_ri d i)"
proof -
  have small: "ucast (ucast i :: u32) = i" if "i \<le> 0xFFFFFFFF"
  proof -
    from that have "unat i < 2 ^ 32" by (simp add: word_le_nat_alt)
    then have "unat (ucast (ucast i :: u32) :: u64) = unat i"
      by (simp add: unsigned_ucast_eq unsigned_take_bit_eq take_bit_nat_eq_self)
    then show ?thesis by (rule unsigned_word_eqI)
  qed
  have "\<not> 0 < reg_high d \<Longrightarrow> xreg False (reg_low d) = d"
    using low_register(1) [OF assms] by (simp add: word_gt_0)
  with assms small show ?thesis
    by (auto simp: encodes_def x86_decode_rex x86_decode_plain decode_op_def opcode_plus_reg
        low_register)
qed

lemma load_r64_encodes:
  assumes "is_valid_register (reg_int d)" "is_valid_register (reg_int b)"
  shows "encodes (load_r64_bytes d b) (X_load d b 0)"
proof -
  have special: "reg_low b = x \<Longrightarrow> xreg (bit (reg_high b) 0) x = b" for x
    using xreg_high_low [OF assms(2)] by simp
  have "decode_modrm (bit (reg_high d) 0) (bit (reg_high b) 0) (drop 2 (load_r64_bytes d b) @ rest) =
    Some (reg_low d, d, Rm_mem b 0, rest)" for rest
    using assms special [of 4] special [of 5]
    by (auto simp: load_r64_bytes_def decode_modrm_base)
  moreover have "x86_decode (load_r64_bytes d b @ rest) = decode_modrm64 (bit (reg_high d) 0)
      (bit (reg_high b) 0) 0x8B (drop 2 (load_r64_bytes d b) @ rest)" for rest
    by (simp add: load_r64_bytes_def x86_decode_rex decode_op_modrm64)
  ultimately show ?thesis by (simp add: encodes_def decode_modrm64_def)
qed

lemma plain_encodes:
  "encodes (0xE9 # le_bytes32 off) (X_jmp off)"
  "encodes [0xC3] X_ret"
  "encodes [0x0F, 0x0B] X_ud2"
  "encodes ([0x0F, 0x90 + cond_nibble c, modrm_rbp_byte 0] @ le_bytes32 off) (X_setcc c BAL_X86_RBP off)"
  "encodes ([0x0F, 0x80 + cond_nibble c] @ le_bytes32 off) (X_jcc c off)"
  by (simp_all add: encodes_def x86_decode_plain decode_op_def decode_0f_def opcode_plus_cond
      decode_modrm_rbp)

lemma rbp_imm_encodes:
  "encodes (x86_bytes (Emit_add_mem64_rbp_offset_imm off i)) (X_alu_mi Alu_Add BAL_X86_RBP off i)"
  "encodes ([rex_byte 0 0 0, 0x80, modrm_rbp_byte 7] @ le_bytes32 off @ [b]) (X_cmp_m8 BAL_X86_RBP off b)"
  by (auto simp: encodes_def x86_decode_rex decode_op_modrm64 decode_modrm64_def decode_modrm_rbp
      decode_group1_def alu_of_digit_def fits8_scast decode_op_def)

lemma rr_special_encodes:
  assumes "is_valid_register (reg_int d)" "is_valid_register (reg_int r)"
  shows "encodes (rr_bytes 0x8B d r) (X_mov_rr d r)"
    and "encodes (rr_bytes 0x85 r d) (X_test d r)"
  using assms by (simp_all add: encodes_def rr_bytes_decode decode_modrm64_def decode_modrm_register)

lemma decode_modrm_plain:
  assumes "x < 8" "y < 8"
  shows "decode_modrm e False (modrm_byte x y # rest) = Some (x, xreg e x, Rm_reg (xreg False y), rest)"
  using assms by (simp add: decode_modrm_def Let_def)

lemma opt_rex_encodes:
  assumes "is_valid_register (reg_int r)"
  shows "encodes (opt_rex r @ [0x50 + reg_low r]) (X_push r)"
    and "encodes (opt_rex r @ [0x58 + reg_low r]) (X_pop r)"
    and "encodes (opt_rex r @ [0xFF, modrm_byte 4 (reg_low r)]) (X_jmp_r r)"
  using assms xreg_high_low [OF assms]
  by (auto simp: encodes_def opt_rex_def x86_decode_rex x86_decode_plain decode_op_def
      opcode_plus_reg low_register decode_modrm_register decode_modrm_plain)

theorem x86_bytes_encode:
  assumes "x86_valid c"
  shows "encodes (x86_bytes c) (x86_instr_of c)"
proof (cases c)
  case (Emit_mov_r64_imm64 d i)
  then show ?thesis using assms mov_imm64_encodes by simp
next
  case (Emit_add_mem64_rbp_offset_imm off i)
  then show ?thesis using rbp_imm_encodes(1) by simp
next
  case (Emit_jmp_r64 r)
  then show ?thesis using assms opt_rex_encodes(3) [of r] by simp
qed (use assms plain_encodes rbp_imm_encodes(2) in
      \<open>simp_all add: alu_rr_encodes alu_of_opcode_def mem_encodes ri_encodes alu_of_digit_def
        shift_encodes shift_of_digit_def load_r64_encodes opt_rex_encodes rr_special_encodes\<close>)

section \<open>Invariant, safety and errors\<close>

text \<open>
  Only the emitters with an optional REX prefix ask for less room than they use: by one
  byte, for the registers R8 to R15.
\<close>

definition short_room :: "x86_call \<Rightarrow> bool" where
  "short_room c = (case c of
     Emit_push_r64 r \<Rightarrow> reg_int r > 7 | Emit_pop_r64 r \<Rightarrow> reg_int r > 7
   | Emit_jmp_r64 r \<Rightarrow> reg_int r > 7 | _ \<Rightarrow> False)"

lemma x86_bytes_length:
  "length (x86_bytes c) = unat (x86_size c) + (if short_room c then 1 else 0)"
  by (cases c) (auto simp: byte_table_defs short_room_def)

lemma x86_emit_cases:
  assumes "xa_wf a"
  shows "x86_emit a c =
    (if xa_status a \<noteq> BAL_SUCCESS then
       (if x86_masks c then a\<lparr>xa_status := BAL_ERROR_INVALID_ARGUMENT\<rparr> else a)
     else if \<not> x86_valid c then a\<lparr>xa_status := BAL_ERROR_INVALID_ARGUMENT\<rparr>
     else if unat (xa_offset a) + unat (x86_size c) \<le> length (xa_mem a)
     then emit_bytes a (x86_bytes c)
     else a\<lparr>xa_status := BAL_ERROR_INSTRUCTION_OVERFLOW\<rparr>)"
  using assms by (simp add: xa_wf_def x86_emit_guarded emit_guarded_cases)

lemma emit_bytes_oob:
  assumes "xa_wf a" "\<not> xa_oob a"
  shows "xa_oob (emit_bytes a bs) \<longleftrightarrow> length (xa_mem a) < unat (xa_offset a) + length bs"
proof (cases "length (xa_mem a) < unat (xa_offset a) + length bs")
  case True
  with assms show ?thesis
    using poke_bytes_overrun [of a "xa_offset a" bs] xa_wf_mem [of a]
    by (simp add: xa_wf_def poke_bytes_emit)
next
  case False
  with assms show ?thesis
    using xa_wf_mem [of a] by (simp add: xa_wf_def emit_bytes_fits)
qed

lemma emit_bytes_wf:
  assumes "xa_wf a"
  shows "xa_wf (emit_bytes a bs)"
proof (cases "xa_oob a")
  case True
  with assms show ?thesis
    by (simp add: xa_wf_def frame_simps) (simp add: poke_bytes_emit poke_bytes_oob_sticky)
next
  case False
  show ?thesis
  proof (cases "xa_oob (emit_bytes a bs)")
    case True
    with assms show ?thesis by (simp add: xa_wf_def frame_simps)
  next
    case nooob: False
    with assms False have "unat (xa_offset a) + length bs \<le> length (xa_mem a)"
      by (simp add: emit_bytes_oob)
    with assms show ?thesis
      using xa_wf_mem [of a] by (simp add: xa_wf_def frame_simps emit_bytes_fits)
  qed
qed

lemma x86_emit_wf [wf_intros]: "xa_wf a \<Longrightarrow> xa_wf (x86_emit a c)"
  by (simp add: x86_emit_cases emit_bytes_wf) (simp add: xa_wf_def)

lemma x86_emit_frame [frame_simps]:
  assumes "xa_wf a"
  shows "xa_buffer (x86_emit a c) = xa_buffer a" "xa_rx_buffer (x86_emit a c) = xa_rx_buffer a"
    "xa_capacity (x86_emit a c) = xa_capacity a" "xa_rx_writable (x86_emit a c) = xa_rx_writable a"
    "length (xa_mem (x86_emit a c)) = length (xa_mem a)"
    "xa_abort (x86_emit a c) = xa_abort a"
  using assms by (simp_all add: x86_emit_cases frame_simps)

lemma emit_bytes_code:
  assumes "xa_wf a" "\<not> xa_oob a" "\<not> xa_oob (emit_bytes a bs)"
  shows "xa_code (emit_bytes a bs) = xa_code a @ bs"
    and "unat (xa_offset (emit_bytes a bs)) = unat (xa_offset a) + length bs"
  using assms xa_wf_mem [of a] by (simp_all add: emit_bytes_oob emit_bytes_fits xa_wf_def)

lemma emit_bytes_oob_sticky: "xa_wf a \<Longrightarrow> xa_oob a \<Longrightarrow> xa_oob (emit_bytes a bs)"
  by (simp add: xa_wf_def poke_bytes_emit poke_bytes_oob_sticky)

lemma x86_emit_okD:
  assumes "xa_wf a" "xa_ok (x86_emit a c)"
  shows "xa_ok a" "x86_valid c" "x86_emit a c = emit_bytes a (x86_bytes c)"
    "xa_code (x86_emit a c) = xa_code a @ x86_bytes c"
    "unat (xa_offset (x86_emit a c)) = unat (xa_offset a) + length (x86_bytes c)"
proof -
  have *: "xa_status a = BAL_SUCCESS" "x86_valid c" "x86_emit a c = emit_bytes a (x86_bytes c)"
    using assms by (auto simp: x86_emit_cases xa_ok_def split: if_splits)
  then show "x86_valid c" "x86_emit a c = emit_bytes a (x86_bytes c)" by simp_all
  have oob: "\<not> xa_oob (emit_bytes a (x86_bytes c))" "\<not> xa_oob a"
    using assms * emit_bytes_oob_sticky [of a] by (auto simp: xa_ok_def)
  then show "xa_ok a" using * by (simp add: xa_ok_def)
  show "xa_code (x86_emit a c) = xa_code a @ x86_bytes c"
    "unat (xa_offset (x86_emit a c)) = unat (xa_offset a) + length (x86_bytes c)"
    using * oob assms(1) by (simp_all add: emit_bytes_code)
qed

interpretation x86_buffer: code_buffer x86_emit x86_bytes xa_wf xa_ok xa_code
  by unfold_locales (rule x86_emit_wf x86_emit_okD(1) x86_emit_okD(4); assumption)+

lemma x86_calls_encode:
  assumes "xa_wf a" "xa_ok (foldl x86_emit a cs)"
  shows "\<exists>bs. xa_code (foldl x86_emit a cs) = xa_code a @ bs \<and>
     encodes_seq bs (map x86_instr_of cs)"
proof -
  have "xa_wf a \<Longrightarrow> xa_ok (foldl x86_emit a cs) \<Longrightarrow>
      encodes_seq (concat (map x86_bytes cs)) (map x86_instr_of cs)" for a
  proof (induction cs arbitrary: a)
    case (Cons c cs)
    then have "xa_ok (x86_emit a c)" by (auto intro: x86_buffer.run_ok x86_emit_wf)
    with Cons.prems have "x86_valid c" by (auto dest: x86_emit_okD(2))
    then show ?case using Cons.prems Cons.IH [of "x86_emit a c"]
      by (simp add: x86_emit_wf x86_bytes_encode encodes_seq.Cons)
  qed (simp add: encodes_seq.Nil)
  with assms show ?thesis using x86_buffer.run_code by blast
qed

text \<open>A concrete assembler for the examples: \<open>n\<close> zero bytes of code memory.\<close>

definition fresh_assembler :: "nat \<Rightarrow> bal_x86_assembler_t" where
  "fresh_assembler n = \<lparr>xa_buffer = 0x10000, xa_rx_buffer = 0x20000, xa_capacity = of_nat n,
     xa_offset = 0, xa_status = BAL_SUCCESS, xa_mem = replicate n 0, xa_oob = False,
     xa_abort = False, xa_rx_writable = True\<rparr>"

section \<open>Enough room\<close>

text \<open>With room for the bytes and valid arguments the calls succeed.\<close>

definition xa_room :: "nat \<Rightarrow> bal_x86_assembler_t \<Rightarrow> bool" where
  "xa_room n a \<longleftrightarrow> xa_wf a \<and> xa_ok a \<and> unat (xa_offset a) + n \<le> length (xa_mem a)"

lemma x86_emit_room:
  assumes "xa_room (length (x86_bytes c) + n) a" "x86_valid c"
  shows "xa_room n (x86_emit a c)"
proof -
  from assms have wf: "xa_wf a" and st: "xa_status a = BAL_SUCCESS" "\<not> xa_oob a"
    and fit: "unat (xa_offset a) + length (x86_bytes c) + n \<le> length (xa_mem a)"
    by (auto simp: xa_room_def xa_ok_def)
  have e: "x86_emit a c = emit_bytes a (x86_bytes c)"
    using fit st assms(2) by (auto simp: x86_emit_cases [OF wf] x86_bytes_length)
  have "xa_ok (emit_bytes a (x86_bytes c))"
    using fit st by (simp add: xa_ok_def frame_simps emit_bytes_oob [OF wf])
  moreover from this have "unat (xa_offset (x86_emit a c)) = unat (xa_offset a) + length (x86_bytes c)"
    using x86_emit_okD(5) [OF wf, of c] e by simp
  ultimately show ?thesis
    using fit x86_emit_wf [OF wf, of c] by (simp add: xa_room_def e frame_simps)
qed

lemma x86_calls_room:
  "xa_room ((\<Sum>c\<leftarrow>cs. length (x86_bytes c)) + n) a \<Longrightarrow> \<forall>c \<in> set cs. x86_valid c \<Longrightarrow>
   xa_room n (foldl x86_emit a cs)"
  by (induction cs arbitrary: a) (simp_all add: x86_emit_room add.assoc)

lemma xa_room_mono: "xa_room n a \<Longrightarrow> k \<le> n \<Longrightarrow> xa_room k a"
  by (simp add: xa_room_def)

lemma fresh_assembler_room: "n < 2 ^ 64 \<Longrightarrow> xa_room n (fresh_assembler n)"
  by (simp add: xa_room_def xa_wf_def xa_ok_def fresh_assembler_def unat_of_nat take_bit_eq_mod)

section \<open>Properties\<close>

text \<open>
  C4: encoder correctness. Whatever sequence of emitter calls a client makes, if the
  assembler ends without error (and without a write outside the buffer), then the bytes it
  added are machine code for exactly the instructions of the calls, in order: the
  independent decoder of \<open>X86_Isa\<close> reads the intended instructions back.
\<close>

theorem x86_assembler_encodes:
  assumes "xa_wf a" "xa_ok (foldl x86_emit a cs)"
  shows "\<exists>bs. xa_code (foldl x86_emit a cs) = xa_code a @ bs \<and>
     encodes_seq bs (map x86_instr_of cs)"
  using assms by (rule x86_calls_encode)

theorem x86_assembler_encodes_witness:
  "\<exists>bs. xa_code (foldl x86_emit (fresh_assembler 8) [Emit_mov_r64_r64 BAL_X86_RAX BAL_X86_R9, Emit_ret]) =
     xa_code (fresh_assembler 8) @ bs \<and> encodes_seq bs [X_mov_rr BAL_X86_RAX BAL_X86_R9, X_ret]"
proof -
  have wf: "xa_wf (fresh_assembler 8)" by code_simp
  have ok: "xa_ok (foldl x86_emit (fresh_assembler 8)
      [Emit_mov_r64_r64 BAL_X86_RAX BAL_X86_R9, Emit_ret])" by code_simp
  show ?thesis using x86_assembler_encodes [OF wf ok] by simp
qed

text \<open>
  C5: memory safety, exactly. From a well formed assembler a call writes outside the code
  buffer if and only if it is a \<open>push\<close>, \<open>pop\<close> or \<open>jmp\<close> of one of the registers R8 to R15
  and the buffer has exactly the room that \<open>can_emit\<close> was asked for: these three emitters
  test for room before they count the REX prefix.
\<close>

theorem x86_emit_out_of_bounds_iff:
  assumes "xa_wf a" "\<not> xa_oob a"
  shows "xa_oob (x86_emit a c) \<longleftrightarrow>
    xa_status a = BAL_SUCCESS \<and> x86_valid c \<and> short_room c \<and>
    unat (xa_offset a) + unat (x86_size c) = unat (xa_capacity a)"
proof -
  have "unat (xa_capacity a) = length (xa_mem a)" using assms by (simp add: xa_wf_def)
  with assms show ?thesis
    by (auto simp: x86_emit_cases emit_bytes_oob x86_bytes_length)
qed

theorem x86_emit_out_of_bounds_iff_witness:
  "xa_oob (x86_emit ((fresh_assembler 4)\<lparr>xa_offset := 3\<rparr>) (Emit_push_r64 BAL_X86_R12))"
proof -
  have "xa_wf ((fresh_assembler 4)\<lparr>xa_offset := 3\<rparr>)" "\<not> xa_oob ((fresh_assembler 4)\<lparr>xa_offset := 3\<rparr>)"
    by code_simp+
  from x86_emit_out_of_bounds_iff [OF this, of "Emit_push_r64 BAL_X86_R12"]
  show ?thesis by (simp add: fresh_assembler_def short_room_def is_valid_register_def)
qed

text \<open>
  C6: every outcome of a call. The status after the call on every branch (an earlier error,
  kept or overwritten, a bad register or immediate, no room, success), and on every error
  branch the buffer and the position are untouched.
\<close>

theorem x86_emit_status:
  assumes "xa_wf a"
  shows "xa_status (x86_emit a c) =
      (if xa_status a \<noteq> BAL_SUCCESS then
         (if x86_masks c then BAL_ERROR_INVALID_ARGUMENT else xa_status a)
       else if \<not> x86_valid c then BAL_ERROR_INVALID_ARGUMENT
       else if unat (xa_capacity a) < unat (xa_offset a) + unat (x86_size c)
       then BAL_ERROR_INSTRUCTION_OVERFLOW
       else BAL_SUCCESS) \<and>
    (xa_status (x86_emit a c) = BAL_SUCCESS \<or>
     xa_mem (x86_emit a c) = xa_mem a \<and> xa_offset (x86_emit a c) = xa_offset a)"
proof -
  have "unat (xa_capacity a) = length (xa_mem a)" using assms by (simp add: xa_wf_def)
  with assms show ?thesis by (auto simp: x86_emit_cases frame_simps)
qed

theorem x86_emit_status_witness:
  "xa_status (x86_emit (fresh_assembler 2) (Emit_add_r64_r64 BAL_X86_RAX BAL_X86_RCX)) =
     BAL_ERROR_INSTRUCTION_OVERFLOW"
proof -
  have "xa_wf (fresh_assembler 2)" by code_simp
  from x86_emit_status [OF this, of "Emit_add_r64_r64 BAL_X86_RAX BAL_X86_RCX"]
  show ?thesis by (simp add: fresh_assembler_def is_valid_register_def)
qed

text \<open>
  C7: no assertion of the assembler ever fails. The \<open>BAL_ASSERT_MSG\<close> at the end of every
  emitter (the number of bytes written is the announced instruction size) never reaches
  \<open>abort\<close>, over any sequence of calls.
\<close>

theorem x86_assembler_never_aborts:
  assumes "xa_wf a" "\<not> xa_abort a"
  shows "\<not> xa_abort (foldl x86_emit a cs)"
  using assms by (induction cs arbitrary: a) (simp_all add: x86_emit_wf x86_emit_frame)

theorem x86_assembler_never_aborts_witness:
  "\<not> xa_abort (foldl x86_emit (fresh_assembler 2) [Emit_push_r64 BAL_X86_R15, Emit_ud2])"
proof -
  have "xa_wf (fresh_assembler 2)" "\<not> xa_abort (fresh_assembler 2)" by code_simp+
  then show ?thesis by (rule x86_assembler_never_aborts)
qed

end
