(* ===== verification/Bal_Cpu.thy ===== *)
theory Bal_Cpu
  imports Bal_Prelude
begin

text \<open>
  The guest CPU state \<open>bal_cpu_t\<close> (\<open>include/backend/bal_cpu.h\<close>) and the byte offsets of
  its members: 32 registers of 8 bytes, the program counter, a pointer, the four flag
  bytes, 4 bytes of padding and the instruction counter. Generated code reaches the
  members by these offsets from RBP.
\<close>

record bal_cpu_t =
  cpu_x :: "u64 list"
  cpu_pc :: u64
  cpu_debug_context :: u64
  cpu_flag_c :: u8
  cpu_flag_z :: u8
  cpu_flag_n :: u8
  cpu_flag_v :: u8
  cpu_instruction_count :: u64

definition offset_x :: "nat \<Rightarrow> u64" where
  "offset_x i = of_nat (8 * i)"

definition offset_pc :: u64 where "offset_pc = 256"
definition offset_debug_context :: u64 where "offset_debug_context = 264"
definition offset_flag_c :: u64 where "offset_flag_c = 272"
definition offset_flag_z :: u64 where "offset_flag_z = 273"
definition offset_flag_n :: u64 where "offset_flag_n = 274"
definition offset_flag_v :: u64 where "offset_flag_v = 275"
definition offset_instruction_count :: u64 where "offset_instruction_count = 280"

lemmas cpu_offset_defs =
  offset_pc_def offset_debug_context_def offset_flag_c_def offset_flag_z_def
  offset_flag_n_def offset_flag_v_def offset_instruction_count_def

end
