(* ===== verification/Sliding_Window.thy ===== *)
theory Sliding_Window
  imports X86_Assembler_Facts Bal_Cpu
begin

text \<open>
  The sliding window (\<open>bal_x86_sliding_window.c\<close>): a buffer of up to four macro
  instructions between the block compiler and the assembler, with a peephole pass after
  every push. The structure's pointer to its assembler is a flag here (is it set); the
  operations take and return the window together with the assembler it points to. Log
  calls and the name tables of the debug log are left out.
\<close>

section \<open>State\<close>

datatype bal_x86_macro_opcode_t =
    BAL_X86_MACRO_NOP
  | BAL_X86_MACRO_ADD_CPU_ICOUNT
  | BAL_X86_MACRO_ADD_REGISTER_IMMEDIATE
  | BAL_X86_MACRO_ADD_REGISTER_REGISTER
  | BAL_X86_MACRO_AND_REGISTER_IMMEDIATE
  | BAL_X86_MACRO_AND_REGISTER_REGISTER
  | BAL_X86_MACRO_JCC_RELATIVE
  | BAL_X86_MACRO_JMP_REGISTER
  | BAL_X86_MACRO_JMP_RELATIVE
  | BAL_X86_MACRO_LOAD
  | BAL_X86_MACRO_MOV_REGISTER_IMMEDIATE
  | BAL_X86_MACRO_MOV_REGISTER_REGISTER
  | BAL_X86_MACRO_OR_REGISTER_IMMEDIATE
  | BAL_X86_MACRO_OR_REGISTER_REGISTER
  | BAL_X86_MACRO_RET
  | BAL_X86_MACRO_ROR_REGISTER_IMMEDIATE
  | BAL_X86_MACRO_SAR_REGISTER_IMMEDIATE
  | BAL_X86_MACRO_SETCC
  | BAL_X86_MACRO_SHL_REGISTER_IMMEDIATE
  | BAL_X86_MACRO_SHR_REGISTER_IMMEDIATE
  | BAL_X86_MACRO_STORE
  | BAL_X86_MACRO_SUB_REGISTER_IMMEDIATE
  | BAL_X86_MACRO_SUB_REGISTER_REGISTER
  | BAL_X86_MACRO_TEST_REGISTER_REGISTER
  | BAL_X86_MACRO_UD2
  | BAL_X86_MACRO_XOR_REGISTER_REGISTER

record bal_x86_macro_t =
  mc_opcode :: bal_x86_macro_opcode_t
  mc_destination :: bal_x86_register_t
  mc_source :: bal_x86_register_t
  mc_immediate_or_offset :: u64
  mc_condition :: bal_x86_condition_t

text \<open>The members a designated initialiser does not name are zero.\<close>

definition macro_zero :: bal_x86_macro_t where
  "macro_zero = \<lparr>mc_opcode = BAL_X86_MACRO_NOP, mc_destination = BAL_X86_RAX,
     mc_source = BAL_X86_RAX, mc_immediate_or_offset = 0, mc_condition = BAL_X86_COND_O\<rparr>"

definition BAL_SLIDING_WINDOW_CAPACITY :: nat where
  "BAL_SLIDING_WINDOW_CAPACITY = 4"

record bal_sliding_window_t =
  sw_assembler :: bool
  sw_count :: nat
  sw_macros :: "bal_x86_macro_t list"

type_synonym window_state = "bal_sliding_window_t \<times> bal_x86_assembler_t"

definition ASSEMBLER_TEMPORARY_REGISTER :: bal_x86_register_t where
  "ASSEMBLER_TEMPORARY_REGISTER = BAL_X86_R11"

definition INT32_MAX :: u64 where
  "INT32_MAX = 0x7FFFFFFF"

section \<open>Operations\<close>

definition bal_sliding_window_init ::
  "bal_sliding_window_t option \<Rightarrow> bal_x86_assembler_t option \<Rightarrow>
   bal_error_t \<times> bal_sliding_window_t option \<times> bal_x86_assembler_t option" where
  "bal_sliding_window_init window assembler =
    (case assembler of None \<Rightarrow> (BAL_ERROR_INVALID_ARGUMENT, window, None)
     | Some a \<Rightarrow>
       (case window of
          None \<Rightarrow> (BAL_ERROR_INVALID_ARGUMENT, None,
                    Some (a\<lparr>xa_status := BAL_ERROR_INVALID_ARGUMENT\<rparr>))
        | Some w \<Rightarrow>
          if xa_status a \<noteq> BAL_SUCCESS then (xa_status a, Some w, Some a)
          else (BAL_SUCCESS,
                Some \<lparr>sw_assembler = True, sw_count = 0,
                  sw_macros = replicate BAL_SLIDING_WINDOW_CAPACITY macro_zero\<rparr>, Some a)))"

text \<open>\<open>memset(window->macros, 0, sizeof(*window->macros))\<close> clears the first macro only.\<close>

definition bal_sliding_window_reset :: "bal_sliding_window_t \<Rightarrow> bal_sliding_window_t" where
  "bal_sliding_window_reset window =
     window\<lparr>sw_count := 0, sw_macros := (sw_macros window)[0 := macro_zero]\<rparr>"

definition flush_single_macro ::
  "bal_x86_assembler_t \<Rightarrow> bal_x86_macro_t \<Rightarrow> bal_x86_assembler_t" where
  "flush_single_macro assembler macro =
    (if xa_status assembler \<noteq> BAL_SUCCESS then assembler
     else
      (let destination = mc_destination macro;
           source = mc_source macro;
           immediate_or_offset = mc_immediate_or_offset macro in
       case mc_opcode macro of
         BAL_X86_MACRO_NOP \<Rightarrow> assembler
       | BAL_X86_MACRO_ADD_CPU_ICOUNT \<Rightarrow>
           bal_x86_emit_add_mem64_rbp_offset_imm assembler
             (ucast offset_instruction_count) (ucast immediate_or_offset)
       | BAL_X86_MACRO_ADD_REGISTER_IMMEDIATE \<Rightarrow>
           bal_x86_emit_add_r64_imm32 assembler destination (ucast immediate_or_offset)
       | BAL_X86_MACRO_ADD_REGISTER_REGISTER \<Rightarrow>
           bal_x86_emit_add_r64_r64 assembler destination source
       | BAL_X86_MACRO_AND_REGISTER_IMMEDIATE \<Rightarrow>
           (let assembler = bal_x86_emit_mov_r64_imm64 assembler
                  ASSEMBLER_TEMPORARY_REGISTER immediate_or_offset in
            bal_x86_emit_and_r64_r64 assembler destination ASSEMBLER_TEMPORARY_REGISTER)
       | BAL_X86_MACRO_AND_REGISTER_REGISTER \<Rightarrow>
           bal_x86_emit_and_r64_r64 assembler destination source
       | BAL_X86_MACRO_JCC_RELATIVE \<Rightarrow>
           if immediate_or_offset \<le> INT32_MAX then
             bal_x86_emit_jcc_rel32 assembler (mc_condition macro) (ucast immediate_or_offset)
           else assembler\<lparr>xa_status := BAL_ERROR_BRANCH_OFFSET_OVERFLOW\<rparr>
       | BAL_X86_MACRO_JMP_REGISTER \<Rightarrow> bal_x86_emit_jmp_r64 assembler destination
       | BAL_X86_MACRO_JMP_RELATIVE \<Rightarrow>
           if immediate_or_offset \<le> INT32_MAX then
             bal_x86_emit_jmp_rel32 assembler (ucast immediate_or_offset)
           else assembler\<lparr>xa_status := BAL_ERROR_BRANCH_OFFSET_OVERFLOW\<rparr>
       | BAL_X86_MACRO_LOAD \<Rightarrow>
           bal_x86_emit_load_r64_rbp_offset assembler destination (ucast immediate_or_offset)
       | BAL_X86_MACRO_MOV_REGISTER_IMMEDIATE \<Rightarrow>
           bal_x86_emit_mov_r64_imm64 assembler destination immediate_or_offset
       | BAL_X86_MACRO_MOV_REGISTER_REGISTER \<Rightarrow>
           bal_x86_emit_mov_r64_r64 assembler destination source
       | BAL_X86_MACRO_OR_REGISTER_IMMEDIATE \<Rightarrow>
           (let assembler = bal_x86_emit_mov_r64_imm64 assembler
                  ASSEMBLER_TEMPORARY_REGISTER immediate_or_offset in
            bal_x86_emit_or_r64_r64 assembler destination ASSEMBLER_TEMPORARY_REGISTER)
       | BAL_X86_MACRO_OR_REGISTER_REGISTER \<Rightarrow>
           bal_x86_emit_or_r64_r64 assembler destination source
       | BAL_X86_MACRO_ROR_REGISTER_IMMEDIATE \<Rightarrow>
           bal_x86_emit_ror_r64_imm8 assembler destination (ucast immediate_or_offset)
       | BAL_X86_MACRO_SAR_REGISTER_IMMEDIATE \<Rightarrow>
           bal_x86_emit_sar_r64_imm8 assembler destination (ucast immediate_or_offset)
       | BAL_X86_MACRO_SETCC \<Rightarrow>
           bal_x86_emit_setcc_mem8_rbp_offset assembler (mc_condition macro)
             (ucast immediate_or_offset)
       | BAL_X86_MACRO_SHL_REGISTER_IMMEDIATE \<Rightarrow>
           bal_x86_emit_shl_r64_imm8 assembler destination (ucast immediate_or_offset)
       | BAL_X86_MACRO_SHR_REGISTER_IMMEDIATE \<Rightarrow>
           bal_x86_emit_shr_r64_imm8 assembler destination (ucast immediate_or_offset)
       | BAL_X86_MACRO_STORE \<Rightarrow>
           bal_x86_emit_store_r64_rbp_offset assembler source (ucast immediate_or_offset)
       | BAL_X86_MACRO_SUB_REGISTER_IMMEDIATE \<Rightarrow>
           bal_x86_emit_sub_r64_imm32 assembler destination (ucast immediate_or_offset)
       | BAL_X86_MACRO_SUB_REGISTER_REGISTER \<Rightarrow>
           bal_x86_emit_sub_r64_r64 assembler destination source
       | BAL_X86_MACRO_UD2 \<Rightarrow> bal_x86_emit_ud2 assembler
       | BAL_X86_MACRO_XOR_REGISTER_REGISTER \<Rightarrow>
           bal_x86_emit_xor_r64_r64 assembler destination source
       | _ \<Rightarrow> assembler))"

text \<open>The loop over the queued macros, shared by the push of a fifth macro and the flush.\<close>

definition flush_macros ::
  "bal_x86_assembler_t \<Rightarrow> bal_x86_macro_t list \<Rightarrow> nat \<Rightarrow> bal_x86_assembler_t" where
  "flush_macros assembler macros window_count =
     foldl flush_single_macro assembler (take window_count macros)"

definition run_peephole_optimizer :: "window_state \<Rightarrow> window_state" where
  "run_peephole_optimizer ws =
    (let (window, assembler) = ws; count = sw_count window in
     if \<not> sw_assembler window then ws
     else if count = 0 then ws
     else if xa_status assembler \<noteq> BAL_SUCCESS then ws
     else
      (let macro1 = sw_macros window ! (count - 1) in
       if mc_opcode macro1 = BAL_X86_MACRO_MOV_REGISTER_REGISTER \<and>
          mc_destination macro1 = mc_source macro1 then
         (window\<lparr>sw_macros := (sw_macros window)
            [count - 1 := macro1\<lparr>mc_opcode := BAL_X86_MACRO_NOP\<rparr>]\<rparr>, assembler)
       else if count < 2 then ws
       else
        (let macro2 = sw_macros window ! (count - 2) in
         if mc_opcode macro1 = BAL_X86_MACRO_MOV_REGISTER_REGISTER \<and>
            mc_opcode macro2 = BAL_X86_MACRO_MOV_REGISTER_REGISTER then
           (if mc_destination macro1 = mc_destination macro2 \<and>
               mc_source macro1 = mc_source macro2 then
              (window\<lparr>sw_macros := (sw_macros window)
                 [count - 2 := macro2\<lparr>mc_opcode := BAL_X86_MACRO_NOP\<rparr>]\<rparr>, assembler)
            else ws)
         else ws)))"

definition bal_sliding_window_push :: "window_state \<Rightarrow> bal_x86_macro_t \<Rightarrow> window_state" where
  "bal_sliding_window_push ws macro =
    (let (window, assembler) = ws in
     if \<not> sw_assembler window then ws
     else
      (let window_count = sw_count window;
           (assembler, window_count) =
             (if window_count = BAL_SLIDING_WINDOW_CAPACITY
              then (flush_macros assembler (sw_macros window) window_count, 0)
              else (assembler, window_count));
           window = window\<lparr>sw_macros := (sw_macros window)[window_count := macro]\<rparr>;
           window = window\<lparr>sw_count := window_count + 1\<rparr>
       in run_peephole_optimizer (window, assembler)))"

definition bal_sliding_window_flush_all :: "window_state \<Rightarrow> window_state" where
  "bal_sliding_window_flush_all ws =
    (let (window, assembler) = ws in
     if \<not> sw_assembler window then ws
     else (window\<lparr>sw_count := 0\<rparr>,
           flush_macros assembler (sw_macros window) (sw_count window)))"

end
