(* ===== verification/Macro_Buffer.thy ===== *)
theory Macro_Buffer
  imports Main
begin

text \<open>
  What the block compiler relies on in the layer below it: a buffer that macro
  instructions are pushed into and that is flushed at block boundaries. \<open>denotes b f\<close>
  says that the code emitted so far followed by what is still queued computes the
  partial state transformer \<open>f\<close>. Pushing composes with the effect of the macro (whatever
  optimisation happens inside), flushing changes nothing.
\<close>

primrec run_effects :: "('m \<Rightarrow> 's \<Rightarrow> 's option) \<Rightarrow> 'm list \<Rightarrow> 's \<Rightarrow> 's option" where
  "run_effects eff [] s = Some s"
| "run_effects eff (m # ms) s = Option.bind (eff m s) (run_effects eff ms)"

lemma run_effects_Cons_fun:
  "run_effects eff (m # ms) = (\<lambda>s. Option.bind (eff m s) (run_effects eff ms))"
  by (rule ext) simp

lemma run_effects_append:
  "run_effects eff (ms @ ns) s = Option.bind (run_effects eff ms s) (run_effects eff ns)"
  by (induction ms arbitrary: s) (auto split: Option.bind_split)

locale macro_buffer =
  fixes push :: "'b \<Rightarrow> 'm \<Rightarrow> 'b"
    and flush :: "'b \<Rightarrow> 'b"
    and wf :: "'b \<Rightarrow> bool"
    and ok :: "'b \<Rightarrow> bool"
    and good :: "'m \<Rightarrow> bool"
    and effect :: "'m \<Rightarrow> 's \<Rightarrow> 's option"
    and denotes :: "'b \<Rightarrow> ('s \<Rightarrow> 's option) \<Rightarrow> bool"
  assumes push_wf: "wf b \<Longrightarrow> wf (push b m)"
    and flush_wf: "wf b \<Longrightarrow> wf (flush b)"
    and push_ok: "wf b \<Longrightarrow> ok (push b m) \<Longrightarrow> ok b"
    and flush_ok: "wf b \<Longrightarrow> ok (flush b) \<Longrightarrow> ok b"
    and push_denotes: "wf b \<Longrightarrow> good m \<Longrightarrow> ok (push b m) \<Longrightarrow> denotes b f \<Longrightarrow>
      denotes (push b m) (\<lambda>s. Option.bind (f s) (effect m))"
    and flush_denotes: "wf b \<Longrightarrow> ok (flush b) \<Longrightarrow> denotes b f \<Longrightarrow> denotes (flush b) f"
begin

lemma pushes_wf: "wf b \<Longrightarrow> wf (foldl push b ms)"
  by (induction ms arbitrary: b) (simp_all add: push_wf)

lemma pushes_ok: "wf b \<Longrightarrow> ok (foldl push b ms) \<Longrightarrow> ok b"
  by (induction ms arbitrary: b) (auto dest: push_ok intro: push_wf)

lemma pushes_denotes:
  "wf b \<Longrightarrow> (\<forall>m \<in> set ms. good m) \<Longrightarrow> ok (foldl push b ms) \<Longrightarrow> denotes b f \<Longrightarrow>
   denotes (foldl push b ms) (\<lambda>s. Option.bind (f s) (run_effects effect ms))"
proof (induction ms arbitrary: b f)
  case (Cons m ms)
  then have "ok (push b m)" by (auto dest: pushes_ok [OF push_wf])
  with Cons.prems have "denotes (push b m) (\<lambda>s. Option.bind (f s) (effect m))"
    by (simp add: push_denotes)
  from Cons.IH [OF push_wf [OF Cons.prems(1)] _ _ this] Cons.prems show ?case
    by (simp add: run_effects_Cons_fun)
next
  case Nil
  have "run_effects effect [] = Some" by (rule ext) simp
  with Nil show ?case by simp
qed

lemma program_denotes:
  "wf b \<Longrightarrow> (\<forall>m \<in> set ms. good m) \<Longrightarrow> ok (flush (foldl push b ms)) \<Longrightarrow> denotes b f \<Longrightarrow>
   denotes (flush (foldl push b ms)) (\<lambda>s. Option.bind (f s) (run_effects effect ms))"
  by (simp add: flush_denotes pushes_denotes pushes_wf flush_ok)

end

end
