(* ===== verification/Sliding_Window_Facts.thy ===== *)
theory Sliding_Window_Facts
  imports Sliding_Window Macro_Buffer
begin

text \<open>
  The sliding window against its specification: what each macro means
  (\<open>macro_program\<close>), that lowering emits that program, that the peephole pass keeps the
  meaning of the queue, and that the window implements the \<open>macro_buffer\<close> contract.
\<close>

section \<open>The meaning of macros\<close>

text \<open>
  The machine program a macro stands for, from the names and the comments of
  \<open>bal_x86_macro_opcode_t\<close>.
\<close>

definition macro_program :: "bal_x86_macro_t \<Rightarrow> x86_instr list" where
  "macro_program m =
    (let d = mc_destination m; r = mc_source m; i = mc_immediate_or_offset m in
     case mc_opcode m of
       BAL_X86_MACRO_NOP \<Rightarrow> []
     | BAL_X86_MACRO_ADD_CPU_ICOUNT \<Rightarrow>
         [X_alu_mi Alu_Add BAL_X86_RBP (ucast offset_instruction_count) (ucast i)]
     | BAL_X86_MACRO_ADD_REGISTER_IMMEDIATE \<Rightarrow> [X_alu_ri Alu_Add d (ucast i)]
     | BAL_X86_MACRO_ADD_REGISTER_REGISTER \<Rightarrow> [X_alu_rr Alu_Add d r]
     | BAL_X86_MACRO_AND_REGISTER_IMMEDIATE \<Rightarrow>
         [X_mov_ri BAL_X86_R11 i, X_alu_rr Alu_And d BAL_X86_R11]
     | BAL_X86_MACRO_AND_REGISTER_REGISTER \<Rightarrow> [X_alu_rr Alu_And d r]
     | BAL_X86_MACRO_JCC_RELATIVE \<Rightarrow> [X_jcc (mc_condition m) (ucast i)]
     | BAL_X86_MACRO_JMP_REGISTER \<Rightarrow> [X_jmp_r d]
     | BAL_X86_MACRO_JMP_RELATIVE \<Rightarrow> [X_jmp (ucast i)]
     | BAL_X86_MACRO_LOAD \<Rightarrow> [X_load d BAL_X86_RBP (ucast i)]
     | BAL_X86_MACRO_MOV_REGISTER_IMMEDIATE \<Rightarrow> [X_mov_ri d i]
     | BAL_X86_MACRO_MOV_REGISTER_REGISTER \<Rightarrow> [X_mov_rr d r]
     | BAL_X86_MACRO_OR_REGISTER_IMMEDIATE \<Rightarrow>
         [X_mov_ri BAL_X86_R11 i, X_alu_rr Alu_Or d BAL_X86_R11]
     | BAL_X86_MACRO_OR_REGISTER_REGISTER \<Rightarrow> [X_alu_rr Alu_Or d r]
     | BAL_X86_MACRO_RET \<Rightarrow> [X_ret]
     | BAL_X86_MACRO_ROR_REGISTER_IMMEDIATE \<Rightarrow> [X_shift Sh_Ror d (ucast i)]
     | BAL_X86_MACRO_SAR_REGISTER_IMMEDIATE \<Rightarrow> [X_shift Sh_Sar d (ucast i)]
     | BAL_X86_MACRO_SETCC \<Rightarrow> [X_setcc (mc_condition m) BAL_X86_RBP (ucast i)]
     | BAL_X86_MACRO_SHL_REGISTER_IMMEDIATE \<Rightarrow> [X_shift Sh_Shl d (ucast i)]
     | BAL_X86_MACRO_SHR_REGISTER_IMMEDIATE \<Rightarrow> [X_shift Sh_Shr d (ucast i)]
     | BAL_X86_MACRO_STORE \<Rightarrow> [X_store BAL_X86_RBP (ucast i) r]
     | BAL_X86_MACRO_SUB_REGISTER_IMMEDIATE \<Rightarrow> [X_alu_ri Alu_Sub d (ucast i)]
     | BAL_X86_MACRO_SUB_REGISTER_REGISTER \<Rightarrow> [X_alu_rr Alu_Sub d r]
     | BAL_X86_MACRO_TEST_REGISTER_REGISTER \<Rightarrow> [X_test d r]
     | BAL_X86_MACRO_UD2 \<Rightarrow> [X_ud2]
     | BAL_X86_MACRO_XOR_REGISTER_REGISTER \<Rightarrow> [X_alu_rr Alu_Xor d r])"

definition macro_exec :: "bal_x86_macro_t \<Rightarrow> x86_state \<Rightarrow> x86_state option" where
  "macro_exec m = x86_exec (macro_program m)"

text \<open>The emitter calls that lowering makes for a macro (none for RET and TEST).\<close>

definition macro_calls :: "bal_x86_macro_t \<Rightarrow> x86_call list" where
  "macro_calls m =
    (let d = mc_destination m; r = mc_source m; i = mc_immediate_or_offset m in
     case mc_opcode m of
       BAL_X86_MACRO_NOP \<Rightarrow> []
     | BAL_X86_MACRO_ADD_CPU_ICOUNT \<Rightarrow>
         [Emit_add_mem64_rbp_offset_imm (ucast offset_instruction_count) (ucast i)]
     | BAL_X86_MACRO_ADD_REGISTER_IMMEDIATE \<Rightarrow> [Emit_add_r64_imm32 d (ucast i)]
     | BAL_X86_MACRO_ADD_REGISTER_REGISTER \<Rightarrow> [Emit_add_r64_r64 d r]
     | BAL_X86_MACRO_AND_REGISTER_IMMEDIATE \<Rightarrow>
         [Emit_mov_r64_imm64 BAL_X86_R11 i, Emit_and_r64_r64 d BAL_X86_R11]
     | BAL_X86_MACRO_AND_REGISTER_REGISTER \<Rightarrow> [Emit_and_r64_r64 d r]
     | BAL_X86_MACRO_JCC_RELATIVE \<Rightarrow> [Emit_jcc_rel32 (mc_condition m) (ucast i)]
     | BAL_X86_MACRO_JMP_REGISTER \<Rightarrow> [Emit_jmp_r64 d]
     | BAL_X86_MACRO_JMP_RELATIVE \<Rightarrow> [Emit_jmp_rel32 (ucast i)]
     | BAL_X86_MACRO_LOAD \<Rightarrow> [Emit_load_r64_rbp_offset d (ucast i)]
     | BAL_X86_MACRO_MOV_REGISTER_IMMEDIATE \<Rightarrow> [Emit_mov_r64_imm64 d i]
     | BAL_X86_MACRO_MOV_REGISTER_REGISTER \<Rightarrow> [Emit_mov_r64_r64 d r]
     | BAL_X86_MACRO_OR_REGISTER_IMMEDIATE \<Rightarrow>
         [Emit_mov_r64_imm64 BAL_X86_R11 i, Emit_or_r64_r64 d BAL_X86_R11]
     | BAL_X86_MACRO_OR_REGISTER_REGISTER \<Rightarrow> [Emit_or_r64_r64 d r]
     | BAL_X86_MACRO_RET \<Rightarrow> []
     | BAL_X86_MACRO_ROR_REGISTER_IMMEDIATE \<Rightarrow> [Emit_ror_r64_imm8 d (ucast i)]
     | BAL_X86_MACRO_SAR_REGISTER_IMMEDIATE \<Rightarrow> [Emit_sar_r64_imm8 d (ucast i)]
     | BAL_X86_MACRO_SETCC \<Rightarrow> [Emit_setcc_mem8_rbp_offset (mc_condition m) (ucast i)]
     | BAL_X86_MACRO_SHL_REGISTER_IMMEDIATE \<Rightarrow> [Emit_shl_r64_imm8 d (ucast i)]
     | BAL_X86_MACRO_SHR_REGISTER_IMMEDIATE \<Rightarrow> [Emit_shr_r64_imm8 d (ucast i)]
     | BAL_X86_MACRO_STORE \<Rightarrow> [Emit_store_r64_rbp_offset r (ucast i)]
     | BAL_X86_MACRO_SUB_REGISTER_IMMEDIATE \<Rightarrow> [Emit_sub_r64_imm32 d (ucast i)]
     | BAL_X86_MACRO_SUB_REGISTER_REGISTER \<Rightarrow> [Emit_sub_r64_r64 d r]
     | BAL_X86_MACRO_TEST_REGISTER_REGISTER \<Rightarrow> []
     | BAL_X86_MACRO_UD2 \<Rightarrow> [Emit_ud2]
     | BAL_X86_MACRO_XOR_REGISTER_REGISTER \<Rightarrow> [Emit_xor_r64_r64 d r])"

definition branch_in_range :: "bal_x86_macro_t \<Rightarrow> bool" where
  "branch_in_range m \<longleftrightarrow>
     (mc_opcode m \<in> {BAL_X86_MACRO_JCC_RELATIVE, BAL_X86_MACRO_JMP_RELATIVE} \<longrightarrow>
      mc_immediate_or_offset m \<le> INT32_MAX)"

definition lowered :: "bal_x86_macro_t \<Rightarrow> bool" where
  "lowered m \<longleftrightarrow>
     mc_opcode m \<notin> {BAL_X86_MACRO_RET, BAL_X86_MACRO_TEST_REGISTER_REGISTER}"

lemma lowered_calls: "lowered m \<Longrightarrow> map x86_instr_of (macro_calls m) = macro_program m"
  by (cases "mc_opcode m") (simp_all add: lowered_def macro_calls_def macro_program_def Let_def)

lemma flush_single_calls:
  assumes "xa_status a = BAL_SUCCESS"
  shows "flush_single_macro a m =
    (if branch_in_range m then foldl x86_emit a (macro_calls m)
     else a\<lparr>xa_status := BAL_ERROR_BRANCH_OFFSET_OVERFLOW\<rparr>)"
  using assms
  by (cases "mc_opcode m")
    (simp_all add: flush_single_macro_def macro_calls_def branch_in_range_def Let_def
      ASSEMBLER_TEMPORARY_REGISTER_def)

lemma flush_single_error: "xa_status a \<noteq> BAL_SUCCESS \<Longrightarrow> flush_single_macro a m = a"
  by (simp add: flush_single_macro_def)

lemma flush_single_wf [wf_intros]: "xa_wf a \<Longrightarrow> xa_wf (flush_single_macro a m)"
  by (cases "xa_status a = BAL_SUCCESS")
    (simp_all add: flush_single_calls flush_single_error x86_buffer.run_wf, simp add: xa_wf_def)

text \<open>Lowering one macro emits its program, or nothing for the two macros that are dropped.\<close>

lemma dropped_calls: "\<not> lowered m \<Longrightarrow> macro_calls m = []"
  by (auto simp: lowered_def macro_calls_def Let_def)

lemma flush_single_code:
  assumes "xa_wf a" "xa_ok (flush_single_macro a m)"
  shows "xa_ok a" "\<exists>bs. xa_code (flush_single_macro a m) = xa_code a @ bs \<and>
           encodes_seq bs (if lowered m then macro_program m else [])"
proof -
  have st: "xa_status a = BAL_SUCCESS" "branch_in_range m"
    using assms(2) by (cases "xa_status a = BAL_SUCCESS";
      simp add: flush_single_calls flush_single_error xa_ok_def split: if_splits)+
  then have fl: "flush_single_macro a m = foldl x86_emit a (macro_calls m)"
    by (simp add: flush_single_calls)
  with assms show "xa_ok a" by (metis x86_buffer.run_ok)
  from x86_calls_encode [OF assms(1), of "macro_calls m"] assms(2) fl
  show "\<exists>bs. xa_code (flush_single_macro a m) = xa_code a @ bs \<and>
           encodes_seq bs (if lowered m then macro_program m else [])"
    by (auto simp: lowered_calls dropped_calls)
qed

lemma flush_single_ok: "xa_wf a \<Longrightarrow> xa_ok (flush_single_macro a m) \<Longrightarrow> xa_ok a"
  by (cases "xa_status a = BAL_SUCCESS")
    (auto simp: flush_single_calls flush_single_error xa_ok_def [of "a\<lparr>xa_status := x\<rparr>" for x]
      split: if_splits dest: x86_buffer.run_ok)

section \<open>Flushing a list of macros\<close>

definition macros_program :: "bal_x86_macro_t list \<Rightarrow> x86_instr list" where
  "macros_program ms = concat (map macro_program ms)"

lemma flush_list_wf [wf_intros]: "xa_wf a \<Longrightarrow> xa_wf (foldl flush_single_macro a ms)"
  by (induction ms arbitrary: a) (simp_all add: flush_single_wf)

lemma flush_list_ok: "xa_wf a \<Longrightarrow> xa_ok (foldl flush_single_macro a ms) \<Longrightarrow> xa_ok a"
  by (induction ms arbitrary: a) (auto dest: flush_single_ok intro: flush_single_wf)

lemma flush_list_code:
  "xa_wf a \<Longrightarrow> xa_ok (foldl flush_single_macro a ms) \<Longrightarrow>
   \<exists>bs. xa_code (foldl flush_single_macro a ms) = xa_code a @ bs \<and>
     encodes_seq bs (macros_program (filter lowered ms))"
proof (induction ms arbitrary: a)
  case (Cons m ms)
  let ?a = "flush_single_macro a m"
  have wf: "xa_wf ?a" using Cons.prems by (simp add: flush_single_wf)
  have ok: "xa_ok ?a" using Cons.prems flush_list_ok [OF wf] by simp
  from flush_single_code(2) [OF _ ok] Cons.prems obtain bs where
    bs: "xa_code ?a = xa_code a @ bs" "encodes_seq bs (if lowered m then macro_program m else [])" by auto
  from Cons.IH [OF wf] Cons.prems obtain cs where
    cs: "xa_code (foldl flush_single_macro ?a ms) = xa_code ?a @ cs"
      "encodes_seq cs (macros_program (filter lowered ms))" by auto
  have "encodes_seq (bs @ cs) (macros_program (filter lowered (m # ms)))"
    using encodes_seq_append [OF bs(2) cs(2)] by (simp add: macros_program_def split: if_splits)
  with bs(1) cs(1) show ?case by auto
qed (auto simp: macros_program_def intro: encodes_seq.Nil)

lemma lowered_filter: "list_all lowered ms \<Longrightarrow> filter lowered ms = ms"
  by (simp add: list_all_iff)

section \<open>The meaning of a queue\<close>

definition macros_exec :: "bal_x86_macro_t list \<Rightarrow> x86_state \<Rightarrow> x86_state option" where
  "macros_exec ms = x86_exec (macros_program ms)"

lemma macros_exec_simps [simp]:
  "macros_exec [] s = Some s"
  "macros_exec (m # ms) s = Option.bind (macro_exec m s) (macros_exec ms)"
  "macros_exec (ms @ ns) s = Option.bind (macros_exec ms s) (macros_exec ns)"
  by (simp_all add: macros_exec_def macro_exec_def macros_program_def x86_exec_append)

lemma macros_exec_effects: "macros_exec ms s = run_effects macro_exec ms s"
proof (induction ms arbitrary: s)
  case (Cons m ms)
  then have "macros_exec ms = run_effects macro_exec ms" by (rule ext)
  then show ?case by simp
qed simp

lemma macros_exec_Nil_fun [simp]: "macros_exec [] = Some"
  by (rule ext) simp

lemma macro_exec_nop [simp]: "mc_opcode m = BAL_X86_MACRO_NOP \<Longrightarrow> macro_exec m s = Some s"
  by (simp add: macro_exec_def macro_program_def Let_def)

lemma macro_exec_mov:
  "mc_opcode m = BAL_X86_MACRO_MOV_REGISTER_REGISTER \<Longrightarrow>
   macro_exec m s = Some (write_reg (mc_destination m) (xs_reg s (mc_source m)) s)"
  by (simp add: macro_exec_def macro_program_def Let_def)

lemma write_reg_same: "write_reg r (xs_reg s r) s = s"
  by (simp add: write_reg_def)

lemma write_reg_twice:
  "write_reg d (xs_reg (write_reg d (xs_reg s r) s) r) (write_reg d (xs_reg s r) s) =
   write_reg d (xs_reg s r) s"
  by (simp add: write_reg_def)

definition pending :: "bal_sliding_window_t \<Rightarrow> bal_x86_macro_t list" where
  "pending w = take (sw_count w) (sw_macros w)"

lemma take_last_two:
  "Suc (Suc n) \<le> length xs \<Longrightarrow> take (Suc (Suc n)) xs = take n xs @ [xs ! n, xs ! Suc n]"
  by (simp add: take_Suc_conv_app_nth)

lemma list_all_take_update: "list_all P (take n xs) \<Longrightarrow> P y \<Longrightarrow> list_all P (take n (xs[k := y]))"
  using set_update_subset_insert [of "take n xs" k y] by (auto simp: list_all_iff take_update_swap)

section \<open>The invariant and the peephole pass\<close>

definition sw_wf :: "window_state \<Rightarrow> bool" where
  "sw_wf ws = (case ws of (w, a) \<Rightarrow> sw_assembler w \<and>
     sw_count w \<le> BAL_SLIDING_WINDOW_CAPACITY \<and>
     length (sw_macros w) = BAL_SLIDING_WINDOW_CAPACITY \<and> xa_wf a)"

definition sw_ok :: "window_state \<Rightarrow> bool" where
  "sw_ok ws = xa_ok (snd ws)"

text \<open>
  What the pass does to the queue: nothing, or one MOV that changes no register is
  replaced by a NOP: a MOV of a register to itself, or the first of two equal ones that
  follow each other.
\<close>

definition is_mov :: "bal_x86_macro_t \<Rightarrow> bool" where
  "is_mov m \<longleftrightarrow> mc_opcode m = BAL_X86_MACRO_MOV_REGISTER_REGISTER"

definition as_nop :: "bal_x86_macro_t \<Rightarrow> bal_x86_macro_t" where
  "as_nop m = m\<lparr>mc_opcode := BAL_X86_MACRO_NOP\<rparr>"

inductive removes_move :: "bal_x86_macro_t list \<Rightarrow> bal_x86_macro_t list \<Rightarrow> bool" where
  self: "is_mov m \<Longrightarrow> mc_destination m = mc_source m \<Longrightarrow>
    removes_move (xs @ m # ys) (xs @ as_nop m # ys)"
| twice: "is_mov m \<Longrightarrow> is_mov m' \<Longrightarrow> mc_destination m = mc_destination m' \<Longrightarrow> mc_source m = mc_source m' \<Longrightarrow>
    removes_move (xs @ m # m' # ys) (xs @ as_nop m # m' # ys)"

lemma removes_move_append: "removes_move ms ms' \<Longrightarrow> removes_move (as @ ms @ bs) (as @ ms' @ bs)"
proof (induction rule: removes_move.induct)
  case (self m xs ys)
  then show ?case using removes_move.self [of m "as @ xs" "ys @ bs"] by simp
next
  case (twice m m' xs ys)
  then show ?case using removes_move.twice [of m m' "as @ xs" "ys @ bs"] by simp
qed

lemma removes_moves_append:
  "removes_move\<^sup>*\<^sup>* ms ms' \<Longrightarrow> removes_move\<^sup>*\<^sup>* (as @ ms @ bs) (as @ ms' @ bs)"
  by (induction rule: rtranclp_induct) (auto dest: removes_move_append intro: rtranclp.rtrancl_into_rtrancl)

lemma lowered_mov [simp]: "is_mov m \<Longrightarrow> lowered m" "lowered (as_nop m)"
  by (simp_all add: lowered_def is_mov_def as_nop_def)

text \<open>The meaning of the list stays, also when the dropped macros are left out of it.\<close>

lemma removes_move_exec: "removes_move ms ms' \<Longrightarrow> macros_exec ms' = macros_exec ms"
  by (induction rule: removes_move.induct)
    (auto simp: fun_eq_iff macro_exec_mov is_mov_def as_nop_def write_reg_same write_reg_twice
      split: Option.bind_split)

lemma removes_move_lowered: "removes_move ms ms' \<Longrightarrow> removes_move (filter lowered ms) (filter lowered ms')"
  by (induction rule: removes_move.induct) (auto intro: removes_move.intros)

lemma removes_moves_meaning:
  "removes_move\<^sup>*\<^sup>* ms ms' \<Longrightarrow> macros_exec ms' = macros_exec ms \<and>
     macros_exec (filter lowered ms') = macros_exec (filter lowered ms) \<and>
     (list_all lowered ms \<longrightarrow> list_all lowered ms')"
proof (induction rule: rtranclp_induct)
  case (step y z)
  have "list_all lowered y \<longrightarrow> list_all lowered z"
    using step(2) by (induction rule: removes_move.induct) auto
  with step removes_move_exec [OF step(2)] removes_move_exec [OF removes_move_lowered [OF step(2)]]
  show ?case by simp
qed simp

lemma peephole_frame [simp]:
  "snd (run_peephole_optimizer ws) = snd ws"
  "sw_count (fst (run_peephole_optimizer ws)) = sw_count (fst ws)"
  "sw_assembler (fst (run_peephole_optimizer ws)) = sw_assembler (fst ws)"
  "length (sw_macros (fst (run_peephole_optimizer ws))) = length (sw_macros (fst ws))"
  by (simp_all add: run_peephole_optimizer_def case_prod_unfold Let_def)

lemma peephole_wf: "sw_wf (run_peephole_optimizer ws) = sw_wf ws"
  by (simp add: sw_wf_def case_prod_unfold)

lemma pending_snoc:
  assumes "sw_count w = Suc n" "n < length (sw_macros w)"
  shows "pending w = take n (sw_macros w) @ [sw_macros w ! n]"
    and "pending (w\<lparr>sw_macros := (sw_macros w)[n := m]\<rparr>) = take n (sw_macros w) @ [m]"
  using assms by (simp_all add: pending_def take_Suc_conv_app_nth)

lemma pending_snoc2:
  assumes "sw_count w = Suc (Suc n)" "Suc n < length (sw_macros w)"
  shows "pending w = take n (sw_macros w) @ [sw_macros w ! n, sw_macros w ! Suc n]"
    and "pending (w\<lparr>sw_macros := (sw_macros w)[n := m]\<rparr>) =
           take n (sw_macros w) @ [m, sw_macros w ! Suc n]"
  using assms by (simp_all add: pending_def take_last_two)

lemma peephole_removes:
  assumes "sw_count w \<le> length (sw_macros w)"
  shows "removes_move\<^sup>*\<^sup>* (pending w) (pending (fst (run_peephole_optimizer (w, a))))"
proof -
  let ?r = "fst (run_peephole_optimizer (w, a))"
  let ?m1 = "sw_macros w ! (sw_count w - 1)" and ?m2 = "sw_macros w ! (sw_count w - 2)"
  let ?nop = "\<lambda>m. m\<lparr>mc_opcode := BAL_X86_MACRO_NOP\<rparr>"
  consider (same) "?r = w"
    | (ident) n where "sw_count w = Suc n" "n < length (sw_macros w)"
        "mc_opcode (sw_macros w ! n) = BAL_X86_MACRO_MOV_REGISTER_REGISTER"
        "mc_destination (sw_macros w ! n) = mc_source (sw_macros w ! n)"
        "?r = w\<lparr>sw_macros := (sw_macros w)[n := ?nop (sw_macros w ! n)]\<rparr>"
    | (twice) n where "sw_count w = Suc (Suc n)" "Suc n < length (sw_macros w)"
        "mc_opcode (sw_macros w ! n) = BAL_X86_MACRO_MOV_REGISTER_REGISTER"
        "mc_opcode (sw_macros w ! Suc n) = BAL_X86_MACRO_MOV_REGISTER_REGISTER"
        "mc_destination (sw_macros w ! n) = mc_destination (sw_macros w ! Suc n)"
        "mc_source (sw_macros w ! n) = mc_source (sw_macros w ! Suc n)"
        "?r = w\<lparr>sw_macros := (sw_macros w)[n := ?nop (sw_macros w ! n)]\<rparr>"
  proof (cases "sw_assembler w \<and> xa_status a = BAL_SUCCESS")
    case False
    then show ?thesis using that(1) by (auto simp: run_peephole_optimizer_def Let_def)
  next
    case True
    note unfold = run_peephole_optimizer_def Let_def True [THEN conjunct1] True [THEN conjunct2]
    consider (zero) "sw_count w = 0" | (one) "sw_count w = Suc 0"
      | (more) k where "sw_count w = Suc (Suc k)"
      by (metis not0_implies_Suc)
    then show ?thesis
    proof cases
      case zero
      with that(1) show ?thesis by (simp add: unfold)
    next
      case one
      then have "?r = (if mc_opcode (sw_macros w ! 0) = BAL_X86_MACRO_MOV_REGISTER_REGISTER \<and>
          mc_destination (sw_macros w ! 0) = mc_source (sw_macros w ! 0)
        then w\<lparr>sw_macros := (sw_macros w)[0 := ?nop (sw_macros w ! 0)]\<rparr> else w)"
        by (simp add: unfold)
      with one assms that(1) that(2) [of 0] show ?thesis
        by (cases "sw_macros w") (auto split: if_splits)
    next
      case more
      define m1 m2 where "m1 = sw_macros w ! Suc k" and "m2 = sw_macros w ! k"
      have "?r = (if mc_opcode m1 = BAL_X86_MACRO_MOV_REGISTER_REGISTER \<and>
          mc_destination m1 = mc_source m1
        then w\<lparr>sw_macros := (sw_macros w)[Suc k := ?nop m1]\<rparr>
        else if mc_opcode m1 = BAL_X86_MACRO_MOV_REGISTER_REGISTER \<and>
          mc_opcode m2 = BAL_X86_MACRO_MOV_REGISTER_REGISTER \<and>
          mc_destination m1 = mc_destination m2 \<and> mc_source m1 = mc_source m2
        then w\<lparr>sw_macros := (sw_macros w)[k := ?nop m2]\<rparr> else w)"
        using more by (simp add: unfold m1_def m2_def)
      with more assms that(1) that(2) [of "Suc k"] that(3) [of k] show ?thesis
        by (auto simp: m1_def m2_def split: if_splits)
    qed
  qed
  then show ?thesis
  proof cases
    case ident
    show ?thesis
      unfolding ident(5) pending_snoc [OF ident(1,2)]
      using removes_move.self [of "sw_macros w ! n" "take n (sw_macros w)" "[]"] ident(3,4)
      by (auto simp: is_mov_def as_nop_def intro!: r_into_rtranclp)
  next
    case twice
    show ?thesis
      unfolding twice(7) pending_snoc2 [OF twice(1,2)]
      using removes_move.twice [of "sw_macros w ! n" "sw_macros w ! Suc n" "take n (sw_macros w)" "[]"] twice(3-6)
      by (auto simp: is_mov_def as_nop_def intro!: r_into_rtranclp)
  qed simp
qed

lemma peephole_meaning:
  assumes "sw_count w \<le> length (sw_macros w)"
  shows "macros_exec (pending (fst (run_peephole_optimizer (w, a)))) = macros_exec (pending w)"
    and "list_all lowered (pending w) \<Longrightarrow>
         list_all lowered (pending (fst (run_peephole_optimizer (w, a))))"
  using removes_moves_meaning [OF peephole_removes [OF assms]] by blast+

section \<open>The window as a macro buffer\<close>

text \<open>
  The code from position \<open>start\<close> on, followed by the queue, computes \<open>f\<close>.
\<close>

definition sw_denotes :: "nat \<Rightarrow> window_state \<Rightarrow> (x86_state \<Rightarrow> x86_state option) \<Rightarrow> bool" where
  "sw_denotes start ws f \<longleftrightarrow> (\<exists>is. start \<le> length (xa_code (snd ws)) \<and>
     encodes_seq (drop start (xa_code (snd ws))) is \<and> list_all lowered (pending (fst ws)) \<and>
     (\<forall>s. Option.bind (x86_exec is s) (macros_exec (pending (fst ws))) = f s))"

lemma macros_exec_snoc:
  "Option.bind r (macros_exec (ms @ [m])) =
   Option.bind (Option.bind r (macros_exec ms)) (macro_exec m)"
  by (cases r) (auto split: Option.bind_split)

text \<open>Flushing the queue turns its meaning into code.\<close>

lemma flush_macros_denotes:
  assumes wf: "xa_wf a" and ok: "xa_ok (flush_macros a ms n)" and low: "list_all lowered (take n ms)"
    and start: "start \<le> length (xa_code a)" and enc: "encodes_seq (drop start (xa_code a)) is"
  shows "\<exists>js. start \<le> length (xa_code (flush_macros a ms n)) \<and>
    encodes_seq (drop start (xa_code (flush_macros a ms n))) js \<and>
    (\<forall>s. x86_exec js s = Option.bind (x86_exec is s) (macros_exec (take n ms)))"
proof -
  from flush_list_code [OF wf, of "take n ms"] ok low obtain bs where
    bs: "xa_code (flush_macros a ms n) = xa_code a @ bs"
      "encodes_seq bs (macros_program (take n ms))"
    by (auto simp: flush_macros_def lowered_filter)
  with start enc show ?thesis
    by (intro exI [of _ "is @ macros_program (take n ms)"])
      (auto simp: encodes_seq_append x86_exec_append macros_exec_def)
qed

lemma flush_macros_ok: "xa_wf a \<Longrightarrow> xa_ok (flush_macros a ms n) \<Longrightarrow> xa_ok a"
  by (simp add: flush_macros_def flush_list_ok)

lemma flush_macros_wf [wf_intros]: "xa_wf a \<Longrightarrow> xa_wf (flush_macros a ms n)"
  by (simp add: flush_macros_def flush_list_wf)

lemma flush_all_wf: "sw_wf ws \<Longrightarrow> sw_wf (bal_sliding_window_flush_all ws)"
  by (simp add: sw_wf_def bal_sliding_window_flush_all_def case_prod_unfold flush_macros_wf)

lemma flush_all_ok: "sw_wf ws \<Longrightarrow> sw_ok (bal_sliding_window_flush_all ws) \<Longrightarrow> sw_ok ws"
  by (auto simp: sw_wf_def sw_ok_def bal_sliding_window_flush_all_def case_prod_unfold
      dest: flush_macros_ok)

lemma flush_all_denotes:
  assumes "sw_wf ws" "sw_ok (bal_sliding_window_flush_all ws)" "sw_denotes start ws f"
  shows "sw_denotes start (bal_sliding_window_flush_all ws) f"
proof -
  obtain w a where ws: "ws = (w, a)" by (cases ws)
  have flush: "bal_sliding_window_flush_all ws =
      (w\<lparr>sw_count := 0\<rparr>, flush_macros a (sw_macros w) (sw_count w))"
    using assms(1) by (simp add: ws sw_wf_def bal_sliding_window_flush_all_def)
  from assms(3) obtain "is" where d: "start \<le> length (xa_code a)"
      "encodes_seq (drop start (xa_code a)) is" "list_all lowered (pending w)"
      "\<And>s. Option.bind (x86_exec is s) (macros_exec (pending w)) = f s"
    by (auto simp: sw_denotes_def ws)
  from flush_macros_denotes [OF _ _ _ d(1,2), of "sw_macros w" "sw_count w"] assms(1,2) d(3,4)
  show ?thesis
    by (auto simp: flush [unfolded ws] sw_denotes_def sw_wf_def sw_ok_def ws pending_def)
qed

text \<open>Before the macro is stored, a full queue is flushed.\<close>

definition make_room :: "window_state \<Rightarrow> window_state" where
  "make_room ws = (if sw_count (fst ws) = BAL_SLIDING_WINDOW_CAPACITY
     then bal_sliding_window_flush_all ws else ws)"

definition store_macro :: "window_state \<Rightarrow> bal_x86_macro_t \<Rightarrow> window_state" where
  "store_macro ws m = (case ws of (w, a) \<Rightarrow>
     (w\<lparr>sw_macros := (sw_macros w)[sw_count w := m], sw_count := sw_count w + 1\<rparr>, a))"

lemma push_split:
  "sw_wf ws \<Longrightarrow> bal_sliding_window_push ws m =
     run_peephole_optimizer (store_macro (make_room ws) m)"
  by (auto simp: sw_wf_def bal_sliding_window_push_def make_room_def store_macro_def
      bal_sliding_window_flush_all_def case_prod_unfold Let_def)

lemma make_room:
  assumes "sw_wf ws"
  shows "sw_wf (make_room ws)" "sw_count (fst (make_room ws)) < BAL_SLIDING_WINDOW_CAPACITY"
    and "sw_ok (make_room ws) \<Longrightarrow> sw_ok ws"
    and "sw_ok (make_room ws) \<Longrightarrow> sw_denotes start ws f \<Longrightarrow> sw_denotes start (make_room ws) f"
proof -
  show "sw_wf (make_room ws)" "sw_ok (make_room ws) \<Longrightarrow> sw_ok ws"
    using assms by (auto simp: make_room_def flush_all_wf dest: flush_all_ok split: if_splits)
  show "sw_count (fst (make_room ws)) < BAL_SLIDING_WINDOW_CAPACITY"
    using assms by (auto simp: make_room_def bal_sliding_window_flush_all_def sw_wf_def
        BAL_SLIDING_WINDOW_CAPACITY_def case_prod_unfold)
  show "sw_ok (make_room ws) \<Longrightarrow> sw_denotes start ws f \<Longrightarrow> sw_denotes start (make_room ws) f"
    using assms by (auto simp: make_room_def intro: flush_all_denotes split: if_splits)
qed

lemma push_wf: "sw_wf ws \<Longrightarrow> sw_wf (bal_sliding_window_push ws m)"
  using make_room(1,2) [of ws]
  by (simp add: push_split peephole_wf)
    (simp add: store_macro_def sw_wf_def case_prod_unfold)

lemma push_ok: "sw_wf ws \<Longrightarrow> sw_ok (bal_sliding_window_push ws m) \<Longrightarrow> sw_ok ws"
  by (rule make_room(3)) (simp_all add: push_split sw_ok_def store_macro_def case_prod_unfold)

lemma push_denotes:
  assumes wf: "sw_wf ws" and "lowered m" and ok: "sw_ok (bal_sliding_window_push ws m)"
    and den: "sw_denotes start ws f"
  shows "sw_denotes start (bal_sliding_window_push ws m) (\<lambda>s. Option.bind (f s) (macro_exec m))"
proof -
  obtain w a where r: "make_room ws = (w, a)" by (cases "make_room ws")
  let ?w = "fst (store_macro (w, a) m)"
  from ok wf r have "sw_ok (make_room ws)"
    by (simp add: push_split sw_ok_def store_macro_def)
  with make_room [OF wf] den r have d: "sw_denotes start (w, a) f" and "sw_wf (w, a)"
    and lt: "sw_count w < BAL_SLIDING_WINDOW_CAPACITY" by auto
  then have len: "sw_count ?w \<le> length (sw_macros ?w)" and p: "pending ?w = pending w @ [m]"
    by (simp_all add: sw_wf_def store_macro_def pending_def take_Suc_conv_app_nth)
  have push: "bal_sliding_window_push ws m = run_peephole_optimizer (?w, a)"
    using wf r by (simp add: push_split store_macro_def)
  from d obtain "is" where enc: "start \<le> length (xa_code a)" "encodes_seq (drop start (xa_code a)) is"
      and low: "list_all lowered (pending w)"
      and f: "f = (\<lambda>s. Option.bind (x86_exec is s) (macros_exec (pending w)))"
    by (auto simp: sw_denotes_def)
  from low p \<open>lowered m\<close> peephole_meaning [OF len, of a]
  have "list_all lowered (pending (fst (run_peephole_optimizer (?w, a))))"
    and "macros_exec (pending (fst (run_peephole_optimizer (?w, a)))) = macros_exec (pending w @ [m])"
    by simp_all
  with enc show ?thesis
    unfolding sw_denotes_def push f by (intro exI [of _ "is"]) (simp only: macros_exec_snoc, simp)
qed

text \<open>
  The window implements the contract: pushing composes with the meaning of the macro for
  all macros that are lowered, flushing keeps the meaning.
\<close>

interpretation sw: macro_buffer bal_sliding_window_push bal_sliding_window_flush_all
  sw_wf sw_ok lowered macro_exec "sw_denotes start" for start
  by unfold_locales (simp_all add: push_wf flush_all_wf push_denotes flush_all_denotes,
      (blast intro: push_ok flush_all_ok)+)

section \<open>Code that is already there\<close>

text \<open>
  The same contract once more, with the meaning of the window extended by what it leaves
  alone: the code in front, which is that of the assembler \<open>a\<close> the client started from, and
  the buffer.
\<close>

definition buffer_of :: "bal_x86_assembler_t \<Rightarrow> u64 \<times> u64 \<times> size_t \<times> bool" where
  "buffer_of a = (xa_buffer a, xa_rx_buffer a, xa_capacity a, xa_rx_writable a)"

definition keeps_code :: "bal_x86_assembler_t \<Rightarrow> window_state \<Rightarrow> (x86_state \<Rightarrow> x86_state option) \<Rightarrow> bool" where
  "keeps_code a ws f \<longleftrightarrow> sw_denotes (length (xa_code a)) ws f \<and>
     take (length (xa_code a)) (xa_code (snd ws)) = xa_code a \<and> buffer_of (snd ws) = buffer_of a"

lemma calls_buffer: "xa_wf a \<Longrightarrow> buffer_of (foldl x86_emit a cs) = buffer_of a"
  by (induction cs arbitrary: a) (simp_all add: x86_emit_wf buffer_of_def frame_simps)

lemma flush_list_buffer: "xa_wf a \<Longrightarrow> buffer_of (foldl flush_single_macro a ms) = buffer_of a"
proof (induction ms arbitrary: a)
  case (Cons m ms)
  have "buffer_of (flush_single_macro a m) = buffer_of a"
    using Cons.prems calls_buffer [of a "macro_calls m"]
    by (cases "xa_status a = BAL_SUCCESS")
      (simp_all add: flush_single_calls flush_single_error, simp add: buffer_of_def)
  with Cons show ?case by (simp add: flush_single_wf)
qed simp

lemma flush_all_prefix:
  assumes "sw_wf ws" "sw_ok (bal_sliding_window_flush_all ws)" "take n (xa_code (snd ws)) = old" "n \<le> length (xa_code (snd ws))"
  shows "take n (xa_code (snd (bal_sliding_window_flush_all ws))) = old"
    "buffer_of (snd (bal_sliding_window_flush_all ws)) = buffer_of (snd ws)"
proof -
  obtain w a where ws: "ws = (w, a)" by (cases ws)
  have flush: "snd (bal_sliding_window_flush_all ws) = flush_macros a (sw_macros w) (sw_count w)"
    using assms(1) by (simp add: ws sw_wf_def bal_sliding_window_flush_all_def)
  have "\<exists>bs. xa_code (flush_macros a (sw_macros w) (sw_count w)) = xa_code a @ bs"
    using flush_list_code [of a "pending w"] assms(1,2) flush
    by (auto simp: ws sw_wf_def sw_ok_def flush_macros_def pending_def)
  with assms(3,4) show "take n (xa_code (snd (bal_sliding_window_flush_all ws))) = old"
    unfolding flush by (auto simp: ws)
  show "buffer_of (snd (bal_sliding_window_flush_all ws)) = buffer_of (snd ws)"
    using assms(1) unfolding flush by (simp add: ws sw_wf_def flush_macros_def flush_list_buffer)
qed

lemma keeps_flush:
  assumes "sw_wf ws" "sw_ok (bal_sliding_window_flush_all ws)" "keeps_code a ws f"
  shows "keeps_code a (bal_sliding_window_flush_all ws) f"
  using assms flush_all_denotes [OF assms(1,2)] flush_all_prefix [OF assms(1,2)]
  by (auto simp: keeps_code_def sw_denotes_def)

lemma keeps_push:
  assumes wf: "sw_wf ws" and low: "lowered m" and ok: "sw_ok (bal_sliding_window_push ws m)"
    and k: "keeps_code a ws f"
  shows "keeps_code a (bal_sliding_window_push ws m) (\<lambda>s. Option.bind (f s) (macro_exec m))"
proof -
  have asm: "snd (bal_sliding_window_push ws m) = snd (make_room ws)"
    using wf by (simp add: push_split store_macro_def run_peephole_optimizer_def case_prod_unfold Let_def)
  have "keeps_code a (make_room ws) f"
    using k wf ok asm by (auto simp: make_room_def sw_ok_def intro: keeps_flush)
  with push_denotes [OF wf low ok] k asm show ?thesis by (auto simp: keeps_code_def)
qed

interpretation kept: macro_buffer bal_sliding_window_push bal_sliding_window_flush_all
  sw_wf sw_ok lowered macro_exec "keeps_code a" for a
  by unfold_locales (simp_all add: push_wf flush_all_wf keeps_push keeps_flush,
      (blast intro: push_ok flush_all_ok)+)

section \<open>Enough room\<close>

text \<open>
  Lowering a macro takes at most 13 bytes (a 64 bit immediate move and an operation on the
  scratch register), so a window with that much room per macro never fails.
\<close>

definition macro_valid :: "bal_x86_macro_t \<Rightarrow> bool" where
  "macro_valid m \<longleftrightarrow> branch_in_range m \<and> (\<forall>c \<in> set (macro_calls m). x86_valid c)"

definition MACRO_BYTES :: nat where
  "MACRO_BYTES = 13"

lemma macro_calls_size: "(\<Sum>c\<leftarrow>macro_calls m. length (x86_bytes c)) \<le> MACRO_BYTES"
  by (cases "mc_opcode m")
    (simp_all add: macro_calls_def Let_def byte_table_defs MACRO_BYTES_def)

lemma macro_valid_nop [simp]: "macro_valid (m\<lparr>mc_opcode := BAL_X86_MACRO_NOP\<rparr>)"
  by (simp add: macro_valid_def branch_in_range_def macro_calls_def)

lemma flush_single_room:
  assumes "xa_room (MACRO_BYTES + n) a" "macro_valid m"
  shows "xa_room n (flush_single_macro a m)"
proof -
  from assms(1) have "xa_status a = BAL_SUCCESS" by (simp add: xa_room_def xa_ok_def)
  moreover have "xa_room ((\<Sum>c\<leftarrow>macro_calls m. length (x86_bytes c)) + n) a"
    using assms(1) macro_calls_size [of m] by (auto elim: xa_room_mono)
  ultimately show ?thesis
    using assms(2) by (simp add: flush_single_calls macro_valid_def x86_calls_room)
qed

lemma flush_list_room:
  "xa_room (MACRO_BYTES * length ms + n) a \<Longrightarrow> list_all macro_valid ms \<Longrightarrow>
   xa_room n (foldl flush_single_macro a ms)"
  by (induction ms arbitrary: a) (simp_all add: flush_single_room add.assoc)

definition sw_room :: "nat \<Rightarrow> window_state \<Rightarrow> bool" where
  "sw_room n ws \<longleftrightarrow> sw_wf ws \<and> list_all macro_valid (pending (fst ws)) \<and>
     xa_room (MACRO_BYTES * (sw_count (fst ws) + n)) (snd ws)"

lemma sw_room_ok: "sw_room n ws \<Longrightarrow> sw_ok ws"
  by (simp add: sw_room_def sw_ok_def xa_room_def)

lemma sw_room_mono: "sw_room n ws \<Longrightarrow> k \<le> n \<Longrightarrow> sw_room k ws"
  by (auto simp: sw_room_def elim: xa_room_mono)

lemma pending_length: "sw_wf (w, a) \<Longrightarrow> length (pending w) = sw_count w"
  by (simp add: sw_wf_def pending_def)

lemma flush_all_room:
  assumes "sw_room n ws"
  shows "sw_room n (bal_sliding_window_flush_all ws)"
proof -
  obtain w a where ws: "ws = (w, a)" by (cases ws)
  with assms have wf: "sw_wf (w, a)" and len: "length (pending w) = sw_count w"
    by (auto simp: sw_room_def pending_length)
  from flush_list_room [of "pending w" "MACRO_BYTES * n" a] assms
  have "xa_room (MACRO_BYTES * n) (flush_macros a (sw_macros w) (sw_count w))"
    by (simp add: ws sw_room_def flush_macros_def len algebra_simps)
      (simp add: pending_def)
  with flush_all_wf [OF wf] wf show ?thesis
    by (simp add: ws sw_room_def bal_sliding_window_flush_all_def sw_wf_def pending_def)
qed

lemma peephole_valid:
  "sw_count w \<le> length (sw_macros w) \<Longrightarrow> list_all macro_valid (pending w) \<Longrightarrow>
   list_all macro_valid (pending (fst (run_peephole_optimizer (w, a))))"
  by (auto simp: run_peephole_optimizer_def Let_def pending_def intro: list_all_take_update)

lemma push_room:
  assumes room: "sw_room (Suc n) ws" and valid: "macro_valid m"
  shows "sw_room n (bal_sliding_window_push ws m)"
proof -
  from room have wf: "sw_wf ws" by (simp add: sw_room_def)
  obtain w a where r: "make_room ws = (w, a)" by (cases "make_room ws")
  let ?s = "store_macro (w, a) m"
  have "sw_room (Suc n) (w, a)"
    using room flush_all_room [OF room] r by (simp add: make_room_def split: if_splits)
  moreover have lt: "sw_count w < BAL_SLIDING_WINDOW_CAPACITY" "length (sw_macros w) = BAL_SLIDING_WINDOW_CAPACITY"
    using make_room(1,2) [OF wf] r by (auto simp: sw_wf_def)
  moreover from lt have p: "pending (fst ?s) = pending w @ [m]"
    by (simp add: store_macro_def pending_def take_Suc_conv_app_nth)
  moreover have "sw_count (fst ?s) \<le> length (sw_macros (fst ?s))"
    using lt by (simp add: store_macro_def)
  ultimately have "list_all macro_valid (pending (fst (run_peephole_optimizer ?s)))"
    using valid peephole_valid [of "fst ?s" "snd ?s"] by (simp add: sw_room_def)
  with \<open>sw_room (Suc n) (w, a)\<close> push_wf [OF wf] show ?thesis
    by (simp add: sw_room_def push_split [OF wf] r) (simp add: store_macro_def algebra_simps)
qed

lemma pushes_room:
  "sw_room (length ms + n) ws \<Longrightarrow> list_all macro_valid ms \<Longrightarrow>
   sw_room n (foldl bal_sliding_window_push ws ms)"
  by (induction ms arbitrary: ws) (simp_all add: push_room)

section \<open>Properties\<close>

definition fresh_window :: bal_sliding_window_t where
  "fresh_window = \<lparr>sw_assembler = True, sw_count = 0,
     sw_macros = replicate BAL_SLIDING_WINDOW_CAPACITY macro_zero\<rparr>"

lemma fresh_window_denotes:
  "xa_wf a \<Longrightarrow> sw_wf (fresh_window, a)"
  "start = length (xa_code a) \<Longrightarrow> sw_denotes start (fresh_window, a) Some"
  by (auto simp: fresh_window_def sw_wf_def sw_denotes_def pending_def
      intro!: exI [of _ "[]"] encodes_seq.Nil)

text \<open>
  The instructions emitted from position \<open>start\<close> on, together with the queue, are those of the
  macros pushed so far, less removed moves and, where they have been flushed, dropped macros.
\<close>

definition sw_stream :: "nat \<Rightarrow> window_state \<Rightarrow> bal_x86_macro_t list \<Rightarrow> bool" where
  "sw_stream start ws ms \<longleftrightarrow> (\<exists>fs. start \<le> length (xa_code (snd ws)) \<and>
     encodes_seq (drop start (xa_code (snd ws))) (macros_program (filter lowered fs)) \<and>
     removes_move\<^sup>*\<^sup>* ms (fs @ pending (fst ws)))"

lemma flush_all_stream:
  assumes "sw_wf ws" "sw_ok (bal_sliding_window_flush_all ws)" "sw_stream start ws ms"
  shows "sw_stream start (bal_sliding_window_flush_all ws) ms"
proof -
  obtain w a where ws: "ws = (w, a)" by (cases ws)
  have flush: "bal_sliding_window_flush_all ws =
      (w\<lparr>sw_count := 0\<rparr>, foldl flush_single_macro a (pending w))"
    using assms(1) by (simp add: ws sw_wf_def bal_sliding_window_flush_all_def flush_macros_def pending_def)
  from assms(3) obtain fs where d: "start \<le> length (xa_code a)"
      "encodes_seq (drop start (xa_code a)) (macros_program (filter lowered fs))"
      "removes_move\<^sup>*\<^sup>* ms (fs @ pending w)"
    by (auto simp: sw_stream_def ws)
  from flush_list_code [of a "pending w"] assms(1,2) flush obtain bs where
    bs: "xa_code (foldl flush_single_macro a (pending w)) = xa_code a @ bs"
      "encodes_seq bs (macros_program (filter lowered (pending w)))"
    by (auto simp: ws sw_wf_def sw_ok_def)
  have "encodes_seq (drop start (xa_code a @ bs)) (macros_program (filter lowered (fs @ pending w)))"
    using encodes_seq_append [OF d(2) bs(2)] d(1) by (simp add: macros_program_def)
  with d(1,3) bs(1) show ?thesis
    unfolding sw_stream_def flush by (intro exI [of _ "fs @ pending w"]) (simp add: pending_def)
qed

lemma push_stream:
  assumes wf: "sw_wf ws" and ok: "sw_ok (bal_sliding_window_push ws m)" and str: "sw_stream start ws ms"
  shows "sw_stream start (bal_sliding_window_push ws m) (ms @ [m])"
proof -
  obtain w a where r: "make_room ws = (w, a)" by (cases "make_room ws")
  let ?w = "fst (store_macro (w, a) m)"
  have push: "bal_sliding_window_push ws m = run_peephole_optimizer (?w, a)"
    using wf r by (simp add: push_split store_macro_def)
  have "sw_ok (make_room ws)" using ok push by (simp add: r sw_ok_def)
  then have "sw_stream start (make_room ws) ms"
    using wf str by (auto simp: make_room_def intro: flush_all_stream split: if_splits)
  then obtain fs where d: "start \<le> length (xa_code a)"
      "encodes_seq (drop start (xa_code a)) (macros_program (filter lowered fs))"
      "removes_move\<^sup>*\<^sup>* ms (fs @ pending w)"
    by (auto simp: sw_stream_def r)
  from make_room(1,2) [OF wf] r have len: "sw_count ?w \<le> length (sw_macros ?w)" and p: "pending ?w = pending w @ [m]"
    by (simp_all add: sw_wf_def store_macro_def pending_def take_Suc_conv_app_nth)
  have "removes_move\<^sup>*\<^sup>* (ms @ [m]) (fs @ pending ?w)"
    using removes_moves_append [OF d(3), of "[]" "[m]"] by (simp add: p)
  also have "removes_move\<^sup>*\<^sup>* (fs @ pending ?w) (fs @ pending (fst (run_peephole_optimizer (?w, a))))"
    using removes_moves_append [OF peephole_removes [OF len], of fs "[]" a] by simp
  finally show ?thesis using d(1,2) unfolding sw_stream_def push by (intro exI [of _ fs]) simp
qed

lemma pushes_stream:
  "sw_wf ws \<Longrightarrow> sw_ok (foldl bal_sliding_window_push ws ms) \<Longrightarrow> sw_stream start ws ns \<Longrightarrow>
   sw_stream start (foldl bal_sliding_window_push ws ms) (ns @ ms)"
proof (induction ms arbitrary: ws ns)
  case (Cons m ms)
  have "sw_ok (bal_sliding_window_push ws m)"
    using sw.pushes_ok [OF push_wf [OF Cons.prems(1)], of m ms] Cons.prems(2) by simp
  from Cons.IH [OF push_wf [OF Cons.prems(1)] _ push_stream [OF Cons.prems(1) this Cons.prems(3)]] Cons.prems(2)
  show ?case by simp
qed simp

lemma fresh_window_stream: "start = length (xa_code a) \<Longrightarrow> sw_stream start (fresh_window, a) []"
  by (auto simp: sw_stream_def fresh_window_def pending_def macros_program_def intro!: exI [of _ "[]"] encodes_seq.Nil)

text \<open>
  C8: the window is a faithful translator, up to two macros it drops. Whatever macros are
  pushed into a fresh window and flushed, if nothing went wrong, the code behind the old
  code decodes to exactly the instructions of these macros in order, except that RET and TEST
  macros contribute nothing (they are dropped without an error) and that some moves that
  change no register are left out, however often the queue was flushed in between. In
  particular the effect of that code is the effect of the macros without the dropped ones,
  one after the other. (That effect is defined for programs without jumps: a JCC, JMP or UD2
  macro has none in \<open>macro_exec\<close>; where they stand in the code is what the decoding says.)
\<close>

theorem sliding_window_program:
  assumes "xa_wf a"
    and "sw_ok (bal_sliding_window_flush_all (foldl bal_sliding_window_push (fresh_window, a) ms))"
  shows "\<exists>ms'. removes_move\<^sup>*\<^sup>* ms ms' \<and>
    encodes_seq (drop (length (xa_code a)) (xa_code (snd (bal_sliding_window_flush_all
      (foldl bal_sliding_window_push (fresh_window, a) ms))))) (macros_program (filter lowered ms')) \<and>
    (\<forall>s. x86_exec (macros_program (filter lowered ms')) s = run_effects macro_exec (filter lowered ms) s)"
proof -
  let ?w = "foldl bal_sliding_window_push (fresh_window, a) ms"
  have wf: "sw_wf ?w" using fresh_window_denotes(1) [OF assms(1)] by (rule sw.pushes_wf)
  have "sw_stream (length (xa_code a)) ?w ([] @ ms)"
    using flush_all_ok [OF wf assms(2)] fresh_window_stream [OF HOL.refl]
    by (intro pushes_stream fresh_window_denotes assms(1))
  from flush_all_stream [OF wf assms(2) this] obtain fs where
    fs: "encodes_seq (drop (length (xa_code a)) (xa_code (snd (bal_sliding_window_flush_all ?w))))
        (macros_program (filter lowered fs))"
      "removes_move\<^sup>*\<^sup>* ms (fs @ pending (fst (bal_sliding_window_flush_all ?w)))"
    by (auto simp: sw_stream_def)
  have "pending (fst (bal_sliding_window_flush_all ?w)) = []"
    using wf by (simp add: pending_def bal_sliding_window_flush_all_def sw_wf_def case_prod_unfold Let_def)
  with fs removes_moves_meaning [of ms fs] show ?thesis
    by (intro exI [of _ fs]) (simp add: macros_exec_def [symmetric] macros_exec_effects)
qed

definition mov_macro :: "bal_x86_register_t \<Rightarrow> bal_x86_register_t \<Rightarrow> bal_x86_macro_t" where
  "mov_macro d r = macro_zero\<lparr>mc_opcode := BAL_X86_MACRO_MOV_REGISTER_REGISTER,
     mc_destination := d, mc_source := r\<rparr>"

definition six_macros :: "bal_x86_macro_t list" where
  "six_macros = [mov_macro BAL_X86_RAX BAL_X86_RCX, mov_macro BAL_X86_RAX BAL_X86_RCX,
     mov_macro BAL_X86_RDX BAL_X86_RDX, macro_zero\<lparr>mc_opcode := BAL_X86_MACRO_TEST_REGISTER_REGISTER\<rparr>,
     mov_macro BAL_X86_R8 BAL_X86_R9, macro_zero\<lparr>mc_opcode := BAL_X86_MACRO_UD2\<rparr>]"

theorem sliding_window_program_witness:
  "\<exists>ms'. removes_move\<^sup>*\<^sup>* six_macros ms' \<and>
    encodes_seq (drop 0 (xa_code (snd (bal_sliding_window_flush_all
      (foldl bal_sliding_window_push (fresh_window, fresh_assembler 78) six_macros)))))
      (macros_program (filter lowered ms')) \<and> length (filter lowered six_macros) = 5"
proof -
  have wf: "xa_wf (fresh_assembler 78)" by code_simp
  have "sw_room 6 (fresh_window, fresh_assembler 78)"
    using fresh_assembler_room [of 78]
    by (simp add: sw_room_def fresh_window_denotes MACRO_BYTES_def xa_room_def)
      (simp add: fresh_window_def pending_def)
  then have "sw_room (length six_macros + 0) (fresh_window, fresh_assembler 78)"
    by (simp add: six_macros_def eval_nat_numeral)
  then have "sw_room 0 (foldl bal_sliding_window_push (fresh_window, fresh_assembler 78) six_macros)"
    by (rule pushes_room)
      (simp_all add: six_macros_def mov_macro_def macro_valid_def branch_in_range_def macro_calls_def
        is_valid_register_def Let_def)
  then have ok: "sw_ok (bal_sliding_window_flush_all
      (foldl bal_sliding_window_push (fresh_window, fresh_assembler 78) six_macros))"
    by (intro sw_room_ok [OF flush_all_room])
  have start: "length (xa_code (fresh_assembler 78)) = 0" by code_simp
  have "length (filter lowered six_macros) = 5"
    by (simp add: six_macros_def mov_macro_def lowered_def macro_zero_def)
  with sliding_window_program [OF wf ok] show ?thesis unfolding start by blast
qed

text \<open>
  C9: the peephole pass keeps the meaning of the queue: it only ever turns a MOV of a
  register to itself, or the first of two equal MOVs, into a NOP; the count, the assembler
  and every other macro stay as they are.
\<close>

theorem peephole_preserves_meaning:
  assumes "sw_wf (w, a)"
  shows "macros_exec (pending (fst (run_peephole_optimizer (w, a)))) = macros_exec (pending w) \<and>
    snd (run_peephole_optimizer (w, a)) = a \<and>
    length (pending (fst (run_peephole_optimizer (w, a)))) = length (pending w)"
  using assms by (simp add: sw_wf_def peephole_meaning) (simp add: pending_def)

definition two_movs :: bal_sliding_window_t where
  "two_movs = fresh_window\<lparr>sw_count := 2, sw_macros :=
     [mov_macro BAL_X86_RAX BAL_X86_RCX, mov_macro BAL_X86_RAX BAL_X86_RCX, macro_zero, macro_zero]\<rparr>"

theorem peephole_preserves_meaning_witness:
  "macros_exec (pending (fst (run_peephole_optimizer (two_movs, fresh_assembler 8)))) =
     macros_exec (pending two_movs) \<and>
   mc_opcode (pending (fst (run_peephole_optimizer (two_movs, fresh_assembler 8))) ! 0) =
     BAL_X86_MACRO_NOP"
proof -
  have "sw_wf (two_movs, fresh_assembler 8)" by code_simp
  note p = peephole_preserves_meaning [OF this]
  have "mc_opcode (pending (fst (run_peephole_optimizer (two_movs, fresh_assembler 8))) ! 0) =
     BAL_X86_MACRO_NOP" by code_simp
  with p show ?thesis by blast
qed

text \<open>
  C10: capacity. No sequence of pushes, flushes and resets after an initialisation makes the
  count exceed the four slots, changes the number of slots or breaks the assembler's
  invariant; in particular every index the code uses is inside the array.
\<close>

datatype window_op = Op_push bal_x86_macro_t | Op_flush | Op_reset

primrec window_run :: "window_state \<Rightarrow> window_op \<Rightarrow> window_state" where
  "window_run ws (Op_push m) = bal_sliding_window_push ws m"
| "window_run ws Op_flush = bal_sliding_window_flush_all ws"
| "window_run ws Op_reset = (case ws of (w, a) \<Rightarrow> (bal_sliding_window_reset w, a))"

theorem window_capacity_invariant:
  assumes "bal_sliding_window_init window (Some a) = (BAL_SUCCESS, Some w, Some a')" "xa_wf a"
  shows "sw_wf (foldl window_run (w, a') ops)"
proof -
  have step: "sw_wf ws \<Longrightarrow> sw_wf (window_run ws opn)" for ws opn
    by (cases opn) (auto simp: push_wf flush_all_wf,
      simp add: sw_wf_def bal_sliding_window_reset_def case_prod_unfold)
  have "(w, a') = (fresh_window, a)"
    using assms(1)
    by (auto simp: bal_sliding_window_init_def fresh_window_def split: option.splits if_splits)
  with assms(2) have "sw_wf (w, a')" by (simp add: fresh_window_denotes)
  then show ?thesis by (induction ops arbitrary: w a') (simp, metis foldl_Cons step surj_pair)
qed

theorem window_capacity_invariant_witness:
  "sw_wf (foldl window_run (fresh_window, fresh_assembler 8)
     [Op_push (mov_macro BAL_X86_RAX BAL_X86_RCX), Op_reset, Op_flush])"
proof -
  have "bal_sliding_window_init (Some two_movs) (Some (fresh_assembler 8)) =
      (BAL_SUCCESS, Some fresh_window, Some (fresh_assembler 8))"
    by (simp add: bal_sliding_window_init_def fresh_window_def fresh_assembler_def)
  moreover have "xa_wf (fresh_assembler 8)" by code_simp
  ultimately show ?thesis by (rule window_capacity_invariant)
qed

text \<open>
  C11: lowering, exactly. For every macro: an assembler in error is left alone; a branch
  whose 64 bit displacement does not fit in 31 bits is refused with
  \<open>BAL_ERROR_BRANCH_OFFSET_OVERFLOW\<close>; otherwise the emitter calls of the macro are made, and
  these stand for the macro's instructions except for RET and TEST, which the code has no
  case for: no byte is emitted for them.
\<close>

theorem flush_single_macro_exact:
  "flush_single_macro a m =
    (if xa_status a \<noteq> BAL_SUCCESS then a
     else if branch_in_range m then foldl x86_emit a (macro_calls m)
     else a\<lparr>xa_status := BAL_ERROR_BRANCH_OFFSET_OVERFLOW\<rparr>) \<and>
   map x86_instr_of (macro_calls m) =
    (if mc_opcode m = BAL_X86_MACRO_RET \<or> mc_opcode m = BAL_X86_MACRO_TEST_REGISTER_REGISTER
     then [] else macro_program m) \<and>
   macro_program m \<noteq> [] = (mc_opcode m \<noteq> BAL_X86_MACRO_NOP)"
proof -
  have "mc_opcode m = BAL_X86_MACRO_RET \<or> mc_opcode m = BAL_X86_MACRO_TEST_REGISTER_REGISTER \<Longrightarrow>
      macro_calls m = []" by (auto simp: macro_calls_def Let_def)
  moreover have "(macro_program m \<noteq> []) = (mc_opcode m \<noteq> BAL_X86_MACRO_NOP)"
    by (cases "mc_opcode m") (simp_all add: macro_program_def Let_def)
  ultimately show ?thesis
    by (auto simp: flush_single_calls flush_single_error lowered_calls lowered_def)
qed

theorem flush_single_macro_exact_witness:
  "macro_program (macro_zero\<lparr>mc_opcode := BAL_X86_MACRO_TEST_REGISTER_REGISTER\<rparr>) \<noteq> [] \<and>
   flush_single_macro (fresh_assembler 8)
     (macro_zero\<lparr>mc_opcode := BAL_X86_MACRO_TEST_REGISTER_REGISTER\<rparr>) = fresh_assembler 8"
  using flush_single_macro_exact [of "fresh_assembler 8"
      "macro_zero\<lparr>mc_opcode := BAL_X86_MACRO_TEST_REGISTER_REGISTER\<rparr>"]
  by (simp add: macro_calls_def branch_in_range_def fresh_assembler_def macro_program_def)

end
