(* ===== verification/Jit_Debug.thy ===== *)
theory Jit_Debug
  imports Bal_Memory Bal_Cpu
begin

text \<open>
  The debug records of compiled code (\<open>src/bal_jit_debug.c\<close>) and the lookup the fault
  handler makes in them (\<open>src/bal_jit_debug_signal.c\<close>): a table of block entries and an
  arena that holds, for each block, a header and its instruction map.

  The arena is kept as a partial map from byte offsets to the block written there; an
  entry refers to its block by offset. Of the signal registration there are the two
  buffer bounds it sets here, the dispositions are in \<^theory_text>\<open>Fault_Handler\<close>; the crash callback
  and \<open>abort\<close> are the outcomes of the handler.
\<close>

section \<open>State\<close>

record bal_jit_instruction_map_t =
  jm_x86_offset :: u32
  jm_guest_pc_offset :: u32

record bal_jit_block_metadata_t =
  jb_base_guest_pc :: u64
  jb_instruction_count :: u32
  jb_mappings :: "bal_jit_instruction_map_t list"

record bal_jit_block_entry_t =
  je_rx_start :: u64
  je_rx_size :: u32
  je_metadata :: size_t

record bal_jit_debug_context_t =
  jd_entries :: "(u64 \<times> bal_jit_block_entry_t list) option"
  jd_metadata_arena :: "(u64 \<times> (size_t \<rightharpoonup> bal_jit_block_metadata_t)) option"
  jd_entry_count :: size_t
  jd_entry_capacity :: size_t
  jd_arena_offset :: size_t
  jd_arena_capacity :: size_t
  jd_jit_buffer_start :: u64
  jd_jit_buffer_end :: u64
  jd_crash_callback :: bool
  jd_status :: bal_error_t
  jd_magic :: u32

text \<open>All bytes zero, as after \<open>memset\<close>.\<close>

definition jit_debug_zero :: bal_jit_debug_context_t where
  "jit_debug_zero = \<lparr>jd_entries = None, jd_metadata_arena = None, jd_entry_count = 0,
     jd_entry_capacity = 0, jd_arena_offset = 0, jd_arena_capacity = 0,
     jd_jit_buffer_start = 0, jd_jit_buffer_end = 0, jd_crash_callback = False,
     jd_status = BAL_SUCCESS, jd_magic = 0\<rparr>"

definition BAL_JIT_DEBUG_ENTRY_CAPACITY :: size_t where "BAL_JIT_DEBUG_ENTRY_CAPACITY = 8192"
definition BAL_JIT_DEBUG_ARENA_CAPACITY_BYTES :: size_t where
  "BAL_JIT_DEBUG_ARENA_CAPACITY_BYTES = 4 * 1024 * 1024"

text \<open>The sizes of the C structures.\<close>

definition SIZEOF_BLOCK_ENTRY :: size_t where "SIZEOF_BLOCK_ENTRY = 32"
definition SIZEOF_BLOCK_METADATA :: size_t where "SIZEOF_BLOCK_METADATA = 32"
definition SIZEOF_INSTRUCTION_MAP :: size_t where "SIZEOF_INSTRUCTION_MAP = 8"

section \<open>Operations\<close>

text \<open>The allocator is given by its two functions; \<open>None\<close> stands for a null pointer.\<close>

definition bal_jit_debug_init ::
  "(('h \<Rightarrow> size_t \<Rightarrow> size_t \<Rightarrow> u64 \<times> 'h) \<times> ('h \<Rightarrow> u64 \<Rightarrow> size_t \<Rightarrow> 'h)) option \<Rightarrow> 'h \<Rightarrow>
   bal_jit_debug_context_t option \<Rightarrow> bal_error_t \<times> bal_jit_debug_context_t option \<times> 'h" where
  "bal_jit_debug_init allocator heap context =
    (case context of None \<Rightarrow> (BAL_ERROR_INVALID_ARGUMENT, None, heap)
     | Some context \<Rightarrow>
       (case allocator of
          None \<Rightarrow> (BAL_ERROR_INVALID_ARGUMENT,
                    Some (context\<lparr>jd_status := BAL_ERROR_INVALID_ARGUMENT\<rparr>), heap)
        | Some (allocate, free) \<Rightarrow>
          (let total_entries_size = BAL_JIT_DEBUG_ENTRY_CAPACITY * SIZEOF_BLOCK_ENTRY;
               (entries, heap) = allocate heap 64 total_entries_size in
           if entries = 0 then
             (BAL_ERROR_ALLOCATION_FAILED,
              Some (context\<lparr>jd_status := BAL_ERROR_ALLOCATION_FAILED\<rparr>), heap)
           else
            (let (metadata_arena, heap) = allocate heap 64 BAL_JIT_DEBUG_ARENA_CAPACITY_BYTES in
             if metadata_arena = 0 then
               (BAL_ERROR_ALLOCATION_FAILED,
                Some (context\<lparr>jd_status := BAL_ERROR_ALLOCATION_FAILED\<rparr>),
                free heap entries total_entries_size)
             else
               (BAL_SUCCESS,
                Some (jit_debug_zero\<lparr>
                  jd_entries := Some (entries, replicate (unat BAL_JIT_DEBUG_ENTRY_CAPACITY)
                    \<lparr>je_rx_start = 0, je_rx_size = 0, je_metadata = 0\<rparr>),
                  jd_metadata_arena := Some (metadata_arena, Map.empty),
                  jd_entry_capacity := BAL_JIT_DEBUG_ENTRY_CAPACITY,
                  jd_arena_capacity := BAL_JIT_DEBUG_ARENA_CAPACITY_BYTES,
                  jd_magic := BAL_JIT_DEBUG_MAGIC_ALIVE\<rparr>), heap)))))"

definition bal_jit_debug_destroy ::
  "('h \<Rightarrow> u64 \<Rightarrow> size_t \<Rightarrow> 'h) option \<Rightarrow> 'h \<Rightarrow> bal_jit_debug_context_t option \<Rightarrow>
   bal_jit_debug_context_t option \<times> 'h" where
  "bal_jit_debug_destroy allocator heap context =
    (case context of None \<Rightarrow> (None, heap)
     | Some context \<Rightarrow>
       (case allocator of None \<Rightarrow> (Some context, heap)
        | Some free \<Rightarrow>
          (let heap = (case jd_entries context of None \<Rightarrow> heap
                 | Some (p, _) \<Rightarrow> free heap p (jd_entry_capacity context * SIZEOF_BLOCK_ENTRY));
               heap = (case jd_metadata_arena context of None \<Rightarrow> heap
                 | Some (p, _) \<Rightarrow> free heap p (jd_arena_capacity context))
           in (Some (jit_debug_zero\<lparr>jd_magic := BAL_JIT_DEBUG_MAGIC_DEAD\<rparr>), heap))))"

definition bal_jit_debug_add_block ::
  "bal_jit_debug_context_t option \<Rightarrow> u64 \<Rightarrow> u32 \<Rightarrow> u64 \<Rightarrow>
   bal_jit_instruction_map_t list option \<Rightarrow> u32 \<Rightarrow>
   bal_error_t \<times> bal_jit_debug_context_t option" where
  "bal_jit_debug_add_block context rx_start rx_size base_guest_pc mapping instruction_count =
    (case context of None \<Rightarrow> (BAL_ERROR_INVALID_ARGUMENT, None)
     | Some context \<Rightarrow>
       if jd_status context \<noteq> BAL_SUCCESS then (jd_status context, Some context)
       else
        (let context = context\<lparr>jd_status := BAL_ERROR_INVALID_ARGUMENT\<rparr> in
         if rx_start = 0 then (BAL_ERROR_INVALID_ARGUMENT, Some context)
         else case mapping of None \<Rightarrow> (BAL_ERROR_INVALID_ARGUMENT, Some context)
         | Some mapping \<Rightarrow>
           if instruction_count = 0 then (BAL_ERROR_INVALID_ARGUMENT, Some context)
           else if jd_entry_capacity context \<le> jd_entry_count context then
             (BAL_ERROR_BUFFER_OVERFLOW, Some (context\<lparr>jd_status := BAL_ERROR_BUFFER_OVERFLOW\<rparr>))
           else if \<not> magic_ok (jd_magic context) BAL_JIT_DEBUG_MAGIC_ALIVE then
             (BAL_ERROR_STRUCT_CORRUPTED, Some (context\<lparr>jd_status := BAL_ERROR_STRUCT_CORRUPTED\<rparr>))
           else
            (let total_mapping_size = ucast instruction_count * SIZEOF_INSTRUCTION_MAP;
                 total_memory_required = total_mapping_size + SIZEOF_BLOCK_METADATA in
             if jd_arena_capacity context < jd_arena_offset context + total_memory_required then
               (BAL_ERROR_BUFFER_OVERFLOW,
                Some (context\<lparr>jd_status := BAL_ERROR_BUFFER_OVERFLOW\<rparr>))
             else
              (let metadata = jd_arena_offset context;
                   block = \<lparr>jb_base_guest_pc = base_guest_pc,
                     jb_instruction_count = instruction_count,
                     jb_mappings = take (unat instruction_count) mapping\<rparr>;
                   entry = \<lparr>je_rx_start = rx_start, je_rx_size = rx_size, je_metadata = metadata\<rparr>
               in (BAL_SUCCESS, Some (context\<lparr>
                    jd_metadata_arena := map_option (\<lambda>(p, m). (p, m(metadata \<mapsto> block)))
                      (jd_metadata_arena context),
                    jd_arena_offset := jd_arena_offset context + total_memory_required,
                    jd_entries := map_option (\<lambda>(p, es). (p, es[unat (jd_entry_count context) := entry]))
                      (jd_entries context),
                    jd_entry_count := jd_entry_count context + 1,
                    jd_status := BAL_SUCCESS\<rparr>))))))"

text \<open>
  The registration of the signal handler on Linux. \<open>installs_segv\<close> and \<open>installs_ill\<close> say
  whether the two \<open>sigaction\<close> calls succeed.
\<close>

definition bal_jit_debug_register_signal_handler ::
  "bool \<Rightarrow> bool \<Rightarrow> bal_jit_debug_context_t option \<Rightarrow> u64 \<Rightarrow> size_t \<Rightarrow>
   bal_error_t \<times> bal_jit_debug_context_t option" where
  "bal_jit_debug_register_signal_handler installs_segv installs_ill context
     jit_buffer_start jit_buffer_size =
    (case context of None \<Rightarrow> (BAL_ERROR_INVALID_ARGUMENT, None)
     | Some c \<Rightarrow>
       if jit_buffer_start = 0 then (BAL_ERROR_INVALID_ARGUMENT, context)
       else if jit_buffer_size = 0 then (BAL_ERROR_INVALID_ARGUMENT, context)
       else
        (let c = c\<lparr>jd_jit_buffer_start := jit_buffer_start,
                   jd_jit_buffer_end := jit_buffer_start + jit_buffer_size\<rparr> in
         if \<not> installs_segv then (BAL_ERROR_ALLOCATION_FAILED, Some c)
         else if \<not> installs_ill then (BAL_ERROR_ALLOCATION_FAILED, Some c)
         else (BAL_SUCCESS, Some c)))"

definition bal_jit_debug_unregister_signal_handler ::
  "bal_jit_debug_context_t \<Rightarrow> bal_jit_debug_context_t" where
  "bal_jit_debug_unregister_signal_handler context =
     context\<lparr>jd_jit_buffer_start := 0, jd_jit_buffer_end := 0\<rparr>"

section \<open>The fault handler\<close>

text \<open>
  What the handler does with a fault: not ours (it returns false), a crash in a known block
  reported with guest PC and block offset (through the callback or the log, then \<open>abort\<close>),
  or a crash in the buffer outside every block (log, then \<open>abort\<close>).
\<close>

datatype jit_fault_result =
    Fault_not_jit
  | Fault_reported bool u64 u32 bal_jit_block_entry_t
  | Fault_unknown_block

text \<open>The inner loop over the instruction map of a block.\<close>

fun fault_guest_pc :: "u64 \<Rightarrow> u32 \<Rightarrow> bal_jit_instruction_map_t list \<Rightarrow> u64 \<Rightarrow> u64" where
  "fault_guest_pc base_guest_pc block_offset [] guest_pc = guest_pc"
| "fault_guest_pc base_guest_pc block_offset (m # ms) guest_pc =
    (if block_offset < jm_x86_offset m then guest_pc
     else fault_guest_pc base_guest_pc block_offset ms
            (base_guest_pc + ucast (jm_guest_pc_offset m)))"

fun fault_find_entry :: "u64 \<Rightarrow> bal_jit_block_entry_t list \<Rightarrow> bal_jit_block_entry_t option" where
  "fault_find_entry rip [] = None"
| "fault_find_entry rip (e # es) =
    (if je_rx_start e \<le> rip \<and> rip < je_rx_start e + ucast (je_rx_size e) then Some e
     else fault_find_entry rip es)"

text \<open>
  RBP is taken for the address of the CPU state; \<open>debug_context_of\<close> is what its
  \<open>debug_context\<close> member points to.
\<close>

definition handle_jit_fault ::
  "(u64 \<Rightarrow> bal_jit_debug_context_t option) \<Rightarrow> u64 \<Rightarrow> u64 \<Rightarrow> jit_fault_result" where
  "handle_jit_fault debug_context_of rip rbp =
    (if rbp AND 63 \<noteq> 0 then Fault_not_jit
     else if rbp = 0 then Fault_not_jit
     else case debug_context_of rbp of None \<Rightarrow> Fault_not_jit
     | Some context \<Rightarrow>
       (case jd_entries context of None \<Rightarrow> Fault_not_jit
        | Some (_, entries) \<Rightarrow>
          (case fault_find_entry rip (take (unat (jd_entry_count context)) entries) of
             Some e \<Rightarrow>
              (let block_offset = ucast (rip - je_rx_start e);
                   metadata = the (snd (the (jd_metadata_arena context)) (je_metadata e));
                   guest_pc = fault_guest_pc (jb_base_guest_pc metadata) block_offset
                     (take (unat (jb_instruction_count metadata)) (jb_mappings metadata))
                     (jb_base_guest_pc metadata)
               in Fault_reported (jd_crash_callback context) guest_pc block_offset e)
           | None \<Rightarrow>
              if jd_jit_buffer_start context \<le> rip \<and> rip < jd_jit_buffer_end context
              then Fault_unknown_block else Fault_not_jit)))"

end
