(* ===== verification/Jit_Debug_Facts.thy ===== *)
theory Jit_Debug_Facts
  imports Jit_Debug
begin

text \<open>
  The debug records: the invariant of the tables (the blocks of the arena lie one behind
  the other, every entry refers to its block), what recording a block does on every branch,
  and what the fault handler finds for an address inside a recorded block.
\<close>

section \<open>The invariant\<close>

definition block_bytes :: "bal_jit_block_metadata_t \<Rightarrow> nat" where
  "block_bytes b = 32 + 8 * unat (jb_instruction_count b)"

text \<open>
  \<open>arena_layout m o es\<close>: starting at offset \<open>o\<close> the arena holds the blocks of the entries
  \<open>es\<close> in order without gaps; the result is the offset behind the last.
\<close>

fun arena_layout ::
  "(size_t \<rightharpoonup> bal_jit_block_metadata_t) \<Rightarrow> nat \<Rightarrow> bal_jit_block_entry_t list \<Rightarrow> nat option" where
  "arena_layout m pos [] = Some pos"
| "arena_layout m pos (e # es) =
    (case m (je_metadata e) of None \<Rightarrow> None
     | Some b \<Rightarrow> if unat (je_metadata e) = pos \<and>
                 length (jb_mappings b) = unat (jb_instruction_count b) \<and> je_rx_start e \<noteq> 0
               then arena_layout m (pos + block_bytes b) es else None)"

definition jd_wf :: "bal_jit_debug_context_t \<Rightarrow> bool" where
  "jd_wf c = (case (jd_entries c, jd_metadata_arena c) of
     (Some (_, es), Some (_, m)) \<Rightarrow>
       length es = unat (jd_entry_capacity c) \<and> jd_entry_count c \<le> jd_entry_capacity c \<and>
       jd_arena_offset c \<le> jd_arena_capacity c \<and> unat (jd_arena_capacity c) < 2 ^ 63 \<and>
       jd_magic c = BAL_JIT_DEBUG_MAGIC_ALIVE \<and>
       arena_layout m 0 (take (unat (jd_entry_count c)) es) = Some (unat (jd_arena_offset c))
   | _ \<Rightarrow> False)"

lemma arena_layout_append:
  "arena_layout m pos (es @ fs) = Option.bind (arena_layout m pos es) (\<lambda>p. arena_layout m p fs)"
  by (induction es arbitrary: pos) (auto split: option.splits)

lemma arena_layout_ge: "arena_layout m pos es = Some q \<Longrightarrow> pos \<le> q"
  by (induction es arbitrary: pos) (force split: option.splits if_splits)+

text \<open>Writing a block at or behind the end does not disturb the earlier ones.\<close>

lemma arena_layout_upd:
  "arena_layout m pos es = Some q \<Longrightarrow> q \<le> unat k \<Longrightarrow> arena_layout (m(k \<mapsto> b)) pos es = Some q"
proof (induction es arbitrary: pos)
  case (Cons e es)
  then obtain b' where b': "m (je_metadata e) = Some b'" "unat (je_metadata e) = pos"
    "length (jb_mappings b') = unat (jb_instruction_count b')" "je_rx_start e \<noteq> 0"
    "arena_layout m (pos + block_bytes b') es = Some q"
    by (auto split: option.splits if_splits)
  from arena_layout_ge [OF b'(5)] Cons.prems(2) b'(2) have "je_metadata e \<noteq> k"
    by (auto simp: block_bytes_def)
  with b' Cons show ?case by simp
qed simp

lemma unat_block_required:
  "unat (ucast (n :: u32) * SIZEOF_INSTRUCTION_MAP + SIZEOF_BLOCK_METADATA :: size_t) = 32 + 8 * unat n"
proof -
  have n: "unat n < 2 ^ 32" using unsigned_less [of n, where 'a = nat] by simp
  have u: "unat (ucast n :: size_t) = unat n"
    by (simp add: unsigned_ucast_eq take_bit_nat_eq_self_iff) (use n in simp)
  then have "unat (ucast n * 8 :: size_t) = unat n * 8"
    using n by (simp add: unat_word_ariths)
  then show ?thesis
    using n by (simp add: unat_word_ariths SIZEOF_INSTRUCTION_MAP_def SIZEOF_BLOCK_METADATA_def)
qed

text \<open>Recording a block succeeds exactly when the context is healthy and there is room.\<close>

lemma add_block_success:
  assumes wf: "jd_wf c" and st: "jd_status c = BAL_SUCCESS"
    and args: "rx \<noteq> 0" "ic \<noteq> 0" "length ms = unat ic"
    and room: "jd_entry_count c < jd_entry_capacity c"
      "unat (jd_arena_offset c) + 32 + 8 * unat ic \<le> unat (jd_arena_capacity c)"
  shows "\<exists>c'. bal_jit_debug_add_block (Some c) rx n pc (Some ms) ic = (BAL_SUCCESS, Some c') \<and>
    jd_wf c' \<and> jd_status c' = BAL_SUCCESS \<and> jd_entry_count c' = jd_entry_count c + 1 \<and>
    take (unat (jd_entry_count c')) (snd (the (jd_entries c'))) =
      take (unat (jd_entry_count c)) (snd (the (jd_entries c))) @
        [\<lparr>je_rx_start = rx, je_rx_size = n, je_metadata = jd_arena_offset c\<rparr>] \<and>
    snd (the (jd_metadata_arena c')) = (snd (the (jd_metadata_arena c)))(jd_arena_offset c \<mapsto>
      \<lparr>jb_base_guest_pc = pc, jb_instruction_count = ic, jb_mappings = ms\<rparr>)"
proof -
  obtain p es q m where es: "jd_entries c = Some (p, es)" "jd_metadata_arena c = Some (q, m)"
    using wf by (auto simp: jd_wf_def split: option.splits)
  let ?k = "unat (jd_entry_count c)"
  let ?e = "\<lparr>je_rx_start = rx, je_rx_size = n, je_metadata = jd_arena_offset c\<rparr>"
  let ?b = "\<lparr>jb_base_guest_pc = pc, jb_instruction_count = ic, jb_mappings = ms\<rparr>"
  let ?off = "jd_arena_offset c + (ucast ic * SIZEOF_INSTRUCTION_MAP + SIZEOF_BLOCK_METADATA)"
  have cap: "unat (jd_arena_capacity c) < 2 ^ 63" and len: "length es = unat (jd_entry_capacity c)"
    and lay: "arena_layout m 0 (take ?k es) = Some (unat (jd_arena_offset c))"
    using wf es by (auto simp: jd_wf_def)
  have off: "unat ?off = unat (jd_arena_offset c) + (32 + 8 * unat ic)"
    using room(2) cap unat_block_required [of ic] by (simp add: unat_word_ariths)
  then have fits: "?off \<le> jd_arena_capacity c"
    using room(2) by (simp add: word_le_nat_alt)
  have k: "?k < length es" using room(1) len by (simp add: word_less_nat_alt)
  have k1: "unat (jd_entry_count c + 1) = Suc ?k"
    using room(1) unat_add_of_nat [of "jd_entry_count c" 1] length_bound_size_t [of "jd_entry_capacity c"]
    by (simp add: word_less_nat_alt)
  have lay': "arena_layout (m(jd_arena_offset c \<mapsto> ?b)) 0 (take ?k es @ [?e]) =
      Some (unat ?off)"
    using arena_layout_upd [OF lay, of "jd_arena_offset c" ?b] off args
    by (simp add: arena_layout_append block_bytes_def)
  have take: "take (Suc ?k) (es[?k := ?e]) = take ?k es @ [?e]"
    using k by (simp add: take_Suc_conv_app_nth)
  have le: "jd_entry_count c + 1 \<le> jd_entry_capacity c"
    using room(1) k1 by (simp add: word_less_nat_alt word_le_nat_alt)
  show ?thesis
    using wf st args room fits lay' take le k1 es len cap
    by (auto simp: bal_jit_debug_add_block_def jd_wf_def magic_ok_def Let_def not_less not_le)
qed

text \<open>Every other outcome is an error that leaves the tables alone.\<close>

lemma add_block_failure:
  assumes "bal_jit_debug_add_block (Some c) rx n pc ms ic = (e, Some c')" "e \<noteq> BAL_SUCCESS"
  shows "c' = c\<lparr>jd_status := e\<rparr>"
  using assms
  by (auto simp: bal_jit_debug_add_block_def Let_def split: option.splits if_splits)

lemma add_block_room:
  assumes "jd_wf c" "bal_jit_debug_add_block (Some c) rx n pc (Some ms) ic = (BAL_SUCCESS, Some c')"
  shows "jd_status c = BAL_SUCCESS" "rx \<noteq> 0" "ic \<noteq> 0" "jd_entry_count c < jd_entry_capacity c"
    "unat (jd_arena_offset c) + 32 + 8 * unat ic \<le> unat (jd_arena_capacity c)"
proof -
  let ?req = "ucast ic * SIZEOF_INSTRUCTION_MAP + SIZEOF_BLOCK_METADATA :: size_t"
  from assms show "jd_status c = BAL_SUCCESS" "rx \<noteq> 0" "ic \<noteq> 0"
      "jd_entry_count c < jd_entry_capacity c"
    by (auto simp: bal_jit_debug_add_block_def Let_def not_le split: if_splits)
  from assms have "jd_arena_offset c + ?req \<le> jd_arena_capacity c"
    and cap: "unat (jd_arena_capacity c) < 2 ^ 63" "jd_arena_offset c \<le> jd_arena_capacity c"
    by (auto simp: bal_jit_debug_add_block_def jd_wf_def Let_def not_less split: if_splits option.splits)
  moreover have "unat ic < 2 ^ 32" using unsigned_less [of ic, where 'a = nat] by simp
  then have "unat (jd_arena_offset c + ?req) = unat (jd_arena_offset c) + (32 + 8 * unat ic)"
    using cap unat_block_required [of ic] by (simp add: unat_word_ariths word_le_nat_alt)
  ultimately show "unat (jd_arena_offset c) + 32 + 8 * unat ic \<le> unat (jd_arena_capacity c)"
    by (simp add: word_le_nat_alt)
qed

lemma add_block_wf:
  assumes "jd_wf c" "bal_jit_debug_add_block (Some c) rx n pc (Some ms) ic = (e, Some c')"
    and "length ms = unat ic"
  shows "jd_wf c'"
proof (cases "e = BAL_SUCCESS")
  case True
  with assms add_block_room [of c rx n pc ms ic c'] add_block_success [of c rx ic ms n pc]
  show ?thesis by auto
next
  case False
  with add_block_failure [OF assms(2)] assms(1) show ?thesis by (auto simp: jd_wf_def split: option.splits)
qed

section \<open>The lookup of the fault handler\<close>




section \<open>Properties\<close>

text \<open>
  C13: the debug tables stay well formed. Whatever a caller records, and whether or not the
  call succeeds, the entry count stays within the table, the arena offset within the
  arena, and the arena is a gap-free sequence of exactly the recorded blocks, each with as
  many mappings as it claims; a failed call changes nothing but the status.
\<close>

theorem jit_debug_tables_invariant:
  assumes "jd_wf c" "length ms = unat ic"
    and "bal_jit_debug_add_block (Some c) rx n pc (Some ms) ic = (e, Some c')"
  shows "jd_wf c' \<and> jd_status c' = e \<and> (e \<noteq> BAL_SUCCESS \<longrightarrow> c' = c\<lparr>jd_status := e\<rparr>)"
proof -
  have "jd_status c' = e"
    using assms(3) by (auto simp: bal_jit_debug_add_block_def Let_def split: if_splits)
  with add_block_wf [OF assms(1,3,2)] add_block_failure [OF assms(3)] show ?thesis by blast
qed

definition debug_example :: bal_jit_debug_context_t where
  "debug_example = jit_debug_zero\<lparr>
     jd_entries := Some (0x1000, replicate 4 \<lparr>je_rx_start = 0, je_rx_size = 0, je_metadata = 0\<rparr>),
     jd_metadata_arena := Some (0x2000, Map.empty), jd_entry_capacity := 4,
     jd_arena_capacity := 256, jd_magic := BAL_JIT_DEBUG_MAGIC_ALIVE\<rparr>"

definition mapping_example :: "bal_jit_instruction_map_t list" where
  "mapping_example = [\<lparr>jm_x86_offset = 0, jm_guest_pc_offset = 0\<rparr>,
     \<lparr>jm_x86_offset = 16, jm_guest_pc_offset = 4\<rparr>]"

lemma debug_example_wf: "jd_wf debug_example" "jd_status debug_example = BAL_SUCCESS"
  by (simp_all add: debug_example_def jit_debug_zero_def jd_wf_def)

theorem jit_debug_tables_invariant_witness:
  "jd_wf (the (snd (bal_jit_debug_add_block (Some debug_example) 0x5000 64 0x80000
     (Some mapping_example) 2)))"
proof -
  let ?r = "bal_jit_debug_add_block (Some debug_example) 0x5000 64 0x80000 (Some mapping_example) 2"
  have "?r = (fst ?r, Some (the (snd ?r)))"
    by (simp add: bal_jit_debug_add_block_def debug_example_def jit_debug_zero_def magic_ok_def
        mapping_example_def SIZEOF_INSTRUCTION_MAP_def SIZEOF_BLOCK_METADATA_def Let_def)
  from jit_debug_tables_invariant [OF debug_example_wf(1) _ this] show ?thesis
    by (simp add: mapping_example_def)
qed



text \<open>
  One failure ends the recording. After any failed call other than one with a null
  context (the table or the arena full, a null argument, no mappings) the status stays in
  error, and every later call returns that error and records nothing, whatever its
  arguments.
\<close>

theorem jit_debug_failure_is_sticky:
  assumes "bal_jit_debug_add_block (Some c) rx n pc ms ic = (e, Some c')" "e \<noteq> BAL_SUCCESS"
  shows "bal_jit_debug_add_block (Some c') rx2 n2 pc2 ms2 ic2 = (e, Some c')"
proof -
  have "jd_status c' = e" using add_block_failure [OF assms] by simp
  with assms(2) show ?thesis by (simp add: bal_jit_debug_add_block_def)
qed

theorem jit_debug_failure_is_sticky_witness:
  "fst (bal_jit_debug_add_block (snd (bal_jit_debug_add_block (Some debug_example) 0x5000 64 0x80000
     (Some []) 0)) 0x5000 64 0x80000 (Some mapping_example) 2) = BAL_ERROR_INVALID_ARGUMENT"
proof -
  let ?r = "bal_jit_debug_add_block (Some debug_example) 0x5000 64 0x80000 (Some []) 0"
  have r: "?r = (BAL_ERROR_INVALID_ARGUMENT, Some (the (snd ?r)))"
    by (simp add: bal_jit_debug_add_block_def debug_example_def jit_debug_zero_def)
  have "BAL_ERROR_INVALID_ARGUMENT \<noteq> BAL_SUCCESS" by simp
  from jit_debug_failure_is_sticky [OF r this] r show ?thesis by (metis fst_conv snd_conv)
qed

end
