(* ===== verification/Register_Allocator.thy ===== *)
theory Register_Allocator
  imports Sliding_Window Jit_Debug
begin

text \<open>
  The register allocator of the block compiler
  (\<open>src/backend/x86/bal_x86_tier1_compiler.c\<close>): which x86 register caches which guest
  register, which cached values are dirty, and the eviction cursor. The compiler structure
  embeds its assembler and its sliding window; \<open>push_macro\<close> and \<open>emit_call\<close> are the calls
  the code makes on them. Entries of the two maps are the \<open>int8_t\<close> values of the code, -1
  for none.
\<close>

section \<open>State\<close>

record bal_tier1_compiler_t =
  tc_assembler :: bal_x86_assembler_t
  tc_window :: bal_sliding_window_t
  tc_arm_to_x86 :: "int list"
  tc_x86_to_arm :: "int list"
  tc_is_dirty :: u32
  tc_eviction_cursor :: u8
  tc_debug_context :: "bal_jit_debug_context_t option"
  tc_status :: bal_error_t

definition SCRATCH_REGISTERS :: "bal_x86_register_t list" where
  "SCRATCH_REGISTERS = [BAL_X86_RAX, BAL_X86_RCX, BAL_X86_RDX, BAL_X86_R8, BAL_X86_R9,
     BAL_X86_R10, BAL_X86_R12, BAL_X86_R14, BAL_X86_R15]"

definition SCRATCH_REGISTERS_SIZE :: nat where
  "SCRATCH_REGISTERS_SIZE = length SCRATCH_REGISTERS"

definition BAL_X86_REGISTER_DISCARD_RESULT :: bal_x86_register_t where
  "BAL_X86_REGISTER_DISCARD_RESULT = BAL_X86_R11"

definition BAL_X86_ABI_ARG1 :: bal_x86_register_t where
  "BAL_X86_ABI_ARG1 = BAL_X86_RDI"

definition push_macro :: "bal_tier1_compiler_t \<Rightarrow> bal_x86_macro_t \<Rightarrow> bal_tier1_compiler_t" where
  "push_macro compiler macro =
    (let (window, assembler) =
       bal_sliding_window_push (tc_window compiler, tc_assembler compiler) macro
     in compiler\<lparr>tc_window := window, tc_assembler := assembler\<rparr>)"

definition flush_window :: "bal_tier1_compiler_t \<Rightarrow> bal_tier1_compiler_t" where
  "flush_window compiler =
    (let (window, assembler) =
       bal_sliding_window_flush_all (tc_window compiler, tc_assembler compiler)
     in compiler\<lparr>tc_window := window, tc_assembler := assembler\<rparr>)"

definition emit_call :: "bal_tier1_compiler_t \<Rightarrow> x86_call \<Rightarrow> bal_tier1_compiler_t" where
  "emit_call compiler call = compiler\<lparr>tc_assembler := x86_emit (tc_assembler compiler) call\<rparr>"

definition dirty_bit :: "nat \<Rightarrow> u32" where
  "dirty_bit n = push_bit n 1"

definition load_register_macro :: "bal_x86_register_t \<Rightarrow> nat \<Rightarrow> bal_x86_macro_t" where
  "load_register_macro x86_register arm_register = macro_zero\<lparr>
     mc_opcode := BAL_X86_MACRO_LOAD, mc_destination := x86_register,
     mc_immediate_or_offset := offset_x arm_register\<rparr>"

definition store_register_macro :: "bal_x86_register_t \<Rightarrow> nat \<Rightarrow> bal_x86_macro_t" where
  "store_register_macro x86_register arm_register = macro_zero\<lparr>
     mc_opcode := BAL_X86_MACRO_STORE, mc_source := x86_register,
     mc_immediate_or_offset := offset_x arm_register\<rparr>"

section \<open>Operations\<close>

definition reset_register_allocator :: "bal_tier1_compiler_t \<Rightarrow> bal_tier1_compiler_t" where
  "reset_register_allocator compiler = compiler\<lparr>tc_is_dirty := 0, tc_eviction_cursor := 0,
     tc_arm_to_x86 := replicate 32 (-1), tc_x86_to_arm := replicate 16 (-1)\<rparr>"

definition evict_x86_register ::
  "bal_tier1_compiler_t \<Rightarrow> bal_x86_register_t \<Rightarrow> bal_tier1_compiler_t" where
  "evict_x86_register compiler x86_register =
    (let arm_victim = tc_x86_to_arm compiler ! nat (reg_int x86_register) in
     if arm_victim = -1 then compiler
     else
      (let victim = nat arm_victim;
           compiler =
            (if tc_is_dirty compiler AND dirty_bit victim \<noteq> 0
             then (push_macro compiler (store_register_macro x86_register victim))
                    \<lparr>tc_is_dirty := tc_is_dirty compiler AND NOT (dirty_bit victim)\<rparr>
             else compiler)
       in compiler\<lparr>tc_arm_to_x86 := (tc_arm_to_x86 compiler)[victim := -1],
            tc_x86_to_arm := (tc_x86_to_arm compiler)[nat (reg_int x86_register) := -1]\<rparr>))"

text \<open>
  The search for a free scratch register: \<open>Inl\<close> is the corrupted pool, \<open>Inr None\<close> a full one.
\<close>

fun find_free_register ::
  "int list \<Rightarrow> bal_x86_register_t list \<Rightarrow> unit + bal_x86_register_t option" where
  "find_free_register x86_to_arm [] = Inr None"
| "find_free_register x86_to_arm (r # rs) =
    (if reg_int r < 0 \<or> reg_int BAL_X86_R15 < reg_int r then Inl ()
     else if x86_to_arm ! nat (reg_int r) = -1 then Inr (Some r)
     else find_free_register x86_to_arm rs)"

text \<open>
  The search for a clean victim runs over the register numbers 0 to 8 (not over the scratch
  registers) and keeps the last hit.
\<close>

definition find_clean_register :: "int list \<Rightarrow> u32 \<Rightarrow> nat \<Rightarrow> bal_x86_register_t" where
  "find_clean_register x86_to_arm is_dirty n =
     fold (\<lambda>i free_register.
         let arm_victim_register = x86_to_arm ! i in
         if arm_victim_register \<noteq> -1 \<and> is_dirty AND dirty_bit (nat arm_victim_register) = 0
         then reg_of_int (int i) else free_register)
       [0..<n] BAL_X86_INVALID"

definition allocate_x86_register ::
  "bal_tier1_compiler_t \<Rightarrow> u8 \<Rightarrow> bool \<Rightarrow> bal_x86_register_t \<times> bal_tier1_compiler_t" where
  "allocate_x86_register compiler arm_register skip_load_instruction =
    (let arm = unat arm_register in
     if tc_status compiler \<noteq> BAL_SUCCESS then (BAL_X86_INVALID, compiler)
     else if xa_status (tc_assembler compiler) \<noteq> BAL_SUCCESS then (BAL_X86_INVALID, compiler)
     else if 32 \<le> arm_register then
       (BAL_X86_INVALID, compiler\<lparr>tc_status := BAL_ERROR_INVALID_ARGUMENT\<rparr>)
     else if tc_arm_to_x86 compiler ! arm \<noteq> -1 then
      (let cached_x86_register = tc_arm_to_x86 compiler ! arm in
       if cached_x86_register < 0 \<or> reg_int BAL_X86_R15 \<le> cached_x86_register then
         (BAL_X86_INVALID,
          compiler\<lparr>tc_arm_to_x86 := (tc_arm_to_x86 compiler)[arm := -1],
            tc_status := BAL_ERROR_REGISTER_ALLOCATOR_CORRUPTED\<rparr>)
       else if tc_x86_to_arm compiler ! nat cached_x86_register \<noteq> int arm then
         (BAL_X86_INVALID,
          compiler\<lparr>tc_arm_to_x86 := (tc_arm_to_x86 compiler)[arm := -1],
            tc_x86_to_arm := (tc_x86_to_arm compiler)[nat cached_x86_register := -1],
            tc_status := BAL_ERROR_REGISTER_ALLOCATOR_CORRUPTED\<rparr>)
       else (reg_of_int cached_x86_register, compiler))
     else
      (case find_free_register (tc_x86_to_arm compiler) SCRATCH_REGISTERS of
         Inl _ \<Rightarrow> (BAL_X86_INVALID,
           compiler\<lparr>tc_status := BAL_ERROR_REGISTER_ALLOCATOR_CORRUPTED\<rparr>)
       | Inr found \<Rightarrow>
          (let (free_register, compiler) =
            (case found of
               Some r \<Rightarrow> (r, compiler)
             | None \<Rightarrow>
                (let clean = find_clean_register (tc_x86_to_arm compiler) (tc_is_dirty compiler)
                       SCRATCH_REGISTERS_SIZE;
                     (free_register, compiler) =
                      (if clean = BAL_X86_INVALID then
                        (let slot_index = unat (tc_eviction_cursor compiler) mod
                               SCRATCH_REGISTERS_SIZE
                         in (SCRATCH_REGISTERS ! slot_index,
                             compiler\<lparr>tc_eviction_cursor := tc_eviction_cursor compiler + 1\<rparr>))
                       else (clean, compiler))
                 in (free_register, evict_x86_register compiler free_register)));
               compiler = compiler\<lparr>
                 tc_arm_to_x86 := (tc_arm_to_x86 compiler)[arm := reg_int free_register],
                 tc_x86_to_arm := (tc_x86_to_arm compiler)
                   [nat (reg_int free_register) := int arm]\<rparr>
           in (free_register,
               if skip_load_instruction then compiler
               else push_macro compiler (load_register_macro free_register arm)))))"

text \<open>The stores of all dirty registers; the dirty set is kept as it is.\<close>

definition flush_dirty_registers :: "bal_tier1_compiler_t \<Rightarrow> bal_tier1_compiler_t" where
  "flush_dirty_registers compiler =
     foldl (\<lambda>c arm_register.
         if tc_is_dirty compiler AND dirty_bit arm_register \<noteq> 0
         then push_macro c (store_register_macro
                (reg_of_int (tc_arm_to_x86 c ! arm_register)) arm_register)
         else c)
       compiler [0..<32]"

end
