(* ===== verification/Decoder.thy ===== *)
theory Decoder
  imports Bal_Prelude
begin

text \<open>
  The instruction decoder (\<open>include/bal_decoder.h\<close>, \<open>src/bal_decoder.c\<close>): the metadata of an
  instruction and the lookup by the top eleven bits and a list of candidates. The tables
  the lookup reads (\<open>src/generated/decoder_table.c\<close>) are an argument.
\<close>

section \<open>Metadata\<close>

datatype bal_opcode_t =
    OPCODE_GET_REGISTER | OPCODE_MOV | OPCODE_ADD | OPCODE_SUB | OPCODE_MUL | OPCODE_DIV
  | OPCODE_AND | OPCODE_XOR | OPCODE_OR_NOT | OPCODE_SHIFT | OPCODE_LOAD | OPCODE_STORE
  | OPCODE_JUMP | OPCODE_CALL_HOST | OPCODE_BRANCH_ZERO | OPCODE_BRANCH_NOT_ZERO
  | OPCODE_BRANCH_CONDITIONAL | OPCODE_TEST_BIT_ZERO | OPCODE_CMP | OPCODE_CONDITIONAL_SELECT
  | OPCODE_IF | OPCODE_LOOP | OPCODE_MERGE | OPCODE_YIELD | OPCODE_BREAK | OPCODE_CONTINUE
  | OPCODE_RETURN | OPCODE_TRAP | OPCODE_BLOCK_ARG | OPCODE_ARG_EXTENSION | OPCODE_VOID
  | OPCODE_NOP | OPCODE_GET_FLAG_N | OPCODE_GET_FLAG_Z | OPCODE_GET_FLAG_C | OPCODE_GET_FLAG_V
  | OPCODE_SET_FLAG_N | OPCODE_SET_FLAG_Z | OPCODE_SET_FLAG_C | OPCODE_SET_FLAG_V
  | OPCODE_ENUM_END

datatype bal_decoder_operand_type_t =
    BAL_OPERAND_TYPE_NONE
  | BAL_OPERAND_TYPE_REGISTER_32
  | BAL_OPERAND_TYPE_REGISTER_64
  | BAL_OPERAND_TYPE_REGISTER_128
  | BAL_OPERAND_TYPE_IMMEDIATE
  | BAL_OPERAND_TYPE_CONDITION

record bal_decoder_operand_t =
  do_type :: bal_decoder_operand_type_t
  do_bit_position :: nat
  do_bit_width :: nat

definition BAL_OPERANDS_SIZE :: nat where "BAL_OPERANDS_SIZE = 5"

record bal_decoder_instruction_metadata_t =
  dm_name :: string
  dm_mask :: u32
  dm_expected :: u32
  dm_ir_opcode :: bal_opcode_t
  dm_operands :: "bal_decoder_operand_t list"

text \<open>Reading a character of the zero terminated name.\<close>

definition name_char :: "bal_decoder_instruction_metadata_t \<Rightarrow> nat \<Rightarrow> char" where
  "name_char m i = (if i < length (dm_name m) then dm_name m ! i else CHR 0x00)"

text \<open>\<open>strncmp(name, prefix, 3) == 0\<close>\<close>

definition name_starts :: "bal_decoder_instruction_metadata_t \<Rightarrow> string \<Rightarrow> bool" where
  "name_starts m prefix = (take 3 (dm_name m) = prefix)"

section \<open>Lookup\<close>

record decoder_bucket_t =
  db_index :: u16
  db_count :: u8

record decoder_tables =
  g_decoder_lookup_table :: "decoder_bucket_t list"
  g_decoder_hash_candidates :: "bal_decoder_instruction_metadata_t list"

fun decode_candidates ::
  "u32 \<Rightarrow> bal_decoder_instruction_metadata_t list \<Rightarrow> bal_decoder_instruction_metadata_t option" where
  "decode_candidates instruction [] = None"
| "decode_candidates instruction (metadata # rest) =
    (if instruction AND dm_mask metadata = dm_expected metadata then Some metadata
     else decode_candidates instruction rest)"

definition bal_decode_arm64 ::
  "decoder_tables \<Rightarrow> u32 \<Rightarrow> bal_decoder_instruction_metadata_t option" where
  "bal_decode_arm64 tables instruction =
    (let index = unat (ucast (drop_bit 21 instruction) :: u16);
         bucket = g_decoder_lookup_table tables ! index;
         candidates = drop (unat (db_index bucket)) (g_decoder_hash_candidates tables)
     in decode_candidates instruction (take (unat (db_count bucket)) candidates))"

section \<open>Well-formed tables\<close>

text \<open>
  2048 buckets, each a range of the candidate array, and every candidate complete: five
  operands whose fields lie in the 32 bit word and are narrower than it.
\<close>

definition operand_wf :: "bal_decoder_operand_t \<Rightarrow> bool" where
  "operand_wf opr = (do_bit_position opr + do_bit_width opr \<le> 32 \<and> do_bit_width opr < 32)"

definition metadata_wf :: "bal_decoder_instruction_metadata_t \<Rightarrow> bool" where
  "metadata_wf m = (length (dm_operands m) = BAL_OPERANDS_SIZE \<and> list_all operand_wf (dm_operands m))"

definition decoder_tables_wf :: "decoder_tables \<Rightarrow> bool" where
  "decoder_tables_wf t = (length (g_decoder_lookup_table t) = 2048 \<and>
     list_all (\<lambda>b. unat (db_index b) + unat (db_count b) \<le> length (g_decoder_hash_candidates t))
       (g_decoder_lookup_table t) \<and>
     list_all metadata_wf (g_decoder_hash_candidates t))"

lemma decode_candidates_Some:
  "decode_candidates i ms = Some m \<Longrightarrow> m \<in> set ms \<and> i AND dm_mask m = dm_expected m"
  by (induction ms) (auto split: if_splits)

lemma decode_candidates_None:
  "decode_candidates i ms = None \<longleftrightarrow> (\<forall>m \<in> set ms. i AND dm_mask m \<noteq> dm_expected m)"
  by (induction ms) auto

lemma bucket_index_bound: "unat (ucast (drop_bit 21 (i :: u32)) :: u16) < 2048"
proof -
  have "unat (drop_bit 21 i) = unat i div 2 ^ 21"
    by (simp only: unat_drop_bit_eq) (simp add: drop_bit_eq_div)
  also have "\<dots> < 2048" using unsigned_less [of i, where 'a = nat] by simp
  finally have "unat (drop_bit 21 i) < 2048" .
  then show ?thesis by (simp add: unsigned_ucast_eq) (metis take_bit_nat_less_eq_self le_less_trans)
qed

text \<open>
  The decoder only ever answers with a match. Over well-formed tables every index it
  uses is inside its array, the metadata it returns matches the instruction word and is
  complete, and it answers nothing only if no candidate of the bucket matches.
\<close>

lemma decode_matches:
  assumes "decoder_tables_wf t"
  shows "let index = unat (ucast (drop_bit 21 i) :: u16);
             b = g_decoder_lookup_table t ! index;
             candidates = take (unat (db_count b))
               (drop (unat (db_index b)) (g_decoder_hash_candidates t))
         in index < length (g_decoder_lookup_table t) \<and>
            length candidates = unat (db_count b) \<and>
            (case bal_decode_arm64 t i of
               Some m \<Rightarrow> m \<in> set candidates \<and> i AND dm_mask m = dm_expected m \<and> metadata_wf m
             | None \<Rightarrow> \<forall>m \<in> set candidates. i AND dm_mask m \<noteq> dm_expected m)"
proof -
  let ?index = "unat (ucast (drop_bit 21 i) :: u16)"
  let ?b = "g_decoder_lookup_table t ! ?index"
  let ?cs = "take (unat (db_count ?b)) (drop (unat (db_index ?b)) (g_decoder_hash_candidates t))"
  have index: "?index < length (g_decoder_lookup_table t)"
    using assms bucket_index_bound by (simp add: decoder_tables_wf_def)
  then have range: "unat (db_index ?b) + unat (db_count ?b) \<le> length (g_decoder_hash_candidates t)"
    using assms by (simp add: decoder_tables_wf_def list_all_length)
  have "\<forall>m \<in> set ?cs. metadata_wf m"
    using assms by (auto simp: decoder_tables_wf_def list_all_iff dest!: in_set_takeD in_set_dropD)
  with index range show ?thesis
    by (auto simp: bal_decode_arm64_def Let_def decode_candidates_None
        dest: decode_candidates_Some split: option.split)
qed

end
