(* ===== verification/Tier1_Compiler.thy ===== *)
theory Tier1_Compiler
  imports Register_Allocator Decoder
begin

text \<open>
  The tier 1 block compiler (\<open>src/backend/x86/bal_x86_tier1_compiler.c\<close>): the translation of
  the supported guest instructions into macros, the two ways of ending a block, and the
  translation loop. Log calls are left out.
\<close>

section \<open>Engine flags\<close>

definition BAL_ENGINE_FLAG_JIT_DEBUG :: u32 where "BAL_ENGINE_FLAG_JIT_DEBUG = 0x1"
definition BAL_ENGINE_FLAG_SINGLE_STEP :: u32 where "BAL_ENGINE_FLAG_SINGLE_STEP = 0x2"
definition BAL_ENGINE_FLAG_INTERRUPT_PENDING :: u32 where
  "BAL_ENGINE_FLAG_INTERRUPT_PENDING = 0x4"
definition BAL_ENGINE_FLAG_WFI_YIELDS_HOST :: u32 where "BAL_ENGINE_FLAG_WFI_YIELDS_HOST = 0x8"
definition BAL_ENGINE_FLAG_DISABLE_BLOCK_CACHE :: u32 where
  "BAL_ENGINE_FLAG_DISABLE_BLOCK_CACHE = 0x20"
definition BAL_ENGINE_FLAG_INSTRUCTION_COUNTING :: u32 where
  "BAL_ENGINE_FLAG_INSTRUCTION_COUNTING = 0x80"
definition BAL_ENGINE_FLAG_STRICT_ALIGNMENT :: u32 where
  "BAL_ENGINE_FLAG_STRICT_ALIGNMENT = 0x100"
definition BAL_ENGINE_FLAG_TRAP_SVC :: u32 where "BAL_ENGINE_FLAG_TRAP_SVC = 0x200"
definition BAL_ENGINE_FLAG_TRAP_SMC_HVC :: u32 where "BAL_ENGINE_FLAG_TRAP_SMC_HVC = 0x400"

definition flag_set :: "u32 \<Rightarrow> u32 \<Rightarrow> bool" where
  "flag_set flags f = (flags AND f \<noteq> 0)"

section \<open>Macros\<close>

definition mov_rr_macro :: "bal_x86_register_t \<Rightarrow> bal_x86_register_t \<Rightarrow> bal_x86_macro_t" where
  "mov_rr_macro d r = macro_zero\<lparr>mc_opcode := BAL_X86_MACRO_MOV_REGISTER_REGISTER,
     mc_destination := d, mc_source := r\<rparr>"

definition imm_macro ::
  "bal_x86_macro_opcode_t \<Rightarrow> bal_x86_register_t \<Rightarrow> u64 \<Rightarrow> bal_x86_macro_t" where
  "imm_macro opc d i = macro_zero\<lparr>mc_opcode := opc, mc_destination := d,
     mc_immediate_or_offset := i\<rparr>"

definition rr_macro ::
  "bal_x86_macro_opcode_t \<Rightarrow> bal_x86_register_t \<Rightarrow> bal_x86_register_t \<Rightarrow> bal_x86_macro_t" where
  "rr_macro opc d r = macro_zero\<lparr>mc_opcode := opc, mc_destination := d, mc_source := r\<rparr>"

definition setcc_macro :: "bal_x86_condition_t \<Rightarrow> u64 \<Rightarrow> bal_x86_macro_t" where
  "setcc_macro c off = macro_zero\<lparr>mc_opcode := BAL_X86_MACRO_SETCC, mc_condition := c,
     mc_immediate_or_offset := off\<rparr>"

definition store_pc_macro :: "bal_x86_register_t \<Rightarrow> bal_x86_macro_t" where
  "store_pc_macro r = macro_zero\<lparr>mc_opcode := BAL_X86_MACRO_STORE, mc_source := r,
     mc_immediate_or_offset := offset_pc\<rparr>"

definition push_macros :: "bal_tier1_compiler_t \<Rightarrow> bal_x86_macro_t list \<Rightarrow> bal_tier1_compiler_t" where
  "push_macros = foldl push_macro"

definition emit_calls :: "bal_tier1_compiler_t \<Rightarrow> x86_call list \<Rightarrow> bal_tier1_compiler_t" where
  "emit_calls = foldl emit_call"

text \<open>\<open>compiler->is_dirty |= 1U << rd\<close>\<close>

definition mark_dirty :: "bal_tier1_compiler_t \<Rightarrow> u8 \<Rightarrow> bal_tier1_compiler_t" where
  "mark_dirty compiler rd = compiler\<lparr>tc_is_dirty := tc_is_dirty compiler OR dirty_bit (unat rd)\<rparr>"

section \<open>Operands\<close>

definition extract_operand_value :: "u32 \<Rightarrow> bal_decoder_operand_t \<Rightarrow> u32" where
  "extract_operand_value instruction opr =
    (if do_type opr = BAL_OPERAND_TYPE_NONE then 0
     else
      (let msk = push_bit (do_bit_width opr) 1 - 1
       in drop_bit (do_bit_position opr) instruction AND msk))"

text \<open>Operand \<open>i\<close> of the instruction, as \<open>uint32_t\<close> and as \<open>uint8_t\<close>.\<close>

definition operand32 :: "bal_decoder_instruction_metadata_t \<Rightarrow> u32 \<Rightarrow> nat \<Rightarrow> u32" where
  "operand32 metadata instruction i =
     extract_operand_value instruction (dm_operands metadata ! i)"

definition operand8 :: "bal_decoder_instruction_metadata_t \<Rightarrow> u32 \<Rightarrow> nat \<Rightarrow> u8" where
  "operand8 metadata instruction i = ucast (operand32 metadata instruction i)"

definition operand_type :: "bal_decoder_instruction_metadata_t \<Rightarrow> nat \<Rightarrow> bal_decoder_operand_type_t"
  where "operand_type metadata i = do_type (dm_operands metadata ! i)"

definition is_register_type :: "bal_decoder_operand_type_t \<Rightarrow> bool" where
  "is_register_type t = (t = BAL_OPERAND_TYPE_REGISTER_64 \<or> t = BAL_OPERAND_TYPE_REGISTER_32)"

section \<open>Ending a block\<close>

definition restore_and_return :: "x86_call list" where
  "restore_and_return = [Emit_pop_r64 BAL_X86_R15, Emit_pop_r64 BAL_X86_R14,
     Emit_pop_r64 BAL_X86_R13, Emit_pop_r64 BAL_X86_R12, Emit_pop_r64 BAL_X86_RBP, Emit_ret]"

definition store_pc_calls :: "u64 \<Rightarrow> x86_call list" where
  "store_pc_calls pc = [Emit_mov_r64_imm64 BAL_X86_RAX pc,
     Emit_store_r64_rbp_offset BAL_X86_RAX (ucast offset_pc)]"

definition terminate_block ::
  "bal_tier1_compiler_t \<Rightarrow> u64 \<Rightarrow> bool \<Rightarrow> size_t \<Rightarrow> u32 \<Rightarrow> bal_tier1_compiler_t" where
  "terminate_block compiler next_pc is_pc_dynamic arm_instruction_count engine_flags =
    (let compiler =
       (if flag_set engine_flags BAL_ENGINE_FLAG_INSTRUCTION_COUNTING
        then push_macro compiler (imm_macro BAL_X86_MACRO_ADD_CPU_ICOUNT BAL_X86_RBP
               arm_instruction_count)
        else compiler);
         compiler = flush_dirty_registers compiler;
         compiler = flush_window compiler;
         compiler = (if \<not> is_pc_dynamic then emit_calls compiler (store_pc_calls next_pc)
                     else compiler)
     in emit_calls compiler restore_and_return)"

definition count_dirty :: "u32 \<Rightarrow> nat" where
  "count_dirty dirty_mask = length (filter (\<lambda>i. dirty_mask AND dirty_bit i \<noteq> 0) [0..<32])"

definition conditional_epilogue_size :: "nat \<Rightarrow> u64 \<Rightarrow> nat" where
  "conditional_epilogue_size dirty_count fallthrough_pc =
     (let mov_fallthrough_size = (if fallthrough_pc \<le> 0xFFFFFFFF then 5 else 10)
      in dirty_count * 7 + mov_fallthrough_size + 7 + 8 + 1 + 1)"

definition terminate_block_conditional ::
  "bal_tier1_compiler_t \<Rightarrow> bal_x86_condition_t \<Rightarrow> u64 \<Rightarrow> u64 \<Rightarrow> bal_tier1_compiler_t" where
  "terminate_block_conditional compiler condition fallthrough_pc taken_pc =
    (let compiler = flush_window compiler;
         dirty_count = count_dirty (tc_is_dirty compiler);
         epilogue_size = conditional_epilogue_size dirty_count fallthrough_pc;
         compiler = emit_call compiler (Emit_jcc_rel32 condition (of_nat epilogue_size));
         compiler = flush_window (flush_dirty_registers compiler);
         compiler = emit_calls compiler (store_pc_calls fallthrough_pc);
         compiler = emit_calls compiler restore_and_return;
         compiler = flush_window (flush_dirty_registers compiler);
         compiler = emit_calls compiler (store_pc_calls taken_pc)
     in emit_calls compiler [Emit_pop_r64 BAL_X86_RBP, Emit_ret])"

section \<open>Data processing\<close>

text \<open>The four flag stores after an addition or a subtraction that sets flags.\<close>

definition set_flag_macros :: "bool \<Rightarrow> bal_x86_macro_t list" where
  "set_flag_macros is_sub = [setcc_macro BAL_X86_COND_S offset_flag_n,
     setcc_macro BAL_X86_COND_E offset_flag_z, setcc_macro BAL_X86_COND_O offset_flag_v,
     setcc_macro (if is_sub then BAL_X86_COND_AE else BAL_X86_COND_B) offset_flag_c]"

definition is_setting_flags :: "bal_decoder_instruction_metadata_t \<Rightarrow> bool" where
  "is_setting_flags metadata = (dm_ir_opcode metadata = OPCODE_CMP \<or>
     name_char metadata 3 = CHR ''S'' \<or> name_char metadata 2 = CHR ''N'')"

text \<open>
  The destination of an addition or subtraction: the discard register for a comparison, the
  register allocated for \<open>rd\<close> otherwise, with the move of the first operand into it.
\<close>

definition prepare_destination ::
  "bal_tier1_compiler_t \<Rightarrow> bool \<Rightarrow> u8 \<Rightarrow> bal_x86_register_t \<Rightarrow>
   bal_x86_register_t \<times> bal_tier1_compiler_t" where
  "prepare_destination compiler is_discarded_result rd x86_rn =
    (if is_discarded_result then
       (BAL_X86_REGISTER_DISCARD_RESULT,
        push_macro compiler (mov_rr_macro BAL_X86_REGISTER_DISCARD_RESULT x86_rn))
     else
      (let (x86_rd, compiler) = allocate_x86_register compiler rd True in
       (x86_rd, if x86_rd \<noteq> x86_rn then push_macro compiler (mov_rr_macro x86_rd x86_rn)
                else compiler)))"

definition translate_add_sub_imm ::
  "bal_tier1_compiler_t \<Rightarrow> bal_decoder_instruction_metadata_t \<Rightarrow> u32 \<Rightarrow> bool \<Rightarrow>
   bal_tier1_compiler_t" where
  "translate_add_sub_imm compiler metadata instruction is_sub =
    (let rd = operand8 metadata instruction 0;
         rn = operand8 metadata instruction 1;
         imm12 = operand32 metadata instruction 2;
         shift = operand32 metadata instruction 3;
         shift_amount = (if shift = 1 then 12 else 0);
         value = push_bit shift_amount (ucast imm12) :: u64;
         setting_flags = is_setting_flags metadata;
         is_discarded_result = setting_flags \<and> rd = 31;
         (x86_rn, compiler) = allocate_x86_register compiler rn False;
         (x86_rd, compiler) = prepare_destination compiler is_discarded_result rd x86_rn;
         compiler = push_macro compiler
           (imm_macro (if is_sub then BAL_X86_MACRO_SUB_REGISTER_IMMEDIATE
                       else BAL_X86_MACRO_ADD_REGISTER_IMMEDIATE) x86_rd value);
         compiler = (if setting_flags then push_macros compiler (set_flag_macros is_sub)
                     else compiler)
     in if \<not> is_discarded_result then mark_dirty compiler rd else compiler)"

definition translate_add_sub_reg ::
  "bal_tier1_compiler_t \<Rightarrow> bal_decoder_instruction_metadata_t \<Rightarrow> u32 \<Rightarrow> bool \<Rightarrow>
   bal_tier1_compiler_t" where
  "translate_add_sub_reg compiler metadata instruction is_sub =
    (let rd = operand8 metadata instruction 0;
         rn = operand8 metadata instruction 1;
         shift_amount = operand32 metadata instruction 2;
         rm = operand8 metadata instruction 3 in
     if shift_amount \<noteq> 0 then compiler\<lparr>tc_status := BAL_ERROR_UNKNOWN_INSTRUCTION\<rparr>
     else
      (let setting_flags = is_setting_flags metadata;
           is_discarded_result = setting_flags \<and> rd = 31;
           (x86_rn, compiler) = allocate_x86_register compiler rn False;
           (x86_rm, compiler) = allocate_x86_register compiler rm False;
           (x86_rd, compiler) = prepare_destination compiler is_discarded_result rd x86_rn;
           compiler = push_macro compiler
             (rr_macro (if is_sub then BAL_X86_MACRO_SUB_REGISTER_REGISTER
                        else BAL_X86_MACRO_ADD_REGISTER_REGISTER) x86_rd x86_rm);
           compiler = (if setting_flags then push_macros compiler (set_flag_macros is_sub)
                       else compiler)
       in if \<not> is_discarded_result then mark_dirty compiler rd else compiler))"

definition translate_and ::
  "bal_tier1_compiler_t \<Rightarrow> bal_decoder_instruction_metadata_t \<Rightarrow> u32 \<Rightarrow> bal_tier1_compiler_t" where
  "translate_and compiler metadata instruction =
    (let rd = operand8 metadata instruction 0;
         rn = operand8 metadata instruction 1;
         shift_amount = operand32 metadata instruction 2;
         rm = operand8 metadata instruction 3 in
     if name_char metadata 3 = CHR ''S'' then
       compiler\<lparr>tc_status := BAL_ERROR_UNKNOWN_INSTRUCTION\<rparr>
     else if shift_amount \<noteq> 0 then compiler\<lparr>tc_status := BAL_ERROR_UNKNOWN_INSTRUCTION\<rparr>
     else
      (let (x86_rn, compiler) = allocate_x86_register compiler rn False;
           (x86_rm, compiler) = allocate_x86_register compiler rm False;
           (x86_rd, compiler) = allocate_x86_register compiler rd True in
       if x86_rd = BAL_X86_INVALID \<or> x86_rn = BAL_X86_INVALID \<or> x86_rm = BAL_X86_INVALID then
         compiler\<lparr>tc_status := BAL_ERROR_INCORRECT_REGISTER_TYPE\<rparr>
       else
        (let (compiler, x86_and_source) =
           (if rd = 31 then
              (push_macro compiler (imm_macro BAL_X86_MACRO_MOV_REGISTER_IMMEDIATE x86_rd 0), x86_rm)
            else if x86_rd = x86_rm then (compiler, x86_rn)
            else if x86_rd \<noteq> x86_rn then
              (push_macro compiler (mov_rr_macro x86_rd x86_rn), x86_rm)
            else (compiler, x86_rm));
             compiler = push_macro compiler
               (rr_macro BAL_X86_MACRO_AND_REGISTER_REGISTER x86_rd x86_and_source)
         in mark_dirty compiler rd)))"

definition translate_mov_immediate ::
  "bal_tier1_compiler_t \<Rightarrow> bal_decoder_instruction_metadata_t \<Rightarrow> u32 \<Rightarrow> bal_tier1_compiler_t" where
  "translate_mov_immediate compiler metadata instruction =
    (let rd = operand8 metadata instruction 0;
         imm16 = ucast (operand32 metadata instruction 1) :: u64;
         hw = ucast (operand32 metadata instruction 2) :: u64;
         shift = unat (hw * 16);
         msk = (if operand_type metadata 0 = BAL_OPERAND_TYPE_REGISTER_32
                then 0xFFFFFFFF else 0xFFFFFFFFFFFFFFFF) :: u64;
         variant = name_char metadata 3;
         compiler =
          (if variant = CHR ''Z'' then
            (let value = push_bit shift imm16 AND msk;
                 (x86_rd, compiler) = allocate_x86_register compiler rd True;
                 compiler = push_macro compiler
                   (imm_macro BAL_X86_MACRO_MOV_REGISTER_IMMEDIATE x86_rd value)
             in mark_dirty compiler rd)
           else if variant = CHR ''N'' then
            (let value = NOT (push_bit shift imm16) AND msk;
                 (x86_rd, compiler) = allocate_x86_register compiler rd True;
                 compiler = push_macro compiler
                   (imm_macro BAL_X86_MACRO_MOV_REGISTER_IMMEDIATE x86_rd value)
             in mark_dirty compiler rd)
           else
            (let (x86_rd, compiler) = allocate_x86_register compiler rd False;
                 clear_mask = NOT (push_bit shift 0xFFFF) AND msk;
                 insert_value = push_bit shift imm16 AND msk
             in push_macros compiler
                  [imm_macro BAL_X86_MACRO_AND_REGISTER_IMMEDIATE x86_rd clear_mask,
                   imm_macro BAL_X86_MACRO_OR_REGISTER_IMMEDIATE x86_rd insert_value]))
     in mark_dirty compiler rd)"

definition translate_mov_register ::
  "bal_tier1_compiler_t \<Rightarrow> bal_decoder_instruction_metadata_t \<Rightarrow> u32 \<Rightarrow> bal_tier1_compiler_t" where
  "translate_mov_register compiler metadata instruction =
    (if tc_status compiler \<noteq> BAL_SUCCESS then compiler
     else
      (let rd = operand8 metadata instruction 0;
           rm = operand8 metadata instruction 1;
           (x86_rm, compiler) = allocate_x86_register compiler rm False;
           (x86_rd, compiler) = allocate_x86_register compiler rd True;
           compiler = push_macro compiler (mov_rr_macro x86_rd x86_rm)
       in mark_dirty compiler rd))"

section \<open>Branches\<close>

text \<open>The byte offset of a branch: a signed word count, times four, as \<open>int64_t\<close>.\<close>

definition branch_offset :: "u32 \<Rightarrow> u64" where
  "branch_offset signed_immediate = scast signed_immediate * 4"

text \<open>The flag a condition tests and whether the branch is taken on zero.\<close>

definition b_cond_flag :: "u32 \<Rightarrow> (u64 \<times> bool) option" where
  "b_cond_flag cond =
    (if cond = 0x0 then Some (offset_flag_z, False)
     else if cond = 0x1 then Some (offset_flag_z, True)
     else if cond = 0x2 then Some (offset_flag_c, False)
     else if cond = 0x3 then Some (offset_flag_c, True)
     else if cond = 0x4 then Some (offset_flag_n, False)
     else if cond = 0x5 then Some (offset_flag_n, True)
     else if cond = 0x6 then Some (offset_flag_v, False)
     else if cond = 0x7 then Some (offset_flag_v, True)
     else None)"

definition b_cond_taken_pc :: "u32 \<Rightarrow> u64 \<Rightarrow> u64" where
  "b_cond_taken_pc instruction guest_address =
    (let imm19 = drop_bit 5 instruction AND 0x7FFFF;
         signed_imm = (imm19 XOR 0x40000) - 0x40000
     in guest_address + branch_offset signed_imm)"

definition translate_b_cond ::
  "bal_tier1_compiler_t \<Rightarrow> u32 \<Rightarrow> u64 \<Rightarrow> bal_tier1_compiler_t" where
  "translate_b_cond compiler instruction guest_address =
    (let cond = instruction AND 0xF;
         taken_pc = b_cond_taken_pc instruction guest_address;
         fallthrough_pc = guest_address + 4 in
     if cond = 0xE then
      (let compiler = flush_window (flush_dirty_registers compiler);
           compiler = emit_calls compiler (store_pc_calls taken_pc)
       in emit_calls compiler [Emit_pop_r64 BAL_X86_RBP, Emit_ret])
     else case b_cond_flag cond of
       None \<Rightarrow> compiler\<lparr>tc_status := BAL_ERROR_UNKNOWN_INSTRUCTION\<rparr>
     | Some (flag_offset, test_for_zero) \<Rightarrow>
        (let compiler = flush_window compiler;
             compiler = emit_call compiler
               (Emit_cmp_mem8_rbp_offset_imm (ucast flag_offset) 0);
             x86_cond = (if test_for_zero then BAL_X86_COND_E else BAL_X86_COND_NE)
         in terminate_block_conditional compiler x86_cond fallthrough_pc taken_pc))"

text \<open>Sign extension by a left shift and an arithmetic right shift.\<close>

definition sign_extend_field :: "u32 \<Rightarrow> nat \<Rightarrow> u32" where
  "sign_extend_field imm bit_width =
     (let shift = 32 - bit_width in signed_drop_bit shift (push_bit shift imm))"

definition translate_cbz_cbnz ::
  "bal_tier1_compiler_t \<Rightarrow> bal_decoder_instruction_metadata_t \<Rightarrow> u32 \<Rightarrow> u64 \<Rightarrow> bool \<Rightarrow>
   bal_tier1_compiler_t" where
  "translate_cbz_cbnz compiler metadata instruction guest_address is_cbnz =
    (let rn = operand8 metadata instruction 0;
         imm19 = operand32 metadata instruction 1;
         signed_immediate = sign_extend_field imm19 (do_bit_width (dm_operands metadata ! 1));
         taken_pc = guest_address + branch_offset signed_immediate;
         fallthrough_pc = guest_address + 4;
         (x86_rn, compiler) = allocate_x86_register compiler rn False;
         compiler = push_macro compiler
           (rr_macro BAL_X86_MACRO_TEST_REGISTER_REGISTER x86_rn x86_rn)
     in terminate_block_conditional compiler
          (if is_cbnz then BAL_X86_COND_NE else BAL_X86_COND_E) fallthrough_pc taken_pc)"

definition translate_jump ::
  "bal_decoder_instruction_metadata_t \<Rightarrow> u32 \<Rightarrow> u64 \<Rightarrow> u64" where
  "translate_jump metadata instruction guest_address =
    (let imm26 = operand32 metadata instruction 0;
         signed_immediate = sign_extend_field imm26 (do_bit_width (dm_operands metadata ! 0))
     in guest_address + branch_offset signed_immediate)"

section \<open>The translation loop\<close>

record translate_state =
  ts_compiler :: bal_tier1_compiler_t
  ts_guest_address :: u64
  ts_is_block_terminated :: bool
  ts_is_pc_dynamic :: bool
  ts_count :: size_t
  ts_mappings :: "bal_jit_instruction_map_t list"

definition ends_block :: "translate_state \<Rightarrow> bal_tier1_compiler_t \<Rightarrow> translate_state" where
  "ends_block s compiler = s\<lparr>ts_compiler := compiler, ts_is_block_terminated := True\<rparr>"

text \<open>The \<open>switch\<close> over the opcode of the decoded instruction.\<close>

definition translate_opcode ::
  "translate_state \<Rightarrow> bal_decoder_instruction_metadata_t \<Rightarrow> u32 \<Rightarrow> translate_state" where
  "translate_opcode s metadata instruction =
    (let compiler = ts_compiler s; guest_address = ts_guest_address s;
         is_sub = (dm_ir_opcode metadata = OPCODE_SUB \<or> dm_ir_opcode metadata = OPCODE_CMP);
         add_sub =
           (if is_register_type (operand_type metadata 3) then
              s\<lparr>ts_compiler := translate_add_sub_reg compiler metadata instruction is_sub\<rparr>
            else if operand_type metadata 2 = BAL_OPERAND_TYPE_IMMEDIATE then
              s\<lparr>ts_compiler := translate_add_sub_imm compiler metadata instruction is_sub\<rparr>
            else s\<lparr>ts_is_block_terminated := True\<rparr>) in
     case dm_ir_opcode metadata of
       OPCODE_MOV \<Rightarrow>
         if name_char metadata 3 \<in> {CHR ''N'', CHR ''K'', CHR ''Z''} then
           s\<lparr>ts_compiler := translate_mov_immediate compiler metadata instruction\<rparr>
         else
           ends_block s (if is_register_type (operand_type metadata 1)
             then translate_mov_register compiler metadata instruction else compiler)
     | OPCODE_ADD \<Rightarrow> add_sub
     | OPCODE_SUB \<Rightarrow> add_sub
     | OPCODE_CMP \<Rightarrow> add_sub
     | OPCODE_JUMP \<Rightarrow>
         s\<lparr>ts_guest_address := translate_jump metadata instruction guest_address,
           ts_is_block_terminated := True\<rparr>
     | OPCODE_BRANCH_ZERO \<Rightarrow>
         ends_block s (translate_cbz_cbnz compiler metadata instruction guest_address False)
     | OPCODE_BRANCH_NOT_ZERO \<Rightarrow>
         ends_block s (translate_cbz_cbnz compiler metadata instruction guest_address True)
     | OPCODE_BRANCH_CONDITIONAL \<Rightarrow>
         ends_block s (translate_b_cond compiler instruction guest_address)
     | OPCODE_RETURN \<Rightarrow>
        (let (x86_rn, compiler) =
               allocate_x86_register compiler (operand8 metadata instruction 0) False
         in (ends_block s (push_macro compiler (store_pc_macro x86_rn)))
              \<lparr>ts_is_pc_dynamic := True\<rparr>)
     | OPCODE_TRAP \<Rightarrow>
        (let compiler = push_macro (flush_window compiler)
               (macro_zero\<lparr>mc_opcode := BAL_X86_MACRO_UD2\<rparr>)
         in ends_block s (compiler\<lparr>tc_status := BAL_ERROR_UNKNOWN_INSTRUCTION\<rparr>))
     | OPCODE_AND \<Rightarrow> s\<lparr>ts_compiler := translate_and compiler metadata instruction\<rparr>
     | _ \<Rightarrow> ends_block s (compiler\<lparr>tc_status := BAL_ERROR_UNKNOWN_INSTRUCTION\<rparr>))"

definition trapped :: "u32 \<Rightarrow> bal_decoder_instruction_metadata_t \<Rightarrow> bool" where
  "trapped engine_flags metadata =
    (flag_set engine_flags BAL_ENGINE_FLAG_TRAP_SVC \<and> name_starts metadata ''SVC'' \<or>
     flag_set engine_flags BAL_ENGINE_FLAG_TRAP_SMC_HVC \<and>
       (name_starts metadata ''SMC'' \<or> name_starts metadata ''HVC'') \<or>
     flag_set engine_flags BAL_ENGINE_FLAG_WFI_YIELDS_HOST \<and> name_starts metadata ''WFI'')"

text \<open>
  One pass of the inner loop: the new state and whether the loop goes on (\<open>False\<close> is a
  \<open>break\<close>). \<open>debug\<close> is the start offset of the block and the guest address of its first
  instruction when debug records are kept.
\<close>

definition translate_one ::
  "decoder_tables \<Rightarrow> u32 \<Rightarrow> size_t \<Rightarrow> (size_t \<times> u64) option \<Rightarrow> size_t \<Rightarrow> u32 \<Rightarrow>
   translate_state \<Rightarrow> translate_state \<times> bool" where
  "translate_one tables engine_flags max_instructions debug i instruction s =
    (case bal_decode_arm64 tables instruction of
       None \<Rightarrow> (s\<lparr>ts_is_block_terminated := False\<rparr>, False)
     | Some metadata \<Rightarrow>
        if trapped engine_flags metadata then (s\<lparr>ts_is_block_terminated := True\<rparr>, False)
        else
         (let start_x86_instruction_offset = xa_offset (tc_assembler (ts_compiler s));
              s = translate_opcode s metadata instruction;
              compiler = ts_compiler s in
          if tc_status compiler \<noteq> BAL_SUCCESS \<or> xa_status (tc_assembler compiler) \<noteq> BAL_SUCCESS then
            (s\<lparr>ts_is_block_terminated := True,
               ts_compiler := (if tc_status compiler = BAL_SUCCESS
                 then compiler\<lparr>tc_status := xa_status (tc_assembler compiler)\<rparr> else compiler)\<rparr>,
             False)
          else
           (let s = (case debug of
                   Some (start_x86_block_offset, guest_address_base) \<Rightarrow>
                     if length (ts_mappings s) < 2048 then
                       s\<lparr>ts_mappings := ts_mappings s @
                         [\<lparr>jm_x86_offset = ucast (start_x86_instruction_offset - start_x86_block_offset),
                           jm_guest_pc_offset = ucast (ts_guest_address s - guest_address_base)\<rparr>]\<rparr>
                     else s
                 | None \<Rightarrow> s);
                s = s\<lparr>ts_count := ts_count s + 1\<rparr> in
            if i + 1 = max_instructions then (s\<lparr>ts_is_block_terminated := True\<rparr>, False)
            else if ts_is_block_terminated s then (s, False)
            else (s\<lparr>ts_guest_address := ts_guest_address s + 4\<rparr>, True))))"

text \<open>
  The \<open>for\<close> loop over the readable words; \<open>n\<close> is the number of passes left, \<open>host\<close> reads
  the word at a host address.
\<close>

fun translate_words ::
  "(u64 \<Rightarrow> u32) \<Rightarrow> decoder_tables \<Rightarrow> u32 \<Rightarrow> size_t \<Rightarrow> (size_t \<times> u64) option \<Rightarrow>
   nat \<Rightarrow> size_t \<Rightarrow> u64 \<Rightarrow> translate_state \<Rightarrow> translate_state" where
  "translate_words host tables engine_flags max_instructions debug 0 i cursor s = s"
| "translate_words host tables engine_flags max_instructions debug (Suc n) i cursor s =
    (case translate_one tables engine_flags max_instructions debug i (host cursor) s of
       (s, continue) \<Rightarrow>
         if continue
         then translate_words host tables engine_flags max_instructions debug n (i + 1)
                (cursor + 4) s
         else s)"

text \<open>
  One pass of the outer loop: \<open>Inl\<close> is a \<open>break\<close> out of it.
\<close>

definition translate_chunk ::
  "(u64 \<Rightarrow> u32) \<Rightarrow> (u64 \<Rightarrow> u64 \<times> size_t) \<Rightarrow> decoder_tables \<Rightarrow> u32 \<Rightarrow> size_t \<Rightarrow>
   (size_t \<times> u64) option \<Rightarrow> translate_state \<Rightarrow> translate_state + translate_state" where
  "translate_chunk host translate tables engine_flags max_instructions debug s =
    (let (host_address_base, max_readable_instructions_bytes) = translate (ts_guest_address s);
         fails = (\<lambda>e. Inl (s\<lparr>ts_compiler := (ts_compiler s)\<lparr>tc_status := e\<rparr>\<rparr>)) in
     if host_address_base = 0 then fails BAL_ERROR_MEMORY_FAULT
     else
      (let max_readable_instructions = max_readable_instructions_bytes div 4 in
       if max_readable_instructions = 0 then fails BAL_ERROR_PC_ALIGNMENT
       else
        (let max_readable_instructions = (if max_instructions < max_readable_instructions
               then max_instructions else max_readable_instructions) in
         if flag_set engine_flags BAL_ENGINE_FLAG_STRICT_ALIGNMENT \<and> ts_guest_address s mod 4 \<noteq> 0
         then fails BAL_ERROR_PC_ALIGNMENT
         else Inr (translate_words host tables engine_flags max_instructions debug
           (unat max_readable_instructions) 0 host_address_base s))))"

text \<open>The outer loop; it may run forever, then its value is \<open>None\<close>.\<close>

partial_function (option) translate_loop ::
  "(u64 \<Rightarrow> u32) \<Rightarrow> (u64 \<Rightarrow> u64 \<times> size_t) \<Rightarrow> decoder_tables \<Rightarrow> u32 \<Rightarrow> size_t \<Rightarrow>
   (size_t \<times> u64) option \<Rightarrow> translate_state \<Rightarrow> translate_state option" where
  "translate_loop host translate tables engine_flags max_instructions debug s =
    (if ts_is_block_terminated s then Some s
     else case translate_chunk host translate tables engine_flags max_instructions debug s of
       Inl s \<Rightarrow> Some s
     | Inr s \<Rightarrow> translate_loop host translate tables engine_flags max_instructions debug s)"

definition block_prologue :: "x86_call list" where
  "block_prologue = [Emit_push_r64 BAL_X86_RBP, Emit_push_r64 BAL_X86_R12,
     Emit_push_r64 BAL_X86_R13, Emit_push_r64 BAL_X86_R14, Emit_push_r64 BAL_X86_R15,
     Emit_mov_r64_r64 BAL_X86_RBP BAL_X86_ABI_ARG1]"

definition debug_enabled :: "bal_tier1_compiler_t \<Rightarrow> u32 \<Rightarrow> bool" where
  "debug_enabled compiler engine_flags =
    (flag_set engine_flags BAL_ENGINE_FLAG_JIT_DEBUG \<and>
     (case tc_debug_context compiler of None \<Rightarrow> False | Some c \<Rightarrow> jd_entries c \<noteq> None))"

text \<open>
  The translation of a block: the address of its code (0 for \<open>NULL\<close>) and the compiler, or
  \<open>None\<close> when it does not return. The code passes the address of the memory interface to the
  interface's callback, against the documentation, which promises it the context; the callback
  of the model gets the context (see \<^theory_text>\<open>Bal_Memory\<close>). So the theorems about a translation hold
  for callbacks that take the context out of the interface, as the flat interface does.
\<close>

definition bal_tier1_compiler_translate ::
  "(u64 \<Rightarrow> u32) \<Rightarrow> decoder_tables \<Rightarrow> bal_tier1_compiler_t \<Rightarrow>
   'c bal_memory_interface_t option \<Rightarrow> u64 \<Rightarrow> size_t \<Rightarrow> u32 \<Rightarrow>
   (u64 \<times> bal_tier1_compiler_t) option" where
  "bal_tier1_compiler_translate host tables compiler memory_interface guest_address
     max_instructions engine_flags =
    (let invalid = Some (0, compiler\<lparr>tc_status := BAL_ERROR_INVALID_ARGUMENT\<rparr>) in
     case memory_interface of None \<Rightarrow> invalid
     | Some interface \<Rightarrow>
       (case mi_translate interface of None \<Rightarrow> invalid
        | Some translate \<Rightarrow>
          if max_instructions = 0 then invalid
          else
           (let compiler = reset_register_allocator compiler;
                start_x86_block_offset = xa_offset (tc_assembler compiler);
                host_address = xa_rx_buffer (tc_assembler compiler) + start_x86_block_offset;
                debug = (if debug_enabled compiler engine_flags
                         then Some (start_x86_block_offset, guest_address) else None);
                compiler = emit_calls compiler block_prologue
            in map_option (\<lambda>s.
                let compiler = terminate_block (ts_compiler s) (ts_guest_address s)
                      (ts_is_pc_dynamic s) (ts_count s) engine_flags
                in if tc_status compiler \<noteq> BAL_SUCCESS \<or>
                      xa_status (tc_assembler compiler) \<noteq> BAL_SUCCESS then (0, compiler)
                   else
                    (let assembler = tc_assembler compiler;
                         compiler = (if debug \<noteq> None \<and> ts_mappings s \<noteq> [] then
                           compiler\<lparr>tc_debug_context := snd (bal_jit_debug_add_block
                             (tc_debug_context compiler)
                             (xa_rx_buffer assembler + start_x86_block_offset)
                             (ucast (xa_offset assembler - start_x86_block_offset))
                             guest_address (Some (ts_mappings s))
                             (of_nat (length (ts_mappings s))))\<rparr>
                           else compiler)
                     in (host_address, compiler)))
              (translate_loop host (translate (mi_context interface)) tables engine_flags
                max_instructions debug
                \<lparr>ts_compiler = compiler, ts_guest_address = guest_address,
                 ts_is_block_terminated = False, ts_is_pc_dynamic = False, ts_count = 0,
                 ts_mappings = []\<rparr>))))"

definition bal_tier1_compiler_init ::
  "bal_tier1_compiler_t option \<Rightarrow> bal_executable_buffer_t \<Rightarrow> u8 list \<Rightarrow> size_t \<Rightarrow>
   bal_jit_debug_context_t option \<Rightarrow> bal_error_t \<times> bal_tier1_compiler_t option" where
  "bal_tier1_compiler_init compiler executable_buffer mem buffer_size debug_context =
    (case compiler of None \<Rightarrow> (BAL_ERROR_INVALID_ARGUMENT, None)
     | Some c \<Rightarrow>
       if eb_rw_pointer executable_buffer = 0 \<or> eb_rx_pointer executable_buffer = 0 \<or>
          buffer_size = 0
       then (BAL_ERROR_INVALID_ARGUMENT, Some (c\<lparr>tc_status := BAL_ERROR_INVALID_ARGUMENT\<rparr>))
       else
        (let c = c\<lparr>tc_debug_context := debug_context\<rparr>;
             (error, assembler) = bal_x86_assembler_init (Some (tc_assembler c))
               executable_buffer mem buffer_size;
             c = c\<lparr>tc_assembler := the assembler\<rparr> in
         if error \<noteq> BAL_SUCCESS then (error, Some c)
         else
          (let (error, window, assembler) = bal_sliding_window_init (Some (tc_window c))
                 (Some (tc_assembler c));
               c = c\<lparr>tc_window := the window, tc_assembler := the assembler\<rparr>
           in (error, Some c))))"

text \<open>\<open>None\<close> when the reset of the assembler faults.\<close>

definition bal_tier1_compiler_reset :: "bal_tier1_compiler_t \<Rightarrow> bal_tier1_compiler_t option" where
  "bal_tier1_compiler_reset compiler =
    (let compiler = reset_register_allocator (compiler\<lparr>tc_status := BAL_SUCCESS\<rparr>);
         compiler = compiler\<lparr>tc_window := bal_sliding_window_reset (tc_window compiler)\<rparr>
     in case bal_x86_assembler_reset (tc_assembler compiler) of None \<Rightarrow> None
        | Some assembler \<Rightarrow> Some (compiler\<lparr>tc_assembler := assembler\<rparr>))"

end
