(* ===== verification/Cpu_Memory.thy ===== *)
theory Cpu_Memory
  imports X86_Semantics Bal_Cpu
begin

text \<open>
  The CPU structure in byte memory: loading from and storing to 64 bit slots, and the
  members of \<open>bal_cpu_t\<close> as pairwise disjoint pieces of memory. All address arithmetic is
  modulo 2 to the 64, so nothing is assumed about where the structure lies.
\<close>

section \<open>Memory slots\<close>

text \<open>Two 8 byte slots are disjoint when they are at least 8 bytes apart in both directions.\<close>

definition disjoint64 :: "u64 \<Rightarrow> u64 \<Rightarrow> bool" where
  "disjoint64 a b \<longleftrightarrow> 8 \<le> unat (a - b) \<and> 8 \<le> unat (b - a)"

lemma store64_other: "8 \<le> unat (p - a) \<Longrightarrow> store64 m a v p = m p"
  by (simp add: store64_def Let_def)

lemma small_offsets: "k < 8 \<Longrightarrow> unat (a + of_nat k - a :: u64) = k"
  by (simp add: unat_of_nat take_bit_nat_eq_self)

lemma store64_byte: "k < 8 \<Longrightarrow> store64 m a v (a + of_nat k) = ucast (drop_bit (8 * k) v)"
  by (simp add: store64_def unat_of_nat take_bit_nat_eq_self)

lemma of_le32_low:
  "of_le32 (ucast (v :: u64)) (ucast (drop_bit 8 v)) (ucast (drop_bit 16 v)) (ucast (drop_bit 24 v)) =
   ucast v"
  unfolding of_le32_def
proof (rule bit_word_eqI, goal_cases)
  case (1 n)
  then consider "n < 8" | "8 \<le> n \<and> n < 16" | "16 \<le> n \<and> n < 24" | "24 \<le> n \<and> n < 32"
    by fastforce
  then show ?case by cases (auto simp: bit_simps)
qed

lemma of_le32_high:
  "of_le32 (ucast (drop_bit 32 (v :: u64))) (ucast (drop_bit 40 v)) (ucast (drop_bit 48 v))
     (ucast (drop_bit 56 v)) = ucast (drop_bit 32 v)"
  using of_le32_low [of "drop_bit 32 v"] by simp

lemma load64_store64 [simp]: "load64 (store64 m a v) a = v"
proof -
  have low: "of_le32 (store64 m a v a) (store64 m a v (a + 1)) (store64 m a v (a + 2))
      (store64 m a v (a + 3)) = ucast v"
    using store64_byte [of 0 m a v] store64_byte [of 1 m a v] store64_byte [of 2 m a v]
      store64_byte [of 3 m a v] by (simp add: of_le32_low)
  have high: "of_le32 (store64 m a v (a + 4)) (store64 m a v (a + 5)) (store64 m a v (a + 6))
      (store64 m a v (a + 7)) = ucast (drop_bit 32 v)"
    using store64_byte [of 4 m a v] store64_byte [of 5 m a v] store64_byte [of 6 m a v]
      store64_byte [of 7 m a v] by (simp add: of_le32_high)
  show ?thesis by (simp add: load64_def low high)
qed

lemma disjoint_byte:
  assumes "disjoint64 a b" "k < 8"
  shows "8 \<le> unat (b + of_nat k - a)"
proof -
  have le: "8 \<le> unat (a - b)" "8 \<le> unat (b - a)" using assms by (simp_all add: disjoint64_def)
  have "unat ((a - b) + (b - a)) = 0" by simp
  then have "(unat (a - b) + unat (b - a)) mod 2 ^ 64 = 0"
    by (simp only: unat_word_ariths) simp
  moreover have "unat (a - b) + unat (b - a) < 2 * 2 ^ 64" "0 < unat (a - b) + unat (b - a)"
    using length_bound_size_t [of "a - b"] length_bound_size_t [of "b - a"] le by linarith+
  ultimately have "unat (a - b) + unat (b - a) = 2 ^ 64"
    by (auto elim!: dvdE simp: mod_eq_0_iff_dvd)
  with le assms(2) have "unat (b - a) + k < 2 ^ 64" by linarith
  then have "unat ((b - a) + of_nat k) = unat (b - a) + k" by (rule unat_add_of_nat)
  moreover have eq: "b + of_nat k - a = (b - a) + of_nat k" by simp
  ultimately show ?thesis using le unfolding eq by linarith
qed

lemma load64_store64_other:
  assumes "disjoint64 a b"
  shows "load64 (store64 m a v) b = load64 m b"
proof -
  have "store64 m a v (b + of_nat k) = m (b + of_nat k)" if "k < 8" for k
    using disjoint_byte [OF assms that] by (rule store64_other)
  from this [of 0] this [of 1] this [of 2] this [of 3] this [of 4] this [of 5] this [of 6] this [of 7]
  show ?thesis by (simp add: load64_def)
qed

lemma load64_upd_other:
  assumes "8 \<le> unat (p - a)"
  shows "load64 (m(p := v)) a = load64 m a"
proof -
  have "a + of_nat k \<noteq> p" if "k < 8" for k
    using assms small_offsets [OF that, of a] that by auto
  from this [of 0] this [of 1] this [of 2] this [of 3] this [of 4] this [of 5] this [of 6] this [of 7]
  show ?thesis by (simp add: load64_def)
qed


section \<open>The members of the CPU state in memory\<close>

lemma unat_offset_x: "r < 32 \<Longrightarrow> unat (offset_x r) = 8 * r"
  unfolding offset_x_def unat_of_nat by (simp add: take_bit_nat_eq_self)

lemma disjoint_offsets:
  fixes x y base :: u64
  assumes "unat x + 8 \<le> unat y" "unat y \<le> 512"
  shows "disjoint64 (base + x) (base + y)" "disjoint64 (base + y) (base + x)"
proof -
  have le: "x \<le> y" using assms by (simp add: word_le_nat_alt)
  have yx: "unat (y - x) = unat y - unat x" by (rule unat_sub [OF le])
  have "unat ((x - y) + (y - x)) = 0" by simp
  then have "(unat (x - y) + unat (y - x)) mod 2 ^ 64 = 0"
    by (simp only: unat_word_ariths) simp
  moreover have "unat (x - y) + unat (y - x) < 2 * 2 ^ 64" "0 < unat (x - y) + unat (y - x)"
    using length_bound_size_t [of "x - y"] length_bound_size_t [of "y - x"] assms yx by linarith+
  ultimately have "unat (x - y) + unat (y - x) = 2 ^ 64"
    by (auto elim!: dvdE simp: mod_eq_0_iff_dvd)
  with assms yx have "8 \<le> unat (x - y)" "8 \<le> unat (y - x)" by simp_all
  then show "disjoint64 (base + x) (base + y)" "disjoint64 (base + y) (base + x)"
    by (simp_all add: disjoint64_def)
qed

lemma disjoint_registers:
  assumes "r < 32" "k < 32" "r \<noteq> k"
  shows "disjoint64 (base + offset_x r) (base + offset_x k)"
proof (cases "r < k")
  case True
  with assms show ?thesis by (intro disjoint_offsets(1)) (simp_all add: unat_offset_x)
next
  case False
  with assms show ?thesis by (intro disjoint_offsets(2)) (simp_all add: unat_offset_x)
qed

text \<open>A byte at or behind offset 256 is not part of a register slot.\<close>

lemma byte_not_in_register:
  assumes "r < 32" "256 \<le> unat x" "unat x \<le> 512"
  shows "8 \<le> unat (base + x - (base + offset_x r))"
proof -
  have "offset_x r \<le> x" using assms by (simp add: word_le_nat_alt unat_offset_x)
  then have "unat (x - offset_x r) = unat x - 8 * r"
    by (simp add: unat_sub unat_offset_x assms)
  with assms show ?thesis by simp
qed

lemma ea_rbp: "ea s BAL_X86_RBP (ucast (off :: u64)) = xs_reg s BAL_X86_RBP + off"
  if "unat off \<le> 512"
proof -
  have "scast (ucast off :: u32) = off"
  proof (rule bit_word_eqI)
    fix n assume n: "n < LENGTH(64)"
    have "take_bit 10 off = off"
    proof -
      have "unat (take_bit 10 off) = unat off"
        using that by (simp add: unsigned_take_bit_eq take_bit_nat_eq_self)
      then show ?thesis by (rule unsigned_word_eqI)
    qed
    then have high: "10 \<le> k \<Longrightarrow> \<not> bit off k" for k by (metis bit_take_bit_iff not_le)
    show "bit (scast (ucast off :: u32) :: u64) n = bit off n"
      using n high [of n] high [of 31] by (auto simp: bit_simps min_def split: if_splits)
  qed
  then show ?thesis by (simp add: ea_def)
qed

lemma offset_bounds [simp]:
  "r < 32 \<Longrightarrow> unat (offset_x r) \<le> 512" "unat offset_pc \<le> 512" "unat offset_flag_c \<le> 512"
  "unat offset_flag_z \<le> 512" "unat offset_flag_n \<le> 512" "unat offset_flag_v \<le> 512"
  "unat offset_instruction_count \<le> 512"
  by (simp_all add: unat_offset_x cpu_offset_defs)

end
