(* ===== verification/Arm_Semantics.thy ===== *)
theory Arm_Semantics
  imports Bal_Prelude
begin

text \<open>
  The guest side of the specification: the architectural effect of the A64 instructions the
  block compiler supports, written from the architecture manual's pseudocode, not from the
  repository. A guest state has 32 register slots; slot 31 is the stack pointer, and the
  zero register is not stored. Flags are booleans.
\<close>

record guest_state =
  gs_x :: "nat \<Rightarrow> u64"
  gs_n :: bool
  gs_z :: bool
  gs_c :: bool
  gs_v :: bool
  gs_pc :: u64
  gs_icount :: u64

section \<open>Arithmetic with flags\<close>

text \<open>\<open>AddWithCarry\<close> of the manual: the result and N, Z, C, V.\<close>

definition add_with_carry :: "u64 \<Rightarrow> u64 \<Rightarrow> bool \<Rightarrow> u64 \<times> bool \<times> bool \<times> bool \<times> bool" where
  "add_with_carry x y carry_in =
    (let unsigned_sum = uint x + uint y + (if carry_in then 1 else 0);
         signed_sum = sint x + sint y + (if carry_in then 1 else 0);
         result = word_of_int unsigned_sum :: u64
     in (result, bit result 63, result = 0, uint result \<noteq> unsigned_sum, sint result \<noteq> signed_sum))"

definition set_nzcv :: "bool \<times> bool \<times> bool \<times> bool \<Rightarrow> guest_state \<Rightarrow> guest_state" where
  "set_nzcv f g = (case f of (n, z, c, v) \<Rightarrow> g\<lparr>gs_n := n, gs_z := z, gs_c := c, gs_v := v\<rparr>)"

text \<open>Addition and subtraction: the result, and the flags with \<open>S\<close>.\<close>

definition arm_add_sub :: "bool \<Rightarrow> u64 \<Rightarrow> u64 \<Rightarrow> u64 \<times> bool \<times> bool \<times> bool \<times> bool" where
  "arm_add_sub is_sub x y =
     (if is_sub then add_with_carry x (NOT y) True else add_with_carry x y False)"

section \<open>Instructions\<close>

datatype arm_instr =
    A_movz nat u64 nat
  | A_movn nat u64 nat
  | A_movk nat u64 nat
  | A_add_sub_imm bool bool nat nat u64
  | A_add_sub_reg bool bool nat nat nat
  | A_and_reg nat nat nat

text \<open>Reading and writing with 31 as the zero register or as the stack pointer.\<close>

definition read_zr :: "guest_state \<Rightarrow> nat \<Rightarrow> u64" where
  "read_zr g r = (if r = 31 then 0 else gs_x g r)"

definition write_zr :: "nat \<Rightarrow> u64 \<Rightarrow> guest_state \<Rightarrow> guest_state" where
  "write_zr r v g = (if r = 31 then g else g\<lparr>gs_x := (gs_x g)(r := v)\<rparr>)"

definition write_sp :: "nat \<Rightarrow> u64 \<Rightarrow> guest_state \<Rightarrow> guest_state" where
  "write_sp r v g = g\<lparr>gs_x := (gs_x g)(r := v)\<rparr>"

text \<open>The first argument of the additions is subtraction, the second flag setting.\<close>

primrec arm_step :: "arm_instr \<Rightarrow> guest_state \<Rightarrow> guest_state" where
  "arm_step (A_movz rd imm sh) g = write_zr rd (push_bit sh imm) g"
| "arm_step (A_movn rd imm sh) g = write_zr rd (NOT (push_bit sh imm)) g"
| "arm_step (A_movk rd imm sh) g =
     write_zr rd ((read_zr g rd AND NOT (push_bit sh 0xFFFF)) OR push_bit sh imm) g"
| "arm_step (A_add_sub_imm sub s rd rn imm) g =
    (case arm_add_sub sub (gs_x g rn) imm of (v, f) \<Rightarrow>
       if s then write_zr rd v (set_nzcv f g) else write_sp rd v g)"
| "arm_step (A_add_sub_reg sub s rd rn rm) g =
    (case arm_add_sub sub (read_zr g rn) (read_zr g rm) of (v, f) \<Rightarrow>
       write_zr rd v (if s then set_nzcv f g else g))"
| "arm_step (A_and_reg rd rn rm) g = write_zr rd (read_zr g rn AND read_zr g rm) g"

primrec arm_exec :: "arm_instr list \<Rightarrow> guest_state \<Rightarrow> guest_state" where
  "arm_exec [] g = g"
| "arm_exec (i # is) g = arm_exec is (arm_step i g)"

end
