(* ===== verification/Register_Allocator_Facts.thy ===== *)
theory Register_Allocator_Facts
  imports Register_Allocator Sliding_Window_Facts Cpu_Memory Arm_Semantics
begin

text \<open>
  The register allocator against its purpose: the two maps stay inverse to each other, and
  while block code runs the machine state stands for a guest state (\<open>view\<close>) that neither
  allocation nor eviction changes.
\<close>

section \<open>The allocator's bookkeeping\<close>

definition cached :: "bal_tier1_compiler_t \<Rightarrow> nat \<Rightarrow> bal_x86_register_t option" where
  "cached c r = (if r < 32 \<and> tc_arm_to_x86 c ! r \<noteq> -1
     then Some (reg_of_int (tc_arm_to_x86 c ! r)) else None)"

definition is_dirty :: "bal_tier1_compiler_t \<Rightarrow> nat \<Rightarrow> bool" where
  "is_dirty c r = (tc_is_dirty c AND dirty_bit r \<noteq> 0)"

text \<open>The two maps are inverse to each other on the scratch registers.\<close>

definition ra_wf :: "bal_tier1_compiler_t \<Rightarrow> bool" where
  "ra_wf c \<longleftrightarrow> length (tc_arm_to_x86 c) = 32 \<and> length (tc_x86_to_arm c) = 16 \<and>
     (\<forall>r < 32. tc_arm_to_x86 c ! r = -1 \<or>
        (\<exists>q \<in> set SCRATCH_REGISTERS. tc_arm_to_x86 c ! r = reg_int q \<and>
           tc_x86_to_arm c ! nat (reg_int q) = int r)) \<and>
     (\<forall>k < 16. tc_x86_to_arm c ! k = -1 \<or>
        (\<exists>r < 32. tc_x86_to_arm c ! k = int r \<and> tc_arm_to_x86 c ! r = int k)) \<and>
     (\<forall>r. is_dirty c r \<longrightarrow> cached c r \<noteq> None)"

lemma dirty_bit_test: "(w AND dirty_bit r \<noteq> 0) = bit w r"
  by (simp add: dirty_bit_def push_bit_eq_mult and_exp_eq_0_iff_not_bit)

lemma bit_clear_dirty: "bit (w AND NOT (dirty_bit v)) r = (bit w r \<and> r \<noteq> v)"
  by (auto simp: dirty_bit_def bit_simps dest: bit_imp_le_length)

lemma is_dirty_bit: "is_dirty c r = bit (tc_is_dirty c) r"
  by (simp add: is_dirty_def dirty_bit_test)

lemma is_dirty_lt: "is_dirty c r \<Longrightarrow> r < 32"
  using bit_imp_le_length [of "tc_is_dirty c" r] by (simp add: is_dirty_bit)

lemma scratch_valid: "q \<in> set SCRATCH_REGISTERS \<Longrightarrow>
    0 \<le> reg_int q \<and> reg_int q \<le> 15 \<and> nat (reg_int q) < 16 \<and> reg_int q \<noteq> -1"
  by (auto simp: SCRATCH_REGISTERS_def)

lemma cached_lt: "cached c r = Some q \<Longrightarrow> r < 32"
  by (simp add: cached_def split: if_splits)

lemma cached_SomeD:
  assumes "ra_wf c" "cached c r = Some q"
  shows "q \<in> set SCRATCH_REGISTERS" "tc_arm_to_x86 c ! r = reg_int q"
    "tc_x86_to_arm c ! nat (reg_int q) = int r"
  using assms by (auto simp: ra_wf_def cached_def split: if_splits)

lemma cached_inj: "ra_wf c \<Longrightarrow> cached c r = Some q \<Longrightarrow> cached c k = Some q \<Longrightarrow> r = k"
  using cached_SomeD(3) [of c r q] cached_SomeD(3) [of c k q] by simp

lemma reverse_SomeD:
  assumes "ra_wf c" "k < 16" "tc_x86_to_arm c ! k \<noteq> -1"
  obtains r where "r < 32" "tc_x86_to_arm c ! k = int r" "cached c r = Some (reg_of_int (int k))"
    "reg_of_int (int k) \<in> set SCRATCH_REGISTERS"
proof -
  from assms obtain r where r: "r < 32" "tc_x86_to_arm c ! k = int r" "tc_arm_to_x86 c ! r = int k"
    unfolding ra_wf_def by blast
  then have "cached c r = Some (reg_of_int (int k))" by (simp add: cached_def)
  with r that cached_SomeD(1) [OF assms(1) this] show thesis by blast
qed

lemma reverse_free:
  assumes "ra_wf c" "q \<in> set SCRATCH_REGISTERS"
  shows "tc_x86_to_arm c ! nat (reg_int q) = -1 \<longleftrightarrow> (\<forall>r. cached c r \<noteq> Some q)"
proof
  assume free: "tc_x86_to_arm c ! nat (reg_int q) = -1"
  show "\<forall>r. cached c r \<noteq> Some q"
  proof (intro allI notI)
    fix r assume "cached c r = Some q"
    from cached_SomeD(3) [OF assms(1) this] free show False by simp
  qed
next
  assume none: "\<forall>r. cached c r \<noteq> Some q"
  show "tc_x86_to_arm c ! nat (reg_int q) = -1"
  proof (rule ccontr)
    assume "tc_x86_to_arm c ! nat (reg_int q) \<noteq> -1"
    from reverse_SomeD [OF assms(1) _ this] none scratch_valid [OF assms(2)] show False by auto
  qed
qed

text \<open>Fields the allocator does not look at.\<close>

lemma bookkeeping_frame [simp]:
  "cached (c\<lparr>tc_window := w\<rparr>) = cached c"
  "is_dirty (c\<lparr>tc_window := w\<rparr>) = is_dirty c"
  "ra_wf (c\<lparr>tc_window := w\<rparr>) = ra_wf c"
  "cached (c\<lparr>tc_assembler := a\<rparr>) = cached c"
  "is_dirty (c\<lparr>tc_assembler := a\<rparr>) = is_dirty c"
  "ra_wf (c\<lparr>tc_assembler := a\<rparr>) = ra_wf c"
  "cached (c\<lparr>tc_eviction_cursor := e\<rparr>) = cached c"
  "is_dirty (c\<lparr>tc_eviction_cursor := e\<rparr>) = is_dirty c"
  "ra_wf (c\<lparr>tc_eviction_cursor := e\<rparr>) = ra_wf c"
  "cached (c\<lparr>tc_status := st\<rparr>) = cached c"
  "is_dirty (c\<lparr>tc_status := st\<rparr>) = is_dirty c"
  "cached (c\<lparr>tc_is_dirty := d\<rparr>) = cached c"
  by (simp_all add: cached_def is_dirty_def ra_wf_def fun_eq_iff)

lemma push_macro_frame [simp]:
  "cached (push_macro c m) = cached c" "is_dirty (push_macro c m) = is_dirty c"
  "ra_wf (push_macro c m) = ra_wf c" "tc_status (push_macro c m) = tc_status c"
  "tc_arm_to_x86 (push_macro c m) = tc_arm_to_x86 c"
  "tc_x86_to_arm (push_macro c m) = tc_x86_to_arm c"
  "tc_is_dirty (push_macro c m) = tc_is_dirty c"
  "tc_eviction_cursor (push_macro c m) = tc_eviction_cursor c"
  "tc_debug_context (push_macro c m) = tc_debug_context c"
  by (simp_all add: push_macro_def case_prod_unfold Let_def)

section \<open>The macros an operation pushes\<close>

definition emits :: "bal_tier1_compiler_t \<Rightarrow> bal_x86_macro_t list \<Rightarrow> bal_tier1_compiler_t \<Rightarrow> bool" where
  "emits c ms c' \<longleftrightarrow> (tc_window c', tc_assembler c') =
     foldl bal_sliding_window_push (tc_window c, tc_assembler c) ms"

lemma emits_refl [simp]: "emits c [] c"
  by (simp add: emits_def)

lemma emits_push: "emits c [m] (push_macro c m)"
  by (simp add: emits_def push_macro_def case_prod_unfold Let_def)

lemma emits_trans: "emits c ms c' \<Longrightarrow> emits c' ns c'' \<Longrightarrow> emits c (ms @ ns) c''"
  by (simp add: emits_def)

lemma emits_push_after: "emits c ms c' \<Longrightarrow> emits c (ms @ [m]) (push_macro c' m)"
  by (rule emits_trans [OF _ emits_push])

lemma emits_frame [simp]:
  "emits c ms (c'\<lparr>tc_arm_to_x86 := x\<rparr>) = emits c ms c'"
  "emits c ms (c'\<lparr>tc_x86_to_arm := y\<rparr>) = emits c ms c'"
  "emits c ms (c'\<lparr>tc_is_dirty := d\<rparr>) = emits c ms c'"
  "emits c ms (c'\<lparr>tc_eviction_cursor := e\<rparr>) = emits c ms c'"
  "emits c ms (c'\<lparr>tc_status := st\<rparr>) = emits c ms c'"
  "emits (c\<lparr>tc_eviction_cursor := e\<rparr>) ms c' = emits c ms c'"
  "emits (c\<lparr>tc_arm_to_x86 := x\<rparr>) ms c' = emits c ms c'"
  "emits (c\<lparr>tc_x86_to_arm := y\<rparr>) ms c' = emits c ms c'"
  "emits (c\<lparr>tc_is_dirty := d\<rparr>) ms c' = emits c ms c'"
  by (simp_all add: emits_def)


section \<open>The guest's view of a machine state\<close>

text \<open>
  The guest state that a machine state stands for while block code runs: a cached register
  is read from its x86 register, everything else from the CPU structure at RBP.
\<close>

definition slot_addr :: "x86_state \<Rightarrow> nat \<Rightarrow> u64" where
  "slot_addr s r = xs_reg s BAL_X86_RBP + offset_x r"

definition slot :: "bal_tier1_compiler_t \<Rightarrow> x86_state \<Rightarrow> nat \<Rightarrow> u64" where
  "slot c s r = (case cached c r of None \<Rightarrow> load64 (xs_mem s) (slot_addr s r)
     | Some q \<Rightarrow> xs_reg s q)"

definition flag_byte :: "x86_state \<Rightarrow> u64 \<Rightarrow> bool" where
  "flag_byte s off = (xs_mem s (xs_reg s BAL_X86_RBP + off) \<noteq> 0)"

definition view :: "bal_tier1_compiler_t \<Rightarrow> x86_state \<Rightarrow> guest_state" where
  "view c s = \<lparr>gs_x = (\<lambda>r. if r < 32 then slot c s r else 0),
     gs_n = flag_byte s offset_flag_n, gs_z = flag_byte s offset_flag_z,
     gs_c = flag_byte s offset_flag_c, gs_v = flag_byte s offset_flag_v,
     gs_pc = load64 (xs_mem s) (xs_reg s BAL_X86_RBP + offset_pc),
     gs_icount = load64 (xs_mem s) (xs_reg s BAL_X86_RBP + offset_instruction_count)\<rparr>"

text \<open>Clean cached registers agree with memory, except for those in \<open>X\<close>.\<close>

definition consistent_but :: "nat set \<Rightarrow> bal_tier1_compiler_t \<Rightarrow> x86_state \<Rightarrow> bool" where
  "consistent_but X c s \<longleftrightarrow> (\<forall>r q. cached c r = Some q \<and> \<not> is_dirty c r \<and> r \<notin> X \<longrightarrow>
     load64 (xs_mem s) (slot_addr s r) = xs_reg s q)"

text \<open>
  What block code leaves alone between its prologue and its epilogue: the stack, all
  registers but the scratch registers and R11, and all memory outside the CPU structure.
\<close>

definition jit_frame :: "x86_state \<Rightarrow> x86_state \<Rightarrow> bool" where
  "jit_frame s s' \<longleftrightarrow> xs_stack s' = xs_stack s \<and>
     (\<forall>q. q \<notin> set SCRATCH_REGISTERS \<and> q \<noteq> BAL_X86_R11 \<longrightarrow> xs_reg s' q = xs_reg s q) \<and>
     (\<forall>p. 288 \<le> unat (p - xs_reg s BAL_X86_RBP) \<longrightarrow> xs_mem s' p = xs_mem s p)"

lemma rbp_not_scratch [simp]: "BAL_X86_RBP \<notin> set SCRATCH_REGISTERS"
  "BAL_X86_R11 \<notin> set SCRATCH_REGISTERS"
  by (simp_all add: SCRATCH_REGISTERS_def)

lemma scratch_not_rbp: "q \<in> set SCRATCH_REGISTERS \<Longrightarrow> q \<noteq> BAL_X86_RBP \<and> q \<noteq> BAL_X86_R11"
  by auto

lemma jit_frame_refl [simp]: "jit_frame s s"
  by (simp add: jit_frame_def)

lemma jit_frame_rbp: "jit_frame s s' \<Longrightarrow> xs_reg s' BAL_X86_RBP = xs_reg s BAL_X86_RBP"
  by (simp add: jit_frame_def)

lemma jit_frame_trans: "jit_frame s s' \<Longrightarrow> jit_frame s' s'' \<Longrightarrow> jit_frame s s''"
  by (simp add: jit_frame_def)

lemma jit_frame_write_reg:
  "q \<in> set SCRATCH_REGISTERS \<or> q = BAL_X86_R11 \<Longrightarrow> jit_frame s (write_reg q v s)"
  by (auto simp: jit_frame_def write_reg_def)

lemma jit_frame_flags [simp]: "jit_frame s (alu_flags opn a b s)"
  by (simp add: jit_frame_def alu_flags_def set_flags_def)

text \<open>Writing a register slot.\<close>

lemma slot_byte:
  assumes "r < 32" "288 \<le> unat (p - base)"
  shows "8 \<le> unat (p - (base + offset_x r))"
proof -
  have o: "unat (offset_x r) = 8 * r" using assms(1) by (rule unat_offset_x)
  then have "offset_x r \<le> p - base" using assms by (simp add: word_le_nat_alt)
  then have "unat ((p - base) - offset_x r) = unat (p - base) - 8 * r"
    by (simp add: unat_sub o)
  moreover have "(p - base) - offset_x r = p - (base + offset_x r)" by simp
  ultimately show ?thesis using assms by simp
qed

lemma jit_frame_store:
  "r < 32 \<Longrightarrow> jit_frame s (write_mem64 (slot_addr s r) v s)"
  by (simp add: jit_frame_def write_mem64_def slot_addr_def store64_other slot_byte)

lemma macro_exec_load:
  "r < 32 \<Longrightarrow> macro_exec (load_register_macro q r) s =
     Some (write_reg q (load64 (xs_mem s) (slot_addr s r)) s)"
  by (simp add: macro_exec_def macro_program_def load_register_macro_def ea_rbp slot_addr_def)

lemma macro_exec_store:
  "r < 32 \<Longrightarrow> macro_exec (store_register_macro q r) s =
     Some (write_mem64 (slot_addr s r) (xs_reg s q) s)"
  by (simp add: macro_exec_def macro_program_def store_register_macro_def ea_rbp slot_addr_def)

lemma lowered_register_macros [simp]:
  "lowered (load_register_macro q r)" "lowered (store_register_macro q r)"
  by (simp_all add: lowered_def load_register_macro_def store_register_macro_def)

lemma write_mem64_fields [simp]:
  "xs_reg (write_mem64 a v s) = xs_reg s" "xs_stack (write_mem64 a v s) = xs_stack s"
  "slot_addr (write_mem64 a v s) = slot_addr s"
  by (simp_all add: write_mem64_def slot_addr_def fun_eq_iff)

lemma write_reg_fields [simp]:
  "xs_mem (write_reg q v s) = xs_mem s" "xs_stack (write_reg q v s) = xs_stack s"
  "xs_reg (write_reg q v s) = (xs_reg s)(q := v)"
  by (simp_all add: write_reg_def)

lemma load_slot_store:
  assumes "r < 32" "k < 32"
  shows "load64 (xs_mem (write_mem64 (slot_addr s r) v s)) (slot_addr s k) =
    (if k = r then v else load64 (xs_mem s) (slot_addr s k))"
  using assms disjoint_registers [of r k "xs_reg s BAL_X86_RBP"]
  by (simp add: write_mem64_def slot_addr_def load64_store64_other)

text \<open>The other members are not touched by writing a register slot.\<close>

lemma load_member_store:
  assumes "r < 32" "256 \<le> unat off" "unat off \<le> 512"
  shows "load64 (xs_mem (write_mem64 (slot_addr s r) v s)) (xs_reg s BAL_X86_RBP + off) =
    load64 (xs_mem s) (xs_reg s BAL_X86_RBP + off)"
  using assms disjoint_offsets(1) [of "offset_x r" off "xs_reg s BAL_X86_RBP"]
  by (simp add: write_mem64_def slot_addr_def load64_store64_other unat_offset_x)

lemma flag_byte_store:
  assumes "r < 32" "256 \<le> unat off" "unat off \<le> 512"
  shows "flag_byte (write_mem64 (slot_addr s r) v s) off = flag_byte s off"
  using assms byte_not_in_register [of r off "xs_reg s BAL_X86_RBP"]
  by (simp add: flag_byte_def write_mem64_def slot_addr_def store64_other)

lemma view_rest_store:
  assumes "r < 32"
  shows "view c (write_mem64 (slot_addr s r) v s) =
    (view c s)\<lparr>gs_x := gs_x (view c (write_mem64 (slot_addr s r) v s))\<rparr>"
  using assms by (simp add: view_def load_member_store flag_byte_store cpu_offset_defs)


section \<open>Eviction\<close>

text \<open>Removing a pair from the two maps keeps them inverse.\<close>

lemma ra_wf_remove:
  assumes wf: "ra_wf c" and rev: "tc_x86_to_arm c ! nat (reg_int q) = int v"
    and A: "tc_arm_to_x86 c ! v = reg_int q" and scr: "q \<in> set SCRATCH_REGISTERS" and v32: "v < 32"
    and c': "tc_arm_to_x86 c' = (tc_arm_to_x86 c)[v := -1]"
      "tc_x86_to_arm c' = (tc_x86_to_arm c)[nat (reg_int q) := -1]"
    and cach: "cached c' = (cached c)(v := None)"
    and dirty: "\<And>r. is_dirty c' r = (is_dirty c r \<and> r \<noteq> v)"
  shows "ra_wf c'"
proof -
  have len: "length (tc_arm_to_x86 c) = 32" "length (tc_x86_to_arm c) = 16"
    using wf by (simp_all add: ra_wf_def)
  have "tc_arm_to_x86 c' ! r = -1 \<or> (\<exists>p \<in> set SCRATCH_REGISTERS. tc_arm_to_x86 c' ! r = reg_int p \<and>
        tc_x86_to_arm c' ! nat (reg_int p) = int r)" if r: "r < 32" for r
  proof (cases "r = v \<or> tc_arm_to_x86 c ! r = -1")
    case True
    then show ?thesis using r len by (cases "r = v") (simp_all add: c')
  next
    case False
    then obtain p where p: "p \<in> set SCRATCH_REGISTERS" "tc_arm_to_x86 c ! r = reg_int p"
        "tc_x86_to_arm c ! nat (reg_int p) = int r"
      using wf r unfolding ra_wf_def by blast
    with False rev have "p \<noteq> q" by auto
    then have "nat (reg_int p) \<noteq> nat (reg_int q)"
      using scratch_valid [OF p(1)] scratch_valid [OF scr] by (metis nat_eq_iff2 reg_int_inject)
    with False p r len show ?thesis by (auto simp: c' nth_list_update)
  qed
  moreover have "tc_x86_to_arm c' ! k = -1 \<or>
      (\<exists>r < 32. tc_x86_to_arm c' ! k = int r \<and> tc_arm_to_x86 c' ! r = int k)" if k: "k < 16" for k
  proof (cases "k = nat (reg_int q) \<or> tc_x86_to_arm c ! k = -1")
    case True
    then show ?thesis using k len by (cases "k = nat (reg_int q)") (simp_all add: c')
  next
    case False
    then obtain r where r: "r < 32" "tc_x86_to_arm c ! k = int r" "tc_arm_to_x86 c ! r = int k"
      using wf k unfolding ra_wf_def by blast
    have "r \<noteq> v" using False r A scratch_valid [OF scr] by auto
    with False r k len show ?thesis by (auto simp: c' nth_list_update)
  qed
  moreover have "\<forall>r. is_dirty c' r \<longrightarrow> cached c' r \<noteq> None"
    using wf by (simp add: dirty cach ra_wf_def)
  ultimately show ?thesis using len by (simp add: ra_wf_def c')
qed

lemma evict_spec:
  assumes wf: "ra_wf c" and v: "cached c v = Some q"
  obtains ms where "emits c ms (evict_x86_register c q)" "list_all lowered ms"
    "cached (evict_x86_register c q) = (cached c)(v := None)"
    "\<And>r. is_dirty (evict_x86_register c q) r = (is_dirty c r \<and> r \<noteq> v)"
    "ra_wf (evict_x86_register c q)"
    "tc_status (evict_x86_register c q) = tc_status c"
    "\<And>s. consistent_but {} c s \<Longrightarrow> \<exists>s'. run_effects macro_exec ms s = Some s' \<and>
       xs_reg s' = xs_reg s \<and> view (evict_x86_register c q) s' = view c s \<and>
       consistent_but {} (evict_x86_register c q) s' \<and> jit_frame s s'"
proof -
  let ?c' = "evict_x86_register c q"
  have v32: "v < 32" using v by (rule cached_lt)
  have rev: "tc_x86_to_arm c ! nat (reg_int q) = int v"
    and A: "tc_arm_to_x86 c ! v = reg_int q" and scr: "q \<in> set SCRATCH_REGISTERS"
    using cached_SomeD [OF wf v] by simp_all
  have len: "length (tc_arm_to_x86 c) = 32" "length (tc_x86_to_arm c) = 16"
    using wf by (simp_all add: ra_wf_def)
  define ms where "ms = (if is_dirty c v then [store_register_macro q v] else [])"
  have c': "tc_arm_to_x86 ?c' = (tc_arm_to_x86 c)[v := -1]"
      "tc_x86_to_arm ?c' = (tc_x86_to_arm c)[nat (reg_int q) := -1]"
      "tc_status ?c' = tc_status c"
    by (simp_all add: evict_x86_register_def rev Let_def)
  have emits: "emits c ms ?c'"
    by (simp add: evict_x86_register_def rev Let_def ms_def is_dirty_def emits_push)
  have dirty: "is_dirty ?c' r = (is_dirty c r \<and> r \<noteq> v)" for r
    by (auto simp: evict_x86_register_def rev Let_def is_dirty_bit dirty_bit_test bit_clear_dirty)
  have cach: "cached ?c' = (cached c)(v := None)"
    by (auto simp: cached_def c' fun_eq_iff len nth_list_update)
  have wf': "ra_wf ?c'"
    using wf rev A scr v32 c'(1,2) cach dirty by (rule ra_wf_remove)
  have sem: "\<exists>s'. run_effects macro_exec ms s = Some s' \<and> xs_reg s' = xs_reg s \<and>
       view ?c' s' = view c s \<and> consistent_but {} ?c' s' \<and> jit_frame s s'"
    if con: "consistent_but {} c s" for s
  proof (cases "is_dirty c v")
    case True
    let ?s = "write_mem64 (slot_addr s v) (xs_reg s q) s"
    have other: "load64 (xs_mem ?s) (slot_addr s r) =
        (if r = v then xs_reg s q else load64 (xs_mem s) (slot_addr s r))" if "r < 32" for r
      using load_slot_store [OF v32 that] by simp
    have slots: "slot ?c' ?s r = slot c s r" if "r < 32" for r
      using v other [OF that] by (cases "r = v") (auto simp: slot_def cach split: option.split)
    have "view ?c' ?s = view c s"
      using slots by (subst view_rest_store [OF v32]) (simp add: view_def fun_eq_iff)
    moreover have "consistent_but {} ?c' ?s"
      using con by (auto simp: consistent_but_def cach dirty other cached_lt)
    ultimately show ?thesis
      using True v32 by (simp add: ms_def macro_exec_store jit_frame_store)
  next
    case False
    then have "load64 (xs_mem s) (slot_addr s v) = xs_reg s q"
      using con v by (simp add: consistent_but_def)
    then have "view ?c' s = view c s"
      using v by (simp add: view_def slot_def cach fun_eq_iff split: option.split)
    moreover have "consistent_but {} ?c' s"
      using con by (simp add: consistent_but_def cach dirty)
    ultimately show ?thesis using False by (simp add: ms_def)
  qed
  have "list_all lowered ms" by (simp add: ms_def)
  with that emits cach dirty wf' c'(3) sem show thesis by blast
qed


section \<open>Allocation\<close>

lemma find_free_Inr:
  "\<forall>r \<in> set rs. 0 \<le> reg_int r \<and> reg_int r \<le> 15 \<Longrightarrow>
   (case find_free_register X rs of Inl _ \<Rightarrow> False
    | Inr (Some q) \<Rightarrow> q \<in> set rs \<and> X ! nat (reg_int q) = -1
    | Inr None \<Rightarrow> \<forall>r \<in> set rs. X ! nat (reg_int r) \<noteq> -1)"
  by (induction rs) (auto split: sum.splits option.splits)

text \<open>What the search for a clean victim can return.\<close>

lemma find_clean:
  assumes "n \<le> 16" "q = find_clean_register X d n" "q \<noteq> BAL_X86_INVALID"
  shows "\<exists>i < n. q = reg_of_int (int i) \<and> X ! i \<noteq> -1"
  using assms
proof (induction n arbitrary: q)
  case (Suc n)
  show ?case
  proof (cases "X ! n \<noteq> -1 \<and> d AND dirty_bit (nat (X ! n)) = 0")
    case True
    with Suc.prems show ?thesis by (auto simp: find_clean_register_def Let_def)
  next
    case False
    then have "find_clean_register X d (Suc n) = find_clean_register X d n"
      by (auto simp: find_clean_register_def Let_def)
    with Suc.IH [of q] Suc.prems show ?thesis by (auto intro: less_SucI)
  qed
qed (simp add: find_clean_register_def)

definition assign_register ::
  "bal_tier1_compiler_t \<Rightarrow> nat \<Rightarrow> bal_x86_register_t \<Rightarrow> bal_tier1_compiler_t" where
  "assign_register c arm q = c\<lparr>tc_arm_to_x86 := (tc_arm_to_x86 c)[arm := reg_int q],
     tc_x86_to_arm := (tc_x86_to_arm c)[nat (reg_int q) := int arm]\<rparr>"

lemma assign_register_frame [simp]:
  "tc_status (assign_register c arm q) = tc_status c"
  "is_dirty (assign_register c arm q) = is_dirty c"
  "emits c0 ms (assign_register c arm q) = emits c0 ms c"
  "tc_assembler (assign_register c arm q) = tc_assembler c"
  by (simp_all add: assign_register_def is_dirty_def fun_eq_iff)

lemma assign_cached:
  assumes "ra_wf c" "arm < 32" "q \<in> set SCRATCH_REGISTERS"
  shows "cached (assign_register c arm q) = (cached c)(arm \<mapsto> q)"
  using assms scratch_valid [OF assms(3)]
  by (auto simp: cached_def assign_register_def fun_eq_iff ra_wf_def nth_list_update)

lemma assign_wf:
  assumes wf: "ra_wf c" and arm: "arm < 32" and scr: "q \<in> set SCRATCH_REGISTERS"
    and none: "cached c arm = None" and free: "\<And>r. cached c r \<noteq> Some q"
  shows "ra_wf (assign_register c arm q)"
proof -
  let ?c = "assign_register c arm q"
  have len: "length (tc_arm_to_x86 c) = 32" "length (tc_x86_to_arm c) = 16"
    using wf by (simp_all add: ra_wf_def)
  have A: "tc_arm_to_x86 ?c = (tc_arm_to_x86 c)[arm := reg_int q]"
    and X: "tc_x86_to_arm ?c = (tc_x86_to_arm c)[nat (reg_int q) := int arm]"
    by (simp_all add: assign_register_def)
  note q = scratch_valid [OF scr]
  have "tc_arm_to_x86 ?c ! r = -1 \<or> (\<exists>p \<in> set SCRATCH_REGISTERS. tc_arm_to_x86 ?c ! r = reg_int p \<and>
        tc_x86_to_arm ?c ! nat (reg_int p) = int r)" if r: "r < 32" for r
  proof (cases "r = arm")
    case True
    with r len q scr show ?thesis by (auto simp: A X)
  next
    case False
    show ?thesis
    proof (cases "cached c r")
      case None
      with False r len show ?thesis by (simp add: A cached_def split: if_splits)
    next
      case (Some p)
      note p = cached_SomeD [OF wf Some]
      have "p \<noteq> q" using free Some by auto
      then have "nat (reg_int p) \<noteq> nat (reg_int q)"
        using scratch_valid [OF p(1)] q by (metis nat_eq_iff2 reg_int_inject)
      with p False r len show ?thesis by (auto simp: A X intro!: bexI [of _ p])
    qed
  qed
  moreover have "tc_x86_to_arm ?c ! k = -1 \<or>
      (\<exists>r < 32. tc_x86_to_arm ?c ! k = int r \<and> tc_arm_to_x86 ?c ! r = int k)" if k: "k < 16" for k
  proof (cases "k = nat (reg_int q) \<or> tc_x86_to_arm c ! k = -1")
    case True
    then show ?thesis using k len arm q by (cases "k = nat (reg_int q)") (auto simp: A X)
  next
    case False
    from reverse_SomeD [OF wf k] False obtain r where r: "r < 32" "tc_x86_to_arm c ! k = int r"
        "cached c r = Some (reg_of_int (int k))" by blast
    with none have "r \<noteq> arm" by auto
    moreover have "tc_arm_to_x86 c ! r = int k"
      using cached_SomeD(2) [OF wf r(3)] k by (simp add: reg_int_of_int)
    ultimately show ?thesis using False k r len by (auto simp: A X)
  qed
  moreover have "\<forall>r. is_dirty ?c r \<longrightarrow> cached ?c r \<noteq> None"
    using wf by (auto simp: assign_cached [OF wf arm scr] ra_wf_def)
  ultimately show ?thesis using len by (simp add: ra_wf_def A X)
qed

text \<open>The semantic effect of handing a free register to \<open>arm\<close>, with and without the load.\<close>

lemma assign_skip:
  assumes wf: "ra_wf c" and arm: "arm < 32" and scr: "q \<in> set SCRATCH_REGISTERS"
    and none: "cached c arm = None" and con: "consistent_but {} c s"
  shows "consistent_but {arm} (assign_register c arm q) s"
    "r \<noteq> arm \<Longrightarrow> slot (assign_register c arm q) s r = slot c s r"
  using con none
  by (auto simp: consistent_but_def slot_def assign_cached [OF wf arm scr])

lemma assign_load:
  assumes wf: "ra_wf c" and arm: "arm < 32" and scr: "q \<in> set SCRATCH_REGISTERS"
    and none: "cached c arm = None" and free: "\<And>r. cached c r \<noteq> Some q"
    and con: "consistent_but {} c s"
  defines "s' \<equiv> write_reg q (load64 (xs_mem s) (slot_addr s arm)) s"
  shows "consistent_but {} (assign_register c arm q) s'"
    "view (assign_register c arm q) s' = view c s" "jit_frame s s'"
proof -
  have rbp: "q \<noteq> BAL_X86_RBP" using scr by auto
  then have addr: "slot_addr s' = slot_addr s" "flag_byte s' = flag_byte s"
    and fields: "xs_mem s' = xs_mem s" "xs_reg s' = (xs_reg s)(q := load64 (xs_mem s) (slot_addr s arm))"
    by (simp_all add: s'_def slot_addr_def flag_byte_def fun_eq_iff)
  have slots: "slot (assign_register c arm q) s' r = slot c s r" for r
    using none free [of r]
    by (auto simp: slot_def assign_cached [OF wf arm scr] addr fields split: option.split)
  then show "view (assign_register c arm q) s' = view c s"
    using rbp by (simp add: view_def addr fields cong: if_cong)
  show "consistent_but {} (assign_register c arm q) s'"
    using con free by (auto simp: consistent_but_def assign_cached [OF wf arm scr] addr fields)
  show "jit_frame s s'" using scr by (simp add: s'_def jit_frame_write_reg)
qed


text \<open>
  \<open>frees c q c1 ms\<close>: pushing \<open>ms\<close> leads from \<open>c\<close> to \<open>c1\<close>, where \<open>q\<close> is free; nothing is
  cached that was not cached before, and the guest's view and all registers are unchanged.
\<close>

definition frees ::
  "bal_tier1_compiler_t \<Rightarrow> bal_x86_register_t \<Rightarrow> bal_tier1_compiler_t \<Rightarrow> bal_x86_macro_t list \<Rightarrow> bool"
where
  "frees c q c1 ms \<longleftrightarrow> emits c ms c1 \<and> list_all lowered ms \<and> ra_wf c1 \<and>
     tc_status c1 = tc_status c \<and> q \<in> set SCRATCH_REGISTERS \<and>
     (\<forall>r. cached c1 r \<noteq> Some q) \<and>
     (\<forall>r p. cached c1 r = Some p \<longrightarrow> cached c r = Some p) \<and>
     (\<forall>r. is_dirty c1 r \<longrightarrow> is_dirty c r) \<and>
     ((\<exists>p \<in> set SCRATCH_REGISTERS. \<forall>r. cached c r \<noteq> Some p) \<longrightarrow> cached c1 = cached c) \<and>
     (\<forall>s. consistent_but {} c s \<longrightarrow> (\<exists>s'. run_effects macro_exec ms s = Some s' \<and>
        xs_reg s' = xs_reg s \<and> view c1 s' = view c s \<and> consistent_but {} c1 s' \<and> jit_frame s s'))"

lemma frees_none:
  "ra_wf c \<Longrightarrow> q \<in> set SCRATCH_REGISTERS \<Longrightarrow> (\<And>r. cached c r \<noteq> Some q) \<Longrightarrow> frees c q c []"
  by (auto simp: frees_def)

lemma frees_evict:
  assumes wf: "ra_wf c" and full: "\<forall>p \<in> set SCRATCH_REGISTERS. \<exists>r. cached c r = Some p"
    and q: "q \<in> set SCRATCH_REGISTERS"
  shows "\<exists>ms. frees c q (evict_x86_register c q) ms"
proof -
  from full q obtain v where v: "cached c v = Some q" by blast
  from evict_spec [OF wf v] obtain ms where e: "emits c ms (evict_x86_register c q)"
    "list_all lowered ms" "cached (evict_x86_register c q) = (cached c)(v := None)"
    "\<And>r. is_dirty (evict_x86_register c q) r = (is_dirty c r \<and> r \<noteq> v)"
    "ra_wf (evict_x86_register c q)" "tc_status (evict_x86_register c q) = tc_status c"
    "\<And>s. consistent_but {} c s \<Longrightarrow> \<exists>s'. run_effects macro_exec ms s = Some s' \<and>
       xs_reg s' = xs_reg s \<and> view (evict_x86_register c q) s' = view c s \<and>
       consistent_but {} (evict_x86_register c q) s' \<and> jit_frame s s'" by blast
  have "\<forall>r. cached (evict_x86_register c q) r \<noteq> Some q"
    using cached_inj [OF wf v] by (auto simp: e(3))
  with e full q show ?thesis by (intro exI [of _ ms]) (auto simp: frees_def split: if_splits)
qed

lemma frees_cursor: "frees (c\<lparr>tc_eviction_cursor := e\<rparr>) q c1 ms = frees c q c1 ms"
  by (simp add: frees_def consistent_but_def view_def slot_def cong: if_cong)

lemma allocate_miss:
  assumes wf: "ra_wf c" and ok: "tc_status c = BAL_SUCCESS" "xa_status (tc_assembler c) = BAL_SUCCESS"
    and arm: "unat arm < 32" and miss: "cached c (unat arm) = None"
  obtains q c1 ms where "frees c q c1 ms"
    "allocate_x86_register c arm skip = (q, if skip then assign_register c1 (unat arm) q
       else push_macro (assign_register c1 (unat arm) q) (load_register_macro q (unat arm)))"
proof -
  let ?X = "tc_x86_to_arm c"
  have arm': "\<not> 32 \<le> arm" using arm by (simp add: word_le_nat_alt)
  have miss': "tc_arm_to_x86 c ! unat arm = -1" using miss arm by (simp add: cached_def split: if_splits)
  have pool: "\<forall>r \<in> set SCRATCH_REGISTERS. 0 \<le> reg_int r \<and> reg_int r \<le> 15"
    using scratch_valid by blast
  note free = find_free_Inr [OF pool, of ?X]
  note branch = allocate_x86_register_def [of c arm skip] Let_def ok arm' miss' assign_register_def
  show thesis
  proof (cases "find_free_register ?X SCRATCH_REGISTERS")
    case (Inl u)
    then show thesis using free by simp
  next
    case (Inr found)
    show thesis
    proof (cases found)
      case (Some q)
      with Inr free have q: "q \<in> set SCRATCH_REGISTERS" "?X ! nat (reg_int q) = -1" by simp_all
      then have "frees c q c []" using reverse_free [OF wf q(1)] by (intro frees_none [OF wf]) simp_all
      then show thesis using Inr Some by (intro that [of q c "[]"]) (simp_all add: branch)
    next
      case None
      with Inr free have full: "\<forall>p \<in> set SCRATCH_REGISTERS. \<exists>r. cached c r = Some p"
        using reverse_free [OF wf] by auto
      define clean where "clean = find_clean_register ?X (tc_is_dirty c) SCRATCH_REGISTERS_SIZE"
      show thesis
      proof (cases "clean = BAL_X86_INVALID")
        case True
        let ?q = "SCRATCH_REGISTERS ! (unat (tc_eviction_cursor c) mod SCRATCH_REGISTERS_SIZE)"
        let ?c = "c\<lparr>tc_eviction_cursor := tc_eviction_cursor c + 1\<rparr>"
        have "?q \<in> set SCRATCH_REGISTERS"
          by (rule nth_mem) (simp add: SCRATCH_REGISTERS_SIZE_def SCRATCH_REGISTERS_def)
        with full wf obtain ms where "frees ?c ?q (evict_x86_register ?c ?q) ms"
          using frees_evict [of ?c ?q] by auto
        then show thesis using Inr None True
          by (intro that [of ?q "evict_x86_register ?c ?q" ms])
            (simp_all add: frees_cursor branch clean_def)
      next
        case False
        have "SCRATCH_REGISTERS_SIZE \<le> 16" by (simp add: SCRATCH_REGISTERS_SIZE_def SCRATCH_REGISTERS_def)
        from find_clean [OF this clean_def False] obtain i where i: "i < SCRATCH_REGISTERS_SIZE"
          "clean = reg_of_int (int i)" "?X ! i \<noteq> -1" by blast
        then have "i < 16" by (simp add: SCRATCH_REGISTERS_SIZE_def SCRATCH_REGISTERS_def)
        from reverse_SomeD [OF wf this i(3)] i(2) have "clean \<in> set SCRATCH_REGISTERS" by metis
        with full wf obtain ms where "frees c clean (evict_x86_register c clean) ms"
          using frees_evict [of c clean] by auto
        then show thesis using Inr None False
          by (intro that [of clean "evict_x86_register c clean" ms]) (simp_all add: branch clean_def)
      qed
    qed
  qed
qed

end
