(* ===== verification/Translation_Steps.thy ===== *)
theory Translation_Steps
  imports Tier1_Compiler Register_Allocator_Facts
begin

text \<open>
  How single translation steps compose. \<open>compiles c c' F\<close> says that the macros pushed between
  two compiler states compute \<open>F\<close> on the guest state, whatever the allocator did in between;
  such steps compose, allocation with a load computes the identity, and allocating a
  destination followed by macros that write it computes the assignment.
\<close>

section \<open>Allocation, summed up\<close>

lemma freesD:
  assumes "frees c q c1 ms"
  shows "emits c ms c1" "list_all lowered ms" "ra_wf c1" "tc_status c1 = tc_status c"
    "q \<in> set SCRATCH_REGISTERS" "cached c1 r \<noteq> Some q" "cached c r = None \<Longrightarrow> cached c1 r = None"
    "cached c1 r = Some p \<Longrightarrow> cached c r = Some p" "is_dirty c1 r \<Longrightarrow> is_dirty c r"
    "p \<in> set SCRATCH_REGISTERS \<Longrightarrow> \<forall>r. cached c r \<noteq> Some p \<Longrightarrow> cached c1 = cached c"
    "consistent_but {} c s \<Longrightarrow> \<exists>s'. run_effects macro_exec ms s = Some s' \<and>
       xs_reg s' = xs_reg s \<and> view c1 s' = view c s \<and> consistent_but {} c1 s' \<and> jit_frame s s'"
proof -
  show "cached c r = None \<Longrightarrow> cached c1 r = None"
    using assms unfolding frees_def by (cases "cached c1 r") auto
qed (use assms in \<open>auto simp: frees_def\<close>)

lemma allocate_ok:
  assumes wf: "ra_wf c" and alloc: "allocate_x86_register c arm skip = (q, c')"
    and ok: "tc_status c' = BAL_SUCCESS" "xa_status (tc_assembler c) = BAL_SUCCESS"
  shows "tc_status c = BAL_SUCCESS" "unat arm < 32"
    and "(cached c (unat arm) = Some q \<and> c' = c) \<or>
      (cached c (unat arm) = None \<and> (\<exists>c1 ms. frees c q c1 ms \<and>
         c' = (if skip then assign_register c1 (unat arm) q
               else push_macro (assign_register c1 (unat arm) q) (load_register_macro q (unat arm)))))"
proof -
  show st: "tc_status c = BAL_SUCCESS"
    using alloc ok by (auto simp: allocate_x86_register_def Let_def split: if_splits)
  have "\<not> 32 \<le> arm"
    using alloc ok st by (auto simp: allocate_x86_register_def Let_def split: if_splits)
  then show arm: "unat arm < 32" by (simp add: word_le_nat_alt)
  show "(cached c (unat arm) = Some q \<and> c' = c) \<or>
      (cached c (unat arm) = None \<and> (\<exists>c1 ms. frees c q c1 ms \<and>
         c' = (if skip then assign_register c1 (unat arm) q
               else push_macro (assign_register c1 (unat arm) q) (load_register_macro q (unat arm)))))"
  proof (cases "cached c (unat arm)")
    case None
    obtain p c1 ms where "frees c p c1 ms"
      "allocate_x86_register c arm skip = (p, if skip then assign_register c1 (unat arm) p
         else push_macro (assign_register c1 (unat arm) p) (load_register_macro p (unat arm)))"
      by (rule allocate_miss [OF wf st ok(2) arm None])
    with alloc None show ?thesis by auto
  next
    case (Some p)
    then have "tc_arm_to_x86 c ! unat arm \<noteq> -1" by (simp add: cached_def split: if_splits)
    with Some alloc ok st \<open>\<not> 32 \<le> arm\<close> arm show ?thesis
      by (auto simp: allocate_x86_register_def Let_def cached_def split: if_splits)
  qed
qed

text \<open>The members of the CPU structure other than the registers.\<close>

definition members :: "x86_state \<Rightarrow> bool \<times> bool \<times> bool \<times> bool \<times> u64 \<times> u64" where
  "members s = (flag_byte s offset_flag_n, flag_byte s offset_flag_z, flag_byte s offset_flag_c,
     flag_byte s offset_flag_v, load64 (xs_mem s) (xs_reg s BAL_X86_RBP + offset_pc),
     load64 (xs_mem s) (xs_reg s BAL_X86_RBP + offset_instruction_count))"

lemma view_eq_iff:
  "view c s = view c' s' \<longleftrightarrow> (\<forall>r < 32. slot c s r = slot c' s' r) \<and> members s = members s'"
  by (auto simp: view_def members_def fun_eq_iff)

lemma view_x: "gs_x (view c s) r = (if r < 32 then slot c s r else 0)"
  by (simp add: view_def)

lemma view_of_members:
  "members s = members t \<Longrightarrow> gs_x (view c s) = X \<Longrightarrow> view c s = (view d t)\<lparr>gs_x := X\<rparr>"
  by (simp add: view_def members_def)

lemma view_frame [simp]:
  "slot (push_macro c m) = slot c" "view (push_macro c m) = view c"
  "consistent_but X (push_macro c m) = consistent_but X c"
  by (simp_all add: fun_eq_iff slot_def view_def consistent_but_def cong: if_cong)

text \<open>A translation step that computes \<open>F\<close> on the guest state.\<close>

definition compiles ::
  "bal_tier1_compiler_t \<Rightarrow> bal_tier1_compiler_t \<Rightarrow> (guest_state \<Rightarrow> guest_state) \<Rightarrow> bool" where
  "compiles c c' F \<longleftrightarrow> ra_wf c' \<and> (\<exists>ms. emits c ms c' \<and> list_all lowered ms \<and>
     (\<forall>s. consistent_but {} c s \<longrightarrow> (\<exists>s'. run_effects macro_exec ms s = Some s' \<and>
        consistent_but {} c' s' \<and> view c' s' = F (view c s) \<and> jit_frame s s')))"

lemma compiles_refl: "ra_wf c \<Longrightarrow> compiles c c (\<lambda>g. g)"
  by (auto simp: compiles_def intro!: exI [of _ "[]"])

lemma compiles_trans:
  assumes "compiles c c1 F" "compiles c1 c2 G"
  shows "compiles c c2 (\<lambda>g. G (F g))"
proof -
  from assms obtain ms ns where e: "emits c ms c1" "emits c1 ns c2" "list_all lowered ms"
      "list_all lowered ns" "ra_wf c2"
    and m: "\<And>s. consistent_but {} c s \<Longrightarrow> \<exists>s'. run_effects macro_exec ms s = Some s' \<and>
        consistent_but {} c1 s' \<and> view c1 s' = F (view c s) \<and> jit_frame s s'"
    and n: "\<And>s. consistent_but {} c1 s \<Longrightarrow> \<exists>s'. run_effects macro_exec ns s = Some s' \<and>
        consistent_but {} c2 s' \<and> view c2 s' = G (view c1 s) \<and> jit_frame s s'"
    unfolding compiles_def by blast
  have "\<exists>s'. run_effects macro_exec (ms @ ns) s = Some s' \<and> consistent_but {} c2 s' \<and>
      view c2 s' = G (F (view c s)) \<and> jit_frame s s'" if "consistent_but {} c s" for s
  proof -
    from m [OF that] obtain t where t: "run_effects macro_exec ms s = Some t" "consistent_but {} c1 t"
        "view c1 t = F (view c s)" "jit_frame s t" by blast
    from n [OF t(2)] t show ?thesis by (auto simp: run_effects_append intro: jit_frame_trans)
  qed
  with e show ?thesis
    unfolding compiles_def by (auto intro!: exI [of _ "ms @ ns"] emits_trans)
qed

text \<open>Allocating with a load changes nothing the guest can see.\<close>

lemma allocate_load:
  assumes wf: "ra_wf c" and alloc: "allocate_x86_register c arm False = (q, c')"
    and ok: "tc_status c' = BAL_SUCCESS" "xa_status (tc_assembler c) = BAL_SUCCESS"
  shows "compiles c c' (\<lambda>g. g)" "cached c' (unat arm) = Some q" "q \<in> set SCRATCH_REGISTERS"
    "ra_wf c'"
proof -
  note arm = allocate_ok(2) [OF assms]
  have "compiles c c' (\<lambda>g. g) \<and> cached c' (unat arm) = Some q \<and> q \<in> set SCRATCH_REGISTERS"
    using allocate_ok(3) [OF assms]
  proof (elim disjE conjE exE)
    assume "cached c (unat arm) = Some q" "c' = c"
    then show ?thesis using compiles_refl [OF wf] cached_SomeD(1) [OF wf] by simp
  next
    fix c1 ms
    assume none: "cached c (unat arm) = None" and f: "frees c q c1 ms"
      and c': "c' = (if False then assign_register c1 (unat arm) q
        else push_macro (assign_register c1 (unat arm) q) (load_register_macro q (unat arm)))"
    note f1 = freesD(1,2,3,5,6) [OF f] freesD(7) [OF f none]
    note assign = assign_load [OF f1(3) arm f1(4) f1(6) f1(5)]
    have sem: "\<exists>s'. run_effects macro_exec (ms @ [load_register_macro q (unat arm)]) s = Some s' \<and>
        consistent_but {} c' s' \<and> view c' s' = view c s \<and> jit_frame s s'"
      if con: "consistent_but {} c s" for s
    proof -
      from freesD(11) [OF f con] obtain t where t: "run_effects macro_exec ms s = Some t"
          "view c1 t = view c s" "consistent_but {} c1 t" "jit_frame s t" by blast
      from jit_frame_trans [OF t(4) assign(3) [OF t(3)]] assign(1,2) [OF t(3)] t(1,2) show ?thesis
        by (simp add: run_effects_append c' macro_exec_load arm)
    qed
    have "ra_wf c'" "cached c' (unat arm) = Some q"
      using assign_wf [OF f1(3) arm f1(4) f1(6) f1(5)] assign_cached [OF f1(3) arm f1(4)]
      by (simp_all add: c')
    moreover have "emits c (ms @ [load_register_macro q (unat arm)]) c'"
      using f1(1) by (simp add: c' emits_push_after)
    ultimately show ?thesis
      using sem f1(2,4) unfolding compiles_def by (auto intro!: exI [of _ "ms @ [load_register_macro q (unat arm)]"])
  qed
  then show "compiles c c' (\<lambda>g. g)" "cached c' (unat arm) = Some q" "q \<in> set SCRATCH_REGISTERS"
    "ra_wf c'" by (simp_all add: compiles_def)
qed


section \<open>Allocating a destination and writing to it\<close>

lemma mark_dirty_frame [simp]:
  "cached (mark_dirty c arm) = cached c" "slot (mark_dirty c arm) = slot c"
  "view (mark_dirty c arm) = view c" "emits c0 ms (mark_dirty c arm) = emits c0 ms c"
  "tc_status (mark_dirty c arm) = tc_status c" "tc_assembler (mark_dirty c arm) = tc_assembler c"
  "tc_window (mark_dirty c arm) = tc_window c"
  by (simp_all add: mark_dirty_def cached_def slot_def view_def fun_eq_iff cong: if_cong)

lemma bit_dirty_bit: "bit (dirty_bit n) r = (r = n \<and> r < 32)"
  by (auto simp: dirty_bit_def bit_simps)

lemma is_dirty_mark: "unat arm < 32 \<Longrightarrow>
    is_dirty (mark_dirty c arm) r = (is_dirty c r \<or> r = unat arm)"
  by (auto simp: is_dirty_bit mark_dirty_def bit_simps bit_dirty_bit)

lemma ra_wf_cong:
  assumes "ra_wf c" "tc_arm_to_x86 d = tc_arm_to_x86 c" "tc_x86_to_arm d = tc_x86_to_arm c"
    and "\<And>r. is_dirty d r \<Longrightarrow> cached d r \<noteq> None"
  shows "ra_wf d"
  unfolding ra_wf_def assms(2,3) using assms(1,4) unfolding ra_wf_def by blast

lemma ra_wf_mark:
  assumes "ra_wf c" "cached c (unat arm) = Some q"
  shows "ra_wf (mark_dirty c arm)"
proof (rule ra_wf_cong [OF assms(1)])
  fix r assume "is_dirty (mark_dirty c arm) r"
  then have "is_dirty c r \<or> r = unat arm" by (simp add: is_dirty_mark cached_lt [OF assms(2)])
  then show "cached (mark_dirty c arm) r \<noteq> None" using assms by (auto simp: ra_wf_def)
qed (simp_all add: mark_dirty_def)

text \<open>
  \<open>writes t q v t'\<close>: the step wrote \<open>v\<close> to \<open>q\<close> (and possibly something to R11) and no register
  slot in memory.
\<close>

definition writes ::
  "x86_state \<Rightarrow> bal_x86_register_t \<Rightarrow> u64 \<Rightarrow> x86_state \<Rightarrow> bool" where
  "writes t q v t' \<longleftrightarrow> xs_reg t' q = v \<and>
     (\<forall>p. p \<noteq> q \<and> p \<noteq> BAL_X86_R11 \<longrightarrow> xs_reg t' p = xs_reg t p) \<and>
     (\<forall>r < 32. load64 (xs_mem t') (slot_addr t r) = load64 (xs_mem t) (slot_addr t r))"

lemma writes_view:
  assumes wf: "ra_wf c" and q: "cached c arm = Some q" and w: "writes t q v t'"
    and con: "consistent_but {arm} c t"
    and dirty: "\<And>r. is_dirty d r = (is_dirty c r \<or> r = arm)" and cached: "cached d = cached c"
  shows "consistent_but {} d t'"
    "gs_x (view d t') = (\<lambda>r. if r = arm then v else gs_x (view c t) r)"
proof -
  have "q \<in> set SCRATCH_REGISTERS" by (rule cached_SomeD(1) [OF wf q])
  then have rbp: "xs_reg t' BAL_X86_RBP = xs_reg t BAL_X86_RBP"
    using w scratch_not_rbp [of q] by (auto simp: writes_def)
  then have addr: "slot_addr t' = slot_addr t" by (simp add: slot_addr_def fun_eq_iff)
  have other: "xs_reg t' p = xs_reg t p" if "cached c r = Some p" "r \<noteq> arm" for r p
  proof -
    have "p \<noteq> q" using cached_inj [OF wf q] that by auto
    moreover have "p \<noteq> BAL_X86_R11" using cached_SomeD(1) [OF wf that(1)] by auto
    ultimately show ?thesis using w by (simp add: writes_def)
  qed
  have mem: "load64 (xs_mem t') (slot_addr t r) = load64 (xs_mem t) (slot_addr t r)" if "r < 32" for r
    using w that by (simp add: writes_def)
  show "consistent_but {} d t'"
    using con other mem by (auto simp: consistent_but_def cached dirty addr cached_lt)
  have "xs_reg t' q = v" using w by (simp add: writes_def)
  then show "gs_x (view d t') = (\<lambda>r. if r = arm then v else gs_x (view c t) r)"
    using other mem q cached_lt [OF q]
    by (auto simp: fun_eq_iff view_x slot_def cached addr split: option.split)
qed

lemma allocate_write:
  assumes wf: "ra_wf c" and alloc: "allocate_x86_register c arm True = (q, c')"
    and ok: "tc_status c' = BAL_SUCCESS" "xa_status (tc_assembler c) = BAL_SUCCESS"
  obtains ms where "emits c ms c'" "list_all lowered ms" "cached c' (unat arm) = Some q"
    "q \<in> set SCRATCH_REGISTERS" "ra_wf (mark_dirty c' arm)" "ra_wf c'"
    "\<And>s. consistent_but {} c s \<Longrightarrow> \<exists>t. run_effects macro_exec ms s = Some t \<and>
       xs_reg t = xs_reg s \<and> members t = members s \<and> jit_frame s t \<and>
       (\<forall>t' v. writes t q v t' \<longrightarrow> consistent_but {} (mark_dirty c' arm) t' \<and>
          gs_x (view (mark_dirty c' arm) t') = (gs_x (view c s))(unat arm := v))"
proof -
  note arm = allocate_ok(2) [OF assms]
  have "\<exists>ms. emits c ms c' \<and> list_all lowered ms \<and> cached c' (unat arm) = Some q \<and> ra_wf c' \<and>
    (\<forall>s. consistent_but {} c s \<longrightarrow> (\<exists>t. run_effects macro_exec ms s = Some t \<and>
       xs_reg t = xs_reg s \<and> members t = members s \<and> jit_frame s t \<and>
       consistent_but {unat arm} c' t \<and> (\<forall>r. r \<noteq> unat arm \<longrightarrow> gs_x (view c' t) r = gs_x (view c s) r)))"
    using allocate_ok(3) [OF assms]
  proof (elim disjE conjE exE)
    assume "cached c (unat arm) = Some q" "c' = c"
    then show ?thesis using wf
      by (intro exI [of _ "[]"]) (auto simp: consistent_but_def)
  next
    fix c1 ms
    assume none: "cached c (unat arm) = None" and f: "frees c q c1 ms"
      and c': "c' = (if True then assign_register c1 (unat arm) q
        else push_macro (assign_register c1 (unat arm) q) (load_register_macro q (unat arm)))"
    note f1 = freesD(1,2,3,5,6) [OF f] freesD(7) [OF f none]
    have sem: "\<exists>t. run_effects macro_exec ms s = Some t \<and>
       xs_reg t = xs_reg s \<and> members t = members s \<and> jit_frame s t \<and>
       consistent_but {unat arm} c' t \<and> (\<forall>r. r \<noteq> unat arm \<longrightarrow> gs_x (view c' t) r = gs_x (view c s) r)"
      if con: "consistent_but {} c s" for s
    proof -
      from freesD(11) [OF f con] obtain t where t: "run_effects macro_exec ms s = Some t"
          "xs_reg t = xs_reg s" "view c1 t = view c s" "consistent_but {} c1 t" "jit_frame s t"
        by blast
      note assign = assign_skip [OF f1(3) arm f1(4) f1(6) t(4)]
      have "members t = members s" using t(3) by (simp add: view_eq_iff)
      moreover have "gs_x (view c' t) r = gs_x (view c s) r" if "r \<noteq> unat arm" for r
        using assign(2) [OF that] by (simp add: c' view_x flip: t(3))
      ultimately show ?thesis using t(1,2,5) assign(1) by (auto simp: c')
    qed
    have "ra_wf c'" "cached c' (unat arm) = Some q"
      using assign_wf [OF f1(3) arm f1(4) f1(6) f1(5)] assign_cached [OF f1(3) arm f1(4)]
      by (simp_all add: c')
    with sem f1(1,2) show ?thesis by (intro exI [of _ ms]) (simp add: c')
  qed
  then obtain ms where ms: "emits c ms c'" "list_all lowered ms" "cached c' (unat arm) = Some q"
      "ra_wf c'" and sem: "\<And>s. consistent_but {} c s \<Longrightarrow> \<exists>t. run_effects macro_exec ms s = Some t \<and>
       xs_reg t = xs_reg s \<and> members t = members s \<and> jit_frame s t \<and>
       consistent_but {unat arm} c' t \<and> (\<forall>r. r \<noteq> unat arm \<longrightarrow> gs_x (view c' t) r = gs_x (view c s) r)"
    by blast
  have sem': "\<exists>t. run_effects macro_exec ms s = Some t \<and>
       xs_reg t = xs_reg s \<and> members t = members s \<and> jit_frame s t \<and>
       (\<forall>t' v. writes t q v t' \<longrightarrow> consistent_but {} (mark_dirty c' arm) t' \<and>
          gs_x (view (mark_dirty c' arm) t') = (gs_x (view c s))(unat arm := v))"
    if "consistent_but {} c s" for s
    using sem [OF that] writes_view [OF ms(4,3) _ _ is_dirty_mark [OF arm] mark_dirty_frame(1)]
    by (fastforce simp: fun_eq_iff)
  show thesis
    by (rule that [OF ms(1-3) cached_SomeD(1) [OF ms(4,3)] ra_wf_mark [OF ms(4,3)] ms(4) sem'])
qed


section \<open>Pushing a list of macros\<close>

definition members_of :: "guest_state \<Rightarrow> bool \<times> bool \<times> bool \<times> bool \<times> u64 \<times> u64" where
  "members_of g = (gs_n g, gs_z g, gs_c g, gs_v g, gs_pc g, gs_icount g)"

lemma members_of_view [simp]: "members_of (view c s) = members s"
  by (simp add: members_of_def members_def view_def)

lemma guest_eqI: "gs_x g = gs_x h \<Longrightarrow> members_of g = members_of h \<Longrightarrow> g = (h :: guest_state)"
  by (simp add: members_of_def)

lemma members_of_x [simp]: "members_of (g\<lparr>gs_x := x\<rparr>) = members_of g"
  by (simp add: members_of_def)

lemma push_macros_simps [simp]:
  "push_macros c [] = c" "push_macros c (m # ms) = push_macros (push_macro c m) ms"
  "push_macros c (ms @ ns) = push_macros (push_macros c ms) ns"
  by (simp_all add: push_macros_def)

lemma push_macros_frame [simp]:
  "cached (push_macros c ms) = cached c" "is_dirty (push_macros c ms) = is_dirty c"
  "ra_wf (push_macros c ms) = ra_wf c" "tc_status (push_macros c ms) = tc_status c"
  "slot (push_macros c ms) = slot c" "view (push_macros c ms) = view c"
  "consistent_but X (push_macros c ms) = consistent_but X c"
  by (induction ms arbitrary: c) simp_all

lemma emits_macros: "emits c ms (push_macros c ms)"
proof (induction ms arbitrary: c)
  case (Cons m ms)
  show ?case using emits_trans [OF emits_push Cons.IH] by simp
qed simp

lemma mark_push: "mark_dirty (push_macros c ms) arm = push_macros (mark_dirty c arm) ms"
proof (induction ms arbitrary: c)
  case (Cons m ms)
  have "mark_dirty (push_macro c m) arm = push_macro (mark_dirty c arm) m"
    by (simp add: mark_dirty_def push_macro_def case_prod_unfold Let_def)
  with Cons.IH [of "push_macro c m"] show ?case by simp
qed simp

lemma mark_twice [simp]: "mark_dirty (mark_dirty c arm) arm = mark_dirty c arm"
  by (simp add: mark_dirty_def)

text \<open>
  A destination is allocated, macros compute its value \<open>V\<close> and change other members by \<open>R\<close>.
\<close>

lemma compiles_write:
  assumes wf: "ra_wf c" and alloc: "allocate_x86_register c arm True = (q, c')"
    and ok: "tc_status c' = BAL_SUCCESS" "xa_status (tc_assembler c) = BAL_SUCCESS"
    and low: "list_all lowered ns"
    and sem: "\<And>s t. consistent_but {} c s \<Longrightarrow> xs_reg t = xs_reg s \<Longrightarrow> members t = members s \<Longrightarrow>
      \<exists>t'. run_effects macro_exec ns t = Some t' \<and> writes t q (V (view c s)) t' \<and>
        jit_frame t t' \<and> members t' = members_of (R (view c s))"
  shows "compiles c (mark_dirty (push_macros c' ns) arm)
    (\<lambda>g. (R g)\<lparr>gs_x := (gs_x g)(unat arm := V g)\<rparr>)"
proof -
  from allocate_write [OF wf alloc ok] obtain ms where ms: "emits c ms c'" "list_all lowered ms"
      "ra_wf (mark_dirty c' arm)"
    and pre: "\<And>s. consistent_but {} c s \<Longrightarrow> \<exists>t. run_effects macro_exec ms s = Some t \<and>
       xs_reg t = xs_reg s \<and> members t = members s \<and> jit_frame s t \<and>
       (\<forall>t' v. writes t q v t' \<longrightarrow> consistent_but {} (mark_dirty c' arm) t' \<and>
          gs_x (view (mark_dirty c' arm) t') = (gs_x (view c s))(unat arm := v))" by metis
  have run: "\<exists>s'. run_effects macro_exec (ms @ ns) s = Some s' \<and> consistent_but {} (mark_dirty c' arm) s' \<and>
      view (mark_dirty c' arm) s' = (R (view c s))\<lparr>gs_x := (gs_x (view c s))(unat arm := V (view c s))\<rparr> \<and>
      jit_frame s s'" if con: "consistent_but {} c s" for s
  proof -
    from pre [OF con] obtain t where t: "run_effects macro_exec ms s = Some t" "xs_reg t = xs_reg s"
        "members t = members s" "jit_frame s t"
      and fin: "\<And>t' v. writes t q v t' \<Longrightarrow> consistent_but {} (mark_dirty c' arm) t' \<and>
          gs_x (view (mark_dirty c' arm) t') = (gs_x (view c s))(unat arm := v)" by blast
    from sem [OF con t(2,3)] obtain t' where t': "run_effects macro_exec ns t = Some t'"
        "writes t q (V (view c s)) t'" "jit_frame t t'" "members t' = members_of (R (view c s))"
      by blast
    have "view (mark_dirty c' arm) t' =
        (R (view c s))\<lparr>gs_x := (gs_x (view c s))(unat arm := V (view c s))\<rparr>"
      using fin [OF t'(2)] t'(4) by (intro guest_eqI) simp_all
    with fin [OF t'(2)] t t' show ?thesis
      by (auto simp: run_effects_append intro: jit_frame_trans)
  qed
  have "emits c (ms @ ns) (mark_dirty (push_macros c' ns) arm)"
    using emits_trans [OF ms(1) emits_macros] by simp
  with ms run low show ?thesis
    unfolding compiles_def by (auto simp: mark_push intro!: exI [of _ "ms @ ns"])
qed

text \<open>Macros that write no guest register, only other members.\<close>

lemma compiles_members:
  assumes wf: "ra_wf c" and low: "list_all lowered ns"
    and sem: "\<And>s. consistent_but {} c s \<Longrightarrow>
      \<exists>t. run_effects macro_exec ns s = Some t \<and> writes s BAL_X86_R11 (xs_reg t BAL_X86_R11) t \<and>
        jit_frame s t \<and> members t = members_of (R (view c s))"
  shows "compiles c (push_macros c ns) (\<lambda>g. (R g)\<lparr>gs_x := gs_x g\<rparr>)"
proof -
  have run: "\<exists>t. run_effects macro_exec ns s = Some t \<and> consistent_but {} c t \<and>
      view c t = (R (view c s))\<lparr>gs_x := gs_x (view c s)\<rparr> \<and> jit_frame s t"
    if con: "consistent_but {} c s" for s
  proof -
    from sem [OF con] obtain t where t: "run_effects macro_exec ns s = Some t" "jit_frame s t"
        "members t = members_of (R (view c s))"
      and w: "\<And>p. p \<noteq> BAL_X86_R11 \<Longrightarrow> xs_reg t p = xs_reg s p"
        "\<And>r. r < 32 \<Longrightarrow> load64 (xs_mem t) (slot_addr s r) = load64 (xs_mem s) (slot_addr s r)"
      by (auto simp: writes_def)
    have addr: "slot_addr t = slot_addr s" using w by (simp add: slot_addr_def fun_eq_iff)
    have reg: "xs_reg t p = xs_reg s p" if "cached c r = Some p" for r p
      using cached_SomeD(1) [OF wf that] w(1) by (metis rbp_not_scratch(2))
    have "slot c t r = slot c s r" if "r < 32" for r
      using w(2) [OF that] reg [of r] by (simp add: slot_def addr split: option.split)
    then have "view c t = (R (view c s))\<lparr>gs_x := gs_x (view c s)\<rparr>"
      using t(3) by (intro guest_eqI) (simp_all add: fun_eq_iff view_x)
    moreover have "consistent_but {} c t"
      using con w(2) reg by (auto simp: consistent_but_def addr cached_lt)
    ultimately show ?thesis using t by blast
  qed
  then show ?thesis
    using wf low unfolding compiles_def by (auto intro!: exI [of _ ns] emits_macros)
qed

end
