(* ===== verification/Arithmetic_Agreement.thy ===== *)
theory Arithmetic_Agreement
  imports Arm_Semantics X86_Semantics
begin

text \<open>
  The carry, borrow and overflow of the two architectures: the x86 flags after an addition
  or a subtraction are N, Z, C and V of the architecture manual's \<open>AddWithCarry\<close>, with the
  carry inverted for subtraction.
\<close>

section \<open>Words as integers\<close>

lemma int_wrap: "2 ^ 64 \<le> k \<Longrightarrow> k < 2 * 2 ^ 64 \<Longrightarrow> k mod 2 ^ 64 = k - 2 ^ 64" for k :: int
proof -
  assume k: "2 ^ 64 \<le> k" "k < 2 * 2 ^ 64"
  have "k mod 2 ^ 64 = (k - 2 ^ 64) mod 2 ^ 64" by (rule minus_mod_self2 [symmetric])
  also have "\<dots> = k - 2 ^ 64" using k by (intro mod_pos_pos_trivial) linarith+
  finally show ?thesis .
qed

lemma add_carry: "(x + y < x) = (uint (x + y) \<noteq> uint x + uint (y :: u64))"
proof -
  have b: "uint x < 2 ^ 64" "uint y < 2 ^ 64"
    using unsigned_less [of x, where 'a = int] unsigned_less [of y, where 'a = int] by simp_all
  have p: "0 \<le> uint x" "0 \<le> uint y" by simp_all
  have "uint (x + y) = (uint x + uint y) mod 2 ^ 64" by (simp add: uint_word_ariths)
  then show ?thesis
    using b p int_wrap [of "uint x + uint y"]
    by (cases "uint x + uint y < 2 ^ 64") (auto simp: word_less_def)
qed

lemma not_minus: "NOT x = -1 - (x :: u64)"
  by (simp add: not_eq_complement)

lemma uint_not: "uint (NOT x) = 2 ^ 64 - 1 - uint (x :: u64)"
proof -
  have "x \<le> -1" by simp
  then have "uint (-1 - x) = uint (-1 :: u64) - uint x"
    by (metis of_nat_diff unat_sub uint_nat word_le_nat_alt)
  also have "uint (-1 :: u64) = 2 ^ 64 - 1" by (simp add: unsigned_minus_1_eq_mask mask_eq_exp_minus_1)
  finally show ?thesis by (simp add: not_minus)
qed

lemma sub_borrow: "(x < y) = (uint x + uint (NOT y) + 1 = uint (x - (y :: u64)))"
proof -
  have b: "uint x < 2 ^ 64" "uint y < 2 ^ 64"
    using unsigned_less [of x, where 'a = int] unsigned_less [of y, where 'a = int] by simp_all
  have p: "0 \<le> uint x" "0 \<le> uint y" by simp_all
  have d: "uint (x - y) = (uint x - uint y) mod 2 ^ 64" by (simp add: uint_word_ariths)
  show ?thesis
  proof (cases "uint x < uint y")
    case True
    have "(uint x - uint y) mod 2 ^ 64 = (uint x - uint y + 2 ^ 64) mod 2 ^ 64"
      by (rule mod_add_self2 [symmetric])
    also have "\<dots> = uint x - uint y + 2 ^ 64"
      using b p True by (intro mod_pos_pos_trivial) linarith+
    finally show ?thesis using True by (simp add: d uint_not word_less_def)
  next
    case False
    then have "(uint x - uint y) mod 2 ^ 64 = uint x - uint y"
      using b p by (intro mod_pos_pos_trivial) linarith+
    then show ?thesis using False by (simp add: d uint_not word_less_def)
  qed
qed

lemma sint_sum: "sint (x + y) = (sint x + sint y + 2 ^ 63) mod 2 ^ 64 - 2 ^ 63" for x y :: u64
  by (simp add: sint_word_ariths signed_take_bit_eq_take_bit_shift take_bit_eq_mod)

lemma sint_diff: "sint (x - y) = (sint x - sint y + 2 ^ 63) mod 2 ^ 64 - 2 ^ 63" for x y :: u64
  by (simp add: sint_word_ariths signed_take_bit_eq_take_bit_shift take_bit_eq_mod)

lemma bit63: "bit x 63 = (sint (x :: u64) < 0)"
  using bit_last_iff [of x] by simp

lemma sint_bounds: "- (2 ^ 63) \<le> sint (x :: u64)" "sint (x :: u64) < 2 ^ 63"
  using sint_greater_eq [of x] sint_less [of x] by simp_all

lemma wrap_cases:
  fixes k :: int
  assumes "- (2 ^ 64) \<le> k" "k < 2 ^ 64"
  shows "(k + 2 ^ 63) mod 2 ^ 64 - 2 ^ 63 =
    (if k < - (2 ^ 63) then k + 2 ^ 64 else if 2 ^ 63 \<le> k then k - 2 ^ 64 else k)"
proof -
  consider "k < - (2 ^ 63)" | "- (2 ^ 63) \<le> k" "k < 2 ^ 63" | "2 ^ 63 \<le> k" by linarith
  then show ?thesis
  proof cases
    case 1
    have "(k + 2 ^ 63) mod 2 ^ 64 = (k + 2 ^ 63 + 2 ^ 64) mod 2 ^ 64"
      by (rule mod_add_self2 [symmetric])
    also have "\<dots> = k + 2 ^ 63 + 2 ^ 64" using assms 1 by (intro mod_pos_pos_trivial) simp_all
    finally show ?thesis using 1 by simp
  next
    case 2
    then have "(k + 2 ^ 63) mod 2 ^ 64 = k + 2 ^ 63" by (intro mod_pos_pos_trivial) simp_all
    with 2 show ?thesis by simp
  next
    case 3
    with int_wrap [of "k + 2 ^ 63"] assms show ?thesis by simp
  qed
qed

lemma add_overflow: "alu_overflow Alu_Add x y = (sint (x + y) \<noteq> sint x + sint y)"
  using sint_bounds [of x] sint_bounds [of y] wrap_cases [of "sint x + sint y"]
  by (simp add: bit63 sint_sum) linarith

lemma sub_overflow: "alu_overflow Alu_Sub x y = (sint (x - y) \<noteq> sint x - sint y)"
  using sint_bounds [of x] sint_bounds [of y] wrap_cases [of "sint x - sint y"]
  by (simp add: bit63 sint_diff) linarith

lemma sint_not: "sint (NOT x) = - sint x - 1" for x :: u64
  using sint_bounds [of x] sint_diff [of "-1" x] wrap_cases [of "-1 - sint x"]
  by (simp add: not_minus)


section \<open>The pseudocode of the one is the arithmetic of the other\<close>

lemma add_with_carry_add:
  "add_with_carry x y False = (x + y, bit (x + y) 63, x + y = 0, alu_carry Alu_Add x y,
     alu_overflow Alu_Add x y)"
proof -
  have w: "word_of_int (uint x + uint y) = x + y" by (simp add: of_int_add)
  show ?thesis unfolding add_overflow by (simp add: add_with_carry_def w add_carry Let_def)
qed

lemma add_with_carry_sub:
  "add_with_carry x (NOT y) True = (x - y, bit (x - y) 63, x - y = 0, \<not> alu_carry Alu_Sub x y,
     alu_overflow Alu_Sub x y)"
proof -
  have w: "word_of_int (uint x + uint (NOT y) + 1) = x - y"
    by (simp add: of_int_add not_minus)
  have s: "sint x + sint (NOT y) + 1 = sint x - sint y" by (simp add: sint_not)
  have u: "(uint (x - y) \<noteq> uint x + uint (NOT y) + 1) = (\<not> x < y)"
    by (simp only: sub_borrow eq_commute)
  show ?thesis unfolding sub_overflow add_with_carry_def Let_def if_True w s u by simp
qed

end
