(* ===== verification/Instruction_Facts.thy ===== *)
theory Instruction_Facts
  imports Translation_Steps Arithmetic_Agreement
begin

text \<open>
  What the translation of one instruction does: the macros it pushes compute the effect of
  the instruction on the guest state, for moves of immediates and for additions and
  subtractions, as long as no error is reported.
\<close>

section \<open>Single macros\<close>

lemma lowered_macros [simp]:
  "lowered (mov_rr_macro d r)" "lowered (setcc_macro cnd off)" "lowered (store_pc_macro r)"
  "opc \<notin> {BAL_X86_MACRO_RET, BAL_X86_MACRO_TEST_REGISTER_REGISTER} \<Longrightarrow> lowered (imm_macro opc d i)"
  "opc \<notin> {BAL_X86_MACRO_RET, BAL_X86_MACRO_TEST_REGISTER_REGISTER} \<Longrightarrow> lowered (rr_macro opc d r)"
  "list_all lowered (set_flag_macros is_sub)"
  by (simp_all add: lowered_def mov_rr_macro_def setcc_macro_def store_pc_macro_def imm_macro_def
      rr_macro_def set_flag_macros_def)

lemma macro_exec_mov_rr [simp]:
  "macro_exec (mov_rr_macro d r) s = Some (write_reg d (xs_reg s r) s)"
  by (simp add: macro_exec_def macro_program_def mov_rr_macro_def)

lemma macro_exec_mov_imm [simp]:
  "macro_exec (imm_macro BAL_X86_MACRO_MOV_REGISTER_IMMEDIATE d i) s = Some (write_reg d i s)"
  by (simp add: macro_exec_def macro_program_def imm_macro_def)

definition add_sub_op :: "bool \<Rightarrow> x86_alu" where
  "add_sub_op is_sub = (if is_sub then Alu_Sub else Alu_Add)"

definition alu_write :: "x86_alu \<Rightarrow> bal_x86_register_t \<Rightarrow> u64 \<Rightarrow> u64 \<Rightarrow> x86_state \<Rightarrow> x86_state" where
  "alu_write opn d a b s = write_reg d (alu_value opn a b) (alu_flags opn a b s)"

text \<open>An immediate of at most 24 bits is not changed by the sign extension of the encoding.\<close>

lemma scast_small: "unat (i :: u64) < 2 ^ 31 \<Longrightarrow> scast (ucast i :: u32) = i"
proof (rule bit_word_eqI)
  fix n assume small: "unat i < 2 ^ 31" and n: "n < LENGTH(64)"
  have "take_bit 31 i = i"
  proof -
    have "unat (take_bit 31 i) = unat i"
      using small by (simp add: unsigned_take_bit_eq take_bit_nat_eq_self)
    then show ?thesis by (rule unsigned_word_eqI)
  qed
  then have high: "31 \<le> k \<Longrightarrow> \<not> bit i k" for k by (metis bit_take_bit_iff not_le)
  show "bit (scast (ucast i :: u32) :: u64) n = bit i n"
    using n high [of n] high [of 31] by (auto simp: bit_simps min_def split: if_splits)
qed

lemma macro_exec_add_sub_imm:
  assumes "unat i < 2 ^ 31"
  shows "macro_exec (imm_macro (if is_sub then BAL_X86_MACRO_SUB_REGISTER_IMMEDIATE
      else BAL_X86_MACRO_ADD_REGISTER_IMMEDIATE) d i) s =
    Some (alu_write (add_sub_op is_sub) d (xs_reg s d) i s)"
  using scast_small [OF assms]
  by (simp add: macro_exec_def macro_program_def imm_macro_def add_sub_op_def alu_write_def Let_def)

lemma macro_exec_add_sub_reg:
  "macro_exec (rr_macro (if is_sub then BAL_X86_MACRO_SUB_REGISTER_REGISTER
      else BAL_X86_MACRO_ADD_REGISTER_REGISTER) d r) s =
    Some (alu_write (add_sub_op is_sub) d (xs_reg s d) (xs_reg s r) s)"
  by (simp add: macro_exec_def macro_program_def rr_macro_def add_sub_op_def alu_write_def Let_def)

lemma macro_exec_and_reg:
  "macro_exec (rr_macro BAL_X86_MACRO_AND_REGISTER_REGISTER d r) s =
    Some (alu_write Alu_And d (xs_reg s d) (xs_reg s r) s)"
  by (simp add: macro_exec_def macro_program_def rr_macro_def alu_write_def Let_def)

lemma macro_exec_logic_imm:
  "macro_exec (imm_macro BAL_X86_MACRO_AND_REGISTER_IMMEDIATE d i) s = (let s = write_reg BAL_X86_R11 i s in
     Some (alu_write Alu_And d (xs_reg s d) i s))"
  "macro_exec (imm_macro BAL_X86_MACRO_OR_REGISTER_IMMEDIATE d i) s = (let s = write_reg BAL_X86_R11 i s in
     Some (alu_write Alu_Or d (xs_reg s d) i s))"
  by (simp_all add: macro_exec_def macro_program_def imm_macro_def alu_write_def Let_def)

lemma alu_write_fields [simp]:
  "xs_mem (alu_write opn d a b s) = xs_mem s" "xs_stack (alu_write opn d a b s) = xs_stack s"
  "xs_reg (alu_write opn d a b s) = (xs_reg s)(d := alu_value opn a b)"
  by (simp_all add: alu_write_def alu_flags_def set_flags_def write_reg_def)

lemma alu_write_conditions:
  assumes "alu_write opn d a b s = t"
  shows "cond_holds BAL_X86_COND_S t = bit (alu_value opn a b) 63"
    "cond_holds BAL_X86_COND_E t = (alu_value opn a b = 0)"
    "cond_holds BAL_X86_COND_O t = alu_overflow opn a b"
    "cond_holds BAL_X86_COND_B t = alu_carry opn a b"
    "cond_holds BAL_X86_COND_AE t = (\<not> alu_carry opn a b)"
  unfolding assms [symmetric] by (simp_all add: alu_write_def alu_flags_def set_flags_def write_reg_def)

lemma add_sub_arm:
  "arm_add_sub is_sub x y = (alu_value (add_sub_op is_sub) x y,
     bit (alu_value (add_sub_op is_sub) x y) 63, alu_value (add_sub_op is_sub) x y = 0,
     is_sub \<noteq> alu_carry (add_sub_op is_sub) x y, alu_overflow (add_sub_op is_sub) x y)"
  by (simp add: arm_add_sub_def add_sub_op_def add_with_carry_add add_with_carry_sub)

section \<open>The stores of the flags\<close>

lemma macro_exec_setcc:
  "unat off \<le> 512 \<Longrightarrow> macro_exec (setcc_macro cnd off) s =
   Some (write_mem8 (xs_reg s BAL_X86_RBP + off) (if cond_holds cnd s then 1 else 0) s)"
  by (simp add: macro_exec_def macro_program_def setcc_macro_def ea_rbp)

lemma write_mem8_fields [simp]:
  "xs_reg (write_mem8 a v s) = xs_reg s" "xs_stack (write_mem8 a v s) = xs_stack s"
  "cond_holds cnd (write_mem8 a v s) = cond_holds cnd s"
  "xs_mem (write_mem8 a v s) = (xs_mem s)(a := v)"
  by (cases cnd; simp add: write_mem8_def)+

text \<open>All four flags are stored and nothing else changes.\<close>

lemma set_flags_effect:
  "\<exists>t. run_effects macro_exec (set_flag_macros is_sub) s = Some t \<and> xs_reg t = xs_reg s \<and>
     jit_frame s t \<and>
     (\<forall>r < 32. load64 (xs_mem t) (slot_addr s r) = load64 (xs_mem s) (slot_addr s r)) \<and>
     members t = (cond_holds BAL_X86_COND_S s, cond_holds BAL_X86_COND_E s,
       is_sub \<noteq> cond_holds BAL_X86_COND_B s, cond_holds BAL_X86_COND_O s,
       load64 (xs_mem s) (xs_reg s BAL_X86_RBP + offset_pc),
       load64 (xs_mem s) (xs_reg s BAL_X86_RBP + offset_instruction_count))"
proof -
  let ?base = "xs_reg s BAL_X86_RBP"
  let ?v = "\<lambda>c. if cond_holds c s then 1 else 0 :: u8"
  let ?cc = "if is_sub then BAL_X86_COND_AE else BAL_X86_COND_B"
  define t where "t = write_mem8 (?base + offset_flag_c) (?v ?cc)
    (write_mem8 (?base + offset_flag_v) (?v BAL_X86_COND_O)
    (write_mem8 (?base + offset_flag_z) (?v BAL_X86_COND_E)
    (write_mem8 (?base + offset_flag_n) (?v BAL_X86_COND_S) s)))"
  have run: "run_effects macro_exec (set_flag_macros is_sub) s = Some t"
    by (simp add: set_flag_macros_def macro_exec_setcc t_def)
  have mem: "xs_mem t = (xs_mem s)(?base + 274 := ?v BAL_X86_COND_S, ?base + 273 := ?v BAL_X86_COND_E,
      ?base + 275 := ?v BAL_X86_COND_O, ?base + 272 := ?v ?cc)"
    and reg: "xs_reg t = xs_reg s" "xs_stack t = xs_stack s"
    by (simp_all add: t_def cpu_offset_defs)
  have slots: "load64 (xs_mem t) (slot_addr s r) = load64 (xs_mem s) (slot_addr s r)" if "r < 32" for r
    using byte_not_in_register [OF that, of _ ?base]
    by (simp add: mem slot_addr_def load64_upd_other)
  have pc: "load64 (xs_mem t) (?base + offset_pc) = load64 (xs_mem s) (?base + offset_pc)"
    "load64 (xs_mem t) (?base + offset_instruction_count) =
     load64 (xs_mem s) (?base + offset_instruction_count)"
    by (simp_all add: mem cpu_offset_defs load64_upd_other)
  have flags: "flag_byte t offset_flag_n = cond_holds BAL_X86_COND_S s"
    "flag_byte t offset_flag_z = cond_holds BAL_X86_COND_E s"
    "flag_byte t offset_flag_v = cond_holds BAL_X86_COND_O s"
    "flag_byte t offset_flag_c = (is_sub \<noteq> cond_holds BAL_X86_COND_B s)"
    by (simp_all add: flag_byte_def mem reg cpu_offset_defs)
  have "p \<noteq> ?base + k" if "288 \<le> unat (p - ?base)" "unat k < 288" for p k
    using that by auto
  then have "jit_frame s t" by (simp add: jit_frame_def reg mem)
  with run reg slots pc flags show ?thesis by (intro exI [of _ t]) (simp add: members_def reg)
qed


section \<open>Well-formed compilers and errors\<close>

definition tc_sw :: "bal_tier1_compiler_t \<Rightarrow> bool" where
  "tc_sw c \<longleftrightarrow> sw_wf (tc_window c, tc_assembler c)"

definition tc_wf :: "bal_tier1_compiler_t \<Rightarrow> bool" where
  "tc_wf c \<longleftrightarrow> ra_wf c \<and> tc_sw c"

definition tc_ok :: "bal_tier1_compiler_t \<Rightarrow> bool" where
  "tc_ok c \<longleftrightarrow> tc_status c = BAL_SUCCESS \<and> sw_ok (tc_window c, tc_assembler c)"

lemma tc_wfD [dest]: "tc_wf c \<Longrightarrow> ra_wf c" "tc_wf c \<Longrightarrow> tc_sw c"
  by (simp_all add: tc_wf_def)

lemma tc_ok_status: "tc_ok c \<Longrightarrow> tc_status c = BAL_SUCCESS"
  "tc_ok c \<Longrightarrow> xa_status (tc_assembler c) = BAL_SUCCESS"
  by (simp_all add: tc_ok_def sw_ok_def xa_ok_def)

lemma emits_sw:
  assumes "emits c ms c'" "tc_sw c"
  shows "tc_sw c'" "sw_ok (tc_window c', tc_assembler c') \<Longrightarrow> sw_ok (tc_window c, tc_assembler c)"
  using assms sw.pushes_wf [of "(tc_window c, tc_assembler c)" ms]
    sw.pushes_ok [of "(tc_window c, tc_assembler c)" ms]
  by (simp_all add: emits_def tc_sw_def)

lemma push_macro_sw:
  assumes "tc_sw c"
  shows "tc_sw (push_macro c m)" "tc_ok (push_macro c m) \<Longrightarrow> tc_ok c"
  using emits_sw [OF emits_push assms, of m] by (simp_all add: tc_ok_def)

lemma push_macros_sw:
  assumes "tc_sw c"
  shows "tc_sw (push_macros c ms)" "tc_ok (push_macros c ms) \<Longrightarrow> tc_ok c"
  using emits_sw [OF emits_macros assms, of ms] by (simp_all add: tc_ok_def)

lemma mark_dirty_tc [simp]: "tc_ok (mark_dirty c arm) = tc_ok c" "tc_sw (mark_dirty c arm) = tc_sw c"
  by (simp_all add: tc_ok_def tc_sw_def)

text \<open>Whatever the outcome, an allocation only pushes macros, and its errors are kept.\<close>

definition pushes_to :: "bal_tier1_compiler_t \<Rightarrow> bal_tier1_compiler_t \<Rightarrow> bool" where
  "pushes_to c c' \<longleftrightarrow> (\<exists>ms. emits c ms c')"

lemma pushes_to_intros [intro!]:
  "pushes_to c c" "pushes_to c c' \<Longrightarrow> pushes_to c (push_macro c' m)"
  "pushes_to c c' \<Longrightarrow> pushes_to c (push_macros c' ms)"
  using emits_refl emits_push_after emits_trans [OF _ emits_macros]
  unfolding pushes_to_def by blast+

lemma pushes_to_frame [simp]:
  "pushes_to c (c'\<lparr>tc_arm_to_x86 := x\<rparr>) = pushes_to c c'"
  "pushes_to c (c'\<lparr>tc_x86_to_arm := y\<rparr>) = pushes_to c c'"
  "pushes_to c (c'\<lparr>tc_is_dirty := d\<rparr>) = pushes_to c c'"
  "pushes_to c (c'\<lparr>tc_status := st\<rparr>) = pushes_to c c'"
  "pushes_to c (c'\<lparr>tc_eviction_cursor := e\<rparr>) = pushes_to c c'"
  "pushes_to c (mark_dirty c' arm) = pushes_to c c'"
  by (simp_all add: pushes_to_def)

lemma evict_pushes_to [intro!]:
  "pushes_to c c' \<Longrightarrow> pushes_to c (evict_x86_register c' q)"
  "tc_status (evict_x86_register c' q) = tc_status c'"
  by (auto simp: evict_x86_register_def Let_def)

lemma allocate_pushes_to:
  assumes "allocate_x86_register c arm skip = (q, c')"
  shows "pushes_to c c'" "tc_status c' = BAL_SUCCESS \<Longrightarrow> tc_status c = BAL_SUCCESS"
  using assms evict_pushes_to
  by (auto simp: allocate_x86_register_def Let_def split: if_splits sum.splits option.splits)

lemma allocate_sw:
  assumes "tc_sw c" "allocate_x86_register c arm skip = (q, c')"
  shows "tc_sw c'" "tc_ok c' \<Longrightarrow> tc_ok c"
  using allocate_pushes_to [OF assms(2)] emits_sw [OF _ assms(1), of _ c']
  by (auto simp: tc_ok_def pushes_to_def)

lemma allocate_tc:
  assumes wf: "tc_wf c" and alloc: "allocate_x86_register c arm skip = (q, c')" and ok: "tc_ok c'"
  shows "tc_ok c" "tc_wf c'" "xa_status (tc_assembler c) = BAL_SUCCESS" "tc_status c' = BAL_SUCCESS"
    "q \<in> set SCRATCH_REGISTERS" "cached c' (unat arm) = Some q" "unat arm < 32"
proof -
  have ra: "ra_wf c" and sw: "tc_sw c" using wf by auto
  show "tc_ok c" by (rule allocate_sw(2) [OF sw alloc ok])
  then show xs: "xa_status (tc_assembler c) = BAL_SUCCESS" by (rule tc_ok_status)
  show st': "tc_status c' = BAL_SUCCESS" using ok by (rule tc_ok_status)
  have "ra_wf c' \<and> q \<in> set SCRATCH_REGISTERS \<and> cached c' (unat arm) = Some q"
  proof (cases skip)
    case True
    then have "allocate_x86_register c arm True = (q, c')" using alloc by simp
    then show ?thesis by (rule allocate_write [OF ra _ st' xs]) blast
  next
    case False
    show ?thesis using allocate_load(2,3,4) [OF ra _ st' xs] alloc False by simp
  qed
  with allocate_sw(1) [OF sw alloc] show "tc_wf c'" "q \<in> set SCRATCH_REGISTERS"
    "cached c' (unat arm) = Some q" by (simp_all add: tc_wf_def)
  show "unat arm < 32" by (rule allocate_ok(2) [OF ra alloc st' xs])
qed

lemma compiles_cong: "compiles c c' F \<Longrightarrow> (\<And>g. F g = G g) \<Longrightarrow> compiles c c' G"
  by (simp add: compiles_def)

section \<open>Moves of immediates\<close>

text \<open>The effect of the translation on the guest state, with register 31 as an ordinary slot.\<close>

definition set_x :: "nat \<Rightarrow> u64 \<Rightarrow> guest_state \<Rightarrow> guest_state" where
  "set_x r v g = g\<lparr>gs_x := (gs_x g)(r := v)\<rparr>"

definition mov_mask :: "bal_decoder_instruction_metadata_t \<Rightarrow> u64" where
  "mov_mask metadata = (if operand_type metadata 0 = BAL_OPERAND_TYPE_REGISTER_32
     then 0xFFFFFFFF else 0xFFFFFFFFFFFFFFFF)"

definition mov_shift :: "bal_decoder_instruction_metadata_t \<Rightarrow> u32 \<Rightarrow> nat" where
  "mov_shift metadata i = unat (ucast (operand32 metadata i 2) * 16 :: u64)"

definition mov_effect :: "bal_decoder_instruction_metadata_t \<Rightarrow> u32 \<Rightarrow> guest_state \<Rightarrow> guest_state" where
  "mov_effect metadata i g =
    (let rd = unat (operand8 metadata i 0); sh = mov_shift metadata i; msk = mov_mask metadata;
         imm = push_bit sh (ucast (operand32 metadata i 1))
     in set_x rd (if name_char metadata 3 = CHR ''Z'' then imm AND msk
          else if name_char metadata 3 = CHR ''N'' then NOT imm AND msk
          else gs_x g rd AND (NOT (push_bit sh 0xFFFF) AND msk) OR imm AND msk) g)"

lemma writes_reg: "q \<noteq> BAL_X86_RBP \<Longrightarrow> writes t q v (write_reg q v t)"
  "q \<noteq> BAL_X86_RBP \<Longrightarrow> members (write_reg q v t) = members t"
  by (simp_all add: writes_def members_def flag_byte_def)

lemma mov_constant_compiles:
  assumes wf: "tc_wf c" and alloc: "allocate_x86_register c rd True = (q, c1)"
    and ok: "tc_ok (push_macro c1 (imm_macro BAL_X86_MACRO_MOV_REGISTER_IMMEDIATE q v))"
  shows "compiles c (mark_dirty (push_macro c1 (imm_macro BAL_X86_MACRO_MOV_REGISTER_IMMEDIATE q v)) rd)
    (set_x (unat rd) v)"
proof -
  let ?m = "imm_macro BAL_X86_MACRO_MOV_REGISTER_IMMEDIATE q v"
  have ok1: "tc_ok c1" using push_macro_sw(2) [OF allocate_sw(1) [OF _ alloc] ok] wf by blast
  note a = allocate_tc [OF wf alloc ok1]
  have "compiles c (mark_dirty (push_macros c1 [?m]) rd)
      (\<lambda>g. g\<lparr>gs_x := (gs_x g)(unat rd := v)\<rparr>)"
    using wf scratch_not_rbp [OF a(5)] a(5)
    by (intro compiles_write [OF _ alloc a(4,3), where R = "\<lambda>g. g" and V = "\<lambda>_. v", simplified])
      (auto simp: writes_reg intro!: jit_frame_write_reg)
  then show ?thesis by (simp add: set_x_def [abs_def])
qed


text \<open>Macros that update a register that is already cached.\<close>

lemma compiles_update:
  assumes wf: "ra_wf c" and q: "cached c (unat arm) = Some q" and low: "list_all lowered ns"
    and sem: "\<And>s. consistent_but {} c s \<Longrightarrow>
      \<exists>t'. run_effects macro_exec ns s = Some t' \<and> writes s q (V (view c s)) t' \<and>
        jit_frame s t' \<and> members t' = members_of (R (view c s))"
  shows "compiles c (mark_dirty (push_macros c ns) arm)
    (\<lambda>g. (R g)\<lparr>gs_x := (gs_x g)(unat arm := V g)\<rparr>)"
proof -
  let ?d = "mark_dirty c arm"
  have run: "\<exists>t'. run_effects macro_exec ns s = Some t' \<and> consistent_but {} ?d t' \<and>
      view ?d t' = (R (view c s))\<lparr>gs_x := (gs_x (view c s))(unat arm := V (view c s))\<rparr> \<and>
      jit_frame s t'" if con: "consistent_but {} c s" for s
  proof -
    from sem [OF con] obtain t' where t': "run_effects macro_exec ns s = Some t'"
        "writes s q (V (view c s)) t'" "jit_frame s t'" "members t' = members_of (R (view c s))"
      by blast
    have "consistent_but {unat arm} c s" using con by (simp add: consistent_but_def)
    note w = writes_view [OF wf q t'(2) this is_dirty_mark [OF cached_lt [OF q]] mark_dirty_frame(1)]
    have "view ?d t' = (R (view c s))\<lparr>gs_x := (gs_x (view c s))(unat arm := V (view c s))\<rparr>"
      using w(2) t'(4) by (intro guest_eqI) (simp_all add: fun_upd_def)
    with w(1) t' show ?thesis by blast
  qed
  have "emits c ns (mark_dirty (push_macros c ns) arm)" by (simp add: emits_macros)
  with run low ra_wf_mark [OF wf q] show ?thesis
    unfolding compiles_def by (auto simp: mark_push intro!: exI [of _ ns])
qed

lemma view_cached: "cached c r = Some q \<Longrightarrow> gs_x (view c s) r = xs_reg s q"
  using cached_lt [of c r q] by (simp add: view_x slot_def)

lemma keep_insert_compiles:
  assumes wf: "tc_wf c" and q: "cached c (unat rd) = Some q"
  shows "compiles c (mark_dirty (push_macros c
      [imm_macro BAL_X86_MACRO_AND_REGISTER_IMMEDIATE q a, imm_macro BAL_X86_MACRO_OR_REGISTER_IMMEDIATE q b]) rd)
    (\<lambda>g. set_x (unat rd) (gs_x g (unat rd) AND a OR b) g)"
proof -
  let ?ns = "[imm_macro BAL_X86_MACRO_AND_REGISTER_IMMEDIATE q a,
    imm_macro BAL_X86_MACRO_OR_REGISTER_IMMEDIATE q b]"
  have ra: "ra_wf c" using wf by blast
  then have scr: "q \<noteq> BAL_X86_RBP" "q \<noteq> BAL_X86_R11" "q \<in> set SCRATCH_REGISTERS"
    using cached_SomeD(1) [OF _ q] scratch_not_rbp by blast+
  have "\<exists>t'. run_effects macro_exec ?ns s = Some t' \<and>
      writes s q (gs_x (view c s) (unat rd) AND a OR b) t' \<and> jit_frame s t' \<and>
      members t' = members_of (view c s)" for s
    using scr by (auto simp: macro_exec_logic_imm Let_def writes_def jit_frame_def members_def
        flag_byte_def view_cached [OF q])
  then have "compiles c (mark_dirty (push_macros c ?ns) rd)
      (\<lambda>g. g\<lparr>gs_x := (gs_x g)(unat rd := gs_x g (unat rd) AND a OR b)\<rparr>)"
    by (intro compiles_update [where R = "\<lambda>g. g" and V = "\<lambda>g. gs_x g (unat rd) AND a OR b", OF ra q])
      simp_all
  then show ?thesis by (simp add: set_x_def)
qed

text \<open>MOVZ, MOVN and MOVK.\<close>

lemma translate_mov_immediate_compiles:
  assumes wf: "tc_wf c" and ok: "tc_ok (translate_mov_immediate c metadata i)"
  shows "compiles c (translate_mov_immediate c metadata i) (mov_effect metadata i)"
proof -
  let ?rd = "operand8 metadata i 0" and ?sh = "mov_shift metadata i" and ?msk = "mov_mask metadata"
  let ?imm = "ucast (operand32 metadata i 1) :: u64"
  have sw: "tc_sw c" using wf by blast
  note unfold = translate_mov_immediate_def Let_def mov_shift_def [symmetric]
    mov_mask_def [symmetric] case_prod_unfold
  obtain qz cz where az: "allocate_x86_register c ?rd True = (qz, cz)" by fastforce
  obtain qk ck where ak: "allocate_x86_register c ?rd False = (qk, ck)" by fastforce
  consider (Z) "name_char metadata 3 = CHR ''Z''" | (N) "name_char metadata 3 = CHR ''N''"
    | (K) "name_char metadata 3 \<noteq> CHR ''Z''" "name_char metadata 3 \<noteq> CHR ''N''" by blast
  then show ?thesis
  proof cases
    case Z
    with mov_constant_compiles [OF wf az, of "push_bit ?sh ?imm AND ?msk"] ok show ?thesis
      by (simp add: unfold az mov_effect_def [abs_def])
  next
    case N
    with mov_constant_compiles [OF wf az, of "NOT (push_bit ?sh ?imm) AND ?msk"] ok show ?thesis
      by (simp add: unfold az mov_effect_def [abs_def])
  next
    case K
    let ?ms = "[imm_macro BAL_X86_MACRO_AND_REGISTER_IMMEDIATE qk (NOT (push_bit ?sh 0xFFFF) AND ?msk),
       imm_macro BAL_X86_MACRO_OR_REGISTER_IMMEDIATE qk (push_bit ?sh ?imm AND ?msk)]"
    have c': "translate_mov_immediate c metadata i = mark_dirty (push_macros ck ?ms) ?rd"
      using K by (simp add: unfold ak del: push_macros_simps)
    have ok1: "tc_ok ck"
      using ok push_macros_sw(2) [OF allocate_sw(1) [OF sw ak], of ?ms] by (simp only: c' mark_dirty_tc)
    note a = allocate_tc [OF wf ak ok1]
    have "compiles c ck (\<lambda>g. g)"
      using wf by (intro allocate_load(1) [OF _ ak a(4,3)]) blast
    from compiles_trans [OF this keep_insert_compiles [OF a(2,6)]] K show ?thesis
      unfolding c' by (simp add: mov_effect_def [abs_def] Let_def)
  qed
qed


section \<open>Additions and subtractions\<close>

definition flags_after :: "bool \<Rightarrow> bool \<times> bool \<times> bool \<times> bool \<Rightarrow> guest_state \<Rightarrow> guest_state" where
  "flags_after s f g = (if s then set_nzcv f g else g)"

lemma flags_after_x [simp]: "gs_x (flags_after s f g) = gs_x g"
  by (simp add: flags_after_def set_nzcv_def split: prod.split)

text \<open>
  The macros of an addition or subtraction: the first operand is moved to the destination,
  the operation is done there, and the flags are stored.
\<close>

definition arith_macros ::
  "bool \<Rightarrow> bool \<Rightarrow> bal_x86_register_t \<Rightarrow> bal_x86_register_t \<Rightarrow> bal_x86_macro_t \<Rightarrow> bal_x86_macro_t list"
where
  "arith_macros is_sub s qd qn m = (if qd \<noteq> qn then [mov_rr_macro qd qn] else []) @ [m] @
     (if s then set_flag_macros is_sub else [])"

lemma arith_macros_lowered: "lowered m \<Longrightarrow> list_all lowered (arith_macros is_sub s qd qn m)"
  by (simp add: arith_macros_def)

lemma arith_run:
  assumes qd: "qd \<in> set SCRATCH_REGISTERS \<or> qd = BAL_X86_R11"
    and op: "\<And>u. xs_reg u = (xs_reg t)(qd := xs_reg t qn) \<Longrightarrow>
      macro_exec m u = Some (alu_write (add_sub_op is_sub) qd (xs_reg t qn) y u)"
    and mem: "members t = members_of g"
    and result: "arm_add_sub is_sub (xs_reg t qn) y = (v, f)"
  shows "\<exists>t'. run_effects macro_exec (arith_macros is_sub s qd qn m) t = Some t' \<and>
    writes t qd v t' \<and> xs_reg t' = (xs_reg t)(qd := v) \<and> jit_frame t t' \<and>
    members t' = members_of (flags_after s f g)"
proof -
  define u where "u = (if qd \<noteq> qn then write_reg qd (xs_reg t qn) t else t)"
  define w where "w = alu_write (add_sub_op is_sub) qd (xs_reg t qn) y u"
  have rbp: "qd \<noteq> BAL_X86_RBP" using qd scratch_not_rbp by auto
  have u: "run_effects macro_exec (if qd \<noteq> qn then [mov_rr_macro qd qn] else []) t = Some u"
      "xs_reg u = (xs_reg t)(qd := xs_reg t qn)" "xs_mem u = xs_mem t" "xs_stack u = xs_stack t"
    by (auto simp: u_def)
  have v: "v = alu_value (add_sub_op is_sub) (xs_reg t qn) y"
    and f: "f = (cond_holds BAL_X86_COND_S w, cond_holds BAL_X86_COND_E w,
      is_sub \<noteq> cond_holds BAL_X86_COND_B w, cond_holds BAL_X86_COND_O w)"
    using result alu_write_conditions [OF w_def [symmetric]] unfolding add_sub_arm by auto
  have w: "xs_reg w = (xs_reg t)(qd := v)" "xs_mem w = xs_mem t" "xs_stack w = xs_stack t"
    by (simp_all add: w_def u v)
  have base: "xs_reg w BAL_X86_RBP = xs_reg t BAL_X86_RBP" using w rbp by simp
  then have addr: "slot_addr w = slot_addr t" by (simp add: slot_addr_def fun_eq_iff)
  have frame: "jit_frame t w" using qd rbp by (auto simp: jit_frame_def w)
  have run: "run_effects macro_exec (arith_macros is_sub s qd qn m) t =
      run_effects macro_exec (if s then set_flag_macros is_sub else []) w"
    using u op [OF u(2)] by (simp add: arith_macros_def run_effects_append w_def)
  show ?thesis
  proof (cases s)
    case False
    then show ?thesis
      using run w frame mem rbp base
      by (simp add: writes_def addr flags_after_def) (simp add: members_def flag_byte_def)
  next
    case True
    from set_flags_effect [of is_sub w] obtain t' where t': "run_effects macro_exec (set_flag_macros is_sub) w = Some t'"
        "xs_reg t' = xs_reg w" "jit_frame w t'"
        "\<forall>r < 32. load64 (xs_mem t') (slot_addr w r) = load64 (xs_mem w) (slot_addr w r)"
        "members t' = (cond_holds BAL_X86_COND_S w, cond_holds BAL_X86_COND_E w,
           is_sub \<noteq> cond_holds BAL_X86_COND_B w, cond_holds BAL_X86_COND_O w,
           load64 (xs_mem w) (xs_reg w BAL_X86_RBP + offset_pc),
           load64 (xs_mem w) (xs_reg w BAL_X86_RBP + offset_instruction_count))" by blast
    have "members t' = members_of (flags_after s f g)"
      unfolding t'(5) using mem
      by (simp add: f base w(2) flags_after_def True set_nzcv_def members_of_def members_def)
    with t' run True w frame show ?thesis
      by (auto simp: writes_def addr intro: jit_frame_trans)
  qed
qed

text \<open>The same with a destination that is allocated for \<open>rd\<close>, or discarded.\<close>

lemma arith_compiles:
  assumes wf: "tc_wf c" and qn: "cached c rn = Some qn"
    and prep: "prepare_destination c discard rd qn = (qd, c')"
    and ok: "tc_ok (push_macros c' (m qd # (if s then set_flag_macros is_sub else [])))"
    and low: "lowered (m qd)" and s: "discard \<Longrightarrow> s"
    and op: "\<And>st u. consistent_but {} c st \<Longrightarrow> qd \<in> set SCRATCH_REGISTERS \<or> qd = BAL_X86_R11 \<Longrightarrow>
      (\<forall>p. p \<noteq> qd \<longrightarrow> xs_reg u p = xs_reg st p) \<Longrightarrow> xs_reg u qd = xs_reg st qn \<Longrightarrow>
      macro_exec (m qd) u = Some (alu_write (add_sub_op is_sub) qd (xs_reg st qn) (Y (view c st)) u)"
  defines "c'' \<equiv> push_macros c' (m qd # (if s then set_flag_macros is_sub else []))"
  shows "compiles c (if discard then c'' else mark_dirty c'' rd)
    (\<lambda>g. case arm_add_sub is_sub (gs_x g rn) (Y g) of (v, f) \<Rightarrow>
       let g' = flags_after s f g in if discard then g' else set_x (unat rd) v g')"
    (is "compiles c _ ?F")
proof -
  let ?V = "\<lambda>g. fst (arm_add_sub is_sub (gs_x g rn) (Y g))"
  let ?R = "\<lambda>g. flags_after s (snd (arm_add_sub is_sub (gs_x g rn) (Y g))) g"
  let ?ns = "arith_macros is_sub s qd qn (m qd)"
  have ra: "ra_wf c" using wf by blast
  have qn_scr: "qn \<noteq> BAL_X86_R11" using cached_SomeD(1) [OF ra qn] by auto
  have run: "\<exists>t'. run_effects macro_exec ?ns t = Some t' \<and> writes t qd (?V (view c st)) t' \<and>
      xs_reg t' = (xs_reg t)(qd := ?V (view c st)) \<and> jit_frame t t' \<and>
      members t' = members_of (?R (view c st))"
    if con: "consistent_but {} c st" and t: "xs_reg t = xs_reg st" "members t = members st"
      and qd: "qd \<in> set SCRATCH_REGISTERS \<or> qd = BAL_X86_R11" for st t
  proof (rule arith_run [OF qd])
    show "arm_add_sub is_sub (xs_reg t qn) (Y (view c st)) =
        (?V (view c st), snd (arm_add_sub is_sub (gs_x (view c st) rn) (Y (view c st))))"
      by (simp add: view_cached [OF qn] t)
  qed (use op [OF con qd] t in auto)
  show ?thesis
  proof (cases discard)
    case True
    then have qd: "qd = BAL_X86_R11" and c': "c' = push_macro c (mov_rr_macro qd qn)"
      using prep by (auto simp: prepare_destination_def BAL_X86_REGISTER_DISCARD_RESULT_def)
    have c'': "c'' = push_macros c ?ns"
      using qn_scr by (simp add: c''_def c' qd arith_macros_def)
    have "compiles c (push_macros c ?ns) (\<lambda>g. (?R g)\<lparr>gs_x := gs_x g\<rparr>)"
    proof (rule compiles_members [OF ra arith_macros_lowered [OF low]])
      fix st assume con: "consistent_but {} c st"
      from run [OF con, of st] qd show "\<exists>t. run_effects macro_exec ?ns st = Some t \<and>
          writes st BAL_X86_R11 (xs_reg t BAL_X86_R11) t \<and> jit_frame st t \<and>
          members t = members_of (?R (view c st))"
        by auto
    qed
    then show ?thesis using True
      by (simp add: c'' case_prod_unfold Let_def) (erule compiles_cong, simp add: guest_eqI)
  next
    case False
    obtain q c1 where alloc: "allocate_x86_register c rd True = (q, c1)" by fastforce
    then have qd: "q = qd" and c': "c' = push_macros c1 (if qd \<noteq> qn then [mov_rr_macro qd qn] else [])"
      using prep False by (auto simp: prepare_destination_def)
    have c'': "c'' = push_macros c1 ?ns"
      by (simp add: c''_def c' arith_macros_def)
    have "tc_sw c1" using allocate_sw(1) [OF _ alloc] wf by blast
    then have "tc_ok c1"
      by (rule push_macros_sw(2) [OF _ ok [folded c''_def, unfolded c'']])
    note a = allocate_tc [OF wf alloc this]
    have "compiles c (mark_dirty (push_macros c1 ?ns) rd)
        (\<lambda>g. (?R g)\<lparr>gs_x := (gs_x g)(unat rd := ?V g)\<rparr>)"
      using run a(5) qd by (intro compiles_write [OF ra alloc a(4,3) arith_macros_lowered [OF low]]) blast
    then show ?thesis using False
      by (simp add: c'' case_prod_unfold Let_def set_x_def)
  qed
qed


lemma extract_bound:
  assumes "do_bit_width opr < 32"
  shows "unat (extract_operand_value i opr) < 2 ^ do_bit_width opr"
proof (cases "do_type opr = BAL_OPERAND_TYPE_NONE")
  case False
  have "push_bit w 1 - 1 = (mask w :: u32)" for w by (simp add: mask_eq_decr_exp push_bit_eq_mult)
  with False have "extract_operand_value i opr = take_bit (do_bit_width opr) (drop_bit (do_bit_position opr) i)"
    by (simp add: extract_operand_value_def take_bit_eq_mask)
  then show ?thesis by (simp add: unsigned_take_bit_eq)
qed (simp add: extract_operand_value_def)

definition add_sub_imm_value :: "bal_decoder_instruction_metadata_t \<Rightarrow> u32 \<Rightarrow> u64" where
  "add_sub_imm_value metadata i =
     push_bit (if operand32 metadata i 3 = 1 then 12 else 0) (ucast (operand32 metadata i 2))"

lemma add_sub_imm_value_bound:
  assumes "do_bit_width (dm_operands metadata ! 2) \<le> 12"
  shows "unat (add_sub_imm_value metadata i) < 2 ^ 31"
proof -
  have "unat (operand32 metadata i 2) < 2 ^ do_bit_width (dm_operands metadata ! 2)"
    unfolding operand32_def by (rule extract_bound) (use assms in simp)
  also have "\<dots> \<le> 2 ^ 12" using assms by (intro power_increasing) simp_all
  finally have b: "unat (operand32 metadata i 2) < 2 ^ 12" .
  then have u: "unat (ucast (operand32 metadata i 2) :: u64) = unat (operand32 metadata i 2)"
    by (simp add: unsigned_ucast_eq take_bit_nat_eq_self)
  have "unat (push_bit k (ucast (operand32 metadata i 2)) :: u64) \<le> 2 ^ k * unat (operand32 metadata i 2)" for k
    by (simp add: unsigned_push_bit_eq u take_bit_nat_less_eq_self push_bit_nat_def mult.commute)
  from this [of 12] this [of 0] b show ?thesis by (simp add: add_sub_imm_value_def)
qed

text \<open>The effect of an addition or subtraction on the guest state, slot 31 included.\<close>

definition add_sub_effect ::
  "bool \<Rightarrow> bool \<Rightarrow> nat \<Rightarrow> nat \<Rightarrow> (guest_state \<Rightarrow> u64) \<Rightarrow> guest_state \<Rightarrow> guest_state" where
  "add_sub_effect is_sub s rd rn Y g =
    (case arm_add_sub is_sub (gs_x g rn) (Y g) of (v, f) \<Rightarrow>
       let g' = flags_after s f g in if s \<and> rd = 31 then g' else set_x rd v g')"

lemma rd_31: "(rd = (31 :: u8)) = (unat rd = 31)"
  by (simp add: word_unat_eq_iff)

lemma prepare_destination_sw:
  assumes sw: "tc_sw c" and prep: "prepare_destination c discard rd qn = (qd, c')"
  shows "tc_sw c'" "tc_ok c' \<Longrightarrow> tc_ok c"
proof -
  obtain q c1 where alloc: "allocate_x86_register c rd True = (q, c1)" by fastforce
  note a = allocate_sw [OF sw alloc]
  have "c' = push_macro c (mov_rr_macro qd qn) \<or> c' = c1 \<or> c' = push_macro c1 (mov_rr_macro qd qn)"
    using prep by (auto simp: prepare_destination_def alloc split: if_splits)
  then show "tc_sw c'" "tc_ok c' \<Longrightarrow> tc_ok c"
    using sw a push_macro_sw [OF sw] push_macro_sw [OF a(1)] by blast+
qed

lemma translate_add_sub_imm_compiles:
  assumes wf: "tc_wf c" and ok: "tc_ok (translate_add_sub_imm c metadata i is_sub)"
    and width: "do_bit_width (dm_operands metadata ! 2) \<le> 12"
  shows "compiles c (translate_add_sub_imm c metadata i is_sub)
    (add_sub_effect is_sub (is_setting_flags metadata) (unat (operand8 metadata i 0))
       (unat (operand8 metadata i 1)) (\<lambda>_. add_sub_imm_value metadata i))"
proof -
  let ?rd = "operand8 metadata i 0" and ?rn = "operand8 metadata i 1"
  let ?s = "is_setting_flags metadata" and ?v = "add_sub_imm_value metadata i"
  let ?discard = "?s \<and> ?rd = 31"
  let ?m = "\<lambda>d. imm_macro (if is_sub then BAL_X86_MACRO_SUB_REGISTER_IMMEDIATE
                       else BAL_X86_MACRO_ADD_REGISTER_IMMEDIATE) d ?v"
  obtain qn c1 where an: "allocate_x86_register c ?rn False = (qn, c1)" by fastforce
  obtain qd c2 where prep: "prepare_destination c1 ?discard ?rd qn = (qd, c2)" by fastforce
  define c3 where "c3 = push_macros c2 (?m qd # (if ?s then set_flag_macros is_sub else []))"
  have c': "translate_add_sub_imm c metadata i is_sub = (if ?discard then c3 else mark_dirty c3 ?rd)"
    unfolding translate_add_sub_imm_def Let_def an prod.case prep c3_def
    by (simp add: add_sub_imm_value_def del: One_nat_def)
  have sw1: "tc_sw c1" using allocate_sw(1) [OF _ an] wf by blast
  have ok3: "tc_ok c3" using ok by (simp add: c' split: if_splits)
  note sw2 = prepare_destination_sw [OF sw1 prep]
  have "tc_ok c1" using sw2(2) push_macros_sw(2) [OF sw2(1)] ok3 by (simp only: c3_def)
  note a = allocate_tc [OF wf an this]
  have load: "compiles c c1 (\<lambda>g. g)" using wf by (intro allocate_load(1) [OF _ an a(4,3)]) blast
  have "compiles c1 (if ?discard then c3 else mark_dirty c3 ?rd)
    (\<lambda>g. case arm_add_sub is_sub (gs_x g (unat ?rn)) ?v of (v, f) \<Rightarrow>
       let g' = flags_after ?s f g in if ?discard then g' else set_x (unat ?rd) v g')"
    unfolding c3_def
  proof (rule arith_compiles [where Y = "\<lambda>_. ?v" and m = ?m, OF a(2,6) prep])
    show "tc_ok (push_macros c2 (?m qd # (if ?s then set_flag_macros is_sub else [])))"
      using ok3 by (simp only: c3_def)
  qed (use macro_exec_add_sub_imm [OF add_sub_imm_value_bound [OF width], of is_sub] in auto)
  from compiles_trans [OF load this] show ?thesis
    unfolding c' add_sub_effect_def [abs_def] rd_31 .
qed

end
