(* ===== verification/Register_Pressure.thy ===== *)
theory Register_Pressure
  imports Instruction_Facts
begin

text \<open>
  Register pressure. A block that uses at most eight guest registers never evicts one and
  never reaches R15, the ninth scratch register, whose reuse the allocator refuses; with
  enough room in the code buffer its translation then reports no error.
\<close>

section \<open>Blocks whose registers fit\<close>

definition fits :: "nat set \<Rightarrow> bal_tier1_compiler_t \<Rightarrow> bool" where
  "fits D c \<longleftrightarrow> finite D \<and> card D \<le> 8 \<and>
     (\<forall>r q. cached c r = Some q \<longrightarrow> r \<in> D \<and> q \<noteq> BAL_X86_R15)"

lemma fits_frame [simp]:
  "fits D (push_macro c m) = fits D c" "fits D (push_macros c ms) = fits D c"
  "fits D (mark_dirty c arm) = fits D c"
  by (simp_all add: fits_def)

lemma find_free_append:
  "\<forall>r \<in> set rs. 0 \<le> reg_int r \<and> reg_int r \<le> 15 \<Longrightarrow> p \<in> set rs \<Longrightarrow> X ! nat (reg_int p) = -1 \<Longrightarrow>
   \<exists>q \<in> set rs. find_free_register X (rs @ rs') = Inr (Some q) \<and> X ! nat (reg_int q) = -1"
  by (induction rs) auto

abbreviation small_pool :: "bal_x86_register_t list" where
  "small_pool \<equiv> butlast SCRATCH_REGISTERS"

lemma small_pool: "SCRATCH_REGISTERS = small_pool @ [BAL_X86_R15]" "BAL_X86_R15 \<notin> set small_pool"
  "distinct small_pool" "length small_pool = 8"
  by (simp_all add: SCRATCH_REGISTERS_def)

text \<open>A register of the block that is not cached finds a free scratch register below R15.\<close>

lemma fits_free:
  assumes wf: "ra_wf c" and fits: "fits D c" and arm: "arm \<in> D" "cached c arm = None"
  obtains p where "p \<in> set small_pool" "\<And>r. cached c r \<noteq> Some p"
proof -
  have "\<not> set small_pool \<subseteq> (\<lambda>r. the (cached c r)) ` (D - {arm})"
  proof
    assume "set small_pool \<subseteq> (\<lambda>r. the (cached c r)) ` (D - {arm})"
    then have "card (set small_pool) \<le> card ((\<lambda>r. the (cached c r)) ` (D - {arm}))"
      using fits by (intro card_mono) (simp_all add: fits_def)
    also have "\<dots> \<le> card (D - {arm})" using fits by (intro card_image_le) (simp add: fits_def)
    also have "\<dots> < 8" using fits arm(1) by (auto simp: fits_def card_gt_0_iff)
    finally show False using small_pool by (simp add: distinct_card)
  qed
  then obtain p where p: "p \<in> set small_pool" "p \<notin> (\<lambda>r. the (cached c r)) ` (D - {arm})" by blast
  have "cached c r \<noteq> Some p" for r
  proof
    assume r: "cached c r = Some p"
    then have "r \<in> D - {arm}" using fits arm(2) by (auto simp: fits_def)
    then show False using p(2) r by force
  qed
  with p(1) that show thesis by blast
qed

text \<open>At most \<open>n\<close> macros are pushed, all with valid registers.\<close>

definition pushes_valid :: "nat \<Rightarrow> bal_tier1_compiler_t \<Rightarrow> bal_tier1_compiler_t \<Rightarrow> bool" where
  "pushes_valid n c c' \<longleftrightarrow> (\<exists>ms. emits c ms c' \<and> length ms \<le> n \<and> list_all macro_valid ms)"

lemma pushes_validI: "emits c ms c' \<Longrightarrow> length ms \<le> n \<Longrightarrow> list_all macro_valid ms \<Longrightarrow> pushes_valid n c c'"
  by (auto simp: pushes_valid_def)

text \<open>\<open>keeps c c'\<close>: nothing that was cached has moved.\<close>

definition keeps :: "bal_tier1_compiler_t \<Rightarrow> bal_tier1_compiler_t \<Rightarrow> bool" where
  "keeps c c' \<longleftrightarrow> (\<forall>r p. cached c r = Some p \<longrightarrow> cached c' r = Some p)"

lemma allocate_fits:
  assumes wf: "ra_wf c" and ok: "tc_status c = BAL_SUCCESS" "xa_status (tc_assembler c) = BAL_SUCCESS"
    and fits: "fits D c" and arm: "unat arm \<in> D" "unat arm < 32"
    and alloc: "allocate_x86_register c arm skip = (q, c')"
  shows "fits D c'" "keeps c c'" "tc_status c' = BAL_SUCCESS" "q \<in> set small_pool"
    "pushes_valid 1 c c'"
proof -
  have arm': "\<not> 32 \<le> arm" using arm by (simp add: word_le_nat_alt)
  have "fits D c' \<and> keeps c c' \<and> tc_status c' = BAL_SUCCESS \<and> q \<in> set small_pool \<and> pushes_valid 1 c c'"
  proof (cases "cached c (unat arm)")
    case (Some p)
    note p = cached_SomeD [OF wf Some]
    have "p \<noteq> BAL_X86_R15" using Some fits by (auto simp: fits_def)
    with p(1) have pool: "p \<in> set small_pool" using small_pool by (metis Un_iff empty_iff insert_iff list.set set_append)
    then have "0 \<le> reg_int p" "reg_int p < reg_int BAL_X86_R15"
      by (auto simp: SCRATCH_REGISTERS_def)
    with p(2,3) alloc ok arm' have "q = p \<and> c' = c"
      by (simp add: allocate_x86_register_def Let_def split: if_splits)
    with fits pool ok show ?thesis by (auto simp: keeps_def intro: pushes_validI [of _ "[]"])
  next
    case None
    obtain p where p: "p \<in> set small_pool" "\<And>r. cached c r \<noteq> Some p"
      using fits_free [OF wf fits arm(1) None] by blast
    have scr: "p \<in> set SCRATCH_REGISTERS" using p(1) by (rule in_set_butlastD)
    have X: "tc_x86_to_arm c ! nat (reg_int p) = -1" using reverse_free [OF wf scr] p(2) by blast
    have "\<forall>r \<in> set small_pool. 0 \<le> reg_int r \<and> reg_int r \<le> 15" by (auto simp: SCRATCH_REGISTERS_def)
    from find_free_append [OF this p(1) X, of "[BAL_X86_R15]"] obtain p' where
      p': "p' \<in> set small_pool" "find_free_register (tc_x86_to_arm c) SCRATCH_REGISTERS = Inr (Some p')"
      unfolding small_pool(1) [symmetric] by blast
    have miss: "tc_arm_to_x86 c ! unat arm = -1"
      using None arm by (simp add: cached_def split: if_splits)
    let ?d = "assign_register c (unat arm) p'"
    have res: "q = p'" "c' = (if skip then ?d else push_macro ?d (load_register_macro p' (unat arm)))"
      using alloc ok arm' p'(2) miss by (auto simp: allocate_x86_register_def Let_def assign_register_def)
    have cach: "cached ?d = (cached c)(unat arm \<mapsto> p')"
      by (rule assign_cached [OF wf arm(2) in_set_butlastD [OF p'(1)]])
    have "macro_valid (load_register_macro p' (unat arm))"
      using p'(1) by (simp add: macro_valid_def branch_in_range_def macro_calls_def load_register_macro_def)
        (auto simp: SCRATCH_REGISTERS_def is_valid_register_def)
    then have "pushes_valid 1 c ?d" "pushes_valid 1 c (push_macro ?d (load_register_macro p' (unat arm)))"
      using emits_push_after [of c "[]" ?d "load_register_macro p' (unat arm)"]
      by (auto intro: pushes_validI [of _ "[]"] pushes_validI [of _ "[load_register_macro p' (unat arm)]"])
    moreover have "p' \<noteq> BAL_X86_R15" using p'(1) small_pool(2) by blast
    with fits have "fits D ?d" using arm by (auto simp: fits_def cach)
    moreover have "keeps c ?d" using None by (auto simp: keeps_def cach)
    ultimately show ?thesis using p'(1) ok res by (cases skip) (auto simp: keeps_def)
  qed
  then show "fits D c'" "keeps c c'" "tc_status c' = BAL_SUCCESS" "q \<in> set small_pool"
    "pushes_valid 1 c c'" by blast+
qed


section \<open>Budgets\<close>

text \<open>
  \<open>budget D n c\<close>: no error so far, the registers of the block fit, and there is room for
  \<open>n\<close> more macros.
\<close>

definition budget :: "nat set \<Rightarrow> nat \<Rightarrow> bal_tier1_compiler_t \<Rightarrow> bool" where
  "budget D n c \<longleftrightarrow> ra_wf c \<and> tc_status c = BAL_SUCCESS \<and> fits D c \<and>
     sw_room n (tc_window c, tc_assembler c)"

lemma budgetD:
  assumes "budget D n c"
  shows "tc_wf c" "tc_ok c" "fits D c" "ra_wf c" "xa_status (tc_assembler c) = BAL_SUCCESS"
    "tc_status c = BAL_SUCCESS"
proof -
  show "tc_ok c" using assms sw_room_ok by (auto simp: budget_def tc_ok_def)
  then show "xa_status (tc_assembler c) = BAL_SUCCESS" by (rule tc_ok_status)
  show "tc_wf c" "fits D c" "ra_wf c" "tc_status c = BAL_SUCCESS"
    using assms by (simp_all add: budget_def tc_wf_def tc_sw_def sw_room_def)
qed

lemma budget_mono: "budget D n c \<Longrightarrow> k \<le> n \<Longrightarrow> budget D k c"
  by (auto simp: budget_def elim: sw_room_mono)

lemma budget_pushes:
  assumes "budget D (k + n) c" "pushes_valid k c c'"
    and "ra_wf c'" "tc_status c' = BAL_SUCCESS" "fits D c'"
  shows "budget D n c'"
proof -
  from assms(2) obtain ms where ms: "emits c ms c'" "length ms \<le> k" "list_all macro_valid ms"
    by (auto simp: pushes_valid_def)
  have "sw_room (length ms + n) (tc_window c, tc_assembler c)"
    using assms(1) ms(2) by (auto simp: budget_def elim: sw_room_mono)
  from pushes_room [OF this ms(3)] assms(3-5) ms(1) show ?thesis
    by (simp add: budget_def emits_def)
qed

lemma budget_macros:
  assumes "budget D (length ms + n) c" "list_all macro_valid ms"
  shows "budget D n (push_macros c ms)"
  using assms budgetD [OF assms(1)]
  by (intro budget_pushes [OF assms(1)] pushes_validI [OF emits_macros]) simp_all

lemma budget_push: "budget D (Suc n) c \<Longrightarrow> macro_valid m \<Longrightarrow> budget D n (push_macro c m)"
  using budget_macros [of D "[m]" n c] by simp

lemma budget_mark:
  assumes "budget D n c" "cached c (unat arm) = Some q"
  shows "budget D n (mark_dirty c arm)"
proof -
  have "ra_wf (mark_dirty c arm)" using budgetD(4) [OF assms(1)] assms(2) by (rule ra_wf_mark)
  with assms(1) show ?thesis by (simp add: budget_def)
qed

lemma budget_allocate:
  assumes b: "budget D (Suc n) c" and arm: "unat arm \<in> D" "unat arm < 32"
    and alloc: "allocate_x86_register c arm skip = (q, c')"
  shows "budget D n c'" "keeps c c'" "cached c' (unat arm) = Some q" "q \<in> set small_pool"
proof -
  note c = budgetD [OF b]
  note a = allocate_fits [OF c(4,6,5,3) arm alloc]
  have ra': "ra_wf c'" "cached c' (unat arm) = Some q"
  proof -
    have "ra_wf c' \<and> cached c' (unat arm) = Some q"
    proof (cases skip)
      case True
      then have "allocate_x86_register c arm True = (q, c')" using alloc by simp
      from allocate_write [OF c(4) this a(3) c(5)] show ?thesis by metis
    next
      case False
      then have "allocate_x86_register c arm False = (q, c')" using alloc by simp
      from allocate_load(2,4) [OF c(4) this a(3) c(5)] show ?thesis by blast
    qed
    then show "ra_wf c'" "cached c' (unat arm) = Some q" by simp_all
  qed
  then show "cached c' (unat arm) = Some q" by simp
  show "budget D n c'" 
  proof (rule budget_pushes [OF _ a(5) ra'(1) a(3,1)])
    show "budget D (1 + n) c" using b by simp
  qed
  show "keeps c c'" "q \<in> set small_pool" by (rule a)+
qed

lemma small_pool_valid: "q \<in> set small_pool \<Longrightarrow> is_valid_register (reg_int q) \<and> q \<noteq> BAL_X86_INVALID"
  by (auto simp: SCRATCH_REGISTERS_def is_valid_register_def)

lemma macros_valid:
  "is_valid_register (reg_int d) \<Longrightarrow> is_valid_register (reg_int r) \<Longrightarrow> macro_valid (mov_rr_macro d r)"
  "is_valid_register (reg_int d) \<Longrightarrow>
     opc \<in> {BAL_X86_MACRO_MOV_REGISTER_IMMEDIATE, BAL_X86_MACRO_ADD_REGISTER_IMMEDIATE,
       BAL_X86_MACRO_SUB_REGISTER_IMMEDIATE, BAL_X86_MACRO_AND_REGISTER_IMMEDIATE,
       BAL_X86_MACRO_OR_REGISTER_IMMEDIATE, BAL_X86_MACRO_ADD_CPU_ICOUNT} \<Longrightarrow> macro_valid (imm_macro opc d i)"
  "is_valid_register (reg_int d) \<Longrightarrow> is_valid_register (reg_int r) \<Longrightarrow>
     opc \<in> {BAL_X86_MACRO_ADD_REGISTER_REGISTER, BAL_X86_MACRO_SUB_REGISTER_REGISTER,
       BAL_X86_MACRO_AND_REGISTER_REGISTER} \<Longrightarrow> macro_valid (rr_macro opc d r)"
  "macro_valid (setcc_macro cnd off)" "list_all macro_valid (set_flag_macros is_sub)"
  "is_valid_register (reg_int r) \<Longrightarrow> macro_valid (store_pc_macro r)"
  "is_valid_register (reg_int r) \<Longrightarrow> macro_valid (store_register_macro r k)"
  by (auto simp: macro_valid_def branch_in_range_def macro_calls_def Let_def mov_rr_macro_def imm_macro_def
      rr_macro_def setcc_macro_def set_flag_macros_def store_pc_macro_def store_register_macro_def
      is_valid_register_def)


section \<open>Translations within a budget\<close>

definition MACROS_PER_INSTRUCTION :: nat where
  "MACROS_PER_INSTRUCTION = 9"

lemma translate_mov_immediate_budget:
  assumes b: "budget D (3 + n) c" and rd: "unat (operand8 metadata i 0) \<in> D" "unat (operand8 metadata i 0) < 32"
  shows "budget D n (translate_mov_immediate c metadata i)"
proof -
  let ?rd = "operand8 metadata i 0"
  obtain qz cz where az: "allocate_x86_register c ?rd True = (qz, cz)" by fastforce
  obtain qk ck where ak: "allocate_x86_register c ?rd False = (qk, ck)" by fastforce
  have b': "budget D (Suc (n + 2)) c" by (rule budget_mono [OF b]) simp
  note z = budget_allocate [OF b' rd az] and k = budget_allocate [OF b' rd ak]
  have vz: "is_valid_register (reg_int qz)" and vk: "is_valid_register (reg_int qk)"
    using small_pool_valid z(4) k(4) by blast+
  have one: "budget D n (mark_dirty (push_macro cz (imm_macro BAL_X86_MACRO_MOV_REGISTER_IMMEDIATE qz v)) ?rd)" for v
  proof (rule budget_mark)
    have "budget D (Suc n) cz" by (rule budget_mono [OF z(1)]) simp
    then show "budget D n (push_macro cz (imm_macro BAL_X86_MACRO_MOV_REGISTER_IMMEDIATE qz v))"
      by (rule budget_push) (simp add: macros_valid vz)
  qed (use z(3) in simp)
  have two: "budget D n (mark_dirty (push_macros ck
      [imm_macro BAL_X86_MACRO_AND_REGISTER_IMMEDIATE qk a, imm_macro BAL_X86_MACRO_OR_REGISTER_IMMEDIATE qk v]) ?rd)"
    for a v
  proof (rule budget_mark)
    have "budget D (length [imm_macro BAL_X86_MACRO_AND_REGISTER_IMMEDIATE qk a,
        imm_macro BAL_X86_MACRO_OR_REGISTER_IMMEDIATE qk v] + n) ck"
      by (rule budget_mono [OF k(1)]) simp
    then show "budget D n (push_macros ck [imm_macro BAL_X86_MACRO_AND_REGISTER_IMMEDIATE qk a,
        imm_macro BAL_X86_MACRO_OR_REGISTER_IMMEDIATE qk v])"
      by (rule budget_macros) (simp add: macros_valid vk)
  qed (use k(3) in simp)
  show ?thesis
    unfolding translate_mov_immediate_def Let_def az ak prod.case
    using one two by (simp only: mark_twice split: if_split) blast
qed

text \<open>The operation on the destination and the stores of the flags.\<close>

lemma prepare_destination_budget:
  assumes b: "budget D (Suc (Suc n)) c" and rd: "unat rd \<in> D" "unat rd < 32"
    and qn: "qn \<in> set small_pool"
    and prep: "prepare_destination c discard rd qn = (qd, c')"
  shows "budget D n c'" "keeps c c'" "is_valid_register (reg_int qd)"
    "\<not> discard \<Longrightarrow> cached c' (unat rd) = Some qd"
proof -
  obtain q d where alloc: "allocate_x86_register c rd True = (q, d)" by fastforce
  note a = budget_allocate [OF b rd alloc]
  note vq = small_pool_valid [OF a(4)] and vn = small_pool_valid [OF qn]
  have r11: "is_valid_register (reg_int BAL_X86_R11)" by (simp add: is_valid_register_def)
  have *: "budget D n c' \<and> keeps c c' \<and> is_valid_register (reg_int qd) \<and>
      (\<not> discard \<longrightarrow> cached c' (unat rd) = Some qd)"
  proof (cases discard)
    case True
    then have "c' = push_macro c (mov_rr_macro qd qn)" "qd = BAL_X86_R11"
      using prep by (auto simp: prepare_destination_def BAL_X86_REGISTER_DISCARD_RESULT_def)
    moreover have "budget D (Suc n) c" by (rule budget_mono [OF b]) simp
    ultimately show ?thesis
      using True r11 vn budget_push [of D n c] by (simp add: keeps_def macros_valid)
  next
    case False
    then have c': "c' = (if q \<noteq> qn then push_macro d (mov_rr_macro q qn) else d)" "qd = q"
      using prep alloc by (auto simp: prepare_destination_def)
    have "budget D n d" by (rule budget_mono [OF a(1)]) simp
    moreover have "budget D n (push_macro d (mov_rr_macro q qn))"
      using a(1) vq vn by (intro budget_push) (simp_all add: macros_valid)
    ultimately show ?thesis using a(2,3) vq by (simp add: c' keeps_def)
  qed
  then show "budget D n c'" "keeps c c'" "is_valid_register (reg_int qd)"
    "\<not> discard \<Longrightarrow> cached c' (unat rd) = Some qd" by simp_all
qed

lemma arith_budget:
  assumes b: "budget D (5 + n) c" and m: "macro_valid m"
    and rd: "\<not> discard \<Longrightarrow> cached c (unat rd) = Some qd"
  shows "let c' = push_macros c (m # (if s then set_flag_macros is_sub else []))
    in budget D n (if discard then c' else mark_dirty c' rd)"
proof -
  define c' where "c' = push_macros c (m # (if s then set_flag_macros is_sub else []))"
  have "budget D (length (m # (if s then set_flag_macros is_sub else [])) + n) c"
    by (rule budget_mono [OF b]) (simp add: set_flag_macros_def)
  then have "budget D n c'"
    unfolding c'_def using m by (rule_tac budget_macros) (simp_all add: macros_valid)
  with rd budget_mark [of D n c' rd qd] show ?thesis
    unfolding Let_def c'_def [symmetric] by (simp add: c'_def)
qed

lemma translate_add_sub_imm_unfold:
  assumes "allocate_x86_register c (operand8 metadata i 1) False = (qn, c1)"
    and "prepare_destination c1 (is_setting_flags metadata \<and> operand8 metadata i 0 = 31)
      (operand8 metadata i 0) qn = (qd, c2)"
  shows "translate_add_sub_imm c metadata i is_sub =
    (let c3 = push_macros c2 (imm_macro (if is_sub then BAL_X86_MACRO_SUB_REGISTER_IMMEDIATE
            else BAL_X86_MACRO_ADD_REGISTER_IMMEDIATE) qd (add_sub_imm_value metadata i) #
          (if is_setting_flags metadata then set_flag_macros is_sub else []))
     in if is_setting_flags metadata \<and> operand8 metadata i 0 = 31 then c3
        else mark_dirty c3 (operand8 metadata i 0))"
  unfolding translate_add_sub_imm_def Let_def assms prod.case
  by (simp add: add_sub_imm_value_def del: One_nat_def)

lemma translate_add_sub_imm_budget:
  assumes b: "budget D (MACROS_PER_INSTRUCTION + n) c"
    and rd: "unat (operand8 metadata i 0) \<in> D" "unat (operand8 metadata i 0) < 32"
    and rn: "unat (operand8 metadata i 1) \<in> D" "unat (operand8 metadata i 1) < 32"
  shows "budget D n (translate_add_sub_imm c metadata i is_sub)"
proof -
  let ?rd = "operand8 metadata i 0" and ?rn = "operand8 metadata i 1"
  let ?s = "is_setting_flags metadata"
  let ?discard = "?s \<and> ?rd = 31"
  let ?m = "\<lambda>d. imm_macro (if is_sub then BAL_X86_MACRO_SUB_REGISTER_IMMEDIATE
                       else BAL_X86_MACRO_ADD_REGISTER_IMMEDIATE) d (add_sub_imm_value metadata i)"
  obtain qn c1 where an: "allocate_x86_register c ?rn False = (qn, c1)" by fastforce
  obtain qd c2 where prep: "prepare_destination c1 ?discard ?rd qn = (qd, c2)" by fastforce
  have "budget D (Suc (Suc (Suc (5 + n)))) c"
    by (rule budget_mono [OF b]) (simp add: MACROS_PER_INSTRUCTION_def)
  note a = budget_allocate [OF this rn an]
  note p = prepare_destination_budget [OF a(1) rd a(4) prep]
  have "macro_valid (?m qd)" using p(3) by (simp add: macros_valid)
  then show ?thesis
    unfolding translate_add_sub_imm_unfold [OF an prep] Let_def
    by (rule arith_budget [unfolded Let_def, OF p(1) _ p(4)])
qed


text \<open>
  Register operands: the three allocations do not evict each other; what remains is that
  the move of the first operand must not overwrite the second (\<open>rd = rm\<close>).
\<close>

lemma translate_add_sub_reg_unfold:
  assumes "operand32 metadata i 2 = 0"
    and "allocate_x86_register c (operand8 metadata i 1) False = (qn, c1)"
    and "allocate_x86_register c1 (operand8 metadata i 3) False = (qm, c2)"
    and "prepare_destination c2 (is_setting_flags metadata \<and> operand8 metadata i 0 = 31)
      (operand8 metadata i 0) qn = (qd, c3)"
  shows "translate_add_sub_reg c metadata i is_sub =
    (let c4 = push_macros c3 (rr_macro (if is_sub then BAL_X86_MACRO_SUB_REGISTER_REGISTER
            else BAL_X86_MACRO_ADD_REGISTER_REGISTER) qd qm #
          (if is_setting_flags metadata then set_flag_macros is_sub else []))
     in if is_setting_flags metadata \<and> operand8 metadata i 0 = 31 then c4
        else mark_dirty c4 (operand8 metadata i 0))"
  unfolding translate_add_sub_reg_def Let_def assms prod.case
  by (simp del: One_nat_def)

lemma keeps_trans: "keeps c c1 \<Longrightarrow> keeps c1 c2 \<Longrightarrow> keeps c c2"
  by (simp add: keeps_def)

lemma keepsD: "keeps c c' \<Longrightarrow> cached c r = Some p \<Longrightarrow> cached c' r = Some p"
  by (simp add: keeps_def)

lemma allocate_load_budget:
  assumes b: "budget D (Suc n) c" and arm: "unat arm \<in> D" "unat arm < 32"
    and alloc: "allocate_x86_register c arm False = (q, c')"
  shows "compiles c c' (\<lambda>g. g)"
  using allocate_load(1) [OF budgetD(4) [OF b] alloc budgetD(6) [OF budget_allocate(1) [OF b arm alloc]]
      budgetD(5) [OF b]] .

text \<open>
  The operand an addition of registers really reads second: the first operand is moved to the
  destination before, so a destination that is also the second operand is lost.
\<close>

definition second_operand :: "bal_decoder_instruction_metadata_t \<Rightarrow> u32 \<Rightarrow> nat" where
  "second_operand metadata i =
     (if operand8 metadata i 0 = operand8 metadata i 3 \<and>
         \<not> (is_setting_flags metadata \<and> operand8 metadata i 0 = 31) then 1 else 3)"

lemma translate_add_sub_reg_general:
  assumes b: "budget D (MACROS_PER_INSTRUCTION + n) c" and shift: "operand32 metadata i 2 = 0"
    and rd: "unat (operand8 metadata i 0) \<in> D" "unat (operand8 metadata i 0) < 32"
    and rn: "unat (operand8 metadata i 1) \<in> D" "unat (operand8 metadata i 1) < 32"
    and rm: "unat (operand8 metadata i 3) \<in> D" "unat (operand8 metadata i 3) < 32"
  shows "budget D n (translate_add_sub_reg c metadata i is_sub)"
    and "compiles c (translate_add_sub_reg c metadata i is_sub)
    (add_sub_effect is_sub (is_setting_flags metadata) (unat (operand8 metadata i 0))
       (unat (operand8 metadata i 1)) (\<lambda>g. gs_x g (unat (operand8 metadata i (second_operand metadata i)))))"
proof -
  let ?rd = "operand8 metadata i 0" and ?rn = "operand8 metadata i 1" and ?rm = "operand8 metadata i 3"
  let ?s = "is_setting_flags metadata"
  let ?discard = "?s \<and> ?rd = 31"
  let ?m = "\<lambda>qm d. rr_macro (if is_sub then BAL_X86_MACRO_SUB_REGISTER_REGISTER
                       else BAL_X86_MACRO_ADD_REGISTER_REGISTER) d qm"
  obtain qn c1 where an: "allocate_x86_register c ?rn False = (qn, c1)" by fastforce
  obtain qm c2 where am: "allocate_x86_register c1 ?rm False = (qm, c2)" by fastforce
  obtain qd c3 where prep: "prepare_destination c2 ?discard ?rd qn = (qd, c3)" by fastforce
  have b1: "budget D (Suc (Suc (Suc (Suc (5 + n))))) c"
    by (rule budget_mono [OF b]) (simp add: MACROS_PER_INSTRUCTION_def)
  note a1 = budget_allocate [OF b1 rn an]
  note a2 = budget_allocate [OF a1(1) rm am]
  note p = prepare_destination_budget [OF a2(1) rd a1(4) prep]
  have valid: "macro_valid (?m qm qd)" using p(3) small_pool_valid [OF a2(4)] by (simp add: macros_valid)
  note unfold = translate_add_sub_reg_unfold [OF shift an am prep]
  show res: "budget D n (translate_add_sub_reg c metadata i is_sub)"
    unfolding unfold Let_def by (rule arith_budget [unfolded Let_def, OF p(1) valid p(4)])
  have qn2: "cached c2 (unat ?rn) = Some qn" and qm3: "cached c3 (unat ?rm) = Some qm"
    using keepsD [OF a2(2) a1(3)] keepsD [OF p(2) a2(3)] .
  let ?k = "second_operand metadata i"
  have source: "xs_reg u qm = gs_x (view c2 st) (unat (operand8 metadata i ?k))"
    if u: "\<forall>p. p \<noteq> qd \<longrightarrow> xs_reg u p = xs_reg st p" "xs_reg u qd = xs_reg st qn" for st u :: x86_state
  proof (cases "?discard")
    case True
    then have "qd = BAL_X86_R11"
      using prep by (auto simp: prepare_destination_def BAL_X86_REGISTER_DISCARD_RESULT_def)
    then have "qd \<noteq> qm" using a2(4) by (auto simp: SCRATCH_REGISTERS_def)
    with u(1) view_cached [OF a2(3), of st] True show ?thesis by (simp add: second_operand_def)
  next
    case False
    show ?thesis
    proof (cases "?rd = ?rm")
      case True
      then have "qd = qm" using p(4) [OF False] qm3 by simp
      with u(2) view_cached [OF qn2, of st] True False show ?thesis by (auto simp: second_operand_def)
    next
      case rd: False
      have "qd = qm \<Longrightarrow> unat ?rd = unat ?rm"
        using p(4) [OF False] qm3 cached_inj [OF budgetD(4) [OF p(1)]] by blast
      then have "qd \<noteq> qm" using rd by (auto simp: word_unat_eq_iff)
      with u(1) view_cached [OF a2(3), of st] rd show ?thesis by (simp add: second_operand_def)
    qed
  qed
  have "compiles c c2 (\<lambda>g. g)"
    using compiles_trans [OF allocate_load_budget [OF b1 rn an] allocate_load_budget [OF a1(1) rm am]] .
  moreover have "compiles c2 (let c4 = push_macros c3 (?m qm qd # (if ?s then set_flag_macros is_sub else []))
      in if ?discard then c4 else mark_dirty c4 ?rd)
    (\<lambda>g. case arm_add_sub is_sub (gs_x g (unat ?rn)) (gs_x g (unat (operand8 metadata i ?k))) of (v, f) \<Rightarrow>
       let g' = flags_after ?s f g in if ?discard then g' else set_x (unat ?rd) v g')"
    unfolding Let_def
  proof (rule arith_compiles [unfolded Let_def, where Y = "\<lambda>g. gs_x g (unat (operand8 metadata i ?k))" and m = "?m qm", OF budgetD(1) [OF a2(1)] qn2 prep])
    show "tc_ok (push_macros c3 (?m qm qd # (if ?s then set_flag_macros is_sub else [])))"
      using budgetD(2) [OF res] unfolding unfold by (simp add: Let_def split: if_splits)
    fix st u :: x86_state
    assume u: "\<forall>p. p \<noteq> qd \<longrightarrow> xs_reg u p = xs_reg st p" "xs_reg u qd = xs_reg st qn"
    then have "xs_reg u qm = gs_x (view c2 st) (unat (operand8 metadata i ?k))" by (rule source)
    then show "macro_exec (?m qm qd) u =
        Some (alu_write (add_sub_op is_sub) qd (xs_reg st qn) (gs_x (view c2 st) (unat (operand8 metadata i ?k))) u)"
      using macro_exec_add_sub_reg [of is_sub qd qm u] u(2) by simp
  qed auto
  ultimately have "compiles c (translate_add_sub_reg c metadata i is_sub)
    (\<lambda>g. case arm_add_sub is_sub (gs_x g (unat ?rn)) (gs_x g (unat (operand8 metadata i ?k))) of (v, f) \<Rightarrow>
       let g' = flags_after ?s f g in if ?discard then g' else set_x (unat ?rd) v g')"
    unfolding unfold by (rule compiles_trans)
  then show "compiles c (translate_add_sub_reg c metadata i is_sub)
    (add_sub_effect is_sub ?s (unat ?rd) (unat ?rn) (\<lambda>g. gs_x g (unat (operand8 metadata i ?k))))"
    unfolding add_sub_effect_def [abs_def] rd_31 .
qed

lemma translate_add_sub_reg_budget:
  assumes b: "budget D (MACROS_PER_INSTRUCTION + n) c" and shift: "operand32 metadata i 2 = 0"
    and rd: "unat (operand8 metadata i 0) \<in> D" "unat (operand8 metadata i 0) < 32"
    and rn: "unat (operand8 metadata i 1) \<in> D" "unat (operand8 metadata i 1) < 32"
    and rm: "unat (operand8 metadata i 3) \<in> D" "unat (operand8 metadata i 3) < 32"
    and overlap: "operand8 metadata i 0 = operand8 metadata i 3 \<Longrightarrow>
      operand8 metadata i 1 = operand8 metadata i 3"
  shows "budget D n (translate_add_sub_reg c metadata i is_sub)"
    and "compiles c (translate_add_sub_reg c metadata i is_sub)
    (add_sub_effect is_sub (is_setting_flags metadata) (unat (operand8 metadata i 0))
       (unat (operand8 metadata i 1)) (\<lambda>g. gs_x g (unat (operand8 metadata i 3))))"
proof -
  have "operand8 metadata i (second_operand metadata i) = operand8 metadata i 3"
    using overlap by (auto simp: second_operand_def)
  with translate_add_sub_reg_general [OF b shift rd rn rm, of is_sub] show
    "budget D n (translate_add_sub_reg c metadata i is_sub)"
    "compiles c (translate_add_sub_reg c metadata i is_sub)
    (add_sub_effect is_sub (is_setting_flags metadata) (unat (operand8 metadata i 0))
       (unat (operand8 metadata i 1)) (\<lambda>g. gs_x g (unat (operand8 metadata i 3))))" by simp_all
qed

text \<open>AND of registers; a destination 31 is cleared.\<close>

definition and_effect :: "nat \<Rightarrow> nat \<Rightarrow> nat \<Rightarrow> guest_state \<Rightarrow> guest_state" where
  "and_effect rd rn rm g = set_x rd (if rd = 31 then 0 else gs_x g rn AND gs_x g rm) g"

definition and_macros ::
  "bool \<Rightarrow> bal_x86_register_t \<Rightarrow> bal_x86_register_t \<Rightarrow> bal_x86_register_t \<Rightarrow> bal_x86_macro_t list" where
  "and_macros zero qd qn qm =
    (if zero then [imm_macro BAL_X86_MACRO_MOV_REGISTER_IMMEDIATE qd 0,
                   rr_macro BAL_X86_MACRO_AND_REGISTER_REGISTER qd qm]
     else if qd = qm then [rr_macro BAL_X86_MACRO_AND_REGISTER_REGISTER qd qn]
     else if qd \<noteq> qn then [mov_rr_macro qd qn, rr_macro BAL_X86_MACRO_AND_REGISTER_REGISTER qd qm]
     else [rr_macro BAL_X86_MACRO_AND_REGISTER_REGISTER qd qm])"

lemma and_run:
  assumes "qd \<in> set small_pool"
  shows "\<exists>t'. run_effects macro_exec (and_macros zero qd qn qm) t = Some t' \<and>
    writes t qd (if zero then 0 else xs_reg t qn AND xs_reg t qm) t' \<and> jit_frame t t' \<and>
    members t' = members t"
proof -
  let ?v = "if zero then 0 else xs_reg t qn AND xs_reg t qm"
  have qd: "qd \<noteq> BAL_X86_RBP" "qd \<in> set SCRATCH_REGISTERS"
    using in_set_butlastD [OF assms] scratch_not_rbp by auto
  have "\<exists>t'. run_effects macro_exec (and_macros zero qd qn qm) t = Some t' \<and>
      xs_reg t' = (xs_reg t)(qd := ?v) \<and> xs_mem t' = xs_mem t \<and> xs_stack t' = xs_stack t"
  proof (cases zero)
    case True
    then show ?thesis by (simp add: and_macros_def macro_exec_and_reg)
  next
    case False
    then show ?thesis
      by (cases "qd = qm"; cases "qd = qn") (simp_all add: and_macros_def macro_exec_and_reg and.commute)
  qed
  then obtain t' where run: "run_effects macro_exec (and_macros zero qd qn qm) t = Some t'"
    and t': "xs_reg t' = (xs_reg t)(qd := ?v)" "xs_mem t' = xs_mem t" "xs_stack t' = xs_stack t"
    by blast
  have "writes t qd ?v t'" "jit_frame t t'" "members t' = members t"
    using qd by (simp_all add: writes_def jit_frame_def members_def flag_byte_def t')
  with run show ?thesis by blast
qed

lemma translate_and_budget:
  assumes b: "budget D (MACROS_PER_INSTRUCTION + n) c" and shift: "operand32 metadata i 2 = 0"
    and name: "name_char metadata 3 \<noteq> CHR ''S''"
    and rd: "unat (operand8 metadata i 0) \<in> D" "unat (operand8 metadata i 0) < 32"
    and rn: "unat (operand8 metadata i 1) \<in> D" "unat (operand8 metadata i 1) < 32"
    and rm: "unat (operand8 metadata i 3) \<in> D" "unat (operand8 metadata i 3) < 32"
  shows "budget D n (translate_and c metadata i)"
    and "compiles c (translate_and c metadata i) (and_effect (unat (operand8 metadata i 0))
       (unat (operand8 metadata i 1)) (unat (operand8 metadata i 3)))"
proof -
  let ?rd = "operand8 metadata i 0" and ?rn = "operand8 metadata i 1" and ?rm = "operand8 metadata i 3"
  obtain qn c1 where an: "allocate_x86_register c ?rn False = (qn, c1)" by fastforce
  obtain qm c2 where am: "allocate_x86_register c1 ?rm False = (qm, c2)" by fastforce
  obtain qd c3 where ad: "allocate_x86_register c2 ?rd True = (qd, c3)" by fastforce
  let ?ns = "and_macros (?rd = 31) qd qn qm"
  have b1: "budget D (Suc (Suc (Suc (2 + n)))) c"
    by (rule budget_mono [OF b]) (simp add: MACROS_PER_INSTRUCTION_def)
  note a1 = budget_allocate [OF b1 rn an]
  note a2 = budget_allocate [OF a1(1) rm am]
  note a3 = budget_allocate [OF a2(1) rd ad]
  note v = small_pool_valid [OF a1(4)] small_pool_valid [OF a2(4)] small_pool_valid [OF a3(4)]
  have c': "translate_and c metadata i = mark_dirty (push_macros c3 ?ns) ?rd"
    unfolding translate_and_def Let_def shift an am ad prod.case
    using v name by (simp add: and_macros_def del: One_nat_def)
  have "budget D (length ?ns + n) c3" by (rule budget_mono [OF a3(1)]) (simp add: and_macros_def)
  then have "budget D n (push_macros c3 ?ns)"
    by (rule budget_macros) (use v in \<open>simp add: and_macros_def macros_valid\<close>)
  then show "budget D n (translate_and c metadata i)"
    unfolding c' using a3(3) by (intro budget_mark) simp_all
  have qn2: "cached c2 (unat ?rn) = Some qn" by (rule keepsD [OF a2(2) a1(3)])
  have "compiles c c2 (\<lambda>g. g)"
    using compiles_trans [OF allocate_load_budget [OF b1 rn an] allocate_load_budget [OF a1(1) rm am]] .
  moreover have "compiles c2 (mark_dirty (push_macros c3 ?ns) ?rd) (\<lambda>g. g\<lparr>gs_x := (gs_x g)(unat ?rd :=
      if ?rd = 31 then 0 else gs_x g (unat ?rn) AND gs_x g (unat ?rm))\<rparr>)"
  proof (rule compiles_write [where R = "\<lambda>g. g" and ns = ?ns and
        V = "\<lambda>g. if ?rd = 31 then 0 else gs_x g (unat ?rn) AND gs_x g (unat ?rm)",
        OF budgetD(4) [OF a2(1)] ad budgetD(6) [OF a3(1)] budgetD(5) [OF a2(1)]])
    show "list_all lowered ?ns" by (simp add: and_macros_def)
    fix s t assume "xs_reg t = xs_reg s" "members t = members s"
    with and_run [OF a3(4), of "?rd = 31" qn qm t] show "\<exists>t'. run_effects macro_exec ?ns t = Some t' \<and>
        writes t qd (if ?rd = 31 then 0 else gs_x (view c2 s) (unat ?rn) AND gs_x (view c2 s) (unat ?rm)) t' \<and>
        jit_frame t t' \<and> members t' = members_of (view c2 s)"
      by (simp add: view_cached [OF qn2] view_cached [OF a2(3)] del: One_nat_def split del: if_split cong: if_cong)
  qed
  ultimately show "compiles c (translate_and c metadata i)
      (and_effect (unat ?rd) (unat ?rn) (unat ?rm))"
    unfolding c' and_effect_def [abs_def] set_x_def rd_31 by (rule compiles_trans)
qed

end
