(* ===== verification/Supported_Instructions.thy ===== *)
theory Supported_Instructions
  imports Decoder Arm_Semantics
begin

text \<open>
  The entries of the generated decoder table (\<open>src/generated/decoder_table.c\<close>) for the
  instructions the block compiler handles, and, independently of that table, the decoding
  of the same instructions from the architecture manual's bit patterns.
\<close>

section \<open>Table entries\<close>

definition reg64 :: "nat \<Rightarrow> bal_decoder_operand_t" where
  "reg64 p = \<lparr>do_type = BAL_OPERAND_TYPE_REGISTER_64, do_bit_position = p, do_bit_width = 5\<rparr>"

definition imm_field :: "nat \<Rightarrow> nat \<Rightarrow> bal_decoder_operand_t" where
  "imm_field p w = \<lparr>do_type = BAL_OPERAND_TYPE_IMMEDIATE, do_bit_position = p, do_bit_width = w\<rparr>"

definition cond_field :: "nat \<Rightarrow> nat \<Rightarrow> bal_decoder_operand_t" where
  "cond_field p w = \<lparr>do_type = BAL_OPERAND_TYPE_CONDITION, do_bit_position = p, do_bit_width = w\<rparr>"

definition no_operand :: bal_decoder_operand_t where
  "no_operand = \<lparr>do_type = BAL_OPERAND_TYPE_NONE, do_bit_position = 0, do_bit_width = 0\<rparr>"

definition table_entry ::
  "string \<Rightarrow> u32 \<Rightarrow> u32 \<Rightarrow> bal_opcode_t \<Rightarrow> bal_decoder_operand_t list \<Rightarrow>
   bal_decoder_instruction_metadata_t" where
  "table_entry name msk expected opcode operands = \<lparr>dm_name = name, dm_mask = msk,
     dm_expected = expected, dm_ir_opcode = opcode, dm_operands = operands\<rparr>"

definition metadata_movz64 :: bal_decoder_instruction_metadata_t where
  "metadata_movz64 = table_entry ''MOVZ'' 0xFF800000 0xD2800000 OPCODE_MOV
     [reg64 0, imm_field 5 16, imm_field 21 2, no_operand, no_operand]"

definition metadata_movn64 :: bal_decoder_instruction_metadata_t where
  "metadata_movn64 = table_entry ''MOVN'' 0xFF800000 0x92800000 OPCODE_MOV
     [reg64 0, imm_field 5 16, imm_field 21 2, no_operand, no_operand]"

definition metadata_movk64 :: bal_decoder_instruction_metadata_t where
  "metadata_movk64 = table_entry ''MOVK'' 0xFF800000 0xF2800000 OPCODE_MOV
     [reg64 0, imm_field 5 16, imm_field 21 2, no_operand, no_operand]"

definition metadata_add_imm64 :: bal_decoder_instruction_metadata_t where
  "metadata_add_imm64 = table_entry ''ADD'' 0xFF800000 0x91000000 OPCODE_ADD
     [reg64 0, reg64 5, imm_field 10 12, imm_field 22 1, no_operand]"

definition metadata_adds_imm64 :: bal_decoder_instruction_metadata_t where
  "metadata_adds_imm64 = table_entry ''ADDS'' 0xFF800000 0xB1000000 OPCODE_ADD
     [reg64 0, reg64 5, imm_field 10 12, imm_field 22 1, no_operand]"

definition metadata_sub_imm64 :: bal_decoder_instruction_metadata_t where
  "metadata_sub_imm64 = table_entry ''SUB'' 0xFF800000 0xD1000000 OPCODE_SUB
     [reg64 0, reg64 5, imm_field 10 12, imm_field 22 1, no_operand]"

definition metadata_subs_imm64 :: bal_decoder_instruction_metadata_t where
  "metadata_subs_imm64 = table_entry ''SUBS'' 0xFF800000 0xF1000000 OPCODE_SUB
     [reg64 0, reg64 5, imm_field 10 12, imm_field 22 1, no_operand]"

definition metadata_add_reg64 :: bal_decoder_instruction_metadata_t where
  "metadata_add_reg64 = table_entry ''ADD'' 0xFF200000 0x8B000000 OPCODE_ADD
     [reg64 0, reg64 5, imm_field 10 6, reg64 16, imm_field 22 2]"

definition metadata_adds_reg64 :: bal_decoder_instruction_metadata_t where
  "metadata_adds_reg64 = table_entry ''ADDS'' 0xFF200000 0xAB000000 OPCODE_ADD
     [reg64 0, reg64 5, imm_field 10 6, reg64 16, imm_field 22 2]"

definition metadata_sub_reg64 :: bal_decoder_instruction_metadata_t where
  "metadata_sub_reg64 = table_entry ''SUB'' 0xFF200000 0xCB000000 OPCODE_SUB
     [reg64 0, reg64 5, imm_field 10 6, reg64 16, imm_field 22 2]"

definition metadata_subs_reg64 :: bal_decoder_instruction_metadata_t where
  "metadata_subs_reg64 = table_entry ''SUBS'' 0xFF200000 0xEB000000 OPCODE_SUB
     [reg64 0, reg64 5, imm_field 10 6, reg64 16, imm_field 22 2]"

definition metadata_and_reg64 :: bal_decoder_instruction_metadata_t where
  "metadata_and_reg64 = table_entry ''AND'' 0xFF200000 0x8A000000 OPCODE_AND
     [reg64 0, reg64 5, imm_field 10 6, reg64 16, imm_field 22 2]"

definition metadata_orr_reg64 :: bal_decoder_instruction_metadata_t where
  "metadata_orr_reg64 = table_entry ''ORR'' 0xFF200000 0xAA000000 OPCODE_MOV
     [reg64 0, reg64 5, imm_field 10 6, reg64 16, imm_field 22 2]"

definition metadata_b :: bal_decoder_instruction_metadata_t where
  "metadata_b = table_entry ''B'' 0xFC000000 0x14000000 OPCODE_JUMP
     [imm_field 0 26, no_operand, no_operand, no_operand, no_operand]"

definition metadata_b_cond :: bal_decoder_instruction_metadata_t where
  "metadata_b_cond = table_entry ''B.cond'' 0xFF000010 0x54000000 OPCODE_BRANCH_CONDITIONAL
     [cond_field 0 4, imm_field 5 19, no_operand, no_operand, no_operand]"

definition metadata_ret :: bal_decoder_instruction_metadata_t where
  "metadata_ret = table_entry ''RET'' 0xFFFFFC1F 0xD65F0000 OPCODE_RETURN
     [reg64 5, no_operand, no_operand, no_operand, no_operand]"

definition metadata_cbz64 :: bal_decoder_instruction_metadata_t where
  "metadata_cbz64 = table_entry ''CBZ'' 0xFF000000 0xB4000000 OPCODE_TRAP
     [reg64 0, imm_field 5 19, no_operand, no_operand, no_operand]"

definition metadata_svc :: bal_decoder_instruction_metadata_t where
  "metadata_svc = table_entry ''SVC'' 0xFFE0001F 0xD4000001 OPCODE_TRAP
     [imm_field 5 16, no_operand, no_operand, no_operand, no_operand]"

definition matches :: "bal_decoder_instruction_metadata_t \<Rightarrow> u32 \<Rightarrow> bool" where
  "matches m w = (w AND dm_mask m = dm_expected m)"

definition data_processing_metadata :: "bal_decoder_instruction_metadata_t list" where
  "data_processing_metadata = [metadata_movz64, metadata_movn64, metadata_movk64,
     metadata_add_imm64, metadata_adds_imm64, metadata_sub_imm64, metadata_subs_imm64,
     metadata_add_reg64, metadata_adds_reg64, metadata_sub_reg64, metadata_subs_reg64,
     metadata_and_reg64]"

section \<open>Decoding by the manual\<close>

definition field :: "u32 \<Rightarrow> nat \<Rightarrow> nat \<Rightarrow> nat" where
  "field w lo width = unat (take_bit width (drop_bit lo w))"

text \<open>
  The 64 bit forms only: move wide, add and subtract with a 12 bit immediate, add, subtract
  and AND of registers without a shift.
\<close>

definition arm_decode :: "u32 \<Rightarrow> arm_instr option" where
  "arm_decode w =
    (let rd = field w 0 5; rn = field w 5 5; rm = field w 16 5;
         imm16 = of_nat (field w 5 16); hw = 16 * field w 21 2;
         imm12 = push_bit (if bit w 22 then 12 else 0) (of_nat (field w 10 12)) in
     if w AND 0xFF800000 = 0xD2800000 then Some (A_movz rd imm16 hw)
     else if w AND 0xFF800000 = 0x92800000 then Some (A_movn rd imm16 hw)
     else if w AND 0xFF800000 = 0xF2800000 then Some (A_movk rd imm16 hw)
     else if w AND 0x9F800000 = 0x91000000 then
       Some (A_add_sub_imm (bit w 30) (bit w 29) rd rn imm12)
     else if w AND 0x9F200000 = 0x8B000000 \<and> field w 10 6 = 0 then
       Some (A_add_sub_reg (bit w 30) (bit w 29) rd rn rm)
     else if w AND 0xFF200000 = 0x8A000000 \<and> field w 10 6 = 0 then Some (A_and_reg rd rn rm)
     else None)"

text \<open>
  The instructions whose register operands mean the same to the compiler as to the
  architecture: the compiler reads and writes slot 31 where the architecture has the zero
  register, and moves the first operand of an addition before it reads the second.
\<close>

primrec operands_agree :: "arm_instr \<Rightarrow> bool" where
  "operands_agree (A_movz rd imm sh) = (rd \<noteq> 31)"
| "operands_agree (A_movn rd imm sh) = (rd \<noteq> 31)"
| "operands_agree (A_movk rd imm sh) = (rd \<noteq> 31)"
| "operands_agree (A_add_sub_imm sub s rd rn imm) = True"
| "operands_agree (A_add_sub_reg sub s rd rn rm) =
     (rn \<noteq> 31 \<and> rm \<noteq> 31 \<and> (rd \<noteq> 31 \<or> s) \<and> (rd = rm \<longrightarrow> rn = rm))"
| "operands_agree (A_and_reg rd rn rm) = (rd \<noteq> 31 \<and> rn \<noteq> 31 \<and> rm \<noteq> 31)"

primrec guest_registers :: "arm_instr \<Rightarrow> nat set" where
  "guest_registers (A_movz rd imm sh) = {rd}"
| "guest_registers (A_movn rd imm sh) = {rd}"
| "guest_registers (A_movk rd imm sh) = {rd}"
| "guest_registers (A_add_sub_imm sub s rd rn imm) = {rd, rn}"
| "guest_registers (A_add_sub_reg sub s rd rn rm) = {rd, rn, rm}"
| "guest_registers (A_and_reg rd rn rm) = {rd, rn, rm}"

section \<open>The table agrees with the manual\<close>

lemma masked_bit: "w AND M = (E :: u32) \<Longrightarrow> bit M n \<Longrightarrow> bit w n = bit E n"
  by (metis bit_and_iff)

lemma masked_less: "w AND M = (E :: u32) \<Longrightarrow> M AND M' = M' \<Longrightarrow> w AND M' = E AND M'"
  by (metis and.assoc)

lemmas metadata_defs = metadata_movz64_def metadata_movn64_def metadata_movk64_def
  metadata_add_imm64_def metadata_adds_imm64_def metadata_sub_imm64_def metadata_subs_imm64_def
  metadata_add_reg64_def metadata_adds_reg64_def metadata_sub_reg64_def metadata_subs_reg64_def
  metadata_and_reg64_def table_entry_def

end
