(* ===== verification/Data_Processing.thy ===== *)
theory Data_Processing
  imports Register_Pressure Supported_Instructions
begin

text \<open>
  Data processing instructions: for each supported table entry, the translation of a
  matching word computes the architectural effect of the instruction.
\<close>

section \<open>Operand fields\<close>

lemma extract_field:
  assumes "do_type opr \<noteq> BAL_OPERAND_TYPE_NONE"
  shows "extract_operand_value w opr = take_bit (do_bit_width opr) (drop_bit (do_bit_position opr) w)"
proof -
  have "push_bit n 1 - 1 = (mask n :: u32)" for n by (simp add: mask_eq_decr_exp push_bit_eq_mult)
  with assms show ?thesis by (simp add: extract_operand_value_def take_bit_eq_mask)
qed

lemma field_bound: "field w lo width < 2 ^ width"
  by (simp add: field_def unsigned_take_bit_eq)

lemma operand_fields:
  assumes "dm_operands m ! k = opr" "do_type opr \<noteq> BAL_OPERAND_TYPE_NONE"
  shows "unat (operand32 m w k) = field w (do_bit_position opr) (do_bit_width opr)"
    "do_bit_width opr \<le> 8 \<Longrightarrow>
     unat (operand8 m w k) = field w (do_bit_position opr) (do_bit_width opr)"
    "(ucast (operand32 m w k) :: u64) = of_nat (field w (do_bit_position opr) (do_bit_width opr))"
proof -
  let ?f = "field w (do_bit_position opr) (do_bit_width opr)"
  show o: "unat (operand32 m w k) = ?f"
    using assms by (simp add: operand32_def extract_field field_def)
  show "(ucast (operand32 m w k) :: u64) = of_nat ?f"
    by (simp flip: o)
  assume "do_bit_width opr \<le> 8"
  then have "(2 :: nat) ^ do_bit_width opr \<le> 2 ^ 8" by (intro power_increasing) simp_all
  with field_bound [of w "do_bit_position opr" "do_bit_width opr"] have "?f < 2 ^ 8" by linarith
  then show "unat (operand8 m w k) = ?f"
    by (simp add: operand8_def unsigned_ucast_eq o take_bit_nat_eq_self)
qed

lemma field_types [simp]:
  "do_type (reg64 p) = BAL_OPERAND_TYPE_REGISTER_64" "do_bit_position (reg64 p) = p" "do_bit_width (reg64 p) = 5"
  "do_type (imm_field p n) = BAL_OPERAND_TYPE_IMMEDIATE" "do_bit_position (imm_field p n) = p"
  "do_bit_width (imm_field p n) = n" "do_type no_operand = BAL_OPERAND_TYPE_NONE"
  by (simp_all add: reg64_def imm_field_def no_operand_def)

text \<open>Three shapes of entries.\<close>

lemma wide_operands:
  assumes "dm_operands m = [reg64 0, imm_field 5 16, imm_field 21 2, no_operand, no_operand]"
  shows "unat (operand8 m w 0) = field w 0 5" "mov_shift m w = 16 * field w 21 2"
    "(ucast (operand32 m w 1) :: u64) = of_nat (field w 5 16)" "mov_mask m = -1"
proof -
  have o: "dm_operands m ! 0 = reg64 0" "dm_operands m ! 1 = imm_field 5 16"
    "dm_operands m ! 2 = imm_field 21 2" by (simp_all add: assms)
  show "unat (operand8 m w 0) = field w 0 5" using operand_fields(2) [OF o(1)] by simp
  show "(ucast (operand32 m w 1) :: u64) = of_nat (field w 5 16)"
    using operand_fields(3) [OF o(2)] by simp
  have "field w 21 2 < 4" using field_bound [of w 21 2] by simp
  then have "unat (of_nat (field w 21 2) * 16 :: u64) = 16 * field w 21 2"
    by (simp add: unat_word_ariths unsigned_of_nat take_bit_nat_eq_self)
  then show "mov_shift m w = 16 * field w 21 2"
    using operand_fields(3) [OF o(3), of w] by (simp add: mov_shift_def)
  show "mov_mask m = -1" by (simp add: mov_mask_def operand_type_def assms)
qed

lemma imm_operands:
  assumes "dm_operands m = [reg64 0, reg64 5, imm_field 10 12, imm_field 22 1, no_operand]"
  shows "unat (operand8 m w 0) = field w 0 5" "unat (operand8 m w 1) = field w 5 5"
    "add_sub_imm_value m w = push_bit (if bit w 22 then 12 else 0) (of_nat (field w 10 12))"
proof -
  have o: "dm_operands m ! 0 = reg64 0" "dm_operands m ! 1 = reg64 5"
    "dm_operands m ! 2 = imm_field 10 12" "dm_operands m ! 3 = imm_field 22 1" by (simp_all add: assms)
  show "unat (operand8 m w 0) = field w 0 5" "unat (operand8 m w 1) = field w 5 5"
    using operand_fields(2) [OF o(1)] operand_fields(2) [OF o(2)] by simp_all
  have "operand32 m w 3 = take_bit 1 (drop_bit 22 w)"
    unfolding operand32_def o(4) by (subst extract_field) simp_all
  also have "\<dots> = (if bit w 22 then 1 else 0)"
    by (rule bit_word_eqI) (auto simp: bit_simps bit_iff_odd_drop_bit [of w 22])
  finally have "(operand32 m w 3 = 1) = bit w 22" by simp
  then show "add_sub_imm_value m w = push_bit (if bit w 22 then 12 else 0) (of_nat (field w 10 12))"
    using operand_fields(3) [OF o(3), of w] by (simp add: add_sub_imm_value_def)
qed

lemma reg_operands:
  assumes "dm_operands m = [reg64 0, reg64 5, imm_field 10 6, reg64 16, imm_field 22 2]"
  shows "unat (operand8 m w 0) = field w 0 5" "unat (operand8 m w 1) = field w 5 5"
    "unat (operand8 m w 3) = field w 16 5" "(operand32 m w 2 = 0) = (field w 10 6 = 0)"
proof -
  have o: "dm_operands m ! 0 = reg64 0" "dm_operands m ! 1 = reg64 5"
    "dm_operands m ! 2 = imm_field 10 6" "dm_operands m ! 3 = reg64 16" by (simp_all add: assms)
  show "unat (operand8 m w 0) = field w 0 5" "unat (operand8 m w 1) = field w 5 5"
    "unat (operand8 m w 3) = field w 16 5"
    using operand_fields(2) [OF o(1)] operand_fields(2) [OF o(2)] operand_fields(2) [OF o(4)] by simp_all
  show "(operand32 m w 2 = 0) = (field w 10 6 = 0)"
    using operand_fields(1) [OF o(3), of w] unat_eq_0 [of "operand32 m w 2"] by auto
qed


section \<open>Decoding agrees with the manual\<close>

lemma matches_entry [simp]:
  "matches metadata_movz64 w = (w AND 0xFF800000 = 0xD2800000)" "dm_expected metadata_movz64 = 0xD2800000"
  "matches metadata_movn64 w = (w AND 0xFF800000 = 0x92800000)" "dm_expected metadata_movn64 = 0x92800000"
  "matches metadata_movk64 w = (w AND 0xFF800000 = 0xF2800000)" "dm_expected metadata_movk64 = 0xF2800000"
  "matches metadata_add_imm64 w = (w AND 0xFF800000 = 0x91000000)" "dm_expected metadata_add_imm64 = 0x91000000"
  "matches metadata_adds_imm64 w = (w AND 0xFF800000 = 0xB1000000)" "dm_expected metadata_adds_imm64 = 0xB1000000"
  "matches metadata_sub_imm64 w = (w AND 0xFF800000 = 0xD1000000)" "dm_expected metadata_sub_imm64 = 0xD1000000"
  "matches metadata_subs_imm64 w = (w AND 0xFF800000 = 0xF1000000)" "dm_expected metadata_subs_imm64 = 0xF1000000"
  "matches metadata_add_reg64 w = (w AND 0xFF200000 = 0x8B000000)" "dm_expected metadata_add_reg64 = 0x8B000000"
  "matches metadata_adds_reg64 w = (w AND 0xFF200000 = 0xAB000000)" "dm_expected metadata_adds_reg64 = 0xAB000000"
  "matches metadata_sub_reg64 w = (w AND 0xFF200000 = 0xCB000000)" "dm_expected metadata_sub_reg64 = 0xCB000000"
  "matches metadata_subs_reg64 w = (w AND 0xFF200000 = 0xEB000000)" "dm_expected metadata_subs_reg64 = 0xEB000000"
  "matches metadata_and_reg64 w = (w AND 0xFF200000 = 0x8A000000)" "dm_expected metadata_and_reg64 = 0x8A000000"
  by (simp_all add: metadata_defs matches_def)

lemma decode_wide:
  "w AND 0xFF800000 = 0xD2800000 \<Longrightarrow>
     arm_decode w = Some (A_movz (field w 0 5) (of_nat (field w 5 16)) (16 * field w 21 2))"
  "w AND 0xFF800000 = 0x92800000 \<Longrightarrow>
     arm_decode w = Some (A_movn (field w 0 5) (of_nat (field w 5 16)) (16 * field w 21 2))"
  "w AND 0xFF800000 = 0xF2800000 \<Longrightarrow>
     arm_decode w = Some (A_movk (field w 0 5) (of_nat (field w 5 16)) (16 * field w 21 2))"
  by (simp_all add: arm_decode_def)

lemma decode_add_sub_imm:
  assumes "w AND 0xFF800000 = E" "E \<in> {0x91000000, 0xB1000000, 0xD1000000, 0xF1000000}"
  shows "arm_decode w = Some (A_add_sub_imm (bit E 30) (bit E 29) (field w 0 5) (field w 5 5)
    (push_bit (if bit w 22 then 12 else 0) (of_nat (field w 10 12))))"
proof -
  have "w AND 0x9F800000 = E AND 0x9F800000" by (rule masked_less [OF assms(1)]) simp
  moreover have "bit w 30 = bit E 30" "bit w 29 = bit E 29"
    by (rule masked_bit [OF assms(1)]; simp add: bit_numeral_rec)+
  ultimately show ?thesis using assms by (auto simp: arm_decode_def Let_def)
qed

lemma register_form:
  assumes "bit (w :: u32) 27"
  shows "w AND 0xFF800000 \<noteq> 0xD2800000" "w AND 0xFF800000 \<noteq> 0x92800000"
    "w AND 0xFF800000 \<noteq> 0xF2800000" "w AND 0x9F800000 \<noteq> 0x91000000"
  using assms masked_bit [where n = 27 and w = w] by (fastforce simp: bit_numeral_rec)+

lemma decode_add_sub_reg:
  assumes "w AND 0xFF200000 = E" "E \<in> {0x8B000000, 0xAB000000, 0xCB000000, 0xEB000000}"
    and dec: "arm_decode w = Some ins"
  shows "ins = A_add_sub_reg (bit E 30) (bit E 29) (field w 0 5) (field w 5 5) (field w 16 5)"
    "field w 10 6 = 0"
proof -
  have m: "w AND 0x9F200000 = E AND 0x9F200000" by (rule masked_less [OF assms(1)]) simp
  have b: "bit w 30 = bit E 30" "bit w 29 = bit E 29" "bit w 27 = bit E 27"
    by (rule masked_bit [OF assms(1)]; simp add: bit_numeral_rec)+
  show "ins = A_add_sub_reg (bit E 30) (bit E 29) (field w 0 5) (field w 5 5) (field w 16 5)"
    "field w 10 6 = 0"
    using assms m b register_form [of w]
    by (auto simp: arm_decode_def Let_def bit_numeral_rec split: if_splits)
qed

lemma decode_and_reg:
  assumes "w AND 0xFF200000 = 0x8A000000" and dec: "arm_decode w = Some ins"
  shows "ins = A_and_reg (field w 0 5) (field w 5 5) (field w 16 5)" "field w 10 6 = 0"
proof -
  have "w AND 0x9F200000 = 0x8A000000 AND 0x9F200000" by (rule masked_less [OF assms(1)]) simp
  moreover have "bit w 27" using masked_bit [OF assms(1), of 27] by (simp add: bit_numeral_rec)
  ultimately show "ins = A_and_reg (field w 0 5) (field w 5 5) (field w 16 5)" "field w 10 6 = 0"
    using assms register_form [of w] by (auto simp: arm_decode_def Let_def split: if_splits)
qed


section \<open>The effects agree with the manual\<close>

lemma field5 [simp]: "field w p 5 < 32"
  using field_bound [of w p 5] by simp

lemma add_sub_effect_imm:
  "add_sub_effect is_sub s rd rn (\<lambda>_. v) = arm_step (A_add_sub_imm is_sub s rd rn v)"
  by (auto simp: fun_eq_iff add_sub_effect_def flags_after_def set_x_def write_zr_def write_sp_def Let_def
      split: prod.split)

lemma add_sub_effect_reg:
  assumes "operands_agree (A_add_sub_reg is_sub s rd rn rm)"
  shows "add_sub_effect is_sub s rd rn (\<lambda>g. gs_x g rm) = arm_step (A_add_sub_reg is_sub s rd rn rm)"
  using assms
  by (auto simp: fun_eq_iff add_sub_effect_def flags_after_def set_x_def write_zr_def read_zr_def Let_def
      split: prod.split)

lemma and_effect_arm:
  "operands_agree (A_and_reg rd rn rm) \<Longrightarrow> and_effect rd rn rm = arm_step (A_and_reg rd rn rm)"
  by (simp add: fun_eq_iff and_effect_def set_x_def write_zr_def read_zr_def)

lemma mov_effect_arm:
  assumes "dm_operands m = [reg64 0, imm_field 5 16, imm_field 21 2, no_operand, no_operand]"
    and "field w 0 5 \<noteq> 31"
  shows "name_char m 3 = CHR ''Z'' \<Longrightarrow>
      mov_effect m w = arm_step (A_movz (field w 0 5) (of_nat (field w 5 16)) (16 * field w 21 2))"
    "name_char m 3 = CHR ''N'' \<Longrightarrow>
      mov_effect m w = arm_step (A_movn (field w 0 5) (of_nat (field w 5 16)) (16 * field w 21 2))"
    "name_char m 3 = CHR ''K'' \<Longrightarrow>
      mov_effect m w = arm_step (A_movk (field w 0 5) (of_nat (field w 5 16)) (16 * field w 21 2))"
  using assms(2) wide_operands(1-3) [OF assms(1), of w] wide_operands(4) [OF assms(1)]
  by (simp_all del: One_nat_def add: fun_eq_iff mov_effect_def Let_def set_x_def write_zr_def read_zr_def)

section \<open>The translation of a supported word\<close>

definition translated ::
  "nat set \<Rightarrow> nat \<Rightarrow> translate_state \<Rightarrow> translate_state \<Rightarrow> arm_instr \<Rightarrow> bool" where
  "translated D n s s' ins \<longleftrightarrow> (\<exists>c'. s' = s\<lparr>ts_compiler := c'\<rparr> \<and> budget D n c' \<and>
     compiles (ts_compiler s) c' (arm_step ins))"

lemma translate_wide:
  assumes shape: "dm_operands m = [reg64 0, imm_field 5 16, imm_field 21 2, no_operand, no_operand]"
    and opc: "dm_ir_opcode m = OPCODE_MOV" and name: "name_char m 3 \<in> {CHR ''Z'', CHR ''N'', CHR ''K''}"
    and b: "budget D (MACROS_PER_INSTRUCTION + n) (ts_compiler s)" and rd: "field w 0 5 \<in> D"
    and effect: "mov_effect m w = arm_step ins"
  shows "translated D n s (translate_opcode s m w) ins"
proof -
  have t: "translate_opcode s m w = s\<lparr>ts_compiler := translate_mov_immediate (ts_compiler s) m w\<rparr>"
    using name by (auto simp: translate_opcode_def opc)
  have "budget D (3 + n) (ts_compiler s)"
    by (rule budget_mono [OF b]) (simp add: MACROS_PER_INSTRUCTION_def)
  then have "budget D n (translate_mov_immediate (ts_compiler s) m w)"
    by (rule translate_mov_immediate_budget) (simp_all add: wide_operands [OF shape] rd)
  moreover from translate_mov_immediate_compiles [OF budgetD(1) [OF b] budgetD(2) [OF this]]
  have "compiles (ts_compiler s) (translate_mov_immediate (ts_compiler s) m w) (arm_step ins)"
    unfolding effect .
  ultimately show ?thesis by (auto simp: translated_def t)
qed

lemma translate_imm:
  assumes shape: "dm_operands m = [reg64 0, reg64 5, imm_field 10 12, imm_field 22 1, no_operand]"
    and opc: "dm_ir_opcode m = (if is_sub then OPCODE_SUB else OPCODE_ADD)"
    and b: "budget D (MACROS_PER_INSTRUCTION + n) (ts_compiler s)"
    and regs: "field w 0 5 \<in> D" "field w 5 5 \<in> D"
  shows "translated D n s (translate_opcode s m w) (A_add_sub_imm is_sub (is_setting_flags m)
    (field w 0 5) (field w 5 5) (push_bit (if bit w 22 then 12 else 0) (of_nat (field w 10 12))))"
proof -
  let ?c = "translate_add_sub_imm (ts_compiler s) m w is_sub"
  have t: "translate_opcode s m w = s\<lparr>ts_compiler := ?c\<rparr>"
    by (cases is_sub) (simp_all add: translate_opcode_def opc operand_type_def shape is_register_type_def Let_def)
  note o = imm_operands [OF shape, of w]
  have res: "budget D n ?c" using b by (rule translate_add_sub_imm_budget) (simp_all add: o regs del: One_nat_def)
  have "do_bit_width (dm_operands m ! 2) \<le> 12" by (simp add: shape)
  from translate_add_sub_imm_compiles [OF budgetD(1) [OF b] budgetD(2) [OF res] this] res
  show ?thesis by (auto simp del: One_nat_def simp: translated_def t o add_sub_effect_imm)
qed

lemma translate_reg:
  assumes shape: "dm_operands m = [reg64 0, reg64 5, imm_field 10 6, reg64 16, imm_field 22 2]"
    and opc: "dm_ir_opcode m = (if is_sub then OPCODE_SUB else OPCODE_ADD)"
    and b: "budget D (MACROS_PER_INSTRUCTION + n) (ts_compiler s)"
    and regs: "field w 0 5 \<in> D" "field w 5 5 \<in> D" "field w 16 5 \<in> D" and shift: "field w 10 6 = 0"
    and agree: "operands_agree (A_add_sub_reg is_sub (is_setting_flags m) (field w 0 5) (field w 5 5) (field w 16 5))"
  shows "translated D n s (translate_opcode s m w)
    (A_add_sub_reg is_sub (is_setting_flags m) (field w 0 5) (field w 5 5) (field w 16 5))"
proof -
  let ?c = "translate_add_sub_reg (ts_compiler s) m w is_sub"
  have t: "translate_opcode s m w = s\<lparr>ts_compiler := ?c\<rparr>"
    by (cases is_sub) (simp_all add: translate_opcode_def opc operand_type_def shape is_register_type_def Let_def)
  note o = reg_operands [OF shape, of w]
  have overlap: "operand8 m w 0 = operand8 m w 3 \<Longrightarrow> operand8 m w 1 = operand8 m w 3"
    using agree by (auto simp: word_unat_eq_iff o simp del: One_nat_def)
  have "budget D n ?c \<and> compiles (ts_compiler s) ?c (add_sub_effect is_sub (is_setting_flags m)
      (unat (operand8 m w 0)) (unat (operand8 m w 1)) (\<lambda>g. gs_x g (unat (operand8 m w 3))))"
    using overlap
    by (intro conjI translate_add_sub_reg_budget [where D = D and n = n])
      (simp_all only: o regs shift b field5 simp_thms)
  then show ?thesis by (auto simp del: One_nat_def simp: translated_def t o add_sub_effect_reg [OF agree])
qed

lemma translate_and_word:
  assumes shape: "dm_operands m = [reg64 0, reg64 5, imm_field 10 6, reg64 16, imm_field 22 2]"
    and opc: "dm_ir_opcode m = OPCODE_AND" and name: "name_char m 3 \<noteq> CHR ''S''"
    and b: "budget D (MACROS_PER_INSTRUCTION + n) (ts_compiler s)"
    and regs: "field w 0 5 \<in> D" "field w 5 5 \<in> D" "field w 16 5 \<in> D" and shift: "field w 10 6 = 0"
    and agree: "operands_agree (A_and_reg (field w 0 5) (field w 5 5) (field w 16 5))"
  shows "translated D n s (translate_opcode s m w) (A_and_reg (field w 0 5) (field w 5 5) (field w 16 5))"
proof -
  let ?c = "translate_and (ts_compiler s) m w"
  have t: "translate_opcode s m w = s\<lparr>ts_compiler := ?c\<rparr>"
    by (simp add: translate_opcode_def opc Let_def)
  note o = reg_operands [OF shape, of w]
  have "budget D n ?c \<and> compiles (ts_compiler s) ?c
      (and_effect (unat (operand8 m w 0)) (unat (operand8 m w 1)) (unat (operand8 m w 3)))"
    using name
    by (intro conjI translate_and_budget [where D = D and n = n])
      (simp_all only: o regs shift b field5 simp_thms)
  then show ?thesis by (auto simp del: One_nat_def simp: translated_def t o and_effect_arm [OF agree])
qed


lemma setting_flags_table:
  "is_setting_flags metadata_add_imm64 = False" "is_setting_flags metadata_adds_imm64 = True"
  "is_setting_flags metadata_sub_imm64 = False" "is_setting_flags metadata_subs_imm64 = True"
  "is_setting_flags metadata_add_reg64 = False" "is_setting_flags metadata_adds_reg64 = True"
  "is_setting_flags metadata_sub_reg64 = False" "is_setting_flags metadata_subs_reg64 = True"
  by (simp_all add: metadata_defs is_setting_flags_def name_char_def)

lemma translate_wide_word:
  assumes m: "m \<in> {metadata_movz64, metadata_movn64, metadata_movk64}" and w: "matches m w"
    and ins: "arm_decode w = Some ins" "operands_agree ins" "guest_registers ins \<subseteq> D"
    and b: "budget D (MACROS_PER_INSTRUCTION + n) (ts_compiler s)"
  shows "translated D n s (translate_opcode s m w) ins"
proof -
  have shape: "dm_operands m = [reg64 0, imm_field 5 16, imm_field 21 2, no_operand, no_operand]"
    and opc: "dm_ir_opcode m = OPCODE_MOV"
    using m by (auto simp: metadata_defs)
  have name: "name_char metadata_movz64 3 = CHR ''Z''" "name_char metadata_movn64 3 = CHR ''N''"
    "name_char metadata_movk64 3 = CHR ''K''" by (simp_all add: metadata_defs name_char_def)
  have rd: "field w 0 5 \<noteq> 31" "field w 0 5 \<in> D"
    using m w ins by (auto simp: decode_wide)
  have "mov_effect m w = arm_step ins"
    using m w ins(1) mov_effect_arm [OF shape rd(1)] name
    by (auto simp: decode_wide)
  with name m show ?thesis
    by (intro translate_wide [OF shape opc _ b rd(2)]) auto
qed

lemma translate_imm_word:
  assumes m: "m \<in> {metadata_add_imm64, metadata_adds_imm64, metadata_sub_imm64, metadata_subs_imm64}"
    and w: "matches m w" and ins: "arm_decode w = Some ins" "guest_registers ins \<subseteq> D"
    and b: "budget D (MACROS_PER_INSTRUCTION + n) (ts_compiler s)"
  shows "translated D n s (translate_opcode s m w) ins"
proof -
  define is_sub where "is_sub = (m \<in> {metadata_sub_imm64, metadata_subs_imm64})"
  have shape: "dm_operands m = [reg64 0, reg64 5, imm_field 10 12, imm_field 22 1, no_operand]"
    using m by (auto simp: metadata_defs)
  have opc: "dm_ir_opcode m = (if is_sub then OPCODE_SUB else OPCODE_ADD)"
    using m by (auto simp: is_sub_def) (simp_all add: metadata_defs)
  have E: "w AND 0xFF800000 = dm_expected m"
    "dm_expected m \<in> {0x91000000, 0xB1000000, 0xD1000000, 0xF1000000}"
    using m w by auto
  have bits: "bit (dm_expected m) 30 = is_sub" "bit (dm_expected m) 29 = is_setting_flags m"
    using m by (auto simp: is_sub_def setting_flags_table bit_numeral_rec)
  note dec = decode_add_sub_imm [OF E, unfolded bits]
  with ins have regs: "field w 0 5 \<in> D" "field w 5 5 \<in> D" by auto
  show ?thesis using translate_imm [OF shape opc b regs] dec ins(1) by simp
qed

lemma translate_reg_word:
  assumes m: "m \<in> {metadata_add_reg64, metadata_adds_reg64, metadata_sub_reg64, metadata_subs_reg64}"
    and w: "matches m w" and ins: "arm_decode w = Some ins" "operands_agree ins" "guest_registers ins \<subseteq> D"
    and b: "budget D (MACROS_PER_INSTRUCTION + n) (ts_compiler s)"
  shows "translated D n s (translate_opcode s m w) ins"
proof -
  define is_sub where "is_sub = (m \<in> {metadata_sub_reg64, metadata_subs_reg64})"
  have shape: "dm_operands m = [reg64 0, reg64 5, imm_field 10 6, reg64 16, imm_field 22 2]"
    using m by (auto simp: metadata_defs)
  have opc: "dm_ir_opcode m = (if is_sub then OPCODE_SUB else OPCODE_ADD)"
    using m by (auto simp: is_sub_def) (simp_all add: metadata_defs)
  have E: "w AND 0xFF200000 = dm_expected m"
    "dm_expected m \<in> {0x8B000000, 0xAB000000, 0xCB000000, 0xEB000000}"
    using m w by auto
  have bits: "bit (dm_expected m) 30 = is_sub" "bit (dm_expected m) 29 = is_setting_flags m"
    using m by (auto simp: is_sub_def setting_flags_table bit_numeral_rec)
  note dec = decode_add_sub_reg [OF E ins(1), unfolded bits]
  with ins(2,3) show ?thesis
    using translate_reg [OF shape opc b _ _ _ dec(2)] by simp
qed

lemma translate_logical_word:
  assumes w: "matches metadata_and_reg64 w"
    and ins: "arm_decode w = Some ins" "operands_agree ins" "guest_registers ins \<subseteq> D"
    and b: "budget D (MACROS_PER_INSTRUCTION + n) (ts_compiler s)"
  shows "translated D n s (translate_opcode s metadata_and_reg64 w) ins"
proof -
  have "w AND 0xFF200000 = 0x8A000000" using w by simp
  note dec = decode_and_reg [OF this ins(1)]
  show ?thesis
    using ins(2,3) unfolding dec(1)
    by (intro translate_and_word [OF _ _ _ b _ _ _ dec(2)]) (simp_all add: metadata_defs name_char_def)
qed

lemma translate_data_processing:
  assumes "m \<in> set data_processing_metadata" "matches m w" "arm_decode w = Some ins"
    "operands_agree ins" "guest_registers ins \<subseteq> D"
    "budget D (MACROS_PER_INSTRUCTION + n) (ts_compiler s)"
  shows "translated D n s (translate_opcode s m w) ins"
proof -
  from assms(1) consider "m \<in> {metadata_movz64, metadata_movn64, metadata_movk64}"
    | "m \<in> {metadata_add_imm64, metadata_adds_imm64, metadata_sub_imm64, metadata_subs_imm64}"
    | "m \<in> {metadata_add_reg64, metadata_adds_reg64, metadata_sub_reg64, metadata_subs_reg64}"
    | "m = metadata_and_reg64"
    by (auto simp: data_processing_metadata_def)
  then show ?thesis
    using assms by cases (auto intro: translate_wide_word translate_imm_word translate_reg_word
        translate_logical_word)
qed

end
