(* ===== verification/Block_Code.thy ===== *)
theory Block_Code
  imports Data_Processing
begin

text \<open>
  Running a block: the decoder-driven machine of \<open>X86_Semantics\<close> on code that is a straight
  line followed by a return, and the write back of the dirty registers at the end of a block.
\<close>

section \<open>Straight lines\<close>

lemma x86_run_step:
  assumes "encodes b i" "x86_step i s = Some s'"
  shows "x86_run (Suc n) (pre @ b @ post) (int (length pre)) s =
    x86_run n (pre @ b @ post) (int (length pre + length b)) s'"
proof -
  have "x86_decode (b @ post) = Some (i, post)" using assms(1) by (simp add: encodes_def)
  moreover have "int (length pre + (length b + length post)) - int (length post) =
      int (length pre + length b)" by simp
  ultimately show ?thesis using assms(2) by (cases i) (simp_all add: Let_def)
qed

lemma x86_run_straight:
  assumes "encodes_seq bs is" "x86_exec is s = Some s'"
  shows "x86_run (length is + n) (pre @ bs @ post) (int (length pre)) s =
    x86_run n (pre @ bs @ post) (int (length pre + length bs)) s'"
  using assms
proof (induction arbitrary: pre s rule: encodes_seq.induct)
  case (Cons b i bs "is")
  from Cons.prems obtain s1 where s1: "x86_step i s = Some s1" "x86_exec is s1 = Some s'"
    by (auto split: Option.bind_splits)
  from x86_run_step [OF Cons.hyps(1) s1(1), of "length is + n" pre "bs @ post"]
    Cons.IH [OF s1(2), of "pre @ b"]
  show ?case by (simp add: add.assoc)
qed simp

lemma x86_run_return:
  assumes "encodes b X_ret" "xs_stack s = ra # st"
  shows "x86_run (Suc n) (pre @ b @ post) (int (length pre)) s = X_returned ra (s\<lparr>xs_stack := st\<rparr>)"
proof -
  have "x86_decode (b @ post) = Some (X_ret, post)" using assms(1) by (simp add: encodes_def)
  with assms(2) show ?thesis by (simp add: Let_def)
qed

text \<open>A whole block: a straight line and a return.\<close>

lemma x86_run_block:
  assumes "encodes_seq bs (is @ [X_ret])" "x86_exec is s = Some s'" "xs_stack s' = ra # st"
  shows "x86_run (length is + 1) (pre @ bs @ post) (int (length pre)) s = X_returned ra (s'\<lparr>xs_stack := st\<rparr>)"
proof -
  have "\<exists>b1 b2. bs = b1 @ b2 \<and> encodes_seq b1 is \<and> encodes b2 X_ret"
    using assms(1)
  proof (induction "is" arbitrary: bs)
    case Nil
    then have "encodes bs X_ret" by (auto elim!: encodes_seq_ConsE encodes_seq_NilE)
    then show ?case by (intro exI [of _ "[]"] exI [of _ bs]) (simp add: encodes_seq.Nil)
  next
    case (Cons i "is")
    then obtain b cs where "bs = b @ cs" "encodes b i" "encodes_seq cs (is @ [X_ret])"
      by (auto elim: encodes_seq_ConsE)
    with Cons.IH [of cs] obtain b1 b2 where "bs = (b @ b1) @ b2" "encodes_seq (b @ b1) (i # is)" "encodes b2 X_ret"
      by (auto intro: encodes_seq.Cons)
    then show ?case by blast
  qed
  then obtain b1 b2 where b: "bs = b1 @ b2" "encodes_seq b1 is" "encodes b2 X_ret" by blast
  from x86_run_straight [OF b(2) assms(2), of 1 pre "b2 @ post"]
    x86_run_return [OF b(3) assms(3), of 0 "pre @ b1" post]
  show ?thesis by (simp add: b(1))
qed

section \<open>Writing the dirty registers back\<close>

definition cpu_view :: "(u64 \<Rightarrow> u8) \<Rightarrow> u64 \<Rightarrow> guest_state" where
  "cpu_view mem base = \<lparr>gs_x = (\<lambda>r. if r < 32 then load64 mem (base + offset_x r) else 0),
     gs_n = (mem (base + offset_flag_n) \<noteq> 0), gs_z = (mem (base + offset_flag_z) \<noteq> 0),
     gs_c = (mem (base + offset_flag_c) \<noteq> 0), gs_v = (mem (base + offset_flag_v) \<noteq> 0),
     gs_pc = load64 mem (base + offset_pc),
     gs_icount = load64 mem (base + offset_instruction_count)\<rparr>"

lemma cpu_view_view:
  assumes "\<And>r. r < 32 \<Longrightarrow> load64 (xs_mem s) (slot_addr s r) = slot c s r"
  shows "cpu_view (xs_mem s) (xs_reg s BAL_X86_RBP) = view c s"
  using assms by (auto simp: cpu_view_def view_def flag_byte_def slot_addr_def fun_eq_iff)

lemma run_stores:
  assumes "\<And>r. r \<in> set rs \<Longrightarrow> r < 32" "distinct rs"
  shows "\<exists>t. run_effects macro_exec (map (\<lambda>r. store_register_macro (Q r) r) rs) s = Some t \<and>
    xs_reg t = xs_reg s \<and> members t = members s \<and> jit_frame s t \<and>
    (\<forall>r < 32. load64 (xs_mem t) (slot_addr s r) =
       (if r \<in> set rs then xs_reg s (Q r) else load64 (xs_mem s) (slot_addr s r)))"
  using assms
proof (induction rs arbitrary: s)
  case (Cons r rs)
  let ?u = "write_mem64 (slot_addr s r) (xs_reg s (Q r)) s"
  have r: "r < 32" "r \<notin> set rs" using Cons.prems by auto
  from Cons.IH [of ?u] Cons.prems obtain t where
    t: "run_effects macro_exec (map (\<lambda>r. store_register_macro (Q r) r) rs) ?u = Some t"
      "xs_reg t = xs_reg ?u" "members t = members ?u" "jit_frame ?u t"
    and slots: "\<And>k. k < 32 \<Longrightarrow> load64 (xs_mem t) (slot_addr ?u k) =
       (if k \<in> set rs then xs_reg ?u (Q k) else load64 (xs_mem ?u) (slot_addr ?u k))"
    by (auto simp: o_def)
  have "members ?u = members s"
    using r(1) by (simp add: members_def load_member_store flag_byte_store cpu_offset_defs)
  moreover have "jit_frame s t" using jit_frame_store [OF r(1)] t(4) by (rule jit_frame_trans)
  moreover have "load64 (xs_mem t) (slot_addr s k) =
      (if k \<in> set (r # rs) then xs_reg s (Q k) else load64 (xs_mem s) (slot_addr s k))" if "k < 32" for k
    using slots [OF that] r that load_slot_store [OF r(1) that] by auto
  ultimately show ?case using t by (simp add: macro_exec_store r(1))
qed simp

lemma flush_dirty_eq:
  "flush_dirty_registers c = push_macros c
     (map (\<lambda>r. store_register_macro (reg_of_int (tc_arm_to_x86 c ! r)) r) (filter (is_dirty c) [0..<32]))"
proof -
  have "foldl (\<lambda>d r. if is_dirty c r then push_macro d (store_register_macro (reg_of_int (tc_arm_to_x86 d ! r)) r)
        else d) d rs =
      push_macros d (map (\<lambda>r. store_register_macro (reg_of_int (tc_arm_to_x86 c ! r)) r) (filter (is_dirty c) rs))"
    if "tc_arm_to_x86 d = tc_arm_to_x86 c" for d rs
    using that by (induction rs arbitrary: d) simp_all
  then show ?thesis by (simp add: flush_dirty_registers_def is_dirty_def del: upt_rec_numeral)
qed

text \<open>After the write back memory holds the guest state.\<close>

lemma flush_dirty_run:
  assumes wf: "ra_wf c" and con: "consistent_but {} c s"
  shows "\<exists>t. run_effects macro_exec
      (map (\<lambda>r. store_register_macro (reg_of_int (tc_arm_to_x86 c ! r)) r) (filter (is_dirty c) [0..<32])) s = Some t \<and>
    jit_frame s t \<and> cpu_view (xs_mem t) (xs_reg t BAL_X86_RBP) = view c s"
proof -
  let ?rs = "filter (is_dirty c) [0..<32]" and ?Q = "\<lambda>r. reg_of_int (tc_arm_to_x86 c ! r)"
  from run_stores [of ?rs ?Q s] obtain t where
    t: "run_effects macro_exec (map (\<lambda>r. store_register_macro (?Q r) r) ?rs) s = Some t"
      "xs_reg t = xs_reg s" "members t = members s" "jit_frame s t"
    and slots: "\<And>r. r < 32 \<Longrightarrow> load64 (xs_mem t) (slot_addr s r) =
       (if is_dirty c r then xs_reg s (?Q r) else load64 (xs_mem s) (slot_addr s r))"
    by (auto simp del: upt_rec_numeral)
  have addr: "slot_addr t = slot_addr s" by (simp add: slot_addr_def t(2) fun_eq_iff)
  have "load64 (xs_mem t) (slot_addr t r) = slot c t r" if "r < 32" for r
  proof (cases "cached c r")
    case None
    then show ?thesis by (simp add: slot_def)
  next
    case (Some q)
    then have "?Q r = q" by (simp add: cached_def split: if_splits)
    with Some slots [OF that] con show ?thesis
      by (auto simp: slot_def addr t(2) consistent_but_def)
  qed
  then have "cpu_view (xs_mem t) (xs_reg t BAL_X86_RBP) = view c t" by (rule cpu_view_view)
  moreover have "slot c t r = slot c s r" if "r < 32" for r
    using wf slots [OF that] by (cases "cached c r") (auto simp: slot_def addr t(2) ra_wf_def)
  then have "view c t = view c s" using t(3) by (simp add: view_eq_iff)
  ultimately show ?thesis using t by auto
qed


section \<open>What a block computes\<close>

definition callee_saved :: "bal_x86_register_t list" where
  "callee_saved = [BAL_X86_RBX, BAL_X86_RBP, BAL_X86_R12, BAL_X86_R13, BAL_X86_R14, BAL_X86_R15]"

text \<open>
  The code at \<open>start\<close>, called with the address of the CPU structure in RDI, returns to its
  caller with the stack and the callee saved registers restored, the guest state changed by
  \<open>F\<close>, and no other memory changed, whatever code follows.
\<close>

definition block_computes :: "u8 list \<Rightarrow> nat \<Rightarrow> (guest_state \<Rightarrow> guest_state) \<Rightarrow> bool" where
  "block_computes code start F \<longleftrightarrow> (\<forall>s ra st. xs_stack s = ra # st \<longrightarrow>
     (\<exists>n s'. (\<forall>post. x86_run n (code @ post) (int start) s = X_returned ra s') \<and> xs_stack s' = st \<and>
        (\<forall>q \<in> set callee_saved. xs_reg s' q = xs_reg s q) \<and>
        cpu_view (xs_mem s') (xs_reg s BAL_X86_ABI_ARG1) = F (cpu_view (xs_mem s) (xs_reg s BAL_X86_ABI_ARG1)) \<and>
        (\<forall>p. 288 \<le> unat (p - xs_reg s BAL_X86_ABI_ARG1) \<longrightarrow> xs_mem s' p = xs_mem s p)))"

definition prologue_state :: "x86_state \<Rightarrow> x86_state" where
  "prologue_state s = s\<lparr>xs_reg := (xs_reg s)(BAL_X86_RBP := xs_reg s BAL_X86_ABI_ARG1),
     xs_stack := [xs_reg s BAL_X86_R15, xs_reg s BAL_X86_R14, xs_reg s BAL_X86_R13,
       xs_reg s BAL_X86_R12, xs_reg s BAL_X86_RBP] @ xs_stack s\<rparr>"

lemma prologue_exec:
  "x86_exec (map x86_instr_of block_prologue) s = Some (prologue_state s)"
  by (simp add: block_prologue_def prologue_state_def write_reg_def BAL_X86_ABI_ARG1_def)

lemma emit_calls_fields [simp]:
  "tc_assembler (emit_calls c cs) = foldl x86_emit (tc_assembler c) cs"
  "tc_window (emit_calls c cs) = tc_window c" "tc_status (emit_calls c cs) = tc_status c"
  "cached (emit_calls c cs) = cached c" "is_dirty (emit_calls c cs) = is_dirty c"
  "ra_wf (emit_calls c cs) = ra_wf c"
proof -
  have "emit_calls c cs = c\<lparr>tc_assembler := foldl x86_emit (tc_assembler c) cs\<rparr>"
    by (induction cs arbitrary: c) (simp_all add: emit_calls_def emit_call_def)
  then show "tc_assembler (emit_calls c cs) = foldl x86_emit (tc_assembler c) cs"
    "tc_window (emit_calls c cs) = tc_window c" "tc_status (emit_calls c cs) = tc_status c"
    "cached (emit_calls c cs) = cached c" "is_dirty (emit_calls c cs) = is_dirty c"
    "ra_wf (emit_calls c cs) = ra_wf c" by simp_all
qed

text \<open>The epilogue: the store of the program counter, unless it is dynamic, and the pops.\<close>

definition epilogue_calls :: "u64 option \<Rightarrow> x86_call list" where
  "epilogue_calls pc = (case pc of None \<Rightarrow> [] | Some v \<Rightarrow> store_pc_calls v) @ restore_and_return"

definition epilogue_body :: "u64 option \<Rightarrow> x86_instr list" where
  "epilogue_body pc = map x86_instr_of (butlast (epilogue_calls pc))"

lemma epilogue_instrs: "map x86_instr_of (epilogue_calls pc) = epilogue_body pc @ [X_ret]"
  by (cases pc) (simp_all add: epilogue_body_def epilogue_calls_def restore_and_return_def store_pc_calls_def)

lemma cpu_view_set_pc:
  "cpu_view (store64 m (base + offset_pc) v) base = (cpu_view m base)\<lparr>gs_pc := v\<rparr>"
proof -
  have x: "disjoint64 (base + offset_pc) (base + offset_x r)" if "r < 32" for r
    using that by (intro disjoint_offsets(2)) (simp_all add: unat_offset_x offset_pc_def)
  have i: "disjoint64 (base + offset_pc) (base + offset_instruction_count)"
    by (intro disjoint_offsets(1)) (simp_all add: cpu_offset_defs)
  have f: "store64 m (base + offset_pc) v (base + k) = m (base + k)" if "k \<in> {272, 273, 274, 275}" for k
    using that by (intro store64_other) (auto simp: offset_pc_def)
  show ?thesis
    using x i f by (auto simp: cpu_view_def load64_store64_other cpu_offset_defs)
qed

text \<open>The store of the program counter through RAX.\<close>

lemma store_pc_exec:
  "\<exists>t'. x86_exec (map x86_instr_of (store_pc_calls pc)) t = Some t' \<and> xs_stack t' = xs_stack t \<and>
    (\<forall>q. q \<noteq> BAL_X86_RAX \<longrightarrow> xs_reg t' q = xs_reg t q) \<and>
    cpu_view (xs_mem t') (xs_reg t BAL_X86_RBP) = (cpu_view (xs_mem t) (xs_reg t BAL_X86_RBP))\<lparr>gs_pc := pc\<rparr> \<and>
    (\<forall>p. 288 \<le> unat (p - xs_reg t BAL_X86_RBP) \<longrightarrow> xs_mem t' p = xs_mem t p)"
proof -
  have far: "8 \<le> unat (p - (base + offset_pc))" if "288 \<le> unat (p - base)" for p base
  proof -
    have "offset_pc \<le> p - base" using that by (simp add: word_le_nat_alt offset_pc_def)
    then have "unat ((p - base) - offset_pc) = unat (p - base) - 256"
      by (simp add: unat_sub) (simp add: offset_pc_def)
    then show ?thesis using that by (simp add: algebra_simps)
  qed
  have ea: "ea s BAL_X86_RBP (ucast offset_pc) = xs_reg s BAL_X86_RBP + offset_pc" for s
    by (rule ea_rbp) (simp add: offset_pc_def)
  show ?thesis
    by (simp add: store_pc_calls_def write_reg_def write_mem64_def ea cpu_view_set_pc store64_other far)
qed

lemma epilogue_exec:
  assumes "xs_stack t = [a, b, c, d, e] @ st"
  shows "\<exists>t'. x86_exec (epilogue_body pc) t = Some t' \<and> xs_stack t' = st \<and>
    xs_reg t' BAL_X86_R15 = a \<and> xs_reg t' BAL_X86_R14 = b \<and> xs_reg t' BAL_X86_R13 = c \<and>
    xs_reg t' BAL_X86_R12 = d \<and> xs_reg t' BAL_X86_RBP = e \<and> xs_reg t' BAL_X86_RBX = xs_reg t BAL_X86_RBX \<and>
    cpu_view (xs_mem t') (xs_reg t BAL_X86_RBP) = (case pc of None \<Rightarrow> cpu_view (xs_mem t) (xs_reg t BAL_X86_RBP)
      | Some v \<Rightarrow> (cpu_view (xs_mem t) (xs_reg t BAL_X86_RBP))\<lparr>gs_pc := v\<rparr>) \<and>
    (\<forall>p. 288 \<le> unat (p - xs_reg t BAL_X86_RBP) \<longrightarrow> xs_mem t' p = xs_mem t p)"
proof (cases pc)
  case None
  with assms show ?thesis
    by (simp add: epilogue_body_def epilogue_calls_def restore_and_return_def write_reg_def)
next
  case (Some v)
  from store_pc_exec [of v t] obtain u where
    u: "x86_exec (map x86_instr_of (store_pc_calls v)) t = Some u" "xs_stack u = xs_stack t"
      "\<forall>q. q \<noteq> BAL_X86_RAX \<longrightarrow> xs_reg u q = xs_reg t q"
      "cpu_view (xs_mem u) (xs_reg t BAL_X86_RBP) = (cpu_view (xs_mem t) (xs_reg t BAL_X86_RBP))\<lparr>gs_pc := v\<rparr>"
      "\<forall>p. 288 \<le> unat (p - xs_reg t BAL_X86_RBP) \<longrightarrow> xs_mem u p = xs_mem t p" by blast
  have "epilogue_body pc = map x86_instr_of (store_pc_calls v) @ map x86_instr_of (butlast restore_and_return)"
    by (simp add: Some epilogue_body_def epilogue_calls_def butlast_append restore_and_return_def)
  with u assms Some show ?thesis
    by (simp add: x86_exec_append restore_and_return_def write_reg_def)
qed


section \<open>From translation to code\<close>

text \<open>
  \<open>begins a0 c\<close>: the code of \<open>c\<close> is that of \<open>a0\<close> and then the prologue, nothing is queued and
  nothing is cached.
\<close>

definition begins :: "bal_x86_assembler_t \<Rightarrow> bal_tier1_compiler_t \<Rightarrow> bool" where
  "begins a0 c \<longleftrightarrow> tc_sw c \<and> cached c = Map.empty \<and>
     keeps_code a0 (tc_window c, tc_assembler c) (x86_exec (map x86_instr_of block_prologue))"

lemma begins_consistent: "begins a0 c \<Longrightarrow> consistent_but {} c s"
  by (simp add: begins_def consistent_but_def)

lemma begins_view:
  assumes "begins a0 c"
  shows "view c s = cpu_view (xs_mem s) (xs_reg s BAL_X86_RBP)"
  using assms by (intro cpu_view_view [symmetric]) (simp add: begins_def slot_def)

lemma flush_window_eq:
  "tc_wf c \<Longrightarrow> (tc_window (flush_window c), tc_assembler (flush_window c)) =
     bal_sliding_window_flush_all (tc_window c, tc_assembler c)"
  by (simp add: flush_window_def case_prod_unfold Let_def)

lemma flush_window_fields [simp]:
  "cached (flush_window c) = cached c" "is_dirty (flush_window c) = is_dirty c"
  "ra_wf (flush_window c) = ra_wf c" "tc_status (flush_window c) = tc_status c"
  by (simp_all add: flush_window_def case_prod_unfold Let_def)

text \<open>The macros of a block, flushed, are code that computes them.\<close>

lemma flushed_wf:
  assumes "begins a0 c0" "emits c0 ms c"
  shows "xa_wf (tc_assembler (flush_window c))"
proof -
  have "sw_wf (bal_sliding_window_flush_all (foldl bal_sliding_window_push (tc_window c0, tc_assembler c0) ms))"
    using assms(1) by (intro flush_all_wf sw.pushes_wf) (simp add: begins_def tc_sw_def)
  then show ?thesis
    using assms(2) by (simp add: flush_window_def case_prod_unfold Let_def emits_def sw_wf_def)
qed

lemma flushed_code:
  assumes "begins a0 c0" "emits c0 ms c" "list_all lowered ms" "tc_ok (flush_window c)"
  shows "\<exists>bs is. xa_code (tc_assembler (flush_window c)) = xa_code a0 @ bs \<and>
    buffer_of (tc_assembler (flush_window c)) = buffer_of a0 \<and> encodes_seq bs is \<and>
    (\<forall>s. x86_exec is s = run_effects macro_exec ms (prologue_state s))"
proof -
  let ?ws = "(tc_window c0, tc_assembler c0)"
  let ?f = "bal_sliding_window_flush_all (foldl bal_sliding_window_push ?ws ms)"
  have wf: "sw_wf ?ws" using assms(1) by (simp add: begins_def tc_sw_def)
  have f: "(tc_window (flush_window c), tc_assembler (flush_window c)) = ?f"
    using assms(2) by (simp add: flush_window_def case_prod_unfold Let_def emits_def)
  have wf': "sw_wf (foldl bal_sliding_window_push ?ws ms)" by (rule sw.pushes_wf [OF wf])
  have "keeps_code a0 ?f (\<lambda>s. Option.bind (x86_exec (map x86_instr_of block_prologue) s) (run_effects macro_exec ms))"
    using assms wf by (intro kept.program_denotes) (simp_all add: begins_def list_all_iff tc_ok_def f)
  moreover have "pending (fst ?f) = []"
    using wf' by (simp add: pending_def bal_sliding_window_flush_all_def sw_wf_def case_prod_unfold Let_def)
  ultimately obtain "is" where
    "take (length (xa_code a0)) (xa_code (tc_assembler (flush_window c))) = xa_code a0"
    "encodes_seq (drop (length (xa_code a0)) (xa_code (tc_assembler (flush_window c)))) is"
    "\<forall>s. x86_exec is s = run_effects macro_exec ms (prologue_state s)"
    "buffer_of (tc_assembler (flush_window c)) = buffer_of a0"
    by (auto simp: keeps_code_def sw_denotes_def f [symmetric] prologue_exec)
  then show ?thesis by (metis append_take_drop_id)
qed

lemma jit_frame_prologue:
  assumes "jit_frame (prologue_state s) t"
  shows "xs_stack t = [xs_reg s BAL_X86_R15, xs_reg s BAL_X86_R14, xs_reg s BAL_X86_R13,
      xs_reg s BAL_X86_R12, xs_reg s BAL_X86_RBP] @ xs_stack s"
    "xs_reg t BAL_X86_RBP = xs_reg s BAL_X86_ABI_ARG1" "xs_reg t BAL_X86_RBX = xs_reg s BAL_X86_RBX"
    "288 \<le> unat (p - xs_reg s BAL_X86_ABI_ARG1) \<Longrightarrow> xs_mem t p = xs_mem s p"
  using assms by (auto simp: jit_frame_def prologue_state_def SCRATCH_REGISTERS_def)

lemma flushed_block_computes:
  assumes begins: "begins a0 c0" and comp: "compiles c0 c F"
    and ok: "tc_ok (emit_calls (flush_window (flush_dirty_registers c)) (epilogue_calls pc))"
  shows "block_computes (xa_code (tc_assembler (emit_calls (flush_window (flush_dirty_registers c)) (epilogue_calls pc))))
      (length (xa_code a0)) (\<lambda>g. case pc of None \<Rightarrow> F g | Some v \<Rightarrow> (F g)\<lparr>gs_pc := v\<rparr>)"
    "take (length (xa_code a0)) (xa_code (tc_assembler (emit_calls (flush_window (flush_dirty_registers c)) (epilogue_calls pc)))) = xa_code a0"
    "buffer_of (tc_assembler (emit_calls (flush_window (flush_dirty_registers c)) (epilogue_calls pc))) = buffer_of a0"
proof -
  let ?d = "flush_dirty_registers c" and ?tail = "epilogue_calls pc"
  let ?c = "emit_calls (flush_window ?d) ?tail"
  let ?stores = "map (\<lambda>r. store_register_macro (reg_of_int (tc_arm_to_x86 c ! r)) r) (filter (is_dirty c) [0..<32])"
  from comp obtain ms where ms: "emits c0 ms c" "list_all lowered ms" "ra_wf c"
    and run: "\<And>s. consistent_but {} c0 s \<Longrightarrow> \<exists>s'. run_effects macro_exec ms s = Some s' \<and>
        consistent_but {} c s' \<and> view c s' = F (view c0 s) \<and> jit_frame s s'"
    unfolding compiles_def by blast
  have em: "emits c0 (ms @ ?stores) ?d" unfolding flush_dirty_eq by (rule emits_trans [OF ms(1) emits_macros])
  have low: "list_all lowered (ms @ ?stores)" using ms(2) by (auto simp: list_all_iff)
  have wfd: "xa_wf (tc_assembler (flush_window ?d))"
    by (rule flushed_wf [OF begins em])
  have okd: "tc_ok (flush_window ?d)"
    using ok x86_buffer.run_ok [OF wfd, of ?tail] by (simp add: tc_ok_def sw_ok_def)
  from flushed_code [OF begins em low okd] obtain as "is" where
    buf: "buffer_of (tc_assembler (flush_window ?d)) = buffer_of a0" and
    code: "xa_code (tc_assembler (flush_window ?d)) = xa_code a0 @ as" "encodes_seq as is"
      "\<And>s. x86_exec is s = run_effects macro_exec (ms @ ?stores) (prologue_state s)" by blast
  from ok x86_calls_encode [OF wfd, of ?tail] obtain bs where
    bs: "xa_code (tc_assembler ?c) = xa_code (tc_assembler (flush_window ?d)) @ bs"
      "encodes_seq bs (epilogue_body pc @ [X_ret])"
    by (auto simp: tc_ok_def sw_ok_def epilogue_instrs)
  have seq: "encodes_seq (as @ bs) ((is @ epilogue_body pc) @ [X_ret])"
    using encodes_seq_append [OF code(2) bs(2)] by simp
  have split: "xa_code (tc_assembler ?c) @ post = xa_code a0 @ (as @ bs) @ post" for post
    by (simp only: bs(1) code(1) append_assoc)
  then show "take (length (xa_code a0)) (xa_code (tc_assembler ?c)) = xa_code a0"
    by (simp only: bs(1) code(1) append_assoc) simp
  show "buffer_of (tc_assembler ?c) = buffer_of a0"
    using calls_buffer [OF wfd] buf by simp
  show "block_computes (xa_code (tc_assembler ?c)) (length (xa_code a0))
      (\<lambda>g. case pc of None \<Rightarrow> F g | Some v \<Rightarrow> (F g)\<lparr>gs_pc := v\<rparr>)"
    unfolding block_computes_def
  proof (intro allI impI)
    fix s :: x86_state and ra st assume stack: "xs_stack s = ra # st"
    let ?s0 = "prologue_state s" and ?base = "xs_reg s BAL_X86_ABI_ARG1"
    from run [OF begins_consistent [OF begins], of ?s0] obtain t where
      t: "run_effects macro_exec ms ?s0 = Some t" "consistent_but {} c t" "view c t = F (view c0 ?s0)" "jit_frame ?s0 t"
      by blast
    from flush_dirty_run [OF ms(3) t(2)] obtain u where
      u: "run_effects macro_exec ?stores t = Some u" "jit_frame t u"
        "cpu_view (xs_mem u) (xs_reg u BAL_X86_RBP) = view c t" by blast
    have frame: "jit_frame ?s0 u" using t(4) u(2) by (rule jit_frame_trans)
    note jf = jit_frame_prologue [OF frame]
    from epilogue_exec [OF jf(1), of pc, unfolded jf(2)] obtain v where
      v: "x86_exec (epilogue_body pc) u = Some v" "xs_stack v = ra # st"
        "\<forall>q \<in> set callee_saved. xs_reg v q = xs_reg s q"
        "cpu_view (xs_mem v) ?base = (case pc of None \<Rightarrow> cpu_view (xs_mem u) ?base
          | Some v \<Rightarrow> (cpu_view (xs_mem u) ?base)\<lparr>gs_pc := v\<rparr>)"
        "\<And>p. 288 \<le> unat (p - ?base) \<Longrightarrow> xs_mem v p = xs_mem u p"
      using jf(3) stack by (auto simp: callee_saved_def)
    have "x86_exec (is @ epilogue_body pc) s = Some v"
      using t(1) u(1) v(1) by (simp add: x86_exec_append code(3) run_effects_append)
    from x86_run_block [OF seq this v(2), of "xa_code a0", folded split]
    have "x86_run (length (is @ epilogue_body pc) + 1) (xa_code (tc_assembler ?c) @ post) (int (length (xa_code a0))) s =
        X_returned ra (v\<lparr>xs_stack := st\<rparr>)" for post .
    moreover have "cpu_view (xs_mem u) ?base = F (cpu_view (xs_mem s) ?base)"
    proof -
      have "view c0 ?s0 = cpu_view (xs_mem s) ?base"
        by (simp add: begins_view [OF begins]) (simp add: prologue_state_def)
      then show ?thesis using u(3) t(3) jf(2) by simp
    qed
    ultimately show "\<exists>n s'. (\<forall>post. x86_run n (xa_code (tc_assembler ?c) @ post) (int (length (xa_code a0))) s = X_returned ra s') \<and> xs_stack s' = st \<and>
          (\<forall>q \<in> set callee_saved. xs_reg s' q = xs_reg s q) \<and>
          cpu_view (xs_mem s') ?base = (case pc of None \<Rightarrow> F (cpu_view (xs_mem s) ?base)
             | Some v \<Rightarrow> (F (cpu_view (xs_mem s) ?base))\<lparr>gs_pc := v\<rparr>) \<and>
          (\<forall>p. 288 \<le> unat (p - ?base) \<longrightarrow> xs_mem s' p = xs_mem s p)"
      using v jf(4) by (intro exI [of _ "length (is @ epilogue_body pc) + 1"] exI [of _ "v\<lparr>xs_stack := st\<rparr>"])
        (simp split: option.split)
  qed
qed

end
