(* ===== verification/Block_Translation.thy ===== *)
theory Block_Translation
  imports Block_Code
begin

text \<open>
  The parts of a block: the words of a straight line, the branch that ends it, and the
  epilogue, each with the effect it computes on the guest state.
\<close>

section \<open>Stores to the program counter and the instruction counter\<close>

lemma member_store:
  assumes "off \<in> {offset_pc, offset_instruction_count}"
    and t: "xs_reg t = xs_reg s" "xs_stack t = xs_stack s"
      "xs_mem t = store64 (xs_mem s) (xs_reg s BAL_X86_RBP + off) v"
  shows "writes s BAL_X86_R11 (xs_reg t BAL_X86_R11) t" "jit_frame s t"
    "members t = (flag_byte s offset_flag_n, flag_byte s offset_flag_z, flag_byte s offset_flag_c,
       flag_byte s offset_flag_v,
       if off = offset_pc then v else load64 (xs_mem s) (xs_reg s BAL_X86_RBP + offset_pc),
       if off = offset_pc then load64 (xs_mem s) (xs_reg s BAL_X86_RBP + offset_instruction_count) else v)"
proof -
  let ?base = "xs_reg s BAL_X86_RBP"
  have off: "off = 256 \<or> off = 280" using assms(1) by (auto simp: cpu_offset_defs)
  have regs: "disjoint64 (?base + off) (?base + offset_x r)" if "r < 32" for r
    using that off by (intro disjoint_offsets(2)) (auto simp: unat_offset_x)
  then show "writes s BAL_X86_R11 (xs_reg t BAL_X86_R11) t"
    by (simp add: writes_def t slot_addr_def load64_store64_other)
  have far: "8 \<le> unat (p - (?base + off))" if "288 \<le> unat (p - ?base)" for p
  proof -
    have le: "unat off \<le> 280" using off by auto
    with that have "off \<le> p - ?base" by (simp add: word_le_nat_alt)
    then have "unat ((p - ?base) - off) = unat (p - ?base) - unat off" by (rule unat_sub)
    with le that have "8 \<le> unat ((p - ?base) - off)" by linarith
    moreover have "(p - ?base) - off = p - (?base + off)" by simp
    ultimately show ?thesis by (simp only:)
  qed
  then show "jit_frame s t" by (simp add: jit_frame_def t store64_other)
  have dis: "disjoint64 (?base + 256) (?base + 280)" "disjoint64 (?base + 280) (?base + 256)"
    by (rule disjoint_offsets; simp)+
  have "store64 (xs_mem s) (?base + off) v (?base + k) = xs_mem s (?base + k)"
    if "k \<in> {272, 273, 274, 275}" for k
    using off that by (intro store64_other) auto
  from this [of 272] this [of 273] this [of 274] this [of 275]
  have bytes: "flag_byte t k = flag_byte s k" if "k \<in> {272, 273, 274, 275}" for k
    using that by (auto simp: flag_byte_def t)
  have mem: "load64 (xs_mem t) (?base + k) = (if k = off then v else load64 (xs_mem s) (?base + k))"
    if "k \<in> {256, 280}" for k
    using off that dis by (auto simp: t load64_store64_other)
  show "members t = (flag_byte s offset_flag_n, flag_byte s offset_flag_z,
      flag_byte s offset_flag_c, flag_byte s offset_flag_v,
       if off = offset_pc then v else load64 (xs_mem s) (xs_reg s BAL_X86_RBP + offset_pc),
       if off = offset_pc then load64 (xs_mem s) (xs_reg s BAL_X86_RBP + offset_instruction_count) else v)"
    using off by (elim disjE) (simp_all only: members_def t(1) cpu_offset_defs bytes mem insert_iff simp_thms
        prod.inject, simp_all)
qed

abbreviation icount_macro :: "size_t \<Rightarrow> bal_x86_macro_t" where
  "icount_macro n \<equiv> imm_macro BAL_X86_MACRO_ADD_CPU_ICOUNT BAL_X86_RBP n"

lemma icount_compiles:
  assumes wf: "ra_wf c" and n: "unat n < 2 ^ 31"
  shows "compiles c (push_macro c (icount_macro n)) (\<lambda>g. g\<lparr>gs_icount := gs_icount g + n\<rparr>)"
proof -
  have low: "lowered (icount_macro n)" by (simp add: lowered_def imm_macro_def)
  have "\<exists>t. run_effects macro_exec [icount_macro n] s = Some t \<and>
      writes s BAL_X86_R11 (xs_reg t BAL_X86_R11) t \<and> jit_frame s t \<and>
      members t = members_of ((view c s)\<lparr>gs_icount := gs_icount (view c s) + n\<rparr>)" for s
  proof -
    let ?p = "xs_reg s BAL_X86_RBP + offset_instruction_count"
    have ea: "ea s BAL_X86_RBP (ucast offset_instruction_count) = ?p" by (rule ea_rbp) simp
    define t where "t = write_mem64 ?p (load64 (xs_mem s) ?p + n) (alu_flags Alu_Add (load64 (xs_mem s) ?p) n s)"
    have "macro_exec (icount_macro n) s = Some t"
      by (simp add: macro_exec_def macro_program_def imm_macro_def ea t_def scast_small [OF n] Let_def)
    moreover have "xs_reg t = xs_reg s" "xs_stack t = xs_stack s"
      "xs_mem t = store64 (xs_mem s) ?p (load64 (xs_mem s) ?p + n)"
      by (simp_all add: t_def write_mem64_def alu_flags_def set_flags_def)
    note member_store [OF _ this, simplified]
    ultimately show ?thesis
      by (intro exI [of _ t]) (simp add: members_of_def view_def cpu_offset_defs)
  qed
  then have "compiles c (push_macros c [icount_macro n])
      (\<lambda>g. (g\<lparr>gs_icount := gs_icount g + n\<rparr>)\<lparr>gs_x := gs_x g\<rparr>)"
    using low by (intro compiles_members wf) simp_all
  then show ?thesis by simp
qed

text \<open>The store of a cached register to the program counter.\<close>

lemma store_pc_compiles:
  assumes wf: "ra_wf c" and q: "cached c r = Some q"
  shows "compiles c (push_macro c (store_pc_macro q)) (\<lambda>g. g\<lparr>gs_pc := gs_x g r\<rparr>)"
proof -
  have low: "lowered (store_pc_macro q)" by (simp add: lowered_def store_pc_macro_def)
  have "\<exists>t. run_effects macro_exec [store_pc_macro q] s = Some t \<and>
      writes s BAL_X86_R11 (xs_reg t BAL_X86_R11) t \<and> jit_frame s t \<and>
      members t = members_of ((view c s)\<lparr>gs_pc := gs_x (view c s) r\<rparr>)" for s
  proof -
    let ?p = "xs_reg s BAL_X86_RBP + offset_pc"
    have ea: "ea s BAL_X86_RBP (ucast offset_pc) = ?p" by (rule ea_rbp) simp
    define t where "t = write_mem64 ?p (xs_reg s q) s"
    have "macro_exec (store_pc_macro q) s = Some t"
      by (simp add: macro_exec_def macro_program_def store_pc_macro_def ea t_def Let_def)
    moreover have "xs_reg t = xs_reg s" "xs_stack t = xs_stack s"
      "xs_mem t = store64 (xs_mem s) ?p (xs_reg s q)"
      by (simp_all add: t_def write_mem64_def)
    note member_store [OF _ this, simplified]
    ultimately show ?thesis
      using view_cached [OF q, of s] by (intro exI [of _ t]) (simp add: members_of_def view_def)
  qed
  then have "compiles c (push_macros c [store_pc_macro q])
      (\<lambda>g. (g\<lparr>gs_pc := gs_x g r\<rparr>)\<lparr>gs_x := gs_x g\<rparr>)"
    using low by (intro compiles_members wf) simp_all
  then show ?thesis by simp
qed

section \<open>Straight-line code\<close>

text \<open>
  \<open>supported tables w ins\<close>: the decoder knows the word as one of the data processing entries,
  and the architecture knows it as \<open>ins\<close>, whose operands the compiler reads the same way.
\<close>

definition supported :: "decoder_tables \<Rightarrow> u32 \<Rightarrow> arm_instr \<Rightarrow> bool" where
  "supported tables w ins = (case bal_decode_arm64 tables w of None \<Rightarrow> False
     | Some m \<Rightarrow> m \<in> set data_processing_metadata \<and> arm_decode w = Some ins \<and> operands_agree ins)"

primrec host_holds :: "(u64 \<Rightarrow> u32) \<Rightarrow> u64 \<Rightarrow> u32 list \<Rightarrow> bool" where
  "host_holds host cursor [] = True"
| "host_holds host cursor (w # ws) = (host cursor = w \<and> host_holds host (cursor + 4) ws)"

lemma host_holds_append:
  "host_holds host cursor (vs @ ws) =
     (host_holds host cursor vs \<and> host_holds host (cursor + 4 * of_nat (length vs)) ws)"
  by (induction vs arbitrary: cursor) (simp_all add: distrib_left add.assoc)

text \<open>One word, and the state after it.\<close>

definition advanced ::
  "nat set \<Rightarrow> nat \<Rightarrow> translate_state \<Rightarrow> nat \<Rightarrow> arm_instr list \<Rightarrow> translate_state \<Rightarrow> bool" where
  "advanced D n s k is s' \<longleftrightarrow> ts_count s' = ts_count s + of_nat k \<and>
     ts_guest_address s' = ts_guest_address s + 4 * of_nat k \<and>
     ts_is_block_terminated s' = ts_is_block_terminated s \<and> ts_is_pc_dynamic s' = ts_is_pc_dynamic s \<and>
     budget D n (ts_compiler s') \<and> compiles (ts_compiler s) (ts_compiler s') (arm_exec is)"

lemma decode_Some_matches: "bal_decode_arm64 tables w = Some m \<Longrightarrow> matches m w"
  by (auto simp: bal_decode_arm64_def Let_def matches_def dest: decode_candidates_Some)

lemma data_processing_not_trapped: "m \<in> set data_processing_metadata \<Longrightarrow> \<not> trapped flags m"
  by (auto simp: data_processing_metadata_def trapped_def name_starts_def metadata_defs)

lemma translate_one_supported:
  assumes sup: "supported tables w ins" and regs: "guest_registers ins \<subseteq> D"
    and b: "budget D (MACROS_PER_INSTRUCTION + n) (ts_compiler s)"
    and i: "i + 1 \<noteq> max_instructions" and go: "\<not> ts_is_block_terminated s"
  shows "\<exists>s'. translate_one tables flags max_instructions debug i w s = (s', True) \<and> advanced D n s 1 [ins] s'"
proof -
  from sup obtain m where m: "bal_decode_arm64 tables w = Some m" "m \<in> set data_processing_metadata"
      "arm_decode w = Some ins" "operands_agree ins" by (auto simp: supported_def split: option.splits)
  from translate_data_processing [OF m(2) decode_Some_matches [OF m(1)] m(3,4) regs b]
  obtain c' where c': "translate_opcode s m w = s\<lparr>ts_compiler := c'\<rparr>" "budget D n c'"
      "compiles (ts_compiler s) c' (arm_step ins)" by (auto simp: translated_def)
  have exec: "arm_exec [ins] = arm_step ins" by (rule ext) simp
  note ok = budgetD(5,6) [OF c'(2)]
  show ?thesis
    using m(1) data_processing_not_trapped [OF m(2), of flags] c' ok i go
    by (auto simp: translate_one_def Let_def advanced_def exec split: option.split)
qed

lemma advanced_trans:
  assumes "advanced D k s a is s1" "advanced D n s1 b js s2"
  shows "advanced D n s (a + b) (is @ js) s2"
proof -
  have "arm_exec (is @ js) = (\<lambda>g. arm_exec js (arm_exec is g))"
    by (rule ext, induction "is") simp_all
  with assms show ?thesis
    by (simp add: advanced_def distrib_left) (blast intro: compiles_trans)
qed

lemma advanced_refl: "budget D n (ts_compiler s) \<Longrightarrow> advanced D n s 0 [] s"
proof -
  assume b: "budget D n (ts_compiler s)"
  have "arm_exec [] = (\<lambda>g. g)" by (rule ext) simp
  with compiles_refl [OF budgetD(4) [OF b]] b show ?thesis by (simp add: advanced_def)
qed

text \<open>The words of a straight line, all before the instruction limit.\<close>

lemma translate_words_straight:
  "list_all2 (supported tables) ws is \<Longrightarrow> \<Union> (guest_registers ` set is) \<subseteq> D \<Longrightarrow>
   budget D (MACROS_PER_INSTRUCTION * length ws + n) (ts_compiler s) \<Longrightarrow>
   unat i + length ws < unat max_instructions \<Longrightarrow> \<not> ts_is_block_terminated s \<Longrightarrow>
   host_holds host cursor ws \<Longrightarrow>
   \<exists>s'. translate_words host tables flags max_instructions debug (length ws + m) i cursor s =
       translate_words host tables flags max_instructions debug m (i + of_nat (length ws))
         (cursor + 4 * of_nat (length ws)) s' \<and> advanced D n s (length ws) is s'"
proof (induction ws arbitrary: "is" i cursor s)
  case Nil
  then show ?case by (auto intro: advanced_refl)
next
  case (Cons w ws)
  then obtain ins js where js: "is = ins # js" "supported tables w ins" "list_all2 (supported tables) ws js"
    by (auto simp: list_all2_Cons1)
  have "unat i + 1 < 2 ^ 64" using Cons.prems(4) length_bound_size_t [of max_instructions] by simp
  then have i: "unat (i + 1) = unat i + 1" using unat_add_of_nat [of i 1] by simp
  then have ne: "i + 1 \<noteq> max_instructions" using Cons.prems(4) by auto
  have b: "budget D (MACROS_PER_INSTRUCTION + (MACROS_PER_INSTRUCTION * length ws + n)) (ts_compiler s)"
    using Cons.prems(3) by (simp add: algebra_simps)
  have D: "guest_registers ins \<subseteq> D" "\<Union> (guest_registers ` set js) \<subseteq> D"
    using Cons.prems(2) js(1) by auto
  from translate_one_supported [OF js(2) D(1) b ne Cons.prems(5)] obtain s1 where
    s1: "translate_one tables flags max_instructions debug i w s = (s1, True)"
      "advanced D (MACROS_PER_INSTRUCTION * length ws + n) s 1 [ins] s1" by blast
  have "budget D (MACROS_PER_INSTRUCTION * length ws + n) (ts_compiler s1)" "\<not> ts_is_block_terminated s1"
    using s1(2) Cons.prems(5) by (simp_all add: advanced_def)
  from Cons.IH [OF js(3) D(2) this(1) _ this(2), of "i + 1" "cursor + 4"] Cons.prems(4,6) i obtain s2 where
    s2: "translate_words host tables flags max_instructions debug (length ws + m) (i + 1) (cursor + 4) s1 =
        translate_words host tables flags max_instructions debug m (i + 1 + of_nat (length ws))
          (cursor + 4 + 4 * of_nat (length ws)) s2" "advanced D n s1 (length ws) js s2" by auto
  from advanced_trans [OF s1(2) s2(2)] s1(1) s2(1) Cons.prems(6) js(1) show ?case
    by (intro exI [of _ s2]) (simp add: algebra_simps)
qed

section \<open>The last instruction\<close>

text \<open>
  The branches that end a block: a return through a register and an unconditional branch,
  whose offset is the signed 26 bit field in words.
\<close>

datatype arm_branch = A_ret nat | A_b u64

definition arm_decode_branch :: "u32 \<Rightarrow> arm_branch option" where
  "arm_decode_branch w =
    (if w AND 0xFFFFFC1F = 0xD65F0000 then Some (A_ret (field w 5 5))
     else if w AND 0xFC000000 = 0x14000000 then
       Some (A_b (4 * word_of_int (signed_take_bit 25 (uint w))))
     else None)"

primrec arm_target :: "arm_branch \<Rightarrow> u64 \<Rightarrow> guest_state \<Rightarrow> u64" where
  "arm_target (A_ret rn) pc g = read_zr g rn"
| "arm_target (A_b off) pc g = pc + off"

primrec branch_registers :: "arm_branch \<Rightarrow> nat set" where
  "branch_registers (A_ret rn) = {rn}"
| "branch_registers (A_b off) = {}"

definition supported_branch :: "decoder_tables \<Rightarrow> u32 \<Rightarrow> arm_branch \<Rightarrow> bool" where
  "supported_branch tables w e = (case bal_decode_arm64 tables w of None \<Rightarrow> False
     | Some m \<Rightarrow> m \<in> {metadata_ret, metadata_b} \<and> arm_decode_branch w = Some e \<and> 31 \<notin> branch_registers e)"

lemma sign_extend_field_sint:
  assumes "0 < n" "n \<le> 32"
  shows "sign_extend_field (take_bit n w) n = signed_take_bit (n - 1) w"
proof (rule bit_word_eqI)
  fix k assume "k < LENGTH(32)"
  with assms show "bit (sign_extend_field (take_bit n w) n) k = bit (signed_take_bit (n - 1) w) k"
    by (cases "k = n - 1")
      (auto simp: sign_extend_field_def Let_def bit_simps bit_signed_drop_bit_iff min_def)
qed

lemma translate_jump_b:
  "translate_jump metadata_b w pc = pc + 4 * word_of_int (signed_take_bit 25 (uint w))"
proof -
  have imm: "operand32 metadata_b w 0 = take_bit 26 w"
    by (simp add: operand32_def extract_operand_value_def metadata_b_def table_entry_def imm_field_def
        take_bit_eq_mask mask_eq_exp_minus_1)
  have "scast (signed_take_bit 25 w :: u32) = (word_of_int (signed_take_bit 25 (uint w)) :: u64)"
  proof (rule bit_word_eqI)
    fix k assume "k < LENGTH(64)"
    then show "bit (scast (signed_take_bit 25 w :: u32) :: u64) k =
        bit (word_of_int (signed_take_bit 25 (uint w)) :: u64) k"
      by (auto simp: bit_simps min_def)
  qed
  moreover have "do_bit_width (dm_operands metadata_b ! 0) = 26"
    by (simp add: metadata_b_def table_entry_def imm_field_def)
  ultimately show ?thesis
    using sign_extend_field_sint [of 26 w]
    by (simp add: translate_jump_def imm branch_offset_def Let_def mult.commute)
qed

lemma decode_branch_word:
  "matches metadata_ret w \<Longrightarrow> arm_decode_branch w = Some (A_ret (field w 5 5))"
  "matches metadata_b w \<Longrightarrow> arm_decode_branch w = Some (A_b (4 * word_of_int (signed_take_bit 25 (uint w))))"
proof -
  show "matches metadata_ret w \<Longrightarrow> arm_decode_branch w = Some (A_ret (field w 5 5))"
    by (simp add: matches_def metadata_ret_def table_entry_def arm_decode_branch_def)
  assume "matches metadata_b w"
  then have b: "w AND 0xFC000000 = 0x14000000" by (simp add: matches_def metadata_b_def table_entry_def)
  have "bit (0xFC000000 :: u32) 31" "\<not> bit (0x14000000 :: u32) 31" "bit (0xFFFFFC1F :: u32) 31"
    "bit (0xD65F0000 :: u32) 31" by (simp_all add: bit_numeral_rec)
  then have "w AND 0xFFFFFC1F \<noteq> 0xD65F0000"
    using masked_bit [OF b] masked_bit [where w = w and M = "0xFFFFFC1F" and E = "0xD65F0000"] by blast
  with b show "arm_decode_branch w = Some (A_b (4 * word_of_int (signed_take_bit 25 (uint w))))"
    by (simp add: arm_decode_branch_def)
qed

text \<open>The state the translation of a block ends in, before its epilogue.\<close>

definition finished ::
  "nat set \<Rightarrow> nat \<Rightarrow> translate_state \<Rightarrow> arm_branch \<Rightarrow> translate_state \<Rightarrow> bool" where
  "finished D n s e s' \<longleftrightarrow> ts_is_block_terminated s' \<and> ts_count s' = ts_count s + 1 \<and>
     budget D n (ts_compiler s') \<and>
     (case e of
        A_ret rn \<Rightarrow> ts_is_pc_dynamic s' \<and>
          compiles (ts_compiler s) (ts_compiler s') (\<lambda>g. g\<lparr>gs_pc := gs_x g rn\<rparr>)
      | A_b off \<Rightarrow> ts_is_pc_dynamic s' = ts_is_pc_dynamic s \<and> ts_compiler s' = ts_compiler s \<and>
          ts_guest_address s' = ts_guest_address s + off)"

lemma translate_opcode_branch:
  assumes sup: "bal_decode_arm64 tables w = Some m" "m \<in> {metadata_ret, metadata_b}"
      "arm_decode_branch w = Some e"
    and regs: "branch_registers e \<subseteq> D" and b: "budget D (Suc (Suc n)) (ts_compiler s)"
  shows "finished D n s e ((translate_opcode s m w)\<lparr>ts_count := ts_count s + 1\<rparr>) "
proof (cases "m = metadata_b")
  case True
  then have "e = A_b (4 * word_of_int (signed_take_bit 25 (uint w)))"
    using sup decode_branch_word(2) decode_Some_matches [OF sup(1)] by simp
  moreover have "budget D n (ts_compiler s)" using b by (rule budget_mono) simp
  moreover have "dm_ir_opcode metadata_b = OPCODE_JUMP" by (simp add: metadata_b_def table_entry_def)
  ultimately show ?thesis
    by (simp add: True finished_def translate_opcode_def Let_def translate_jump_b)
next
  case False
  with sup have m: "m = metadata_ret" "e = A_ret (field w 5 5)"
    using decode_branch_word(1) decode_Some_matches [OF sup(1)] by auto
  have "operand32 metadata_ret w 0 = take_bit 5 (drop_bit 5 w)"
    by (simp add: operand32_def extract_operand_value_def metadata_ret_def table_entry_def reg64_def
        take_bit_eq_mask mask_eq_exp_minus_1)
  then have rn: "unat (operand8 metadata_ret w 0) = field w 5 5"
    by (simp add: operand8_def field_def unsigned_ucast_eq unsigned_take_bit_eq)
  obtain q c1 where alloc: "allocate_x86_register (ts_compiler s) (operand8 metadata_ret w 0) False = (q, c1)"
    by (cases "allocate_x86_register (ts_compiler s) (operand8 metadata_ret w 0) False")
  note c = budgetD [OF b]
  have arm: "unat (operand8 metadata_ret w 0) \<in> D" "unat (operand8 metadata_ret w 0) < 32"
    using regs by (simp_all add: rn m)
  note a = budget_allocate [OF b arm alloc]
  have st: "tc_status c1 = BAL_SUCCESS" using a(1) by (rule budgetD(6))
  from compiles_trans [OF allocate_load(1) [OF c(4) alloc st c(5)]
      store_pc_compiles [OF budgetD(4) [OF a(1)] a(3)]]
  have comp: "compiles (ts_compiler s) (push_macro c1 (store_pc_macro q)) (\<lambda>g. g\<lparr>gs_pc := gs_x g (field w 5 5)\<rparr>)"
    by (simp add: rn)
  have "budget D n (push_macro c1 (store_pc_macro q))"
    using small_pool_valid [OF a(4)] by (intro budget_push [OF a(1)]) (simp add: macros_valid)
  moreover have "dm_ir_opcode metadata_ret = OPCODE_RETURN" by (simp add: metadata_ret_def table_entry_def)
  ultimately show ?thesis
    using comp by (simp add: m finished_def translate_opcode_def Let_def alloc ends_block_def)
qed

lemma translate_words_branch:
  assumes sup: "supported_branch tables w e" and regs: "branch_registers e \<subseteq> D"
    and b: "budget D (Suc (Suc n)) (ts_compiler s)" and host: "host cursor = w"
  shows "\<exists>s'. translate_words host tables flags max_instructions debug (Suc m) i cursor s = s' \<and> finished D n s e s'"
proof -
  from sup obtain md where m: "bal_decode_arm64 tables w = Some md" "md \<in> {metadata_ret, metadata_b}"
      "arm_decode_branch w = Some e" by (auto simp: supported_branch_def split: option.splits)
  have trap: "\<not> trapped flags md"
    using m(2) by (auto simp: trapped_def name_starts_def metadata_ret_def metadata_b_def table_entry_def)
  let ?s = "translate_opcode s md w"
  note fin = translate_opcode_branch [OF m regs b]
  have ok: "tc_status (ts_compiler ?s) = BAL_SUCCESS" "xa_status (tc_assembler (ts_compiler ?s)) = BAL_SUCCESS"
    using fin budgetD(5,6) by (auto simp: finished_def)
  have cnt: "ts_count ?s = ts_count s" by (simp add: translate_opcode_def Let_def ends_block_def split: bal_opcode_t.split prod.split)
  have stop: "ts_is_block_terminated ?s" using fin by (simp add: finished_def)
  have cong: "finished D n s e s'" if "ts_compiler s' = ts_compiler ?s" "ts_count s' = ts_count s + 1"
    "ts_is_block_terminated s'" "ts_is_pc_dynamic s' = ts_is_pc_dynamic ?s"
    "ts_guest_address s' = ts_guest_address ?s" for s'
    using fin that by (cases e) (auto simp: finished_def)
  show ?thesis
    using host m(1) trap ok cnt stop
    by (auto simp: translate_one_def Let_def split: option.split intro!: cong)
qed

section \<open>The end of a block\<close>

text \<open>A compiler between two blocks, with room for \<open>n\<close> more bytes of code.\<close>

definition ready :: "nat \<Rightarrow> bal_tier1_compiler_t \<Rightarrow> bool" where
  "ready n c \<longleftrightarrow> tc_status c = BAL_SUCCESS \<and> sw_wf (tc_window c, tc_assembler c) \<and>
     sw_count (tc_window c) = 0 \<and> xa_room n (tc_assembler c)"

definition code_of :: "bal_tier1_compiler_t \<Rightarrow> u8 list" where
  "code_of c = xa_code (tc_assembler c)"


definition arm_block ::
  "u32 \<Rightarrow> size_t \<Rightarrow> u64 option \<Rightarrow> guest_state \<Rightarrow> guest_state" where
  "arm_block flags num pc g =
    (let g = (if flag_set flags BAL_ENGINE_FLAG_INSTRUCTION_COUNTING
              then g\<lparr>gs_icount := gs_icount g + num\<rparr> else g)
     in case pc of None \<Rightarrow> g | Some v \<Rightarrow> g\<lparr>gs_pc := v\<rparr>)"

lemma terminate_block_eq:
  "terminate_block c pc dyn num flags =
     emit_calls (flush_window (flush_dirty_registers
       (if flag_set flags BAL_ENGINE_FLAG_INSTRUCTION_COUNTING then push_macro c (icount_macro num) else c)))
     (epilogue_calls (if dyn then None else Some pc))"
  by (simp add: terminate_block_def Let_def epilogue_calls_def emit_calls_def)

lemma terminate_block_computes:
  assumes begins: "begins a0 c0" and comp: "compiles c0 c F" and num: "unat num < 2 ^ 31"
    and ok: "tc_ok (terminate_block c pc dyn num flags)"
  shows "block_computes (xa_code (tc_assembler (terminate_block c pc dyn num flags))) (length (xa_code a0))
      (\<lambda>g. arm_block flags num (if dyn then None else Some pc) (F g))"
    "take (length (xa_code a0)) (xa_code (tc_assembler (terminate_block c pc dyn num flags))) = xa_code a0"
    "buffer_of (tc_assembler (terminate_block c pc dyn num flags)) = buffer_of a0"
proof -
  let ?c = "if flag_set flags BAL_ENGINE_FLAG_INSTRUCTION_COUNTING then push_macro c (icount_macro num) else c"
  let ?F = "\<lambda>g. if flag_set flags BAL_ENGINE_FLAG_INSTRUCTION_COUNTING
    then (F g)\<lparr>gs_icount := gs_icount (F g) + num\<rparr> else F g"
  have wf: "ra_wf c" using comp by (simp add: compiles_def)
  have "compiles c0 ?c ?F"
    using compiles_trans [OF comp icount_compiles [OF wf num]] comp by simp
  note flushed = flushed_block_computes [OF begins this ok [unfolded terminate_block_eq]]
  show "block_computes (xa_code (tc_assembler (terminate_block c pc dyn num flags))) (length (xa_code a0))
      (\<lambda>g. arm_block flags num (if dyn then None else Some pc) (F g))"
    using flushed(1) unfolding terminate_block_eq by (simp add: arm_block_def Let_def cong: option.case_cong)
  show "take (length (xa_code a0)) (xa_code (tc_assembler (terminate_block c pc dyn num flags))) = xa_code a0"
    "buffer_of (tc_assembler (terminate_block c pc dyn num flags)) = buffer_of a0"
    using flushed(2,3) unfolding terminate_block_eq by simp_all
qed

lemma dirty_macros_valid:
  assumes wf: "ra_wf c"
  shows "list_all macro_valid
    (map (\<lambda>r. store_register_macro (reg_of_int (tc_arm_to_x86 c ! r)) r) (filter (is_dirty c) [0..<32]))"
proof -
  have "is_valid_register (reg_int (reg_of_int (tc_arm_to_x86 c ! r)))" if "is_dirty c r" for r
  proof -
    from wf that obtain q where q: "cached c r = Some q" unfolding ra_wf_def by blast
    then have "reg_of_int (tc_arm_to_x86 c ! r) = q" by (simp add: cached_def split: if_splits)
    with cached_SomeD(1) [OF wf q] show ?thesis by (auto simp: SCRATCH_REGISTERS_def is_valid_register_def)
  qed
  then show ?thesis by (auto simp: list_all_iff macros_valid)
qed

text \<open>With room for 36 more macros the end of the block succeeds.\<close>

lemma flush_dirty_room:
  assumes "budget D (32 + n) c"
  shows "budget D n (flush_dirty_registers c)"
proof -
  let ?ms = "map (\<lambda>r. store_register_macro (reg_of_int (tc_arm_to_x86 c ! r)) r) (filter (is_dirty c) [0..<32])"
  have "length ?ms \<le> 32"
    using length_filter_le [of "is_dirty c" "[0..<32]"] by (simp del: upt_rec_numeral)
  then have "budget D (length ?ms + n) c" using assms by (elim budget_mono) simp
  then show ?thesis
    unfolding flush_dirty_eq by (rule budget_macros) (rule dirty_macros_valid [OF budgetD(4) [OF assms]])
qed

lemma epilogue_size: "(\<Sum>x\<leftarrow>epilogue_calls pc. length (x86_bytes x)) \<le> 39"
  by (cases pc) (simp_all add: epilogue_calls_def restore_and_return_def store_pc_calls_def byte_table_defs)

lemma epilogue_valid: "\<forall>x \<in> set (epilogue_calls pc). x86_valid x"
  by (cases pc) (simp_all add: epilogue_calls_def restore_and_return_def store_pc_calls_def is_valid_register_def)

lemma terminate_block_ok:
  assumes "budget D (36 + n) c"
  shows "ready (MACRO_BYTES * n) (terminate_block c pc dyn num flags)"
proof -
  let ?c = "if flag_set flags BAL_ENGINE_FLAG_INSTRUCTION_COUNTING then push_macro c (icount_macro num) else c"
  have "macro_valid (icount_macro num)" by (intro macros_valid(2)) (simp_all add: is_valid_register_def)
  then have "budget D (32 + (3 + n)) ?c"
    using budget_push [of D "35 + n" c "icount_macro num"] budget_mono [OF assms, of "35 + n"] assms by auto
  then have d: "budget D (3 + n) (flush_dirty_registers ?c)" by (rule flush_dirty_room)
  let ?d = "flush_dirty_registers ?c" and ?calls = "epilogue_calls (if dyn then None else Some pc)"
  have "sw_room (3 + n) (bal_sliding_window_flush_all (tc_window ?d, tc_assembler ?d))"
    using d by (intro flush_all_room) (simp add: budget_def)
  moreover have sw: "sw_wf (tc_window ?d, tc_assembler ?d)" using d by (simp add: budget_def sw_room_def)
  moreover have pair: "(tc_window (flush_window ?d), tc_assembler (flush_window ?d)) =
      bal_sliding_window_flush_all (tc_window ?d, tc_assembler ?d)"
    using budgetD(1) [OF d] by (rule flush_window_eq)
  ultimately have room: "sw_room (3 + n) (tc_window (flush_window ?d), tc_assembler (flush_window ?d))" by simp
  have zero: "sw_count (tc_window (flush_window ?d)) = 0"
    using arg_cong [OF pair, of fst] sw by (simp add: bal_sliding_window_flush_all_def sw_wf_def)
  from room zero have "xa_room (MACRO_BYTES * (3 + n)) (tc_assembler (flush_window ?d))" by (simp add: sw_room_def)
  then have "xa_room ((\<Sum>x\<leftarrow>?calls. length (x86_bytes x)) + MACRO_BYTES * n) (tc_assembler (flush_window ?d))"
    by (rule xa_room_mono) (use epilogue_size [of "if dyn then None else Some pc"] in \<open>simp add: MACRO_BYTES_def\<close>)
  from x86_calls_room [OF this epilogue_valid]
  have x: "xa_room (MACRO_BYTES * n) (foldl x86_emit (tc_assembler (flush_window ?d)) ?calls)" .
  have st: "tc_status ?d = BAL_SUCCESS" using d by (rule budgetD(6))
  show "ready (MACRO_BYTES * n) (terminate_block c pc dyn num flags)"
    using x zero st room unfolding terminate_block_eq
    by (simp add: ready_def xa_room_def sw_room_def sw_wf_def)
qed

lemma ready_ok: "ready n c \<Longrightarrow> tc_ok c \<and> xa_status (tc_assembler c) = BAL_SUCCESS"
  by (simp add: ready_def tc_ok_def sw_ok_def xa_room_def xa_ok_def)

end
