(* ===== verification/Block_Correctness.thy ===== *)
theory Block_Correctness
  imports Block_Translation
begin

text \<open>
  Blocks of supported instructions: translation, from the first word to the return
  instruction at the end of the code, computes the architectural effect of the block.
\<close>

section \<open>Whole blocks\<close>

definition PROLOGUE_BYTES :: nat where
  "PROLOGUE_BYTES = 12"

lemma prologue_size: "(\<Sum>x\<leftarrow>block_prologue. length (x86_bytes x)) = PROLOGUE_BYTES"
  by (simp add: block_prologue_def byte_table_defs BAL_X86_ABI_ARG1_def PROLOGUE_BYTES_def)

lemma prologue_valid: "\<forall>x \<in> set block_prologue. x86_valid x"
  by (simp add: block_prologue_def BAL_X86_ABI_ARG1_def is_valid_register_def)

lemma reset_ra_wf: "ra_wf (reset_register_allocator c)"
  by (simp add: reset_register_allocator_def ra_wf_def is_dirty_def)

lemma ready_begins:
  assumes ready: "ready (PROLOGUE_BYTES + MACRO_BYTES * n) c" and D: "finite D" "card D \<le> 8"
  defines "c0 \<equiv> emit_calls (reset_register_allocator c) block_prologue"
  shows "begins (tc_assembler c) c0" "budget D n c0"
proof -
  have asm: "tc_assembler c0 = foldl x86_emit (tc_assembler c) block_prologue"
    and win: "tc_window c0 = tc_window c" and st: "tc_status c0 = tc_status c"
    by (simp_all add: c0_def reset_register_allocator_def)
  have wf: "xa_wf (tc_assembler c)" using ready by (simp add: ready_def xa_room_def)
  have "xa_room (PROLOGUE_BYTES + MACRO_BYTES * n) (tc_assembler c)" using ready by (simp add: ready_def)
  then have room: "xa_room (MACRO_BYTES * n) (tc_assembler c0)"
    using x86_calls_room [OF _ prologue_valid] by (simp add: asm prologue_size)
  then have ok: "xa_ok (tc_assembler c0)" and wf0: "xa_wf (tc_assembler c0)" by (simp_all add: xa_room_def)
  from x86_calls_encode [OF wf, of block_prologue] ok obtain bs where
    bs: "xa_code (tc_assembler c0) = xa_code (tc_assembler c) @ bs"
      "encodes_seq bs (map x86_instr_of block_prologue)" by (auto simp: asm)
  have buf: "buffer_of (tc_assembler c0) = buffer_of (tc_assembler c)"
    using calls_buffer [OF wf] by (simp add: asm)
  have sw: "sw_wf (tc_window c0, tc_assembler c0)"
    using ready wf0 by (simp add: ready_def sw_wf_def win)
  have none: "pending (tc_window c0) = []" using ready by (simp add: pending_def win ready_def)
  have cach: "cached c0 = Map.empty"
    by (simp add: c0_def reset_register_allocator_def cached_def fun_eq_iff)
  have "keeps_code (tc_assembler c) (tc_window c0, tc_assembler c0) (x86_exec (map x86_instr_of block_prologue))"
    using bs buf by (auto simp: keeps_code_def sw_denotes_def none code_of_def
        intro!: exI [of _ "map x86_instr_of block_prologue"])
  with sw cach show "begins (tc_assembler c) c0" by (simp add: begins_def tc_sw_def)
  have "ra_wf c0" by (simp add: c0_def reset_ra_wf)
  moreover have "fits D c0" using D by (simp add: fits_def cach)
  ultimately show "budget D n c0"
    using sw none room ready by (simp add: budget_def sw_room_def st ready_def win)
qed

text \<open>What a block does to the guest state.\<close>

definition arm_run_block ::
  "u32 \<Rightarrow> u64 \<Rightarrow> arm_instr list \<Rightarrow> arm_branch \<Rightarrow> guest_state \<Rightarrow> guest_state" where
  "arm_run_block flags pc is e g =
    (let g = arm_exec is g
     in g\<lparr>gs_pc := arm_target e (pc + 4 * of_nat (length is)) g,
          gs_icount := gs_icount g + (if flag_set flags BAL_ENGINE_FLAG_INSTRUCTION_COUNTING
            then of_nat (length is) + 1 else 0)\<rparr>)"

text \<open>The last word of a block, whatever it is: if it ends the block the loop ends there.\<close>

lemma translate_loop_last:
  assumes sup: "list_all2 (supported tables) ws is" and regs: "\<Union> (guest_registers ` set is) \<subseteq> D"
    and b: "budget D (MACROS_PER_INSTRUCTION * length ws + n) (ts_compiler s)"
    and trans: "translate (ts_guest_address s) = (base, bytes)" "base \<noteq> 0" "4 * (length ws + 1) \<le> unat bytes"
    and limit: "length ws < unat max_instructions" and host: "host_holds host base (ws @ [w])"
    and align: "flag_set flags BAL_ENGINE_FLAG_STRICT_ALIGNMENT \<Longrightarrow> ts_guest_address s mod 4 = 0"
    and go: "\<not> ts_is_block_terminated s"
    and last: "\<And>s1 m cursor. advanced D n s (length ws) is s1 \<Longrightarrow> host cursor = w \<Longrightarrow>
      \<exists>s2. translate_words host tables flags max_instructions debug (Suc m) (of_nat (length ws)) cursor s1 = s2 \<and>
        ts_is_block_terminated s2 \<and> Q s1 s2"
  shows "\<exists>s1 s2. translate_loop host translate tables flags max_instructions debug s = Some s2 \<and>
    advanced D n s (length ws) is s1 \<and> Q s1 s2"
proof -
  let ?r = "bytes div 4"
  have r: "unat ?r = unat bytes div 4" by (simp add: unat_div)
  with trans(3) have r': "length ws < unat ?r" by simp
  then have nz: "?r \<noteq> 0" by (cases "?r = 0") simp_all
  define k where "k = unat (if max_instructions < ?r then max_instructions else ?r)"
  have "length ws < k" using r' limit by (simp add: k_def)
  then obtain m where k: "k = length ws + Suc m" using less_iff_Suc_add by auto
  have hosts: "host_holds host base ws" "host (base + 4 * of_nat (length ws)) = w"
    using host by (simp_all add: host_holds_append)
  have "unat (0 :: size_t) + length ws < unat max_instructions" using limit by simp
  from translate_words_straight [OF sup regs b this go hosts(1), of flags debug "Suc m"] obtain s1 where
    s1: "translate_words host tables flags max_instructions debug (length ws + Suc m) 0 base s =
        translate_words host tables flags max_instructions debug (Suc m) (0 + of_nat (length ws))
          (base + 4 * of_nat (length ws)) s1" "advanced D n s (length ws) is s1" by blast
  from last [OF s1(2) hosts(2), of m] obtain s2 where
    s2: "translate_words host tables flags max_instructions debug (Suc m) (of_nat (length ws))
          (base + 4 * of_nat (length ws)) s1 = s2" "ts_is_block_terminated s2" "Q s1 s2" by blast
  have words: "translate_words host tables flags max_instructions debug k 0 base s = s2"
    using s1(1) s2(1) by (simp add: k)
  have "translate_chunk host translate tables flags max_instructions debug s = Inr s2"
    using trans(1,2) nz align by (auto simp: translate_chunk_def Let_def words k_def [symmetric])
  then have "translate_loop host translate tables flags max_instructions debug s = Some s2"
    using go s2(2) by (subst translate_loop.simps) (simp add: translate_loop.simps)
  with s1(2) s2(3) show ?thesis by blast
qed

text \<open>The translation loop on a block of supported instructions and a branch.\<close>

lemma translate_loop_block:
  assumes sup: "list_all2 (supported tables) ws is" "supported_branch tables w e"
    and regs: "\<Union> (guest_registers ` set is) \<union> branch_registers e \<subseteq> D"
    and b: "budget D (MACROS_PER_INSTRUCTION * length ws + (2 + n)) (ts_compiler s)"
    and trans: "translate (ts_guest_address s) = (base, bytes)" "base \<noteq> 0" "4 * (length ws + 1) \<le> unat bytes"
    and limit: "length ws < unat max_instructions" and host: "host_holds host base (ws @ [w])"
    and align: "flag_set flags BAL_ENGINE_FLAG_STRICT_ALIGNMENT \<Longrightarrow> ts_guest_address s mod 4 = 0"
    and go: "\<not> ts_is_block_terminated s"
  shows "\<exists>s1 s2. translate_loop host translate tables flags max_instructions debug s = Some s2 \<and>
    advanced D (2 + n) s (length ws) is s1 \<and> finished D n s1 e s2"
proof -
  have "\<exists>s1 s2. translate_loop host translate tables flags max_instructions debug s = Some s2 \<and>
      advanced D (2 + n) s (length ws) is s1 \<and> finished D n s1 e s2"
  proof (rule translate_loop_last [where host = host and translate = translate, OF sup(1) _ b trans limit host align go])
    show "\<Union> (guest_registers ` set is) \<subseteq> D" using regs by simp
    show "\<exists>s2. translate_words host tables flags max_instructions debug (Suc m) (of_nat (length ws)) cursor s1 = s2 \<and>
        ts_is_block_terminated s2 \<and> finished D n s1 e s2"
      if "advanced D (2 + n) s (length ws) is s1" "host cursor = w" for s1 m cursor
    proof -
      have "branch_registers e \<subseteq> D" "budget D (Suc (Suc n)) (ts_compiler s1)"
        using regs that(1) by (simp_all add: advanced_def)
      from translate_words_branch [where host = host, OF sup(2) this that(2)] show ?thesis
        by (auto simp: finished_def)
    qed
  qed
  then show ?thesis .
qed

lemma jit_debug_tail [simp]:
  "tc_assembler (c\<lparr>tc_debug_context := x\<rparr>) = tc_assembler c"
  "ready n (c\<lparr>tc_debug_context := x\<rparr>) = ready n c"
  by (simp_all add: ready_def)

lemma finished_block:
  assumes begins: "begins a0 c0" and s0: "ts_compiler s0 = c0" "ts_guest_address s0 = pc" "ts_count s0 = 0"
      "\<not> ts_is_pc_dynamic s0"
    and adv: "advanced D k s0 (length is) is s1" and fin: "finished D (36 + n) s1 e s2"
    and small: "length is + 1 < 2 ^ 31" and e: "31 \<notin> branch_registers e"
    and t: "t = terminate_block (ts_compiler s2) (ts_guest_address s2) (ts_is_pc_dynamic s2) (ts_count s2) flags"
  shows "block_computes (code_of t) (length (xa_code a0)) (arm_run_block flags pc is e)"
    "take (length (xa_code a0)) (code_of t) = xa_code a0" "buffer_of (tc_assembler t) = buffer_of a0"
    "ready (MACRO_BYTES * n) t"
proof -
  have b2: "budget D (36 + n) (ts_compiler s2)" using fin by (simp add: finished_def)
  show ready: "ready (MACRO_BYTES * n) t" unfolding t by (rule terminate_block_ok [OF b2])
  then have ok: "tc_ok t" by (simp add: ready_ok)
  have cnt: "ts_count s2 = of_nat (length is) + 1"
    using adv fin s0 by (simp add: advanced_def finished_def)
  have c2: "unat (ts_count s2) < 2 ^ 31"
  proof -
    have "ts_count s2 = 0 + of_nat (length is + 1)" by (simp add: cnt)
    moreover have "unat (0 :: size_t) + (length is + 1) < 2 ^ 64" using small by simp
    ultimately show ?thesis using unat_add_of_nat [of 0 "length is + 1"] small by simp
  qed
  have comp1: "compiles c0 (ts_compiler s1) (arm_exec is)" and ga: "ts_guest_address s1 = pc + 4 * of_nat (length is)"
    and dyn: "\<not> ts_is_pc_dynamic s1"
    using adv s0 by (simp_all add: advanced_def)
  have "block_computes (code_of t) (length (xa_code a0)) (arm_run_block flags pc is e) \<and>
      take (length (xa_code a0)) (code_of t) = xa_code a0 \<and> buffer_of (tc_assembler t) = buffer_of a0"
  proof (cases e)
    case (A_ret rn)
    then have d2: "ts_is_pc_dynamic s2"
      and comp2: "compiles (ts_compiler s1) (ts_compiler s2) (\<lambda>g. g\<lparr>gs_pc := gs_x g rn\<rparr>)"
      using fin by (simp_all add: finished_def)
    from e A_ret have rn: "rn \<noteq> 31" by simp
    have "(\<lambda>g. arm_block flags (ts_count s2) None ((arm_exec is g)\<lparr>gs_pc := gs_x (arm_exec is g) rn\<rparr>)) =
        arm_run_block flags pc is e"
      by (rule ext) (simp add: arm_run_block_def arm_block_def Let_def A_ret read_zr_def rn cnt)
    with terminate_block_computes [OF begins compiles_trans [OF comp1 comp2] c2 ok [unfolded t]] d2 show ?thesis
      by (simp add: t code_of_def)
  next
    case (A_b off)
    then have d2: "\<not> ts_is_pc_dynamic s2" and c2': "ts_compiler s2 = ts_compiler s1"
      and g2: "ts_guest_address s2 = ts_guest_address s1 + off"
      using fin dyn by (simp_all add: finished_def)
    have "(\<lambda>g. arm_block flags (ts_count s2) (Some (ts_guest_address s2)) (arm_exec is g)) =
        arm_run_block flags pc is e"
      by (rule ext) (simp add: arm_run_block_def arm_block_def Let_def A_b g2 ga cnt)
    with terminate_block_computes [OF begins comp1 c2 ok [unfolded t c2']] d2 show ?thesis
      by (simp add: t c2' code_of_def)
  qed
  then show "block_computes (code_of t) (length (xa_code a0)) (arm_run_block flags pc is e)"
    "take (length (xa_code a0)) (code_of t) = xa_code a0" "buffer_of (tc_assembler t) = buffer_of a0" by simp_all
qed

text \<open>Bytes that are enough for a block of \<open>n\<close> instructions before its branch.\<close>

definition block_bytes :: "nat \<Rightarrow> nat" where
  "block_bytes n = PROLOGUE_BYTES + MACRO_BYTES * (MACROS_PER_INSTRUCTION * n + 38)"

lemma translate_unfold:
  fixes c :: bal_tier1_compiler_t
  assumes mi: "mi_translate interface = Some translate" and max: "max_instructions \<noteq> 0"
    and loop: "\<And>debug. \<exists>s. translate_loop host (translate (mi_context interface)) tables flags max_instructions debug
      \<lparr>ts_compiler = emit_calls (reset_register_allocator c) block_prologue, ts_guest_address = pc,
       ts_is_block_terminated = False, ts_is_pc_dynamic = False, ts_count = 0, ts_mappings = []\<rparr> = Some s \<and>
      (let t = terminate_block (ts_compiler s) (ts_guest_address s) (ts_is_pc_dynamic s) (ts_count s) flags
       in tc_status t = BAL_SUCCESS \<and> xa_status (tc_assembler t) = BAL_SUCCESS \<and> P t)"
    and P: "\<And>t x. P t \<Longrightarrow> P (t\<lparr>tc_debug_context := x\<rparr>)"
  shows "\<exists>c'. bal_tier1_compiler_translate host tables c (Some interface) pc max_instructions flags =
      Some (xa_rx_buffer (tc_assembler c) + xa_offset (tc_assembler c), c') \<and> P c'"
proof -
  let ?c = "reset_register_allocator c"
  have asm: "tc_assembler ?c = tc_assembler c" by (simp add: reset_register_allocator_def)
  define debug where "debug = (if debug_enabled ?c flags then Some (xa_offset (tc_assembler ?c), pc) else None)"
  from loop [of debug] obtain s where s: "translate_loop host (translate (mi_context interface)) tables flags max_instructions debug
      \<lparr>ts_compiler = emit_calls ?c block_prologue, ts_guest_address = pc,
       ts_is_block_terminated = False, ts_is_pc_dynamic = False, ts_count = 0, ts_mappings = []\<rparr> = Some s"
    and t: "tc_status (terminate_block (ts_compiler s) (ts_guest_address s) (ts_is_pc_dynamic s) (ts_count s) flags) = BAL_SUCCESS"
      "xa_status (tc_assembler (terminate_block (ts_compiler s) (ts_guest_address s) (ts_is_pc_dynamic s) (ts_count s) flags)) = BAL_SUCCESS"
      "P (terminate_block (ts_compiler s) (ts_guest_address s) (ts_is_pc_dynamic s) (ts_count s) flags)"
    by (auto simp: Let_def)
  show ?thesis
    unfolding bal_tier1_compiler_translate_def Let_def debug_def [symmetric]
    using mi max s t P by (simp add: asm)
qed

text \<open>A guest program the compiler supports, in memory at \<open>pc\<close> and readable to its end.\<close>

definition block_in_memory ::
  "(u64 \<Rightarrow> u32) \<Rightarrow> 'c bal_memory_interface_t \<Rightarrow> u64 \<Rightarrow> u32 list \<Rightarrow> bool" where
  "block_in_memory host interface pc ws = (case mi_translate interface of None \<Rightarrow> False
     | Some translate \<Rightarrow> (case translate (mi_context interface) pc of (base, bytes) \<Rightarrow>
         base \<noteq> 0 \<and> 4 * length ws \<le> unat bytes \<and> host_holds host base ws))"

lemma translate_block_correct:
  assumes "ready (block_bytes (length ws) + MACRO_BYTES * k) c"
    and "list_all2 (supported tables) ws is" "supported_branch tables w e"
    and "card (\<Union> (guest_registers ` set is) \<union> branch_registers e) \<le> 8"
    and "block_in_memory host interface pc (ws @ [w])"
    and "length ws < unat max_instructions" "length ws + 1 < 2 ^ 31"
    and "flag_set flags BAL_ENGINE_FLAG_STRICT_ALIGNMENT \<Longrightarrow> pc mod 4 = 0"
  shows "\<exists>c'. bal_tier1_compiler_translate host tables c (Some interface) pc max_instructions flags =
      Some (xa_rx_buffer (tc_assembler c) + xa_offset (tc_assembler c), c') \<and>
    block_computes (code_of c') (length (code_of c)) (arm_run_block flags pc is e) \<and>
    take (length (code_of c)) (code_of c') = code_of c \<and>
    buffer_of (tc_assembler c') = buffer_of (tc_assembler c) \<and> ready (MACRO_BYTES * k) c'"
proof -
  let ?D = "\<Union> (guest_registers ` set is) \<union> branch_registers e"
  let ?c0 = "emit_calls (reset_register_allocator c) block_prologue"
  have "finite (guest_registers i)" for i by (cases i) simp_all
  then have fin: "finite ?D" by (cases e) simp_all
  have "ready (PROLOGUE_BYTES + MACRO_BYTES * (MACROS_PER_INSTRUCTION * length ws + (2 + (36 + k)))) c"
    using assms(1) by (simp add: block_bytes_def algebra_simps)
  note c0 = ready_begins [OF this fin assms(4)]
  from assms(5) obtain translate base bytes where mi: "mi_translate interface = Some translate"
      "translate (mi_context interface) pc = (base, bytes)" "base \<noteq> 0" "4 * (length ws + 1) \<le> unat bytes"
      "host_holds host base (ws @ [w])"
    by (auto simp: block_in_memory_def split: option.splits prod.splits)
  have len: "length ws = length is" using assms(2) by (rule list_all2_lengthD)
  have e: "31 \<notin> branch_registers e" using assms(3) by (auto simp: supported_branch_def split: option.splits)
  let ?P = "\<lambda>t. block_computes (code_of t) (length (code_of c)) (arm_run_block flags pc is e) \<and>
    take (length (code_of c)) (code_of t) = code_of c \<and>
    buffer_of (tc_assembler t) = buffer_of (tc_assembler c) \<and> ready (MACRO_BYTES * k) t"
  show ?thesis
  proof (rule translate_unfold [OF mi(1), where P = ?P])
    show "max_instructions \<noteq> 0" using assms(6) by auto
    show "?P t \<Longrightarrow> ?P (t\<lparr>tc_debug_context := x\<rparr>)" for t x by (simp add: code_of_def)
  next
    fix debug
    let ?s = "\<lparr>ts_compiler = ?c0, ts_guest_address = pc, ts_is_block_terminated = False,
      ts_is_pc_dynamic = False, ts_count = 0, ts_mappings = []\<rparr>"
    have "\<exists>s1 s2. translate_loop host (translate (mi_context interface)) tables flags max_instructions debug ?s = Some s2 \<and>
        advanced ?D (2 + (36 + k)) ?s (length ws) is s1 \<and> finished ?D (36 + k) s1 e s2"
      using c0(2) mi(2-5) assms(6,8)
      by (intro translate_loop_block [OF assms(2,3) subset_refl]) simp_all
    then obtain s1 s2 where s: "translate_loop host (translate (mi_context interface)) tables flags max_instructions debug ?s = Some s2"
        "advanced ?D (2 + (36 + k)) ?s (length is) is s1" "finished ?D (36 + k) s1 e s2"
      unfolding len by blast
    define t where "t = terminate_block (ts_compiler s2) (ts_guest_address s2) (ts_is_pc_dynamic s2) (ts_count s2) flags"
    have "?P t"
      using finished_block [OF c0(1) _ _ _ _ s(2,3) _ e t_def] assms(7) by (simp add: len code_of_def [of c])
    with ready_ok [of "MACRO_BYTES * k" t] s(1) show "\<exists>s. translate_loop host (translate (mi_context interface)) tables flags max_instructions debug ?s = Some s \<and>
        (let t = terminate_block (ts_compiler s) (ts_guest_address s) (ts_is_pc_dynamic s) (ts_count s) flags
         in tc_status t = BAL_SUCCESS \<and> xa_status (tc_assembler t) = BAL_SUCCESS \<and> ?P t)"
      by (intro exI [of _ s2]) (simp add: Let_def t_def ready_def)
  qed
qed

definition sample_tables :: decoder_tables where
  "sample_tables = \<lparr>g_decoder_lookup_table = replicate 2048 \<lparr>db_index = 0, db_count = 3\<rparr>,
     g_decoder_hash_candidates = [metadata_movz64, metadata_add_imm64, metadata_ret]\<rparr>"

definition sample_host :: "u64 \<Rightarrow> u32" where
  "sample_host a = (if a = 0x8000 then 0xD2800540 else if a = 0x8004 then 0x91000401 else 0xD65F03C0)"

definition sample_interface :: "flat_translation_interface_t bal_memory_interface_t" where
  "sample_interface = \<lparr>mi_context = Some \<lparr>ft_host = 0x8000, ft_size = 12, ft_block = 0x100\<rparr>,
     mi_translate = Some bal_flat_translation_interface_translate\<rparr>"

definition sample_compiler :: bal_tier1_compiler_t where
  "sample_compiler = \<lparr>tc_assembler = fresh_assembler 1000, tc_window = fresh_window,
     tc_arm_to_x86 = [], tc_x86_to_arm = [], tc_is_dirty = 0, tc_eviction_cursor = 0,
     tc_debug_context = None, tc_status = BAL_SUCCESS\<rparr>"

lemma sample_decode:
  "bal_decode_arm64 sample_tables 0xD2800540 = Some metadata_movz64"
  "bal_decode_arm64 sample_tables 0x91000401 = Some metadata_add_imm64"
  "bal_decode_arm64 sample_tables 0xD65F03C0 = Some metadata_ret"
  by (simp_all add: bal_decode_arm64_def Let_def sample_tables_def metadata_defs metadata_ret_def
      word_less_nat_alt nth_replicate bucket_index_bound)

end
