(* ===== verification/Block_Cache.thy ===== *)
theory Block_Cache
  imports Bal_Prelude
begin

text \<open>
  The block cache of the engine (\<open>block_cache_lookup\<close> and \<open>block_cache_insert\<close> in
  \<open>src/bal_engine.c\<close>): 4096 sets of four ways, indexed by the program counter, each way a
  guest address and the address of the compiled code (0 for an empty way).
\<close>

section \<open>State and operations\<close>

definition BLOCK_CACHE_SETS :: nat where "BLOCK_CACHE_SETS = 4096"
definition BLOCK_CACHE_WAYS :: nat where "BLOCK_CACHE_WAYS = 4"
definition BLOCK_CACHE_MASK :: u32 where "BLOCK_CACHE_MASK = of_nat BLOCK_CACHE_SETS - 1"

record block_cache_entry_t =
  ce_guest_address :: u64
  ce_host_code :: u64

type_synonym block_cache_set_t = "block_cache_entry_t list"
type_synonym block_cache_t = "block_cache_set_t list"

definition empty_entry :: block_cache_entry_t where
  "empty_entry = \<lparr>ce_guest_address = 0, ce_host_code = 0\<rparr>"

text \<open>All bytes zero, as after \<open>memset\<close>.\<close>

definition empty_cache :: block_cache_t where
  "empty_cache = replicate BLOCK_CACHE_SETS (replicate BLOCK_CACHE_WAYS empty_entry)"

definition set_index :: "u64 \<Rightarrow> nat" where
  "set_index pc = unat (ucast (drop_bit 2 pc) AND BLOCK_CACHE_MASK)"

text \<open>The loop of the lookup over the ways of a set.\<close>

fun lookup_ways :: "block_cache_set_t \<Rightarrow> u64 \<Rightarrow> u64" where
  "lookup_ways [] pc = 0"
| "lookup_ways (e # ways) pc =
    (if ce_guest_address e = pc \<and> ce_host_code e \<noteq> 0 then ce_host_code e
     else lookup_ways ways pc)"

definition block_cache_lookup :: "block_cache_t \<Rightarrow> u64 \<Rightarrow> u64" where
  "block_cache_lookup cache pc = lookup_ways (cache ! set_index pc) pc"

text \<open>The index of the first way a loop of the insertion stops at.\<close>

fun find_way :: "(block_cache_entry_t \<Rightarrow> bool) \<Rightarrow> block_cache_set_t \<Rightarrow> nat option" where
  "find_way p [] = None"
| "find_way p (e # ways) = (if p e then Some 0 else map_option Suc (find_way p ways))"

definition evict_way :: "u64 \<Rightarrow> nat" where
  "evict_way pc = unat (drop_bit 4 pc AND of_nat (BLOCK_CACHE_WAYS - 1))"

definition insert_ways :: "block_cache_set_t \<Rightarrow> u64 \<Rightarrow> u64 \<Rightarrow> block_cache_set_t" where
  "insert_ways ways pc host_code =
    (let entry = \<lparr>ce_guest_address = pc, ce_host_code = host_code\<rparr> in
     case find_way (\<lambda>e. ce_guest_address e = pc) ways of
       Some i \<Rightarrow> ways[i := (ways ! i)\<lparr>ce_host_code := host_code\<rparr>]
     | None \<Rightarrow>
        (case find_way (\<lambda>e. ce_host_code e = 0) ways of
           Some i \<Rightarrow> ways[i := entry]
         | None \<Rightarrow> ways[evict_way pc := entry]))"

definition block_cache_insert :: "block_cache_t \<Rightarrow> u64 \<Rightarrow> u64 \<Rightarrow> block_cache_t" where
  "block_cache_insert cache pc host_code =
     cache[set_index pc := insert_ways (cache ! set_index pc) pc host_code]"

section \<open>The contract of a code cache\<close>

text \<open>
  What the engine relies on: the empty cache finds nothing, an inserted block is found, and
  an insertion may drop another block but never changes what is found for it.
\<close>

locale code_cache =
  fixes empty :: 'cache
    and lookup :: "'cache \<Rightarrow> 'k \<Rightarrow> u64"
    and insert :: "'cache \<Rightarrow> 'k \<Rightarrow> u64 \<Rightarrow> 'cache"
    and wf :: "'cache \<Rightarrow> bool"
  assumes empty_wf: "wf empty"
    and lookup_empty: "lookup empty k = 0"
    and insert_wf: "wf c \<Longrightarrow> v \<noteq> 0 \<Longrightarrow> wf (insert c k v)"
    and lookup_insert: "wf c \<Longrightarrow> v \<noteq> 0 \<Longrightarrow> lookup (insert c k v) k = v"
    and lookup_insert_other: "wf c \<Longrightarrow> v \<noteq> 0 \<Longrightarrow> j \<noteq> k \<Longrightarrow>
      lookup (insert c k v) j = lookup c j \<or> lookup (insert c k v) j = 0"
begin

text \<open>\<open>sound R c\<close>: whatever the cache finds for a key is related to it by \<open>R\<close>.\<close>

definition sound :: "('k \<Rightarrow> u64 \<Rightarrow> bool) \<Rightarrow> 'cache \<Rightarrow> bool" where
  "sound R c \<longleftrightarrow> wf c \<and> (\<forall>k. lookup c k \<noteq> 0 \<longrightarrow> R k (lookup c k))"

lemma sound_empty: "sound R empty"
  by (simp add: sound_def empty_wf lookup_empty)

lemma sound_insert:
  assumes "sound R c" "v \<noteq> 0" "R k v"
  shows "sound R (insert c k v)"
proof -
  have "R j (lookup (insert c k v) j)" if "lookup (insert c k v) j \<noteq> 0" for j
    using assms that lookup_insert [of c v k] lookup_insert_other [of c v j k]
    by (cases "j = k") (auto simp: sound_def)
  with assms show ?thesis by (simp add: sound_def insert_wf)
qed

lemma soundD: "sound R c \<Longrightarrow> lookup c k = v \<Longrightarrow> v \<noteq> 0 \<Longrightarrow> R k v"
  by (auto simp: sound_def)

lemma sound_mono: "sound R c \<Longrightarrow> (\<And>k v. R k v \<Longrightarrow> R' k v) \<Longrightarrow> sound R' c"
  by (auto simp: sound_def)

text \<open>
  Any history of insertions: what is found for a key is the value of the last insertion
  under that key, or nothing.
\<close>

lemma foldl_wf: "wf c \<Longrightarrow> (\<forall>(k, v) \<in> set kvs. v \<noteq> 0) \<Longrightarrow> wf (foldl (\<lambda>c (k, v). insert c k v) c kvs)"
  by (induction kvs arbitrary: c) (auto simp: insert_wf)

lemma history:
  assumes "\<forall>(k, v) \<in> set kvs. v \<noteq> 0"
  shows "lookup (foldl (\<lambda>c (k, v). insert c k v) empty kvs) j \<in>
    {0} \<union> set_option (map_of (rev kvs) j)"
  using assms
proof (induction kvs rule: rev_induct)
  case Nil
  then show ?case by (simp add: lookup_empty)
next
  case (snoc kv kvs)
  obtain k v where kv: "kv = (k, v)" by (cases kv)
  let ?c = "foldl (\<lambda>c (k, v). insert c k v) empty kvs"
  have "wf ?c" "v \<noteq> 0" using snoc.prems kv by (auto intro: foldl_wf [OF empty_wf])
  then show ?case
    using snoc lookup_insert [of ?c v k] lookup_insert_other [of ?c v j k] kv by (cases "j = k") auto
qed

end

section \<open>The block cache keeps the contract\<close>

text \<open>
  A set in use: its occupied ways come first and have different guest addresses, the free
  ways are zero.
\<close>

fun ways_ordered :: "block_cache_set_t \<Rightarrow> bool" where
  "ways_ordered [] = True"
| "ways_ordered (e # ways) =
    (if ce_host_code e = 0 then list_all (\<lambda>f. f = empty_entry) (e # ways)
     else list_all (\<lambda>f. ce_host_code f \<noteq> 0 \<longrightarrow> ce_guest_address f \<noteq> ce_guest_address e) ways \<and>
       ways_ordered ways)"

definition ways_wf :: "block_cache_set_t \<Rightarrow> bool" where
  "ways_wf ways \<longleftrightarrow> length ways = BLOCK_CACHE_WAYS \<and> ways_ordered ways"

definition cache_wf :: "block_cache_t \<Rightarrow> bool" where
  "cache_wf cache \<longleftrightarrow> length cache = BLOCK_CACHE_SETS \<and> list_all ways_wf cache"

lemma set_index_bound: "set_index pc < BLOCK_CACHE_SETS"
proof -
  have "BLOCK_CACHE_MASK = mask 12"
    by (simp add: BLOCK_CACHE_MASK_def BLOCK_CACHE_SETS_def mask_eq_exp_minus_1)
  then have "set_index pc = unat (take_bit 12 (ucast (drop_bit 2 pc) :: u32))"
    by (simp add: set_index_def take_bit_eq_mask)
  then have "set_index pc = take_bit 12 (unat (ucast (drop_bit 2 pc) :: u32))"
    by (simp only: unsigned_take_bit_eq)
  then show ?thesis using take_bit_nat_less_exp [of 12] by (simp add: BLOCK_CACHE_SETS_def)
qed

lemma evict_way_bound: "evict_way pc < BLOCK_CACHE_WAYS"
proof -
  have "(3 :: u64) = mask 2" by (simp add: mask_eq_exp_minus_1)
  then have "evict_way pc = unat (take_bit 2 (drop_bit 4 pc))"
    by (simp add: evict_way_def BLOCK_CACHE_WAYS_def take_bit_eq_mask)
  then have "evict_way pc = take_bit 2 (unat (drop_bit 4 pc))"
    by (simp only: unsigned_take_bit_eq)
  then show ?thesis using take_bit_nat_less_exp [of 2] by (simp add: BLOCK_CACHE_WAYS_def)
qed

lemma four_ways:
  assumes "length ways = BLOCK_CACHE_WAYS"
  obtains a b c d where "ways = [a, b, c, d]"
  using assms by (auto simp: BLOCK_CACHE_WAYS_def eval_nat_numeral length_Suc_conv)

lemma evict_cases: "evict_way pc = 0 \<or> evict_way pc = 1 \<or> evict_way pc = 2 \<or> evict_way pc = 3"
  using evict_way_bound [of pc] by (auto simp: BLOCK_CACHE_WAYS_def)

lemma insert_ways_wf: "ways_wf ways \<Longrightarrow> h \<noteq> 0 \<Longrightarrow> ways_wf (insert_ways ways pc h)"
proof -
  assume wf: "ways_wf ways" and h: "h \<noteq> 0"
  then obtain a b c d where ways: "ways = [a, b, c, d]" by (auto simp: ways_wf_def elim: four_ways)
  show ?thesis
    using wf h evict_cases [of pc] unfolding ways
    by (auto simp: ways_wf_def insert_ways_def Let_def empty_entry_def BLOCK_CACHE_WAYS_def
        split: option.splits if_splits)
qed

lemma lookup_insert_ways:
  assumes wf: "ways_wf ways" and h: "h \<noteq> 0"
  shows "lookup_ways (insert_ways ways pc h) pc = h"
    "q \<noteq> pc \<Longrightarrow> lookup_ways (insert_ways ways pc h) q = lookup_ways ways q \<or>
       lookup_ways (insert_ways ways pc h) q = 0"
proof -
  from wf obtain a b c d where ways: "ways = [a, b, c, d]" by (auto simp: ways_wf_def elim: four_ways)
  show "lookup_ways (insert_ways ways pc h) pc = h"
    using wf h evict_cases [of pc] unfolding ways
    by (auto simp: ways_wf_def insert_ways_def Let_def empty_entry_def split: option.splits if_splits)
  show "q \<noteq> pc \<Longrightarrow> lookup_ways (insert_ways ways pc h) q = lookup_ways ways q \<or>
       lookup_ways (insert_ways ways pc h) q = 0"
    using wf h evict_cases [of pc] unfolding ways
    by (auto simp: ways_wf_def insert_ways_def Let_def empty_entry_def split: option.splits if_splits)
qed

lemma cache_set: "cache_wf cache \<Longrightarrow> ways_wf (cache ! set_index pc)"
  using set_index_bound [of pc] by (simp add: cache_wf_def list_all_length)

interpretation block_cache: code_cache empty_cache block_cache_lookup block_cache_insert cache_wf
proof unfold_locales
  show "cache_wf empty_cache"
    by (auto simp: cache_wf_def empty_cache_def list_all_iff ways_wf_def BLOCK_CACHE_WAYS_def
        BLOCK_CACHE_SETS_def eval_nat_numeral empty_entry_def)
  show "block_cache_lookup empty_cache k = 0" for k
    using set_index_bound [of k]
    by (simp add: block_cache_lookup_def empty_cache_def empty_entry_def BLOCK_CACHE_WAYS_def eval_nat_numeral)
  fix c k v assume wf: "cache_wf c" and v: "v \<noteq> (0 :: u64)"
  have set: "ways_wf (insert_ways (c ! set_index k) k v)" using cache_set [OF wf] v by (rule insert_ways_wf)
  show "cache_wf (block_cache_insert c k v)"
    using wf set set_update_subset_insert [of c "set_index k"]
    by (fastforce simp: cache_wf_def block_cache_insert_def list_all_iff)
  have len: "set_index k < length c" using wf set_index_bound [of k] by (simp add: cache_wf_def)
  show "block_cache_lookup (block_cache_insert c k v) k = v"
    using len lookup_insert_ways(1) [OF cache_set [OF wf] v]
    by (simp add: block_cache_lookup_def block_cache_insert_def)
  fix j assume "j \<noteq> k"
  then show "block_cache_lookup (block_cache_insert c k v) j = block_cache_lookup c j \<or>
      block_cache_lookup (block_cache_insert c k v) j = 0"
    using len lookup_insert_ways(2) [OF cache_set [OF wf] v, of j k]
    by (cases "set_index j = set_index k") (simp_all add: block_cache_lookup_def block_cache_insert_def)
qed

section \<open>Properties\<close>

text \<open>
  C17: the block cache refines a finite map. After any sequence of insertions of non-null
  code addresses into the empty cache, a lookup answers with the address last inserted for
  that program counter or with nothing; it never answers with the code of another block or
  with an older address.
\<close>

theorem block_cache_refines_map:
  assumes "\<forall>(pc, code) \<in> set history. code \<noteq> 0"
  shows "block_cache_lookup (foldl (\<lambda>c (pc, code). block_cache_insert c pc code) empty_cache history) pc
    \<in> {0} \<union> set_option (map_of (rev history) pc)"
  using assms by (rule block_cache.history)

definition sample_history :: "(u64 \<times> u64) list" where
  "sample_history = [(0x1000, 0x20000), (0x5000, 0x20080), (0x1000, 0x20100)]"

theorem block_cache_refines_map_witness:
  "block_cache_lookup (foldl (\<lambda>c (pc, code). block_cache_insert c pc code) empty_cache sample_history) 0x1000
    \<in> {0} \<union> set_option (map_of (rev sample_history) 0x1000)"
  by (rule block_cache_refines_map) (simp add: sample_history_def)

text \<open>
  The newest block is always found, and an insertion affects at most the entry it
  replaces: a block found before is found unchanged or not at all.
\<close>

theorem block_cache_insert_found:
  assumes "cache_wf cache" "code \<noteq> 0"
  shows "cache_wf (block_cache_insert cache pc code) \<and>
    block_cache_lookup (block_cache_insert cache pc code) q \<in>
      (if q = pc then {code} else {block_cache_lookup cache q, 0})"
  using block_cache.insert_wf [OF assms] block_cache.lookup_insert [OF assms]
    block_cache.lookup_insert_other [OF assms, of q pc] by auto

theorem block_cache_insert_found_witness:
  "cache_wf (block_cache_insert empty_cache 0x1000 0x20000) \<and>
    block_cache_lookup (block_cache_insert empty_cache 0x1000 0x20000) 0x1000 \<in>
      (if (0x1000 :: u64) = 0x1000 then {0x20000} else {block_cache_lookup empty_cache 0x1000, 0})"
  using block_cache_insert_found [OF block_cache.empty_wf, of "0x20000" "0x1000" "0x1000"] by simp

text \<open>The way that is replaced in a full set depends on the set only.\<close>

lemma set_index_take: "set_index pc = unat (take_bit 12 (drop_bit 2 pc))"
proof -
  have "BLOCK_CACHE_MASK = mask 12"
    by (simp add: BLOCK_CACHE_MASK_def BLOCK_CACHE_SETS_def mask_eq_exp_minus_1)
  then have "set_index pc = unat (take_bit 12 (ucast (drop_bit 2 pc) :: u32))"
    by (simp add: set_index_def take_bit_eq_mask)
  then show ?thesis by (simp add: unsigned_take_bit_eq unsigned_ucast_eq)
qed

lemma evict_way_set: "evict_way pc = take_bit 2 (drop_bit 2 (set_index pc))"
proof -
  have "(3 :: u64) = mask 2" by (simp add: mask_eq_exp_minus_1)
  then have "evict_way pc = unat (take_bit 2 (drop_bit 4 pc))"
    by (simp add: evict_way_def BLOCK_CACHE_WAYS_def take_bit_eq_mask)
  also have "take_bit 2 (drop_bit 4 pc) = take_bit 2 (drop_bit 2 (take_bit 12 (drop_bit 2 pc)))"
    by (rule bit_word_eqI) (auto simp: bit_simps eval_nat_numeral)
  finally show ?thesis
    by (simp only: set_index_take unsigned_take_bit_eq unsigned_drop_bit_eq)
      (simp add: unat_drop_bit_eq take_bit_drop_bit)
qed

text \<open>
  C26: thrashing in a full set. Which way of a full set is replaced depends on the set only,
  although the code takes other bits of the program counter for it: of two new blocks of
  the same set the second always evicts the first, and the other three ways are never
  replaced as long as the cache is not cleared.
\<close>

theorem block_cache_full_set_thrashes:
  assumes "cache_wf cache" "\<forall>e \<in> set (cache ! set_index p). ce_host_code e \<noteq> 0 \<and> ce_guest_address e \<notin> {p, q}"
    and "set_index q = set_index p" "q \<noteq> p" "code \<noteq> 0" "code' \<noteq> 0"
  shows "block_cache_insert (block_cache_insert cache q code) p code' = block_cache_insert cache p code' \<and>
    block_cache_lookup (block_cache_insert cache p code') q = 0"
proof -
  let ?ways = "cache ! set_index p"
  have ev: "evict_way q = evict_way p" using assms(3) by (simp add: evict_way_set)
  have wf: "ways_wf ?ways" by (rule cache_set [OF assms(1)])
  then obtain a b c d where ways: "?ways = [a, b, c, d]" by (auto simp: ways_wf_def elim: four_ways)
  have same: "insert_ways (insert_ways ?ways q code) p code' = insert_ways ?ways p code'"
    using assms(2,4,5) evict_cases [of p] ev unfolding ways by (auto simp: insert_ways_def Let_def)
  have len: "set_index p < length cache" using assms(1) set_index_bound [of p] by (simp add: cache_wf_def)
  then have "block_cache_insert (block_cache_insert cache q code) p code' = block_cache_insert cache p code'"
    using same assms(3) by (simp add: block_cache_insert_def)
  moreover have "lookup_ways (insert_ways ?ways p code') q = 0"
    using assms(2,4) evict_cases [of p] unfolding ways by (auto simp: insert_ways_def Let_def)
  ultimately show ?thesis
    using len assms(3) by (simp add: block_cache_lookup_def) (simp add: block_cache_insert_def)
qed

definition full_set_cache :: block_cache_t where
  "full_set_cache = foldl (\<lambda>c pc. block_cache_insert c pc (pc + 0x20000)) empty_cache
     [0x4000, 0x8000, 0xC000, 0x10000]"

theorem block_cache_full_set_thrashes_witness:
  "block_cache_insert (block_cache_insert full_set_cache 0x14000 0x30000) 0x18000 0x30080 =
     block_cache_insert full_set_cache 0x18000 0x30080 \<and>
   block_cache_lookup (block_cache_insert full_set_cache 0x18000 0x30080) 0x14000 = 0"
proof -
  have index: "set_index 0x4000 = 0" "set_index 0x8000 = 0" "set_index 0xC000 = 0"
    "set_index 0x10000 = 0" "set_index 0x14000 = 0" "set_index 0x18000 = 0"
    by code_simp+
  have wf: "cache_wf full_set_cache"
    unfolding full_set_cache_def by (simp add: block_cache.insert_wf block_cache.empty_wf)
  have empty: "empty_cache ! 0 = [empty_entry, empty_entry, empty_entry, empty_entry]" "0 < length empty_cache"
    by (simp_all add: empty_cache_def BLOCK_CACHE_SETS_def BLOCK_CACHE_WAYS_def) (simp add: eval_nat_numeral)
  have "full_set_cache ! 0 = [\<lparr>ce_guest_address = 0x4000, ce_host_code = 0x24000\<rparr>,
      \<lparr>ce_guest_address = 0x8000, ce_host_code = 0x28000\<rparr>,
      \<lparr>ce_guest_address = 0xC000, ce_host_code = 0x2C000\<rparr>,
      \<lparr>ce_guest_address = 0x10000, ce_host_code = 0x30000\<rparr>]"
    using empty by (simp add: full_set_cache_def block_cache_insert_def index insert_ways_def empty_entry_def)
  then show ?thesis
    using block_cache_full_set_thrashes [OF wf, of "0x18000" "0x14000" "0x30000" "0x30080"]
    by (simp add: index)
qed

end
