(* ===== verification/Engine.thy ===== *)
theory Engine
  imports Block_Cache Tier1_Compiler
begin

text \<open>
  The engine (\<open>src/bal_engine.c\<close>, \<open>include/bal_engine.h\<close>): its creation and destruction,
  the requests other threads make of it, and the loop that looks a block up, translates it
  when it is missing, and calls it. Log calls are left out.

  The engine structure refers to the guest CPU by address (it lives in host memory, where
  generated code reads and writes it) and to the internal state by address and value. The
  debug context is a member of the internal state that the compiler points to; it is kept
  once, in the compiler.
\<close>

section \<open>State\<close>

definition MAX_INSTRUCTIONS :: size_t where "MAX_INSTRUCTIONS = 65535"
definition MEMORY_ALIGNMENT :: size_t where "MEMORY_ALIGNMENT = 64"
definition TIER1_BUFFER_SIZE_BYTES :: size_t where "TIER1_BUFFER_SIZE_BYTES = 1024 * 1024 * 16"
definition BAL_ENGINE_SENTINEL :: u64 where "BAL_ENGINE_SENTINEL = 0xFFFFFFFFFFFFFFFF"

record internal_engine_state_t =
  es_tier1_compiler :: bal_tier1_compiler_t
  es_tier1_buffer :: bal_executable_buffer_t
  es_tier1_buffer_size :: size_t
  es_is_executing :: bool
  es_stop_requested :: bool
  es_clear_cache_requested :: bool
  es_block_cache :: block_cache_t

text \<open>
  The layout of the internal state: the compiler (256 bytes), the buffer at 256, its size,
  padding, the debug context (128 bytes) at 320, the thread state at 448 and the cache at
  512.
\<close>

definition offset_tier1_buffer :: u64 where "offset_tier1_buffer = 256"
definition offset_es_debug_context :: u64 where "offset_es_debug_context = 320"
definition SIZEOF_INTERNAL_ENGINE_STATE :: size_t where
  "SIZEOF_INTERNAL_ENGINE_STATE = 512 + 64 * of_nat BLOCK_CACHE_SETS"

definition executable_buffer_zero :: bal_executable_buffer_t where
  "executable_buffer_zero = \<lparr>eb_rw_pointer = 0, eb_rx_pointer = 0, eb_rx_writable = False\<rparr>"

definition compiler_zero :: bal_tier1_compiler_t where
  "compiler_zero = \<lparr>
     tc_assembler = \<lparr>xa_buffer = 0, xa_rx_buffer = 0, xa_capacity = 0, xa_offset = 0,
       xa_status = BAL_SUCCESS, xa_mem = [], xa_oob = False, xa_abort = False,
       xa_rx_writable = False\<rparr>,
     tc_window = \<lparr>sw_assembler = False, sw_count = 0,
       sw_macros = replicate BAL_SLIDING_WINDOW_CAPACITY macro_zero\<rparr>,
     tc_arm_to_x86 = replicate 32 0, tc_x86_to_arm = replicate 16 0, tc_is_dirty = 0,
     tc_eviction_cursor = 0, tc_debug_context = None, tc_status = BAL_SUCCESS\<rparr>"

definition internal_engine_state_zero :: internal_engine_state_t where
  "internal_engine_state_zero = \<lparr>es_tier1_compiler = compiler_zero,
     es_tier1_buffer = executable_buffer_zero, es_tier1_buffer_size = 0, es_is_executing = False,
     es_stop_requested = False, es_clear_cache_requested = False, es_block_cache = empty_cache\<rparr>"

record ('h, 'c) bal_engine_t =
  en_cpu :: u64
  en_allocator :: "'h bal_allocator_t option"
  en_memory_interface :: "'c bal_memory_interface_t option"
  en_engine_state :: "(u64 \<times> internal_engine_state_t) option"
  en_status :: bal_error_t
  en_flags :: u32

definition engine_zero :: "('h, 'c) bal_engine_t" where
  "engine_zero = \<lparr>en_cpu = 0, en_allocator = None, en_memory_interface = None,
     en_engine_state = None, en_status = BAL_SUCCESS, en_flags = 0\<rparr>"

section \<open>Creation\<close>

text \<open>
  The checks of the arguments, in the order of the code: the CPU, the allocator and its six
  functions, the memory interface, its context and its function. Each failure has the same
  status.
\<close>

definition init_arguments_ok ::
  "u64 \<Rightarrow> 'h bal_allocator_t option \<Rightarrow> 'c bal_memory_interface_t option \<Rightarrow> bool" where
  "init_arguments_ok cpu allocator memory_interface \<longleftrightarrow> cpu \<noteq> 0 \<and>
     (case allocator of None \<Rightarrow> False
      | Some a \<Rightarrow> al_allocate a \<noteq> None \<and> al_free a \<noteq> None \<and> al_allocate_executable a \<noteq> None \<and>
          al_protect_rw a \<noteq> None \<and> al_protect_rx a \<noteq> None \<and> al_free_executable a \<noteq> None) \<and>
     (case memory_interface of None \<Rightarrow> False
      | Some i \<Rightarrow> mi_context i \<noteq> None \<and> mi_translate i \<noteq> None)"

text \<open>
  \<open>installs\<close> says whether the operating system accepts the two signal handlers, \<open>bytes\<close> is
  the content of the new executable mapping. The CPU's pointer to the debug context is
  written in host memory \<open>mem\<close>.
\<close>

definition bal_engine_init ::
  "bool \<times> bool \<Rightarrow> u8 list \<Rightarrow> ('h, 'c) bal_engine_t option \<Rightarrow> u64 \<Rightarrow>
   'h bal_allocator_t option \<Rightarrow> 'c bal_memory_interface_t option \<Rightarrow> 'h \<Rightarrow> (u64 \<Rightarrow> u8) \<Rightarrow>
   bal_error_t \<times> ('h, 'c) bal_engine_t option \<times> 'h \<times> (u64 \<Rightarrow> u8)" where
  "bal_engine_init installs bytes engine cpu allocator memory_interface heap mem =
    (case engine of None \<Rightarrow> (BAL_ERROR_INVALID_ARGUMENT, None, heap, mem)
     | Some engine \<Rightarrow>
       if \<not> init_arguments_ok cpu allocator memory_interface then
         (BAL_ERROR_INVALID_ARGUMENT, Some (engine\<lparr>en_status := BAL_ERROR_INVALID_ARGUMENT\<rparr>), heap, mem)
       else
        (let a = the allocator; allocate = the (al_allocate a); free = the (al_free a);
             allocate_executable = the (al_allocate_executable a);
             (state, heap) = allocate heap MEMORY_ALIGNMENT SIZEOF_INTERNAL_ENGINE_STATE in
         if state = 0 then
           (BAL_ERROR_ALLOCATION_FAILED, Some (engine\<lparr>en_status := BAL_ERROR_ALLOCATION_FAILED\<rparr>), heap, mem)
         else
          (let (buffer, heap) = allocate_executable heap 4096 TIER1_BUFFER_SIZE_BYTES in
           if eb_rw_pointer buffer = 0 then
             (BAL_ERROR_ALLOCATION_FAILED, Some (engine\<lparr>en_status := BAL_ERROR_ALLOCATION_FAILED\<rparr>), heap, mem)
           else
            (let (debug_status, debug_context, heap) =
                   bal_jit_debug_init (Some (allocate, free)) heap (Some jit_debug_zero);
                 (debug_context, mem) =
                  (if debug_status = BAL_SUCCESS then
                     (the (snd (bal_jit_debug_register_signal_handler (fst installs) (snd installs)
                        debug_context (eb_rx_pointer buffer) TIER1_BUFFER_SIZE_BYTES)),
                      store64 mem (cpu + offset_debug_context) (state + offset_es_debug_context))
                   else (jit_debug_zero, mem));
                 (status, compiler) = bal_tier1_compiler_init (Some compiler_zero) buffer bytes
                   TIER1_BUFFER_SIZE_BYTES (Some debug_context) in
             if status \<noteq> BAL_SUCCESS then
              (let heap = free heap (state + offset_tier1_buffer) SIZEOF_INTERNAL_ENGINE_STATE;
                   heap = free heap state SIZEOF_INTERNAL_ENGINE_STATE
               in (status, Some (engine\<lparr>en_status := status\<rparr>), heap, mem))
             else
               (BAL_SUCCESS,
                Some (engine\<lparr>en_cpu := cpu, en_allocator := allocator,
                  en_memory_interface := memory_interface,
                  en_engine_state := Some (state, internal_engine_state_zero\<lparr>
                    es_tier1_compiler := the compiler, es_tier1_buffer := buffer,
                    es_tier1_buffer_size := TIER1_BUFFER_SIZE_BYTES\<rparr>),
                  en_status := BAL_SUCCESS, en_flags := 0\<rparr>), heap, mem)))))"

section \<open>Requests from other threads\<close>

definition set_invalid_argument :: "('h, 'c) bal_engine_t \<Rightarrow> ('h, 'c) bal_engine_t" where
  "set_invalid_argument engine = engine\<lparr>en_status := BAL_ERROR_INVALID_ARGUMENT\<rparr>"

definition bal_engine_stop_thread :: "('h, 'c) bal_engine_t option \<Rightarrow> ('h, 'c) bal_engine_t option" where
  "bal_engine_stop_thread engine =
    (case engine of None \<Rightarrow> None
     | Some engine \<Rightarrow> Some (case en_engine_state engine of None \<Rightarrow> set_invalid_argument engine
         | Some (p, s) \<Rightarrow> engine\<lparr>en_engine_state := Some (p, s\<lparr>es_stop_requested := True\<rparr>)\<rparr>))"

definition bal_engine_clear_cache :: "('h, 'c) bal_engine_t option \<Rightarrow> ('h, 'c) bal_engine_t option" where
  "bal_engine_clear_cache engine =
    (case engine of None \<Rightarrow> None
     | Some engine \<Rightarrow> Some (case en_engine_state engine of None \<Rightarrow> set_invalid_argument engine
         | Some (p, s) \<Rightarrow>
             engine\<lparr>en_engine_state := Some (p, s\<lparr>es_clear_cache_requested := True\<rparr>)\<rparr>))"

definition bal_engine_is_running ::
  "('h, 'c) bal_engine_t option \<Rightarrow> bool \<times> ('h, 'c) bal_engine_t option" where
  "bal_engine_is_running engine =
    (case engine of None \<Rightarrow> (False, None)
     | Some engine \<Rightarrow>
       (case en_engine_state engine of None \<Rightarrow> (False, Some (set_invalid_argument engine))
        | Some (p, s) \<Rightarrow> (es_is_executing s, Some engine)))"

section \<open>Reset and destruction\<close>

text \<open>
  The reset clears \<open>tier1_buffer_size\<close> bytes (16 MiB, or none after a reset) from the address of the member
  \<open>tier1_buffer\<close> on: that member and everything behind it in the structure, and, when the
  size is larger than what is left of the structure, bytes beyond it. The first component of
  the result is the number of these bytes. The second is \<open>None\<close> when the process crashes: the
  engine has no state, or the reset of the compiler faults, which comes after the clearing
  (what the bytes beyond the structure belong to, and whether writing them faults already, is
  not modelled).
\<close>

definition bal_engine_reset ::
  "('h, 'c) bal_engine_t option \<Rightarrow> nat \<times> (bal_error_t \<times> ('h, 'c) bal_engine_t option) option" where
  "bal_engine_reset engine =
    (case engine of None \<Rightarrow> (0, Some (BAL_ERROR_INVALID_ARGUMENT, None))
     | Some engine \<Rightarrow>
       (case en_engine_state engine of None \<Rightarrow> (0, None)
        | Some (p, s) \<Rightarrow>
         (let cleared = es_tier1_buffer_size s;
              tail_size = SIZEOF_INTERNAL_ENGINE_STATE - offset_tier1_buffer;
              compiler = es_tier1_compiler s;
              compiler = (if tc_debug_context compiler = None then compiler
                else compiler\<lparr>tc_debug_context := Some jit_debug_zero\<rparr>);
              s = (if tail_size \<le> cleared
                   then internal_engine_state_zero\<lparr>es_tier1_compiler := compiler\<rparr> else s)
          in (unat cleared - unat tail_size,
              map_option (\<lambda>compiler. (BAL_SUCCESS, Some (engine\<lparr>en_status := BAL_SUCCESS,
                  en_engine_state := Some (p, s\<lparr>es_tier1_compiler := compiler\<rparr>)\<rparr>)))
                (bal_tier1_compiler_reset (es_tier1_compiler s))))))"

definition bal_engine_destroy ::
  "('h, 'c) bal_engine_t option \<Rightarrow> 'h \<Rightarrow> ('h, 'c) bal_engine_t option \<times> 'h" where
  "bal_engine_destroy engine heap =
    (case engine of None \<Rightarrow> (None, heap)
     | Some engine \<Rightarrow>
       (case en_engine_state engine of None \<Rightarrow> (Some engine_zero, heap)
        | Some (p, s) \<Rightarrow>
          (case en_allocator engine of None \<Rightarrow> (Some engine_zero, heap)
           | Some a \<Rightarrow>
            (let heap = (case al_free_executable a of None \<Rightarrow> heap
                   | Some free_executable \<Rightarrow>
                       if eb_rw_pointer (es_tier1_buffer s) = 0 then heap
                       else free_executable heap (es_tier1_buffer s) (es_tier1_buffer_size s));
                 heap = (case al_free a of None \<Rightarrow> heap
                   | Some free \<Rightarrow>
                      (let context = map_option bal_jit_debug_unregister_signal_handler
                             (tc_debug_context (es_tier1_compiler s));
                           (context, heap) = bal_jit_debug_destroy (al_free a) heap context
                       in free heap p SIZEOF_INTERNAL_ENGINE_STATE))
             in (Some engine_zero, heap)))))"

section \<open>The execution loop\<close>

text \<open>
  What the loop works on: the engine, the allocator's state, and the machine, whose memory
  holds the guest CPU and the guest's code. The bytes of the executable buffer are those of
  the compiler's assembler.
\<close>

record ('h, 'c) engine_world =
  ew_engine :: "('h, 'c) bal_engine_t"
  ew_heap :: 'h
  ew_machine :: x86_state

text \<open>
  How a pass of the loop ends: the loop goes on, it is left by a \<open>break\<close>, or the process
  crashes (a null pointer is used, the called code traps or leaves the buffer, or a reset of
  the compiler writes to a view of the buffer that may not be written).
\<close>

datatype ('h, 'c) pass_result =
    Pass_next "('h, 'c) engine_world"
  | Pass_break "('h, 'c) engine_world"
  | Pass_crash "('h, 'c) engine_world"

text \<open>The instruction word at a host address.\<close>

definition host_word :: "x86_state \<Rightarrow> u64 \<Rightarrow> u32" where
  "host_word m a = of_le32 (xs_mem m a) (xs_mem m (a + 1)) (xs_mem m (a + 2)) (xs_mem m (a + 3))"

text \<open>
  The call \<open>compiled_block(engine->cpu)\<close>: the argument is in RDI, the return address on the
  stack. \<open>None\<close> when the code does not return within \<open>steps\<close> instructions, \<open>Some None\<close> when
  it crashes or returns somewhere else.
\<close>

definition call_block ::
  "nat \<Rightarrow> u64 \<Rightarrow> bal_x86_assembler_t \<Rightarrow> u64 \<Rightarrow> u64 \<Rightarrow> x86_state \<Rightarrow> x86_state option option" where
  "call_block steps return_site assembler entry_point cpu m =
    (case x86_run steps (xa_mem assembler) (int (unat (entry_point - xa_rx_buffer assembler)))
            (m\<lparr>xs_reg := (xs_reg m)(BAL_X86_ABI_ARG1 := cpu), xs_stack := return_site # xs_stack m\<rparr>) of
       X_returned ra m' \<Rightarrow> Some (if ra = return_site then Some m' else None)
     | X_out_of_fuel m' \<Rightarrow> None
     | _ \<Rightarrow> Some None)"

definition update_state ::
  "('h, 'c) bal_engine_t \<Rightarrow> u64 \<Rightarrow> internal_engine_state_t \<Rightarrow> ('h, 'c) bal_engine_t" where
  "update_state engine p s = engine\<lparr>en_engine_state := Some (p, s)\<rparr>"

text \<open>The reaction to \<open>clear_cache_requested\<close>; \<open>None\<close> when the reset of the compiler faults.\<close>

definition handle_clear_request :: "internal_engine_state_t \<Rightarrow> internal_engine_state_t option" where
  "handle_clear_request s =
    (if es_clear_cache_requested s
     then map_option (\<lambda>compiler. s\<lparr>es_tier1_compiler := compiler,
            es_block_cache := empty_cache, es_clear_cache_requested := False\<rparr>)
            (bal_tier1_compiler_reset (es_tier1_compiler s))
     else Some s)"

text \<open>
  Translation of the block at \<open>pc\<close>, with one more attempt after a reset of the compiler when
  the buffer is full. \<open>None\<close> when the translation does not return, \<open>Some None\<close> when that reset
  faults.
\<close>

definition compile_block ::
  "decoder_tables \<Rightarrow> (u64 \<Rightarrow> u32) \<Rightarrow> 'c bal_memory_interface_t option \<Rightarrow> u64 \<Rightarrow> u32 \<Rightarrow>
   bal_tier1_compiler_t \<Rightarrow> (u64 \<times> bal_tier1_compiler_t) option option" where
  "compile_block tables host memory_interface pc flags compiler =
    (let max_instructions =
           (if flag_set flags BAL_ENGINE_FLAG_SINGLE_STEP then 1 else MAX_INSTRUCTIONS);
         translate = (\<lambda>compiler. bal_tier1_compiler_translate host tables compiler
           memory_interface pc max_instructions flags)
     in case translate compiler of None \<Rightarrow> None
        | Some (entry_point, compiler) \<Rightarrow>
            if entry_point = 0 \<and> xa_status (tc_assembler compiler) = BAL_ERROR_INSTRUCTION_OVERFLOW
            then (case bal_tier1_compiler_reset compiler of None \<Rightarrow> Some None
                  | Some compiler \<Rightarrow> map_option Some (translate compiler))
            else Some (Some (entry_point, compiler)))"

text \<open>
  The second half of a pass: \<open>protect_rx\<close>, the insertion in the cache (also after a hit) and
  the call.
\<close>

definition execute_block ::
  "nat \<Rightarrow> u64 \<Rightarrow> u64 \<Rightarrow> u64 \<Rightarrow> internal_engine_state_t \<Rightarrow> u64 \<Rightarrow> ('h, 'c) engine_world \<Rightarrow>
   ('h, 'c) pass_result option" where
  "execute_block steps return_site entry_point p s pc w =
    (let engine = ew_engine w in
     case Option.bind (en_allocator engine) al_protect_rx of None \<Rightarrow> Some (Pass_crash w)
     | Some protect_rx \<Rightarrow>
        (let heap = protect_rx (ew_heap w) (es_tier1_buffer s) (es_tier1_buffer_size s);
             s = (if \<not> flag_set (en_flags engine) BAL_ENGINE_FLAG_DISABLE_BLOCK_CACHE
                  then s\<lparr>es_block_cache := block_cache_insert (es_block_cache s) pc entry_point\<rparr>
                  else s);
             w = w\<lparr>ew_engine := update_state engine p s, ew_heap := heap\<rparr>
         in case call_block steps return_site (tc_assembler (es_tier1_compiler s)) entry_point
                   (en_cpu engine) (ew_machine w) of
              None \<Rightarrow> None
            | Some None \<Rightarrow> Some (Pass_crash w)
            | Some (Some m) \<Rightarrow>
                (let w = w\<lparr>ew_machine := m\<rparr>
                 in Some (if flag_set (en_flags engine) BAL_ENGINE_FLAG_SINGLE_STEP
                          then Pass_break w else Pass_next w))))"

text \<open>One pass of the loop.\<close>

definition engine_pass ::
  "decoder_tables \<Rightarrow> u64 \<Rightarrow> nat \<Rightarrow> ('h, 'c) engine_world \<Rightarrow> ('h, 'c) pass_result option" where
  "engine_pass tables return_site steps w =
    (let engine = ew_engine w in
     case en_engine_state engine of None \<Rightarrow> Some (Pass_crash w)
     | Some (p, s) \<Rightarrow>
       if es_stop_requested s then Some (Pass_break w)
       else
       (case handle_clear_request s of None \<Rightarrow> Some (Pass_crash w)
        | Some s \<Rightarrow>
        (let engine = update_state engine p s;
             flags = en_flags engine in
         if flag_set flags BAL_ENGINE_FLAG_INTERRUPT_PENDING then
           Some (Pass_break (w\<lparr>ew_engine :=
             engine\<lparr>en_flags := flags AND NOT BAL_ENGINE_FLAG_INTERRUPT_PENDING\<rparr>\<rparr>))
         else
          (let w = w\<lparr>ew_engine := engine\<rparr>;
               pc = load64 (xs_mem (ew_machine w)) (en_cpu engine + offset_pc) in
           if pc = BAL_ENGINE_SENTINEL then Some (Pass_break w)
           else
            (let entry_point =
               (if \<not> flag_set flags BAL_ENGINE_FLAG_DISABLE_BLOCK_CACHE
                then block_cache_lookup (es_block_cache s) pc else 0) in
             if entry_point \<noteq> 0 then execute_block steps return_site entry_point p s pc w
             else case Option.bind (en_allocator engine) al_protect_rw of
               None \<Rightarrow> Some (Pass_crash w)
             | Some protect_rw \<Rightarrow>
                (let w = w\<lparr>ew_heap := protect_rw (ew_heap w) (es_tier1_buffer s) (es_tier1_buffer_size s)\<rparr> in
                 case compile_block tables (host_word (ew_machine w)) (en_memory_interface engine) pc
                        flags (es_tier1_compiler s) of
                   None \<Rightarrow> None
                 | Some None \<Rightarrow> Some (Pass_crash w)
                 | Some (Some (entry_point, compiler)) \<Rightarrow>
                    (let s = s\<lparr>es_tier1_compiler := compiler\<rparr>;
                         w = w\<lparr>ew_engine := update_state engine p s\<rparr> in
                     if entry_point = 0 then
                       Some (Pass_break (w\<lparr>ew_engine :=
                         (update_state engine p s)\<lparr>en_status := tc_status compiler\<rparr>\<rparr>))
                     else execute_block steps return_site entry_point p s pc w)))))))"

text \<open>
  The loop. \<open>None\<close> when it does not end, or when a block does not return within \<open>steps\<close>
  instructions; \<open>Inl\<close> when the process crashes.
\<close>

partial_function (option) run_loop ::
  "decoder_tables \<Rightarrow> u64 \<Rightarrow> nat \<Rightarrow> ('h, 'c) engine_world \<Rightarrow>
   (('h, 'c) engine_world + ('h, 'c) engine_world) option" where
  "run_loop tables return_site steps w =
    (case engine_pass tables return_site steps w of None \<Rightarrow> None
     | Some r \<Rightarrow>
        (case r of Pass_next w \<Rightarrow> run_loop tables return_site steps w
         | Pass_break w \<Rightarrow> Some (Inr w)
         | Pass_crash w \<Rightarrow> Some (Inl w)))"

text \<open>
  The compare and exchange at the start of the thread function. It expects false and stores
  false, as written: it succeeds exactly when the flag is false, and changes nothing. At the
  end the function stores false.
\<close>

definition claim_engine :: "internal_engine_state_t \<Rightarrow> internal_engine_state_t option" where
  "claim_engine s =
    (let expected = False; desired = False
     in if es_is_executing s = expected then Some (s\<lparr>es_is_executing := desired\<rparr>) else None)"

definition release_engine :: "internal_engine_state_t \<Rightarrow> internal_engine_state_t" where
  "release_engine s = s\<lparr>es_is_executing := False\<rparr>"

text \<open>The function around the loop.\<close>

definition bal_engine_run_thread ::
  "decoder_tables \<Rightarrow> u64 \<Rightarrow> nat \<Rightarrow> ('h, 'c) engine_world \<Rightarrow>
   (('h, 'c) engine_world + bal_error_t \<times> ('h, 'c) engine_world) option" where
  "bal_engine_run_thread tables return_site steps w =
    (case en_engine_state (ew_engine w) of None \<Rightarrow> Some (Inl w)
     | Some (p, s) \<Rightarrow>
       (case claim_engine s of
          None \<Rightarrow> Some (Inr (BAL_ERROR_ENGINE_ALREADY_RUNNING, w))
        | Some s \<Rightarrow>
         (case run_loop tables return_site steps (w\<lparr>ew_engine := update_state (ew_engine w) p s\<rparr>) of
            None \<Rightarrow> None
          | Some (Inl w) \<Rightarrow> Some (Inl w)
          | Some (Inr w) \<Rightarrow>
             (let engine = ew_engine w;
                  engine = (case en_engine_state engine of None \<Rightarrow> engine
                    | Some (p, s) \<Rightarrow> update_state engine p (release_engine s))
              in Some (Inr (en_status engine, w\<lparr>ew_engine := engine\<rparr>))))))"

end
