(* ===== verification/Engine_Run.thy ===== *)
theory Engine_Run
  imports Block_Correctness Engine
begin

text \<open>
  The engine runs guest programs. The loop of the engine, the block cache, the translator
  and the processor's execution of the translated code together compute what the
  architecture says, block by block, until the program counter is the sentinel.
\<close>

section \<open>Calling a block\<close>

lemma x86_run_mono:
  "x86_run n code ip s = X_returned ra s' \<Longrightarrow> n \<le> k \<Longrightarrow> x86_run k code ip s = X_returned ra s'"
proof (induction n arbitrary: ip s k)
  case (Suc n)
  then obtain j where k: "k = Suc j" "n \<le> j" by (cases k) auto
  from Suc.prems(1) have ip: "\<not> ip < 0" by auto
  with Suc.prems(1) obtain i rest where d: "x86_decode (drop (nat ip) code) = Some (i, rest)"
    by (auto split: option.splits)
  show ?case
    using Suc.prems(1) ip d Suc.IH [OF _ k(2)] unfolding k(1)
    by (cases i) (simp_all add: Let_def split: option.splits list.splits)
qed simp

lemma block_computes_append: "block_computes code start F \<Longrightarrow> block_computes (code @ bs) start F"
  unfolding block_computes_def by (metis append_assoc)

lemma block_computes_extend:
  "block_computes code start F \<Longrightarrow> take (length code) code' = code \<Longrightarrow> block_computes code' start F"
  by (metis append_take_drop_id block_computes_append)

definition outside_cpu :: "u64 \<Rightarrow> x86_state \<Rightarrow> x86_state \<Rightarrow> bool" where
  "outside_cpu cpu m m' \<longleftrightarrow> (\<forall>p. 288 \<le> unat (p - cpu) \<longrightarrow> xs_mem m' p = xs_mem m p)"

lemma call_block_computes:
  assumes "block_computes (xa_code a) (unat (h - xa_rx_buffer a)) F"
  shows "\<exists>n m'. (\<forall>steps \<ge> n. call_block steps return_site a h cpu m = Some (Some m')) \<and>
    cpu_view (xs_mem m') cpu = F (cpu_view (xs_mem m) cpu) \<and> outside_cpu cpu m m' \<and>
    xs_stack m' = xs_stack m \<and> (\<forall>q \<in> set callee_saved. xs_reg m' q = xs_reg m q)"
proof -
  let ?m = "m\<lparr>xs_reg := (xs_reg m)(BAL_X86_ABI_ARG1 := cpu), xs_stack := return_site # xs_stack m\<rparr>"
  have arg: "xs_reg ?m BAL_X86_ABI_ARG1 = cpu" "xs_mem ?m = xs_mem m" by simp_all
  have mem: "xa_mem a = xa_code a @ drop (unat (xa_offset a)) (xa_mem a)" by (simp add: xa_code_def)
  have stack: "xs_stack ?m = return_site # xs_stack m" by simp
  from assms [unfolded block_computes_def, rule_format, OF stack, unfolded arg] obtain n m' where
    run: "\<And>post. x86_run n (xa_code a @ post) (int (unat (h - xa_rx_buffer a))) ?m = X_returned return_site m'"
    and m': "xs_stack m' = xs_stack m" "\<forall>q \<in> set callee_saved. xs_reg m' q = xs_reg ?m q"
      "cpu_view (xs_mem m') cpu = F (cpu_view (xs_mem m) cpu)"
      "\<forall>p. 288 \<le> unat (p - cpu) \<longrightarrow> xs_mem m' p = xs_mem m p"
    by blast
  have "call_block steps return_site a h cpu m = Some (Some m')" if "n \<le> steps" for steps
    using x86_run_mono [OF run that, of "drop (unat (xa_offset a)) (xa_mem a)"]
    by (simp add: call_block_def mem [symmetric])
  moreover have "\<forall>q \<in> set callee_saved. xs_reg ?m q = xs_reg m q"
    by (simp add: callee_saved_def BAL_X86_ABI_ARG1_def)
  ultimately show ?thesis using m' by (auto simp: outside_cpu_def)
qed

section \<open>Guest programs\<close>

text \<open>
  A guest program gives, for the program counters it is entered at, the straight line and
  the branch found there. It runs block by block until the sentinel.
\<close>

type_synonym guest_program = "u64 \<Rightarrow> (arm_instr list \<times> arm_branch) option"

fun arm_run_program :: "u32 \<Rightarrow> guest_program \<Rightarrow> nat \<Rightarrow> guest_state \<Rightarrow> guest_state option" where
  "arm_run_program flags P n g =
    (if gs_pc g = BAL_ENGINE_SENTINEL then Some g
     else case n of 0 \<Rightarrow> None
     | Suc n \<Rightarrow>
        (case P (gs_pc g) of None \<Rightarrow> None
         | Some (is, e) \<Rightarrow> arm_run_program flags P n (arm_run_block flags (gs_pc g) is e g)))"

declare arm_run_program.simps [simp del]

text \<open>The program's blocks have at most \<open>L\<close> instructions before their branch and are supported.\<close>

definition program_block ::
  "decoder_tables \<Rightarrow> u32 \<Rightarrow> 'c bal_memory_interface_t \<Rightarrow> nat \<Rightarrow> x86_state \<Rightarrow> u64 \<Rightarrow>
   arm_instr list \<Rightarrow> arm_branch \<Rightarrow> bool" where
  "program_block tables flags interface L m pc is e \<longleftrightarrow> (\<exists>ws w.
     list_all2 (supported tables) ws is \<and> supported_branch tables w e \<and>
     card (\<Union> (guest_registers ` set is) \<union> branch_registers e) \<le> 8 \<and>
     block_in_memory (host_word m) interface pc (ws @ [w]) \<and> length ws \<le> L \<and>
     (flag_set flags BAL_ENGINE_FLAG_STRICT_ALIGNMENT \<longrightarrow> pc mod 4 = 0))"

text \<open>The code lies outside the CPU structure: changing that does not change the program.\<close>

definition program_in_memory ::
  "decoder_tables \<Rightarrow> u32 \<Rightarrow> 'c bal_memory_interface_t \<Rightarrow> nat \<Rightarrow> u64 \<Rightarrow> guest_program \<Rightarrow>
   x86_state \<Rightarrow> bool" where
  "program_in_memory tables flags interface L cpu P m \<longleftrightarrow>
     (\<forall>m' pc is e. outside_cpu cpu m m' \<longrightarrow> P pc = Some (is, e) \<longrightarrow>
        program_block tables flags interface L m' pc is e)"

lemma outside_cpu_refl: "outside_cpu cpu m m"
  by (simp add: outside_cpu_def)

lemma outside_cpu_trans: "outside_cpu cpu m m' \<Longrightarrow> outside_cpu cpu m' m'' \<Longrightarrow> outside_cpu cpu m m''"
  by (simp add: outside_cpu_def)

lemma program_kept:
  "program_in_memory tables flags interface L cpu P m \<Longrightarrow> outside_cpu cpu m m' \<Longrightarrow>
   program_in_memory tables flags interface L cpu P m'"
  unfolding program_in_memory_def by (blast intro: outside_cpu_trans)

section \<open>The state between two passes\<close>

text \<open>The cache relates a program counter to code that computes the block there.\<close>

definition translated_at :: "u32 \<Rightarrow> guest_program \<Rightarrow> bal_x86_assembler_t \<Rightarrow> u64 \<Rightarrow> u64 \<Rightarrow> bool" where
  "translated_at flags P a pc h \<longleftrightarrow> (\<forall>is e. P pc = Some (is, e) \<longrightarrow>
     block_computes (xa_code a) (unat (h - xa_rx_buffer a)) (arm_run_block flags pc is e))"

definition BLOCK_MACROS :: "nat \<Rightarrow> nat" where
  "BLOCK_MACROS L = MACROS_PER_INSTRUCTION * L + 39"

lemma block_bytes_bound: "n \<le> L \<Longrightarrow> block_bytes n \<le> MACRO_BYTES * BLOCK_MACROS L"
  by (simp add: block_bytes_def PROLOGUE_BYTES_def MACRO_BYTES_def BLOCK_MACROS_def MACROS_PER_INSTRUCTION_def)

text \<open>The compiler and the cache of an engine with room for \<open>n\<close> more blocks.\<close>

definition code_invariant ::
  "u32 \<Rightarrow> guest_program \<Rightarrow> nat \<Rightarrow> nat \<Rightarrow> internal_engine_state_t \<Rightarrow> bool" where
  "code_invariant flags P L n s \<longleftrightarrow>
     (let c = es_tier1_compiler s; a = tc_assembler c in
      ready (MACRO_BYTES * (BLOCK_MACROS L * n)) c \<and> xa_rx_buffer a \<noteq> 0 \<and>
      unat (xa_rx_buffer a) + unat (xa_capacity a) < 2 ^ 64 \<and>
      block_cache.sound (translated_at flags P a) (es_block_cache s))"

definition engine_runs ::
  "decoder_tables \<Rightarrow> u32 \<Rightarrow> 'c bal_memory_interface_t \<Rightarrow> nat \<Rightarrow> u64 \<Rightarrow> guest_program \<Rightarrow> nat \<Rightarrow>
   ('h, 'c) engine_world \<Rightarrow> bool" where
  "engine_runs tables flags interface L cpu P n w \<longleftrightarrow>
     (\<exists>p s a. en_engine_state (ew_engine w) = Some (p, s) \<and> \<not> es_stop_requested s \<and>
        \<not> es_clear_cache_requested s \<and> \<not> es_is_executing s \<and> code_invariant flags P L n s \<and>
        en_allocator (ew_engine w) = Some a \<and> al_protect_rw a \<noteq> None \<and> al_protect_rx a \<noteq> None) \<and>
     en_memory_interface (ew_engine w) = Some interface \<and> en_cpu (ew_engine w) = cpu \<and>
     en_flags (ew_engine w) = flags \<and> program_in_memory tables flags interface L cpu P (ew_machine w)"

text \<open>Flags under which the loop neither yields nor stops after one block.\<close>

definition free_running :: "u32 \<Rightarrow> bool" where
  "free_running flags \<longleftrightarrow> \<not> flag_set flags BAL_ENGINE_FLAG_SINGLE_STEP \<and>
     \<not> flag_set flags BAL_ENGINE_FLAG_INTERRUPT_PENDING"

lemma compile_block_runs:
  assumes inv: "code_invariant flags P L (Suc n) s" and free: "free_running flags"
    and prog: "program_in_memory tables flags interface L cpu P m" and L: "L < 65535"
    and pc: "P pc = Some (is, e)"
  shows "\<exists>h c. compile_block tables (host_word m) (Some interface) pc flags (es_tier1_compiler s) = Some (Some (h, c)) \<and>
    h \<noteq> 0 \<and> translated_at flags P (tc_assembler c) pc h \<and>
    code_invariant flags P L n (s\<lparr>es_tier1_compiler := c\<rparr>)"
proof -
  let ?c = "es_tier1_compiler s"
  from prog pc have "program_block tables flags interface L m pc is e"
    by (auto simp: program_in_memory_def intro: outside_cpu_refl)
  then obtain ws w where b: "list_all2 (supported tables) ws is" "supported_branch tables w e"
      "card (\<Union> (guest_registers ` set is) \<union> branch_registers e) \<le> 8"
      "block_in_memory (host_word m) interface pc (ws @ [w])" "length ws \<le> L"
      "flag_set flags BAL_ENGINE_FLAG_STRICT_ALIGNMENT \<longrightarrow> pc mod 4 = 0"
    unfolding program_block_def by (elim exE conjE) (rule that)
  have ready: "ready (MACRO_BYTES * (BLOCK_MACROS L * Suc n)) ?c"
    and rx: "xa_rx_buffer (tc_assembler ?c) \<noteq> 0"
      "unat (xa_rx_buffer (tc_assembler ?c)) + unat (xa_capacity (tc_assembler ?c)) < 2 ^ 64"
    and sound: "block_cache.sound (translated_at flags P (tc_assembler ?c)) (es_block_cache s)"
    using inv by (simp_all add: code_invariant_def Let_def)
  have "ready (block_bytes (length ws) + MACRO_BYTES * (BLOCK_MACROS L * n)) ?c"
    using ready block_bytes_bound [OF b(5)] unfolding ready_def
    by (auto elim!: xa_room_mono simp: distrib_left)
  from translate_block_correct [OF this b(1-4) _ _ b(6) [rule_format], where max_instructions = MAX_INSTRUCTIONS] b(5) L
  obtain c where c: "bal_tier1_compiler_translate (host_word m) tables ?c (Some interface) pc MAX_INSTRUCTIONS flags =
      Some (xa_rx_buffer (tc_assembler ?c) + xa_offset (tc_assembler ?c), c)"
    "block_computes (code_of c) (length (code_of ?c)) (arm_run_block flags pc is e)"
    "take (length (code_of ?c)) (code_of c) = code_of ?c"
    "buffer_of (tc_assembler c) = buffer_of (tc_assembler ?c)" "ready (MACRO_BYTES * (BLOCK_MACROS L * n)) c"
    by (auto simp: MAX_INSTRUCTIONS_def)
  let ?h = "xa_rx_buffer (tc_assembler ?c) + xa_offset (tc_assembler ?c)"
  have off: "unat (xa_offset (tc_assembler ?c)) \<le> unat (xa_capacity (tc_assembler ?c))"
    using ready by (auto simp: ready_def xa_room_def xa_wf_def xa_ok_def)
  have "unat ?h = unat (xa_rx_buffer (tc_assembler ?c)) + unat (xa_offset (tc_assembler ?c))"
    using rx(2) off by (intro unat_add_lem [THEN iffD1]) simp
  then have h: "?h \<noteq> 0" using rx(1) by (auto simp: unat_eq_0)
  have len: "length (code_of ?c) = unat (xa_offset (tc_assembler ?c))"
    using ready by (auto simp: ready_def xa_room_def xa_wf_def xa_ok_def code_of_def xa_code_def)
  have buf: "xa_rx_buffer (tc_assembler c) = xa_rx_buffer (tc_assembler ?c)"
    "xa_capacity (tc_assembler c) = xa_capacity (tc_assembler ?c)"
    using c(4) by (simp_all add: buffer_of_def)
  have "translated_at flags P (tc_assembler c) pc ?h"
    using c(2) [unfolded len] pc by (simp add: translated_at_def buf code_of_def)
  moreover have "translated_at flags P (tc_assembler ?c) q v \<Longrightarrow> translated_at flags P (tc_assembler c) q v" for q v
    using c(3) by (auto simp: translated_at_def buf code_of_def intro: block_computes_extend)
  with sound have "block_cache.sound (translated_at flags P (tc_assembler c)) (es_block_cache s)"
    by (rule block_cache.sound_mono)
  moreover have "compile_block tables (host_word m) (Some interface) pc flags ?c = Some (Some (?h, c))"
    using free c(1) h by (simp add: compile_block_def free_running_def Let_def)
  ultimately show ?thesis
    using h rx c(5) by (auto simp: code_invariant_def Let_def buf)
qed

section \<open>One pass and the whole run\<close>

lemma execute_block_runs:
  assumes sound: "translated_at flags P (tc_assembler (es_tier1_compiler s)) pc h" "h \<noteq> 0"
    and pc: "P pc = Some (is, e)" and free: "free_running flags"
    and w: "en_allocator (ew_engine w) = Some a" "al_protect_rx a = Some rx" "en_cpu (ew_engine w) = cpu"
      "en_flags (ew_engine w) = flags"
  shows "\<exists>n m' heap. \<forall>steps \<ge> n.
    execute_block steps return_site h p s pc w = Some (Pass_next (w\<lparr>ew_engine := update_state (ew_engine w) p
      (if flag_set flags BAL_ENGINE_FLAG_DISABLE_BLOCK_CACHE then s
       else s\<lparr>es_block_cache := block_cache_insert (es_block_cache s) pc h\<rparr>),
      ew_heap := heap, ew_machine := m'\<rparr>)) \<and>
    cpu_view (xs_mem m') cpu = arm_run_block flags pc is e (cpu_view (xs_mem (ew_machine w)) cpu) \<and>
    outside_cpu cpu (ew_machine w) m'"
proof -
  have "block_computes (xa_code (tc_assembler (es_tier1_compiler s)))
      (unat (h - xa_rx_buffer (tc_assembler (es_tier1_compiler s)))) (arm_run_block flags pc is e)"
    using sound(1) pc by (simp add: translated_at_def)
  from call_block_computes [OF this, of return_site cpu "ew_machine w"] obtain n m' where
    m': "\<forall>steps \<ge> n. call_block steps return_site (tc_assembler (es_tier1_compiler s)) h cpu (ew_machine w) = Some (Some m')"
      "cpu_view (xs_mem m') cpu = arm_run_block flags pc is e (cpu_view (xs_mem (ew_machine w)) cpu)"
      "outside_cpu cpu (ew_machine w) m'" by blast
  have single: "\<not> flag_set flags BAL_ENGINE_FLAG_SINGLE_STEP" using free by (simp add: free_running_def)
  show ?thesis
    using m' w single
    by (intro exI [of _ n] exI [of _ m'] exI [of _ "rx (ew_heap w) (es_tier1_buffer s) (es_tier1_buffer_size s)"])
      (simp add: execute_block_def Let_def)
qed

lemma code_invariant_insert:
  assumes "code_invariant flags P L n s" "h \<noteq> 0" "translated_at flags P (tc_assembler (es_tier1_compiler s)) pc h"
  shows "code_invariant flags P L n (s\<lparr>es_block_cache := block_cache_insert (es_block_cache s) pc h\<rparr>)"
  using assms by (simp add: code_invariant_def Let_def block_cache.sound_insert)

lemma code_invariant_less:
  "code_invariant flags P L (Suc n) s \<Longrightarrow> code_invariant flags P L n s"
  by (auto simp: code_invariant_def Let_def ready_def elim!: xa_room_mono)

lemma gs_pc_view: "gs_pc (cpu_view mem cpu) = load64 mem (cpu + offset_pc)"
  by (simp add: cpu_view_def)

lemma engine_pass_runs:
  assumes inv: "engine_runs tables flags interface L cpu P (Suc n) w" and free: "free_running flags"
    and L: "L < 65535" and pc: "gs_pc (cpu_view (xs_mem (ew_machine w)) cpu) = pc" "pc \<noteq> BAL_ENGINE_SENTINEL"
    and P: "P pc = Some (is, e)"
  shows "\<exists>k w'. (\<forall>steps \<ge> k. engine_pass tables return_site steps w = Some (Pass_next w')) \<and>
    engine_runs tables flags interface L cpu P n w' \<and> en_status (ew_engine w') = en_status (ew_engine w) \<and>
    cpu_view (xs_mem (ew_machine w')) cpu = arm_run_block flags pc is e (cpu_view (xs_mem (ew_machine w)) cpu) \<and>
    outside_cpu cpu (ew_machine w) (ew_machine w')"
proof -
  from inv obtain p s a rw rx where
    s: "en_engine_state (ew_engine w) = Some (p, s)" "\<not> es_stop_requested s" "\<not> es_clear_cache_requested s"
      "\<not> es_is_executing s"
    and code: "code_invariant flags P L (Suc n) s"
    and a: "en_allocator (ew_engine w) = Some a" "al_protect_rw a = Some rw" "al_protect_rx a = Some rx"
    and eng: "en_memory_interface (ew_engine w) = Some interface" "en_cpu (ew_engine w) = cpu"
      "en_flags (ew_engine w) = flags"
    and prog: "program_in_memory tables flags interface L cpu P (ew_machine w)"
    by (auto simp: engine_runs_def)
  have pc': "load64 (xs_mem (ew_machine w)) (cpu + offset_pc) = pc" using pc(1) by (simp add: gs_pc_view)
  have flags: "\<not> flag_set flags BAL_ENGINE_FLAG_INTERRUPT_PENDING" using free by (simp add: free_running_def)
  have upd: "update_state (ew_engine w) p s = ew_engine w" using s(1) by (simp add: update_state_def)
  define h where "h = (if \<not> flag_set flags BAL_ENGINE_FLAG_DISABLE_BLOCK_CACHE
    then block_cache_lookup (es_block_cache s) pc else 0)"
  have result: "\<exists>k w'. (\<forall>steps \<ge> k. execute_block steps return_site h' p s' pc v = Some (Pass_next w')) \<and>
      engine_runs tables flags interface L cpu P n w' \<and> en_status (ew_engine w') = en_status (ew_engine w) \<and>
      cpu_view (xs_mem (ew_machine w')) cpu = arm_run_block flags pc is e (cpu_view (xs_mem (ew_machine w)) cpu) \<and>
      outside_cpu cpu (ew_machine w) (ew_machine w')"
    if "translated_at flags P (tc_assembler (es_tier1_compiler s')) pc h'" "h' \<noteq> 0"
      "code_invariant flags P L n s'" "s' = s\<lparr>es_tier1_compiler := c\<rparr>"
      "v = w\<lparr>ew_heap := heap, ew_engine := update_state (ew_engine w) p z\<rparr>" for s' h' v c heap z
  proof -
    have v: "en_allocator (ew_engine v) = Some a" "en_cpu (ew_engine v) = cpu" "en_flags (ew_engine v) = flags"
      "ew_machine v = ew_machine w"
      using that(5) a eng by (simp_all add: update_state_def)
    from execute_block_runs [OF that(1,2) P free v(1) a(3) v(2,3), of return_site p]
    obtain k m' heap' where k: "\<And>steps. k \<le> steps \<Longrightarrow> execute_block steps return_site h' p s' pc v =
        Some (Pass_next (v\<lparr>ew_engine := update_state (ew_engine v) p
          (if flag_set flags BAL_ENGINE_FLAG_DISABLE_BLOCK_CACHE then s'
           else s'\<lparr>es_block_cache := block_cache_insert (es_block_cache s') pc h'\<rparr>),
          ew_heap := heap', ew_machine := m'\<rparr>))"
      and m': "cpu_view (xs_mem m') cpu = arm_run_block flags pc is e (cpu_view (xs_mem (ew_machine w)) cpu)"
        "outside_cpu cpu (ew_machine w) m'" unfolding v(4) by blast
    have "code_invariant flags P L n (if flag_set flags BAL_ENGINE_FLAG_DISABLE_BLOCK_CACHE then s'
        else s'\<lparr>es_block_cache := block_cache_insert (es_block_cache s') pc h'\<rparr>)"
      using that(1-3) by (simp add: code_invariant_insert)
    with k m' program_kept [OF prog m'(2)] that(4,5) s a eng show ?thesis
      by (intro exI [of _ k] exI [of _ "v\<lparr>ew_engine := update_state (ew_engine v) p
          (if flag_set flags BAL_ENGINE_FLAG_DISABLE_BLOCK_CACHE then s'
           else s'\<lparr>es_block_cache := block_cache_insert (es_block_cache s') pc h'\<rparr>),
          ew_heap := heap', ew_machine := m'\<rparr>"])
        (simp add: engine_runs_def update_state_def)
  qed
  show ?thesis
  proof (cases "h = 0")
    case False
    then have h: "h = block_cache_lookup (es_block_cache s) pc" by (simp add: h_def split: if_splits)
    have "block_cache.sound (translated_at flags P (tc_assembler (es_tier1_compiler s))) (es_block_cache s)"
      using code by (simp add: code_invariant_def Let_def)
    from block_cache.soundD [OF this h [symmetric] False]
    have "translated_at flags P (tc_assembler (es_tier1_compiler s)) pc h" .
    from result [where s' = s and h' = h and c = "es_tier1_compiler s" and v = w and z = s and heap = "ew_heap w",
      OF this False code_invariant_less [OF code]] upd
    have "\<exists>k w'. (\<forall>steps \<ge> k. execute_block steps return_site h p s pc w = Some (Pass_next w')) \<and>
      engine_runs tables flags interface L cpu P n w' \<and> en_status (ew_engine w') = en_status (ew_engine w) \<and>
      cpu_view (xs_mem (ew_machine w')) cpu = arm_run_block flags pc is e (cpu_view (xs_mem (ew_machine w)) cpu) \<and>
      outside_cpu cpu (ew_machine w) (ew_machine w')" by simp
    moreover have "\<not> flag_set flags BAL_ENGINE_FLAG_DISABLE_BLOCK_CACHE" using False by (simp add: h_def split: if_splits)
    with s flags pc' pc(2) False eng h
    have "engine_pass tables return_site steps w = execute_block steps return_site h p s pc w" for steps
      by (simp add: engine_pass_def handle_clear_request_def upd)
    ultimately show ?thesis by simp
  next
    case True
    from compile_block_runs [OF code free prog L P] obtain h' c where
      c: "compile_block tables (host_word (ew_machine w)) (Some interface) pc flags (es_tier1_compiler s) = Some (Some (h', c))"
        "h' \<noteq> 0" "translated_at flags P (tc_assembler c) pc h'" "code_invariant flags P L n (s\<lparr>es_tier1_compiler := c\<rparr>)"
      by blast
    let ?s = "s\<lparr>es_tier1_compiler := c\<rparr>"
    let ?w = "w\<lparr>ew_heap := rw (ew_heap w) (es_tier1_buffer s) (es_tier1_buffer_size s),
      ew_engine := update_state (ew_engine w) p ?s\<rparr>"
    from result [where s' = ?s and h' = h' and c = c and v = ?w and z = ?s
      and heap = "rw (ew_heap w) (es_tier1_buffer s) (es_tier1_buffer_size s)"] c
    have "\<exists>k w'. (\<forall>steps \<ge> k. execute_block steps return_site h' p ?s pc ?w = Some (Pass_next w')) \<and>
      engine_runs tables flags interface L cpu P n w' \<and> en_status (ew_engine w') = en_status (ew_engine w) \<and>
      cpu_view (xs_mem (ew_machine w')) cpu = arm_run_block flags pc is e (cpu_view (xs_mem (ew_machine w)) cpu) \<and>
      outside_cpu cpu (ew_machine w) (ew_machine w')" by simp
    moreover have "engine_pass tables return_site steps w = execute_block steps return_site h' p ?s pc ?w" for steps
      using s flags pc' pc(2) True eng c(1,2) a upd
      by (simp add: engine_pass_def handle_clear_request_def h_def [symmetric]) (simp add: Let_def)
    ultimately show ?thesis by simp
  qed
qed

text \<open>At the sentinel the loop is left.\<close>

lemma run_loop_sentinel:
  assumes inv: "engine_runs tables flags interface L cpu P n w" and free: "free_running flags"
    and pc: "gs_pc (cpu_view (xs_mem (ew_machine w)) cpu) = BAL_ENGINE_SENTINEL"
  shows "run_loop tables return_site steps w = Some (Inr w)"
proof -
  from inv obtain p s where s: "en_engine_state (ew_engine w) = Some (p, s)" "\<not> es_stop_requested s"
      "\<not> es_clear_cache_requested s" and eng: "en_cpu (ew_engine w) = cpu" "en_flags (ew_engine w) = flags"
    by (auto simp: engine_runs_def)
  have upd: "update_state (ew_engine w) p s = ew_engine w" using s(1) by (simp add: update_state_def)
  have "\<not> flag_set flags BAL_ENGINE_FLAG_INTERRUPT_PENDING" using free by (simp add: free_running_def)
  with s eng pc upd have "engine_pass tables return_site steps w = Some (Pass_break w)"
    by (simp add: engine_pass_def handle_clear_request_def gs_pc_view)
  then show ?thesis by (subst run_loop.simps) simp
qed

lemma run_loop_runs:
  "engine_runs tables flags interface L cpu P n w \<Longrightarrow> free_running flags \<Longrightarrow> L < 65535 \<Longrightarrow>
   arm_run_program flags P n (cpu_view (xs_mem (ew_machine w)) cpu) = Some g \<Longrightarrow>
   \<exists>k w'. (\<forall>steps \<ge> k. run_loop tables return_site steps w = Some (Inr w')) \<and>
     (\<exists>n. engine_runs tables flags interface L cpu P n w') \<and> en_status (ew_engine w') = en_status (ew_engine w) \<and>
     cpu_view (xs_mem (ew_machine w')) cpu = g \<and> outside_cpu cpu (ew_machine w) (ew_machine w')"
proof (induction n arbitrary: w)
  case 0
  then have "gs_pc (cpu_view (xs_mem (ew_machine w)) cpu) = BAL_ENGINE_SENTINEL"
    "g = cpu_view (xs_mem (ew_machine w)) cpu"
    by (simp_all add: arm_run_program.simps [of flags P 0] split: if_splits)
  with run_loop_sentinel [OF "0.prems"(1,2)] "0.prems"(1) show ?case
    by (intro exI [of _ 0] exI [of _ w]) (auto simp: outside_cpu_refl)
next
  case (Suc n)
  let ?g = "cpu_view (xs_mem (ew_machine w)) cpu"
  show ?case
  proof (cases "gs_pc ?g = BAL_ENGINE_SENTINEL")
    case True
    then have "g = ?g" using Suc.prems(4) by (simp add: arm_run_program.simps [of flags P "Suc n"])
    with True run_loop_sentinel [OF Suc.prems(1,2)] Suc.prems(1) show ?thesis
      by (intro exI [of _ 0] exI [of _ w]) (auto simp: outside_cpu_refl)
  next
    case False
    with Suc.prems(4) obtain "is" e where P: "P (gs_pc ?g) = Some (is, e)"
      "arm_run_program flags P n (arm_run_block flags (gs_pc ?g) is e ?g) = Some g"
      by (auto simp: arm_run_program.simps [of flags P "Suc n"] split: option.splits)
    from engine_pass_runs [OF Suc.prems(1-3) refl False P(1), of return_site] obtain k v where
      k: "\<And>steps. k \<le> steps \<Longrightarrow> engine_pass tables return_site steps w = Some (Pass_next v)"
      and v: "engine_runs tables flags interface L cpu P n v" "en_status (ew_engine v) = en_status (ew_engine w)"
        "cpu_view (xs_mem (ew_machine v)) cpu = arm_run_block flags (gs_pc ?g) is e ?g"
        "outside_cpu cpu (ew_machine w) (ew_machine v)" by blast
    from Suc.IH [OF v(1) Suc.prems(2,3)] P(2) v(3) obtain j w' where
      j: "\<And>steps. j \<le> steps \<Longrightarrow> run_loop tables return_site steps v = Some (Inr w')"
      and w': "\<exists>n. engine_runs tables flags interface L cpu P n w'" "en_status (ew_engine w') = en_status (ew_engine v)"
        "cpu_view (xs_mem (ew_machine w')) cpu = g" "outside_cpu cpu (ew_machine v) (ew_machine w')" by auto
    have "run_loop tables return_site steps w = Some (Inr w')" if "max k j \<le> steps" for steps
      using k [of steps] j [of steps] that by (subst run_loop.simps) simp
    with w' v(2,4) show ?thesis
      by (intro exI [of _ "max k j"] exI [of _ w']) (auto intro: outside_cpu_trans)
  qed
qed

end
