(* ===== verification/Engine_Correctness.thy ===== *)
theory Engine_Correctness
  imports Engine_Run
begin

text \<open>
  The end-to-end theorems of the engine: a freshly initialised engine can run guest
  programs, and running one computes what the architecture prescribes.
\<close>

section \<open>From initialisation to the first block\<close>

lemma compiler_init_ready:
  assumes buf: "eb_rw_pointer buffer \<noteq> 0" "eb_rx_pointer buffer \<noteq> 0" and "n \<noteq> 0" "length bytes = unat n"
  shows "\<exists>c. bal_tier1_compiler_init (Some compiler_zero) buffer bytes n ctx = (BAL_SUCCESS, Some c) \<and>
    ready (unat n) c \<and> xa_rx_buffer (tc_assembler c) = eb_rx_pointer buffer \<and>
    xa_capacity (tc_assembler c) = n \<and> code_of c = []"
  using assms
  by (simp add: bal_tier1_compiler_init_def bal_x86_assembler_init_def bal_sliding_window_init_def
      compiler_zero_def Let_def ready_def sw_wf_def xa_room_def xa_wf_def xa_ok_def code_of_def xa_code_def)

lemma engine_init_ready:
  assumes "init_arguments_ok cpu (Some a) (Some interface)"
    and "the (al_allocate a) heap MEMORY_ALIGNMENT SIZEOF_INTERNAL_ENGINE_STATE = (state, heap1)" "state \<noteq> 0"
    and "the (al_allocate_executable a) heap1 4096 TIER1_BUFFER_SIZE_BYTES = (buffer, heap2)"
    and "eb_rw_pointer buffer \<noteq> 0" "eb_rx_pointer buffer \<noteq> 0" "unat (eb_rx_pointer buffer) < 2 ^ 64 - 2 ^ 24"
    and "length bytes = 2 ^ 24" "MACRO_BYTES * (BLOCK_MACROS L * n) \<le> 2 ^ 24"
    and "bal_engine_init installs bytes (Some engine) cpu (Some a) (Some interface) heap mem = (err, engine', heap', mem')"
    and "program_in_memory tables flags interface L cpu P (m\<lparr>xs_mem := mem'\<rparr>)"
  shows "err = BAL_SUCCESS \<and> (\<exists>e. engine' = Some e \<and> en_status e = BAL_SUCCESS \<and>
    engine_runs tables flags interface L cpu P n
      \<lparr>ew_engine = e\<lparr>en_flags := flags\<rparr>, ew_heap = heap', ew_machine = m\<lparr>xs_mem := mem'\<rparr>\<rparr>)"
proof -
  have size: "unat TIER1_BUFFER_SIZE_BYTES = 2 ^ 24" "TIER1_BUFFER_SIZE_BYTES \<noteq> 0"
    by (simp_all add: TIER1_BUFFER_SIZE_BYTES_def)
  have c: "\<exists>c. bal_tier1_compiler_init (Some compiler_zero) buffer bytes TIER1_BUFFER_SIZE_BYTES ctx = (BAL_SUCCESS, Some c) \<and>
    ready (2 ^ 24) c \<and> xa_rx_buffer (tc_assembler c) = eb_rx_pointer buffer \<and>
    xa_capacity (tc_assembler c) = TIER1_BUFFER_SIZE_BYTES \<and> code_of c = []" for ctx
    using compiler_init_ready [OF assms(5,6) size(2), of bytes ctx] assms(8) by (simp add: size)
  have inv: "code_invariant flags P L n (internal_engine_state_zero\<lparr>es_tier1_compiler := c,
      es_tier1_buffer := buffer, es_tier1_buffer_size := TIER1_BUFFER_SIZE_BYTES\<rparr>)"
    if "ready (2 ^ 24) c" "xa_rx_buffer (tc_assembler c) = eb_rx_pointer buffer"
      "xa_capacity (tc_assembler c) = TIER1_BUFFER_SIZE_BYTES" for c
  proof -
    have "ready (MACRO_BYTES * (BLOCK_MACROS L * n)) c"
      using that(1) assms(9) by (auto simp: ready_def elim: xa_room_mono)
    then show ?thesis
      using that(2,3) assms(6,7) size(1)
      by (simp add: code_invariant_def Let_def internal_engine_state_zero_def block_cache.sound_empty)
  qed
  from assms(1) obtain rw rx where prot: "al_protect_rw a = Some rw" "al_protect_rx a = Some rx"
    by (auto simp: init_arguments_ok_def)
  obtain ds dc heap3 where debug: "bal_jit_debug_init (Some (the (al_allocate a), the (al_free a))) heap2
      (Some jit_debug_zero) = (ds, dc, heap3)" by (rule prod_cases3)
  define ctx where "ctx = (if ds = BAL_SUCCESS then the (snd (bal_jit_debug_register_signal_handler (fst installs)
      (snd installs) dc (eb_rx_pointer buffer) TIER1_BUFFER_SIZE_BYTES)) else jit_debug_zero)"
  from c [of "Some ctx"] obtain cc where cc: "bal_tier1_compiler_init (Some compiler_zero) buffer bytes
      TIER1_BUFFER_SIZE_BYTES (Some ctx) = (BAL_SUCCESS, Some cc)" "ready (2 ^ 24) cc"
      "xa_rx_buffer (tc_assembler cc) = eb_rx_pointer buffer"
      "xa_capacity (tc_assembler cc) = TIER1_BUFFER_SIZE_BYTES" by blast
  have "err = BAL_SUCCESS \<and> engine' = Some (engine\<lparr>en_cpu := cpu, en_allocator := Some a,
      en_memory_interface := Some interface,
      en_engine_state := Some (state, internal_engine_state_zero\<lparr>es_tier1_compiler := cc,
        es_tier1_buffer := buffer, es_tier1_buffer_size := TIER1_BUFFER_SIZE_BYTES\<rparr>),
      en_status := BAL_SUCCESS, en_flags := 0\<rparr>)"
    using assms(1-5,10) debug cc(1)
    by (cases "ds = BAL_SUCCESS") (auto simp: bal_engine_init_def Let_def ctx_def)
  with inv [OF cc(2-4)] assms(11) prot show ?thesis
    by (auto simp: engine_runs_def internal_engine_state_zero_def)
qed

text \<open>The code buffer of an initialised engine is the one its allocator gave.\<close>

lemma engine_init_buffer:
  assumes "bal_engine_init installs bytes (Some engine) cpu (Some a) interface heap mem = (BAL_SUCCESS, Some e, heap', mem')"
    and "al_allocate_executable a = Some ax"
  shows "\<exists>p s h. en_engine_state e = Some (p, s) \<and> es_tier1_buffer s = fst (ax h 4096 TIER1_BUFFER_SIZE_BYTES) \<and>
    es_tier1_buffer_size s = TIER1_BUFFER_SIZE_BYTES \<and> \<not> es_is_executing s \<and> \<not> es_stop_requested s \<and>
    tc_window (es_tier1_compiler s) = \<lparr>sw_assembler = True, sw_count = 0,
      sw_macros = replicate BAL_SLIDING_WINDOW_CAPACITY macro_zero\<rparr> \<and>
    tc_assembler (es_tier1_compiler s) = \<lparr>xa_buffer = eb_rw_pointer (es_tier1_buffer s),
      xa_rx_buffer = eb_rx_pointer (es_tier1_buffer s), xa_capacity = TIER1_BUFFER_SIZE_BYTES, xa_offset = 0,
      xa_status = BAL_SUCCESS, xa_mem = bytes, xa_oob = False, xa_abort = False,
      xa_rx_writable = eb_rx_writable (es_tier1_buffer s)\<rparr> \<and>
    eb_rw_pointer (es_tier1_buffer s) \<noteq> 0"
proof -
  have args: "init_arguments_ok cpu (Some a) interface"
    using assms(1) by (auto simp: bal_engine_init_def split: if_splits)
  obtain p h1 where p: "the (al_allocate a) heap MEMORY_ALIGNMENT SIZEOF_INTERNAL_ENGINE_STATE = (p, h1)" by fastforce
  obtain b h2 where b: "ax h1 4096 TIER1_BUFFER_SIZE_BYTES = (b, h2)" by fastforce
  obtain st c h3 where d: "bal_jit_debug_init (Some (the (al_allocate a), the (al_free a))) h2 (Some jit_debug_zero) =
      (st, c, h3)" by (rule prod_cases3)
  define ctx where "ctx = (if st = BAL_SUCCESS then the (snd (bal_jit_debug_register_signal_handler (fst installs)
      (snd installs) c (eb_rx_pointer b) TIER1_BUFFER_SIZE_BYTES)) else jit_debug_zero)"
  obtain es cc where cc: "bal_tier1_compiler_init (Some compiler_zero) b bytes TIER1_BUFFER_SIZE_BYTES (Some ctx) = (es, cc)"
    by fastforce
  have e: "es = BAL_SUCCESS \<and> eb_rw_pointer b \<noteq> 0 \<and> (\<exists>s. en_engine_state e = Some (p, s) \<and>
      s = internal_engine_state_zero\<lparr>es_tier1_compiler := the cc, es_tier1_buffer := b,
        es_tier1_buffer_size := TIER1_BUFFER_SIZE_BYTES\<rparr>)"
    using assms args p b d cc
    by (cases "st = BAL_SUCCESS") (auto simp: bal_engine_init_def Let_def ctx_def split: if_splits)
  then obtain s where s: "en_engine_state e = Some (p, s)" "s = internal_engine_state_zero\<lparr>es_tier1_compiler := the cc,
      es_tier1_buffer := b, es_tier1_buffer_size := TIER1_BUFFER_SIZE_BYTES\<rparr>" by blast
  from cc e have "\<exists>c. cc = Some c \<and> tc_window c = \<lparr>sw_assembler = True, sw_count = 0,
      sw_macros = replicate BAL_SLIDING_WINDOW_CAPACITY macro_zero\<rparr> \<and>
    tc_assembler c = \<lparr>xa_buffer = eb_rw_pointer b, xa_rx_buffer = eb_rx_pointer b,
      xa_capacity = TIER1_BUFFER_SIZE_BYTES, xa_offset = 0, xa_status = BAL_SUCCESS, xa_mem = bytes,
      xa_oob = False, xa_abort = False, xa_rx_writable = eb_rx_writable b\<rparr>"
    by (auto simp: bal_tier1_compiler_init_def bal_x86_assembler_init_def bal_sliding_window_init_def compiler_zero_def
        Let_def split: if_splits)
  with s e b show ?thesis
    by (intro exI [of _ p] exI [of _ s] exI [of _ h1]) (auto simp: internal_engine_state_zero_def)
qed

section \<open>Properties\<close>

lemma engine_runs_guest:
  assumes "engine_runs tables flags interface L cpu P n w" and "free_running flags" and "L < 65535"
    and "arm_run_program flags P n (cpu_view (xs_mem (ew_machine w)) cpu) = Some g"
  shows "\<exists>k w'. (\<forall>steps \<ge> k. bal_engine_run_thread tables return_site steps w =
      Some (Inr (en_status (ew_engine w), w'))) \<and>
    cpu_view (xs_mem (ew_machine w')) cpu = g \<and> outside_cpu cpu (ew_machine w) (ew_machine w')"
proof -
  from run_loop_runs [OF assms, of return_site] obtain k j w' where
    run: "\<And>steps. k \<le> steps \<Longrightarrow> run_loop tables return_site steps w = Some (Inr w')"
    and inv: "engine_runs tables flags interface L cpu P j w'" "en_status (ew_engine w') = en_status (ew_engine w)"
    and w': "cpu_view (xs_mem (ew_machine w')) cpu = g" "outside_cpu cpu (ew_machine w) (ew_machine w')" by blast
  from assms(1) obtain p s where s: "en_engine_state (ew_engine w) = Some (p, s)" "\<not> es_is_executing s"
    by (auto simp: engine_runs_def)
  from inv(1) obtain p' s' where s': "en_engine_state (ew_engine w') = Some (p', s')" "\<not> es_is_executing s'"
    by (auto simp: engine_runs_def)
  have "release_engine s' = s'" using s'(2) by (simp add: release_engine_def)
  then have release: "update_state (ew_engine w') p' (release_engine s') = ew_engine w'"
    using s'(1) by (simp add: update_state_def)
  have "claim_engine s = Some s" using s(2) by (simp add: claim_engine_def)
  moreover have "w\<lparr>ew_engine := update_state (ew_engine w) p s\<rparr> = w" using s(1) by (simp add: update_state_def)
  ultimately have "bal_engine_run_thread tables return_site steps w =
      Some (Inr (en_status (ew_engine w), w'))" if "k \<le> steps" for steps
    using that run s s'(1) inv(2) release by (simp add: bal_engine_run_thread_def)
  with w' show ?thesis by blast
qed

text \<open>
  C2: the engine runs guest programs. For a program of supported blocks that reaches the
  sentinel after at most \<open>n\<close> blocks, on an engine with room for \<open>n\<close> blocks, the engine's
  thread function returns, with its status unchanged, and leaves in the CPU structure exactly
  the state the architecture prescribes, and all other memory as it was; translated blocks
  come from the cache or are translated anew, and both give the same result.
\<close>

theorem engine_runs_program:
  assumes "engine_runs tables flags interface L cpu P n w" and "free_running flags" and "L < 65535"
    and "arm_run_program flags P n (cpu_view (xs_mem (ew_machine w)) cpu) = Some g"
  shows "\<exists>k w'. (\<forall>steps \<ge> k. bal_engine_run_thread tables return_site steps w =
      Some (Inr (en_status (ew_engine w), w'))) \<and>
    cpu_view (xs_mem (ew_machine w')) cpu = g \<and> outside_cpu cpu (ew_machine w) (ew_machine w')"
  using assms by (rule engine_runs_guest)

definition sample_memory :: "u64 \<Rightarrow> u8" where
  "sample_memory p =
    (if 0x40F0 \<le> p \<and> p < 0x40F8 then 0xFF
     else if p = 0x8000 then 0x40 else if p = 0x8001 then 0x05 else if p = 0x8002 then 0x80
     else if p = 0x8003 then 0xD2
     else if p = 0x8004 then 0x01 else if p = 0x8005 then 0x04 else if p = 0x8006 then 0x00
     else if p = 0x8007 then 0x91
     else if p = 0x8008 then 0xC0 else if p = 0x8009 then 0x03 else if p = 0x800A then 0x5F
     else if p = 0x800B then 0xD6 else 0)"

definition sample_machine :: x86_state where
  "sample_machine = \<lparr>xs_reg = (\<lambda>r. 0), xs_mem = sample_memory, xs_stack = [], xs_cf = False,
     xs_zf = False, xs_sf = False, xs_of = False, xs_pf = False\<rparr>"

definition sample_program :: guest_program where
  "sample_program pc = (if pc = 0
     then Some ([A_movz 0 42 0, A_add_sub_imm False False 1 0 1], A_ret 30) else None)"

text \<open>An allocator that hands out rising addresses and one executable mapping.\<close>

definition sample_allocator :: "u64 bal_allocator_t" where
  "sample_allocator = \<lparr>al_allocate = Some (\<lambda>h al n. (h, h + n)), al_free = Some (\<lambda>h p n. h),
     al_allocate_executable = Some (\<lambda>h al n. (\<lparr>eb_rw_pointer = 0x10000000, eb_rx_pointer = 0x20000000,
       eb_rx_writable = True\<rparr>, h)),
     al_free_executable = Some (\<lambda>h b n. h), al_protect_rw = Some (\<lambda>h b n. h),
     al_protect_rx = Some (\<lambda>h b n. h)\<rparr>"

definition sample_mapping :: "u8 list" where
  "sample_mapping = replicate (2 ^ 24) 0"

lemma sample_mapping_length: "length sample_mapping = 2 ^ 24"
  unfolding sample_mapping_def by (rule length_replicate)

text \<open>The block of the sample program, as long as nothing but the CPU structure changes.\<close>

lemma sample_block:
  assumes "\<And>p. 0x8000 \<le> p \<Longrightarrow> p < 0x800C \<Longrightarrow> xs_mem m p = sample_memory p" "outside_cpu 0x4000 m m'"
  shows "block_in_memory (host_word m') sample_interface 0 ([0xD2800540, 0x91000401] @ [0xD65F03C0])"
proof -
  have far: "288 \<le> unat (p - 0x4000)" if "0x8000 \<le> p" "p < 0x800C" for p :: u64
  proof -
    have "unat (p - 0x4000) = unat p - unat (0x4000 :: u64)"
      using that by (intro unat_sub) (simp add: word_le_nat_alt)
    with that show ?thesis by (simp add: word_le_nat_alt)
  qed
  have mem: "xs_mem m' p = sample_memory p" if "0x8000 \<le> p" "p < 0x800C" for p
    using assms(2) assms(1) [OF that] far [OF that] by (simp add: outside_cpu_def)
  have "host_word m' 0x8000 = 0xD2800540" "host_word m' 0x8004 = 0x91000401" "host_word m' 0x8008 = 0xD65F03C0"
    by (simp_all add: host_word_def mem sample_memory_def of_le32_def)
  then show ?thesis
    by (simp add: block_in_memory_def sample_interface_def bal_flat_translation_interface_translate_def)
qed

lemma sample_program_in_memory:
  assumes "\<And>p. 0x8000 \<le> p \<Longrightarrow> p < 0x800C \<Longrightarrow> xs_mem m p = sample_memory p"
  shows "program_in_memory sample_tables 0 sample_interface 2 0x4000 sample_program m"
proof -
  have sup: "list_all2 (supported sample_tables) [0xD2800540, 0x91000401] [A_movz 0 42 0, A_add_sub_imm False False 1 0 1]"
    by (simp add: supported_def sample_decode data_processing_metadata_def) code_simp
  have branch: "supported_branch sample_tables 0xD65F03C0 (A_ret 30)"
    by (simp add: supported_branch_def sample_decode) code_simp
  have "program_block sample_tables 0 sample_interface 2 m' 0 [A_movz 0 42 0, A_add_sub_imm False False 1 0 1] (A_ret 30)"
    if "outside_cpu 0x4000 m m'" for m'
    using sup branch sample_block [OF assms that] unfolding program_block_def
    by (intro exI [of _ "[0xD2800540, 0x91000401]"] exI [of _ "0xD65F03C0"]) (simp add: flag_set_def)
  then show ?thesis by (auto simp: program_in_memory_def sample_program_def)
qed

text \<open>Initialisation writes nothing but the CPU's pointer to the debug context.\<close>

lemma engine_init_memory:
  assumes "bal_engine_init installs bytes engine cpu allocator interface heap mem = (err, engine', heap', mem')"
  shows "mem' = mem \<or> (\<exists>v. mem' = store64 mem (cpu + offset_debug_context) v)"
  using assms by (auto simp: bal_engine_init_def Let_def case_prod_unfold split: option.splits if_splits)

lemma sample_memory_after:
  assumes "mem' = sample_memory \<or> (\<exists>v. mem' = store64 sample_memory (0x4000 + offset_debug_context) v)"
  shows "0x8000 \<le> p \<Longrightarrow> p < 0x800C \<Longrightarrow> mem' p = sample_memory p"
    "load64 mem' 0x4100 = 0" "load64 mem' 0x40F0 = 0xFFFFFFFFFFFFFFFF"
proof -
  have far: "8 \<le> unat (p - 0x4108)" if "0x8000 \<le> p" for p :: u64
  proof -
    have "unat (p - 0x4108) = unat p - unat (0x4108 :: u64)"
      using that by (intro unat_sub) (simp add: word_le_nat_alt)
    with that show ?thesis by (simp add: word_le_nat_alt)
  qed
  then show "0x8000 \<le> p \<Longrightarrow> p < 0x800C \<Longrightarrow> mem' p = sample_memory p"
    using assms by (auto simp: offset_debug_context_def store64_other)
  have base: "load64 sample_memory 0x4100 = 0" "load64 sample_memory 0x40F0 = 0xFFFFFFFFFFFFFFFF"
    by (simp_all add: load64_def sample_memory_def of_le32_def)
  have "disjoint64 0x4108 0x4100" "disjoint64 0x4108 0x40F0" by (simp_all add: disjoint64_def)
  then have "load64 (store64 sample_memory 0x4108 v) 0x4100 = load64 sample_memory 0x4100"
    "load64 (store64 sample_memory 0x4108 v) 0x40F0 = load64 sample_memory 0x40F0" for v
    by (simp_all add: load64_store64_other)
  with assms base show "load64 mem' 0x4100 = 0" "load64 mem' 0x40F0 = 0xFFFFFFFFFFFFFFFF"
    by (auto simp: offset_debug_context_def)
qed

definition sample_started :: "(u64, flat_translation_interface_t) engine_world \<Rightarrow> bool" where
  "sample_started w \<longleftrightarrow> (\<exists>e heap mem. bal_engine_init (True, True) sample_mapping (Some engine_zero) 0x4000
      (Some sample_allocator) (Some sample_interface) 0x100000 sample_memory = (BAL_SUCCESS, Some e, heap, mem) \<and>
    w = \<lparr>ew_engine = e\<lparr>en_flags := 0\<rparr>, ew_heap = heap, ew_machine = sample_machine\<lparr>xs_mem := mem\<rparr>\<rparr>)"

lemma sample_init_arguments:
  "init_arguments_ok 0x4000 (Some sample_allocator) (Some sample_interface)"
  "the (al_allocate sample_allocator) 0x100000 MEMORY_ALIGNMENT SIZEOF_INTERNAL_ENGINE_STATE =
     (0x100000, 0x100000 + SIZEOF_INTERNAL_ENGINE_STATE)"
  "the (al_allocate_executable sample_allocator) (0x100000 + SIZEOF_INTERNAL_ENGINE_STATE) 4096
     TIER1_BUFFER_SIZE_BYTES = (\<lparr>eb_rw_pointer = 0x10000000, eb_rx_pointer = 0x20000000,
       eb_rx_writable = True\<rparr>,
       0x100000 + SIZEOF_INTERNAL_ENGINE_STATE)"
  "MACRO_BYTES * (BLOCK_MACROS 2 * 1) \<le> 2 ^ 24"
  by (simp_all add: init_arguments_ok_def sample_allocator_def sample_interface_def MACRO_BYTES_def
      BLOCK_MACROS_def MACROS_PER_INSTRUCTION_def)

lemma sample_init:
  obtains err e heap mem where "bal_engine_init (True, True) sample_mapping (Some engine_zero) 0x4000
      (Some sample_allocator) (Some sample_interface) 0x100000 sample_memory = (err, e, heap, mem)"
    "program_in_memory sample_tables 0 sample_interface 2 0x4000 sample_program (sample_machine\<lparr>xs_mem := mem\<rparr>)"
proof -
  obtain err e heap mem where init: "bal_engine_init (True, True) sample_mapping (Some engine_zero) 0x4000
      (Some sample_allocator) (Some sample_interface) 0x100000 sample_memory = (err, e, heap, mem)"
    by (rule prod_cases4)
  have "program_in_memory sample_tables 0 sample_interface 2 0x4000 sample_program (sample_machine\<lparr>xs_mem := mem\<rparr>)"
    using sample_memory_after(1) [OF engine_init_memory [OF init]] by (intro sample_program_in_memory) simp
  with init that show thesis by blast
qed

lemma sample_started_runs:
  "\<exists>w. sample_started w \<and> engine_runs sample_tables 0 sample_interface 2 0x4000 sample_program 1 w \<and>
    en_status (ew_engine w) = BAL_SUCCESS"
proof -
  from sample_init obtain err e heap mem where init: "bal_engine_init (True, True) sample_mapping (Some engine_zero) 0x4000
      (Some sample_allocator) (Some sample_interface) 0x100000 sample_memory = (err, e, heap, mem)"
    and prog: "program_in_memory sample_tables 0 sample_interface 2 0x4000 sample_program (sample_machine\<lparr>xs_mem := mem\<rparr>)" .
  from engine_init_ready [OF sample_init_arguments(1,2) _ sample_init_arguments(3) _ _ _ sample_mapping_length
      sample_init_arguments(4) init prog] init
  show ?thesis by (auto simp: sample_started_def)
qed

text \<open>The sample: X0 becomes 42, X1 becomes 43, and the return goes to the sentinel.\<close>

lemma sample_outcome:
  assumes "bal_engine_init (True, True) sample_mapping (Some engine_zero) 0x4000
      (Some sample_allocator) (Some sample_interface) 0x100000 sample_memory = (err, e, heap, mem)"
  obtains g where "arm_run_program 0 sample_program 1 (cpu_view mem 0x4000) = Some g"
    "gs_pc g = BAL_ENGINE_SENTINEL" "gs_x g 0 = 42" "gs_x g 1 = 43"
proof -
  note start = sample_memory_after(2,3) [OF engine_init_memory [OF assms]]
  let ?g = "cpu_view mem 0x4000"
  have g: "gs_pc ?g = 0" "gs_x ?g 30 = BAL_ENGINE_SENTINEL"
    using start by (simp_all add: cpu_view_def offset_pc_def offset_x_def BAL_ENGINE_SENTINEL_def)
  let ?g' = "arm_run_block 0 0 [A_movz 0 42 0, A_add_sub_imm False False 1 0 1] (A_ret 30) ?g"
  have g': "gs_pc ?g' = BAL_ENGINE_SENTINEL" "gs_x ?g' 0 = 42" "gs_x ?g' 1 = 43"
    using g(2) by (simp_all add: arm_run_block_def Let_def write_zr_def write_sp_def read_zr_def
        arm_add_sub_def add_with_carry_def)
  have "arm_run_program 0 sample_program 1 ?g = Some ?g'"
    using g g'(1) by (simp add: arm_run_program.simps [of 0 sample_program] sample_program_def BAL_ENGINE_SENTINEL_def)
  with g' show thesis by (intro that)
qed

theorem engine_runs_program_witness:
  "\<exists>w k w'. sample_started w \<and>
    (\<forall>steps \<ge> k. bal_engine_run_thread sample_tables 0x400000 steps w = Some (Inr (BAL_SUCCESS, w'))) \<and>
    gs_x (cpu_view (xs_mem (ew_machine w')) 0x4000) 0 = 42 \<and>
    gs_x (cpu_view (xs_mem (ew_machine w')) 0x4000) 1 = 43 \<and>
    gs_pc (cpu_view (xs_mem (ew_machine w')) 0x4000) = BAL_ENGINE_SENTINEL"
proof -
  from sample_started_runs obtain w where w: "sample_started w"
    "engine_runs sample_tables 0 sample_interface 2 0x4000 sample_program 1 w" "en_status (ew_engine w) = BAL_SUCCESS"
    by blast
  then obtain e heap mem where init: "bal_engine_init (True, True) sample_mapping (Some engine_zero) 0x4000
      (Some sample_allocator) (Some sample_interface) 0x100000 sample_memory = (BAL_SUCCESS, Some e, heap, mem)"
    and mem: "xs_mem (ew_machine w) = mem" by (auto simp: sample_started_def)
  from sample_outcome [OF init] obtain g where g: "arm_run_program 0 sample_program 1 (cpu_view mem 0x4000) = Some g"
    "gs_pc g = BAL_ENGINE_SENTINEL" "gs_x g 0 = 42" "gs_x g 1 = 43" .
  from engine_runs_program [OF w(2) _ _ g(1) [folded mem], of "0x400000"] w(1,3) g
  show ?thesis by (fastforce simp: free_running_def flag_set_def)
qed

end
