(* ===== verification/Engine_Facts.thy ===== *)
theory Engine_Facts
  imports Engine_Correctness "HOL-Library.Multiset"
begin

text \<open>
  The engine's requests, its reset and its memory: stopping and clearing while the loop
  runs, what a reset overwrites, and what destruction gives back.
\<close>

section \<open>Requests while the loop runs\<close>

text \<open>
  The thread functions and the other threads, interleaved: a step is one pass of a loop that
  goes on or leaves it, one request of another thread between two passes, the exchange with
  which a thread function enters, or the store with which it returns. Resets and the
  destruction of the engine are left out.
\<close>

definition with_engine ::
  "(('h, 'c) bal_engine_t option \<Rightarrow> ('h, 'c) bal_engine_t option) \<Rightarrow>
   ('h, 'c) engine_world \<Rightarrow> ('h, 'c) engine_world" where
  "with_engine f w = (case f (Some (ew_engine w)) of None \<Rightarrow> w | Some e \<Rightarrow> w\<lparr>ew_engine := e\<rparr>)"

inductive engine_steps ::
  "decoder_tables \<Rightarrow> u64 \<Rightarrow> nat \<Rightarrow> ('h, 'c) engine_world \<Rightarrow> ('h, 'c) engine_world \<Rightarrow> bool"
  for tables return_site steps where
  refl: "engine_steps tables return_site steps w w"
| pass: "engine_steps tables return_site steps w v \<Longrightarrow>
    engine_pass tables return_site steps v = Some (Pass_next v') \<Longrightarrow> engine_steps tables return_site steps w v'"
| last: "engine_steps tables return_site steps w v \<Longrightarrow>
    engine_pass tables return_site steps v = Some (Pass_break v') \<Longrightarrow> engine_steps tables return_site steps w v'"
| stop: "engine_steps tables return_site steps w v \<Longrightarrow>
    engine_steps tables return_site steps w (with_engine bal_engine_stop_thread v)"
| clear: "engine_steps tables return_site steps w v \<Longrightarrow>
    engine_steps tables return_site steps w (with_engine bal_engine_clear_cache v)"
| flags: "engine_steps tables return_site steps w v \<Longrightarrow>
    engine_steps tables return_site steps w (v\<lparr>ew_engine := (ew_engine v)\<lparr>en_flags := f\<rparr>\<rparr>)"
| enter: "engine_steps tables return_site steps w v \<Longrightarrow> en_engine_state (ew_engine v) = Some (p, s) \<Longrightarrow>
    claim_engine s = Some s' \<Longrightarrow>
    engine_steps tables return_site steps w (v\<lparr>ew_engine := update_state (ew_engine v) p s'\<rparr>)"
| leave: "engine_steps tables return_site steps w v \<Longrightarrow> en_engine_state (ew_engine v) = Some (p, s) \<Longrightarrow>
    engine_steps tables return_site steps w (v\<lparr>ew_engine := update_state (ew_engine v) p (release_engine s)\<rparr>)"

definition state_of :: "('h, 'c) engine_world \<Rightarrow> internal_engine_state_t option" where
  "state_of w = map_option snd (en_engine_state (ew_engine w))"

definition stop_requested :: "('h, 'c) engine_world \<Rightarrow> bool" where
  "stop_requested w = (case state_of w of None \<Rightarrow> False | Some s \<Rightarrow> es_stop_requested s)"

lemma pass_stopped: "stop_requested w \<Longrightarrow> engine_pass tables return_site steps w = Some (Pass_break w)"
  by (auto simp: stop_requested_def state_of_def engine_pass_def split: option.splits)

lemma request_state:
  "stop_requested w \<Longrightarrow> stop_requested (with_engine bal_engine_stop_thread w)"
  "stop_requested w \<Longrightarrow> stop_requested (with_engine bal_engine_clear_cache w)"
  "ew_machine (with_engine f w) = ew_machine w" "ew_heap (with_engine f w) = ew_heap w"
  by (auto simp: stop_requested_def state_of_def with_engine_def bal_engine_stop_thread_def
      bal_engine_clear_cache_def split: option.splits)

lemma claim_state: "claim_engine s = Some s' \<Longrightarrow> s' = s \<and> \<not> es_is_executing s"
  by (auto simp: claim_engine_def split: if_splits)

lemma stop_requests: "state_of w \<noteq> None \<Longrightarrow> stop_requested (with_engine bal_engine_stop_thread w)"
  by (auto simp: stop_requested_def state_of_def with_engine_def bal_engine_stop_thread_def split: option.splits)

text \<open>The request stays, and nothing else happens.\<close>

lemma stop_stays:
  assumes "engine_steps tables return_site steps w w'" "stop_requested w"
  shows "stop_requested w' \<and> ew_machine w' = ew_machine w \<and> ew_heap w' = ew_heap w"
  using assms
proof (induction rule: engine_steps.induct)
  case (pass w v v')
  then show ?case by (simp add: pass_stopped)
next
  case (last w v v')
  then show ?case by (auto simp: pass_stopped)
next
  case (enter w v p s s')
  then show ?case by (auto simp: stop_requested_def state_of_def update_state_def dest!: claim_state)
next
  case (leave w v p s)
  then show ?case by (auto simp: stop_requested_def state_of_def update_state_def release_engine_def)
qed (auto simp: request_state, auto simp: stop_requested_def state_of_def)

lemma run_thread_stopped:
  assumes "stop_requested w"
  shows "\<exists>st. bal_engine_run_thread tables return_site steps w = Some (Inr (st, w))"
proof -
  from assms obtain p s where s: "en_engine_state (ew_engine w) = Some (p, s)"
    by (auto simp: stop_requested_def state_of_def split: option.splits)
  have upd: "w\<lparr>ew_engine := update_state (ew_engine w) p s\<rparr> = w" using s by (simp add: update_state_def)
  have "run_loop tables return_site steps w = Some (Inr w)"
    using assms by (simp add: run_loop.simps pass_stopped)
  moreover have "release_engine s = s" if "\<not> es_is_executing s" using that by (simp add: release_engine_def)
  ultimately show ?thesis
    using s upd
    by (cases "claim_engine s") (auto simp: bal_engine_run_thread_def dest: claim_state)
qed

text \<open>
  C18: a stop request is final. After \<open>bal_engine_stop_thread\<close> on an engine with a state, in
  whatever order threads enter, leave and make further requests (a reset excepted), no pass of
  a loop completes any more: no block is executed or translated, the machine and the
  allocator's state stay as they are, the loop is left at once and every later call of the
  thread function returns at once and changes nothing.
\<close>

theorem engine_stop_is_final:
  assumes "en_engine_state (ew_engine w) = Some (p, s)"
    and "engine_steps tables return_site steps (with_engine bal_engine_stop_thread w) w'"
  shows "ew_machine w' = ew_machine w \<and> ew_heap w' = ew_heap w \<and>
    run_loop tables return_site steps w' = Some (Inr w') \<and>
    (\<exists>st. bal_engine_run_thread tables return_site steps w' = Some (Inr (st, w')))"
proof -
  have "stop_requested (with_engine bal_engine_stop_thread w)"
    using assms(1) by (intro stop_requests) (simp add: state_of_def)
  from stop_stays [OF assms(2) this] show ?thesis
    by (simp add: request_state run_loop.simps pass_stopped run_thread_stopped)
qed

text \<open>The flag \<open>is_executing\<close> never becomes true.\<close>

definition is_executing :: "('h, 'c) engine_world \<Rightarrow> bool" where
  "is_executing w = (case state_of w of None \<Rightarrow> False | Some s \<Rightarrow> es_is_executing s)"

definition pc_of :: "('h, 'c) engine_world \<Rightarrow> u64" where
  "pc_of w = load64 (xs_mem (ew_machine w)) (en_cpu (ew_engine w) + offset_pc)"

lemma execute_block_state:
  "execute_block steps return_site h p s pc w = Some r \<Longrightarrow> r \<in> {Pass_next w', Pass_break w'} \<Longrightarrow>
   \<exists>c \<in> {es_block_cache s, block_cache_insert (es_block_cache s) pc h}. state_of w' = Some (s\<lparr>es_block_cache := c\<rparr>)"
  by (auto simp: execute_block_def Let_def state_of_def update_state_def split: option.splits if_splits)

text \<open>
  What a pass without a stop request comes down to: it crashes, leaves the loop, or executes
  a block, with the compiler as it was or after a translation.
\<close>

definition may_compile ::
  "decoder_tables \<Rightarrow> 'c bal_memory_interface_t option \<Rightarrow> bal_tier1_compiler_t \<Rightarrow> bal_tier1_compiler_t \<Rightarrow> bool" where
  "may_compile tables interface c c' \<longleftrightarrow> c' = c \<or>
     (\<exists>host h pc flags. compile_block tables host interface pc flags c = Some (Some (h, c')))"

lemma pass_without_state: "en_engine_state (ew_engine w) = None \<Longrightarrow> engine_pass tables return_site steps w = Some (Pass_crash w)"
  by (simp add: engine_pass_def)

lemma pass_faults:
  "en_engine_state (ew_engine w) = Some (p, s) \<Longrightarrow> \<not> es_stop_requested s \<Longrightarrow> handle_clear_request s = None \<Longrightarrow>
   engine_pass tables return_site steps w = Some (Pass_crash w)"
  by (simp add: engine_pass_def)

lemma pass_outcome:
  assumes "engine_pass tables return_site steps w = Some r" "en_engine_state (ew_engine w) = Some (p, s)"
    "\<not> es_stop_requested s" "handle_clear_request s = Some t"
  obtains (crash) v where "r = Pass_crash v"
    | (leave) c v where "r = Pass_break v" "state_of v = Some (t\<lparr>es_tier1_compiler := c\<rparr>)"
        "may_compile tables (en_memory_interface (ew_engine w)) (es_tier1_compiler t) c"
    | (execute) h c v where "h \<noteq> 0" "may_compile tables (en_memory_interface (ew_engine w)) (es_tier1_compiler t) c"
        "execute_block steps return_site h p (t\<lparr>es_tier1_compiler := c\<rparr>) (pc_of w) v = Some r"
proof -
  let ?e = "update_state (ew_engine w) p t" and ?pc = "pc_of w"
  let ?w = "w\<lparr>ew_engine := ?e\<rparr>"
  define h where "h = (if \<not> flag_set (en_flags (ew_engine w)) BAL_ENGINE_FLAG_DISABLE_BLOCK_CACHE
    then block_cache_lookup (es_block_cache t) ?pc else 0)"
  note pass = assms(1) [unfolded engine_pass_def Let_def assms(2) option.case prod.case if_not_P [OF assms(3)] assms(4)]
  have e: "en_flags ?e = en_flags (ew_engine w)" "en_cpu ?e = en_cpu (ew_engine w)" "en_allocator ?e = en_allocator (ew_engine w)"
    "state_of (w\<lparr>ew_engine := ?e\<lparr>en_flags := f\<rparr>\<rparr>) = Some (t\<lparr>es_tier1_compiler := es_tier1_compiler t\<rparr>)"
    "state_of ?w = Some (t\<lparr>es_tier1_compiler := es_tier1_compiler t\<rparr>)" for f
    by (simp_all add: update_state_def state_of_def)
  have mi: "en_memory_interface ?e = en_memory_interface (ew_engine w)" by (simp add: update_state_def)
  have pc: "load64 (xs_mem (ew_machine ?w)) (en_cpu ?e + offset_pc) = ?pc"
    by (simp add: update_state_def pc_of_def)
  note pass = pass [unfolded pc e(1,3), folded h_def]
  have refl: "may_compile tables (en_memory_interface (ew_engine w)) (es_tier1_compiler t) (es_tier1_compiler t)" by (simp add: may_compile_def)
  show thesis
  proof (cases "flag_set (en_flags (ew_engine w)) BAL_ENGINE_FLAG_INTERRUPT_PENDING \<or> ?pc = BAL_ENGINE_SENTINEL")
    case True
    with pass e obtain v where "r = Pass_break v" "state_of v = Some (t\<lparr>es_tier1_compiler := es_tier1_compiler t\<rparr>)"
      by (auto split: if_splits)
    with refl show thesis by (intro leave)
  next
    case going: False
    show thesis
    proof (cases "h = 0")
      case False
      have "execute_block steps return_site h p t ?pc ?w = Some r"
        using pass going False by simp
      with False refl show thesis by (intro execute [of h "es_tier1_compiler t" ?w]) simp_all
    next
      case True
      show thesis
      proof (cases "Option.bind (en_allocator (ew_engine w)) al_protect_rw")
        case None
        with pass going True show thesis by (auto intro: crash)
      next
        case (Some protect)
        let ?v = "?w\<lparr>ew_heap := protect (ew_heap ?w) (es_tier1_buffer t) (es_tier1_buffer_size t)\<rparr>"
        have cases: "(case compile_block tables (host_word (ew_machine w)) (en_memory_interface (ew_engine w)) ?pc
              (en_flags (ew_engine w)) (es_tier1_compiler t) of
            None \<Rightarrow> None | Some None \<Rightarrow> Some (Pass_crash ?v)
          | Some (Some (h, c)) \<Rightarrow>
              if h = 0 then Some (Pass_break (?v\<lparr>ew_engine := update_state ?e p (t\<lparr>es_tier1_compiler := c\<rparr>)\<rparr>
                \<lparr>ew_engine := (update_state ?e p (t\<lparr>es_tier1_compiler := c\<rparr>))\<lparr>en_status := tc_status c\<rparr>\<rparr>))
              else execute_block steps return_site h p (t\<lparr>es_tier1_compiler := c\<rparr>) ?pc
                (?v\<lparr>ew_engine := update_state ?e p (t\<lparr>es_tier1_compiler := c\<rparr>)\<rparr>)) = Some r"
          using pass going True Some by (simp add: mi)
        show thesis
        proof (cases "compile_block tables (host_word (ew_machine w)) (en_memory_interface (ew_engine w)) ?pc
            (en_flags (ew_engine w)) (es_tier1_compiler t)")
          case None
          with cases show thesis by simp
        next
          case (Some res)
          show thesis
          proof (cases res)
            case None
            with Some cases show thesis by (auto intro: crash [OF sym])
          next
            case (Some hc)
            obtain h' c where hc: "hc = (h', c)" by (cases hc)
            with \<open>compile_block _ _ _ _ _ _ = Some res\<close> Some have "may_compile tables (en_memory_interface (ew_engine w)) (es_tier1_compiler t) c"
              unfolding may_compile_def by blast
            with cases \<open>compile_block _ _ _ _ _ _ = Some res\<close> Some hc show thesis
              by (cases "h' = 0") (auto simp: state_of_def update_state_def intro: leave execute)
          qed
        qed
      qed
    qed
  qed
qed

lemma pass_state:
  assumes "engine_pass tables return_site steps w = Some r" "r \<in> {Pass_next w', Pass_break w'}"
  shows "\<exists>s. state_of w = Some s \<and> (r = Pass_next w' \<longrightarrow> \<not> es_stop_requested s) \<and>
    (state_of w' = Some s \<or> (\<exists>t c b. handle_clear_request s = Some t \<and>
       state_of w' = Some (t\<lparr>es_tier1_compiler := c, es_block_cache := b\<rparr>) \<and>
       may_compile tables (en_memory_interface (ew_engine w)) (es_tier1_compiler t) c))"
proof -
  from assms obtain p s where s: "en_engine_state (ew_engine w) = Some (p, s)"
    by (cases "en_engine_state (ew_engine w)") (auto simp: pass_without_state)
  then have st: "state_of w = Some s" by (simp add: state_of_def)
  show ?thesis
  proof (cases "es_stop_requested s")
    case True
    with assms s show ?thesis by (auto simp: engine_pass_def state_of_def)
  next
    case False
    with assms s obtain t where t: "handle_clear_request s = Some t"
      by (cases "handle_clear_request s") (auto simp: pass_faults)
    from assms(1) s False t show ?thesis
    proof (cases rule: pass_outcome)
      case (crash v)
      with assms(2) show ?thesis by auto
    next
      case (leave c v)
      then have "state_of w' = Some (t\<lparr>es_tier1_compiler := c, es_block_cache := es_block_cache t\<rparr>)"
        using assms(2) by auto
      with leave(3) st False t show ?thesis by blast
    next
      case (execute h c v)
      from execute_block_state [OF execute(3) assms(2)] obtain b where
        "state_of w' = Some (t\<lparr>es_tier1_compiler := c, es_block_cache := b\<rparr>)" by blast
      with execute(2) st False t show ?thesis by blast
    qed
  qed
qed

lemma request_executing: "handle_clear_request s = Some t \<Longrightarrow> es_is_executing t = es_is_executing s"
  by (auto simp: handle_clear_request_def split: if_splits)

lemma not_executing:
  assumes "engine_steps tables return_site steps w w'" "\<not> is_executing w"
  shows "\<not> is_executing w'"
  using assms
proof (induction rule: engine_steps.induct)
  case (pass w v v')
  then show ?case by (auto simp: is_executing_def dest!: pass_state [where w' = v'] request_executing)
next
  case (last w v v')
  then show ?case by (auto simp: is_executing_def dest!: pass_state [where w' = v'] request_executing)
next
  case (enter w v p s s')
  then show ?case by (auto simp: is_executing_def state_of_def update_state_def dest!: claim_state)
next
  case (leave w v p s)
  then show ?case by (auto simp: is_executing_def state_of_def update_state_def release_engine_def)
qed (auto simp: is_executing_def state_of_def with_engine_def bal_engine_stop_thread_def
      bal_engine_clear_cache_def set_invalid_argument_def split: option.splits)

text \<open>
  C24: the running flag is never set. The exchange at the start of the thread function
  replaces false by false: in every interleaving of threads that enter and leave, passes and
  requests from an engine whose flag is false, \<open>bal_engine_is_running\<close> answers false, also
  while threads are inside the loop, the exchange of one more thread succeeds, and so that
  thread runs the loop as well: it returns what the loop leaves.
\<close>

theorem engine_never_reports_running:
  assumes "engine_steps tables return_site steps w w'" "\<not> is_executing w"
  shows "fst (bal_engine_is_running (Some (ew_engine w'))) = False \<and>
    (\<forall>p s. en_engine_state (ew_engine w') = Some (p, s) \<longrightarrow> claim_engine s \<noteq> None) \<and>
    (\<forall>v. state_of w' \<noteq> None \<and> run_loop tables return_site steps w' = Some (Inr v) \<longrightarrow>
      (\<exists>v'. bal_engine_run_thread tables return_site steps w' = Some (Inr (en_status (ew_engine v), v'))))"
proof -
  have n: "\<not> is_executing w'" using assms by (rule not_executing)
  then have claim: "claim_engine s = Some s" if "en_engine_state (ew_engine w') = Some (p, s)" for p s
    using that by (simp add: is_executing_def state_of_def claim_engine_def)
  have "\<exists>v'. bal_engine_run_thread tables return_site steps w' = Some (Inr (en_status (ew_engine v), v'))"
    if s: "en_engine_state (ew_engine w') = Some (p, s)"
      and v: "run_loop tables return_site steps w' = Some (Inr v)" for v p s
  proof -
    have "w'\<lparr>ew_engine := update_state (ew_engine w') p s\<rparr> = w'" using s by (simp add: update_state_def)
    then show ?thesis
      using s v claim [OF s]
      by (cases "en_engine_state (ew_engine v)") (simp_all add: bal_engine_run_thread_def case_prod_unfold Let_def update_state_def [of "ew_engine v"])
  qed
  with n claim show ?thesis
    by (auto simp: is_executing_def state_of_def bal_engine_is_running_def split: option.splits)
qed

text \<open>The reset of the compiler faults exactly when the executable view may not be written.\<close>

lemma compiler_reset_faults:
  "bal_tier1_compiler_reset c = None \<longleftrightarrow> \<not> can_clear_rx (tc_assembler c)"
  by (auto simp: bal_tier1_compiler_reset_def bal_x86_assembler_reset_def reset_register_allocator_def
      clear_code_def can_clear_rx_def Let_def split: option.splits)

lemma clear_request_crashes:
  assumes "state_of w = Some s" "es_clear_cache_requested s" "\<not> es_stop_requested s"
    and "\<not> can_clear_rx (tc_assembler (es_tier1_compiler s))"
  shows "engine_pass tables return_site steps w = Some (Pass_crash w)"
proof -
  obtain p where "en_engine_state (ew_engine w) = Some (p, s)" using assms(1) by (auto simp: state_of_def)
  moreover have "handle_clear_request s = None" using assms(2,4) by (simp add: handle_clear_request_def compiler_reset_faults)
  ultimately show ?thesis using assms(3) by (intro pass_faults)
qed

lemma clear_request_cleared:
  assumes "handle_clear_request s = Some s'" "es_clear_cache_requested s"
  shows "es_block_cache s' = empty_cache" "\<not> es_clear_cache_requested s'"
  using assms by (auto simp: handle_clear_request_def)

lemma clear_pass_forgets:
  assumes s: "state_of w = Some s" "es_clear_cache_requested s" "\<not> es_stop_requested s"
    and pass: "engine_pass tables return_site steps w = Some r" "r \<in> {Pass_next w', Pass_break w'}" and q: "q \<noteq> pc_of w"
  shows "\<exists>s'. state_of w' = Some s' \<and> \<not> es_clear_cache_requested s' \<and> block_cache_lookup (es_block_cache s') q = 0"
proof -
  obtain p where p: "en_engine_state (ew_engine w) = Some (p, s)" using s(1) by (auto simp: state_of_def)
  obtain t where t: "handle_clear_request s = Some t"
    using pass p s(3) by (cases "handle_clear_request s") (auto simp: pass_faults)
  note clear = clear_request_cleared [OF t s(2)]
  have other: "block_cache_lookup (block_cache_insert empty_cache (pc_of w) h) q = 0" if "h \<noteq> 0" for h
    using block_cache.lookup_insert_other [OF block_cache.empty_wf that q] block_cache.lookup_empty by auto
  from pass(1) p s(3) t show ?thesis
  proof (cases rule: pass_outcome)
    case (crash v)
    with pass(2) show ?thesis by auto
  next
    case (leave c v)
    with pass(2) clear show ?thesis by (auto simp: block_cache.lookup_empty)
  next
    case (execute h c v)
    from execute_block_state [OF execute(3) pass(2)] clear other [OF execute(1)] block_cache.lookup_empty
    show ?thesis by auto
  qed
qed

text \<open>
  C19: what becomes of a request to clear the cache. Unless a stop is requested, too, the next
  pass after \<open>bal_engine_clear_cache\<close> crashes if the executable view of the code buffer may
  not be written: the reset of the assembler clears the buffer through that view, too. If the
  view may be written (or the buffer is empty), then when the pass has ended without a
  crash, going on or leaving the loop, the request is gone and the cache knows at most the
  block just executed: all code translated before the request is forgotten.
\<close>

theorem engine_clear_honoured:
  assumes "state_of w = Some s" "\<not> es_stop_requested s" "v = with_engine bal_engine_clear_cache w"
  shows "(\<not> can_clear_rx (tc_assembler (es_tier1_compiler s)) \<longrightarrow>
      engine_pass tables return_site steps v = Some (Pass_crash v)) \<and>
    (\<forall>r w' q. engine_pass tables return_site steps v = Some r \<and> r \<in> {Pass_next w', Pass_break w'} \<and> q \<noteq> pc_of v \<longrightarrow>
      can_clear_rx (tc_assembler (es_tier1_compiler s)) \<and>
      (\<exists>s'. state_of w' = Some s' \<and> \<not> es_clear_cache_requested s' \<and>
        block_cache_lookup (es_block_cache s') q = 0))"
proof -
  have v: "state_of v = Some (s\<lparr>es_clear_cache_requested := True\<rparr>)"
    using assms(1,3) by (auto simp: state_of_def with_engine_def bal_engine_clear_cache_def)
  have crash: "\<not> can_clear_rx (tc_assembler (es_tier1_compiler s)) \<Longrightarrow>
      engine_pass tables return_site steps v = Some (Pass_crash v)"
    using clear_request_crashes [OF v] assms(2) by simp
  moreover have "\<exists>s'. state_of w' = Some s' \<and> \<not> es_clear_cache_requested s' \<and> block_cache_lookup (es_block_cache s') q = 0"
    if "engine_pass tables return_site steps v = Some r" "r \<in> {Pass_next w', Pass_break w'}" "q \<noteq> pc_of v" for r w' q
    using clear_pass_forgets [OF v _ _ that] assms(2) by simp
  moreover have "can_clear_rx (tc_assembler (es_tier1_compiler s))"
    if "engine_pass tables return_site steps v = Some r" "r \<in> {Pass_next w', Pass_break w'}" for r w'
    by (rule ccontr) (use crash that in auto)
  ultimately show ?thesis by blast
qed

section \<open>Reset\<close>

text \<open>
  C23: the reset of an engine. On every initialised engine it first clears 16 MiB from the
  address of a 24 byte member on: 16514816 bytes lie behind the end of the allocation. Then
  the reset of the compiler faults if the executable view of the code buffer may not be
  written. Otherwise the reset succeeds; it has wiped the description of the executable
  buffer and the debug tables without releasing them, and forgotten a request to stop, and a
  second reset finds the size 0 and clears nothing.
\<close>

theorem engine_reset_overruns:
  assumes "en_engine_state e = Some (p, s)" "es_tier1_buffer_size s = TIER1_BUFFER_SIZE_BYTES"
  shows "fst (bal_engine_reset (Some e)) = 16514816 \<and>
    (\<not> can_clear_rx (tc_assembler (es_tier1_compiler s)) \<longrightarrow> snd (bal_engine_reset (Some e)) = None) \<and>
    (can_clear_rx (tc_assembler (es_tier1_compiler s)) \<longrightarrow>
      (\<exists>e' s'. snd (bal_engine_reset (Some e)) = Some (BAL_SUCCESS, Some e') \<and>
        en_engine_state e' = Some (p, s') \<and> es_tier1_buffer s' = executable_buffer_zero \<and>
        es_tier1_buffer_size s' = 0 \<and> es_block_cache s' = empty_cache \<and> \<not> es_stop_requested s' \<and>
        tc_debug_context (es_tier1_compiler s') \<in> {None, Some jit_debug_zero} \<and>
        (\<exists>e''. bal_engine_reset (Some e') = (0, Some (BAL_SUCCESS, Some e'')))))"
proof -
  let ?c = "es_tier1_compiler s"
  let ?d = "if tc_debug_context ?c = None then ?c else ?c\<lparr>tc_debug_context := Some jit_debug_zero\<rparr>"
  have tail: "SIZEOF_INTERNAL_ENGINE_STATE - offset_tier1_buffer = 262400"
    by (simp add: SIZEOF_INTERNAL_ENGINE_STATE_def offset_tier1_buffer_def BLOCK_CACHE_SETS_def)
  have le: "\<not> (262400 :: u64) \<le> 0" "(262400 :: u64) \<le> TIER1_BUFFER_SIZE_BYTES"
    "unat TIER1_BUFFER_SIZE_BYTES - 262400 = 16514816"
    by (simp_all add: TIER1_BUFFER_SIZE_BYTES_def)
  have reset: "bal_engine_reset (Some e) = (16514816, map_option (\<lambda>c. (BAL_SUCCESS, Some (e\<lparr>en_status := BAL_SUCCESS,
      en_engine_state := Some (p, internal_engine_state_zero\<lparr>es_tier1_compiler := c\<rparr>)\<rparr>))) (bal_tier1_compiler_reset ?d))"
    using assms le by (simp add: bal_engine_reset_def Let_def tail)
  have rx: "can_clear_rx (tc_assembler ?d) = can_clear_rx (tc_assembler ?c)" by simp
  show ?thesis
  proof (cases "can_clear_rx (tc_assembler ?c)")
    case False
    with rx compiler_reset_faults [of ?d] show ?thesis by (simp add: reset)
  next
    case True
    with rx compiler_reset_faults [of ?d] obtain c where c: "bal_tier1_compiler_reset ?d = Some c" by auto
    then have dc: "tc_debug_context c \<in> {None, Some jit_debug_zero}"
      and again: "can_clear_rx (tc_assembler c)"
      using True by (auto simp: bal_tier1_compiler_reset_def bal_x86_assembler_reset_def reset_register_allocator_def
          clear_code_def can_clear_rx_def Let_def split: option.splits if_splits)
    define e' where "e' = e\<lparr>en_status := BAL_SUCCESS,
      en_engine_state := Some (p, internal_engine_state_zero\<lparr>es_tier1_compiler := c\<rparr>)\<rparr>"
    obtain c' where "bal_tier1_compiler_reset c = Some c'"
      using again compiler_reset_faults [of c] by auto
    then have "\<exists>e''. bal_engine_reset (Some e') = (0, Some (BAL_SUCCESS, Some e''))"
      using le by (simp add: bal_engine_reset_def Let_def tail e'_def internal_engine_state_zero_def)
    with True dc c show ?thesis
      by (auto simp: reset e'_def internal_engine_state_zero_def)
  qed
qed

section \<open>The engine's memory\<close>

text \<open>The blocks a debug context owns.\<close>

definition debug_blocks :: "bal_jit_debug_context_t \<Rightarrow> (u64 \<times> size_t) multiset" where
  "debug_blocks c =
    (case jd_entries c of None \<Rightarrow> {#} | Some (p, _) \<Rightarrow> {#(p, jd_entry_capacity c * SIZEOF_BLOCK_ENTRY)#}) +
    (case jd_metadata_arena c of None \<Rightarrow> {#} | Some (p, _) \<Rightarrow> {#(p, jd_arena_capacity c)#})"

definition debug_pointers_ok :: "bal_jit_debug_context_t \<Rightarrow> bool" where
  "debug_pointers_ok c \<longleftrightarrow> (\<forall>p es. jd_entries c = Some (p, es) \<longrightarrow> p \<noteq> 0) \<and>
     (\<forall>p m. jd_metadata_arena c = Some (p, m) \<longrightarrow> p \<noteq> 0)"

lemma debug_bounds_blocks [simp]:
  "debug_blocks (c\<lparr>jd_jit_buffer_start := x, jd_jit_buffer_end := y\<rparr>) = debug_blocks c"
  "debug_pointers_ok (c\<lparr>jd_jit_buffer_start := x, jd_jit_buffer_end := y\<rparr>) = debug_pointers_ok c"
  by (auto simp: debug_blocks_def debug_pointers_ok_def split: option.split)

lemma registered_blocks:
  obtains r where "snd (bal_jit_debug_register_signal_handler i j (Some d) x y) = Some r"
    "debug_blocks r = debug_blocks d" "debug_pointers_ok r = debug_pointers_ok d"
proof -
  have "\<exists>r. snd (bal_jit_debug_register_signal_handler i j (Some d) x y) = Some r \<and>
      debug_blocks r = debug_blocks d \<and> debug_pointers_ok r = debug_pointers_ok d"
    by (simp add: bal_jit_debug_register_signal_handler_def Let_def)
  with that show thesis by blast
qed

context heap_allocator
begin

lemma debug_init_live:
  assumes "wf h" "bal_jit_debug_init (Some (allocate, free)) h (Some c) = (st, c', h')"
  shows "wf h'" "st = BAL_SUCCESS \<Longrightarrow> \<exists>d. c' = Some d \<and> debug_pointers_ok d \<and> live h' = debug_blocks d + live h"
    "st \<noteq> BAL_SUCCESS \<Longrightarrow> live h' = live h"
proof -
  let ?n = "BAL_JIT_DEBUG_ENTRY_CAPACITY * SIZEOF_BLOCK_ENTRY"
  obtain p h1 where p: "allocate h 64 ?n = (p, h1)" by fastforce
  obtain q h2 where q: "allocate h1 64 BAL_JIT_DEBUG_ARENA_CAPACITY_BYTES = (q, h2)" by fastforce
  note l1 = allocate_live [OF assms(1) p]
  then have l2: "wf h2 \<and> live h2 = (if q = 0 then live h1 else add_mset (q, BAL_JIT_DEBUG_ARENA_CAPACITY_BYTES) (live h1))"
    using allocate_live [OF _ q] by blast
  have undo: "p \<noteq> 0 \<Longrightarrow> q = 0 \<Longrightarrow> live (free h2 p ?n) = live h" using l1 l2 by (intro free_live) auto
  show "wf h'" using assms(2) p q l1 l2 by (auto simp: bal_jit_debug_init_def Let_def free_wf split: if_splits)
  show "st \<noteq> BAL_SUCCESS \<Longrightarrow> live h' = live h"
    using assms(2) p q l1 l2 undo by (auto simp: bal_jit_debug_init_def Let_def split: if_splits)
  show "st = BAL_SUCCESS \<Longrightarrow> \<exists>d. c' = Some d \<and> debug_pointers_ok d \<and> live h' = debug_blocks d + live h"
    using assms(2) p q l1 l2
    by (auto simp: bal_jit_debug_init_def Let_def debug_blocks_def debug_pointers_ok_def split: if_splits)
qed

lemma debug_destroy_live:
  assumes "wf h" "live h = debug_blocks c + M" "debug_pointers_ok c"
  shows "wf (snd (bal_jit_debug_destroy (Some free) h (Some c)))"
    "live (snd (bal_jit_debug_destroy (Some free) h (Some c))) = M"
proof -
  define k where "k = (case jd_entries c of None \<Rightarrow> h
    | Some (p, _) \<Rightarrow> free h p (jd_entry_capacity c * SIZEOF_BLOCK_ENTRY))"
  have w1: "wf k" using assms(1) by (auto simp: k_def free_wf split: option.split)
  have l1: "live k = (case jd_metadata_arena c of None \<Rightarrow> {#} | Some (p, _) \<Rightarrow> {#(p, jd_arena_capacity c)#}) + M"
    using assms by (auto simp: k_def debug_blocks_def debug_pointers_ok_def intro!: free_live split: option.split)
  then have l2: "live (case jd_metadata_arena c of None \<Rightarrow> k | Some (p, _) \<Rightarrow> free k p (jd_arena_capacity c)) = M"
    using w1 assms(3) by (auto simp: debug_pointers_ok_def intro!: free_live split: option.split)
  show "wf (snd (bal_jit_debug_destroy (Some free) h (Some c)))"
    using w1 by (auto simp: bal_jit_debug_destroy_def Let_def free_wf k_def [symmetric] split: option.split)
  show "live (snd (bal_jit_debug_destroy (Some free) h (Some c))) = M"
    using l2 by (simp add: bal_jit_debug_destroy_def Let_def k_def [symmetric])
qed

text \<open>
  An executable mapping is not heap memory: the two functions for it leave the heap's
  blocks alone.
\<close>

definition mappings_apart :: "'h bal_allocator_t \<Rightarrow> bool" where
  "mappings_apart a \<longleftrightarrow>
     (\<forall>f h al n. al_allocate_executable a = Some f \<longrightarrow> wf h \<longrightarrow> wf (snd (f h al n)) \<and> live (snd (f h al n)) = live h) \<and>
     (\<forall>f h b n. al_free_executable a = Some f \<longrightarrow> wf h \<longrightarrow> wf (f h b n) \<and> live (f h b n) = live h)"

lemma engine_init_live:
  assumes h: "wf h" and a: "al_allocate a = Some allocate" "al_free a = Some free" "mappings_apart a"
    and init: "bal_engine_init installs bytes (Some engine) cpu (Some a) interface h mem = (BAL_SUCCESS, Some e, h', mem')"
  shows "\<exists>p s d. en_engine_state e = Some (p, s) \<and> en_allocator e = Some a \<and> p \<noteq> 0 \<and> wf h' \<and>
    tc_debug_context (es_tier1_compiler s) = Some d \<and> debug_pointers_ok d \<and>
    live h' = debug_blocks d + add_mset (p, SIZEOF_INTERNAL_ENGINE_STATE) (live h)"
proof -
  obtain p h1 where p: "allocate h MEMORY_ALIGNMENT SIZEOF_INTERNAL_ENGINE_STATE = (p, h1)" by fastforce
  note l1 = allocate_live [OF h p]
  have args: "init_arguments_ok cpu (Some a) interface"
    using init by (auto simp: bal_engine_init_def split: if_splits)
  then obtain ax where ax: "al_allocate_executable a = Some ax" by (auto simp: init_arguments_ok_def)
  obtain b h2 where b: "ax h1 4096 TIER1_BUFFER_SIZE_BYTES = (b, h2)" by fastforce
  have "wf (snd (ax h1 4096 TIER1_BUFFER_SIZE_BYTES)) \<and> live (snd (ax h1 4096 TIER1_BUFFER_SIZE_BYTES)) = live h1"
    using a(3) ax l1 unfolding mappings_apart_def by blast
  then have l2: "wf h2 \<and> live h2 = live h1" by (simp add: b)
  obtain st c h3 where d: "bal_jit_debug_init (Some (allocate, free)) h2 (Some jit_debug_zero) = (st, c, h3)"
    by (rule prod_cases3)
  note l3 = debug_init_live [OF conjunct1 [OF l2] d]
  have zero: "debug_blocks jit_debug_zero = {#}" "debug_pointers_ok jit_debug_zero"
    by (simp_all add: debug_blocks_def debug_pointers_ok_def jit_debug_zero_def)
  define ctx where "ctx = (if st = BAL_SUCCESS then the (snd (bal_jit_debug_register_signal_handler (fst installs)
      (snd installs) c (eb_rx_pointer b) TIER1_BUFFER_SIZE_BYTES)) else jit_debug_zero)"
  have ctx: "debug_pointers_ok ctx \<and> live h3 = debug_blocks ctx + live h2"
  proof (cases "st = BAL_SUCCESS")
    case True
    then obtain d0 where d0: "c = Some d0" "debug_pointers_ok d0" "live h3 = debug_blocks d0 + live h2"
      using l3(2) by blast
    obtain r where "snd (bal_jit_debug_register_signal_handler (fst installs) (snd installs) (Some d0)
        (eb_rx_pointer b) TIER1_BUFFER_SIZE_BYTES) = Some r"
      "debug_blocks r = debug_blocks d0" "debug_pointers_ok r = debug_pointers_ok d0"
      by (rule registered_blocks)
    with True d0 show ?thesis by (simp add: ctx_def)
  next
    case False
    with l3(3) zero show ?thesis by (simp add: ctx_def)
  qed
  obtain es cc where cc: "bal_tier1_compiler_init (Some compiler_zero) b bytes TIER1_BUFFER_SIZE_BYTES (Some ctx) = (es, cc)"
    by fastforce
  have tc: "es = BAL_SUCCESS \<Longrightarrow> tc_debug_context (the cc) = Some ctx"
    using cc by (auto simp: bal_tier1_compiler_init_def bal_x86_assembler_init_def bal_sliding_window_init_def
        Let_def split: if_splits option.splits prod.splits)
  have "p \<noteq> 0 \<and> es = BAL_SUCCESS \<and> h' = h3 \<and> (\<exists>s. en_engine_state e = Some (p, s) \<and> es_tier1_compiler s = the cc) \<and>
      en_allocator e = Some a"
    using init args p b d cc a(1,2) ax
    by (cases "st = BAL_SUCCESS") (auto simp: bal_engine_init_def Let_def ctx_def split: if_splits)
  then show ?thesis using l1 l2 l3(1) ctx tc by auto
qed

lemma engine_destroy_live:
  assumes h: "wf h" and a: "al_free a = Some free" "mappings_apart a"
    and e: "en_engine_state e = Some (p, s)" "en_allocator e = Some a" "p \<noteq> 0"
      "tc_debug_context (es_tier1_compiler s) = Some d" "debug_pointers_ok d"
      "live h = debug_blocks d + add_mset (p, SIZEOF_INTERNAL_ENGINE_STATE) M"
  shows "live (snd (bal_engine_destroy (Some e) h)) = M"
proof -
  define h1 where "h1 = (case al_free_executable a of None \<Rightarrow> h
    | Some f \<Rightarrow> if eb_rw_pointer (es_tier1_buffer s) = 0 then h else f h (es_tier1_buffer s) (es_tier1_buffer_size s))"
  have l1: "wf h1 \<and> live h1 = live h" using h a(2) by (auto simp: h1_def mappings_apart_def split: option.split)
  let ?d = "bal_jit_debug_unregister_signal_handler d"
  have d: "debug_blocks ?d = debug_blocks d" "debug_pointers_ok ?d"
    using e(5) by (simp_all add: bal_jit_debug_unregister_signal_handler_def)
  obtain x h2 where x: "bal_jit_debug_destroy (Some free) h1 (Some ?d) = (x, h2)" by fastforce
  from debug_destroy_live [of h1 ?d "add_mset (p, SIZEOF_INTERNAL_ENGINE_STATE) M"] l1 d e(6) x
  have "wf h2" "live h2 = add_mset (p, SIZEOF_INTERNAL_ENGINE_STATE) M" by simp_all
  then have "live (free h2 p SIZEOF_INTERNAL_ENGINE_STATE) = M" using e(3) by (intro free_live)
  moreover have "snd (bal_engine_destroy (Some e) h) = free h2 p SIZEOF_INTERNAL_ENGINE_STATE"
    using e(1,2,4) a(1) x by (simp add: bal_engine_destroy_def Let_def h1_def)
  ultimately show ?thesis by simp
qed

end

text \<open>
  No leak in the normal life of an engine. Over the default allocator, destroying an
  engine whose initialisation succeeded gives back every heap block the initialisation took:
  the internal state and, when the debug context could be set up, its two tables.
\<close>

theorem engine_no_leak:
  assumes "lh_wf h" and "al_allocate a = Some bal_default_allocate" "al_free a = Some bal_default_free"
    and "libc.mappings_apart a"
    and "bal_engine_init installs bytes (Some engine) cpu (Some a) interface h mem = (BAL_SUCCESS, Some e, h', mem')"
  shows "mset (lh_live (snd (bal_engine_destroy (Some e) h'))) = mset (lh_live h)"
proof -
  from libc.engine_init_live [OF assms] obtain p s d where
    "en_engine_state e = Some (p, s)" "en_allocator e = Some a" "p \<noteq> 0" "lh_wf h'"
    "tc_debug_context (es_tier1_compiler s) = Some d" "debug_pointers_ok d"
    "mset (lh_live h') = debug_blocks d + add_mset (p, SIZEOF_INTERNAL_ENGINE_STATE) (mset (lh_live h))" by blast
  with assms(3,4) show ?thesis by (intro libc.engine_destroy_live)
qed

text \<open>
  C22: a leak on an error path. When the executable mapping fails, \<open>bal_engine_init\<close> reports
  the failure but keeps the internal state it has allocated, and the engine has no pointer
  to it: the block can never be freed.
\<close>

theorem engine_init_leaks_state:
  assumes "lh_wf h" and "al_allocate a = Some bal_default_allocate" "al_free a = Some bal_default_free"
    and "libc.mappings_apart a" and "init_arguments_ok cpu (Some a) (Some interface)"
    and "bal_default_allocate h MEMORY_ALIGNMENT SIZEOF_INTERNAL_ENGINE_STATE = (p, h1)" "p \<noteq> 0"
    and "eb_rw_pointer (fst (the (al_allocate_executable a) h1 4096 TIER1_BUFFER_SIZE_BYTES)) = 0"
  shows "\<exists>h'. bal_engine_init installs bytes (Some engine) cpu (Some a) (Some interface) h mem =
      (BAL_ERROR_ALLOCATION_FAILED, Some (engine\<lparr>en_status := BAL_ERROR_ALLOCATION_FAILED\<rparr>), h', mem) \<and>
    mset (lh_live h') = add_mset (p, SIZEOF_INTERNAL_ENGINE_STATE) (mset (lh_live h))"
proof -
  from assms(5) obtain ax where ax: "al_allocate_executable a = Some ax" by (auto simp: init_arguments_ok_def)
  obtain b h2 where b: "ax h1 4096 TIER1_BUFFER_SIZE_BYTES = (b, h2)" by fastforce
  note l1 = libc.allocate_live [OF assms(1,6)]
  have "mset (lh_live (snd (ax h1 4096 TIER1_BUFFER_SIZE_BYTES))) = mset (lh_live h1)"
    using assms(4) ax l1 unfolding libc.mappings_apart_def by blast
  then have "mset (lh_live h2) = add_mset (p, SIZEOF_INTERNAL_ENGINE_STATE) (mset (lh_live h))"
    using l1 assms(7) by (simp add: b)
  moreover have "bal_engine_init installs bytes (Some engine) cpu (Some a) (Some interface) h mem =
      (BAL_ERROR_ALLOCATION_FAILED, Some (engine\<lparr>en_status := BAL_ERROR_ALLOCATION_FAILED\<rparr>), h2, mem)"
    using assms(2,5-8) ax b by (simp add: bal_engine_init_def Let_def)
  ultimately show ?thesis by blast
qed

section \<open>Single stepping\<close>

text \<open>
  C25: single stepping does not look at the flag under which a block was translated. With
  the single step flag set, a block found in the cache is executed as a whole, and the
  thread function then returns: one step runs every instruction of the block.
\<close>

theorem single_step_runs_cached_block:
  assumes "en_engine_state (ew_engine w) = Some (p, s)" "\<not> es_stop_requested s" "\<not> es_clear_cache_requested s"
    and "en_allocator (ew_engine w) = Some a" "al_protect_rx a = Some rx"
    and "flag_set (en_flags (ew_engine w)) BAL_ENGINE_FLAG_SINGLE_STEP"
      "\<not> flag_set (en_flags (ew_engine w)) BAL_ENGINE_FLAG_INTERRUPT_PENDING"
      "\<not> flag_set (en_flags (ew_engine w)) BAL_ENGINE_FLAG_DISABLE_BLOCK_CACHE"
    and "pc_of w \<noteq> BAL_ENGINE_SENTINEL" "block_cache_lookup (es_block_cache s) (pc_of w) = h" "h \<noteq> 0"
    and "block_computes (xa_code (tc_assembler (es_tier1_compiler s)))
      (unat (h - xa_rx_buffer (tc_assembler (es_tier1_compiler s)))) (arm_run_block flags (pc_of w) is e)"
  shows "\<exists>k w'. (\<forall>steps \<ge> k. run_loop tables return_site steps w = Some (Inr w')) \<and>
    cpu_view (xs_mem (ew_machine w')) (en_cpu (ew_engine w)) =
      arm_run_block flags (pc_of w) is e (cpu_view (xs_mem (ew_machine w)) (en_cpu (ew_engine w)))"
proof -
  from call_block_computes [OF assms(12), of return_site "en_cpu (ew_engine w)" "ew_machine w"] obtain k m' where
    call: "\<And>steps. k \<le> steps \<Longrightarrow> call_block steps return_site (tc_assembler (es_tier1_compiler s)) h
        (en_cpu (ew_engine w)) (ew_machine w) = Some (Some m')"
    and m': "cpu_view (xs_mem m') (en_cpu (ew_engine w)) =
      arm_run_block flags (pc_of w) is e (cpu_view (xs_mem (ew_machine w)) (en_cpu (ew_engine w)))" by blast
  let ?s = "s\<lparr>es_block_cache := block_cache_insert (es_block_cache s) (pc_of w) h\<rparr>"
  let ?w = "w\<lparr>ew_engine := update_state (ew_engine w) p ?s,
    ew_heap := rx (ew_heap w) (es_tier1_buffer s) (es_tier1_buffer_size s), ew_machine := m'\<rparr>"
  have upd: "update_state (ew_engine w) p s = ew_engine w" using assms(1) by (simp add: update_state_def)
  have "run_loop tables return_site steps w = Some (Inr ?w)" if "k \<le> steps" for steps
    using assms(1-11) call [OF that] upd
    by (simp add: run_loop.simps [of _ _ _ w] engine_pass_def handle_clear_request_def execute_block_def
        pc_of_def [symmetric])
  with m' show ?thesis by (intro exI [of _ k] exI [of _ ?w]) simp
qed

section \<open>Witnesses\<close>

type_synonym sample_world = "(u64, flat_translation_interface_t) engine_world"

definition idle_world :: "internal_engine_state_t \<Rightarrow> sample_world" where
  "idle_world s = \<lparr>ew_engine = engine_zero\<lparr>en_engine_state := Some (0x100000, s), en_cpu := 0x4000,
     en_allocator := Some sample_allocator, en_memory_interface := Some sample_interface\<rparr>,
     ew_heap = 0x200000, ew_machine = sample_machine\<rparr>"

theorem engine_stop_is_final_witness:
  "let w = idle_world internal_engine_state_zero;
       w' = with_engine bal_engine_clear_cache (with_engine bal_engine_stop_thread w)
   in ew_machine w' = sample_machine \<and>
      (\<exists>st. bal_engine_run_thread sample_tables 0x400000 100 w' = Some (Inr (st, w')))"
proof -
  let ?w = "idle_world internal_engine_state_zero"
  let ?v = "with_engine bal_engine_stop_thread ?w"
  have steps: "engine_steps sample_tables 0x400000 100 ?v (with_engine bal_engine_clear_cache ?v)"
    by (intro engine_steps.clear engine_steps.refl)
  have "en_engine_state (ew_engine ?w) = Some (0x100000, internal_engine_state_zero)" by (simp add: idle_world_def)
  from engine_stop_is_final [OF this steps] show ?thesis by (simp add: Let_def idle_world_def)
qed

theorem engine_never_reports_running_witness:
  "let w = idle_world internal_engine_state_zero;
       w' = w\<lparr>ew_engine := update_state (ew_engine w) 0x100000 internal_engine_state_zero\<rparr>
   in claim_engine internal_engine_state_zero = Some internal_engine_state_zero \<and>
      engine_steps sample_tables 0x400000 100 w w' \<and>
      fst (bal_engine_is_running (Some (ew_engine w'))) = False"
proof -
  let ?w = "idle_world internal_engine_state_zero"
  let ?v = "?w\<lparr>ew_engine := update_state (ew_engine ?w) 0x100000 internal_engine_state_zero\<rparr>"
  have claim: "claim_engine internal_engine_state_zero = Some internal_engine_state_zero"
    by (simp add: claim_engine_def internal_engine_state_zero_def)
  have "en_engine_state (ew_engine ?w) = Some (0x100000, internal_engine_state_zero)" by (simp add: idle_world_def)
  from engine_steps.enter [OF engine_steps.refl this claim]
  have steps: "engine_steps sample_tables 0x400000 100 ?w ?v" .
  have "\<not> is_executing ?w"
    by (simp add: is_executing_def state_of_def idle_world_def internal_engine_state_zero_def)
  from engine_never_reports_running [OF steps this] steps claim show ?thesis by (simp add: Let_def)
qed

text \<open>A cleared compiler is ready again.\<close>

lemma compiler_reset_ready:
  assumes "ready n c" "bal_tier1_compiler_reset c = Some c'"
  shows "ready (unat (xa_capacity (tc_assembler c))) c'" "buffer_of (tc_assembler c') = buffer_of (tc_assembler c)"
  using assms
  by (auto simp: bal_tier1_compiler_reset_def reset_register_allocator_def bal_x86_assembler_reset_def clear_code_def
      bal_sliding_window_reset_def ready_def sw_wf_def xa_room_def xa_wf_def xa_ok_def Let_def buffer_of_def
      split: if_splits)

lemma clear_code_invariant:
  assumes "code_invariant flags P L n s" "handle_clear_request (s\<lparr>es_clear_cache_requested := True\<rparr>) = Some s'"
    and "MACRO_BYTES * (BLOCK_MACROS L * k) \<le> unat (xa_capacity (tc_assembler (es_tier1_compiler s)))"
  shows "code_invariant flags P L k s'"
proof -
  let ?c = "es_tier1_compiler s"
  from assms(2) obtain c' where c': "bal_tier1_compiler_reset ?c = Some c'"
    and s': "s' = s\<lparr>es_clear_cache_requested := False, es_tier1_compiler := c', es_block_cache := empty_cache\<rparr>"
    by (auto simp: handle_clear_request_def)
  have r: "ready (MACRO_BYTES * (BLOCK_MACROS L * n)) ?c" using assms(1) by (simp add: code_invariant_def Let_def)
  note c = compiler_reset_ready [OF r c']
  have "ready (MACRO_BYTES * (BLOCK_MACROS L * k)) c'"
    using c(1) assms(3) by (auto simp: ready_def elim: xa_room_mono)
  with assms(1) c(2) show ?thesis
    by (simp add: s' code_invariant_def Let_def buffer_of_def block_cache.sound_empty)
qed

lemma engine_pass_clear:
  assumes "en_engine_state (ew_engine w) = Some (p, s)" "\<not> es_stop_requested s" "handle_clear_request s = Some s'"
  shows "engine_pass tables return_site steps w =
    engine_pass tables return_site steps (w\<lparr>ew_engine := update_state (ew_engine w) p s'\<rparr>)"
proof -
  have "handle_clear_request s' = Some s'" "\<not> es_stop_requested s'"
    using assms(2,3) by (auto simp: handle_clear_request_def split: if_splits)
  with assms show ?thesis by (simp add: engine_pass_def update_state_def Let_def)
qed

lemma sample_clear_pass:
  "\<exists>(w :: sample_world) s steps w'. state_of w = Some s \<and> es_clear_cache_requested s \<and> pc_of w = 0 \<and>
     \<not> es_stop_requested s \<and> engine_pass sample_tables 0x400000 steps w = Some (Pass_next w')"
proof -
  from sample_started_runs obtain w where started: "sample_started w"
    and w: "engine_runs sample_tables 0 sample_interface 2 0x4000 sample_program 1 w" by blast
  from w obtain p s where s: "en_engine_state (ew_engine w) = Some (p, s)" "\<not> es_stop_requested s" "\<not> es_is_executing s"
    and inv: "code_invariant 0 sample_program 2 (Suc 0) s" by (auto simp: engine_runs_def)
  from started obtain e heap mem where init: "bal_engine_init (True, True) sample_mapping (Some engine_zero) 0x4000
      (Some sample_allocator) (Some sample_interface) 0x100000 sample_memory = (BAL_SUCCESS, Some e, heap, mem)"
    and e: "xs_mem (ew_machine w) = mem" "en_engine_state e = Some (p, s)" using s(1) by (auto simp: sample_started_def)
  have ax: "al_allocate_executable sample_allocator =
      Some (\<lambda>h al n. (\<lparr>eb_rw_pointer = 0x10000000, eb_rx_pointer = 0x20000000, eb_rx_writable = True\<rparr>, h))"
    by (simp add: sample_allocator_def)
  from engine_init_buffer [OF init ax] e(2) have writable: "can_clear_rx (tc_assembler (es_tier1_compiler s))"
    by (auto simp: can_clear_rx_def)
  let ?r = "s\<lparr>es_clear_cache_requested := True\<rparr>"
  from writable obtain t where t: "handle_clear_request ?r = Some t"
    using compiler_reset_faults [of "es_tier1_compiler s"] by (auto simp: handle_clear_request_def)
  then have t_flags: "\<not> es_stop_requested t" "\<not> es_is_executing t" "\<not> es_clear_cache_requested t"
    using s(2,3) by (auto simp: handle_clear_request_def)
  let ?w = "w\<lparr>ew_engine := update_state (ew_engine w) p ?r\<rparr>"
  let ?h = "w\<lparr>ew_engine := update_state (ew_engine w) p t\<rparr>"
  have "ready (MACRO_BYTES * (BLOCK_MACROS 2 * Suc 0)) (es_tier1_compiler s)" using inv by (simp add: code_invariant_def Let_def)
  then have "MACRO_BYTES * (BLOCK_MACROS 2 * Suc 0) \<le> unat (xa_capacity (tc_assembler (es_tier1_compiler s)))"
    by (auto simp: ready_def xa_room_def xa_wf_def xa_ok_def)
  from clear_code_invariant [OF inv t this] w s t_flags
  have runs: "engine_runs sample_tables 0 sample_interface 2 0x4000 sample_program (Suc 0) ?h"
    by (simp add: engine_runs_def update_state_def)
  note start = sample_memory_after(2) [OF engine_init_memory [OF init]]
  have pc: "gs_pc (cpu_view (xs_mem (ew_machine ?h)) 0x4000) = 0"
    using start by (simp add: e(1) cpu_view_def offset_pc_def)
  have "free_running 0" by (simp add: free_running_def flag_set_def)
  moreover have "sample_program 0 = Some ([A_movz 0 42 0, A_add_sub_imm False False 1 0 1], A_ret 30)"
    by (simp add: sample_program_def)
  ultimately obtain k w' where "\<forall>steps \<ge> k. engine_pass sample_tables 0x400000 steps ?h = Some (Pass_next w')"
    using engine_pass_runs [OF runs _ _ pc, of _ _ "0x400000"] by (fastforce simp: BAL_ENGINE_SENTINEL_def)
  moreover have "engine_pass sample_tables 0x400000 k ?w = engine_pass sample_tables 0x400000 k ?h"
    using engine_pass_clear [of ?w p ?r t] s t by (simp add: update_state_def)
  moreover have "pc_of ?w = 0"
    using w start by (simp add: pc_of_def update_state_def engine_runs_def e(1) offset_pc_def)
  ultimately show ?thesis
    by (intro exI [of _ ?w] exI [of _ ?r] exI [of _ k] exI [of _ w']) (simp add: state_of_def update_state_def s(2))
qed

theorem engine_clear_honoured_witness:
  "(\<exists>(w :: sample_world) steps w' s'. engine_pass sample_tables 0x400000 steps (with_engine bal_engine_clear_cache w) =
       Some (Pass_next w') \<and> state_of w' = Some s' \<and>
     \<not> es_clear_cache_requested s' \<and> block_cache_lookup (es_block_cache s') 0x1000 = 0) \<and>
   (let v = with_engine bal_engine_clear_cache (idle_world (internal_engine_state_zero\<lparr>es_tier1_compiler :=
          compiler_zero\<lparr>tc_assembler := (fresh_assembler 8)\<lparr>xa_rx_writable := False\<rparr>\<rparr>\<rparr>))
    in engine_pass sample_tables 0x400000 100 v = Some (Pass_crash v))"
proof -
  from sample_clear_pass obtain w :: sample_world and s steps w' where w: "state_of w = Some s" "es_clear_cache_requested s"
    "pc_of w = 0" "\<not> es_stop_requested s" "engine_pass sample_tables 0x400000 steps w = Some (Pass_next w')" by blast
  have same: "with_engine bal_engine_clear_cache w = w"
    using w(1,2) by (auto simp: state_of_def with_engine_def bal_engine_clear_cache_def)
  have "(0x1000 :: u64) \<noteq> pc_of w" by (simp add: w(3))
  with engine_clear_honoured [OF w(1,4) HOL.refl, of sample_tables "0x400000" steps] w(5) obtain s' where
    "state_of w' = Some s'" "\<not> es_clear_cache_requested s'" "block_cache_lookup (es_block_cache s') 0x1000 = 0"
    unfolding same by blast
  moreover have "engine_pass sample_tables 0x400000 steps (with_engine bal_engine_clear_cache w) = Some (Pass_next w')"
    unfolding same by (rule w(5))
  ultimately have honoured: "\<exists>(w :: sample_world) steps w' s'. engine_pass sample_tables 0x400000 steps
      (with_engine bal_engine_clear_cache w) = Some (Pass_next w') \<and> state_of w' = Some s' \<and>
      \<not> es_clear_cache_requested s' \<and> block_cache_lookup (es_block_cache s') 0x1000 = 0" by blast
  let ?s = "internal_engine_state_zero\<lparr>es_tier1_compiler :=
      compiler_zero\<lparr>tc_assembler := (fresh_assembler 8)\<lparr>xa_rx_writable := False\<rparr>\<rparr>\<rparr>"
  have "state_of (idle_world ?s) = Some ?s" "\<not> es_stop_requested ?s" "\<not> can_clear_rx (tc_assembler (es_tier1_compiler ?s))"
    by (simp_all add: state_of_def idle_world_def internal_engine_state_zero_def can_clear_rx_def fresh_assembler_def)
  with engine_clear_honoured [of "idle_world ?s" ?s _ sample_tables "0x400000" 100] honoured show ?thesis
    unfolding Let_def by blast
qed

theorem engine_reset_overruns_witness:
  "let s = internal_engine_state_zero\<lparr>es_tier1_buffer_size := TIER1_BUFFER_SIZE_BYTES,
       es_tier1_compiler := compiler_zero\<lparr>tc_assembler := fresh_assembler 8\<rparr>\<rparr>
   in fst (bal_engine_reset (Some (ew_engine (idle_world s)))) = 16514816 \<and>
      (\<exists>e' s'. snd (bal_engine_reset (Some (ew_engine (idle_world s)))) = Some (BAL_SUCCESS, Some e') \<and>
        en_engine_state e' = Some (0x100000, s') \<and> es_tier1_buffer s' = executable_buffer_zero)"
proof -
  let ?s = "internal_engine_state_zero\<lparr>es_tier1_buffer_size := TIER1_BUFFER_SIZE_BYTES,
       es_tier1_compiler := compiler_zero\<lparr>tc_assembler := fresh_assembler 8\<rparr>\<rparr>"
  have "en_engine_state (ew_engine (idle_world ?s)) = Some (0x100000, ?s)" by (simp add: idle_world_def)
  moreover have "can_clear_rx (tc_assembler (es_tier1_compiler ?s))" by (simp add: can_clear_rx_def fresh_assembler_def)
  ultimately show ?thesis using engine_reset_overruns [of "ew_engine (idle_world ?s)" _ ?s] unfolding Let_def by auto
qed

text \<open>The default allocator with room for the blocks of one engine, and mappings that succeed or fail.\<close>

definition fresh_heap :: libc_heap where
  "fresh_heap = \<lparr>lh_live = [(0x100, 8)], lh_next = [0x100000, 0x200000, 0x300000]\<rparr>"

definition default_allocator :: "u64 \<Rightarrow> libc_heap bal_allocator_t" where
  "default_allocator mapping = \<lparr>al_allocate = Some bal_default_allocate, al_free = Some bal_default_free,
     al_allocate_executable = Some (\<lambda>h al n. (\<lparr>eb_rw_pointer = mapping, eb_rx_pointer = mapping, eb_rx_writable = True\<rparr>, h)),
     al_free_executable = Some (\<lambda>h b n. h), al_protect_rw = Some (\<lambda>h b n. h),
     al_protect_rx = Some (\<lambda>h b n. h)\<rparr>"

lemma default_allocator_facts:
  "al_allocate (default_allocator m) = Some bal_default_allocate"
  "al_free (default_allocator m) = Some bal_default_free"
  "libc.mappings_apart (default_allocator m)"
  "init_arguments_ok 0x4000 (Some (default_allocator m)) (Some sample_interface)"
  "the (al_allocate_executable (default_allocator m)) h al n = (\<lparr>eb_rw_pointer = m, eb_rx_pointer = m, eb_rx_writable = True\<rparr>, h)"
  by (simp_all add: default_allocator_def libc.mappings_apart_def init_arguments_ok_def sample_interface_def)

lemma fresh_heap_facts:
  "lh_wf fresh_heap"
  "bal_default_allocate fresh_heap MEMORY_ALIGNMENT SIZEOF_INTERNAL_ENGINE_STATE =
     (0x100000, \<lparr>lh_live = [(0x100000, SIZEOF_INTERNAL_ENGINE_STATE), (0x100, 8)], lh_next = [0x200000, 0x300000]\<rparr>)"
  by code_simp+

theorem engine_no_leak_witness:
  "\<exists>e h mem. bal_engine_init (True, True) sample_mapping (Some engine_zero) 0x4000
      (Some (default_allocator 0x10000000)) (Some sample_interface) fresh_heap sample_memory =
      (BAL_SUCCESS, Some e, h, mem) \<and> mset (lh_live (snd (bal_engine_destroy (Some e) h))) = {#(0x100, 8)#}"
proof -
  obtain err e h mem where init: "bal_engine_init (True, True) sample_mapping (Some engine_zero) 0x4000
      (Some (default_allocator 0x10000000)) (Some sample_interface) fresh_heap sample_memory = (err, e, h, mem)"
    by (rule prod_cases4)
  let ?P = "(\<lambda>pc. None) :: guest_program"
  have "program_in_memory sample_tables 0 sample_interface 0 0x4000 ?P (sample_machine\<lparr>xs_mem := mem\<rparr>)"
    by (simp add: program_in_memory_def)
  from engine_init_ready [OF default_allocator_facts(4) _ _ default_allocator_facts(5) _ _ _ sample_mapping_length
      _ init this, of "0x100000" _ 0] fresh_heap_facts(2)
  obtain e' where e': "err = BAL_SUCCESS" "e = Some e'" by (auto simp: default_allocator_facts)
  from engine_no_leak [OF fresh_heap_facts(1) default_allocator_facts(1-3) init [unfolded e']] init e' show ?thesis
    by (simp add: fresh_heap_def)
qed

theorem engine_init_leaks_state_witness:
  "\<exists>h. bal_engine_init (True, True) sample_mapping (Some engine_zero) 0x4000
      (Some (default_allocator 0)) (Some sample_interface) fresh_heap sample_memory =
      (BAL_ERROR_ALLOCATION_FAILED, Some (engine_zero\<lparr>en_status := BAL_ERROR_ALLOCATION_FAILED\<rparr>), h, sample_memory) \<and>
    mset (lh_live h) = {#(0x100000, SIZEOF_INTERNAL_ENGINE_STATE), (0x100, 8)#}"
  using engine_init_leaks_state [OF fresh_heap_facts(1) default_allocator_facts(1-4) fresh_heap_facts(2),
      where installs = "(True, True)" and bytes = sample_mapping and engine = engine_zero and mem = sample_memory]
  by (simp add: default_allocator_facts) (simp add: fresh_heap_def)

theorem single_step_runs_cached_block_witness:
  "\<exists>(w :: sample_world) k w'. en_flags (ew_engine w) = BAL_ENGINE_FLAG_SINGLE_STEP \<and>
    (\<forall>steps \<ge> k. run_loop sample_tables 0x400000 steps w = Some (Inr w')) \<and>
    cpu_view (xs_mem (ew_machine w')) 0x4000 = arm_run_block 0 0 [A_movz 0 42 0, A_add_sub_imm False False 1 0 1]
      (A_ret 30) (cpu_view sample_memory 0x4000)"
proof -
  let ?is = "[A_movz 0 42 0, A_add_sub_imm False False 1 0 1]"
  obtain c0 where c0: "ready (unat TIER1_BUFFER_SIZE_BYTES) c0" "xa_rx_buffer (tc_assembler c0) = 0x20000000"
    "xa_capacity (tc_assembler c0) = TIER1_BUFFER_SIZE_BYTES"
    using compiler_init_ready [of "\<lparr>eb_rw_pointer = 0x10000000, eb_rx_pointer = 0x20000000, eb_rx_writable = True\<rparr>"
      TIER1_BUFFER_SIZE_BYTES sample_mapping None] sample_mapping_length
    by (auto simp: TIER1_BUFFER_SIZE_BYTES_def)
  let ?s0 = "internal_engine_state_zero\<lparr>es_tier1_compiler := c0\<rparr>"
  have "ready (MACRO_BYTES * (BLOCK_MACROS 2 * Suc 0)) c0"
    using c0(1) by (auto simp: ready_def MACRO_BYTES_def BLOCK_MACROS_def MACROS_PER_INSTRUCTION_def
        TIER1_BUFFER_SIZE_BYTES_def elim: xa_room_mono)
  then have inv: "code_invariant 0 sample_program 2 (Suc 0) ?s0"
    using c0(2,3) by (simp add: code_invariant_def Let_def internal_engine_state_zero_def block_cache.sound_empty
        TIER1_BUFFER_SIZE_BYTES_def)
  have prog: "program_in_memory sample_tables 0 sample_interface 2 0x4000 sample_program sample_machine"
    by (intro sample_program_in_memory) (simp add: sample_machine_def)
  have free: "free_running 0" by (simp add: free_running_def flag_set_def)
  have at: "sample_program 0 = Some (?is, A_ret 30)" by (simp add: sample_program_def)
  have short: "(2::nat) < 65535" by simp
  from compile_block_runs [OF inv free prog short at] obtain h and c :: bal_tier1_compiler_t where
    h: "h \<noteq> 0" "translated_at 0 sample_program (tc_assembler c) 0 h"
    by (elim exE conjE) (rule that)
  define s where "s = internal_engine_state_zero\<lparr>es_tier1_compiler := c,
    es_block_cache := block_cache_insert empty_cache 0 h\<rparr>"
  define w where "w = idle_world s\<lparr>ew_engine := (ew_engine (idle_world s))\<lparr>en_flags := BAL_ENGINE_FLAG_SINGLE_STEP\<rparr>\<rparr>"
  have pc: "pc_of w = 0"
    using sample_memory_after(2) [of sample_memory]
    by (simp add: pc_of_def w_def idle_world_def sample_machine_def offset_pc_def)
  have hit: "block_cache_lookup (es_block_cache s) 0 = h"
    using block_cache.lookup_insert [OF block_cache.empty_wf h(1)] by (simp add: s_def)
  have state: "en_engine_state (ew_engine w) = Some (0x100000, s)" "en_cpu (ew_engine w) = 0x4000"
      "en_flags (ew_engine w) = BAL_ENGINE_FLAG_SINGLE_STEP" "ew_machine w = sample_machine"
      "en_allocator (ew_engine w) = Some sample_allocator" "\<not> es_stop_requested s" "\<not> es_clear_cache_requested s"
    by (simp_all add: w_def idle_world_def s_def internal_engine_state_zero_def)
  have flags: "flag_set BAL_ENGINE_FLAG_SINGLE_STEP BAL_ENGINE_FLAG_SINGLE_STEP"
    "\<not> flag_set BAL_ENGINE_FLAG_SINGLE_STEP BAL_ENGINE_FLAG_INTERRUPT_PENDING"
    "\<not> flag_set BAL_ENGINE_FLAG_SINGLE_STEP BAL_ENGINE_FLAG_DISABLE_BLOCK_CACHE"
    by (simp_all add: flag_set_def BAL_ENGINE_FLAG_SINGLE_STEP_def BAL_ENGINE_FLAG_INTERRUPT_PENDING_def
        BAL_ENGINE_FLAG_DISABLE_BLOCK_CACHE_def)
  have rx: "\<exists>f. al_protect_rx sample_allocator = Some f" by (simp add: sample_allocator_def)
  have "block_computes (xa_code (tc_assembler (es_tier1_compiler s)))
      (unat (h - xa_rx_buffer (tc_assembler (es_tier1_compiler s)))) (arm_run_block 0 0 ?is (A_ret 30))"
    using h(2) at by (simp add: translated_at_def s_def)
  with single_step_runs_cached_block [OF state(1,6,7,5), of _ h 0 ?is "A_ret 30" sample_tables "0x400000"] rx flags hit h(1) pc state
  show ?thesis by (intro exI [of _ w]) (auto simp: BAL_ENGINE_SENTINEL_def sample_machine_def)
qed

end
