(* ===== verification/Arm_Assembler.thy ===== *)
theory Arm_Assembler
  imports Bal_Safety "HOL-Library.Signed_Division"
begin

text \<open>
  The ARM64 assembler (\<open>include/bal_assembler.h\<close>, \<open>src/bal_assembler.c\<close>), with which guest
  code is written into a caller's buffer of 32 bit words. Every function is translated with
  its guards in the order of the source, which differs from function to function: \<open>B\<close> and
  \<open>RET\<close> look at their arguments before they look at an earlier error. Log calls are left out.

  Beside the fields of the C structure the record has the words behind the buffer
  (\<open>as_mem\<close>) and a ghost flag that a write outside of them sets. A \<open>NULL\<close> structure is the
  \<open>None\<close> case of \<open>on_pointer\<close>.
\<close>

section \<open>State\<close>

record bal_assembler_t =
  as_buffer :: u64
  as_capacity :: size_t
  as_offset :: size_t
  as_status :: bal_error_t
  as_magic :: u32
  as_mem :: "u32 list"
  as_oob :: bool

definition assembler_cleared :: "bal_error_t \<Rightarrow> u32 \<Rightarrow> bal_assembler_t \<Rightarrow> bal_assembler_t" where
  "assembler_cleared status magic assembler = assembler\<lparr>as_magic := magic, as_buffer := 0,
     as_capacity := 0, as_offset := 0, as_status := status\<rparr>"

definition failed :: "bal_error_t \<Rightarrow> bal_assembler_t \<Rightarrow> bal_assembler_t" where
  "failed status assembler = assembler\<lparr>as_status := status\<rparr>"

text \<open>The words behind the buffer are an argument of the initialisation.\<close>

definition bal_assembler_init ::
  "bal_assembler_t option \<Rightarrow> u64 \<Rightarrow> u32 list \<Rightarrow> size_t \<Rightarrow> bal_error_t \<times> bal_assembler_t option" where
  "bal_assembler_init assembler buffer words size_in_words =
    (case assembler of
       None \<Rightarrow> (BAL_ERROR_INVALID_ARGUMENT, None)
     | Some a \<Rightarrow>
        (let a = assembler_cleared BAL_ERROR_INVALID_ARGUMENT 0 a in
         if buffer = 0 then (as_status a, Some a)
         else if size_in_words = 0 then (as_status a, Some a)
         else if \<not> bal_pointer_is_aligned buffer 4 then
           (BAL_ERROR_MEMORY_ALIGNMENT, Some (failed BAL_ERROR_MEMORY_ALIGNMENT a))
         else if size_in_words > SIZE_MAX div 4 then
           (BAL_ERROR_CAPACITY_TOO_BIG, Some (failed BAL_ERROR_CAPACITY_TOO_BIG a))
         else
           (BAL_SUCCESS, Some (a\<lparr>as_buffer := buffer, as_capacity := size_in_words,
              as_offset := 0, as_status := BAL_SUCCESS, as_magic := BAL_ASSEMBLER_MAGIC_ALIVE,
              as_mem := words\<rparr>))))"

definition alive :: "bal_assembler_t \<Rightarrow> bool" where
  "alive assembler = magic_ok (as_magic assembler) BAL_ASSEMBLER_MAGIC_ALIVE"

definition bal_assembler_reset :: "bal_assembler_t \<Rightarrow> bal_assembler_t" where
  "bal_assembler_reset assembler =
    (if \<not> alive assembler then failed BAL_ERROR_STRUCT_CORRUPTED assembler
     else if as_buffer assembler = 0 then failed BAL_ERROR_INVALID_ARGUMENT assembler
     else if as_capacity assembler = 0 then failed BAL_ERROR_INVALID_ARGUMENT assembler
     else
      (let n = unat (as_capacity assembler) in
       assembler\<lparr>as_offset := 0, as_status := BAL_SUCCESS,
         as_mem := replicate (min n (length (as_mem assembler))) 0 @ drop n (as_mem assembler),
         as_oob := (as_oob assembler \<or> length (as_mem assembler) < n)\<rparr>))"

definition bal_assembler_destroy :: "bal_assembler_t \<Rightarrow> bal_assembler_t" where
  "bal_assembler_destroy assembler =
    (if \<not> alive assembler then failed BAL_ERROR_STRUCT_CORRUPTED assembler
     else assembler_cleared BAL_ERROR_STRUCT_CORRUPTED BAL_ASSEMBLER_MAGIC_DEAD assembler)"

section \<open>Emission\<close>

text \<open>The room test sets the status itself; the second component is its result.\<close>

definition assembler_can_emit :: "bal_assembler_t \<Rightarrow> bal_assembler_t \<times> bool" where
  "assembler_can_emit assembler =
    (if as_offset assembler \<ge> as_capacity assembler
     then (failed BAL_ERROR_INSTRUCTION_OVERFLOW assembler, False)
     else (assembler, True))"

definition put_instruction :: "u32 \<Rightarrow> bal_assembler_t \<Rightarrow> bal_assembler_t" where
  "put_instruction instruction assembler =
    (let i = unat (as_offset assembler);
         a = (if i < length (as_mem assembler)
              then assembler\<lparr>as_mem := (as_mem assembler)[i := instruction]\<rparr>
              else assembler\<lparr>as_oob := True\<rparr>)
     in a\<lparr>as_offset := as_offset assembler + 1\<rparr>)"

definition bal_emit_add_immediate ::
  "bal_assembler_t \<Rightarrow> u32 \<Rightarrow> u32 \<Rightarrow> u16 \<Rightarrow> u8 \<Rightarrow> bal_assembler_t" where
  "bal_emit_add_immediate assembler rd rn imm12 shift =
    (if \<not> alive assembler then failed BAL_ERROR_STRUCT_CORRUPTED assembler
     else if as_status assembler \<noteq> BAL_SUCCESS then assembler
     else if as_buffer assembler = 0 then failed BAL_ERROR_INVALID_ARGUMENT assembler
     else if rd > 31 then failed BAL_ERROR_INVALID_ARGUMENT assembler
     else if rn > 31 then failed BAL_ERROR_INVALID_ARGUMENT assembler
     else if imm12 > 0xFFF then failed BAL_ERROR_INVALID_ARGUMENT assembler
     else if shift \<noteq> 0 \<and> shift \<noteq> 1 then failed BAL_ERROR_INVALID_ARGUMENT assembler
     else case assembler_can_emit assembler of (assembler, can_emit_return_value) \<Rightarrow>
       if \<not> can_emit_return_value then assembler
       else
        (let hard_coded_bits = 0x22; sf = 1;
             instruction = push_bit 31 sf OR push_bit 23 hard_coded_bits OR push_bit 22 (ucast shift)
               OR push_bit 10 (ucast imm12) OR push_bit 5 rn OR rd
         in put_instruction instruction assembler))"

definition bal_emit_add_shifted_register ::
  "bal_assembler_t \<Rightarrow> u32 \<Rightarrow> u32 \<Rightarrow> u32 \<Rightarrow> u8 \<Rightarrow> u8 \<Rightarrow> bal_assembler_t" where
  "bal_emit_add_shifted_register assembler rd rn rm shift shift_type =
    (if \<not> alive assembler then failed BAL_ERROR_STRUCT_CORRUPTED assembler
     else if as_buffer assembler = 0 then failed BAL_ERROR_INVALID_ARGUMENT assembler
     else if as_status assembler \<noteq> BAL_SUCCESS then assembler
     else if rd > 31 then failed BAL_ERROR_INVALID_ARGUMENT assembler
     else if rn > 31 then failed BAL_ERROR_INVALID_ARGUMENT assembler
     else if rm > 31 then failed BAL_ERROR_INVALID_ARGUMENT assembler
     else if shift > 63 then failed BAL_ERROR_INVALID_ARGUMENT assembler
     else if shift_type > 2 then failed BAL_ERROR_INVALID_ARGUMENT assembler
     else case assembler_can_emit assembler of (assembler, can_emit_return_value) \<Rightarrow>
       if \<not> can_emit_return_value then assembler
       else
        (let sf = 1; opcode = 0x0B;
             instruction = push_bit 31 sf OR push_bit 24 opcode OR push_bit 22 (ucast shift_type)
               OR push_bit 16 rm OR push_bit 10 (ucast shift) OR push_bit 5 rn OR rd
         in put_instruction instruction assembler))"

text \<open>The offset is an \<open>int32_t\<close>; its division by 4 is signed.\<close>

definition bal_emit_b :: "bal_assembler_t \<Rightarrow> u32 \<Rightarrow> bal_assembler_t" where
  "bal_emit_b assembler offset =
    (if \<not> alive assembler then failed BAL_ERROR_STRUCT_CORRUPTED assembler
     else if as_buffer assembler = 0 then failed BAL_ERROR_INVALID_ARGUMENT assembler
     else if offset AND 3 \<noteq> 0 then failed BAL_ERROR_PC_ALIGNMENT assembler
     else
      (let imm26_signed = sint offset sdiv 4 in
       if imm26_signed < -33554432 \<or> imm26_signed > 33554431 then
         failed BAL_ERROR_BRANCH_OFFSET_OVERFLOW assembler
       else case assembler_can_emit assembler of (assembler, can_emit_return_value) \<Rightarrow>
         if \<not> can_emit_return_value then assembler
         else if as_status assembler \<noteq> BAL_SUCCESS then assembler
         else
          (let hard_coded_bits = 0x14000000;
               imm26 = word_of_int imm26_signed AND 0x03FFFFFF
           in put_instruction (hard_coded_bits OR imm26) assembler)))"

definition bal_emit_br :: "bal_assembler_t \<Rightarrow> u32 \<Rightarrow> bal_assembler_t" where
  "bal_emit_br assembler rn =
    (if \<not> alive assembler then failed BAL_ERROR_STRUCT_CORRUPTED assembler
     else if as_buffer assembler = 0 then failed BAL_ERROR_INVALID_ARGUMENT assembler
     else if as_status assembler \<noteq> BAL_SUCCESS then assembler
     else if rn > 31 then failed BAL_ERROR_INVALID_ARGUMENT assembler
     else case assembler_can_emit assembler of (assembler, can_emit_return_status) \<Rightarrow>
       if \<not> can_emit_return_status then assembler
       else put_instruction (0xD61F0000 OR push_bit 5 rn) assembler)"

definition bal_emit_sub_immediate ::
  "bal_assembler_t \<Rightarrow> u32 \<Rightarrow> u32 \<Rightarrow> u16 \<Rightarrow> u8 \<Rightarrow> bal_assembler_t" where
  "bal_emit_sub_immediate assembler rd rn imm12 shift =
    (if \<not> alive assembler then failed BAL_ERROR_STRUCT_CORRUPTED assembler
     else if as_buffer assembler = 0 then failed BAL_ERROR_INVALID_ARGUMENT assembler
     else if as_status assembler \<noteq> BAL_SUCCESS then assembler
     else if rd > 31 then failed BAL_ERROR_INVALID_ARGUMENT assembler
     else if rn > 31 then failed BAL_ERROR_INVALID_ARGUMENT assembler
     else if imm12 > 0xFFF then failed BAL_ERROR_INVALID_ARGUMENT assembler
     else if shift \<noteq> 0 \<and> shift \<noteq> 1 then failed BAL_ERROR_INVALID_ARGUMENT assembler
     else case assembler_can_emit assembler of (assembler, can_emit_return_value) \<Rightarrow>
       if \<not> can_emit_return_value then assembler
       else
        (let hard_coded_bits = 0xA2; sf = 1;
             instruction = push_bit 31 sf OR push_bit 23 hard_coded_bits OR push_bit 22 (ucast shift)
               OR push_bit 10 (ucast imm12) OR push_bit 5 rn OR rd
         in put_instruction instruction assembler))"

text \<open>The mnemonic is used for logging only and left out.\<close>

definition emit_mov :: "bal_assembler_t \<Rightarrow> u32 \<Rightarrow> u16 \<Rightarrow> u8 \<Rightarrow> u32 \<Rightarrow> bal_assembler_t" where
  "emit_mov assembler rd imm shift opcode =
    (if \<not> alive assembler then failed BAL_ERROR_STRUCT_CORRUPTED assembler
     else if as_buffer assembler = 0 then failed BAL_ERROR_INVALID_ARGUMENT assembler
     else if as_status assembler \<noteq> BAL_SUCCESS then assembler
     else if rd > 31 then failed BAL_ERROR_INVALID_ARGUMENT assembler
     else if shift \<noteq> 0 \<and> shift \<noteq> 16 \<and> shift \<noteq> 32 \<and> shift \<noteq> 48 then
       failed BAL_ERROR_INVALID_ARGUMENT assembler
     else case assembler_can_emit assembler of (assembler, can_emit_return_value) \<Rightarrow>
       if \<not> can_emit_return_value then assembler
       else
        (let sf = 1; hw = ucast shift div 16; imm16 = ucast imm;
             instruction = push_bit 31 sf OR push_bit 29 (opcode AND 7) OR push_bit 23 0x25
               OR push_bit 21 hw OR push_bit 5 imm16 OR rd
         in put_instruction instruction assembler))"

definition bal_emit_movz :: "bal_assembler_t \<Rightarrow> u32 \<Rightarrow> u16 \<Rightarrow> u8 \<Rightarrow> bal_assembler_t" where
  "bal_emit_movz assembler rd imm shift = emit_mov assembler rd imm shift 2"

definition bal_emit_movk :: "bal_assembler_t \<Rightarrow> u32 \<Rightarrow> u16 \<Rightarrow> u8 \<Rightarrow> bal_assembler_t" where
  "bal_emit_movk assembler rd imm shift = emit_mov assembler rd imm shift 3"

definition bal_emit_movn :: "bal_assembler_t \<Rightarrow> u32 \<Rightarrow> u16 \<Rightarrow> u8 \<Rightarrow> bal_assembler_t" where
  "bal_emit_movn assembler rd imm shift = emit_mov assembler rd imm shift 0"

definition bal_emit_ret :: "bal_assembler_t \<Rightarrow> u32 \<Rightarrow> bal_assembler_t" where
  "bal_emit_ret assembler rn =
    (if \<not> alive assembler then failed BAL_ERROR_STRUCT_CORRUPTED assembler
     else if as_buffer assembler = 0 then failed BAL_ERROR_INVALID_ARGUMENT assembler
     else if rn > 31 then failed BAL_ERROR_INVALID_ARGUMENT assembler
     else if as_status assembler \<noteq> BAL_SUCCESS then assembler
     else case assembler_can_emit assembler of (assembler, can_emit_return_value) \<Rightarrow>
       if \<not> can_emit_return_value then assembler
       else put_instruction (0xD65F0000 OR push_bit 5 rn) assembler)"

section \<open>The calls of a client\<close>

datatype arm_call =
    Emit_add_immediate u32 u32 u16 u8
  | Emit_add_shifted_register u32 u32 u32 u8 u8
  | Emit_b u32
  | Emit_br u32
  | Emit_sub_immediate u32 u32 u16 u8
  | Emit_movz u32 u16 u8
  | Emit_movk u32 u16 u8
  | Emit_movn u32 u16 u8
  | Emit_arm_ret u32

primrec arm_emit :: "bal_assembler_t \<Rightarrow> arm_call \<Rightarrow> bal_assembler_t" where
  "arm_emit a (Emit_add_immediate rd rn imm sh) = bal_emit_add_immediate a rd rn imm sh"
| "arm_emit a (Emit_add_shifted_register rd rn rm sh ty) = bal_emit_add_shifted_register a rd rn rm sh ty"
| "arm_emit a (Emit_b offset) = bal_emit_b a offset"
| "arm_emit a (Emit_br rn) = bal_emit_br a rn"
| "arm_emit a (Emit_sub_immediate rd rn imm sh) = bal_emit_sub_immediate a rd rn imm sh"
| "arm_emit a (Emit_movz rd imm sh) = bal_emit_movz a rd imm sh"
| "arm_emit a (Emit_movk rd imm sh) = bal_emit_movk a rd imm sh"
| "arm_emit a (Emit_movn rd imm sh) = bal_emit_movn a rd imm sh"
| "arm_emit a (Emit_arm_ret rn) = bal_emit_ret a rn"

text \<open>Every operation on a live or dead structure, for statements about all histories.\<close>

datatype assembler_op = Op_emit arm_call | Op_reset | Op_destroy

primrec assembler_run :: "bal_assembler_t \<Rightarrow> assembler_op \<Rightarrow> bal_assembler_t" where
  "assembler_run a (Op_emit c) = arm_emit a c"
| "assembler_run a Op_reset = bal_assembler_reset a"
| "assembler_run a Op_destroy = bal_assembler_destroy a"

definition arm_api :: "assembler_op \<Rightarrow> bal_assembler_t option \<Rightarrow> bal_assembler_t option" where
  "arm_api opr = on_pointer (\<lambda>a. assembler_run a opr)"

end
