(* ===== verification/Arm_Assembler_Facts.thy ===== *)
theory Arm_Assembler_Facts
  imports Arm_Assembler Code_Buffer
begin

text \<open>
  The ARM64 assembler against an independent disassembler: every accepted call is the
  disassembly of the word it wrote, and histories of calls stay inside the buffer.
\<close>

section \<open>The words\<close>

definition move_wide_word :: "u32 \<Rightarrow> u32 \<Rightarrow> u16 \<Rightarrow> u8 \<Rightarrow> u32" where
  "move_wide_word opcode rd imm shift = push_bit 31 1 OR push_bit 29 (opcode AND 7) OR push_bit 23 0x25
     OR push_bit 21 (ucast shift div 16) OR push_bit 5 (ucast imm) OR rd"

definition add_sub_imm_word :: "u32 \<Rightarrow> u32 \<Rightarrow> u32 \<Rightarrow> u16 \<Rightarrow> u8 \<Rightarrow> u32" where
  "add_sub_imm_word hard_coded_bits rd rn imm12 shift = push_bit 31 1 OR push_bit 23 hard_coded_bits
     OR push_bit 22 (ucast shift) OR push_bit 10 (ucast imm12) OR push_bit 5 rn OR rd"

primrec arm_word :: "arm_call \<Rightarrow> u32" where
  "arm_word (Emit_add_immediate rd rn imm sh) = add_sub_imm_word 0x22 rd rn imm sh"
| "arm_word (Emit_add_shifted_register rd rn rm sh ty) = push_bit 31 1 OR push_bit 24 0x0B
     OR push_bit 22 (ucast ty) OR push_bit 16 rm OR push_bit 10 (ucast sh) OR push_bit 5 rn OR rd"
| "arm_word (Emit_b offset) = 0x14000000 OR (word_of_int (sint offset sdiv 4) AND 0x03FFFFFF)"
| "arm_word (Emit_br rn) = 0xD61F0000 OR push_bit 5 rn"
| "arm_word (Emit_sub_immediate rd rn imm sh) = add_sub_imm_word 0xA2 rd rn imm sh"
| "arm_word (Emit_movz rd imm sh) = move_wide_word 2 rd imm sh"
| "arm_word (Emit_movk rd imm sh) = move_wide_word 3 rd imm sh"
| "arm_word (Emit_movn rd imm sh) = move_wide_word 0 rd imm sh"
| "arm_word (Emit_arm_ret rn) = 0xD65F0000 OR push_bit 5 rn"

text \<open>What is wrong with the arguments of a call, if anything.\<close>

definition add_sub_args :: "u32 \<Rightarrow> u32 \<Rightarrow> u16 \<Rightarrow> u8 \<Rightarrow> bool" where
  "add_sub_args rd rn imm12 sh \<longleftrightarrow> rd \<le> 31 \<and> rn \<le> 31 \<and> imm12 \<le> 0xFFF \<and> (sh = 0 \<or> sh = 1)"

definition shifted_args :: "u32 \<Rightarrow> u32 \<Rightarrow> u32 \<Rightarrow> u8 \<Rightarrow> u8 \<Rightarrow> bool" where
  "shifted_args rd rn rm sh ty \<longleftrightarrow> rd \<le> 31 \<and> rn \<le> 31 \<and> rm \<le> 31 \<and> sh \<le> 63 \<and> ty \<le> 2"

definition move_args :: "u32 \<Rightarrow> u8 \<Rightarrow> bool" where
  "move_args rd sh \<longleftrightarrow> rd \<le> 31 \<and> (sh = 0 \<or> sh = 16 \<or> sh = 32 \<or> sh = 48)"

definition invalid_unless :: "bool \<Rightarrow> bal_error_t" where
  "invalid_unless b = (if b then BAL_SUCCESS else BAL_ERROR_INVALID_ARGUMENT)"

primrec call_error :: "arm_call \<Rightarrow> bal_error_t" where
  "call_error (Emit_add_immediate rd rn imm sh) = invalid_unless (add_sub_args rd rn imm sh)"
| "call_error (Emit_add_shifted_register rd rn rm sh ty) = invalid_unless (shifted_args rd rn rm sh ty)"
| "call_error (Emit_b offset) = (if \<not> 4 dvd sint offset then BAL_ERROR_PC_ALIGNMENT
     else if sint offset < - (2 ^ 27) \<or> 2 ^ 27 \<le> sint offset then BAL_ERROR_BRANCH_OFFSET_OVERFLOW
     else BAL_SUCCESS)"
| "call_error (Emit_br rn) = invalid_unless (rn \<le> 31)"
| "call_error (Emit_sub_immediate rd rn imm sh) = invalid_unless (add_sub_args rd rn imm sh)"
| "call_error (Emit_movz rd imm sh) = invalid_unless (move_args rd sh)"
| "call_error (Emit_movk rd imm sh) = invalid_unless (move_args rd sh)"
| "call_error (Emit_movn rd imm sh) = invalid_unless (move_args rd sh)"
| "call_error (Emit_arm_ret rn) = invalid_unless (rn \<le> 31)"

text \<open>
  The status after a call on a live structure. \<open>B\<close> reports bad arguments and a full buffer,
  and \<open>RET\<close> bad arguments, even over an earlier error.
\<close>

definition call_status :: "bal_assembler_t \<Rightarrow> arm_call \<Rightarrow> bal_error_t" where
  "call_status a c =
    (let full = as_capacity a \<le> as_offset a;
         masks_arguments = (case c of Emit_b _ \<Rightarrow> True | Emit_arm_ret _ \<Rightarrow> True | _ \<Rightarrow> False);
         masks_full = (case c of Emit_b _ \<Rightarrow> True | _ \<Rightarrow> False) in
     if call_error c \<noteq> BAL_SUCCESS \<and> (masks_arguments \<or> as_status a = BAL_SUCCESS) then call_error c
     else if full \<and> (masks_full \<or> as_status a = BAL_SUCCESS) then BAL_ERROR_INSTRUCTION_OVERFLOW
     else as_status a)"

section \<open>One call\<close>

lemma failed_simps [simp]:
  "as_status (failed e a) = e" "as_mem (failed e a) = as_mem a" "as_offset (failed e a) = as_offset a"
  "as_capacity (failed e a) = as_capacity a" "as_buffer (failed e a) = as_buffer a"
  "as_magic (failed e a) = as_magic a" "as_oob (failed e a) = as_oob a"
  "failed (as_status a) a = a"
  by (simp_all add: failed_def)

lemma branch_range:
  assumes "4 dvd sint (offset :: u32)"
  shows "(sint offset sdiv 4 < -33554432 \<or> 33554431 < sint offset sdiv 4) \<longleftrightarrow>
    sint offset < - (2 ^ 27) \<or> 2 ^ 27 \<le> sint offset"
proof -
  from assms obtain k where k: "sint offset = 4 * k" ..
  then have "sint offset sdiv 4 = k"
    by (cases k "0 :: int" rule: linorder_cases) (simp_all add: signed_divide_int_def sgn_mult)
  with k show ?thesis by auto
qed

lemma branch_aligned: "offset AND 3 = 0 \<longleftrightarrow> 4 dvd sint (offset :: u32)"
proof -
  have "offset AND 3 = take_bit 2 offset" by (simp add: take_bit_eq_mask mask_eq_exp_minus_1)
  then have "offset AND 3 = 0 \<longleftrightarrow> uint (take_bit 2 offset) = 0" by (simp only: uint_0_iff)
  also have "uint (take_bit 2 offset) = take_bit 2 (sint offset)"
    by (simp only: unsigned_take_bit_eq) (simp add: sint_uint take_bit_signed_take_bit)
  finally show ?thesis by (simp add: take_bit_eq_mod dvd_eq_mod_eq_0)
qed

text \<open>The emitters that look at the status first, in one form.\<close>

definition emit_checked :: "bool \<Rightarrow> u32 \<Rightarrow> bal_assembler_t \<Rightarrow> bal_assembler_t" where
  "emit_checked args word a = (if as_status a \<noteq> BAL_SUCCESS then a
     else if \<not> args then failed BAL_ERROR_INVALID_ARGUMENT a
     else if as_capacity a \<le> as_offset a then failed BAL_ERROR_INSTRUCTION_OVERFLOW a
     else put_instruction word a)"

lemma emit_checked_eqs:
  assumes "alive a" "as_buffer a \<noteq> 0"
  shows "bal_emit_add_immediate a rd rn imm sh = emit_checked (add_sub_args rd rn imm sh) (add_sub_imm_word 0x22 rd rn imm sh) a"
    and "bal_emit_sub_immediate a rd rn imm sh = emit_checked (add_sub_args rd rn imm sh) (add_sub_imm_word 0xA2 rd rn imm sh) a"
    and "bal_emit_add_shifted_register a rd rn rm sh ty =
      emit_checked (shifted_args rd rn rm sh ty) (arm_word (Emit_add_shifted_register rd rn rm sh ty)) a"
    and "bal_emit_br a rn = emit_checked (rn \<le> 31) (arm_word (Emit_br rn)) a"
    and "emit_mov a rd imm sh opcode = emit_checked (move_args rd sh) (move_wide_word opcode rd imm sh) a"
  using assms
  by (auto simp: emit_checked_def add_sub_args_def shifted_args_def move_args_def add_sub_imm_word_def
      move_wide_word_def bal_emit_add_immediate_def bal_emit_add_shifted_register_def bal_emit_br_def
      bal_emit_sub_immediate_def emit_mov_def assembler_can_emit_def Let_def not_less not_le)

lemma arm_emit_cases:
  assumes "alive a" "as_buffer a \<noteq> 0"
  shows "arm_emit a c = (if call_status a c \<noteq> BAL_SUCCESS then failed (call_status a c) a
    else put_instruction (arm_word c) a)"
proof (cases c)
  case (Emit_b offset)
  then show ?thesis
    using assms branch_range [of offset]
    by (simp add: bal_emit_b_def branch_aligned call_status_def assembler_can_emit_def Let_def)
next
  case (Emit_arm_ret rn)
  then show ?thesis
    using assms by (simp add: bal_emit_ret_def call_status_def assembler_can_emit_def Let_def invalid_unless_def not_less)
qed (use assms in \<open>simp_all add: bal_emit_movz_def bal_emit_movk_def bal_emit_movn_def emit_checked_eqs
    emit_checked_def call_status_def invalid_unless_def Let_def\<close>)

section \<open>Disassembly by the manual\<close>

text \<open>
  The bit patterns of the architecture manual for the forms the assembler knows: the fixed
  bits and, at their positions, the fields.
\<close>

definition bits_at :: "u32 \<Rightarrow> nat \<Rightarrow> nat \<Rightarrow> u32" where
  "bits_at w lo width = take_bit width (drop_bit lo w)"

definition a64_decode :: "u32 \<Rightarrow> arm_call option" where
  "a64_decode w =
    (let rd = bits_at w 0 5; rn = bits_at w 5 5; rm = bits_at w 16 5; imm16 = ucast (bits_at w 5 16);
         hw = ucast (16 * bits_at w 21 2); imm12 = ucast (bits_at w 10 12); sh = ucast (bits_at w 22 1) in
     if w AND 0xFF800000 = 0xD2800000 then Some (Emit_movz rd imm16 hw)
     else if w AND 0xFF800000 = 0x92800000 then Some (Emit_movn rd imm16 hw)
     else if w AND 0xFF800000 = 0xF2800000 then Some (Emit_movk rd imm16 hw)
     else if w AND 0xFF800000 = 0x91000000 then Some (Emit_add_immediate rd rn imm12 sh)
     else if w AND 0xFF800000 = 0xD1000000 then Some (Emit_sub_immediate rd rn imm12 sh)
     else if w AND 0xFF200000 = 0x8B000000 \<and> bits_at w 22 2 \<noteq> 3 then
       Some (Emit_add_shifted_register rd rn rm (ucast (bits_at w 10 6)) (ucast (bits_at w 22 2)))
     else if w AND 0xFC000000 = 0x14000000 then
       Some (Emit_b (4 * word_of_int (signed_take_bit 25 (uint w))))
     else if w AND 0xFFFFFC1F = 0xD61F0000 then Some (Emit_br rn)
     else if w AND 0xFFFFFC1F = 0xD65F0000 then Some (Emit_arm_ret rn)
     else None)"

text \<open>Fields of a word that is put together from narrow fields.\<close>

lemma narrow_bit: "take_bit n x = x \<Longrightarrow> bit (x :: u32) i \<Longrightarrow> i < n"
  by (metis bit_take_bit_iff)

lemma masked_field:
  assumes "take_bit n x = x"
  shows "push_bit k x AND M = push_bit k (x AND take_bit n (drop_bit k (M :: u32)))"
  by (rule bit_word_eqI) (auto simp: bit_simps dest: narrow_bit [OF assms])

lemma field_own: "take_bit n x = x \<Longrightarrow> k + n \<le> 32 \<Longrightarrow> take_bit n (drop_bit k (push_bit k x)) = (x :: u32)"
  by (rule bit_word_eqI) (auto simp: bit_simps dest: narrow_bit)

lemma field_above: "k + n \<le> j \<Longrightarrow> take_bit n (drop_bit k (push_bit j x)) = (0 :: u32)"
  by (rule bit_word_eqI) (auto simp: bit_simps)

lemma field_below: "take_bit m x = x \<Longrightarrow> j + m \<le> k \<Longrightarrow> drop_bit k (push_bit j x) = (0 :: u32)"
  by (rule bit_word_eqI) (auto simp: bit_simps dest: narrow_bit)

lemma narrow_less: "(x :: 'a :: len word) < 2 ^ n \<Longrightarrow> take_bit n x = x"
  by (simp add: take_bit_eq_mask less_mask_eq)

lemma narrow_ucast: "take_bit n x = x \<Longrightarrow> take_bit n (ucast (x :: 'a :: len word) :: u32) = ucast x"
  by (metis unsigned_take_bit_eq)

lemma narrow_fields:
  "rd \<le> (31 :: u32) \<Longrightarrow> take_bit 5 rd = rd"
  "imm12 \<le> (0xFFF :: u16) \<Longrightarrow> take_bit 12 (ucast imm12 :: u32) = ucast imm12"
  "take_bit 16 (ucast (imm :: u16) :: u32) = ucast imm"
  "sh \<le> (63 :: u8) \<Longrightarrow> take_bit 6 (ucast sh :: u32) = ucast sh"
  "ty \<le> (2 :: u8) \<Longrightarrow> take_bit 2 (ucast ty :: u32) = ucast ty"
  by (intro narrow_ucast narrow_less take_bit_word_eq_self; simp add: order_le_less_trans)+

lemma ucast_back [simp]:
  "ucast (ucast (x :: u16) :: u32) = x" "ucast (ucast (y :: u8) :: u32) = y"
  by (rule bit_word_eqI; auto simp: bit_simps)+

lemmas field_simps_at = field_own field_above field_above [where k = 0, simplified]
  field_below [where m = 5 and j = 0, simplified]
  field_below [where m = 5] field_below [where m = 12]
  field_below [where m = 16] field_below [where m = 6] field_below [where m = 2]
  masked_field [where n = 5] masked_field [where n = 12] masked_field [where n = 16]
  masked_field [where n = 6] masked_field [where n = 2]

lemma move_wide_fields:
  assumes "move_args rd sh" "opcode \<in> {0, 2, 3}"
  shows "move_wide_word opcode rd imm sh AND 0xFF800000 = 0x92800000 OR push_bit 29 opcode"
    and "bits_at (move_wide_word opcode rd imm sh) 0 5 = rd"
    and "bits_at (move_wide_word opcode rd imm sh) 5 16 = ucast imm"
    and "ucast (16 * bits_at (move_wide_word opcode rd imm sh) 21 2) = sh"
proof -
  have rd: "take_bit 5 rd = rd" using assms(1) by (simp add: move_args_def narrow_fields)
  have m: "rd AND 0xFF800000 = 0" using masked_field [OF rd, of 0 "0xFF800000"] by simp
  show "move_wide_word opcode rd imm sh AND 0xFF800000 = 0x92800000 OR push_bit 29 opcode"
    using assms m
    by (auto simp: move_args_def move_wide_word_def bit.conj_disj_distrib2 field_simps_at narrow_fields)
  show "bits_at (move_wide_word opcode rd imm sh) 0 5 = rd"
    using assms(2) rd by (auto simp: move_wide_word_def bits_at_def field_simps_at)
  show "bits_at (move_wide_word opcode rd imm sh) 5 16 = ucast imm"
    using assms(2) rd by (auto simp: move_wide_word_def bits_at_def field_simps_at narrow_fields)
  show "ucast (16 * bits_at (move_wide_word opcode rd imm sh) 21 2) = sh"
    using assms rd by (auto simp: move_args_def move_wide_word_def bits_at_def field_simps_at narrow_fields)
qed

lemma add_sub_imm_fields:
  assumes "add_sub_args rd rn imm sh" "hb \<in> {0x22, 0xA2}"
  shows "add_sub_imm_word hb rd rn imm sh AND 0xFF800000 = push_bit 31 1 OR push_bit 23 hb"
    and "bits_at (add_sub_imm_word hb rd rn imm sh) 0 5 = rd"
    and "bits_at (add_sub_imm_word hb rd rn imm sh) 5 5 = rn"
    and "ucast (bits_at (add_sub_imm_word hb rd rn imm sh) 10 12) = imm"
    and "ucast (bits_at (add_sub_imm_word hb rd rn imm sh) 22 1) = sh"
proof -
  have r: "take_bit 5 rd = rd" "take_bit 5 rn = rn" "take_bit 12 (ucast imm :: u32) = ucast imm"
    using assms(1) by (simp_all add: add_sub_args_def narrow_fields)
  have m: "rd AND 0xFF800000 = 0" using masked_field [OF r(1), of 0 "0xFF800000"] by simp
  show "add_sub_imm_word hb rd rn imm sh AND 0xFF800000 = push_bit 31 1 OR push_bit 23 hb"
    using assms m r by (auto simp: add_sub_args_def add_sub_imm_word_def bit.conj_disj_distrib2 field_simps_at)
  show "bits_at (add_sub_imm_word hb rd rn imm sh) 0 5 = rd"
    using assms r by (auto simp: add_sub_args_def add_sub_imm_word_def bits_at_def field_simps_at)
  show "bits_at (add_sub_imm_word hb rd rn imm sh) 5 5 = rn"
    using assms r by (auto simp: add_sub_args_def add_sub_imm_word_def bits_at_def field_simps_at)
  show "ucast (bits_at (add_sub_imm_word hb rd rn imm sh) 10 12) = imm"
    using assms r by (auto simp: add_sub_args_def add_sub_imm_word_def bits_at_def field_simps_at)
  show "ucast (bits_at (add_sub_imm_word hb rd rn imm sh) 22 1) = sh"
    using assms r by (auto simp: add_sub_args_def add_sub_imm_word_def bits_at_def field_simps_at)
qed

lemma shifted_fields:
  assumes "shifted_args rd rn rm sh ty"
  defines "w \<equiv> arm_word (Emit_add_shifted_register rd rn rm sh ty)"
  shows "w AND 0xFF200000 = 0x8B000000" "w AND 0xFF800000 \<notin> {0xD2800000, 0x92800000, 0xF2800000, 0x91000000, 0xD1000000}"
    and "bits_at w 0 5 = rd" "bits_at w 5 5 = rn" "bits_at w 16 5 = rm"
    and "bits_at w 10 6 = ucast sh" "bits_at w 22 2 = ucast ty" "ucast ty \<noteq> (3 :: u32)"
proof -
  have r: "take_bit 5 rd = rd" "take_bit 5 rn = rn" "take_bit 5 rm = rm"
    "take_bit 6 (ucast sh :: u32) = ucast sh" "take_bit 2 (ucast ty :: u32) = ucast ty"
    using assms(1) by (simp_all add: shifted_args_def narrow_fields)
  have m: "rd AND 0xFF200000 = 0" using masked_field [OF r(1), of 0 "0xFF200000"] by simp
  show w: "w AND 0xFF200000 = 0x8B000000"
    using m r by (auto simp: w_def bit.conj_disj_distrib2 field_simps_at)
  show "w AND 0xFF800000 \<notin> {0xD2800000, 0x92800000, 0xF2800000, 0x91000000, 0xD1000000}"
  proof
    assume a: "w AND 0xFF800000 \<in> {0xD2800000, 0x92800000, 0xF2800000, 0x91000000, 0xD1000000}"
    have "w AND 0xFF000000 = (w AND 0xFF200000) AND 0xFF000000" "w AND 0xFF000000 = (w AND 0xFF800000) AND 0xFF000000"
      by (simp_all add: and.assoc)
    with a w show False by auto
  qed
  show "bits_at w 0 5 = rd" "bits_at w 5 5 = rn" "bits_at w 16 5 = rm"
    "bits_at w 10 6 = ucast sh" "bits_at w 22 2 = ucast ty"
    using r by (simp_all add: w_def bits_at_def field_simps_at)
  have "ty \<noteq> 3" using assms(1) by (auto simp: shifted_args_def)
  then show "ucast ty \<noteq> (3 :: u32)" using ucast_back(2) [of ty] by (auto simp del: ucast_back)
qed

lemma mask_differs: "w AND M = (E :: u32) \<Longrightarrow> E AND N \<noteq> F AND M \<Longrightarrow> w AND N \<noteq> F"
  by (metis and.assoc and.commute)

lemma branch_fields:
  assumes "call_error (Emit_b offset) = BAL_SUCCESS"
  defines "w \<equiv> arm_word (Emit_b offset)"
  shows "w AND 0xFC000000 = 0x14000000" "4 * word_of_int (signed_take_bit 25 (uint w)) = offset"
proof -
  have k: "4 dvd sint offset" "- (2 ^ 27) \<le> sint offset" "sint offset < 2 ^ 27"
    using assms(1) by (auto split: if_splits)
  then obtain k where off: "sint offset = 4 * k" by auto
  then have q: "sint offset sdiv 4 = k"
    by (cases k "0 :: int" rule: linorder_cases) (simp_all add: signed_divide_int_def sgn_mult)
  have range: "- (2 ^ 25) \<le> k" "k < 2 ^ 25" using k(2,3) off by simp_all
  have w: "w = 0x14000000 OR (word_of_int k AND 0x03FFFFFF)" by (simp add: w_def q)
  show "w AND 0xFC000000 = 0x14000000" by (simp add: w bit.conj_disj_distrib2 and.assoc)
  have low: "(0x03FFFFFF :: u32) = mask 26" by (simp add: mask_eq_exp_minus_1)
  have "take_bit 26 w = take_bit 26 (word_of_int k)"
    by (simp add: w low take_bit_eq_mask bit.conj_disj_distrib2 and.assoc) (simp add: mask_eq_exp_minus_1)
  then have "take_bit 26 (uint w) = uint (take_bit 26 (word_of_int k :: u32))"
    by (metis unsigned_take_bit_eq)
  also have "\<dots> = take_bit 26 k"
    by (simp only: unsigned_take_bit_eq uint_word_of_int_eq) (simp add: take_bit_take_bit)
  finally have "signed_take_bit 25 (uint w) = signed_take_bit 25 k"
    by (simp add: signed_take_bit_eq_iff_take_bit_eq)
  also have "\<dots> = k" using range by (simp add: signed_take_bit_int_eq_self_iff)
  finally have "4 * word_of_int (signed_take_bit 25 (uint w)) = (word_of_int (4 * k) :: u32)"
    by simp
  then show "4 * word_of_int (signed_take_bit 25 (uint w)) = offset"
    by (simp flip: off del: of_int_mult)
qed

lemma register_branch_fields:
  assumes "rn \<le> 31" "base \<in> {0xD61F0000, 0xD65F0000}"
  shows "(base OR push_bit 5 rn) AND 0xFFFFFC1F = base" "bits_at (base OR push_bit 5 rn) 5 5 = rn"
proof -
  have r: "take_bit 5 rn = rn" using assms(1) by (rule narrow_fields)
  show "(base OR push_bit 5 rn) AND 0xFFFFFC1F = base"
    using assms(2) r by (auto simp: bit.conj_disj_distrib2 field_simps_at)
  show "bits_at (base OR push_bit 5 rn) 5 5 = rn"
    using assms(2) r by (auto simp: bits_at_def field_simps_at)
qed

lemma a64_decode_word: "call_error c = BAL_SUCCESS \<Longrightarrow> a64_decode (arm_word c) = Some c"
proof (cases c)
  case (Emit_b offset)
  assume "call_error c = BAL_SUCCESS"
  note b = branch_fields [OF this [unfolded Emit_b]]
  note no = mask_differs [OF b(1), of "0xFF800000"] mask_differs [OF b(1), of "0xFF200000"]
  show ?thesis using b no by (simp add: a64_decode_def Emit_b Let_def)
next
  case (Emit_br rn)
  assume "call_error c = BAL_SUCCESS"
  then have "rn \<le> 31" by (simp add: Emit_br invalid_unless_def split: if_splits)
  note b = register_branch_fields [OF this, of "0xD61F0000", simplified]
  note no = mask_differs [OF b(1), of "0xFF800000"] mask_differs [OF b(1), of "0xFF200000"]
     mask_differs [OF b(1), of "0xFC000000"]
  show ?thesis using b no by (simp add: a64_decode_def Emit_br Let_def)
next
  case (Emit_arm_ret rn)
  assume "call_error c = BAL_SUCCESS"
  then have "rn \<le> 31" by (simp add: Emit_arm_ret invalid_unless_def split: if_splits)
  note b = register_branch_fields [OF this, of "0xD65F0000", simplified]
  note no = mask_differs [OF b(1), of "0xFF800000"] mask_differs [OF b(1), of "0xFF200000"]
     mask_differs [OF b(1), of "0xFC000000"]
  show ?thesis using b no by (simp add: a64_decode_def Emit_arm_ret Let_def)
next
  case (Emit_add_shifted_register rd rn rm sh ty)
  assume "call_error c = BAL_SUCCESS"
  then have "shifted_args rd rn rm sh ty"
    by (simp add: Emit_add_shifted_register invalid_unless_def split: if_splits)
  from shifted_fields [OF this] show ?thesis
    by (simp add: a64_decode_def Emit_add_shifted_register Let_def)
qed (auto simp: a64_decode_def Let_def invalid_unless_def add_sub_imm_fields
    add_sub_imm_fields(5) [unfolded One_nat_def] move_wide_fields split: if_splits)

section \<open>Histories\<close>

text \<open>A structure whose buffer is really there.\<close>

definition as_wf :: "bal_assembler_t \<Rightarrow> bool" where
  "as_wf a \<longleftrightarrow> \<not> as_oob a \<and> as_offset a \<le> as_capacity a \<and> unat (as_capacity a) \<le> length (as_mem a) \<and>
     (alive a \<longrightarrow> as_buffer a \<noteq> 0)"

definition as_live :: "bal_assembler_t \<Rightarrow> bool" where
  "as_live a \<longleftrightarrow> as_wf a \<and> alive a"

definition as_code :: "bal_assembler_t \<Rightarrow> u32 list" where
  "as_code a = take (unat (as_offset a)) (as_mem a)"

lemma alive_simps [simp]:
  "alive (failed e a) = alive a" "alive (a\<lparr>as_offset := k\<rparr>) = alive a" "alive (a\<lparr>as_mem := m\<rparr>) = alive a"
  "alive (a\<lparr>as_oob := b\<rparr>) = alive a" "alive (a\<lparr>as_status := e\<rparr>) = alive a"
  by (simp_all add: alive_def)

lemma put_instruction_fits:
  assumes "as_wf a" "as_offset a < as_capacity a"
  shows "put_instruction w a = a\<lparr>as_mem := (as_mem a)[unat (as_offset a) := w], as_offset := as_offset a + 1\<rparr>"
    and "unat (as_offset a + 1) = Suc (unat (as_offset a))"
proof -
  from assms(2) have less: "unat (as_offset a) < unat (as_capacity a)" by (simp add: word_less_nat_alt)
  with assms(1) show "put_instruction w a = a\<lparr>as_mem := (as_mem a)[unat (as_offset a) := w], as_offset := as_offset a + 1\<rparr>"
    by (simp add: put_instruction_def as_wf_def Let_def)
  from less length_bound_size_t [of "as_capacity a"] unat_add_of_nat [of "as_offset a" 1]
  show "unat (as_offset a + 1) = Suc (unat (as_offset a))" by simp
qed

lemma call_status_success:
  "call_status a c = BAL_SUCCESS \<longleftrightarrow>
   as_status a = BAL_SUCCESS \<and> call_error c = BAL_SUCCESS \<and> as_offset a < as_capacity a"
  unfolding call_status_def Let_def
  by (cases "call_error c = BAL_SUCCESS"; cases "as_status a = BAL_SUCCESS"; cases "as_capacity a \<le> as_offset a")
    (simp_all add: not_le not_less)

lemma arm_emit_step:
  assumes "as_live a"
  shows "arm_emit a c = (if call_status a c = BAL_SUCCESS
    then a\<lparr>as_mem := (as_mem a)[unat (as_offset a) := arm_word c], as_offset := as_offset a + 1\<rparr>
    else failed (call_status a c) a)"
proof -
  from assms have "alive a" "as_buffer a \<noteq> 0" "as_wf a" by (auto simp: as_live_def as_wf_def)
  then show ?thesis
    using put_instruction_fits(1) [of a] call_status_success [of a c]
    by (cases "call_status a c = BAL_SUCCESS") (simp_all add: arm_emit_cases)
qed

lemma arm_emit_live [wf_intros]: "as_live a \<Longrightarrow> as_live (arm_emit a c)"
proof (cases "call_status a c = BAL_SUCCESS")
  case True
  assume live: "as_live a"
  from True have "as_offset a < as_capacity a" by (simp add: call_status_success)
  then have "as_offset a + 1 \<le> as_capacity a" by (rule inc_le)
  with True live show ?thesis by (simp add: arm_emit_step as_live_def as_wf_def)
qed (simp add: arm_emit_step as_live_def as_wf_def)

lemma arm_emit_status: "as_live a \<Longrightarrow> as_status (arm_emit a c) = call_status a c"
  using call_status_success [of a c] by (auto simp: arm_emit_step)

lemma arm_emit_code:
  assumes "as_live a" "as_status (arm_emit a c) = BAL_SUCCESS"
  shows "as_code (arm_emit a c) = as_code a @ [arm_word c]"
proof -
  from assms have ok: "call_status a c = BAL_SUCCESS" by (simp add: arm_emit_status)
  then have less: "as_offset a < as_capacity a" by (simp add: call_status_success)
  from assms(1) have wf: "as_wf a" by (simp add: as_live_def)
  with less have "unat (as_offset a) < length (as_mem a)" by (auto simp: as_wf_def word_less_nat_alt)
  then show ?thesis
    using assms(1) ok put_instruction_fits(2) [OF wf less]
    by (simp add: arm_emit_step as_code_def take_Suc_conv_app_nth)
qed

interpretation arm_buffer: code_buffer arm_emit "\<lambda>c. [arm_word c]" as_live "\<lambda>a. as_status a = BAL_SUCCESS" as_code
  by unfold_locales (auto simp: arm_emit_live arm_emit_status call_status_success arm_emit_code)

text \<open>A sequence of calls succeeds exactly when every call is valid and there is room for all.\<close>

lemma run_status:
  "as_live a \<Longrightarrow> as_status (foldl arm_emit a cs) = BAL_SUCCESS \<longleftrightarrow> as_status a = BAL_SUCCESS \<and>
     (\<forall>c \<in> set cs. call_error c = BAL_SUCCESS) \<and> unat (as_offset a) + length cs \<le> unat (as_capacity a)"
proof (induction cs arbitrary: a)
  case Nil
  then show ?case by (simp add: as_live_def as_wf_def word_le_nat_alt)
next
  case (Cons c cs)
  show ?case
  proof (cases "call_status a c = BAL_SUCCESS")
    case True
    then have less: "as_offset a < as_capacity a" by (simp add: call_status_success)
    have wf: "as_wf a" using Cons.prems by (simp add: as_live_def)
    have e: "arm_emit a c = a\<lparr>as_mem := (as_mem a)[unat (as_offset a) := arm_word c], as_offset := as_offset a + 1\<rparr>"
      using True Cons.prems by (simp add: arm_emit_step)
    from Cons.IH [OF arm_emit_live [OF Cons.prems, of c], unfolded e] show ?thesis
      using True [unfolded call_status_success] put_instruction_fits(2) [OF wf less]
      by (simp add: e)
  next
    case False
    then have "as_status (arm_emit a c) \<noteq> BAL_SUCCESS" using Cons.prems by (simp add: arm_emit_status)
    with Cons.IH [OF arm_emit_live [OF Cons.prems, of c]] False Cons.prems show ?thesis
      by (auto simp: call_status_success word_less_nat_alt as_live_def as_wf_def word_le_nat_alt)
  qed
qed

lemma init_live:
  assumes "bal_assembler_init (Some a) buffer words n = (BAL_SUCCESS, Some a')" "\<not> as_oob a" "unat n \<le> length words"
  shows "as_live a'" "as_status a' = BAL_SUCCESS" "as_offset a' = 0" "as_capacity a' = n" "as_mem a' = words"
    "as_buffer a' = buffer" "as_code a' = []" "buffer \<noteq> 0"
proof -
  from assms(1) have "a' = (assembler_cleared BAL_ERROR_INVALID_ARGUMENT 0 a)\<lparr>as_buffer := buffer, as_capacity := n,
      as_offset := 0, as_status := BAL_SUCCESS, as_magic := BAL_ASSEMBLER_MAGIC_ALIVE, as_mem := words\<rparr>" and "buffer \<noteq> 0"
    by (auto simp: bal_assembler_init_def Let_def assembler_cleared_def split: if_splits)
  with assms(2,3) show "as_live a'" "as_status a' = BAL_SUCCESS" "as_offset a' = 0" "as_capacity a' = n" "as_mem a' = words"
    "as_buffer a' = buffer" "as_code a' = []" "buffer \<noteq> 0"
    by (simp_all add: as_live_def as_wf_def as_code_def alive_def magic_ok_def assembler_cleared_def)
qed

text \<open>The words a whole sequence of calls leaves in the buffer.\<close>

lemma assembled_words:
  assumes "bal_assembler_init (Some a) buffer words n = (BAL_SUCCESS, Some a')" "\<not> as_oob a" "unat n \<le> length words"
    and "\<forall>c \<in> set cs. call_error c = BAL_SUCCESS" "length cs \<le> unat n"
  shows "as_status (foldl arm_emit a' cs) = BAL_SUCCESS" "as_code (foldl arm_emit a' cs) = map arm_word cs"
proof -
  note init = init_live [OF assms(1-3)]
  show ok: "as_status (foldl arm_emit a' cs) = BAL_SUCCESS"
    using run_status [OF init(1), of cs] init(2-4) assms(4,5) by simp
  show "as_code (foldl arm_emit a' cs) = map arm_word cs"
    using arm_buffer.run_code [OF init(1) ok] init(7) by (simp add: concat_map_singleton)
qed

section \<open>Properties\<close>

text \<open>
  C27: what was assembled is what is disassembled. A sequence of calls on a new assembler
  succeeds exactly when all arguments are valid and the buffer has room for all words, and
  then disassembling the buffer by the architecture manual's bit patterns gives back
  exactly the sequence of calls, operand for operand.
\<close>

theorem assembler_round_trip:
  assumes "bal_assembler_init (Some a) buffer words n = (BAL_SUCCESS, Some a')" "\<not> as_oob a" "unat n \<le> length words"
  shows "(as_status (foldl arm_emit a' cs) = BAL_SUCCESS \<longleftrightarrow>
      (\<forall>c \<in> set cs. call_error c = BAL_SUCCESS) \<and> length cs \<le> unat n) \<and>
    (as_status (foldl arm_emit a' cs) = BAL_SUCCESS \<longrightarrow>
      map a64_decode (as_code (foldl arm_emit a' cs)) = map Some cs)"
proof -
  note init = init_live [OF assms]
  have iff: "as_status (foldl arm_emit a' cs) = BAL_SUCCESS \<longleftrightarrow>
      (\<forall>c \<in> set cs. call_error c = BAL_SUCCESS) \<and> length cs \<le> unat n"
    using run_status [OF init(1), of cs] init(2-4) by simp
  moreover have "map a64_decode (as_code (foldl arm_emit a' cs)) = map Some cs"
    if "as_status (foldl arm_emit a' cs) = BAL_SUCCESS"
    using assembled_words [OF assms, of cs] that iff by (simp add: a64_decode_word)
  ultimately show ?thesis by blast
qed

theorem assembler_round_trip_witness:
  "map a64_decode (as_code (foldl arm_emit (the (snd (bal_assembler_init
      (Some \<lparr>as_buffer = 0, as_capacity = 0, as_offset = 0, as_status = BAL_SUCCESS, as_magic = 0,
         as_mem = [], as_oob = False\<rparr>) 0x1000 (replicate 4 0) 4)))
      [Emit_movz 0 42 0, Emit_b 0xFFFFFFF8, Emit_arm_ret 30])) =
   [Some (Emit_movz 0 42 0), Some (Emit_b 0xFFFFFFF8), Some (Emit_arm_ret 30)]"
proof -
  let ?a = "\<lparr>as_buffer = 0, as_capacity = 0, as_offset = 0, as_status = BAL_SUCCESS, as_magic = 0,
         as_mem = [], as_oob = False\<rparr>"
  let ?cs = "[Emit_movz 0 42 0, Emit_b 0xFFFFFFF8, Emit_arm_ret 30]"
  obtain a' where init: "bal_assembler_init (Some ?a) 0x1000 (replicate 4 0) 4 = (BAL_SUCCESS, Some a')"
    by (simp add: bal_assembler_init_def bal_pointer_is_aligned_def Let_def SIZE_MAX_def)
  have "\<forall>c \<in> set ?cs. call_error c = BAL_SUCCESS"
    by (simp add: invalid_unless_def move_args_def)
  with assembler_round_trip [OF init, of ?cs] init show ?thesis by simp
qed

text \<open>
  C28: the assembler stays inside its buffer. Whatever sequence of emissions, resets and
  destructions follows an initialisation, successful or not, no word is written outside of
  the words the initialisation was given, and none behind them changes.
\<close>

definition inside :: "nat \<Rightarrow> u32 list \<Rightarrow> bal_assembler_t \<Rightarrow> bool" where
  "inside n words a \<longleftrightarrow> as_wf a \<and> unat (as_capacity a) \<le> n \<and> length (as_mem a) = length words \<and>
     drop n (as_mem a) = drop n words"

lemma dead_emit: "\<not> alive a \<Longrightarrow> arm_emit a c = failed BAL_ERROR_STRUCT_CORRUPTED a"
  by (cases c) (simp_all add: bal_emit_add_immediate_def bal_emit_add_shifted_register_def
    bal_emit_b_def bal_emit_br_def bal_emit_sub_immediate_def bal_emit_movz_def bal_emit_movk_def
    bal_emit_movn_def bal_emit_ret_def emit_mov_def)

lemma inside_failed [simp]: "inside n words (failed e a) = inside n words a"
  by (simp add: inside_def as_wf_def)

lemma inside_emit: "inside n words a \<Longrightarrow> inside n words (arm_emit a c)"
proof (cases "alive a \<and> call_status a c = BAL_SUCCESS")
  case True
  assume inside: "inside n words a"
  then have live: "as_live a" using True by (simp add: inside_def as_live_def)
  from True have "unat (as_offset a) < unat (as_capacity a)" by (simp add: call_status_success word_less_nat_alt)
  then show ?thesis
    using inside True arm_emit_live [OF live, of c] live
    by (simp add: arm_emit_step inside_def as_live_def)
next
  case False
  assume inside: "inside n words a"
  show ?thesis
  proof (cases "alive a")
    case True
    then have "as_live a" using inside by (simp add: inside_def as_live_def)
    with inside False True show ?thesis by (simp add: arm_emit_step)
  qed (use inside in \<open>simp add: dead_emit\<close>)
qed

lemma inside_run: "inside n words a \<Longrightarrow> inside n words (assembler_run a opr)"
proof (cases opr)
  case Op_reset
  assume "inside n words a"
  then show ?thesis
    by (auto simp: Op_reset bal_assembler_reset_def Let_def inside_def as_wf_def)
next
  case Op_destroy
  assume "inside n words a"
  then show ?thesis
    by (auto simp: Op_destroy bal_assembler_destroy_def assembler_cleared_def inside_def as_wf_def alive_def
        magic_ok_def magic_defs)
qed (simp add: inside_emit)

theorem assembler_stays_inside:
  assumes "bal_assembler_init (Some a) buffer words n = (err, Some a')" "\<not> as_oob a" "unat n \<le> length words"
  shows "\<not> as_oob (foldl assembler_run a' ops) \<and>
    length (as_mem (foldl assembler_run a' ops)) = length (as_mem a') \<and>
    drop (unat n) (as_mem (foldl assembler_run a' ops)) = drop (unat n) (as_mem a')"
proof -
  from assms have "inside (unat n) (as_mem a') a'"
    by (auto simp: bal_assembler_init_def Let_def assembler_cleared_def inside_def as_wf_def alive_def
        magic_ok_def magic_defs split: if_splits)
  moreover have "inside (unat n) ws b \<Longrightarrow> inside (unat n) ws (foldl assembler_run b ops)" for ws b
    by (induction ops arbitrary: b) (simp_all add: inside_run)
  ultimately have "inside (unat n) (as_mem a') (foldl assembler_run a' ops)" by blast
  then show ?thesis by (simp add: inside_def as_wf_def)
qed

theorem assembler_stays_inside_witness:
  "\<not> as_oob (foldl assembler_run (the (snd (bal_assembler_init
      (Some \<lparr>as_buffer = 0, as_capacity = 0, as_offset = 0, as_status = BAL_SUCCESS, as_magic = 0,
         as_mem = [], as_oob = False\<rparr>) 0x1000 [7, 8] 1)))
      [Op_emit (Emit_movz 0 42 0), Op_emit (Emit_movz 0 42 0), Op_reset, Op_destroy])"
proof -
  let ?a = "\<lparr>as_buffer = 0, as_capacity = 0, as_offset = 0, as_status = BAL_SUCCESS, as_magic = 0,
         as_mem = [], as_oob = False\<rparr>"
  obtain a' where init: "bal_assembler_init (Some ?a) 0x1000 [7, 8] 1 = (BAL_SUCCESS, Some a')"
    by (simp add: bal_assembler_init_def bal_pointer_is_aligned_def Let_def SIZE_MAX_def)
  have "\<not> as_oob ?a" "unat (1 :: size_t) \<le> length [7 :: u32, 8]" by simp_all
  note assembler_stays_inside [OF init this]
  then show ?thesis by (simp only: init snd_conv option.sel) blast
qed

text \<open>
  C29: every outcome of a call on a live assembler. The status after the call on every
  branch: \<open>B\<close> reports bad arguments and a full buffer, and \<open>RET\<close> a bad register, even over an
  earlier error, all other functions keep the earlier error. Only a successful call
  changes the buffer and the position.
\<close>

theorem assembler_call_outcome:
  assumes "as_live a"
  shows "as_live (arm_emit a c) \<and>
    as_status (arm_emit a c) =
      (let full = as_capacity a \<le> as_offset a;
           masks_arguments = (case c of Emit_b _ \<Rightarrow> True | Emit_arm_ret _ \<Rightarrow> True | _ \<Rightarrow> False);
           masks_full = (case c of Emit_b _ \<Rightarrow> True | _ \<Rightarrow> False) in
       if call_error c \<noteq> BAL_SUCCESS \<and> (masks_arguments \<or> as_status a = BAL_SUCCESS) then call_error c
       else if full \<and> (masks_full \<or> as_status a = BAL_SUCCESS) then BAL_ERROR_INSTRUCTION_OVERFLOW
       else as_status a) \<and>
    (as_status (arm_emit a c) = BAL_SUCCESS \<or>
     as_mem (arm_emit a c) = as_mem a \<and> as_offset (arm_emit a c) = as_offset a)"
  using assms by (auto simp: arm_emit_live arm_emit_status call_status_def) (simp_all add: arm_emit_step call_status_def)

theorem assembler_call_outcome_witness:
  "\<exists>a. as_status a = BAL_ERROR_INSTRUCTION_OVERFLOW \<and>
    as_status (arm_emit a (Emit_arm_ret 32)) = BAL_ERROR_INVALID_ARGUMENT \<and>
    as_status (arm_emit a (Emit_br 32)) = BAL_ERROR_INSTRUCTION_OVERFLOW"
proof -
  define a where "a = \<lparr>as_buffer = 0x1000, as_capacity = 1, as_offset = 1,
    as_status = BAL_ERROR_INSTRUCTION_OVERFLOW, as_magic = BAL_ASSEMBLER_MAGIC_ALIVE, as_mem = [0], as_oob = False\<rparr>"
  have "as_live a" by (simp add: a_def as_live_def as_wf_def alive_def magic_ok_def)
  from assembler_call_outcome [OF this, of "Emit_arm_ret 32"] assembler_call_outcome [OF this, of "Emit_br 32"]
  have "as_status (arm_emit a (Emit_arm_ret 32)) = BAL_ERROR_INVALID_ARGUMENT"
    "as_status (arm_emit a (Emit_br 32)) = BAL_ERROR_INSTRUCTION_OVERFLOW"
    by (simp_all add: invalid_unless_def a_def)
  then show ?thesis by (intro exI [of _ a]) (simp add: a_def)
qed

text \<open>
  An error stays until a reset, and a destroyed assembler stays dead. After an error no
  sequence of calls changes the buffer or succeeds again; after a destruction no sequence
  of operations, resets included, changes the buffer or does anything but report the
  corrupted structure.
\<close>

theorem assembler_error_is_final:
  "(as_live a \<and> as_status a \<noteq> BAL_SUCCESS \<longrightarrow>
     as_status (foldl arm_emit a cs) \<noteq> BAL_SUCCESS \<and> as_mem (foldl arm_emit a cs) = as_mem a) \<and>
   (alive a \<longrightarrow> (let d = foldl assembler_run (bal_assembler_destroy a) ops in
     as_status d = BAL_ERROR_STRUCT_CORRUPTED \<and> as_mem d = as_mem a \<and> \<not> alive d))"
proof (intro conjI impI)
  assume "as_live a \<and> as_status a \<noteq> BAL_SUCCESS"
  then have "as_live (foldl arm_emit a cs) \<and> as_status (foldl arm_emit a cs) \<noteq> BAL_SUCCESS \<and>
      as_mem (foldl arm_emit a cs) = as_mem a"
  proof (induction cs rule: rev_induct)
    case (snoc c cs)
    then show ?case
      using call_status_success [of "foldl arm_emit a cs" c]
      by (auto simp: arm_emit_live arm_emit_status) (simp add: arm_emit_step)
  qed simp
  then show "as_status (foldl arm_emit a cs) \<noteq> BAL_SUCCESS" "as_mem (foldl arm_emit a cs) = as_mem a" by blast+
next
  assume "alive a"
  have "as_status d = BAL_ERROR_STRUCT_CORRUPTED \<and> as_mem d = as_mem a \<and> \<not> alive d \<Longrightarrow>
    (let d = foldl assembler_run d ops in
      as_status d = BAL_ERROR_STRUCT_CORRUPTED \<and> as_mem d = as_mem a \<and> \<not> alive d)" for d
  proof (induction ops arbitrary: d)
    case (Cons opr ops)
    have "assembler_run d opr = failed BAL_ERROR_STRUCT_CORRUPTED d"
      using Cons.prems by (cases opr) (simp_all add: dead_emit bal_assembler_reset_def bal_assembler_destroy_def)
    with Cons show ?case by simp
  qed simp
  moreover have "as_status (bal_assembler_destroy a) = BAL_ERROR_STRUCT_CORRUPTED \<and>
      as_mem (bal_assembler_destroy a) = as_mem a \<and> \<not> alive (bal_assembler_destroy a)"
    using \<open>alive a\<close> by (simp add: bal_assembler_destroy_def assembler_cleared_def alive_def magic_ok_def magic_defs)
  ultimately show "let d = foldl assembler_run (bal_assembler_destroy a) ops in
     as_status d = BAL_ERROR_STRUCT_CORRUPTED \<and> as_mem d = as_mem a \<and> \<not> alive d" by blast
qed

theorem assembler_error_is_final_witness:
  "\<exists>a. alive a \<and> (let d = foldl assembler_run (bal_assembler_destroy a) [Op_reset, Op_emit (Emit_br 3)] in
     as_status d = BAL_ERROR_STRUCT_CORRUPTED \<and> as_mem d = as_mem a \<and> \<not> alive d)"
proof -
  define a where "a = \<lparr>as_buffer = 0x1000, as_capacity = 1, as_offset = 0,
    as_status = BAL_SUCCESS, as_magic = BAL_ASSEMBLER_MAGIC_ALIVE, as_mem = [0], as_oob = False\<rparr>"
  have "alive a" by (simp add: a_def alive_def magic_ok_def)
  with assembler_error_is_final [of a "[]" "[Op_reset, Op_emit (Emit_br 3)]"] show ?thesis by blast
qed

end
