(* ===== verification/Table_Entries.thy ===== *)
theory Table_Entries
  imports Decoder "HOL-Library.Product_Lexorder"
begin

text \<open>
  How the entries of the generated decoder table are written, and what is needed to check the
  table as a whole: the part of an entry that selects buckets, and the number of buckets it
  belongs to.
\<close>

section \<open>Entries\<close>

text \<open>The operand types, each with position and width of the field.\<close>

definition op_w :: "nat \<Rightarrow> nat \<Rightarrow> bal_decoder_operand_t" where
  "op_w p w = \<lparr>do_type = BAL_OPERAND_TYPE_REGISTER_32, do_bit_position = p, do_bit_width = w\<rparr>"

definition op_x :: "nat \<Rightarrow> nat \<Rightarrow> bal_decoder_operand_t" where
  "op_x p w = \<lparr>do_type = BAL_OPERAND_TYPE_REGISTER_64, do_bit_position = p, do_bit_width = w\<rparr>"

definition op_v :: "nat \<Rightarrow> nat \<Rightarrow> bal_decoder_operand_t" where
  "op_v p w = \<lparr>do_type = BAL_OPERAND_TYPE_REGISTER_128, do_bit_position = p, do_bit_width = w\<rparr>"

definition op_imm :: "nat \<Rightarrow> nat \<Rightarrow> bal_decoder_operand_t" where
  "op_imm p w = \<lparr>do_type = BAL_OPERAND_TYPE_IMMEDIATE, do_bit_position = p, do_bit_width = w\<rparr>"

definition op_cond :: "nat \<Rightarrow> nat \<Rightarrow> bal_decoder_operand_t" where
  "op_cond p w = \<lparr>do_type = BAL_OPERAND_TYPE_CONDITION, do_bit_position = p, do_bit_width = w\<rparr>"

definition unused_operand :: bal_decoder_operand_t where
  "unused_operand = \<lparr>do_type = BAL_OPERAND_TYPE_NONE, do_bit_position = 0, do_bit_width = 0\<rparr>"

text \<open>An entry: the operands that are not used are the last ones.\<close>

definition insn ::
  "string \<Rightarrow> u32 \<Rightarrow> u32 \<Rightarrow> bal_opcode_t \<Rightarrow> bal_decoder_operand_t list \<Rightarrow>
   bal_decoder_instruction_metadata_t" where
  "insn name msk expected opcode operands = \<lparr>dm_name = name, dm_mask = msk, dm_expected = expected,
     dm_ir_opcode = opcode,
     dm_operands = operands @ replicate (BAL_OPERANDS_SIZE - length operands) unused_operand\<rparr>"

definition bkt :: "u16 \<Rightarrow> u8 \<Rightarrow> decoder_bucket_t" where
  "bkt i n = \<lparr>db_index = i, db_count = n\<rparr>"

lemma insn_wf [simp]:
  "metadata_wf (insn n m e opc ops) \<longleftrightarrow> length ops \<le> 5 \<and> list_all operand_wf ops"
  by (auto simp: metadata_wf_def insn_def BAL_OPERANDS_SIZE_def unused_operand_def operand_wf_def list_all_iff)

lemma operand_wf_simps [simp]:
  "operand_wf (op_w p w) = (p + w \<le> 32 \<and> w < 32)" "operand_wf (op_x p w) = (p + w \<le> 32 \<and> w < 32)"
  "operand_wf (op_v p w) = (p + w \<le> 32 \<and> w < 32)" "operand_wf (op_imm p w) = (p + w \<le> 32 \<and> w < 32)"
  "operand_wf (op_cond p w) = (p + w \<le> 32 \<and> w < 32)"
  by (simp_all add: operand_wf_def op_w_def op_x_def op_v_def op_imm_def op_cond_def)

lemma bkt_simps [simp]: "db_index (bkt i n) = i" "db_count (bkt i n) = n"
  by (simp_all add: bkt_def)

section \<open>Buckets of an entry\<close>

text \<open>
  The top eleven bits of mask and pattern decide which buckets an entry can be found in:
  those whose number agrees with the pattern under the mask.
\<close>

definition top_bits :: "bal_decoder_instruction_metadata_t \<Rightarrow> nat \<times> nat" where
  "top_bits m = (drop_bit 21 (unat (dm_mask m)), drop_bit 21 (unat (dm_expected m)))"

lemma top_bits_insn [simp]: "top_bits (insn n m e opc ops) = (drop_bit 21 (unat m), drop_bit 21 (unat e))"
  by (simp add: top_bits_def insn_def)

definition in_bucket :: "nat \<Rightarrow> nat \<times> nat \<Rightarrow> bool" where
  "in_bucket b p = (b AND fst p = snd p)"

lemma in_bucket_match:
  assumes "w AND dm_mask m = dm_expected m"
  shows "in_bucket (drop_bit 21 (unat w)) (top_bits m)"
proof -
  have "unat w AND unat (dm_mask m) = unat (dm_expected m)"
    by (simp flip: unsigned_and_eq assms)
  then show ?thesis by (simp add: in_bucket_def top_bits_def flip: drop_bit_and)
qed

text \<open>An entry whose mask leaves \<open>n\<close> of the eleven bits free is in at most \<open>2 ^ n\<close> buckets.\<close>

definition weight :: "nat \<times> nat \<Rightarrow> nat" where
  "weight p = 2 ^ length (filter (\<lambda>i. \<not> bit (fst p) i) [0, 1, 2, 3, 4, 5, 6, 7, 8, 9, 10])"

lemma weight_bound: "card {b. b < 2048 \<and> in_bucket b p} \<le> weight p"
proof -
  define L where "L = [0 ..< 11 :: nat]"
  have L: "L = [0, 1, 2, 3, 4, 5, 6, 7, 8, 9, 10]" by (simp add: L_def upt_conv_Cons)
  let ?F = "{i. i < 11 \<and> \<not> bit (fst p) i}"
  have set: "set (filter (\<lambda>i. \<not> bit (fst p) i) L) = ?F" by (auto simp: L_def)
  let ?f = "\<lambda>b :: nat. {i \<in> ?F. bit b i}"
  have "inj_on ?f {b. b < 2048 \<and> in_bucket b p}"
  proof (rule inj_onI)
    fix x y assume x: "x \<in> {b. b < 2048 \<and> in_bucket b p}" and y: "y \<in> {b. b < 2048 \<and> in_bucket b p}"
      and eq: "?f x = ?f y"
    have "bit x i = bit y i" for i
    proof (cases "i < 11")
      case False
      then have "(2 :: nat) ^ 11 \<le> 2 ^ i" by (intro power_increasing) simp_all
      then have "z < 2048 \<Longrightarrow> \<not> bit z i" for z :: nat by (simp add: bit_iff_odd)
      with x y show ?thesis by simp
    next
      case True
      show ?thesis
      proof (cases "bit (fst p) i")
        case True
        have "x AND fst p = y AND fst p" using x y by (simp add: in_bucket_def)
        with True show ?thesis by (metis bit_and_iff)
      next
        case False
        with True eq show ?thesis by blast
      qed
    qed
    then show "x = y" by (simp add: bit_eq_iff)
  qed
  moreover have "finite ?F" by simp
  ultimately have "card {b. b < 2048 \<and> in_bucket b p} \<le> card (Pow ?F)"
    by (intro card_inj_on_le [where f = ?f]) blast+
  also have "\<dots> = 2 ^ card ?F" by (rule card_Pow) simp
  also have "card ?F = length (filter (\<lambda>i. \<not> bit (fst p) i) L)"
    using distinct_card [of "filter (\<lambda>i. \<not> bit (fst p) i) L"] by (simp add: set L_def)
  finally show ?thesis by (simp only: weight_def L)
qed

section \<open>The order of the candidates\<close>

text \<open>
  Mask and pattern as numbers, and the order the generator of the table sorts a bucket by:
  the priority of the mask, from high to low, then the pattern, then the mask. The priority is
  meant to be the number of bits of the mask
  (\<open>generate_decoder_tables.lua\<close>, \<open>while tmp > 0\<close>), but the masks are signed there: the loop
  counts nothing when the top bit is set.
\<close>

definition mask_value :: "bal_decoder_instruction_metadata_t \<Rightarrow> nat \<times> nat" where
  "mask_value m = (unat (dm_mask m), unat (dm_expected m))"

lemma mask_value_insn [simp]: "mask_value (insn n m e opc ops) = (unat m, unat e)"
  by (simp add: mask_value_def insn_def)

lemma unat_u32: "(numeral n :: nat) < 4294967296 \<Longrightarrow> unat (numeral n :: u32) = numeral n"
  using take_bit_nat_eq_self [of "numeral n" 32] by (simp only: unsigned_numeral of_nat_numeral) simp

text \<open>The rules that read the numbers of a list of entries, and no other ones.\<close>

lemmas read_entries = list.map mask_value_insn unat_u32 unsigned_0 unsigned_1 numeral_less_iff less_num_simps

lemma top_bits_mask_value: "map top_bits ms = map (\<lambda>p. (drop_bit 21 (fst p), drop_bit 21 (snd p))) (map mask_value ms)"
  by (simp add: top_bits_def mask_value_def)

definition tag_of :: "bal_decoder_instruction_metadata_t \<Rightarrow> string \<times> bal_opcode_t" where
  "tag_of m = (dm_name m, dm_ir_opcode m)"

lemma tag_of_insn [simp]: "tag_of (insn n m e opc ops) = (n, opc)"
  by (simp add: tag_of_def insn_def)

fun bit_count :: "nat \<Rightarrow> nat" where
  "bit_count n = (if n = 0 then 0 else n mod 2 + bit_count (n div 2))"

declare bit_count.simps [simp del]

lemma bit_count_numeral [simp]:
  "bit_count 0 = 0" "bit_count (Suc 0) = 1" "bit_count (numeral (Num.Bit0 n)) = bit_count (numeral n)"
  "bit_count (numeral (Num.Bit1 n)) = Suc (bit_count (numeral n))"
  by (subst bit_count.simps; simp add: bit_count.simps [of 0])+

definition priority :: "nat \<Rightarrow> nat" where
  "priority m = (if 2147483648 \<le> m then 0 else bit_count m)"

definition rank :: "nat \<times> nat \<Rightarrow> nat \<times> nat \<times> nat" where
  "rank p = (32 - priority (fst p), snd p, fst p)"

section \<open>Parts of long lists\<close>

lemma slice_middle:
  assumes "length pre = k" "k \<le> i" "i + n \<le> k + length mid"
  shows "take n (drop i (pre @ mid @ post)) = take n (drop (i - k) mid)"
  using assms by simp

end
