(* ===== verification/Arm64_Candidates.thy ===== *)
theory Arm64_Candidates
  imports Table_Entries
begin

text \<open>
  The two index tables of \<open>src/generated/decoder_table.c\<close>: \<open>g_decoder_hash_candidates\<close>, whose
  pointers into the array of entries are given by their indexes, and \<open>g_decoder_lookup_table\<close>.
  The lists are named after the index of their first element; a list of candidates ends where
  the range of a bucket ends.
\<close>

section \<open>Candidates\<close>

definition candidate_indexes_0 :: "nat list" where
  "candidate_indexes_0 = [
     3490, 21, 2422, 2021, 2027, 86, 2015, 2157, 3316, 3450, 1997, 3331, 1985, 91, 40, 2825,
     3685, 2576, 2582, 3531, 3537, 2593, 2599, 3547, 3553, 2410, 2580, 2868, 3439, 3535, 3716,
     2597, 3551, 2830, 2167, 2147, 88, 3388, 1999, 3774, 2669, 3389, 3621, 1987, 3775, 2471, 92,
     3390, 3493, 2002, 3776, 2472, 4, 3494, 1990, 2186, 2214, 2218, 87, 328, 580, 587, 1998, 332,
     72, 81, 407, 233, 1986, 403, 2205, 608, 584, 1128, 75, 2197, 23, 3318, 2689, 3636, 2843,
     3696, 74, 3826, 573, 268, 52, 48, 2169, 2247, 2670, 3622, 2743, 2797, 90, 2001, 1989, 89,
     2000, 1988, 55, 1250, 895, 2148, 408, 2757, 3655, 2699, 3641, 1269, 546, 2758, 3656, 2700,
     3642]"

definition candidate_indexes_115 :: "nat list" where
  "candidate_indexes_115 = [
     23, 3318, 2689, 3636, 2843, 3696, 3826, 2169, 2670, 3622, 2743, 2797, 90, 2001, 1989, 89,
     2000, 1988, 1250, 895, 2216, 2087, 115, 265, 39, 47, 56, 2764, 3662, 2706, 3648, 410, 2762,
     3660, 2704, 3646, 1274, 551, 1271, 548, 2763, 3661, 2705, 3647, 23, 3318, 2689, 3636, 2843,
     3696, 3826, 2169, 2670, 3622, 2743, 2797, 90, 2001, 1989, 89, 2000, 1988, 1250, 895, 582,
     266, 54, 2770, 3668, 2712, 3654, 411, 2768, 3666, 2710, 3652, 1275, 552, 1272, 549, 2769,
     3667, 2711, 3653, 2371, 2370, 23, 3318, 2689, 3636, 2843, 3696, 3826, 2169, 2670, 3622,
     2743, 2797, 90, 2001, 1989, 89, 2000, 1988, 1250, 895, 54, 234, 2181, 2761, 3659, 2703,
     3645, 409, 2759, 3657, 2701, 3643, 1273, 550, 1270, 547, 2760, 3658, 2702, 3644, 2215, 2202,
     2036, 417, 2037, 418, 1075, 715, 1077]"

definition candidate_indexes_250 :: "nat list" where
  "candidate_indexes_250 = [
     593, 565, 2043, 567, 3402, 3410, 3403, 3411, 564, 2042, 3843, 3844, 3780, 3781, 3419, 3420,
     3845, 3847, 3782, 3784, 3421, 3423, 2039, 420, 1284, 2497, 2089, 414, 1286, 1285, 1287,
     1280, 2386, 2387, 2388, 2302, 319, 419, 2038, 322, 2241, 318, 2245, 321, 2240, 2680, 2244,
     2681, 2389, 3357, 2293, 317, 3356, 2292, 320, 3769, 3768, 1281, 2384, 2385, 417, 2036, 2037,
     418, 1075, 1077, 715, 571, 581, 2043, 565, 3402, 3410, 3403, 3411, 2042, 564, 3843, 3844,
     3780, 3781, 3419, 3420, 3845, 3847, 3782, 3784, 3421, 3423, 2039, 420, 1284, 2497, 2089,
     414, 1286, 1285, 1287, 1280, 2386, 2387, 2388, 2302, 319, 419, 2038, 322, 318, 321, 2680,
     2681, 3357, 317, 3356, 320, 3769, 3768, 1281, 2384, 2385, 594, 595, 2239, 2243, 417, 2036,
     418, 2037, 1075, 1077, 715, 229, 73]"

definition candidate_indexes_383 :: "nat list" where
  "candidate_indexes_383 = [
     2043, 565, 3402, 3410, 3403, 3411, 564, 2042, 3843, 3844, 3780, 3781, 3419, 3420, 3845,
     3847, 3782, 3784, 3421, 3423, 420, 2039, 1284, 2497, 2089, 414, 1286, 1285, 1287, 1280,
     2386, 2387, 2388, 2302, 319, 419, 2038, 322, 318, 321, 2680, 2681, 3357, 317, 3356, 320,
     3769, 3768, 1281, 2384, 2385, 3846, 3848, 3783, 3785, 3422, 3424, 2238, 2242, 417, 2036,
     418, 2037, 1075, 1077, 715, 566, 2044, 565, 2043, 3402, 3410, 3403, 3411, 2042, 564, 3843,
     3844, 3780, 3781, 3419, 3420, 3845, 3847, 3782, 3784, 3421, 3423, 420, 2039, 1284, 2089,
     2497, 414, 1286, 1285, 1287, 1280, 2386, 2387, 2388, 2302, 319, 419, 2038, 322, 318, 321,
     2680, 2681, 3357, 317, 3356, 320, 3769, 3768, 1281, 2384, 2385, 2238, 2242, 3299, 3131, 287,
     293, 1979, 1595, 289, 291, 3110, 3116, 281, 282, 1701, 1589, 279, 280, 69, 230, 15, 11,
     3045, 2895, 3020, 2896, 2897, 2992, 2898]"

definition candidate_indexes_531 :: "nat list" where
  "candidate_indexes_531 = [
     1522, 1292, 1494, 1293, 1294, 1466, 1295, 3044, 2891, 3019, 2892, 2893, 2991, 2894, 3046,
     2899, 3021, 2900, 2901, 2993, 2902, 1521, 1288, 1493, 1289, 1290, 1465, 1291, 1523, 1296,
     1495, 1297, 1298, 1467, 1299, 2907, 3026, 2909, 3028, 2911, 2913, 3030, 3032, 3107, 2998,
     3051, 3000, 3053, 3002, 3004, 3055, 3057, 1304, 1500, 1306, 1502, 1308, 1310, 1504, 1506,
     1378, 1517, 1566, 1472, 1528, 1474, 1530, 1476, 1478, 1532, 1534, 1489, 1545, 2903, 3022,
     2904, 3023, 2905, 2906, 3024, 3025, 2908, 3027, 2910, 3029, 2912, 2914, 3031, 3033, 2994,
     3047, 2995, 3048, 2996, 2997, 3049, 3050, 2999, 3052, 3001, 3054, 3003, 3005, 3056, 3058,
     1300, 1496, 1301, 1497, 1302, 1303, 1498, 1499, 1377, 1516, 1305, 1501, 1307, 1503, 1309,
     1311, 1505, 1507, 1379, 1518, 1468, 1524, 1469, 1525, 1470, 1471, 1526, 1527, 1488, 1544,
     1473, 1529, 1475, 1531, 1477, 1479, 1533, 1535, 1490, 1546]"

definition candidate_indexes_676 :: "nat list" where
  "candidate_indexes_676 = [
     3398, 560, 562, 3406, 3779, 3399, 3418, 2663, 3407, 3842, 3617, 3400, 3408, 3786, 3401,
     3425, 3409, 3849, 2474, 2090, 2416, 2541, 2382, 2685, 2423, 2853, 2377, 66, 2883, 2549,
     2419, 2839, 2888, 341, 3358, 337, 33, 2873, 325, 2823, 2406, 2858, 406, 2801, 3326, 2567,
     2414, 2584, 2411, 2409, 2682, 2404, 2601, 17, 343, 399, 2715, 2020, 335, 2164, 2628, 2578,
     354, 2595, 2726, 2737, 2, 37, 2672, 913, 986, 2749, 621, 1118, 2248, 652, 1008, 902, 1147,
     3830, 2845, 777, 753, 1193, 1186, 779, 757, 733, 2444, 1158, 1164, 2421, 2581, 931, 940,
     2598, 49, 3779, 3418, 3842, 3786, 3425, 3849, 2474, 914, 987, 622, 1119, 653, 903, 1148]"

definition candidate_indexes_787 :: "nat list" where
  "candidate_indexes_787 = [
     2416, 2541, 2382, 2685, 2423, 2853, 2377, 2883, 2549, 2419, 2839, 2888, 341, 3358, 337, 33,
     2873, 325, 2823, 2406, 2858, 406, 2801, 3326, 2567, 2414, 2584, 2411, 2409, 2682, 2404,
     2601, 17, 343, 399, 2715, 2020, 335, 2164, 2628, 2578, 354, 2595, 2726, 2737, 2, 37, 2672,
     913, 986, 2749, 621, 1118, 2248, 652, 902, 1147, 3830, 2845, 777, 753, 1193, 1186, 779, 757,
     733, 2444, 1158, 1164, 2421, 2581, 2598, 49, 228, 1194, 1187, 780, 758, 734, 2445, 3779,
     3418, 3842, 3786, 3425, 3849, 2474, 3723]"

definition candidate_indexes_875 :: "nat list" where
  "candidate_indexes_875 = [
     2416, 2541, 2382, 2685, 2423, 2853, 2377, 2883, 2549, 2419, 2839, 2888, 341, 3358, 337, 33,
     2873, 325, 2823, 2406, 2858, 406, 2801, 3326, 2567, 2414, 2584, 2411, 2409, 2682, 2404,
     2601, 17, 343, 399, 2715, 2020, 335, 2164, 2628, 2578, 354, 2595, 2726, 2737, 2, 37, 2672,
     2749, 2248, 3830, 2845, 2421, 2581, 2598, 49, 2081, 2208, 953, 683, 1026, 1234, 656, 698,
     1048, 942, 603, 1222, 130, 1200, 1212, 801, 827, 3702, 1142, 971, 980, 3779, 3418, 3842,
     3786, 3425, 3849, 2474, 954, 1027, 1235, 943, 1223]"

definition candidate_indexes_964 :: "nat list" where
  "candidate_indexes_964 = [
     2416, 2541, 2382, 2685, 2423, 2853, 2377, 2883, 2549, 2419, 2839, 2888, 341, 3358, 337, 33,
     2873, 325, 2823, 2406, 2858, 406, 2801, 3326, 2567, 2414, 2584, 2411, 2409, 2682, 2404,
     2601, 17, 343, 399, 2715, 2020, 335, 2164, 2628, 2578, 354, 2595, 2726, 2737, 2, 37, 2672,
     2749, 2248, 3830, 2845, 2421, 2581, 2598, 49, 953, 683, 1026, 1234, 656, 698, 942, 603,
     1222, 1200, 1212, 801, 827, 3702, 1142, 2199, 684, 657, 699, 604, 1201, 1213, 802, 828,
     1143, 2878, 2137, 983, 2880, 2206, 2600, 2866, 2713, 2869, 1023, 2543, 2627, 2724, 2821,
     2163, 2546, 2138, 2398, 1100, 2831, 2207, 2807, 2671, 2875, 3393, 2747, 2735, 2139, 2793,
     2473, 2442, 2140, 3339, 1072, 825, 1073, 2878, 983, 2880, 2600, 2866, 2713, 2869, 1023,
     2543, 2627, 2724, 2821, 2163, 2546, 2398, 1100, 2831, 2807, 2671, 2875, 3393, 2747, 2735,
     2793, 2473, 2442, 3339, 825]"

definition candidate_indexes_1109 :: "nat list" where
  "candidate_indexes_1109 = [
     2878, 2880, 2600, 2866, 2713, 2869, 2543, 2627, 2724, 2821, 2163, 2546, 2398, 2831, 2807,
     2671, 2875, 3393, 2747, 2735, 2793, 2473, 2442, 825, 133, 2600, 2713, 2627, 2724, 2163,
     2671, 2747, 2735, 2793, 2473, 1006, 982, 1046, 1022, 1099, 3722, 2600, 2713, 2627, 2724,
     2163, 2671, 2747, 2735, 2793, 2473, 982, 1022, 1099, 175, 53, 13, 2033, 13, 2568, 3523,
     2585, 3539, 68, 2078, 2146, 2435, 2433, 2437, 3386, 3391, 84, 2437, 2435, 2433, 84, 597,
     2392, 112, 1818, 423, 459, 432, 444, 456, 468, 441, 453, 429, 465, 438, 450, 426, 462, 435,
     447, 3125, 2303, 2307, 1613, 1884, 3382, 2315, 2363, 2339, 422, 458, 431, 443, 455, 467,
     440, 452, 428, 464, 437, 449, 425, 461, 434, 446, 1580, 2306, 2310, 1616, 1887, 3385, 2318,
     2366, 2342, 421, 457, 430, 442, 454, 466, 439, 451, 427, 463, 436, 448, 424, 460, 433, 445,
     1582]"

definition candidate_indexes_1256 :: "nat list" where
  "candidate_indexes_1256 = [
     2304, 2308, 1614, 1885, 3383, 2316, 2364, 2340, 2515, 2521, 2518, 2524, 2514, 2520, 2517,
     2523, 2513, 2519, 2516, 2522, 1583, 2305, 2309, 1615, 1886, 3384, 2317, 2365, 2341, 5, 526,
     532, 313, 528, 3491, 2469, 1991, 1981, 1993, 2003, 82, 93, 2393, 2395, 517, 518, 519, 521,
     522, 523, 2574, 3529, 2591, 3545, 2016, 2165, 2161, 2031, 1815, 471, 507, 480, 492, 504,
     516, 489, 501, 477, 513, 486, 498, 474, 510, 483, 495, 3118, 470, 506, 479, 491, 503, 515,
     488, 500, 476, 512, 485, 497, 473, 509, 482, 494, 1573, 469, 505, 478, 490, 502, 514, 487,
     499, 475, 511, 484, 496, 472, 508, 481, 493, 3119, 2503, 2509, 2506, 2512, 2502, 2508, 2505,
     2511, 2501, 2507, 2504, 2510, 1574, 2448, 3469, 831, 858]"

definition candidate_indexes_1383 :: "nat list" where
  "candidate_indexes_1383 = [
     783, 643, 646, 1105, 716, 1092, 881, 703, 704, 709, 710, 623, 1236, 1079, 904, 944, 915,
     955, 1139, 605, 795, 1125, 1230, 2454, 719, 3475, 720, 737, 1195, 1202, 747, 1188, 1214,
     1082, 1169, 1083, 1209, 1183, 805, 1159, 1156, 815, 1165, 1162, 761, 771, 837, 864, 2449,
     3470, 832, 859, 784, 644, 647, 1106, 717, 1093, 882, 705, 706, 711, 712, 624, 1237, 1080,
     905, 945, 916, 956, 1140, 606, 796, 1126, 1231, 2455, 721, 3476, 127, 722, 738, 1196, 1203,
     748, 1189, 1215, 1170, 1210, 1184, 806, 1160, 1157, 816, 1166, 1163, 762, 772, 838, 865,
     896, 2450, 3471, 833, 860, 785, 645, 648, 1107, 718, 1094, 883, 707, 708, 713, 714, 625,
     1238, 1081, 906, 946, 917, 957, 1141, 607, 797, 1127, 1232, 2456, 723, 724, 3477, 739, 1197,
     1204, 749, 1190, 1216, 1084, 1171, 1085, 1211, 1185, 807, 817, 763, 773, 839, 866, 899,
     1096]"

definition candidate_indexes_1533 :: "nat list" where
  "candidate_indexes_1533 = [
     1130, 1136, 900, 1097, 1131, 1137, 901, 1098, 1132, 1138, 396, 392, 391, 395, 378, 387, 379,
     380, 386, 383, 394, 389, 397, 390, 388, 393, 382, 381, 384, 385, 372, 371, 374, 375, 369,
     370, 376, 373, 2035, 71, 232, 579, 2196, 2088, 2496, 368, 377, 261, 263, 255, 259, 2289,
     2236, 2368, 2253, 2291, 2367, 3797, 3800, 3818, 3809, 3806, 3803, 3812, 3815, 3822, 3821,
     2286, 3798, 3801, 3819, 3810, 3807, 3804, 3813, 3816, 3799, 3802, 3820, 3811, 3808, 3805,
     3814, 3817, 2234, 2235, 2290, 412, 413, 22, 3317, 3332, 2688, 3635, 2842, 3695, 2767, 2765,
     2766, 3823, 2577, 3665, 3663, 3664, 3532, 2709, 2707, 2708, 2594, 3651, 3649, 3650, 3548,
     1277, 1276, 2500, 554, 553, 2168, 2041, 563, 1076, 894, 1078, 369, 370, 376, 373, 368, 377,
     2289, 2253, 2291, 2149, 80, 237, 585, 2198, 262, 264, 256, 2288, 260, 2237, 2369]"

definition candidate_indexes_1678 :: "nat list" where
  "candidate_indexes_1678 = [
     3797, 3800, 3818, 3809, 3806, 3803, 3812, 3815, 3822, 3821, 2286, 3798, 3801, 3819, 3810,
     3807, 3804, 3813, 3816, 3799, 3802, 3820, 3811, 3808, 3805, 3814, 3817, 2234, 2235, 2290,
     412, 413, 22, 3317, 3332, 2688, 3635, 2842, 3695, 2767, 2765, 2766, 2577, 3665, 3663, 3664,
     3532, 2709, 2707, 2708, 2594, 3651, 3649, 3650, 3548, 1277, 1276, 554, 553, 2168, 563, 2041,
     1076, 1078, 894, 369, 370, 376, 373, 368, 377, 2289, 2253, 2291, 2213, 2086, 2203, 2193,
     2179, 257, 3797, 3800, 3818, 3809, 3806, 3803, 3812, 3815, 3822, 3821, 2286, 3798, 3801,
     3819, 3810, 3807, 3804, 3813, 3816, 3799, 3802, 3820, 3811, 3808, 3805, 3814, 3817, 2234,
     2235, 2290, 412, 413, 22, 3317, 3332, 2688, 3635, 2842, 3695, 2767, 2765, 2766, 2577, 3665,
     3663, 3664, 3532, 2709, 2707, 2708, 2594, 3651, 3649, 3650, 3548, 1277, 1276, 554, 553,
     2168, 563, 2041, 1076, 894, 1078, 538, 539]"

definition candidate_indexes_1825 :: "nat list" where
  "candidate_indexes_1825 = [
     369, 370, 376, 373, 368, 377, 2289, 2253, 2291, 2217, 2150, 2204, 2194, 2180, 258, 3136,
     1722, 3194, 1785, 3195, 1786, 3196, 1787, 2211, 2084, 2200, 2174, 2211, 45, 360, 41, 356,
     3133, 1719, 3185, 1776, 3186, 1777, 3187, 1778, 592, 2779, 2787, 3496, 689, 641, 3445, 3516,
     2380, 3632, 3451, 3704, 574, 3759, 3518, 3447, 3692, 3762, 345, 3753, 347, 2294, 3732, 329,
     3683, 3435, 3706, 2195, 2173, 3669, 2401, 3522, 3443, 3538, 3440, 3438, 2771, 3433, 3555,
     3314, 339, 333, 2026, 352, 2246, 3582, 3533, 3549, 2795, 2182, 3624, 926, 1009, 636, 1103,
     671, 609, 935, 879, 2849, 2545, 3698, 822, 1167, 1207, 791, 767, 743, 3465, 1155, 1161,
     3449, 3536, 930, 939, 3552, 2779, 2787, 3496, 689, 641, 927, 637, 1104, 672, 610, 936, 880,
     134]"

definition candidate_indexes_1954 :: "nat list" where
  "candidate_indexes_1954 = [
     3445, 3516, 2380, 3632, 3451, 3704, 3759, 3518, 3447, 3692, 3762, 345, 3753, 347, 2294,
     3732, 329, 3683, 3435, 3706, 3669, 2401, 3522, 3443, 3538, 3440, 3438, 2771, 3433, 3555,
     3314, 339, 333, 2026, 352, 2246, 3582, 3533, 3549, 2795, 2182, 3624, 926, 636, 1103, 671,
     609, 935, 879, 2849, 2545, 3698, 822, 1167, 1207, 791, 767, 743, 3465, 1155, 1161, 3449,
     3536, 930, 939, 3552, 267, 2299, 1168, 1208, 792, 768, 744, 3466, 2779, 2787, 3496, 689,
     641, 3445, 3516, 2380, 3632, 3451, 3704, 3759, 3518, 3447, 3692, 3762, 345, 3753, 347, 2294,
     3732, 329, 3683, 3435, 3706, 3669, 2401, 3522, 3443, 3538, 3440, 3438, 2771, 3433, 3555,
     3314, 339, 333, 2026, 352, 2246, 3582, 3533, 3549, 2795, 2182, 3624, 2849, 2545, 3698, 3449,
     3536, 3552, 239, 966, 675, 1049, 598, 693, 679, 615, 975, 1123, 1181, 811, 854, 3717, 1217,
     1228, 970, 979]"

definition candidate_indexes_2099 :: "nat list" where
  "candidate_indexes_2099 = [
     2779, 2787, 3496, 689, 641, 967, 599, 680, 616, 976, 176, 3445, 3516, 2380, 3632, 3451,
     3704, 3759, 3518, 3447, 3692, 3762, 345, 3753, 347, 2294, 3732, 329, 3683, 3435, 3706, 3669,
     2401, 3522, 3443, 3538, 3440, 3438, 2771, 3433, 3555, 3314, 339, 333, 2026, 352, 2246, 3582,
     3533, 3549, 2795, 2182, 3624, 2849, 2545, 3698, 3449, 3536, 3552, 966, 675, 598, 693, 679,
     615, 975, 1123, 1181, 811, 854, 3717, 1217, 1228, 970, 979, 238, 676, 694, 1124, 1182, 812,
     855, 1218, 1229, 2019, 3737, 2176, 3756, 226, 3554, 3714, 3719, 2025, 2855, 2552, 3581,
     2828, 3681, 2835, 2177, 2815, 1115, 3688, 227, 3675, 3623, 3734, 3778, 2178, 2777, 3495,
     3463, 2141, 2785, 852, 2019, 3737, 3756, 3554, 3714, 3719, 2025, 2855, 2552, 3581, 2828,
     3681, 2835, 2815, 1115, 3688, 3675, 3623, 3734, 3778, 2777, 3495, 3463, 2785, 852]"

definition candidate_indexes_2239 :: "nat list" where
  "candidate_indexes_2239 = [
     2019, 3737, 3756, 3554, 3714, 3719, 2025, 2855, 2552, 3581, 2828, 3681, 2835, 2815, 3688,
     3675, 3623, 3734, 3778, 2777, 3495, 3463, 2785, 852, 687, 2019, 3554, 2025, 3581, 3623,
     2777, 3495, 2785, 688, 1007, 1114, 1047, 2019, 3554, 2025, 3581, 3623, 2777, 3495, 2785,
     1114, 43, 358, 2210, 2083, 223, 145, 143, 122, 297, 295, 3412, 3405, 3293, 3234, 3268, 3235,
     1560, 3076, 3236, 1607, 3084, 1627, 3092, 1878, 3246, 1898, 3254, 1914, 3262, 1939, 3274,
     3237, 1955, 3282, 3376, 2311, 2359, 2335, 1968, 1837, 1922, 1838, 1561, 3077, 1839, 1608,
     3085, 1628, 3093, 1879, 3247, 1899, 3255, 1915, 3263, 1940, 3275, 1840, 1956, 3283, 3377,
     2314, 2362, 2338, 1970, 1847, 1924, 1848, 1558, 1851, 1605, 1625, 1876, 1896, 1912, 1937,
     1853, 1953, 3374, 2312, 2360, 2336, 1571, 1971, 1849, 1925, 1850, 1559, 1852, 1606, 1626,
     1877, 1897, 1913, 1938, 1854, 1954, 3375, 2313, 2361, 2337, 3233, 1836, 1845]"

definition candidate_indexes_2389 :: "nat list" where
  "candidate_indexes_2389 = [
     1846, 9, 2499, 2498, 301, 299, 3286, 3205, 3206, 3222, 3227, 1961, 1799, 1800, 1821, 1826,
     3287, 3207, 3208, 3223, 1962, 1801, 1802, 1822, 3200, 1794, 3201, 1795, 2477, 3499, 2720,
     2731, 307, 349, 2774, 2610, 2624, 3564, 3578, 2637, 2651, 3591, 3605, 2717, 2721, 2728,
     2732, 2781, 2789, 3703, 2441, 3462, 2475, 3497, 3854, 3855, 3791, 3792, 3404, 3718, 2864,
     3712, 2415, 3444, 2865, 3713, 2826, 2684, 3686, 2773, 2803, 3671, 2827, 3687, 2804, 3672,
     2542, 3517, 38, 2550, 3519, 2854, 2579, 3705, 3534, 2551, 2596, 3520, 3550, 2687, 3634,
     2841, 3694, 3360, 3755, 2844, 3697, 2022, 2028, 2782, 2790, 2744, 2798, 2170]"

definition candidate_indexes_2493 :: "nat list" where
  "candidate_indexes_2493 = [
     2477, 3499, 2720, 2731, 307, 349, 2774, 2610, 2624, 3564, 3578, 2637, 2651, 3591, 3605,
     2717, 2721, 2728, 2732, 2781, 2789, 3703, 2441, 3462, 3854, 3855, 3791, 3792, 3404, 3718,
     2864, 3712, 2415, 3444, 2865, 3713, 2826, 2684, 3686, 2773, 2803, 3671, 2827, 3687, 2804,
     3672, 2542, 3517, 38, 2550, 3519, 2854, 2579, 3705, 3534, 2551, 2596, 3520, 3550, 2687,
     3634, 2841, 3694, 3360, 3755, 2844, 3697, 2477, 3499, 2720, 2731, 307, 349, 2774, 2610,
     2624, 3564, 3578, 2637, 2651, 3591, 3605, 2717, 2721, 2728, 2732, 2781, 2789, 3703, 2441,
     3462, 3854, 3855, 3791, 3792, 3404, 3718, 2864, 3712, 2415, 3444, 2865, 3713, 2826, 2684,
     3686, 2773, 2803, 3671, 2827, 3687, 2804, 3672, 2542, 3517, 38, 2550, 3519, 2854, 2579,
     3705, 3534, 2551, 2596, 3520, 3550, 2687, 3634, 2841, 3694, 3360, 3755, 2844, 3697, 3724,
     2476, 3498]"

definition candidate_indexes_2630 :: "nat list" where
  "candidate_indexes_2630 = [
     2478, 3500, 2023, 2029, 2783, 2791, 3725, 3340, 2718, 2722, 2729, 2733, 308, 350, 2775,
     2611, 2625, 3565, 3579, 2638, 2652, 3592, 3606, 2675, 2678, 3627, 3630, 2752, 2755, 2745,
     2799, 2171, 2479, 3501, 2024, 2030, 2784, 2792, 2719, 2723, 2730, 2734, 309, 351, 2776,
     2612, 2626, 3566, 3580, 2639, 2653, 3593, 3607, 2676, 2679, 3628, 3631, 2753, 2756, 2746,
     2800, 2172, 2417, 2420, 3446, 3448, 2884, 2886, 3760, 3761, 2412, 2413, 3441, 3442, 2424,
     2425, 3452, 3453, 2889, 2890, 3763, 3764, 2751, 2754, 2249, 2250, 2251, 2252, 2674, 2677,
     3626, 3629, 2418, 2885, 2887, 583, 586, 2655, 2876, 2877, 3735, 3736, 117, 116, 225, 2407,
     2408, 3436, 3437, 7, 8, 270, 2882, 3758, 2871, 3721, 2857, 2554, 2405, 3434, 2690]"

definition candidate_indexes_2751 :: "nat list" where
  "candidate_indexes_2751 = [
     2837, 2838, 2819, 2820, 2547, 2548, 2399, 2400, 2833, 2834, 2811, 2812, 3690, 3691, 3679,
     3680, 2847, 2848, 3700, 3701, 2851, 2852, 34, 35, 2295, 2296, 3327, 3328, 2402, 2403, 2018,
     2191, 1265, 1264, 65, 63, 2565, 2298, 61, 59, 2563, 2693, 3639, 2697, 2417, 2420, 3446,
     3448, 2884, 2886, 3760, 3761, 2412, 2413, 3441, 3442, 2424, 2425, 3452, 3453, 2889, 2890,
     3763, 3764, 2751, 2754, 2249, 2251, 2674, 2677, 3626, 3629, 2418, 2885, 2887, 583, 586,
     2876, 2877, 3735, 3736, 117, 116, 225, 2407, 2408, 3436, 3437, 7, 8, 270, 2882, 3758, 2871,
     3721, 2857, 2554, 2405, 3434, 2690, 2837, 2838, 2819, 2820, 2547, 2548, 2399, 2400, 2833,
     2834, 2811, 2812, 3690, 3691, 3679, 3680, 2847, 2848, 3700, 3701, 2851, 2852, 34, 35, 2295,
     2296, 3327, 3328, 2402, 2403, 2018, 2191, 1265, 1264]"

definition candidate_indexes_2885 :: "nat list" where
  "candidate_indexes_2885 = [
     2417, 2420, 3446, 3448, 2884, 2886, 3760, 3761, 2412, 2413, 3441, 3442, 2424, 2425, 3452,
     3453, 2889, 2890, 3763, 3764, 2751, 2754, 2249, 2251, 2674, 2677, 3626, 3629, 2418, 2885,
     2887, 583, 586, 117, 116, 225, 2407, 2408, 3436, 3437, 270, 2882, 3758, 2871, 3721, 2857,
     2554, 2405, 3434, 2690, 3748, 2429, 2430, 34, 35, 2295, 2296, 3327, 3328, 2402, 2403, 2018,
     2191, 1265, 1264, 2817, 2809, 3677, 2417, 2420, 3446, 3448, 2884, 2886, 3760, 3761, 2412,
     2413, 3441, 3442, 2424, 2425, 3452, 3453, 2889, 2890, 3763, 3764, 2751, 2754, 2249, 2251,
     2674, 2677, 3626, 3629, 2418, 2885, 2887, 583, 586, 117, 116, 225, 2407, 2408, 3436, 3437,
     270, 2882, 3758, 2871, 3721, 2857, 2554, 2405, 3434, 2690, 2429, 2430, 3609, 34, 35, 2295,
     2296, 3327, 3328, 2402, 2403, 2018, 2191, 1265, 1264, 3300, 3132, 288, 294, 1980, 1596, 290,
     292, 3111, 3117, 285, 286, 1702, 1590, 283, 284, 577]"

definition candidate_indexes_3035 :: "nat list" where
  "candidate_indexes_3035 = [
     569, 3312, 2184, 3308, 3398, 560, 562, 3406, 3779, 3399, 3418, 3407, 3842, 3400, 3408, 3786,
     3401, 3425, 3409, 3849, 2474, 1279, 2046, 2664, 2091, 3618, 2416, 2541, 2382, 2685, 2423,
     2853, 2377, 66, 2883, 2549, 2419, 2839, 2888, 341, 3358, 337, 33, 2873, 325, 2823, 2406,
     2858, 406, 2801, 3326, 2567, 2414, 2584, 2411, 2409, 2682, 2404, 2601, 17, 343, 399, 2715,
     2020, 335, 2164, 2628, 2578, 354, 2595, 2726, 2737, 2, 37, 2672, 913, 986, 2749, 621, 1118,
     2248, 652, 1008, 902, 1147, 3830, 2845, 777, 753, 1193, 1186, 779, 757, 733, 2444, 1158,
     1164, 2421, 2581, 931, 940, 2598, 49, 60, 58, 64, 62, 3779, 3418, 3842, 3786, 3425, 3849,
     2474, 3723, 2654, 3747, 3310, 576, 2080, 2154, 3456, 3458, 3454, 1983, 3773, 3777, 1995,
     3458, 3456, 3454, 1983, 1995, 111, 113, 1819]"

definition candidate_indexes_3171 :: "nat list" where
  "candidate_indexes_3171 = [
     423, 459, 432, 444, 456, 468, 441, 453, 429, 465, 438, 450, 426, 462, 435, 447, 3126, 2319,
     2323, 2331, 2355, 2347, 422, 458, 431, 443, 455, 467, 440, 452, 428, 464, 437, 449, 425,
     461, 434, 446, 1581, 2322, 2326, 2334, 2358, 2350, 421, 457, 430, 442, 454, 466, 439, 451,
     427, 463, 436, 448, 424, 460, 433, 445, 1584, 2320, 2324, 2332, 2356, 2348, 2515, 2521,
     2518, 2524, 2514, 2520, 2517, 2523, 2513, 2519, 2516, 2522, 1585, 2321, 2325, 2333, 2357,
     2349, 2427, 2187, 534, 536, 401, 315, 530, 2300, 2378, 2375, 330, 326, 540, 404, 0, 1816,
     471, 507, 480, 492, 504, 516, 489, 501, 477, 513, 486, 498, 474, 510, 483, 495, 3120, 470,
     506, 479, 491, 503, 515, 488, 500, 476, 512, 485, 497, 473, 509, 482, 494, 1575, 469, 505,
     478, 490, 502, 514, 487, 499, 475, 511, 484, 496, 472, 508, 481, 493]"

definition candidate_indexes_3321 :: "nat list" where
  "candidate_indexes_3321 = [
     2503, 2509, 2506, 2512, 2502, 2508, 2505, 2511, 2501, 2507, 2504, 2510, 2527, 2040, 561,
     2530, 2529, 2531, 2534, 2533, 2536, 2686, 2840, 342, 3359, 338, 2874, 2824, 2859, 2802,
     2683, 18, 344, 400, 2716, 336, 355, 2727, 2738, 3, 2750, 1120, 654, 1149, 2846, 781, 759,
     735, 2446, 2528, 2532, 2535, 924, 634, 933, 36, 1121, 655, 1150, 2686, 2840, 342, 3359, 338,
     2874, 2824, 2859, 2802, 2683, 18, 344, 400, 2716, 336, 355, 2727, 2738, 3, 2750, 1120, 654,
     1149, 2846, 781, 759, 735, 2446, 924, 634, 933, 36, 782, 760, 736, 2447, 2686, 2840, 342,
     3359, 338, 2874, 2824, 2859, 2802, 2683, 18, 344, 400, 2716, 336, 355, 2727, 2738, 3, 2750,
     2846, 36, 685, 658, 700, 1224, 803, 829, 1144, 1152, 964, 973, 1225]"

definition candidate_indexes_3449 :: "nat list" where
  "candidate_indexes_3449 = [
     2686, 2840, 342, 3359, 338, 2874, 2824, 2859, 2802, 2683, 18, 344, 400, 2716, 336, 355,
     2727, 2738, 3, 2750, 2846, 36, 685, 658, 700, 1224, 803, 829, 1144, 1152, 964, 973, 686,
     659, 701, 804, 830, 1145, 1153, 2879, 985, 2881, 2867, 2714, 2870, 1025, 2544, 2725, 2822,
     1102, 2832, 2808, 2748, 2736, 2794, 2443, 826, 2879, 2881, 2867, 2714, 2870, 2544, 2725,
     2822, 2832, 2808, 2748, 2736, 2794, 2443, 826, 2714, 2725, 2748, 2736, 2794, 984, 1024,
     1101, 690, 642, 824, 638, 639, 928, 929, 968, 969, 937, 938, 977, 978, 989, 1029, 168, 190,
     1111, 651, 126, 217, 887, 886, 690, 642, 638, 639, 928, 929, 968, 969, 937, 938, 977, 978,
     989, 1029, 168, 190, 1111, 651, 217, 136, 135, 210, 690, 642, 638, 639, 928, 929, 968, 969,
     937, 938, 977, 978, 789, 755, 132]"

definition candidate_indexes_3589 :: "nat list" where
  "candidate_indexes_3589 = [
     651, 990, 1030, 691, 1112, 1019, 1021, 1059, 1061, 1018, 1020, 1058, 1060, 1062, 690, 642,
     638, 639, 928, 929, 968, 969, 937, 938, 977, 978, 790, 756, 651, 991, 1031, 692, 1113, 186,
     188, 206, 208, 185, 187, 205, 207, 1063, 628, 119, 1241, 219, 1110, 216, 1249, 1151, 1226,
     640, 667, 697, 702, 668, 666, 669, 627, 118, 1177, 670, 613, 619, 614, 620, 1240, 218, 1178,
     1109, 215, 1176, 1247, 1180, 932, 923, 156, 1174, 972, 963, 166, 941, 912, 151, 1179, 981,
     952, 161, 1175, 602, 1227, 1122, 821, 885, 1154, 884, 1233, 1146, 1221, 661, 662, 1248, 664,
     663, 660, 665, 633, 626, 897, 1239, 1108, 1246, 922, 962, 911, 951, 988, 167, 1028, 189,
     1133, 1134, 898, 1095, 1129, 1135]"

definition candidate_indexes_3715 :: "nat list" where
  "candidate_indexes_3715 = [
     628, 1241, 1110, 1249, 1151, 1226, 640, 697, 667, 702, 668, 666, 669, 627, 1177, 670, 613,
     619, 620, 614, 1240, 1178, 1109, 1176, 1247, 1180, 932, 923, 1174, 972, 963, 941, 912, 1179,
     981, 952, 1175, 602, 1227, 1122, 885, 1154, 884, 1233, 1146, 1221, 661, 662, 1248, 664, 663,
     660, 665, 633, 626, 1239, 1108, 1246, 922, 962, 911, 951, 2462, 3483, 2463, 3484, 2464,
     3485, 845, 872, 846, 873, 847, 874, 988, 1028, 1133, 1134, 898, 1095, 1129, 1135]"

definition candidate_indexes_3797 :: "nat list" where
  "candidate_indexes_3797 = [
     628, 1241, 1110, 1249, 1151, 1226, 640, 697, 667, 702, 668, 666, 669, 627, 1177, 670, 613,
     619, 620, 614, 1240, 1178, 1109, 1176, 1247, 1180, 932, 923, 1174, 972, 963, 941, 912, 1179,
     981, 952, 1175, 602, 1227, 1122, 885, 1154, 884, 1233, 1146, 1221, 661, 662, 1248, 664, 663,
     660, 665, 633, 626, 1239, 1108, 1246, 922, 962, 911, 951, 727, 728, 129, 2465, 3486, 848,
     875, 628, 1241, 1110, 1249, 1151, 1226, 640, 667, 697, 702, 668, 666, 669, 627, 1177, 670,
     619, 613, 620, 614, 1240, 1178, 1109, 1176, 1247, 1180, 932, 923, 1174, 972, 963, 941, 912,
     1179, 981, 952, 1175, 602, 1227, 1122, 885, 1154, 884, 1233, 1146, 1221, 661, 662, 1248,
     664, 663, 660, 665, 633, 626, 1239, 1108, 1246, 922, 962, 911, 951, 729, 730, 731, 732,
     2466, 3487, 2467, 3488, 2468, 3489, 849, 876, 850, 877, 851, 878, 3100, 1791, 3101]"

definition candidate_indexes_3947 :: "nat list" where
  "candidate_indexes_3947 = [
     1792, 3102, 1793, 78, 3429, 235, 3337, 366, 3333, 362, 3134, 1720, 3188, 1779, 3189, 1780,
     3190, 1781, 592, 2779, 2787, 3496, 689, 641, 2045, 1278, 2779, 2787, 3496, 689, 641, 927,
     637, 1104, 672, 610, 936, 880, 134, 209, 2779, 2787, 3496, 689, 641, 3608, 2019, 3737, 2176,
     3756, 226, 3554, 3714, 3719, 2025, 2855, 2552, 3581, 2828, 3681, 2835, 2177, 2815, 1115,
     3688, 227, 3675, 3623, 3734, 3778, 2178, 2777, 3495, 3463, 2785, 852, 2142, 1074, 3335, 364,
     77, 3428, 2144, 3294, 3239, 3269, 3240, 1564, 3078, 3241, 1611, 3086, 1631, 3094, 1882,
     3248, 1902, 3256, 1918, 3264, 1943, 3276, 1959, 3284, 3380, 2327, 2351, 2343, 1969, 1842,
     1923, 1843, 1565, 3079, 1844, 1612, 3087, 1632, 3095, 1883, 3249, 1903, 3257, 1919, 3265,
     1944, 3277, 1960, 3285, 3381, 2330, 2354, 2346, 1972, 1857, 1926, 1858]"

definition candidate_indexes_4084 :: "nat list" where
  "candidate_indexes_4084 = [
     1562, 1861, 1609, 1629, 1880, 1900, 1916, 1941, 1957, 3378, 2328, 2352, 2344, 1572, 1973,
     1859, 1927, 1860, 1563, 1862, 1610, 1630, 1881, 1901, 1917, 1942, 1958, 3379, 2329, 2353,
     2345, 3238, 1841, 1855, 1856, 2431, 2189, 305, 303, 3288, 3209, 3210, 3224, 1963, 1803,
     1804, 1823, 3202, 1796, 2780, 2788, 3633, 3693, 346, 3754, 348, 3733, 3684, 3707, 3670,
     2772, 3315, 340, 334, 353, 2796, 2183, 673, 611, 2850, 3699, 823, 793, 769, 745, 3467, 925,
     635, 934, 2780, 2788, 674, 612, 3633, 3693, 346, 3754, 348, 3733, 3684, 3707, 3670, 2772,
     3315, 340, 334, 353, 2796, 2183, 673, 611, 2850, 3699, 823, 793, 769, 745, 3467, 925, 635,
     934, 794, 770, 746, 3468, 3633, 3693, 346, 3754, 348, 3733, 3684, 3707, 3670, 2772, 3315,
     340, 334, 353, 2796, 2183, 2850, 3699, 677, 600, 695, 681, 617, 813, 856, 1219, 965, 974,
     2780, 2788, 601, 682, 618]"

definition candidate_indexes_4232 :: "nat list" where
  "candidate_indexes_4232 = [
     3633, 3693, 346, 3754, 348, 3733, 3684, 3707, 3670, 2772, 3315, 340, 334, 353, 2796, 2183,
     2850, 3699, 677, 600, 695, 681, 617, 813, 856, 1219, 965, 974, 678, 696, 814, 857, 1220,
     3738, 3757, 3715, 3720, 2856, 2553, 2829, 3682, 2836, 2816, 1117, 3689, 3676, 2778, 3464,
     2786, 853, 3738, 3757, 3715, 3720, 2856, 2553, 2829, 3682, 2836, 2816, 3689, 3676, 2778,
     3464, 2786, 853, 2778, 2786, 1116, 1066, 246, 1070, 247, 1065, 1069, 211, 1067, 213, 1071,
     1064, 212, 1068, 214, 1420, 1664, 1330, 1639, 1759, 1732, 2257, 2254, 2258, 2272, 2282,
     2265, 1412, 1659, 1320, 1633, 1420, 1664, 1330, 1639, 1380, 1381, 1382, 1383, 2258, 2272,
     2282, 2265, 1380, 1381, 1382, 1383, 1429, 1671, 1368, 1653, 1761, 1755, 2271, 2268, 1430,
     1672, 1369, 1654, 1423, 1667, 1360, 1648, 1429, 1671, 1368, 1653, 1409, 1385, 1386, 1387,
     1430, 1672, 1369, 1654, 1409, 1385, 1386, 1387]"

definition candidate_indexes_4379 :: "nat list" where
  "candidate_indexes_4379 = [
     1458, 1687, 1772, 2281, 2278, 1459, 1688, 1450, 1683, 1458, 1687, 1407, 1408, 1410, 1411,
     1459, 1688, 1407, 1408, 1410, 1411, 1820, 1829, 2264, 2261, 1820, 1829, 2256, 2270, 2280,
     2263, 1404, 1405, 1406, 1384, 3297, 3129, 3295, 3127, 1977, 1593, 1975, 1591, 3108, 3112,
     271, 277, 1699, 1587, 273, 275, 70, 231, 16, 12, 57, 14, 2034, 14, 30, 2569, 3524, 2586,
     3540, 67, 2077, 2145, 2438, 2434, 2436, 3387, 3392, 3394, 85, 2438, 2436, 2434, 85, 596,
     2391, 240, 1866, 423, 459, 432, 444, 456, 468, 441, 453, 429, 465, 438, 450, 426, 462, 435,
     447, 3123, 3103, 3104, 422, 458, 431, 443, 455, 467, 440, 452, 428, 464, 437, 449, 425, 461,
     434, 446, 1578, 1695, 1696, 421, 457, 430, 442, 454, 466, 439, 451, 427, 463, 436, 448, 424,
     460, 433, 445, 1586, 3114]"

definition candidate_indexes_4517 :: "nat list" where
  "candidate_indexes_4517 = [
     2515, 2521, 2518, 2524, 2514, 2520, 2517, 2523, 2513, 2519, 2516, 2522, 1569, 6, 527, 533,
     314, 529, 3329, 3492, 2470, 1282, 1262, 1992, 1982, 2004, 1994, 83, 94, 2394, 2396, 2223,
     520, 524, 2575, 3530, 2592, 3546, 2017, 2166, 2162, 2032, 2566, 2673, 2667, 2656, 2668,
     3521, 3625, 3619, 3610, 3620, 1817, 471, 507, 480, 492, 504, 516, 489, 501, 477, 513, 486,
     498, 474, 510, 483, 495, 3121, 470, 506, 479, 491, 503, 515, 488, 500, 476, 512, 485, 497,
     473, 509, 482, 494, 1576, 2451, 3472, 834, 861, 786, 798, 2457, 3478, 740, 750, 808, 818,
     764, 774, 840, 867, 2452, 3473, 835, 862, 787, 799, 2458, 3479, 741, 751, 1086, 1087, 809,
     819, 765, 775, 841, 868, 1088, 1089, 2453, 3474, 836, 863, 788, 800, 2459, 3480, 742, 752,
     1090, 1091, 810, 820, 766, 776, 842, 869]"

definition candidate_indexes_4658 :: "nat list" where
  "candidate_indexes_4658 = [
     1314, 1726, 1354, 1749, 1444, 1766, 1336, 1738, 1315, 1727, 1355, 1750, 1445, 1767, 1337,
     1739, 2917, 3140, 2951, 3163, 2972, 3175, 2933, 3152, 2918, 3141, 2952, 3164, 2973, 3176,
     2934, 3153, 1312, 1724, 1352, 1747, 1442, 1764, 1334, 1736, 1313, 1725, 1353, 1748, 1443,
     1765, 1335, 1737, 2915, 3138, 2949, 3161, 2970, 3173, 2931, 3150, 2916, 3139, 2950, 3162,
     2971, 3174, 2932, 3151, 2659, 2657, 2662, 2660, 3351, 3353, 2658, 2661, 3350, 3352, 1318,
     1730, 1358, 1753, 1448, 1770, 1340, 1742, 1319, 1731, 1359, 1754, 1449, 1771, 1341, 1743,
     2921, 3144, 2955, 3167, 2976, 3179, 2937, 3156, 2922, 3145, 2956, 3168, 2977, 3180, 2938,
     3157, 1316, 1728, 1356, 1751, 1446, 1768, 1338, 1740, 1317, 1729, 1357, 1752, 1447, 1769,
     1339, 1741, 2919, 3142, 2953, 3165, 2974, 3177, 2935, 3154, 2920, 3143, 2954, 3166, 2975,
     3178, 2936, 3155, 3750, 3611, 3752, 3614, 3613, 3616, 3749, 3751, 3612, 3615]"

definition candidate_indexes_4806 :: "nat list" where
  "candidate_indexes_4806 = [
     1397, 1396, 1326, 1635, 1322, 1735, 1734, 1703, 1389, 1388, 1327, 1636, 1323, 1481, 1480,
     1704, 1328, 1637, 1324, 1509, 1508, 1705, 1329, 1638, 1325, 1537, 1536, 1706, 1401, 1400,
     1437, 1678, 1436, 1758, 1757, 1716, 1486, 1393, 1392, 1365, 1650, 1487, 1362, 1485, 1484,
     1708, 1366, 1651, 1363, 1513, 1512, 1709, 1367, 1652, 1364, 1541, 1540, 1710, 1403, 1402,
     1427, 1669, 1455, 1425, 1775, 1774, 1452, 1714, 1514, 1395, 1394, 1428, 1670, 1515, 1426,
     1492, 1491, 1715, 1456, 1685, 1453, 1520, 1519, 1717, 1457, 1686, 1454, 1548, 1547, 1718,
     1399, 1398, 1417, 1661, 1345, 1414, 1746, 1745, 1343, 1711, 1542, 1391, 1390, 1418, 1662,
     1543, 1415, 1483, 1482, 1712, 1419, 1663, 1416, 1511, 1510, 1713, 1346, 1643, 1344, 1539,
     1538, 1707, 3137, 1723, 3197, 1788, 3198, 1789, 3199, 1790, 2212, 2085, 2201, 2175, 2212,
     46, 361, 42, 357, 3135, 1721, 3191, 1782, 3192, 1783, 3193, 1784, 44, 359]"

definition candidate_indexes_4955 :: "nat list" where
  "candidate_indexes_4955 = [
     2209, 2082, 224, 146, 144, 123, 298, 296, 3291, 3217, 3266, 3218, 1550, 3072, 3228, 1597,
     3080, 1617, 3088, 1868, 3242, 1888, 3250, 1904, 3258, 1929, 3270, 1945, 3278, 3366, 1966,
     1811, 1920, 1812, 1556, 3074, 1827, 1603, 3082, 1623, 3090, 1874, 3244, 1894, 3252, 1910,
     3260, 1935, 3272, 1951, 3280, 3372, 1974, 1864, 1928, 1865, 1552, 1867, 1599, 1619, 1870,
     1890, 1906, 1931, 1947, 3368, 1567, 1554, 1601, 1621, 1872, 1892, 1908, 1933, 1949, 3370,
     3215, 1809, 1863, 10, 2390, 302, 300, 3330, 398, 3289, 3211, 3212, 3225, 1964, 1805, 1806,
     1824, 3203, 1797, 2072, 2117, 2057, 2102, 2132, 2062, 2107, 2067, 2112, 2070, 2115, 2116,
     2071, 2047, 2092, 2122, 2052, 2097, 2127, 2055, 2100, 2130, 2056, 2101, 2131, 3840, 3832,
     3834, 3835, 3836, 3833, 3837, 3838, 3839, 2073, 2118, 2058, 2103, 2133, 2108, 2063, 2113,
     2068, 2048, 2093, 2123, 2098, 2053, 2128, 3841, 2151, 2152]"

definition candidate_indexes_5102 :: "nat list" where
  "candidate_indexes_5102 = [
     2074, 2119, 2104, 2059, 2134, 2064, 2109, 2069, 2114, 2094, 2049, 2124, 2054, 2099, 2129,
     2010, 2012, 2005, 2007, 32, 51, 2011, 2013, 2006, 2008, 2075, 2120, 2076, 2121, 2060, 2105,
     2135, 2061, 2106, 2136, 2065, 2110, 2111, 2066, 2050, 2095, 2125, 2051, 2096, 2126, 2014,
     2009, 31, 50, 2613, 3739, 2640, 3567, 3345, 3594, 2615, 2642, 3569, 3596, 3740, 3346, 992,
     1032, 169, 191, 2616, 2643, 3570, 3597, 3741, 3347, 994, 1034, 170, 192]"

definition candidate_indexes_5177 :: "nat list" where
  "candidate_indexes_5177 = [
     2620, 3743, 2647, 3574, 3348, 3601, 2619, 3742, 2646, 3573, 3600, 1014, 1054, 181, 201,
     1013, 1053, 180, 200, 890, 139, 2490, 3728, 3512, 3343, 998, 1038, 26, 3321, 1000, 1040,
     2494, 2570, 3525, 2587, 3541, 907, 147, 947, 157, 918, 152, 958, 162, 2860, 3708, 19, 2739,
     2571, 3526, 2588, 3542, 908, 148, 948, 158, 919, 153, 959, 163, 2861, 3709, 20, 2740, 2572,
     3527, 2589, 3543, 909, 149, 949, 159, 920, 154, 960, 164, 2862, 3710, 2741, 2573, 3528,
     2590, 3544, 910, 150, 950, 160, 921, 155, 961, 165, 2863, 3711, 2742, 649, 124, 2439, 3460,
     650, 125, 2440, 3461, 3852, 3789, 3853, 3790, 2806, 3674, 2814, 2810, 3678, 2818, 726, 778,
     2495, 843, 870, 2460, 3481, 2691, 3637, 3354, 3766, 2621, 3744, 2648, 3575, 3349, 3602,
     1015, 1055, 182, 202, 891, 140, 2491, 3729, 3513, 3344, 999, 1039, 27, 3322, 1001, 1041,
     844, 871, 2461, 3482, 2692, 3638, 2694, 3640, 3355, 3767, 3850, 3787, 3851, 3788]"

definition candidate_indexes_5336 :: "nat list" where
  "candidate_indexes_5336 = [
     993, 1251, 1033, 222, 3363, 3770, 2480, 888, 3502, 137, 2486, 3726, 3508, 3341, 995, 1035,
     3364, 3765, 3771, 3361, 2481, 889, 3503, 138, 2487, 3727, 3509, 3342, 2620, 2647, 3574,
     3601, 2619, 2646, 3573, 3600, 2490, 3512, 998, 1038, 26, 3321, 2494, 2570, 3525, 2587, 3541,
     907, 947, 918, 958, 2860, 3708, 19, 2739, 2571, 3526, 2588, 3542, 908, 948, 919, 959, 2861,
     3709, 20, 2740, 2572, 3527, 2589, 3543, 909, 949, 920, 960, 2862, 3710, 2741, 2573, 3528,
     2590, 3544, 910, 950, 921, 961, 2863, 3711, 2742, 649, 2439, 3460, 650, 2440, 3461, 3852,
     3789, 2806, 3674, 2814, 2810, 3678, 2818, 2495, 3354, 3766, 2621, 2648, 3575, 3602, 2491,
     3513, 999, 1039, 27, 3322, 3355, 3767, 3850, 3787, 2606, 2633, 3560, 3587, 2605, 2632, 3559,
     3586, 2482, 3504, 171, 193, 128, 131, 2695, 2607, 2634, 3561, 3588, 2483, 3505, 172, 194,
     2696, 2698]"

definition candidate_indexes_5481 :: "nat list" where
  "candidate_indexes_5481 = [
     2614, 2641, 3568, 3595, 1010, 1050, 177, 197, 2617, 2644, 3571, 3598, 1011, 1051, 178, 198,
     2618, 2645, 3572, 3599, 1012, 1052, 179, 199]"

definition candidate_indexes_5505 :: "nat list" where
  "candidate_indexes_5505 = [
     2494, 2570, 3525, 2587, 3541, 907, 947, 918, 958, 2860, 3708, 19, 2739, 2571, 3526, 2588,
     3542, 908, 948, 919, 959, 2861, 3709, 20, 2740, 2572, 3527, 2589, 3543, 909, 949, 920, 960,
     2862, 3710, 2741, 2573, 3528, 2590, 3544, 910, 950, 921, 961, 2863, 3711, 2742, 649, 2439,
     3460, 650, 2440, 3461, 3852, 3789, 2806, 3674, 2814, 2810, 3678, 2818, 2495, 3354, 3766,
     2692, 3638, 2694, 3640, 3355, 3767, 3850, 3787, 2622, 3745, 2649, 3576, 3603, 1016, 1056,
     183, 203, 892, 1004, 141, 1044, 2492, 3730, 3514, 1002, 1042, 28, 3323, 629, 1242, 24, 3319,
     725, 754, 2623, 3746, 2650, 3577, 3604, 1017, 1057, 184, 204, 893, 1005, 142, 1045, 2493,
     3731, 3515, 1003, 1043, 29, 3324, 630, 1243, 25, 3320, 631, 1244, 632, 1245, 1198, 1205,
     1191, 1172, 1199, 1206, 1192, 1173]"

definition candidate_indexes_5639 :: "nat list" where
  "candidate_indexes_5639 = [
     2602, 2629, 3556, 3583, 996, 2488, 1036, 3510, 2603, 2630, 3557, 3584, 997, 2489, 1037,
     3511, 3365, 3772, 2604, 2631, 3558, 3585, 2494, 2570, 3525, 2587, 3541, 907, 947, 918, 958,
     2860, 3708, 19, 2739, 2571, 3526, 2588, 3542, 908, 948, 919, 959, 2861, 3709, 20, 2740,
     2572, 3527, 2589, 3543, 909, 949, 920, 960, 2862, 3710, 2741, 2573, 3528, 2590, 3544, 910,
     950, 921, 961, 2863, 3711, 2742, 649, 2439, 3460, 650, 2440, 3461, 3852, 3789, 2806, 3674,
     2814, 2810, 3678, 2818, 2495, 3354, 3766, 3355, 3767, 3850, 3787, 2696, 2698, 2622, 2649,
     3576, 3603, 2492, 3514, 1002, 1042, 28, 3323, 629, 1242, 24, 3319, 2623, 2650, 3577, 3604,
     2493, 3515, 1003, 1043, 29, 3324, 630, 1243, 25, 3320, 2608, 2635, 3562, 3589, 173, 195,
     2484, 3506, 2805, 3673, 2609, 2636, 3563, 3590, 174, 196, 2485, 3507, 120, 220, 121, 221,
     2813]"

definition candidate_indexes_5782 :: "nat list" where
  "candidate_indexes_5782 = [
     1421, 1665, 1331, 1640, 1760, 1375, 1733, 2255, 2259, 2273, 2283, 2266, 1413, 1660, 1321,
     1634, 1421, 1665, 1331, 1640, 1422, 1666, 1332, 1641, 2259, 2273, 2283, 2266, 2260, 2274,
     2284, 2267, 1431, 1673, 1370, 1655, 1762, 1756, 2269, 1432, 1674, 1371, 1656, 1424, 1668,
     1361, 1649, 1431, 1673, 1370, 1655, 1433, 1675, 1372, 1657, 1432, 1674, 1371, 1656, 1434,
     1676, 1373, 1658, 1438, 1679, 1460, 1689, 1763, 1773, 2279, 1439, 1680, 1461, 1690, 1435,
     1677, 1451, 1684, 1438, 1679, 1460, 1689, 1440, 1681, 1462, 1691, 1439, 1680, 1461, 1690,
     1441, 1682, 1463, 1692, 1347, 1644, 1744, 2262, 1348, 1645, 1342, 1642, 1347, 1644, 1349,
     1646, 1348, 1645, 1350, 1647, 3298, 3130, 3296, 3128, 1978, 1594, 1976, 1592, 3109, 3113,
     272, 278, 1700, 1588, 274, 276, 578, 570, 3313, 2185, 3309, 572, 114, 2557, 2558, 2559,
     2560, 2561, 2538, 2537, 2540, 2297, 2555, 2556, 2564, 3825, 2539, 2562, 3311, 3325]"

definition candidate_indexes_5932 :: "nat list" where
  "candidate_indexes_5932 = [
     575, 2079, 2153, 3459, 3457, 3455, 1984, 1996, 3362, 1267, 2583, 254, 1266, 3413, 543, 544,
     545, 2158, 310, 3824, 110, 3794, 3796, 1263, 2192, 3831, 3793, 3795, 2525, 2526, 555, 3829,
     2225, 2230, 101, 106, 591, 2285, 3426, 1252, 525, 323, 2227, 2226, 2232, 2231, 103, 102,
     108, 107, 269, 312, 324, 3414, 558, 2872, 556, 1283, 2426, 559, 2287, 2666, 2665, 3395,
     1268, 542, 1257, 1253, 1255, 95, 3415, 253, 3417, 311, 568, 415, 416, 1256, 1258, 2159,
     3431, 3432, 3396, 1254, 1259, 2156, 3397, 3416, 2160, 2155, 248, 250, 252, 241, 243, 245,
     2372, 2373, 2374, 588, 589, 590, 557, 249, 251, 242, 244, 2276, 423, 459, 432, 444, 456,
     468, 441, 453, 429, 465, 438, 450, 426, 462, 435, 447, 3124, 3105, 3106, 1260, 1261, 3307,
     3096, 3097, 3098]"

definition candidate_indexes_6065 :: "nat list" where
  "candidate_indexes_6065 = [
     422, 458, 431, 443, 455, 467, 440, 452, 428, 464, 437, 449, 425, 461, 434, 446, 1579, 1697,
     1698, 1693, 3304, 3305, 3306, 421, 457, 430, 442, 454, 466, 439, 451, 427, 463, 436, 448,
     424, 460, 433, 445, 3115, 3099, 3010, 3011, 3012, 2515, 2521, 2518, 2524, 2514, 2520, 2517,
     2523, 2513, 2519, 2516, 2522, 1570, 1694, 3301, 3302, 3303, 2428, 2188, 535, 537, 402, 316,
     531, 2301, 2379, 2381, 2383, 2376, 331, 327, 541, 405, 1, 2224, 2229, 2219, 2221, 100, 105,
     96, 98, 2228, 2233, 2220, 2222, 104, 109, 97, 99, 3828, 3827, 471, 507, 480, 492, 504, 516,
     489, 501, 477, 513, 486, 498, 474, 510, 483, 495, 3122, 470, 506, 479, 491, 503, 515, 488,
     500, 476, 512, 485, 497, 473, 509, 482, 494, 1577, 1333, 2930, 1374, 2967, 1464, 2990, 1351,
     2948, 1830, 1831, 3231, 3232, 1376, 2969]"

definition candidate_indexes_6209 :: "nat list" where
  "candidate_indexes_6209 = [
     3146, 2926, 3149, 2927, 2929, 2925, 3148, 2926, 2925, 2968, 3007, 3006, 2926, 2925, 3015,
     3147, 3035, 2928, 2923, 3034, 2926, 2925, 3016, 3060, 2924, 3059, 3040, 3169, 2960, 3172,
     2961, 2965, 2959, 3171, 2960, 2959, 3041, 3014, 2962, 2966, 3013, 2960, 2959, 3065, 3170,
     3039, 2963, 2957, 3038, 2960, 2959, 3066, 3064, 2964, 2958, 3063, 3181, 2983, 3184, 2984,
     2988, 2981, 3183, 3018, 2985, 2989, 3017, 3182, 2982, 3043, 2986, 2978, 2980, 3042, 2982,
     2980, 3068, 2987, 2979, 3067, 3221, 3158, 3230, 3160, 2944, 2946, 3159, 3221, 3230, 3009,
     2945, 2947, 3008, 2942, 3037, 2939, 2940, 3036, 2943, 3062, 2941, 3061, 79, 3430, 236, 3338,
     367, 3334, 363, 3336, 365, 76, 3427, 2143, 3292, 3219, 3267, 3220, 1551, 3073, 1832, 3229,
     1833, 1598, 3081, 1618, 3089, 1869, 3243, 1889, 3251, 1905, 3259, 1930, 3271, 1946, 3279,
     3367, 3071, 3070, 3069, 1549, 1967, 1813, 1921, 1814]"

definition candidate_indexes_6355 :: "nat list" where
  "candidate_indexes_6355 = [
     1832, 1833, 1557, 3075, 1828, 1604, 3083, 1624, 3091, 1875, 3245, 1895, 3253, 1911, 3261,
     1936, 3273, 1952, 3281, 3373, 2277, 1553, 1834, 1835, 1600, 1620, 1871, 1891, 2397, 1907,
     1932, 1948, 3369, 1568, 1834, 1835, 1555, 1602, 1622, 1873, 1893, 1909, 1934, 1950, 3371,
     3216, 1810, 2275, 2432, 2190, 306, 304, 3290, 3213, 3214, 3226, 1965, 1807, 1808, 1825,
     3204, 1798]"

definition candidate_indexes :: "nat list" where
  "candidate_indexes = candidate_indexes_0 @ candidate_indexes_115 @ candidate_indexes_250 @ candidate_indexes_383 @
     candidate_indexes_531 @ candidate_indexes_676 @ candidate_indexes_787 @
     candidate_indexes_875 @ candidate_indexes_964 @ candidate_indexes_1109 @
     candidate_indexes_1256 @ candidate_indexes_1383 @ candidate_indexes_1533 @
     candidate_indexes_1678 @ candidate_indexes_1825 @ candidate_indexes_1954 @
     candidate_indexes_2099 @ candidate_indexes_2239 @ candidate_indexes_2389 @
     candidate_indexes_2493 @ candidate_indexes_2630 @ candidate_indexes_2751 @
     candidate_indexes_2885 @ candidate_indexes_3035 @ candidate_indexes_3171 @
     candidate_indexes_3321 @ candidate_indexes_3449 @ candidate_indexes_3589 @
     candidate_indexes_3715 @ candidate_indexes_3797 @ candidate_indexes_3947 @
     candidate_indexes_4084 @ candidate_indexes_4232 @ candidate_indexes_4379 @
     candidate_indexes_4517 @ candidate_indexes_4658 @ candidate_indexes_4806 @
     candidate_indexes_4955 @ candidate_indexes_5102 @ candidate_indexes_5177 @
     candidate_indexes_5336 @ candidate_indexes_5481 @ candidate_indexes_5505 @
     candidate_indexes_5639 @ candidate_indexes_5782 @ candidate_indexes_5932 @
     candidate_indexes_6065 @ candidate_indexes_6209 @ candidate_indexes_6355"

lemma candidate_lengths [simp]:
  "length candidate_indexes_0 = 115"
  "length candidate_indexes_115 = 135"
  "length candidate_indexes_250 = 133"
  "length candidate_indexes_383 = 148"
  "length candidate_indexes_531 = 145"
  "length candidate_indexes_676 = 111"
  "length candidate_indexes_787 = 88"
  "length candidate_indexes_875 = 89"
  "length candidate_indexes_964 = 145"
  "length candidate_indexes_1109 = 147"
  "length candidate_indexes_1256 = 127"
  "length candidate_indexes_1383 = 150"
  "length candidate_indexes_1533 = 145"
  "length candidate_indexes_1678 = 147"
  "length candidate_indexes_1825 = 129"
  "length candidate_indexes_1954 = 145"
  "length candidate_indexes_2099 = 140"
  "length candidate_indexes_2239 = 150"
  "length candidate_indexes_2389 = 104"
  "length candidate_indexes_2493 = 137"
  "length candidate_indexes_2630 = 121"
  "length candidate_indexes_2751 = 134"
  "length candidate_indexes_2885 = 150"
  "length candidate_indexes_3035 = 136"
  "length candidate_indexes_3171 = 150"
  "length candidate_indexes_3321 = 128"
  "length candidate_indexes_3449 = 140"
  "length candidate_indexes_3589 = 126"
  "length candidate_indexes_3715 = 82"
  "length candidate_indexes_3797 = 150"
  "length candidate_indexes_3947 = 137"
  "length candidate_indexes_4084 = 148"
  "length candidate_indexes_4232 = 147"
  "length candidate_indexes_4379 = 138"
  "length candidate_indexes_4517 = 141"
  "length candidate_indexes_4658 = 148"
  "length candidate_indexes_4806 = 149"
  "length candidate_indexes_4955 = 147"
  "length candidate_indexes_5102 = 75"
  "length candidate_indexes_5177 = 159"
  "length candidate_indexes_5336 = 145"
  "length candidate_indexes_5481 = 24"
  "length candidate_indexes_5505 = 134"
  "length candidate_indexes_5639 = 143"
  "length candidate_indexes_5782 = 150"
  "length candidate_indexes_5932 = 133"
  "length candidate_indexes_6065 = 144"
  "length candidate_indexes_6209 = 146"
  "length candidate_indexes_6355 = 62"
  by (simp_all add: candidate_indexes_0_def candidate_indexes_115_def candidate_indexes_250_def
    candidate_indexes_383_def candidate_indexes_531_def candidate_indexes_676_def
    candidate_indexes_787_def candidate_indexes_875_def candidate_indexes_964_def
    candidate_indexes_1109_def candidate_indexes_1256_def candidate_indexes_1383_def
    candidate_indexes_1533_def candidate_indexes_1678_def candidate_indexes_1825_def
    candidate_indexes_1954_def candidate_indexes_2099_def candidate_indexes_2239_def
    candidate_indexes_2389_def candidate_indexes_2493_def candidate_indexes_2630_def
    candidate_indexes_2751_def candidate_indexes_2885_def candidate_indexes_3035_def
    candidate_indexes_3171_def candidate_indexes_3321_def candidate_indexes_3449_def
    candidate_indexes_3589_def candidate_indexes_3715_def candidate_indexes_3797_def
    candidate_indexes_3947_def candidate_indexes_4084_def candidate_indexes_4232_def
    candidate_indexes_4379_def candidate_indexes_4517_def candidate_indexes_4658_def
    candidate_indexes_4806_def candidate_indexes_4955_def candidate_indexes_5102_def
    candidate_indexes_5177_def candidate_indexes_5336_def candidate_indexes_5481_def
    candidate_indexes_5505_def candidate_indexes_5639_def candidate_indexes_5782_def
    candidate_indexes_5932_def candidate_indexes_6065_def candidate_indexes_6209_def
    candidate_indexes_6355_def)

lemma candidate_indexes_length: "length candidate_indexes = 6417"
  by (simp add: candidate_indexes_def)

lemma candidate_bounds: "list_all (\<lambda>i. i < 3856) candidate_indexes"
  by (simp add: candidate_indexes_def
    candidate_indexes_0_def candidate_indexes_115_def candidate_indexes_250_def
    candidate_indexes_383_def candidate_indexes_531_def candidate_indexes_676_def
    candidate_indexes_787_def candidate_indexes_875_def candidate_indexes_964_def
    candidate_indexes_1109_def candidate_indexes_1256_def candidate_indexes_1383_def
    candidate_indexes_1533_def candidate_indexes_1678_def candidate_indexes_1825_def
    candidate_indexes_1954_def candidate_indexes_2099_def candidate_indexes_2239_def
    candidate_indexes_2389_def candidate_indexes_2493_def candidate_indexes_2630_def
    candidate_indexes_2751_def candidate_indexes_2885_def candidate_indexes_3035_def
    candidate_indexes_3171_def candidate_indexes_3321_def candidate_indexes_3449_def
    candidate_indexes_3589_def candidate_indexes_3715_def candidate_indexes_3797_def
    candidate_indexes_3947_def candidate_indexes_4084_def candidate_indexes_4232_def
    candidate_indexes_4379_def candidate_indexes_4517_def candidate_indexes_4658_def
    candidate_indexes_4806_def candidate_indexes_4955_def candidate_indexes_5102_def
    candidate_indexes_5177_def candidate_indexes_5336_def candidate_indexes_5481_def
    candidate_indexes_5505_def candidate_indexes_5639_def candidate_indexes_5782_def
    candidate_indexes_5932_def candidate_indexes_6065_def candidate_indexes_6209_def
    candidate_indexes_6355_def)

section \<open>Ranges of candidates\<close>

definition candidate_slice :: "nat \<Rightarrow> nat \<Rightarrow> nat list" where
  "candidate_slice i n = take n (drop i candidate_indexes)"

text \<open>A range inside one of the lists is taken from that list.\<close>

lemma slice_0:
  "0 \<le> i \<Longrightarrow> i + n \<le> 115 \<Longrightarrow> candidate_slice i n = take n (drop (i - 0) candidate_indexes_0)"
  unfolding candidate_slice_def candidate_indexes_def by simp

lemma slice_115:
  "115 \<le> i \<Longrightarrow> i + n \<le> 250 \<Longrightarrow> candidate_slice i n = take n (drop (i - 115) candidate_indexes_115)"
  unfolding candidate_slice_def candidate_indexes_def by simp

lemma slice_250:
  "250 \<le> i \<Longrightarrow> i + n \<le> 383 \<Longrightarrow> candidate_slice i n = take n (drop (i - 250) candidate_indexes_250)"
  unfolding candidate_slice_def candidate_indexes_def by simp

lemma slice_383:
  "383 \<le> i \<Longrightarrow> i + n \<le> 531 \<Longrightarrow> candidate_slice i n = take n (drop (i - 383) candidate_indexes_383)"
  unfolding candidate_slice_def candidate_indexes_def by simp

lemma slice_531:
  "531 \<le> i \<Longrightarrow> i + n \<le> 676 \<Longrightarrow> candidate_slice i n = take n (drop (i - 531) candidate_indexes_531)"
  unfolding candidate_slice_def candidate_indexes_def by simp

lemma slice_676:
  "676 \<le> i \<Longrightarrow> i + n \<le> 787 \<Longrightarrow> candidate_slice i n = take n (drop (i - 676) candidate_indexes_676)"
  unfolding candidate_slice_def candidate_indexes_def by simp

lemma slice_787:
  "787 \<le> i \<Longrightarrow> i + n \<le> 875 \<Longrightarrow> candidate_slice i n = take n (drop (i - 787) candidate_indexes_787)"
  unfolding candidate_slice_def candidate_indexes_def by simp

lemma slice_875:
  "875 \<le> i \<Longrightarrow> i + n \<le> 964 \<Longrightarrow> candidate_slice i n = take n (drop (i - 875) candidate_indexes_875)"
  unfolding candidate_slice_def candidate_indexes_def by simp

lemma slice_964:
  "964 \<le> i \<Longrightarrow> i + n \<le> 1109 \<Longrightarrow> candidate_slice i n = take n (drop (i - 964) candidate_indexes_964)"
  unfolding candidate_slice_def candidate_indexes_def by simp

lemma slice_1109:
  "1109 \<le> i \<Longrightarrow> i + n \<le> 1256 \<Longrightarrow> candidate_slice i n = take n (drop (i - 1109) candidate_indexes_1109)"
  unfolding candidate_slice_def candidate_indexes_def by simp

lemma slice_1256:
  "1256 \<le> i \<Longrightarrow> i + n \<le> 1383 \<Longrightarrow> candidate_slice i n = take n (drop (i - 1256) candidate_indexes_1256)"
  unfolding candidate_slice_def candidate_indexes_def by simp

lemma slice_1383:
  "1383 \<le> i \<Longrightarrow> i + n \<le> 1533 \<Longrightarrow> candidate_slice i n = take n (drop (i - 1383) candidate_indexes_1383)"
  unfolding candidate_slice_def candidate_indexes_def by simp

lemma slice_1533:
  "1533 \<le> i \<Longrightarrow> i + n \<le> 1678 \<Longrightarrow> candidate_slice i n = take n (drop (i - 1533) candidate_indexes_1533)"
  unfolding candidate_slice_def candidate_indexes_def by simp

lemma slice_1678:
  "1678 \<le> i \<Longrightarrow> i + n \<le> 1825 \<Longrightarrow> candidate_slice i n = take n (drop (i - 1678) candidate_indexes_1678)"
  unfolding candidate_slice_def candidate_indexes_def by simp

lemma slice_1825:
  "1825 \<le> i \<Longrightarrow> i + n \<le> 1954 \<Longrightarrow> candidate_slice i n = take n (drop (i - 1825) candidate_indexes_1825)"
  unfolding candidate_slice_def candidate_indexes_def by simp

lemma slice_1954:
  "1954 \<le> i \<Longrightarrow> i + n \<le> 2099 \<Longrightarrow> candidate_slice i n = take n (drop (i - 1954) candidate_indexes_1954)"
  unfolding candidate_slice_def candidate_indexes_def by simp

lemma slice_2099:
  "2099 \<le> i \<Longrightarrow> i + n \<le> 2239 \<Longrightarrow> candidate_slice i n = take n (drop (i - 2099) candidate_indexes_2099)"
  unfolding candidate_slice_def candidate_indexes_def by simp

lemma slice_2239:
  "2239 \<le> i \<Longrightarrow> i + n \<le> 2389 \<Longrightarrow> candidate_slice i n = take n (drop (i - 2239) candidate_indexes_2239)"
  unfolding candidate_slice_def candidate_indexes_def by simp

lemma slice_2389:
  "2389 \<le> i \<Longrightarrow> i + n \<le> 2493 \<Longrightarrow> candidate_slice i n = take n (drop (i - 2389) candidate_indexes_2389)"
  unfolding candidate_slice_def candidate_indexes_def by simp

lemma slice_2493:
  "2493 \<le> i \<Longrightarrow> i + n \<le> 2630 \<Longrightarrow> candidate_slice i n = take n (drop (i - 2493) candidate_indexes_2493)"
  unfolding candidate_slice_def candidate_indexes_def by simp

lemma slice_2630:
  "2630 \<le> i \<Longrightarrow> i + n \<le> 2751 \<Longrightarrow> candidate_slice i n = take n (drop (i - 2630) candidate_indexes_2630)"
  unfolding candidate_slice_def candidate_indexes_def by simp

lemma slice_2751:
  "2751 \<le> i \<Longrightarrow> i + n \<le> 2885 \<Longrightarrow> candidate_slice i n = take n (drop (i - 2751) candidate_indexes_2751)"
  unfolding candidate_slice_def candidate_indexes_def by simp

lemma slice_2885:
  "2885 \<le> i \<Longrightarrow> i + n \<le> 3035 \<Longrightarrow> candidate_slice i n = take n (drop (i - 2885) candidate_indexes_2885)"
  unfolding candidate_slice_def candidate_indexes_def by simp

lemma slice_3035:
  "3035 \<le> i \<Longrightarrow> i + n \<le> 3171 \<Longrightarrow> candidate_slice i n = take n (drop (i - 3035) candidate_indexes_3035)"
  unfolding candidate_slice_def candidate_indexes_def by simp

lemma slice_3171:
  "3171 \<le> i \<Longrightarrow> i + n \<le> 3321 \<Longrightarrow> candidate_slice i n = take n (drop (i - 3171) candidate_indexes_3171)"
  unfolding candidate_slice_def candidate_indexes_def by simp

lemma slice_3321:
  "3321 \<le> i \<Longrightarrow> i + n \<le> 3449 \<Longrightarrow> candidate_slice i n = take n (drop (i - 3321) candidate_indexes_3321)"
  unfolding candidate_slice_def candidate_indexes_def by simp

lemma slice_3449:
  "3449 \<le> i \<Longrightarrow> i + n \<le> 3589 \<Longrightarrow> candidate_slice i n = take n (drop (i - 3449) candidate_indexes_3449)"
  unfolding candidate_slice_def candidate_indexes_def by simp

lemma slice_3589:
  "3589 \<le> i \<Longrightarrow> i + n \<le> 3715 \<Longrightarrow> candidate_slice i n = take n (drop (i - 3589) candidate_indexes_3589)"
  unfolding candidate_slice_def candidate_indexes_def by simp

lemma slice_3715:
  "3715 \<le> i \<Longrightarrow> i + n \<le> 3797 \<Longrightarrow> candidate_slice i n = take n (drop (i - 3715) candidate_indexes_3715)"
  unfolding candidate_slice_def candidate_indexes_def by simp

lemma slice_3797:
  "3797 \<le> i \<Longrightarrow> i + n \<le> 3947 \<Longrightarrow> candidate_slice i n = take n (drop (i - 3797) candidate_indexes_3797)"
  unfolding candidate_slice_def candidate_indexes_def by simp

lemma slice_3947:
  "3947 \<le> i \<Longrightarrow> i + n \<le> 4084 \<Longrightarrow> candidate_slice i n = take n (drop (i - 3947) candidate_indexes_3947)"
  unfolding candidate_slice_def candidate_indexes_def by simp

lemma slice_4084:
  "4084 \<le> i \<Longrightarrow> i + n \<le> 4232 \<Longrightarrow> candidate_slice i n = take n (drop (i - 4084) candidate_indexes_4084)"
  unfolding candidate_slice_def candidate_indexes_def by simp

lemma slice_4232:
  "4232 \<le> i \<Longrightarrow> i + n \<le> 4379 \<Longrightarrow> candidate_slice i n = take n (drop (i - 4232) candidate_indexes_4232)"
  unfolding candidate_slice_def candidate_indexes_def by simp

lemma slice_4379:
  "4379 \<le> i \<Longrightarrow> i + n \<le> 4517 \<Longrightarrow> candidate_slice i n = take n (drop (i - 4379) candidate_indexes_4379)"
  unfolding candidate_slice_def candidate_indexes_def by simp

lemma slice_4517:
  "4517 \<le> i \<Longrightarrow> i + n \<le> 4658 \<Longrightarrow> candidate_slice i n = take n (drop (i - 4517) candidate_indexes_4517)"
  unfolding candidate_slice_def candidate_indexes_def by simp

lemma slice_4658:
  "4658 \<le> i \<Longrightarrow> i + n \<le> 4806 \<Longrightarrow> candidate_slice i n = take n (drop (i - 4658) candidate_indexes_4658)"
  unfolding candidate_slice_def candidate_indexes_def by simp

lemma slice_4806:
  "4806 \<le> i \<Longrightarrow> i + n \<le> 4955 \<Longrightarrow> candidate_slice i n = take n (drop (i - 4806) candidate_indexes_4806)"
  unfolding candidate_slice_def candidate_indexes_def by simp

lemma slice_4955:
  "4955 \<le> i \<Longrightarrow> i + n \<le> 5102 \<Longrightarrow> candidate_slice i n = take n (drop (i - 4955) candidate_indexes_4955)"
  unfolding candidate_slice_def candidate_indexes_def by simp

lemma slice_5102:
  "5102 \<le> i \<Longrightarrow> i + n \<le> 5177 \<Longrightarrow> candidate_slice i n = take n (drop (i - 5102) candidate_indexes_5102)"
  unfolding candidate_slice_def candidate_indexes_def by simp

lemma slice_5177:
  "5177 \<le> i \<Longrightarrow> i + n \<le> 5336 \<Longrightarrow> candidate_slice i n = take n (drop (i - 5177) candidate_indexes_5177)"
  unfolding candidate_slice_def candidate_indexes_def by simp

lemma slice_5336:
  "5336 \<le> i \<Longrightarrow> i + n \<le> 5481 \<Longrightarrow> candidate_slice i n = take n (drop (i - 5336) candidate_indexes_5336)"
  unfolding candidate_slice_def candidate_indexes_def by simp

lemma slice_5481:
  "5481 \<le> i \<Longrightarrow> i + n \<le> 5505 \<Longrightarrow> candidate_slice i n = take n (drop (i - 5481) candidate_indexes_5481)"
  unfolding candidate_slice_def candidate_indexes_def by simp

lemma slice_5505:
  "5505 \<le> i \<Longrightarrow> i + n \<le> 5639 \<Longrightarrow> candidate_slice i n = take n (drop (i - 5505) candidate_indexes_5505)"
  unfolding candidate_slice_def candidate_indexes_def by simp

lemma slice_5639:
  "5639 \<le> i \<Longrightarrow> i + n \<le> 5782 \<Longrightarrow> candidate_slice i n = take n (drop (i - 5639) candidate_indexes_5639)"
  unfolding candidate_slice_def candidate_indexes_def by simp

lemma slice_5782:
  "5782 \<le> i \<Longrightarrow> i + n \<le> 5932 \<Longrightarrow> candidate_slice i n = take n (drop (i - 5782) candidate_indexes_5782)"
  unfolding candidate_slice_def candidate_indexes_def by simp

lemma slice_5932:
  "5932 \<le> i \<Longrightarrow> i + n \<le> 6065 \<Longrightarrow> candidate_slice i n = take n (drop (i - 5932) candidate_indexes_5932)"
  unfolding candidate_slice_def candidate_indexes_def by simp

lemma slice_6065:
  "6065 \<le> i \<Longrightarrow> i + n \<le> 6209 \<Longrightarrow> candidate_slice i n = take n (drop (i - 6065) candidate_indexes_6065)"
  unfolding candidate_slice_def candidate_indexes_def by simp

lemma slice_6209:
  "6209 \<le> i \<Longrightarrow> i + n \<le> 6355 \<Longrightarrow> candidate_slice i n = take n (drop (i - 6209) candidate_indexes_6209)"
  unfolding candidate_slice_def candidate_indexes_def by simp

lemma slice_6355:
  "6355 \<le> i \<Longrightarrow> i + n \<le> 6417 \<Longrightarrow> candidate_slice i n = take n (drop (i - 6355) candidate_indexes_6355)"
  unfolding candidate_slice_def candidate_indexes_def by simp

section \<open>Buckets\<close>

definition buckets_0 :: "decoder_bucket_t list" where
  "buckets_0 = [
     bkt 0 1, bkt 0 0, bkt 0 0, bkt 0 0, bkt 0 0, bkt 0 0, bkt 0 0, bkt 0 0, bkt 0 0, bkt 0 0,
     bkt 0 0, bkt 0 0, bkt 0 0, bkt 0 0, bkt 0 0, bkt 0 0, bkt 0 0, bkt 0 0, bkt 0 0, bkt 0 0,
     bkt 0 0, bkt 0 0, bkt 0 0, bkt 0 0, bkt 0 0, bkt 0 0, bkt 0 0, bkt 0 0, bkt 0 0, bkt 0 0,
     bkt 0 0, bkt 0 0, bkt 1 75, bkt 76 39, bkt 1 75, bkt 115 44, bkt 1 75, bkt 159 42, bkt 1 75,
     bkt 201 40, bkt 241 9, bkt 250 60, bkt 310 9, bkt 319 55, bkt 374 9, bkt 383 59, bkt 442 9,
     bkt 451 53, bkt 0 0, bkt 0 0, bkt 0 0, bkt 0 0, bkt 0 0, bkt 0 0, bkt 0 0, bkt 0 0, bkt 0 0,
     bkt 0 0, bkt 0 0, bkt 0 0, bkt 0 0, bkt 0 0, bkt 0 0, bkt 0 0, bkt 504 2, bkt 506 2,
     bkt 508 2, bkt 510 2, bkt 512 2, bkt 514 2, bkt 516 2, bkt 518 2, bkt 0 0, bkt 0 0, bkt 0 0,
     bkt 0 0, bkt 0 0, bkt 0 0, bkt 0 0, bkt 0 0, bkt 520 1, bkt 521 1, bkt 520 1, bkt 521 1,
     bkt 520 1, bkt 521 1, bkt 520 1, bkt 521 1, bkt 522 1, bkt 523 1, bkt 522 1, bkt 0 0,
     bkt 522 1, bkt 0 0, bkt 522 1, bkt 0 0, bkt 524 7, bkt 0 0, bkt 531 7, bkt 0 0, bkt 538 14,
     bkt 0 0, bkt 552 14, bkt 0 0, bkt 566 9, bkt 575 8, bkt 583 11, bkt 594 10, bkt 604 16,
     bkt 620 16, bkt 636 20, bkt 656 20, bkt 676 20, bkt 696 77, bkt 773 14, bkt 787 80,
     bkt 867 8, bkt 875 77, bkt 952 12, bkt 964 81, bkt 1045 36, bkt 1081 28, bkt 1109 25,
     bkt 1109 25, bkt 1134 16, bkt 1134 16, bkt 1150 14, bkt 1150 14, bkt 1164 1, bkt 1164 1,
     bkt 1164 1, bkt 1164 1, bkt 1164 1, bkt 1164 1, bkt 1164 1, bkt 1164 1, bkt 1165 2,
     bkt 1167 1, bkt 1167 1, bkt 1167 1, bkt 0 0, bkt 0 0, bkt 1168 4, bkt 0 0, bkt 1172 1,
     bkt 1172 1, bkt 0 0, bkt 0 0, bkt 1173 2, bkt 1173 2, bkt 0 0, bkt 0 0, bkt 1175 6,
     bkt 1181 4, bkt 0 0, bkt 0 0, bkt 1185 2, bkt 0 0, bkt 0 0, bkt 0 0, bkt 1187 1, bkt 1187 1,
     bkt 1187 1, bkt 1187 1, bkt 1187 1, bkt 1187 1, bkt 1187 1, bkt 1187 1, bkt 1187 1,
     bkt 1187 1, bkt 1187 1, bkt 1187 1, bkt 1187 1, bkt 1187 1, bkt 1187 1, bkt 1187 1,
     bkt 1187 1, bkt 1187 1, bkt 1187 1, bkt 1187 1, bkt 1187 1, bkt 1187 1, bkt 1187 1,
     bkt 1187 1, bkt 1187 1, bkt 1187 1, bkt 1187 1, bkt 1187 1, bkt 1187 1, bkt 1187 1,
     bkt 1187 1, bkt 1187 1, bkt 1188 1, bkt 1188 1, bkt 1188 1, bkt 1188 1, bkt 1188 1,
     bkt 1188 1, bkt 1188 1, bkt 1188 1, bkt 1189 17, bkt 1206 8, bkt 1214 17, bkt 1231 8,
     bkt 1239 17, bkt 1256 8, bkt 1264 13, bkt 1277 8, bkt 1285 1, bkt 0 0, bkt 0 0, bkt 0 0,
     bkt 1286 4, bkt 0 0, bkt 1290 20, bkt 0 0, bkt 1310 4, bkt 0 0, bkt 0 0, bkt 0 0, bkt 0 0,
     bkt 0 0, bkt 0 0, bkt 0 0, bkt 1314 1, bkt 1314 1, bkt 1314 1, bkt 1314 1, bkt 1314 1,
     bkt 1314 1, bkt 1314 1, bkt 1314 1, bkt 1315 17, bkt 0 0, bkt 1332 17, bkt 0 0, bkt 1349 17,
     bkt 0 0, bkt 1366 13, bkt 0 0, bkt 1379 4, bkt 1383 48, bkt 1431 4, bkt 1435 48, bkt 0 0,
     bkt 0 0, bkt 1483 4, bkt 1487 44, bkt 1531 2, bkt 1533 2, bkt 1535 2, bkt 1537 2, bkt 0 0,
     bkt 0 0, bkt 1539 2, bkt 1541 2]"

definition buckets_256 :: "decoder_bucket_t list" where
  "buckets_256 = [
     bkt 0 0, bkt 0 0, bkt 0 0, bkt 0 0, bkt 0 0, bkt 0 0, bkt 0 0, bkt 0 0, bkt 0 0, bkt 0 0,
     bkt 0 0, bkt 0 0, bkt 0 0, bkt 0 0, bkt 0 0, bkt 0 0, bkt 0 0, bkt 0 0, bkt 0 0, bkt 0 0,
     bkt 0 0, bkt 0 0, bkt 0 0, bkt 0 0, bkt 0 0, bkt 0 0, bkt 0 0, bkt 0 0, bkt 0 0, bkt 0 0,
     bkt 0 0, bkt 0 0, bkt 1543 20, bkt 1563 4, bkt 1543 20, bkt 1563 4, bkt 1543 20, bkt 1563 4,
     bkt 1543 20, bkt 1563 4, bkt 1567 23, bkt 1590 67, bkt 1657 21, bkt 1678 65, bkt 1743 15,
     bkt 1758 67, bkt 1825 15, bkt 1758 67, bkt 0 0, bkt 0 0, bkt 0 0, bkt 0 0, bkt 0 0, bkt 0 0,
     bkt 0 0, bkt 0 0, bkt 0 0, bkt 0 0, bkt 0 0, bkt 0 0, bkt 0 0, bkt 0 0, bkt 0 0, bkt 0 0,
     bkt 1840 1, bkt 1840 1, bkt 1841 1, bkt 1841 1, bkt 1842 1, bkt 1842 1, bkt 1843 1,
     bkt 1843 1, bkt 1844 1, bkt 1844 1, bkt 1845 1, bkt 1845 1, bkt 1846 1, bkt 1846 1,
     bkt 1847 1, bkt 1847 1, bkt 1848 2, bkt 1850 2, bkt 1852 1, bkt 1850 2, bkt 1852 1,
     bkt 1850 2, bkt 1852 1, bkt 1850 2, bkt 1853 2, bkt 1855 2, bkt 1853 2, bkt 0 0, bkt 1853 2,
     bkt 0 0, bkt 1853 2, bkt 0 0, bkt 1857 1, bkt 1857 1, bkt 1858 1, bkt 1858 1, bkt 1859 1,
     bkt 1859 1, bkt 1860 1, bkt 1860 1, bkt 1861 1, bkt 1861 1, bkt 1862 1, bkt 1862 1,
     bkt 1863 1, bkt 1863 1, bkt 1864 1, bkt 1864 1, bkt 1865 6, bkt 1871 70, bkt 1941 13,
     bkt 1954 74, bkt 2028 5, bkt 2033 66, bkt 2099 11, bkt 2110 73, bkt 2183 31, bkt 2214 25,
     bkt 2239 25, bkt 2239 25, bkt 2264 12, bkt 2264 12, bkt 2276 9, bkt 2276 9, bkt 1164 1,
     bkt 1164 1, bkt 1164 1, bkt 1164 1, bkt 1164 1, bkt 1164 1, bkt 1164 1, bkt 1164 1,
     bkt 2285 2, bkt 2285 2, bkt 2285 2, bkt 2285 2, bkt 0 0, bkt 0 0, bkt 0 0, bkt 0 0,
     bkt 2287 2, bkt 2287 2, bkt 0 0, bkt 0 0, bkt 0 0, bkt 0 0, bkt 0 0, bkt 0 0, bkt 2289 4,
     bkt 2289 4, bkt 0 0, bkt 0 0, bkt 0 0, bkt 0 0, bkt 0 0, bkt 0 0, bkt 2293 1, bkt 2293 1,
     bkt 2293 1, bkt 2293 1, bkt 2293 1, bkt 2293 1, bkt 2293 1, bkt 2293 1, bkt 2294 1,
     bkt 2294 1, bkt 2294 1, bkt 2294 1, bkt 2294 1, bkt 2294 1, bkt 2294 1, bkt 2294 1,
     bkt 2295 1, bkt 2295 1, bkt 2295 1, bkt 2295 1, bkt 2295 1, bkt 2295 1, bkt 2295 1,
     bkt 2295 1, bkt 2296 1, bkt 2296 1, bkt 2296 1, bkt 2296 1, bkt 2296 1, bkt 2296 1,
     bkt 2296 1, bkt 2296 1, bkt 2297 4, bkt 2301 22, bkt 2323 4, bkt 2327 22, bkt 2349 4,
     bkt 2353 15, bkt 2368 4, bkt 2372 14, bkt 2386 1, bkt 2386 1, bkt 2387 1, bkt 2387 1,
     bkt 2388 1, bkt 2388 1, bkt 2389 1, bkt 2389 1, bkt 2390 3, bkt 0 0, bkt 2393 2, bkt 0 0,
     bkt 0 0, bkt 0 0, bkt 0 0, bkt 0 0, bkt 0 0, bkt 0 0, bkt 0 0, bkt 0 0, bkt 0 0, bkt 0 0,
     bkt 0 0, bkt 0 0, bkt 2395 3, bkt 2398 2, bkt 2400 3, bkt 2403 2, bkt 2405 3, bkt 2408 1,
     bkt 2409 3, bkt 2412 1, bkt 2413 1, bkt 2413 1, bkt 2414 1, bkt 2414 1, bkt 2415 1,
     bkt 2415 1, bkt 2416 1, bkt 2416 1, bkt 0 0, bkt 0 0, bkt 0 0, bkt 0 0, bkt 0 0, bkt 0 0,
     bkt 0 0, bkt 0 0, bkt 0 0, bkt 0 0, bkt 0 0, bkt 0 0, bkt 0 0, bkt 0 0, bkt 0 0, bkt 0 0]"

definition buckets_512 :: "decoder_bucket_t list" where
  "buckets_512 = [
     bkt 0 0, bkt 0 0, bkt 0 0, bkt 0 0, bkt 0 0, bkt 0 0, bkt 0 0, bkt 0 0, bkt 0 0, bkt 0 0,
     bkt 0 0, bkt 0 0, bkt 0 0, bkt 0 0, bkt 0 0, bkt 0 0, bkt 0 0, bkt 0 0, bkt 0 0, bkt 0 0,
     bkt 0 0, bkt 0 0, bkt 0 0, bkt 0 0, bkt 0 0, bkt 0 0, bkt 0 0, bkt 0 0, bkt 0 0, bkt 0 0,
     bkt 0 0, bkt 0 0, bkt 2417 69, bkt 2486 7, bkt 2493 67, bkt 2486 7, bkt 2560 70,
     bkt 2630 32, bkt 2493 67, bkt 2662 30, bkt 2692 59, bkt 2751 44, bkt 2795 56, bkt 2851 34,
     bkt 2885 53, bkt 2938 15, bkt 2953 53, bkt 3006 12, bkt 0 0, bkt 0 0, bkt 0 0, bkt 0 0,
     bkt 0 0, bkt 0 0, bkt 0 0, bkt 0 0, bkt 0 0, bkt 0 0, bkt 0 0, bkt 0 0, bkt 0 0, bkt 0 0,
     bkt 0 0, bkt 0 0, bkt 3018 2, bkt 3020 2, bkt 3022 2, bkt 3024 2, bkt 3026 2, bkt 3028 2,
     bkt 3030 2, bkt 3032 2, bkt 0 0, bkt 0 0, bkt 0 0, bkt 0 0, bkt 0 0, bkt 0 0, bkt 0 0,
     bkt 0 0, bkt 3034 1, bkt 3035 1, bkt 3034 1, bkt 3035 1, bkt 3034 1, bkt 3035 1, bkt 3034 1,
     bkt 3035 1, bkt 3036 2, bkt 3038 1, bkt 3036 2, bkt 0 0, bkt 3036 2, bkt 0 0, bkt 3036 2,
     bkt 0 0, bkt 524 7, bkt 0 0, bkt 531 7, bkt 0 0, bkt 538 14, bkt 0 0, bkt 552 14, bkt 0 0,
     bkt 566 9, bkt 575 8, bkt 583 11, bkt 594 10, bkt 604 16, bkt 620 16, bkt 636 20,
     bkt 656 20, bkt 3039 22, bkt 3061 81, bkt 773 14, bkt 787 80, bkt 3142 10, bkt 875 77,
     bkt 952 12, bkt 964 81, bkt 1045 36, bkt 1081 28, bkt 1109 25, bkt 1109 25, bkt 1134 16,
     bkt 1134 16, bkt 1150 14, bkt 1150 14, bkt 1164 1, bkt 1164 1, bkt 1164 1, bkt 1164 1,
     bkt 1164 1, bkt 1164 1, bkt 1164 1, bkt 1164 1, bkt 3152 1, bkt 3152 1, bkt 3152 1,
     bkt 3152 1, bkt 0 0, bkt 0 0, bkt 0 0, bkt 0 0, bkt 3153 1, bkt 3153 1, bkt 0 0, bkt 0 0,
     bkt 3154 2, bkt 3154 2, bkt 0 0, bkt 0 0, bkt 3156 7, bkt 3163 5, bkt 0 0, bkt 0 0, bkt 0 0,
     bkt 0 0, bkt 0 0, bkt 0 0, bkt 3168 2, bkt 3168 2, bkt 3168 2, bkt 3168 2, bkt 3168 2,
     bkt 3168 2, bkt 3168 2, bkt 3168 2, bkt 0 0, bkt 0 0, bkt 0 0, bkt 0 0, bkt 0 0, bkt 0 0,
     bkt 0 0, bkt 0 0, bkt 0 0, bkt 0 0, bkt 0 0, bkt 0 0, bkt 0 0, bkt 0 0, bkt 0 0, bkt 0 0,
     bkt 0 0, bkt 0 0, bkt 0 0, bkt 0 0, bkt 0 0, bkt 0 0, bkt 0 0, bkt 0 0, bkt 3170 1,
     bkt 3170 1, bkt 3170 1, bkt 3170 1, bkt 3170 1, bkt 3170 1, bkt 3170 1, bkt 3170 1,
     bkt 3171 17, bkt 3188 5, bkt 3193 17, bkt 3210 5, bkt 3215 17, bkt 3232 5, bkt 3237 13,
     bkt 3250 5, bkt 3255 2, bkt 0 0, bkt 0 0, bkt 0 0, bkt 3257 5, bkt 0 0, bkt 3262 8, bkt 0 0,
     bkt 0 0, bkt 0 0, bkt 0 0, bkt 0 0, bkt 0 0, bkt 0 0, bkt 0 0, bkt 0 0, bkt 3270 1,
     bkt 3270 1, bkt 3270 1, bkt 3270 1, bkt 3270 1, bkt 3270 1, bkt 3270 1, bkt 3270 1,
     bkt 3271 17, bkt 0 0, bkt 3288 17, bkt 0 0, bkt 3305 16, bkt 0 0, bkt 3321 12, bkt 0 0,
     bkt 3333 9, bkt 3342 35, bkt 3377 3, bkt 3380 36, bkt 0 0, bkt 3416 32, bkt 3448 1,
     bkt 3449 39, bkt 3488 18, bkt 3488 18, bkt 3506 15, bkt 3506 15, bkt 3521 8, bkt 3521 8,
     bkt 3521 8, bkt 3521 8]"

definition buckets_768 :: "decoder_bucket_t list" where
  "buckets_768 = [
     bkt 0 0, bkt 0 0, bkt 0 0, bkt 0 0, bkt 0 0, bkt 0 0, bkt 0 0, bkt 0 0, bkt 0 0, bkt 0 0,
     bkt 0 0, bkt 0 0, bkt 0 0, bkt 0 0, bkt 0 0, bkt 0 0, bkt 0 0, bkt 0 0, bkt 0 0, bkt 0 0,
     bkt 0 0, bkt 0 0, bkt 0 0, bkt 0 0, bkt 0 0, bkt 0 0, bkt 0 0, bkt 0 0, bkt 0 0, bkt 0 0,
     bkt 0 0, bkt 0 0, bkt 3529 13, bkt 3542 10, bkt 3552 12, bkt 3564 10, bkt 3574 15,
     bkt 3589 14, bkt 3603 14, bkt 3617 14, bkt 3631 74, bkt 3705 10, bkt 3715 74, bkt 3789 8,
     bkt 3797 69, bkt 3789 8, bkt 3866 78, bkt 3789 8, bkt 0 0, bkt 0 0, bkt 0 0, bkt 0 0,
     bkt 0 0, bkt 0 0, bkt 0 0, bkt 0 0, bkt 0 0, bkt 0 0, bkt 0 0, bkt 0 0, bkt 0 0, bkt 0 0,
     bkt 0 0, bkt 0 0, bkt 0 0, bkt 0 0, bkt 0 0, bkt 0 0, bkt 3944 1, bkt 3944 1, bkt 3945 1,
     bkt 3945 1, bkt 3946 1, bkt 3946 1, bkt 3947 1, bkt 3947 1, bkt 3948 1, bkt 3948 1,
     bkt 3949 1, bkt 3949 1, bkt 3950 2, bkt 3952 1, bkt 3950 2, bkt 3952 1, bkt 3950 2,
     bkt 3952 1, bkt 3950 2, bkt 3952 1, bkt 3953 2, bkt 3955 2, bkt 3953 2, bkt 0 0, bkt 3953 2,
     bkt 0 0, bkt 3953 2, bkt 0 0, bkt 3957 1, bkt 3957 1, bkt 3958 1, bkt 3958 1, bkt 3959 1,
     bkt 3959 1, bkt 3960 1, bkt 3960 1, bkt 3961 1, bkt 3961 1, bkt 3962 1, bkt 3962 1,
     bkt 3963 1, bkt 3963 1, bkt 3964 1, bkt 3964 1, bkt 3965 8, bkt 1871 70, bkt 3973 14,
     bkt 1954 74, bkt 3987 6, bkt 2033 66, bkt 2099 11, bkt 2110 73, bkt 3993 32, bkt 2214 25,
     bkt 2239 25, bkt 2239 25, bkt 2264 12, bkt 2264 12, bkt 2276 9, bkt 2276 9, bkt 1164 1,
     bkt 1164 1, bkt 1164 1, bkt 1164 1, bkt 1164 1, bkt 1164 1, bkt 1164 1, bkt 1164 1,
     bkt 4025 2, bkt 4025 2, bkt 4025 2, bkt 4025 2, bkt 0 0, bkt 0 0, bkt 0 0, bkt 0 0,
     bkt 4027 2, bkt 4027 2, bkt 0 0, bkt 0 0, bkt 4029 1, bkt 4029 1, bkt 0 0, bkt 0 0, bkt 0 0,
     bkt 0 0, bkt 0 0, bkt 0 0, bkt 0 0, bkt 0 0, bkt 0 0, bkt 0 0, bkt 0 0, bkt 0 0, bkt 0 0,
     bkt 0 0, bkt 0 0, bkt 0 0, bkt 0 0, bkt 0 0, bkt 0 0, bkt 0 0, bkt 0 0, bkt 0 0, bkt 0 0,
     bkt 0 0, bkt 0 0, bkt 0 0, bkt 0 0, bkt 0 0, bkt 0 0, bkt 0 0, bkt 0 0, bkt 0 0, bkt 0 0,
     bkt 0 0, bkt 0 0, bkt 0 0, bkt 0 0, bkt 0 0, bkt 0 0, bkt 0 0, bkt 0 0, bkt 0 0, bkt 4030 4,
     bkt 4034 21, bkt 4055 4, bkt 4059 21, bkt 4080 4, bkt 4084 14, bkt 4098 4, bkt 4102 13,
     bkt 4115 1, bkt 4115 1, bkt 4116 1, bkt 4116 1, bkt 4117 1, bkt 4117 1, bkt 4118 1,
     bkt 4118 1, bkt 4119 2, bkt 0 0, bkt 4121 2, bkt 0 0, bkt 0 0, bkt 0 0, bkt 0 0, bkt 0 0,
     bkt 0 0, bkt 0 0, bkt 0 0, bkt 0 0, bkt 0 0, bkt 0 0, bkt 0 0, bkt 0 0, bkt 4123 3,
     bkt 4126 1, bkt 4127 3, bkt 4130 1, bkt 0 0, bkt 0 0, bkt 0 0, bkt 0 0, bkt 4131 1,
     bkt 4131 1, bkt 4132 1, bkt 4132 1, bkt 0 0, bkt 0 0, bkt 0 0, bkt 0 0, bkt 4133 2,
     bkt 4135 28, bkt 4163 4, bkt 4167 32, bkt 4133 2, bkt 4199 28, bkt 4227 5, bkt 4232 33,
     bkt 4265 17, bkt 4265 17, bkt 4282 16, bkt 4282 16, bkt 4298 3, bkt 4298 3, bkt 4298 3,
     bkt 4298 3]"

definition buckets_1024 :: "decoder_bucket_t list" where
  "buckets_1024 = [
     bkt 0 0, bkt 0 0, bkt 0 0, bkt 0 0, bkt 4301 4, bkt 0 0, bkt 4305 2, bkt 0 0, bkt 0 0,
     bkt 0 0, bkt 0 0, bkt 0 0, bkt 4307 4, bkt 4311 4, bkt 0 0, bkt 0 0, bkt 0 0, bkt 0 0,
     bkt 0 0, bkt 0 0, bkt 0 0, bkt 0 0, bkt 0 0, bkt 0 0, bkt 0 0, bkt 0 0, bkt 0 0, bkt 0 0,
     bkt 0 0, bkt 0 0, bkt 0 0, bkt 0 0, bkt 4315 8, bkt 4323 8, bkt 4331 8, bkt 4339 8,
     bkt 4347 8, bkt 4355 8, bkt 4363 8, bkt 4371 8, bkt 4379 5, bkt 4384 4, bkt 4388 6,
     bkt 4394 6, bkt 4400 4, bkt 4404 2, bkt 4406 8, bkt 4406 8, bkt 0 0, bkt 0 0, bkt 0 0,
     bkt 0 0, bkt 0 0, bkt 0 0, bkt 0 0, bkt 0 0, bkt 0 0, bkt 0 0, bkt 0 0, bkt 0 0, bkt 0 0,
     bkt 0 0, bkt 0 0, bkt 0 0, bkt 4414 2, bkt 4416 2, bkt 4418 2, bkt 4420 2, bkt 4422 2,
     bkt 4424 2, bkt 4426 2, bkt 4428 2, bkt 0 0, bkt 0 0, bkt 0 0, bkt 0 0, bkt 0 0, bkt 0 0,
     bkt 0 0, bkt 0 0, bkt 4430 1, bkt 4431 1, bkt 4430 1, bkt 4431 1, bkt 4430 1, bkt 4431 1,
     bkt 4430 1, bkt 4431 1, bkt 4432 1, bkt 4433 1, bkt 4432 1, bkt 0 0, bkt 4432 1, bkt 0 0,
     bkt 4432 1, bkt 0 0, bkt 0 0, bkt 0 0, bkt 0 0, bkt 0 0, bkt 0 0, bkt 0 0, bkt 0 0, bkt 0 0,
     bkt 0 0, bkt 0 0, bkt 0 0, bkt 0 0, bkt 0 0, bkt 0 0, bkt 0 0, bkt 0 0, bkt 0 0, bkt 0 0,
     bkt 0 0, bkt 0 0, bkt 0 0, bkt 0 0, bkt 0 0, bkt 0 0, bkt 0 0, bkt 0 0, bkt 0 0, bkt 0 0,
     bkt 0 0, bkt 0 0, bkt 0 0, bkt 0 0, bkt 4434 1, bkt 4434 1, bkt 4434 1, bkt 4434 1,
     bkt 4434 1, bkt 4434 1, bkt 4434 1, bkt 4434 1, bkt 4435 2, bkt 4437 1, bkt 4437 1,
     bkt 4437 1, bkt 4438 1, bkt 4438 1, bkt 4439 4, bkt 0 0, bkt 4443 1, bkt 4443 1, bkt 4443 1,
     bkt 4443 1, bkt 4444 2, bkt 4444 2, bkt 4444 2, bkt 4444 2, bkt 0 0, bkt 0 0, bkt 4446 7,
     bkt 4453 4, bkt 0 0, bkt 0 0, bkt 4457 2, bkt 0 0, bkt 4459 1, bkt 4459 1, bkt 4459 1,
     bkt 4459 1, bkt 4459 1, bkt 4459 1, bkt 4459 1, bkt 4459 1, bkt 4459 1, bkt 4459 1,
     bkt 4459 1, bkt 4459 1, bkt 4459 1, bkt 4459 1, bkt 4459 1, bkt 4459 1, bkt 4459 1,
     bkt 4459 1, bkt 4459 1, bkt 4459 1, bkt 4459 1, bkt 4459 1, bkt 4459 1, bkt 4459 1,
     bkt 4459 1, bkt 4459 1, bkt 4459 1, bkt 4459 1, bkt 4459 1, bkt 4459 1, bkt 4459 1,
     bkt 4459 1, bkt 4460 1, bkt 4460 1, bkt 4460 1, bkt 4460 1, bkt 4460 1, bkt 4460 1,
     bkt 4460 1, bkt 4460 1, bkt 4461 19, bkt 0 0, bkt 4480 19, bkt 0 0, bkt 4499 18, bkt 0 0,
     bkt 4517 13, bkt 0 0, bkt 4530 1, bkt 0 0, bkt 0 0, bkt 0 0, bkt 4531 4, bkt 0 0,
     bkt 4535 20, bkt 0 0, bkt 4555 4, bkt 4559 4, bkt 4563 1, bkt 0 0, bkt 0 0, bkt 4564 4,
     bkt 4568 1, bkt 0 0, bkt 4569 1, bkt 4569 1, bkt 4569 1, bkt 4569 1, bkt 4569 1, bkt 4569 1,
     bkt 4569 1, bkt 4569 1, bkt 4570 17, bkt 0 0, bkt 4587 17, bkt 0 0, bkt 3305 16, bkt 0 0,
     bkt 3321 12, bkt 0 0, bkt 4604 4, bkt 4608 12, bkt 4620 4, bkt 4624 14, bkt 0 0, bkt 4638 2,
     bkt 4640 4, bkt 4644 14, bkt 0 0, bkt 0 0, bkt 0 0, bkt 0 0, bkt 0 0, bkt 0 0, bkt 0 0,
     bkt 0 0]"

definition buckets_1280 :: "decoder_bucket_t list" where
  "buckets_1280 = [
     bkt 4658 16, bkt 4674 16, bkt 4690 16, bkt 4706 16, bkt 4722 4, bkt 4726 2, bkt 4728 2,
     bkt 4730 2, bkt 4732 16, bkt 4748 16, bkt 4764 16, bkt 4780 16, bkt 4796 4, bkt 4800 2,
     bkt 4802 2, bkt 4804 2, bkt 0 0, bkt 0 0, bkt 0 0, bkt 0 0, bkt 0 0, bkt 0 0, bkt 0 0,
     bkt 0 0, bkt 0 0, bkt 0 0, bkt 0 0, bkt 0 0, bkt 0 0, bkt 0 0, bkt 0 0, bkt 0 0, bkt 4806 8,
     bkt 4814 8, bkt 4822 6, bkt 4828 6, bkt 4834 9, bkt 4843 9, bkt 4852 6, bkt 4858 6,
     bkt 4864 11, bkt 4875 9, bkt 4884 6, bkt 4890 6, bkt 4896 11, bkt 4907 9, bkt 4916 6,
     bkt 4922 6, bkt 0 0, bkt 0 0, bkt 0 0, bkt 0 0, bkt 0 0, bkt 0 0, bkt 0 0, bkt 0 0, bkt 0 0,
     bkt 0 0, bkt 0 0, bkt 0 0, bkt 0 0, bkt 0 0, bkt 0 0, bkt 0 0, bkt 4928 1, bkt 4928 1,
     bkt 4929 1, bkt 4929 1, bkt 4930 1, bkt 4930 1, bkt 4931 1, bkt 4931 1, bkt 4932 1,
     bkt 4932 1, bkt 4933 1, bkt 4933 1, bkt 4934 1, bkt 4934 1, bkt 4935 1, bkt 4935 1,
     bkt 4936 2, bkt 4938 2, bkt 4940 1, bkt 4938 2, bkt 4940 1, bkt 4938 2, bkt 4940 1,
     bkt 4938 2, bkt 4941 2, bkt 4943 2, bkt 4941 2, bkt 0 0, bkt 4941 2, bkt 0 0, bkt 4941 2,
     bkt 0 0, bkt 4945 1, bkt 4945 1, bkt 4946 1, bkt 4946 1, bkt 4947 1, bkt 4947 1, bkt 4948 1,
     bkt 4948 1, bkt 4949 1, bkt 4949 1, bkt 4950 1, bkt 4950 1, bkt 4951 1, bkt 4951 1,
     bkt 4952 1, bkt 4952 1, bkt 0 0, bkt 0 0, bkt 0 0, bkt 0 0, bkt 0 0, bkt 0 0, bkt 0 0,
     bkt 0 0, bkt 0 0, bkt 0 0, bkt 0 0, bkt 0 0, bkt 0 0, bkt 0 0, bkt 0 0, bkt 0 0, bkt 4434 1,
     bkt 4434 1, bkt 4434 1, bkt 4434 1, bkt 4434 1, bkt 4434 1, bkt 4434 1, bkt 4434 1,
     bkt 4953 2, bkt 4953 2, bkt 4953 2, bkt 4953 2, bkt 0 0, bkt 0 0, bkt 0 0, bkt 0 0,
     bkt 4955 2, bkt 4955 2, bkt 4955 2, bkt 4955 2, bkt 0 0, bkt 0 0, bkt 0 0, bkt 0 0, bkt 0 0,
     bkt 0 0, bkt 4957 4, bkt 4957 4, bkt 0 0, bkt 0 0, bkt 0 0, bkt 0 0, bkt 4961 1, bkt 4961 1,
     bkt 4961 1, bkt 4961 1, bkt 4961 1, bkt 4961 1, bkt 4961 1, bkt 4961 1, bkt 4962 1,
     bkt 4962 1, bkt 4962 1, bkt 4962 1, bkt 4962 1, bkt 4962 1, bkt 4962 1, bkt 4962 1,
     bkt 2295 1, bkt 2295 1, bkt 2295 1, bkt 2295 1, bkt 2295 1, bkt 2295 1, bkt 2295 1,
     bkt 2295 1, bkt 2296 1, bkt 2296 1, bkt 2296 1, bkt 2296 1, bkt 2296 1, bkt 2296 1,
     bkt 2296 1, bkt 2296 1, bkt 4963 4, bkt 4967 18, bkt 4985 4, bkt 4989 18, bkt 5007 4,
     bkt 5011 11, bkt 0 0, bkt 5022 9, bkt 5031 1, bkt 5031 1, bkt 5032 1, bkt 5032 1,
     bkt 5033 1, bkt 5033 1, bkt 0 0, bkt 0 0, bkt 5034 2, bkt 0 0, bkt 5036 2, bkt 0 0, bkt 0 0,
     bkt 0 0, bkt 5038 2, bkt 0 0, bkt 0 0, bkt 0 0, bkt 0 0, bkt 0 0, bkt 0 0, bkt 0 0, bkt 0 0,
     bkt 0 0, bkt 5040 3, bkt 5043 1, bkt 5044 3, bkt 5047 1, bkt 0 0, bkt 0 0, bkt 0 0, bkt 0 0,
     bkt 5048 1, bkt 5048 1, bkt 5049 1, bkt 5049 1, bkt 0 0, bkt 0 0, bkt 0 0, bkt 0 0, bkt 0 0,
     bkt 0 0, bkt 0 0, bkt 0 0, bkt 0 0, bkt 0 0, bkt 0 0, bkt 0 0, bkt 0 0, bkt 0 0, bkt 0 0,
     bkt 0 0, bkt 0 0, bkt 0 0, bkt 0 0, bkt 0 0]"

definition buckets_1536 :: "decoder_bucket_t list" where
  "buckets_1536 = [
     bkt 5050 34, bkt 0 0, bkt 5084 18, bkt 0 0, bkt 5102 25, bkt 0 0, bkt 5127 24, bkt 0 0,
     bkt 5151 26, bkt 5177 159, bkt 5336 28, bkt 5364 117, bkt 5481 24, bkt 5505 134,
     bkt 5639 22, bkt 5661 121, bkt 0 0, bkt 0 0, bkt 0 0, bkt 0 0, bkt 0 0, bkt 0 0, bkt 0 0,
     bkt 0 0, bkt 0 0, bkt 0 0, bkt 0 0, bkt 0 0, bkt 0 0, bkt 0 0, bkt 0 0, bkt 0 0, bkt 5782 8,
     bkt 5790 8, bkt 5798 8, bkt 5806 8, bkt 5814 7, bkt 5821 8, bkt 5829 8, bkt 5837 8,
     bkt 5845 7, bkt 5852 8, bkt 5860 8, bkt 5868 8, bkt 5876 4, bkt 5880 4, bkt 5884 4,
     bkt 5888 4, bkt 0 0, bkt 0 0, bkt 0 0, bkt 0 0, bkt 0 0, bkt 0 0, bkt 0 0, bkt 0 0, bkt 0 0,
     bkt 0 0, bkt 0 0, bkt 0 0, bkt 0 0, bkt 0 0, bkt 0 0, bkt 0 0, bkt 5892 2, bkt 5894 2,
     bkt 5896 2, bkt 5898 2, bkt 5900 2, bkt 5902 2, bkt 5904 2, bkt 5906 2, bkt 0 0, bkt 0 0,
     bkt 0 0, bkt 0 0, bkt 0 0, bkt 0 0, bkt 0 0, bkt 0 0, bkt 5908 1, bkt 5909 1, bkt 5908 1,
     bkt 5909 1, bkt 5908 1, bkt 5909 1, bkt 5908 1, bkt 5909 1, bkt 5910 2, bkt 5912 1,
     bkt 5910 2, bkt 0 0, bkt 5910 2, bkt 0 0, bkt 5910 2, bkt 0 0, bkt 0 0, bkt 0 0, bkt 0 0,
     bkt 0 0, bkt 0 0, bkt 0 0, bkt 0 0, bkt 0 0, bkt 0 0, bkt 0 0, bkt 0 0, bkt 0 0, bkt 0 0,
     bkt 0 0, bkt 0 0, bkt 0 0, bkt 5913 1, bkt 5914 1, bkt 5915 5, bkt 5920 7, bkt 5927 1,
     bkt 0 0, bkt 5928 2, bkt 0 0, bkt 0 0, bkt 0 0, bkt 0 0, bkt 0 0, bkt 0 0, bkt 0 0, bkt 0 0,
     bkt 0 0, bkt 4434 1, bkt 4434 1, bkt 4434 1, bkt 4434 1, bkt 4434 1, bkt 4434 1, bkt 4434 1,
     bkt 4434 1, bkt 5930 1, bkt 5930 1, bkt 5930 1, bkt 5930 1, bkt 5931 1, bkt 5931 1, bkt 0 0,
     bkt 0 0, bkt 5932 1, bkt 5932 1, bkt 5932 1, bkt 5932 1, bkt 5933 2, bkt 5933 2, bkt 5933 2,
     bkt 5933 2, bkt 0 0, bkt 0 0, bkt 5935 5, bkt 5935 5, bkt 0 0, bkt 0 0, bkt 0 0, bkt 0 0,
     bkt 5940 3, bkt 5943 1, bkt 5944 1, bkt 5945 1, bkt 0 0, bkt 5946 3, bkt 0 0, bkt 0 0,
     bkt 5949 63, bkt 6012 6, bkt 6018 3, bkt 6021 1, bkt 0 0, bkt 0 0, bkt 0 0, bkt 0 0,
     bkt 6022 3, bkt 6025 3, bkt 6028 3, bkt 0 0, bkt 6031 3, bkt 6034 1, bkt 0 0, bkt 0 0,
     bkt 6035 2, bkt 6037 2, bkt 0 0, bkt 0 0, bkt 0 0, bkt 0 0, bkt 0 0, bkt 0 0, bkt 6039 1,
     bkt 6039 1, bkt 6039 1, bkt 6039 1, bkt 6039 1, bkt 6039 1, bkt 6039 1, bkt 6039 1,
     bkt 6040 21, bkt 6061 4, bkt 6065 19, bkt 6084 4, bkt 6088 17, bkt 6105 4, bkt 6109 13,
     bkt 6122 4, bkt 6126 2, bkt 0 0, bkt 0 0, bkt 0 0, bkt 6128 5, bkt 0 0, bkt 6133 28,
     bkt 0 0, bkt 0 0, bkt 0 0, bkt 0 0, bkt 0 0, bkt 0 0, bkt 0 0, bkt 0 0, bkt 0 0, bkt 0 0,
     bkt 0 0, bkt 0 0, bkt 0 0, bkt 0 0, bkt 0 0, bkt 0 0, bkt 0 0, bkt 6161 17, bkt 0 0,
     bkt 6178 17, bkt 0 0, bkt 3305 16, bkt 0 0, bkt 3321 12, bkt 0 0, bkt 0 0, bkt 0 0, bkt 0 0,
     bkt 0 0, bkt 0 0, bkt 0 0, bkt 0 0, bkt 0 0, bkt 0 0, bkt 0 0, bkt 0 0, bkt 0 0, bkt 0 0,
     bkt 0 0, bkt 0 0, bkt 0 0]"

definition buckets_1792 :: "decoder_bucket_t list" where
  "buckets_1792 = [
     bkt 6195 1, bkt 6196 1, bkt 6197 1, bkt 6198 1, bkt 6199 1, bkt 6200 1, bkt 6201 1,
     bkt 6202 1, bkt 6203 2, bkt 6205 2, bkt 0 0, bkt 0 0, bkt 0 0, bkt 0 0, bkt 6207 1,
     bkt 6208 1, bkt 0 0, bkt 0 0, bkt 0 0, bkt 0 0, bkt 0 0, bkt 0 0, bkt 0 0, bkt 0 0, bkt 0 0,
     bkt 0 0, bkt 0 0, bkt 0 0, bkt 0 0, bkt 0 0, bkt 0 0, bkt 0 0, bkt 6209 7, bkt 6216 5,
     bkt 6221 8, bkt 6229 6, bkt 6235 8, bkt 6243 7, bkt 6250 8, bkt 6258 7, bkt 6265 7,
     bkt 6272 4, bkt 6276 7, bkt 6283 6, bkt 6289 7, bkt 6296 6, bkt 6302 5, bkt 6307 4, bkt 0 0,
     bkt 0 0, bkt 0 0, bkt 0 0, bkt 0 0, bkt 0 0, bkt 0 0, bkt 0 0, bkt 0 0, bkt 0 0, bkt 0 0,
     bkt 0 0, bkt 0 0, bkt 0 0, bkt 0 0, bkt 0 0, bkt 0 0, bkt 0 0, bkt 0 0, bkt 0 0, bkt 0 0,
     bkt 0 0, bkt 0 0, bkt 0 0, bkt 0 0, bkt 0 0, bkt 0 0, bkt 0 0, bkt 0 0, bkt 0 0, bkt 0 0,
     bkt 0 0, bkt 6311 2, bkt 6313 1, bkt 6311 2, bkt 6313 1, bkt 6311 2, bkt 6313 1, bkt 6311 2,
     bkt 6313 1, bkt 6314 2, bkt 6316 2, bkt 6314 2, bkt 0 0, bkt 6314 2, bkt 0 0, bkt 6314 2,
     bkt 0 0, bkt 0 0, bkt 0 0, bkt 0 0, bkt 0 0, bkt 0 0, bkt 0 0, bkt 0 0, bkt 0 0, bkt 0 0,
     bkt 0 0, bkt 0 0, bkt 0 0, bkt 0 0, bkt 0 0, bkt 0 0, bkt 0 0, bkt 0 0, bkt 0 0, bkt 0 0,
     bkt 0 0, bkt 0 0, bkt 0 0, bkt 0 0, bkt 0 0, bkt 0 0, bkt 0 0, bkt 0 0, bkt 0 0, bkt 0 0,
     bkt 0 0, bkt 0 0, bkt 0 0, bkt 4434 1, bkt 4434 1, bkt 4434 1, bkt 4434 1, bkt 4434 1,
     bkt 4434 1, bkt 4434 1, bkt 4434 1, bkt 6318 2, bkt 6318 2, bkt 6318 2, bkt 6318 2, bkt 0 0,
     bkt 0 0, bkt 0 0, bkt 0 0, bkt 6320 2, bkt 6320 2, bkt 6320 2, bkt 6320 2, bkt 6322 1,
     bkt 6322 1, bkt 6322 1, bkt 6322 1, bkt 0 0, bkt 0 0, bkt 0 0, bkt 0 0, bkt 0 0, bkt 0 0,
     bkt 0 0, bkt 0 0, bkt 0 0, bkt 0 0, bkt 0 0, bkt 0 0, bkt 0 0, bkt 0 0, bkt 0 0, bkt 0 0,
     bkt 0 0, bkt 0 0, bkt 0 0, bkt 0 0, bkt 0 0, bkt 0 0, bkt 0 0, bkt 0 0, bkt 0 0, bkt 0 0,
     bkt 0 0, bkt 0 0, bkt 0 0, bkt 0 0, bkt 0 0, bkt 0 0, bkt 0 0, bkt 0 0, bkt 0 0, bkt 0 0,
     bkt 0 0, bkt 0 0, bkt 0 0, bkt 0 0, bkt 6323 4, bkt 6327 24, bkt 6351 4, bkt 6355 20,
     bkt 6375 1, bkt 6376 13, bkt 0 0, bkt 6389 11, bkt 6400 1, bkt 6400 1, bkt 6401 1,
     bkt 6401 1, bkt 6402 1, bkt 6402 1, bkt 0 0, bkt 0 0, bkt 6403 2, bkt 0 0, bkt 6405 2,
     bkt 0 0, bkt 0 0, bkt 0 0, bkt 0 0, bkt 0 0, bkt 0 0, bkt 0 0, bkt 0 0, bkt 0 0, bkt 0 0,
     bkt 0 0, bkt 0 0, bkt 0 0, bkt 6407 3, bkt 6410 1, bkt 6411 3, bkt 6414 1, bkt 0 0, bkt 0 0,
     bkt 0 0, bkt 0 0, bkt 6415 1, bkt 6415 1, bkt 6416 1, bkt 6416 1, bkt 0 0, bkt 0 0, bkt 0 0,
     bkt 0 0, bkt 0 0, bkt 0 0, bkt 0 0, bkt 0 0, bkt 0 0, bkt 0 0, bkt 0 0, bkt 0 0, bkt 0 0,
     bkt 0 0, bkt 0 0, bkt 0 0, bkt 0 0, bkt 0 0, bkt 0 0, bkt 0 0]"

end
