(* ===== verification/Arm64_Instructions_1.thy ===== *)
theory Arm64_Instructions_1
  imports Table_Entries
begin

text \<open>
  Entries 0 to 491 of \<open>g_bal_decoder_arm64_instructions\<close> in \<open>src/generated/decoder_table.c\<close>,
  twelve to a list; a list is named after the index of its first entry.
\<close>

definition arm64_instructions_0 :: "bal_decoder_instruction_metadata_t list" where
  "arm64_instructions_0 = [
     insn ''ABS'' 0xFFFFFC00 0x5AC02000 OPCODE_TRAP [op_w 0 5, op_w 5 5],
     insn ''ABS'' 0xFFFFFC00 0xDAC02000 OPCODE_TRAP [op_x 0 5, op_x 5 5],
     insn ''ABS'' 0xBF3FFC00 0x0E20B800 OPCODE_TRAP [op_v 0 5, op_v 5 5],
     insn ''ABS'' 0xFF3FFC00 0x5E20B800 OPCODE_TRAP [op_v 0 5, op_v 5 5],
     insn ''ABS'' 0xFF3FE000 0x0416A000 OPCODE_TRAP [op_v 0 5, op_v 5 5, op_v 10 3],
     insn ''ADC'' 0xFFE0FC00 0x1A000000 OPCODE_TRAP [op_w 0 5, op_w 5 5, op_w 16 5],
     insn ''ADC'' 0xFFE0FC00 0x9A000000 OPCODE_TRAP [op_x 0 5, op_x 5 5, op_x 16 5],
     insn ''ADCLB'' 0xFFA0FC00 0x4500D000 OPCODE_TRAP [op_v 0 5, op_v 5 5, op_v 16 5],
     insn ''ADCLT'' 0xFFA0FC00 0x4500D400 OPCODE_TRAP [op_v 0 5, op_v 5 5, op_v 16 5],
     insn ''ADCS'' 0xFFE0FC00 0x3A000000 OPCODE_TRAP [op_w 0 5, op_w 5 5, op_w 16 5],
     insn ''ADCS'' 0xFFE0FC00 0xBA000000 OPCODE_TRAP [op_x 0 5, op_x 5 5, op_x 16 5],
     insn ''ADD'' 0xFFE00000 0x0B200000 OPCODE_ADD [op_w 0 5, op_w 5 5, op_imm 10 3, op_imm 13 3, op_w 16 5]]"

definition arm64_instructions_12 :: "bal_decoder_instruction_metadata_t list" where
  "arm64_instructions_12 = [
     insn ''ADD'' 0xFFE00000 0x8B200000 OPCODE_ADD [op_x 0 5, op_x 5 5, op_imm 10 3, op_imm 13 3, op_cond 16 5],
     insn ''ADD'' 0xFF800000 0x11000000 OPCODE_ADD [op_w 0 5, op_w 5 5, op_imm 10 12, op_imm 22 1],
     insn ''ADD'' 0xFF800000 0x91000000 OPCODE_ADD [op_x 0 5, op_x 5 5, op_imm 10 12, op_imm 22 1],
     insn ''ADD'' 0xFF200000 0x0B000000 OPCODE_ADD [op_w 0 5, op_w 5 5, op_imm 10 6, op_w 16 5, op_imm 22 2],
     insn ''ADD'' 0xFF200000 0x8B000000 OPCODE_ADD [op_x 0 5, op_x 5 5, op_imm 10 6, op_x 16 5, op_imm 22 2],
     insn ''ADD'' 0xBF20FC00 0x0E208400 OPCODE_ADD [op_v 0 5, op_v 5 5, op_v 16 5],
     insn ''ADD'' 0xFF20FC00 0x5E208400 OPCODE_ADD [op_v 0 5, op_v 5 5, op_v 16 5],
     insn ''ADD'' 0xFF30FFE1 0xC120A300 OPCODE_ADD [op_v 1 4, op_v 16 4],
     insn ''ADD'' 0xFF30FFE3 0xC120AB00 OPCODE_ADD [op_v 2 3, op_v 16 4],
     insn ''ADD'' 0xFF3FE000 0x04000000 OPCODE_ADD [op_v 0 5, op_v 5 5, op_v 10 3],
     insn ''ADD'' 0xFF3FC000 0x2520C000 OPCODE_ADD [op_v 0 5, op_imm 5 8, op_imm 13 1],
     insn ''ADD'' 0xFF20FC00 0x04200000 OPCODE_ADD [op_v 0 5, op_v 5 5, op_v 16 5]]"

definition arm64_instructions_24 :: "bal_decoder_instruction_metadata_t list" where
  "arm64_instructions_24 = [
     insn ''ADD'' 0xFFBF9C38 0xC1A01C10 OPCODE_ADD [op_imm 0 3, op_v 6 4, op_w 13 2],
     insn ''ADD'' 0xFFBF9C78 0xC1A11C10 OPCODE_ADD [op_imm 0 3, op_v 7 3, op_w 13 2],
     insn ''ADD'' 0xFFB09C18 0xC1201810 OPCODE_ADD [op_imm 0 3, op_v 5 5, op_w 13 2, op_v 16 4],
     insn ''ADD'' 0xFFB09C18 0xC1301810 OPCODE_ADD [op_imm 0 3, op_v 5 5, op_w 13 2, op_v 16 4],
     insn ''ADD'' 0xFFA19C38 0xC1A01810 OPCODE_ADD [op_imm 0 3, op_v 6 4, op_w 13 2, op_v 17 4],
     insn ''ADD'' 0xFFA39C78 0xC1A11810 OPCODE_ADD [op_imm 0 3, op_v 7 3, op_w 13 2, op_v 18 3],
     insn ''ADDG'' 0xFFC04800 0x91800000 OPCODE_ADD [op_x 0 5, op_x 5 5, op_imm 10 4, op_imm 16 6],
     insn ''ADDHA'' 0xFFFF0018 0xC0D00000 OPCODE_ADD [op_v 5 5, op_v 10 3, op_v 13 3],
     insn ''ADDHA'' 0xFFFF001C 0xC0900000 OPCODE_ADD [op_v 5 5, op_v 10 3, op_v 13 3],
     insn ''ADDHN'' 0xBF20FC00 0x0E204000 OPCODE_ADD [op_v 0 5, op_v 5 5, op_v 16 5, op_cond 30 1],
     insn ''ADDHNB'' 0xFF20FC00 0x45206000 OPCODE_ADD [op_v 0 5, op_v 5 5, op_v 16 5],
     insn ''ADDHNT'' 0xFF20FC00 0x45206400 OPCODE_ADD [op_v 0 5, op_v 5 5, op_v 16 5]]"

definition arm64_instructions_36 :: "bal_decoder_instruction_metadata_t list" where
  "arm64_instructions_36 = [
     insn ''ADDP'' 0xFF3FFC00 0x5E31B800 OPCODE_ADD [op_v 0 5, op_v 5 5],
     insn ''ADDP'' 0xBF20FC00 0x0E20BC00 OPCODE_ADD [op_v 0 5, op_v 5 5, op_v 16 5],
     insn ''ADDP'' 0xFF3FE000 0x4411A000 OPCODE_ADD [op_v 0 5, op_v 5 5, op_v 10 3],
     insn ''ADDPL'' 0xFFE0F800 0x04605000 OPCODE_ADD [op_x 0 5, op_imm 5 6, op_x 16 5],
     insn ''ADDQV'' 0xFF3FE000 0x04052000 OPCODE_ADD [op_v 0 5, op_v 5 5, op_v 10 3],
     insn ''ADDS'' 0xFFE00000 0x2B200000 OPCODE_ADD [op_w 0 5, op_w 5 5, op_imm 10 3, op_imm 13 3, op_w 16 5],
     insn ''ADDS'' 0xFFE00000 0xAB200000 OPCODE_ADD [op_x 0 5, op_x 5 5, op_imm 10 3, op_imm 13 3, op_cond 16 5],
     insn ''ADDS'' 0xFF800000 0x31000000 OPCODE_ADD [op_w 0 5, op_w 5 5, op_imm 10 12, op_imm 22 1],
     insn ''ADDS'' 0xFF800000 0xB1000000 OPCODE_ADD [op_x 0 5, op_x 5 5, op_imm 10 12, op_imm 22 1],
     insn ''ADDS'' 0xFF200000 0x2B000000 OPCODE_ADD [op_w 0 5, op_w 5 5, op_imm 10 6, op_w 16 5, op_imm 22 2],
     insn ''ADDS'' 0xFF200000 0xAB000000 OPCODE_ADD [op_x 0 5, op_x 5 5, op_imm 10 6, op_x 16 5, op_imm 22 2],
     insn ''ADDSPL'' 0xFFE0F800 0x04605800 OPCODE_ADD [op_x 0 5, op_imm 5 6, op_x 16 5]]"

definition arm64_instructions_48 :: "bal_decoder_instruction_metadata_t list" where
  "arm64_instructions_48 = [
     insn ''ADDSVL'' 0xFFE0F800 0x04205800 OPCODE_ADD [op_x 0 5, op_imm 5 6, op_x 16 5],
     insn ''ADDV'' 0xBF3FFC00 0x0E31B800 OPCODE_ADD [op_v 0 5, op_v 5 5],
     insn ''ADDVA'' 0xFFFF0018 0xC0D10000 OPCODE_ADD [op_v 5 5, op_v 10 3, op_v 13 3],
     insn ''ADDVA'' 0xFFFF001C 0xC0910000 OPCODE_ADD [op_v 5 5, op_v 10 3, op_v 13 3],
     insn ''ADDVL'' 0xFFE0F800 0x04205000 OPCODE_ADD [op_x 0 5, op_imm 5 6, op_x 16 5],
     insn ''ADR'' 0x9F000000 0x10000000 OPCODE_TRAP [op_x 0 5, op_imm 5 19, op_imm 29 2],
     insn ''ADR'' 0xFFA0F000 0x04A0A000 OPCODE_TRAP [op_v 0 5, op_v 5 5, op_imm 10 2, op_imm 16 5],
     insn ''ADR'' 0xFFE0F000 0x0420A000 OPCODE_TRAP [op_v 0 5, op_v 5 5, op_imm 10 2, op_imm 16 5],
     insn ''ADR'' 0xFFE0F000 0x0460A000 OPCODE_TRAP [op_v 0 5, op_v 5 5, op_imm 10 2, op_imm 16 5],
     insn ''ADRP'' 0x9F000000 0x90000000 OPCODE_TRAP [op_x 0 5, op_imm 5 19, op_imm 29 2],
     insn ''AESD'' 0xFFFFFC00 0x4E285800 OPCODE_TRAP [op_v 0 5, op_v 5 5],
     insn ''AESD'' 0xFFFFFC00 0x4522E400 OPCODE_TRAP [op_v 0 5, op_v 5 5]]"

definition arm64_instructions_60 :: "bal_decoder_instruction_metadata_t list" where
  "arm64_instructions_60 = [
     insn ''AESE'' 0xFFFFFC00 0x4E284800 OPCODE_TRAP [op_v 0 5, op_v 5 5],
     insn ''AESE'' 0xFFFFFC00 0x4522E000 OPCODE_TRAP [op_v 0 5, op_v 5 5],
     insn ''AESIMC'' 0xFFFFFC00 0x4E287800 OPCODE_TRAP [op_v 0 5, op_v 5 5],
     insn ''AESIMC'' 0xFFFFFFE0 0x4520E400 OPCODE_TRAP [op_v 0 5],
     insn ''AESMC'' 0xFFFFFC00 0x4E286800 OPCODE_TRAP [op_v 0 5, op_v 5 5],
     insn ''AESMC'' 0xFFFFFFE0 0x4520E000 OPCODE_TRAP [op_v 0 5],
     insn ''AND'' 0xBFE0FC00 0x0E201C00 OPCODE_AND [op_v 0 5, op_v 5 5, op_v 16 5],
     insn ''AND'' 0xFF800000 0x92000000 OPCODE_AND [op_x 0 5, op_x 5 5, op_imm 10 6, op_imm 16 6, op_imm 22 1],
     insn ''AND'' 0xFFC00000 0x12000000 OPCODE_AND [op_w 0 5, op_w 5 5, op_imm 10 6, op_imm 16 6],
     insn ''AND'' 0xFF200000 0x0A000000 OPCODE_AND [op_w 0 5, op_w 5 5, op_imm 10 6, op_w 16 5, op_imm 22 2],
     insn ''AND'' 0xFF200000 0x8A000000 OPCODE_AND [op_x 0 5, op_x 5 5, op_imm 10 6, op_x 16 5, op_imm 22 2],
     insn ''AND'' 0xFFF0C210 0x25004000 OPCODE_AND [op_v 0 4, op_v 5 4, op_v 10 4, op_v 16 4]]"

definition arm64_instructions_72 :: "bal_decoder_instruction_metadata_t list" where
  "arm64_instructions_72 = [
     insn ''AND'' 0xFF3FE000 0x041A0000 OPCODE_AND [op_v 0 5, op_v 5 5, op_v 10 3],
     insn ''AND'' 0xFFFC0000 0x05800000 OPCODE_AND [op_v 0 5],
     insn ''AND'' 0xFFE0FC00 0x04203000 OPCODE_AND [op_v 0 5, op_v 5 5, op_v 16 5],
     insn ''ANDQV'' 0xFF3FE000 0x041E2000 OPCODE_AND [op_v 0 5, op_v 5 5, op_v 10 3],
     insn ''ANDS'' 0xFF800000 0xF2000000 OPCODE_AND [op_x 0 5, op_x 5 5, op_imm 10 6, op_imm 16 6, op_imm 22 1],
     insn ''ANDS'' 0xFFC00000 0x72000000 OPCODE_AND [op_w 0 5, op_w 5 5, op_imm 10 6, op_imm 16 6],
     insn ''ANDS'' 0xFF200000 0x6A000000 OPCODE_AND [op_w 0 5, op_w 5 5, op_imm 10 6, op_w 16 5, op_imm 22 2],
     insn ''ANDS'' 0xFF200000 0xEA000000 OPCODE_AND [op_x 0 5, op_x 5 5, op_imm 10 6, op_x 16 5, op_imm 22 2],
     insn ''ANDS'' 0xFFF0C210 0x25404000 OPCODE_AND [op_v 0 4, op_v 5 4, op_v 10 4, op_v 16 4],
     insn ''ANDV'' 0xFF3FE000 0x041A2000 OPCODE_AND [op_v 0 5, op_v 5 5, op_v 10 3],
     insn ''ASRV'' 0xFFE0FC00 0x1AC02800 OPCODE_TRAP [op_w 0 5, op_w 5 5, op_imm 16 5],
     insn ''ASRV'' 0xFFE0FC00 0x9AC02800 OPCODE_TRAP [op_x 0 5, op_x 5 5, op_imm 16 5]]"

definition arm64_instructions_84 :: "bal_decoder_instruction_metadata_t list" where
  "arm64_instructions_84 = [
     insn ''SBFM'' 0xFFC0FC00 0x13007C00 OPCODE_TRAP [op_w 0 5, op_w 5 5, op_imm 16 6],
     insn ''SBFM'' 0xFFC0FC00 0x9340FC00 OPCODE_TRAP [op_x 0 5, op_x 5 5, op_imm 16 6],
     insn ''ASR'' 0xFF3FE000 0x04008000 OPCODE_TRAP [op_v 0 5, op_imm 5 3, op_imm 8 2, op_v 10 3, op_imm 22 2],
     insn ''ASR'' 0xFF3FE000 0x04188000 OPCODE_TRAP [op_v 0 5, op_v 5 5, op_v 10 3],
     insn ''ASR'' 0xFF3FE000 0x04108000 OPCODE_TRAP [op_v 0 5, op_v 5 5, op_v 10 3],
     insn ''ASR'' 0xFF20FC00 0x04209000 OPCODE_TRAP [op_v 0 5, op_v 5 5, op_imm 16 3, op_imm 19 2, op_imm 22 2],
     insn ''ASR'' 0xFF20FC00 0x04208000 OPCODE_TRAP [op_v 0 5, op_v 5 5, op_v 16 5],
     insn ''ASRD'' 0xFF3FE000 0x04048000 OPCODE_TRAP [op_v 0 5, op_imm 5 3, op_imm 8 2, op_v 10 3, op_imm 22 2],
     insn ''ASRR'' 0xFF3FE000 0x04148000 OPCODE_TRAP [op_v 0 5, op_v 5 5, op_v 10 3],
     insn ''ASRV'' 0xFFE0FC00 0x1AC02800 OPCODE_TRAP [op_w 0 5, op_w 5 5, op_imm 16 5],
     insn ''ASRV'' 0xFFE0FC00 0x9AC02800 OPCODE_TRAP [op_x 0 5, op_x 5 5, op_imm 16 5],
     insn ''SYS'' 0xFFF8FE00 0xD5087800 OPCODE_TRAP [op_x 0 5]]"

definition arm64_instructions_96 :: "bal_decoder_instruction_metadata_t list" where
  "arm64_instructions_96 = [
     insn ''AUTDA'' 0xFFFFFC00 0xDAC11800 OPCODE_TRAP [op_x 0 5, op_x 5 5],
     insn ''AUTDZA'' 0xFFFFFFE0 0xDAC13BE0 OPCODE_TRAP [op_x 0 5],
     insn ''AUTDB'' 0xFFFFFC00 0xDAC11C00 OPCODE_TRAP [op_x 0 5, op_x 5 5],
     insn ''AUTDZB'' 0xFFFFFFE0 0xDAC13FE0 OPCODE_TRAP [op_x 0 5],
     insn ''AUTIA'' 0xFFFFFC00 0xDAC11000 OPCODE_TRAP [op_x 0 5, op_x 5 5],
     insn ''AUTIA1716'' 0xFFFFFFFF 0xD503219F OPCODE_TRAP [],
     insn ''AUTIASP'' 0xFFFFFFFF 0xD50323BF OPCODE_TRAP [],
     insn ''AUTIAZ'' 0xFFFFFFFF 0xD503239F OPCODE_TRAP [],
     insn ''AUTIZA'' 0xFFFFFFE0 0xDAC133E0 OPCODE_TRAP [op_x 0 5],
     insn ''AUTIB'' 0xFFFFFC00 0xDAC11400 OPCODE_TRAP [op_x 0 5, op_x 5 5],
     insn ''AUTIB1716'' 0xFFFFFFFF 0xD50321DF OPCODE_TRAP [],
     insn ''AUTIBSP'' 0xFFFFFFFF 0xD50323FF OPCODE_TRAP []]"

definition arm64_instructions_108 :: "bal_decoder_instruction_metadata_t list" where
  "arm64_instructions_108 = [
     insn ''AUTIBZ'' 0xFFFFFFFF 0xD50323DF OPCODE_TRAP [],
     insn ''AUTIZB'' 0xFFFFFFE0 0xDAC137E0 OPCODE_TRAP [op_x 0 5],
     insn ''AXFLAG'' 0xFFFFF4FF 0xD500405F OPCODE_TRAP [],
     insn ''B.cond'' 0xFF000010 0x54000000 OPCODE_BRANCH_CONDITIONAL [op_cond 0 4, op_imm 5 19],
     insn ''B'' 0xFC000000 0x14000000 OPCODE_JUMP [op_imm 0 26],
     insn ''BC'' 0xFF000010 0x54000010 OPCODE_TRAP [op_cond 0 4, op_imm 5 19],
     insn ''BCAX'' 0xFFE08000 0xCE200000 OPCODE_TRAP [op_v 0 5, op_v 5 5, op_v 10 5, op_v 16 5],
     insn ''BCAX'' 0xFFE0FC00 0x04603800 OPCODE_TRAP [op_v 0 5, op_v 5 5, op_v 16 5],
     insn ''BDEP'' 0xFF20FC00 0x4500B400 OPCODE_TRAP [op_v 0 5, op_v 5 5, op_v 16 5],
     insn ''BEXT'' 0xFF20FC00 0x4500B000 OPCODE_TRAP [op_v 0 5, op_v 5 5, op_v 16 5],
     insn ''BFADD'' 0xFFFFE000 0x65008000 OPCODE_TRAP [op_v 0 5, op_v 5 5, op_v 10 3],
     insn ''BFADD'' 0xFFE0FC00 0x65000000 OPCODE_TRAP [op_v 0 5, op_v 5 5, op_v 16 5]]"

definition arm64_instructions_120 :: "bal_decoder_instruction_metadata_t list" where
  "arm64_instructions_120 = [
     insn ''BFADD'' 0xFFFF9C38 0xC1E41C00 OPCODE_TRAP [op_imm 0 3, op_v 6 4, op_w 13 2],
     insn ''BFADD'' 0xFFFF9C78 0xC1E51C00 OPCODE_TRAP [op_imm 0 3, op_v 7 3, op_w 13 2],
     insn ''BFM'' 0xFFC003E0 0x330003E0 OPCODE_TRAP [op_w 0 5],
     insn ''BFM'' 0xFFC003E0 0xB34003E0 OPCODE_TRAP [op_x 0 5],
     insn ''BFCLAMP'' 0xFFE0FC01 0xC120C000 OPCODE_TRAP [op_v 1 4, op_v 5 5, op_v 16 5],
     insn ''BFCLAMP'' 0xFFE0FC03 0xC120C800 OPCODE_TRAP [op_v 2 3, op_v 5 5, op_v 16 5],
     insn ''BFCLAMP'' 0xFFE0FC00 0x64202400 OPCODE_TRAP [op_v 0 5, op_v 5 5, op_v 16 5],
     insn ''BFCVT'' 0xFFFFFC00 0x1E634000 OPCODE_TRAP [op_v 0 5, op_w 5 5],
     insn ''BFCVT'' 0xFFFFFC20 0xC160E000 OPCODE_TRAP [op_v 0 5, op_v 6 4],
     insn ''BFCVT'' 0xFFFFE000 0x658AA000 OPCODE_TRAP [op_v 0 5, op_v 5 5, op_v 10 3],
     insn ''BFCVTN'' 0xBFFFFC00 0x0EA16800 OPCODE_TRAP [op_v 0 5, op_v 5 5, op_cond 30 1],
     insn ''BFCVTN'' 0xFFFFFC20 0xC160E020 OPCODE_TRAP [op_v 0 5, op_v 6 4]]"

definition arm64_instructions_132 :: "bal_decoder_instruction_metadata_t list" where
  "arm64_instructions_132 = [
     insn ''BFCVTNT'' 0xFFFFE000 0x648AA000 OPCODE_TRAP [op_v 0 5, op_v 5 5, op_v 10 3],
     insn ''BFDOT'' 0xBFC0F400 0x0F40F000 OPCODE_TRAP [op_v 0 5, op_v 5 5, op_imm 11 1, op_v 16 4, op_v 20 1],
     insn ''BFDOT'' 0xBFE0FC00 0x2E40FC00 OPCODE_TRAP [op_v 0 5, op_v 5 5, op_v 16 5],
     insn ''BFDOT'' 0xFFE0FC00 0x64608000 OPCODE_TRAP [op_v 0 5, op_v 5 5, op_v 16 5],
     insn ''BFDOT'' 0xFFE0FC00 0x64604000 OPCODE_TRAP [op_v 0 5, op_v 5 5, op_v 16 3, op_imm 19 2],
     insn ''BFDOT'' 0xFFF09038 0xC1501018 OPCODE_TRAP [op_imm 0 3, op_v 6 4, op_imm 10 2, op_w 13 2, op_v 16 4],
     insn ''BFDOT'' 0xFFF09078 0xC1509018 OPCODE_TRAP [op_imm 0 3, op_v 7 3, op_imm 10 2, op_w 13 2, op_v 16 4],
     insn ''BFDOT'' 0xFFF09C18 0xC1201010 OPCODE_TRAP [op_imm 0 3, op_v 5 5, op_w 13 2, op_v 16 4],
     insn ''BFDOT'' 0xFFF09C18 0xC1301010 OPCODE_TRAP [op_imm 0 3, op_v 5 5, op_w 13 2, op_v 16 4],
     insn ''BFDOT'' 0xFFE19C38 0xC1A01010 OPCODE_TRAP [op_imm 0 3, op_v 6 4, op_w 13 2, op_v 17 4],
     insn ''BFDOT'' 0xFFE39C78 0xC1A11010 OPCODE_TRAP [op_imm 0 3, op_v 7 3, op_w 13 2, op_v 18 3],
     insn ''BFM'' 0xFFC0007C 0x3300007C OPCODE_TRAP [op_w 0 5, op_w 5 5]]"

definition arm64_instructions_144 :: "bal_decoder_instruction_metadata_t list" where
  "arm64_instructions_144 = [
     insn ''BFM'' 0xFFC0007C 0xB340007C OPCODE_TRAP [op_x 0 5, op_x 5 5],
     insn ''BFM'' 0xFFC00000 0x33000000 OPCODE_TRAP [op_w 0 5, op_w 5 5, op_imm 10 6, op_imm 16 6],
     insn ''BFM'' 0xFFC00000 0xB3400000 OPCODE_TRAP [op_x 0 5, op_x 5 5, op_imm 10 6, op_imm 16 6],
     insn ''BFMAX'' 0xFFF0FFE1 0xC120A100 OPCODE_TRAP [op_v 1 4, op_v 16 4],
     insn ''BFMAX'' 0xFFF0FFE3 0xC120A900 OPCODE_TRAP [op_v 2 3, op_v 16 4],
     insn ''BFMAX'' 0xFFE1FFE1 0xC120B100 OPCODE_TRAP [op_v 1 4, op_v 17 4],
     insn ''BFMAX'' 0xFFE3FFE3 0xC120B900 OPCODE_TRAP [op_v 2 3, op_v 18 3],
     insn ''BFMAX'' 0xFFFFE000 0x65068000 OPCODE_TRAP [op_v 0 5, op_v 5 5, op_v 10 3],
     insn ''BFMAXNM'' 0xFFF0FFE1 0xC120A120 OPCODE_TRAP [op_v 1 4, op_v 16 4],
     insn ''BFMAXNM'' 0xFFF0FFE3 0xC120A920 OPCODE_TRAP [op_v 2 3, op_v 16 4],
     insn ''BFMAXNM'' 0xFFE1FFE1 0xC120B120 OPCODE_TRAP [op_v 1 4, op_v 17 4],
     insn ''BFMAXNM'' 0xFFE3FFE3 0xC120B920 OPCODE_TRAP [op_v 2 3, op_v 18 3]]"

definition arm64_instructions_156 :: "bal_decoder_instruction_metadata_t list" where
  "arm64_instructions_156 = [
     insn ''BFMAXNM'' 0xFFFFE000 0x65048000 OPCODE_TRAP [op_v 0 5, op_v 5 5, op_v 10 3],
     insn ''BFMIN'' 0xFFF0FFE1 0xC120A101 OPCODE_TRAP [op_v 1 4, op_v 16 4],
     insn ''BFMIN'' 0xFFF0FFE3 0xC120A901 OPCODE_TRAP [op_v 2 3, op_v 16 4],
     insn ''BFMIN'' 0xFFE1FFE1 0xC120B101 OPCODE_TRAP [op_v 1 4, op_v 17 4],
     insn ''BFMIN'' 0xFFE3FFE3 0xC120B901 OPCODE_TRAP [op_v 2 3, op_v 18 3],
     insn ''BFMIN'' 0xFFFFE000 0x65078000 OPCODE_TRAP [op_v 0 5, op_v 5 5, op_v 10 3],
     insn ''BFMINNM'' 0xFFF0FFE1 0xC120A121 OPCODE_TRAP [op_v 1 4, op_v 16 4],
     insn ''BFMINNM'' 0xFFF0FFE3 0xC120A921 OPCODE_TRAP [op_v 2 3, op_v 16 4],
     insn ''BFMINNM'' 0xFFE1FFE1 0xC120B121 OPCODE_TRAP [op_v 1 4, op_v 17 4],
     insn ''BFMINNM'' 0xFFE3FFE3 0xC120B921 OPCODE_TRAP [op_v 2 3, op_v 18 3],
     insn ''BFMINNM'' 0xFFFFE000 0x65058000 OPCODE_TRAP [op_v 0 5, op_v 5 5, op_v 10 3],
     insn ''BFMLA'' 0xFFE0E000 0x65200000 OPCODE_TRAP [op_v 0 5, op_v 5 5, op_v 10 3, op_v 16 5]]"

definition arm64_instructions_168 :: "bal_decoder_instruction_metadata_t list" where
  "arm64_instructions_168 = [
     insn ''BFMLA'' 0xFFA0FC00 0x64200800 OPCODE_TRAP [op_v 0 5, op_v 5 5, op_v 16 3, op_imm 19 2, op_imm 22 1],
     insn ''BFMLA'' 0xFFF09030 0xC1101020 OPCODE_TRAP [op_imm 0 3, op_imm 3 1, op_v 6 4, op_imm 10 2, op_w 13 2],
     insn ''BFMLA'' 0xFFF09070 0xC1109020 OPCODE_TRAP [op_imm 0 3, op_imm 3 1, op_v 7 3, op_imm 10 2, op_w 13 2],
     insn ''BFMLA'' 0xFFF09C18 0xC1601C00 OPCODE_TRAP [op_imm 0 3, op_v 5 5, op_w 13 2, op_v 16 4],
     insn ''BFMLA'' 0xFFF09C18 0xC1701C00 OPCODE_TRAP [op_imm 0 3, op_v 5 5, op_w 13 2, op_v 16 4],
     insn ''BFMLA'' 0xFFE19C38 0xC1E01008 OPCODE_TRAP [op_imm 0 3, op_v 6 4, op_w 13 2, op_v 17 4],
     insn ''BFMLA'' 0xFFE39C78 0xC1E11008 OPCODE_TRAP [op_imm 0 3, op_v 7 3, op_w 13 2, op_v 18 3],
     insn ''BFMLAL'' 0xBFC0F400 0x0FC0F000 OPCODE_TRAP [op_v 0 5, op_v 5 5, op_imm 11 1, op_v 16 4, op_imm 20 1],
     insn ''BFMLAL'' 0xBFE0FC00 0x2EC0FC00 OPCODE_TRAP [op_v 0 5, op_v 5 5, op_v 16 5],
     insn ''BFMLAL'' 0xFFF01018 0xC1801010 OPCODE_TRAP [op_imm 0 3, op_v 5 5, op_imm 10 2, op_w 13 2, op_imm 15 1],
     insn ''BFMLAL'' 0xFFF09038 0xC1901010 OPCODE_TRAP [op_imm 0 2, op_imm 2 1, op_v 6 4, op_imm 10 2, op_w 13 2],
     insn ''BFMLAL'' 0xFFF09078 0xC1909010 OPCODE_TRAP [op_imm 0 2, op_imm 2 1, op_v 7 3, op_imm 10 2, op_w 13 2]]"

definition arm64_instructions_180 :: "bal_decoder_instruction_metadata_t list" where
  "arm64_instructions_180 = [
     insn ''BFMLAL'' 0xFFF09C18 0xC1200C10 OPCODE_TRAP [op_imm 0 3, op_v 5 5, op_w 13 2, op_v 16 4],
     insn ''BFMLAL'' 0xFFF09C1C 0xC1200810 OPCODE_TRAP [op_imm 0 2, op_v 5 5, op_w 13 2, op_v 16 4],
     insn ''BFMLAL'' 0xFFF09C1C 0xC1300810 OPCODE_TRAP [op_imm 0 2, op_v 5 5, op_w 13 2, op_v 16 4],
     insn ''BFMLAL'' 0xFFE19C3C 0xC1A00810 OPCODE_TRAP [op_imm 0 2, op_v 6 4, op_w 13 2, op_v 17 4],
     insn ''BFMLAL'' 0xFFE39C7C 0xC1A10810 OPCODE_TRAP [op_imm 0 2, op_v 7 3, op_w 13 2, op_v 18 3],
     insn ''BFMLALB'' 0xFFE0FC00 0x64E08000 OPCODE_TRAP [op_v 0 5, op_v 5 5, op_v 16 5],
     insn ''BFMLALB'' 0xFFE0F400 0x64E04000 OPCODE_TRAP [op_v 0 5, op_v 5 5, op_imm 11 1, op_v 16 3, op_imm 19 2],
     insn ''BFMLALT'' 0xFFE0FC00 0x64E08400 OPCODE_TRAP [op_v 0 5, op_v 5 5, op_v 16 5],
     insn ''BFMLALT'' 0xFFE0F400 0x64E04400 OPCODE_TRAP [op_v 0 5, op_v 5 5, op_imm 11 1, op_v 16 3, op_imm 19 2],
     insn ''BFMLS'' 0xFFE0E000 0x65202000 OPCODE_TRAP [op_v 0 5, op_v 5 5, op_v 10 3, op_v 16 5],
     insn ''BFMLS'' 0xFFA0FC00 0x64200C00 OPCODE_TRAP [op_v 0 5, op_v 5 5, op_v 16 3, op_imm 19 2, op_imm 22 1],
     insn ''BFMLS'' 0xFFF09030 0xC1101030 OPCODE_TRAP [op_imm 0 3, op_imm 3 1, op_v 6 4, op_imm 10 2, op_w 13 2]]"

definition arm64_instructions_192 :: "bal_decoder_instruction_metadata_t list" where
  "arm64_instructions_192 = [
     insn ''BFMLS'' 0xFFF09070 0xC1109030 OPCODE_TRAP [op_imm 0 3, op_imm 3 1, op_v 7 3, op_imm 10 2, op_w 13 2],
     insn ''BFMLS'' 0xFFF09C18 0xC1601C08 OPCODE_TRAP [op_imm 0 3, op_v 5 5, op_w 13 2, op_v 16 4],
     insn ''BFMLS'' 0xFFF09C18 0xC1701C08 OPCODE_TRAP [op_imm 0 3, op_v 5 5, op_w 13 2, op_v 16 4],
     insn ''BFMLS'' 0xFFE19C38 0xC1E01018 OPCODE_TRAP [op_imm 0 3, op_v 6 4, op_w 13 2, op_v 17 4],
     insn ''BFMLS'' 0xFFE39C78 0xC1E11018 OPCODE_TRAP [op_imm 0 3, op_v 7 3, op_w 13 2, op_v 18 3],
     insn ''BFMLSL'' 0xFFF01018 0xC1801018 OPCODE_TRAP [op_imm 0 3, op_v 5 5, op_imm 10 2, op_w 13 2, op_imm 15 1],
     insn ''BFMLSL'' 0xFFF09038 0xC1901018 OPCODE_TRAP [op_imm 0 2, op_imm 2 1, op_v 6 4, op_imm 10 2, op_w 13 2],
     insn ''BFMLSL'' 0xFFF09078 0xC1909018 OPCODE_TRAP [op_imm 0 2, op_imm 2 1, op_v 7 3, op_imm 10 2, op_w 13 2],
     insn ''BFMLSL'' 0xFFF09C18 0xC1200C18 OPCODE_TRAP [op_imm 0 3, op_v 5 5, op_w 13 2, op_v 16 4],
     insn ''BFMLSL'' 0xFFF09C1C 0xC1200818 OPCODE_TRAP [op_imm 0 2, op_v 5 5, op_w 13 2, op_v 16 4],
     insn ''BFMLSL'' 0xFFF09C1C 0xC1300818 OPCODE_TRAP [op_imm 0 2, op_v 5 5, op_w 13 2, op_v 16 4],
     insn ''BFMLSL'' 0xFFE19C3C 0xC1A00818 OPCODE_TRAP [op_imm 0 2, op_v 6 4, op_w 13 2, op_v 17 4]]"

definition arm64_instructions_204 :: "bal_decoder_instruction_metadata_t list" where
  "arm64_instructions_204 = [
     insn ''BFMLSL'' 0xFFE39C7C 0xC1A10818 OPCODE_TRAP [op_imm 0 2, op_v 7 3, op_w 13 2, op_v 18 3],
     insn ''BFMLSLB'' 0xFFE0FC00 0x64E0A000 OPCODE_TRAP [op_v 0 5, op_v 5 5, op_v 16 5],
     insn ''BFMLSLB'' 0xFFE0F400 0x64E06000 OPCODE_TRAP [op_v 0 5, op_v 5 5, op_imm 11 1, op_v 16 3, op_imm 19 2],
     insn ''BFMLSLT'' 0xFFE0FC00 0x64E0A400 OPCODE_TRAP [op_v 0 5, op_v 5 5, op_v 16 5],
     insn ''BFMLSLT'' 0xFFE0F400 0x64E06400 OPCODE_TRAP [op_v 0 5, op_v 5 5, op_imm 11 1, op_v 16 3, op_imm 19 2],
     insn ''BFMMLA'' 0xFFE0FC00 0x6E40EC00 OPCODE_TRAP [op_v 0 5, op_v 5 5, op_v 16 5],
     insn ''BFMMLA'' 0xFFE0FC00 0x6460E400 OPCODE_TRAP [op_v 0 5, op_v 5 5, op_v 16 5],
     insn ''BFMOPA'' 0xFFE0001C 0x81800000 OPCODE_TRAP [op_v 5 5, op_v 10 3, op_v 13 3, op_v 16 5],
     insn ''BFMOPA'' 0xFFE0001E 0x81A00008 OPCODE_TRAP [op_v 5 5, op_v 10 3, op_v 13 3, op_v 16 5],
     insn ''BFMOPS'' 0xFFE0001C 0x81800010 OPCODE_TRAP [op_v 5 5, op_v 10 3, op_v 13 3, op_v 16 5],
     insn ''BFMOPS'' 0xFFE0001E 0x81A00018 OPCODE_TRAP [op_v 5 5, op_v 10 3, op_v 13 3, op_v 16 5],
     insn ''BFMUL'' 0xFFFFE000 0x65028000 OPCODE_TRAP [op_v 0 5, op_v 5 5, op_v 10 3]]"

definition arm64_instructions_216 :: "bal_decoder_instruction_metadata_t list" where
  "arm64_instructions_216 = [
     insn ''BFMUL'' 0xFFE0FC00 0x65000800 OPCODE_TRAP [op_v 0 5, op_v 5 5, op_v 16 5],
     insn ''BFMUL'' 0xFFA0FC00 0x64202800 OPCODE_TRAP [op_v 0 5, op_v 5 5, op_v 16 3, op_imm 19 2, op_imm 22 1],
     insn ''BFSUB'' 0xFFFFE000 0x65018000 OPCODE_TRAP [op_v 0 5, op_v 5 5, op_v 10 3],
     insn ''BFSUB'' 0xFFE0FC00 0x65000400 OPCODE_TRAP [op_v 0 5, op_v 5 5, op_v 16 5],
     insn ''BFSUB'' 0xFFFF9C38 0xC1E41C08 OPCODE_TRAP [op_imm 0 3, op_v 6 4, op_w 13 2],
     insn ''BFSUB'' 0xFFFF9C78 0xC1E51C08 OPCODE_TRAP [op_imm 0 3, op_v 7 3, op_w 13 2],
     insn ''BFVDOT'' 0xFFF09038 0xC1500018 OPCODE_TRAP [op_imm 0 3, op_v 6 4, op_imm 10 2, op_w 13 2, op_v 16 4],
     insn ''BFM'' 0xFFC00000 0x33000000 OPCODE_TRAP [op_w 0 5, op_w 5 5],
     insn ''BFM'' 0xFFC00000 0xB3400000 OPCODE_TRAP [op_x 0 5, op_x 5 5],
     insn ''BGRP'' 0xFF20FC00 0x4500B800 OPCODE_TRAP [op_v 0 5, op_v 5 5, op_v 16 5],
     insn ''BIC'' 0xBFF89C00 0x2F001400 OPCODE_TRAP [op_v 0 5, op_imm 5 1, op_imm 6 1, op_imm 7 1, op_imm 8 1],
     insn ''BIC'' 0xBFF8DC00 0x2F009400 OPCODE_TRAP [op_v 0 5, op_imm 5 1, op_imm 6 1, op_imm 7 1, op_imm 8 1]]"

definition arm64_instructions_228 :: "bal_decoder_instruction_metadata_t list" where
  "arm64_instructions_228 = [
     insn ''BIC'' 0xBFE0FC00 0x0E601C00 OPCODE_TRAP [op_v 0 5, op_v 5 5, op_v 16 5],
     insn ''AND'' 0xFFFC0000 0x05800000 OPCODE_AND [op_v 0 5],
     insn ''BIC'' 0xFF200000 0x0A200000 OPCODE_TRAP [op_w 0 5, op_w 5 5, op_imm 10 6, op_w 16 5, op_imm 22 2],
     insn ''BIC'' 0xFF200000 0x8A200000 OPCODE_TRAP [op_x 0 5, op_x 5 5, op_imm 10 6, op_x 16 5, op_imm 22 2],
     insn ''BIC'' 0xFFF0C210 0x25004010 OPCODE_TRAP [op_v 0 4, op_v 5 4, op_v 10 4, op_v 16 4],
     insn ''BIC'' 0xFF3FE000 0x041B0000 OPCODE_TRAP [op_v 0 5, op_v 5 5, op_v 10 3],
     insn ''BIC'' 0xFFE0FC00 0x04E03000 OPCODE_TRAP [op_v 0 5, op_v 5 5, op_v 16 5],
     insn ''BICS'' 0xFF200000 0x6A200000 OPCODE_TRAP [op_w 0 5, op_w 5 5, op_imm 10 6, op_w 16 5, op_imm 22 2],
     insn ''BICS'' 0xFF200000 0xEA200000 OPCODE_TRAP [op_x 0 5, op_x 5 5, op_imm 10 6, op_x 16 5, op_imm 22 2],
     insn ''BICS'' 0xFFF0C210 0x25404010 OPCODE_TRAP [op_v 0 4, op_v 5 4, op_v 10 4, op_v 16 4],
     insn ''BIF'' 0xBFE0FC00 0x2EE01C00 OPCODE_TRAP [op_v 0 5, op_v 5 5, op_v 16 5],
     insn ''BIT'' 0xBFE0FC00 0x2EA01C00 OPCODE_TRAP [op_v 0 5, op_v 5 5, op_v 16 5]]"

definition arm64_instructions_240 :: "bal_decoder_instruction_metadata_t list" where
  "arm64_instructions_240 = [
     insn ''BL'' 0xFC000000 0x94000000 OPCODE_CALL_HOST [op_imm 0 26],
     insn ''BLR'' 0xFFFFFC1F 0xD63F0000 OPCODE_TRAP [op_x 5 5],
     insn ''BLRAA'' 0xFFFFFC00 0xD73F0800 OPCODE_TRAP [op_x 0 5, op_x 5 5],
     insn ''BLRAAZ'' 0xFFFFFC1F 0xD63F081F OPCODE_TRAP [op_x 5 5],
     insn ''BLRAB'' 0xFFFFFC00 0xD73F0C00 OPCODE_TRAP [op_x 0 5, op_x 5 5],
     insn ''BLRABZ'' 0xFFFFFC1F 0xD63F0C1F OPCODE_TRAP [op_x 5 5],
     insn ''BMOPA'' 0xFFE0001C 0x80800008 OPCODE_TRAP [op_v 5 5, op_v 10 3, op_v 13 3, op_v 16 5],
     insn ''BMOPS'' 0xFFE0001C 0x80800018 OPCODE_TRAP [op_v 5 5, op_v 10 3, op_v 13 3, op_v 16 5],
     insn ''BR'' 0xFFFFFC1F 0xD61F0000 OPCODE_TRAP [op_x 5 5],
     insn ''BRAA'' 0xFFFFFC00 0xD71F0800 OPCODE_TRAP [op_x 0 5, op_x 5 5],
     insn ''BRAAZ'' 0xFFFFFC1F 0xD61F081F OPCODE_TRAP [op_x 5 5],
     insn ''BRAB'' 0xFFFFFC00 0xD71F0C00 OPCODE_TRAP [op_x 0 5, op_x 5 5]]"

definition arm64_instructions_252 :: "bal_decoder_instruction_metadata_t list" where
  "arm64_instructions_252 = [
     insn ''BRABZ'' 0xFFFFFC1F 0xD61F0C1F OPCODE_TRAP [op_x 5 5],
     insn ''SYS'' 0xFFFFFF00 0xD5097200 OPCODE_TRAP [op_imm 0 5],
     insn ''BRK'' 0xFFE0001F 0xD4200000 OPCODE_TRAP [op_imm 5 16],
     insn ''BRKA'' 0xFFFFC200 0x25104000 OPCODE_TRAP [op_v 0 4, op_v 5 4, op_v 10 4],
     insn ''BRKAS'' 0xFFFFC210 0x25504000 OPCODE_TRAP [op_v 0 4, op_v 5 4, op_v 10 4],
     insn ''BRKB'' 0xFFFFC200 0x25904000 OPCODE_TRAP [op_v 0 4, op_v 5 4, op_v 10 4],
     insn ''BRKBS'' 0xFFFFC210 0x25D04000 OPCODE_TRAP [op_v 0 4, op_v 5 4, op_v 10 4],
     insn ''BRKN'' 0xFFFFC210 0x25184000 OPCODE_TRAP [op_v 0 4, op_v 5 4, op_v 10 4],
     insn ''BRKNS'' 0xFFFFC210 0x25584000 OPCODE_TRAP [op_v 0 4, op_v 5 4, op_v 10 4],
     insn ''BRKPA'' 0xFFF0C210 0x2500C000 OPCODE_TRAP [op_v 0 4, op_v 5 4, op_v 10 4, op_v 16 4],
     insn ''BRKPAS'' 0xFFF0C210 0x2540C000 OPCODE_TRAP [op_v 0 4, op_v 5 4, op_v 10 4, op_v 16 4],
     insn ''BRKPB'' 0xFFF0C210 0x2500C010 OPCODE_TRAP [op_v 0 4, op_v 5 4, op_v 10 4, op_v 16 4]]"

definition arm64_instructions_264 :: "bal_decoder_instruction_metadata_t list" where
  "arm64_instructions_264 = [
     insn ''BRKPBS'' 0xFFF0C210 0x2540C010 OPCODE_TRAP [op_v 0 4, op_v 5 4, op_v 10 4, op_v 16 4],
     insn ''BSL1N'' 0xFFE0FC00 0x04603C00 OPCODE_TRAP [op_v 0 5, op_v 5 5, op_v 16 5],
     insn ''BSL2N'' 0xFFE0FC00 0x04A03C00 OPCODE_TRAP [op_v 0 5, op_v 5 5, op_v 16 5],
     insn ''BSL'' 0xBFE0FC00 0x2E601C00 OPCODE_TRAP [op_v 0 5, op_v 5 5, op_v 16 5],
     insn ''BSL'' 0xFFE0FC00 0x04203C00 OPCODE_TRAP [op_v 0 5, op_v 5 5, op_v 16 5],
     insn ''BTI'' 0xFFFFFF3F 0xD503241F OPCODE_TRAP [],
     insn ''CADD'' 0xFF3FF800 0x4500D800 OPCODE_TRAP [op_v 0 5, op_v 5 5],
     insn ''CAS'' 0xFFE0FC00 0x88A07C00 OPCODE_TRAP [op_w 0 5, op_x 5 5, op_w 16 5],
     insn ''CAS'' 0xFFE0FC00 0xC8A07C00 OPCODE_TRAP [op_x 0 5, op_x 5 5, op_x 16 5],
     insn ''CASA'' 0xFFE0FC00 0x88E07C00 OPCODE_TRAP [op_w 0 5, op_x 5 5, op_w 16 5],
     insn ''CASA'' 0xFFE0FC00 0xC8E07C00 OPCODE_TRAP [op_x 0 5, op_x 5 5, op_x 16 5],
     insn ''CASAL'' 0xFFE0FC00 0x88E0FC00 OPCODE_TRAP [op_w 0 5, op_x 5 5, op_w 16 5]]"

definition arm64_instructions_276 :: "bal_decoder_instruction_metadata_t list" where
  "arm64_instructions_276 = [
     insn ''CASAL'' 0xFFE0FC00 0xC8E0FC00 OPCODE_TRAP [op_x 0 5, op_x 5 5, op_x 16 5],
     insn ''CASL'' 0xFFE0FC00 0x88A0FC00 OPCODE_TRAP [op_w 0 5, op_x 5 5, op_w 16 5],
     insn ''CASL'' 0xFFE0FC00 0xC8A0FC00 OPCODE_TRAP [op_x 0 5, op_x 5 5, op_x 16 5],
     insn ''CASAB'' 0xFFE0FC00 0x08E07C00 OPCODE_TRAP [op_w 0 5, op_x 5 5, op_w 16 5],
     insn ''CASALB'' 0xFFE0FC00 0x08E0FC00 OPCODE_TRAP [op_w 0 5, op_x 5 5, op_w 16 5],
     insn ''CASB'' 0xFFE0FC00 0x08A07C00 OPCODE_TRAP [op_w 0 5, op_x 5 5, op_w 16 5],
     insn ''CASLB'' 0xFFE0FC00 0x08A0FC00 OPCODE_TRAP [op_w 0 5, op_x 5 5, op_w 16 5],
     insn ''CASAH'' 0xFFE0FC00 0x48E07C00 OPCODE_TRAP [op_w 0 5, op_x 5 5, op_w 16 5],
     insn ''CASALH'' 0xFFE0FC00 0x48E0FC00 OPCODE_TRAP [op_w 0 5, op_x 5 5, op_w 16 5],
     insn ''CASH'' 0xFFE0FC00 0x48A07C00 OPCODE_TRAP [op_w 0 5, op_x 5 5, op_w 16 5],
     insn ''CASLH'' 0xFFE0FC00 0x48A0FC00 OPCODE_TRAP [op_w 0 5, op_x 5 5, op_w 16 5],
     insn ''CASP'' 0xFFE0FC00 0x08207C00 OPCODE_TRAP [op_w 0 5, op_x 5 5, op_w 16 5]]"

definition arm64_instructions_288 :: "bal_decoder_instruction_metadata_t list" where
  "arm64_instructions_288 = [
     insn ''CASP'' 0xFFE0FC00 0x48207C00 OPCODE_TRAP [op_x 0 5, op_x 5 5, op_x 16 5],
     insn ''CASPA'' 0xFFE0FC00 0x08607C00 OPCODE_TRAP [op_w 0 5, op_x 5 5, op_w 16 5],
     insn ''CASPA'' 0xFFE0FC00 0x48607C00 OPCODE_TRAP [op_x 0 5, op_x 5 5, op_x 16 5],
     insn ''CASPAL'' 0xFFE0FC00 0x0860FC00 OPCODE_TRAP [op_w 0 5, op_x 5 5, op_w 16 5],
     insn ''CASPAL'' 0xFFE0FC00 0x4860FC00 OPCODE_TRAP [op_x 0 5, op_x 5 5, op_x 16 5],
     insn ''CASPL'' 0xFFE0FC00 0x0820FC00 OPCODE_TRAP [op_w 0 5, op_x 5 5, op_w 16 5],
     insn ''CASPL'' 0xFFE0FC00 0x4820FC00 OPCODE_TRAP [op_x 0 5, op_x 5 5, op_x 16 5],
     insn ''CBNZ'' 0xFF000000 0x35000000 OPCODE_TRAP [op_w 0 5, op_imm 5 19],
     insn ''CBNZ'' 0xFF000000 0xB5000000 OPCODE_TRAP [op_x 0 5, op_imm 5 19],
     insn ''CBZ'' 0xFF000000 0x34000000 OPCODE_TRAP [op_w 0 5, op_imm 5 19],
     insn ''CBZ'' 0xFF000000 0xB4000000 OPCODE_TRAP [op_x 0 5, op_imm 5 19],
     insn ''CCMN'' 0xFFE00C10 0x3A400800 OPCODE_TRAP [op_imm 0 4, op_w 5 5, op_cond 12 4, op_imm 16 5]]"

definition arm64_instructions_300 :: "bal_decoder_instruction_metadata_t list" where
  "arm64_instructions_300 = [
     insn ''CCMN'' 0xFFE00C10 0xBA400800 OPCODE_TRAP [op_imm 0 4, op_x 5 5, op_cond 12 4, op_imm 16 5],
     insn ''CCMN'' 0xFFE00C10 0x3A400000 OPCODE_TRAP [op_imm 0 4, op_w 5 5, op_cond 12 4, op_w 16 5],
     insn ''CCMN'' 0xFFE00C10 0xBA400000 OPCODE_TRAP [op_imm 0 4, op_x 5 5, op_cond 12 4, op_x 16 5],
     insn ''CCMP'' 0xFFE00C10 0x7A400800 OPCODE_TRAP [op_imm 0 4, op_w 5 5, op_cond 12 4, op_imm 16 5],
     insn ''CCMP'' 0xFFE00C10 0xFA400800 OPCODE_TRAP [op_imm 0 4, op_x 5 5, op_cond 12 4, op_imm 16 5],
     insn ''CCMP'' 0xFFE00C10 0x7A400000 OPCODE_TRAP [op_imm 0 4, op_w 5 5, op_cond 12 4, op_w 16 5],
     insn ''CCMP'' 0xFFE00C10 0xFA400000 OPCODE_TRAP [op_imm 0 4, op_x 5 5, op_cond 12 4, op_x 16 5],
     insn ''CDOT'' 0xFF20F000 0x44001000 OPCODE_TRAP [op_v 0 5, op_v 5 5, op_v 16 5],
     insn ''CDOT'' 0xFFE0F000 0x44A04000 OPCODE_TRAP [op_v 0 5, op_v 5 5, op_v 16 3, op_imm 19 2],
     insn ''CDOT'' 0xFFE0F000 0x44E04000 OPCODE_TRAP [op_v 0 5, op_v 5 5, op_v 16 4, op_imm 20 1],
     insn ''CFINV'' 0xFFFFF4FF 0xD500401F OPCODE_TRAP [],
     insn ''SYS'' 0xFFFFFFE0 0xD50B7380 OPCODE_TRAP [op_x 0 5]]"

definition arm64_instructions_312 :: "bal_decoder_instruction_metadata_t list" where
  "arm64_instructions_312 = [
     insn ''CHKFEAT'' 0xFFFFFFFF 0xD503251F OPCODE_TRAP [],
     insn ''CSINC'' 0xFFE3FC7C 0x1A83FC7C OPCODE_TRAP [op_w 0 5, op_w 5 5, op_cond 12 4, op_w 16 5],
     insn ''CSINC'' 0xFFE3FC7C 0x9A83FC7C OPCODE_TRAP [op_x 0 5, op_x 5 5, op_cond 12 4, op_x 16 5],
     insn ''CSINV'' 0xFFE3FC7C 0x5A83FC7C OPCODE_TRAP [op_w 0 5, op_w 5 5, op_cond 12 4, op_w 16 5],
     insn ''CSINV'' 0xFFE3FC7C 0xDA83FC7C OPCODE_TRAP [op_x 0 5, op_x 5 5, op_cond 12 4, op_x 16 5],
     insn ''CLASTA'' 0xFF3FE000 0x0530A000 OPCODE_TRAP [op_v 5 5, op_v 10 3],
     insn ''CLASTA'' 0xFF3FE000 0x052A8000 OPCODE_TRAP [op_v 0 5, op_v 5 5, op_v 10 3],
     insn ''CLASTA'' 0xFF3FE000 0x05288000 OPCODE_TRAP [op_v 0 5, op_v 5 5, op_v 10 3],
     insn ''CLASTB'' 0xFF3FE000 0x0531A000 OPCODE_TRAP [op_v 5 5, op_v 10 3],
     insn ''CLASTB'' 0xFF3FE000 0x052B8000 OPCODE_TRAP [op_v 0 5, op_v 5 5, op_v 10 3],
     insn ''CLASTB'' 0xFF3FE000 0x05298000 OPCODE_TRAP [op_v 0 5, op_v 5 5, op_v 10 3],
     insn ''CLRBHB'' 0xFFFFFFFF 0xD50322DF OPCODE_TRAP []]"

definition arm64_instructions_324 :: "bal_decoder_instruction_metadata_t list" where
  "arm64_instructions_324 = [
     insn ''CLREX'' 0xFFFFF0FF 0xD503305F OPCODE_TRAP [op_imm 8 4],
     insn ''CLS'' 0xBF3FFC00 0x0E204800 OPCODE_TRAP [op_v 0 5, op_v 5 5],
     insn ''CLS'' 0xFFFFFC00 0x5AC01400 OPCODE_TRAP [op_w 0 5, op_w 5 5],
     insn ''CLS'' 0xFFFFFC00 0xDAC01400 OPCODE_TRAP [op_x 0 5, op_x 5 5],
     insn ''CLS'' 0xFF3FE000 0x0418A000 OPCODE_TRAP [op_v 0 5, op_v 5 5, op_v 10 3],
     insn ''CLZ'' 0xBF3FFC00 0x2E204800 OPCODE_TRAP [op_v 0 5, op_v 5 5],
     insn ''CLZ'' 0xFFFFFC00 0x5AC01000 OPCODE_TRAP [op_w 0 5, op_w 5 5],
     insn ''CLZ'' 0xFFFFFC00 0xDAC01000 OPCODE_TRAP [op_x 0 5, op_x 5 5],
     insn ''CLZ'' 0xFF3FE000 0x0419A000 OPCODE_TRAP [op_v 0 5, op_v 5 5, op_v 10 3],
     insn ''CMEQ'' 0xBF20FC00 0x2E208C00 OPCODE_TRAP [op_v 0 5, op_v 5 5, op_v 16 5],
     insn ''CMEQ'' 0xFF20FC00 0x7E208C00 OPCODE_TRAP [op_v 0 5, op_v 5 5, op_v 16 5],
     insn ''CMEQ'' 0xBF3FFC00 0x0E209800 OPCODE_TRAP [op_v 0 5, op_v 5 5]]"

definition arm64_instructions_336 :: "bal_decoder_instruction_metadata_t list" where
  "arm64_instructions_336 = [
     insn ''CMEQ'' 0xFF3FFC00 0x5E209800 OPCODE_TRAP [op_v 0 5, op_v 5 5],
     insn ''CMGE'' 0xBF20FC00 0x0E203C00 OPCODE_TRAP [op_v 0 5, op_v 5 5, op_v 16 5],
     insn ''CMGE'' 0xFF20FC00 0x5E203C00 OPCODE_TRAP [op_v 0 5, op_v 5 5, op_v 16 5],
     insn ''CMGE'' 0xBF3FFC00 0x2E208800 OPCODE_TRAP [op_v 0 5, op_v 5 5],
     insn ''CMGE'' 0xFF3FFC00 0x7E208800 OPCODE_TRAP [op_v 0 5, op_v 5 5],
     insn ''CMGT'' 0xBF20FC00 0x0E203400 OPCODE_TRAP [op_v 0 5, op_v 5 5, op_v 16 5],
     insn ''CMGT'' 0xFF20FC00 0x5E203400 OPCODE_TRAP [op_v 0 5, op_v 5 5, op_v 16 5],
     insn ''CMGT'' 0xBF3FFC00 0x0E208800 OPCODE_TRAP [op_v 0 5, op_v 5 5],
     insn ''CMGT'' 0xFF3FFC00 0x5E208800 OPCODE_TRAP [op_v 0 5, op_v 5 5],
     insn ''CMHI'' 0xBF20FC00 0x2E203400 OPCODE_TRAP [op_v 0 5, op_v 5 5, op_v 16 5],
     insn ''CMHI'' 0xFF20FC00 0x7E203400 OPCODE_TRAP [op_v 0 5, op_v 5 5, op_v 16 5],
     insn ''CMHS'' 0xBF20FC00 0x2E203C00 OPCODE_TRAP [op_v 0 5, op_v 5 5, op_v 16 5]]"

definition arm64_instructions_348 :: "bal_decoder_instruction_metadata_t list" where
  "arm64_instructions_348 = [
     insn ''CMHS'' 0xFF20FC00 0x7E203C00 OPCODE_TRAP [op_v 0 5, op_v 5 5, op_v 16 5],
     insn ''CMLA'' 0xFF20F000 0x44002000 OPCODE_TRAP [op_v 0 5, op_v 5 5, op_v 16 5],
     insn ''CMLA'' 0xFFE0F000 0x44A06000 OPCODE_TRAP [op_v 0 5, op_v 5 5, op_v 16 3, op_imm 19 2],
     insn ''CMLA'' 0xFFE0F000 0x44E06000 OPCODE_TRAP [op_v 0 5, op_v 5 5, op_v 16 4, op_imm 20 1],
     insn ''CMLE'' 0xBF3FFC00 0x2E209800 OPCODE_TRAP [op_v 0 5, op_v 5 5],
     insn ''CMLE'' 0xFF3FFC00 0x7E209800 OPCODE_TRAP [op_v 0 5, op_v 5 5],
     insn ''CMLT'' 0xBF3FFC00 0x0E20A800 OPCODE_TRAP [op_v 0 5, op_v 5 5],
     insn ''CMLT'' 0xFF3FFC00 0x5E20A800 OPCODE_TRAP [op_v 0 5, op_v 5 5],
     insn ''ADDS'' 0xFFE0001F 0x2B20001F OPCODE_ADD [op_w 5 5, op_imm 10 3, op_imm 13 3, op_w 16 5],
     insn ''ADDS'' 0xFFE0001F 0xAB20001F OPCODE_ADD [op_x 5 5, op_imm 10 3, op_imm 13 3, op_cond 16 5],
     insn ''ADDS'' 0xFF80001F 0x3100001F OPCODE_ADD [op_w 5 5, op_imm 10 12, op_imm 22 1],
     insn ''ADDS'' 0xFF80001F 0xB100001F OPCODE_ADD [op_x 5 5, op_imm 10 12, op_imm 22 1]]"

definition arm64_instructions_360 :: "bal_decoder_instruction_metadata_t list" where
  "arm64_instructions_360 = [
     insn ''ADDS'' 0xFF20001F 0x2B00001F OPCODE_ADD [op_w 5 5, op_imm 10 6, op_w 16 5, op_imm 22 2],
     insn ''ADDS'' 0xFF20001F 0xAB00001F OPCODE_ADD [op_x 5 5, op_imm 10 6, op_x 16 5, op_imm 22 2],
     insn ''SUBS'' 0xFFE0001F 0x6B20001F OPCODE_SUB [op_w 5 5, op_imm 10 3, op_imm 13 3, op_w 16 5],
     insn ''SUBS'' 0xFFE0001F 0xEB20001F OPCODE_SUB [op_x 5 5, op_imm 10 3, op_imm 13 3, op_cond 16 5],
     insn ''SUBS'' 0xFF80001F 0x7100001F OPCODE_SUB [op_w 5 5, op_imm 10 12, op_imm 22 1],
     insn ''SUBS'' 0xFF80001F 0xF100001F OPCODE_SUB [op_x 5 5, op_imm 10 12, op_imm 22 1],
     insn ''SUBS'' 0xFF20001F 0x6B00001F OPCODE_SUB [op_w 5 5, op_imm 10 6, op_w 16 5, op_imm 22 2],
     insn ''SUBS'' 0xFF20001F 0xEB00001F OPCODE_SUB [op_x 5 5, op_imm 10 6, op_x 16 5, op_imm 22 2],
     insn ''CMPEQ'' 0xFF20E010 0x25008000 OPCODE_CMP [op_v 0 4, op_v 5 5, op_v 10 3, op_imm 16 5],
     insn ''CMPGE'' 0xFF20E010 0x25000000 OPCODE_CMP [op_v 0 4, op_v 5 5, op_v 10 3, op_imm 16 5],
     insn ''CMPGT'' 0xFF20E010 0x25000010 OPCODE_CMP [op_v 0 4, op_v 5 5, op_v 10 3, op_imm 16 5],
     insn ''CMPHI'' 0xFF202010 0x24200010 OPCODE_CMP [op_v 0 4, op_v 5 5, op_v 10 3, op_imm 14 7]]"

definition arm64_instructions_372 :: "bal_decoder_instruction_metadata_t list" where
  "arm64_instructions_372 = [
     insn ''CMPHS'' 0xFF202010 0x24200000 OPCODE_CMP [op_v 0 4, op_v 5 5, op_v 10 3, op_imm 14 7],
     insn ''CMPLE'' 0xFF20E010 0x25002010 OPCODE_CMP [op_v 0 4, op_v 5 5, op_v 10 3, op_imm 16 5],
     insn ''CMPLO'' 0xFF202010 0x24202000 OPCODE_CMP [op_v 0 4, op_v 5 5, op_v 10 3, op_imm 14 7],
     insn ''CMPLS'' 0xFF202010 0x24202010 OPCODE_CMP [op_v 0 4, op_v 5 5, op_v 10 3, op_imm 14 7],
     insn ''CMPLT'' 0xFF20E010 0x25002000 OPCODE_CMP [op_v 0 4, op_v 5 5, op_v 10 3, op_imm 16 5],
     insn ''CMPNE'' 0xFF20E010 0x25008010 OPCODE_CMP [op_v 0 4, op_v 5 5, op_v 10 3, op_imm 16 5],
     insn ''CMPEQ'' 0xFF20E010 0x24002000 OPCODE_CMP [op_v 0 4, op_v 5 5, op_v 10 3, op_v 16 5],
     insn ''CMPGE'' 0xFF20E010 0x24004000 OPCODE_CMP [op_v 0 4, op_v 5 5, op_v 10 3, op_v 16 5],
     insn ''CMPGT'' 0xFF20E010 0x24004010 OPCODE_CMP [op_v 0 4, op_v 5 5, op_v 10 3, op_v 16 5],
     insn ''CMPHI'' 0xFF20E010 0x2400C010 OPCODE_CMP [op_v 0 4, op_v 5 5, op_v 10 3, op_v 16 5],
     insn ''CMPHS'' 0xFF20E010 0x2400C000 OPCODE_CMP [op_v 0 4, op_v 5 5, op_v 10 3, op_v 16 5],
     insn ''CMPLE'' 0xFF20E010 0x24006010 OPCODE_CMP [op_v 0 4, op_v 5 5, op_v 10 3, op_v 16 5]]"

definition arm64_instructions_384 :: "bal_decoder_instruction_metadata_t list" where
  "arm64_instructions_384 = [
     insn ''CMPLO'' 0xFF20E010 0x2400E000 OPCODE_CMP [op_v 0 4, op_v 5 5, op_v 10 3, op_v 16 5],
     insn ''CMPLS'' 0xFF20E010 0x2400E010 OPCODE_CMP [op_v 0 4, op_v 5 5, op_v 10 3, op_v 16 5],
     insn ''CMPLT'' 0xFF20E010 0x24006000 OPCODE_CMP [op_v 0 4, op_v 5 5, op_v 10 3, op_v 16 5],
     insn ''CMPNE'' 0xFF20E010 0x24002010 OPCODE_CMP [op_v 0 4, op_v 5 5, op_v 10 3, op_v 16 5],
     insn ''CMPEQ'' 0xFF20E010 0x2400A000 OPCODE_CMP [op_v 0 4, op_v 5 5, op_v 10 3, op_v 16 5],
     insn ''CMPGE'' 0xFF20E010 0x24008000 OPCODE_CMP [op_v 0 4, op_v 5 5, op_v 10 3, op_v 16 5],
     insn ''CMPGT'' 0xFF20E010 0x24008010 OPCODE_CMP [op_v 0 4, op_v 5 5, op_v 10 3, op_v 16 5],
     insn ''CMPHI'' 0xFF20E010 0x24000010 OPCODE_CMP [op_v 0 4, op_v 5 5, op_v 10 3, op_v 16 5],
     insn ''CMPHS'' 0xFF20E010 0x24000000 OPCODE_CMP [op_v 0 4, op_v 5 5, op_v 10 3, op_v 16 5],
     insn ''CMPNE'' 0xFF20E010 0x2400A010 OPCODE_CMP [op_v 0 4, op_v 5 5, op_v 10 3, op_v 16 5],
     insn ''CMPGE'' 0xFF20E010 0x24008000 OPCODE_CMP [op_v 0 4, op_v 5 5, op_v 10 3, op_v 16 5],
     insn ''CMPHI'' 0xFF20E010 0x24000010 OPCODE_CMP [op_v 0 4, op_v 5 5, op_v 10 3, op_v 16 5]]"

definition arm64_instructions_396 :: "bal_decoder_instruction_metadata_t list" where
  "arm64_instructions_396 = [
     insn ''CMPHS'' 0xFF20E010 0x24000000 OPCODE_CMP [op_v 0 4, op_v 5 5, op_v 10 3, op_v 16 5],
     insn ''CMPGT'' 0xFF20E010 0x24008010 OPCODE_CMP [op_v 0 4, op_v 5 5, op_v 10 3, op_v 16 5],
     insn ''SUBPS'' 0xFFE0FC1F 0xBAC0001F OPCODE_SUB [op_x 5 5, op_x 16 5],
     insn ''CMTST'' 0xBF20FC00 0x0E208C00 OPCODE_TRAP [op_v 0 5, op_v 5 5, op_v 16 5],
     insn ''CMTST'' 0xFF20FC00 0x5E208C00 OPCODE_TRAP [op_v 0 5, op_v 5 5, op_v 16 5],
     insn ''CSNEG'' 0xFFE01C00 0x5A801C00 OPCODE_TRAP [op_w 0 5, op_w 5 5, op_cond 12 4, op_w 16 5],
     insn ''CSNEG'' 0xFFE01C00 0xDA801C00 OPCODE_TRAP [op_x 0 5, op_x 5 5, op_cond 12 4, op_x 16 5],
     insn ''CNOT'' 0xFF3FE000 0x041BA000 OPCODE_TRAP [op_v 0 5, op_v 5 5, op_v 10 3],
     insn ''CNT'' 0xFFFFFC00 0x5AC01C00 OPCODE_TRAP [op_w 0 5, op_w 5 5],
     insn ''CNT'' 0xFFFFFC00 0xDAC01C00 OPCODE_TRAP [op_x 0 5, op_x 5 5],
     insn ''CNT'' 0xBF3FFC00 0x0E205800 OPCODE_TRAP [op_v 0 5, op_v 5 5],
     insn ''CNT'' 0xFF3FE000 0x041AA000 OPCODE_TRAP [op_v 0 5, op_v 5 5, op_v 10 3]]"

definition arm64_instructions_408 :: "bal_decoder_instruction_metadata_t list" where
  "arm64_instructions_408 = [
     insn ''CNTB'' 0xFFF0FC00 0x0420E000 OPCODE_TRAP [op_x 0 5, op_imm 5 5, op_imm 16 4],
     insn ''CNTD'' 0xFFF0FC00 0x04E0E000 OPCODE_TRAP [op_x 0 5, op_imm 5 5, op_imm 16 4],
     insn ''CNTH'' 0xFFF0FC00 0x0460E000 OPCODE_TRAP [op_x 0 5, op_imm 5 5, op_imm 16 4],
     insn ''CNTW'' 0xFFF0FC00 0x04A0E000 OPCODE_TRAP [op_x 0 5, op_imm 5 5, op_imm 16 4],
     insn ''CNTP'' 0xFF3FC200 0x25208000 OPCODE_TRAP [op_x 0 5, op_v 5 4, op_v 10 4],
     insn ''CNTP'' 0xFF3FFA00 0x25208200 OPCODE_TRAP [op_x 0 5, op_v 5 4],
     insn ''COMPACT'' 0xFF3FE000 0x05218000 OPCODE_TRAP [op_v 0 5, op_v 5 5, op_v 10 3],
     insn ''SYS'' 0xFFFFFFE0 0xD50B73C0 OPCODE_TRAP [op_x 0 5],
     insn ''SYS'' 0xFFFFFFE0 0xD50B73E0 OPCODE_TRAP [op_x 0 5],
     insn ''CPY'' 0xFF30C000 0x05100000 OPCODE_TRAP [op_v 0 5, op_imm 5 8, op_imm 13 1, op_v 16 4],
     insn ''CPY'' 0xFF30C000 0x05104000 OPCODE_TRAP [op_v 0 5, op_imm 5 8, op_imm 13 1, op_v 16 4],
     insn ''CPY'' 0xFF3FE000 0x0528A000 OPCODE_TRAP [op_v 0 5, op_v 10 3]]"

definition arm64_instructions_420 :: "bal_decoder_instruction_metadata_t list" where
  "arm64_instructions_420 = [
     insn ''CPY'' 0xFF3FE000 0x05208000 OPCODE_TRAP [op_v 0 5, op_v 5 5, op_v 10 3],
     insn ''CPYFE'' 0x3FE0FC00 0x19800400 OPCODE_TRAP [op_x 0 5, op_x 5 5, op_x 16 5],
     insn ''CPYFM'' 0x3FE0FC00 0x19400400 OPCODE_TRAP [op_x 0 5, op_x 5 5, op_x 16 5],
     insn ''CPYFP'' 0x3FE0FC00 0x19000400 OPCODE_TRAP [op_x 0 5, op_x 5 5, op_x 16 5],
     insn ''CPYFEN'' 0x3FE0FC00 0x1980C400 OPCODE_TRAP [op_x 0 5, op_x 5 5, op_x 16 5],
     insn ''CPYFMN'' 0x3FE0FC00 0x1940C400 OPCODE_TRAP [op_x 0 5, op_x 5 5, op_x 16 5],
     insn ''CPYFPN'' 0x3FE0FC00 0x1900C400 OPCODE_TRAP [op_x 0 5, op_x 5 5, op_x 16 5],
     insn ''CPYFERN'' 0x3FE0FC00 0x19808400 OPCODE_TRAP [op_x 0 5, op_x 5 5, op_x 16 5],
     insn ''CPYFMRN'' 0x3FE0FC00 0x19408400 OPCODE_TRAP [op_x 0 5, op_x 5 5, op_x 16 5],
     insn ''CPYFPRN'' 0x3FE0FC00 0x19008400 OPCODE_TRAP [op_x 0 5, op_x 5 5, op_x 16 5],
     insn ''CPYFERT'' 0x3FE0FC00 0x19802400 OPCODE_TRAP [op_x 0 5, op_x 5 5, op_x 16 5],
     insn ''CPYFMRT'' 0x3FE0FC00 0x19402400 OPCODE_TRAP [op_x 0 5, op_x 5 5, op_x 16 5]]"

definition arm64_instructions_432 :: "bal_decoder_instruction_metadata_t list" where
  "arm64_instructions_432 = [
     insn ''CPYFPRT'' 0x3FE0FC00 0x19002400 OPCODE_TRAP [op_x 0 5, op_x 5 5, op_x 16 5],
     insn ''CPYFERTN'' 0x3FE0FC00 0x1980E400 OPCODE_TRAP [op_x 0 5, op_x 5 5, op_x 16 5],
     insn ''CPYFMRTN'' 0x3FE0FC00 0x1940E400 OPCODE_TRAP [op_x 0 5, op_x 5 5, op_x 16 5],
     insn ''CPYFPRTN'' 0x3FE0FC00 0x1900E400 OPCODE_TRAP [op_x 0 5, op_x 5 5, op_x 16 5],
     insn ''CPYFERTRN'' 0x3FE0FC00 0x1980A400 OPCODE_TRAP [op_x 0 5, op_x 5 5, op_x 16 5],
     insn ''CPYFMRTRN'' 0x3FE0FC00 0x1940A400 OPCODE_TRAP [op_x 0 5, op_x 5 5, op_x 16 5],
     insn ''CPYFPRTRN'' 0x3FE0FC00 0x1900A400 OPCODE_TRAP [op_x 0 5, op_x 5 5, op_x 16 5],
     insn ''CPYFERTWN'' 0x3FE0FC00 0x19806400 OPCODE_TRAP [op_x 0 5, op_x 5 5, op_x 16 5],
     insn ''CPYFMRTWN'' 0x3FE0FC00 0x19406400 OPCODE_TRAP [op_x 0 5, op_x 5 5, op_x 16 5],
     insn ''CPYFPRTWN'' 0x3FE0FC00 0x19006400 OPCODE_TRAP [op_x 0 5, op_x 5 5, op_x 16 5],
     insn ''CPYFET'' 0x3FE0FC00 0x19803400 OPCODE_TRAP [op_x 0 5, op_x 5 5, op_x 16 5],
     insn ''CPYFMT'' 0x3FE0FC00 0x19403400 OPCODE_TRAP [op_x 0 5, op_x 5 5, op_x 16 5]]"

definition arm64_instructions_444 :: "bal_decoder_instruction_metadata_t list" where
  "arm64_instructions_444 = [
     insn ''CPYFPT'' 0x3FE0FC00 0x19003400 OPCODE_TRAP [op_x 0 5, op_x 5 5, op_x 16 5],
     insn ''CPYFETN'' 0x3FE0FC00 0x1980F400 OPCODE_TRAP [op_x 0 5, op_x 5 5, op_x 16 5],
     insn ''CPYFMTN'' 0x3FE0FC00 0x1940F400 OPCODE_TRAP [op_x 0 5, op_x 5 5, op_x 16 5],
     insn ''CPYFPTN'' 0x3FE0FC00 0x1900F400 OPCODE_TRAP [op_x 0 5, op_x 5 5, op_x 16 5],
     insn ''CPYFETRN'' 0x3FE0FC00 0x1980B400 OPCODE_TRAP [op_x 0 5, op_x 5 5, op_x 16 5],
     insn ''CPYFMTRN'' 0x3FE0FC00 0x1940B400 OPCODE_TRAP [op_x 0 5, op_x 5 5, op_x 16 5],
     insn ''CPYFPTRN'' 0x3FE0FC00 0x1900B400 OPCODE_TRAP [op_x 0 5, op_x 5 5, op_x 16 5],
     insn ''CPYFETWN'' 0x3FE0FC00 0x19807400 OPCODE_TRAP [op_x 0 5, op_x 5 5, op_x 16 5],
     insn ''CPYFMTWN'' 0x3FE0FC00 0x19407400 OPCODE_TRAP [op_x 0 5, op_x 5 5, op_x 16 5],
     insn ''CPYFPTWN'' 0x3FE0FC00 0x19007400 OPCODE_TRAP [op_x 0 5, op_x 5 5, op_x 16 5],
     insn ''CPYFEWN'' 0x3FE0FC00 0x19804400 OPCODE_TRAP [op_x 0 5, op_x 5 5, op_x 16 5],
     insn ''CPYFMWN'' 0x3FE0FC00 0x19404400 OPCODE_TRAP [op_x 0 5, op_x 5 5, op_x 16 5]]"

definition arm64_instructions_456 :: "bal_decoder_instruction_metadata_t list" where
  "arm64_instructions_456 = [
     insn ''CPYFPWN'' 0x3FE0FC00 0x19004400 OPCODE_TRAP [op_x 0 5, op_x 5 5, op_x 16 5],
     insn ''CPYFEWT'' 0x3FE0FC00 0x19801400 OPCODE_TRAP [op_x 0 5, op_x 5 5, op_x 16 5],
     insn ''CPYFMWT'' 0x3FE0FC00 0x19401400 OPCODE_TRAP [op_x 0 5, op_x 5 5, op_x 16 5],
     insn ''CPYFPWT'' 0x3FE0FC00 0x19001400 OPCODE_TRAP [op_x 0 5, op_x 5 5, op_x 16 5],
     insn ''CPYFEWTN'' 0x3FE0FC00 0x1980D400 OPCODE_TRAP [op_x 0 5, op_x 5 5, op_x 16 5],
     insn ''CPYFMWTN'' 0x3FE0FC00 0x1940D400 OPCODE_TRAP [op_x 0 5, op_x 5 5, op_x 16 5],
     insn ''CPYFPWTN'' 0x3FE0FC00 0x1900D400 OPCODE_TRAP [op_x 0 5, op_x 5 5, op_x 16 5],
     insn ''CPYFEWTRN'' 0x3FE0FC00 0x19809400 OPCODE_TRAP [op_x 0 5, op_x 5 5, op_x 16 5],
     insn ''CPYFMWTRN'' 0x3FE0FC00 0x19409400 OPCODE_TRAP [op_x 0 5, op_x 5 5, op_x 16 5],
     insn ''CPYFPWTRN'' 0x3FE0FC00 0x19009400 OPCODE_TRAP [op_x 0 5, op_x 5 5, op_x 16 5],
     insn ''CPYFEWTWN'' 0x3FE0FC00 0x19805400 OPCODE_TRAP [op_x 0 5, op_x 5 5, op_x 16 5],
     insn ''CPYFMWTWN'' 0x3FE0FC00 0x19405400 OPCODE_TRAP [op_x 0 5, op_x 5 5, op_x 16 5]]"

definition arm64_instructions_468 :: "bal_decoder_instruction_metadata_t list" where
  "arm64_instructions_468 = [
     insn ''CPYFPWTWN'' 0x3FE0FC00 0x19005400 OPCODE_TRAP [op_x 0 5, op_x 5 5, op_x 16 5],
     insn ''CPYE'' 0x3FE0FC00 0x1D800400 OPCODE_TRAP [op_x 0 5, op_x 5 5, op_x 16 5],
     insn ''CPYM'' 0x3FE0FC00 0x1D400400 OPCODE_TRAP [op_x 0 5, op_x 5 5, op_x 16 5],
     insn ''CPYP'' 0x3FE0FC00 0x1D000400 OPCODE_TRAP [op_x 0 5, op_x 5 5, op_x 16 5],
     insn ''CPYEN'' 0x3FE0FC00 0x1D80C400 OPCODE_TRAP [op_x 0 5, op_x 5 5, op_x 16 5],
     insn ''CPYMN'' 0x3FE0FC00 0x1D40C400 OPCODE_TRAP [op_x 0 5, op_x 5 5, op_x 16 5],
     insn ''CPYPN'' 0x3FE0FC00 0x1D00C400 OPCODE_TRAP [op_x 0 5, op_x 5 5, op_x 16 5],
     insn ''CPYERN'' 0x3FE0FC00 0x1D808400 OPCODE_TRAP [op_x 0 5, op_x 5 5, op_x 16 5],
     insn ''CPYMRN'' 0x3FE0FC00 0x1D408400 OPCODE_TRAP [op_x 0 5, op_x 5 5, op_x 16 5],
     insn ''CPYPRN'' 0x3FE0FC00 0x1D008400 OPCODE_TRAP [op_x 0 5, op_x 5 5, op_x 16 5],
     insn ''CPYERT'' 0x3FE0FC00 0x1D802400 OPCODE_TRAP [op_x 0 5, op_x 5 5, op_x 16 5],
     insn ''CPYMRT'' 0x3FE0FC00 0x1D402400 OPCODE_TRAP [op_x 0 5, op_x 5 5, op_x 16 5]]"

definition arm64_instructions_480 :: "bal_decoder_instruction_metadata_t list" where
  "arm64_instructions_480 = [
     insn ''CPYPRT'' 0x3FE0FC00 0x1D002400 OPCODE_TRAP [op_x 0 5, op_x 5 5, op_x 16 5],
     insn ''CPYERTN'' 0x3FE0FC00 0x1D80E400 OPCODE_TRAP [op_x 0 5, op_x 5 5, op_x 16 5],
     insn ''CPYMRTN'' 0x3FE0FC00 0x1D40E400 OPCODE_TRAP [op_x 0 5, op_x 5 5, op_x 16 5],
     insn ''CPYPRTN'' 0x3FE0FC00 0x1D00E400 OPCODE_TRAP [op_x 0 5, op_x 5 5, op_x 16 5],
     insn ''CPYERTRN'' 0x3FE0FC00 0x1D80A400 OPCODE_TRAP [op_x 0 5, op_x 5 5, op_x 16 5],
     insn ''CPYMRTRN'' 0x3FE0FC00 0x1D40A400 OPCODE_TRAP [op_x 0 5, op_x 5 5, op_x 16 5],
     insn ''CPYPRTRN'' 0x3FE0FC00 0x1D00A400 OPCODE_TRAP [op_x 0 5, op_x 5 5, op_x 16 5],
     insn ''CPYERTWN'' 0x3FE0FC00 0x1D806400 OPCODE_TRAP [op_x 0 5, op_x 5 5, op_x 16 5],
     insn ''CPYMRTWN'' 0x3FE0FC00 0x1D406400 OPCODE_TRAP [op_x 0 5, op_x 5 5, op_x 16 5],
     insn ''CPYPRTWN'' 0x3FE0FC00 0x1D006400 OPCODE_TRAP [op_x 0 5, op_x 5 5, op_x 16 5],
     insn ''CPYET'' 0x3FE0FC00 0x1D803400 OPCODE_TRAP [op_x 0 5, op_x 5 5, op_x 16 5],
     insn ''CPYMT'' 0x3FE0FC00 0x1D403400 OPCODE_TRAP [op_x 0 5, op_x 5 5, op_x 16 5]]"

definition arm64_part_1 :: "bal_decoder_instruction_metadata_t list list" where
  "arm64_part_1 = [
     arm64_instructions_0, arm64_instructions_12, arm64_instructions_24, arm64_instructions_36,
     arm64_instructions_48, arm64_instructions_60, arm64_instructions_72, arm64_instructions_84,
     arm64_instructions_96, arm64_instructions_108, arm64_instructions_120,
     arm64_instructions_132, arm64_instructions_144, arm64_instructions_156,
     arm64_instructions_168, arm64_instructions_180, arm64_instructions_192,
     arm64_instructions_204, arm64_instructions_216, arm64_instructions_228,
     arm64_instructions_240, arm64_instructions_252, arm64_instructions_264,
     arm64_instructions_276, arm64_instructions_288, arm64_instructions_300,
     arm64_instructions_312, arm64_instructions_324, arm64_instructions_336,
     arm64_instructions_348, arm64_instructions_360, arm64_instructions_372,
     arm64_instructions_384, arm64_instructions_396, arm64_instructions_408,
     arm64_instructions_420, arm64_instructions_432, arm64_instructions_444,
     arm64_instructions_456, arm64_instructions_468, arm64_instructions_480]"

section \<open>The entries are complete, and their top bits\<close>

lemma keys_of_0: "map mask_value arm64_instructions_0 =
     [(0xFFFFFC00, 0x5AC02000), (0xFFFFFC00, 0xDAC02000), (0xBF3FFC00, 0xE20B800),
      (0xFF3FFC00, 0x5E20B800), (0xFF3FE000, 0x416A000), (0xFFE0FC00, 0x1A000000),
      (0xFFE0FC00, 0x9A000000), (0xFFA0FC00, 0x4500D000), (0xFFA0FC00, 0x4500D400),
      (0xFFE0FC00, 0x3A000000), (0xFFE0FC00, 0xBA000000), (0xFFE00000, 0xB200000)]"
  by (simp only: arm64_instructions_0_def read_entries)

lemma entries_0:
  "length arm64_instructions_0 = 12" "list_all metadata_wf arm64_instructions_0"
  "map top_bits arm64_instructions_0 =
     [(2047, 726), (2047, 1750), (1529, 113), (2041, 753), (2041, 32), (2047, 208), (2047, 1232),
      (2045, 552), (2045, 552), (2047, 464), (2047, 1488), (2047, 89)]"
  by (simp add: arm64_instructions_0_def, simp add: arm64_instructions_0_def, simp add: top_bits_mask_value keys_of_0)

lemma keys_of_12: "map mask_value arm64_instructions_12 =
     [(0xFFE00000, 0x8B200000), (0xFF800000, 0x11000000), (0xFF800000, 0x91000000),
      (0xFF200000, 0xB000000), (0xFF200000, 0x8B000000), (0xBF20FC00, 0xE208400),
      (0xFF20FC00, 0x5E208400), (0xFF30FFE1, 0xC120A300), (0xFF30FFE3, 0xC120AB00),
      (0xFF3FE000, 0x4000000), (0xFF3FC000, 0x2520C000), (0xFF20FC00, 0x4200000)]"
  by (simp only: arm64_instructions_12_def read_entries)

lemma entries_12:
  "length arm64_instructions_12 = 12" "list_all metadata_wf arm64_instructions_12"
  "map top_bits arm64_instructions_12 =
     [(2047, 1113), (2044, 136), (2044, 1160), (2041, 88), (2041, 1112), (1529, 113),
      (2041, 753), (2041, 1545), (2041, 1545), (2041, 32), (2041, 297), (2041, 33)]"
  by (simp add: arm64_instructions_12_def, simp add: arm64_instructions_12_def, simp add: top_bits_mask_value keys_of_12)

lemma keys_of_24: "map mask_value arm64_instructions_24 =
     [(0xFFBF9C38, 0xC1A01C10), (0xFFBF9C78, 0xC1A11C10), (0xFFB09C18, 0xC1201810),
      (0xFFB09C18, 0xC1301810), (0xFFA19C38, 0xC1A01810), (0xFFA39C78, 0xC1A11810),
      (0xFFC04800, 0x91800000), (0xFFFF0018, 0xC0D00000), (0xFFFF001C, 0xC0900000),
      (0xBF20FC00, 0xE204000), (0xFF20FC00, 0x45206000), (0xFF20FC00, 0x45206400)]"
  by (simp only: arm64_instructions_24_def read_entries)

lemma entries_24:
  "length arm64_instructions_24 = 12" "list_all metadata_wf arm64_instructions_24"
  "map top_bits arm64_instructions_24 =
     [(2045, 1549), (2045, 1549), (2045, 1545), (2045, 1545), (2045, 1549), (2045, 1549),
      (2046, 1164), (2047, 1542), (2047, 1540), (1529, 113), (2041, 553), (2041, 553)]"
  by (simp add: arm64_instructions_24_def, simp add: arm64_instructions_24_def, simp add: top_bits_mask_value keys_of_24)

lemma keys_of_36: "map mask_value arm64_instructions_36 =
     [(0xFF3FFC00, 0x5E31B800), (0xBF20FC00, 0xE20BC00), (0xFF3FE000, 0x4411A000),
      (0xFFE0F800, 0x4605000), (0xFF3FE000, 0x4052000), (0xFFE00000, 0x2B200000),
      (0xFFE00000, 0xAB200000), (0xFF800000, 0x31000000), (0xFF800000, 0xB1000000),
      (0xFF200000, 0x2B000000), (0xFF200000, 0xAB000000), (0xFFE0F800, 0x4605800)]"
  by (simp only: arm64_instructions_36_def read_entries)

lemma entries_36:
  "length arm64_instructions_36 = 12" "list_all metadata_wf arm64_instructions_36"
  "map top_bits arm64_instructions_36 =
     [(2041, 753), (1529, 113), (2041, 544), (2047, 35), (2041, 32), (2047, 345), (2047, 1369),
      (2044, 392), (2044, 1416), (2041, 344), (2041, 1368), (2047, 35)]"
  by (simp add: arm64_instructions_36_def, simp add: arm64_instructions_36_def, simp add: top_bits_mask_value keys_of_36)

lemma keys_of_48: "map mask_value arm64_instructions_48 =
     [(0xFFE0F800, 0x4205800), (0xBF3FFC00, 0xE31B800), (0xFFFF0018, 0xC0D10000),
      (0xFFFF001C, 0xC0910000), (0xFFE0F800, 0x4205000), (0x9F000000, 0x10000000),
      (0xFFA0F000, 0x4A0A000), (0xFFE0F000, 0x420A000), (0xFFE0F000, 0x460A000),
      (0x9F000000, 0x90000000), (0xFFFFFC00, 0x4E285800), (0xFFFFFC00, 0x4522E400)]"
  by (simp only: arm64_instructions_48_def read_entries)

lemma entries_48:
  "length arm64_instructions_48 = 12" "list_all metadata_wf arm64_instructions_48"
  "map top_bits arm64_instructions_48 =
     [(2047, 33), (1529, 113), (2047, 1542), (2047, 1540), (2047, 33), (1272, 128), (2045, 37),
      (2047, 33), (2047, 35), (1272, 1152), (2047, 625), (2047, 553)]"
  by (simp add: arm64_instructions_48_def, simp add: arm64_instructions_48_def, simp add: top_bits_mask_value keys_of_48)

lemma keys_of_60: "map mask_value arm64_instructions_60 =
     [(0xFFFFFC00, 0x4E284800), (0xFFFFFC00, 0x4522E000), (0xFFFFFC00, 0x4E287800),
      (0xFFFFFFE0, 0x4520E400), (0xFFFFFC00, 0x4E286800), (0xFFFFFFE0, 0x4520E000),
      (0xBFE0FC00, 0xE201C00), (0xFF800000, 0x92000000), (0xFFC00000, 0x12000000),
      (0xFF200000, 0xA000000), (0xFF200000, 0x8A000000), (0xFFF0C210, 0x25004000)]"
  by (simp only: arm64_instructions_60_def read_entries)

lemma entries_60:
  "length arm64_instructions_60 = 12" "list_all metadata_wf arm64_instructions_60"
  "map top_bits arm64_instructions_60 =
     [(2047, 625), (2047, 553), (2047, 625), (2047, 553), (2047, 625), (2047, 553), (1535, 113),
      (2044, 1168), (2046, 144), (2041, 80), (2041, 1104), (2047, 296)]"
  by (simp add: arm64_instructions_60_def, simp add: arm64_instructions_60_def, simp add: top_bits_mask_value keys_of_60)

lemma keys_of_72: "map mask_value arm64_instructions_72 =
     [(0xFF3FE000, 0x41A0000), (0xFFFC0000, 0x5800000), (0xFFE0FC00, 0x4203000),
      (0xFF3FE000, 0x41E2000), (0xFF800000, 0xF2000000), (0xFFC00000, 0x72000000),
      (0xFF200000, 0x6A000000), (0xFF200000, 0xEA000000), (0xFFF0C210, 0x25404000),
      (0xFF3FE000, 0x41A2000), (0xFFE0FC00, 0x1AC02800), (0xFFE0FC00, 0x9AC02800)]"
  by (simp only: arm64_instructions_72_def read_entries)

lemma entries_72:
  "length arm64_instructions_72 = 12" "list_all metadata_wf arm64_instructions_72"
  "map top_bits arm64_instructions_72 =
     [(2041, 32), (2047, 44), (2047, 33), (2041, 32), (2044, 1936), (2046, 912), (2041, 848),
      (2041, 1872), (2047, 298), (2041, 32), (2047, 214), (2047, 1238)]"
  by (simp add: arm64_instructions_72_def, simp add: arm64_instructions_72_def, simp add: top_bits_mask_value keys_of_72)

lemma keys_of_84: "map mask_value arm64_instructions_84 =
     [(0xFFC0FC00, 0x13007C00), (0xFFC0FC00, 0x9340FC00), (0xFF3FE000, 0x4008000),
      (0xFF3FE000, 0x4188000), (0xFF3FE000, 0x4108000), (0xFF20FC00, 0x4209000),
      (0xFF20FC00, 0x4208000), (0xFF3FE000, 0x4048000), (0xFF3FE000, 0x4148000),
      (0xFFE0FC00, 0x1AC02800), (0xFFE0FC00, 0x9AC02800), (0xFFF8FE00, 0xD5087800)]"
  by (simp only: arm64_instructions_84_def read_entries)

lemma entries_84:
  "length arm64_instructions_84 = 12" "list_all metadata_wf arm64_instructions_84"
  "map top_bits arm64_instructions_84 =
     [(2046, 152), (2046, 1178), (2041, 32), (2041, 32), (2041, 32), (2041, 33), (2041, 33),
      (2041, 32), (2041, 32), (2047, 214), (2047, 1238), (2047, 1704)]"
  by (simp add: arm64_instructions_84_def, simp add: arm64_instructions_84_def, simp add: top_bits_mask_value keys_of_84)

lemma keys_of_96: "map mask_value arm64_instructions_96 =
     [(0xFFFFFC00, 0xDAC11800), (0xFFFFFFE0, 0xDAC13BE0), (0xFFFFFC00, 0xDAC11C00),
      (0xFFFFFFE0, 0xDAC13FE0), (0xFFFFFC00, 0xDAC11000), (0xFFFFFFFF, 0xD503219F),
      (0xFFFFFFFF, 0xD50323BF), (0xFFFFFFFF, 0xD503239F), (0xFFFFFFE0, 0xDAC133E0),
      (0xFFFFFC00, 0xDAC11400), (0xFFFFFFFF, 0xD50321DF), (0xFFFFFFFF, 0xD50323FF)]"
  by (simp only: arm64_instructions_96_def read_entries)

lemma entries_96:
  "length arm64_instructions_96 = 12" "list_all metadata_wf arm64_instructions_96"
  "map top_bits arm64_instructions_96 =
     [(2047, 1750), (2047, 1750), (2047, 1750), (2047, 1750), (2047, 1750), (2047, 1704),
      (2047, 1704), (2047, 1704), (2047, 1750), (2047, 1750), (2047, 1704), (2047, 1704)]"
  by (simp add: arm64_instructions_96_def, simp add: arm64_instructions_96_def, simp add: top_bits_mask_value keys_of_96)

lemma keys_of_108: "map mask_value arm64_instructions_108 =
     [(0xFFFFFFFF, 0xD50323DF), (0xFFFFFFE0, 0xDAC137E0), (0xFFFFF4FF, 0xD500405F),
      (0xFF000010, 0x54000000), (0xFC000000, 0x14000000), (0xFF000010, 0x54000010),
      (0xFFE08000, 0xCE200000), (0xFFE0FC00, 0x4603800), (0xFF20FC00, 0x4500B400),
      (0xFF20FC00, 0x4500B000), (0xFFFFE000, 0x65008000), (0xFFE0FC00, 0x65000000)]"
  by (simp only: arm64_instructions_108_def read_entries)

lemma entries_108:
  "length arm64_instructions_108 = 12" "list_all metadata_wf arm64_instructions_108"
  "map top_bits arm64_instructions_108 =
     [(2047, 1704), (2047, 1750), (2047, 1704), (2040, 672), (2016, 160), (2040, 672),
      (2047, 1649), (2047, 35), (2041, 552), (2041, 552), (2047, 808), (2047, 808)]"
  by (simp add: arm64_instructions_108_def, simp add: arm64_instructions_108_def, simp add: top_bits_mask_value keys_of_108)

lemma keys_of_120: "map mask_value arm64_instructions_120 =
     [(0xFFFF9C38, 0xC1E41C00), (0xFFFF9C78, 0xC1E51C00), (0xFFC003E0, 0x330003E0),
      (0xFFC003E0, 0xB34003E0), (0xFFE0FC01, 0xC120C000), (0xFFE0FC03, 0xC120C800),
      (0xFFE0FC00, 0x64202400), (0xFFFFFC00, 0x1E634000), (0xFFFFFC20, 0xC160E000),
      (0xFFFFE000, 0x658AA000), (0xBFFFFC00, 0xEA16800), (0xFFFFFC20, 0xC160E020)]"
  by (simp only: arm64_instructions_120_def read_entries)

lemma entries_120:
  "length arm64_instructions_120 = 12" "list_all metadata_wf arm64_instructions_120"
  "map top_bits arm64_instructions_120 =
     [(2047, 1551), (2047, 1551), (2046, 408), (2046, 1434), (2047, 1545), (2047, 1545),
      (2047, 801), (2047, 243), (2047, 1547), (2047, 812), (1535, 117), (2047, 1547)]"
  by (simp add: arm64_instructions_120_def, simp add: arm64_instructions_120_def, simp add: top_bits_mask_value keys_of_120)

lemma keys_of_132: "map mask_value arm64_instructions_132 =
     [(0xFFFFE000, 0x648AA000), (0xBFC0F400, 0xF40F000), (0xBFE0FC00, 0x2E40FC00),
      (0xFFE0FC00, 0x64608000), (0xFFE0FC00, 0x64604000), (0xFFF09038, 0xC1501018),
      (0xFFF09078, 0xC1509018), (0xFFF09C18, 0xC1201010), (0xFFF09C18, 0xC1301010),
      (0xFFE19C38, 0xC1A01010), (0xFFE39C78, 0xC1A11010), (0xFFC0007C, 0x3300007C)]"
  by (simp only: arm64_instructions_132_def read_entries)

lemma entries_132:
  "length arm64_instructions_132 = 12" "list_all metadata_wf arm64_instructions_132"
  "map top_bits arm64_instructions_132 =
     [(2047, 804), (1534, 122), (1535, 370), (2047, 803), (2047, 803), (2047, 1546),
      (2047, 1546), (2047, 1545), (2047, 1545), (2047, 1549), (2047, 1549), (2046, 408)]"
  by (simp add: arm64_instructions_132_def, simp add: arm64_instructions_132_def, simp add: top_bits_mask_value keys_of_132)

lemma keys_of_144: "map mask_value arm64_instructions_144 =
     [(0xFFC0007C, 0xB340007C), (0xFFC00000, 0x33000000), (0xFFC00000, 0xB3400000),
      (0xFFF0FFE1, 0xC120A100), (0xFFF0FFE3, 0xC120A900), (0xFFE1FFE1, 0xC120B100),
      (0xFFE3FFE3, 0xC120B900), (0xFFFFE000, 0x65068000), (0xFFF0FFE1, 0xC120A120),
      (0xFFF0FFE3, 0xC120A920), (0xFFE1FFE1, 0xC120B120), (0xFFE3FFE3, 0xC120B920)]"
  by (simp only: arm64_instructions_144_def read_entries)

lemma entries_144:
  "length arm64_instructions_144 = 12" "list_all metadata_wf arm64_instructions_144"
  "map top_bits arm64_instructions_144 =
     [(2046, 1434), (2046, 408), (2046, 1434), (2047, 1545), (2047, 1545), (2047, 1545),
      (2047, 1545), (2047, 808), (2047, 1545), (2047, 1545), (2047, 1545), (2047, 1545)]"
  by (simp add: arm64_instructions_144_def, simp add: arm64_instructions_144_def, simp add: top_bits_mask_value keys_of_144)

lemma keys_of_156: "map mask_value arm64_instructions_156 =
     [(0xFFFFE000, 0x65048000), (0xFFF0FFE1, 0xC120A101), (0xFFF0FFE3, 0xC120A901),
      (0xFFE1FFE1, 0xC120B101), (0xFFE3FFE3, 0xC120B901), (0xFFFFE000, 0x65078000),
      (0xFFF0FFE1, 0xC120A121), (0xFFF0FFE3, 0xC120A921), (0xFFE1FFE1, 0xC120B121),
      (0xFFE3FFE3, 0xC120B921), (0xFFFFE000, 0x65058000), (0xFFE0E000, 0x65200000)]"
  by (simp only: arm64_instructions_156_def read_entries)

lemma entries_156:
  "length arm64_instructions_156 = 12" "list_all metadata_wf arm64_instructions_156"
  "map top_bits arm64_instructions_156 =
     [(2047, 808), (2047, 1545), (2047, 1545), (2047, 1545), (2047, 1545), (2047, 808),
      (2047, 1545), (2047, 1545), (2047, 1545), (2047, 1545), (2047, 808), (2047, 809)]"
  by (simp add: arm64_instructions_156_def, simp add: arm64_instructions_156_def, simp add: top_bits_mask_value keys_of_156)

lemma keys_of_168: "map mask_value arm64_instructions_168 =
     [(0xFFA0FC00, 0x64200800), (0xFFF09030, 0xC1101020), (0xFFF09070, 0xC1109020),
      (0xFFF09C18, 0xC1601C00), (0xFFF09C18, 0xC1701C00), (0xFFE19C38, 0xC1E01008),
      (0xFFE39C78, 0xC1E11008), (0xBFC0F400, 0xFC0F000), (0xBFE0FC00, 0x2EC0FC00),
      (0xFFF01018, 0xC1801010), (0xFFF09038, 0xC1901010), (0xFFF09078, 0xC1909010)]"
  by (simp only: arm64_instructions_168_def read_entries)

lemma entries_168:
  "length arm64_instructions_168 = 12" "list_all metadata_wf arm64_instructions_168"
  "map top_bits arm64_instructions_168 =
     [(2045, 801), (2047, 1544), (2047, 1544), (2047, 1547), (2047, 1547), (2047, 1551),
      (2047, 1551), (1534, 126), (1535, 374), (2047, 1548), (2047, 1548), (2047, 1548)]"
  by (simp add: arm64_instructions_168_def, simp add: arm64_instructions_168_def, simp add: top_bits_mask_value keys_of_168)

lemma keys_of_180: "map mask_value arm64_instructions_180 =
     [(0xFFF09C18, 0xC1200C10), (0xFFF09C1C, 0xC1200810), (0xFFF09C1C, 0xC1300810),
      (0xFFE19C3C, 0xC1A00810), (0xFFE39C7C, 0xC1A10810), (0xFFE0FC00, 0x64E08000),
      (0xFFE0F400, 0x64E04000), (0xFFE0FC00, 0x64E08400), (0xFFE0F400, 0x64E04400),
      (0xFFE0E000, 0x65202000), (0xFFA0FC00, 0x64200C00), (0xFFF09030, 0xC1101030)]"
  by (simp only: arm64_instructions_180_def read_entries)

lemma entries_180:
  "length arm64_instructions_180 = 12" "list_all metadata_wf arm64_instructions_180"
  "map top_bits arm64_instructions_180 =
     [(2047, 1545), (2047, 1545), (2047, 1545), (2047, 1549), (2047, 1549), (2047, 807),
      (2047, 807), (2047, 807), (2047, 807), (2047, 809), (2045, 801), (2047, 1544)]"
  by (simp add: arm64_instructions_180_def, simp add: arm64_instructions_180_def, simp add: top_bits_mask_value keys_of_180)

lemma keys_of_192: "map mask_value arm64_instructions_192 =
     [(0xFFF09070, 0xC1109030), (0xFFF09C18, 0xC1601C08), (0xFFF09C18, 0xC1701C08),
      (0xFFE19C38, 0xC1E01018), (0xFFE39C78, 0xC1E11018), (0xFFF01018, 0xC1801018),
      (0xFFF09038, 0xC1901018), (0xFFF09078, 0xC1909018), (0xFFF09C18, 0xC1200C18),
      (0xFFF09C1C, 0xC1200818), (0xFFF09C1C, 0xC1300818), (0xFFE19C3C, 0xC1A00818)]"
  by (simp only: arm64_instructions_192_def read_entries)

lemma entries_192:
  "length arm64_instructions_192 = 12" "list_all metadata_wf arm64_instructions_192"
  "map top_bits arm64_instructions_192 =
     [(2047, 1544), (2047, 1547), (2047, 1547), (2047, 1551), (2047, 1551), (2047, 1548),
      (2047, 1548), (2047, 1548), (2047, 1545), (2047, 1545), (2047, 1545), (2047, 1549)]"
  by (simp add: arm64_instructions_192_def, simp add: arm64_instructions_192_def, simp add: top_bits_mask_value keys_of_192)

lemma keys_of_204: "map mask_value arm64_instructions_204 =
     [(0xFFE39C7C, 0xC1A10818), (0xFFE0FC00, 0x64E0A000), (0xFFE0F400, 0x64E06000),
      (0xFFE0FC00, 0x64E0A400), (0xFFE0F400, 0x64E06400), (0xFFE0FC00, 0x6E40EC00),
      (0xFFE0FC00, 0x6460E400), (0xFFE0001C, 0x81800000), (0xFFE0001E, 0x81A00008),
      (0xFFE0001C, 0x81800010), (0xFFE0001E, 0x81A00018), (0xFFFFE000, 0x65028000)]"
  by (simp only: arm64_instructions_204_def read_entries)

lemma entries_204:
  "length arm64_instructions_204 = 12" "list_all metadata_wf arm64_instructions_204"
  "map top_bits arm64_instructions_204 =
     [(2047, 1549), (2047, 807), (2047, 807), (2047, 807), (2047, 807), (2047, 882), (2047, 803),
      (2047, 1036), (2047, 1037), (2047, 1036), (2047, 1037), (2047, 808)]"
  by (simp add: arm64_instructions_204_def, simp add: arm64_instructions_204_def, simp add: top_bits_mask_value keys_of_204)

lemma keys_of_216: "map mask_value arm64_instructions_216 =
     [(0xFFE0FC00, 0x65000800), (0xFFA0FC00, 0x64202800), (0xFFFFE000, 0x65018000),
      (0xFFE0FC00, 0x65000400), (0xFFFF9C38, 0xC1E41C08), (0xFFFF9C78, 0xC1E51C08),
      (0xFFF09038, 0xC1500018), (0xFFC00000, 0x33000000), (0xFFC00000, 0xB3400000),
      (0xFF20FC00, 0x4500B800), (0xBFF89C00, 0x2F001400), (0xBFF8DC00, 0x2F009400)]"
  by (simp only: arm64_instructions_216_def read_entries)

lemma entries_216:
  "length arm64_instructions_216 = 12" "list_all metadata_wf arm64_instructions_216"
  "map top_bits arm64_instructions_216 =
     [(2047, 808), (2045, 801), (2047, 808), (2047, 808), (2047, 1551), (2047, 1551),
      (2047, 1546), (2046, 408), (2046, 1434), (2041, 552), (1535, 376), (1535, 376)]"
  by (simp add: arm64_instructions_216_def, simp add: arm64_instructions_216_def, simp add: top_bits_mask_value keys_of_216)

lemma keys_of_228: "map mask_value arm64_instructions_228 =
     [(0xBFE0FC00, 0xE601C00), (0xFFFC0000, 0x5800000), (0xFF200000, 0xA200000),
      (0xFF200000, 0x8A200000), (0xFFF0C210, 0x25004010), (0xFF3FE000, 0x41B0000),
      (0xFFE0FC00, 0x4E03000), (0xFF200000, 0x6A200000), (0xFF200000, 0xEA200000),
      (0xFFF0C210, 0x25404010), (0xBFE0FC00, 0x2EE01C00), (0xBFE0FC00, 0x2EA01C00)]"
  by (simp only: arm64_instructions_228_def read_entries)

lemma entries_228:
  "length arm64_instructions_228 = 12" "list_all metadata_wf arm64_instructions_228"
  "map top_bits arm64_instructions_228 =
     [(1535, 115), (2047, 44), (2041, 81), (2041, 1105), (2047, 296), (2041, 32), (2047, 39),
      (2041, 849), (2041, 1873), (2047, 298), (1535, 375), (1535, 373)]"
  by (simp add: arm64_instructions_228_def, simp add: arm64_instructions_228_def, simp add: top_bits_mask_value keys_of_228)

lemma keys_of_240: "map mask_value arm64_instructions_240 =
     [(0xFC000000, 0x94000000), (0xFFFFFC1F, 0xD63F0000), (0xFFFFFC00, 0xD73F0800),
      (0xFFFFFC1F, 0xD63F081F), (0xFFFFFC00, 0xD73F0C00), (0xFFFFFC1F, 0xD63F0C1F),
      (0xFFE0001C, 0x80800008), (0xFFE0001C, 0x80800018), (0xFFFFFC1F, 0xD61F0000),
      (0xFFFFFC00, 0xD71F0800), (0xFFFFFC1F, 0xD61F081F), (0xFFFFFC00, 0xD71F0C00)]"
  by (simp only: arm64_instructions_240_def read_entries)

lemma entries_240:
  "length arm64_instructions_240 = 12" "list_all metadata_wf arm64_instructions_240"
  "map top_bits arm64_instructions_240 =
     [(2016, 1184), (2047, 1713), (2047, 1721), (2047, 1713), (2047, 1721), (2047, 1713),
      (2047, 1028), (2047, 1028), (2047, 1712), (2047, 1720), (2047, 1712), (2047, 1720)]"
  by (simp add: arm64_instructions_240_def, simp add: arm64_instructions_240_def, simp add: top_bits_mask_value keys_of_240)

lemma keys_of_252: "map mask_value arm64_instructions_252 =
     [(0xFFFFFC1F, 0xD61F0C1F), (0xFFFFFF00, 0xD5097200), (0xFFE0001F, 0xD4200000),
      (0xFFFFC200, 0x25104000), (0xFFFFC210, 0x25504000), (0xFFFFC200, 0x25904000),
      (0xFFFFC210, 0x25D04000), (0xFFFFC210, 0x25184000), (0xFFFFC210, 0x25584000),
      (0xFFF0C210, 0x2500C000), (0xFFF0C210, 0x2540C000), (0xFFF0C210, 0x2500C010)]"
  by (simp only: arm64_instructions_252_def read_entries)

lemma entries_252:
  "length arm64_instructions_252 = 12" "list_all metadata_wf arm64_instructions_252"
  "map top_bits arm64_instructions_252 =
     [(2047, 1712), (2047, 1704), (2047, 1697), (2047, 296), (2047, 298), (2047, 300),
      (2047, 302), (2047, 296), (2047, 298), (2047, 296), (2047, 298), (2047, 296)]"
  by (simp add: arm64_instructions_252_def, simp add: arm64_instructions_252_def, simp add: top_bits_mask_value keys_of_252)

lemma keys_of_264: "map mask_value arm64_instructions_264 =
     [(0xFFF0C210, 0x2540C010), (0xFFE0FC00, 0x4603C00), (0xFFE0FC00, 0x4A03C00),
      (0xBFE0FC00, 0x2E601C00), (0xFFE0FC00, 0x4203C00), (0xFFFFFF3F, 0xD503241F),
      (0xFF3FF800, 0x4500D800), (0xFFE0FC00, 0x88A07C00), (0xFFE0FC00, 0xC8A07C00),
      (0xFFE0FC00, 0x88E07C00), (0xFFE0FC00, 0xC8E07C00), (0xFFE0FC00, 0x88E0FC00)]"
  by (simp only: arm64_instructions_264_def read_entries)

lemma entries_264:
  "length arm64_instructions_264 = 12" "list_all metadata_wf arm64_instructions_264"
  "map top_bits arm64_instructions_264 =
     [(2047, 298), (2047, 35), (2047, 37), (1535, 371), (2047, 33), (2047, 1704), (2041, 552),
      (2047, 1093), (2047, 1605), (2047, 1095), (2047, 1607), (2047, 1095)]"
  by (simp add: arm64_instructions_264_def, simp add: arm64_instructions_264_def, simp add: top_bits_mask_value keys_of_264)

lemma keys_of_276: "map mask_value arm64_instructions_276 =
     [(0xFFE0FC00, 0xC8E0FC00), (0xFFE0FC00, 0x88A0FC00), (0xFFE0FC00, 0xC8A0FC00),
      (0xFFE0FC00, 0x8E07C00), (0xFFE0FC00, 0x8E0FC00), (0xFFE0FC00, 0x8A07C00),
      (0xFFE0FC00, 0x8A0FC00), (0xFFE0FC00, 0x48E07C00), (0xFFE0FC00, 0x48E0FC00),
      (0xFFE0FC00, 0x48A07C00), (0xFFE0FC00, 0x48A0FC00), (0xFFE0FC00, 0x8207C00)]"
  by (simp only: arm64_instructions_276_def read_entries)

lemma entries_276:
  "length arm64_instructions_276 = 12" "list_all metadata_wf arm64_instructions_276"
  "map top_bits arm64_instructions_276 =
     [(2047, 1607), (2047, 1093), (2047, 1605), (2047, 71), (2047, 71), (2047, 69), (2047, 69),
      (2047, 583), (2047, 583), (2047, 581), (2047, 581), (2047, 65)]"
  by (simp add: arm64_instructions_276_def, simp add: arm64_instructions_276_def, simp add: top_bits_mask_value keys_of_276)

lemma keys_of_288: "map mask_value arm64_instructions_288 =
     [(0xFFE0FC00, 0x48207C00), (0xFFE0FC00, 0x8607C00), (0xFFE0FC00, 0x48607C00),
      (0xFFE0FC00, 0x860FC00), (0xFFE0FC00, 0x4860FC00), (0xFFE0FC00, 0x820FC00),
      (0xFFE0FC00, 0x4820FC00), (0xFF000000, 0x35000000), (0xFF000000, 0xB5000000),
      (0xFF000000, 0x34000000), (0xFF000000, 0xB4000000), (0xFFE00C10, 0x3A400800)]"
  by (simp only: arm64_instructions_288_def read_entries)

lemma entries_288:
  "length arm64_instructions_288 = 12" "list_all metadata_wf arm64_instructions_288"
  "map top_bits arm64_instructions_288 =
     [(2047, 577), (2047, 67), (2047, 579), (2047, 67), (2047, 579), (2047, 65), (2047, 577),
      (2040, 424), (2040, 1448), (2040, 416), (2040, 1440), (2047, 466)]"
  by (simp add: arm64_instructions_288_def, simp add: arm64_instructions_288_def, simp add: top_bits_mask_value keys_of_288)

lemma keys_of_300: "map mask_value arm64_instructions_300 =
     [(0xFFE00C10, 0xBA400800), (0xFFE00C10, 0x3A400000), (0xFFE00C10, 0xBA400000),
      (0xFFE00C10, 0x7A400800), (0xFFE00C10, 0xFA400800), (0xFFE00C10, 0x7A400000),
      (0xFFE00C10, 0xFA400000), (0xFF20F000, 0x44001000), (0xFFE0F000, 0x44A04000),
      (0xFFE0F000, 0x44E04000), (0xFFFFF4FF, 0xD500401F), (0xFFFFFFE0, 0xD50B7380)]"
  by (simp only: arm64_instructions_300_def read_entries)

lemma entries_300:
  "length arm64_instructions_300 = 12" "list_all metadata_wf arm64_instructions_300"
  "map top_bits arm64_instructions_300 =
     [(2047, 1490), (2047, 466), (2047, 1490), (2047, 978), (2047, 2002), (2047, 978),
      (2047, 2002), (2041, 544), (2047, 549), (2047, 551), (2047, 1704), (2047, 1704)]"
  by (simp add: arm64_instructions_300_def, simp add: arm64_instructions_300_def, simp add: top_bits_mask_value keys_of_300)

lemma keys_of_312: "map mask_value arm64_instructions_312 =
     [(0xFFFFFFFF, 0xD503251F), (0xFFE3FC7C, 0x1A83FC7C), (0xFFE3FC7C, 0x9A83FC7C),
      (0xFFE3FC7C, 0x5A83FC7C), (0xFFE3FC7C, 0xDA83FC7C), (0xFF3FE000, 0x530A000),
      (0xFF3FE000, 0x52A8000), (0xFF3FE000, 0x5288000), (0xFF3FE000, 0x531A000),
      (0xFF3FE000, 0x52B8000), (0xFF3FE000, 0x5298000), (0xFFFFFFFF, 0xD50322DF)]"
  by (simp only: arm64_instructions_312_def read_entries)

lemma entries_312:
  "length arm64_instructions_312 = 12" "list_all metadata_wf arm64_instructions_312"
  "map top_bits arm64_instructions_312 =
     [(2047, 1704), (2047, 212), (2047, 1236), (2047, 724), (2047, 1748), (2041, 41), (2041, 41),
      (2041, 41), (2041, 41), (2041, 41), (2041, 41), (2047, 1704)]"
  by (simp add: arm64_instructions_312_def, simp add: arm64_instructions_312_def, simp add: top_bits_mask_value keys_of_312)

lemma keys_of_324: "map mask_value arm64_instructions_324 =
     [(0xFFFFF0FF, 0xD503305F), (0xBF3FFC00, 0xE204800), (0xFFFFFC00, 0x5AC01400),
      (0xFFFFFC00, 0xDAC01400), (0xFF3FE000, 0x418A000), (0xBF3FFC00, 0x2E204800),
      (0xFFFFFC00, 0x5AC01000), (0xFFFFFC00, 0xDAC01000), (0xFF3FE000, 0x419A000),
      (0xBF20FC00, 0x2E208C00), (0xFF20FC00, 0x7E208C00), (0xBF3FFC00, 0xE209800)]"
  by (simp only: arm64_instructions_324_def read_entries)

lemma entries_324:
  "length arm64_instructions_324 = 12" "list_all metadata_wf arm64_instructions_324"
  "map top_bits arm64_instructions_324 =
     [(2047, 1704), (1529, 113), (2047, 726), (2047, 1750), (2041, 32), (1529, 369), (2047, 726),
      (2047, 1750), (2041, 32), (1529, 369), (2041, 1009), (1529, 113)]"
  by (simp add: arm64_instructions_324_def, simp add: arm64_instructions_324_def, simp add: top_bits_mask_value keys_of_324)

lemma keys_of_336: "map mask_value arm64_instructions_336 =
     [(0xFF3FFC00, 0x5E209800), (0xBF20FC00, 0xE203C00), (0xFF20FC00, 0x5E203C00),
      (0xBF3FFC00, 0x2E208800), (0xFF3FFC00, 0x7E208800), (0xBF20FC00, 0xE203400),
      (0xFF20FC00, 0x5E203400), (0xBF3FFC00, 0xE208800), (0xFF3FFC00, 0x5E208800),
      (0xBF20FC00, 0x2E203400), (0xFF20FC00, 0x7E203400), (0xBF20FC00, 0x2E203C00)]"
  by (simp only: arm64_instructions_336_def read_entries)

lemma entries_336:
  "length arm64_instructions_336 = 12" "list_all metadata_wf arm64_instructions_336"
  "map top_bits arm64_instructions_336 =
     [(2041, 753), (1529, 113), (2041, 753), (1529, 369), (2041, 1009), (1529, 113), (2041, 753),
      (1529, 113), (2041, 753), (1529, 369), (2041, 1009), (1529, 369)]"
  by (simp add: arm64_instructions_336_def, simp add: arm64_instructions_336_def, simp add: top_bits_mask_value keys_of_336)

lemma keys_of_348: "map mask_value arm64_instructions_348 =
     [(0xFF20FC00, 0x7E203C00), (0xFF20F000, 0x44002000), (0xFFE0F000, 0x44A06000),
      (0xFFE0F000, 0x44E06000), (0xBF3FFC00, 0x2E209800), (0xFF3FFC00, 0x7E209800),
      (0xBF3FFC00, 0xE20A800), (0xFF3FFC00, 0x5E20A800), (0xFFE0001F, 0x2B20001F),
      (0xFFE0001F, 0xAB20001F), (0xFF80001F, 0x3100001F), (0xFF80001F, 0xB100001F)]"
  by (simp only: arm64_instructions_348_def read_entries)

lemma entries_348:
  "length arm64_instructions_348 = 12" "list_all metadata_wf arm64_instructions_348"
  "map top_bits arm64_instructions_348 =
     [(2041, 1009), (2041, 544), (2047, 549), (2047, 551), (1529, 369), (2041, 1009),
      (1529, 113), (2041, 753), (2047, 345), (2047, 1369), (2044, 392), (2044, 1416)]"
  by (simp add: arm64_instructions_348_def, simp add: arm64_instructions_348_def, simp add: top_bits_mask_value keys_of_348)

lemma keys_of_360: "map mask_value arm64_instructions_360 =
     [(0xFF20001F, 0x2B00001F), (0xFF20001F, 0xAB00001F), (0xFFE0001F, 0x6B20001F),
      (0xFFE0001F, 0xEB20001F), (0xFF80001F, 0x7100001F), (0xFF80001F, 0xF100001F),
      (0xFF20001F, 0x6B00001F), (0xFF20001F, 0xEB00001F), (0xFF20E010, 0x25008000),
      (0xFF20E010, 0x25000000), (0xFF20E010, 0x25000010), (0xFF202010, 0x24200010)]"
  by (simp only: arm64_instructions_360_def read_entries)

lemma entries_360:
  "length arm64_instructions_360 = 12" "list_all metadata_wf arm64_instructions_360"
  "map top_bits arm64_instructions_360 =
     [(2041, 344), (2041, 1368), (2047, 857), (2047, 1881), (2044, 904), (2044, 1928),
      (2041, 856), (2041, 1880), (2041, 296), (2041, 296), (2041, 296), (2041, 289)]"
  by (simp add: arm64_instructions_360_def, simp add: arm64_instructions_360_def, simp add: top_bits_mask_value keys_of_360)

lemma keys_of_372: "map mask_value arm64_instructions_372 =
     [(0xFF202010, 0x24200000), (0xFF20E010, 0x25002010), (0xFF202010, 0x24202000),
      (0xFF202010, 0x24202010), (0xFF20E010, 0x25002000), (0xFF20E010, 0x25008010),
      (0xFF20E010, 0x24002000), (0xFF20E010, 0x24004000), (0xFF20E010, 0x24004010),
      (0xFF20E010, 0x2400C010), (0xFF20E010, 0x2400C000), (0xFF20E010, 0x24006010)]"
  by (simp only: arm64_instructions_372_def read_entries)

lemma entries_372:
  "length arm64_instructions_372 = 12" "list_all metadata_wf arm64_instructions_372"
  "map top_bits arm64_instructions_372 =
     [(2041, 289), (2041, 296), (2041, 289), (2041, 289), (2041, 296), (2041, 296), (2041, 288),
      (2041, 288), (2041, 288), (2041, 288), (2041, 288), (2041, 288)]"
  by (simp add: arm64_instructions_372_def, simp add: arm64_instructions_372_def, simp add: top_bits_mask_value keys_of_372)

lemma keys_of_384: "map mask_value arm64_instructions_384 =
     [(0xFF20E010, 0x2400E000), (0xFF20E010, 0x2400E010), (0xFF20E010, 0x24006000),
      (0xFF20E010, 0x24002010), (0xFF20E010, 0x2400A000), (0xFF20E010, 0x24008000),
      (0xFF20E010, 0x24008010), (0xFF20E010, 0x24000010), (0xFF20E010, 0x24000000),
      (0xFF20E010, 0x2400A010), (0xFF20E010, 0x24008000), (0xFF20E010, 0x24000010)]"
  by (simp only: arm64_instructions_384_def read_entries)

lemma entries_384:
  "length arm64_instructions_384 = 12" "list_all metadata_wf arm64_instructions_384"
  "map top_bits arm64_instructions_384 =
     [(2041, 288), (2041, 288), (2041, 288), (2041, 288), (2041, 288), (2041, 288), (2041, 288),
      (2041, 288), (2041, 288), (2041, 288), (2041, 288), (2041, 288)]"
  by (simp add: arm64_instructions_384_def, simp add: arm64_instructions_384_def, simp add: top_bits_mask_value keys_of_384)

lemma keys_of_396: "map mask_value arm64_instructions_396 =
     [(0xFF20E010, 0x24000000), (0xFF20E010, 0x24008010), (0xFFE0FC1F, 0xBAC0001F),
      (0xBF20FC00, 0xE208C00), (0xFF20FC00, 0x5E208C00), (0xFFE01C00, 0x5A801C00),
      (0xFFE01C00, 0xDA801C00), (0xFF3FE000, 0x41BA000), (0xFFFFFC00, 0x5AC01C00),
      (0xFFFFFC00, 0xDAC01C00), (0xBF3FFC00, 0xE205800), (0xFF3FE000, 0x41AA000)]"
  by (simp only: arm64_instructions_396_def read_entries)

lemma entries_396:
  "length arm64_instructions_396 = 12" "list_all metadata_wf arm64_instructions_396"
  "map top_bits arm64_instructions_396 =
     [(2041, 288), (2041, 288), (2047, 1494), (1529, 113), (2041, 753), (2047, 724),
      (2047, 1748), (2041, 32), (2047, 726), (2047, 1750), (1529, 113), (2041, 32)]"
  by (simp add: arm64_instructions_396_def, simp add: arm64_instructions_396_def, simp add: top_bits_mask_value keys_of_396)

lemma keys_of_408: "map mask_value arm64_instructions_408 =
     [(0xFFF0FC00, 0x420E000), (0xFFF0FC00, 0x4E0E000), (0xFFF0FC00, 0x460E000),
      (0xFFF0FC00, 0x4A0E000), (0xFF3FC200, 0x25208000), (0xFF3FFA00, 0x25208200),
      (0xFF3FE000, 0x5218000), (0xFFFFFFE0, 0xD50B73C0), (0xFFFFFFE0, 0xD50B73E0),
      (0xFF30C000, 0x5100000), (0xFF30C000, 0x5104000), (0xFF3FE000, 0x528A000)]"
  by (simp only: arm64_instructions_408_def read_entries)

lemma entries_408:
  "length arm64_instructions_408 = 12" "list_all metadata_wf arm64_instructions_408"
  "map top_bits arm64_instructions_408 =
     [(2047, 33), (2047, 39), (2047, 35), (2047, 37), (2041, 297), (2041, 297), (2041, 41),
      (2047, 1704), (2047, 1704), (2041, 40), (2041, 40), (2041, 41)]"
  by (simp add: arm64_instructions_408_def, simp add: arm64_instructions_408_def, simp add: top_bits_mask_value keys_of_408)

lemma keys_of_420: "map mask_value arm64_instructions_420 =
     [(0xFF3FE000, 0x5208000), (0x3FE0FC00, 0x19800400), (0x3FE0FC00, 0x19400400),
      (0x3FE0FC00, 0x19000400), (0x3FE0FC00, 0x1980C400), (0x3FE0FC00, 0x1940C400),
      (0x3FE0FC00, 0x1900C400), (0x3FE0FC00, 0x19808400), (0x3FE0FC00, 0x19408400),
      (0x3FE0FC00, 0x19008400), (0x3FE0FC00, 0x19802400), (0x3FE0FC00, 0x19402400)]"
  by (simp only: arm64_instructions_420_def read_entries)

lemma entries_420:
  "length arm64_instructions_420 = 12" "list_all metadata_wf arm64_instructions_420"
  "map top_bits arm64_instructions_420 =
     [(2041, 41), (511, 204), (511, 202), (511, 200), (511, 204), (511, 202), (511, 200),
      (511, 204), (511, 202), (511, 200), (511, 204), (511, 202)]"
  by (simp add: arm64_instructions_420_def, simp add: arm64_instructions_420_def, simp add: top_bits_mask_value keys_of_420)

lemma keys_of_432: "map mask_value arm64_instructions_432 =
     [(0x3FE0FC00, 0x19002400), (0x3FE0FC00, 0x1980E400), (0x3FE0FC00, 0x1940E400),
      (0x3FE0FC00, 0x1900E400), (0x3FE0FC00, 0x1980A400), (0x3FE0FC00, 0x1940A400),
      (0x3FE0FC00, 0x1900A400), (0x3FE0FC00, 0x19806400), (0x3FE0FC00, 0x19406400),
      (0x3FE0FC00, 0x19006400), (0x3FE0FC00, 0x19803400), (0x3FE0FC00, 0x19403400)]"
  by (simp only: arm64_instructions_432_def read_entries)

lemma entries_432:
  "length arm64_instructions_432 = 12" "list_all metadata_wf arm64_instructions_432"
  "map top_bits arm64_instructions_432 =
     [(511, 200), (511, 204), (511, 202), (511, 200), (511, 204), (511, 202), (511, 200),
      (511, 204), (511, 202), (511, 200), (511, 204), (511, 202)]"
  by (simp add: arm64_instructions_432_def, simp add: arm64_instructions_432_def, simp add: top_bits_mask_value keys_of_432)

lemma keys_of_444: "map mask_value arm64_instructions_444 =
     [(0x3FE0FC00, 0x19003400), (0x3FE0FC00, 0x1980F400), (0x3FE0FC00, 0x1940F400),
      (0x3FE0FC00, 0x1900F400), (0x3FE0FC00, 0x1980B400), (0x3FE0FC00, 0x1940B400),
      (0x3FE0FC00, 0x1900B400), (0x3FE0FC00, 0x19807400), (0x3FE0FC00, 0x19407400),
      (0x3FE0FC00, 0x19007400), (0x3FE0FC00, 0x19804400), (0x3FE0FC00, 0x19404400)]"
  by (simp only: arm64_instructions_444_def read_entries)

lemma entries_444:
  "length arm64_instructions_444 = 12" "list_all metadata_wf arm64_instructions_444"
  "map top_bits arm64_instructions_444 =
     [(511, 200), (511, 204), (511, 202), (511, 200), (511, 204), (511, 202), (511, 200),
      (511, 204), (511, 202), (511, 200), (511, 204), (511, 202)]"
  by (simp add: arm64_instructions_444_def, simp add: arm64_instructions_444_def, simp add: top_bits_mask_value keys_of_444)

lemma keys_of_456: "map mask_value arm64_instructions_456 =
     [(0x3FE0FC00, 0x19004400), (0x3FE0FC00, 0x19801400), (0x3FE0FC00, 0x19401400),
      (0x3FE0FC00, 0x19001400), (0x3FE0FC00, 0x1980D400), (0x3FE0FC00, 0x1940D400),
      (0x3FE0FC00, 0x1900D400), (0x3FE0FC00, 0x19809400), (0x3FE0FC00, 0x19409400),
      (0x3FE0FC00, 0x19009400), (0x3FE0FC00, 0x19805400), (0x3FE0FC00, 0x19405400)]"
  by (simp only: arm64_instructions_456_def read_entries)

lemma entries_456:
  "length arm64_instructions_456 = 12" "list_all metadata_wf arm64_instructions_456"
  "map top_bits arm64_instructions_456 =
     [(511, 200), (511, 204), (511, 202), (511, 200), (511, 204), (511, 202), (511, 200),
      (511, 204), (511, 202), (511, 200), (511, 204), (511, 202)]"
  by (simp add: arm64_instructions_456_def, simp add: arm64_instructions_456_def, simp add: top_bits_mask_value keys_of_456)

lemma keys_of_468: "map mask_value arm64_instructions_468 =
     [(0x3FE0FC00, 0x19005400), (0x3FE0FC00, 0x1D800400), (0x3FE0FC00, 0x1D400400),
      (0x3FE0FC00, 0x1D000400), (0x3FE0FC00, 0x1D80C400), (0x3FE0FC00, 0x1D40C400),
      (0x3FE0FC00, 0x1D00C400), (0x3FE0FC00, 0x1D808400), (0x3FE0FC00, 0x1D408400),
      (0x3FE0FC00, 0x1D008400), (0x3FE0FC00, 0x1D802400), (0x3FE0FC00, 0x1D402400)]"
  by (simp only: arm64_instructions_468_def read_entries)

lemma entries_468:
  "length arm64_instructions_468 = 12" "list_all metadata_wf arm64_instructions_468"
  "map top_bits arm64_instructions_468 =
     [(511, 200), (511, 236), (511, 234), (511, 232), (511, 236), (511, 234), (511, 232),
      (511, 236), (511, 234), (511, 232), (511, 236), (511, 234)]"
  by (simp add: arm64_instructions_468_def, simp add: arm64_instructions_468_def, simp add: top_bits_mask_value keys_of_468)

lemma keys_of_480: "map mask_value arm64_instructions_480 =
     [(0x3FE0FC00, 0x1D002400), (0x3FE0FC00, 0x1D80E400), (0x3FE0FC00, 0x1D40E400),
      (0x3FE0FC00, 0x1D00E400), (0x3FE0FC00, 0x1D80A400), (0x3FE0FC00, 0x1D40A400),
      (0x3FE0FC00, 0x1D00A400), (0x3FE0FC00, 0x1D806400), (0x3FE0FC00, 0x1D406400),
      (0x3FE0FC00, 0x1D006400), (0x3FE0FC00, 0x1D803400), (0x3FE0FC00, 0x1D403400)]"
  by (simp only: arm64_instructions_480_def read_entries)

lemma entries_480:
  "length arm64_instructions_480 = 12" "list_all metadata_wf arm64_instructions_480"
  "map top_bits arm64_instructions_480 =
     [(511, 232), (511, 236), (511, 234), (511, 232), (511, 236), (511, 234), (511, 232),
      (511, 236), (511, 234), (511, 232), (511, 236), (511, 234)]"
  by (simp add: arm64_instructions_480_def, simp add: arm64_instructions_480_def, simp add: top_bits_mask_value keys_of_480)

lemmas entries_part_1 =
  entries_0 entries_12 entries_24 entries_36 entries_48 entries_60 entries_72 entries_84
  entries_96 entries_108 entries_120 entries_132 entries_144 entries_156 entries_168 entries_180
  entries_192 entries_204 entries_216 entries_228 entries_240 entries_252 entries_264
  entries_276 entries_288 entries_300 entries_312 entries_324 entries_336 entries_348
  entries_360 entries_372 entries_384 entries_396 entries_408 entries_420 entries_432
  entries_444 entries_456 entries_468 entries_480

lemma arm64_part_1:
  "length (concat arm64_part_1) = 492" "list_all metadata_wf (concat arm64_part_1)"
  "sum_list (map weight (map top_bits (concat arm64_part_1))) = 1387"
  by (simp_all add: arm64_part_1_def entries_part_1 weight_def bit_Suc_0_iff)

end
