(* ===== verification/Arm64_Instructions_2.thy ===== *)
theory Arm64_Instructions_2
  imports Table_Entries
begin

text \<open>
  Entries 492 to 983 of \<open>g_bal_decoder_arm64_instructions\<close> in \<open>src/generated/decoder_table.c\<close>,
  twelve to a list; a list is named after the index of its first entry.
\<close>

definition arm64_instructions_492 :: "bal_decoder_instruction_metadata_t list" where
  "arm64_instructions_492 = [
     insn ''CPYPT'' 0x3FE0FC00 0x1D003400 OPCODE_TRAP [op_x 0 5, op_x 5 5, op_x 16 5],
     insn ''CPYETN'' 0x3FE0FC00 0x1D80F400 OPCODE_TRAP [op_x 0 5, op_x 5 5, op_x 16 5],
     insn ''CPYMTN'' 0x3FE0FC00 0x1D40F400 OPCODE_TRAP [op_x 0 5, op_x 5 5, op_x 16 5],
     insn ''CPYPTN'' 0x3FE0FC00 0x1D00F400 OPCODE_TRAP [op_x 0 5, op_x 5 5, op_x 16 5],
     insn ''CPYETRN'' 0x3FE0FC00 0x1D80B400 OPCODE_TRAP [op_x 0 5, op_x 5 5, op_x 16 5],
     insn ''CPYMTRN'' 0x3FE0FC00 0x1D40B400 OPCODE_TRAP [op_x 0 5, op_x 5 5, op_x 16 5],
     insn ''CPYPTRN'' 0x3FE0FC00 0x1D00B400 OPCODE_TRAP [op_x 0 5, op_x 5 5, op_x 16 5],
     insn ''CPYETWN'' 0x3FE0FC00 0x1D807400 OPCODE_TRAP [op_x 0 5, op_x 5 5, op_x 16 5],
     insn ''CPYMTWN'' 0x3FE0FC00 0x1D407400 OPCODE_TRAP [op_x 0 5, op_x 5 5, op_x 16 5],
     insn ''CPYPTWN'' 0x3FE0FC00 0x1D007400 OPCODE_TRAP [op_x 0 5, op_x 5 5, op_x 16 5],
     insn ''CPYEWN'' 0x3FE0FC00 0x1D804400 OPCODE_TRAP [op_x 0 5, op_x 5 5, op_x 16 5],
     insn ''CPYMWN'' 0x3FE0FC00 0x1D404400 OPCODE_TRAP [op_x 0 5, op_x 5 5, op_x 16 5]]"

definition arm64_instructions_504 :: "bal_decoder_instruction_metadata_t list" where
  "arm64_instructions_504 = [
     insn ''CPYPWN'' 0x3FE0FC00 0x1D004400 OPCODE_TRAP [op_x 0 5, op_x 5 5, op_x 16 5],
     insn ''CPYEWT'' 0x3FE0FC00 0x1D801400 OPCODE_TRAP [op_x 0 5, op_x 5 5, op_x 16 5],
     insn ''CPYMWT'' 0x3FE0FC00 0x1D401400 OPCODE_TRAP [op_x 0 5, op_x 5 5, op_x 16 5],
     insn ''CPYPWT'' 0x3FE0FC00 0x1D001400 OPCODE_TRAP [op_x 0 5, op_x 5 5, op_x 16 5],
     insn ''CPYEWTN'' 0x3FE0FC00 0x1D80D400 OPCODE_TRAP [op_x 0 5, op_x 5 5, op_x 16 5],
     insn ''CPYMWTN'' 0x3FE0FC00 0x1D40D400 OPCODE_TRAP [op_x 0 5, op_x 5 5, op_x 16 5],
     insn ''CPYPWTN'' 0x3FE0FC00 0x1D00D400 OPCODE_TRAP [op_x 0 5, op_x 5 5, op_x 16 5],
     insn ''CPYEWTRN'' 0x3FE0FC00 0x1D809400 OPCODE_TRAP [op_x 0 5, op_x 5 5, op_x 16 5],
     insn ''CPYMWTRN'' 0x3FE0FC00 0x1D409400 OPCODE_TRAP [op_x 0 5, op_x 5 5, op_x 16 5],
     insn ''CPYPWTRN'' 0x3FE0FC00 0x1D009400 OPCODE_TRAP [op_x 0 5, op_x 5 5, op_x 16 5],
     insn ''CPYEWTWN'' 0x3FE0FC00 0x1D805400 OPCODE_TRAP [op_x 0 5, op_x 5 5, op_x 16 5],
     insn ''CPYMWTWN'' 0x3FE0FC00 0x1D405400 OPCODE_TRAP [op_x 0 5, op_x 5 5, op_x 16 5]]"

definition arm64_instructions_516 :: "bal_decoder_instruction_metadata_t list" where
  "arm64_instructions_516 = [
     insn ''CPYPWTWN'' 0x3FE0FC00 0x1D005400 OPCODE_TRAP [op_x 0 5, op_x 5 5, op_x 16 5],
     insn ''CRC32B'' 0xFFE0FC00 0x1AC04000 OPCODE_TRAP [op_w 0 5, op_w 5 5, op_w 16 5],
     insn ''CRC32H'' 0xFFE0FC00 0x1AC04400 OPCODE_TRAP [op_w 0 5, op_w 5 5, op_w 16 5],
     insn ''CRC32W'' 0xFFE0FC00 0x1AC04800 OPCODE_TRAP [op_w 0 5, op_w 5 5, op_w 16 5],
     insn ''CRC32X'' 0xFFE0FC00 0x9AC04C00 OPCODE_TRAP [op_w 0 5, op_w 5 5, op_x 16 5],
     insn ''CRC32CB'' 0xFFE0FC00 0x1AC05000 OPCODE_TRAP [op_w 0 5, op_w 5 5, op_w 16 5],
     insn ''CRC32CH'' 0xFFE0FC00 0x1AC05400 OPCODE_TRAP [op_w 0 5, op_w 5 5, op_w 16 5],
     insn ''CRC32CW'' 0xFFE0FC00 0x1AC05800 OPCODE_TRAP [op_w 0 5, op_w 5 5, op_w 16 5],
     insn ''CRC32CX'' 0xFFE0FC00 0x9AC05C00 OPCODE_TRAP [op_w 0 5, op_w 5 5, op_x 16 5],
     insn ''CSDB'' 0xFFFFFFFF 0xD503229F OPCODE_TRAP [],
     insn ''CSEL'' 0xFFE00C00 0x1A800000 OPCODE_TRAP [op_w 0 5, op_w 5 5, op_cond 12 4, op_w 16 5],
     insn ''CSEL'' 0xFFE00C00 0x9A800000 OPCODE_TRAP [op_x 0 5, op_x 5 5, op_cond 12 4, op_x 16 5]]"

definition arm64_instructions_528 :: "bal_decoder_instruction_metadata_t list" where
  "arm64_instructions_528 = [
     insn ''CSINC'' 0xFFFF1FE0 0x1A9F1FE0 OPCODE_TRAP [op_w 0 5, op_cond 12 4],
     insn ''CSINC'' 0xFFFF1FE0 0x9A9F1FE0 OPCODE_TRAP [op_x 0 5, op_cond 12 4],
     insn ''CSINV'' 0xFFFF1FE0 0x5A9F1FE0 OPCODE_TRAP [op_w 0 5, op_cond 12 4],
     insn ''CSINV'' 0xFFFF1FE0 0xDA9F1FE0 OPCODE_TRAP [op_x 0 5, op_cond 12 4],
     insn ''CSINC'' 0xFFE00C00 0x1A800400 OPCODE_TRAP [op_w 0 5, op_w 5 5, op_cond 12 4, op_w 16 5],
     insn ''CSINC'' 0xFFE00C00 0x9A800400 OPCODE_TRAP [op_x 0 5, op_x 5 5, op_cond 12 4, op_x 16 5],
     insn ''CSINV'' 0xFFE00C00 0x5A800000 OPCODE_TRAP [op_w 0 5, op_w 5 5, op_cond 12 4, op_w 16 5],
     insn ''CSINV'' 0xFFE00C00 0xDA800000 OPCODE_TRAP [op_x 0 5, op_x 5 5, op_cond 12 4, op_x 16 5],
     insn ''CSNEG'' 0xFFE00C00 0x5A800400 OPCODE_TRAP [op_w 0 5, op_w 5 5, op_cond 12 4, op_w 16 5],
     insn ''CSNEG'' 0xFFE00C00 0xDA800400 OPCODE_TRAP [op_x 0 5, op_x 5 5, op_cond 12 4, op_x 16 5],
     insn ''CTERMEQ'' 0xFFA0FC1F 0x25A02000 OPCODE_TRAP [],
     insn ''CTERMNE'' 0xFFA0FC1F 0x25A02010 OPCODE_TRAP []]"

definition arm64_instructions_540 :: "bal_decoder_instruction_metadata_t list" where
  "arm64_instructions_540 = [
     insn ''CTZ'' 0xFFFFFC00 0x5AC01800 OPCODE_TRAP [op_w 0 5, op_w 5 5],
     insn ''CTZ'' 0xFFFFFC00 0xDAC01800 OPCODE_TRAP [op_x 0 5, op_x 5 5],
     insn ''SYS'' 0xFFF8F000 0xD5087000 OPCODE_TRAP [op_x 0 5],
     insn ''DCPS1'' 0xFFE0001F 0xD4A00001 OPCODE_TRAP [op_imm 5 16],
     insn ''DCPS2'' 0xFFE0001F 0xD4A00002 OPCODE_TRAP [op_imm 5 16],
     insn ''DCPS3'' 0xFFE0001F 0xD4A00003 OPCODE_TRAP [op_imm 5 16],
     insn ''DECB'' 0xFFF0FC00 0x0430E400 OPCODE_TRAP [op_x 0 5, op_imm 5 5, op_imm 16 4],
     insn ''DECD'' 0xFFF0FC00 0x04F0E400 OPCODE_TRAP [op_x 0 5, op_imm 5 5, op_imm 16 4],
     insn ''DECH'' 0xFFF0FC00 0x0470E400 OPCODE_TRAP [op_x 0 5, op_imm 5 5, op_imm 16 4],
     insn ''DECW'' 0xFFF0FC00 0x04B0E400 OPCODE_TRAP [op_x 0 5, op_imm 5 5, op_imm 16 4],
     insn ''DECD'' 0xFFF0FC00 0x04F0C400 OPCODE_TRAP [op_v 0 5, op_imm 5 5, op_imm 16 4],
     insn ''DECH'' 0xFFF0FC00 0x0470C400 OPCODE_TRAP [op_v 0 5, op_imm 5 5, op_imm 16 4]]"

definition arm64_instructions_552 :: "bal_decoder_instruction_metadata_t list" where
  "arm64_instructions_552 = [
     insn ''DECW'' 0xFFF0FC00 0x04B0C400 OPCODE_TRAP [op_v 0 5, op_imm 5 5, op_imm 16 4],
     insn ''DECP'' 0xFF3FFE00 0x252D8800 OPCODE_TRAP [op_x 0 5, op_v 5 4],
     insn ''DECP'' 0xFF3FFE00 0x252D8000 OPCODE_TRAP [op_v 0 5, op_v 5 4],
     insn ''DGH'' 0xFFFFFFFF 0xD50320DF OPCODE_TRAP [],
     insn ''DMB'' 0xFFFFF0FF 0xD50330BF OPCODE_TRAP [op_imm 8 4],
     insn ''DRPS'' 0xFFFFFFFF 0xD6BF03E0 OPCODE_TRAP [],
     insn ''DSB'' 0xFFFFF0FF 0xD503309F OPCODE_TRAP [op_imm 8 4],
     insn ''DSB'' 0xFFFFF3FF 0xD503323F OPCODE_TRAP [],
     insn ''DUP'' 0xBFE0FC00 0x0E000400 OPCODE_TRAP [op_v 0 5, op_v 5 5, op_imm 16 5],
     insn ''DUP'' 0xFFE0FC00 0x5E000400 OPCODE_TRAP [op_v 0 5, op_v 5 5, op_imm 16 5],
     insn ''DUP'' 0xBFE0FC00 0x0E000C00 OPCODE_TRAP [op_v 0 5],
     insn ''DUP'' 0xFF3FC000 0x2538C000 OPCODE_TRAP [op_v 0 5, op_imm 5 8, op_imm 13 1]]"

definition arm64_instructions_564 :: "bal_decoder_instruction_metadata_t list" where
  "arm64_instructions_564 = [
     insn ''DUP'' 0xFF3FFC00 0x05203800 OPCODE_TRAP [op_v 0 5],
     insn ''DUP'' 0xFF20FC00 0x05202000 OPCODE_TRAP [op_v 0 5, op_v 5 5, op_imm 16 5, op_imm 22 2],
     insn ''DUPM'' 0xFFFC0000 0x05C00000 OPCODE_TRAP [op_v 0 5],
     insn ''DUPQ'' 0xFFE0FC00 0x05202400 OPCODE_TRAP [op_v 0 5, op_v 5 5, op_imm 16 4, op_imm 20 1],
     insn ''SYS'' 0xFFFFFFE0 0xD50B73A0 OPCODE_TRAP [op_x 0 5],
     insn ''EON'' 0xFF200000 0x4A200000 OPCODE_TRAP [op_w 0 5, op_w 5 5, op_imm 10 6, op_w 16 5, op_imm 22 2],
     insn ''EON'' 0xFF200000 0xCA200000 OPCODE_TRAP [op_x 0 5, op_x 5 5, op_imm 10 6, op_x 16 5, op_imm 22 2],
     insn ''EOR'' 0xFFFC0000 0x05400000 OPCODE_XOR [op_v 0 5],
     insn ''EOR3'' 0xFFE08000 0xCE000000 OPCODE_XOR [op_v 0 5, op_v 5 5, op_v 10 5, op_v 16 5],
     insn ''EOR3'' 0xFFE0FC00 0x04203800 OPCODE_XOR [op_v 0 5, op_v 5 5, op_v 16 5],
     insn ''EOR'' 0xBFE0FC00 0x2E201C00 OPCODE_XOR [op_v 0 5, op_v 5 5, op_v 16 5],
     insn ''EOR'' 0xFF800000 0xD2000000 OPCODE_XOR [op_x 0 5, op_x 5 5, op_imm 10 6, op_imm 16 6, op_imm 22 1]]"

definition arm64_instructions_576 :: "bal_decoder_instruction_metadata_t list" where
  "arm64_instructions_576 = [
     insn ''EOR'' 0xFFC00000 0x52000000 OPCODE_XOR [op_w 0 5, op_w 5 5, op_imm 10 6, op_imm 16 6],
     insn ''EOR'' 0xFF200000 0x4A000000 OPCODE_XOR [op_w 0 5, op_w 5 5, op_imm 10 6, op_w 16 5, op_imm 22 2],
     insn ''EOR'' 0xFF200000 0xCA000000 OPCODE_XOR [op_x 0 5, op_x 5 5, op_imm 10 6, op_x 16 5, op_imm 22 2],
     insn ''EOR'' 0xFFF0C210 0x25004200 OPCODE_XOR [op_v 0 4, op_v 5 4, op_v 10 4, op_v 16 4],
     insn ''EOR'' 0xFF3FE000 0x04190000 OPCODE_XOR [op_v 0 5, op_v 5 5, op_v 10 3],
     insn ''EOR'' 0xFFFC0000 0x05400000 OPCODE_XOR [op_v 0 5],
     insn ''EOR'' 0xFFE0FC00 0x04A03000 OPCODE_XOR [op_v 0 5, op_v 5 5, op_v 16 5],
     insn ''EORBT'' 0xFF20FC00 0x45009000 OPCODE_XOR [op_v 0 5, op_v 5 5, op_v 16 5],
     insn ''EORQV'' 0xFF3FE000 0x041D2000 OPCODE_XOR [op_v 0 5, op_v 5 5, op_v 10 3],
     insn ''EORS'' 0xFFF0C210 0x25404200 OPCODE_XOR [op_v 0 4, op_v 5 4, op_v 10 4, op_v 16 4],
     insn ''EORTB'' 0xFF20FC00 0x45009400 OPCODE_XOR [op_v 0 5, op_v 5 5, op_v 16 5],
     insn ''EORV'' 0xFF3FE000 0x04192000 OPCODE_XOR [op_v 0 5, op_v 5 5, op_v 10 3]]"

definition arm64_instructions_588 :: "bal_decoder_instruction_metadata_t list" where
  "arm64_instructions_588 = [
     insn ''ERET'' 0xFFFFFFFF 0xD69F03E0 OPCODE_TRAP [],
     insn ''ERETAA'' 0xFFFFFFFF 0xD69F0BFF OPCODE_TRAP [],
     insn ''ERETAB'' 0xFFFFFFFF 0xD69F0FFF OPCODE_TRAP [],
     insn ''ESB'' 0xFFFFFFFF 0xD503221F OPCODE_TRAP [],
     insn ''EXT'' 0xBFE08400 0x2E000000 OPCODE_TRAP [op_v 0 5, op_v 5 5, op_v 16 5],
     insn ''EXT'' 0xFFE0E000 0x05200000 OPCODE_TRAP [op_v 0 5, op_v 5 5, op_imm 10 3, op_imm 16 5],
     insn ''EXT'' 0xFFE0E000 0x05600000 OPCODE_TRAP [op_v 0 5, op_v 5 5, op_imm 10 3, op_imm 16 5],
     insn ''EXTQ'' 0xFFF0FC00 0x05602400 OPCODE_TRAP [op_v 0 5, op_v 5 5, op_imm 16 4],
     insn ''EXTR'' 0xFFE00000 0x93C00000 OPCODE_TRAP [op_x 0 5, op_x 5 5, op_imm 10 6, op_x 16 5],
     insn ''EXTR'' 0xFFE08000 0x13800000 OPCODE_TRAP [op_w 0 5, op_w 5 5, op_imm 10 6, op_w 16 5],
     insn ''FABD'' 0xBFA0FC00 0x2EA0D400 OPCODE_TRAP [op_v 0 5, op_v 5 5, op_v 16 5],
     insn ''FABD'' 0xBFE0FC00 0x2EC01400 OPCODE_TRAP [op_v 0 5, op_v 5 5, op_v 16 5]]"

definition arm64_instructions_600 :: "bal_decoder_instruction_metadata_t list" where
  "arm64_instructions_600 = [
     insn ''FABD'' 0xFFA0FC00 0x7EA0D400 OPCODE_TRAP [op_v 0 5, op_v 5 5, op_v 16 5],
     insn ''FABD'' 0xFFE0FC00 0x7EC01400 OPCODE_TRAP [op_v 0 5, op_v 5 5, op_v 16 5],
     insn ''FABD'' 0xFF3FE000 0x65088000 OPCODE_TRAP [op_v 0 5, op_v 5 5, op_v 10 3],
     insn ''FABS'' 0xBFBFFC00 0x0EA0F800 OPCODE_TRAP [op_v 0 5, op_v 5 5],
     insn ''FABS'' 0xBFFFFC00 0x0EF8F800 OPCODE_TRAP [op_v 0 5, op_v 5 5],
     insn ''FABS'' 0xFFFFFC00 0x1E20C000 OPCODE_TRAP [op_w 0 5, op_w 5 5],
     insn ''FABS'' 0xFFFFFC00 0x1E60C000 OPCODE_TRAP [op_x 0 5, op_x 5 5],
     insn ''FABS'' 0xFFFFFC00 0x1EE0C000 OPCODE_TRAP [op_v 0 5, op_v 5 5],
     insn ''FABS'' 0xFF3FE000 0x041CA000 OPCODE_TRAP [op_v 0 5, op_v 5 5, op_v 10 3],
     insn ''FACGE'' 0xBFA0FC00 0x2E20EC00 OPCODE_TRAP [op_v 0 5, op_v 5 5, op_v 16 5],
     insn ''FACGE'' 0xBFE0FC00 0x2E402C00 OPCODE_TRAP [op_v 0 5, op_v 5 5, op_v 16 5],
     insn ''FACGE'' 0xFFA0FC00 0x7E20EC00 OPCODE_TRAP [op_v 0 5, op_v 5 5, op_v 16 5]]"

definition arm64_instructions_612 :: "bal_decoder_instruction_metadata_t list" where
  "arm64_instructions_612 = [
     insn ''FACGE'' 0xFFE0FC00 0x7E402C00 OPCODE_TRAP [op_v 0 5, op_v 5 5, op_v 16 5],
     insn ''FACGE'' 0xFF20E010 0x6500C010 OPCODE_TRAP [op_v 0 4, op_v 5 5, op_v 10 3, op_v 16 5],
     insn ''FACGT'' 0xFF20E010 0x6500E010 OPCODE_TRAP [op_v 0 4, op_v 5 5, op_v 10 3, op_v 16 5],
     insn ''FACGT'' 0xBFA0FC00 0x2EA0EC00 OPCODE_TRAP [op_v 0 5, op_v 5 5, op_v 16 5],
     insn ''FACGT'' 0xBFE0FC00 0x2EC02C00 OPCODE_TRAP [op_v 0 5, op_v 5 5, op_v 16 5],
     insn ''FACGT'' 0xFFA0FC00 0x7EA0EC00 OPCODE_TRAP [op_v 0 5, op_v 5 5, op_v 16 5],
     insn ''FACGT'' 0xFFE0FC00 0x7EC02C00 OPCODE_TRAP [op_v 0 5, op_v 5 5, op_v 16 5],
     insn ''FACGE'' 0xFF20E010 0x6500C010 OPCODE_TRAP [op_v 0 4, op_v 5 5, op_v 10 3, op_v 16 5],
     insn ''FACGT'' 0xFF20E010 0x6500E010 OPCODE_TRAP [op_v 0 4, op_v 5 5, op_v 10 3, op_v 16 5],
     insn ''FADD'' 0xBFA0FC00 0x0E20D400 OPCODE_TRAP [op_v 0 5, op_v 5 5, op_v 16 5],
     insn ''FADD'' 0xBFE0FC00 0x0E401400 OPCODE_TRAP [op_v 0 5, op_v 5 5, op_v 16 5],
     insn ''FADD'' 0xFFE0FC00 0x1E202800 OPCODE_TRAP [op_w 0 5, op_w 5 5, op_w 16 5]]"

definition arm64_instructions_624 :: "bal_decoder_instruction_metadata_t list" where
  "arm64_instructions_624 = [
     insn ''FADD'' 0xFFE0FC00 0x1E602800 OPCODE_TRAP [op_x 0 5, op_x 5 5, op_x 16 5],
     insn ''FADD'' 0xFFE0FC00 0x1EE02800 OPCODE_TRAP [op_v 0 5, op_v 5 5, op_v 16 5],
     insn ''FADD'' 0xFF3FE3C0 0x65188000 OPCODE_TRAP [op_v 0 5, op_imm 5 1, op_v 10 3],
     insn ''FADD'' 0xFF3FE000 0x65008000 OPCODE_TRAP [op_v 0 5, op_v 5 5, op_v 10 3],
     insn ''FADD'' 0xFF38FC00 0x65000000 OPCODE_TRAP [op_v 0 5, op_v 5 5, op_v 16 5],
     insn ''FADD'' 0xFFBF9C38 0xC1A01C00 OPCODE_TRAP [op_imm 0 3, op_v 6 4, op_w 13 2],
     insn ''FADD'' 0xFFBF9C78 0xC1A11C00 OPCODE_TRAP [op_imm 0 3, op_v 7 3, op_w 13 2],
     insn ''FADD'' 0xFFFF9C38 0xC1A41C00 OPCODE_TRAP [op_imm 0 3, op_v 6 4, op_w 13 2],
     insn ''FADD'' 0xFFFF9C78 0xC1A51C00 OPCODE_TRAP [op_imm 0 3, op_v 7 3, op_w 13 2],
     insn ''FADDA'' 0xFF3FE000 0x65182000 OPCODE_TRAP [op_v 0 5, op_v 5 5, op_v 10 3],
     insn ''FADDP'' 0xFFBFFC00 0x5E30D800 OPCODE_TRAP [op_v 0 5, op_v 5 5],
     insn ''FADDP'' 0xFFBFFC00 0x7E30D800 OPCODE_TRAP [op_v 0 5, op_v 5 5]]"

definition arm64_instructions_636 :: "bal_decoder_instruction_metadata_t list" where
  "arm64_instructions_636 = [
     insn ''FADDP'' 0xBFA0FC00 0x2E20D400 OPCODE_TRAP [op_v 0 5, op_v 5 5, op_v 16 5],
     insn ''FADDP'' 0xBFE0FC00 0x2E401400 OPCODE_TRAP [op_v 0 5, op_v 5 5, op_v 16 5],
     insn ''FADDP'' 0xFF3FE000 0x64108000 OPCODE_TRAP [op_v 0 5, op_v 5 5, op_v 10 3],
     insn ''FADDQV'' 0xFF3FE000 0x6410A000 OPCODE_TRAP [op_v 0 5, op_v 5 5, op_v 10 3],
     insn ''FADDV'' 0xFF3FE000 0x65002000 OPCODE_TRAP [op_v 0 5, op_v 5 5, op_v 10 3],
     insn ''FCADD'' 0xBF20EC00 0x2E00E400 OPCODE_TRAP [op_v 0 5, op_v 5 5, op_v 16 5],
     insn ''FCADD'' 0xFF3EE000 0x64008000 OPCODE_TRAP [op_v 0 5, op_v 5 5, op_v 10 3],
     insn ''FCCMP'' 0xFFE00C10 0x1E200400 OPCODE_TRAP [op_imm 0 4, op_w 5 5, op_cond 12 4, op_w 16 5],
     insn ''FCCMP'' 0xFFE00C10 0x1E600400 OPCODE_TRAP [op_imm 0 4, op_x 5 5, op_cond 12 4, op_x 16 5],
     insn ''FCCMP'' 0xFFE00C10 0x1EE00400 OPCODE_TRAP [op_imm 0 4, op_v 5 5, op_cond 12 4, op_v 16 5],
     insn ''FCCMPE'' 0xFFE00C10 0x1E200410 OPCODE_TRAP [op_imm 0 4, op_w 5 5, op_cond 12 4, op_w 16 5],
     insn ''FCCMPE'' 0xFFE00C10 0x1E600410 OPCODE_TRAP [op_imm 0 4, op_x 5 5, op_cond 12 4, op_x 16 5]]"

definition arm64_instructions_648 :: "bal_decoder_instruction_metadata_t list" where
  "arm64_instructions_648 = [
     insn ''FCCMPE'' 0xFFE00C10 0x1EE00410 OPCODE_TRAP [op_imm 0 4, op_v 5 5, op_cond 12 4, op_v 16 5],
     insn ''FCLAMP'' 0xFF38FC01 0xC120C000 OPCODE_TRAP [op_v 1 4, op_v 5 5, op_v 16 5],
     insn ''FCLAMP'' 0xFF38FC03 0xC120C800 OPCODE_TRAP [op_v 2 3, op_v 5 5, op_v 16 5],
     insn ''FCLAMP'' 0xFF38FC00 0x64202400 OPCODE_TRAP [op_v 0 5, op_v 5 5, op_v 16 5],
     insn ''FCMEQ'' 0xBFA0FC00 0x0E20E400 OPCODE_TRAP [op_v 0 5, op_v 5 5, op_v 16 5],
     insn ''FCMEQ'' 0xBFE0FC00 0x0E402400 OPCODE_TRAP [op_v 0 5, op_v 5 5, op_v 16 5],
     insn ''FCMEQ'' 0xFFA0FC00 0x5E20E400 OPCODE_TRAP [op_v 0 5, op_v 5 5, op_v 16 5],
     insn ''FCMEQ'' 0xFFE0FC00 0x5E402400 OPCODE_TRAP [op_v 0 5, op_v 5 5, op_v 16 5],
     insn ''FCMEQ'' 0xBFBFFC00 0x0EA0D800 OPCODE_TRAP [op_v 0 5, op_v 5 5],
     insn ''FCMEQ'' 0xBFFFFC00 0x0EF8D800 OPCODE_TRAP [op_v 0 5, op_v 5 5],
     insn ''FCMEQ'' 0xFFBFFC00 0x5EA0D800 OPCODE_TRAP [op_v 0 5, op_v 5 5],
     insn ''FCMEQ'' 0xFFFFFC00 0x5EF8D800 OPCODE_TRAP [op_v 0 5, op_v 5 5]]"

definition arm64_instructions_660 :: "bal_decoder_instruction_metadata_t list" where
  "arm64_instructions_660 = [
     insn ''FCMEQ'' 0xFF3FE010 0x65122000 OPCODE_TRAP [op_v 0 4, op_v 5 5, op_v 10 3],
     insn ''FCMGE'' 0xFF3FE010 0x65102000 OPCODE_TRAP [op_v 0 4, op_v 5 5, op_v 10 3],
     insn ''FCMGT'' 0xFF3FE010 0x65102010 OPCODE_TRAP [op_v 0 4, op_v 5 5, op_v 10 3],
     insn ''FCMLE'' 0xFF3FE010 0x65112010 OPCODE_TRAP [op_v 0 4, op_v 5 5, op_v 10 3],
     insn ''FCMLT'' 0xFF3FE010 0x65112000 OPCODE_TRAP [op_v 0 4, op_v 5 5, op_v 10 3],
     insn ''FCMNE'' 0xFF3FE010 0x65132000 OPCODE_TRAP [op_v 0 4, op_v 5 5, op_v 10 3],
     insn ''FCMEQ'' 0xFF20E010 0x65006000 OPCODE_TRAP [op_v 0 4, op_v 5 5, op_v 10 3, op_v 16 5],
     insn ''FCMGE'' 0xFF20E010 0x65004000 OPCODE_TRAP [op_v 0 4, op_v 5 5, op_v 10 3, op_v 16 5],
     insn ''FCMGT'' 0xFF20E010 0x65004010 OPCODE_TRAP [op_v 0 4, op_v 5 5, op_v 10 3, op_v 16 5],
     insn ''FCMNE'' 0xFF20E010 0x65006010 OPCODE_TRAP [op_v 0 4, op_v 5 5, op_v 10 3, op_v 16 5],
     insn ''FCMUO'' 0xFF20E010 0x6500C000 OPCODE_TRAP [op_v 0 4, op_v 5 5, op_v 10 3, op_v 16 5],
     insn ''FCMGE'' 0xBFA0FC00 0x2E20E400 OPCODE_TRAP [op_v 0 5, op_v 5 5, op_v 16 5]]"

definition arm64_instructions_672 :: "bal_decoder_instruction_metadata_t list" where
  "arm64_instructions_672 = [
     insn ''FCMGE'' 0xBFE0FC00 0x2E402400 OPCODE_TRAP [op_v 0 5, op_v 5 5, op_v 16 5],
     insn ''FCMGE'' 0xFFA0FC00 0x7E20E400 OPCODE_TRAP [op_v 0 5, op_v 5 5, op_v 16 5],
     insn ''FCMGE'' 0xFFE0FC00 0x7E402400 OPCODE_TRAP [op_v 0 5, op_v 5 5, op_v 16 5],
     insn ''FCMGE'' 0xBFBFFC00 0x2EA0C800 OPCODE_TRAP [op_v 0 5, op_v 5 5],
     insn ''FCMGE'' 0xBFFFFC00 0x2EF8C800 OPCODE_TRAP [op_v 0 5, op_v 5 5],
     insn ''FCMGE'' 0xFFBFFC00 0x7EA0C800 OPCODE_TRAP [op_v 0 5, op_v 5 5],
     insn ''FCMGE'' 0xFFFFFC00 0x7EF8C800 OPCODE_TRAP [op_v 0 5, op_v 5 5],
     insn ''FCMGT'' 0xBFA0FC00 0x2EA0E400 OPCODE_TRAP [op_v 0 5, op_v 5 5, op_v 16 5],
     insn ''FCMGT'' 0xBFE0FC00 0x2EC02400 OPCODE_TRAP [op_v 0 5, op_v 5 5, op_v 16 5],
     insn ''FCMGT'' 0xFFA0FC00 0x7EA0E400 OPCODE_TRAP [op_v 0 5, op_v 5 5, op_v 16 5],
     insn ''FCMGT'' 0xFFE0FC00 0x7EC02400 OPCODE_TRAP [op_v 0 5, op_v 5 5, op_v 16 5],
     insn ''FCMGT'' 0xBFBFFC00 0x0EA0C800 OPCODE_TRAP [op_v 0 5, op_v 5 5]]"

definition arm64_instructions_684 :: "bal_decoder_instruction_metadata_t list" where
  "arm64_instructions_684 = [
     insn ''FCMGT'' 0xBFFFFC00 0x0EF8C800 OPCODE_TRAP [op_v 0 5, op_v 5 5],
     insn ''FCMGT'' 0xFFBFFC00 0x5EA0C800 OPCODE_TRAP [op_v 0 5, op_v 5 5],
     insn ''FCMGT'' 0xFFFFFC00 0x5EF8C800 OPCODE_TRAP [op_v 0 5, op_v 5 5],
     insn ''FCMLA'' 0xBFC09400 0x2F401000 OPCODE_TRAP [op_v 0 5, op_v 5 5, op_imm 11 1, op_v 16 4, op_v 20 1],
     insn ''FCMLA'' 0xBFC09400 0x2F801000 OPCODE_TRAP [op_v 0 5, op_v 5 5, op_imm 11 1, op_v 16 4, op_v 20 1],
     insn ''FCMLA'' 0xBF20E400 0x2E00C400 OPCODE_TRAP [op_v 0 5, op_v 5 5, op_v 16 5],
     insn ''FCMLA'' 0xFF208000 0x64000000 OPCODE_TRAP [op_v 0 5, op_v 5 5, op_v 10 3, op_v 16 5],
     insn ''FCMLA'' 0xFFE0F000 0x64A01000 OPCODE_TRAP [op_v 0 5, op_v 5 5, op_v 16 3, op_imm 19 2],
     insn ''FCMLA'' 0xFFE0F000 0x64E01000 OPCODE_TRAP [op_v 0 5, op_v 5 5, op_v 16 4, op_imm 20 1],
     insn ''FCMLE'' 0xBFBFFC00 0x2EA0D800 OPCODE_TRAP [op_v 0 5, op_v 5 5],
     insn ''FCMLE'' 0xBFFFFC00 0x2EF8D800 OPCODE_TRAP [op_v 0 5, op_v 5 5],
     insn ''FCMLE'' 0xFFBFFC00 0x7EA0D800 OPCODE_TRAP [op_v 0 5, op_v 5 5]]"

definition arm64_instructions_696 :: "bal_decoder_instruction_metadata_t list" where
  "arm64_instructions_696 = [
     insn ''FCMLE'' 0xFFFFFC00 0x7EF8D800 OPCODE_TRAP [op_v 0 5, op_v 5 5],
     insn ''FCMGE'' 0xFF20E010 0x65004000 OPCODE_TRAP [op_v 0 4, op_v 5 5, op_v 10 3, op_v 16 5],
     insn ''FCMLT'' 0xBFBFFC00 0x0EA0E800 OPCODE_TRAP [op_v 0 5, op_v 5 5],
     insn ''FCMLT'' 0xBFFFFC00 0x0EF8E800 OPCODE_TRAP [op_v 0 5, op_v 5 5],
     insn ''FCMLT'' 0xFFBFFC00 0x5EA0E800 OPCODE_TRAP [op_v 0 5, op_v 5 5],
     insn ''FCMLT'' 0xFFFFFC00 0x5EF8E800 OPCODE_TRAP [op_v 0 5, op_v 5 5],
     insn ''FCMGT'' 0xFF20E010 0x65004010 OPCODE_TRAP [op_v 0 4, op_v 5 5, op_v 10 3, op_v 16 5],
     insn ''FCMP'' 0xFFE0FC1F 0x1E202000 OPCODE_TRAP [op_w 5 5, op_w 16 5],
     insn ''FCMP'' 0xFFE0FC1F 0x1E202008 OPCODE_TRAP [op_w 5 5],
     insn ''FCMP'' 0xFFE0FC1F 0x1E602000 OPCODE_TRAP [op_x 5 5, op_x 16 5],
     insn ''FCMP'' 0xFFE0FC1F 0x1E602008 OPCODE_TRAP [op_x 5 5],
     insn ''FCMP'' 0xFFE0FC1F 0x1EE02000 OPCODE_TRAP [op_v 5 5, op_v 16 5]]"

definition arm64_instructions_708 :: "bal_decoder_instruction_metadata_t list" where
  "arm64_instructions_708 = [
     insn ''FCMP'' 0xFFE0FC1F 0x1EE02008 OPCODE_TRAP [op_v 5 5],
     insn ''FCMPE'' 0xFFE0FC1F 0x1E202010 OPCODE_TRAP [op_w 5 5, op_w 16 5],
     insn ''FCMPE'' 0xFFE0FC1F 0x1E202018 OPCODE_TRAP [op_w 5 5],
     insn ''FCMPE'' 0xFFE0FC1F 0x1E602010 OPCODE_TRAP [op_x 5 5, op_x 16 5],
     insn ''FCMPE'' 0xFFE0FC1F 0x1E602018 OPCODE_TRAP [op_x 5 5],
     insn ''FCMPE'' 0xFFE0FC1F 0x1EE02010 OPCODE_TRAP [op_v 5 5, op_v 16 5],
     insn ''FCMPE'' 0xFFE0FC1F 0x1EE02018 OPCODE_TRAP [op_v 5 5],
     insn ''FCPY'' 0xFF30E000 0x0510C000 OPCODE_TRAP [op_v 0 5, op_imm 5 8, op_v 16 4],
     insn ''FCSEL'' 0xFFE00C00 0x1E200C00 OPCODE_TRAP [op_w 0 5, op_w 5 5, op_cond 12 4, op_w 16 5],
     insn ''FCSEL'' 0xFFE00C00 0x1E600C00 OPCODE_TRAP [op_x 0 5, op_x 5 5, op_cond 12 4, op_x 16 5],
     insn ''FCSEL'' 0xFFE00C00 0x1EE00C00 OPCODE_TRAP [op_v 0 5, op_v 5 5, op_cond 12 4, op_v 16 5],
     insn ''FCVT'' 0xFFFFFC00 0x1E22C000 OPCODE_TRAP [op_x 0 5, op_w 5 5]]"

definition arm64_instructions_720 :: "bal_decoder_instruction_metadata_t list" where
  "arm64_instructions_720 = [
     insn ''FCVT'' 0xFFFFFC00 0x1E23C000 OPCODE_TRAP [op_v 0 5, op_w 5 5],
     insn ''FCVT'' 0xFFFFFC00 0x1E624000 OPCODE_TRAP [op_w 0 5, op_x 5 5],
     insn ''FCVT'' 0xFFFFFC00 0x1E63C000 OPCODE_TRAP [op_v 0 5, op_x 5 5],
     insn ''FCVT'' 0xFFFFFC00 0x1EE24000 OPCODE_TRAP [op_w 0 5, op_v 5 5],
     insn ''FCVT'' 0xFFFFFC00 0x1EE2C000 OPCODE_TRAP [op_x 0 5, op_v 5 5],
     insn ''FCVT'' 0xFFFFFC01 0xC1A0E000 OPCODE_TRAP [op_v 1 4, op_v 5 5],
     insn ''FCVT'' 0xFFFFFC20 0xC120E000 OPCODE_TRAP [op_v 0 5, op_v 6 4],
     insn ''FCVT'' 0xFFFFE000 0x6588A000 OPCODE_TRAP [op_v 0 5, op_v 5 5, op_v 10 3],
     insn ''FCVT'' 0xFFFFE000 0x6589A000 OPCODE_TRAP [op_v 0 5, op_v 5 5, op_v 10 3],
     insn ''FCVT'' 0xFFFFE000 0x65C8A000 OPCODE_TRAP [op_v 0 5, op_v 5 5, op_v 10 3],
     insn ''FCVT'' 0xFFFFE000 0x65C9A000 OPCODE_TRAP [op_v 0 5, op_v 5 5, op_v 10 3],
     insn ''FCVT'' 0xFFFFE000 0x65CAA000 OPCODE_TRAP [op_v 0 5, op_v 5 5, op_v 10 3]]"

definition arm64_instructions_732 :: "bal_decoder_instruction_metadata_t list" where
  "arm64_instructions_732 = [
     insn ''FCVT'' 0xFFFFE000 0x65CBA000 OPCODE_TRAP [op_v 0 5, op_v 5 5, op_v 10 3],
     insn ''FCVTAS'' 0xBFBFFC00 0x0E21C800 OPCODE_TRAP [op_v 0 5, op_v 5 5],
     insn ''FCVTAS'' 0xBFFFFC00 0x0E79C800 OPCODE_TRAP [op_v 0 5, op_v 5 5],
     insn ''FCVTAS'' 0xFFBFFC00 0x5E21C800 OPCODE_TRAP [op_v 0 5, op_v 5 5],
     insn ''FCVTAS'' 0xFFFFFC00 0x5E79C800 OPCODE_TRAP [op_v 0 5, op_v 5 5],
     insn ''FCVTAS'' 0xFFFFFC00 0x1E240000 OPCODE_TRAP [op_w 0 5, op_w 5 5],
     insn ''FCVTAS'' 0xFFFFFC00 0x1E640000 OPCODE_TRAP [op_w 0 5, op_x 5 5],
     insn ''FCVTAS'' 0xFFFFFC00 0x1EE40000 OPCODE_TRAP [op_w 0 5, op_v 5 5],
     insn ''FCVTAS'' 0xFFFFFC00 0x9E240000 OPCODE_TRAP [op_x 0 5, op_w 5 5],
     insn ''FCVTAS'' 0xFFFFFC00 0x9E640000 OPCODE_TRAP [op_x 0 5, op_x 5 5],
     insn ''FCVTAS'' 0xFFFFFC00 0x9EE40000 OPCODE_TRAP [op_x 0 5, op_v 5 5],
     insn ''FCVTAU'' 0xBFBFFC00 0x2E21C800 OPCODE_TRAP [op_v 0 5, op_v 5 5]]"

definition arm64_instructions_744 :: "bal_decoder_instruction_metadata_t list" where
  "arm64_instructions_744 = [
     insn ''FCVTAU'' 0xBFFFFC00 0x2E79C800 OPCODE_TRAP [op_v 0 5, op_v 5 5],
     insn ''FCVTAU'' 0xFFBFFC00 0x7E21C800 OPCODE_TRAP [op_v 0 5, op_v 5 5],
     insn ''FCVTAU'' 0xFFFFFC00 0x7E79C800 OPCODE_TRAP [op_v 0 5, op_v 5 5],
     insn ''FCVTAU'' 0xFFFFFC00 0x1E250000 OPCODE_TRAP [op_w 0 5, op_w 5 5],
     insn ''FCVTAU'' 0xFFFFFC00 0x1E650000 OPCODE_TRAP [op_w 0 5, op_x 5 5],
     insn ''FCVTAU'' 0xFFFFFC00 0x1EE50000 OPCODE_TRAP [op_w 0 5, op_v 5 5],
     insn ''FCVTAU'' 0xFFFFFC00 0x9E250000 OPCODE_TRAP [op_x 0 5, op_w 5 5],
     insn ''FCVTAU'' 0xFFFFFC00 0x9E650000 OPCODE_TRAP [op_x 0 5, op_x 5 5],
     insn ''FCVTAU'' 0xFFFFFC00 0x9EE50000 OPCODE_TRAP [op_x 0 5, op_v 5 5],
     insn ''FCVTL'' 0xBFBFFC00 0x0E217800 OPCODE_TRAP [op_v 0 5, op_v 5 5, op_cond 30 1],
     insn ''FCVTL'' 0xFFFFFC01 0xC1A0E001 OPCODE_TRAP [op_v 1 4, op_v 5 5],
     insn ''FCVTLT'' 0xFFFFE000 0x6489A000 OPCODE_TRAP [op_v 0 5, op_v 5 5, op_v 10 3]]"

definition arm64_instructions_756 :: "bal_decoder_instruction_metadata_t list" where
  "arm64_instructions_756 = [
     insn ''FCVTLT'' 0xFFFFE000 0x64CBA000 OPCODE_TRAP [op_v 0 5, op_v 5 5, op_v 10 3],
     insn ''FCVTMS'' 0xBFBFFC00 0x0E21B800 OPCODE_TRAP [op_v 0 5, op_v 5 5],
     insn ''FCVTMS'' 0xBFFFFC00 0x0E79B800 OPCODE_TRAP [op_v 0 5, op_v 5 5],
     insn ''FCVTMS'' 0xFFBFFC00 0x5E21B800 OPCODE_TRAP [op_v 0 5, op_v 5 5],
     insn ''FCVTMS'' 0xFFFFFC00 0x5E79B800 OPCODE_TRAP [op_v 0 5, op_v 5 5],
     insn ''FCVTMS'' 0xFFFFFC00 0x1E300000 OPCODE_TRAP [op_w 0 5, op_w 5 5],
     insn ''FCVTMS'' 0xFFFFFC00 0x1E700000 OPCODE_TRAP [op_w 0 5, op_x 5 5],
     insn ''FCVTMS'' 0xFFFFFC00 0x1EF00000 OPCODE_TRAP [op_w 0 5, op_v 5 5],
     insn ''FCVTMS'' 0xFFFFFC00 0x9E300000 OPCODE_TRAP [op_x 0 5, op_w 5 5],
     insn ''FCVTMS'' 0xFFFFFC00 0x9E700000 OPCODE_TRAP [op_x 0 5, op_x 5 5],
     insn ''FCVTMS'' 0xFFFFFC00 0x9EF00000 OPCODE_TRAP [op_x 0 5, op_v 5 5],
     insn ''FCVTMU'' 0xBFBFFC00 0x2E21B800 OPCODE_TRAP [op_v 0 5, op_v 5 5]]"

definition arm64_instructions_768 :: "bal_decoder_instruction_metadata_t list" where
  "arm64_instructions_768 = [
     insn ''FCVTMU'' 0xBFFFFC00 0x2E79B800 OPCODE_TRAP [op_v 0 5, op_v 5 5],
     insn ''FCVTMU'' 0xFFBFFC00 0x7E21B800 OPCODE_TRAP [op_v 0 5, op_v 5 5],
     insn ''FCVTMU'' 0xFFFFFC00 0x7E79B800 OPCODE_TRAP [op_v 0 5, op_v 5 5],
     insn ''FCVTMU'' 0xFFFFFC00 0x1E310000 OPCODE_TRAP [op_w 0 5, op_w 5 5],
     insn ''FCVTMU'' 0xFFFFFC00 0x1E710000 OPCODE_TRAP [op_w 0 5, op_x 5 5],
     insn ''FCVTMU'' 0xFFFFFC00 0x1EF10000 OPCODE_TRAP [op_w 0 5, op_v 5 5],
     insn ''FCVTMU'' 0xFFFFFC00 0x9E310000 OPCODE_TRAP [op_x 0 5, op_w 5 5],
     insn ''FCVTMU'' 0xFFFFFC00 0x9E710000 OPCODE_TRAP [op_x 0 5, op_x 5 5],
     insn ''FCVTMU'' 0xFFFFFC00 0x9EF10000 OPCODE_TRAP [op_x 0 5, op_v 5 5],
     insn ''FCVTN'' 0xBFBFFC00 0x0E216800 OPCODE_TRAP [op_v 0 5, op_v 5 5, op_cond 30 1],
     insn ''FCVTN'' 0xFFFFFC20 0xC120E020 OPCODE_TRAP [op_v 0 5, op_v 6 4],
     insn ''FCVTNS'' 0xBFBFFC00 0x0E21A800 OPCODE_TRAP [op_v 0 5, op_v 5 5]]"

definition arm64_instructions_780 :: "bal_decoder_instruction_metadata_t list" where
  "arm64_instructions_780 = [
     insn ''FCVTNS'' 0xBFFFFC00 0x0E79A800 OPCODE_TRAP [op_v 0 5, op_v 5 5],
     insn ''FCVTNS'' 0xFFBFFC00 0x5E21A800 OPCODE_TRAP [op_v 0 5, op_v 5 5],
     insn ''FCVTNS'' 0xFFFFFC00 0x5E79A800 OPCODE_TRAP [op_v 0 5, op_v 5 5],
     insn ''FCVTNS'' 0xFFFFFC00 0x1E200000 OPCODE_TRAP [op_w 0 5, op_w 5 5],
     insn ''FCVTNS'' 0xFFFFFC00 0x1E600000 OPCODE_TRAP [op_w 0 5, op_x 5 5],
     insn ''FCVTNS'' 0xFFFFFC00 0x1EE00000 OPCODE_TRAP [op_w 0 5, op_v 5 5],
     insn ''FCVTNS'' 0xFFFFFC00 0x9E200000 OPCODE_TRAP [op_x 0 5, op_w 5 5],
     insn ''FCVTNS'' 0xFFFFFC00 0x9E600000 OPCODE_TRAP [op_x 0 5, op_x 5 5],
     insn ''FCVTNS'' 0xFFFFFC00 0x9EE00000 OPCODE_TRAP [op_x 0 5, op_v 5 5],
     insn ''FCVTNT'' 0xFFFFE000 0x6488A000 OPCODE_TRAP [op_v 0 5, op_v 5 5, op_v 10 3],
     insn ''FCVTNT'' 0xFFFFE000 0x64CAA000 OPCODE_TRAP [op_v 0 5, op_v 5 5, op_v 10 3],
     insn ''FCVTNU'' 0xBFBFFC00 0x2E21A800 OPCODE_TRAP [op_v 0 5, op_v 5 5]]"

definition arm64_instructions_792 :: "bal_decoder_instruction_metadata_t list" where
  "arm64_instructions_792 = [
     insn ''FCVTNU'' 0xBFFFFC00 0x2E79A800 OPCODE_TRAP [op_v 0 5, op_v 5 5],
     insn ''FCVTNU'' 0xFFBFFC00 0x7E21A800 OPCODE_TRAP [op_v 0 5, op_v 5 5],
     insn ''FCVTNU'' 0xFFFFFC00 0x7E79A800 OPCODE_TRAP [op_v 0 5, op_v 5 5],
     insn ''FCVTNU'' 0xFFFFFC00 0x1E210000 OPCODE_TRAP [op_w 0 5, op_w 5 5],
     insn ''FCVTNU'' 0xFFFFFC00 0x1E610000 OPCODE_TRAP [op_w 0 5, op_x 5 5],
     insn ''FCVTNU'' 0xFFFFFC00 0x1EE10000 OPCODE_TRAP [op_w 0 5, op_v 5 5],
     insn ''FCVTNU'' 0xFFFFFC00 0x9E210000 OPCODE_TRAP [op_x 0 5, op_w 5 5],
     insn ''FCVTNU'' 0xFFFFFC00 0x9E610000 OPCODE_TRAP [op_x 0 5, op_x 5 5],
     insn ''FCVTNU'' 0xFFFFFC00 0x9EE10000 OPCODE_TRAP [op_x 0 5, op_v 5 5],
     insn ''FCVTPS'' 0xBFBFFC00 0x0EA1A800 OPCODE_TRAP [op_v 0 5, op_v 5 5],
     insn ''FCVTPS'' 0xBFFFFC00 0x0EF9A800 OPCODE_TRAP [op_v 0 5, op_v 5 5],
     insn ''FCVTPS'' 0xFFBFFC00 0x5EA1A800 OPCODE_TRAP [op_v 0 5, op_v 5 5]]"

definition arm64_instructions_804 :: "bal_decoder_instruction_metadata_t list" where
  "arm64_instructions_804 = [
     insn ''FCVTPS'' 0xFFFFFC00 0x5EF9A800 OPCODE_TRAP [op_v 0 5, op_v 5 5],
     insn ''FCVTPS'' 0xFFFFFC00 0x1E280000 OPCODE_TRAP [op_w 0 5, op_w 5 5],
     insn ''FCVTPS'' 0xFFFFFC00 0x1E680000 OPCODE_TRAP [op_w 0 5, op_x 5 5],
     insn ''FCVTPS'' 0xFFFFFC00 0x1EE80000 OPCODE_TRAP [op_w 0 5, op_v 5 5],
     insn ''FCVTPS'' 0xFFFFFC00 0x9E280000 OPCODE_TRAP [op_x 0 5, op_w 5 5],
     insn ''FCVTPS'' 0xFFFFFC00 0x9E680000 OPCODE_TRAP [op_x 0 5, op_x 5 5],
     insn ''FCVTPS'' 0xFFFFFC00 0x9EE80000 OPCODE_TRAP [op_x 0 5, op_v 5 5],
     insn ''FCVTPU'' 0xBFBFFC00 0x2EA1A800 OPCODE_TRAP [op_v 0 5, op_v 5 5],
     insn ''FCVTPU'' 0xBFFFFC00 0x2EF9A800 OPCODE_TRAP [op_v 0 5, op_v 5 5],
     insn ''FCVTPU'' 0xFFBFFC00 0x7EA1A800 OPCODE_TRAP [op_v 0 5, op_v 5 5],
     insn ''FCVTPU'' 0xFFFFFC00 0x7EF9A800 OPCODE_TRAP [op_v 0 5, op_v 5 5],
     insn ''FCVTPU'' 0xFFFFFC00 0x1E290000 OPCODE_TRAP [op_w 0 5, op_w 5 5]]"

definition arm64_instructions_816 :: "bal_decoder_instruction_metadata_t list" where
  "arm64_instructions_816 = [
     insn ''FCVTPU'' 0xFFFFFC00 0x1E690000 OPCODE_TRAP [op_w 0 5, op_x 5 5],
     insn ''FCVTPU'' 0xFFFFFC00 0x1EE90000 OPCODE_TRAP [op_w 0 5, op_v 5 5],
     insn ''FCVTPU'' 0xFFFFFC00 0x9E290000 OPCODE_TRAP [op_x 0 5, op_w 5 5],
     insn ''FCVTPU'' 0xFFFFFC00 0x9E690000 OPCODE_TRAP [op_x 0 5, op_x 5 5],
     insn ''FCVTPU'' 0xFFFFFC00 0x9EE90000 OPCODE_TRAP [op_x 0 5, op_v 5 5],
     insn ''FCVTX'' 0xFFFFE000 0x650AA000 OPCODE_TRAP [op_v 0 5, op_v 5 5, op_v 10 3],
     insn ''FCVTXN'' 0xBFBFFC00 0x2E216800 OPCODE_TRAP [op_v 0 5, op_v 5 5, op_cond 30 1],
     insn ''FCVTXN'' 0xFFBFFC00 0x7E216800 OPCODE_TRAP [op_v 0 5, op_v 5 5],
     insn ''FCVTXNT'' 0xFFFFE000 0x640AA000 OPCODE_TRAP [op_v 0 5, op_v 5 5, op_v 10 3],
     insn ''FCVTZS'' 0xBF8FFC00 0x0F00FC00 OPCODE_TRAP [op_v 0 5, op_v 5 5, op_v 16 3, op_v 19 4, op_v 30 1],
     insn ''FCVTZS'' 0xFF8FFC00 0x5F00FC00 OPCODE_TRAP [op_v 0 5, op_v 5 5],
     insn ''FCVTZS'' 0xBFBFFC00 0x0EA1B800 OPCODE_TRAP [op_v 0 5, op_v 5 5]]"

definition arm64_instructions_828 :: "bal_decoder_instruction_metadata_t list" where
  "arm64_instructions_828 = [
     insn ''FCVTZS'' 0xBFFFFC00 0x0EF9B800 OPCODE_TRAP [op_v 0 5, op_v 5 5],
     insn ''FCVTZS'' 0xFFBFFC00 0x5EA1B800 OPCODE_TRAP [op_v 0 5, op_v 5 5],
     insn ''FCVTZS'' 0xFFFFFC00 0x5EF9B800 OPCODE_TRAP [op_v 0 5, op_v 5 5],
     insn ''FCVTZS'' 0xFFFF0000 0x1E180000 OPCODE_TRAP [op_w 0 5, op_w 5 5],
     insn ''FCVTZS'' 0xFFFF0000 0x1E580000 OPCODE_TRAP [op_w 0 5, op_x 5 5],
     insn ''FCVTZS'' 0xFFFF0000 0x1ED80000 OPCODE_TRAP [op_w 0 5, op_v 5 5],
     insn ''FCVTZS'' 0xFFFF0000 0x9E180000 OPCODE_TRAP [op_x 0 5, op_w 5 5],
     insn ''FCVTZS'' 0xFFFF0000 0x9E580000 OPCODE_TRAP [op_x 0 5, op_x 5 5],
     insn ''FCVTZS'' 0xFFFF0000 0x9ED80000 OPCODE_TRAP [op_x 0 5, op_v 5 5],
     insn ''FCVTZS'' 0xFFFFFC00 0x1E380000 OPCODE_TRAP [op_w 0 5, op_w 5 5],
     insn ''FCVTZS'' 0xFFFFFC00 0x1E780000 OPCODE_TRAP [op_w 0 5, op_x 5 5],
     insn ''FCVTZS'' 0xFFFFFC00 0x1EF80000 OPCODE_TRAP [op_w 0 5, op_v 5 5]]"

definition arm64_instructions_840 :: "bal_decoder_instruction_metadata_t list" where
  "arm64_instructions_840 = [
     insn ''FCVTZS'' 0xFFFFFC00 0x9E380000 OPCODE_TRAP [op_x 0 5, op_w 5 5],
     insn ''FCVTZS'' 0xFFFFFC00 0x9E780000 OPCODE_TRAP [op_x 0 5, op_x 5 5],
     insn ''FCVTZS'' 0xFFFFFC00 0x9EF80000 OPCODE_TRAP [op_x 0 5, op_v 5 5],
     insn ''FCVTZS'' 0xFFFFFC21 0xC121E000 OPCODE_TRAP [op_v 1 4, op_v 6 4],
     insn ''FCVTZS'' 0xFFFFFC63 0xC131E000 OPCODE_TRAP [op_v 2 3, op_v 7 3],
     insn ''FCVTZS'' 0xFFFFE000 0x655AA000 OPCODE_TRAP [op_v 0 5, op_v 5 5, op_v 10 3],
     insn ''FCVTZS'' 0xFFFFE000 0x655CA000 OPCODE_TRAP [op_v 0 5, op_v 5 5, op_v 10 3],
     insn ''FCVTZS'' 0xFFFFE000 0x655EA000 OPCODE_TRAP [op_v 0 5, op_v 5 5, op_v 10 3],
     insn ''FCVTZS'' 0xFFFFE000 0x659CA000 OPCODE_TRAP [op_v 0 5, op_v 5 5, op_v 10 3],
     insn ''FCVTZS'' 0xFFFFE000 0x65D8A000 OPCODE_TRAP [op_v 0 5, op_v 5 5, op_v 10 3],
     insn ''FCVTZS'' 0xFFFFE000 0x65DCA000 OPCODE_TRAP [op_v 0 5, op_v 5 5, op_v 10 3],
     insn ''FCVTZS'' 0xFFFFE000 0x65DEA000 OPCODE_TRAP [op_v 0 5, op_v 5 5, op_v 10 3]]"

definition arm64_instructions_852 :: "bal_decoder_instruction_metadata_t list" where
  "arm64_instructions_852 = [
     insn ''FCVTZU'' 0xBF8FFC00 0x2F00FC00 OPCODE_TRAP [op_v 0 5, op_v 5 5, op_v 16 3, op_v 19 4, op_v 30 1],
     insn ''FCVTZU'' 0xFF8FFC00 0x7F00FC00 OPCODE_TRAP [op_v 0 5, op_v 5 5],
     insn ''FCVTZU'' 0xBFBFFC00 0x2EA1B800 OPCODE_TRAP [op_v 0 5, op_v 5 5],
     insn ''FCVTZU'' 0xBFFFFC00 0x2EF9B800 OPCODE_TRAP [op_v 0 5, op_v 5 5],
     insn ''FCVTZU'' 0xFFBFFC00 0x7EA1B800 OPCODE_TRAP [op_v 0 5, op_v 5 5],
     insn ''FCVTZU'' 0xFFFFFC00 0x7EF9B800 OPCODE_TRAP [op_v 0 5, op_v 5 5],
     insn ''FCVTZU'' 0xFFFF0000 0x1E190000 OPCODE_TRAP [op_w 0 5, op_w 5 5],
     insn ''FCVTZU'' 0xFFFF0000 0x1E590000 OPCODE_TRAP [op_w 0 5, op_x 5 5],
     insn ''FCVTZU'' 0xFFFF0000 0x1ED90000 OPCODE_TRAP [op_w 0 5, op_v 5 5],
     insn ''FCVTZU'' 0xFFFF0000 0x9E190000 OPCODE_TRAP [op_x 0 5, op_w 5 5],
     insn ''FCVTZU'' 0xFFFF0000 0x9E590000 OPCODE_TRAP [op_x 0 5, op_x 5 5],
     insn ''FCVTZU'' 0xFFFF0000 0x9ED90000 OPCODE_TRAP [op_x 0 5, op_v 5 5]]"

definition arm64_instructions_864 :: "bal_decoder_instruction_metadata_t list" where
  "arm64_instructions_864 = [
     insn ''FCVTZU'' 0xFFFFFC00 0x1E390000 OPCODE_TRAP [op_w 0 5, op_w 5 5],
     insn ''FCVTZU'' 0xFFFFFC00 0x1E790000 OPCODE_TRAP [op_w 0 5, op_x 5 5],
     insn ''FCVTZU'' 0xFFFFFC00 0x1EF90000 OPCODE_TRAP [op_w 0 5, op_v 5 5],
     insn ''FCVTZU'' 0xFFFFFC00 0x9E390000 OPCODE_TRAP [op_x 0 5, op_w 5 5],
     insn ''FCVTZU'' 0xFFFFFC00 0x9E790000 OPCODE_TRAP [op_x 0 5, op_x 5 5],
     insn ''FCVTZU'' 0xFFFFFC00 0x9EF90000 OPCODE_TRAP [op_x 0 5, op_v 5 5],
     insn ''FCVTZU'' 0xFFFFFC21 0xC121E020 OPCODE_TRAP [op_v 1 4, op_v 6 4],
     insn ''FCVTZU'' 0xFFFFFC63 0xC131E020 OPCODE_TRAP [op_v 2 3, op_v 7 3],
     insn ''FCVTZU'' 0xFFFFE000 0x655BA000 OPCODE_TRAP [op_v 0 5, op_v 5 5, op_v 10 3],
     insn ''FCVTZU'' 0xFFFFE000 0x655DA000 OPCODE_TRAP [op_v 0 5, op_v 5 5, op_v 10 3],
     insn ''FCVTZU'' 0xFFFFE000 0x655FA000 OPCODE_TRAP [op_v 0 5, op_v 5 5, op_v 10 3],
     insn ''FCVTZU'' 0xFFFFE000 0x659DA000 OPCODE_TRAP [op_v 0 5, op_v 5 5, op_v 10 3]]"

definition arm64_instructions_876 :: "bal_decoder_instruction_metadata_t list" where
  "arm64_instructions_876 = [
     insn ''FCVTZU'' 0xFFFFE000 0x65D9A000 OPCODE_TRAP [op_v 0 5, op_v 5 5, op_v 10 3],
     insn ''FCVTZU'' 0xFFFFE000 0x65DDA000 OPCODE_TRAP [op_v 0 5, op_v 5 5, op_v 10 3],
     insn ''FCVTZU'' 0xFFFFE000 0x65DFA000 OPCODE_TRAP [op_v 0 5, op_v 5 5, op_v 10 3],
     insn ''FDIV'' 0xBFA0FC00 0x2E20FC00 OPCODE_TRAP [op_v 0 5, op_v 5 5, op_v 16 5],
     insn ''FDIV'' 0xBFE0FC00 0x2E403C00 OPCODE_TRAP [op_v 0 5, op_v 5 5, op_v 16 5],
     insn ''FDIV'' 0xFFE0FC00 0x1E201800 OPCODE_TRAP [op_w 0 5, op_w 5 5, op_w 16 5],
     insn ''FDIV'' 0xFFE0FC00 0x1E601800 OPCODE_TRAP [op_x 0 5, op_x 5 5, op_x 16 5],
     insn ''FDIV'' 0xFFE0FC00 0x1EE01800 OPCODE_TRAP [op_v 0 5, op_v 5 5, op_v 16 5],
     insn ''FDIV'' 0xFF3FE000 0x650D8000 OPCODE_TRAP [op_v 0 5, op_v 5 5, op_v 10 3],
     insn ''FDIVR'' 0xFF3FE000 0x650C8000 OPCODE_TRAP [op_v 0 5, op_v 5 5, op_v 10 3],
     insn ''FDOT'' 0xFFE0FC00 0x64208000 OPCODE_TRAP [op_v 0 5, op_v 5 5, op_v 16 5],
     insn ''FDOT'' 0xFFE0FC00 0x64204000 OPCODE_TRAP [op_v 0 5, op_v 5 5, op_v 16 3, op_imm 19 2]]"

definition arm64_instructions_888 :: "bal_decoder_instruction_metadata_t list" where
  "arm64_instructions_888 = [
     insn ''FDOT'' 0xFFF09038 0xC1501008 OPCODE_TRAP [op_imm 0 3, op_v 6 4, op_imm 10 2, op_w 13 2, op_v 16 4],
     insn ''FDOT'' 0xFFF09078 0xC1509008 OPCODE_TRAP [op_imm 0 3, op_v 7 3, op_imm 10 2, op_w 13 2, op_v 16 4],
     insn ''FDOT'' 0xFFF09C18 0xC1201000 OPCODE_TRAP [op_imm 0 3, op_v 5 5, op_w 13 2, op_v 16 4],
     insn ''FDOT'' 0xFFF09C18 0xC1301000 OPCODE_TRAP [op_imm 0 3, op_v 5 5, op_w 13 2, op_v 16 4],
     insn ''FDOT'' 0xFFE19C38 0xC1A01000 OPCODE_TRAP [op_imm 0 3, op_v 6 4, op_w 13 2, op_v 17 4],
     insn ''FDOT'' 0xFFE39C78 0xC1A11000 OPCODE_TRAP [op_imm 0 3, op_v 7 3, op_w 13 2, op_v 18 3],
     insn ''FDUP'' 0xFF3FE000 0x2539C000 OPCODE_TRAP [op_v 0 5, op_imm 5 8],
     insn ''FEXPA'' 0xFF3FFC00 0x0420B800 OPCODE_TRAP [op_v 0 5, op_v 5 5],
     insn ''FJCVTZS'' 0xFFFFFC00 0x1E7E0000 OPCODE_TRAP [op_w 0 5, op_x 5 5],
     insn ''FLOGB'' 0xFFF9E000 0x6518A000 OPCODE_TRAP [op_v 0 5, op_v 5 5, op_v 10 3],
     insn ''FMAD'' 0xFF20E000 0x65208000 OPCODE_TRAP [op_v 0 5, op_v 5 5, op_v 10 3, op_v 16 5],
     insn ''FMADD'' 0xFFE08000 0x1F000000 OPCODE_TRAP [op_w 0 5, op_w 5 5, op_w 10 5, op_w 16 5]]"

definition arm64_instructions_900 :: "bal_decoder_instruction_metadata_t list" where
  "arm64_instructions_900 = [
     insn ''FMADD'' 0xFFE08000 0x1F400000 OPCODE_TRAP [op_x 0 5, op_x 5 5, op_x 10 5, op_x 16 5],
     insn ''FMADD'' 0xFFE08000 0x1FC00000 OPCODE_TRAP [op_v 0 5, op_v 5 5, op_v 10 5, op_v 16 5],
     insn ''FMAX'' 0xBFA0FC00 0x0E20F400 OPCODE_TRAP [op_v 0 5, op_v 5 5, op_v 16 5],
     insn ''FMAX'' 0xBFE0FC00 0x0E403400 OPCODE_TRAP [op_v 0 5, op_v 5 5, op_v 16 5],
     insn ''FMAX'' 0xFFE0FC00 0x1E204800 OPCODE_TRAP [op_w 0 5, op_w 5 5, op_w 16 5],
     insn ''FMAX'' 0xFFE0FC00 0x1E604800 OPCODE_TRAP [op_x 0 5, op_x 5 5, op_x 16 5],
     insn ''FMAX'' 0xFFE0FC00 0x1EE04800 OPCODE_TRAP [op_v 0 5, op_v 5 5, op_v 16 5],
     insn ''FMAX'' 0xFF38FFE1 0xC120A100 OPCODE_TRAP [op_v 1 4, op_v 16 4],
     insn ''FMAX'' 0xFF38FFE3 0xC120A900 OPCODE_TRAP [op_v 2 3, op_v 16 4],
     insn ''FMAX'' 0xFF39FFE1 0xC120B100 OPCODE_TRAP [op_v 1 4, op_v 17 4],
     insn ''FMAX'' 0xFF3BFFE3 0xC120B900 OPCODE_TRAP [op_v 2 3, op_v 18 3],
     insn ''FMAX'' 0xFF3FE3C0 0x651E8000 OPCODE_TRAP [op_v 0 5, op_imm 5 1, op_v 10 3]]"

definition arm64_instructions_912 :: "bal_decoder_instruction_metadata_t list" where
  "arm64_instructions_912 = [
     insn ''FMAX'' 0xFF3FE000 0x65068000 OPCODE_TRAP [op_v 0 5, op_v 5 5, op_v 10 3],
     insn ''FMAXNM'' 0xBFA0FC00 0x0E20C400 OPCODE_TRAP [op_v 0 5, op_v 5 5, op_v 16 5],
     insn ''FMAXNM'' 0xBFE0FC00 0x0E400400 OPCODE_TRAP [op_v 0 5, op_v 5 5, op_v 16 5],
     insn ''FMAXNM'' 0xFFE0FC00 0x1E206800 OPCODE_TRAP [op_w 0 5, op_w 5 5, op_w 16 5],
     insn ''FMAXNM'' 0xFFE0FC00 0x1E606800 OPCODE_TRAP [op_x 0 5, op_x 5 5, op_x 16 5],
     insn ''FMAXNM'' 0xFFE0FC00 0x1EE06800 OPCODE_TRAP [op_v 0 5, op_v 5 5, op_v 16 5],
     insn ''FMAXNM'' 0xFF38FFE1 0xC120A120 OPCODE_TRAP [op_v 1 4, op_v 16 4],
     insn ''FMAXNM'' 0xFF38FFE3 0xC120A920 OPCODE_TRAP [op_v 2 3, op_v 16 4],
     insn ''FMAXNM'' 0xFF39FFE1 0xC120B120 OPCODE_TRAP [op_v 1 4, op_v 17 4],
     insn ''FMAXNM'' 0xFF3BFFE3 0xC120B920 OPCODE_TRAP [op_v 2 3, op_v 18 3],
     insn ''FMAXNM'' 0xFF3FE3C0 0x651C8000 OPCODE_TRAP [op_v 0 5, op_imm 5 1, op_v 10 3],
     insn ''FMAXNM'' 0xFF3FE000 0x65048000 OPCODE_TRAP [op_v 0 5, op_v 5 5, op_v 10 3]]"

definition arm64_instructions_924 :: "bal_decoder_instruction_metadata_t list" where
  "arm64_instructions_924 = [
     insn ''FMAXNMP'' 0xFFBFFC00 0x5E30C800 OPCODE_TRAP [op_v 0 5, op_v 5 5],
     insn ''FMAXNMP'' 0xFFBFFC00 0x7E30C800 OPCODE_TRAP [op_v 0 5, op_v 5 5],
     insn ''FMAXNMP'' 0xBFA0FC00 0x2E20C400 OPCODE_TRAP [op_v 0 5, op_v 5 5, op_v 16 5],
     insn ''FMAXNMP'' 0xBFE0FC00 0x2E400400 OPCODE_TRAP [op_v 0 5, op_v 5 5, op_v 16 5],
     insn ''FMAXNMP'' 0xFF3FE000 0x64148000 OPCODE_TRAP [op_v 0 5, op_v 5 5, op_v 10 3],
     insn ''FMAXNMQV'' 0xFF3FE000 0x6414A000 OPCODE_TRAP [op_v 0 5, op_v 5 5, op_v 10 3],
     insn ''FMAXNMV'' 0xBFBFFC00 0x2E30C800 OPCODE_TRAP [op_v 0 5, op_v 5 5],
     insn ''FMAXNMV'' 0xBFFFFC00 0x0E30C800 OPCODE_TRAP [op_v 0 5, op_v 5 5],
     insn ''FMAXNMV'' 0xFF3FE000 0x65042000 OPCODE_TRAP [op_v 0 5, op_v 5 5, op_v 10 3],
     insn ''FMAXP'' 0xFFBFFC00 0x5E30F800 OPCODE_TRAP [op_v 0 5, op_v 5 5],
     insn ''FMAXP'' 0xFFBFFC00 0x7E30F800 OPCODE_TRAP [op_v 0 5, op_v 5 5],
     insn ''FMAXP'' 0xBFA0FC00 0x2E20F400 OPCODE_TRAP [op_v 0 5, op_v 5 5, op_v 16 5]]"

definition arm64_instructions_936 :: "bal_decoder_instruction_metadata_t list" where
  "arm64_instructions_936 = [
     insn ''FMAXP'' 0xBFE0FC00 0x2E403400 OPCODE_TRAP [op_v 0 5, op_v 5 5, op_v 16 5],
     insn ''FMAXP'' 0xFF3FE000 0x64168000 OPCODE_TRAP [op_v 0 5, op_v 5 5, op_v 10 3],
     insn ''FMAXQV'' 0xFF3FE000 0x6416A000 OPCODE_TRAP [op_v 0 5, op_v 5 5, op_v 10 3],
     insn ''FMAXV'' 0xBFBFFC00 0x2E30F800 OPCODE_TRAP [op_v 0 5, op_v 5 5],
     insn ''FMAXV'' 0xBFFFFC00 0x0E30F800 OPCODE_TRAP [op_v 0 5, op_v 5 5],
     insn ''FMAXV'' 0xFF3FE000 0x65062000 OPCODE_TRAP [op_v 0 5, op_v 5 5, op_v 10 3],
     insn ''FMIN'' 0xBFA0FC00 0x0EA0F400 OPCODE_TRAP [op_v 0 5, op_v 5 5, op_v 16 5],
     insn ''FMIN'' 0xBFE0FC00 0x0EC03400 OPCODE_TRAP [op_v 0 5, op_v 5 5, op_v 16 5],
     insn ''FMIN'' 0xFFE0FC00 0x1E205800 OPCODE_TRAP [op_w 0 5, op_w 5 5, op_w 16 5],
     insn ''FMIN'' 0xFFE0FC00 0x1E605800 OPCODE_TRAP [op_x 0 5, op_x 5 5, op_x 16 5],
     insn ''FMIN'' 0xFFE0FC00 0x1EE05800 OPCODE_TRAP [op_v 0 5, op_v 5 5, op_v 16 5],
     insn ''FMIN'' 0xFF38FFE1 0xC120A101 OPCODE_TRAP [op_v 1 4, op_v 16 4]]"

definition arm64_instructions_948 :: "bal_decoder_instruction_metadata_t list" where
  "arm64_instructions_948 = [
     insn ''FMIN'' 0xFF38FFE3 0xC120A901 OPCODE_TRAP [op_v 2 3, op_v 16 4],
     insn ''FMIN'' 0xFF39FFE1 0xC120B101 OPCODE_TRAP [op_v 1 4, op_v 17 4],
     insn ''FMIN'' 0xFF3BFFE3 0xC120B901 OPCODE_TRAP [op_v 2 3, op_v 18 3],
     insn ''FMIN'' 0xFF3FE3C0 0x651F8000 OPCODE_TRAP [op_v 0 5, op_imm 5 1, op_v 10 3],
     insn ''FMIN'' 0xFF3FE000 0x65078000 OPCODE_TRAP [op_v 0 5, op_v 5 5, op_v 10 3],
     insn ''FMINNM'' 0xBFA0FC00 0x0EA0C400 OPCODE_TRAP [op_v 0 5, op_v 5 5, op_v 16 5],
     insn ''FMINNM'' 0xBFE0FC00 0x0EC00400 OPCODE_TRAP [op_v 0 5, op_v 5 5, op_v 16 5],
     insn ''FMINNM'' 0xFFE0FC00 0x1E207800 OPCODE_TRAP [op_w 0 5, op_w 5 5, op_w 16 5],
     insn ''FMINNM'' 0xFFE0FC00 0x1E607800 OPCODE_TRAP [op_x 0 5, op_x 5 5, op_x 16 5],
     insn ''FMINNM'' 0xFFE0FC00 0x1EE07800 OPCODE_TRAP [op_v 0 5, op_v 5 5, op_v 16 5],
     insn ''FMINNM'' 0xFF38FFE1 0xC120A121 OPCODE_TRAP [op_v 1 4, op_v 16 4],
     insn ''FMINNM'' 0xFF38FFE3 0xC120A921 OPCODE_TRAP [op_v 2 3, op_v 16 4]]"

definition arm64_instructions_960 :: "bal_decoder_instruction_metadata_t list" where
  "arm64_instructions_960 = [
     insn ''FMINNM'' 0xFF39FFE1 0xC120B121 OPCODE_TRAP [op_v 1 4, op_v 17 4],
     insn ''FMINNM'' 0xFF3BFFE3 0xC120B921 OPCODE_TRAP [op_v 2 3, op_v 18 3],
     insn ''FMINNM'' 0xFF3FE3C0 0x651D8000 OPCODE_TRAP [op_v 0 5, op_imm 5 1, op_v 10 3],
     insn ''FMINNM'' 0xFF3FE000 0x65058000 OPCODE_TRAP [op_v 0 5, op_v 5 5, op_v 10 3],
     insn ''FMINNMP'' 0xFFBFFC00 0x5EB0C800 OPCODE_TRAP [op_v 0 5, op_v 5 5],
     insn ''FMINNMP'' 0xFFBFFC00 0x7EB0C800 OPCODE_TRAP [op_v 0 5, op_v 5 5],
     insn ''FMINNMP'' 0xBFA0FC00 0x2EA0C400 OPCODE_TRAP [op_v 0 5, op_v 5 5, op_v 16 5],
     insn ''FMINNMP'' 0xBFE0FC00 0x2EC00400 OPCODE_TRAP [op_v 0 5, op_v 5 5, op_v 16 5],
     insn ''FMINNMP'' 0xFF3FE000 0x64158000 OPCODE_TRAP [op_v 0 5, op_v 5 5, op_v 10 3],
     insn ''FMINNMQV'' 0xFF3FE000 0x6415A000 OPCODE_TRAP [op_v 0 5, op_v 5 5, op_v 10 3],
     insn ''FMINNMV'' 0xBFBFFC00 0x2EB0C800 OPCODE_TRAP [op_v 0 5, op_v 5 5],
     insn ''FMINNMV'' 0xBFFFFC00 0x0EB0C800 OPCODE_TRAP [op_v 0 5, op_v 5 5]]"

definition arm64_instructions_972 :: "bal_decoder_instruction_metadata_t list" where
  "arm64_instructions_972 = [
     insn ''FMINNMV'' 0xFF3FE000 0x65052000 OPCODE_TRAP [op_v 0 5, op_v 5 5, op_v 10 3],
     insn ''FMINP'' 0xFFBFFC00 0x5EB0F800 OPCODE_TRAP [op_v 0 5, op_v 5 5],
     insn ''FMINP'' 0xFFBFFC00 0x7EB0F800 OPCODE_TRAP [op_v 0 5, op_v 5 5],
     insn ''FMINP'' 0xBFA0FC00 0x2EA0F400 OPCODE_TRAP [op_v 0 5, op_v 5 5, op_v 16 5],
     insn ''FMINP'' 0xBFE0FC00 0x2EC03400 OPCODE_TRAP [op_v 0 5, op_v 5 5, op_v 16 5],
     insn ''FMINP'' 0xFF3FE000 0x64178000 OPCODE_TRAP [op_v 0 5, op_v 5 5, op_v 10 3],
     insn ''FMINQV'' 0xFF3FE000 0x6417A000 OPCODE_TRAP [op_v 0 5, op_v 5 5, op_v 10 3],
     insn ''FMINV'' 0xBFBFFC00 0x2EB0F800 OPCODE_TRAP [op_v 0 5, op_v 5 5],
     insn ''FMINV'' 0xBFFFFC00 0x0EB0F800 OPCODE_TRAP [op_v 0 5, op_v 5 5],
     insn ''FMINV'' 0xFF3FE000 0x65072000 OPCODE_TRAP [op_v 0 5, op_v 5 5, op_v 10 3],
     insn ''FMLA'' 0xBF80F400 0x0F801000 OPCODE_TRAP [op_v 0 5, op_v 5 5, op_imm 11 1, op_v 16 4, op_v 20 1],
     insn ''FMLA'' 0xBFC0F400 0x0F001000 OPCODE_TRAP [op_v 0 5, op_v 5 5, op_imm 11 1, op_v 16 4, op_imm 20 1]]"

definition arm64_part_2 :: "bal_decoder_instruction_metadata_t list list" where
  "arm64_part_2 = [
     arm64_instructions_492, arm64_instructions_504, arm64_instructions_516,
     arm64_instructions_528, arm64_instructions_540, arm64_instructions_552,
     arm64_instructions_564, arm64_instructions_576, arm64_instructions_588,
     arm64_instructions_600, arm64_instructions_612, arm64_instructions_624,
     arm64_instructions_636, arm64_instructions_648, arm64_instructions_660,
     arm64_instructions_672, arm64_instructions_684, arm64_instructions_696,
     arm64_instructions_708, arm64_instructions_720, arm64_instructions_732,
     arm64_instructions_744, arm64_instructions_756, arm64_instructions_768,
     arm64_instructions_780, arm64_instructions_792, arm64_instructions_804,
     arm64_instructions_816, arm64_instructions_828, arm64_instructions_840,
     arm64_instructions_852, arm64_instructions_864, arm64_instructions_876,
     arm64_instructions_888, arm64_instructions_900, arm64_instructions_912,
     arm64_instructions_924, arm64_instructions_936, arm64_instructions_948,
     arm64_instructions_960, arm64_instructions_972]"

section \<open>The entries are complete, and their top bits\<close>

lemma keys_of_492: "map mask_value arm64_instructions_492 =
     [(0x3FE0FC00, 0x1D003400), (0x3FE0FC00, 0x1D80F400), (0x3FE0FC00, 0x1D40F400),
      (0x3FE0FC00, 0x1D00F400), (0x3FE0FC00, 0x1D80B400), (0x3FE0FC00, 0x1D40B400),
      (0x3FE0FC00, 0x1D00B400), (0x3FE0FC00, 0x1D807400), (0x3FE0FC00, 0x1D407400),
      (0x3FE0FC00, 0x1D007400), (0x3FE0FC00, 0x1D804400), (0x3FE0FC00, 0x1D404400)]"
  by (simp only: arm64_instructions_492_def read_entries)

lemma entries_492:
  "length arm64_instructions_492 = 12" "list_all metadata_wf arm64_instructions_492"
  "map top_bits arm64_instructions_492 =
     [(511, 232), (511, 236), (511, 234), (511, 232), (511, 236), (511, 234), (511, 232),
      (511, 236), (511, 234), (511, 232), (511, 236), (511, 234)]"
  by (simp add: arm64_instructions_492_def, simp add: arm64_instructions_492_def, simp add: top_bits_mask_value keys_of_492)

lemma keys_of_504: "map mask_value arm64_instructions_504 =
     [(0x3FE0FC00, 0x1D004400), (0x3FE0FC00, 0x1D801400), (0x3FE0FC00, 0x1D401400),
      (0x3FE0FC00, 0x1D001400), (0x3FE0FC00, 0x1D80D400), (0x3FE0FC00, 0x1D40D400),
      (0x3FE0FC00, 0x1D00D400), (0x3FE0FC00, 0x1D809400), (0x3FE0FC00, 0x1D409400),
      (0x3FE0FC00, 0x1D009400), (0x3FE0FC00, 0x1D805400), (0x3FE0FC00, 0x1D405400)]"
  by (simp only: arm64_instructions_504_def read_entries)

lemma entries_504:
  "length arm64_instructions_504 = 12" "list_all metadata_wf arm64_instructions_504"
  "map top_bits arm64_instructions_504 =
     [(511, 232), (511, 236), (511, 234), (511, 232), (511, 236), (511, 234), (511, 232),
      (511, 236), (511, 234), (511, 232), (511, 236), (511, 234)]"
  by (simp add: arm64_instructions_504_def, simp add: arm64_instructions_504_def, simp add: top_bits_mask_value keys_of_504)

lemma keys_of_516: "map mask_value arm64_instructions_516 =
     [(0x3FE0FC00, 0x1D005400), (0xFFE0FC00, 0x1AC04000), (0xFFE0FC00, 0x1AC04400),
      (0xFFE0FC00, 0x1AC04800), (0xFFE0FC00, 0x9AC04C00), (0xFFE0FC00, 0x1AC05000),
      (0xFFE0FC00, 0x1AC05400), (0xFFE0FC00, 0x1AC05800), (0xFFE0FC00, 0x9AC05C00),
      (0xFFFFFFFF, 0xD503229F), (0xFFE00C00, 0x1A800000), (0xFFE00C00, 0x9A800000)]"
  by (simp only: arm64_instructions_516_def read_entries)

lemma entries_516:
  "length arm64_instructions_516 = 12" "list_all metadata_wf arm64_instructions_516"
  "map top_bits arm64_instructions_516 =
     [(511, 232), (2047, 214), (2047, 214), (2047, 214), (2047, 1238), (2047, 214), (2047, 214),
      (2047, 214), (2047, 1238), (2047, 1704), (2047, 212), (2047, 1236)]"
  by (simp add: arm64_instructions_516_def, simp add: arm64_instructions_516_def, simp add: top_bits_mask_value keys_of_516)

lemma keys_of_528: "map mask_value arm64_instructions_528 =
     [(0xFFFF1FE0, 0x1A9F1FE0), (0xFFFF1FE0, 0x9A9F1FE0), (0xFFFF1FE0, 0x5A9F1FE0),
      (0xFFFF1FE0, 0xDA9F1FE0), (0xFFE00C00, 0x1A800400), (0xFFE00C00, 0x9A800400),
      (0xFFE00C00, 0x5A800000), (0xFFE00C00, 0xDA800000), (0xFFE00C00, 0x5A800400),
      (0xFFE00C00, 0xDA800400), (0xFFA0FC1F, 0x25A02000), (0xFFA0FC1F, 0x25A02010)]"
  by (simp only: arm64_instructions_528_def read_entries)

lemma entries_528:
  "length arm64_instructions_528 = 12" "list_all metadata_wf arm64_instructions_528"
  "map top_bits arm64_instructions_528 =
     [(2047, 212), (2047, 1236), (2047, 724), (2047, 1748), (2047, 212), (2047, 1236),
      (2047, 724), (2047, 1748), (2047, 724), (2047, 1748), (2045, 301), (2045, 301)]"
  by (simp add: arm64_instructions_528_def, simp add: arm64_instructions_528_def, simp add: top_bits_mask_value keys_of_528)

lemma keys_of_540: "map mask_value arm64_instructions_540 =
     [(0xFFFFFC00, 0x5AC01800), (0xFFFFFC00, 0xDAC01800), (0xFFF8F000, 0xD5087000),
      (0xFFE0001F, 0xD4A00001), (0xFFE0001F, 0xD4A00002), (0xFFE0001F, 0xD4A00003),
      (0xFFF0FC00, 0x430E400), (0xFFF0FC00, 0x4F0E400), (0xFFF0FC00, 0x470E400),
      (0xFFF0FC00, 0x4B0E400), (0xFFF0FC00, 0x4F0C400), (0xFFF0FC00, 0x470C400)]"
  by (simp only: arm64_instructions_540_def read_entries)

lemma entries_540:
  "length arm64_instructions_540 = 12" "list_all metadata_wf arm64_instructions_540"
  "map top_bits arm64_instructions_540 =
     [(2047, 726), (2047, 1750), (2047, 1704), (2047, 1701), (2047, 1701), (2047, 1701),
      (2047, 33), (2047, 39), (2047, 35), (2047, 37), (2047, 39), (2047, 35)]"
  by (simp add: arm64_instructions_540_def, simp add: arm64_instructions_540_def, simp add: top_bits_mask_value keys_of_540)

lemma keys_of_552: "map mask_value arm64_instructions_552 =
     [(0xFFF0FC00, 0x4B0C400), (0xFF3FFE00, 0x252D8800), (0xFF3FFE00, 0x252D8000),
      (0xFFFFFFFF, 0xD50320DF), (0xFFFFF0FF, 0xD50330BF), (0xFFFFFFFF, 0xD6BF03E0),
      (0xFFFFF0FF, 0xD503309F), (0xFFFFF3FF, 0xD503323F), (0xBFE0FC00, 0xE000400),
      (0xFFE0FC00, 0x5E000400), (0xBFE0FC00, 0xE000C00), (0xFF3FC000, 0x2538C000)]"
  by (simp only: arm64_instructions_552_def read_entries)

lemma entries_552:
  "length arm64_instructions_552 = 12" "list_all metadata_wf arm64_instructions_552"
  "map top_bits arm64_instructions_552 =
     [(2047, 37), (2041, 297), (2041, 297), (2047, 1704), (2047, 1704), (2047, 1717),
      (2047, 1704), (2047, 1704), (1535, 112), (2047, 752), (1535, 112), (2041, 297)]"
  by (simp add: arm64_instructions_552_def, simp add: arm64_instructions_552_def, simp add: top_bits_mask_value keys_of_552)

lemma keys_of_564: "map mask_value arm64_instructions_564 =
     [(0xFF3FFC00, 0x5203800), (0xFF20FC00, 0x5202000), (0xFFFC0000, 0x5C00000),
      (0xFFE0FC00, 0x5202400), (0xFFFFFFE0, 0xD50B73A0), (0xFF200000, 0x4A200000),
      (0xFF200000, 0xCA200000), (0xFFFC0000, 0x5400000), (0xFFE08000, 0xCE000000),
      (0xFFE0FC00, 0x4203800), (0xBFE0FC00, 0x2E201C00), (0xFF800000, 0xD2000000)]"
  by (simp only: arm64_instructions_564_def read_entries)

lemma entries_564:
  "length arm64_instructions_564 = 12" "list_all metadata_wf arm64_instructions_564"
  "map top_bits arm64_instructions_564 =
     [(2041, 41), (2041, 41), (2047, 46), (2047, 41), (2047, 1704), (2041, 593), (2041, 1617),
      (2047, 42), (2047, 1648), (2047, 33), (1535, 369), (2044, 1680)]"
  by (simp add: arm64_instructions_564_def, simp add: arm64_instructions_564_def, simp add: top_bits_mask_value keys_of_564)

lemma keys_of_576: "map mask_value arm64_instructions_576 =
     [(0xFFC00000, 0x52000000), (0xFF200000, 0x4A000000), (0xFF200000, 0xCA000000),
      (0xFFF0C210, 0x25004200), (0xFF3FE000, 0x4190000), (0xFFFC0000, 0x5400000),
      (0xFFE0FC00, 0x4A03000), (0xFF20FC00, 0x45009000), (0xFF3FE000, 0x41D2000),
      (0xFFF0C210, 0x25404200), (0xFF20FC00, 0x45009400), (0xFF3FE000, 0x4192000)]"
  by (simp only: arm64_instructions_576_def read_entries)

lemma entries_576:
  "length arm64_instructions_576 = 12" "list_all metadata_wf arm64_instructions_576"
  "map top_bits arm64_instructions_576 =
     [(2046, 656), (2041, 592), (2041, 1616), (2047, 296), (2041, 32), (2047, 42), (2047, 37),
      (2041, 552), (2041, 32), (2047, 298), (2041, 552), (2041, 32)]"
  by (simp add: arm64_instructions_576_def, simp add: arm64_instructions_576_def, simp add: top_bits_mask_value keys_of_576)

lemma keys_of_588: "map mask_value arm64_instructions_588 =
     [(0xFFFFFFFF, 0xD69F03E0), (0xFFFFFFFF, 0xD69F0BFF), (0xFFFFFFFF, 0xD69F0FFF),
      (0xFFFFFFFF, 0xD503221F), (0xBFE08400, 0x2E000000), (0xFFE0E000, 0x5200000),
      (0xFFE0E000, 0x5600000), (0xFFF0FC00, 0x5602400), (0xFFE00000, 0x93C00000),
      (0xFFE08000, 0x13800000), (0xBFA0FC00, 0x2EA0D400), (0xBFE0FC00, 0x2EC01400)]"
  by (simp only: arm64_instructions_588_def read_entries)

lemma entries_588:
  "length arm64_instructions_588 = 12" "list_all metadata_wf arm64_instructions_588"
  "map top_bits arm64_instructions_588 =
     [(2047, 1716), (2047, 1716), (2047, 1716), (2047, 1704), (1535, 368), (2047, 41),
      (2047, 43), (2047, 43), (2047, 1182), (2047, 156), (1533, 373), (1535, 374)]"
  by (simp add: arm64_instructions_588_def, simp add: arm64_instructions_588_def, simp add: top_bits_mask_value keys_of_588)

lemma keys_of_600: "map mask_value arm64_instructions_600 =
     [(0xFFA0FC00, 0x7EA0D400), (0xFFE0FC00, 0x7EC01400), (0xFF3FE000, 0x65088000),
      (0xBFBFFC00, 0xEA0F800), (0xBFFFFC00, 0xEF8F800), (0xFFFFFC00, 0x1E20C000),
      (0xFFFFFC00, 0x1E60C000), (0xFFFFFC00, 0x1EE0C000), (0xFF3FE000, 0x41CA000),
      (0xBFA0FC00, 0x2E20EC00), (0xBFE0FC00, 0x2E402C00), (0xFFA0FC00, 0x7E20EC00)]"
  by (simp only: arm64_instructions_600_def read_entries)

lemma entries_600:
  "length arm64_instructions_600 = 12" "list_all metadata_wf arm64_instructions_600"
  "map top_bits arm64_instructions_600 =
     [(2045, 1013), (2047, 1014), (2041, 808), (1533, 117), (1535, 119), (2047, 241),
      (2047, 243), (2047, 247), (2041, 32), (1533, 369), (1535, 370), (2045, 1009)]"
  by (simp add: arm64_instructions_600_def, simp add: arm64_instructions_600_def, simp add: top_bits_mask_value keys_of_600)

lemma keys_of_612: "map mask_value arm64_instructions_612 =
     [(0xFFE0FC00, 0x7E402C00), (0xFF20E010, 0x6500C010), (0xFF20E010, 0x6500E010),
      (0xBFA0FC00, 0x2EA0EC00), (0xBFE0FC00, 0x2EC02C00), (0xFFA0FC00, 0x7EA0EC00),
      (0xFFE0FC00, 0x7EC02C00), (0xFF20E010, 0x6500C010), (0xFF20E010, 0x6500E010),
      (0xBFA0FC00, 0xE20D400), (0xBFE0FC00, 0xE401400), (0xFFE0FC00, 0x1E202800)]"
  by (simp only: arm64_instructions_612_def read_entries)

lemma entries_612:
  "length arm64_instructions_612 = 12" "list_all metadata_wf arm64_instructions_612"
  "map top_bits arm64_instructions_612 =
     [(2047, 1010), (2041, 808), (2041, 808), (1533, 373), (1535, 374), (2045, 1013),
      (2047, 1014), (2041, 808), (2041, 808), (1533, 113), (1535, 114), (2047, 241)]"
  by (simp add: arm64_instructions_612_def, simp add: arm64_instructions_612_def, simp add: top_bits_mask_value keys_of_612)

lemma keys_of_624: "map mask_value arm64_instructions_624 =
     [(0xFFE0FC00, 0x1E602800), (0xFFE0FC00, 0x1EE02800), (0xFF3FE3C0, 0x65188000),
      (0xFF3FE000, 0x65008000), (0xFF38FC00, 0x65000000), (0xFFBF9C38, 0xC1A01C00),
      (0xFFBF9C78, 0xC1A11C00), (0xFFFF9C38, 0xC1A41C00), (0xFFFF9C78, 0xC1A51C00),
      (0xFF3FE000, 0x65182000), (0xFFBFFC00, 0x5E30D800), (0xFFBFFC00, 0x7E30D800)]"
  by (simp only: arm64_instructions_624_def read_entries)

lemma entries_624:
  "length arm64_instructions_624 = 12" "list_all metadata_wf arm64_instructions_624"
  "map top_bits arm64_instructions_624 =
     [(2047, 243), (2047, 247), (2041, 808), (2041, 808), (2041, 808), (2045, 1549),
      (2045, 1549), (2047, 1549), (2047, 1549), (2041, 808), (2045, 753), (2045, 1009)]"
  by (simp add: arm64_instructions_624_def, simp add: arm64_instructions_624_def, simp add: top_bits_mask_value keys_of_624)

lemma keys_of_636: "map mask_value arm64_instructions_636 =
     [(0xBFA0FC00, 0x2E20D400), (0xBFE0FC00, 0x2E401400), (0xFF3FE000, 0x64108000),
      (0xFF3FE000, 0x6410A000), (0xFF3FE000, 0x65002000), (0xBF20EC00, 0x2E00E400),
      (0xFF3EE000, 0x64008000), (0xFFE00C10, 0x1E200400), (0xFFE00C10, 0x1E600400),
      (0xFFE00C10, 0x1EE00400), (0xFFE00C10, 0x1E200410), (0xFFE00C10, 0x1E600410)]"
  by (simp only: arm64_instructions_636_def read_entries)

lemma entries_636:
  "length arm64_instructions_636 = 12" "list_all metadata_wf arm64_instructions_636"
  "map top_bits arm64_instructions_636 =
     [(1533, 369), (1535, 370), (2041, 800), (2041, 800), (2041, 808), (1529, 368), (2041, 800),
      (2047, 241), (2047, 243), (2047, 247), (2047, 241), (2047, 243)]"
  by (simp add: arm64_instructions_636_def, simp add: arm64_instructions_636_def, simp add: top_bits_mask_value keys_of_636)

lemma keys_of_648: "map mask_value arm64_instructions_648 =
     [(0xFFE00C10, 0x1EE00410), (0xFF38FC01, 0xC120C000), (0xFF38FC03, 0xC120C800),
      (0xFF38FC00, 0x64202400), (0xBFA0FC00, 0xE20E400), (0xBFE0FC00, 0xE402400),
      (0xFFA0FC00, 0x5E20E400), (0xFFE0FC00, 0x5E402400), (0xBFBFFC00, 0xEA0D800),
      (0xBFFFFC00, 0xEF8D800), (0xFFBFFC00, 0x5EA0D800), (0xFFFFFC00, 0x5EF8D800)]"
  by (simp only: arm64_instructions_648_def read_entries)

lemma entries_648:
  "length arm64_instructions_648 = 12" "list_all metadata_wf arm64_instructions_648"
  "map top_bits arm64_instructions_648 =
     [(2047, 247), (2041, 1545), (2041, 1545), (2041, 801), (1533, 113), (1535, 114),
      (2045, 753), (2047, 754), (1533, 117), (1535, 119), (2045, 757), (2047, 759)]"
  by (simp add: arm64_instructions_648_def, simp add: arm64_instructions_648_def, simp add: top_bits_mask_value keys_of_648)

lemma keys_of_660: "map mask_value arm64_instructions_660 =
     [(0xFF3FE010, 0x65122000), (0xFF3FE010, 0x65102000), (0xFF3FE010, 0x65102010),
      (0xFF3FE010, 0x65112010), (0xFF3FE010, 0x65112000), (0xFF3FE010, 0x65132000),
      (0xFF20E010, 0x65006000), (0xFF20E010, 0x65004000), (0xFF20E010, 0x65004010),
      (0xFF20E010, 0x65006010), (0xFF20E010, 0x6500C000), (0xBFA0FC00, 0x2E20E400)]"
  by (simp only: arm64_instructions_660_def read_entries)

lemma entries_660:
  "length arm64_instructions_660 = 12" "list_all metadata_wf arm64_instructions_660"
  "map top_bits arm64_instructions_660 =
     [(2041, 808), (2041, 808), (2041, 808), (2041, 808), (2041, 808), (2041, 808), (2041, 808),
      (2041, 808), (2041, 808), (2041, 808), (2041, 808), (1533, 369)]"
  by (simp add: arm64_instructions_660_def, simp add: arm64_instructions_660_def, simp add: top_bits_mask_value keys_of_660)

lemma keys_of_672: "map mask_value arm64_instructions_672 =
     [(0xBFE0FC00, 0x2E402400), (0xFFA0FC00, 0x7E20E400), (0xFFE0FC00, 0x7E402400),
      (0xBFBFFC00, 0x2EA0C800), (0xBFFFFC00, 0x2EF8C800), (0xFFBFFC00, 0x7EA0C800),
      (0xFFFFFC00, 0x7EF8C800), (0xBFA0FC00, 0x2EA0E400), (0xBFE0FC00, 0x2EC02400),
      (0xFFA0FC00, 0x7EA0E400), (0xFFE0FC00, 0x7EC02400), (0xBFBFFC00, 0xEA0C800)]"
  by (simp only: arm64_instructions_672_def read_entries)

lemma entries_672:
  "length arm64_instructions_672 = 12" "list_all metadata_wf arm64_instructions_672"
  "map top_bits arm64_instructions_672 =
     [(1535, 370), (2045, 1009), (2047, 1010), (1533, 373), (1535, 375), (2045, 1013),
      (2047, 1015), (1533, 373), (1535, 374), (2045, 1013), (2047, 1014), (1533, 117)]"
  by (simp add: arm64_instructions_672_def, simp add: arm64_instructions_672_def, simp add: top_bits_mask_value keys_of_672)

lemma keys_of_684: "map mask_value arm64_instructions_684 =
     [(0xBFFFFC00, 0xEF8C800), (0xFFBFFC00, 0x5EA0C800), (0xFFFFFC00, 0x5EF8C800),
      (0xBFC09400, 0x2F401000), (0xBFC09400, 0x2F801000), (0xBF20E400, 0x2E00C400),
      (0xFF208000, 0x64000000), (0xFFE0F000, 0x64A01000), (0xFFE0F000, 0x64E01000),
      (0xBFBFFC00, 0x2EA0D800), (0xBFFFFC00, 0x2EF8D800), (0xFFBFFC00, 0x7EA0D800)]"
  by (simp only: arm64_instructions_684_def read_entries)

lemma entries_684:
  "length arm64_instructions_684 = 12" "list_all metadata_wf arm64_instructions_684"
  "map top_bits arm64_instructions_684 =
     [(1535, 119), (2045, 757), (2047, 759), (1534, 378), (1534, 380), (1529, 368), (2041, 800),
      (2047, 805), (2047, 807), (1533, 373), (1535, 375), (2045, 1013)]"
  by (simp add: arm64_instructions_684_def, simp add: arm64_instructions_684_def, simp add: top_bits_mask_value keys_of_684)

lemma keys_of_696: "map mask_value arm64_instructions_696 =
     [(0xFFFFFC00, 0x7EF8D800), (0xFF20E010, 0x65004000), (0xBFBFFC00, 0xEA0E800),
      (0xBFFFFC00, 0xEF8E800), (0xFFBFFC00, 0x5EA0E800), (0xFFFFFC00, 0x5EF8E800),
      (0xFF20E010, 0x65004010), (0xFFE0FC1F, 0x1E202000), (0xFFE0FC1F, 0x1E202008),
      (0xFFE0FC1F, 0x1E602000), (0xFFE0FC1F, 0x1E602008), (0xFFE0FC1F, 0x1EE02000)]"
  by (simp only: arm64_instructions_696_def read_entries)

lemma entries_696:
  "length arm64_instructions_696 = 12" "list_all metadata_wf arm64_instructions_696"
  "map top_bits arm64_instructions_696 =
     [(2047, 1015), (2041, 808), (1533, 117), (1535, 119), (2045, 757), (2047, 759), (2041, 808),
      (2047, 241), (2047, 241), (2047, 243), (2047, 243), (2047, 247)]"
  by (simp add: arm64_instructions_696_def, simp add: arm64_instructions_696_def, simp add: top_bits_mask_value keys_of_696)

lemma keys_of_708: "map mask_value arm64_instructions_708 =
     [(0xFFE0FC1F, 0x1EE02008), (0xFFE0FC1F, 0x1E202010), (0xFFE0FC1F, 0x1E202018),
      (0xFFE0FC1F, 0x1E602010), (0xFFE0FC1F, 0x1E602018), (0xFFE0FC1F, 0x1EE02010),
      (0xFFE0FC1F, 0x1EE02018), (0xFF30E000, 0x510C000), (0xFFE00C00, 0x1E200C00),
      (0xFFE00C00, 0x1E600C00), (0xFFE00C00, 0x1EE00C00), (0xFFFFFC00, 0x1E22C000)]"
  by (simp only: arm64_instructions_708_def read_entries)

lemma entries_708:
  "length arm64_instructions_708 = 12" "list_all metadata_wf arm64_instructions_708"
  "map top_bits arm64_instructions_708 =
     [(2047, 247), (2047, 241), (2047, 241), (2047, 243), (2047, 243), (2047, 247), (2047, 247),
      (2041, 40), (2047, 241), (2047, 243), (2047, 247), (2047, 241)]"
  by (simp add: arm64_instructions_708_def, simp add: arm64_instructions_708_def, simp add: top_bits_mask_value keys_of_708)

lemma keys_of_720: "map mask_value arm64_instructions_720 =
     [(0xFFFFFC00, 0x1E23C000), (0xFFFFFC00, 0x1E624000), (0xFFFFFC00, 0x1E63C000),
      (0xFFFFFC00, 0x1EE24000), (0xFFFFFC00, 0x1EE2C000), (0xFFFFFC01, 0xC1A0E000),
      (0xFFFFFC20, 0xC120E000), (0xFFFFE000, 0x6588A000), (0xFFFFE000, 0x6589A000),
      (0xFFFFE000, 0x65C8A000), (0xFFFFE000, 0x65C9A000), (0xFFFFE000, 0x65CAA000)]"
  by (simp only: arm64_instructions_720_def read_entries)

lemma entries_720:
  "length arm64_instructions_720 = 12" "list_all metadata_wf arm64_instructions_720"
  "map top_bits arm64_instructions_720 =
     [(2047, 241), (2047, 243), (2047, 243), (2047, 247), (2047, 247), (2047, 1549),
      (2047, 1545), (2047, 812), (2047, 812), (2047, 814), (2047, 814), (2047, 814)]"
  by (simp add: arm64_instructions_720_def, simp add: arm64_instructions_720_def, simp add: top_bits_mask_value keys_of_720)

lemma keys_of_732: "map mask_value arm64_instructions_732 =
     [(0xFFFFE000, 0x65CBA000), (0xBFBFFC00, 0xE21C800), (0xBFFFFC00, 0xE79C800),
      (0xFFBFFC00, 0x5E21C800), (0xFFFFFC00, 0x5E79C800), (0xFFFFFC00, 0x1E240000),
      (0xFFFFFC00, 0x1E640000), (0xFFFFFC00, 0x1EE40000), (0xFFFFFC00, 0x9E240000),
      (0xFFFFFC00, 0x9E640000), (0xFFFFFC00, 0x9EE40000), (0xBFBFFC00, 0x2E21C800)]"
  by (simp only: arm64_instructions_732_def read_entries)

lemma entries_732:
  "length arm64_instructions_732 = 12" "list_all metadata_wf arm64_instructions_732"
  "map top_bits arm64_instructions_732 =
     [(2047, 814), (1533, 113), (1535, 115), (2045, 753), (2047, 755), (2047, 241), (2047, 243),
      (2047, 247), (2047, 1265), (2047, 1267), (2047, 1271), (1533, 369)]"
  by (simp add: arm64_instructions_732_def, simp add: arm64_instructions_732_def, simp add: top_bits_mask_value keys_of_732)

lemma keys_of_744: "map mask_value arm64_instructions_744 =
     [(0xBFFFFC00, 0x2E79C800), (0xFFBFFC00, 0x7E21C800), (0xFFFFFC00, 0x7E79C800),
      (0xFFFFFC00, 0x1E250000), (0xFFFFFC00, 0x1E650000), (0xFFFFFC00, 0x1EE50000),
      (0xFFFFFC00, 0x9E250000), (0xFFFFFC00, 0x9E650000), (0xFFFFFC00, 0x9EE50000),
      (0xBFBFFC00, 0xE217800), (0xFFFFFC01, 0xC1A0E001), (0xFFFFE000, 0x6489A000)]"
  by (simp only: arm64_instructions_744_def read_entries)

lemma entries_744:
  "length arm64_instructions_744 = 12" "list_all metadata_wf arm64_instructions_744"
  "map top_bits arm64_instructions_744 =
     [(1535, 371), (2045, 1009), (2047, 1011), (2047, 241), (2047, 243), (2047, 247),
      (2047, 1265), (2047, 1267), (2047, 1271), (1533, 113), (2047, 1549), (2047, 804)]"
  by (simp add: arm64_instructions_744_def, simp add: arm64_instructions_744_def, simp add: top_bits_mask_value keys_of_744)

lemma keys_of_756: "map mask_value arm64_instructions_756 =
     [(0xFFFFE000, 0x64CBA000), (0xBFBFFC00, 0xE21B800), (0xBFFFFC00, 0xE79B800),
      (0xFFBFFC00, 0x5E21B800), (0xFFFFFC00, 0x5E79B800), (0xFFFFFC00, 0x1E300000),
      (0xFFFFFC00, 0x1E700000), (0xFFFFFC00, 0x1EF00000), (0xFFFFFC00, 0x9E300000),
      (0xFFFFFC00, 0x9E700000), (0xFFFFFC00, 0x9EF00000), (0xBFBFFC00, 0x2E21B800)]"
  by (simp only: arm64_instructions_756_def read_entries)

lemma entries_756:
  "length arm64_instructions_756 = 12" "list_all metadata_wf arm64_instructions_756"
  "map top_bits arm64_instructions_756 =
     [(2047, 806), (1533, 113), (1535, 115), (2045, 753), (2047, 755), (2047, 241), (2047, 243),
      (2047, 247), (2047, 1265), (2047, 1267), (2047, 1271), (1533, 369)]"
  by (simp add: arm64_instructions_756_def, simp add: arm64_instructions_756_def, simp add: top_bits_mask_value keys_of_756)

lemma keys_of_768: "map mask_value arm64_instructions_768 =
     [(0xBFFFFC00, 0x2E79B800), (0xFFBFFC00, 0x7E21B800), (0xFFFFFC00, 0x7E79B800),
      (0xFFFFFC00, 0x1E310000), (0xFFFFFC00, 0x1E710000), (0xFFFFFC00, 0x1EF10000),
      (0xFFFFFC00, 0x9E310000), (0xFFFFFC00, 0x9E710000), (0xFFFFFC00, 0x9EF10000),
      (0xBFBFFC00, 0xE216800), (0xFFFFFC20, 0xC120E020), (0xBFBFFC00, 0xE21A800)]"
  by (simp only: arm64_instructions_768_def read_entries)

lemma entries_768:
  "length arm64_instructions_768 = 12" "list_all metadata_wf arm64_instructions_768"
  "map top_bits arm64_instructions_768 =
     [(1535, 371), (2045, 1009), (2047, 1011), (2047, 241), (2047, 243), (2047, 247),
      (2047, 1265), (2047, 1267), (2047, 1271), (1533, 113), (2047, 1545), (1533, 113)]"
  by (simp add: arm64_instructions_768_def, simp add: arm64_instructions_768_def, simp add: top_bits_mask_value keys_of_768)

lemma keys_of_780: "map mask_value arm64_instructions_780 =
     [(0xBFFFFC00, 0xE79A800), (0xFFBFFC00, 0x5E21A800), (0xFFFFFC00, 0x5E79A800),
      (0xFFFFFC00, 0x1E200000), (0xFFFFFC00, 0x1E600000), (0xFFFFFC00, 0x1EE00000),
      (0xFFFFFC00, 0x9E200000), (0xFFFFFC00, 0x9E600000), (0xFFFFFC00, 0x9EE00000),
      (0xFFFFE000, 0x6488A000), (0xFFFFE000, 0x64CAA000), (0xBFBFFC00, 0x2E21A800)]"
  by (simp only: arm64_instructions_780_def read_entries)

lemma entries_780:
  "length arm64_instructions_780 = 12" "list_all metadata_wf arm64_instructions_780"
  "map top_bits arm64_instructions_780 =
     [(1535, 115), (2045, 753), (2047, 755), (2047, 241), (2047, 243), (2047, 247), (2047, 1265),
      (2047, 1267), (2047, 1271), (2047, 804), (2047, 806), (1533, 369)]"
  by (simp add: arm64_instructions_780_def, simp add: arm64_instructions_780_def, simp add: top_bits_mask_value keys_of_780)

lemma keys_of_792: "map mask_value arm64_instructions_792 =
     [(0xBFFFFC00, 0x2E79A800), (0xFFBFFC00, 0x7E21A800), (0xFFFFFC00, 0x7E79A800),
      (0xFFFFFC00, 0x1E210000), (0xFFFFFC00, 0x1E610000), (0xFFFFFC00, 0x1EE10000),
      (0xFFFFFC00, 0x9E210000), (0xFFFFFC00, 0x9E610000), (0xFFFFFC00, 0x9EE10000),
      (0xBFBFFC00, 0xEA1A800), (0xBFFFFC00, 0xEF9A800), (0xFFBFFC00, 0x5EA1A800)]"
  by (simp only: arm64_instructions_792_def read_entries)

lemma entries_792:
  "length arm64_instructions_792 = 12" "list_all metadata_wf arm64_instructions_792"
  "map top_bits arm64_instructions_792 =
     [(1535, 371), (2045, 1009), (2047, 1011), (2047, 241), (2047, 243), (2047, 247),
      (2047, 1265), (2047, 1267), (2047, 1271), (1533, 117), (1535, 119), (2045, 757)]"
  by (simp add: arm64_instructions_792_def, simp add: arm64_instructions_792_def, simp add: top_bits_mask_value keys_of_792)

lemma keys_of_804: "map mask_value arm64_instructions_804 =
     [(0xFFFFFC00, 0x5EF9A800), (0xFFFFFC00, 0x1E280000), (0xFFFFFC00, 0x1E680000),
      (0xFFFFFC00, 0x1EE80000), (0xFFFFFC00, 0x9E280000), (0xFFFFFC00, 0x9E680000),
      (0xFFFFFC00, 0x9EE80000), (0xBFBFFC00, 0x2EA1A800), (0xBFFFFC00, 0x2EF9A800),
      (0xFFBFFC00, 0x7EA1A800), (0xFFFFFC00, 0x7EF9A800), (0xFFFFFC00, 0x1E290000)]"
  by (simp only: arm64_instructions_804_def read_entries)

lemma entries_804:
  "length arm64_instructions_804 = 12" "list_all metadata_wf arm64_instructions_804"
  "map top_bits arm64_instructions_804 =
     [(2047, 759), (2047, 241), (2047, 243), (2047, 247), (2047, 1265), (2047, 1267),
      (2047, 1271), (1533, 373), (1535, 375), (2045, 1013), (2047, 1015), (2047, 241)]"
  by (simp add: arm64_instructions_804_def, simp add: arm64_instructions_804_def, simp add: top_bits_mask_value keys_of_804)

lemma keys_of_816: "map mask_value arm64_instructions_816 =
     [(0xFFFFFC00, 0x1E690000), (0xFFFFFC00, 0x1EE90000), (0xFFFFFC00, 0x9E290000),
      (0xFFFFFC00, 0x9E690000), (0xFFFFFC00, 0x9EE90000), (0xFFFFE000, 0x650AA000),
      (0xBFBFFC00, 0x2E216800), (0xFFBFFC00, 0x7E216800), (0xFFFFE000, 0x640AA000),
      (0xBF8FFC00, 0xF00FC00), (0xFF8FFC00, 0x5F00FC00), (0xBFBFFC00, 0xEA1B800)]"
  by (simp only: arm64_instructions_816_def read_entries)

lemma entries_816:
  "length arm64_instructions_816 = 12" "list_all metadata_wf arm64_instructions_816"
  "map top_bits arm64_instructions_816 =
     [(2047, 243), (2047, 247), (2047, 1265), (2047, 1267), (2047, 1271), (2047, 808),
      (1533, 369), (2045, 1009), (2047, 800), (1532, 120), (2044, 760), (1533, 117)]"
  by (simp add: arm64_instructions_816_def, simp add: arm64_instructions_816_def, simp add: top_bits_mask_value keys_of_816)

lemma keys_of_828: "map mask_value arm64_instructions_828 =
     [(0xBFFFFC00, 0xEF9B800), (0xFFBFFC00, 0x5EA1B800), (0xFFFFFC00, 0x5EF9B800),
      (0xFFFF0000, 0x1E180000), (0xFFFF0000, 0x1E580000), (0xFFFF0000, 0x1ED80000),
      (0xFFFF0000, 0x9E180000), (0xFFFF0000, 0x9E580000), (0xFFFF0000, 0x9ED80000),
      (0xFFFFFC00, 0x1E380000), (0xFFFFFC00, 0x1E780000), (0xFFFFFC00, 0x1EF80000)]"
  by (simp only: arm64_instructions_828_def read_entries)

lemma entries_828:
  "length arm64_instructions_828 = 12" "list_all metadata_wf arm64_instructions_828"
  "map top_bits arm64_instructions_828 =
     [(1535, 119), (2045, 757), (2047, 759), (2047, 240), (2047, 242), (2047, 246), (2047, 1264),
      (2047, 1266), (2047, 1270), (2047, 241), (2047, 243), (2047, 247)]"
  by (simp add: arm64_instructions_828_def, simp add: arm64_instructions_828_def, simp add: top_bits_mask_value keys_of_828)

lemma keys_of_840: "map mask_value arm64_instructions_840 =
     [(0xFFFFFC00, 0x9E380000), (0xFFFFFC00, 0x9E780000), (0xFFFFFC00, 0x9EF80000),
      (0xFFFFFC21, 0xC121E000), (0xFFFFFC63, 0xC131E000), (0xFFFFE000, 0x655AA000),
      (0xFFFFE000, 0x655CA000), (0xFFFFE000, 0x655EA000), (0xFFFFE000, 0x659CA000),
      (0xFFFFE000, 0x65D8A000), (0xFFFFE000, 0x65DCA000), (0xFFFFE000, 0x65DEA000)]"
  by (simp only: arm64_instructions_840_def read_entries)

lemma entries_840:
  "length arm64_instructions_840 = 12" "list_all metadata_wf arm64_instructions_840"
  "map top_bits arm64_instructions_840 =
     [(2047, 1265), (2047, 1267), (2047, 1271), (2047, 1545), (2047, 1545), (2047, 810),
      (2047, 810), (2047, 810), (2047, 812), (2047, 814), (2047, 814), (2047, 814)]"
  by (simp add: arm64_instructions_840_def, simp add: arm64_instructions_840_def, simp add: top_bits_mask_value keys_of_840)

lemma keys_of_852: "map mask_value arm64_instructions_852 =
     [(0xBF8FFC00, 0x2F00FC00), (0xFF8FFC00, 0x7F00FC00), (0xBFBFFC00, 0x2EA1B800),
      (0xBFFFFC00, 0x2EF9B800), (0xFFBFFC00, 0x7EA1B800), (0xFFFFFC00, 0x7EF9B800),
      (0xFFFF0000, 0x1E190000), (0xFFFF0000, 0x1E590000), (0xFFFF0000, 0x1ED90000),
      (0xFFFF0000, 0x9E190000), (0xFFFF0000, 0x9E590000), (0xFFFF0000, 0x9ED90000)]"
  by (simp only: arm64_instructions_852_def read_entries)

lemma entries_852:
  "length arm64_instructions_852 = 12" "list_all metadata_wf arm64_instructions_852"
  "map top_bits arm64_instructions_852 =
     [(1532, 376), (2044, 1016), (1533, 373), (1535, 375), (2045, 1013), (2047, 1015),
      (2047, 240), (2047, 242), (2047, 246), (2047, 1264), (2047, 1266), (2047, 1270)]"
  by (simp add: arm64_instructions_852_def, simp add: arm64_instructions_852_def, simp add: top_bits_mask_value keys_of_852)

lemma keys_of_864: "map mask_value arm64_instructions_864 =
     [(0xFFFFFC00, 0x1E390000), (0xFFFFFC00, 0x1E790000), (0xFFFFFC00, 0x1EF90000),
      (0xFFFFFC00, 0x9E390000), (0xFFFFFC00, 0x9E790000), (0xFFFFFC00, 0x9EF90000),
      (0xFFFFFC21, 0xC121E020), (0xFFFFFC63, 0xC131E020), (0xFFFFE000, 0x655BA000),
      (0xFFFFE000, 0x655DA000), (0xFFFFE000, 0x655FA000), (0xFFFFE000, 0x659DA000)]"
  by (simp only: arm64_instructions_864_def read_entries)

lemma entries_864:
  "length arm64_instructions_864 = 12" "list_all metadata_wf arm64_instructions_864"
  "map top_bits arm64_instructions_864 =
     [(2047, 241), (2047, 243), (2047, 247), (2047, 1265), (2047, 1267), (2047, 1271),
      (2047, 1545), (2047, 1545), (2047, 810), (2047, 810), (2047, 810), (2047, 812)]"
  by (simp add: arm64_instructions_864_def, simp add: arm64_instructions_864_def, simp add: top_bits_mask_value keys_of_864)

lemma keys_of_876: "map mask_value arm64_instructions_876 =
     [(0xFFFFE000, 0x65D9A000), (0xFFFFE000, 0x65DDA000), (0xFFFFE000, 0x65DFA000),
      (0xBFA0FC00, 0x2E20FC00), (0xBFE0FC00, 0x2E403C00), (0xFFE0FC00, 0x1E201800),
      (0xFFE0FC00, 0x1E601800), (0xFFE0FC00, 0x1EE01800), (0xFF3FE000, 0x650D8000),
      (0xFF3FE000, 0x650C8000), (0xFFE0FC00, 0x64208000), (0xFFE0FC00, 0x64204000)]"
  by (simp only: arm64_instructions_876_def read_entries)

lemma entries_876:
  "length arm64_instructions_876 = 12" "list_all metadata_wf arm64_instructions_876"
  "map top_bits arm64_instructions_876 =
     [(2047, 814), (2047, 814), (2047, 814), (1533, 369), (1535, 370), (2047, 241), (2047, 243),
      (2047, 247), (2041, 808), (2041, 808), (2047, 801), (2047, 801)]"
  by (simp add: arm64_instructions_876_def, simp add: arm64_instructions_876_def, simp add: top_bits_mask_value keys_of_876)

lemma keys_of_888: "map mask_value arm64_instructions_888 =
     [(0xFFF09038, 0xC1501008), (0xFFF09078, 0xC1509008), (0xFFF09C18, 0xC1201000),
      (0xFFF09C18, 0xC1301000), (0xFFE19C38, 0xC1A01000), (0xFFE39C78, 0xC1A11000),
      (0xFF3FE000, 0x2539C000), (0xFF3FFC00, 0x420B800), (0xFFFFFC00, 0x1E7E0000),
      (0xFFF9E000, 0x6518A000), (0xFF20E000, 0x65208000), (0xFFE08000, 0x1F000000)]"
  by (simp only: arm64_instructions_888_def read_entries)

lemma entries_888:
  "length arm64_instructions_888 = 12" "list_all metadata_wf arm64_instructions_888"
  "map top_bits arm64_instructions_888 =
     [(2047, 1546), (2047, 1546), (2047, 1545), (2047, 1545), (2047, 1549), (2047, 1549),
      (2041, 297), (2041, 33), (2047, 243), (2047, 808), (2041, 809), (2047, 248)]"
  by (simp add: arm64_instructions_888_def, simp add: arm64_instructions_888_def, simp add: top_bits_mask_value keys_of_888)

lemma keys_of_900: "map mask_value arm64_instructions_900 =
     [(0xFFE08000, 0x1F400000), (0xFFE08000, 0x1FC00000), (0xBFA0FC00, 0xE20F400),
      (0xBFE0FC00, 0xE403400), (0xFFE0FC00, 0x1E204800), (0xFFE0FC00, 0x1E604800),
      (0xFFE0FC00, 0x1EE04800), (0xFF38FFE1, 0xC120A100), (0xFF38FFE3, 0xC120A900),
      (0xFF39FFE1, 0xC120B100), (0xFF3BFFE3, 0xC120B900), (0xFF3FE3C0, 0x651E8000)]"
  by (simp only: arm64_instructions_900_def read_entries)

lemma entries_900:
  "length arm64_instructions_900 = 12" "list_all metadata_wf arm64_instructions_900"
  "map top_bits arm64_instructions_900 =
     [(2047, 250), (2047, 254), (1533, 113), (1535, 114), (2047, 241), (2047, 243), (2047, 247),
      (2041, 1545), (2041, 1545), (2041, 1545), (2041, 1545), (2041, 808)]"
  by (simp add: arm64_instructions_900_def, simp add: arm64_instructions_900_def, simp add: top_bits_mask_value keys_of_900)

lemma keys_of_912: "map mask_value arm64_instructions_912 =
     [(0xFF3FE000, 0x65068000), (0xBFA0FC00, 0xE20C400), (0xBFE0FC00, 0xE400400),
      (0xFFE0FC00, 0x1E206800), (0xFFE0FC00, 0x1E606800), (0xFFE0FC00, 0x1EE06800),
      (0xFF38FFE1, 0xC120A120), (0xFF38FFE3, 0xC120A920), (0xFF39FFE1, 0xC120B120),
      (0xFF3BFFE3, 0xC120B920), (0xFF3FE3C0, 0x651C8000), (0xFF3FE000, 0x65048000)]"
  by (simp only: arm64_instructions_912_def read_entries)

lemma entries_912:
  "length arm64_instructions_912 = 12" "list_all metadata_wf arm64_instructions_912"
  "map top_bits arm64_instructions_912 =
     [(2041, 808), (1533, 113), (1535, 114), (2047, 241), (2047, 243), (2047, 247), (2041, 1545),
      (2041, 1545), (2041, 1545), (2041, 1545), (2041, 808), (2041, 808)]"
  by (simp add: arm64_instructions_912_def, simp add: arm64_instructions_912_def, simp add: top_bits_mask_value keys_of_912)

lemma keys_of_924: "map mask_value arm64_instructions_924 =
     [(0xFFBFFC00, 0x5E30C800), (0xFFBFFC00, 0x7E30C800), (0xBFA0FC00, 0x2E20C400),
      (0xBFE0FC00, 0x2E400400), (0xFF3FE000, 0x64148000), (0xFF3FE000, 0x6414A000),
      (0xBFBFFC00, 0x2E30C800), (0xBFFFFC00, 0xE30C800), (0xFF3FE000, 0x65042000),
      (0xFFBFFC00, 0x5E30F800), (0xFFBFFC00, 0x7E30F800), (0xBFA0FC00, 0x2E20F400)]"
  by (simp only: arm64_instructions_924_def read_entries)

lemma entries_924:
  "length arm64_instructions_924 = 12" "list_all metadata_wf arm64_instructions_924"
  "map top_bits arm64_instructions_924 =
     [(2045, 753), (2045, 1009), (1533, 369), (1535, 370), (2041, 800), (2041, 800), (1533, 369),
      (1535, 113), (2041, 808), (2045, 753), (2045, 1009), (1533, 369)]"
  by (simp add: arm64_instructions_924_def, simp add: arm64_instructions_924_def, simp add: top_bits_mask_value keys_of_924)

lemma keys_of_936: "map mask_value arm64_instructions_936 =
     [(0xBFE0FC00, 0x2E403400), (0xFF3FE000, 0x64168000), (0xFF3FE000, 0x6416A000),
      (0xBFBFFC00, 0x2E30F800), (0xBFFFFC00, 0xE30F800), (0xFF3FE000, 0x65062000),
      (0xBFA0FC00, 0xEA0F400), (0xBFE0FC00, 0xEC03400), (0xFFE0FC00, 0x1E205800),
      (0xFFE0FC00, 0x1E605800), (0xFFE0FC00, 0x1EE05800), (0xFF38FFE1, 0xC120A101)]"
  by (simp only: arm64_instructions_936_def read_entries)

lemma entries_936:
  "length arm64_instructions_936 = 12" "list_all metadata_wf arm64_instructions_936"
  "map top_bits arm64_instructions_936 =
     [(1535, 370), (2041, 800), (2041, 800), (1533, 369), (1535, 113), (2041, 808), (1533, 117),
      (1535, 118), (2047, 241), (2047, 243), (2047, 247), (2041, 1545)]"
  by (simp add: arm64_instructions_936_def, simp add: arm64_instructions_936_def, simp add: top_bits_mask_value keys_of_936)

lemma keys_of_948: "map mask_value arm64_instructions_948 =
     [(0xFF38FFE3, 0xC120A901), (0xFF39FFE1, 0xC120B101), (0xFF3BFFE3, 0xC120B901),
      (0xFF3FE3C0, 0x651F8000), (0xFF3FE000, 0x65078000), (0xBFA0FC00, 0xEA0C400),
      (0xBFE0FC00, 0xEC00400), (0xFFE0FC00, 0x1E207800), (0xFFE0FC00, 0x1E607800),
      (0xFFE0FC00, 0x1EE07800), (0xFF38FFE1, 0xC120A121), (0xFF38FFE3, 0xC120A921)]"
  by (simp only: arm64_instructions_948_def read_entries)

lemma entries_948:
  "length arm64_instructions_948 = 12" "list_all metadata_wf arm64_instructions_948"
  "map top_bits arm64_instructions_948 =
     [(2041, 1545), (2041, 1545), (2041, 1545), (2041, 808), (2041, 808), (1533, 117),
      (1535, 118), (2047, 241), (2047, 243), (2047, 247), (2041, 1545), (2041, 1545)]"
  by (simp add: arm64_instructions_948_def, simp add: arm64_instructions_948_def, simp add: top_bits_mask_value keys_of_948)

lemma keys_of_960: "map mask_value arm64_instructions_960 =
     [(0xFF39FFE1, 0xC120B121), (0xFF3BFFE3, 0xC120B921), (0xFF3FE3C0, 0x651D8000),
      (0xFF3FE000, 0x65058000), (0xFFBFFC00, 0x5EB0C800), (0xFFBFFC00, 0x7EB0C800),
      (0xBFA0FC00, 0x2EA0C400), (0xBFE0FC00, 0x2EC00400), (0xFF3FE000, 0x64158000),
      (0xFF3FE000, 0x6415A000), (0xBFBFFC00, 0x2EB0C800), (0xBFFFFC00, 0xEB0C800)]"
  by (simp only: arm64_instructions_960_def read_entries)

lemma entries_960:
  "length arm64_instructions_960 = 12" "list_all metadata_wf arm64_instructions_960"
  "map top_bits arm64_instructions_960 =
     [(2041, 1545), (2041, 1545), (2041, 808), (2041, 808), (2045, 757), (2045, 1013),
      (1533, 373), (1535, 374), (2041, 800), (2041, 800), (1533, 373), (1535, 117)]"
  by (simp add: arm64_instructions_960_def, simp add: arm64_instructions_960_def, simp add: top_bits_mask_value keys_of_960)

lemma keys_of_972: "map mask_value arm64_instructions_972 =
     [(0xFF3FE000, 0x65052000), (0xFFBFFC00, 0x5EB0F800), (0xFFBFFC00, 0x7EB0F800),
      (0xBFA0FC00, 0x2EA0F400), (0xBFE0FC00, 0x2EC03400), (0xFF3FE000, 0x64178000),
      (0xFF3FE000, 0x6417A000), (0xBFBFFC00, 0x2EB0F800), (0xBFFFFC00, 0xEB0F800),
      (0xFF3FE000, 0x65072000), (0xBF80F400, 0xF801000), (0xBFC0F400, 0xF001000)]"
  by (simp only: arm64_instructions_972_def read_entries)

lemma entries_972:
  "length arm64_instructions_972 = 12" "list_all metadata_wf arm64_instructions_972"
  "map top_bits arm64_instructions_972 =
     [(2041, 808), (2045, 757), (2045, 1013), (1533, 373), (1535, 374), (2041, 800), (2041, 800),
      (1533, 373), (1535, 117), (2041, 808), (1532, 124), (1534, 120)]"
  by (simp add: arm64_instructions_972_def, simp add: arm64_instructions_972_def, simp add: top_bits_mask_value keys_of_972)

lemmas entries_part_2 =
  entries_492 entries_504 entries_516 entries_528 entries_540 entries_552 entries_564
  entries_576 entries_588 entries_600 entries_612 entries_624 entries_636 entries_648
  entries_660 entries_672 entries_684 entries_696 entries_708 entries_720 entries_732
  entries_744 entries_756 entries_768 entries_780 entries_792 entries_804 entries_816
  entries_828 entries_840 entries_852 entries_864 entries_876 entries_888 entries_900
  entries_912 entries_924 entries_936 entries_948 entries_960 entries_972

lemma arm64_part_2:
  "length (concat arm64_part_2) = 492" "list_all metadata_wf (concat arm64_part_2)"
  "sum_list (map weight (map top_bits (concat arm64_part_2))) = 1079"
  by (simp_all add: arm64_part_2_def entries_part_2 weight_def bit_Suc_0_iff)

end
