(* ===== verification/Arm64_Instructions_3.thy ===== *)
theory Arm64_Instructions_3
  imports Table_Entries
begin

text \<open>
  Entries 984 to 1475 of \<open>g_bal_decoder_arm64_instructions\<close> in \<open>src/generated/decoder_table.c\<close>,
  twelve to a list; a list is named after the index of its first entry.
\<close>

definition arm64_instructions_984 :: "bal_decoder_instruction_metadata_t list" where
  "arm64_instructions_984 = [
     insn ''FMLA'' 0xFF80F400 0x5F801000 OPCODE_TRAP [op_v 0 5, op_v 5 5, op_imm 11 1, op_v 16 4, op_v 20 1],
     insn ''FMLA'' 0xFFC0F400 0x5F001000 OPCODE_TRAP [op_v 0 5, op_v 5 5, op_imm 11 1, op_v 16 4, op_imm 20 1],
     insn ''FMLA'' 0xBFA0FC00 0x0E20CC00 OPCODE_TRAP [op_v 0 5, op_v 5 5, op_v 16 5],
     insn ''FMLA'' 0xBFE0FC00 0x0E400C00 OPCODE_TRAP [op_v 0 5, op_v 5 5, op_v 16 5],
     insn ''FMLA'' 0xFF38E000 0x65200000 OPCODE_TRAP [op_v 0 5, op_v 5 5, op_v 10 3, op_v 16 5],
     insn ''FMLA'' 0xFFA0FC00 0x64200000 OPCODE_TRAP [op_v 0 5, op_v 5 5, op_v 16 3, op_imm 19 2, op_imm 22 1],
     insn ''FMLA'' 0xFFE0FC00 0x64A00000 OPCODE_TRAP [op_v 0 5, op_v 5 5, op_v 16 3, op_imm 19 2],
     insn ''FMLA'' 0xFFE0FC00 0x64E00000 OPCODE_TRAP [op_v 0 5, op_v 5 5, op_v 16 4, op_imm 20 1],
     insn ''FMLA'' 0xFFF09030 0xC1101000 OPCODE_TRAP [op_imm 0 3, op_imm 3 1, op_v 6 4, op_imm 10 2, op_w 13 2],
     insn ''FMLA'' 0xFFF09038 0xC1500000 OPCODE_TRAP [op_imm 0 3, op_v 6 4, op_imm 10 2, op_w 13 2, op_v 16 4],
     insn ''FMLA'' 0xFFF09070 0xC1109000 OPCODE_TRAP [op_imm 0 3, op_imm 3 1, op_v 7 3, op_imm 10 2, op_w 13 2],
     insn ''FMLA'' 0xFFF09078 0xC1508000 OPCODE_TRAP [op_imm 0 3, op_v 7 3, op_imm 10 2, op_w 13 2, op_v 16 4]]"

definition arm64_instructions_996 :: "bal_decoder_instruction_metadata_t list" where
  "arm64_instructions_996 = [
     insn ''FMLA'' 0xFFF09838 0xC1D00000 OPCODE_TRAP [op_imm 0 3, op_v 6 4, op_imm 10 1, op_w 13 2, op_v 16 4],
     insn ''FMLA'' 0xFFF09878 0xC1D08000 OPCODE_TRAP [op_imm 0 3, op_v 7 3, op_imm 10 1, op_w 13 2, op_v 16 4],
     insn ''FMLA'' 0xFFB09C18 0xC1201800 OPCODE_TRAP [op_imm 0 3, op_v 5 5, op_w 13 2, op_v 16 4],
     insn ''FMLA'' 0xFFB09C18 0xC1301800 OPCODE_TRAP [op_imm 0 3, op_v 5 5, op_w 13 2, op_v 16 4],
     insn ''FMLA'' 0xFFF09C18 0xC1201C00 OPCODE_TRAP [op_imm 0 3, op_v 5 5, op_w 13 2, op_v 16 4],
     insn ''FMLA'' 0xFFF09C18 0xC1301C00 OPCODE_TRAP [op_imm 0 3, op_v 5 5, op_w 13 2, op_v 16 4],
     insn ''FMLA'' 0xFFA19C38 0xC1A01800 OPCODE_TRAP [op_imm 0 3, op_v 6 4, op_w 13 2, op_v 17 4],
     insn ''FMLA'' 0xFFA39C78 0xC1A11800 OPCODE_TRAP [op_imm 0 3, op_v 7 3, op_w 13 2, op_v 18 3],
     insn ''FMLA'' 0xFFE19C38 0xC1A01008 OPCODE_TRAP [op_imm 0 3, op_v 6 4, op_w 13 2, op_v 17 4],
     insn ''FMLA'' 0xFFE39C78 0xC1A11008 OPCODE_TRAP [op_imm 0 3, op_v 7 3, op_w 13 2, op_v 18 3],
     insn ''FMLAL'' 0xBFC0F400 0x0F800000 OPCODE_TRAP [op_v 0 5, op_v 5 5, op_imm 11 1, op_v 16 4, op_imm 20 1],
     insn ''FMLAL2'' 0xBFC0F400 0x2F808000 OPCODE_TRAP [op_v 0 5, op_v 5 5, op_imm 11 1, op_v 16 4, op_imm 20 1]]"

definition arm64_instructions_1008 :: "bal_decoder_instruction_metadata_t list" where
  "arm64_instructions_1008 = [
     insn ''FMLAL'' 0xBFE0FC00 0x0E20EC00 OPCODE_TRAP [op_v 0 5, op_v 5 5, op_v 16 5],
     insn ''FMLAL2'' 0xBFE0FC00 0x2E20CC00 OPCODE_TRAP [op_v 0 5, op_v 5 5, op_v 16 5],
     insn ''FMLAL'' 0xFFF01018 0xC1801000 OPCODE_TRAP [op_imm 0 3, op_v 5 5, op_imm 10 2, op_w 13 2, op_imm 15 1],
     insn ''FMLAL'' 0xFFF09038 0xC1901000 OPCODE_TRAP [op_imm 0 2, op_imm 2 1, op_v 6 4, op_imm 10 2, op_w 13 2],
     insn ''FMLAL'' 0xFFF09078 0xC1909000 OPCODE_TRAP [op_imm 0 2, op_imm 2 1, op_v 7 3, op_imm 10 2, op_w 13 2],
     insn ''FMLAL'' 0xFFF09C18 0xC1200C00 OPCODE_TRAP [op_imm 0 3, op_v 5 5, op_w 13 2, op_v 16 4],
     insn ''FMLAL'' 0xFFF09C1C 0xC1200800 OPCODE_TRAP [op_imm 0 2, op_v 5 5, op_w 13 2, op_v 16 4],
     insn ''FMLAL'' 0xFFF09C1C 0xC1300800 OPCODE_TRAP [op_imm 0 2, op_v 5 5, op_w 13 2, op_v 16 4],
     insn ''FMLAL'' 0xFFE19C3C 0xC1A00800 OPCODE_TRAP [op_imm 0 2, op_v 6 4, op_w 13 2, op_v 17 4],
     insn ''FMLAL'' 0xFFE39C7C 0xC1A10800 OPCODE_TRAP [op_imm 0 2, op_v 7 3, op_w 13 2, op_v 18 3],
     insn ''FMLALB'' 0xFFE0FC00 0x64A08000 OPCODE_TRAP [op_v 0 5, op_v 5 5, op_v 16 5],
     insn ''FMLALB'' 0xFFE0F400 0x64A04000 OPCODE_TRAP [op_v 0 5, op_v 5 5, op_imm 11 1, op_v 16 3, op_imm 19 2]]"

definition arm64_instructions_1020 :: "bal_decoder_instruction_metadata_t list" where
  "arm64_instructions_1020 = [
     insn ''FMLALT'' 0xFFE0FC00 0x64A08400 OPCODE_TRAP [op_v 0 5, op_v 5 5, op_v 16 5],
     insn ''FMLALT'' 0xFFE0F400 0x64A04400 OPCODE_TRAP [op_v 0 5, op_v 5 5, op_imm 11 1, op_v 16 3, op_imm 19 2],
     insn ''FMLS'' 0xBF80F400 0x0F805000 OPCODE_TRAP [op_v 0 5, op_v 5 5, op_imm 11 1, op_v 16 4, op_v 20 1],
     insn ''FMLS'' 0xBFC0F400 0x0F005000 OPCODE_TRAP [op_v 0 5, op_v 5 5, op_imm 11 1, op_v 16 4, op_imm 20 1],
     insn ''FMLS'' 0xFF80F400 0x5F805000 OPCODE_TRAP [op_v 0 5, op_v 5 5, op_imm 11 1, op_v 16 4, op_v 20 1],
     insn ''FMLS'' 0xFFC0F400 0x5F005000 OPCODE_TRAP [op_v 0 5, op_v 5 5, op_imm 11 1, op_v 16 4, op_imm 20 1],
     insn ''FMLS'' 0xBFA0FC00 0x0EA0CC00 OPCODE_TRAP [op_v 0 5, op_v 5 5, op_v 16 5],
     insn ''FMLS'' 0xBFE0FC00 0x0EC00C00 OPCODE_TRAP [op_v 0 5, op_v 5 5, op_v 16 5],
     insn ''FMLS'' 0xFF38E000 0x65202000 OPCODE_TRAP [op_v 0 5, op_v 5 5, op_v 10 3, op_v 16 5],
     insn ''FMLS'' 0xFFA0FC00 0x64200400 OPCODE_TRAP [op_v 0 5, op_v 5 5, op_v 16 3, op_imm 19 2, op_imm 22 1],
     insn ''FMLS'' 0xFFE0FC00 0x64A00400 OPCODE_TRAP [op_v 0 5, op_v 5 5, op_v 16 3, op_imm 19 2],
     insn ''FMLS'' 0xFFE0FC00 0x64E00400 OPCODE_TRAP [op_v 0 5, op_v 5 5, op_v 16 4, op_imm 20 1]]"

definition arm64_instructions_1032 :: "bal_decoder_instruction_metadata_t list" where
  "arm64_instructions_1032 = [
     insn ''FMLS'' 0xFFF09030 0xC1101010 OPCODE_TRAP [op_imm 0 3, op_imm 3 1, op_v 6 4, op_imm 10 2, op_w 13 2],
     insn ''FMLS'' 0xFFF09038 0xC1500010 OPCODE_TRAP [op_imm 0 3, op_v 6 4, op_imm 10 2, op_w 13 2, op_v 16 4],
     insn ''FMLS'' 0xFFF09070 0xC1109010 OPCODE_TRAP [op_imm 0 3, op_imm 3 1, op_v 7 3, op_imm 10 2, op_w 13 2],
     insn ''FMLS'' 0xFFF09078 0xC1508010 OPCODE_TRAP [op_imm 0 3, op_v 7 3, op_imm 10 2, op_w 13 2, op_v 16 4],
     insn ''FMLS'' 0xFFF09838 0xC1D00010 OPCODE_TRAP [op_imm 0 3, op_v 6 4, op_imm 10 1, op_w 13 2, op_v 16 4],
     insn ''FMLS'' 0xFFF09878 0xC1D08010 OPCODE_TRAP [op_imm 0 3, op_v 7 3, op_imm 10 1, op_w 13 2, op_v 16 4],
     insn ''FMLS'' 0xFFB09C18 0xC1201808 OPCODE_TRAP [op_imm 0 3, op_v 5 5, op_w 13 2, op_v 16 4],
     insn ''FMLS'' 0xFFB09C18 0xC1301808 OPCODE_TRAP [op_imm 0 3, op_v 5 5, op_w 13 2, op_v 16 4],
     insn ''FMLS'' 0xFFF09C18 0xC1201C08 OPCODE_TRAP [op_imm 0 3, op_v 5 5, op_w 13 2, op_v 16 4],
     insn ''FMLS'' 0xFFF09C18 0xC1301C08 OPCODE_TRAP [op_imm 0 3, op_v 5 5, op_w 13 2, op_v 16 4],
     insn ''FMLS'' 0xFFA19C38 0xC1A01808 OPCODE_TRAP [op_imm 0 3, op_v 6 4, op_w 13 2, op_v 17 4],
     insn ''FMLS'' 0xFFA39C78 0xC1A11808 OPCODE_TRAP [op_imm 0 3, op_v 7 3, op_w 13 2, op_v 18 3]]"

definition arm64_instructions_1044 :: "bal_decoder_instruction_metadata_t list" where
  "arm64_instructions_1044 = [
     insn ''FMLS'' 0xFFE19C38 0xC1A01018 OPCODE_TRAP [op_imm 0 3, op_v 6 4, op_w 13 2, op_v 17 4],
     insn ''FMLS'' 0xFFE39C78 0xC1A11018 OPCODE_TRAP [op_imm 0 3, op_v 7 3, op_w 13 2, op_v 18 3],
     insn ''FMLSL'' 0xBFC0F400 0x0F804000 OPCODE_TRAP [op_v 0 5, op_v 5 5, op_imm 11 1, op_v 16 4, op_imm 20 1],
     insn ''FMLSL2'' 0xBFC0F400 0x2F80C000 OPCODE_TRAP [op_v 0 5, op_v 5 5, op_imm 11 1, op_v 16 4, op_imm 20 1],
     insn ''FMLSL'' 0xBFE0FC00 0x0EA0EC00 OPCODE_TRAP [op_v 0 5, op_v 5 5, op_v 16 5],
     insn ''FMLSL2'' 0xBFE0FC00 0x2EA0CC00 OPCODE_TRAP [op_v 0 5, op_v 5 5, op_v 16 5],
     insn ''FMLSL'' 0xFFF01018 0xC1801008 OPCODE_TRAP [op_imm 0 3, op_v 5 5, op_imm 10 2, op_w 13 2, op_imm 15 1],
     insn ''FMLSL'' 0xFFF09038 0xC1901008 OPCODE_TRAP [op_imm 0 2, op_imm 2 1, op_v 6 4, op_imm 10 2, op_w 13 2],
     insn ''FMLSL'' 0xFFF09078 0xC1909008 OPCODE_TRAP [op_imm 0 2, op_imm 2 1, op_v 7 3, op_imm 10 2, op_w 13 2],
     insn ''FMLSL'' 0xFFF09C18 0xC1200C08 OPCODE_TRAP [op_imm 0 3, op_v 5 5, op_w 13 2, op_v 16 4],
     insn ''FMLSL'' 0xFFF09C1C 0xC1200808 OPCODE_TRAP [op_imm 0 2, op_v 5 5, op_w 13 2, op_v 16 4],
     insn ''FMLSL'' 0xFFF09C1C 0xC1300808 OPCODE_TRAP [op_imm 0 2, op_v 5 5, op_w 13 2, op_v 16 4]]"

definition arm64_instructions_1056 :: "bal_decoder_instruction_metadata_t list" where
  "arm64_instructions_1056 = [
     insn ''FMLSL'' 0xFFE19C3C 0xC1A00808 OPCODE_TRAP [op_imm 0 2, op_v 6 4, op_w 13 2, op_v 17 4],
     insn ''FMLSL'' 0xFFE39C7C 0xC1A10808 OPCODE_TRAP [op_imm 0 2, op_v 7 3, op_w 13 2, op_v 18 3],
     insn ''FMLSLB'' 0xFFE0FC00 0x64A0A000 OPCODE_TRAP [op_v 0 5, op_v 5 5, op_v 16 5],
     insn ''FMLSLB'' 0xFFE0F400 0x64A06000 OPCODE_TRAP [op_v 0 5, op_v 5 5, op_imm 11 1, op_v 16 3, op_imm 19 2],
     insn ''FMLSLT'' 0xFFE0FC00 0x64A0A400 OPCODE_TRAP [op_v 0 5, op_v 5 5, op_v 16 5],
     insn ''FMLSLT'' 0xFFE0F400 0x64A06400 OPCODE_TRAP [op_v 0 5, op_v 5 5, op_imm 11 1, op_v 16 3, op_imm 19 2],
     insn ''FMMLA'' 0xFFE0FC00 0x64A0E400 OPCODE_TRAP [op_v 0 5, op_v 5 5, op_v 16 5],
     insn ''FMMLA'' 0xFFE0FC00 0x64E0E400 OPCODE_TRAP [op_v 0 5, op_v 5 5, op_v 16 5],
     insn ''FMOPA'' 0xFFE0001C 0x81A00000 OPCODE_TRAP [op_v 5 5, op_v 10 3, op_v 13 3, op_v 16 5],
     insn ''FMOPA'' 0xFFE00018 0x80C00000 OPCODE_TRAP [op_v 5 5, op_v 10 3, op_v 13 3, op_v 16 5],
     insn ''FMOPA'' 0xFFE0001C 0x80800000 OPCODE_TRAP [op_v 5 5, op_v 10 3, op_v 13 3, op_v 16 5],
     insn ''FMOPA'' 0xFFE0001E 0x81800008 OPCODE_TRAP [op_v 5 5, op_v 10 3, op_v 13 3, op_v 16 5]]"

definition arm64_instructions_1068 :: "bal_decoder_instruction_metadata_t list" where
  "arm64_instructions_1068 = [
     insn ''FMOPS'' 0xFFE0001C 0x81A00010 OPCODE_TRAP [op_v 5 5, op_v 10 3, op_v 13 3, op_v 16 5],
     insn ''FMOPS'' 0xFFE00018 0x80C00010 OPCODE_TRAP [op_v 5 5, op_v 10 3, op_v 13 3, op_v 16 5],
     insn ''FMOPS'' 0xFFE0001C 0x80800010 OPCODE_TRAP [op_v 5 5, op_v 10 3, op_v 13 3, op_v 16 5],
     insn ''FMOPS'' 0xFFE0001E 0x81800018 OPCODE_TRAP [op_v 5 5, op_v 10 3, op_v 13 3, op_v 16 5],
     insn ''FMOV'' 0xBFF8FC00 0x0F00F400 OPCODE_TRAP [op_v 0 5],
     insn ''FMOV'' 0xBFF8FC00 0x0F00FC00 OPCODE_TRAP [op_v 0 5],
     insn ''FMOV'' 0xFFF8FC00 0x6F00F400 OPCODE_TRAP [op_v 0 5],
     insn ''CPY'' 0xFF30FFE0 0x05104000 OPCODE_TRAP [op_v 0 5, op_v 16 4],
     insn ''DUP'' 0xFF3FFFE0 0x2538C000 OPCODE_TRAP [op_v 0 5],
     insn ''FCPY'' 0xFF30E000 0x0510C000 OPCODE_TRAP [op_v 0 5, op_imm 5 8, op_v 16 4],
     insn ''FDUP'' 0xFF3FE000 0x2539C000 OPCODE_TRAP [op_v 0 5, op_imm 5 8],
     insn ''FMOV'' 0xFFFFFC00 0x1E204000 OPCODE_TRAP [op_w 0 5, op_w 5 5]]"

definition arm64_instructions_1080 :: "bal_decoder_instruction_metadata_t list" where
  "arm64_instructions_1080 = [
     insn ''FMOV'' 0xFFFFFC00 0x1E604000 OPCODE_TRAP [op_x 0 5, op_x 5 5],
     insn ''FMOV'' 0xFFFFFC00 0x1EE04000 OPCODE_TRAP [op_v 0 5, op_v 5 5],
     insn ''FMOV'' 0xFFFFFC00 0x1E260000 OPCODE_TRAP [op_w 0 5, op_w 5 5],
     insn ''FMOV'' 0xFFFFFC00 0x1E270000 OPCODE_TRAP [op_w 0 5, op_w 5 5],
     insn ''FMOV'' 0xFFFFFC00 0x1EE60000 OPCODE_TRAP [op_w 0 5, op_v 5 5],
     insn ''FMOV'' 0xFFFFFC00 0x1EE70000 OPCODE_TRAP [op_v 0 5, op_w 5 5],
     insn ''FMOV'' 0xFFFFFC00 0x9E660000 OPCODE_TRAP [op_x 0 5, op_x 5 5],
     insn ''FMOV'' 0xFFFFFC00 0x9E670000 OPCODE_TRAP [op_x 0 5, op_x 5 5],
     insn ''FMOV'' 0xFFFFFC00 0x9EAE0000 OPCODE_TRAP [op_x 0 5, op_v 5 5],
     insn ''FMOV'' 0xFFFFFC00 0x9EAF0000 OPCODE_TRAP [op_v 0 5, op_x 5 5],
     insn ''FMOV'' 0xFFFFFC00 0x9EE60000 OPCODE_TRAP [op_x 0 5, op_v 5 5],
     insn ''FMOV'' 0xFFFFFC00 0x9EE70000 OPCODE_TRAP [op_v 0 5, op_x 5 5]]"

definition arm64_instructions_1092 :: "bal_decoder_instruction_metadata_t list" where
  "arm64_instructions_1092 = [
     insn ''FMOV'' 0xFFE01FE0 0x1E201000 OPCODE_TRAP [op_w 0 5],
     insn ''FMOV'' 0xFFE01FE0 0x1E601000 OPCODE_TRAP [op_x 0 5],
     insn ''FMOV'' 0xFFE01FE0 0x1EE01000 OPCODE_TRAP [op_v 0 5],
     insn ''FMSB'' 0xFF20E000 0x6520A000 OPCODE_TRAP [op_v 0 5, op_v 5 5, op_v 10 3, op_v 16 5],
     insn ''FMSUB'' 0xFFE08000 0x1F008000 OPCODE_TRAP [op_w 0 5, op_w 5 5, op_w 10 5, op_w 16 5],
     insn ''FMSUB'' 0xFFE08000 0x1F408000 OPCODE_TRAP [op_x 0 5, op_x 5 5, op_x 10 5, op_x 16 5],
     insn ''FMSUB'' 0xFFE08000 0x1FC08000 OPCODE_TRAP [op_v 0 5, op_v 5 5, op_v 10 5, op_v 16 5],
     insn ''FMUL'' 0xBF80F400 0x0F809000 OPCODE_TRAP [op_v 0 5, op_v 5 5, op_imm 11 1, op_v 16 4, op_v 20 1],
     insn ''FMUL'' 0xBFC0F400 0x0F009000 OPCODE_TRAP [op_v 0 5, op_v 5 5, op_imm 11 1, op_v 16 4, op_imm 20 1],
     insn ''FMUL'' 0xFF80F400 0x5F809000 OPCODE_TRAP [op_v 0 5, op_v 5 5, op_imm 11 1, op_v 16 4, op_v 20 1],
     insn ''FMUL'' 0xFFC0F400 0x5F009000 OPCODE_TRAP [op_v 0 5, op_v 5 5, op_imm 11 1, op_v 16 4, op_imm 20 1],
     insn ''FMUL'' 0xBFA0FC00 0x2E20DC00 OPCODE_TRAP [op_v 0 5, op_v 5 5, op_v 16 5]]"

definition arm64_instructions_1104 :: "bal_decoder_instruction_metadata_t list" where
  "arm64_instructions_1104 = [
     insn ''FMUL'' 0xBFE0FC00 0x2E401C00 OPCODE_TRAP [op_v 0 5, op_v 5 5, op_v 16 5],
     insn ''FMUL'' 0xFFE0FC00 0x1E200800 OPCODE_TRAP [op_w 0 5, op_w 5 5, op_w 16 5],
     insn ''FMUL'' 0xFFE0FC00 0x1E600800 OPCODE_TRAP [op_x 0 5, op_x 5 5, op_x 16 5],
     insn ''FMUL'' 0xFFE0FC00 0x1EE00800 OPCODE_TRAP [op_v 0 5, op_v 5 5, op_v 16 5],
     insn ''FMUL'' 0xFF3FE3C0 0x651A8000 OPCODE_TRAP [op_v 0 5, op_imm 5 1, op_v 10 3],
     insn ''FMUL'' 0xFF3FE000 0x65028000 OPCODE_TRAP [op_v 0 5, op_v 5 5, op_v 10 3],
     insn ''FMUL'' 0xFF38FC00 0x65000800 OPCODE_TRAP [op_v 0 5, op_v 5 5, op_v 16 5],
     insn ''FMUL'' 0xFFA0FC00 0x64202000 OPCODE_TRAP [op_v 0 5, op_v 5 5, op_v 16 3, op_imm 19 2, op_imm 22 1],
     insn ''FMUL'' 0xFFE0FC00 0x64A02000 OPCODE_TRAP [op_v 0 5, op_v 5 5, op_v 16 3, op_imm 19 2],
     insn ''FMUL'' 0xFFE0FC00 0x64E02000 OPCODE_TRAP [op_v 0 5, op_v 5 5, op_v 16 4, op_imm 20 1],
     insn ''FMULX'' 0xBF80F400 0x2F809000 OPCODE_TRAP [op_v 0 5, op_v 5 5, op_imm 11 1, op_v 16 4, op_v 20 1],
     insn ''FMULX'' 0xBFC0F400 0x2F009000 OPCODE_TRAP [op_v 0 5, op_v 5 5, op_imm 11 1, op_v 16 4, op_imm 20 1]]"

definition arm64_instructions_1116 :: "bal_decoder_instruction_metadata_t list" where
  "arm64_instructions_1116 = [
     insn ''FMULX'' 0xFF80F400 0x7F809000 OPCODE_TRAP [op_v 0 5, op_v 5 5, op_imm 11 1, op_v 16 4, op_v 20 1],
     insn ''FMULX'' 0xFFC0F400 0x7F009000 OPCODE_TRAP [op_v 0 5, op_v 5 5, op_imm 11 1, op_v 16 4, op_imm 20 1],
     insn ''FMULX'' 0xBFA0FC00 0x0E20DC00 OPCODE_TRAP [op_v 0 5, op_v 5 5, op_v 16 5],
     insn ''FMULX'' 0xBFE0FC00 0x0E401C00 OPCODE_TRAP [op_v 0 5, op_v 5 5, op_v 16 5],
     insn ''FMULX'' 0xFFA0FC00 0x5E20DC00 OPCODE_TRAP [op_v 0 5, op_v 5 5, op_v 16 5],
     insn ''FMULX'' 0xFFE0FC00 0x5E401C00 OPCODE_TRAP [op_v 0 5, op_v 5 5, op_v 16 5],
     insn ''FMULX'' 0xFF3FE000 0x650A8000 OPCODE_TRAP [op_v 0 5, op_v 5 5, op_v 10 3],
     insn ''FNEG'' 0xBFBFFC00 0x2EA0F800 OPCODE_TRAP [op_v 0 5, op_v 5 5],
     insn ''FNEG'' 0xBFFFFC00 0x2EF8F800 OPCODE_TRAP [op_v 0 5, op_v 5 5],
     insn ''FNEG'' 0xFFFFFC00 0x1E214000 OPCODE_TRAP [op_w 0 5, op_w 5 5],
     insn ''FNEG'' 0xFFFFFC00 0x1E614000 OPCODE_TRAP [op_x 0 5, op_x 5 5],
     insn ''FNEG'' 0xFFFFFC00 0x1EE14000 OPCODE_TRAP [op_v 0 5, op_v 5 5]]"

definition arm64_instructions_1128 :: "bal_decoder_instruction_metadata_t list" where
  "arm64_instructions_1128 = [
     insn ''FNEG'' 0xFF3FE000 0x041DA000 OPCODE_TRAP [op_v 0 5, op_v 5 5, op_v 10 3],
     insn ''FNMAD'' 0xFF20E000 0x6520C000 OPCODE_TRAP [op_v 0 5, op_v 5 5, op_v 10 3, op_v 16 5],
     insn ''FNMADD'' 0xFFE08000 0x1F200000 OPCODE_TRAP [op_w 0 5, op_w 5 5, op_w 10 5, op_w 16 5],
     insn ''FNMADD'' 0xFFE08000 0x1F600000 OPCODE_TRAP [op_x 0 5, op_x 5 5, op_x 10 5, op_x 16 5],
     insn ''FNMADD'' 0xFFE08000 0x1FE00000 OPCODE_TRAP [op_v 0 5, op_v 5 5, op_v 10 5, op_v 16 5],
     insn ''FNMLA'' 0xFF20E000 0x65204000 OPCODE_TRAP [op_v 0 5, op_v 5 5, op_v 10 3, op_v 16 5],
     insn ''FNMLS'' 0xFF20E000 0x65206000 OPCODE_TRAP [op_v 0 5, op_v 5 5, op_v 10 3, op_v 16 5],
     insn ''FNMSB'' 0xFF20E000 0x6520E000 OPCODE_TRAP [op_v 0 5, op_v 5 5, op_v 10 3, op_v 16 5],
     insn ''FNMSUB'' 0xFFE08000 0x1F208000 OPCODE_TRAP [op_w 0 5, op_w 5 5, op_w 10 5, op_w 16 5],
     insn ''FNMSUB'' 0xFFE08000 0x1F608000 OPCODE_TRAP [op_x 0 5, op_x 5 5, op_x 10 5, op_x 16 5],
     insn ''FNMSUB'' 0xFFE08000 0x1FE08000 OPCODE_TRAP [op_v 0 5, op_v 5 5, op_v 10 5, op_v 16 5],
     insn ''FNMUL'' 0xFFE0FC00 0x1E208800 OPCODE_TRAP [op_w 0 5, op_w 5 5, op_w 16 5]]"

definition arm64_instructions_1140 :: "bal_decoder_instruction_metadata_t list" where
  "arm64_instructions_1140 = [
     insn ''FNMUL'' 0xFFE0FC00 0x1E608800 OPCODE_TRAP [op_x 0 5, op_x 5 5, op_x 16 5],
     insn ''FNMUL'' 0xFFE0FC00 0x1EE08800 OPCODE_TRAP [op_v 0 5, op_v 5 5, op_v 16 5],
     insn ''FRECPE'' 0xBFBFFC00 0x0EA1D800 OPCODE_TRAP [op_v 0 5, op_v 5 5],
     insn ''FRECPE'' 0xBFFFFC00 0x0EF9D800 OPCODE_TRAP [op_v 0 5, op_v 5 5],
     insn ''FRECPE'' 0xFFBFFC00 0x5EA1D800 OPCODE_TRAP [op_v 0 5, op_v 5 5],
     insn ''FRECPE'' 0xFFFFFC00 0x5EF9D800 OPCODE_TRAP [op_v 0 5, op_v 5 5],
     insn ''FRECPE'' 0xFF3FFC00 0x650E3000 OPCODE_TRAP [op_v 0 5, op_v 5 5],
     insn ''FRECPS'' 0xBFA0FC00 0x0E20FC00 OPCODE_TRAP [op_v 0 5, op_v 5 5, op_v 16 5],
     insn ''FRECPS'' 0xBFE0FC00 0x0E403C00 OPCODE_TRAP [op_v 0 5, op_v 5 5, op_v 16 5],
     insn ''FRECPS'' 0xFFA0FC00 0x5E20FC00 OPCODE_TRAP [op_v 0 5, op_v 5 5, op_v 16 5],
     insn ''FRECPS'' 0xFFE0FC00 0x5E403C00 OPCODE_TRAP [op_v 0 5, op_v 5 5, op_v 16 5],
     insn ''FRECPS'' 0xFF20FC00 0x65001800 OPCODE_TRAP [op_v 0 5, op_v 5 5, op_v 16 5]]"

definition arm64_instructions_1152 :: "bal_decoder_instruction_metadata_t list" where
  "arm64_instructions_1152 = [
     insn ''FRECPX'' 0xFFBFFC00 0x5EA1F800 OPCODE_TRAP [op_v 0 5, op_v 5 5],
     insn ''FRECPX'' 0xFFFFFC00 0x5EF9F800 OPCODE_TRAP [op_v 0 5, op_v 5 5],
     insn ''FRECPX'' 0xFF3FE000 0x650CA000 OPCODE_TRAP [op_v 0 5, op_v 5 5, op_v 10 3],
     insn ''FRINT32X'' 0xBFBFFC00 0x2E21E800 OPCODE_TRAP [op_v 0 5, op_v 5 5],
     insn ''FRINT32X'' 0xFFFFFC00 0x1E28C000 OPCODE_TRAP [op_w 0 5, op_w 5 5],
     insn ''FRINT32X'' 0xFFFFFC00 0x1E68C000 OPCODE_TRAP [op_x 0 5, op_x 5 5],
     insn ''FRINT32Z'' 0xBFBFFC00 0x0E21E800 OPCODE_TRAP [op_v 0 5, op_v 5 5],
     insn ''FRINT32Z'' 0xFFFFFC00 0x1E284000 OPCODE_TRAP [op_w 0 5, op_w 5 5],
     insn ''FRINT32Z'' 0xFFFFFC00 0x1E684000 OPCODE_TRAP [op_x 0 5, op_x 5 5],
     insn ''FRINT64X'' 0xBFBFFC00 0x2E21F800 OPCODE_TRAP [op_v 0 5, op_v 5 5],
     insn ''FRINT64X'' 0xFFFFFC00 0x1E29C000 OPCODE_TRAP [op_w 0 5, op_w 5 5],
     insn ''FRINT64X'' 0xFFFFFC00 0x1E69C000 OPCODE_TRAP [op_x 0 5, op_x 5 5]]"

definition arm64_instructions_1164 :: "bal_decoder_instruction_metadata_t list" where
  "arm64_instructions_1164 = [
     insn ''FRINT64Z'' 0xBFBFFC00 0x0E21F800 OPCODE_TRAP [op_v 0 5, op_v 5 5],
     insn ''FRINT64Z'' 0xFFFFFC00 0x1E294000 OPCODE_TRAP [op_w 0 5, op_w 5 5],
     insn ''FRINT64Z'' 0xFFFFFC00 0x1E694000 OPCODE_TRAP [op_x 0 5, op_x 5 5],
     insn ''FRINTA'' 0xBFBFFC00 0x2E218800 OPCODE_TRAP [op_v 0 5, op_v 5 5],
     insn ''FRINTA'' 0xBFFFFC00 0x2E798800 OPCODE_TRAP [op_v 0 5, op_v 5 5],
     insn ''FRINTA'' 0xFFFFFC00 0x1E264000 OPCODE_TRAP [op_w 0 5, op_w 5 5],
     insn ''FRINTA'' 0xFFFFFC00 0x1E664000 OPCODE_TRAP [op_x 0 5, op_x 5 5],
     insn ''FRINTA'' 0xFFFFFC00 0x1EE64000 OPCODE_TRAP [op_v 0 5, op_v 5 5],
     insn ''FRINTA'' 0xFFFFFC21 0xC1ACE000 OPCODE_TRAP [op_v 1 4, op_v 6 4],
     insn ''FRINTA'' 0xFFFFFC63 0xC1BCE000 OPCODE_TRAP [op_v 2 3, op_v 7 3],
     insn ''FRINTA'' 0xFF3FE000 0x6504A000 OPCODE_TRAP [op_v 0 5, op_v 5 5, op_v 10 3],
     insn ''FRINTI'' 0xFF3FE000 0x6507A000 OPCODE_TRAP [op_v 0 5, op_v 5 5, op_v 10 3]]"

definition arm64_instructions_1176 :: "bal_decoder_instruction_metadata_t list" where
  "arm64_instructions_1176 = [
     insn ''FRINTM'' 0xFF3FE000 0x6502A000 OPCODE_TRAP [op_v 0 5, op_v 5 5, op_v 10 3],
     insn ''FRINTN'' 0xFF3FE000 0x6500A000 OPCODE_TRAP [op_v 0 5, op_v 5 5, op_v 10 3],
     insn ''FRINTP'' 0xFF3FE000 0x6501A000 OPCODE_TRAP [op_v 0 5, op_v 5 5, op_v 10 3],
     insn ''FRINTX'' 0xFF3FE000 0x6506A000 OPCODE_TRAP [op_v 0 5, op_v 5 5, op_v 10 3],
     insn ''FRINTZ'' 0xFF3FE000 0x6503A000 OPCODE_TRAP [op_v 0 5, op_v 5 5, op_v 10 3],
     insn ''FRINTI'' 0xBFBFFC00 0x2EA19800 OPCODE_TRAP [op_v 0 5, op_v 5 5],
     insn ''FRINTI'' 0xBFFFFC00 0x2EF99800 OPCODE_TRAP [op_v 0 5, op_v 5 5],
     insn ''FRINTI'' 0xFFFFFC00 0x1E27C000 OPCODE_TRAP [op_w 0 5, op_w 5 5],
     insn ''FRINTI'' 0xFFFFFC00 0x1E67C000 OPCODE_TRAP [op_x 0 5, op_x 5 5],
     insn ''FRINTI'' 0xFFFFFC00 0x1EE7C000 OPCODE_TRAP [op_v 0 5, op_v 5 5],
     insn ''FRINTM'' 0xBFBFFC00 0x0E219800 OPCODE_TRAP [op_v 0 5, op_v 5 5],
     insn ''FRINTM'' 0xBFFFFC00 0x0E799800 OPCODE_TRAP [op_v 0 5, op_v 5 5]]"

definition arm64_instructions_1188 :: "bal_decoder_instruction_metadata_t list" where
  "arm64_instructions_1188 = [
     insn ''FRINTM'' 0xFFFFFC00 0x1E254000 OPCODE_TRAP [op_w 0 5, op_w 5 5],
     insn ''FRINTM'' 0xFFFFFC00 0x1E654000 OPCODE_TRAP [op_x 0 5, op_x 5 5],
     insn ''FRINTM'' 0xFFFFFC00 0x1EE54000 OPCODE_TRAP [op_v 0 5, op_v 5 5],
     insn ''FRINTM'' 0xFFFFFC21 0xC1AAE000 OPCODE_TRAP [op_v 1 4, op_v 6 4],
     insn ''FRINTM'' 0xFFFFFC63 0xC1BAE000 OPCODE_TRAP [op_v 2 3, op_v 7 3],
     insn ''FRINTN'' 0xBFBFFC00 0x0E218800 OPCODE_TRAP [op_v 0 5, op_v 5 5],
     insn ''FRINTN'' 0xBFFFFC00 0x0E798800 OPCODE_TRAP [op_v 0 5, op_v 5 5],
     insn ''FRINTN'' 0xFFFFFC00 0x1E244000 OPCODE_TRAP [op_w 0 5, op_w 5 5],
     insn ''FRINTN'' 0xFFFFFC00 0x1E644000 OPCODE_TRAP [op_x 0 5, op_x 5 5],
     insn ''FRINTN'' 0xFFFFFC00 0x1EE44000 OPCODE_TRAP [op_v 0 5, op_v 5 5],
     insn ''FRINTN'' 0xFFFFFC21 0xC1A8E000 OPCODE_TRAP [op_v 1 4, op_v 6 4],
     insn ''FRINTN'' 0xFFFFFC63 0xC1B8E000 OPCODE_TRAP [op_v 2 3, op_v 7 3]]"

definition arm64_instructions_1200 :: "bal_decoder_instruction_metadata_t list" where
  "arm64_instructions_1200 = [
     insn ''FRINTP'' 0xBFBFFC00 0x0EA18800 OPCODE_TRAP [op_v 0 5, op_v 5 5],
     insn ''FRINTP'' 0xBFFFFC00 0x0EF98800 OPCODE_TRAP [op_v 0 5, op_v 5 5],
     insn ''FRINTP'' 0xFFFFFC00 0x1E24C000 OPCODE_TRAP [op_w 0 5, op_w 5 5],
     insn ''FRINTP'' 0xFFFFFC00 0x1E64C000 OPCODE_TRAP [op_x 0 5, op_x 5 5],
     insn ''FRINTP'' 0xFFFFFC00 0x1EE4C000 OPCODE_TRAP [op_v 0 5, op_v 5 5],
     insn ''FRINTP'' 0xFFFFFC21 0xC1A9E000 OPCODE_TRAP [op_v 1 4, op_v 6 4],
     insn ''FRINTP'' 0xFFFFFC63 0xC1B9E000 OPCODE_TRAP [op_v 2 3, op_v 7 3],
     insn ''FRINTX'' 0xBFBFFC00 0x2E219800 OPCODE_TRAP [op_v 0 5, op_v 5 5],
     insn ''FRINTX'' 0xBFFFFC00 0x2E799800 OPCODE_TRAP [op_v 0 5, op_v 5 5],
     insn ''FRINTX'' 0xFFFFFC00 0x1E274000 OPCODE_TRAP [op_w 0 5, op_w 5 5],
     insn ''FRINTX'' 0xFFFFFC00 0x1E674000 OPCODE_TRAP [op_x 0 5, op_x 5 5],
     insn ''FRINTX'' 0xFFFFFC00 0x1EE74000 OPCODE_TRAP [op_v 0 5, op_v 5 5]]"

definition arm64_instructions_1212 :: "bal_decoder_instruction_metadata_t list" where
  "arm64_instructions_1212 = [
     insn ''FRINTZ'' 0xBFBFFC00 0x0EA19800 OPCODE_TRAP [op_v 0 5, op_v 5 5],
     insn ''FRINTZ'' 0xBFFFFC00 0x0EF99800 OPCODE_TRAP [op_v 0 5, op_v 5 5],
     insn ''FRINTZ'' 0xFFFFFC00 0x1E25C000 OPCODE_TRAP [op_w 0 5, op_w 5 5],
     insn ''FRINTZ'' 0xFFFFFC00 0x1E65C000 OPCODE_TRAP [op_x 0 5, op_x 5 5],
     insn ''FRINTZ'' 0xFFFFFC00 0x1EE5C000 OPCODE_TRAP [op_v 0 5, op_v 5 5],
     insn ''FRSQRTE'' 0xBFBFFC00 0x2EA1D800 OPCODE_TRAP [op_v 0 5, op_v 5 5],
     insn ''FRSQRTE'' 0xBFFFFC00 0x2EF9D800 OPCODE_TRAP [op_v 0 5, op_v 5 5],
     insn ''FRSQRTE'' 0xFFBFFC00 0x7EA1D800 OPCODE_TRAP [op_v 0 5, op_v 5 5],
     insn ''FRSQRTE'' 0xFFFFFC00 0x7EF9D800 OPCODE_TRAP [op_v 0 5, op_v 5 5],
     insn ''FRSQRTE'' 0xFF3FFC00 0x650F3000 OPCODE_TRAP [op_v 0 5, op_v 5 5],
     insn ''FRSQRTS'' 0xBFA0FC00 0x0EA0FC00 OPCODE_TRAP [op_v 0 5, op_v 5 5, op_v 16 5],
     insn ''FRSQRTS'' 0xBFE0FC00 0x0EC03C00 OPCODE_TRAP [op_v 0 5, op_v 5 5, op_v 16 5]]"

definition arm64_instructions_1224 :: "bal_decoder_instruction_metadata_t list" where
  "arm64_instructions_1224 = [
     insn ''FRSQRTS'' 0xFFA0FC00 0x5EA0FC00 OPCODE_TRAP [op_v 0 5, op_v 5 5, op_v 16 5],
     insn ''FRSQRTS'' 0xFFE0FC00 0x5EC03C00 OPCODE_TRAP [op_v 0 5, op_v 5 5, op_v 16 5],
     insn ''FRSQRTS'' 0xFF20FC00 0x65001C00 OPCODE_TRAP [op_v 0 5, op_v 5 5, op_v 16 5],
     insn ''FSCALE'' 0xFF3FE000 0x65098000 OPCODE_TRAP [op_v 0 5, op_v 5 5, op_v 10 3],
     insn ''FSQRT'' 0xBFBFFC00 0x2EA1F800 OPCODE_TRAP [op_v 0 5, op_v 5 5],
     insn ''FSQRT'' 0xBFFFFC00 0x2EF9F800 OPCODE_TRAP [op_v 0 5, op_v 5 5],
     insn ''FSQRT'' 0xFFFFFC00 0x1E21C000 OPCODE_TRAP [op_w 0 5, op_w 5 5],
     insn ''FSQRT'' 0xFFFFFC00 0x1E61C000 OPCODE_TRAP [op_x 0 5, op_x 5 5],
     insn ''FSQRT'' 0xFFFFFC00 0x1EE1C000 OPCODE_TRAP [op_v 0 5, op_v 5 5],
     insn ''FSQRT'' 0xFF3FE000 0x650DA000 OPCODE_TRAP [op_v 0 5, op_v 5 5, op_v 10 3],
     insn ''FSUB'' 0xBFA0FC00 0x0EA0D400 OPCODE_TRAP [op_v 0 5, op_v 5 5, op_v 16 5],
     insn ''FSUB'' 0xBFE0FC00 0x0EC01400 OPCODE_TRAP [op_v 0 5, op_v 5 5, op_v 16 5]]"

definition arm64_instructions_1236 :: "bal_decoder_instruction_metadata_t list" where
  "arm64_instructions_1236 = [
     insn ''FSUB'' 0xFFE0FC00 0x1E203800 OPCODE_TRAP [op_w 0 5, op_w 5 5, op_w 16 5],
     insn ''FSUB'' 0xFFE0FC00 0x1E603800 OPCODE_TRAP [op_x 0 5, op_x 5 5, op_x 16 5],
     insn ''FSUB'' 0xFFE0FC00 0x1EE03800 OPCODE_TRAP [op_v 0 5, op_v 5 5, op_v 16 5],
     insn ''FSUB'' 0xFF3FE3C0 0x65198000 OPCODE_TRAP [op_v 0 5, op_imm 5 1, op_v 10 3],
     insn ''FSUB'' 0xFF3FE000 0x65018000 OPCODE_TRAP [op_v 0 5, op_v 5 5, op_v 10 3],
     insn ''FSUB'' 0xFF38FC00 0x65000400 OPCODE_TRAP [op_v 0 5, op_v 5 5, op_v 16 5],
     insn ''FSUB'' 0xFFBF9C38 0xC1A01C08 OPCODE_TRAP [op_imm 0 3, op_v 6 4, op_w 13 2],
     insn ''FSUB'' 0xFFBF9C78 0xC1A11C08 OPCODE_TRAP [op_imm 0 3, op_v 7 3, op_w 13 2],
     insn ''FSUB'' 0xFFFF9C38 0xC1A41C08 OPCODE_TRAP [op_imm 0 3, op_v 6 4, op_w 13 2],
     insn ''FSUB'' 0xFFFF9C78 0xC1A51C08 OPCODE_TRAP [op_imm 0 3, op_v 7 3, op_w 13 2],
     insn ''FSUBR'' 0xFF3FE3C0 0x651B8000 OPCODE_TRAP [op_v 0 5, op_imm 5 1, op_v 10 3],
     insn ''FSUBR'' 0xFF3FE000 0x65038000 OPCODE_TRAP [op_v 0 5, op_v 5 5, op_v 10 3]]"

definition arm64_instructions_1248 :: "bal_decoder_instruction_metadata_t list" where
  "arm64_instructions_1248 = [
     insn ''FTMAD'' 0xFF38FC00 0x65108000 OPCODE_TRAP [op_v 0 5, op_v 5 5, op_imm 16 3],
     insn ''FTSMUL'' 0xFF20FC00 0x65000C00 OPCODE_TRAP [op_v 0 5, op_v 5 5, op_v 16 5],
     insn ''FTSSEL'' 0xFF20FC00 0x0420B000 OPCODE_TRAP [op_v 0 5, op_v 5 5, op_v 16 5],
     insn ''FVDOT'' 0xFFF09038 0xC1500008 OPCODE_TRAP [op_imm 0 3, op_v 6 4, op_imm 10 2, op_w 13 2, op_v 16 4],
     insn ''GCSB'' 0xFFFFFFFF 0xD503227F OPCODE_TRAP [],
     insn ''SYS'' 0xFFFFFFE0 0xD50877A0 OPCODE_TRAP [op_imm 0 5],
     insn ''SYSL'' 0xFFFFFFE0 0xD52B7720 OPCODE_TRAP [op_x 0 5],
     insn ''SYS'' 0xFFFFFFE0 0xD50877C0 OPCODE_TRAP [op_imm 0 5],
     insn ''SYS'' 0xFFFFFFE0 0xD50B7700 OPCODE_TRAP [op_x 0 5],
     insn ''SYS'' 0xFFFFFFE0 0xD5087780 OPCODE_TRAP [op_imm 0 5],
     insn ''SYS'' 0xFFFFFFE0 0xD50B7740 OPCODE_TRAP [op_x 0 5],
     insn ''SYSL'' 0xFFFFFFE0 0xD52B7760 OPCODE_TRAP [op_x 0 5]]"

definition arm64_instructions_1260 :: "bal_decoder_instruction_metadata_t list" where
  "arm64_instructions_1260 = [
     insn ''GCSSTR'' 0xFFFFFC00 0xD91F0C00 OPCODE_TRAP [op_x 0 5, op_x 5 5],
     insn ''GCSSTTR'' 0xFFFFFC00 0xD91F1C00 OPCODE_TRAP [op_x 0 5, op_x 5 5],
     insn ''GMI'' 0xFFE0FC00 0x9AC01400 OPCODE_TRAP [op_x 0 5, op_x 5 5, op_x 16 5],
     insn ''HINT'' 0xFFFFF01F 0xD503201F OPCODE_TRAP [op_imm 5 3, op_imm 8 4],
     insn ''HISTCNT'' 0xFF20E000 0x4520C000 OPCODE_TRAP [op_v 0 5, op_v 5 5, op_v 10 3, op_v 16 5],
     insn ''HISTSEG'' 0xFF20FC00 0x4520A000 OPCODE_TRAP [op_v 0 5, op_v 5 5, op_v 16 5],
     insn ''HLT'' 0xFFE0001F 0xD4400000 OPCODE_TRAP [op_imm 5 16],
     insn ''HVC'' 0xFFE0001F 0xD4000002 OPCODE_TRAP [op_imm 5 16],
     insn ''SYS'' 0xFFF8F000 0xD5087000 OPCODE_TRAP [op_imm 0 5],
     insn ''INCB'' 0xFFF0FC00 0x0430E000 OPCODE_TRAP [op_x 0 5, op_imm 5 5, op_imm 16 4],
     insn ''INCD'' 0xFFF0FC00 0x04F0E000 OPCODE_TRAP [op_x 0 5, op_imm 5 5, op_imm 16 4],
     insn ''INCH'' 0xFFF0FC00 0x0470E000 OPCODE_TRAP [op_x 0 5, op_imm 5 5, op_imm 16 4]]"

definition arm64_instructions_1272 :: "bal_decoder_instruction_metadata_t list" where
  "arm64_instructions_1272 = [
     insn ''INCW'' 0xFFF0FC00 0x04B0E000 OPCODE_TRAP [op_x 0 5, op_imm 5 5, op_imm 16 4],
     insn ''INCD'' 0xFFF0FC00 0x04F0C000 OPCODE_TRAP [op_v 0 5, op_imm 5 5, op_imm 16 4],
     insn ''INCH'' 0xFFF0FC00 0x0470C000 OPCODE_TRAP [op_v 0 5, op_imm 5 5, op_imm 16 4],
     insn ''INCW'' 0xFFF0FC00 0x04B0C000 OPCODE_TRAP [op_v 0 5, op_imm 5 5, op_imm 16 4],
     insn ''INCP'' 0xFF3FFE00 0x252C8800 OPCODE_TRAP [op_x 0 5, op_v 5 4],
     insn ''INCP'' 0xFF3FFE00 0x252C8000 OPCODE_TRAP [op_v 0 5, op_v 5 4],
     insn ''INS'' 0xFFE08400 0x6E000400 OPCODE_TRAP [op_v 0 5, op_v 5 5, op_imm 11 4, op_imm 16 5],
     insn ''INS'' 0xFFE0FC00 0x4E001C00 OPCODE_TRAP [op_v 0 5, op_imm 16 5],
     insn ''INSR'' 0xFF3FFC00 0x05243800 OPCODE_TRAP [op_v 0 5],
     insn ''INSR'' 0xFF3FFC00 0x05343800 OPCODE_TRAP [op_v 0 5, op_v 5 5],
     insn ''IRG'' 0xFFE0FC00 0x9AC01000 OPCODE_TRAP [op_x 0 5, op_x 5 5, op_x 16 5],
     insn ''ISB'' 0xFFFFF0FF 0xD50330DF OPCODE_TRAP [op_imm 8 4]]"

definition arm64_instructions_1284 :: "bal_decoder_instruction_metadata_t list" where
  "arm64_instructions_1284 = [
     insn ''LASTA'' 0xFF3FE000 0x0520A000 OPCODE_TRAP [op_v 5 5, op_v 10 3],
     insn ''LASTA'' 0xFF3FE000 0x05228000 OPCODE_TRAP [op_v 0 5, op_v 5 5, op_v 10 3],
     insn ''LASTB'' 0xFF3FE000 0x0521A000 OPCODE_TRAP [op_v 5 5, op_v 10 3],
     insn ''LASTB'' 0xFF3FE000 0x05238000 OPCODE_TRAP [op_v 0 5, op_v 5 5, op_v 10 3],
     insn ''LD1'' 0xBFE0F000 0x0CC02000 OPCODE_TRAP [op_v 0 5, op_x 5 5, op_imm 16 5],
     insn ''LD1'' 0xBFE0F000 0x0CC06000 OPCODE_TRAP [op_v 0 5, op_x 5 5, op_imm 16 5],
     insn ''LD1'' 0xBFE0F000 0x0CC07000 OPCODE_TRAP [op_v 0 5, op_x 5 5, op_imm 16 5],
     insn ''LD1'' 0xBFE0F000 0x0CC0A000 OPCODE_TRAP [op_v 0 5, op_x 5 5, op_imm 16 5],
     insn ''LD1'' 0xBFFFF000 0x0C402000 OPCODE_TRAP [op_v 0 5, op_x 5 5],
     insn ''LD1'' 0xBFFFF000 0x0C406000 OPCODE_TRAP [op_v 0 5, op_x 5 5],
     insn ''LD1'' 0xBFFFF000 0x0C407000 OPCODE_TRAP [op_v 0 5, op_x 5 5],
     insn ''LD1'' 0xBFFFF000 0x0C40A000 OPCODE_TRAP [op_v 0 5, op_x 5 5]]"

definition arm64_instructions_1296 :: "bal_decoder_instruction_metadata_t list" where
  "arm64_instructions_1296 = [
     insn ''LD1'' 0xBFFFF000 0x0CDF2000 OPCODE_TRAP [op_v 0 5, op_x 5 5, op_imm 30 1],
     insn ''LD1'' 0xBFFFF000 0x0CDF6000 OPCODE_TRAP [op_v 0 5, op_x 5 5, op_imm 30 1],
     insn ''LD1'' 0xBFFFF000 0x0CDF7000 OPCODE_TRAP [op_v 0 5, op_x 5 5, op_imm 30 1],
     insn ''LD1'' 0xBFFFF000 0x0CDFA000 OPCODE_TRAP [op_v 0 5, op_x 5 5, op_imm 30 1],
     insn ''LD1'' 0xBFE0E000 0x0DC00000 OPCODE_TRAP [op_v 0 5, op_x 5 5, op_imm 10 2, op_imm 12 1, op_imm 30 1],
     insn ''LD1'' 0xBFE0E400 0x0DC04000 OPCODE_TRAP [op_v 0 5, op_x 5 5, op_imm 10 2, op_imm 12 1, op_imm 30 1],
     insn ''LD1'' 0xBFE0EC00 0x0DC08000 OPCODE_TRAP [op_v 0 5, op_x 5 5, op_imm 12 1, op_imm 16 5, op_imm 30 1],
     insn ''LD1'' 0xBFE0FC00 0x0DC08400 OPCODE_TRAP [op_v 0 5, op_x 5 5, op_imm 16 5, op_imm 30 1],
     insn ''LD1'' 0xBFFFE000 0x0D400000 OPCODE_TRAP [op_v 0 5, op_x 5 5, op_imm 10 2, op_imm 12 1, op_imm 30 1],
     insn ''LD1'' 0xBFFFE000 0x0DDF0000 OPCODE_TRAP [op_v 0 5, op_x 5 5, op_imm 10 2, op_imm 12 1, op_imm 30 1],
     insn ''LD1'' 0xBFFFE400 0x0D404000 OPCODE_TRAP [op_v 0 5, op_x 5 5, op_imm 10 2, op_imm 12 1, op_imm 30 1],
     insn ''LD1'' 0xBFFFE400 0x0DDF4000 OPCODE_TRAP [op_v 0 5, op_x 5 5, op_imm 10 2, op_imm 12 1, op_imm 30 1]]"

definition arm64_instructions_1308 :: "bal_decoder_instruction_metadata_t list" where
  "arm64_instructions_1308 = [
     insn ''LD1'' 0xBFFFEC00 0x0D408000 OPCODE_TRAP [op_v 0 5, op_x 5 5, op_imm 12 1, op_imm 30 1],
     insn ''LD1'' 0xBFFFEC00 0x0DDF8000 OPCODE_TRAP [op_v 0 5, op_x 5 5, op_imm 12 1, op_imm 30 1],
     insn ''LD1'' 0xBFFFFC00 0x0D408400 OPCODE_TRAP [op_v 0 5, op_x 5 5, op_imm 30 1],
     insn ''LD1'' 0xBFFFFC00 0x0DDF8400 OPCODE_TRAP [op_v 0 5, op_x 5 5, op_imm 30 1],
     insn ''LD1B'' 0xFFF0E001 0xA0400000 OPCODE_TRAP [op_v 1 4, op_x 5 5, op_v 10 3, op_imm 16 4],
     insn ''LD1B'' 0xFFF0E003 0xA0408000 OPCODE_TRAP [op_v 2 3, op_x 5 5, op_v 10 3, op_imm 16 4],
     insn ''LD1B'' 0xFFE0E001 0xA0000000 OPCODE_TRAP [op_v 1 4, op_x 5 5, op_v 10 3, op_imm 16 5],
     insn ''LD1B'' 0xFFE0E003 0xA0008000 OPCODE_TRAP [op_v 2 3, op_x 5 5, op_v 10 3, op_imm 16 5],
     insn ''LD1B'' 0xFFF0E008 0xA1400000 OPCODE_TRAP [op_v 0 3, op_v 4 1, op_x 5 5, op_v 10 3, op_imm 16 4],
     insn ''LD1B'' 0xFFF0E00C 0xA1408000 OPCODE_TRAP [op_v 0 2, op_v 4 1, op_x 5 5, op_v 10 3, op_imm 16 4],
     insn ''LD1B'' 0xFFE0E008 0xA1000000 OPCODE_TRAP [op_v 0 3, op_v 4 1, op_x 5 5, op_v 10 3, op_imm 16 5],
     insn ''LD1B'' 0xFFE0E00C 0xA1008000 OPCODE_TRAP [op_v 0 2, op_v 4 1, op_x 5 5, op_v 10 3, op_imm 16 5]]"

definition arm64_instructions_1320 :: "bal_decoder_instruction_metadata_t list" where
  "arm64_instructions_1320 = [
     insn ''LD1B'' 0xFFE0E000 0x8420C000 OPCODE_TRAP [op_v 0 5, op_v 5 5, op_v 10 3, op_imm 16 5],
     insn ''LD1B'' 0xFFE0E000 0xC420C000 OPCODE_TRAP [op_v 0 5, op_v 5 5, op_v 10 3, op_imm 16 5],
     insn ''LD1B'' 0xFFF0E000 0xA400A000 OPCODE_TRAP [op_v 0 5, op_x 5 5, op_v 10 3, op_imm 16 4],
     insn ''LD1B'' 0xFFF0E000 0xA420A000 OPCODE_TRAP [op_v 0 5, op_x 5 5, op_v 10 3, op_imm 16 4],
     insn ''LD1B'' 0xFFF0E000 0xA440A000 OPCODE_TRAP [op_v 0 5, op_x 5 5, op_v 10 3, op_imm 16 4],
     insn ''LD1B'' 0xFFF0E000 0xA460A000 OPCODE_TRAP [op_v 0 5, op_x 5 5, op_v 10 3, op_imm 16 4],
     insn ''LD1B'' 0xFFE0E000 0xA4004000 OPCODE_TRAP [op_v 0 5, op_x 5 5, op_v 10 3, op_imm 16 5],
     insn ''LD1B'' 0xFFE0E000 0xA4204000 OPCODE_TRAP [op_v 0 5, op_x 5 5, op_v 10 3, op_imm 16 5],
     insn ''LD1B'' 0xFFE0E000 0xA4404000 OPCODE_TRAP [op_v 0 5, op_x 5 5, op_v 10 3, op_imm 16 5],
     insn ''LD1B'' 0xFFE0E000 0xA4604000 OPCODE_TRAP [op_v 0 5, op_x 5 5, op_v 10 3, op_imm 16 5],
     insn ''LD1B'' 0xFFA0E000 0x84004000 OPCODE_TRAP [op_v 0 5, op_x 5 5, op_v 10 3, op_imm 16 5, op_imm 22 1],
     insn ''LD1B'' 0xFFA0E000 0xC4004000 OPCODE_TRAP [op_v 0 5, op_x 5 5, op_v 10 3, op_imm 16 5, op_imm 22 1]]"

definition arm64_instructions_1332 :: "bal_decoder_instruction_metadata_t list" where
  "arm64_instructions_1332 = [
     insn ''LD1B'' 0xFFE0E000 0xC440C000 OPCODE_TRAP [op_v 0 5, op_x 5 5, op_v 10 3, op_imm 16 5],
     insn ''LD1B'' 0xFFE00010 0xE0000000 OPCODE_TRAP [op_imm 0 4, op_x 5 5, op_v 10 3, op_imm 13 2, op_imm 16 5],
     insn ''LD1D'' 0xFFF0E001 0xA0406000 OPCODE_TRAP [op_v 1 4, op_x 5 5, op_v 10 3, op_imm 16 4],
     insn ''LD1D'' 0xFFF0E003 0xA040E000 OPCODE_TRAP [op_v 2 3, op_x 5 5, op_v 10 3, op_imm 16 4],
     insn ''LD1D'' 0xFFE0E001 0xA0006000 OPCODE_TRAP [op_v 1 4, op_x 5 5, op_v 10 3, op_imm 16 5],
     insn ''LD1D'' 0xFFE0E003 0xA000E000 OPCODE_TRAP [op_v 2 3, op_x 5 5, op_v 10 3, op_imm 16 5],
     insn ''LD1D'' 0xFFF0E008 0xA1406000 OPCODE_TRAP [op_v 0 3, op_v 4 1, op_x 5 5, op_v 10 3, op_imm 16 4],
     insn ''LD1D'' 0xFFF0E00C 0xA140E000 OPCODE_TRAP [op_v 0 2, op_v 4 1, op_x 5 5, op_v 10 3, op_imm 16 4],
     insn ''LD1D'' 0xFFE0E008 0xA1006000 OPCODE_TRAP [op_v 0 3, op_v 4 1, op_x 5 5, op_v 10 3, op_imm 16 5],
     insn ''LD1D'' 0xFFE0E00C 0xA100E000 OPCODE_TRAP [op_v 0 2, op_v 4 1, op_x 5 5, op_v 10 3, op_imm 16 5],
     insn ''LD1D'' 0xFFE0E000 0xC5A0C000 OPCODE_TRAP [op_v 0 5, op_v 5 5, op_v 10 3, op_imm 16 5],
     insn ''LD1D'' 0xFFF0E000 0xA5902000 OPCODE_TRAP [op_v 0 5, op_x 5 5, op_v 10 3, op_imm 16 4]]"

definition arm64_instructions_1344 :: "bal_decoder_instruction_metadata_t list" where
  "arm64_instructions_1344 = [
     insn ''LD1D'' 0xFFF0E000 0xA5E0A000 OPCODE_TRAP [op_v 0 5, op_x 5 5, op_v 10 3, op_imm 16 4],
     insn ''LD1D'' 0xFFE0E000 0xA5808000 OPCODE_TRAP [op_v 0 5, op_x 5 5, op_v 10 3, op_imm 16 5],
     insn ''LD1D'' 0xFFE0E000 0xA5E04000 OPCODE_TRAP [op_v 0 5, op_x 5 5, op_v 10 3, op_imm 16 5],
     insn ''LD1D'' 0xFFA0E000 0xC5804000 OPCODE_TRAP [op_v 0 5, op_x 5 5, op_v 10 3, op_imm 16 5, op_imm 22 1],
     insn ''LD1D'' 0xFFA0E000 0xC5A04000 OPCODE_TRAP [op_v 0 5, op_x 5 5, op_v 10 3, op_imm 16 5, op_imm 22 1],
     insn ''LD1D'' 0xFFE0E000 0xC5C0C000 OPCODE_TRAP [op_v 0 5, op_x 5 5, op_v 10 3, op_imm 16 5],
     insn ''LD1D'' 0xFFE0E000 0xC5E0C000 OPCODE_TRAP [op_v 0 5, op_x 5 5, op_v 10 3, op_imm 16 5],
     insn ''LD1D'' 0xFFE00010 0xE0C00000 OPCODE_TRAP [op_imm 0 1, op_x 5 5, op_v 10 3, op_imm 13 2, op_imm 16 5],
     insn ''LD1H'' 0xFFF0E001 0xA0402000 OPCODE_TRAP [op_v 1 4, op_x 5 5, op_v 10 3, op_imm 16 4],
     insn ''LD1H'' 0xFFF0E003 0xA040A000 OPCODE_TRAP [op_v 2 3, op_x 5 5, op_v 10 3, op_imm 16 4],
     insn ''LD1H'' 0xFFE0E001 0xA0002000 OPCODE_TRAP [op_v 1 4, op_x 5 5, op_v 10 3, op_imm 16 5],
     insn ''LD1H'' 0xFFE0E003 0xA000A000 OPCODE_TRAP [op_v 2 3, op_x 5 5, op_v 10 3, op_imm 16 5]]"

definition arm64_instructions_1356 :: "bal_decoder_instruction_metadata_t list" where
  "arm64_instructions_1356 = [
     insn ''LD1H'' 0xFFF0E008 0xA1402000 OPCODE_TRAP [op_v 0 3, op_v 4 1, op_x 5 5, op_v 10 3, op_imm 16 4],
     insn ''LD1H'' 0xFFF0E00C 0xA140A000 OPCODE_TRAP [op_v 0 2, op_v 4 1, op_x 5 5, op_v 10 3, op_imm 16 4],
     insn ''LD1H'' 0xFFE0E008 0xA1002000 OPCODE_TRAP [op_v 0 3, op_v 4 1, op_x 5 5, op_v 10 3, op_imm 16 5],
     insn ''LD1H'' 0xFFE0E00C 0xA100A000 OPCODE_TRAP [op_v 0 2, op_v 4 1, op_x 5 5, op_v 10 3, op_imm 16 5],
     insn ''LD1H'' 0xFFE0E000 0x84A0C000 OPCODE_TRAP [op_v 0 5, op_v 5 5, op_v 10 3, op_imm 16 5],
     insn ''LD1H'' 0xFFE0E000 0xC4A0C000 OPCODE_TRAP [op_v 0 5, op_v 5 5, op_v 10 3, op_imm 16 5],
     insn ''LD1H'' 0xFFF0E000 0xA4A0A000 OPCODE_TRAP [op_v 0 5, op_x 5 5, op_v 10 3, op_imm 16 4],
     insn ''LD1H'' 0xFFF0E000 0xA4C0A000 OPCODE_TRAP [op_v 0 5, op_x 5 5, op_v 10 3, op_imm 16 4],
     insn ''LD1H'' 0xFFF0E000 0xA4E0A000 OPCODE_TRAP [op_v 0 5, op_x 5 5, op_v 10 3, op_imm 16 4],
     insn ''LD1H'' 0xFFE0E000 0xA4A04000 OPCODE_TRAP [op_v 0 5, op_x 5 5, op_v 10 3, op_imm 16 5],
     insn ''LD1H'' 0xFFE0E000 0xA4C04000 OPCODE_TRAP [op_v 0 5, op_x 5 5, op_v 10 3, op_imm 16 5],
     insn ''LD1H'' 0xFFE0E000 0xA4E04000 OPCODE_TRAP [op_v 0 5, op_x 5 5, op_v 10 3, op_imm 16 5]]"

definition arm64_instructions_1368 :: "bal_decoder_instruction_metadata_t list" where
  "arm64_instructions_1368 = [
     insn ''LD1H'' 0xFFA0E000 0x84804000 OPCODE_TRAP [op_v 0 5, op_x 5 5, op_v 10 3, op_imm 16 5, op_imm 22 1],
     insn ''LD1H'' 0xFFA0E000 0x84A04000 OPCODE_TRAP [op_v 0 5, op_x 5 5, op_v 10 3, op_imm 16 5, op_imm 22 1],
     insn ''LD1H'' 0xFFA0E000 0xC4804000 OPCODE_TRAP [op_v 0 5, op_x 5 5, op_v 10 3, op_imm 16 5, op_imm 22 1],
     insn ''LD1H'' 0xFFA0E000 0xC4A04000 OPCODE_TRAP [op_v 0 5, op_x 5 5, op_v 10 3, op_imm 16 5, op_imm 22 1],
     insn ''LD1H'' 0xFFE0E000 0xC4C0C000 OPCODE_TRAP [op_v 0 5, op_x 5 5, op_v 10 3, op_imm 16 5],
     insn ''LD1H'' 0xFFE0E000 0xC4E0C000 OPCODE_TRAP [op_v 0 5, op_x 5 5, op_v 10 3, op_imm 16 5],
     insn ''LD1H'' 0xFFE00010 0xE0400000 OPCODE_TRAP [op_imm 0 3, op_x 5 5, op_v 10 3, op_imm 13 2, op_imm 16 5],
     insn ''LD1Q'' 0xFFE0E000 0xC400A000 OPCODE_TRAP [op_v 0 5, op_v 5 5, op_v 10 3, op_imm 16 5],
     insn ''LD1Q'' 0xFFE00010 0xE1C00000 OPCODE_TRAP [op_x 5 5, op_v 10 3, op_imm 13 2, op_imm 16 5],
     insn ''LD1R'' 0xBFE0F000 0x0DC0C000 OPCODE_TRAP [op_v 0 5, op_x 5 5, op_imm 16 5],
     insn ''LD1R'' 0xBFFFF000 0x0D40C000 OPCODE_TRAP [op_v 0 5, op_x 5 5],
     insn ''LD1R'' 0xBFFFF000 0x0DDFC000 OPCODE_TRAP [op_v 0 5, op_x 5 5, op_imm 10 2]]"

definition arm64_instructions_1380 :: "bal_decoder_instruction_metadata_t list" where
  "arm64_instructions_1380 = [
     insn ''LD1RB'' 0xFFC0E000 0x84408000 OPCODE_TRAP [op_v 0 5, op_x 5 5, op_v 10 3, op_imm 16 6],
     insn ''LD1RB'' 0xFFC0E000 0x8440A000 OPCODE_TRAP [op_v 0 5, op_x 5 5, op_v 10 3, op_imm 16 6],
     insn ''LD1RB'' 0xFFC0E000 0x8440C000 OPCODE_TRAP [op_v 0 5, op_x 5 5, op_v 10 3, op_imm 16 6],
     insn ''LD1RB'' 0xFFC0E000 0x8440E000 OPCODE_TRAP [op_v 0 5, op_x 5 5, op_v 10 3, op_imm 16 6],
     insn ''LD1RD'' 0xFFC0E000 0x85C0E000 OPCODE_TRAP [op_v 0 5, op_x 5 5, op_v 10 3, op_imm 16 6],
     insn ''LD1RH'' 0xFFC0E000 0x84C0A000 OPCODE_TRAP [op_v 0 5, op_x 5 5, op_v 10 3, op_imm 16 6],
     insn ''LD1RH'' 0xFFC0E000 0x84C0C000 OPCODE_TRAP [op_v 0 5, op_x 5 5, op_v 10 3, op_imm 16 6],
     insn ''LD1RH'' 0xFFC0E000 0x84C0E000 OPCODE_TRAP [op_v 0 5, op_x 5 5, op_v 10 3, op_imm 16 6],
     insn ''LD1ROB'' 0xFFF0E000 0xA4202000 OPCODE_TRAP [op_v 0 5, op_x 5 5, op_v 10 3, op_imm 16 4],
     insn ''LD1ROB'' 0xFFE0E000 0xA4200000 OPCODE_TRAP [op_v 0 5, op_x 5 5, op_v 10 3, op_imm 16 5],
     insn ''LD1ROD'' 0xFFF0E000 0xA5A02000 OPCODE_TRAP [op_v 0 5, op_x 5 5, op_v 10 3, op_imm 16 4],
     insn ''LD1ROD'' 0xFFE0E000 0xA5A00000 OPCODE_TRAP [op_v 0 5, op_x 5 5, op_v 10 3, op_imm 16 5]]"

definition arm64_instructions_1392 :: "bal_decoder_instruction_metadata_t list" where
  "arm64_instructions_1392 = [
     insn ''LD1ROH'' 0xFFF0E000 0xA4A02000 OPCODE_TRAP [op_v 0 5, op_x 5 5, op_v 10 3, op_imm 16 4],
     insn ''LD1ROH'' 0xFFE0E000 0xA4A00000 OPCODE_TRAP [op_v 0 5, op_x 5 5, op_v 10 3, op_imm 16 5],
     insn ''LD1ROW'' 0xFFF0E000 0xA5202000 OPCODE_TRAP [op_v 0 5, op_x 5 5, op_v 10 3, op_imm 16 4],
     insn ''LD1ROW'' 0xFFE0E000 0xA5200000 OPCODE_TRAP [op_v 0 5, op_x 5 5, op_v 10 3, op_imm 16 5],
     insn ''LD1RQB'' 0xFFF0E000 0xA4002000 OPCODE_TRAP [op_v 0 5, op_x 5 5, op_v 10 3, op_imm 16 4],
     insn ''LD1RQB'' 0xFFE0E000 0xA4000000 OPCODE_TRAP [op_v 0 5, op_x 5 5, op_v 10 3, op_imm 16 5],
     insn ''LD1RQD'' 0xFFF0E000 0xA5802000 OPCODE_TRAP [op_v 0 5, op_x 5 5, op_v 10 3, op_imm 16 4],
     insn ''LD1RQD'' 0xFFE0E000 0xA5800000 OPCODE_TRAP [op_v 0 5, op_x 5 5, op_v 10 3, op_imm 16 5],
     insn ''LD1RQH'' 0xFFF0E000 0xA4802000 OPCODE_TRAP [op_v 0 5, op_x 5 5, op_v 10 3, op_imm 16 4],
     insn ''LD1RQH'' 0xFFE0E000 0xA4800000 OPCODE_TRAP [op_v 0 5, op_x 5 5, op_v 10 3, op_imm 16 5],
     insn ''LD1RQW'' 0xFFF0E000 0xA5002000 OPCODE_TRAP [op_v 0 5, op_x 5 5, op_v 10 3, op_imm 16 4],
     insn ''LD1RQW'' 0xFFE0E000 0xA5000000 OPCODE_TRAP [op_v 0 5, op_x 5 5, op_v 10 3, op_imm 16 5]]"

definition arm64_instructions_1404 :: "bal_decoder_instruction_metadata_t list" where
  "arm64_instructions_1404 = [
     insn ''LD1RSB'' 0xFFC0E000 0x85C08000 OPCODE_TRAP [op_v 0 5, op_x 5 5, op_v 10 3, op_imm 16 6],
     insn ''LD1RSB'' 0xFFC0E000 0x85C0A000 OPCODE_TRAP [op_v 0 5, op_x 5 5, op_v 10 3, op_imm 16 6],
     insn ''LD1RSB'' 0xFFC0E000 0x85C0C000 OPCODE_TRAP [op_v 0 5, op_x 5 5, op_v 10 3, op_imm 16 6],
     insn ''LD1RSH'' 0xFFC0E000 0x85408000 OPCODE_TRAP [op_v 0 5, op_x 5 5, op_v 10 3, op_imm 16 6],
     insn ''LD1RSH'' 0xFFC0E000 0x8540A000 OPCODE_TRAP [op_v 0 5, op_x 5 5, op_v 10 3, op_imm 16 6],
     insn ''LD1RSW'' 0xFFC0E000 0x84C08000 OPCODE_TRAP [op_v 0 5, op_x 5 5, op_v 10 3, op_imm 16 6],
     insn ''LD1RW'' 0xFFC0E000 0x8540C000 OPCODE_TRAP [op_v 0 5, op_x 5 5, op_v 10 3, op_imm 16 6],
     insn ''LD1RW'' 0xFFC0E000 0x8540E000 OPCODE_TRAP [op_v 0 5, op_x 5 5, op_v 10 3, op_imm 16 6],
     insn ''LD1SB'' 0xFFE0E000 0x84208000 OPCODE_TRAP [op_v 0 5, op_v 5 5, op_v 10 3, op_imm 16 5],
     insn ''LD1SB'' 0xFFE0E000 0xC4208000 OPCODE_TRAP [op_v 0 5, op_v 5 5, op_v 10 3, op_imm 16 5],
     insn ''LD1SB'' 0xFFF0E000 0xA580A000 OPCODE_TRAP [op_v 0 5, op_x 5 5, op_v 10 3, op_imm 16 4],
     insn ''LD1SB'' 0xFFF0E000 0xA5A0A000 OPCODE_TRAP [op_v 0 5, op_x 5 5, op_v 10 3, op_imm 16 4]]"

definition arm64_instructions_1416 :: "bal_decoder_instruction_metadata_t list" where
  "arm64_instructions_1416 = [
     insn ''LD1SB'' 0xFFF0E000 0xA5C0A000 OPCODE_TRAP [op_v 0 5, op_x 5 5, op_v 10 3, op_imm 16 4],
     insn ''LD1SB'' 0xFFE0E000 0xA5804000 OPCODE_TRAP [op_v 0 5, op_x 5 5, op_v 10 3, op_imm 16 5],
     insn ''LD1SB'' 0xFFE0E000 0xA5A04000 OPCODE_TRAP [op_v 0 5, op_x 5 5, op_v 10 3, op_imm 16 5],
     insn ''LD1SB'' 0xFFE0E000 0xA5C04000 OPCODE_TRAP [op_v 0 5, op_x 5 5, op_v 10 3, op_imm 16 5],
     insn ''LD1SB'' 0xFFA0E000 0x84000000 OPCODE_TRAP [op_v 0 5, op_x 5 5, op_v 10 3, op_imm 16 5, op_imm 22 1],
     insn ''LD1SB'' 0xFFA0E000 0xC4000000 OPCODE_TRAP [op_v 0 5, op_x 5 5, op_v 10 3, op_imm 16 5, op_imm 22 1],
     insn ''LD1SB'' 0xFFE0E000 0xC4408000 OPCODE_TRAP [op_v 0 5, op_x 5 5, op_v 10 3, op_imm 16 5],
     insn ''LD1SH'' 0xFFE0E000 0x84A08000 OPCODE_TRAP [op_v 0 5, op_v 5 5, op_v 10 3, op_imm 16 5],
     insn ''LD1SH'' 0xFFE0E000 0xC4A08000 OPCODE_TRAP [op_v 0 5, op_v 5 5, op_v 10 3, op_imm 16 5],
     insn ''LD1SH'' 0xFFF0E000 0xA500A000 OPCODE_TRAP [op_v 0 5, op_x 5 5, op_v 10 3, op_imm 16 4],
     insn ''LD1SH'' 0xFFF0E000 0xA520A000 OPCODE_TRAP [op_v 0 5, op_x 5 5, op_v 10 3, op_imm 16 4],
     insn ''LD1SH'' 0xFFE0E000 0xA5004000 OPCODE_TRAP [op_v 0 5, op_x 5 5, op_v 10 3, op_imm 16 5]]"

definition arm64_instructions_1428 :: "bal_decoder_instruction_metadata_t list" where
  "arm64_instructions_1428 = [
     insn ''LD1SH'' 0xFFE0E000 0xA5204000 OPCODE_TRAP [op_v 0 5, op_x 5 5, op_v 10 3, op_imm 16 5],
     insn ''LD1SH'' 0xFFA0E000 0x84800000 OPCODE_TRAP [op_v 0 5, op_x 5 5, op_v 10 3, op_imm 16 5, op_imm 22 1],
     insn ''LD1SH'' 0xFFA0E000 0x84A00000 OPCODE_TRAP [op_v 0 5, op_x 5 5, op_v 10 3, op_imm 16 5, op_imm 22 1],
     insn ''LD1SH'' 0xFFA0E000 0xC4800000 OPCODE_TRAP [op_v 0 5, op_x 5 5, op_v 10 3, op_imm 16 5, op_imm 22 1],
     insn ''LD1SH'' 0xFFA0E000 0xC4A00000 OPCODE_TRAP [op_v 0 5, op_x 5 5, op_v 10 3, op_imm 16 5, op_imm 22 1],
     insn ''LD1SH'' 0xFFE0E000 0xC4C08000 OPCODE_TRAP [op_v 0 5, op_x 5 5, op_v 10 3, op_imm 16 5],
     insn ''LD1SH'' 0xFFE0E000 0xC4E08000 OPCODE_TRAP [op_v 0 5, op_x 5 5, op_v 10 3, op_imm 16 5],
     insn ''LD1SW'' 0xFFE0E000 0xC5208000 OPCODE_TRAP [op_v 0 5, op_v 5 5, op_v 10 3, op_imm 16 5],
     insn ''LD1SW'' 0xFFF0E000 0xA480A000 OPCODE_TRAP [op_v 0 5, op_x 5 5, op_v 10 3, op_imm 16 4],
     insn ''LD1SW'' 0xFFE0E000 0xA4804000 OPCODE_TRAP [op_v 0 5, op_x 5 5, op_v 10 3, op_imm 16 5],
     insn ''LD1SW'' 0xFFA0E000 0xC5000000 OPCODE_TRAP [op_v 0 5, op_x 5 5, op_v 10 3, op_imm 16 5, op_imm 22 1],
     insn ''LD1SW'' 0xFFA0E000 0xC5200000 OPCODE_TRAP [op_v 0 5, op_x 5 5, op_v 10 3, op_imm 16 5, op_imm 22 1]]"

definition arm64_instructions_1440 :: "bal_decoder_instruction_metadata_t list" where
  "arm64_instructions_1440 = [
     insn ''LD1SW'' 0xFFE0E000 0xC5408000 OPCODE_TRAP [op_v 0 5, op_x 5 5, op_v 10 3, op_imm 16 5],
     insn ''LD1SW'' 0xFFE0E000 0xC5608000 OPCODE_TRAP [op_v 0 5, op_x 5 5, op_v 10 3, op_imm 16 5],
     insn ''LD1W'' 0xFFF0E001 0xA0404000 OPCODE_TRAP [op_v 1 4, op_x 5 5, op_v 10 3, op_imm 16 4],
     insn ''LD1W'' 0xFFF0E003 0xA040C000 OPCODE_TRAP [op_v 2 3, op_x 5 5, op_v 10 3, op_imm 16 4],
     insn ''LD1W'' 0xFFE0E001 0xA0004000 OPCODE_TRAP [op_v 1 4, op_x 5 5, op_v 10 3, op_imm 16 5],
     insn ''LD1W'' 0xFFE0E003 0xA000C000 OPCODE_TRAP [op_v 2 3, op_x 5 5, op_v 10 3, op_imm 16 5],
     insn ''LD1W'' 0xFFF0E008 0xA1404000 OPCODE_TRAP [op_v 0 3, op_v 4 1, op_x 5 5, op_v 10 3, op_imm 16 4],
     insn ''LD1W'' 0xFFF0E00C 0xA140C000 OPCODE_TRAP [op_v 0 2, op_v 4 1, op_x 5 5, op_v 10 3, op_imm 16 4],
     insn ''LD1W'' 0xFFE0E008 0xA1004000 OPCODE_TRAP [op_v 0 3, op_v 4 1, op_x 5 5, op_v 10 3, op_imm 16 5],
     insn ''LD1W'' 0xFFE0E00C 0xA100C000 OPCODE_TRAP [op_v 0 2, op_v 4 1, op_x 5 5, op_v 10 3, op_imm 16 5],
     insn ''LD1W'' 0xFFE0E000 0x8520C000 OPCODE_TRAP [op_v 0 5, op_v 5 5, op_v 10 3, op_imm 16 5],
     insn ''LD1W'' 0xFFE0E000 0xC520C000 OPCODE_TRAP [op_v 0 5, op_v 5 5, op_v 10 3, op_imm 16 5]]"

definition arm64_instructions_1452 :: "bal_decoder_instruction_metadata_t list" where
  "arm64_instructions_1452 = [
     insn ''LD1W'' 0xFFF0E000 0xA5102000 OPCODE_TRAP [op_v 0 5, op_x 5 5, op_v 10 3, op_imm 16 4],
     insn ''LD1W'' 0xFFF0E000 0xA540A000 OPCODE_TRAP [op_v 0 5, op_x 5 5, op_v 10 3, op_imm 16 4],
     insn ''LD1W'' 0xFFF0E000 0xA560A000 OPCODE_TRAP [op_v 0 5, op_x 5 5, op_v 10 3, op_imm 16 4],
     insn ''LD1W'' 0xFFE0E000 0xA5008000 OPCODE_TRAP [op_v 0 5, op_x 5 5, op_v 10 3, op_imm 16 5],
     insn ''LD1W'' 0xFFE0E000 0xA5404000 OPCODE_TRAP [op_v 0 5, op_x 5 5, op_v 10 3, op_imm 16 5],
     insn ''LD1W'' 0xFFE0E000 0xA5604000 OPCODE_TRAP [op_v 0 5, op_x 5 5, op_v 10 3, op_imm 16 5],
     insn ''LD1W'' 0xFFA0E000 0x85004000 OPCODE_TRAP [op_v 0 5, op_x 5 5, op_v 10 3, op_imm 16 5, op_imm 22 1],
     insn ''LD1W'' 0xFFA0E000 0x85204000 OPCODE_TRAP [op_v 0 5, op_x 5 5, op_v 10 3, op_imm 16 5, op_imm 22 1],
     insn ''LD1W'' 0xFFA0E000 0xC5004000 OPCODE_TRAP [op_v 0 5, op_x 5 5, op_v 10 3, op_imm 16 5, op_imm 22 1],
     insn ''LD1W'' 0xFFA0E000 0xC5204000 OPCODE_TRAP [op_v 0 5, op_x 5 5, op_v 10 3, op_imm 16 5, op_imm 22 1],
     insn ''LD1W'' 0xFFE0E000 0xC540C000 OPCODE_TRAP [op_v 0 5, op_x 5 5, op_v 10 3, op_imm 16 5],
     insn ''LD1W'' 0xFFE0E000 0xC560C000 OPCODE_TRAP [op_v 0 5, op_x 5 5, op_v 10 3, op_imm 16 5]]"

definition arm64_instructions_1464 :: "bal_decoder_instruction_metadata_t list" where
  "arm64_instructions_1464 = [
     insn ''LD1W'' 0xFFE00010 0xE0800000 OPCODE_TRAP [op_imm 0 2, op_x 5 5, op_v 10 3, op_imm 13 2, op_imm 16 5],
     insn ''LD2'' 0xBFE0F000 0x0CC08000 OPCODE_TRAP [op_v 0 5, op_x 5 5, op_imm 16 5],
     insn ''LD2'' 0xBFFFF000 0x0C408000 OPCODE_TRAP [op_v 0 5, op_x 5 5],
     insn ''LD2'' 0xBFFFF000 0x0CDF8000 OPCODE_TRAP [op_v 0 5, op_x 5 5, op_imm 30 1],
     insn ''LD2'' 0xBFE0E000 0x0DE00000 OPCODE_TRAP [op_v 0 5, op_x 5 5, op_imm 10 2, op_imm 12 1, op_imm 30 1],
     insn ''LD2'' 0xBFE0E400 0x0DE04000 OPCODE_TRAP [op_v 0 5, op_x 5 5, op_imm 10 2, op_imm 12 1, op_imm 30 1],
     insn ''LD2'' 0xBFE0EC00 0x0DE08000 OPCODE_TRAP [op_v 0 5, op_x 5 5, op_imm 12 1, op_imm 16 5, op_imm 30 1],
     insn ''LD2'' 0xBFE0FC00 0x0DE08400 OPCODE_TRAP [op_v 0 5, op_x 5 5, op_imm 16 5, op_imm 30 1],
     insn ''LD2'' 0xBFFFE000 0x0D600000 OPCODE_TRAP [op_v 0 5, op_x 5 5, op_imm 10 2, op_imm 12 1, op_imm 30 1],
     insn ''LD2'' 0xBFFFE000 0x0DFF0000 OPCODE_TRAP [op_v 0 5, op_x 5 5, op_imm 10 2, op_imm 12 1, op_imm 30 1],
     insn ''LD2'' 0xBFFFE400 0x0D604000 OPCODE_TRAP [op_v 0 5, op_x 5 5, op_imm 10 2, op_imm 12 1, op_imm 30 1],
     insn ''LD2'' 0xBFFFE400 0x0DFF4000 OPCODE_TRAP [op_v 0 5, op_x 5 5, op_imm 10 2, op_imm 12 1, op_imm 30 1]]"

definition arm64_part_3 :: "bal_decoder_instruction_metadata_t list list" where
  "arm64_part_3 = [
     arm64_instructions_984, arm64_instructions_996, arm64_instructions_1008,
     arm64_instructions_1020, arm64_instructions_1032, arm64_instructions_1044,
     arm64_instructions_1056, arm64_instructions_1068, arm64_instructions_1080,
     arm64_instructions_1092, arm64_instructions_1104, arm64_instructions_1116,
     arm64_instructions_1128, arm64_instructions_1140, arm64_instructions_1152,
     arm64_instructions_1164, arm64_instructions_1176, arm64_instructions_1188,
     arm64_instructions_1200, arm64_instructions_1212, arm64_instructions_1224,
     arm64_instructions_1236, arm64_instructions_1248, arm64_instructions_1260,
     arm64_instructions_1272, arm64_instructions_1284, arm64_instructions_1296,
     arm64_instructions_1308, arm64_instructions_1320, arm64_instructions_1332,
     arm64_instructions_1344, arm64_instructions_1356, arm64_instructions_1368,
     arm64_instructions_1380, arm64_instructions_1392, arm64_instructions_1404,
     arm64_instructions_1416, arm64_instructions_1428, arm64_instructions_1440,
     arm64_instructions_1452, arm64_instructions_1464]"

section \<open>The entries are complete, and their top bits\<close>

lemma keys_of_984: "map mask_value arm64_instructions_984 =
     [(0xFF80F400, 0x5F801000), (0xFFC0F400, 0x5F001000), (0xBFA0FC00, 0xE20CC00),
      (0xBFE0FC00, 0xE400C00), (0xFF38E000, 0x65200000), (0xFFA0FC00, 0x64200000),
      (0xFFE0FC00, 0x64A00000), (0xFFE0FC00, 0x64E00000), (0xFFF09030, 0xC1101000),
      (0xFFF09038, 0xC1500000), (0xFFF09070, 0xC1109000), (0xFFF09078, 0xC1508000)]"
  by (simp only: arm64_instructions_984_def read_entries)

lemma entries_984:
  "length arm64_instructions_984 = 12" "list_all metadata_wf arm64_instructions_984"
  "map top_bits arm64_instructions_984 =
     [(2044, 764), (2046, 760), (1533, 113), (1535, 114), (2041, 809), (2045, 801), (2047, 805),
      (2047, 807), (2047, 1544), (2047, 1546), (2047, 1544), (2047, 1546)]"
  by (simp add: arm64_instructions_984_def, simp add: arm64_instructions_984_def, simp add: top_bits_mask_value keys_of_984)

lemma keys_of_996: "map mask_value arm64_instructions_996 =
     [(0xFFF09838, 0xC1D00000), (0xFFF09878, 0xC1D08000), (0xFFB09C18, 0xC1201800),
      (0xFFB09C18, 0xC1301800), (0xFFF09C18, 0xC1201C00), (0xFFF09C18, 0xC1301C00),
      (0xFFA19C38, 0xC1A01800), (0xFFA39C78, 0xC1A11800), (0xFFE19C38, 0xC1A01008),
      (0xFFE39C78, 0xC1A11008), (0xBFC0F400, 0xF800000), (0xBFC0F400, 0x2F808000)]"
  by (simp only: arm64_instructions_996_def read_entries)

lemma entries_996:
  "length arm64_instructions_996 = 12" "list_all metadata_wf arm64_instructions_996"
  "map top_bits arm64_instructions_996 =
     [(2047, 1550), (2047, 1550), (2045, 1545), (2045, 1545), (2047, 1545), (2047, 1545),
      (2045, 1549), (2045, 1549), (2047, 1549), (2047, 1549), (1534, 124), (1534, 380)]"
  by (simp add: arm64_instructions_996_def, simp add: arm64_instructions_996_def, simp add: top_bits_mask_value keys_of_996)

lemma keys_of_1008: "map mask_value arm64_instructions_1008 =
     [(0xBFE0FC00, 0xE20EC00), (0xBFE0FC00, 0x2E20CC00), (0xFFF01018, 0xC1801000),
      (0xFFF09038, 0xC1901000), (0xFFF09078, 0xC1909000), (0xFFF09C18, 0xC1200C00),
      (0xFFF09C1C, 0xC1200800), (0xFFF09C1C, 0xC1300800), (0xFFE19C3C, 0xC1A00800),
      (0xFFE39C7C, 0xC1A10800), (0xFFE0FC00, 0x64A08000), (0xFFE0F400, 0x64A04000)]"
  by (simp only: arm64_instructions_1008_def read_entries)

lemma entries_1008:
  "length arm64_instructions_1008 = 12" "list_all metadata_wf arm64_instructions_1008"
  "map top_bits arm64_instructions_1008 =
     [(1535, 113), (1535, 369), (2047, 1548), (2047, 1548), (2047, 1548), (2047, 1545),
      (2047, 1545), (2047, 1545), (2047, 1549), (2047, 1549), (2047, 805), (2047, 805)]"
  by (simp add: arm64_instructions_1008_def, simp add: arm64_instructions_1008_def, simp add: top_bits_mask_value keys_of_1008)

lemma keys_of_1020: "map mask_value arm64_instructions_1020 =
     [(0xFFE0FC00, 0x64A08400), (0xFFE0F400, 0x64A04400), (0xBF80F400, 0xF805000),
      (0xBFC0F400, 0xF005000), (0xFF80F400, 0x5F805000), (0xFFC0F400, 0x5F005000),
      (0xBFA0FC00, 0xEA0CC00), (0xBFE0FC00, 0xEC00C00), (0xFF38E000, 0x65202000),
      (0xFFA0FC00, 0x64200400), (0xFFE0FC00, 0x64A00400), (0xFFE0FC00, 0x64E00400)]"
  by (simp only: arm64_instructions_1020_def read_entries)

lemma entries_1020:
  "length arm64_instructions_1020 = 12" "list_all metadata_wf arm64_instructions_1020"
  "map top_bits arm64_instructions_1020 =
     [(2047, 805), (2047, 805), (1532, 124), (1534, 120), (2044, 764), (2046, 760), (1533, 117),
      (1535, 118), (2041, 809), (2045, 801), (2047, 805), (2047, 807)]"
  by (simp add: arm64_instructions_1020_def, simp add: arm64_instructions_1020_def, simp add: top_bits_mask_value keys_of_1020)

lemma keys_of_1032: "map mask_value arm64_instructions_1032 =
     [(0xFFF09030, 0xC1101010), (0xFFF09038, 0xC1500010), (0xFFF09070, 0xC1109010),
      (0xFFF09078, 0xC1508010), (0xFFF09838, 0xC1D00010), (0xFFF09878, 0xC1D08010),
      (0xFFB09C18, 0xC1201808), (0xFFB09C18, 0xC1301808), (0xFFF09C18, 0xC1201C08),
      (0xFFF09C18, 0xC1301C08), (0xFFA19C38, 0xC1A01808), (0xFFA39C78, 0xC1A11808)]"
  by (simp only: arm64_instructions_1032_def read_entries)

lemma entries_1032:
  "length arm64_instructions_1032 = 12" "list_all metadata_wf arm64_instructions_1032"
  "map top_bits arm64_instructions_1032 =
     [(2047, 1544), (2047, 1546), (2047, 1544), (2047, 1546), (2047, 1550), (2047, 1550),
      (2045, 1545), (2045, 1545), (2047, 1545), (2047, 1545), (2045, 1549), (2045, 1549)]"
  by (simp add: arm64_instructions_1032_def, simp add: arm64_instructions_1032_def, simp add: top_bits_mask_value keys_of_1032)

lemma keys_of_1044: "map mask_value arm64_instructions_1044 =
     [(0xFFE19C38, 0xC1A01018), (0xFFE39C78, 0xC1A11018), (0xBFC0F400, 0xF804000),
      (0xBFC0F400, 0x2F80C000), (0xBFE0FC00, 0xEA0EC00), (0xBFE0FC00, 0x2EA0CC00),
      (0xFFF01018, 0xC1801008), (0xFFF09038, 0xC1901008), (0xFFF09078, 0xC1909008),
      (0xFFF09C18, 0xC1200C08), (0xFFF09C1C, 0xC1200808), (0xFFF09C1C, 0xC1300808)]"
  by (simp only: arm64_instructions_1044_def read_entries)

lemma entries_1044:
  "length arm64_instructions_1044 = 12" "list_all metadata_wf arm64_instructions_1044"
  "map top_bits arm64_instructions_1044 =
     [(2047, 1549), (2047, 1549), (1534, 124), (1534, 380), (1535, 117), (1535, 373),
      (2047, 1548), (2047, 1548), (2047, 1548), (2047, 1545), (2047, 1545), (2047, 1545)]"
  by (simp add: arm64_instructions_1044_def, simp add: arm64_instructions_1044_def, simp add: top_bits_mask_value keys_of_1044)

lemma keys_of_1056: "map mask_value arm64_instructions_1056 =
     [(0xFFE19C3C, 0xC1A00808), (0xFFE39C7C, 0xC1A10808), (0xFFE0FC00, 0x64A0A000),
      (0xFFE0F400, 0x64A06000), (0xFFE0FC00, 0x64A0A400), (0xFFE0F400, 0x64A06400),
      (0xFFE0FC00, 0x64A0E400), (0xFFE0FC00, 0x64E0E400), (0xFFE0001C, 0x81A00000),
      (0xFFE00018, 0x80C00000), (0xFFE0001C, 0x80800000), (0xFFE0001E, 0x81800008)]"
  by (simp only: arm64_instructions_1056_def read_entries)

lemma entries_1056:
  "length arm64_instructions_1056 = 12" "list_all metadata_wf arm64_instructions_1056"
  "map top_bits arm64_instructions_1056 =
     [(2047, 1549), (2047, 1549), (2047, 805), (2047, 805), (2047, 805), (2047, 805),
      (2047, 805), (2047, 807), (2047, 1037), (2047, 1030), (2047, 1028), (2047, 1036)]"
  by (simp add: arm64_instructions_1056_def, simp add: arm64_instructions_1056_def, simp add: top_bits_mask_value keys_of_1056)

lemma keys_of_1068: "map mask_value arm64_instructions_1068 =
     [(0xFFE0001C, 0x81A00010), (0xFFE00018, 0x80C00010), (0xFFE0001C, 0x80800010),
      (0xFFE0001E, 0x81800018), (0xBFF8FC00, 0xF00F400), (0xBFF8FC00, 0xF00FC00),
      (0xFFF8FC00, 0x6F00F400), (0xFF30FFE0, 0x5104000), (0xFF3FFFE0, 0x2538C000),
      (0xFF30E000, 0x510C000), (0xFF3FE000, 0x2539C000), (0xFFFFFC00, 0x1E204000)]"
  by (simp only: arm64_instructions_1068_def read_entries)

lemma entries_1068:
  "length arm64_instructions_1068 = 12" "list_all metadata_wf arm64_instructions_1068"
  "map top_bits arm64_instructions_1068 =
     [(2047, 1037), (2047, 1030), (2047, 1028), (2047, 1036), (1535, 120), (1535, 120),
      (2047, 888), (2041, 40), (2041, 297), (2041, 40), (2041, 297), (2047, 241)]"
  by (simp add: arm64_instructions_1068_def, simp add: arm64_instructions_1068_def, simp add: top_bits_mask_value keys_of_1068)

lemma keys_of_1080: "map mask_value arm64_instructions_1080 =
     [(0xFFFFFC00, 0x1E604000), (0xFFFFFC00, 0x1EE04000), (0xFFFFFC00, 0x1E260000),
      (0xFFFFFC00, 0x1E270000), (0xFFFFFC00, 0x1EE60000), (0xFFFFFC00, 0x1EE70000),
      (0xFFFFFC00, 0x9E660000), (0xFFFFFC00, 0x9E670000), (0xFFFFFC00, 0x9EAE0000),
      (0xFFFFFC00, 0x9EAF0000), (0xFFFFFC00, 0x9EE60000), (0xFFFFFC00, 0x9EE70000)]"
  by (simp only: arm64_instructions_1080_def read_entries)

lemma entries_1080:
  "length arm64_instructions_1080 = 12" "list_all metadata_wf arm64_instructions_1080"
  "map top_bits arm64_instructions_1080 =
     [(2047, 243), (2047, 247), (2047, 241), (2047, 241), (2047, 247), (2047, 247), (2047, 1267),
      (2047, 1267), (2047, 1269), (2047, 1269), (2047, 1271), (2047, 1271)]"
  by (simp add: arm64_instructions_1080_def, simp add: arm64_instructions_1080_def, simp add: top_bits_mask_value keys_of_1080)

lemma keys_of_1092: "map mask_value arm64_instructions_1092 =
     [(0xFFE01FE0, 0x1E201000), (0xFFE01FE0, 0x1E601000), (0xFFE01FE0, 0x1EE01000),
      (0xFF20E000, 0x6520A000), (0xFFE08000, 0x1F008000), (0xFFE08000, 0x1F408000),
      (0xFFE08000, 0x1FC08000), (0xBF80F400, 0xF809000), (0xBFC0F400, 0xF009000),
      (0xFF80F400, 0x5F809000), (0xFFC0F400, 0x5F009000), (0xBFA0FC00, 0x2E20DC00)]"
  by (simp only: arm64_instructions_1092_def read_entries)

lemma entries_1092:
  "length arm64_instructions_1092 = 12" "list_all metadata_wf arm64_instructions_1092"
  "map top_bits arm64_instructions_1092 =
     [(2047, 241), (2047, 243), (2047, 247), (2041, 809), (2047, 248), (2047, 250), (2047, 254),
      (1532, 124), (1534, 120), (2044, 764), (2046, 760), (1533, 369)]"
  by (simp add: arm64_instructions_1092_def, simp add: arm64_instructions_1092_def, simp add: top_bits_mask_value keys_of_1092)

lemma keys_of_1104: "map mask_value arm64_instructions_1104 =
     [(0xBFE0FC00, 0x2E401C00), (0xFFE0FC00, 0x1E200800), (0xFFE0FC00, 0x1E600800),
      (0xFFE0FC00, 0x1EE00800), (0xFF3FE3C0, 0x651A8000), (0xFF3FE000, 0x65028000),
      (0xFF38FC00, 0x65000800), (0xFFA0FC00, 0x64202000), (0xFFE0FC00, 0x64A02000),
      (0xFFE0FC00, 0x64E02000), (0xBF80F400, 0x2F809000), (0xBFC0F400, 0x2F009000)]"
  by (simp only: arm64_instructions_1104_def read_entries)

lemma entries_1104:
  "length arm64_instructions_1104 = 12" "list_all metadata_wf arm64_instructions_1104"
  "map top_bits arm64_instructions_1104 =
     [(1535, 370), (2047, 241), (2047, 243), (2047, 247), (2041, 808), (2041, 808), (2041, 808),
      (2045, 801), (2047, 805), (2047, 807), (1532, 380), (1534, 376)]"
  by (simp add: arm64_instructions_1104_def, simp add: arm64_instructions_1104_def, simp add: top_bits_mask_value keys_of_1104)

lemma keys_of_1116: "map mask_value arm64_instructions_1116 =
     [(0xFF80F400, 0x7F809000), (0xFFC0F400, 0x7F009000), (0xBFA0FC00, 0xE20DC00),
      (0xBFE0FC00, 0xE401C00), (0xFFA0FC00, 0x5E20DC00), (0xFFE0FC00, 0x5E401C00),
      (0xFF3FE000, 0x650A8000), (0xBFBFFC00, 0x2EA0F800), (0xBFFFFC00, 0x2EF8F800),
      (0xFFFFFC00, 0x1E214000), (0xFFFFFC00, 0x1E614000), (0xFFFFFC00, 0x1EE14000)]"
  by (simp only: arm64_instructions_1116_def read_entries)

lemma entries_1116:
  "length arm64_instructions_1116 = 12" "list_all metadata_wf arm64_instructions_1116"
  "map top_bits arm64_instructions_1116 =
     [(2044, 1020), (2046, 1016), (1533, 113), (1535, 114), (2045, 753), (2047, 754),
      (2041, 808), (1533, 373), (1535, 375), (2047, 241), (2047, 243), (2047, 247)]"
  by (simp add: arm64_instructions_1116_def, simp add: arm64_instructions_1116_def, simp add: top_bits_mask_value keys_of_1116)

lemma keys_of_1128: "map mask_value arm64_instructions_1128 =
     [(0xFF3FE000, 0x41DA000), (0xFF20E000, 0x6520C000), (0xFFE08000, 0x1F200000),
      (0xFFE08000, 0x1F600000), (0xFFE08000, 0x1FE00000), (0xFF20E000, 0x65204000),
      (0xFF20E000, 0x65206000), (0xFF20E000, 0x6520E000), (0xFFE08000, 0x1F208000),
      (0xFFE08000, 0x1F608000), (0xFFE08000, 0x1FE08000), (0xFFE0FC00, 0x1E208800)]"
  by (simp only: arm64_instructions_1128_def read_entries)

lemma entries_1128:
  "length arm64_instructions_1128 = 12" "list_all metadata_wf arm64_instructions_1128"
  "map top_bits arm64_instructions_1128 =
     [(2041, 32), (2041, 809), (2047, 249), (2047, 251), (2047, 255), (2041, 809), (2041, 809),
      (2041, 809), (2047, 249), (2047, 251), (2047, 255), (2047, 241)]"
  by (simp add: arm64_instructions_1128_def, simp add: arm64_instructions_1128_def, simp add: top_bits_mask_value keys_of_1128)

lemma keys_of_1140: "map mask_value arm64_instructions_1140 =
     [(0xFFE0FC00, 0x1E608800), (0xFFE0FC00, 0x1EE08800), (0xBFBFFC00, 0xEA1D800),
      (0xBFFFFC00, 0xEF9D800), (0xFFBFFC00, 0x5EA1D800), (0xFFFFFC00, 0x5EF9D800),
      (0xFF3FFC00, 0x650E3000), (0xBFA0FC00, 0xE20FC00), (0xBFE0FC00, 0xE403C00),
      (0xFFA0FC00, 0x5E20FC00), (0xFFE0FC00, 0x5E403C00), (0xFF20FC00, 0x65001800)]"
  by (simp only: arm64_instructions_1140_def read_entries)

lemma entries_1140:
  "length arm64_instructions_1140 = 12" "list_all metadata_wf arm64_instructions_1140"
  "map top_bits arm64_instructions_1140 =
     [(2047, 243), (2047, 247), (1533, 117), (1535, 119), (2045, 757), (2047, 759), (2041, 808),
      (1533, 113), (1535, 114), (2045, 753), (2047, 754), (2041, 808)]"
  by (simp add: arm64_instructions_1140_def, simp add: arm64_instructions_1140_def, simp add: top_bits_mask_value keys_of_1140)

lemma keys_of_1152: "map mask_value arm64_instructions_1152 =
     [(0xFFBFFC00, 0x5EA1F800), (0xFFFFFC00, 0x5EF9F800), (0xFF3FE000, 0x650CA000),
      (0xBFBFFC00, 0x2E21E800), (0xFFFFFC00, 0x1E28C000), (0xFFFFFC00, 0x1E68C000),
      (0xBFBFFC00, 0xE21E800), (0xFFFFFC00, 0x1E284000), (0xFFFFFC00, 0x1E684000),
      (0xBFBFFC00, 0x2E21F800), (0xFFFFFC00, 0x1E29C000), (0xFFFFFC00, 0x1E69C000)]"
  by (simp only: arm64_instructions_1152_def read_entries)

lemma entries_1152:
  "length arm64_instructions_1152 = 12" "list_all metadata_wf arm64_instructions_1152"
  "map top_bits arm64_instructions_1152 =
     [(2045, 757), (2047, 759), (2041, 808), (1533, 369), (2047, 241), (2047, 243), (1533, 113),
      (2047, 241), (2047, 243), (1533, 369), (2047, 241), (2047, 243)]"
  by (simp add: arm64_instructions_1152_def, simp add: arm64_instructions_1152_def, simp add: top_bits_mask_value keys_of_1152)

lemma keys_of_1164: "map mask_value arm64_instructions_1164 =
     [(0xBFBFFC00, 0xE21F800), (0xFFFFFC00, 0x1E294000), (0xFFFFFC00, 0x1E694000),
      (0xBFBFFC00, 0x2E218800), (0xBFFFFC00, 0x2E798800), (0xFFFFFC00, 0x1E264000),
      (0xFFFFFC00, 0x1E664000), (0xFFFFFC00, 0x1EE64000), (0xFFFFFC21, 0xC1ACE000),
      (0xFFFFFC63, 0xC1BCE000), (0xFF3FE000, 0x6504A000), (0xFF3FE000, 0x6507A000)]"
  by (simp only: arm64_instructions_1164_def read_entries)

lemma entries_1164:
  "length arm64_instructions_1164 = 12" "list_all metadata_wf arm64_instructions_1164"
  "map top_bits arm64_instructions_1164 =
     [(1533, 113), (2047, 241), (2047, 243), (1533, 369), (1535, 371), (2047, 241), (2047, 243),
      (2047, 247), (2047, 1549), (2047, 1549), (2041, 808), (2041, 808)]"
  by (simp add: arm64_instructions_1164_def, simp add: arm64_instructions_1164_def, simp add: top_bits_mask_value keys_of_1164)

lemma keys_of_1176: "map mask_value arm64_instructions_1176 =
     [(0xFF3FE000, 0x6502A000), (0xFF3FE000, 0x6500A000), (0xFF3FE000, 0x6501A000),
      (0xFF3FE000, 0x6506A000), (0xFF3FE000, 0x6503A000), (0xBFBFFC00, 0x2EA19800),
      (0xBFFFFC00, 0x2EF99800), (0xFFFFFC00, 0x1E27C000), (0xFFFFFC00, 0x1E67C000),
      (0xFFFFFC00, 0x1EE7C000), (0xBFBFFC00, 0xE219800), (0xBFFFFC00, 0xE799800)]"
  by (simp only: arm64_instructions_1176_def read_entries)

lemma entries_1176:
  "length arm64_instructions_1176 = 12" "list_all metadata_wf arm64_instructions_1176"
  "map top_bits arm64_instructions_1176 =
     [(2041, 808), (2041, 808), (2041, 808), (2041, 808), (2041, 808), (1533, 373), (1535, 375),
      (2047, 241), (2047, 243), (2047, 247), (1533, 113), (1535, 115)]"
  by (simp add: arm64_instructions_1176_def, simp add: arm64_instructions_1176_def, simp add: top_bits_mask_value keys_of_1176)

lemma keys_of_1188: "map mask_value arm64_instructions_1188 =
     [(0xFFFFFC00, 0x1E254000), (0xFFFFFC00, 0x1E654000), (0xFFFFFC00, 0x1EE54000),
      (0xFFFFFC21, 0xC1AAE000), (0xFFFFFC63, 0xC1BAE000), (0xBFBFFC00, 0xE218800),
      (0xBFFFFC00, 0xE798800), (0xFFFFFC00, 0x1E244000), (0xFFFFFC00, 0x1E644000),
      (0xFFFFFC00, 0x1EE44000), (0xFFFFFC21, 0xC1A8E000), (0xFFFFFC63, 0xC1B8E000)]"
  by (simp only: arm64_instructions_1188_def read_entries)

lemma entries_1188:
  "length arm64_instructions_1188 = 12" "list_all metadata_wf arm64_instructions_1188"
  "map top_bits arm64_instructions_1188 =
     [(2047, 241), (2047, 243), (2047, 247), (2047, 1549), (2047, 1549), (1533, 113),
      (1535, 115), (2047, 241), (2047, 243), (2047, 247), (2047, 1549), (2047, 1549)]"
  by (simp add: arm64_instructions_1188_def, simp add: arm64_instructions_1188_def, simp add: top_bits_mask_value keys_of_1188)

lemma keys_of_1200: "map mask_value arm64_instructions_1200 =
     [(0xBFBFFC00, 0xEA18800), (0xBFFFFC00, 0xEF98800), (0xFFFFFC00, 0x1E24C000),
      (0xFFFFFC00, 0x1E64C000), (0xFFFFFC00, 0x1EE4C000), (0xFFFFFC21, 0xC1A9E000),
      (0xFFFFFC63, 0xC1B9E000), (0xBFBFFC00, 0x2E219800), (0xBFFFFC00, 0x2E799800),
      (0xFFFFFC00, 0x1E274000), (0xFFFFFC00, 0x1E674000), (0xFFFFFC00, 0x1EE74000)]"
  by (simp only: arm64_instructions_1200_def read_entries)

lemma entries_1200:
  "length arm64_instructions_1200 = 12" "list_all metadata_wf arm64_instructions_1200"
  "map top_bits arm64_instructions_1200 =
     [(1533, 117), (1535, 119), (2047, 241), (2047, 243), (2047, 247), (2047, 1549),
      (2047, 1549), (1533, 369), (1535, 371), (2047, 241), (2047, 243), (2047, 247)]"
  by (simp add: arm64_instructions_1200_def, simp add: arm64_instructions_1200_def, simp add: top_bits_mask_value keys_of_1200)

lemma keys_of_1212: "map mask_value arm64_instructions_1212 =
     [(0xBFBFFC00, 0xEA19800), (0xBFFFFC00, 0xEF99800), (0xFFFFFC00, 0x1E25C000),
      (0xFFFFFC00, 0x1E65C000), (0xFFFFFC00, 0x1EE5C000), (0xBFBFFC00, 0x2EA1D800),
      (0xBFFFFC00, 0x2EF9D800), (0xFFBFFC00, 0x7EA1D800), (0xFFFFFC00, 0x7EF9D800),
      (0xFF3FFC00, 0x650F3000), (0xBFA0FC00, 0xEA0FC00), (0xBFE0FC00, 0xEC03C00)]"
  by (simp only: arm64_instructions_1212_def read_entries)

lemma entries_1212:
  "length arm64_instructions_1212 = 12" "list_all metadata_wf arm64_instructions_1212"
  "map top_bits arm64_instructions_1212 =
     [(1533, 117), (1535, 119), (2047, 241), (2047, 243), (2047, 247), (1533, 373), (1535, 375),
      (2045, 1013), (2047, 1015), (2041, 808), (1533, 117), (1535, 118)]"
  by (simp add: arm64_instructions_1212_def, simp add: arm64_instructions_1212_def, simp add: top_bits_mask_value keys_of_1212)

lemma keys_of_1224: "map mask_value arm64_instructions_1224 =
     [(0xFFA0FC00, 0x5EA0FC00), (0xFFE0FC00, 0x5EC03C00), (0xFF20FC00, 0x65001C00),
      (0xFF3FE000, 0x65098000), (0xBFBFFC00, 0x2EA1F800), (0xBFFFFC00, 0x2EF9F800),
      (0xFFFFFC00, 0x1E21C000), (0xFFFFFC00, 0x1E61C000), (0xFFFFFC00, 0x1EE1C000),
      (0xFF3FE000, 0x650DA000), (0xBFA0FC00, 0xEA0D400), (0xBFE0FC00, 0xEC01400)]"
  by (simp only: arm64_instructions_1224_def read_entries)

lemma entries_1224:
  "length arm64_instructions_1224 = 12" "list_all metadata_wf arm64_instructions_1224"
  "map top_bits arm64_instructions_1224 =
     [(2045, 757), (2047, 758), (2041, 808), (2041, 808), (1533, 373), (1535, 375), (2047, 241),
      (2047, 243), (2047, 247), (2041, 808), (1533, 117), (1535, 118)]"
  by (simp add: arm64_instructions_1224_def, simp add: arm64_instructions_1224_def, simp add: top_bits_mask_value keys_of_1224)

lemma keys_of_1236: "map mask_value arm64_instructions_1236 =
     [(0xFFE0FC00, 0x1E203800), (0xFFE0FC00, 0x1E603800), (0xFFE0FC00, 0x1EE03800),
      (0xFF3FE3C0, 0x65198000), (0xFF3FE000, 0x65018000), (0xFF38FC00, 0x65000400),
      (0xFFBF9C38, 0xC1A01C08), (0xFFBF9C78, 0xC1A11C08), (0xFFFF9C38, 0xC1A41C08),
      (0xFFFF9C78, 0xC1A51C08), (0xFF3FE3C0, 0x651B8000), (0xFF3FE000, 0x65038000)]"
  by (simp only: arm64_instructions_1236_def read_entries)

lemma entries_1236:
  "length arm64_instructions_1236 = 12" "list_all metadata_wf arm64_instructions_1236"
  "map top_bits arm64_instructions_1236 =
     [(2047, 241), (2047, 243), (2047, 247), (2041, 808), (2041, 808), (2041, 808), (2045, 1549),
      (2045, 1549), (2047, 1549), (2047, 1549), (2041, 808), (2041, 808)]"
  by (simp add: arm64_instructions_1236_def, simp add: arm64_instructions_1236_def, simp add: top_bits_mask_value keys_of_1236)

lemma keys_of_1248: "map mask_value arm64_instructions_1248 =
     [(0xFF38FC00, 0x65108000), (0xFF20FC00, 0x65000C00), (0xFF20FC00, 0x420B000),
      (0xFFF09038, 0xC1500008), (0xFFFFFFFF, 0xD503227F), (0xFFFFFFE0, 0xD50877A0),
      (0xFFFFFFE0, 0xD52B7720), (0xFFFFFFE0, 0xD50877C0), (0xFFFFFFE0, 0xD50B7700),
      (0xFFFFFFE0, 0xD5087780), (0xFFFFFFE0, 0xD50B7740), (0xFFFFFFE0, 0xD52B7760)]"
  by (simp only: arm64_instructions_1248_def read_entries)

lemma entries_1248:
  "length arm64_instructions_1248 = 12" "list_all metadata_wf arm64_instructions_1248"
  "map top_bits arm64_instructions_1248 =
     [(2041, 808), (2041, 808), (2041, 33), (2047, 1546), (2047, 1704), (2047, 1704),
      (2047, 1705), (2047, 1704), (2047, 1704), (2047, 1704), (2047, 1704), (2047, 1705)]"
  by (simp add: arm64_instructions_1248_def, simp add: arm64_instructions_1248_def, simp add: top_bits_mask_value keys_of_1248)

lemma keys_of_1260: "map mask_value arm64_instructions_1260 =
     [(0xFFFFFC00, 0xD91F0C00), (0xFFFFFC00, 0xD91F1C00), (0xFFE0FC00, 0x9AC01400),
      (0xFFFFF01F, 0xD503201F), (0xFF20E000, 0x4520C000), (0xFF20FC00, 0x4520A000),
      (0xFFE0001F, 0xD4400000), (0xFFE0001F, 0xD4000002), (0xFFF8F000, 0xD5087000),
      (0xFFF0FC00, 0x430E000), (0xFFF0FC00, 0x4F0E000), (0xFFF0FC00, 0x470E000)]"
  by (simp only: arm64_instructions_1260_def read_entries)

lemma entries_1260:
  "length arm64_instructions_1260 = 12" "list_all metadata_wf arm64_instructions_1260"
  "map top_bits arm64_instructions_1260 =
     [(2047, 1736), (2047, 1736), (2047, 1238), (2047, 1704), (2041, 553), (2041, 553),
      (2047, 1698), (2047, 1696), (2047, 1704), (2047, 33), (2047, 39), (2047, 35)]"
  by (simp add: arm64_instructions_1260_def, simp add: arm64_instructions_1260_def, simp add: top_bits_mask_value keys_of_1260)

lemma keys_of_1272: "map mask_value arm64_instructions_1272 =
     [(0xFFF0FC00, 0x4B0E000), (0xFFF0FC00, 0x4F0C000), (0xFFF0FC00, 0x470C000),
      (0xFFF0FC00, 0x4B0C000), (0xFF3FFE00, 0x252C8800), (0xFF3FFE00, 0x252C8000),
      (0xFFE08400, 0x6E000400), (0xFFE0FC00, 0x4E001C00), (0xFF3FFC00, 0x5243800),
      (0xFF3FFC00, 0x5343800), (0xFFE0FC00, 0x9AC01000), (0xFFFFF0FF, 0xD50330DF)]"
  by (simp only: arm64_instructions_1272_def read_entries)

lemma entries_1272:
  "length arm64_instructions_1272 = 12" "list_all metadata_wf arm64_instructions_1272"
  "map top_bits arm64_instructions_1272 =
     [(2047, 37), (2047, 39), (2047, 35), (2047, 37), (2041, 297), (2041, 297), (2047, 880),
      (2047, 624), (2041, 41), (2041, 41), (2047, 1238), (2047, 1704)]"
  by (simp add: arm64_instructions_1272_def, simp add: arm64_instructions_1272_def, simp add: top_bits_mask_value keys_of_1272)

lemma keys_of_1284: "map mask_value arm64_instructions_1284 =
     [(0xFF3FE000, 0x520A000), (0xFF3FE000, 0x5228000), (0xFF3FE000, 0x521A000),
      (0xFF3FE000, 0x5238000), (0xBFE0F000, 0xCC02000), (0xBFE0F000, 0xCC06000),
      (0xBFE0F000, 0xCC07000), (0xBFE0F000, 0xCC0A000), (0xBFFFF000, 0xC402000),
      (0xBFFFF000, 0xC406000), (0xBFFFF000, 0xC407000), (0xBFFFF000, 0xC40A000)]"
  by (simp only: arm64_instructions_1284_def read_entries)

lemma entries_1284:
  "length arm64_instructions_1284 = 12" "list_all metadata_wf arm64_instructions_1284"
  "map top_bits arm64_instructions_1284 =
     [(2041, 41), (2041, 41), (2041, 41), (2041, 41), (1535, 102), (1535, 102), (1535, 102),
      (1535, 102), (1535, 98), (1535, 98), (1535, 98), (1535, 98)]"
  by (simp add: arm64_instructions_1284_def, simp add: arm64_instructions_1284_def, simp add: top_bits_mask_value keys_of_1284)

lemma keys_of_1296: "map mask_value arm64_instructions_1296 =
     [(0xBFFFF000, 0xCDF2000), (0xBFFFF000, 0xCDF6000), (0xBFFFF000, 0xCDF7000),
      (0xBFFFF000, 0xCDFA000), (0xBFE0E000, 0xDC00000), (0xBFE0E400, 0xDC04000),
      (0xBFE0EC00, 0xDC08000), (0xBFE0FC00, 0xDC08400), (0xBFFFE000, 0xD400000),
      (0xBFFFE000, 0xDDF0000), (0xBFFFE400, 0xD404000), (0xBFFFE400, 0xDDF4000)]"
  by (simp only: arm64_instructions_1296_def read_entries)

lemma entries_1296:
  "length arm64_instructions_1296 = 12" "list_all metadata_wf arm64_instructions_1296"
  "map top_bits arm64_instructions_1296 =
     [(1535, 102), (1535, 102), (1535, 102), (1535, 102), (1535, 110), (1535, 110), (1535, 110),
      (1535, 110), (1535, 106), (1535, 110), (1535, 106), (1535, 110)]"
  by (simp add: arm64_instructions_1296_def, simp add: arm64_instructions_1296_def, simp add: top_bits_mask_value keys_of_1296)

lemma keys_of_1308: "map mask_value arm64_instructions_1308 =
     [(0xBFFFEC00, 0xD408000), (0xBFFFEC00, 0xDDF8000), (0xBFFFFC00, 0xD408400),
      (0xBFFFFC00, 0xDDF8400), (0xFFF0E001, 0xA0400000), (0xFFF0E003, 0xA0408000),
      (0xFFE0E001, 0xA0000000), (0xFFE0E003, 0xA0008000), (0xFFF0E008, 0xA1400000),
      (0xFFF0E00C, 0xA1408000), (0xFFE0E008, 0xA1000000), (0xFFE0E00C, 0xA1008000)]"
  by (simp only: arm64_instructions_1308_def read_entries)

lemma entries_1308:
  "length arm64_instructions_1308 = 12" "list_all metadata_wf arm64_instructions_1308"
  "map top_bits arm64_instructions_1308 =
     [(1535, 106), (1535, 110), (1535, 106), (1535, 110), (2047, 1282), (2047, 1282),
      (2047, 1280), (2047, 1280), (2047, 1290), (2047, 1290), (2047, 1288), (2047, 1288)]"
  by (simp add: arm64_instructions_1308_def, simp add: arm64_instructions_1308_def, simp add: top_bits_mask_value keys_of_1308)

lemma keys_of_1320: "map mask_value arm64_instructions_1320 =
     [(0xFFE0E000, 0x8420C000), (0xFFE0E000, 0xC420C000), (0xFFF0E000, 0xA400A000),
      (0xFFF0E000, 0xA420A000), (0xFFF0E000, 0xA440A000), (0xFFF0E000, 0xA460A000),
      (0xFFE0E000, 0xA4004000), (0xFFE0E000, 0xA4204000), (0xFFE0E000, 0xA4404000),
      (0xFFE0E000, 0xA4604000), (0xFFA0E000, 0x84004000), (0xFFA0E000, 0xC4004000)]"
  by (simp only: arm64_instructions_1320_def read_entries)

lemma entries_1320:
  "length arm64_instructions_1320 = 12" "list_all metadata_wf arm64_instructions_1320"
  "map top_bits arm64_instructions_1320 =
     [(2047, 1057), (2047, 1569), (2047, 1312), (2047, 1313), (2047, 1314), (2047, 1315),
      (2047, 1312), (2047, 1313), (2047, 1314), (2047, 1315), (2045, 1056), (2045, 1568)]"
  by (simp add: arm64_instructions_1320_def, simp add: arm64_instructions_1320_def, simp add: top_bits_mask_value keys_of_1320)

lemma keys_of_1332: "map mask_value arm64_instructions_1332 =
     [(0xFFE0E000, 0xC440C000), (0xFFE00010, 0xE0000000), (0xFFF0E001, 0xA0406000),
      (0xFFF0E003, 0xA040E000), (0xFFE0E001, 0xA0006000), (0xFFE0E003, 0xA000E000),
      (0xFFF0E008, 0xA1406000), (0xFFF0E00C, 0xA140E000), (0xFFE0E008, 0xA1006000),
      (0xFFE0E00C, 0xA100E000), (0xFFE0E000, 0xC5A0C000), (0xFFF0E000, 0xA5902000)]"
  by (simp only: arm64_instructions_1332_def read_entries)

lemma entries_1332:
  "length arm64_instructions_1332 = 12" "list_all metadata_wf arm64_instructions_1332"
  "map top_bits arm64_instructions_1332 =
     [(2047, 1570), (2047, 1792), (2047, 1282), (2047, 1282), (2047, 1280), (2047, 1280),
      (2047, 1290), (2047, 1290), (2047, 1288), (2047, 1288), (2047, 1581), (2047, 1324)]"
  by (simp add: arm64_instructions_1332_def, simp add: arm64_instructions_1332_def, simp add: top_bits_mask_value keys_of_1332)

lemma keys_of_1344: "map mask_value arm64_instructions_1344 =
     [(0xFFF0E000, 0xA5E0A000), (0xFFE0E000, 0xA5808000), (0xFFE0E000, 0xA5E04000),
      (0xFFA0E000, 0xC5804000), (0xFFA0E000, 0xC5A04000), (0xFFE0E000, 0xC5C0C000),
      (0xFFE0E000, 0xC5E0C000), (0xFFE00010, 0xE0C00000), (0xFFF0E001, 0xA0402000),
      (0xFFF0E003, 0xA040A000), (0xFFE0E001, 0xA0002000), (0xFFE0E003, 0xA000A000)]"
  by (simp only: arm64_instructions_1344_def read_entries)

lemma entries_1344:
  "length arm64_instructions_1344 = 12" "list_all metadata_wf arm64_instructions_1344"
  "map top_bits arm64_instructions_1344 =
     [(2047, 1327), (2047, 1324), (2047, 1327), (2045, 1580), (2045, 1581), (2047, 1582),
      (2047, 1583), (2047, 1798), (2047, 1282), (2047, 1282), (2047, 1280), (2047, 1280)]"
  by (simp add: arm64_instructions_1344_def, simp add: arm64_instructions_1344_def, simp add: top_bits_mask_value keys_of_1344)

lemma keys_of_1356: "map mask_value arm64_instructions_1356 =
     [(0xFFF0E008, 0xA1402000), (0xFFF0E00C, 0xA140A000), (0xFFE0E008, 0xA1002000),
      (0xFFE0E00C, 0xA100A000), (0xFFE0E000, 0x84A0C000), (0xFFE0E000, 0xC4A0C000),
      (0xFFF0E000, 0xA4A0A000), (0xFFF0E000, 0xA4C0A000), (0xFFF0E000, 0xA4E0A000),
      (0xFFE0E000, 0xA4A04000), (0xFFE0E000, 0xA4C04000), (0xFFE0E000, 0xA4E04000)]"
  by (simp only: arm64_instructions_1356_def read_entries)

lemma entries_1356:
  "length arm64_instructions_1356 = 12" "list_all metadata_wf arm64_instructions_1356"
  "map top_bits arm64_instructions_1356 =
     [(2047, 1290), (2047, 1290), (2047, 1288), (2047, 1288), (2047, 1061), (2047, 1573),
      (2047, 1317), (2047, 1318), (2047, 1319), (2047, 1317), (2047, 1318), (2047, 1319)]"
  by (simp add: arm64_instructions_1356_def, simp add: arm64_instructions_1356_def, simp add: top_bits_mask_value keys_of_1356)

lemma keys_of_1368: "map mask_value arm64_instructions_1368 =
     [(0xFFA0E000, 0x84804000), (0xFFA0E000, 0x84A04000), (0xFFA0E000, 0xC4804000),
      (0xFFA0E000, 0xC4A04000), (0xFFE0E000, 0xC4C0C000), (0xFFE0E000, 0xC4E0C000),
      (0xFFE00010, 0xE0400000), (0xFFE0E000, 0xC400A000), (0xFFE00010, 0xE1C00000),
      (0xBFE0F000, 0xDC0C000), (0xBFFFF000, 0xD40C000), (0xBFFFF000, 0xDDFC000)]"
  by (simp only: arm64_instructions_1368_def read_entries)

lemma entries_1368:
  "length arm64_instructions_1368 = 12" "list_all metadata_wf arm64_instructions_1368"
  "map top_bits arm64_instructions_1368 =
     [(2045, 1060), (2045, 1061), (2045, 1572), (2045, 1573), (2047, 1574), (2047, 1575),
      (2047, 1794), (2047, 1568), (2047, 1806), (1535, 110), (1535, 106), (1535, 110)]"
  by (simp add: arm64_instructions_1368_def, simp add: arm64_instructions_1368_def, simp add: top_bits_mask_value keys_of_1368)

lemma keys_of_1380: "map mask_value arm64_instructions_1380 =
     [(0xFFC0E000, 0x84408000), (0xFFC0E000, 0x8440A000), (0xFFC0E000, 0x8440C000),
      (0xFFC0E000, 0x8440E000), (0xFFC0E000, 0x85C0E000), (0xFFC0E000, 0x84C0A000),
      (0xFFC0E000, 0x84C0C000), (0xFFC0E000, 0x84C0E000), (0xFFF0E000, 0xA4202000),
      (0xFFE0E000, 0xA4200000), (0xFFF0E000, 0xA5A02000), (0xFFE0E000, 0xA5A00000)]"
  by (simp only: arm64_instructions_1380_def read_entries)

lemma entries_1380:
  "length arm64_instructions_1380 = 12" "list_all metadata_wf arm64_instructions_1380"
  "map top_bits arm64_instructions_1380 =
     [(2046, 1058), (2046, 1058), (2046, 1058), (2046, 1058), (2046, 1070), (2046, 1062),
      (2046, 1062), (2046, 1062), (2047, 1313), (2047, 1313), (2047, 1325), (2047, 1325)]"
  by (simp add: arm64_instructions_1380_def, simp add: arm64_instructions_1380_def, simp add: top_bits_mask_value keys_of_1380)

lemma keys_of_1392: "map mask_value arm64_instructions_1392 =
     [(0xFFF0E000, 0xA4A02000), (0xFFE0E000, 0xA4A00000), (0xFFF0E000, 0xA5202000),
      (0xFFE0E000, 0xA5200000), (0xFFF0E000, 0xA4002000), (0xFFE0E000, 0xA4000000),
      (0xFFF0E000, 0xA5802000), (0xFFE0E000, 0xA5800000), (0xFFF0E000, 0xA4802000),
      (0xFFE0E000, 0xA4800000), (0xFFF0E000, 0xA5002000), (0xFFE0E000, 0xA5000000)]"
  by (simp only: arm64_instructions_1392_def read_entries)

lemma entries_1392:
  "length arm64_instructions_1392 = 12" "list_all metadata_wf arm64_instructions_1392"
  "map top_bits arm64_instructions_1392 =
     [(2047, 1317), (2047, 1317), (2047, 1321), (2047, 1321), (2047, 1312), (2047, 1312),
      (2047, 1324), (2047, 1324), (2047, 1316), (2047, 1316), (2047, 1320), (2047, 1320)]"
  by (simp add: arm64_instructions_1392_def, simp add: arm64_instructions_1392_def, simp add: top_bits_mask_value keys_of_1392)

lemma keys_of_1404: "map mask_value arm64_instructions_1404 =
     [(0xFFC0E000, 0x85C08000), (0xFFC0E000, 0x85C0A000), (0xFFC0E000, 0x85C0C000),
      (0xFFC0E000, 0x85408000), (0xFFC0E000, 0x8540A000), (0xFFC0E000, 0x84C08000),
      (0xFFC0E000, 0x8540C000), (0xFFC0E000, 0x8540E000), (0xFFE0E000, 0x84208000),
      (0xFFE0E000, 0xC4208000), (0xFFF0E000, 0xA580A000), (0xFFF0E000, 0xA5A0A000)]"
  by (simp only: arm64_instructions_1404_def read_entries)

lemma entries_1404:
  "length arm64_instructions_1404 = 12" "list_all metadata_wf arm64_instructions_1404"
  "map top_bits arm64_instructions_1404 =
     [(2046, 1070), (2046, 1070), (2046, 1070), (2046, 1066), (2046, 1066), (2046, 1062),
      (2046, 1066), (2046, 1066), (2047, 1057), (2047, 1569), (2047, 1324), (2047, 1325)]"
  by (simp add: arm64_instructions_1404_def, simp add: arm64_instructions_1404_def, simp add: top_bits_mask_value keys_of_1404)

lemma keys_of_1416: "map mask_value arm64_instructions_1416 =
     [(0xFFF0E000, 0xA5C0A000), (0xFFE0E000, 0xA5804000), (0xFFE0E000, 0xA5A04000),
      (0xFFE0E000, 0xA5C04000), (0xFFA0E000, 0x84000000), (0xFFA0E000, 0xC4000000),
      (0xFFE0E000, 0xC4408000), (0xFFE0E000, 0x84A08000), (0xFFE0E000, 0xC4A08000),
      (0xFFF0E000, 0xA500A000), (0xFFF0E000, 0xA520A000), (0xFFE0E000, 0xA5004000)]"
  by (simp only: arm64_instructions_1416_def read_entries)

lemma entries_1416:
  "length arm64_instructions_1416 = 12" "list_all metadata_wf arm64_instructions_1416"
  "map top_bits arm64_instructions_1416 =
     [(2047, 1326), (2047, 1324), (2047, 1325), (2047, 1326), (2045, 1056), (2045, 1568),
      (2047, 1570), (2047, 1061), (2047, 1573), (2047, 1320), (2047, 1321), (2047, 1320)]"
  by (simp add: arm64_instructions_1416_def, simp add: arm64_instructions_1416_def, simp add: top_bits_mask_value keys_of_1416)

lemma keys_of_1428: "map mask_value arm64_instructions_1428 =
     [(0xFFE0E000, 0xA5204000), (0xFFA0E000, 0x84800000), (0xFFA0E000, 0x84A00000),
      (0xFFA0E000, 0xC4800000), (0xFFA0E000, 0xC4A00000), (0xFFE0E000, 0xC4C08000),
      (0xFFE0E000, 0xC4E08000), (0xFFE0E000, 0xC5208000), (0xFFF0E000, 0xA480A000),
      (0xFFE0E000, 0xA4804000), (0xFFA0E000, 0xC5000000), (0xFFA0E000, 0xC5200000)]"
  by (simp only: arm64_instructions_1428_def read_entries)

lemma entries_1428:
  "length arm64_instructions_1428 = 12" "list_all metadata_wf arm64_instructions_1428"
  "map top_bits arm64_instructions_1428 =
     [(2047, 1321), (2045, 1060), (2045, 1061), (2045, 1572), (2045, 1573), (2047, 1574),
      (2047, 1575), (2047, 1577), (2047, 1316), (2047, 1316), (2045, 1576), (2045, 1577)]"
  by (simp add: arm64_instructions_1428_def, simp add: arm64_instructions_1428_def, simp add: top_bits_mask_value keys_of_1428)

lemma keys_of_1440: "map mask_value arm64_instructions_1440 =
     [(0xFFE0E000, 0xC5408000), (0xFFE0E000, 0xC5608000), (0xFFF0E001, 0xA0404000),
      (0xFFF0E003, 0xA040C000), (0xFFE0E001, 0xA0004000), (0xFFE0E003, 0xA000C000),
      (0xFFF0E008, 0xA1404000), (0xFFF0E00C, 0xA140C000), (0xFFE0E008, 0xA1004000),
      (0xFFE0E00C, 0xA100C000), (0xFFE0E000, 0x8520C000), (0xFFE0E000, 0xC520C000)]"
  by (simp only: arm64_instructions_1440_def read_entries)

lemma entries_1440:
  "length arm64_instructions_1440 = 12" "list_all metadata_wf arm64_instructions_1440"
  "map top_bits arm64_instructions_1440 =
     [(2047, 1578), (2047, 1579), (2047, 1282), (2047, 1282), (2047, 1280), (2047, 1280),
      (2047, 1290), (2047, 1290), (2047, 1288), (2047, 1288), (2047, 1065), (2047, 1577)]"
  by (simp add: arm64_instructions_1440_def, simp add: arm64_instructions_1440_def, simp add: top_bits_mask_value keys_of_1440)

lemma keys_of_1452: "map mask_value arm64_instructions_1452 =
     [(0xFFF0E000, 0xA5102000), (0xFFF0E000, 0xA540A000), (0xFFF0E000, 0xA560A000),
      (0xFFE0E000, 0xA5008000), (0xFFE0E000, 0xA5404000), (0xFFE0E000, 0xA5604000),
      (0xFFA0E000, 0x85004000), (0xFFA0E000, 0x85204000), (0xFFA0E000, 0xC5004000),
      (0xFFA0E000, 0xC5204000), (0xFFE0E000, 0xC540C000), (0xFFE0E000, 0xC560C000)]"
  by (simp only: arm64_instructions_1452_def read_entries)

lemma entries_1452:
  "length arm64_instructions_1452 = 12" "list_all metadata_wf arm64_instructions_1452"
  "map top_bits arm64_instructions_1452 =
     [(2047, 1320), (2047, 1322), (2047, 1323), (2047, 1320), (2047, 1322), (2047, 1323),
      (2045, 1064), (2045, 1065), (2045, 1576), (2045, 1577), (2047, 1578), (2047, 1579)]"
  by (simp add: arm64_instructions_1452_def, simp add: arm64_instructions_1452_def, simp add: top_bits_mask_value keys_of_1452)

lemma keys_of_1464: "map mask_value arm64_instructions_1464 =
     [(0xFFE00010, 0xE0800000), (0xBFE0F000, 0xCC08000), (0xBFFFF000, 0xC408000),
      (0xBFFFF000, 0xCDF8000), (0xBFE0E000, 0xDE00000), (0xBFE0E400, 0xDE04000),
      (0xBFE0EC00, 0xDE08000), (0xBFE0FC00, 0xDE08400), (0xBFFFE000, 0xD600000),
      (0xBFFFE000, 0xDFF0000), (0xBFFFE400, 0xD604000), (0xBFFFE400, 0xDFF4000)]"
  by (simp only: arm64_instructions_1464_def read_entries)

lemma entries_1464:
  "length arm64_instructions_1464 = 12" "list_all metadata_wf arm64_instructions_1464"
  "map top_bits arm64_instructions_1464 =
     [(2047, 1796), (1535, 102), (1535, 98), (1535, 102), (1535, 111), (1535, 111), (1535, 111),
      (1535, 111), (1535, 107), (1535, 111), (1535, 107), (1535, 111)]"
  by (simp add: arm64_instructions_1464_def, simp add: arm64_instructions_1464_def, simp add: top_bits_mask_value keys_of_1464)

lemmas entries_part_3 =
  entries_984 entries_996 entries_1008 entries_1020 entries_1032 entries_1044 entries_1056
  entries_1068 entries_1080 entries_1092 entries_1104 entries_1116 entries_1128 entries_1140
  entries_1152 entries_1164 entries_1176 entries_1188 entries_1200 entries_1212 entries_1224
  entries_1236 entries_1248 entries_1260 entries_1272 entries_1284 entries_1296 entries_1308
  entries_1320 entries_1332 entries_1344 entries_1356 entries_1368 entries_1380 entries_1392
  entries_1404 entries_1416 entries_1428 entries_1440 entries_1452 entries_1464

lemma arm64_part_3:
  "length (concat arm64_part_3) = 492" "list_all metadata_wf (concat arm64_part_3)"
  "sum_list (map weight (map top_bits (concat arm64_part_3))) = 877"
  by (simp_all add: arm64_part_3_def entries_part_3 weight_def bit_Suc_0_iff)

end
