(* ===== verification/Arm64_Instructions_4.thy ===== *)
theory Arm64_Instructions_4
  imports Table_Entries
begin

text \<open>
  Entries 1476 to 1967 of \<open>g_bal_decoder_arm64_instructions\<close> in \<open>src/generated/decoder_table.c\<close>,
  twelve to a list; a list is named after the index of its first entry.
\<close>

definition arm64_instructions_1476 :: "bal_decoder_instruction_metadata_t list" where
  "arm64_instructions_1476 = [
     insn ''LD2'' 0xBFFFEC00 0x0D608000 OPCODE_TRAP [op_v 0 5, op_x 5 5, op_imm 12 1, op_imm 30 1],
     insn ''LD2'' 0xBFFFEC00 0x0DFF8000 OPCODE_TRAP [op_v 0 5, op_x 5 5, op_imm 12 1, op_imm 30 1],
     insn ''LD2'' 0xBFFFFC00 0x0D608400 OPCODE_TRAP [op_v 0 5, op_x 5 5, op_imm 30 1],
     insn ''LD2'' 0xBFFFFC00 0x0DFF8400 OPCODE_TRAP [op_v 0 5, op_x 5 5, op_imm 30 1],
     insn ''LD2B'' 0xFFF0E000 0xA420E000 OPCODE_TRAP [op_v 0 5, op_x 5 5, op_v 10 3, op_imm 16 4],
     insn ''LD2B'' 0xFFE0E000 0xA420C000 OPCODE_TRAP [op_v 0 5, op_x 5 5, op_v 10 3, op_imm 16 5],
     insn ''LD2D'' 0xFFF0E000 0xA5A0E000 OPCODE_TRAP [op_v 0 5, op_x 5 5, op_v 10 3, op_imm 16 4],
     insn ''LD2D'' 0xFFE0E000 0xA5A0C000 OPCODE_TRAP [op_v 0 5, op_x 5 5, op_v 10 3, op_imm 16 5],
     insn ''LD2H'' 0xFFF0E000 0xA4A0E000 OPCODE_TRAP [op_v 0 5, op_x 5 5, op_v 10 3, op_imm 16 4],
     insn ''LD2H'' 0xFFE0E000 0xA4A0C000 OPCODE_TRAP [op_v 0 5, op_x 5 5, op_v 10 3, op_imm 16 5],
     insn ''LD2Q'' 0xFFF0E000 0xA490E000 OPCODE_TRAP [op_v 0 5, op_x 5 5, op_v 10 3, op_imm 16 4],
     insn ''LD2Q'' 0xFFE0E000 0xA4A08000 OPCODE_TRAP [op_v 0 5, op_x 5 5, op_v 10 3, op_imm 16 5]]"

definition arm64_instructions_1488 :: "bal_decoder_instruction_metadata_t list" where
  "arm64_instructions_1488 = [
     insn ''LD2R'' 0xBFE0F000 0x0DE0C000 OPCODE_TRAP [op_v 0 5, op_x 5 5, op_imm 16 5],
     insn ''LD2R'' 0xBFFFF000 0x0D60C000 OPCODE_TRAP [op_v 0 5, op_x 5 5],
     insn ''LD2R'' 0xBFFFF000 0x0DFFC000 OPCODE_TRAP [op_v 0 5, op_x 5 5, op_imm 10 2],
     insn ''LD2W'' 0xFFF0E000 0xA520E000 OPCODE_TRAP [op_v 0 5, op_x 5 5, op_v 10 3, op_imm 16 4],
     insn ''LD2W'' 0xFFE0E000 0xA520C000 OPCODE_TRAP [op_v 0 5, op_x 5 5, op_v 10 3, op_imm 16 5],
     insn ''LD3'' 0xBFE0F000 0x0CC04000 OPCODE_TRAP [op_v 0 5, op_x 5 5, op_imm 16 5],
     insn ''LD3'' 0xBFFFF000 0x0C404000 OPCODE_TRAP [op_v 0 5, op_x 5 5],
     insn ''LD3'' 0xBFFFF000 0x0CDF4000 OPCODE_TRAP [op_v 0 5, op_x 5 5, op_imm 30 1],
     insn ''LD3'' 0xBFE0E000 0x0DC02000 OPCODE_TRAP [op_v 0 5, op_x 5 5, op_imm 10 2, op_imm 12 1, op_imm 30 1],
     insn ''LD3'' 0xBFE0E400 0x0DC06000 OPCODE_TRAP [op_v 0 5, op_x 5 5, op_imm 10 2, op_imm 12 1, op_imm 30 1],
     insn ''LD3'' 0xBFE0EC00 0x0DC0A000 OPCODE_TRAP [op_v 0 5, op_x 5 5, op_imm 12 1, op_imm 16 5, op_imm 30 1],
     insn ''LD3'' 0xBFE0FC00 0x0DC0A400 OPCODE_TRAP [op_v 0 5, op_x 5 5, op_imm 16 5, op_imm 30 1]]"

definition arm64_instructions_1500 :: "bal_decoder_instruction_metadata_t list" where
  "arm64_instructions_1500 = [
     insn ''LD3'' 0xBFFFE000 0x0D402000 OPCODE_TRAP [op_v 0 5, op_x 5 5, op_imm 10 2, op_imm 12 1, op_imm 30 1],
     insn ''LD3'' 0xBFFFE000 0x0DDF2000 OPCODE_TRAP [op_v 0 5, op_x 5 5, op_imm 10 2, op_imm 12 1, op_imm 30 1],
     insn ''LD3'' 0xBFFFE400 0x0D406000 OPCODE_TRAP [op_v 0 5, op_x 5 5, op_imm 10 2, op_imm 12 1, op_imm 30 1],
     insn ''LD3'' 0xBFFFE400 0x0DDF6000 OPCODE_TRAP [op_v 0 5, op_x 5 5, op_imm 10 2, op_imm 12 1, op_imm 30 1],
     insn ''LD3'' 0xBFFFEC00 0x0D40A000 OPCODE_TRAP [op_v 0 5, op_x 5 5, op_imm 12 1, op_imm 30 1],
     insn ''LD3'' 0xBFFFEC00 0x0DDFA000 OPCODE_TRAP [op_v 0 5, op_x 5 5, op_imm 12 1, op_imm 30 1],
     insn ''LD3'' 0xBFFFFC00 0x0D40A400 OPCODE_TRAP [op_v 0 5, op_x 5 5, op_imm 30 1],
     insn ''LD3'' 0xBFFFFC00 0x0DDFA400 OPCODE_TRAP [op_v 0 5, op_x 5 5, op_imm 30 1],
     insn ''LD3B'' 0xFFF0E000 0xA440E000 OPCODE_TRAP [op_v 0 5, op_x 5 5, op_v 10 3, op_imm 16 4],
     insn ''LD3B'' 0xFFE0E000 0xA440C000 OPCODE_TRAP [op_v 0 5, op_x 5 5, op_v 10 3, op_imm 16 5],
     insn ''LD3D'' 0xFFF0E000 0xA5C0E000 OPCODE_TRAP [op_v 0 5, op_x 5 5, op_v 10 3, op_imm 16 4],
     insn ''LD3D'' 0xFFE0E000 0xA5C0C000 OPCODE_TRAP [op_v 0 5, op_x 5 5, op_v 10 3, op_imm 16 5]]"

definition arm64_instructions_1512 :: "bal_decoder_instruction_metadata_t list" where
  "arm64_instructions_1512 = [
     insn ''LD3H'' 0xFFF0E000 0xA4C0E000 OPCODE_TRAP [op_v 0 5, op_x 5 5, op_v 10 3, op_imm 16 4],
     insn ''LD3H'' 0xFFE0E000 0xA4C0C000 OPCODE_TRAP [op_v 0 5, op_x 5 5, op_v 10 3, op_imm 16 5],
     insn ''LD3Q'' 0xFFF0E000 0xA510E000 OPCODE_TRAP [op_v 0 5, op_x 5 5, op_v 10 3, op_imm 16 4],
     insn ''LD3Q'' 0xFFE0E000 0xA5208000 OPCODE_TRAP [op_v 0 5, op_x 5 5, op_v 10 3, op_imm 16 5],
     insn ''LD3R'' 0xBFE0F000 0x0DC0E000 OPCODE_TRAP [op_v 0 5, op_x 5 5, op_imm 16 5],
     insn ''LD3R'' 0xBFFFF000 0x0D40E000 OPCODE_TRAP [op_v 0 5, op_x 5 5],
     insn ''LD3R'' 0xBFFFF000 0x0DDFE000 OPCODE_TRAP [op_v 0 5, op_x 5 5, op_imm 10 2],
     insn ''LD3W'' 0xFFF0E000 0xA540E000 OPCODE_TRAP [op_v 0 5, op_x 5 5, op_v 10 3, op_imm 16 4],
     insn ''LD3W'' 0xFFE0E000 0xA540C000 OPCODE_TRAP [op_v 0 5, op_x 5 5, op_v 10 3, op_imm 16 5],
     insn ''LD4'' 0xBFE0F000 0x0CC00000 OPCODE_TRAP [op_v 0 5, op_x 5 5, op_imm 16 5],
     insn ''LD4'' 0xBFFFF000 0x0C400000 OPCODE_TRAP [op_v 0 5, op_x 5 5],
     insn ''LD4'' 0xBFFFF000 0x0CDF0000 OPCODE_TRAP [op_v 0 5, op_x 5 5, op_imm 30 1]]"

definition arm64_instructions_1524 :: "bal_decoder_instruction_metadata_t list" where
  "arm64_instructions_1524 = [
     insn ''LD4'' 0xBFE0E000 0x0DE02000 OPCODE_TRAP [op_v 0 5, op_x 5 5, op_imm 10 2, op_imm 12 1, op_imm 30 1],
     insn ''LD4'' 0xBFE0E400 0x0DE06000 OPCODE_TRAP [op_v 0 5, op_x 5 5, op_imm 10 2, op_imm 12 1, op_imm 30 1],
     insn ''LD4'' 0xBFE0EC00 0x0DE0A000 OPCODE_TRAP [op_v 0 5, op_x 5 5, op_imm 12 1, op_imm 16 5, op_imm 30 1],
     insn ''LD4'' 0xBFE0FC00 0x0DE0A400 OPCODE_TRAP [op_v 0 5, op_x 5 5, op_imm 16 5, op_imm 30 1],
     insn ''LD4'' 0xBFFFE000 0x0D602000 OPCODE_TRAP [op_v 0 5, op_x 5 5, op_imm 10 2, op_imm 12 1, op_imm 30 1],
     insn ''LD4'' 0xBFFFE000 0x0DFF2000 OPCODE_TRAP [op_v 0 5, op_x 5 5, op_imm 10 2, op_imm 12 1, op_imm 30 1],
     insn ''LD4'' 0xBFFFE400 0x0D606000 OPCODE_TRAP [op_v 0 5, op_x 5 5, op_imm 10 2, op_imm 12 1, op_imm 30 1],
     insn ''LD4'' 0xBFFFE400 0x0DFF6000 OPCODE_TRAP [op_v 0 5, op_x 5 5, op_imm 10 2, op_imm 12 1, op_imm 30 1],
     insn ''LD4'' 0xBFFFEC00 0x0D60A000 OPCODE_TRAP [op_v 0 5, op_x 5 5, op_imm 12 1, op_imm 30 1],
     insn ''LD4'' 0xBFFFEC00 0x0DFFA000 OPCODE_TRAP [op_v 0 5, op_x 5 5, op_imm 12 1, op_imm 30 1],
     insn ''LD4'' 0xBFFFFC00 0x0D60A400 OPCODE_TRAP [op_v 0 5, op_x 5 5, op_imm 30 1],
     insn ''LD4'' 0xBFFFFC00 0x0DFFA400 OPCODE_TRAP [op_v 0 5, op_x 5 5, op_imm 30 1]]"

definition arm64_instructions_1536 :: "bal_decoder_instruction_metadata_t list" where
  "arm64_instructions_1536 = [
     insn ''LD4B'' 0xFFF0E000 0xA460E000 OPCODE_TRAP [op_v 0 5, op_x 5 5, op_v 10 3, op_imm 16 4],
     insn ''LD4B'' 0xFFE0E000 0xA460C000 OPCODE_TRAP [op_v 0 5, op_x 5 5, op_v 10 3, op_imm 16 5],
     insn ''LD4D'' 0xFFF0E000 0xA5E0E000 OPCODE_TRAP [op_v 0 5, op_x 5 5, op_v 10 3, op_imm 16 4],
     insn ''LD4D'' 0xFFE0E000 0xA5E0C000 OPCODE_TRAP [op_v 0 5, op_x 5 5, op_v 10 3, op_imm 16 5],
     insn ''LD4H'' 0xFFF0E000 0xA4E0E000 OPCODE_TRAP [op_v 0 5, op_x 5 5, op_v 10 3, op_imm 16 4],
     insn ''LD4H'' 0xFFE0E000 0xA4E0C000 OPCODE_TRAP [op_v 0 5, op_x 5 5, op_v 10 3, op_imm 16 5],
     insn ''LD4Q'' 0xFFF0E000 0xA590E000 OPCODE_TRAP [op_v 0 5, op_x 5 5, op_v 10 3, op_imm 16 4],
     insn ''LD4Q'' 0xFFE0E000 0xA5A08000 OPCODE_TRAP [op_v 0 5, op_x 5 5, op_v 10 3, op_imm 16 5],
     insn ''LD4R'' 0xBFE0F000 0x0DE0E000 OPCODE_TRAP [op_v 0 5, op_x 5 5, op_imm 16 5],
     insn ''LD4R'' 0xBFFFF000 0x0D60E000 OPCODE_TRAP [op_v 0 5, op_x 5 5],
     insn ''LD4R'' 0xBFFFF000 0x0DFFE000 OPCODE_TRAP [op_v 0 5, op_x 5 5, op_imm 10 2],
     insn ''LD4W'' 0xFFF0E000 0xA560E000 OPCODE_TRAP [op_v 0 5, op_x 5 5, op_v 10 3, op_imm 16 4]]"

definition arm64_instructions_1548 :: "bal_decoder_instruction_metadata_t list" where
  "arm64_instructions_1548 = [
     insn ''LD4W'' 0xFFE0E000 0xA560C000 OPCODE_TRAP [op_v 0 5, op_x 5 5, op_v 10 3, op_imm 16 5],
     insn ''LD64B'' 0xFFFFFC00 0xF83FD000 OPCODE_TRAP [op_x 0 5, op_x 5 5],
     insn ''LDADD'' 0xFFE0FC00 0xB8200000 OPCODE_TRAP [op_w 0 5, op_x 5 5, op_w 16 5],
     insn ''LDADD'' 0xFFE0FC00 0xF8200000 OPCODE_TRAP [op_x 0 5, op_x 5 5, op_x 16 5],
     insn ''LDADDA'' 0xFFE0FC00 0xB8A00000 OPCODE_TRAP [op_w 0 5, op_x 5 5, op_w 16 5],
     insn ''LDADDA'' 0xFFE0FC00 0xF8A00000 OPCODE_TRAP [op_x 0 5, op_x 5 5, op_x 16 5],
     insn ''LDADDAL'' 0xFFE0FC00 0xB8E00000 OPCODE_TRAP [op_w 0 5, op_x 5 5, op_w 16 5],
     insn ''LDADDAL'' 0xFFE0FC00 0xF8E00000 OPCODE_TRAP [op_x 0 5, op_x 5 5, op_x 16 5],
     insn ''LDADDL'' 0xFFE0FC00 0xB8600000 OPCODE_TRAP [op_w 0 5, op_x 5 5, op_w 16 5],
     insn ''LDADDL'' 0xFFE0FC00 0xF8600000 OPCODE_TRAP [op_x 0 5, op_x 5 5, op_x 16 5],
     insn ''LDADDAB'' 0xFFE0FC00 0x38A00000 OPCODE_TRAP [op_w 0 5, op_x 5 5, op_w 16 5],
     insn ''LDADDALB'' 0xFFE0FC00 0x38E00000 OPCODE_TRAP [op_w 0 5, op_x 5 5, op_w 16 5]]"

definition arm64_instructions_1560 :: "bal_decoder_instruction_metadata_t list" where
  "arm64_instructions_1560 = [
     insn ''LDADDB'' 0xFFE0FC00 0x38200000 OPCODE_TRAP [op_w 0 5, op_x 5 5, op_w 16 5],
     insn ''LDADDLB'' 0xFFE0FC00 0x38600000 OPCODE_TRAP [op_w 0 5, op_x 5 5, op_w 16 5],
     insn ''LDADDAH'' 0xFFE0FC00 0x78A00000 OPCODE_TRAP [op_w 0 5, op_x 5 5, op_w 16 5],
     insn ''LDADDALH'' 0xFFE0FC00 0x78E00000 OPCODE_TRAP [op_w 0 5, op_x 5 5, op_w 16 5],
     insn ''LDADDH'' 0xFFE0FC00 0x78200000 OPCODE_TRAP [op_w 0 5, op_x 5 5, op_w 16 5],
     insn ''LDADDLH'' 0xFFE0FC00 0x78600000 OPCODE_TRAP [op_w 0 5, op_x 5 5, op_w 16 5],
     insn ''LDAP1'' 0xBFFFFC00 0x0D418400 OPCODE_TRAP [op_v 0 5, op_x 5 5, op_imm 30 1],
     insn ''LDAPR'' 0xFFE9FC80 0xB8A9E480 OPCODE_TRAP [op_w 0 5, op_x 5 5],
     insn ''LDAPR'' 0xFFE9FC80 0xF8A9E480 OPCODE_TRAP [op_x 0 5, op_x 5 5],
     insn ''LDAPR'' 0xFFFFFC00 0x99C00800 OPCODE_TRAP [op_w 0 5, op_x 5 5],
     insn ''LDAPR'' 0xFFFFFC00 0xD9C00800 OPCODE_TRAP [op_x 0 5, op_x 5 5],
     insn ''LDAPRB'' 0xFFE9FC80 0x38A9E480 OPCODE_TRAP [op_w 0 5, op_x 5 5]]"

definition arm64_instructions_1572 :: "bal_decoder_instruction_metadata_t list" where
  "arm64_instructions_1572 = [
     insn ''LDAPRH'' 0xFFE9FC80 0x78A9E480 OPCODE_TRAP [op_w 0 5, op_x 5 5],
     insn ''LDAPUR'' 0xFFE00C00 0x1D400800 OPCODE_TRAP [op_v 0 5, op_x 5 5, op_imm 12 9],
     insn ''LDAPUR'' 0xFFE00C00 0x1DC00800 OPCODE_TRAP [op_v 0 5, op_x 5 5, op_imm 12 9],
     insn ''LDAPUR'' 0xFFE00C00 0x5D400800 OPCODE_TRAP [op_v 0 5, op_x 5 5, op_imm 12 9],
     insn ''LDAPUR'' 0xFFE00C00 0x9D400800 OPCODE_TRAP [op_w 0 5, op_x 5 5, op_imm 12 9],
     insn ''LDAPUR'' 0xFFE00C00 0xDD400800 OPCODE_TRAP [op_x 0 5, op_x 5 5, op_imm 12 9],
     insn ''LDAPUR'' 0xFFE00C00 0x99400000 OPCODE_TRAP [op_w 0 5, op_x 5 5, op_imm 12 9],
     insn ''LDAPUR'' 0xFFE00C00 0xD9400000 OPCODE_TRAP [op_x 0 5, op_x 5 5, op_imm 12 9],
     insn ''LDAPURB'' 0xFFE00C00 0x19400000 OPCODE_TRAP [op_w 0 5, op_x 5 5, op_imm 12 9],
     insn ''LDAPURH'' 0xFFE00C00 0x59400000 OPCODE_TRAP [op_w 0 5, op_x 5 5, op_imm 12 9],
     insn ''LDAPURSB'' 0xFFE00C00 0x19800000 OPCODE_TRAP [op_x 0 5, op_x 5 5, op_imm 12 9],
     insn ''LDAPURSB'' 0xFFE00C00 0x19C00000 OPCODE_TRAP [op_w 0 5, op_x 5 5, op_imm 12 9]]"

definition arm64_instructions_1584 :: "bal_decoder_instruction_metadata_t list" where
  "arm64_instructions_1584 = [
     insn ''LDAPURSH'' 0xFFE00C00 0x59800000 OPCODE_TRAP [op_x 0 5, op_x 5 5, op_imm 12 9],
     insn ''LDAPURSH'' 0xFFE00C00 0x59C00000 OPCODE_TRAP [op_w 0 5, op_x 5 5, op_imm 12 9],
     insn ''LDAPURSW'' 0xFFE00C00 0x99800000 OPCODE_TRAP [op_x 0 5, op_x 5 5, op_imm 12 9],
     insn ''LDAR'' 0xFFE9A492 0x88C9A492 OPCODE_TRAP [op_w 0 5, op_x 5 5],
     insn ''LDAR'' 0xFFE9A492 0xC8C9A492 OPCODE_TRAP [op_x 0 5, op_x 5 5],
     insn ''LDARB'' 0xFFE9A492 0x08C9A492 OPCODE_TRAP [op_w 0 5, op_x 5 5],
     insn ''LDARH'' 0xFFE9A492 0x48C9A492 OPCODE_TRAP [op_w 0 5, op_x 5 5],
     insn ''LDAXP'' 0xFFE9A480 0x8869A480 OPCODE_TRAP [op_w 0 5, op_x 5 5, op_w 10 5],
     insn ''LDAXP'' 0xFFE9A480 0xC869A480 OPCODE_TRAP [op_x 0 5, op_x 5 5, op_x 10 5],
     insn ''LDAXR'' 0xFFE9A492 0x8849A492 OPCODE_TRAP [op_w 0 5, op_x 5 5],
     insn ''LDAXR'' 0xFFE9A492 0xC849A492 OPCODE_TRAP [op_x 0 5, op_x 5 5],
     insn ''LDAXRB'' 0xFFE9A492 0x0849A492 OPCODE_TRAP [op_w 0 5, op_x 5 5]]"

definition arm64_instructions_1596 :: "bal_decoder_instruction_metadata_t list" where
  "arm64_instructions_1596 = [
     insn ''LDAXRH'' 0xFFE9A492 0x4849A492 OPCODE_TRAP [op_w 0 5, op_x 5 5],
     insn ''LDCLR'' 0xFFE0FC00 0xB8201000 OPCODE_TRAP [op_w 0 5, op_x 5 5, op_w 16 5],
     insn ''LDCLR'' 0xFFE0FC00 0xF8201000 OPCODE_TRAP [op_x 0 5, op_x 5 5, op_x 16 5],
     insn ''LDCLRA'' 0xFFE0FC00 0xB8A01000 OPCODE_TRAP [op_w 0 5, op_x 5 5, op_w 16 5],
     insn ''LDCLRA'' 0xFFE0FC00 0xF8A01000 OPCODE_TRAP [op_x 0 5, op_x 5 5, op_x 16 5],
     insn ''LDCLRAL'' 0xFFE0FC00 0xB8E01000 OPCODE_TRAP [op_w 0 5, op_x 5 5, op_w 16 5],
     insn ''LDCLRAL'' 0xFFE0FC00 0xF8E01000 OPCODE_TRAP [op_x 0 5, op_x 5 5, op_x 16 5],
     insn ''LDCLRL'' 0xFFE0FC00 0xB8601000 OPCODE_TRAP [op_w 0 5, op_x 5 5, op_w 16 5],
     insn ''LDCLRL'' 0xFFE0FC00 0xF8601000 OPCODE_TRAP [op_x 0 5, op_x 5 5, op_x 16 5],
     insn ''LDCLRAB'' 0xFFE0FC00 0x38A01000 OPCODE_TRAP [op_w 0 5, op_x 5 5, op_w 16 5],
     insn ''LDCLRALB'' 0xFFE0FC00 0x38E01000 OPCODE_TRAP [op_w 0 5, op_x 5 5, op_w 16 5],
     insn ''LDCLRB'' 0xFFE0FC00 0x38201000 OPCODE_TRAP [op_w 0 5, op_x 5 5, op_w 16 5]]"

definition arm64_instructions_1608 :: "bal_decoder_instruction_metadata_t list" where
  "arm64_instructions_1608 = [
     insn ''LDCLRLB'' 0xFFE0FC00 0x38601000 OPCODE_TRAP [op_w 0 5, op_x 5 5, op_w 16 5],
     insn ''LDCLRAH'' 0xFFE0FC00 0x78A01000 OPCODE_TRAP [op_w 0 5, op_x 5 5, op_w 16 5],
     insn ''LDCLRALH'' 0xFFE0FC00 0x78E01000 OPCODE_TRAP [op_w 0 5, op_x 5 5, op_w 16 5],
     insn ''LDCLRH'' 0xFFE0FC00 0x78201000 OPCODE_TRAP [op_w 0 5, op_x 5 5, op_w 16 5],
     insn ''LDCLRLH'' 0xFFE0FC00 0x78601000 OPCODE_TRAP [op_w 0 5, op_x 5 5, op_w 16 5],
     insn ''LDCLRP'' 0xFFE0FC00 0x19201000 OPCODE_TRAP [op_x 0 5, op_x 5 5, op_x 16 5],
     insn ''LDCLRPA'' 0xFFE0FC00 0x19A01000 OPCODE_TRAP [op_x 0 5, op_x 5 5, op_x 16 5],
     insn ''LDCLRPAL'' 0xFFE0FC00 0x19E01000 OPCODE_TRAP [op_x 0 5, op_x 5 5, op_x 16 5],
     insn ''LDCLRPL'' 0xFFE0FC00 0x19601000 OPCODE_TRAP [op_x 0 5, op_x 5 5, op_x 16 5],
     insn ''LDEOR'' 0xFFE0FC00 0xB8202000 OPCODE_TRAP [op_w 0 5, op_x 5 5, op_w 16 5],
     insn ''LDEOR'' 0xFFE0FC00 0xF8202000 OPCODE_TRAP [op_x 0 5, op_x 5 5, op_x 16 5],
     insn ''LDEORA'' 0xFFE0FC00 0xB8A02000 OPCODE_TRAP [op_w 0 5, op_x 5 5, op_w 16 5]]"

definition arm64_instructions_1620 :: "bal_decoder_instruction_metadata_t list" where
  "arm64_instructions_1620 = [
     insn ''LDEORA'' 0xFFE0FC00 0xF8A02000 OPCODE_TRAP [op_x 0 5, op_x 5 5, op_x 16 5],
     insn ''LDEORAL'' 0xFFE0FC00 0xB8E02000 OPCODE_TRAP [op_w 0 5, op_x 5 5, op_w 16 5],
     insn ''LDEORAL'' 0xFFE0FC00 0xF8E02000 OPCODE_TRAP [op_x 0 5, op_x 5 5, op_x 16 5],
     insn ''LDEORL'' 0xFFE0FC00 0xB8602000 OPCODE_TRAP [op_w 0 5, op_x 5 5, op_w 16 5],
     insn ''LDEORL'' 0xFFE0FC00 0xF8602000 OPCODE_TRAP [op_x 0 5, op_x 5 5, op_x 16 5],
     insn ''LDEORAB'' 0xFFE0FC00 0x38A02000 OPCODE_TRAP [op_w 0 5, op_x 5 5, op_w 16 5],
     insn ''LDEORALB'' 0xFFE0FC00 0x38E02000 OPCODE_TRAP [op_w 0 5, op_x 5 5, op_w 16 5],
     insn ''LDEORB'' 0xFFE0FC00 0x38202000 OPCODE_TRAP [op_w 0 5, op_x 5 5, op_w 16 5],
     insn ''LDEORLB'' 0xFFE0FC00 0x38602000 OPCODE_TRAP [op_w 0 5, op_x 5 5, op_w 16 5],
     insn ''LDEORAH'' 0xFFE0FC00 0x78A02000 OPCODE_TRAP [op_w 0 5, op_x 5 5, op_w 16 5],
     insn ''LDEORALH'' 0xFFE0FC00 0x78E02000 OPCODE_TRAP [op_w 0 5, op_x 5 5, op_w 16 5],
     insn ''LDEORH'' 0xFFE0FC00 0x78202000 OPCODE_TRAP [op_w 0 5, op_x 5 5, op_w 16 5]]"

definition arm64_instructions_1632 :: "bal_decoder_instruction_metadata_t list" where
  "arm64_instructions_1632 = [
     insn ''LDEORLH'' 0xFFE0FC00 0x78602000 OPCODE_TRAP [op_w 0 5, op_x 5 5, op_w 16 5],
     insn ''LDFF1B'' 0xFFE0E000 0x8420E000 OPCODE_TRAP [op_v 0 5, op_v 5 5, op_v 10 3, op_imm 16 5],
     insn ''LDFF1B'' 0xFFE0E000 0xC420E000 OPCODE_TRAP [op_v 0 5, op_v 5 5, op_v 10 3, op_imm 16 5],
     insn ''LDFF1B'' 0xFFE0E000 0xA4006000 OPCODE_TRAP [op_v 0 5, op_x 5 5, op_v 10 3, op_imm 16 5],
     insn ''LDFF1B'' 0xFFE0E000 0xA4206000 OPCODE_TRAP [op_v 0 5, op_x 5 5, op_v 10 3, op_imm 16 5],
     insn ''LDFF1B'' 0xFFE0E000 0xA4406000 OPCODE_TRAP [op_v 0 5, op_x 5 5, op_v 10 3, op_imm 16 5],
     insn ''LDFF1B'' 0xFFE0E000 0xA4606000 OPCODE_TRAP [op_v 0 5, op_x 5 5, op_v 10 3, op_imm 16 5],
     insn ''LDFF1B'' 0xFFA0E000 0x84006000 OPCODE_TRAP [op_v 0 5, op_x 5 5, op_v 10 3, op_imm 16 5, op_imm 22 1],
     insn ''LDFF1B'' 0xFFA0E000 0xC4006000 OPCODE_TRAP [op_v 0 5, op_x 5 5, op_v 10 3, op_imm 16 5, op_imm 22 1],
     insn ''LDFF1B'' 0xFFE0E000 0xC440E000 OPCODE_TRAP [op_v 0 5, op_x 5 5, op_v 10 3, op_imm 16 5],
     insn ''LDFF1D'' 0xFFE0E000 0xC5A0E000 OPCODE_TRAP [op_v 0 5, op_v 5 5, op_v 10 3, op_imm 16 5],
     insn ''LDFF1D'' 0xFFE0E000 0xA5E06000 OPCODE_TRAP [op_v 0 5, op_x 5 5, op_v 10 3, op_imm 16 5]]"

definition arm64_instructions_1644 :: "bal_decoder_instruction_metadata_t list" where
  "arm64_instructions_1644 = [
     insn ''LDFF1D'' 0xFFA0E000 0xC5806000 OPCODE_TRAP [op_v 0 5, op_x 5 5, op_v 10 3, op_imm 16 5, op_imm 22 1],
     insn ''LDFF1D'' 0xFFA0E000 0xC5A06000 OPCODE_TRAP [op_v 0 5, op_x 5 5, op_v 10 3, op_imm 16 5, op_imm 22 1],
     insn ''LDFF1D'' 0xFFE0E000 0xC5C0E000 OPCODE_TRAP [op_v 0 5, op_x 5 5, op_v 10 3, op_imm 16 5],
     insn ''LDFF1D'' 0xFFE0E000 0xC5E0E000 OPCODE_TRAP [op_v 0 5, op_x 5 5, op_v 10 3, op_imm 16 5],
     insn ''LDFF1H'' 0xFFE0E000 0x84A0E000 OPCODE_TRAP [op_v 0 5, op_v 5 5, op_v 10 3, op_imm 16 5],
     insn ''LDFF1H'' 0xFFE0E000 0xC4A0E000 OPCODE_TRAP [op_v 0 5, op_v 5 5, op_v 10 3, op_imm 16 5],
     insn ''LDFF1H'' 0xFFE0E000 0xA4A06000 OPCODE_TRAP [op_v 0 5, op_x 5 5, op_v 10 3, op_imm 16 5],
     insn ''LDFF1H'' 0xFFE0E000 0xA4C06000 OPCODE_TRAP [op_v 0 5, op_x 5 5, op_v 10 3, op_imm 16 5],
     insn ''LDFF1H'' 0xFFE0E000 0xA4E06000 OPCODE_TRAP [op_v 0 5, op_x 5 5, op_v 10 3, op_imm 16 5],
     insn ''LDFF1H'' 0xFFA0E000 0x84806000 OPCODE_TRAP [op_v 0 5, op_x 5 5, op_v 10 3, op_imm 16 5, op_imm 22 1],
     insn ''LDFF1H'' 0xFFA0E000 0x84A06000 OPCODE_TRAP [op_v 0 5, op_x 5 5, op_v 10 3, op_imm 16 5, op_imm 22 1],
     insn ''LDFF1H'' 0xFFA0E000 0xC4806000 OPCODE_TRAP [op_v 0 5, op_x 5 5, op_v 10 3, op_imm 16 5, op_imm 22 1]]"

definition arm64_instructions_1656 :: "bal_decoder_instruction_metadata_t list" where
  "arm64_instructions_1656 = [
     insn ''LDFF1H'' 0xFFA0E000 0xC4A06000 OPCODE_TRAP [op_v 0 5, op_x 5 5, op_v 10 3, op_imm 16 5, op_imm 22 1],
     insn ''LDFF1H'' 0xFFE0E000 0xC4C0E000 OPCODE_TRAP [op_v 0 5, op_x 5 5, op_v 10 3, op_imm 16 5],
     insn ''LDFF1H'' 0xFFE0E000 0xC4E0E000 OPCODE_TRAP [op_v 0 5, op_x 5 5, op_v 10 3, op_imm 16 5],
     insn ''LDFF1SB'' 0xFFE0E000 0x8420A000 OPCODE_TRAP [op_v 0 5, op_v 5 5, op_v 10 3, op_imm 16 5],
     insn ''LDFF1SB'' 0xFFE0E000 0xC420A000 OPCODE_TRAP [op_v 0 5, op_v 5 5, op_v 10 3, op_imm 16 5],
     insn ''LDFF1SB'' 0xFFE0E000 0xA5806000 OPCODE_TRAP [op_v 0 5, op_x 5 5, op_v 10 3, op_imm 16 5],
     insn ''LDFF1SB'' 0xFFE0E000 0xA5A06000 OPCODE_TRAP [op_v 0 5, op_x 5 5, op_v 10 3, op_imm 16 5],
     insn ''LDFF1SB'' 0xFFE0E000 0xA5C06000 OPCODE_TRAP [op_v 0 5, op_x 5 5, op_v 10 3, op_imm 16 5],
     insn ''LDFF1SB'' 0xFFA0E000 0x84002000 OPCODE_TRAP [op_v 0 5, op_x 5 5, op_v 10 3, op_imm 16 5, op_imm 22 1],
     insn ''LDFF1SB'' 0xFFA0E000 0xC4002000 OPCODE_TRAP [op_v 0 5, op_x 5 5, op_v 10 3, op_imm 16 5, op_imm 22 1],
     insn ''LDFF1SB'' 0xFFE0E000 0xC440A000 OPCODE_TRAP [op_v 0 5, op_x 5 5, op_v 10 3, op_imm 16 5],
     insn ''LDFF1SH'' 0xFFE0E000 0x84A0A000 OPCODE_TRAP [op_v 0 5, op_v 5 5, op_v 10 3, op_imm 16 5]]"

definition arm64_instructions_1668 :: "bal_decoder_instruction_metadata_t list" where
  "arm64_instructions_1668 = [
     insn ''LDFF1SH'' 0xFFE0E000 0xC4A0A000 OPCODE_TRAP [op_v 0 5, op_v 5 5, op_v 10 3, op_imm 16 5],
     insn ''LDFF1SH'' 0xFFE0E000 0xA5006000 OPCODE_TRAP [op_v 0 5, op_x 5 5, op_v 10 3, op_imm 16 5],
     insn ''LDFF1SH'' 0xFFE0E000 0xA5206000 OPCODE_TRAP [op_v 0 5, op_x 5 5, op_v 10 3, op_imm 16 5],
     insn ''LDFF1SH'' 0xFFA0E000 0x84802000 OPCODE_TRAP [op_v 0 5, op_x 5 5, op_v 10 3, op_imm 16 5, op_imm 22 1],
     insn ''LDFF1SH'' 0xFFA0E000 0x84A02000 OPCODE_TRAP [op_v 0 5, op_x 5 5, op_v 10 3, op_imm 16 5, op_imm 22 1],
     insn ''LDFF1SH'' 0xFFA0E000 0xC4802000 OPCODE_TRAP [op_v 0 5, op_x 5 5, op_v 10 3, op_imm 16 5, op_imm 22 1],
     insn ''LDFF1SH'' 0xFFA0E000 0xC4A02000 OPCODE_TRAP [op_v 0 5, op_x 5 5, op_v 10 3, op_imm 16 5, op_imm 22 1],
     insn ''LDFF1SH'' 0xFFE0E000 0xC4C0A000 OPCODE_TRAP [op_v 0 5, op_x 5 5, op_v 10 3, op_imm 16 5],
     insn ''LDFF1SH'' 0xFFE0E000 0xC4E0A000 OPCODE_TRAP [op_v 0 5, op_x 5 5, op_v 10 3, op_imm 16 5],
     insn ''LDFF1SW'' 0xFFE0E000 0xC520A000 OPCODE_TRAP [op_v 0 5, op_v 5 5, op_v 10 3, op_imm 16 5],
     insn ''LDFF1SW'' 0xFFE0E000 0xA4806000 OPCODE_TRAP [op_v 0 5, op_x 5 5, op_v 10 3, op_imm 16 5],
     insn ''LDFF1SW'' 0xFFA0E000 0xC5002000 OPCODE_TRAP [op_v 0 5, op_x 5 5, op_v 10 3, op_imm 16 5, op_imm 22 1]]"

definition arm64_instructions_1680 :: "bal_decoder_instruction_metadata_t list" where
  "arm64_instructions_1680 = [
     insn ''LDFF1SW'' 0xFFA0E000 0xC5202000 OPCODE_TRAP [op_v 0 5, op_x 5 5, op_v 10 3, op_imm 16 5, op_imm 22 1],
     insn ''LDFF1SW'' 0xFFE0E000 0xC540A000 OPCODE_TRAP [op_v 0 5, op_x 5 5, op_v 10 3, op_imm 16 5],
     insn ''LDFF1SW'' 0xFFE0E000 0xC560A000 OPCODE_TRAP [op_v 0 5, op_x 5 5, op_v 10 3, op_imm 16 5],
     insn ''LDFF1W'' 0xFFE0E000 0x8520E000 OPCODE_TRAP [op_v 0 5, op_v 5 5, op_v 10 3, op_imm 16 5],
     insn ''LDFF1W'' 0xFFE0E000 0xC520E000 OPCODE_TRAP [op_v 0 5, op_v 5 5, op_v 10 3, op_imm 16 5],
     insn ''LDFF1W'' 0xFFE0E000 0xA5406000 OPCODE_TRAP [op_v 0 5, op_x 5 5, op_v 10 3, op_imm 16 5],
     insn ''LDFF1W'' 0xFFE0E000 0xA5606000 OPCODE_TRAP [op_v 0 5, op_x 5 5, op_v 10 3, op_imm 16 5],
     insn ''LDFF1W'' 0xFFA0E000 0x85006000 OPCODE_TRAP [op_v 0 5, op_x 5 5, op_v 10 3, op_imm 16 5, op_imm 22 1],
     insn ''LDFF1W'' 0xFFA0E000 0x85206000 OPCODE_TRAP [op_v 0 5, op_x 5 5, op_v 10 3, op_imm 16 5, op_imm 22 1],
     insn ''LDFF1W'' 0xFFA0E000 0xC5006000 OPCODE_TRAP [op_v 0 5, op_x 5 5, op_v 10 3, op_imm 16 5, op_imm 22 1],
     insn ''LDFF1W'' 0xFFA0E000 0xC5206000 OPCODE_TRAP [op_v 0 5, op_x 5 5, op_v 10 3, op_imm 16 5, op_imm 22 1],
     insn ''LDFF1W'' 0xFFE0E000 0xC540E000 OPCODE_TRAP [op_v 0 5, op_x 5 5, op_v 10 3, op_imm 16 5]]"

definition arm64_instructions_1692 :: "bal_decoder_instruction_metadata_t list" where
  "arm64_instructions_1692 = [
     insn ''LDFF1W'' 0xFFE0E000 0xC560E000 OPCODE_TRAP [op_v 0 5, op_x 5 5, op_v 10 3, op_imm 16 5],
     insn ''LDG'' 0xFFE00C00 0xD9600000 OPCODE_TRAP [op_x 0 5, op_x 5 5, op_imm 12 9],
     insn ''LDGM'' 0xFFFFFC00 0xD9E00000 OPCODE_TRAP [op_x 0 5, op_x 5 5],
     insn ''LDIAPP'' 0xFFE0FC00 0x99400800 OPCODE_TRAP [op_w 0 5, op_x 5 5, op_w 16 5],
     insn ''LDIAPP'' 0xFFE0FC00 0x99401800 OPCODE_TRAP [op_w 0 5, op_x 5 5, op_w 16 5],
     insn ''LDIAPP'' 0xFFE0FC00 0xD9400800 OPCODE_TRAP [op_x 0 5, op_x 5 5, op_x 16 5],
     insn ''LDIAPP'' 0xFFE0FC00 0xD9401800 OPCODE_TRAP [op_x 0 5, op_x 5 5, op_x 16 5],
     insn ''LDLAR'' 0xFFE9A492 0x88C92492 OPCODE_TRAP [op_w 0 5, op_x 5 5],
     insn ''LDLAR'' 0xFFE9A492 0xC8C92492 OPCODE_TRAP [op_x 0 5, op_x 5 5],
     insn ''LDLARB'' 0xFFE9A492 0x08C92492 OPCODE_TRAP [op_w 0 5, op_x 5 5],
     insn ''LDLARH'' 0xFFE9A492 0x48C92492 OPCODE_TRAP [op_w 0 5, op_x 5 5],
     insn ''LDNF1B'' 0xFFF0E000 0xA410A000 OPCODE_TRAP [op_v 0 5, op_x 5 5, op_v 10 3, op_imm 16 4]]"

definition arm64_instructions_1704 :: "bal_decoder_instruction_metadata_t list" where
  "arm64_instructions_1704 = [
     insn ''LDNF1B'' 0xFFF0E000 0xA430A000 OPCODE_TRAP [op_v 0 5, op_x 5 5, op_v 10 3, op_imm 16 4],
     insn ''LDNF1B'' 0xFFF0E000 0xA450A000 OPCODE_TRAP [op_v 0 5, op_x 5 5, op_v 10 3, op_imm 16 4],
     insn ''LDNF1B'' 0xFFF0E000 0xA470A000 OPCODE_TRAP [op_v 0 5, op_x 5 5, op_v 10 3, op_imm 16 4],
     insn ''LDNF1D'' 0xFFF0E000 0xA5F0A000 OPCODE_TRAP [op_v 0 5, op_x 5 5, op_v 10 3, op_imm 16 4],
     insn ''LDNF1H'' 0xFFF0E000 0xA4B0A000 OPCODE_TRAP [op_v 0 5, op_x 5 5, op_v 10 3, op_imm 16 4],
     insn ''LDNF1H'' 0xFFF0E000 0xA4D0A000 OPCODE_TRAP [op_v 0 5, op_x 5 5, op_v 10 3, op_imm 16 4],
     insn ''LDNF1H'' 0xFFF0E000 0xA4F0A000 OPCODE_TRAP [op_v 0 5, op_x 5 5, op_v 10 3, op_imm 16 4],
     insn ''LDNF1SB'' 0xFFF0E000 0xA590A000 OPCODE_TRAP [op_v 0 5, op_x 5 5, op_v 10 3, op_imm 16 4],
     insn ''LDNF1SB'' 0xFFF0E000 0xA5B0A000 OPCODE_TRAP [op_v 0 5, op_x 5 5, op_v 10 3, op_imm 16 4],
     insn ''LDNF1SB'' 0xFFF0E000 0xA5D0A000 OPCODE_TRAP [op_v 0 5, op_x 5 5, op_v 10 3, op_imm 16 4],
     insn ''LDNF1SH'' 0xFFF0E000 0xA510A000 OPCODE_TRAP [op_v 0 5, op_x 5 5, op_v 10 3, op_imm 16 4],
     insn ''LDNF1SH'' 0xFFF0E000 0xA530A000 OPCODE_TRAP [op_v 0 5, op_x 5 5, op_v 10 3, op_imm 16 4]]"

definition arm64_instructions_1716 :: "bal_decoder_instruction_metadata_t list" where
  "arm64_instructions_1716 = [
     insn ''LDNF1SW'' 0xFFF0E000 0xA490A000 OPCODE_TRAP [op_v 0 5, op_x 5 5, op_v 10 3, op_imm 16 4],
     insn ''LDNF1W'' 0xFFF0E000 0xA550A000 OPCODE_TRAP [op_v 0 5, op_x 5 5, op_v 10 3, op_imm 16 4],
     insn ''LDNF1W'' 0xFFF0E000 0xA570A000 OPCODE_TRAP [op_v 0 5, op_x 5 5, op_v 10 3, op_imm 16 4],
     insn ''LDNP'' 0xFFC00000 0x2C400000 OPCODE_TRAP [op_w 0 5, op_x 5 5, op_w 10 5, op_imm 15 7],
     insn ''LDNP'' 0xFFC00000 0x6C400000 OPCODE_TRAP [op_x 0 5, op_x 5 5, op_x 10 5, op_imm 15 7],
     insn ''LDNP'' 0xFFC00000 0xAC400000 OPCODE_TRAP [op_v 0 5, op_x 5 5, op_v 10 5, op_imm 15 7],
     insn ''LDNP'' 0xFFC00000 0x28400000 OPCODE_TRAP [op_w 0 5, op_x 5 5, op_w 10 5, op_imm 15 7],
     insn ''LDNP'' 0xFFC00000 0xA8400000 OPCODE_TRAP [op_x 0 5, op_x 5 5, op_x 10 5, op_imm 15 7],
     insn ''LDNT1B'' 0xFFF0E001 0xA0400001 OPCODE_TRAP [op_v 1 4, op_x 5 5, op_v 10 3, op_imm 16 4],
     insn ''LDNT1B'' 0xFFF0E003 0xA0408001 OPCODE_TRAP [op_v 2 3, op_x 5 5, op_v 10 3, op_imm 16 4],
     insn ''LDNT1B'' 0xFFE0E001 0xA0000001 OPCODE_TRAP [op_v 1 4, op_x 5 5, op_v 10 3, op_imm 16 5],
     insn ''LDNT1B'' 0xFFE0E003 0xA0008001 OPCODE_TRAP [op_v 2 3, op_x 5 5, op_v 10 3, op_imm 16 5]]"

definition arm64_instructions_1728 :: "bal_decoder_instruction_metadata_t list" where
  "arm64_instructions_1728 = [
     insn ''LDNT1B'' 0xFFF0E008 0xA1400008 OPCODE_TRAP [op_v 0 3, op_v 4 1, op_x 5 5, op_v 10 3, op_imm 16 4],
     insn ''LDNT1B'' 0xFFF0E00C 0xA1408008 OPCODE_TRAP [op_v 0 2, op_v 4 1, op_x 5 5, op_v 10 3, op_imm 16 4],
     insn ''LDNT1B'' 0xFFE0E008 0xA1000008 OPCODE_TRAP [op_v 0 3, op_v 4 1, op_x 5 5, op_v 10 3, op_imm 16 5],
     insn ''LDNT1B'' 0xFFE0E00C 0xA1008008 OPCODE_TRAP [op_v 0 2, op_v 4 1, op_x 5 5, op_v 10 3, op_imm 16 5],
     insn ''LDNT1B'' 0xFFE0E000 0x8400A000 OPCODE_TRAP [op_v 0 5, op_v 5 5, op_v 10 3, op_imm 16 5],
     insn ''LDNT1B'' 0xFFE0E000 0xC400C000 OPCODE_TRAP [op_v 0 5, op_v 5 5, op_v 10 3, op_imm 16 5],
     insn ''LDNT1B'' 0xFFF0E000 0xA400E000 OPCODE_TRAP [op_v 0 5, op_x 5 5, op_v 10 3, op_imm 16 4],
     insn ''LDNT1B'' 0xFFE0E000 0xA400C000 OPCODE_TRAP [op_v 0 5, op_x 5 5, op_v 10 3, op_imm 16 5],
     insn ''LDNT1D'' 0xFFF0E001 0xA0406001 OPCODE_TRAP [op_v 1 4, op_x 5 5, op_v 10 3, op_imm 16 4],
     insn ''LDNT1D'' 0xFFF0E003 0xA040E001 OPCODE_TRAP [op_v 2 3, op_x 5 5, op_v 10 3, op_imm 16 4],
     insn ''LDNT1D'' 0xFFE0E001 0xA0006001 OPCODE_TRAP [op_v 1 4, op_x 5 5, op_v 10 3, op_imm 16 5],
     insn ''LDNT1D'' 0xFFE0E003 0xA000E001 OPCODE_TRAP [op_v 2 3, op_x 5 5, op_v 10 3, op_imm 16 5]]"

definition arm64_instructions_1740 :: "bal_decoder_instruction_metadata_t list" where
  "arm64_instructions_1740 = [
     insn ''LDNT1D'' 0xFFF0E008 0xA1406008 OPCODE_TRAP [op_v 0 3, op_v 4 1, op_x 5 5, op_v 10 3, op_imm 16 4],
     insn ''LDNT1D'' 0xFFF0E00C 0xA140E008 OPCODE_TRAP [op_v 0 2, op_v 4 1, op_x 5 5, op_v 10 3, op_imm 16 4],
     insn ''LDNT1D'' 0xFFE0E008 0xA1006008 OPCODE_TRAP [op_v 0 3, op_v 4 1, op_x 5 5, op_v 10 3, op_imm 16 5],
     insn ''LDNT1D'' 0xFFE0E00C 0xA100E008 OPCODE_TRAP [op_v 0 2, op_v 4 1, op_x 5 5, op_v 10 3, op_imm 16 5],
     insn ''LDNT1D'' 0xFFE0E000 0xC580C000 OPCODE_TRAP [op_v 0 5, op_v 5 5, op_v 10 3, op_imm 16 5],
     insn ''LDNT1D'' 0xFFF0E000 0xA580E000 OPCODE_TRAP [op_v 0 5, op_x 5 5, op_v 10 3, op_imm 16 4],
     insn ''LDNT1D'' 0xFFE0E000 0xA580C000 OPCODE_TRAP [op_v 0 5, op_x 5 5, op_v 10 3, op_imm 16 5],
     insn ''LDNT1H'' 0xFFF0E001 0xA0402001 OPCODE_TRAP [op_v 1 4, op_x 5 5, op_v 10 3, op_imm 16 4],
     insn ''LDNT1H'' 0xFFF0E003 0xA040A001 OPCODE_TRAP [op_v 2 3, op_x 5 5, op_v 10 3, op_imm 16 4],
     insn ''LDNT1H'' 0xFFE0E001 0xA0002001 OPCODE_TRAP [op_v 1 4, op_x 5 5, op_v 10 3, op_imm 16 5],
     insn ''LDNT1H'' 0xFFE0E003 0xA000A001 OPCODE_TRAP [op_v 2 3, op_x 5 5, op_v 10 3, op_imm 16 5],
     insn ''LDNT1H'' 0xFFF0E008 0xA1402008 OPCODE_TRAP [op_v 0 3, op_v 4 1, op_x 5 5, op_v 10 3, op_imm 16 4]]"

definition arm64_instructions_1752 :: "bal_decoder_instruction_metadata_t list" where
  "arm64_instructions_1752 = [
     insn ''LDNT1H'' 0xFFF0E00C 0xA140A008 OPCODE_TRAP [op_v 0 2, op_v 4 1, op_x 5 5, op_v 10 3, op_imm 16 4],
     insn ''LDNT1H'' 0xFFE0E008 0xA1002008 OPCODE_TRAP [op_v 0 3, op_v 4 1, op_x 5 5, op_v 10 3, op_imm 16 5],
     insn ''LDNT1H'' 0xFFE0E00C 0xA100A008 OPCODE_TRAP [op_v 0 2, op_v 4 1, op_x 5 5, op_v 10 3, op_imm 16 5],
     insn ''LDNT1H'' 0xFFE0E000 0x8480A000 OPCODE_TRAP [op_v 0 5, op_v 5 5, op_v 10 3, op_imm 16 5],
     insn ''LDNT1H'' 0xFFE0E000 0xC480C000 OPCODE_TRAP [op_v 0 5, op_v 5 5, op_v 10 3, op_imm 16 5],
     insn ''LDNT1H'' 0xFFF0E000 0xA480E000 OPCODE_TRAP [op_v 0 5, op_x 5 5, op_v 10 3, op_imm 16 4],
     insn ''LDNT1H'' 0xFFE0E000 0xA480C000 OPCODE_TRAP [op_v 0 5, op_x 5 5, op_v 10 3, op_imm 16 5],
     insn ''LDNT1SB'' 0xFFE0E000 0x84008000 OPCODE_TRAP [op_v 0 5, op_v 5 5, op_v 10 3, op_imm 16 5],
     insn ''LDNT1SB'' 0xFFE0E000 0xC4008000 OPCODE_TRAP [op_v 0 5, op_v 5 5, op_v 10 3, op_imm 16 5],
     insn ''LDNT1SH'' 0xFFE0E000 0x84808000 OPCODE_TRAP [op_v 0 5, op_v 5 5, op_v 10 3, op_imm 16 5],
     insn ''LDNT1SH'' 0xFFE0E000 0xC4808000 OPCODE_TRAP [op_v 0 5, op_v 5 5, op_v 10 3, op_imm 16 5],
     insn ''LDNT1SW'' 0xFFE0E000 0xC5008000 OPCODE_TRAP [op_v 0 5, op_v 5 5, op_v 10 3, op_imm 16 5]]"

definition arm64_instructions_1764 :: "bal_decoder_instruction_metadata_t list" where
  "arm64_instructions_1764 = [
     insn ''LDNT1W'' 0xFFF0E001 0xA0404001 OPCODE_TRAP [op_v 1 4, op_x 5 5, op_v 10 3, op_imm 16 4],
     insn ''LDNT1W'' 0xFFF0E003 0xA040C001 OPCODE_TRAP [op_v 2 3, op_x 5 5, op_v 10 3, op_imm 16 4],
     insn ''LDNT1W'' 0xFFE0E001 0xA0004001 OPCODE_TRAP [op_v 1 4, op_x 5 5, op_v 10 3, op_imm 16 5],
     insn ''LDNT1W'' 0xFFE0E003 0xA000C001 OPCODE_TRAP [op_v 2 3, op_x 5 5, op_v 10 3, op_imm 16 5],
     insn ''LDNT1W'' 0xFFF0E008 0xA1404008 OPCODE_TRAP [op_v 0 3, op_v 4 1, op_x 5 5, op_v 10 3, op_imm 16 4],
     insn ''LDNT1W'' 0xFFF0E00C 0xA140C008 OPCODE_TRAP [op_v 0 2, op_v 4 1, op_x 5 5, op_v 10 3, op_imm 16 4],
     insn ''LDNT1W'' 0xFFE0E008 0xA1004008 OPCODE_TRAP [op_v 0 3, op_v 4 1, op_x 5 5, op_v 10 3, op_imm 16 5],
     insn ''LDNT1W'' 0xFFE0E00C 0xA100C008 OPCODE_TRAP [op_v 0 2, op_v 4 1, op_x 5 5, op_v 10 3, op_imm 16 5],
     insn ''LDNT1W'' 0xFFE0E000 0x8500A000 OPCODE_TRAP [op_v 0 5, op_v 5 5, op_v 10 3, op_imm 16 5],
     insn ''LDNT1W'' 0xFFE0E000 0xC500C000 OPCODE_TRAP [op_v 0 5, op_v 5 5, op_v 10 3, op_imm 16 5],
     insn ''LDNT1W'' 0xFFF0E000 0xA500E000 OPCODE_TRAP [op_v 0 5, op_x 5 5, op_v 10 3, op_imm 16 4],
     insn ''LDNT1W'' 0xFFE0E000 0xA500C000 OPCODE_TRAP [op_v 0 5, op_x 5 5, op_v 10 3, op_imm 16 5]]"

definition arm64_instructions_1776 :: "bal_decoder_instruction_metadata_t list" where
  "arm64_instructions_1776 = [
     insn ''LDP'' 0xFFC00000 0x2CC00000 OPCODE_LOAD [op_w 0 5, op_x 5 5, op_w 10 5, op_imm 15 7],
     insn ''LDP'' 0xFFC00000 0x2D400000 OPCODE_LOAD [op_w 0 5, op_x 5 5, op_w 10 5, op_imm 15 7],
     insn ''LDP'' 0xFFC00000 0x2DC00000 OPCODE_LOAD [op_w 0 5, op_x 5 5, op_w 10 5, op_imm 15 7],
     insn ''LDP'' 0xFFC00000 0x6CC00000 OPCODE_LOAD [op_x 0 5, op_x 5 5, op_x 10 5, op_imm 15 7],
     insn ''LDP'' 0xFFC00000 0x6D400000 OPCODE_LOAD [op_x 0 5, op_x 5 5, op_x 10 5, op_imm 15 7],
     insn ''LDP'' 0xFFC00000 0x6DC00000 OPCODE_LOAD [op_x 0 5, op_x 5 5, op_x 10 5, op_imm 15 7],
     insn ''LDP'' 0xFFC00000 0xACC00000 OPCODE_LOAD [op_v 0 5, op_x 5 5, op_v 10 5, op_imm 15 7],
     insn ''LDP'' 0xFFC00000 0xAD400000 OPCODE_LOAD [op_v 0 5, op_x 5 5, op_v 10 5, op_imm 15 7],
     insn ''LDP'' 0xFFC00000 0xADC00000 OPCODE_LOAD [op_v 0 5, op_x 5 5, op_v 10 5, op_imm 15 7],
     insn ''LDP'' 0xFFC00000 0x28C00000 OPCODE_LOAD [op_w 0 5, op_x 5 5, op_w 10 5, op_imm 15 7],
     insn ''LDP'' 0xFFC00000 0x29400000 OPCODE_LOAD [op_w 0 5, op_x 5 5, op_w 10 5, op_imm 15 7],
     insn ''LDP'' 0xFFC00000 0x29C00000 OPCODE_LOAD [op_w 0 5, op_x 5 5, op_w 10 5, op_imm 15 7]]"

definition arm64_instructions_1788 :: "bal_decoder_instruction_metadata_t list" where
  "arm64_instructions_1788 = [
     insn ''LDP'' 0xFFC00000 0xA8C00000 OPCODE_LOAD [op_x 0 5, op_x 5 5, op_x 10 5, op_imm 15 7],
     insn ''LDP'' 0xFFC00000 0xA9400000 OPCODE_LOAD [op_x 0 5, op_x 5 5, op_x 10 5, op_imm 15 7],
     insn ''LDP'' 0xFFC00000 0xA9C00000 OPCODE_LOAD [op_x 0 5, op_x 5 5, op_x 10 5, op_imm 15 7],
     insn ''LDPSW'' 0xFFC00000 0x68C00000 OPCODE_LOAD [op_x 0 5, op_x 5 5, op_x 10 5, op_imm 15 7],
     insn ''LDPSW'' 0xFFC00000 0x69400000 OPCODE_LOAD [op_x 0 5, op_x 5 5, op_x 10 5, op_imm 15 7],
     insn ''LDPSW'' 0xFFC00000 0x69C00000 OPCODE_LOAD [op_x 0 5, op_x 5 5, op_x 10 5, op_imm 15 7],
     insn ''LDR'' 0xFFC00000 0x3D400000 OPCODE_LOAD [op_v 0 5, op_x 5 5, op_imm 10 12],
     insn ''LDR'' 0xFFC00000 0x3DC00000 OPCODE_LOAD [op_v 0 5, op_x 5 5, op_imm 10 12],
     insn ''LDR'' 0xFFC00000 0x7D400000 OPCODE_LOAD [op_v 0 5, op_x 5 5, op_imm 10 12],
     insn ''LDR'' 0xFFC00000 0xBD400000 OPCODE_LOAD [op_w 0 5, op_x 5 5, op_imm 10 12],
     insn ''LDR'' 0xFFC00000 0xFD400000 OPCODE_LOAD [op_x 0 5, op_x 5 5, op_imm 10 12],
     insn ''LDR'' 0xFFE00C00 0x3C400400 OPCODE_LOAD [op_v 0 5, op_x 5 5, op_imm 12 9]]"

definition arm64_instructions_1800 :: "bal_decoder_instruction_metadata_t list" where
  "arm64_instructions_1800 = [
     insn ''LDR'' 0xFFE00C00 0x3C400C00 OPCODE_LOAD [op_v 0 5, op_x 5 5, op_imm 12 9],
     insn ''LDR'' 0xFFE00C00 0x3CC00400 OPCODE_LOAD [op_v 0 5, op_x 5 5, op_imm 12 9],
     insn ''LDR'' 0xFFE00C00 0x3CC00C00 OPCODE_LOAD [op_v 0 5, op_x 5 5, op_imm 12 9],
     insn ''LDR'' 0xFFE00C00 0x7C400400 OPCODE_LOAD [op_v 0 5, op_x 5 5, op_imm 12 9],
     insn ''LDR'' 0xFFE00C00 0x7C400C00 OPCODE_LOAD [op_v 0 5, op_x 5 5, op_imm 12 9],
     insn ''LDR'' 0xFFE00C00 0xBC400400 OPCODE_LOAD [op_w 0 5, op_x 5 5, op_imm 12 9],
     insn ''LDR'' 0xFFE00C00 0xBC400C00 OPCODE_LOAD [op_w 0 5, op_x 5 5, op_imm 12 9],
     insn ''LDR'' 0xFFE00C00 0xFC400400 OPCODE_LOAD [op_x 0 5, op_x 5 5, op_imm 12 9],
     insn ''LDR'' 0xFFE00C00 0xFC400C00 OPCODE_LOAD [op_x 0 5, op_x 5 5, op_imm 12 9],
     insn ''LDR'' 0xFFC00000 0xB9400000 OPCODE_LOAD [op_w 0 5, op_x 5 5, op_imm 10 12],
     insn ''LDR'' 0xFFC00000 0xF9400000 OPCODE_LOAD [op_x 0 5, op_x 5 5, op_imm 10 12],
     insn ''LDR'' 0xFFE00C00 0xB8400400 OPCODE_LOAD [op_w 0 5, op_x 5 5, op_imm 12 9]]"

definition arm64_instructions_1812 :: "bal_decoder_instruction_metadata_t list" where
  "arm64_instructions_1812 = [
     insn ''LDR'' 0xFFE00C00 0xB8400C00 OPCODE_LOAD [op_w 0 5, op_x 5 5, op_imm 12 9],
     insn ''LDR'' 0xFFE00C00 0xF8400400 OPCODE_LOAD [op_x 0 5, op_x 5 5, op_imm 12 9],
     insn ''LDR'' 0xFFE00C00 0xF8400C00 OPCODE_LOAD [op_x 0 5, op_x 5 5, op_imm 12 9],
     insn ''LDR'' 0xFF000000 0x1C000000 OPCODE_LOAD [op_w 0 5, op_imm 5 19],
     insn ''LDR'' 0xFF000000 0x5C000000 OPCODE_LOAD [op_x 0 5, op_imm 5 19],
     insn ''LDR'' 0xFF000000 0x9C000000 OPCODE_LOAD [op_v 0 5, op_imm 5 19],
     insn ''LDR'' 0xFF000000 0x18000000 OPCODE_LOAD [op_w 0 5, op_imm 5 19],
     insn ''LDR'' 0xFF000000 0x58000000 OPCODE_LOAD [op_x 0 5, op_imm 5 19],
     insn ''LDR'' 0xFFC0E010 0x85800000 OPCODE_LOAD [op_v 0 4, op_x 5 5, op_imm 10 3, op_imm 16 6],
     insn ''LDR'' 0xFFE00C00 0x3C600800 OPCODE_LOAD [op_v 0 5, op_x 5 5, op_imm 12 1, op_imm 13 3, op_imm 16 5],
     insn ''LDR'' 0xFFE00C00 0x3CE00800 OPCODE_LOAD [op_v 0 5, op_x 5 5, op_imm 12 1, op_imm 13 3, op_imm 16 5],
     insn ''LDR'' 0xFFE00C00 0x7C600800 OPCODE_LOAD [op_v 0 5, op_x 5 5, op_imm 12 1, op_imm 13 3, op_imm 16 5]]"

definition arm64_instructions_1824 :: "bal_decoder_instruction_metadata_t list" where
  "arm64_instructions_1824 = [
     insn ''LDR'' 0xFFE00C00 0xBC600800 OPCODE_LOAD [op_w 0 5, op_x 5 5, op_imm 12 1, op_imm 13 3, op_imm 16 5],
     insn ''LDR'' 0xFFE00C00 0xFC600800 OPCODE_LOAD [op_x 0 5, op_x 5 5, op_imm 12 1, op_imm 13 3, op_imm 16 5],
     insn ''LDR'' 0xFFE0EC00 0x3C606800 OPCODE_LOAD [op_v 0 5, op_x 5 5, op_imm 12 1, op_imm 16 5],
     insn ''LDR'' 0xFFE00C00 0xB8600800 OPCODE_LOAD [op_w 0 5, op_x 5 5, op_imm 12 1, op_imm 13 3, op_imm 16 5],
     insn ''LDR'' 0xFFE00C00 0xF8600800 OPCODE_LOAD [op_x 0 5, op_x 5 5, op_imm 12 1, op_imm 13 3, op_imm 16 5],
     insn ''LDR'' 0xFFC0E000 0x85804000 OPCODE_LOAD [op_v 0 5, op_x 5 5, op_imm 10 3, op_imm 16 6],
     insn ''LDR'' 0xFFFF9C10 0xE1000000 OPCODE_LOAD [op_imm 0 4, op_x 5 5, op_w 13 2],
     insn ''LDR'' 0xFFFFFC1F 0xE11F8000 OPCODE_LOAD [op_x 5 5],
     insn ''LDRAA'' 0xFFA00C00 0xF8200400 OPCODE_LOAD [op_x 0 5, op_x 5 5, op_imm 12 9, op_imm 22 1],
     insn ''LDRAA'' 0xFFA00C00 0xF8200C00 OPCODE_LOAD [op_x 0 5, op_x 5 5, op_imm 12 9, op_imm 22 1],
     insn ''LDRAB'' 0xFFA00C00 0xF8A00400 OPCODE_LOAD [op_x 0 5, op_x 5 5, op_imm 12 9, op_imm 22 1],
     insn ''LDRAB'' 0xFFA00C00 0xF8A00C00 OPCODE_LOAD [op_x 0 5, op_x 5 5, op_imm 12 9, op_imm 22 1]]"

definition arm64_instructions_1836 :: "bal_decoder_instruction_metadata_t list" where
  "arm64_instructions_1836 = [
     insn ''LDRB'' 0xFFC00000 0x39400000 OPCODE_LOAD [op_w 0 5, op_x 5 5, op_imm 10 12],
     insn ''LDRB'' 0xFFE00C00 0x38400400 OPCODE_LOAD [op_w 0 5, op_x 5 5, op_imm 12 9],
     insn ''LDRB'' 0xFFE00C00 0x38400C00 OPCODE_LOAD [op_w 0 5, op_x 5 5, op_imm 12 9],
     insn ''LDRB'' 0xFFE00C00 0x38600800 OPCODE_LOAD [op_w 0 5, op_x 5 5, op_imm 12 1, op_imm 13 3, op_imm 16 5],
     insn ''LDRB'' 0xFFE0EC00 0x38606800 OPCODE_LOAD [op_w 0 5, op_x 5 5, op_imm 12 1, op_imm 16 5],
     insn ''LDRH'' 0xFFC00000 0x79400000 OPCODE_LOAD [op_w 0 5, op_x 5 5, op_imm 10 12],
     insn ''LDRH'' 0xFFE00C00 0x78400400 OPCODE_LOAD [op_w 0 5, op_x 5 5, op_imm 12 9],
     insn ''LDRH'' 0xFFE00C00 0x78400C00 OPCODE_LOAD [op_w 0 5, op_x 5 5, op_imm 12 9],
     insn ''LDRH'' 0xFFE00C00 0x78600800 OPCODE_LOAD [op_w 0 5, op_x 5 5, op_imm 12 1, op_imm 13 3, op_imm 16 5],
     insn ''LDRSB'' 0xFFC00000 0x39800000 OPCODE_LOAD [op_x 0 5, op_x 5 5, op_imm 10 12],
     insn ''LDRSB'' 0xFFC00000 0x39C00000 OPCODE_LOAD [op_w 0 5, op_x 5 5, op_imm 10 12],
     insn ''LDRSB'' 0xFFE00C00 0x38800400 OPCODE_LOAD [op_x 0 5, op_x 5 5, op_imm 12 9]]"

definition arm64_instructions_1848 :: "bal_decoder_instruction_metadata_t list" where
  "arm64_instructions_1848 = [
     insn ''LDRSB'' 0xFFE00C00 0x38800C00 OPCODE_LOAD [op_x 0 5, op_x 5 5, op_imm 12 9],
     insn ''LDRSB'' 0xFFE00C00 0x38C00400 OPCODE_LOAD [op_w 0 5, op_x 5 5, op_imm 12 9],
     insn ''LDRSB'' 0xFFE00C00 0x38C00C00 OPCODE_LOAD [op_w 0 5, op_x 5 5, op_imm 12 9],
     insn ''LDRSB'' 0xFFE00C00 0x38A00800 OPCODE_LOAD [op_x 0 5, op_x 5 5, op_imm 12 1, op_imm 13 3, op_imm 16 5],
     insn ''LDRSB'' 0xFFE00C00 0x38E00800 OPCODE_LOAD [op_w 0 5, op_x 5 5, op_imm 12 1, op_imm 13 3, op_imm 16 5],
     insn ''LDRSB'' 0xFFE0EC00 0x38A06800 OPCODE_LOAD [op_x 0 5, op_x 5 5, op_imm 12 1, op_imm 16 5],
     insn ''LDRSB'' 0xFFE0EC00 0x38E06800 OPCODE_LOAD [op_w 0 5, op_x 5 5, op_imm 12 1, op_imm 16 5],
     insn ''LDRSH'' 0xFFC00000 0x79800000 OPCODE_LOAD [op_x 0 5, op_x 5 5, op_imm 10 12],
     insn ''LDRSH'' 0xFFC00000 0x79C00000 OPCODE_LOAD [op_w 0 5, op_x 5 5, op_imm 10 12],
     insn ''LDRSH'' 0xFFE00C00 0x78800400 OPCODE_LOAD [op_x 0 5, op_x 5 5, op_imm 12 9],
     insn ''LDRSH'' 0xFFE00C00 0x78800C00 OPCODE_LOAD [op_x 0 5, op_x 5 5, op_imm 12 9],
     insn ''LDRSH'' 0xFFE00C00 0x78C00400 OPCODE_LOAD [op_w 0 5, op_x 5 5, op_imm 12 9]]"

definition arm64_instructions_1860 :: "bal_decoder_instruction_metadata_t list" where
  "arm64_instructions_1860 = [
     insn ''LDRSH'' 0xFFE00C00 0x78C00C00 OPCODE_LOAD [op_w 0 5, op_x 5 5, op_imm 12 9],
     insn ''LDRSH'' 0xFFE00C00 0x78A00800 OPCODE_LOAD [op_x 0 5, op_x 5 5, op_imm 12 1, op_imm 13 3, op_imm 16 5],
     insn ''LDRSH'' 0xFFE00C00 0x78E00800 OPCODE_LOAD [op_w 0 5, op_x 5 5, op_imm 12 1, op_imm 13 3, op_imm 16 5],
     insn ''LDRSW'' 0xFFC00000 0xB9800000 OPCODE_LOAD [op_x 0 5, op_x 5 5, op_imm 10 12],
     insn ''LDRSW'' 0xFFE00C00 0xB8800400 OPCODE_LOAD [op_x 0 5, op_x 5 5, op_imm 12 9],
     insn ''LDRSW'' 0xFFE00C00 0xB8800C00 OPCODE_LOAD [op_x 0 5, op_x 5 5, op_imm 12 9],
     insn ''LDRSW'' 0xFF000000 0x98000000 OPCODE_LOAD [op_x 0 5, op_imm 5 19],
     insn ''LDRSW'' 0xFFE00C00 0xB8A00800 OPCODE_LOAD [op_x 0 5, op_x 5 5, op_imm 12 1, op_imm 13 3, op_imm 16 5],
     insn ''LDSET'' 0xFFE0FC00 0xB8203000 OPCODE_TRAP [op_w 0 5, op_x 5 5, op_w 16 5],
     insn ''LDSET'' 0xFFE0FC00 0xF8203000 OPCODE_TRAP [op_x 0 5, op_x 5 5, op_x 16 5],
     insn ''LDSETA'' 0xFFE0FC00 0xB8A03000 OPCODE_TRAP [op_w 0 5, op_x 5 5, op_w 16 5],
     insn ''LDSETA'' 0xFFE0FC00 0xF8A03000 OPCODE_TRAP [op_x 0 5, op_x 5 5, op_x 16 5]]"

definition arm64_instructions_1872 :: "bal_decoder_instruction_metadata_t list" where
  "arm64_instructions_1872 = [
     insn ''LDSETAL'' 0xFFE0FC00 0xB8E03000 OPCODE_TRAP [op_w 0 5, op_x 5 5, op_w 16 5],
     insn ''LDSETAL'' 0xFFE0FC00 0xF8E03000 OPCODE_TRAP [op_x 0 5, op_x 5 5, op_x 16 5],
     insn ''LDSETL'' 0xFFE0FC00 0xB8603000 OPCODE_TRAP [op_w 0 5, op_x 5 5, op_w 16 5],
     insn ''LDSETL'' 0xFFE0FC00 0xF8603000 OPCODE_TRAP [op_x 0 5, op_x 5 5, op_x 16 5],
     insn ''LDSETAB'' 0xFFE0FC00 0x38A03000 OPCODE_TRAP [op_w 0 5, op_x 5 5, op_w 16 5],
     insn ''LDSETALB'' 0xFFE0FC00 0x38E03000 OPCODE_TRAP [op_w 0 5, op_x 5 5, op_w 16 5],
     insn ''LDSETB'' 0xFFE0FC00 0x38203000 OPCODE_TRAP [op_w 0 5, op_x 5 5, op_w 16 5],
     insn ''LDSETLB'' 0xFFE0FC00 0x38603000 OPCODE_TRAP [op_w 0 5, op_x 5 5, op_w 16 5],
     insn ''LDSETAH'' 0xFFE0FC00 0x78A03000 OPCODE_TRAP [op_w 0 5, op_x 5 5, op_w 16 5],
     insn ''LDSETALH'' 0xFFE0FC00 0x78E03000 OPCODE_TRAP [op_w 0 5, op_x 5 5, op_w 16 5],
     insn ''LDSETH'' 0xFFE0FC00 0x78203000 OPCODE_TRAP [op_w 0 5, op_x 5 5, op_w 16 5],
     insn ''LDSETLH'' 0xFFE0FC00 0x78603000 OPCODE_TRAP [op_w 0 5, op_x 5 5, op_w 16 5]]"

definition arm64_instructions_1884 :: "bal_decoder_instruction_metadata_t list" where
  "arm64_instructions_1884 = [
     insn ''LDSETP'' 0xFFE0FC00 0x19203000 OPCODE_TRAP [op_x 0 5, op_x 5 5, op_x 16 5],
     insn ''LDSETPA'' 0xFFE0FC00 0x19A03000 OPCODE_TRAP [op_x 0 5, op_x 5 5, op_x 16 5],
     insn ''LDSETPAL'' 0xFFE0FC00 0x19E03000 OPCODE_TRAP [op_x 0 5, op_x 5 5, op_x 16 5],
     insn ''LDSETPL'' 0xFFE0FC00 0x19603000 OPCODE_TRAP [op_x 0 5, op_x 5 5, op_x 16 5],
     insn ''LDSMAX'' 0xFFE0FC00 0xB8204000 OPCODE_TRAP [op_w 0 5, op_x 5 5, op_w 16 5],
     insn ''LDSMAX'' 0xFFE0FC00 0xF8204000 OPCODE_TRAP [op_x 0 5, op_x 5 5, op_x 16 5],
     insn ''LDSMAXA'' 0xFFE0FC00 0xB8A04000 OPCODE_TRAP [op_w 0 5, op_x 5 5, op_w 16 5],
     insn ''LDSMAXA'' 0xFFE0FC00 0xF8A04000 OPCODE_TRAP [op_x 0 5, op_x 5 5, op_x 16 5],
     insn ''LDSMAXAL'' 0xFFE0FC00 0xB8E04000 OPCODE_TRAP [op_w 0 5, op_x 5 5, op_w 16 5],
     insn ''LDSMAXAL'' 0xFFE0FC00 0xF8E04000 OPCODE_TRAP [op_x 0 5, op_x 5 5, op_x 16 5],
     insn ''LDSMAXL'' 0xFFE0FC00 0xB8604000 OPCODE_TRAP [op_w 0 5, op_x 5 5, op_w 16 5],
     insn ''LDSMAXL'' 0xFFE0FC00 0xF8604000 OPCODE_TRAP [op_x 0 5, op_x 5 5, op_x 16 5]]"

definition arm64_instructions_1896 :: "bal_decoder_instruction_metadata_t list" where
  "arm64_instructions_1896 = [
     insn ''LDSMAXAB'' 0xFFE0FC00 0x38A04000 OPCODE_TRAP [op_w 0 5, op_x 5 5, op_w 16 5],
     insn ''LDSMAXALB'' 0xFFE0FC00 0x38E04000 OPCODE_TRAP [op_w 0 5, op_x 5 5, op_w 16 5],
     insn ''LDSMAXB'' 0xFFE0FC00 0x38204000 OPCODE_TRAP [op_w 0 5, op_x 5 5, op_w 16 5],
     insn ''LDSMAXLB'' 0xFFE0FC00 0x38604000 OPCODE_TRAP [op_w 0 5, op_x 5 5, op_w 16 5],
     insn ''LDSMAXAH'' 0xFFE0FC00 0x78A04000 OPCODE_TRAP [op_w 0 5, op_x 5 5, op_w 16 5],
     insn ''LDSMAXALH'' 0xFFE0FC00 0x78E04000 OPCODE_TRAP [op_w 0 5, op_x 5 5, op_w 16 5],
     insn ''LDSMAXH'' 0xFFE0FC00 0x78204000 OPCODE_TRAP [op_w 0 5, op_x 5 5, op_w 16 5],
     insn ''LDSMAXLH'' 0xFFE0FC00 0x78604000 OPCODE_TRAP [op_w 0 5, op_x 5 5, op_w 16 5],
     insn ''LDSMIN'' 0xFFE0FC00 0xB8205000 OPCODE_TRAP [op_w 0 5, op_x 5 5, op_w 16 5],
     insn ''LDSMIN'' 0xFFE0FC00 0xF8205000 OPCODE_TRAP [op_x 0 5, op_x 5 5, op_x 16 5],
     insn ''LDSMINA'' 0xFFE0FC00 0xB8A05000 OPCODE_TRAP [op_w 0 5, op_x 5 5, op_w 16 5],
     insn ''LDSMINA'' 0xFFE0FC00 0xF8A05000 OPCODE_TRAP [op_x 0 5, op_x 5 5, op_x 16 5]]"

definition arm64_instructions_1908 :: "bal_decoder_instruction_metadata_t list" where
  "arm64_instructions_1908 = [
     insn ''LDSMINAL'' 0xFFE0FC00 0xB8E05000 OPCODE_TRAP [op_w 0 5, op_x 5 5, op_w 16 5],
     insn ''LDSMINAL'' 0xFFE0FC00 0xF8E05000 OPCODE_TRAP [op_x 0 5, op_x 5 5, op_x 16 5],
     insn ''LDSMINL'' 0xFFE0FC00 0xB8605000 OPCODE_TRAP [op_w 0 5, op_x 5 5, op_w 16 5],
     insn ''LDSMINL'' 0xFFE0FC00 0xF8605000 OPCODE_TRAP [op_x 0 5, op_x 5 5, op_x 16 5],
     insn ''LDSMINAB'' 0xFFE0FC00 0x38A05000 OPCODE_TRAP [op_w 0 5, op_x 5 5, op_w 16 5],
     insn ''LDSMINALB'' 0xFFE0FC00 0x38E05000 OPCODE_TRAP [op_w 0 5, op_x 5 5, op_w 16 5],
     insn ''LDSMINB'' 0xFFE0FC00 0x38205000 OPCODE_TRAP [op_w 0 5, op_x 5 5, op_w 16 5],
     insn ''LDSMINLB'' 0xFFE0FC00 0x38605000 OPCODE_TRAP [op_w 0 5, op_x 5 5, op_w 16 5],
     insn ''LDSMINAH'' 0xFFE0FC00 0x78A05000 OPCODE_TRAP [op_w 0 5, op_x 5 5, op_w 16 5],
     insn ''LDSMINALH'' 0xFFE0FC00 0x78E05000 OPCODE_TRAP [op_w 0 5, op_x 5 5, op_w 16 5],
     insn ''LDSMINH'' 0xFFE0FC00 0x78205000 OPCODE_TRAP [op_w 0 5, op_x 5 5, op_w 16 5],
     insn ''LDSMINLH'' 0xFFE0FC00 0x78605000 OPCODE_TRAP [op_w 0 5, op_x 5 5, op_w 16 5]]"

definition arm64_instructions_1920 :: "bal_decoder_instruction_metadata_t list" where
  "arm64_instructions_1920 = [
     insn ''LDTR'' 0xFFE00C00 0xB8400800 OPCODE_TRAP [op_w 0 5, op_x 5 5, op_imm 12 9],
     insn ''LDTR'' 0xFFE00C00 0xF8400800 OPCODE_TRAP [op_x 0 5, op_x 5 5, op_imm 12 9],
     insn ''LDTRB'' 0xFFE00C00 0x38400800 OPCODE_TRAP [op_w 0 5, op_x 5 5, op_imm 12 9],
     insn ''LDTRH'' 0xFFE00C00 0x78400800 OPCODE_TRAP [op_w 0 5, op_x 5 5, op_imm 12 9],
     insn ''LDTRSB'' 0xFFE00C00 0x38800800 OPCODE_TRAP [op_x 0 5, op_x 5 5, op_imm 12 9],
     insn ''LDTRSB'' 0xFFE00C00 0x38C00800 OPCODE_TRAP [op_w 0 5, op_x 5 5, op_imm 12 9],
     insn ''LDTRSH'' 0xFFE00C00 0x78800800 OPCODE_TRAP [op_x 0 5, op_x 5 5, op_imm 12 9],
     insn ''LDTRSH'' 0xFFE00C00 0x78C00800 OPCODE_TRAP [op_w 0 5, op_x 5 5, op_imm 12 9],
     insn ''LDTRSW'' 0xFFE00C00 0xB8800800 OPCODE_TRAP [op_x 0 5, op_x 5 5, op_imm 12 9],
     insn ''LDUMAX'' 0xFFE0FC00 0xB8206000 OPCODE_TRAP [op_w 0 5, op_x 5 5, op_w 16 5],
     insn ''LDUMAX'' 0xFFE0FC00 0xF8206000 OPCODE_TRAP [op_x 0 5, op_x 5 5, op_x 16 5],
     insn ''LDUMAXA'' 0xFFE0FC00 0xB8A06000 OPCODE_TRAP [op_w 0 5, op_x 5 5, op_w 16 5]]"

definition arm64_instructions_1932 :: "bal_decoder_instruction_metadata_t list" where
  "arm64_instructions_1932 = [
     insn ''LDUMAXA'' 0xFFE0FC00 0xF8A06000 OPCODE_TRAP [op_x 0 5, op_x 5 5, op_x 16 5],
     insn ''LDUMAXAL'' 0xFFE0FC00 0xB8E06000 OPCODE_TRAP [op_w 0 5, op_x 5 5, op_w 16 5],
     insn ''LDUMAXAL'' 0xFFE0FC00 0xF8E06000 OPCODE_TRAP [op_x 0 5, op_x 5 5, op_x 16 5],
     insn ''LDUMAXL'' 0xFFE0FC00 0xB8606000 OPCODE_TRAP [op_w 0 5, op_x 5 5, op_w 16 5],
     insn ''LDUMAXL'' 0xFFE0FC00 0xF8606000 OPCODE_TRAP [op_x 0 5, op_x 5 5, op_x 16 5],
     insn ''LDUMAXAB'' 0xFFE0FC00 0x38A06000 OPCODE_TRAP [op_w 0 5, op_x 5 5, op_w 16 5],
     insn ''LDUMAXALB'' 0xFFE0FC00 0x38E06000 OPCODE_TRAP [op_w 0 5, op_x 5 5, op_w 16 5],
     insn ''LDUMAXB'' 0xFFE0FC00 0x38206000 OPCODE_TRAP [op_w 0 5, op_x 5 5, op_w 16 5],
     insn ''LDUMAXLB'' 0xFFE0FC00 0x38606000 OPCODE_TRAP [op_w 0 5, op_x 5 5, op_w 16 5],
     insn ''LDUMAXAH'' 0xFFE0FC00 0x78A06000 OPCODE_TRAP [op_w 0 5, op_x 5 5, op_w 16 5],
     insn ''LDUMAXALH'' 0xFFE0FC00 0x78E06000 OPCODE_TRAP [op_w 0 5, op_x 5 5, op_w 16 5],
     insn ''LDUMAXH'' 0xFFE0FC00 0x78206000 OPCODE_TRAP [op_w 0 5, op_x 5 5, op_w 16 5]]"

definition arm64_instructions_1944 :: "bal_decoder_instruction_metadata_t list" where
  "arm64_instructions_1944 = [
     insn ''LDUMAXLH'' 0xFFE0FC00 0x78606000 OPCODE_TRAP [op_w 0 5, op_x 5 5, op_w 16 5],
     insn ''LDUMIN'' 0xFFE0FC00 0xB8207000 OPCODE_TRAP [op_w 0 5, op_x 5 5, op_w 16 5],
     insn ''LDUMIN'' 0xFFE0FC00 0xF8207000 OPCODE_TRAP [op_x 0 5, op_x 5 5, op_x 16 5],
     insn ''LDUMINA'' 0xFFE0FC00 0xB8A07000 OPCODE_TRAP [op_w 0 5, op_x 5 5, op_w 16 5],
     insn ''LDUMINA'' 0xFFE0FC00 0xF8A07000 OPCODE_TRAP [op_x 0 5, op_x 5 5, op_x 16 5],
     insn ''LDUMINAL'' 0xFFE0FC00 0xB8E07000 OPCODE_TRAP [op_w 0 5, op_x 5 5, op_w 16 5],
     insn ''LDUMINAL'' 0xFFE0FC00 0xF8E07000 OPCODE_TRAP [op_x 0 5, op_x 5 5, op_x 16 5],
     insn ''LDUMINL'' 0xFFE0FC00 0xB8607000 OPCODE_TRAP [op_w 0 5, op_x 5 5, op_w 16 5],
     insn ''LDUMINL'' 0xFFE0FC00 0xF8607000 OPCODE_TRAP [op_x 0 5, op_x 5 5, op_x 16 5],
     insn ''LDUMINAB'' 0xFFE0FC00 0x38A07000 OPCODE_TRAP [op_w 0 5, op_x 5 5, op_w 16 5],
     insn ''LDUMINALB'' 0xFFE0FC00 0x38E07000 OPCODE_TRAP [op_w 0 5, op_x 5 5, op_w 16 5],
     insn ''LDUMINB'' 0xFFE0FC00 0x38207000 OPCODE_TRAP [op_w 0 5, op_x 5 5, op_w 16 5]]"

definition arm64_instructions_1956 :: "bal_decoder_instruction_metadata_t list" where
  "arm64_instructions_1956 = [
     insn ''LDUMINLB'' 0xFFE0FC00 0x38607000 OPCODE_TRAP [op_w 0 5, op_x 5 5, op_w 16 5],
     insn ''LDUMINAH'' 0xFFE0FC00 0x78A07000 OPCODE_TRAP [op_w 0 5, op_x 5 5, op_w 16 5],
     insn ''LDUMINALH'' 0xFFE0FC00 0x78E07000 OPCODE_TRAP [op_w 0 5, op_x 5 5, op_w 16 5],
     insn ''LDUMINH'' 0xFFE0FC00 0x78207000 OPCODE_TRAP [op_w 0 5, op_x 5 5, op_w 16 5],
     insn ''LDUMINLH'' 0xFFE0FC00 0x78607000 OPCODE_TRAP [op_w 0 5, op_x 5 5, op_w 16 5],
     insn ''LDUR'' 0xFFE00C00 0x3C400000 OPCODE_TRAP [op_v 0 5, op_x 5 5, op_imm 12 9],
     insn ''LDUR'' 0xFFE00C00 0x3CC00000 OPCODE_TRAP [op_v 0 5, op_x 5 5, op_imm 12 9],
     insn ''LDUR'' 0xFFE00C00 0x7C400000 OPCODE_TRAP [op_v 0 5, op_x 5 5, op_imm 12 9],
     insn ''LDUR'' 0xFFE00C00 0xBC400000 OPCODE_TRAP [op_w 0 5, op_x 5 5, op_imm 12 9],
     insn ''LDUR'' 0xFFE00C00 0xFC400000 OPCODE_TRAP [op_x 0 5, op_x 5 5, op_imm 12 9],
     insn ''LDUR'' 0xFFE00C00 0xB8400000 OPCODE_TRAP [op_w 0 5, op_x 5 5, op_imm 12 9],
     insn ''LDUR'' 0xFFE00C00 0xF8400000 OPCODE_TRAP [op_x 0 5, op_x 5 5, op_imm 12 9]]"

definition arm64_part_4 :: "bal_decoder_instruction_metadata_t list list" where
  "arm64_part_4 = [
     arm64_instructions_1476, arm64_instructions_1488, arm64_instructions_1500,
     arm64_instructions_1512, arm64_instructions_1524, arm64_instructions_1536,
     arm64_instructions_1548, arm64_instructions_1560, arm64_instructions_1572,
     arm64_instructions_1584, arm64_instructions_1596, arm64_instructions_1608,
     arm64_instructions_1620, arm64_instructions_1632, arm64_instructions_1644,
     arm64_instructions_1656, arm64_instructions_1668, arm64_instructions_1680,
     arm64_instructions_1692, arm64_instructions_1704, arm64_instructions_1716,
     arm64_instructions_1728, arm64_instructions_1740, arm64_instructions_1752,
     arm64_instructions_1764, arm64_instructions_1776, arm64_instructions_1788,
     arm64_instructions_1800, arm64_instructions_1812, arm64_instructions_1824,
     arm64_instructions_1836, arm64_instructions_1848, arm64_instructions_1860,
     arm64_instructions_1872, arm64_instructions_1884, arm64_instructions_1896,
     arm64_instructions_1908, arm64_instructions_1920, arm64_instructions_1932,
     arm64_instructions_1944, arm64_instructions_1956]"

section \<open>The entries are complete, and their top bits\<close>

lemma keys_of_1476: "map mask_value arm64_instructions_1476 =
     [(0xBFFFEC00, 0xD608000), (0xBFFFEC00, 0xDFF8000), (0xBFFFFC00, 0xD608400),
      (0xBFFFFC00, 0xDFF8400), (0xFFF0E000, 0xA420E000), (0xFFE0E000, 0xA420C000),
      (0xFFF0E000, 0xA5A0E000), (0xFFE0E000, 0xA5A0C000), (0xFFF0E000, 0xA4A0E000),
      (0xFFE0E000, 0xA4A0C000), (0xFFF0E000, 0xA490E000), (0xFFE0E000, 0xA4A08000)]"
  by (simp only: arm64_instructions_1476_def read_entries)

lemma entries_1476:
  "length arm64_instructions_1476 = 12" "list_all metadata_wf arm64_instructions_1476"
  "map top_bits arm64_instructions_1476 =
     [(1535, 107), (1535, 111), (1535, 107), (1535, 111), (2047, 1313), (2047, 1313),
      (2047, 1325), (2047, 1325), (2047, 1317), (2047, 1317), (2047, 1316), (2047, 1317)]"
  by (simp add: arm64_instructions_1476_def, simp add: arm64_instructions_1476_def, simp add: top_bits_mask_value keys_of_1476)

lemma keys_of_1488: "map mask_value arm64_instructions_1488 =
     [(0xBFE0F000, 0xDE0C000), (0xBFFFF000, 0xD60C000), (0xBFFFF000, 0xDFFC000),
      (0xFFF0E000, 0xA520E000), (0xFFE0E000, 0xA520C000), (0xBFE0F000, 0xCC04000),
      (0xBFFFF000, 0xC404000), (0xBFFFF000, 0xCDF4000), (0xBFE0E000, 0xDC02000),
      (0xBFE0E400, 0xDC06000), (0xBFE0EC00, 0xDC0A000), (0xBFE0FC00, 0xDC0A400)]"
  by (simp only: arm64_instructions_1488_def read_entries)

lemma entries_1488:
  "length arm64_instructions_1488 = 12" "list_all metadata_wf arm64_instructions_1488"
  "map top_bits arm64_instructions_1488 =
     [(1535, 111), (1535, 107), (1535, 111), (2047, 1321), (2047, 1321), (1535, 102), (1535, 98),
      (1535, 102), (1535, 110), (1535, 110), (1535, 110), (1535, 110)]"
  by (simp add: arm64_instructions_1488_def, simp add: arm64_instructions_1488_def, simp add: top_bits_mask_value keys_of_1488)

lemma keys_of_1500: "map mask_value arm64_instructions_1500 =
     [(0xBFFFE000, 0xD402000), (0xBFFFE000, 0xDDF2000), (0xBFFFE400, 0xD406000),
      (0xBFFFE400, 0xDDF6000), (0xBFFFEC00, 0xD40A000), (0xBFFFEC00, 0xDDFA000),
      (0xBFFFFC00, 0xD40A400), (0xBFFFFC00, 0xDDFA400), (0xFFF0E000, 0xA440E000),
      (0xFFE0E000, 0xA440C000), (0xFFF0E000, 0xA5C0E000), (0xFFE0E000, 0xA5C0C000)]"
  by (simp only: arm64_instructions_1500_def read_entries)

lemma entries_1500:
  "length arm64_instructions_1500 = 12" "list_all metadata_wf arm64_instructions_1500"
  "map top_bits arm64_instructions_1500 =
     [(1535, 106), (1535, 110), (1535, 106), (1535, 110), (1535, 106), (1535, 110), (1535, 106),
      (1535, 110), (2047, 1314), (2047, 1314), (2047, 1326), (2047, 1326)]"
  by (simp add: arm64_instructions_1500_def, simp add: arm64_instructions_1500_def, simp add: top_bits_mask_value keys_of_1500)

lemma keys_of_1512: "map mask_value arm64_instructions_1512 =
     [(0xFFF0E000, 0xA4C0E000), (0xFFE0E000, 0xA4C0C000), (0xFFF0E000, 0xA510E000),
      (0xFFE0E000, 0xA5208000), (0xBFE0F000, 0xDC0E000), (0xBFFFF000, 0xD40E000),
      (0xBFFFF000, 0xDDFE000), (0xFFF0E000, 0xA540E000), (0xFFE0E000, 0xA540C000),
      (0xBFE0F000, 0xCC00000), (0xBFFFF000, 0xC400000), (0xBFFFF000, 0xCDF0000)]"
  by (simp only: arm64_instructions_1512_def read_entries)

lemma entries_1512:
  "length arm64_instructions_1512 = 12" "list_all metadata_wf arm64_instructions_1512"
  "map top_bits arm64_instructions_1512 =
     [(2047, 1318), (2047, 1318), (2047, 1320), (2047, 1321), (1535, 110), (1535, 106),
      (1535, 110), (2047, 1322), (2047, 1322), (1535, 102), (1535, 98), (1535, 102)]"
  by (simp add: arm64_instructions_1512_def, simp add: arm64_instructions_1512_def, simp add: top_bits_mask_value keys_of_1512)

lemma keys_of_1524: "map mask_value arm64_instructions_1524 =
     [(0xBFE0E000, 0xDE02000), (0xBFE0E400, 0xDE06000), (0xBFE0EC00, 0xDE0A000),
      (0xBFE0FC00, 0xDE0A400), (0xBFFFE000, 0xD602000), (0xBFFFE000, 0xDFF2000),
      (0xBFFFE400, 0xD606000), (0xBFFFE400, 0xDFF6000), (0xBFFFEC00, 0xD60A000),
      (0xBFFFEC00, 0xDFFA000), (0xBFFFFC00, 0xD60A400), (0xBFFFFC00, 0xDFFA400)]"
  by (simp only: arm64_instructions_1524_def read_entries)

lemma entries_1524:
  "length arm64_instructions_1524 = 12" "list_all metadata_wf arm64_instructions_1524"
  "map top_bits arm64_instructions_1524 =
     [(1535, 111), (1535, 111), (1535, 111), (1535, 111), (1535, 107), (1535, 111), (1535, 107),
      (1535, 111), (1535, 107), (1535, 111), (1535, 107), (1535, 111)]"
  by (simp add: arm64_instructions_1524_def, simp add: arm64_instructions_1524_def, simp add: top_bits_mask_value keys_of_1524)

lemma keys_of_1536: "map mask_value arm64_instructions_1536 =
     [(0xFFF0E000, 0xA460E000), (0xFFE0E000, 0xA460C000), (0xFFF0E000, 0xA5E0E000),
      (0xFFE0E000, 0xA5E0C000), (0xFFF0E000, 0xA4E0E000), (0xFFE0E000, 0xA4E0C000),
      (0xFFF0E000, 0xA590E000), (0xFFE0E000, 0xA5A08000), (0xBFE0F000, 0xDE0E000),
      (0xBFFFF000, 0xD60E000), (0xBFFFF000, 0xDFFE000), (0xFFF0E000, 0xA560E000)]"
  by (simp only: arm64_instructions_1536_def read_entries)

lemma entries_1536:
  "length arm64_instructions_1536 = 12" "list_all metadata_wf arm64_instructions_1536"
  "map top_bits arm64_instructions_1536 =
     [(2047, 1315), (2047, 1315), (2047, 1327), (2047, 1327), (2047, 1319), (2047, 1319),
      (2047, 1324), (2047, 1325), (1535, 111), (1535, 107), (1535, 111), (2047, 1323)]"
  by (simp add: arm64_instructions_1536_def, simp add: arm64_instructions_1536_def, simp add: top_bits_mask_value keys_of_1536)

lemma keys_of_1548: "map mask_value arm64_instructions_1548 =
     [(0xFFE0E000, 0xA560C000), (0xFFFFFC00, 0xF83FD000), (0xFFE0FC00, 0xB8200000),
      (0xFFE0FC00, 0xF8200000), (0xFFE0FC00, 0xB8A00000), (0xFFE0FC00, 0xF8A00000),
      (0xFFE0FC00, 0xB8E00000), (0xFFE0FC00, 0xF8E00000), (0xFFE0FC00, 0xB8600000),
      (0xFFE0FC00, 0xF8600000), (0xFFE0FC00, 0x38A00000), (0xFFE0FC00, 0x38E00000)]"
  by (simp only: arm64_instructions_1548_def read_entries)

lemma entries_1548:
  "length arm64_instructions_1548 = 12" "list_all metadata_wf arm64_instructions_1548"
  "map top_bits arm64_instructions_1548 =
     [(2047, 1323), (2047, 1985), (2047, 1473), (2047, 1985), (2047, 1477), (2047, 1989),
      (2047, 1479), (2047, 1991), (2047, 1475), (2047, 1987), (2047, 453), (2047, 455)]"
  by (simp add: arm64_instructions_1548_def, simp add: arm64_instructions_1548_def, simp add: top_bits_mask_value keys_of_1548)

lemma keys_of_1560: "map mask_value arm64_instructions_1560 =
     [(0xFFE0FC00, 0x38200000), (0xFFE0FC00, 0x38600000), (0xFFE0FC00, 0x78A00000),
      (0xFFE0FC00, 0x78E00000), (0xFFE0FC00, 0x78200000), (0xFFE0FC00, 0x78600000),
      (0xBFFFFC00, 0xD418400), (0xFFE9FC80, 0xB8A9E480), (0xFFE9FC80, 0xF8A9E480),
      (0xFFFFFC00, 0x99C00800), (0xFFFFFC00, 0xD9C00800), (0xFFE9FC80, 0x38A9E480)]"
  by (simp only: arm64_instructions_1560_def read_entries)

lemma entries_1560:
  "length arm64_instructions_1560 = 12" "list_all metadata_wf arm64_instructions_1560"
  "map top_bits arm64_instructions_1560 =
     [(2047, 449), (2047, 451), (2047, 965), (2047, 967), (2047, 961), (2047, 963), (1535, 106),
      (2047, 1477), (2047, 1989), (2047, 1230), (2047, 1742), (2047, 453)]"
  by (simp add: arm64_instructions_1560_def, simp add: arm64_instructions_1560_def, simp add: top_bits_mask_value keys_of_1560)

lemma keys_of_1572: "map mask_value arm64_instructions_1572 =
     [(0xFFE9FC80, 0x78A9E480), (0xFFE00C00, 0x1D400800), (0xFFE00C00, 0x1DC00800),
      (0xFFE00C00, 0x5D400800), (0xFFE00C00, 0x9D400800), (0xFFE00C00, 0xDD400800),
      (0xFFE00C00, 0x99400000), (0xFFE00C00, 0xD9400000), (0xFFE00C00, 0x19400000),
      (0xFFE00C00, 0x59400000), (0xFFE00C00, 0x19800000), (0xFFE00C00, 0x19C00000)]"
  by (simp only: arm64_instructions_1572_def read_entries)

lemma entries_1572:
  "length arm64_instructions_1572 = 12" "list_all metadata_wf arm64_instructions_1572"
  "map top_bits arm64_instructions_1572 =
     [(2047, 965), (2047, 234), (2047, 238), (2047, 746), (2047, 1258), (2047, 1770),
      (2047, 1226), (2047, 1738), (2047, 202), (2047, 714), (2047, 204), (2047, 206)]"
  by (simp add: arm64_instructions_1572_def, simp add: arm64_instructions_1572_def, simp add: top_bits_mask_value keys_of_1572)

lemma keys_of_1584: "map mask_value arm64_instructions_1584 =
     [(0xFFE00C00, 0x59800000), (0xFFE00C00, 0x59C00000), (0xFFE00C00, 0x99800000),
      (0xFFE9A492, 0x88C9A492), (0xFFE9A492, 0xC8C9A492), (0xFFE9A492, 0x8C9A492),
      (0xFFE9A492, 0x48C9A492), (0xFFE9A480, 0x8869A480), (0xFFE9A480, 0xC869A480),
      (0xFFE9A492, 0x8849A492), (0xFFE9A492, 0xC849A492), (0xFFE9A492, 0x849A492)]"
  by (simp only: arm64_instructions_1584_def read_entries)

lemma entries_1584:
  "length arm64_instructions_1584 = 12" "list_all metadata_wf arm64_instructions_1584"
  "map top_bits arm64_instructions_1584 =
     [(2047, 716), (2047, 718), (2047, 1228), (2047, 1094), (2047, 1606), (2047, 70),
      (2047, 582), (2047, 1091), (2047, 1603), (2047, 1090), (2047, 1602), (2047, 66)]"
  by (simp add: arm64_instructions_1584_def, simp add: arm64_instructions_1584_def, simp add: top_bits_mask_value keys_of_1584)

lemma keys_of_1596: "map mask_value arm64_instructions_1596 =
     [(0xFFE9A492, 0x4849A492), (0xFFE0FC00, 0xB8201000), (0xFFE0FC00, 0xF8201000),
      (0xFFE0FC00, 0xB8A01000), (0xFFE0FC00, 0xF8A01000), (0xFFE0FC00, 0xB8E01000),
      (0xFFE0FC00, 0xF8E01000), (0xFFE0FC00, 0xB8601000), (0xFFE0FC00, 0xF8601000),
      (0xFFE0FC00, 0x38A01000), (0xFFE0FC00, 0x38E01000), (0xFFE0FC00, 0x38201000)]"
  by (simp only: arm64_instructions_1596_def read_entries)

lemma entries_1596:
  "length arm64_instructions_1596 = 12" "list_all metadata_wf arm64_instructions_1596"
  "map top_bits arm64_instructions_1596 =
     [(2047, 578), (2047, 1473), (2047, 1985), (2047, 1477), (2047, 1989), (2047, 1479),
      (2047, 1991), (2047, 1475), (2047, 1987), (2047, 453), (2047, 455), (2047, 449)]"
  by (simp add: arm64_instructions_1596_def, simp add: arm64_instructions_1596_def, simp add: top_bits_mask_value keys_of_1596)

lemma keys_of_1608: "map mask_value arm64_instructions_1608 =
     [(0xFFE0FC00, 0x38601000), (0xFFE0FC00, 0x78A01000), (0xFFE0FC00, 0x78E01000),
      (0xFFE0FC00, 0x78201000), (0xFFE0FC00, 0x78601000), (0xFFE0FC00, 0x19201000),
      (0xFFE0FC00, 0x19A01000), (0xFFE0FC00, 0x19E01000), (0xFFE0FC00, 0x19601000),
      (0xFFE0FC00, 0xB8202000), (0xFFE0FC00, 0xF8202000), (0xFFE0FC00, 0xB8A02000)]"
  by (simp only: arm64_instructions_1608_def read_entries)

lemma entries_1608:
  "length arm64_instructions_1608 = 12" "list_all metadata_wf arm64_instructions_1608"
  "map top_bits arm64_instructions_1608 =
     [(2047, 451), (2047, 965), (2047, 967), (2047, 961), (2047, 963), (2047, 201), (2047, 205),
      (2047, 207), (2047, 203), (2047, 1473), (2047, 1985), (2047, 1477)]"
  by (simp add: arm64_instructions_1608_def, simp add: arm64_instructions_1608_def, simp add: top_bits_mask_value keys_of_1608)

lemma keys_of_1620: "map mask_value arm64_instructions_1620 =
     [(0xFFE0FC00, 0xF8A02000), (0xFFE0FC00, 0xB8E02000), (0xFFE0FC00, 0xF8E02000),
      (0xFFE0FC00, 0xB8602000), (0xFFE0FC00, 0xF8602000), (0xFFE0FC00, 0x38A02000),
      (0xFFE0FC00, 0x38E02000), (0xFFE0FC00, 0x38202000), (0xFFE0FC00, 0x38602000),
      (0xFFE0FC00, 0x78A02000), (0xFFE0FC00, 0x78E02000), (0xFFE0FC00, 0x78202000)]"
  by (simp only: arm64_instructions_1620_def read_entries)

lemma entries_1620:
  "length arm64_instructions_1620 = 12" "list_all metadata_wf arm64_instructions_1620"
  "map top_bits arm64_instructions_1620 =
     [(2047, 1989), (2047, 1479), (2047, 1991), (2047, 1475), (2047, 1987), (2047, 453),
      (2047, 455), (2047, 449), (2047, 451), (2047, 965), (2047, 967), (2047, 961)]"
  by (simp add: arm64_instructions_1620_def, simp add: arm64_instructions_1620_def, simp add: top_bits_mask_value keys_of_1620)

lemma keys_of_1632: "map mask_value arm64_instructions_1632 =
     [(0xFFE0FC00, 0x78602000), (0xFFE0E000, 0x8420E000), (0xFFE0E000, 0xC420E000),
      (0xFFE0E000, 0xA4006000), (0xFFE0E000, 0xA4206000), (0xFFE0E000, 0xA4406000),
      (0xFFE0E000, 0xA4606000), (0xFFA0E000, 0x84006000), (0xFFA0E000, 0xC4006000),
      (0xFFE0E000, 0xC440E000), (0xFFE0E000, 0xC5A0E000), (0xFFE0E000, 0xA5E06000)]"
  by (simp only: arm64_instructions_1632_def read_entries)

lemma entries_1632:
  "length arm64_instructions_1632 = 12" "list_all metadata_wf arm64_instructions_1632"
  "map top_bits arm64_instructions_1632 =
     [(2047, 963), (2047, 1057), (2047, 1569), (2047, 1312), (2047, 1313), (2047, 1314),
      (2047, 1315), (2045, 1056), (2045, 1568), (2047, 1570), (2047, 1581), (2047, 1327)]"
  by (simp add: arm64_instructions_1632_def, simp add: arm64_instructions_1632_def, simp add: top_bits_mask_value keys_of_1632)

lemma keys_of_1644: "map mask_value arm64_instructions_1644 =
     [(0xFFA0E000, 0xC5806000), (0xFFA0E000, 0xC5A06000), (0xFFE0E000, 0xC5C0E000),
      (0xFFE0E000, 0xC5E0E000), (0xFFE0E000, 0x84A0E000), (0xFFE0E000, 0xC4A0E000),
      (0xFFE0E000, 0xA4A06000), (0xFFE0E000, 0xA4C06000), (0xFFE0E000, 0xA4E06000),
      (0xFFA0E000, 0x84806000), (0xFFA0E000, 0x84A06000), (0xFFA0E000, 0xC4806000)]"
  by (simp only: arm64_instructions_1644_def read_entries)

lemma entries_1644:
  "length arm64_instructions_1644 = 12" "list_all metadata_wf arm64_instructions_1644"
  "map top_bits arm64_instructions_1644 =
     [(2045, 1580), (2045, 1581), (2047, 1582), (2047, 1583), (2047, 1061), (2047, 1573),
      (2047, 1317), (2047, 1318), (2047, 1319), (2045, 1060), (2045, 1061), (2045, 1572)]"
  by (simp add: arm64_instructions_1644_def, simp add: arm64_instructions_1644_def, simp add: top_bits_mask_value keys_of_1644)

lemma keys_of_1656: "map mask_value arm64_instructions_1656 =
     [(0xFFA0E000, 0xC4A06000), (0xFFE0E000, 0xC4C0E000), (0xFFE0E000, 0xC4E0E000),
      (0xFFE0E000, 0x8420A000), (0xFFE0E000, 0xC420A000), (0xFFE0E000, 0xA5806000),
      (0xFFE0E000, 0xA5A06000), (0xFFE0E000, 0xA5C06000), (0xFFA0E000, 0x84002000),
      (0xFFA0E000, 0xC4002000), (0xFFE0E000, 0xC440A000), (0xFFE0E000, 0x84A0A000)]"
  by (simp only: arm64_instructions_1656_def read_entries)

lemma entries_1656:
  "length arm64_instructions_1656 = 12" "list_all metadata_wf arm64_instructions_1656"
  "map top_bits arm64_instructions_1656 =
     [(2045, 1573), (2047, 1574), (2047, 1575), (2047, 1057), (2047, 1569), (2047, 1324),
      (2047, 1325), (2047, 1326), (2045, 1056), (2045, 1568), (2047, 1570), (2047, 1061)]"
  by (simp add: arm64_instructions_1656_def, simp add: arm64_instructions_1656_def, simp add: top_bits_mask_value keys_of_1656)

lemma keys_of_1668: "map mask_value arm64_instructions_1668 =
     [(0xFFE0E000, 0xC4A0A000), (0xFFE0E000, 0xA5006000), (0xFFE0E000, 0xA5206000),
      (0xFFA0E000, 0x84802000), (0xFFA0E000, 0x84A02000), (0xFFA0E000, 0xC4802000),
      (0xFFA0E000, 0xC4A02000), (0xFFE0E000, 0xC4C0A000), (0xFFE0E000, 0xC4E0A000),
      (0xFFE0E000, 0xC520A000), (0xFFE0E000, 0xA4806000), (0xFFA0E000, 0xC5002000)]"
  by (simp only: arm64_instructions_1668_def read_entries)

lemma entries_1668:
  "length arm64_instructions_1668 = 12" "list_all metadata_wf arm64_instructions_1668"
  "map top_bits arm64_instructions_1668 =
     [(2047, 1573), (2047, 1320), (2047, 1321), (2045, 1060), (2045, 1061), (2045, 1572),
      (2045, 1573), (2047, 1574), (2047, 1575), (2047, 1577), (2047, 1316), (2045, 1576)]"
  by (simp add: arm64_instructions_1668_def, simp add: arm64_instructions_1668_def, simp add: top_bits_mask_value keys_of_1668)

lemma keys_of_1680: "map mask_value arm64_instructions_1680 =
     [(0xFFA0E000, 0xC5202000), (0xFFE0E000, 0xC540A000), (0xFFE0E000, 0xC560A000),
      (0xFFE0E000, 0x8520E000), (0xFFE0E000, 0xC520E000), (0xFFE0E000, 0xA5406000),
      (0xFFE0E000, 0xA5606000), (0xFFA0E000, 0x85006000), (0xFFA0E000, 0x85206000),
      (0xFFA0E000, 0xC5006000), (0xFFA0E000, 0xC5206000), (0xFFE0E000, 0xC540E000)]"
  by (simp only: arm64_instructions_1680_def read_entries)

lemma entries_1680:
  "length arm64_instructions_1680 = 12" "list_all metadata_wf arm64_instructions_1680"
  "map top_bits arm64_instructions_1680 =
     [(2045, 1577), (2047, 1578), (2047, 1579), (2047, 1065), (2047, 1577), (2047, 1322),
      (2047, 1323), (2045, 1064), (2045, 1065), (2045, 1576), (2045, 1577), (2047, 1578)]"
  by (simp add: arm64_instructions_1680_def, simp add: arm64_instructions_1680_def, simp add: top_bits_mask_value keys_of_1680)

lemma keys_of_1692: "map mask_value arm64_instructions_1692 =
     [(0xFFE0E000, 0xC560E000), (0xFFE00C00, 0xD9600000), (0xFFFFFC00, 0xD9E00000),
      (0xFFE0FC00, 0x99400800), (0xFFE0FC00, 0x99401800), (0xFFE0FC00, 0xD9400800),
      (0xFFE0FC00, 0xD9401800), (0xFFE9A492, 0x88C92492), (0xFFE9A492, 0xC8C92492),
      (0xFFE9A492, 0x8C92492), (0xFFE9A492, 0x48C92492), (0xFFF0E000, 0xA410A000)]"
  by (simp only: arm64_instructions_1692_def read_entries)

lemma entries_1692:
  "length arm64_instructions_1692 = 12" "list_all metadata_wf arm64_instructions_1692"
  "map top_bits arm64_instructions_1692 =
     [(2047, 1579), (2047, 1739), (2047, 1743), (2047, 1226), (2047, 1226), (2047, 1738),
      (2047, 1738), (2047, 1094), (2047, 1606), (2047, 70), (2047, 582), (2047, 1312)]"
  by (simp add: arm64_instructions_1692_def, simp add: arm64_instructions_1692_def, simp add: top_bits_mask_value keys_of_1692)

lemma keys_of_1704: "map mask_value arm64_instructions_1704 =
     [(0xFFF0E000, 0xA430A000), (0xFFF0E000, 0xA450A000), (0xFFF0E000, 0xA470A000),
      (0xFFF0E000, 0xA5F0A000), (0xFFF0E000, 0xA4B0A000), (0xFFF0E000, 0xA4D0A000),
      (0xFFF0E000, 0xA4F0A000), (0xFFF0E000, 0xA590A000), (0xFFF0E000, 0xA5B0A000),
      (0xFFF0E000, 0xA5D0A000), (0xFFF0E000, 0xA510A000), (0xFFF0E000, 0xA530A000)]"
  by (simp only: arm64_instructions_1704_def read_entries)

lemma entries_1704:
  "length arm64_instructions_1704 = 12" "list_all metadata_wf arm64_instructions_1704"
  "map top_bits arm64_instructions_1704 =
     [(2047, 1313), (2047, 1314), (2047, 1315), (2047, 1327), (2047, 1317), (2047, 1318),
      (2047, 1319), (2047, 1324), (2047, 1325), (2047, 1326), (2047, 1320), (2047, 1321)]"
  by (simp add: arm64_instructions_1704_def, simp add: arm64_instructions_1704_def, simp add: top_bits_mask_value keys_of_1704)

lemma keys_of_1716: "map mask_value arm64_instructions_1716 =
     [(0xFFF0E000, 0xA490A000), (0xFFF0E000, 0xA550A000), (0xFFF0E000, 0xA570A000),
      (0xFFC00000, 0x2C400000), (0xFFC00000, 0x6C400000), (0xFFC00000, 0xAC400000),
      (0xFFC00000, 0x28400000), (0xFFC00000, 0xA8400000), (0xFFF0E001, 0xA0400001),
      (0xFFF0E003, 0xA0408001), (0xFFE0E001, 0xA0000001), (0xFFE0E003, 0xA0008001)]"
  by (simp only: arm64_instructions_1716_def read_entries)

lemma entries_1716:
  "length arm64_instructions_1716 = 12" "list_all metadata_wf arm64_instructions_1716"
  "map top_bits arm64_instructions_1716 =
     [(2047, 1316), (2047, 1322), (2047, 1323), (2046, 354), (2046, 866), (2046, 1378),
      (2046, 322), (2046, 1346), (2047, 1282), (2047, 1282), (2047, 1280), (2047, 1280)]"
  by (simp add: arm64_instructions_1716_def, simp add: arm64_instructions_1716_def, simp add: top_bits_mask_value keys_of_1716)

lemma keys_of_1728: "map mask_value arm64_instructions_1728 =
     [(0xFFF0E008, 0xA1400008), (0xFFF0E00C, 0xA1408008), (0xFFE0E008, 0xA1000008),
      (0xFFE0E00C, 0xA1008008), (0xFFE0E000, 0x8400A000), (0xFFE0E000, 0xC400C000),
      (0xFFF0E000, 0xA400E000), (0xFFE0E000, 0xA400C000), (0xFFF0E001, 0xA0406001),
      (0xFFF0E003, 0xA040E001), (0xFFE0E001, 0xA0006001), (0xFFE0E003, 0xA000E001)]"
  by (simp only: arm64_instructions_1728_def read_entries)

lemma entries_1728:
  "length arm64_instructions_1728 = 12" "list_all metadata_wf arm64_instructions_1728"
  "map top_bits arm64_instructions_1728 =
     [(2047, 1290), (2047, 1290), (2047, 1288), (2047, 1288), (2047, 1056), (2047, 1568),
      (2047, 1312), (2047, 1312), (2047, 1282), (2047, 1282), (2047, 1280), (2047, 1280)]"
  by (simp add: arm64_instructions_1728_def, simp add: arm64_instructions_1728_def, simp add: top_bits_mask_value keys_of_1728)

lemma keys_of_1740: "map mask_value arm64_instructions_1740 =
     [(0xFFF0E008, 0xA1406008), (0xFFF0E00C, 0xA140E008), (0xFFE0E008, 0xA1006008),
      (0xFFE0E00C, 0xA100E008), (0xFFE0E000, 0xC580C000), (0xFFF0E000, 0xA580E000),
      (0xFFE0E000, 0xA580C000), (0xFFF0E001, 0xA0402001), (0xFFF0E003, 0xA040A001),
      (0xFFE0E001, 0xA0002001), (0xFFE0E003, 0xA000A001), (0xFFF0E008, 0xA1402008)]"
  by (simp only: arm64_instructions_1740_def read_entries)

lemma entries_1740:
  "length arm64_instructions_1740 = 12" "list_all metadata_wf arm64_instructions_1740"
  "map top_bits arm64_instructions_1740 =
     [(2047, 1290), (2047, 1290), (2047, 1288), (2047, 1288), (2047, 1580), (2047, 1324),
      (2047, 1324), (2047, 1282), (2047, 1282), (2047, 1280), (2047, 1280), (2047, 1290)]"
  by (simp add: arm64_instructions_1740_def, simp add: arm64_instructions_1740_def, simp add: top_bits_mask_value keys_of_1740)

lemma keys_of_1752: "map mask_value arm64_instructions_1752 =
     [(0xFFF0E00C, 0xA140A008), (0xFFE0E008, 0xA1002008), (0xFFE0E00C, 0xA100A008),
      (0xFFE0E000, 0x8480A000), (0xFFE0E000, 0xC480C000), (0xFFF0E000, 0xA480E000),
      (0xFFE0E000, 0xA480C000), (0xFFE0E000, 0x84008000), (0xFFE0E000, 0xC4008000),
      (0xFFE0E000, 0x84808000), (0xFFE0E000, 0xC4808000), (0xFFE0E000, 0xC5008000)]"
  by (simp only: arm64_instructions_1752_def read_entries)

lemma entries_1752:
  "length arm64_instructions_1752 = 12" "list_all metadata_wf arm64_instructions_1752"
  "map top_bits arm64_instructions_1752 =
     [(2047, 1290), (2047, 1288), (2047, 1288), (2047, 1060), (2047, 1572), (2047, 1316),
      (2047, 1316), (2047, 1056), (2047, 1568), (2047, 1060), (2047, 1572), (2047, 1576)]"
  by (simp add: arm64_instructions_1752_def, simp add: arm64_instructions_1752_def, simp add: top_bits_mask_value keys_of_1752)

lemma keys_of_1764: "map mask_value arm64_instructions_1764 =
     [(0xFFF0E001, 0xA0404001), (0xFFF0E003, 0xA040C001), (0xFFE0E001, 0xA0004001),
      (0xFFE0E003, 0xA000C001), (0xFFF0E008, 0xA1404008), (0xFFF0E00C, 0xA140C008),
      (0xFFE0E008, 0xA1004008), (0xFFE0E00C, 0xA100C008), (0xFFE0E000, 0x8500A000),
      (0xFFE0E000, 0xC500C000), (0xFFF0E000, 0xA500E000), (0xFFE0E000, 0xA500C000)]"
  by (simp only: arm64_instructions_1764_def read_entries)

lemma entries_1764:
  "length arm64_instructions_1764 = 12" "list_all metadata_wf arm64_instructions_1764"
  "map top_bits arm64_instructions_1764 =
     [(2047, 1282), (2047, 1282), (2047, 1280), (2047, 1280), (2047, 1290), (2047, 1290),
      (2047, 1288), (2047, 1288), (2047, 1064), (2047, 1576), (2047, 1320), (2047, 1320)]"
  by (simp add: arm64_instructions_1764_def, simp add: arm64_instructions_1764_def, simp add: top_bits_mask_value keys_of_1764)

lemma keys_of_1776: "map mask_value arm64_instructions_1776 =
     [(0xFFC00000, 0x2CC00000), (0xFFC00000, 0x2D400000), (0xFFC00000, 0x2DC00000),
      (0xFFC00000, 0x6CC00000), (0xFFC00000, 0x6D400000), (0xFFC00000, 0x6DC00000),
      (0xFFC00000, 0xACC00000), (0xFFC00000, 0xAD400000), (0xFFC00000, 0xADC00000),
      (0xFFC00000, 0x28C00000), (0xFFC00000, 0x29400000), (0xFFC00000, 0x29C00000)]"
  by (simp only: arm64_instructions_1776_def read_entries)

lemma entries_1776:
  "length arm64_instructions_1776 = 12" "list_all metadata_wf arm64_instructions_1776"
  "map top_bits arm64_instructions_1776 =
     [(2046, 358), (2046, 362), (2046, 366), (2046, 870), (2046, 874), (2046, 878), (2046, 1382),
      (2046, 1386), (2046, 1390), (2046, 326), (2046, 330), (2046, 334)]"
  by (simp add: arm64_instructions_1776_def, simp add: arm64_instructions_1776_def, simp add: top_bits_mask_value keys_of_1776)

lemma keys_of_1788: "map mask_value arm64_instructions_1788 =
     [(0xFFC00000, 0xA8C00000), (0xFFC00000, 0xA9400000), (0xFFC00000, 0xA9C00000),
      (0xFFC00000, 0x68C00000), (0xFFC00000, 0x69400000), (0xFFC00000, 0x69C00000),
      (0xFFC00000, 0x3D400000), (0xFFC00000, 0x3DC00000), (0xFFC00000, 0x7D400000),
      (0xFFC00000, 0xBD400000), (0xFFC00000, 0xFD400000), (0xFFE00C00, 0x3C400400)]"
  by (simp only: arm64_instructions_1788_def read_entries)

lemma entries_1788:
  "length arm64_instructions_1788 = 12" "list_all metadata_wf arm64_instructions_1788"
  "map top_bits arm64_instructions_1788 =
     [(2046, 1350), (2046, 1354), (2046, 1358), (2046, 838), (2046, 842), (2046, 846),
      (2046, 490), (2046, 494), (2046, 1002), (2046, 1514), (2046, 2026), (2047, 482)]"
  by (simp add: arm64_instructions_1788_def, simp add: arm64_instructions_1788_def, simp add: top_bits_mask_value keys_of_1788)

lemma keys_of_1800: "map mask_value arm64_instructions_1800 =
     [(0xFFE00C00, 0x3C400C00), (0xFFE00C00, 0x3CC00400), (0xFFE00C00, 0x3CC00C00),
      (0xFFE00C00, 0x7C400400), (0xFFE00C00, 0x7C400C00), (0xFFE00C00, 0xBC400400),
      (0xFFE00C00, 0xBC400C00), (0xFFE00C00, 0xFC400400), (0xFFE00C00, 0xFC400C00),
      (0xFFC00000, 0xB9400000), (0xFFC00000, 0xF9400000), (0xFFE00C00, 0xB8400400)]"
  by (simp only: arm64_instructions_1800_def read_entries)

lemma entries_1800:
  "length arm64_instructions_1800 = 12" "list_all metadata_wf arm64_instructions_1800"
  "map top_bits arm64_instructions_1800 =
     [(2047, 482), (2047, 486), (2047, 486), (2047, 994), (2047, 994), (2047, 1506),
      (2047, 1506), (2047, 2018), (2047, 2018), (2046, 1482), (2046, 1994), (2047, 1474)]"
  by (simp add: arm64_instructions_1800_def, simp add: arm64_instructions_1800_def, simp add: top_bits_mask_value keys_of_1800)

lemma keys_of_1812: "map mask_value arm64_instructions_1812 =
     [(0xFFE00C00, 0xB8400C00), (0xFFE00C00, 0xF8400400), (0xFFE00C00, 0xF8400C00),
      (0xFF000000, 0x1C000000), (0xFF000000, 0x5C000000), (0xFF000000, 0x9C000000),
      (0xFF000000, 0x18000000), (0xFF000000, 0x58000000), (0xFFC0E010, 0x85800000),
      (0xFFE00C00, 0x3C600800), (0xFFE00C00, 0x3CE00800), (0xFFE00C00, 0x7C600800)]"
  by (simp only: arm64_instructions_1812_def read_entries)

lemma entries_1812:
  "length arm64_instructions_1812 = 12" "list_all metadata_wf arm64_instructions_1812"
  "map top_bits arm64_instructions_1812 =
     [(2047, 1474), (2047, 1986), (2047, 1986), (2040, 224), (2040, 736), (2040, 1248),
      (2040, 192), (2040, 704), (2046, 1068), (2047, 483), (2047, 487), (2047, 995)]"
  by (simp add: arm64_instructions_1812_def, simp add: arm64_instructions_1812_def, simp add: top_bits_mask_value keys_of_1812)

lemma keys_of_1824: "map mask_value arm64_instructions_1824 =
     [(0xFFE00C00, 0xBC600800), (0xFFE00C00, 0xFC600800), (0xFFE0EC00, 0x3C606800),
      (0xFFE00C00, 0xB8600800), (0xFFE00C00, 0xF8600800), (0xFFC0E000, 0x85804000),
      (0xFFFF9C10, 0xE1000000), (0xFFFFFC1F, 0xE11F8000), (0xFFA00C00, 0xF8200400),
      (0xFFA00C00, 0xF8200C00), (0xFFA00C00, 0xF8A00400), (0xFFA00C00, 0xF8A00C00)]"
  by (simp only: arm64_instructions_1824_def read_entries)

lemma entries_1824:
  "length arm64_instructions_1824 = 12" "list_all metadata_wf arm64_instructions_1824"
  "map top_bits arm64_instructions_1824 =
     [(2047, 1507), (2047, 2019), (2047, 483), (2047, 1475), (2047, 1987), (2046, 1068),
      (2047, 1800), (2047, 1800), (2045, 1985), (2045, 1985), (2045, 1989), (2045, 1989)]"
  by (simp add: arm64_instructions_1824_def, simp add: arm64_instructions_1824_def, simp add: top_bits_mask_value keys_of_1824)

lemma keys_of_1836: "map mask_value arm64_instructions_1836 =
     [(0xFFC00000, 0x39400000), (0xFFE00C00, 0x38400400), (0xFFE00C00, 0x38400C00),
      (0xFFE00C00, 0x38600800), (0xFFE0EC00, 0x38606800), (0xFFC00000, 0x79400000),
      (0xFFE00C00, 0x78400400), (0xFFE00C00, 0x78400C00), (0xFFE00C00, 0x78600800),
      (0xFFC00000, 0x39800000), (0xFFC00000, 0x39C00000), (0xFFE00C00, 0x38800400)]"
  by (simp only: arm64_instructions_1836_def read_entries)

lemma entries_1836:
  "length arm64_instructions_1836 = 12" "list_all metadata_wf arm64_instructions_1836"
  "map top_bits arm64_instructions_1836 =
     [(2046, 458), (2047, 450), (2047, 450), (2047, 451), (2047, 451), (2046, 970), (2047, 962),
      (2047, 962), (2047, 963), (2046, 460), (2046, 462), (2047, 452)]"
  by (simp add: arm64_instructions_1836_def, simp add: arm64_instructions_1836_def, simp add: top_bits_mask_value keys_of_1836)

lemma keys_of_1848: "map mask_value arm64_instructions_1848 =
     [(0xFFE00C00, 0x38800C00), (0xFFE00C00, 0x38C00400), (0xFFE00C00, 0x38C00C00),
      (0xFFE00C00, 0x38A00800), (0xFFE00C00, 0x38E00800), (0xFFE0EC00, 0x38A06800),
      (0xFFE0EC00, 0x38E06800), (0xFFC00000, 0x79800000), (0xFFC00000, 0x79C00000),
      (0xFFE00C00, 0x78800400), (0xFFE00C00, 0x78800C00), (0xFFE00C00, 0x78C00400)]"
  by (simp only: arm64_instructions_1848_def read_entries)

lemma entries_1848:
  "length arm64_instructions_1848 = 12" "list_all metadata_wf arm64_instructions_1848"
  "map top_bits arm64_instructions_1848 =
     [(2047, 452), (2047, 454), (2047, 454), (2047, 453), (2047, 455), (2047, 453), (2047, 455),
      (2046, 972), (2046, 974), (2047, 964), (2047, 964), (2047, 966)]"
  by (simp add: arm64_instructions_1848_def, simp add: arm64_instructions_1848_def, simp add: top_bits_mask_value keys_of_1848)

lemma keys_of_1860: "map mask_value arm64_instructions_1860 =
     [(0xFFE00C00, 0x78C00C00), (0xFFE00C00, 0x78A00800), (0xFFE00C00, 0x78E00800),
      (0xFFC00000, 0xB9800000), (0xFFE00C00, 0xB8800400), (0xFFE00C00, 0xB8800C00),
      (0xFF000000, 0x98000000), (0xFFE00C00, 0xB8A00800), (0xFFE0FC00, 0xB8203000),
      (0xFFE0FC00, 0xF8203000), (0xFFE0FC00, 0xB8A03000), (0xFFE0FC00, 0xF8A03000)]"
  by (simp only: arm64_instructions_1860_def read_entries)

lemma entries_1860:
  "length arm64_instructions_1860 = 12" "list_all metadata_wf arm64_instructions_1860"
  "map top_bits arm64_instructions_1860 =
     [(2047, 966), (2047, 965), (2047, 967), (2046, 1484), (2047, 1476), (2047, 1476),
      (2040, 1216), (2047, 1477), (2047, 1473), (2047, 1985), (2047, 1477), (2047, 1989)]"
  by (simp add: arm64_instructions_1860_def, simp add: arm64_instructions_1860_def, simp add: top_bits_mask_value keys_of_1860)

lemma keys_of_1872: "map mask_value arm64_instructions_1872 =
     [(0xFFE0FC00, 0xB8E03000), (0xFFE0FC00, 0xF8E03000), (0xFFE0FC00, 0xB8603000),
      (0xFFE0FC00, 0xF8603000), (0xFFE0FC00, 0x38A03000), (0xFFE0FC00, 0x38E03000),
      (0xFFE0FC00, 0x38203000), (0xFFE0FC00, 0x38603000), (0xFFE0FC00, 0x78A03000),
      (0xFFE0FC00, 0x78E03000), (0xFFE0FC00, 0x78203000), (0xFFE0FC00, 0x78603000)]"
  by (simp only: arm64_instructions_1872_def read_entries)

lemma entries_1872:
  "length arm64_instructions_1872 = 12" "list_all metadata_wf arm64_instructions_1872"
  "map top_bits arm64_instructions_1872 =
     [(2047, 1479), (2047, 1991), (2047, 1475), (2047, 1987), (2047, 453), (2047, 455),
      (2047, 449), (2047, 451), (2047, 965), (2047, 967), (2047, 961), (2047, 963)]"
  by (simp add: arm64_instructions_1872_def, simp add: arm64_instructions_1872_def, simp add: top_bits_mask_value keys_of_1872)

lemma keys_of_1884: "map mask_value arm64_instructions_1884 =
     [(0xFFE0FC00, 0x19203000), (0xFFE0FC00, 0x19A03000), (0xFFE0FC00, 0x19E03000),
      (0xFFE0FC00, 0x19603000), (0xFFE0FC00, 0xB8204000), (0xFFE0FC00, 0xF8204000),
      (0xFFE0FC00, 0xB8A04000), (0xFFE0FC00, 0xF8A04000), (0xFFE0FC00, 0xB8E04000),
      (0xFFE0FC00, 0xF8E04000), (0xFFE0FC00, 0xB8604000), (0xFFE0FC00, 0xF8604000)]"
  by (simp only: arm64_instructions_1884_def read_entries)

lemma entries_1884:
  "length arm64_instructions_1884 = 12" "list_all metadata_wf arm64_instructions_1884"
  "map top_bits arm64_instructions_1884 =
     [(2047, 201), (2047, 205), (2047, 207), (2047, 203), (2047, 1473), (2047, 1985),
      (2047, 1477), (2047, 1989), (2047, 1479), (2047, 1991), (2047, 1475), (2047, 1987)]"
  by (simp add: arm64_instructions_1884_def, simp add: arm64_instructions_1884_def, simp add: top_bits_mask_value keys_of_1884)

lemma keys_of_1896: "map mask_value arm64_instructions_1896 =
     [(0xFFE0FC00, 0x38A04000), (0xFFE0FC00, 0x38E04000), (0xFFE0FC00, 0x38204000),
      (0xFFE0FC00, 0x38604000), (0xFFE0FC00, 0x78A04000), (0xFFE0FC00, 0x78E04000),
      (0xFFE0FC00, 0x78204000), (0xFFE0FC00, 0x78604000), (0xFFE0FC00, 0xB8205000),
      (0xFFE0FC00, 0xF8205000), (0xFFE0FC00, 0xB8A05000), (0xFFE0FC00, 0xF8A05000)]"
  by (simp only: arm64_instructions_1896_def read_entries)

lemma entries_1896:
  "length arm64_instructions_1896 = 12" "list_all metadata_wf arm64_instructions_1896"
  "map top_bits arm64_instructions_1896 =
     [(2047, 453), (2047, 455), (2047, 449), (2047, 451), (2047, 965), (2047, 967), (2047, 961),
      (2047, 963), (2047, 1473), (2047, 1985), (2047, 1477), (2047, 1989)]"
  by (simp add: arm64_instructions_1896_def, simp add: arm64_instructions_1896_def, simp add: top_bits_mask_value keys_of_1896)

lemma keys_of_1908: "map mask_value arm64_instructions_1908 =
     [(0xFFE0FC00, 0xB8E05000), (0xFFE0FC00, 0xF8E05000), (0xFFE0FC00, 0xB8605000),
      (0xFFE0FC00, 0xF8605000), (0xFFE0FC00, 0x38A05000), (0xFFE0FC00, 0x38E05000),
      (0xFFE0FC00, 0x38205000), (0xFFE0FC00, 0x38605000), (0xFFE0FC00, 0x78A05000),
      (0xFFE0FC00, 0x78E05000), (0xFFE0FC00, 0x78205000), (0xFFE0FC00, 0x78605000)]"
  by (simp only: arm64_instructions_1908_def read_entries)

lemma entries_1908:
  "length arm64_instructions_1908 = 12" "list_all metadata_wf arm64_instructions_1908"
  "map top_bits arm64_instructions_1908 =
     [(2047, 1479), (2047, 1991), (2047, 1475), (2047, 1987), (2047, 453), (2047, 455),
      (2047, 449), (2047, 451), (2047, 965), (2047, 967), (2047, 961), (2047, 963)]"
  by (simp add: arm64_instructions_1908_def, simp add: arm64_instructions_1908_def, simp add: top_bits_mask_value keys_of_1908)

lemma keys_of_1920: "map mask_value arm64_instructions_1920 =
     [(0xFFE00C00, 0xB8400800), (0xFFE00C00, 0xF8400800), (0xFFE00C00, 0x38400800),
      (0xFFE00C00, 0x78400800), (0xFFE00C00, 0x38800800), (0xFFE00C00, 0x38C00800),
      (0xFFE00C00, 0x78800800), (0xFFE00C00, 0x78C00800), (0xFFE00C00, 0xB8800800),
      (0xFFE0FC00, 0xB8206000), (0xFFE0FC00, 0xF8206000), (0xFFE0FC00, 0xB8A06000)]"
  by (simp only: arm64_instructions_1920_def read_entries)

lemma entries_1920:
  "length arm64_instructions_1920 = 12" "list_all metadata_wf arm64_instructions_1920"
  "map top_bits arm64_instructions_1920 =
     [(2047, 1474), (2047, 1986), (2047, 450), (2047, 962), (2047, 452), (2047, 454),
      (2047, 964), (2047, 966), (2047, 1476), (2047, 1473), (2047, 1985), (2047, 1477)]"
  by (simp add: arm64_instructions_1920_def, simp add: arm64_instructions_1920_def, simp add: top_bits_mask_value keys_of_1920)

lemma keys_of_1932: "map mask_value arm64_instructions_1932 =
     [(0xFFE0FC00, 0xF8A06000), (0xFFE0FC00, 0xB8E06000), (0xFFE0FC00, 0xF8E06000),
      (0xFFE0FC00, 0xB8606000), (0xFFE0FC00, 0xF8606000), (0xFFE0FC00, 0x38A06000),
      (0xFFE0FC00, 0x38E06000), (0xFFE0FC00, 0x38206000), (0xFFE0FC00, 0x38606000),
      (0xFFE0FC00, 0x78A06000), (0xFFE0FC00, 0x78E06000), (0xFFE0FC00, 0x78206000)]"
  by (simp only: arm64_instructions_1932_def read_entries)

lemma entries_1932:
  "length arm64_instructions_1932 = 12" "list_all metadata_wf arm64_instructions_1932"
  "map top_bits arm64_instructions_1932 =
     [(2047, 1989), (2047, 1479), (2047, 1991), (2047, 1475), (2047, 1987), (2047, 453),
      (2047, 455), (2047, 449), (2047, 451), (2047, 965), (2047, 967), (2047, 961)]"
  by (simp add: arm64_instructions_1932_def, simp add: arm64_instructions_1932_def, simp add: top_bits_mask_value keys_of_1932)

lemma keys_of_1944: "map mask_value arm64_instructions_1944 =
     [(0xFFE0FC00, 0x78606000), (0xFFE0FC00, 0xB8207000), (0xFFE0FC00, 0xF8207000),
      (0xFFE0FC00, 0xB8A07000), (0xFFE0FC00, 0xF8A07000), (0xFFE0FC00, 0xB8E07000),
      (0xFFE0FC00, 0xF8E07000), (0xFFE0FC00, 0xB8607000), (0xFFE0FC00, 0xF8607000),
      (0xFFE0FC00, 0x38A07000), (0xFFE0FC00, 0x38E07000), (0xFFE0FC00, 0x38207000)]"
  by (simp only: arm64_instructions_1944_def read_entries)

lemma entries_1944:
  "length arm64_instructions_1944 = 12" "list_all metadata_wf arm64_instructions_1944"
  "map top_bits arm64_instructions_1944 =
     [(2047, 963), (2047, 1473), (2047, 1985), (2047, 1477), (2047, 1989), (2047, 1479),
      (2047, 1991), (2047, 1475), (2047, 1987), (2047, 453), (2047, 455), (2047, 449)]"
  by (simp add: arm64_instructions_1944_def, simp add: arm64_instructions_1944_def, simp add: top_bits_mask_value keys_of_1944)

lemma keys_of_1956: "map mask_value arm64_instructions_1956 =
     [(0xFFE0FC00, 0x38607000), (0xFFE0FC00, 0x78A07000), (0xFFE0FC00, 0x78E07000),
      (0xFFE0FC00, 0x78207000), (0xFFE0FC00, 0x78607000), (0xFFE00C00, 0x3C400000),
      (0xFFE00C00, 0x3CC00000), (0xFFE00C00, 0x7C400000), (0xFFE00C00, 0xBC400000),
      (0xFFE00C00, 0xFC400000), (0xFFE00C00, 0xB8400000), (0xFFE00C00, 0xF8400000)]"
  by (simp only: arm64_instructions_1956_def read_entries)

lemma entries_1956:
  "length arm64_instructions_1956 = 12" "list_all metadata_wf arm64_instructions_1956"
  "map top_bits arm64_instructions_1956 =
     [(2047, 451), (2047, 965), (2047, 967), (2047, 961), (2047, 963), (2047, 482), (2047, 486),
      (2047, 994), (2047, 1506), (2047, 2018), (2047, 1474), (2047, 1986)]"
  by (simp add: arm64_instructions_1956_def, simp add: arm64_instructions_1956_def, simp add: top_bits_mask_value keys_of_1956)

lemmas entries_part_4 =
  entries_1476 entries_1488 entries_1500 entries_1512 entries_1524 entries_1536 entries_1548
  entries_1560 entries_1572 entries_1584 entries_1596 entries_1608 entries_1620 entries_1632
  entries_1644 entries_1656 entries_1668 entries_1680 entries_1692 entries_1704 entries_1716
  entries_1728 entries_1740 entries_1752 entries_1764 entries_1776 entries_1788 entries_1800
  entries_1812 entries_1824 entries_1836 entries_1848 entries_1860 entries_1872 entries_1884
  entries_1896 entries_1908 entries_1920 entries_1932 entries_1944 entries_1956

lemma arm64_part_4:
  "length (concat arm64_part_4) = 492" "list_all metadata_wf (concat arm64_part_4)"
  "sum_list (map weight (map top_bits (concat arm64_part_4))) = 641"
  by (simp_all add: arm64_part_4_def entries_part_4 weight_def bit_Suc_0_iff)

end
