(* ===== verification/Arm64_Instructions_5.thy ===== *)
theory Arm64_Instructions_5
  imports Table_Entries
begin

text \<open>
  Entries 1968 to 2459 of \<open>g_bal_decoder_arm64_instructions\<close> in \<open>src/generated/decoder_table.c\<close>,
  twelve to a list; a list is named after the index of its first entry.
\<close>

definition arm64_instructions_1968 :: "bal_decoder_instruction_metadata_t list" where
  "arm64_instructions_1968 = [
     insn ''LDURB'' 0xFFE00C00 0x38400000 OPCODE_TRAP [op_w 0 5, op_x 5 5, op_imm 12 9],
     insn ''LDURH'' 0xFFE00C00 0x78400000 OPCODE_TRAP [op_w 0 5, op_x 5 5, op_imm 12 9],
     insn ''LDURSB'' 0xFFE00C00 0x38800000 OPCODE_TRAP [op_x 0 5, op_x 5 5, op_imm 12 9],
     insn ''LDURSB'' 0xFFE00C00 0x38C00000 OPCODE_TRAP [op_w 0 5, op_x 5 5, op_imm 12 9],
     insn ''LDURSH'' 0xFFE00C00 0x78800000 OPCODE_TRAP [op_x 0 5, op_x 5 5, op_imm 12 9],
     insn ''LDURSH'' 0xFFE00C00 0x78C00000 OPCODE_TRAP [op_w 0 5, op_x 5 5, op_imm 12 9],
     insn ''LDURSW'' 0xFFE00C00 0xB8800000 OPCODE_TRAP [op_x 0 5, op_x 5 5, op_imm 12 9],
     insn ''LDXP'' 0xFFE9A480 0x88692480 OPCODE_TRAP [op_w 0 5, op_x 5 5, op_w 10 5],
     insn ''LDXP'' 0xFFE9A480 0xC8692480 OPCODE_TRAP [op_x 0 5, op_x 5 5, op_x 10 5],
     insn ''LDXR'' 0xFFE9A492 0x88492492 OPCODE_TRAP [op_w 0 5, op_x 5 5],
     insn ''LDXR'' 0xFFE9A492 0xC8492492 OPCODE_TRAP [op_x 0 5, op_x 5 5],
     insn ''LDXRB'' 0xFFE9A492 0x08492492 OPCODE_TRAP [op_w 0 5, op_x 5 5]]"

definition arm64_instructions_1980 :: "bal_decoder_instruction_metadata_t list" where
  "arm64_instructions_1980 = [
     insn ''LDXRH'' 0xFFE9A492 0x48492492 OPCODE_TRAP [op_w 0 5, op_x 5 5],
     insn ''LSLV'' 0xFFE0FC00 0x1AC02000 OPCODE_TRAP [op_w 0 5, op_w 5 5, op_imm 16 5],
     insn ''LSLV'' 0xFFE0FC00 0x9AC02000 OPCODE_TRAP [op_x 0 5, op_x 5 5, op_imm 16 5],
     insn ''UBFM'' 0xFFC00F80 0x53000F80 OPCODE_TRAP [op_w 0 5, op_w 5 5],
     insn ''UBFM'' 0xFFC00F80 0xD3400F80 OPCODE_TRAP [op_x 0 5, op_x 5 5],
     insn ''LSL'' 0xFF3FE000 0x04038000 OPCODE_TRAP [op_v 0 5, op_imm 5 3, op_imm 8 2, op_v 10 3, op_imm 22 2],
     insn ''LSL'' 0xFF3FE000 0x041B8000 OPCODE_TRAP [op_v 0 5, op_v 5 5, op_v 10 3],
     insn ''LSL'' 0xFF3FE000 0x04138000 OPCODE_TRAP [op_v 0 5, op_v 5 5, op_v 10 3],
     insn ''LSL'' 0xFF20FC00 0x04209C00 OPCODE_TRAP [op_v 0 5, op_v 5 5, op_imm 16 3, op_imm 19 2, op_imm 22 2],
     insn ''LSL'' 0xFF20FC00 0x04208C00 OPCODE_TRAP [op_v 0 5, op_v 5 5, op_v 16 5],
     insn ''LSLR'' 0xFF3FE000 0x04178000 OPCODE_TRAP [op_v 0 5, op_v 5 5, op_v 10 3],
     insn ''LSLV'' 0xFFE0FC00 0x1AC02000 OPCODE_TRAP [op_w 0 5, op_w 5 5, op_imm 16 5]]"

definition arm64_instructions_1992 :: "bal_decoder_instruction_metadata_t list" where
  "arm64_instructions_1992 = [
     insn ''LSLV'' 0xFFE0FC00 0x9AC02000 OPCODE_TRAP [op_x 0 5, op_x 5 5, op_imm 16 5],
     insn ''LSRV'' 0xFFE0FC00 0x1AC02400 OPCODE_TRAP [op_w 0 5, op_w 5 5, op_imm 16 5],
     insn ''LSRV'' 0xFFE0FC00 0x9AC02400 OPCODE_TRAP [op_x 0 5, op_x 5 5, op_imm 16 5],
     insn ''UBFM'' 0xFFC0FC00 0x53007C00 OPCODE_TRAP [op_w 0 5, op_w 5 5, op_imm 16 6],
     insn ''UBFM'' 0xFFC0FC00 0xD340FC00 OPCODE_TRAP [op_x 0 5, op_x 5 5, op_imm 16 6],
     insn ''LSR'' 0xFF3FE000 0x04018000 OPCODE_TRAP [op_v 0 5, op_imm 5 3, op_imm 8 2, op_v 10 3, op_imm 22 2],
     insn ''LSR'' 0xFF3FE000 0x04198000 OPCODE_TRAP [op_v 0 5, op_v 5 5, op_v 10 3],
     insn ''LSR'' 0xFF3FE000 0x04118000 OPCODE_TRAP [op_v 0 5, op_v 5 5, op_v 10 3],
     insn ''LSR'' 0xFF20FC00 0x04209400 OPCODE_TRAP [op_v 0 5, op_v 5 5, op_imm 16 3, op_imm 19 2, op_imm 22 2],
     insn ''LSR'' 0xFF20FC00 0x04208400 OPCODE_TRAP [op_v 0 5, op_v 5 5, op_v 16 5],
     insn ''LSRR'' 0xFF3FE000 0x04158000 OPCODE_TRAP [op_v 0 5, op_v 5 5, op_v 10 3],
     insn ''LSRV'' 0xFFE0FC00 0x1AC02400 OPCODE_TRAP [op_w 0 5, op_w 5 5, op_imm 16 5]]"

definition arm64_instructions_2004 :: "bal_decoder_instruction_metadata_t list" where
  "arm64_instructions_2004 = [
     insn ''LSRV'' 0xFFE0FC00 0x9AC02400 OPCODE_TRAP [op_x 0 5, op_x 5 5, op_imm 16 5],
     insn ''LUTI2'' 0xFFFC4C01 0xC08C4000 OPCODE_TRAP [op_v 1 4, op_v 5 5, op_imm 15 3],
     insn ''LUTI2'' 0xFFFC4C08 0xC09C4000 OPCODE_TRAP [op_v 0 3, op_v 4 1, op_v 5 5, op_imm 15 3],
     insn ''LUTI2'' 0xFFFCCC03 0xC08C8000 OPCODE_TRAP [op_v 2 3, op_v 5 5, op_imm 16 2],
     insn ''LUTI2'' 0xFFFCCC0C 0xC09C8000 OPCODE_TRAP [op_v 0 2, op_v 4 1, op_v 5 5, op_imm 16 2],
     insn ''LUTI2'' 0xFFFC0C00 0xC0CC0000 OPCODE_TRAP [op_v 0 5, op_v 5 5, op_imm 14 4],
     insn ''LUTI4'' 0xFFFE4C01 0xC08A4000 OPCODE_TRAP [op_v 1 4, op_v 5 5, op_imm 15 2],
     insn ''LUTI4'' 0xFFFE4C08 0xC09A4000 OPCODE_TRAP [op_v 0 3, op_v 4 1, op_v 5 5, op_imm 15 2],
     insn ''LUTI4'' 0xFFFECC03 0xC08A8000 OPCODE_TRAP [op_v 2 3, op_v 5 5, op_imm 16 1],
     insn ''LUTI4'' 0xFFFECC0C 0xC09A8000 OPCODE_TRAP [op_v 0 2, op_v 4 1, op_v 5 5, op_imm 16 1],
     insn ''LUTI4'' 0xFFFE0C00 0xC0CA0000 OPCODE_TRAP [op_v 0 5, op_v 5 5, op_imm 14 3],
     insn ''MAD'' 0xFF20E000 0x0400C000 OPCODE_TRAP [op_v 0 5, op_v 5 5, op_v 10 3, op_v 16 5]]"

definition arm64_instructions_2016 :: "bal_decoder_instruction_metadata_t list" where
  "arm64_instructions_2016 = [
     insn ''MADD'' 0xFFE08000 0x1B000000 OPCODE_MUL [op_w 0 5, op_w 5 5, op_w 10 5, op_w 16 5],
     insn ''MADD'' 0xFFE08000 0x9B000000 OPCODE_MUL [op_x 0 5, op_x 5 5, op_x 10 5, op_x 16 5],
     insn ''MATCH'' 0xFF20E010 0x45208000 OPCODE_TRAP [op_v 0 4, op_v 5 5, op_v 10 3, op_v 16 5],
     insn ''MLA'' 0xBF00F400 0x2F000000 OPCODE_TRAP [op_v 0 5, op_v 5 5, op_v 16 4, op_v 20 1, op_v 22 2],
     insn ''MLA'' 0xBF20FC00 0x0E209400 OPCODE_TRAP [op_v 0 5, op_v 5 5, op_v 16 5],
     insn ''MLA'' 0xFF20E000 0x04004000 OPCODE_TRAP [op_v 0 5, op_v 5 5, op_v 10 3, op_v 16 5],
     insn ''MLA'' 0xFFA0FC00 0x44200800 OPCODE_TRAP [op_v 0 5, op_v 5 5, op_v 16 3, op_imm 19 2, op_imm 22 1],
     insn ''MLA'' 0xFFE0FC00 0x44A00800 OPCODE_TRAP [op_v 0 5, op_v 5 5, op_v 16 3, op_imm 19 2],
     insn ''MLA'' 0xFFE0FC00 0x44E00800 OPCODE_TRAP [op_v 0 5, op_v 5 5, op_v 16 4, op_imm 20 1],
     insn ''MLS'' 0xBF00F400 0x2F004000 OPCODE_TRAP [op_v 0 5, op_v 5 5, op_v 16 4, op_v 20 1, op_v 22 2],
     insn ''MLS'' 0xBF20FC00 0x2E209400 OPCODE_TRAP [op_v 0 5, op_v 5 5, op_v 16 5],
     insn ''MLS'' 0xFF20E000 0x04006000 OPCODE_TRAP [op_v 0 5, op_v 5 5, op_v 10 3, op_v 16 5]]"

definition arm64_instructions_2028 :: "bal_decoder_instruction_metadata_t list" where
  "arm64_instructions_2028 = [
     insn ''MLS'' 0xFFA0FC00 0x44200C00 OPCODE_TRAP [op_v 0 5, op_v 5 5, op_v 16 3, op_imm 19 2, op_imm 22 1],
     insn ''MLS'' 0xFFE0FC00 0x44A00C00 OPCODE_TRAP [op_v 0 5, op_v 5 5, op_v 16 3, op_imm 19 2],
     insn ''MLS'' 0xFFE0FC00 0x44E00C00 OPCODE_TRAP [op_v 0 5, op_v 5 5, op_v 16 4, op_imm 20 1],
     insn ''MSUB'' 0xFFE0FC00 0x1B00FC00 OPCODE_TRAP [op_w 0 5, op_w 5 5, op_w 16 5],
     insn ''MSUB'' 0xFFE0FC00 0x9B00FC00 OPCODE_TRAP [op_x 0 5, op_x 5 5, op_x 16 5],
     insn ''ADD'' 0xFFFFFC00 0x11000000 OPCODE_ADD [op_w 0 5, op_w 5 5],
     insn ''ADD'' 0xFFFFFC00 0x91000000 OPCODE_ADD [op_x 0 5, op_x 5 5],
     insn ''AND'' 0xFFF0C210 0x25004000 OPCODE_AND [op_v 0 4, op_v 5 4, op_v 10 4],
     insn ''CPY'' 0xFF30C000 0x05100000 OPCODE_TRAP [op_v 0 5, op_imm 5 8, op_imm 13 1, op_v 16 4],
     insn ''CPY'' 0xFF30C000 0x05104000 OPCODE_TRAP [op_v 0 5, op_imm 5 8, op_imm 13 1, op_v 16 4],
     insn ''CPY'' 0xFF3FE000 0x0528A000 OPCODE_TRAP [op_v 0 5, op_v 10 3],
     insn ''CPY'' 0xFF3FE000 0x05208000 OPCODE_TRAP [op_v 0 5, op_v 5 5, op_v 10 3]]"

definition arm64_instructions_2040 :: "bal_decoder_instruction_metadata_t list" where
  "arm64_instructions_2040 = [
     insn ''DUP'' 0xFFE0FC00 0x5E000400 OPCODE_TRAP [op_v 0 5, op_v 5 5, op_imm 16 5],
     insn ''DUP'' 0xFF3FC000 0x2538C000 OPCODE_TRAP [op_v 0 5, op_imm 5 8, op_imm 13 1],
     insn ''DUP'' 0xFF3FFC00 0x05203800 OPCODE_TRAP [op_v 0 5],
     insn ''DUP'' 0xFF20FC00 0x05202000 OPCODE_TRAP [op_v 0 5, op_v 5 5, op_imm 16 5, op_imm 22 2],
     insn ''DUPM'' 0xFFFC0000 0x05C00000 OPCODE_TRAP [op_v 0 5],
     insn ''INS'' 0xFFE08400 0x6E000400 OPCODE_TRAP [op_v 0 5, op_v 5 5, op_imm 11 4, op_imm 16 5],
     insn ''INS'' 0xFFE0FC00 0x4E001C00 OPCODE_TRAP [op_v 0 5, op_imm 16 5],
     insn ''MOVA'' 0xFFFF1F01 0xC0060000 OPCODE_TRAP [op_v 1 4, op_imm 5 3, op_imm 13 2],
     insn ''MOVA'' 0xFFFF1F01 0xC0460000 OPCODE_TRAP [op_v 1 4, op_imm 5 2, op_imm 13 2],
     insn ''MOVA'' 0xFFFF1F01 0xC0860000 OPCODE_TRAP [op_v 1 4, op_imm 5 1, op_imm 13 2],
     insn ''MOVA'' 0xFFFF1F01 0xC0C60000 OPCODE_TRAP [op_v 1 4, op_imm 13 2],
     insn ''MOVA'' 0xFFFF1F03 0xC0C60400 OPCODE_TRAP [op_v 2 3, op_imm 13 2]]"

definition arm64_instructions_2052 :: "bal_decoder_instruction_metadata_t list" where
  "arm64_instructions_2052 = [
     insn ''MOVA'' 0xFFFF1F83 0xC0060400 OPCODE_TRAP [op_v 2 3, op_imm 5 2, op_imm 13 2],
     insn ''MOVA'' 0xFFFF1F83 0xC0460400 OPCODE_TRAP [op_v 2 3, op_imm 5 1, op_imm 13 2],
     insn ''MOVA'' 0xFFFF1F83 0xC0860400 OPCODE_TRAP [op_v 2 3, op_imm 13 2],
     insn ''MOVA'' 0xFFFF9F01 0xC0060800 OPCODE_TRAP [op_v 1 4, op_imm 5 3, op_w 13 2],
     insn ''MOVA'' 0xFFFF9F03 0xC0060C00 OPCODE_TRAP [op_v 2 3, op_imm 5 3, op_w 13 2],
     insn ''MOVA'' 0xFFFF0200 0xC0020000 OPCODE_TRAP [op_v 0 5, op_imm 5 4, op_v 10 3, op_imm 13 2],
     insn ''MOVA'' 0xFFFF0200 0xC0420000 OPCODE_TRAP [op_v 0 5, op_imm 5 3, op_v 10 3, op_imm 13 2],
     insn ''MOVA'' 0xFFFF0200 0xC0820000 OPCODE_TRAP [op_v 0 5, op_imm 5 2, op_v 10 3, op_imm 13 2],
     insn ''MOVA'' 0xFFFF0200 0xC0C20000 OPCODE_TRAP [op_v 0 5, op_imm 5 1, op_v 10 3, op_imm 13 2],
     insn ''MOVA'' 0xFFFF0200 0xC0C30000 OPCODE_TRAP [op_v 0 5, op_v 10 3, op_imm 13 2],
     insn ''MOVA'' 0xFFFF1C38 0xC0040000 OPCODE_TRAP [op_imm 0 3, op_v 6 4, op_imm 13 2],
     insn ''MOVA'' 0xFFFF1C38 0xC0440000 OPCODE_TRAP [op_imm 0 2, op_v 6 4, op_imm 13 2]]"

definition arm64_instructions_2064 :: "bal_decoder_instruction_metadata_t list" where
  "arm64_instructions_2064 = [
     insn ''MOVA'' 0xFFFF1C38 0xC0840000 OPCODE_TRAP [op_imm 0 1, op_v 6 4, op_imm 13 2],
     insn ''MOVA'' 0xFFFF1C38 0xC0C40000 OPCODE_TRAP [op_v 6 4, op_imm 13 2],
     insn ''MOVA'' 0xFFFF1C78 0xC0C40400 OPCODE_TRAP [op_v 7 3, op_imm 13 2],
     insn ''MOVA'' 0xFFFF1C7C 0xC0040400 OPCODE_TRAP [op_imm 0 2, op_v 7 3, op_imm 13 2],
     insn ''MOVA'' 0xFFFF1C7C 0xC0440400 OPCODE_TRAP [op_imm 0 1, op_v 7 3, op_imm 13 2],
     insn ''MOVA'' 0xFFFF1C7C 0xC0840400 OPCODE_TRAP [op_v 7 3, op_imm 13 2],
     insn ''MOVA'' 0xFFFF9C38 0xC0040800 OPCODE_TRAP [op_imm 0 3, op_v 6 4, op_w 13 2],
     insn ''MOVA'' 0xFFFF9C78 0xC0040C00 OPCODE_TRAP [op_imm 0 3, op_v 7 3, op_w 13 2],
     insn ''MOVA'' 0xFFFF0010 0xC0000000 OPCODE_TRAP [op_imm 0 4, op_v 5 5, op_v 10 3, op_imm 13 2],
     insn ''MOVA'' 0xFFFF0010 0xC0400000 OPCODE_TRAP [op_imm 0 3, op_v 5 5, op_v 10 3, op_imm 13 2],
     insn ''MOVA'' 0xFFFF0010 0xC0800000 OPCODE_TRAP [op_imm 0 2, op_v 5 5, op_v 10 3, op_imm 13 2],
     insn ''MOVA'' 0xFFFF0010 0xC0C00000 OPCODE_TRAP [op_imm 0 1, op_v 5 5, op_v 10 3, op_imm 13 2]]"

definition arm64_instructions_2076 :: "bal_decoder_instruction_metadata_t list" where
  "arm64_instructions_2076 = [
     insn ''MOVA'' 0xFFFF0010 0xC0C10000 OPCODE_TRAP [op_v 5 5, op_v 10 3, op_imm 13 2],
     insn ''MOVN'' 0xFF800000 0x92800000 OPCODE_MOV [op_x 0 5, op_imm 5 16, op_imm 21 2],
     insn ''MOVN'' 0xFFC00000 0x12800000 OPCODE_MOV [op_w 0 5, op_imm 5 16, op_imm 21 2],
     insn ''MOVZ'' 0xFF800000 0xD2800000 OPCODE_MOV [op_x 0 5, op_imm 5 16, op_imm 21 2],
     insn ''MOVZ'' 0xFFC00000 0x52800000 OPCODE_MOV [op_w 0 5, op_imm 5 16, op_imm 21 2],
     insn ''ORR'' 0xBFE0FC00 0x0EA01C00 OPCODE_MOV [op_v 0 5, op_v 5 5],
     insn ''ORR'' 0xFF8003E0 0xB20003E0 OPCODE_MOV [op_x 0 5, op_imm 10 6, op_imm 16 6, op_imm 22 1],
     insn ''ORR'' 0xFFC003E0 0x320003E0 OPCODE_MOV [op_w 0 5, op_imm 10 6, op_imm 16 6],
     insn ''ORR'' 0xFFE0FFE0 0x2A0003E0 OPCODE_MOV [op_w 0 5, op_w 16 5],
     insn ''ORR'' 0xFFE0FFE0 0xAA0003E0 OPCODE_MOV [op_x 0 5, op_x 16 5],
     insn ''ORR'' 0xFFF0C210 0x25804000 OPCODE_MOV [op_v 0 4, op_v 5 4],
     insn ''ORR'' 0xFFE0FC00 0x04603000 OPCODE_MOV [op_v 0 5, op_v 5 5]]"

definition arm64_instructions_2088 :: "bal_decoder_instruction_metadata_t list" where
  "arm64_instructions_2088 = [
     insn ''SEL'' 0xFFF0C210 0x25004210 OPCODE_TRAP [op_v 0 4, op_v 5 4, op_v 10 4],
     insn ''SEL'' 0xFF20C000 0x0520C000 OPCODE_TRAP [op_v 0 5, op_v 5 5, op_v 10 4],
     insn ''UMOV'' 0xFFE7FC00 0x0E043C00 OPCODE_TRAP [op_w 0 5, op_v 5 5, op_imm 16 5],
     insn ''UMOV'' 0xFFEFFC00 0x4E083C00 OPCODE_TRAP [op_x 0 5, op_v 5 5, op_imm 16 5],
     insn ''MOVA'' 0xFFFF1F01 0xC0060000 OPCODE_TRAP [op_v 1 4, op_imm 5 3, op_imm 13 2],
     insn ''MOVA'' 0xFFFF1F01 0xC0460000 OPCODE_TRAP [op_v 1 4, op_imm 5 2, op_imm 13 2],
     insn ''MOVA'' 0xFFFF1F01 0xC0860000 OPCODE_TRAP [op_v 1 4, op_imm 5 1, op_imm 13 2],
     insn ''MOVA'' 0xFFFF1F01 0xC0C60000 OPCODE_TRAP [op_v 1 4, op_imm 13 2],
     insn ''MOVA'' 0xFFFF1F03 0xC0C60400 OPCODE_TRAP [op_v 2 3, op_imm 13 2],
     insn ''MOVA'' 0xFFFF1F83 0xC0060400 OPCODE_TRAP [op_v 2 3, op_imm 5 2, op_imm 13 2],
     insn ''MOVA'' 0xFFFF1F83 0xC0460400 OPCODE_TRAP [op_v 2 3, op_imm 5 1, op_imm 13 2],
     insn ''MOVA'' 0xFFFF1F83 0xC0860400 OPCODE_TRAP [op_v 2 3, op_imm 13 2]]"

definition arm64_instructions_2100 :: "bal_decoder_instruction_metadata_t list" where
  "arm64_instructions_2100 = [
     insn ''MOVA'' 0xFFFF9F01 0xC0060800 OPCODE_TRAP [op_v 1 4, op_imm 5 3, op_w 13 2],
     insn ''MOVA'' 0xFFFF9F03 0xC0060C00 OPCODE_TRAP [op_v 2 3, op_imm 5 3, op_w 13 2],
     insn ''MOVA'' 0xFFFF0200 0xC0020000 OPCODE_TRAP [op_v 0 5, op_imm 5 4, op_v 10 3, op_imm 13 2],
     insn ''MOVA'' 0xFFFF0200 0xC0420000 OPCODE_TRAP [op_v 0 5, op_imm 5 3, op_v 10 3, op_imm 13 2],
     insn ''MOVA'' 0xFFFF0200 0xC0820000 OPCODE_TRAP [op_v 0 5, op_imm 5 2, op_v 10 3, op_imm 13 2],
     insn ''MOVA'' 0xFFFF0200 0xC0C20000 OPCODE_TRAP [op_v 0 5, op_imm 5 1, op_v 10 3, op_imm 13 2],
     insn ''MOVA'' 0xFFFF0200 0xC0C30000 OPCODE_TRAP [op_v 0 5, op_v 10 3, op_imm 13 2],
     insn ''MOVA'' 0xFFFF1C38 0xC0040000 OPCODE_TRAP [op_imm 0 3, op_v 6 4, op_imm 13 2],
     insn ''MOVA'' 0xFFFF1C38 0xC0440000 OPCODE_TRAP [op_imm 0 2, op_v 6 4, op_imm 13 2],
     insn ''MOVA'' 0xFFFF1C38 0xC0840000 OPCODE_TRAP [op_imm 0 1, op_v 6 4, op_imm 13 2],
     insn ''MOVA'' 0xFFFF1C38 0xC0C40000 OPCODE_TRAP [op_v 6 4, op_imm 13 2],
     insn ''MOVA'' 0xFFFF1C78 0xC0C40400 OPCODE_TRAP [op_v 7 3, op_imm 13 2]]"

definition arm64_instructions_2112 :: "bal_decoder_instruction_metadata_t list" where
  "arm64_instructions_2112 = [
     insn ''MOVA'' 0xFFFF1C7C 0xC0040400 OPCODE_TRAP [op_imm 0 2, op_v 7 3, op_imm 13 2],
     insn ''MOVA'' 0xFFFF1C7C 0xC0440400 OPCODE_TRAP [op_imm 0 1, op_v 7 3, op_imm 13 2],
     insn ''MOVA'' 0xFFFF1C7C 0xC0840400 OPCODE_TRAP [op_v 7 3, op_imm 13 2],
     insn ''MOVA'' 0xFFFF9C38 0xC0040800 OPCODE_TRAP [op_imm 0 3, op_v 6 4, op_w 13 2],
     insn ''MOVA'' 0xFFFF9C78 0xC0040C00 OPCODE_TRAP [op_imm 0 3, op_v 7 3, op_w 13 2],
     insn ''MOVA'' 0xFFFF0010 0xC0000000 OPCODE_TRAP [op_imm 0 4, op_v 5 5, op_v 10 3, op_imm 13 2],
     insn ''MOVA'' 0xFFFF0010 0xC0400000 OPCODE_TRAP [op_imm 0 3, op_v 5 5, op_v 10 3, op_imm 13 2],
     insn ''MOVA'' 0xFFFF0010 0xC0800000 OPCODE_TRAP [op_imm 0 2, op_v 5 5, op_v 10 3, op_imm 13 2],
     insn ''MOVA'' 0xFFFF0010 0xC0C00000 OPCODE_TRAP [op_imm 0 1, op_v 5 5, op_v 10 3, op_imm 13 2],
     insn ''MOVA'' 0xFFFF0010 0xC0C10000 OPCODE_TRAP [op_v 5 5, op_v 10 3, op_imm 13 2],
     insn ''MOVAZ'' 0xFFFF1F01 0xC0060200 OPCODE_TRAP [op_v 1 4, op_imm 5 3, op_imm 13 2],
     insn ''MOVAZ'' 0xFFFF1F01 0xC0460200 OPCODE_TRAP [op_v 1 4, op_imm 5 2, op_imm 13 2]]"

definition arm64_instructions_2124 :: "bal_decoder_instruction_metadata_t list" where
  "arm64_instructions_2124 = [
     insn ''MOVAZ'' 0xFFFF1F01 0xC0860200 OPCODE_TRAP [op_v 1 4, op_imm 5 1, op_imm 13 2],
     insn ''MOVAZ'' 0xFFFF1F01 0xC0C60200 OPCODE_TRAP [op_v 1 4, op_imm 13 2],
     insn ''MOVAZ'' 0xFFFF1F03 0xC0C60600 OPCODE_TRAP [op_v 2 3, op_imm 13 2],
     insn ''MOVAZ'' 0xFFFF1F83 0xC0060600 OPCODE_TRAP [op_v 2 3, op_imm 5 2, op_imm 13 2],
     insn ''MOVAZ'' 0xFFFF1F83 0xC0460600 OPCODE_TRAP [op_v 2 3, op_imm 5 1, op_imm 13 2],
     insn ''MOVAZ'' 0xFFFF1F83 0xC0860600 OPCODE_TRAP [op_v 2 3, op_imm 13 2],
     insn ''MOVAZ'' 0xFFFF9F01 0xC0060A00 OPCODE_TRAP [op_v 1 4, op_imm 5 3, op_w 13 2],
     insn ''MOVAZ'' 0xFFFF9F03 0xC0060E00 OPCODE_TRAP [op_v 2 3, op_imm 5 3, op_w 13 2],
     insn ''MOVAZ'' 0xFFFF1E00 0xC0020200 OPCODE_TRAP [op_v 0 5, op_imm 5 4, op_imm 13 2],
     insn ''MOVAZ'' 0xFFFF1E00 0xC0420200 OPCODE_TRAP [op_v 0 5, op_imm 5 3, op_imm 13 2],
     insn ''MOVAZ'' 0xFFFF1E00 0xC0820200 OPCODE_TRAP [op_v 0 5, op_imm 5 2, op_imm 13 2],
     insn ''MOVAZ'' 0xFFFF1E00 0xC0C20200 OPCODE_TRAP [op_v 0 5, op_imm 5 1, op_imm 13 2]]"

definition arm64_instructions_2136 :: "bal_decoder_instruction_metadata_t list" where
  "arm64_instructions_2136 = [
     insn ''MOVAZ'' 0xFFFF1E00 0xC0C30200 OPCODE_TRAP [op_v 0 5, op_imm 13 2],
     insn ''MOVI'' 0xBFF89C00 0x0F000400 OPCODE_TRAP [op_v 0 5, op_imm 5 1, op_imm 6 1, op_imm 7 1, op_imm 8 1],
     insn ''MOVI'' 0xBFF8DC00 0x0F008400 OPCODE_TRAP [op_v 0 5, op_imm 5 1, op_imm 6 1, op_imm 7 1, op_imm 8 1],
     insn ''MOVI'' 0xBFF8EC00 0x0F00C400 OPCODE_TRAP [op_v 0 5, op_imm 5 1, op_imm 6 1, op_imm 7 1, op_imm 8 1],
     insn ''MOVI'' 0xBFF8FC00 0x0F00E400 OPCODE_TRAP [op_v 0 5, op_imm 5 1, op_imm 6 1, op_imm 7 1, op_imm 8 1],
     insn ''MOVI'' 0xFFF8FC00 0x2F00E400 OPCODE_TRAP [op_x 0 5, op_imm 5 1, op_imm 6 1, op_imm 7 1, op_imm 8 1],
     insn ''MOVI'' 0xFFF8FC00 0x6F00E400 OPCODE_TRAP [op_v 0 5, op_imm 5 1, op_imm 6 1, op_imm 7 1, op_imm 8 1],
     insn ''MOVK'' 0xFF800000 0xF2800000 OPCODE_MOV [op_x 0 5, op_imm 5 16, op_imm 21 2],
     insn ''MOVK'' 0xFFC00000 0x72800000 OPCODE_MOV [op_w 0 5, op_imm 5 16, op_imm 21 2],
     insn ''MOVN'' 0xFF800000 0x92800000 OPCODE_MOV [op_x 0 5, op_imm 5 16, op_imm 21 2],
     insn ''MOVN'' 0xFFC00000 0x12800000 OPCODE_MOV [op_w 0 5, op_imm 5 16, op_imm 21 2],
     insn ''MOVPRFX'' 0xFF3EE000 0x04102000 OPCODE_TRAP [op_v 0 5, op_v 5 5, op_v 10 3]]"

definition arm64_instructions_2148 :: "bal_decoder_instruction_metadata_t list" where
  "arm64_instructions_2148 = [
     insn ''MOVPRFX'' 0xFFFFFC00 0x0420BC00 OPCODE_TRAP [op_v 0 5, op_v 5 5],
     insn ''ANDS'' 0xFFF0C210 0x25404000 OPCODE_AND [op_v 0 4, op_v 5 4, op_v 10 4],
     insn ''ORRS'' 0xFFF0C210 0x25C04000 OPCODE_TRAP [op_v 0 4, op_v 5 4],
     insn ''MOVT'' 0xFFFF8FE0 0xC04C03E0 OPCODE_TRAP [op_x 0 5, op_imm 12 3],
     insn ''MOVT'' 0xFFFF8FE0 0xC04E03E0 OPCODE_TRAP [op_x 0 5, op_imm 12 3],
     insn ''MOVZ'' 0xFF800000 0xD2800000 OPCODE_MOV [op_x 0 5, op_imm 5 16, op_imm 21 2],
     insn ''MOVZ'' 0xFFC00000 0x52800000 OPCODE_MOV [op_w 0 5, op_imm 5 16, op_imm 21 2],
     insn ''MRRS'' 0xFFF00000 0xD5700000 OPCODE_TRAP [op_x 0 5, op_imm 5 3, op_imm 16 3, op_imm 19 1],
     insn ''MRS'' 0xFFF00000 0xD5300000 OPCODE_TRAP [op_x 0 5, op_imm 5 3, op_imm 16 3, op_imm 19 1],
     insn ''MSB'' 0xFF20E000 0x0400E000 OPCODE_TRAP [op_v 0 5, op_v 5 5, op_v 10 3, op_v 16 5],
     insn ''MSR'' 0xFFF8F01F 0xD500401F OPCODE_TRAP [op_imm 8 4],
     insn ''MSR'' 0xFFF00000 0xD5100000 OPCODE_TRAP [op_x 0 5, op_imm 5 3, op_imm 16 3, op_imm 19 1]]"

definition arm64_instructions_2160 :: "bal_decoder_instruction_metadata_t list" where
  "arm64_instructions_2160 = [
     insn ''MSRR'' 0xFFF00000 0xD5500000 OPCODE_TRAP [op_x 0 5, op_imm 5 3, op_imm 16 3, op_imm 19 1],
     insn ''MSUB'' 0xFFE08000 0x1B008000 OPCODE_TRAP [op_w 0 5, op_w 5 5, op_w 10 5, op_w 16 5],
     insn ''MSUB'' 0xFFE08000 0x9B008000 OPCODE_TRAP [op_x 0 5, op_x 5 5, op_x 10 5, op_x 16 5],
     insn ''MUL'' 0xBF00F400 0x0F008000 OPCODE_MUL [op_v 0 5, op_v 5 5, op_v 16 4, op_v 20 1, op_v 22 2],
     insn ''MUL'' 0xBF20FC00 0x0E209C00 OPCODE_MUL [op_v 0 5, op_v 5 5, op_v 16 5],
     insn ''MADD'' 0xFFE0FC00 0x1B007C00 OPCODE_MUL [op_w 0 5, op_w 5 5, op_w 16 5],
     insn ''MADD'' 0xFFE0FC00 0x9B007C00 OPCODE_MUL [op_x 0 5, op_x 5 5, op_x 16 5],
     insn ''MUL'' 0xFF3FE000 0x04100000 OPCODE_MUL [op_v 0 5, op_v 5 5, op_v 10 3],
     insn ''MUL'' 0xFF3FE000 0x2530C000 OPCODE_MUL [op_v 0 5, op_imm 5 8],
     insn ''MUL'' 0xFF20FC00 0x04206000 OPCODE_MUL [op_v 0 5, op_v 5 5, op_v 16 5],
     insn ''MUL'' 0xFFA0FC00 0x4420F800 OPCODE_MUL [op_v 0 5, op_v 5 5, op_v 16 3, op_imm 19 2, op_imm 22 1],
     insn ''MUL'' 0xFFE0FC00 0x44A0F800 OPCODE_MUL [op_v 0 5, op_v 5 5, op_v 16 3, op_imm 19 2]]"

definition arm64_instructions_2172 :: "bal_decoder_instruction_metadata_t list" where
  "arm64_instructions_2172 = [
     insn ''MUL'' 0xFFE0FC00 0x44E0F800 OPCODE_MUL [op_v 0 5, op_v 5 5, op_v 16 4, op_imm 20 1],
     insn ''NOT'' 0xBFFFFC00 0x2E205800 OPCODE_TRAP [op_v 0 5, op_v 5 5],
     insn ''ORN'' 0xFF2003E0 0x2A2003E0 OPCODE_TRAP [op_w 0 5, op_imm 10 6, op_w 16 5, op_imm 22 2],
     insn ''ORN'' 0xFF2003E0 0xAA2003E0 OPCODE_TRAP [op_x 0 5, op_imm 10 6, op_x 16 5, op_imm 22 2],
     insn ''MVNI'' 0xBFF89C00 0x2F000400 OPCODE_TRAP [op_v 0 5, op_imm 5 1, op_imm 6 1, op_imm 7 1, op_imm 8 1],
     insn ''MVNI'' 0xBFF8DC00 0x2F008400 OPCODE_TRAP [op_v 0 5, op_imm 5 1, op_imm 6 1, op_imm 7 1, op_imm 8 1],
     insn ''MVNI'' 0xBFF8EC00 0x2F00C400 OPCODE_TRAP [op_v 0 5, op_imm 5 1, op_imm 6 1, op_imm 7 1, op_imm 8 1],
     insn ''NAND'' 0xFFF0C210 0x25804210 OPCODE_TRAP [op_v 0 4, op_v 5 4, op_v 10 4, op_v 16 4],
     insn ''NANDS'' 0xFFF0C210 0x25C04210 OPCODE_TRAP [op_v 0 4, op_v 5 4, op_v 10 4, op_v 16 4],
     insn ''NBSL'' 0xFFE0FC00 0x04E03C00 OPCODE_TRAP [op_v 0 5, op_v 5 5, op_v 16 5],
     insn ''NEG'' 0xBF3FFC00 0x2E20B800 OPCODE_TRAP [op_v 0 5, op_v 5 5],
     insn ''NEG'' 0xFF3FFC00 0x7E20B800 OPCODE_TRAP [op_v 0 5, op_v 5 5]]"

definition arm64_instructions_2184 :: "bal_decoder_instruction_metadata_t list" where
  "arm64_instructions_2184 = [
     insn ''SUB'' 0xFF2003E0 0x4B0003E0 OPCODE_SUB [op_w 0 5, op_imm 10 6, op_w 16 5, op_imm 22 2],
     insn ''SUB'' 0xFF2003E0 0xCB0003E0 OPCODE_SUB [op_x 0 5, op_imm 10 6, op_x 16 5, op_imm 22 2],
     insn ''NEG'' 0xFF3FE000 0x0417A000 OPCODE_TRAP [op_v 0 5, op_v 5 5, op_v 10 3],
     insn ''SBC'' 0xFFE0FFE0 0x5A0003E0 OPCODE_TRAP [op_w 0 5, op_w 16 5],
     insn ''SBC'' 0xFFE0FFE0 0xDA0003E0 OPCODE_TRAP [op_x 0 5, op_x 16 5],
     insn ''SBCS'' 0xFFE0FFE0 0x7A0003E0 OPCODE_TRAP [op_w 0 5, op_w 16 5],
     insn ''SBCS'' 0xFFE0FFE0 0xFA0003E0 OPCODE_TRAP [op_x 0 5, op_x 16 5],
     insn ''NMATCH'' 0xFF20E010 0x45208010 OPCODE_TRAP [op_v 0 4, op_v 5 5, op_v 10 3, op_v 16 5],
     insn ''NOP'' 0xFFFFFFFF 0xD503201F OPCODE_TRAP [],
     insn ''NOR'' 0xFFF0C210 0x25804200 OPCODE_TRAP [op_v 0 4, op_v 5 4, op_v 10 4, op_v 16 4],
     insn ''NORS'' 0xFFF0C210 0x25C04200 OPCODE_TRAP [op_v 0 4, op_v 5 4, op_v 10 4, op_v 16 4],
     insn ''NOT'' 0xBFFFFC00 0x2E205800 OPCODE_TRAP [op_v 0 5, op_v 5 5]]"

definition arm64_instructions_2196 :: "bal_decoder_instruction_metadata_t list" where
  "arm64_instructions_2196 = [
     insn ''EOR'' 0xFFF0C210 0x25004200 OPCODE_XOR [op_v 0 4, op_v 5 4, op_v 10 4],
     insn ''NOT'' 0xFF3FE000 0x041EA000 OPCODE_TRAP [op_v 0 5, op_v 5 5, op_v 10 3],
     insn ''EORS'' 0xFFF0C210 0x25404200 OPCODE_XOR [op_v 0 4, op_v 5 4, op_v 10 4],
     insn ''ORN'' 0xBFE0FC00 0x0EE01C00 OPCODE_TRAP [op_v 0 5, op_v 5 5, op_v 16 5],
     insn ''ORN'' 0xFF200000 0x2A200000 OPCODE_TRAP [op_w 0 5, op_w 5 5, op_imm 10 6, op_w 16 5, op_imm 22 2],
     insn ''ORN'' 0xFF200000 0xAA200000 OPCODE_TRAP [op_x 0 5, op_x 5 5, op_imm 10 6, op_x 16 5, op_imm 22 2],
     insn ''ORR'' 0xFFFC0000 0x05000000 OPCODE_MOV [op_v 0 5],
     insn ''ORN'' 0xFFF0C210 0x25804010 OPCODE_TRAP [op_v 0 4, op_v 5 4, op_v 10 4, op_v 16 4],
     insn ''ORNS'' 0xFFF0C210 0x25C04010 OPCODE_TRAP [op_v 0 4, op_v 5 4, op_v 10 4, op_v 16 4],
     insn ''ORQV'' 0xFF3FE000 0x041C2000 OPCODE_TRAP [op_v 0 5, op_v 5 5, op_v 10 3],
     insn ''ORR'' 0xBFF89C00 0x0F001400 OPCODE_MOV [op_v 0 5, op_imm 5 1, op_imm 6 1, op_imm 7 1, op_imm 8 1],
     insn ''ORR'' 0xBFF8DC00 0x0F009400 OPCODE_MOV [op_v 0 5, op_imm 5 1, op_imm 6 1, op_imm 7 1, op_imm 8 1]]"

definition arm64_instructions_2208 :: "bal_decoder_instruction_metadata_t list" where
  "arm64_instructions_2208 = [
     insn ''ORR'' 0xBFE0FC00 0x0EA01C00 OPCODE_MOV [op_v 0 5, op_v 5 5, op_v 16 5],
     insn ''ORR'' 0xFF800000 0xB2000000 OPCODE_MOV [op_x 0 5, op_x 5 5, op_imm 10 6, op_imm 16 6, op_imm 22 1],
     insn ''ORR'' 0xFFC00000 0x32000000 OPCODE_MOV [op_w 0 5, op_w 5 5, op_imm 10 6, op_imm 16 6],
     insn ''ORR'' 0xFF200000 0x2A000000 OPCODE_MOV [op_w 0 5, op_w 5 5, op_imm 10 6, op_w 16 5, op_imm 22 2],
     insn ''ORR'' 0xFF200000 0xAA000000 OPCODE_MOV [op_x 0 5, op_x 5 5, op_imm 10 6, op_x 16 5, op_imm 22 2],
     insn ''ORR'' 0xFFF0C210 0x25804000 OPCODE_MOV [op_v 0 4, op_v 5 4, op_v 10 4, op_v 16 4],
     insn ''ORR'' 0xFF3FE000 0x04180000 OPCODE_MOV [op_v 0 5, op_v 5 5, op_v 10 3],
     insn ''ORR'' 0xFFFC0000 0x05000000 OPCODE_MOV [op_v 0 5],
     insn ''ORR'' 0xFFE0FC00 0x04603000 OPCODE_MOV [op_v 0 5, op_v 5 5, op_v 16 5],
     insn ''ORRS'' 0xFFF0C210 0x25C04000 OPCODE_TRAP [op_v 0 4, op_v 5 4, op_v 10 4, op_v 16 4],
     insn ''ORV'' 0xFF3FE000 0x04182000 OPCODE_TRAP [op_v 0 5, op_v 5 5, op_v 10 3],
     insn ''PACDA'' 0xFFFFFC00 0xDAC10800 OPCODE_TRAP [op_x 0 5, op_x 5 5]]"

definition arm64_instructions_2220 :: "bal_decoder_instruction_metadata_t list" where
  "arm64_instructions_2220 = [
     insn ''PACDZA'' 0xFFFFFFE0 0xDAC12BE0 OPCODE_TRAP [op_x 0 5],
     insn ''PACDB'' 0xFFFFFC00 0xDAC10C00 OPCODE_TRAP [op_x 0 5, op_x 5 5],
     insn ''PACDZB'' 0xFFFFFFE0 0xDAC12FE0 OPCODE_TRAP [op_x 0 5],
     insn ''PACGA'' 0xFFE0FC00 0x9AC03000 OPCODE_TRAP [op_x 0 5, op_x 5 5, op_x 16 5],
     insn ''PACIA'' 0xFFFFFC00 0xDAC10000 OPCODE_TRAP [op_x 0 5, op_x 5 5],
     insn ''PACIA1716'' 0xFFFFFFFF 0xD503211F OPCODE_TRAP [],
     insn ''PACIASP'' 0xFFFFFFFF 0xD503233F OPCODE_TRAP [],
     insn ''PACIAZ'' 0xFFFFFFFF 0xD503231F OPCODE_TRAP [],
     insn ''PACIZA'' 0xFFFFFFE0 0xDAC123E0 OPCODE_TRAP [op_x 0 5],
     insn ''PACIB'' 0xFFFFFC00 0xDAC10400 OPCODE_TRAP [op_x 0 5, op_x 5 5],
     insn ''PACIB1716'' 0xFFFFFFFF 0xD503215F OPCODE_TRAP [],
     insn ''PACIBSP'' 0xFFFFFFFF 0xD503237F OPCODE_TRAP []]"

definition arm64_instructions_2232 :: "bal_decoder_instruction_metadata_t list" where
  "arm64_instructions_2232 = [
     insn ''PACIBZ'' 0xFFFFFFFF 0xD503235F OPCODE_TRAP [],
     insn ''PACIZB'' 0xFFFFFFE0 0xDAC127E0 OPCODE_TRAP [op_x 0 5],
     insn ''PEXT'' 0xFF3FFC10 0x25207010 OPCODE_TRAP [op_v 0 4, op_v 5 3, op_imm 8 2],
     insn ''PEXT'' 0xFF3FFE10 0x25207410 OPCODE_TRAP [op_v 0 4, op_v 5 3, op_imm 8 1],
     insn ''PFALSE'' 0xFFFFFFF0 0x2518E400 OPCODE_TRAP [op_v 0 4],
     insn ''PFIRST'' 0xFFFFFE10 0x2558C000 OPCODE_TRAP [op_v 0 4, op_v 5 4],
     insn ''PMOV'' 0xFFB9FC10 0x05A83800 OPCODE_TRAP [op_v 0 4, op_v 5 5, op_imm 17 2, op_imm 22 1],
     insn ''PMOV'' 0xFFF9FC10 0x05683800 OPCODE_TRAP [op_v 0 4, op_v 5 5, op_imm 17 2],
     insn ''PMOV'' 0xFFFDFC10 0x052C3800 OPCODE_TRAP [op_v 0 4, op_v 5 5, op_imm 17 1],
     insn ''PMOV'' 0xFFFFFC10 0x052A3800 OPCODE_TRAP [op_v 0 4, op_v 5 5],
     insn ''PMOV'' 0xFFB9FE00 0x05A93800 OPCODE_TRAP [op_v 0 5, op_v 5 4, op_imm 17 2, op_imm 22 1],
     insn ''PMOV'' 0xFFF9FE00 0x05693800 OPCODE_TRAP [op_v 0 5, op_v 5 4, op_imm 17 2]]"

definition arm64_instructions_2244 :: "bal_decoder_instruction_metadata_t list" where
  "arm64_instructions_2244 = [
     insn ''PMOV'' 0xFFFDFE00 0x052D3800 OPCODE_TRAP [op_v 0 5, op_v 5 4, op_imm 17 1],
     insn ''PMOV'' 0xFFFFFE00 0x052B3800 OPCODE_TRAP [op_v 0 5, op_v 5 4],
     insn ''PMUL'' 0xBF20FC00 0x2E209C00 OPCODE_TRAP [op_v 0 5, op_v 5 5, op_v 16 5],
     insn ''PMUL'' 0xFFE0FC00 0x04206400 OPCODE_TRAP [op_v 0 5, op_v 5 5, op_v 16 5],
     insn ''PMULL'' 0xBF20FC00 0x0E20E000 OPCODE_TRAP [op_v 0 5, op_v 5 5, op_v 16 5, op_cond 30 1],
     insn ''PMULLB'' 0xFF38FC00 0x45006800 OPCODE_TRAP [op_v 0 5, op_v 5 5, op_v 16 5],
     insn ''PMULLB'' 0xFFE0FC00 0x45006800 OPCODE_TRAP [op_v 0 5, op_v 5 5, op_v 16 5],
     insn ''PMULLT'' 0xFF38FC00 0x45006C00 OPCODE_TRAP [op_v 0 5, op_v 5 5, op_v 16 5],
     insn ''PMULLT'' 0xFFE0FC00 0x45006C00 OPCODE_TRAP [op_v 0 5, op_v 5 5, op_v 16 5],
     insn ''PNEXT'' 0xFF3FFE10 0x2519C400 OPCODE_TRAP [op_v 0 4, op_v 5 4],
     insn ''PRFB'' 0xFFE0E010 0x8400E000 OPCODE_TRAP [op_v 5 5, op_v 10 3, op_imm 16 5],
     insn ''PRFB'' 0xFFE0E010 0xC400E000 OPCODE_TRAP [op_v 5 5, op_v 10 3, op_imm 16 5]]"

definition arm64_instructions_2256 :: "bal_decoder_instruction_metadata_t list" where
  "arm64_instructions_2256 = [
     insn ''PRFB'' 0xFFC0E010 0x85C00000 OPCODE_TRAP [op_x 5 5, op_v 10 3, op_imm 16 6],
     insn ''PRFB'' 0xFFE0E010 0x8400C000 OPCODE_TRAP [op_x 5 5, op_v 10 3, op_imm 16 5],
     insn ''PRFB'' 0xFFA0E010 0x84200000 OPCODE_TRAP [op_x 5 5, op_v 10 3, op_imm 16 5, op_imm 22 1],
     insn ''PRFB'' 0xFFA0E010 0xC4200000 OPCODE_TRAP [op_x 5 5, op_v 10 3, op_imm 16 5, op_imm 22 1],
     insn ''PRFB'' 0xFFE0E010 0xC4608000 OPCODE_TRAP [op_x 5 5, op_v 10 3, op_imm 16 5],
     insn ''PRFD'' 0xFFE0E010 0x8580E000 OPCODE_TRAP [op_v 5 5, op_v 10 3, op_imm 16 5],
     insn ''PRFD'' 0xFFE0E010 0xC580E000 OPCODE_TRAP [op_v 5 5, op_v 10 3, op_imm 16 5],
     insn ''PRFD'' 0xFFC0E010 0x85C06000 OPCODE_TRAP [op_x 5 5, op_v 10 3, op_imm 16 6],
     insn ''PRFD'' 0xFFE0E010 0x8580C000 OPCODE_TRAP [op_x 5 5, op_v 10 3, op_imm 16 5],
     insn ''PRFD'' 0xFFA0E010 0x84206000 OPCODE_TRAP [op_x 5 5, op_v 10 3, op_imm 16 5, op_imm 22 1],
     insn ''PRFD'' 0xFFA0E010 0xC4206000 OPCODE_TRAP [op_x 5 5, op_v 10 3, op_imm 16 5, op_imm 22 1],
     insn ''PRFD'' 0xFFE0E010 0xC460E000 OPCODE_TRAP [op_x 5 5, op_v 10 3, op_imm 16 5]]"

definition arm64_instructions_2268 :: "bal_decoder_instruction_metadata_t list" where
  "arm64_instructions_2268 = [
     insn ''PRFH'' 0xFFE0E010 0x8480E000 OPCODE_TRAP [op_v 5 5, op_v 10 3, op_imm 16 5],
     insn ''PRFH'' 0xFFE0E010 0xC480E000 OPCODE_TRAP [op_v 5 5, op_v 10 3, op_imm 16 5],
     insn ''PRFH'' 0xFFC0E010 0x85C02000 OPCODE_TRAP [op_x 5 5, op_v 10 3, op_imm 16 6],
     insn ''PRFH'' 0xFFE0E010 0x8480C000 OPCODE_TRAP [op_x 5 5, op_v 10 3, op_imm 16 5],
     insn ''PRFH'' 0xFFA0E010 0x84202000 OPCODE_TRAP [op_x 5 5, op_v 10 3, op_imm 16 5, op_imm 22 1],
     insn ''PRFH'' 0xFFA0E010 0xC4202000 OPCODE_TRAP [op_x 5 5, op_v 10 3, op_imm 16 5, op_imm 22 1],
     insn ''PRFH'' 0xFFE0E010 0xC460A000 OPCODE_TRAP [op_x 5 5, op_v 10 3, op_imm 16 5],
     insn ''PRFM'' 0xFFC00000 0xF9800000 OPCODE_TRAP [op_imm 0 5, op_x 5 5, op_imm 10 12],
     insn ''PRFM'' 0xFF000000 0xD8000000 OPCODE_TRAP [op_imm 0 5, op_imm 5 19],
     insn ''PRFUM'' 0xFFE00C00 0xF8800000 OPCODE_TRAP [op_imm 0 5, op_x 5 5, op_imm 12 9],
     insn ''PRFW'' 0xFFE0E010 0x8500E000 OPCODE_TRAP [op_v 5 5, op_v 10 3, op_imm 16 5],
     insn ''PRFW'' 0xFFE0E010 0xC500E000 OPCODE_TRAP [op_v 5 5, op_v 10 3, op_imm 16 5]]"

definition arm64_instructions_2280 :: "bal_decoder_instruction_metadata_t list" where
  "arm64_instructions_2280 = [
     insn ''PRFW'' 0xFFC0E010 0x85C04000 OPCODE_TRAP [op_x 5 5, op_v 10 3, op_imm 16 6],
     insn ''PRFW'' 0xFFE0E010 0x8500C000 OPCODE_TRAP [op_x 5 5, op_v 10 3, op_imm 16 5],
     insn ''PRFW'' 0xFFA0E010 0x84204000 OPCODE_TRAP [op_x 5 5, op_v 10 3, op_imm 16 5, op_imm 22 1],
     insn ''PRFW'' 0xFFA0E010 0xC4204000 OPCODE_TRAP [op_x 5 5, op_v 10 3, op_imm 16 5, op_imm 22 1],
     insn ''PRFW'' 0xFFE0E010 0xC460C000 OPCODE_TRAP [op_x 5 5, op_v 10 3, op_imm 16 5],
     insn ''PSB'' 0xFFFFFFFF 0xD503223F OPCODE_TRAP [],
     insn ''PSEL'' 0xFF20C210 0x25204000 OPCODE_TRAP [op_v 0 4, op_v 5 4, op_v 10 4, op_w 16 2, op_imm 18 3],
     insn ''DSB'' 0xFFFFFFFF 0xD503349F OPCODE_TRAP [],
     insn ''PTEST'' 0xFFFFC21F 0x2550C000 OPCODE_TRAP [op_v 5 4, op_v 10 4],
     insn ''PTRUE'' 0xFF3FFC10 0x2518E000 OPCODE_TRAP [op_v 0 4, op_imm 5 5],
     insn ''PTRUE'' 0xFF3FFFF8 0x25207810 OPCODE_TRAP [op_v 0 3],
     insn ''PTRUES'' 0xFF3FFC10 0x2519E000 OPCODE_TRAP [op_v 0 4, op_imm 5 5]]"

definition arm64_instructions_2292 :: "bal_decoder_instruction_metadata_t list" where
  "arm64_instructions_2292 = [
     insn ''PUNPKHI'' 0xFFFFFE10 0x05314000 OPCODE_TRAP [op_v 0 4, op_v 5 4],
     insn ''PUNPKLO'' 0xFFFFFE10 0x05304000 OPCODE_TRAP [op_v 0 4, op_v 5 4],
     insn ''RADDHN'' 0xBF20FC00 0x2E204000 OPCODE_TRAP [op_v 0 5, op_v 5 5, op_v 16 5, op_cond 30 1],
     insn ''RADDHNB'' 0xFF20FC00 0x45206800 OPCODE_TRAP [op_v 0 5, op_v 5 5, op_v 16 5],
     insn ''RADDHNT'' 0xFF20FC00 0x45206C00 OPCODE_TRAP [op_v 0 5, op_v 5 5, op_v 16 5],
     insn ''RAX1'' 0xFFE0FC00 0xCE608C00 OPCODE_TRAP [op_v 0 5, op_v 5 5, op_v 16 5],
     insn ''RAX1'' 0xFFE0FC00 0x4520F400 OPCODE_TRAP [op_v 0 5, op_v 5 5, op_v 16 5],
     insn ''RBIT'' 0xBFFFFC00 0x2E605800 OPCODE_TRAP [op_v 0 5, op_v 5 5],
     insn ''RBIT'' 0xFFFFFC00 0x5AC00000 OPCODE_TRAP [op_w 0 5, op_w 5 5],
     insn ''RBIT'' 0xFFFFFC00 0xDAC00000 OPCODE_TRAP [op_x 0 5, op_x 5 5],
     insn ''RBIT'' 0xFF3FE000 0x05278000 OPCODE_TRAP [op_v 0 5, op_v 5 5, op_v 10 3],
     insn ''RCWCAS'' 0xFFE0FC00 0x19200800 OPCODE_TRAP [op_x 0 5, op_x 5 5, op_x 16 5]]"

definition arm64_instructions_2304 :: "bal_decoder_instruction_metadata_t list" where
  "arm64_instructions_2304 = [
     insn ''RCWCASA'' 0xFFE0FC00 0x19A00800 OPCODE_TRAP [op_x 0 5, op_x 5 5, op_x 16 5],
     insn ''RCWCASAL'' 0xFFE0FC00 0x19E00800 OPCODE_TRAP [op_x 0 5, op_x 5 5, op_x 16 5],
     insn ''RCWCASL'' 0xFFE0FC00 0x19600800 OPCODE_TRAP [op_x 0 5, op_x 5 5, op_x 16 5],
     insn ''RCWCASP'' 0xFFE0FC00 0x19200C00 OPCODE_TRAP [op_x 0 5, op_x 5 5, op_x 16 5],
     insn ''RCWCASPA'' 0xFFE0FC00 0x19A00C00 OPCODE_TRAP [op_x 0 5, op_x 5 5, op_x 16 5],
     insn ''RCWCASPAL'' 0xFFE0FC00 0x19E00C00 OPCODE_TRAP [op_x 0 5, op_x 5 5, op_x 16 5],
     insn ''RCWCASPL'' 0xFFE0FC00 0x19600C00 OPCODE_TRAP [op_x 0 5, op_x 5 5, op_x 16 5],
     insn ''RCWCLR'' 0xFFE0FC00 0x38209000 OPCODE_TRAP [op_x 0 5, op_x 5 5, op_x 16 5],
     insn ''RCWCLRA'' 0xFFE0FC00 0x38A09000 OPCODE_TRAP [op_x 0 5, op_x 5 5, op_x 16 5],
     insn ''RCWCLRAL'' 0xFFE0FC00 0x38E09000 OPCODE_TRAP [op_x 0 5, op_x 5 5, op_x 16 5],
     insn ''RCWCLRL'' 0xFFE0FC00 0x38609000 OPCODE_TRAP [op_x 0 5, op_x 5 5, op_x 16 5],
     insn ''RCWCLRP'' 0xFFE0FC00 0x19209000 OPCODE_TRAP [op_x 0 5, op_x 5 5, op_x 16 5]]"

definition arm64_instructions_2316 :: "bal_decoder_instruction_metadata_t list" where
  "arm64_instructions_2316 = [
     insn ''RCWCLRPA'' 0xFFE0FC00 0x19A09000 OPCODE_TRAP [op_x 0 5, op_x 5 5, op_x 16 5],
     insn ''RCWCLRPAL'' 0xFFE0FC00 0x19E09000 OPCODE_TRAP [op_x 0 5, op_x 5 5, op_x 16 5],
     insn ''RCWCLRPL'' 0xFFE0FC00 0x19609000 OPCODE_TRAP [op_x 0 5, op_x 5 5, op_x 16 5],
     insn ''RCWSCAS'' 0xFFE0FC00 0x59200800 OPCODE_TRAP [op_x 0 5, op_x 5 5, op_x 16 5],
     insn ''RCWSCASA'' 0xFFE0FC00 0x59A00800 OPCODE_TRAP [op_x 0 5, op_x 5 5, op_x 16 5],
     insn ''RCWSCASAL'' 0xFFE0FC00 0x59E00800 OPCODE_TRAP [op_x 0 5, op_x 5 5, op_x 16 5],
     insn ''RCWSCASL'' 0xFFE0FC00 0x59600800 OPCODE_TRAP [op_x 0 5, op_x 5 5, op_x 16 5],
     insn ''RCWSCASP'' 0xFFE0FC00 0x59200C00 OPCODE_TRAP [op_x 0 5, op_x 5 5, op_x 16 5],
     insn ''RCWSCASPA'' 0xFFE0FC00 0x59A00C00 OPCODE_TRAP [op_x 0 5, op_x 5 5, op_x 16 5],
     insn ''RCWSCASPAL'' 0xFFE0FC00 0x59E00C00 OPCODE_TRAP [op_x 0 5, op_x 5 5, op_x 16 5],
     insn ''RCWSCASPL'' 0xFFE0FC00 0x59600C00 OPCODE_TRAP [op_x 0 5, op_x 5 5, op_x 16 5],
     insn ''RCWSCLR'' 0xFFE0FC00 0x78209000 OPCODE_TRAP [op_x 0 5, op_x 5 5, op_x 16 5]]"

definition arm64_instructions_2328 :: "bal_decoder_instruction_metadata_t list" where
  "arm64_instructions_2328 = [
     insn ''RCWSCLRA'' 0xFFE0FC00 0x78A09000 OPCODE_TRAP [op_x 0 5, op_x 5 5, op_x 16 5],
     insn ''RCWSCLRAL'' 0xFFE0FC00 0x78E09000 OPCODE_TRAP [op_x 0 5, op_x 5 5, op_x 16 5],
     insn ''RCWSCLRL'' 0xFFE0FC00 0x78609000 OPCODE_TRAP [op_x 0 5, op_x 5 5, op_x 16 5],
     insn ''RCWSCLRP'' 0xFFE0FC00 0x59209000 OPCODE_TRAP [op_x 0 5, op_x 5 5, op_x 16 5],
     insn ''RCWSCLRPA'' 0xFFE0FC00 0x59A09000 OPCODE_TRAP [op_x 0 5, op_x 5 5, op_x 16 5],
     insn ''RCWSCLRPAL'' 0xFFE0FC00 0x59E09000 OPCODE_TRAP [op_x 0 5, op_x 5 5, op_x 16 5],
     insn ''RCWSCLRPL'' 0xFFE0FC00 0x59609000 OPCODE_TRAP [op_x 0 5, op_x 5 5, op_x 16 5],
     insn ''RCWSET'' 0xFFE0FC00 0x3820B000 OPCODE_TRAP [op_x 0 5, op_x 5 5, op_x 16 5],
     insn ''RCWSETA'' 0xFFE0FC00 0x38A0B000 OPCODE_TRAP [op_x 0 5, op_x 5 5, op_x 16 5],
     insn ''RCWSETAL'' 0xFFE0FC00 0x38E0B000 OPCODE_TRAP [op_x 0 5, op_x 5 5, op_x 16 5],
     insn ''RCWSETL'' 0xFFE0FC00 0x3860B000 OPCODE_TRAP [op_x 0 5, op_x 5 5, op_x 16 5],
     insn ''RCWSETP'' 0xFFE0FC00 0x1920B000 OPCODE_TRAP [op_x 0 5, op_x 5 5, op_x 16 5]]"

definition arm64_instructions_2340 :: "bal_decoder_instruction_metadata_t list" where
  "arm64_instructions_2340 = [
     insn ''RCWSETPA'' 0xFFE0FC00 0x19A0B000 OPCODE_TRAP [op_x 0 5, op_x 5 5, op_x 16 5],
     insn ''RCWSETPAL'' 0xFFE0FC00 0x19E0B000 OPCODE_TRAP [op_x 0 5, op_x 5 5, op_x 16 5],
     insn ''RCWSETPL'' 0xFFE0FC00 0x1960B000 OPCODE_TRAP [op_x 0 5, op_x 5 5, op_x 16 5],
     insn ''RCWSSET'' 0xFFE0FC00 0x7820B000 OPCODE_TRAP [op_x 0 5, op_x 5 5, op_x 16 5],
     insn ''RCWSSETA'' 0xFFE0FC00 0x78A0B000 OPCODE_TRAP [op_x 0 5, op_x 5 5, op_x 16 5],
     insn ''RCWSSETAL'' 0xFFE0FC00 0x78E0B000 OPCODE_TRAP [op_x 0 5, op_x 5 5, op_x 16 5],
     insn ''RCWSSETL'' 0xFFE0FC00 0x7860B000 OPCODE_TRAP [op_x 0 5, op_x 5 5, op_x 16 5],
     insn ''RCWSSETP'' 0xFFE0FC00 0x5920B000 OPCODE_TRAP [op_x 0 5, op_x 5 5, op_x 16 5],
     insn ''RCWSSETPA'' 0xFFE0FC00 0x59A0B000 OPCODE_TRAP [op_x 0 5, op_x 5 5, op_x 16 5],
     insn ''RCWSSETPAL'' 0xFFE0FC00 0x59E0B000 OPCODE_TRAP [op_x 0 5, op_x 5 5, op_x 16 5],
     insn ''RCWSSETPL'' 0xFFE0FC00 0x5960B000 OPCODE_TRAP [op_x 0 5, op_x 5 5, op_x 16 5],
     insn ''RCWSSWP'' 0xFFE0FC00 0x7820A000 OPCODE_TRAP [op_x 0 5, op_x 5 5, op_x 16 5]]"

definition arm64_instructions_2352 :: "bal_decoder_instruction_metadata_t list" where
  "arm64_instructions_2352 = [
     insn ''RCWSSWPA'' 0xFFE0FC00 0x78A0A000 OPCODE_TRAP [op_x 0 5, op_x 5 5, op_x 16 5],
     insn ''RCWSSWPAL'' 0xFFE0FC00 0x78E0A000 OPCODE_TRAP [op_x 0 5, op_x 5 5, op_x 16 5],
     insn ''RCWSSWPL'' 0xFFE0FC00 0x7860A000 OPCODE_TRAP [op_x 0 5, op_x 5 5, op_x 16 5],
     insn ''RCWSSWPP'' 0xFFE0FC00 0x5920A000 OPCODE_TRAP [op_x 0 5, op_x 5 5, op_x 16 5],
     insn ''RCWSSWPPA'' 0xFFE0FC00 0x59A0A000 OPCODE_TRAP [op_x 0 5, op_x 5 5, op_x 16 5],
     insn ''RCWSSWPPAL'' 0xFFE0FC00 0x59E0A000 OPCODE_TRAP [op_x 0 5, op_x 5 5, op_x 16 5],
     insn ''RCWSSWPPL'' 0xFFE0FC00 0x5960A000 OPCODE_TRAP [op_x 0 5, op_x 5 5, op_x 16 5],
     insn ''RCWSWP'' 0xFFE0FC00 0x3820A000 OPCODE_TRAP [op_x 0 5, op_x 5 5, op_x 16 5],
     insn ''RCWSWPA'' 0xFFE0FC00 0x38A0A000 OPCODE_TRAP [op_x 0 5, op_x 5 5, op_x 16 5],
     insn ''RCWSWPAL'' 0xFFE0FC00 0x38E0A000 OPCODE_TRAP [op_x 0 5, op_x 5 5, op_x 16 5],
     insn ''RCWSWPL'' 0xFFE0FC00 0x3860A000 OPCODE_TRAP [op_x 0 5, op_x 5 5, op_x 16 5],
     insn ''RCWSWPP'' 0xFFE0FC00 0x1920A000 OPCODE_TRAP [op_x 0 5, op_x 5 5, op_x 16 5]]"

definition arm64_instructions_2364 :: "bal_decoder_instruction_metadata_t list" where
  "arm64_instructions_2364 = [
     insn ''RCWSWPPA'' 0xFFE0FC00 0x19A0A000 OPCODE_TRAP [op_x 0 5, op_x 5 5, op_x 16 5],
     insn ''RCWSWPPAL'' 0xFFE0FC00 0x19E0A000 OPCODE_TRAP [op_x 0 5, op_x 5 5, op_x 16 5],
     insn ''RCWSWPPL'' 0xFFE0FC00 0x1960A000 OPCODE_TRAP [op_x 0 5, op_x 5 5, op_x 16 5],
     insn ''RDFFR'' 0xFFFFFFF0 0x2519F000 OPCODE_TRAP [op_v 0 4],
     insn ''RDFFR'' 0xFFFFFE10 0x2518F000 OPCODE_TRAP [op_v 0 4, op_v 5 4],
     insn ''RDFFRS'' 0xFFFFFE10 0x2558F000 OPCODE_TRAP [op_v 0 4, op_v 5 4],
     insn ''RDSVL'' 0xFFFFF800 0x04BF5800 OPCODE_TRAP [op_x 0 5, op_imm 5 6],
     insn ''RDVL'' 0xFFFFF800 0x04BF5000 OPCODE_TRAP [op_x 0 5, op_imm 5 6],
     insn ''RET'' 0xFFFFFC1F 0xD65F0000 OPCODE_RETURN [op_x 5 5],
     insn ''RETAA'' 0xFFFFFFFF 0xD65F0BFF OPCODE_TRAP [],
     insn ''RETAB'' 0xFFFFFFFF 0xD65F0FFF OPCODE_TRAP [],
     insn ''REV'' 0xFFFFFC00 0x5AC00800 OPCODE_TRAP [op_w 0 5, op_w 5 5]]"

definition arm64_instructions_2376 :: "bal_decoder_instruction_metadata_t list" where
  "arm64_instructions_2376 = [
     insn ''REV'' 0xFFFFFC00 0xDAC00C00 OPCODE_TRAP [op_x 0 5, op_x 5 5],
     insn ''REV16'' 0xBF3FFC00 0x0E201800 OPCODE_TRAP [op_v 0 5, op_v 5 5],
     insn ''REV16'' 0xFFFFFC00 0x5AC00400 OPCODE_TRAP [op_w 0 5, op_w 5 5],
     insn ''REV16'' 0xFFFFFC00 0xDAC00400 OPCODE_TRAP [op_x 0 5, op_x 5 5],
     insn ''REV32'' 0xBF3FFC00 0x2E200800 OPCODE_TRAP [op_v 0 5, op_v 5 5],
     insn ''REV32'' 0xFFFFFC00 0xDAC00800 OPCODE_TRAP [op_x 0 5, op_x 5 5],
     insn ''REV64'' 0xBF3FFC00 0x0E200800 OPCODE_TRAP [op_v 0 5, op_v 5 5],
     insn ''REV'' 0xFFFFFC00 0xDAC00C00 OPCODE_TRAP [op_x 0 5, op_x 5 5],
     insn ''REV'' 0xFF3FFE10 0x05344000 OPCODE_TRAP [op_v 0 4, op_v 5 4],
     insn ''REV'' 0xFF3FFC00 0x05383800 OPCODE_TRAP [op_v 0 5, op_v 5 5],
     insn ''REVB'' 0xFF3FE000 0x05248000 OPCODE_TRAP [op_v 0 5, op_v 5 5, op_v 10 3],
     insn ''REVH'' 0xFF3FE000 0x05258000 OPCODE_TRAP [op_v 0 5, op_v 5 5, op_v 10 3]]"

definition arm64_instructions_2388 :: "bal_decoder_instruction_metadata_t list" where
  "arm64_instructions_2388 = [
     insn ''REVW'' 0xFF3FE000 0x05268000 OPCODE_TRAP [op_v 0 5, op_v 5 5, op_v 10 3],
     insn ''REVD'' 0xFFFFE000 0x052E8000 OPCODE_TRAP [op_v 0 5, op_v 5 5, op_v 10 3],
     insn ''RMIF'' 0xFFE07C10 0xBA000400 OPCODE_TRAP [op_imm 0 4, op_x 5 5, op_imm 15 6],
     insn ''EXTR'' 0xFFE00000 0x93C00000 OPCODE_TRAP [op_x 0 5, op_x 5 5, op_imm 10 6, op_x 16 5],
     insn ''EXTR'' 0xFFE08000 0x13800000 OPCODE_TRAP [op_w 0 5, op_w 5 5, op_imm 10 6, op_w 16 5],
     insn ''RORV'' 0xFFE0FC00 0x1AC02C00 OPCODE_TRAP [op_w 0 5, op_w 5 5, op_imm 16 5],
     insn ''RORV'' 0xFFE0FC00 0x9AC02C00 OPCODE_TRAP [op_x 0 5, op_x 5 5, op_imm 16 5],
     insn ''RORV'' 0xFFE0FC00 0x1AC02C00 OPCODE_TRAP [op_w 0 5, op_w 5 5, op_imm 16 5],
     insn ''RORV'' 0xFFE0FC00 0x9AC02C00 OPCODE_TRAP [op_x 0 5, op_x 5 5, op_imm 16 5],
     insn ''RPRFM'' 0xFFE04C18 0xF8A04818 OPCODE_TRAP [op_imm 0 5, op_x 5 5, op_imm 12 1, op_imm 13 3, op_x 16 5],
     insn ''RSHRN'' 0xBF8FFC00 0x0F008C00 OPCODE_TRAP [op_v 0 5, op_v 5 5, op_v 19 4, op_v 30 1, op_cond 30 1],
     insn ''RSHRNB'' 0xFFA0FC00 0x45201800 OPCODE_TRAP [op_v 0 5, op_v 5 5, op_imm 16 3, op_imm 19 2, op_imm 22 1]]"

definition arm64_instructions_2400 :: "bal_decoder_instruction_metadata_t list" where
  "arm64_instructions_2400 = [
     insn ''RSHRNT'' 0xFFA0FC00 0x45201C00 OPCODE_TRAP [op_v 0 5, op_v 5 5, op_imm 16 3, op_imm 19 2, op_imm 22 1],
     insn ''RSUBHN'' 0xBF20FC00 0x2E206000 OPCODE_TRAP [op_v 0 5, op_v 5 5, op_v 16 5, op_cond 30 1],
     insn ''RSUBHNB'' 0xFF20FC00 0x45207800 OPCODE_TRAP [op_v 0 5, op_v 5 5, op_v 16 5],
     insn ''RSUBHNT'' 0xFF20FC00 0x45207C00 OPCODE_TRAP [op_v 0 5, op_v 5 5, op_v 16 5],
     insn ''SABA'' 0xBF20FC00 0x0E207C00 OPCODE_TRAP [op_v 0 5, op_v 5 5, op_v 16 5],
     insn ''SABA'' 0xFF20FC00 0x4500F800 OPCODE_TRAP [op_v 0 5, op_v 5 5, op_v 16 5],
     insn ''SABAL'' 0xBF20FC00 0x0E205000 OPCODE_TRAP [op_v 0 5, op_v 5 5, op_v 16 5, op_cond 30 1],
     insn ''SABALB'' 0xFF20FC00 0x4500C000 OPCODE_TRAP [op_v 0 5, op_v 5 5, op_v 16 5],
     insn ''SABALT'' 0xFF20FC00 0x4500C400 OPCODE_TRAP [op_v 0 5, op_v 5 5, op_v 16 5],
     insn ''SABD'' 0xBF20FC00 0x0E207400 OPCODE_TRAP [op_v 0 5, op_v 5 5, op_v 16 5],
     insn ''SABD'' 0xFF3FE000 0x040C0000 OPCODE_TRAP [op_v 0 5, op_v 5 5, op_v 10 3],
     insn ''SABDL'' 0xBF20FC00 0x0E207000 OPCODE_TRAP [op_v 0 5, op_v 5 5, op_v 16 5, op_cond 30 1]]"

definition arm64_instructions_2412 :: "bal_decoder_instruction_metadata_t list" where
  "arm64_instructions_2412 = [
     insn ''SABDLB'' 0xFF20FC00 0x45003000 OPCODE_TRAP [op_v 0 5, op_v 5 5, op_v 16 5],
     insn ''SABDLT'' 0xFF20FC00 0x45003400 OPCODE_TRAP [op_v 0 5, op_v 5 5, op_v 16 5],
     insn ''SADALP'' 0xBF3FFC00 0x0E206800 OPCODE_TRAP [op_v 0 5, op_v 5 5],
     insn ''SADALP'' 0xFF3FE000 0x4404A000 OPCODE_TRAP [op_v 0 5, op_v 5 5, op_v 10 3],
     insn ''SADDL'' 0xBF20FC00 0x0E200000 OPCODE_TRAP [op_v 0 5, op_v 5 5, op_v 16 5, op_cond 30 1],
     insn ''SADDLB'' 0xFF20FC00 0x45000000 OPCODE_TRAP [op_v 0 5, op_v 5 5, op_v 16 5],
     insn ''SADDLBT'' 0xFF20FC00 0x45008000 OPCODE_TRAP [op_v 0 5, op_v 5 5, op_v 16 5],
     insn ''SADDLP'' 0xBF3FFC00 0x0E202800 OPCODE_TRAP [op_v 0 5, op_v 5 5],
     insn ''SADDLT'' 0xFF20FC00 0x45000400 OPCODE_TRAP [op_v 0 5, op_v 5 5, op_v 16 5],
     insn ''SADDLV'' 0xBF3FFC00 0x0E303800 OPCODE_TRAP [op_v 0 5, op_v 5 5],
     insn ''SADDV'' 0xFF3FE000 0x04002000 OPCODE_TRAP [op_x 0 5, op_v 5 5, op_v 10 3],
     insn ''SADDW'' 0xBF20FC00 0x0E201000 OPCODE_TRAP [op_v 0 5, op_v 5 5, op_v 16 5, op_cond 30 1]]"

definition arm64_instructions_2424 :: "bal_decoder_instruction_metadata_t list" where
  "arm64_instructions_2424 = [
     insn ''SADDWB'' 0xFF20FC00 0x45004000 OPCODE_TRAP [op_v 0 5, op_v 5 5, op_v 16 5],
     insn ''SADDWT'' 0xFF20FC00 0x45004400 OPCODE_TRAP [op_v 0 5, op_v 5 5, op_v 16 5],
     insn ''SB'' 0xFFFFF4FF 0xD50330FF OPCODE_TRAP [],
     insn ''SBC'' 0xFFE0FC00 0x5A000000 OPCODE_TRAP [op_w 0 5, op_w 5 5, op_w 16 5],
     insn ''SBC'' 0xFFE0FC00 0xDA000000 OPCODE_TRAP [op_x 0 5, op_x 5 5, op_x 16 5],
     insn ''SBCLB'' 0xFFA0FC00 0x4580D000 OPCODE_TRAP [op_v 0 5, op_v 5 5, op_v 16 5],
     insn ''SBCLT'' 0xFFA0FC00 0x4580D400 OPCODE_TRAP [op_v 0 5, op_v 5 5, op_v 16 5],
     insn ''SBCS'' 0xFFE0FC00 0x7A000000 OPCODE_TRAP [op_w 0 5, op_w 5 5, op_w 16 5],
     insn ''SBCS'' 0xFFE0FC00 0xFA000000 OPCODE_TRAP [op_x 0 5, op_x 5 5, op_x 16 5],
     insn ''SBFM'' 0xFFC00000 0x13000000 OPCODE_TRAP [op_w 0 5, op_w 5 5],
     insn ''SBFM'' 0xFFC00000 0x93400000 OPCODE_TRAP [op_x 0 5, op_x 5 5],
     insn ''SBFM'' 0xFFC00000 0x13000000 OPCODE_TRAP [op_w 0 5, op_w 5 5, op_imm 10 6, op_imm 16 6]]"

definition arm64_instructions_2436 :: "bal_decoder_instruction_metadata_t list" where
  "arm64_instructions_2436 = [
     insn ''SBFM'' 0xFFC00000 0x93400000 OPCODE_TRAP [op_x 0 5, op_x 5 5, op_imm 10 6, op_imm 16 6],
     insn ''SBFM'' 0xFFC00000 0x13000000 OPCODE_TRAP [op_w 0 5, op_w 5 5],
     insn ''SBFM'' 0xFFC00000 0x93400000 OPCODE_TRAP [op_x 0 5, op_x 5 5],
     insn ''SCLAMP'' 0xFF20FC01 0xC120C400 OPCODE_TRAP [op_v 1 4, op_v 5 5, op_v 16 5],
     insn ''SCLAMP'' 0xFF20FC03 0xC120CC00 OPCODE_TRAP [op_v 2 3, op_v 5 5, op_v 16 5],
     insn ''SCLAMP'' 0xFF20FC00 0x4400C000 OPCODE_TRAP [op_v 0 5, op_v 5 5, op_v 16 5],
     insn ''SCVTF'' 0xBF8FFC00 0x0F00E400 OPCODE_TRAP [op_v 0 5, op_v 5 5, op_v 16 3, op_v 19 4, op_v 30 1],
     insn ''SCVTF'' 0xFF8FFC00 0x5F00E400 OPCODE_TRAP [op_v 0 5, op_v 5 5],
     insn ''SCVTF'' 0xBFBFFC00 0x0E21D800 OPCODE_TRAP [op_v 0 5, op_v 5 5],
     insn ''SCVTF'' 0xBFFFFC00 0x0E79D800 OPCODE_TRAP [op_v 0 5, op_v 5 5],
     insn ''SCVTF'' 0xFFBFFC00 0x5E21D800 OPCODE_TRAP [op_v 0 5, op_v 5 5],
     insn ''SCVTF'' 0xFFFFFC00 0x5E79D800 OPCODE_TRAP [op_v 0 5, op_v 5 5]]"

definition arm64_instructions_2448 :: "bal_decoder_instruction_metadata_t list" where
  "arm64_instructions_2448 = [
     insn ''SCVTF'' 0xFFFF0000 0x1E020000 OPCODE_TRAP [op_w 0 5, op_w 5 5],
     insn ''SCVTF'' 0xFFFF0000 0x1E420000 OPCODE_TRAP [op_x 0 5, op_w 5 5],
     insn ''SCVTF'' 0xFFFF0000 0x1EC20000 OPCODE_TRAP [op_v 0 5, op_w 5 5],
     insn ''SCVTF'' 0xFFFF0000 0x9E020000 OPCODE_TRAP [op_w 0 5, op_x 5 5],
     insn ''SCVTF'' 0xFFFF0000 0x9E420000 OPCODE_TRAP [op_x 0 5, op_x 5 5],
     insn ''SCVTF'' 0xFFFF0000 0x9EC20000 OPCODE_TRAP [op_v 0 5, op_x 5 5],
     insn ''SCVTF'' 0xFFFFFC00 0x1E220000 OPCODE_TRAP [op_w 0 5, op_w 5 5],
     insn ''SCVTF'' 0xFFFFFC00 0x1E620000 OPCODE_TRAP [op_x 0 5, op_w 5 5],
     insn ''SCVTF'' 0xFFFFFC00 0x1EE20000 OPCODE_TRAP [op_v 0 5, op_w 5 5],
     insn ''SCVTF'' 0xFFFFFC00 0x9E220000 OPCODE_TRAP [op_w 0 5, op_x 5 5],
     insn ''SCVTF'' 0xFFFFFC00 0x9E620000 OPCODE_TRAP [op_x 0 5, op_x 5 5],
     insn ''SCVTF'' 0xFFFFFC00 0x9EE20000 OPCODE_TRAP [op_v 0 5, op_x 5 5]]"

definition arm64_part_5 :: "bal_decoder_instruction_metadata_t list list" where
  "arm64_part_5 = [
     arm64_instructions_1968, arm64_instructions_1980, arm64_instructions_1992,
     arm64_instructions_2004, arm64_instructions_2016, arm64_instructions_2028,
     arm64_instructions_2040, arm64_instructions_2052, arm64_instructions_2064,
     arm64_instructions_2076, arm64_instructions_2088, arm64_instructions_2100,
     arm64_instructions_2112, arm64_instructions_2124, arm64_instructions_2136,
     arm64_instructions_2148, arm64_instructions_2160, arm64_instructions_2172,
     arm64_instructions_2184, arm64_instructions_2196, arm64_instructions_2208,
     arm64_instructions_2220, arm64_instructions_2232, arm64_instructions_2244,
     arm64_instructions_2256, arm64_instructions_2268, arm64_instructions_2280,
     arm64_instructions_2292, arm64_instructions_2304, arm64_instructions_2316,
     arm64_instructions_2328, arm64_instructions_2340, arm64_instructions_2352,
     arm64_instructions_2364, arm64_instructions_2376, arm64_instructions_2388,
     arm64_instructions_2400, arm64_instructions_2412, arm64_instructions_2424,
     arm64_instructions_2436, arm64_instructions_2448]"

section \<open>The entries are complete, and their top bits\<close>

lemma keys_of_1968: "map mask_value arm64_instructions_1968 =
     [(0xFFE00C00, 0x38400000), (0xFFE00C00, 0x78400000), (0xFFE00C00, 0x38800000),
      (0xFFE00C00, 0x38C00000), (0xFFE00C00, 0x78800000), (0xFFE00C00, 0x78C00000),
      (0xFFE00C00, 0xB8800000), (0xFFE9A480, 0x88692480), (0xFFE9A480, 0xC8692480),
      (0xFFE9A492, 0x88492492), (0xFFE9A492, 0xC8492492), (0xFFE9A492, 0x8492492)]"
  by (simp only: arm64_instructions_1968_def read_entries)

lemma entries_1968:
  "length arm64_instructions_1968 = 12" "list_all metadata_wf arm64_instructions_1968"
  "map top_bits arm64_instructions_1968 =
     [(2047, 450), (2047, 962), (2047, 452), (2047, 454), (2047, 964), (2047, 966), (2047, 1476),
      (2047, 1091), (2047, 1603), (2047, 1090), (2047, 1602), (2047, 66)]"
  by (simp add: arm64_instructions_1968_def, simp add: arm64_instructions_1968_def, simp add: top_bits_mask_value keys_of_1968)

lemma keys_of_1980: "map mask_value arm64_instructions_1980 =
     [(0xFFE9A492, 0x48492492), (0xFFE0FC00, 0x1AC02000), (0xFFE0FC00, 0x9AC02000),
      (0xFFC00F80, 0x53000F80), (0xFFC00F80, 0xD3400F80), (0xFF3FE000, 0x4038000),
      (0xFF3FE000, 0x41B8000), (0xFF3FE000, 0x4138000), (0xFF20FC00, 0x4209C00),
      (0xFF20FC00, 0x4208C00), (0xFF3FE000, 0x4178000), (0xFFE0FC00, 0x1AC02000)]"
  by (simp only: arm64_instructions_1980_def read_entries)

lemma entries_1980:
  "length arm64_instructions_1980 = 12" "list_all metadata_wf arm64_instructions_1980"
  "map top_bits arm64_instructions_1980 =
     [(2047, 578), (2047, 214), (2047, 1238), (2046, 664), (2046, 1690), (2041, 32), (2041, 32),
      (2041, 32), (2041, 33), (2041, 33), (2041, 32), (2047, 214)]"
  by (simp add: arm64_instructions_1980_def, simp add: arm64_instructions_1980_def, simp add: top_bits_mask_value keys_of_1980)

lemma keys_of_1992: "map mask_value arm64_instructions_1992 =
     [(0xFFE0FC00, 0x9AC02000), (0xFFE0FC00, 0x1AC02400), (0xFFE0FC00, 0x9AC02400),
      (0xFFC0FC00, 0x53007C00), (0xFFC0FC00, 0xD340FC00), (0xFF3FE000, 0x4018000),
      (0xFF3FE000, 0x4198000), (0xFF3FE000, 0x4118000), (0xFF20FC00, 0x4209400),
      (0xFF20FC00, 0x4208400), (0xFF3FE000, 0x4158000), (0xFFE0FC00, 0x1AC02400)]"
  by (simp only: arm64_instructions_1992_def read_entries)

lemma entries_1992:
  "length arm64_instructions_1992 = 12" "list_all metadata_wf arm64_instructions_1992"
  "map top_bits arm64_instructions_1992 =
     [(2047, 1238), (2047, 214), (2047, 1238), (2046, 664), (2046, 1690), (2041, 32), (2041, 32),
      (2041, 32), (2041, 33), (2041, 33), (2041, 32), (2047, 214)]"
  by (simp add: arm64_instructions_1992_def, simp add: arm64_instructions_1992_def, simp add: top_bits_mask_value keys_of_1992)

lemma keys_of_2004: "map mask_value arm64_instructions_2004 =
     [(0xFFE0FC00, 0x9AC02400), (0xFFFC4C01, 0xC08C4000), (0xFFFC4C08, 0xC09C4000),
      (0xFFFCCC03, 0xC08C8000), (0xFFFCCC0C, 0xC09C8000), (0xFFFC0C00, 0xC0CC0000),
      (0xFFFE4C01, 0xC08A4000), (0xFFFE4C08, 0xC09A4000), (0xFFFECC03, 0xC08A8000),
      (0xFFFECC0C, 0xC09A8000), (0xFFFE0C00, 0xC0CA0000), (0xFF20E000, 0x400C000)]"
  by (simp only: arm64_instructions_2004_def read_entries)

lemma entries_2004:
  "length arm64_instructions_2004 = 12" "list_all metadata_wf arm64_instructions_2004"
  "map top_bits arm64_instructions_2004 =
     [(2047, 1238), (2047, 1540), (2047, 1540), (2047, 1540), (2047, 1540), (2047, 1542),
      (2047, 1540), (2047, 1540), (2047, 1540), (2047, 1540), (2047, 1542), (2041, 32)]"
  by (simp add: arm64_instructions_2004_def, simp add: arm64_instructions_2004_def, simp add: top_bits_mask_value keys_of_2004)

lemma keys_of_2016: "map mask_value arm64_instructions_2016 =
     [(0xFFE08000, 0x1B000000), (0xFFE08000, 0x9B000000), (0xFF20E010, 0x45208000),
      (0xBF00F400, 0x2F000000), (0xBF20FC00, 0xE209400), (0xFF20E000, 0x4004000),
      (0xFFA0FC00, 0x44200800), (0xFFE0FC00, 0x44A00800), (0xFFE0FC00, 0x44E00800),
      (0xBF00F400, 0x2F004000), (0xBF20FC00, 0x2E209400), (0xFF20E000, 0x4006000)]"
  by (simp only: arm64_instructions_2016_def read_entries)

lemma entries_2016:
  "length arm64_instructions_2016 = 12" "list_all metadata_wf arm64_instructions_2016"
  "map top_bits arm64_instructions_2016 =
     [(2047, 216), (2047, 1240), (2041, 553), (1528, 376), (1529, 113), (2041, 32), (2045, 545),
      (2047, 549), (2047, 551), (1528, 376), (1529, 369), (2041, 32)]"
  by (simp add: arm64_instructions_2016_def, simp add: arm64_instructions_2016_def, simp add: top_bits_mask_value keys_of_2016)

lemma keys_of_2028: "map mask_value arm64_instructions_2028 =
     [(0xFFA0FC00, 0x44200C00), (0xFFE0FC00, 0x44A00C00), (0xFFE0FC00, 0x44E00C00),
      (0xFFE0FC00, 0x1B00FC00), (0xFFE0FC00, 0x9B00FC00), (0xFFFFFC00, 0x11000000),
      (0xFFFFFC00, 0x91000000), (0xFFF0C210, 0x25004000), (0xFF30C000, 0x5100000),
      (0xFF30C000, 0x5104000), (0xFF3FE000, 0x528A000), (0xFF3FE000, 0x5208000)]"
  by (simp only: arm64_instructions_2028_def read_entries)

lemma entries_2028:
  "length arm64_instructions_2028 = 12" "list_all metadata_wf arm64_instructions_2028"
  "map top_bits arm64_instructions_2028 =
     [(2045, 545), (2047, 549), (2047, 551), (2047, 216), (2047, 1240), (2047, 136),
      (2047, 1160), (2047, 296), (2041, 40), (2041, 40), (2041, 41), (2041, 41)]"
  by (simp add: arm64_instructions_2028_def, simp add: arm64_instructions_2028_def, simp add: top_bits_mask_value keys_of_2028)

lemma keys_of_2040: "map mask_value arm64_instructions_2040 =
     [(0xFFE0FC00, 0x5E000400), (0xFF3FC000, 0x2538C000), (0xFF3FFC00, 0x5203800),
      (0xFF20FC00, 0x5202000), (0xFFFC0000, 0x5C00000), (0xFFE08400, 0x6E000400),
      (0xFFE0FC00, 0x4E001C00), (0xFFFF1F01, 0xC0060000), (0xFFFF1F01, 0xC0460000),
      (0xFFFF1F01, 0xC0860000), (0xFFFF1F01, 0xC0C60000), (0xFFFF1F03, 0xC0C60400)]"
  by (simp only: arm64_instructions_2040_def read_entries)

lemma entries_2040:
  "length arm64_instructions_2040 = 12" "list_all metadata_wf arm64_instructions_2040"
  "map top_bits arm64_instructions_2040 =
     [(2047, 752), (2041, 297), (2041, 41), (2041, 41), (2047, 46), (2047, 880), (2047, 624),
      (2047, 1536), (2047, 1538), (2047, 1540), (2047, 1542), (2047, 1542)]"
  by (simp add: arm64_instructions_2040_def, simp add: arm64_instructions_2040_def, simp add: top_bits_mask_value keys_of_2040)

lemma keys_of_2052: "map mask_value arm64_instructions_2052 =
     [(0xFFFF1F83, 0xC0060400), (0xFFFF1F83, 0xC0460400), (0xFFFF1F83, 0xC0860400),
      (0xFFFF9F01, 0xC0060800), (0xFFFF9F03, 0xC0060C00), (0xFFFF0200, 0xC0020000),
      (0xFFFF0200, 0xC0420000), (0xFFFF0200, 0xC0820000), (0xFFFF0200, 0xC0C20000),
      (0xFFFF0200, 0xC0C30000), (0xFFFF1C38, 0xC0040000), (0xFFFF1C38, 0xC0440000)]"
  by (simp only: arm64_instructions_2052_def read_entries)

lemma entries_2052:
  "length arm64_instructions_2052 = 12" "list_all metadata_wf arm64_instructions_2052"
  "map top_bits arm64_instructions_2052 =
     [(2047, 1536), (2047, 1538), (2047, 1540), (2047, 1536), (2047, 1536), (2047, 1536),
      (2047, 1538), (2047, 1540), (2047, 1542), (2047, 1542), (2047, 1536), (2047, 1538)]"
  by (simp add: arm64_instructions_2052_def, simp add: arm64_instructions_2052_def, simp add: top_bits_mask_value keys_of_2052)

lemma keys_of_2064: "map mask_value arm64_instructions_2064 =
     [(0xFFFF1C38, 0xC0840000), (0xFFFF1C38, 0xC0C40000), (0xFFFF1C78, 0xC0C40400),
      (0xFFFF1C7C, 0xC0040400), (0xFFFF1C7C, 0xC0440400), (0xFFFF1C7C, 0xC0840400),
      (0xFFFF9C38, 0xC0040800), (0xFFFF9C78, 0xC0040C00), (0xFFFF0010, 0xC0000000),
      (0xFFFF0010, 0xC0400000), (0xFFFF0010, 0xC0800000), (0xFFFF0010, 0xC0C00000)]"
  by (simp only: arm64_instructions_2064_def read_entries)

lemma entries_2064:
  "length arm64_instructions_2064 = 12" "list_all metadata_wf arm64_instructions_2064"
  "map top_bits arm64_instructions_2064 =
     [(2047, 1540), (2047, 1542), (2047, 1542), (2047, 1536), (2047, 1538), (2047, 1540),
      (2047, 1536), (2047, 1536), (2047, 1536), (2047, 1538), (2047, 1540), (2047, 1542)]"
  by (simp add: arm64_instructions_2064_def, simp add: arm64_instructions_2064_def, simp add: top_bits_mask_value keys_of_2064)

lemma keys_of_2076: "map mask_value arm64_instructions_2076 =
     [(0xFFFF0010, 0xC0C10000), (0xFF800000, 0x92800000), (0xFFC00000, 0x12800000),
      (0xFF800000, 0xD2800000), (0xFFC00000, 0x52800000), (0xBFE0FC00, 0xEA01C00),
      (0xFF8003E0, 0xB20003E0), (0xFFC003E0, 0x320003E0), (0xFFE0FFE0, 0x2A0003E0),
      (0xFFE0FFE0, 0xAA0003E0), (0xFFF0C210, 0x25804000), (0xFFE0FC00, 0x4603000)]"
  by (simp only: arm64_instructions_2076_def read_entries)

lemma entries_2076:
  "length arm64_instructions_2076 = 12" "list_all metadata_wf arm64_instructions_2076"
  "map top_bits arm64_instructions_2076 =
     [(2047, 1542), (2044, 1172), (2046, 148), (2044, 1684), (2046, 660), (1535, 117),
      (2044, 1424), (2046, 400), (2047, 336), (2047, 1360), (2047, 300), (2047, 35)]"
  by (simp add: arm64_instructions_2076_def, simp add: arm64_instructions_2076_def, simp add: top_bits_mask_value keys_of_2076)

lemma keys_of_2088: "map mask_value arm64_instructions_2088 =
     [(0xFFF0C210, 0x25004210), (0xFF20C000, 0x520C000), (0xFFE7FC00, 0xE043C00),
      (0xFFEFFC00, 0x4E083C00), (0xFFFF1F01, 0xC0060000), (0xFFFF1F01, 0xC0460000),
      (0xFFFF1F01, 0xC0860000), (0xFFFF1F01, 0xC0C60000), (0xFFFF1F03, 0xC0C60400),
      (0xFFFF1F83, 0xC0060400), (0xFFFF1F83, 0xC0460400), (0xFFFF1F83, 0xC0860400)]"
  by (simp only: arm64_instructions_2088_def read_entries)

lemma entries_2088:
  "length arm64_instructions_2088 = 12" "list_all metadata_wf arm64_instructions_2088"
  "map top_bits arm64_instructions_2088 =
     [(2047, 296), (2041, 41), (2047, 112), (2047, 624), (2047, 1536), (2047, 1538),
      (2047, 1540), (2047, 1542), (2047, 1542), (2047, 1536), (2047, 1538), (2047, 1540)]"
  by (simp add: arm64_instructions_2088_def, simp add: arm64_instructions_2088_def, simp add: top_bits_mask_value keys_of_2088)

lemma keys_of_2100: "map mask_value arm64_instructions_2100 =
     [(0xFFFF9F01, 0xC0060800), (0xFFFF9F03, 0xC0060C00), (0xFFFF0200, 0xC0020000),
      (0xFFFF0200, 0xC0420000), (0xFFFF0200, 0xC0820000), (0xFFFF0200, 0xC0C20000),
      (0xFFFF0200, 0xC0C30000), (0xFFFF1C38, 0xC0040000), (0xFFFF1C38, 0xC0440000),
      (0xFFFF1C38, 0xC0840000), (0xFFFF1C38, 0xC0C40000), (0xFFFF1C78, 0xC0C40400)]"
  by (simp only: arm64_instructions_2100_def read_entries)

lemma entries_2100:
  "length arm64_instructions_2100 = 12" "list_all metadata_wf arm64_instructions_2100"
  "map top_bits arm64_instructions_2100 =
     [(2047, 1536), (2047, 1536), (2047, 1536), (2047, 1538), (2047, 1540), (2047, 1542),
      (2047, 1542), (2047, 1536), (2047, 1538), (2047, 1540), (2047, 1542), (2047, 1542)]"
  by (simp add: arm64_instructions_2100_def, simp add: arm64_instructions_2100_def, simp add: top_bits_mask_value keys_of_2100)

lemma keys_of_2112: "map mask_value arm64_instructions_2112 =
     [(0xFFFF1C7C, 0xC0040400), (0xFFFF1C7C, 0xC0440400), (0xFFFF1C7C, 0xC0840400),
      (0xFFFF9C38, 0xC0040800), (0xFFFF9C78, 0xC0040C00), (0xFFFF0010, 0xC0000000),
      (0xFFFF0010, 0xC0400000), (0xFFFF0010, 0xC0800000), (0xFFFF0010, 0xC0C00000),
      (0xFFFF0010, 0xC0C10000), (0xFFFF1F01, 0xC0060200), (0xFFFF1F01, 0xC0460200)]"
  by (simp only: arm64_instructions_2112_def read_entries)

lemma entries_2112:
  "length arm64_instructions_2112 = 12" "list_all metadata_wf arm64_instructions_2112"
  "map top_bits arm64_instructions_2112 =
     [(2047, 1536), (2047, 1538), (2047, 1540), (2047, 1536), (2047, 1536), (2047, 1536),
      (2047, 1538), (2047, 1540), (2047, 1542), (2047, 1542), (2047, 1536), (2047, 1538)]"
  by (simp add: arm64_instructions_2112_def, simp add: arm64_instructions_2112_def, simp add: top_bits_mask_value keys_of_2112)

lemma keys_of_2124: "map mask_value arm64_instructions_2124 =
     [(0xFFFF1F01, 0xC0860200), (0xFFFF1F01, 0xC0C60200), (0xFFFF1F03, 0xC0C60600),
      (0xFFFF1F83, 0xC0060600), (0xFFFF1F83, 0xC0460600), (0xFFFF1F83, 0xC0860600),
      (0xFFFF9F01, 0xC0060A00), (0xFFFF9F03, 0xC0060E00), (0xFFFF1E00, 0xC0020200),
      (0xFFFF1E00, 0xC0420200), (0xFFFF1E00, 0xC0820200), (0xFFFF1E00, 0xC0C20200)]"
  by (simp only: arm64_instructions_2124_def read_entries)

lemma entries_2124:
  "length arm64_instructions_2124 = 12" "list_all metadata_wf arm64_instructions_2124"
  "map top_bits arm64_instructions_2124 =
     [(2047, 1540), (2047, 1542), (2047, 1542), (2047, 1536), (2047, 1538), (2047, 1540),
      (2047, 1536), (2047, 1536), (2047, 1536), (2047, 1538), (2047, 1540), (2047, 1542)]"
  by (simp add: arm64_instructions_2124_def, simp add: arm64_instructions_2124_def, simp add: top_bits_mask_value keys_of_2124)

lemma keys_of_2136: "map mask_value arm64_instructions_2136 =
     [(0xFFFF1E00, 0xC0C30200), (0xBFF89C00, 0xF000400), (0xBFF8DC00, 0xF008400),
      (0xBFF8EC00, 0xF00C400), (0xBFF8FC00, 0xF00E400), (0xFFF8FC00, 0x2F00E400),
      (0xFFF8FC00, 0x6F00E400), (0xFF800000, 0xF2800000), (0xFFC00000, 0x72800000),
      (0xFF800000, 0x92800000), (0xFFC00000, 0x12800000), (0xFF3EE000, 0x4102000)]"
  by (simp only: arm64_instructions_2136_def read_entries)

lemma entries_2136:
  "length arm64_instructions_2136 = 12" "list_all metadata_wf arm64_instructions_2136"
  "map top_bits arm64_instructions_2136 =
     [(2047, 1542), (1535, 120), (1535, 120), (1535, 120), (1535, 120), (2047, 376), (2047, 888),
      (2044, 1940), (2046, 916), (2044, 1172), (2046, 148), (2041, 32)]"
  by (simp add: arm64_instructions_2136_def, simp add: arm64_instructions_2136_def, simp add: top_bits_mask_value keys_of_2136)

lemma keys_of_2148: "map mask_value arm64_instructions_2148 =
     [(0xFFFFFC00, 0x420BC00), (0xFFF0C210, 0x25404000), (0xFFF0C210, 0x25C04000),
      (0xFFFF8FE0, 0xC04C03E0), (0xFFFF8FE0, 0xC04E03E0), (0xFF800000, 0xD2800000),
      (0xFFC00000, 0x52800000), (0xFFF00000, 0xD5700000), (0xFFF00000, 0xD5300000),
      (0xFF20E000, 0x400E000), (0xFFF8F01F, 0xD500401F), (0xFFF00000, 0xD5100000)]"
  by (simp only: arm64_instructions_2148_def read_entries)

lemma entries_2148:
  "length arm64_instructions_2148 = 12" "list_all metadata_wf arm64_instructions_2148"
  "map top_bits arm64_instructions_2148 =
     [(2047, 33), (2047, 298), (2047, 302), (2047, 1538), (2047, 1538), (2044, 1684),
      (2046, 660), (2047, 1707), (2047, 1705), (2041, 32), (2047, 1704), (2047, 1704)]"
  by (simp add: arm64_instructions_2148_def, simp add: arm64_instructions_2148_def, simp add: top_bits_mask_value keys_of_2148)

lemma keys_of_2160: "map mask_value arm64_instructions_2160 =
     [(0xFFF00000, 0xD5500000), (0xFFE08000, 0x1B008000), (0xFFE08000, 0x9B008000),
      (0xBF00F400, 0xF008000), (0xBF20FC00, 0xE209C00), (0xFFE0FC00, 0x1B007C00),
      (0xFFE0FC00, 0x9B007C00), (0xFF3FE000, 0x4100000), (0xFF3FE000, 0x2530C000),
      (0xFF20FC00, 0x4206000), (0xFFA0FC00, 0x4420F800), (0xFFE0FC00, 0x44A0F800)]"
  by (simp only: arm64_instructions_2160_def read_entries)

lemma entries_2160:
  "length arm64_instructions_2160 = 12" "list_all metadata_wf arm64_instructions_2160"
  "map top_bits arm64_instructions_2160 =
     [(2047, 1706), (2047, 216), (2047, 1240), (1528, 120), (1529, 113), (2047, 216),
      (2047, 1240), (2041, 32), (2041, 297), (2041, 33), (2045, 545), (2047, 549)]"
  by (simp add: arm64_instructions_2160_def, simp add: arm64_instructions_2160_def, simp add: top_bits_mask_value keys_of_2160)

lemma keys_of_2172: "map mask_value arm64_instructions_2172 =
     [(0xFFE0FC00, 0x44E0F800), (0xBFFFFC00, 0x2E205800), (0xFF2003E0, 0x2A2003E0),
      (0xFF2003E0, 0xAA2003E0), (0xBFF89C00, 0x2F000400), (0xBFF8DC00, 0x2F008400),
      (0xBFF8EC00, 0x2F00C400), (0xFFF0C210, 0x25804210), (0xFFF0C210, 0x25C04210),
      (0xFFE0FC00, 0x4E03C00), (0xBF3FFC00, 0x2E20B800), (0xFF3FFC00, 0x7E20B800)]"
  by (simp only: arm64_instructions_2172_def read_entries)

lemma entries_2172:
  "length arm64_instructions_2172 = 12" "list_all metadata_wf arm64_instructions_2172"
  "map top_bits arm64_instructions_2172 =
     [(2047, 551), (1535, 369), (2041, 337), (2041, 1361), (1535, 376), (1535, 376), (1535, 376),
      (2047, 300), (2047, 302), (2047, 39), (1529, 369), (2041, 1009)]"
  by (simp add: arm64_instructions_2172_def, simp add: arm64_instructions_2172_def, simp add: top_bits_mask_value keys_of_2172)

lemma keys_of_2184: "map mask_value arm64_instructions_2184 =
     [(0xFF2003E0, 0x4B0003E0), (0xFF2003E0, 0xCB0003E0), (0xFF3FE000, 0x417A000),
      (0xFFE0FFE0, 0x5A0003E0), (0xFFE0FFE0, 0xDA0003E0), (0xFFE0FFE0, 0x7A0003E0),
      (0xFFE0FFE0, 0xFA0003E0), (0xFF20E010, 0x45208010), (0xFFFFFFFF, 0xD503201F),
      (0xFFF0C210, 0x25804200), (0xFFF0C210, 0x25C04200), (0xBFFFFC00, 0x2E205800)]"
  by (simp only: arm64_instructions_2184_def read_entries)

lemma entries_2184:
  "length arm64_instructions_2184 = 12" "list_all metadata_wf arm64_instructions_2184"
  "map top_bits arm64_instructions_2184 =
     [(2041, 600), (2041, 1624), (2041, 32), (2047, 720), (2047, 1744), (2047, 976),
      (2047, 2000), (2041, 553), (2047, 1704), (2047, 300), (2047, 302), (1535, 369)]"
  by (simp add: arm64_instructions_2184_def, simp add: arm64_instructions_2184_def, simp add: top_bits_mask_value keys_of_2184)

lemma keys_of_2196: "map mask_value arm64_instructions_2196 =
     [(0xFFF0C210, 0x25004200), (0xFF3FE000, 0x41EA000), (0xFFF0C210, 0x25404200),
      (0xBFE0FC00, 0xEE01C00), (0xFF200000, 0x2A200000), (0xFF200000, 0xAA200000),
      (0xFFFC0000, 0x5000000), (0xFFF0C210, 0x25804010), (0xFFF0C210, 0x25C04010),
      (0xFF3FE000, 0x41C2000), (0xBFF89C00, 0xF001400), (0xBFF8DC00, 0xF009400)]"
  by (simp only: arm64_instructions_2196_def read_entries)

lemma entries_2196:
  "length arm64_instructions_2196 = 12" "list_all metadata_wf arm64_instructions_2196"
  "map top_bits arm64_instructions_2196 =
     [(2047, 296), (2041, 32), (2047, 298), (1535, 119), (2041, 337), (2041, 1361), (2047, 40),
      (2047, 300), (2047, 302), (2041, 32), (1535, 120), (1535, 120)]"
  by (simp add: arm64_instructions_2196_def, simp add: arm64_instructions_2196_def, simp add: top_bits_mask_value keys_of_2196)

lemma keys_of_2208: "map mask_value arm64_instructions_2208 =
     [(0xBFE0FC00, 0xEA01C00), (0xFF800000, 0xB2000000), (0xFFC00000, 0x32000000),
      (0xFF200000, 0x2A000000), (0xFF200000, 0xAA000000), (0xFFF0C210, 0x25804000),
      (0xFF3FE000, 0x4180000), (0xFFFC0000, 0x5000000), (0xFFE0FC00, 0x4603000),
      (0xFFF0C210, 0x25C04000), (0xFF3FE000, 0x4182000), (0xFFFFFC00, 0xDAC10800)]"
  by (simp only: arm64_instructions_2208_def read_entries)

lemma entries_2208:
  "length arm64_instructions_2208 = 12" "list_all metadata_wf arm64_instructions_2208"
  "map top_bits arm64_instructions_2208 =
     [(1535, 117), (2044, 1424), (2046, 400), (2041, 336), (2041, 1360), (2047, 300), (2041, 32),
      (2047, 40), (2047, 35), (2047, 302), (2041, 32), (2047, 1750)]"
  by (simp add: arm64_instructions_2208_def, simp add: arm64_instructions_2208_def, simp add: top_bits_mask_value keys_of_2208)

lemma keys_of_2220: "map mask_value arm64_instructions_2220 =
     [(0xFFFFFFE0, 0xDAC12BE0), (0xFFFFFC00, 0xDAC10C00), (0xFFFFFFE0, 0xDAC12FE0),
      (0xFFE0FC00, 0x9AC03000), (0xFFFFFC00, 0xDAC10000), (0xFFFFFFFF, 0xD503211F),
      (0xFFFFFFFF, 0xD503233F), (0xFFFFFFFF, 0xD503231F), (0xFFFFFFE0, 0xDAC123E0),
      (0xFFFFFC00, 0xDAC10400), (0xFFFFFFFF, 0xD503215F), (0xFFFFFFFF, 0xD503237F)]"
  by (simp only: arm64_instructions_2220_def read_entries)

lemma entries_2220:
  "length arm64_instructions_2220 = 12" "list_all metadata_wf arm64_instructions_2220"
  "map top_bits arm64_instructions_2220 =
     [(2047, 1750), (2047, 1750), (2047, 1750), (2047, 1238), (2047, 1750), (2047, 1704),
      (2047, 1704), (2047, 1704), (2047, 1750), (2047, 1750), (2047, 1704), (2047, 1704)]"
  by (simp add: arm64_instructions_2220_def, simp add: arm64_instructions_2220_def, simp add: top_bits_mask_value keys_of_2220)

lemma keys_of_2232: "map mask_value arm64_instructions_2232 =
     [(0xFFFFFFFF, 0xD503235F), (0xFFFFFFE0, 0xDAC127E0), (0xFF3FFC10, 0x25207010),
      (0xFF3FFE10, 0x25207410), (0xFFFFFFF0, 0x2518E400), (0xFFFFFE10, 0x2558C000),
      (0xFFB9FC10, 0x5A83800), (0xFFF9FC10, 0x5683800), (0xFFFDFC10, 0x52C3800),
      (0xFFFFFC10, 0x52A3800), (0xFFB9FE00, 0x5A93800), (0xFFF9FE00, 0x5693800)]"
  by (simp only: arm64_instructions_2232_def read_entries)

lemma entries_2232:
  "length arm64_instructions_2232 = 12" "list_all metadata_wf arm64_instructions_2232"
  "map top_bits arm64_instructions_2232 =
     [(2047, 1704), (2047, 1750), (2041, 297), (2041, 297), (2047, 296), (2047, 298), (2045, 45),
      (2047, 43), (2047, 41), (2047, 41), (2045, 45), (2047, 43)]"
  by (simp add: arm64_instructions_2232_def, simp add: arm64_instructions_2232_def, simp add: top_bits_mask_value keys_of_2232)

lemma keys_of_2244: "map mask_value arm64_instructions_2244 =
     [(0xFFFDFE00, 0x52D3800), (0xFFFFFE00, 0x52B3800), (0xBF20FC00, 0x2E209C00),
      (0xFFE0FC00, 0x4206400), (0xBF20FC00, 0xE20E000), (0xFF38FC00, 0x45006800),
      (0xFFE0FC00, 0x45006800), (0xFF38FC00, 0x45006C00), (0xFFE0FC00, 0x45006C00),
      (0xFF3FFE10, 0x2519C400), (0xFFE0E010, 0x8400E000), (0xFFE0E010, 0xC400E000)]"
  by (simp only: arm64_instructions_2244_def read_entries)

lemma entries_2244:
  "length arm64_instructions_2244 = 12" "list_all metadata_wf arm64_instructions_2244"
  "map top_bits arm64_instructions_2244 =
     [(2047, 41), (2047, 41), (1529, 369), (2047, 33), (1529, 113), (2041, 552), (2047, 552),
      (2041, 552), (2047, 552), (2041, 296), (2047, 1056), (2047, 1568)]"
  by (simp add: arm64_instructions_2244_def, simp add: arm64_instructions_2244_def, simp add: top_bits_mask_value keys_of_2244)

lemma keys_of_2256: "map mask_value arm64_instructions_2256 =
     [(0xFFC0E010, 0x85C00000), (0xFFE0E010, 0x8400C000), (0xFFA0E010, 0x84200000),
      (0xFFA0E010, 0xC4200000), (0xFFE0E010, 0xC4608000), (0xFFE0E010, 0x8580E000),
      (0xFFE0E010, 0xC580E000), (0xFFC0E010, 0x85C06000), (0xFFE0E010, 0x8580C000),
      (0xFFA0E010, 0x84206000), (0xFFA0E010, 0xC4206000), (0xFFE0E010, 0xC460E000)]"
  by (simp only: arm64_instructions_2256_def read_entries)

lemma entries_2256:
  "length arm64_instructions_2256 = 12" "list_all metadata_wf arm64_instructions_2256"
  "map top_bits arm64_instructions_2256 =
     [(2046, 1070), (2047, 1056), (2045, 1057), (2045, 1569), (2047, 1571), (2047, 1068),
      (2047, 1580), (2046, 1070), (2047, 1068), (2045, 1057), (2045, 1569), (2047, 1571)]"
  by (simp add: arm64_instructions_2256_def, simp add: arm64_instructions_2256_def, simp add: top_bits_mask_value keys_of_2256)

lemma keys_of_2268: "map mask_value arm64_instructions_2268 =
     [(0xFFE0E010, 0x8480E000), (0xFFE0E010, 0xC480E000), (0xFFC0E010, 0x85C02000),
      (0xFFE0E010, 0x8480C000), (0xFFA0E010, 0x84202000), (0xFFA0E010, 0xC4202000),
      (0xFFE0E010, 0xC460A000), (0xFFC00000, 0xF9800000), (0xFF000000, 0xD8000000),
      (0xFFE00C00, 0xF8800000), (0xFFE0E010, 0x8500E000), (0xFFE0E010, 0xC500E000)]"
  by (simp only: arm64_instructions_2268_def read_entries)

lemma entries_2268:
  "length arm64_instructions_2268 = 12" "list_all metadata_wf arm64_instructions_2268"
  "map top_bits arm64_instructions_2268 =
     [(2047, 1060), (2047, 1572), (2046, 1070), (2047, 1060), (2045, 1057), (2045, 1569),
      (2047, 1571), (2046, 1996), (2040, 1728), (2047, 1988), (2047, 1064), (2047, 1576)]"
  by (simp add: arm64_instructions_2268_def, simp add: arm64_instructions_2268_def, simp add: top_bits_mask_value keys_of_2268)

lemma keys_of_2280: "map mask_value arm64_instructions_2280 =
     [(0xFFC0E010, 0x85C04000), (0xFFE0E010, 0x8500C000), (0xFFA0E010, 0x84204000),
      (0xFFA0E010, 0xC4204000), (0xFFE0E010, 0xC460C000), (0xFFFFFFFF, 0xD503223F),
      (0xFF20C210, 0x25204000), (0xFFFFFFFF, 0xD503349F), (0xFFFFC21F, 0x2550C000),
      (0xFF3FFC10, 0x2518E000), (0xFF3FFFF8, 0x25207810), (0xFF3FFC10, 0x2519E000)]"
  by (simp only: arm64_instructions_2280_def read_entries)

lemma entries_2280:
  "length arm64_instructions_2280 = 12" "list_all metadata_wf arm64_instructions_2280"
  "map top_bits arm64_instructions_2280 =
     [(2046, 1070), (2047, 1064), (2045, 1057), (2045, 1569), (2047, 1571), (2047, 1704),
      (2041, 297), (2047, 1704), (2047, 298), (2041, 296), (2041, 297), (2041, 296)]"
  by (simp add: arm64_instructions_2280_def, simp add: arm64_instructions_2280_def, simp add: top_bits_mask_value keys_of_2280)

lemma keys_of_2292: "map mask_value arm64_instructions_2292 =
     [(0xFFFFFE10, 0x5314000), (0xFFFFFE10, 0x5304000), (0xBF20FC00, 0x2E204000),
      (0xFF20FC00, 0x45206800), (0xFF20FC00, 0x45206C00), (0xFFE0FC00, 0xCE608C00),
      (0xFFE0FC00, 0x4520F400), (0xBFFFFC00, 0x2E605800), (0xFFFFFC00, 0x5AC00000),
      (0xFFFFFC00, 0xDAC00000), (0xFF3FE000, 0x5278000), (0xFFE0FC00, 0x19200800)]"
  by (simp only: arm64_instructions_2292_def read_entries)

lemma entries_2292:
  "length arm64_instructions_2292 = 12" "list_all metadata_wf arm64_instructions_2292"
  "map top_bits arm64_instructions_2292 =
     [(2047, 41), (2047, 41), (1529, 369), (2041, 553), (2041, 553), (2047, 1651), (2047, 553),
      (1535, 371), (2047, 726), (2047, 1750), (2041, 41), (2047, 201)]"
  by (simp add: arm64_instructions_2292_def, simp add: arm64_instructions_2292_def, simp add: top_bits_mask_value keys_of_2292)

lemma keys_of_2304: "map mask_value arm64_instructions_2304 =
     [(0xFFE0FC00, 0x19A00800), (0xFFE0FC00, 0x19E00800), (0xFFE0FC00, 0x19600800),
      (0xFFE0FC00, 0x19200C00), (0xFFE0FC00, 0x19A00C00), (0xFFE0FC00, 0x19E00C00),
      (0xFFE0FC00, 0x19600C00), (0xFFE0FC00, 0x38209000), (0xFFE0FC00, 0x38A09000),
      (0xFFE0FC00, 0x38E09000), (0xFFE0FC00, 0x38609000), (0xFFE0FC00, 0x19209000)]"
  by (simp only: arm64_instructions_2304_def read_entries)

lemma entries_2304:
  "length arm64_instructions_2304 = 12" "list_all metadata_wf arm64_instructions_2304"
  "map top_bits arm64_instructions_2304 =
     [(2047, 205), (2047, 207), (2047, 203), (2047, 201), (2047, 205), (2047, 207), (2047, 203),
      (2047, 449), (2047, 453), (2047, 455), (2047, 451), (2047, 201)]"
  by (simp add: arm64_instructions_2304_def, simp add: arm64_instructions_2304_def, simp add: top_bits_mask_value keys_of_2304)

lemma keys_of_2316: "map mask_value arm64_instructions_2316 =
     [(0xFFE0FC00, 0x19A09000), (0xFFE0FC00, 0x19E09000), (0xFFE0FC00, 0x19609000),
      (0xFFE0FC00, 0x59200800), (0xFFE0FC00, 0x59A00800), (0xFFE0FC00, 0x59E00800),
      (0xFFE0FC00, 0x59600800), (0xFFE0FC00, 0x59200C00), (0xFFE0FC00, 0x59A00C00),
      (0xFFE0FC00, 0x59E00C00), (0xFFE0FC00, 0x59600C00), (0xFFE0FC00, 0x78209000)]"
  by (simp only: arm64_instructions_2316_def read_entries)

lemma entries_2316:
  "length arm64_instructions_2316 = 12" "list_all metadata_wf arm64_instructions_2316"
  "map top_bits arm64_instructions_2316 =
     [(2047, 205), (2047, 207), (2047, 203), (2047, 713), (2047, 717), (2047, 719), (2047, 715),
      (2047, 713), (2047, 717), (2047, 719), (2047, 715), (2047, 961)]"
  by (simp add: arm64_instructions_2316_def, simp add: arm64_instructions_2316_def, simp add: top_bits_mask_value keys_of_2316)

lemma keys_of_2328: "map mask_value arm64_instructions_2328 =
     [(0xFFE0FC00, 0x78A09000), (0xFFE0FC00, 0x78E09000), (0xFFE0FC00, 0x78609000),
      (0xFFE0FC00, 0x59209000), (0xFFE0FC00, 0x59A09000), (0xFFE0FC00, 0x59E09000),
      (0xFFE0FC00, 0x59609000), (0xFFE0FC00, 0x3820B000), (0xFFE0FC00, 0x38A0B000),
      (0xFFE0FC00, 0x38E0B000), (0xFFE0FC00, 0x3860B000), (0xFFE0FC00, 0x1920B000)]"
  by (simp only: arm64_instructions_2328_def read_entries)

lemma entries_2328:
  "length arm64_instructions_2328 = 12" "list_all metadata_wf arm64_instructions_2328"
  "map top_bits arm64_instructions_2328 =
     [(2047, 965), (2047, 967), (2047, 963), (2047, 713), (2047, 717), (2047, 719), (2047, 715),
      (2047, 449), (2047, 453), (2047, 455), (2047, 451), (2047, 201)]"
  by (simp add: arm64_instructions_2328_def, simp add: arm64_instructions_2328_def, simp add: top_bits_mask_value keys_of_2328)

lemma keys_of_2340: "map mask_value arm64_instructions_2340 =
     [(0xFFE0FC00, 0x19A0B000), (0xFFE0FC00, 0x19E0B000), (0xFFE0FC00, 0x1960B000),
      (0xFFE0FC00, 0x7820B000), (0xFFE0FC00, 0x78A0B000), (0xFFE0FC00, 0x78E0B000),
      (0xFFE0FC00, 0x7860B000), (0xFFE0FC00, 0x5920B000), (0xFFE0FC00, 0x59A0B000),
      (0xFFE0FC00, 0x59E0B000), (0xFFE0FC00, 0x5960B000), (0xFFE0FC00, 0x7820A000)]"
  by (simp only: arm64_instructions_2340_def read_entries)

lemma entries_2340:
  "length arm64_instructions_2340 = 12" "list_all metadata_wf arm64_instructions_2340"
  "map top_bits arm64_instructions_2340 =
     [(2047, 205), (2047, 207), (2047, 203), (2047, 961), (2047, 965), (2047, 967), (2047, 963),
      (2047, 713), (2047, 717), (2047, 719), (2047, 715), (2047, 961)]"
  by (simp add: arm64_instructions_2340_def, simp add: arm64_instructions_2340_def, simp add: top_bits_mask_value keys_of_2340)

lemma keys_of_2352: "map mask_value arm64_instructions_2352 =
     [(0xFFE0FC00, 0x78A0A000), (0xFFE0FC00, 0x78E0A000), (0xFFE0FC00, 0x7860A000),
      (0xFFE0FC00, 0x5920A000), (0xFFE0FC00, 0x59A0A000), (0xFFE0FC00, 0x59E0A000),
      (0xFFE0FC00, 0x5960A000), (0xFFE0FC00, 0x3820A000), (0xFFE0FC00, 0x38A0A000),
      (0xFFE0FC00, 0x38E0A000), (0xFFE0FC00, 0x3860A000), (0xFFE0FC00, 0x1920A000)]"
  by (simp only: arm64_instructions_2352_def read_entries)

lemma entries_2352:
  "length arm64_instructions_2352 = 12" "list_all metadata_wf arm64_instructions_2352"
  "map top_bits arm64_instructions_2352 =
     [(2047, 965), (2047, 967), (2047, 963), (2047, 713), (2047, 717), (2047, 719), (2047, 715),
      (2047, 449), (2047, 453), (2047, 455), (2047, 451), (2047, 201)]"
  by (simp add: arm64_instructions_2352_def, simp add: arm64_instructions_2352_def, simp add: top_bits_mask_value keys_of_2352)

lemma keys_of_2364: "map mask_value arm64_instructions_2364 =
     [(0xFFE0FC00, 0x19A0A000), (0xFFE0FC00, 0x19E0A000), (0xFFE0FC00, 0x1960A000),
      (0xFFFFFFF0, 0x2519F000), (0xFFFFFE10, 0x2518F000), (0xFFFFFE10, 0x2558F000),
      (0xFFFFF800, 0x4BF5800), (0xFFFFF800, 0x4BF5000), (0xFFFFFC1F, 0xD65F0000),
      (0xFFFFFFFF, 0xD65F0BFF), (0xFFFFFFFF, 0xD65F0FFF), (0xFFFFFC00, 0x5AC00800)]"
  by (simp only: arm64_instructions_2364_def read_entries)

lemma entries_2364:
  "length arm64_instructions_2364 = 12" "list_all metadata_wf arm64_instructions_2364"
  "map top_bits arm64_instructions_2364 =
     [(2047, 205), (2047, 207), (2047, 203), (2047, 296), (2047, 296), (2047, 298), (2047, 37),
      (2047, 37), (2047, 1714), (2047, 1714), (2047, 1714), (2047, 726)]"
  by (simp add: arm64_instructions_2364_def, simp add: arm64_instructions_2364_def, simp add: top_bits_mask_value keys_of_2364)

lemma keys_of_2376: "map mask_value arm64_instructions_2376 =
     [(0xFFFFFC00, 0xDAC00C00), (0xBF3FFC00, 0xE201800), (0xFFFFFC00, 0x5AC00400),
      (0xFFFFFC00, 0xDAC00400), (0xBF3FFC00, 0x2E200800), (0xFFFFFC00, 0xDAC00800),
      (0xBF3FFC00, 0xE200800), (0xFFFFFC00, 0xDAC00C00), (0xFF3FFE10, 0x5344000),
      (0xFF3FFC00, 0x5383800), (0xFF3FE000, 0x5248000), (0xFF3FE000, 0x5258000)]"
  by (simp only: arm64_instructions_2376_def read_entries)

lemma entries_2376:
  "length arm64_instructions_2376 = 12" "list_all metadata_wf arm64_instructions_2376"
  "map top_bits arm64_instructions_2376 =
     [(2047, 1750), (1529, 113), (2047, 726), (2047, 1750), (1529, 369), (2047, 1750),
      (1529, 113), (2047, 1750), (2041, 41), (2041, 41), (2041, 41), (2041, 41)]"
  by (simp add: arm64_instructions_2376_def, simp add: arm64_instructions_2376_def, simp add: top_bits_mask_value keys_of_2376)

lemma keys_of_2388: "map mask_value arm64_instructions_2388 =
     [(0xFF3FE000, 0x5268000), (0xFFFFE000, 0x52E8000), (0xFFE07C10, 0xBA000400),
      (0xFFE00000, 0x93C00000), (0xFFE08000, 0x13800000), (0xFFE0FC00, 0x1AC02C00),
      (0xFFE0FC00, 0x9AC02C00), (0xFFE0FC00, 0x1AC02C00), (0xFFE0FC00, 0x9AC02C00),
      (0xFFE04C18, 0xF8A04818), (0xBF8FFC00, 0xF008C00), (0xFFA0FC00, 0x45201800)]"
  by (simp only: arm64_instructions_2388_def read_entries)

lemma entries_2388:
  "length arm64_instructions_2388 = 12" "list_all metadata_wf arm64_instructions_2388"
  "map top_bits arm64_instructions_2388 =
     [(2041, 41), (2047, 41), (2047, 1488), (2047, 1182), (2047, 156), (2047, 214), (2047, 1238),
      (2047, 214), (2047, 1238), (2047, 1989), (1532, 120), (2045, 553)]"
  by (simp add: arm64_instructions_2388_def, simp add: arm64_instructions_2388_def, simp add: top_bits_mask_value keys_of_2388)

lemma keys_of_2400: "map mask_value arm64_instructions_2400 =
     [(0xFFA0FC00, 0x45201C00), (0xBF20FC00, 0x2E206000), (0xFF20FC00, 0x45207800),
      (0xFF20FC00, 0x45207C00), (0xBF20FC00, 0xE207C00), (0xFF20FC00, 0x4500F800),
      (0xBF20FC00, 0xE205000), (0xFF20FC00, 0x4500C000), (0xFF20FC00, 0x4500C400),
      (0xBF20FC00, 0xE207400), (0xFF3FE000, 0x40C0000), (0xBF20FC00, 0xE207000)]"
  by (simp only: arm64_instructions_2400_def read_entries)

lemma entries_2400:
  "length arm64_instructions_2400 = 12" "list_all metadata_wf arm64_instructions_2400"
  "map top_bits arm64_instructions_2400 =
     [(2045, 553), (1529, 369), (2041, 553), (2041, 553), (1529, 113), (2041, 552), (1529, 113),
      (2041, 552), (2041, 552), (1529, 113), (2041, 32), (1529, 113)]"
  by (simp add: arm64_instructions_2400_def, simp add: arm64_instructions_2400_def, simp add: top_bits_mask_value keys_of_2400)

lemma keys_of_2412: "map mask_value arm64_instructions_2412 =
     [(0xFF20FC00, 0x45003000), (0xFF20FC00, 0x45003400), (0xBF3FFC00, 0xE206800),
      (0xFF3FE000, 0x4404A000), (0xBF20FC00, 0xE200000), (0xFF20FC00, 0x45000000),
      (0xFF20FC00, 0x45008000), (0xBF3FFC00, 0xE202800), (0xFF20FC00, 0x45000400),
      (0xBF3FFC00, 0xE303800), (0xFF3FE000, 0x4002000), (0xBF20FC00, 0xE201000)]"
  by (simp only: arm64_instructions_2412_def read_entries)

lemma entries_2412:
  "length arm64_instructions_2412 = 12" "list_all metadata_wf arm64_instructions_2412"
  "map top_bits arm64_instructions_2412 =
     [(2041, 552), (2041, 552), (1529, 113), (2041, 544), (1529, 113), (2041, 552), (2041, 552),
      (1529, 113), (2041, 552), (1529, 113), (2041, 32), (1529, 113)]"
  by (simp add: arm64_instructions_2412_def, simp add: arm64_instructions_2412_def, simp add: top_bits_mask_value keys_of_2412)

lemma keys_of_2424: "map mask_value arm64_instructions_2424 =
     [(0xFF20FC00, 0x45004000), (0xFF20FC00, 0x45004400), (0xFFFFF4FF, 0xD50330FF),
      (0xFFE0FC00, 0x5A000000), (0xFFE0FC00, 0xDA000000), (0xFFA0FC00, 0x4580D000),
      (0xFFA0FC00, 0x4580D400), (0xFFE0FC00, 0x7A000000), (0xFFE0FC00, 0xFA000000),
      (0xFFC00000, 0x13000000), (0xFFC00000, 0x93400000), (0xFFC00000, 0x13000000)]"
  by (simp only: arm64_instructions_2424_def read_entries)

lemma entries_2424:
  "length arm64_instructions_2424 = 12" "list_all metadata_wf arm64_instructions_2424"
  "map top_bits arm64_instructions_2424 =
     [(2041, 552), (2041, 552), (2047, 1704), (2047, 720), (2047, 1744), (2045, 556),
      (2045, 556), (2047, 976), (2047, 2000), (2046, 152), (2046, 1178), (2046, 152)]"
  by (simp add: arm64_instructions_2424_def, simp add: arm64_instructions_2424_def, simp add: top_bits_mask_value keys_of_2424)

lemma keys_of_2436: "map mask_value arm64_instructions_2436 =
     [(0xFFC00000, 0x93400000), (0xFFC00000, 0x13000000), (0xFFC00000, 0x93400000),
      (0xFF20FC01, 0xC120C400), (0xFF20FC03, 0xC120CC00), (0xFF20FC00, 0x4400C000),
      (0xBF8FFC00, 0xF00E400), (0xFF8FFC00, 0x5F00E400), (0xBFBFFC00, 0xE21D800),
      (0xBFFFFC00, 0xE79D800), (0xFFBFFC00, 0x5E21D800), (0xFFFFFC00, 0x5E79D800)]"
  by (simp only: arm64_instructions_2436_def read_entries)

lemma entries_2436:
  "length arm64_instructions_2436 = 12" "list_all metadata_wf arm64_instructions_2436"
  "map top_bits arm64_instructions_2436 =
     [(2046, 1178), (2046, 152), (2046, 1178), (2041, 1545), (2041, 1545), (2041, 544),
      (1532, 120), (2044, 760), (1533, 113), (1535, 115), (2045, 753), (2047, 755)]"
  by (simp add: arm64_instructions_2436_def, simp add: arm64_instructions_2436_def, simp add: top_bits_mask_value keys_of_2436)

lemma keys_of_2448: "map mask_value arm64_instructions_2448 =
     [(0xFFFF0000, 0x1E020000), (0xFFFF0000, 0x1E420000), (0xFFFF0000, 0x1EC20000),
      (0xFFFF0000, 0x9E020000), (0xFFFF0000, 0x9E420000), (0xFFFF0000, 0x9EC20000),
      (0xFFFFFC00, 0x1E220000), (0xFFFFFC00, 0x1E620000), (0xFFFFFC00, 0x1EE20000),
      (0xFFFFFC00, 0x9E220000), (0xFFFFFC00, 0x9E620000), (0xFFFFFC00, 0x9EE20000)]"
  by (simp only: arm64_instructions_2448_def read_entries)

lemma entries_2448:
  "length arm64_instructions_2448 = 12" "list_all metadata_wf arm64_instructions_2448"
  "map top_bits arm64_instructions_2448 =
     [(2047, 240), (2047, 242), (2047, 246), (2047, 1264), (2047, 1266), (2047, 1270),
      (2047, 241), (2047, 243), (2047, 247), (2047, 1265), (2047, 1267), (2047, 1271)]"
  by (simp add: arm64_instructions_2448_def, simp add: arm64_instructions_2448_def, simp add: top_bits_mask_value keys_of_2448)

lemmas entries_part_5 =
  entries_1968 entries_1980 entries_1992 entries_2004 entries_2016 entries_2028 entries_2040
  entries_2052 entries_2064 entries_2076 entries_2088 entries_2100 entries_2112 entries_2124
  entries_2136 entries_2148 entries_2160 entries_2172 entries_2184 entries_2196 entries_2208
  entries_2220 entries_2232 entries_2244 entries_2256 entries_2268 entries_2280 entries_2292
  entries_2304 entries_2316 entries_2328 entries_2340 entries_2352 entries_2364 entries_2376
  entries_2388 entries_2400 entries_2412 entries_2424 entries_2436 entries_2448

lemma arm64_part_5:
  "length (concat arm64_part_5) = 492" "list_all metadata_wf (concat arm64_part_5)"
  "sum_list (map weight (map top_bits (concat arm64_part_5))) = 1018"
  by (simp_all add: arm64_part_5_def entries_part_5 weight_def bit_Suc_0_iff)

end
