(* ===== verification/Arm64_Instructions_6.thy ===== *)
theory Arm64_Instructions_6
  imports Table_Entries
begin

text \<open>
  Entries 2460 to 2951 of \<open>g_bal_decoder_arm64_instructions\<close> in \<open>src/generated/decoder_table.c\<close>,
  twelve to a list; a list is named after the index of its first entry.
\<close>

definition arm64_instructions_2460 :: "bal_decoder_instruction_metadata_t list" where
  "arm64_instructions_2460 = [
     insn ''SCVTF'' 0xFFFFFC21 0xC122E000 OPCODE_TRAP [op_v 1 4, op_v 6 4],
     insn ''SCVTF'' 0xFFFFFC63 0xC132E000 OPCODE_TRAP [op_v 2 3, op_v 7 3],
     insn ''SCVTF'' 0xFFFFE000 0x6552A000 OPCODE_TRAP [op_v 0 5, op_v 5 5, op_v 10 3],
     insn ''SCVTF'' 0xFFFFE000 0x6554A000 OPCODE_TRAP [op_v 0 5, op_v 5 5, op_v 10 3],
     insn ''SCVTF'' 0xFFFFE000 0x6556A000 OPCODE_TRAP [op_v 0 5, op_v 5 5, op_v 10 3],
     insn ''SCVTF'' 0xFFFFE000 0x6594A000 OPCODE_TRAP [op_v 0 5, op_v 5 5, op_v 10 3],
     insn ''SCVTF'' 0xFFFFE000 0x65D0A000 OPCODE_TRAP [op_v 0 5, op_v 5 5, op_v 10 3],
     insn ''SCVTF'' 0xFFFFE000 0x65D4A000 OPCODE_TRAP [op_v 0 5, op_v 5 5, op_v 10 3],
     insn ''SCVTF'' 0xFFFFE000 0x65D6A000 OPCODE_TRAP [op_v 0 5, op_v 5 5, op_v 10 3],
     insn ''SDIV'' 0xFFE0FC00 0x1AC00C00 OPCODE_DIV [op_w 0 5, op_w 5 5, op_w 16 5],
     insn ''SDIV'' 0xFFE0FC00 0x9AC00C00 OPCODE_DIV [op_x 0 5, op_x 5 5, op_x 16 5],
     insn ''SDIV'' 0xFF3FE000 0x04140000 OPCODE_DIV [op_v 0 5, op_v 5 5, op_v 10 3]]"

definition arm64_instructions_2472 :: "bal_decoder_instruction_metadata_t list" where
  "arm64_instructions_2472 = [
     insn ''SDIVR'' 0xFF3FE000 0x04160000 OPCODE_DIV [op_v 0 5, op_v 5 5, op_v 10 3],
     insn ''SDOT'' 0xBF00F400 0x0F00E000 OPCODE_TRAP [op_v 0 5, op_v 5 5, op_imm 11 1, op_v 16 4, op_v 20 1],
     insn ''SDOT'' 0xBF20FC00 0x0E009400 OPCODE_TRAP [op_v 0 5, op_v 5 5, op_v 16 5],
     insn ''SDOT'' 0xFFE0FC00 0x4400C800 OPCODE_TRAP [op_v 0 5, op_v 5 5, op_v 16 5],
     insn ''SDOT'' 0xFFE0FC00 0x4480C800 OPCODE_TRAP [op_v 0 5, op_v 5 5, op_v 16 3, op_imm 19 2],
     insn ''SDOT'' 0xFF20FC00 0x44000000 OPCODE_TRAP [op_v 0 5, op_v 5 5, op_v 16 5],
     insn ''SDOT'' 0xFFE0FC00 0x44A00000 OPCODE_TRAP [op_v 0 5, op_v 5 5, op_v 16 3, op_imm 19 2],
     insn ''SDOT'' 0xFFE0FC00 0x44E00000 OPCODE_TRAP [op_v 0 5, op_v 5 5, op_v 16 4, op_imm 20 1],
     insn ''SDOT'' 0xFFF09038 0xC1501000 OPCODE_TRAP [op_imm 0 3, op_v 6 4, op_imm 10 2, op_w 13 2, op_v 16 4],
     insn ''SDOT'' 0xFFF09078 0xC1509000 OPCODE_TRAP [op_imm 0 3, op_v 7 3, op_imm 10 2, op_w 13 2, op_v 16 4],
     insn ''SDOT'' 0xFFF09C18 0xC1601408 OPCODE_TRAP [op_imm 0 3, op_v 5 5, op_w 13 2, op_v 16 4],
     insn ''SDOT'' 0xFFF09C18 0xC1701408 OPCODE_TRAP [op_imm 0 3, op_v 5 5, op_w 13 2, op_v 16 4]]"

definition arm64_instructions_2484 :: "bal_decoder_instruction_metadata_t list" where
  "arm64_instructions_2484 = [
     insn ''SDOT'' 0xFFE19C38 0xC1E01408 OPCODE_TRAP [op_imm 0 3, op_v 6 4, op_w 13 2, op_v 17 4],
     insn ''SDOT'' 0xFFE39C78 0xC1E11408 OPCODE_TRAP [op_imm 0 3, op_v 7 3, op_w 13 2, op_v 18 3],
     insn ''SDOT'' 0xFFF09038 0xC1501020 OPCODE_TRAP [op_imm 0 3, op_v 6 4, op_imm 10 2, op_w 13 2, op_v 16 4],
     insn ''SDOT'' 0xFFF09078 0xC1509020 OPCODE_TRAP [op_imm 0 3, op_v 7 3, op_imm 10 2, op_w 13 2, op_v 16 4],
     insn ''SDOT'' 0xFFF09838 0xC1D00008 OPCODE_TRAP [op_imm 0 3, op_v 6 4, op_imm 10 1, op_w 13 2, op_v 16 4],
     insn ''SDOT'' 0xFFF09878 0xC1D08008 OPCODE_TRAP [op_imm 0 3, op_v 7 3, op_imm 10 1, op_w 13 2, op_v 16 4],
     insn ''SDOT'' 0xFFB09C18 0xC1201400 OPCODE_TRAP [op_imm 0 3, op_v 5 5, op_w 13 2, op_v 16 4],
     insn ''SDOT'' 0xFFB09C18 0xC1301400 OPCODE_TRAP [op_imm 0 3, op_v 5 5, op_w 13 2, op_v 16 4],
     insn ''SDOT'' 0xFFA19C38 0xC1A01400 OPCODE_TRAP [op_imm 0 3, op_v 6 4, op_w 13 2, op_v 17 4],
     insn ''SDOT'' 0xFFA39C78 0xC1A11400 OPCODE_TRAP [op_imm 0 3, op_v 7 3, op_w 13 2, op_v 18 3],
     insn ''SEL'' 0xFF21E021 0xC1208000 OPCODE_TRAP [op_v 1 4, op_v 6 4, op_v 10 3, op_v 17 4],
     insn ''SEL'' 0xFF23E063 0xC1218000 OPCODE_TRAP [op_v 2 3, op_v 7 3, op_v 10 3, op_v 18 3]]"

definition arm64_instructions_2496 :: "bal_decoder_instruction_metadata_t list" where
  "arm64_instructions_2496 = [
     insn ''SEL'' 0xFFF0C210 0x25004210 OPCODE_TRAP [op_v 0 4, op_v 5 4, op_v 10 4, op_v 16 4],
     insn ''SEL'' 0xFF20C000 0x0520C000 OPCODE_TRAP [op_v 0 5, op_v 5 5, op_v 10 4, op_v 16 5],
     insn ''SETF16'' 0xFFFFFC1F 0x3A00480D OPCODE_TRAP [op_w 5 5],
     insn ''SETF8'' 0xFFFFFC1F 0x3A00080D OPCODE_TRAP [op_w 5 5],
     insn ''SETFFR'' 0xFFFFFFFF 0x252C9000 OPCODE_TRAP [],
     insn ''SETGE'' 0x3FE0FC00 0x1DC08400 OPCODE_TRAP [op_imm 0 5, op_x 5 5, op_x 16 5],
     insn ''SETGM'' 0x3FE0FC00 0x1DC04400 OPCODE_TRAP [op_imm 0 5, op_x 5 5, op_x 16 5],
     insn ''SETGP'' 0x3FE0FC00 0x1DC00400 OPCODE_TRAP [op_x 0 5, op_x 5 5, op_x 16 5],
     insn ''SETGEN'' 0x3FE0FC00 0x1DC0A400 OPCODE_TRAP [op_imm 0 5, op_x 5 5, op_x 16 5],
     insn ''SETGMN'' 0x3FE0FC00 0x1DC06400 OPCODE_TRAP [op_imm 0 5, op_x 5 5, op_x 16 5],
     insn ''SETGPN'' 0x3FE0FC00 0x1DC02400 OPCODE_TRAP [op_x 0 5, op_x 5 5, op_x 16 5],
     insn ''SETGET'' 0x3FE0FC00 0x1DC09400 OPCODE_TRAP [op_imm 0 5, op_x 5 5, op_x 16 5]]"

definition arm64_instructions_2508 :: "bal_decoder_instruction_metadata_t list" where
  "arm64_instructions_2508 = [
     insn ''SETGMT'' 0x3FE0FC00 0x1DC05400 OPCODE_TRAP [op_imm 0 5, op_x 5 5, op_x 16 5],
     insn ''SETGPT'' 0x3FE0FC00 0x1DC01400 OPCODE_TRAP [op_x 0 5, op_x 5 5, op_x 16 5],
     insn ''SETGETN'' 0x3FE0FC00 0x1DC0B400 OPCODE_TRAP [op_imm 0 5, op_x 5 5, op_x 16 5],
     insn ''SETGMTN'' 0x3FE0FC00 0x1DC07400 OPCODE_TRAP [op_imm 0 5, op_x 5 5, op_x 16 5],
     insn ''SETGPTN'' 0x3FE0FC00 0x1DC03400 OPCODE_TRAP [op_x 0 5, op_x 5 5, op_x 16 5],
     insn ''SETE'' 0x3FE0FC00 0x19C08400 OPCODE_TRAP [op_imm 0 5, op_x 5 5, op_x 16 5],
     insn ''SETM'' 0x3FE0FC00 0x19C04400 OPCODE_TRAP [op_imm 0 5, op_x 5 5, op_x 16 5],
     insn ''SETP'' 0x3FE0FC00 0x19C00400 OPCODE_TRAP [op_x 0 5, op_x 5 5, op_x 16 5],
     insn ''SETEN'' 0x3FE0FC00 0x19C0A400 OPCODE_TRAP [op_imm 0 5, op_x 5 5, op_x 16 5],
     insn ''SETMN'' 0x3FE0FC00 0x19C06400 OPCODE_TRAP [op_imm 0 5, op_x 5 5, op_x 16 5],
     insn ''SETPN'' 0x3FE0FC00 0x19C02400 OPCODE_TRAP [op_x 0 5, op_x 5 5, op_x 16 5],
     insn ''SETET'' 0x3FE0FC00 0x19C09400 OPCODE_TRAP [op_imm 0 5, op_x 5 5, op_x 16 5]]"

definition arm64_instructions_2520 :: "bal_decoder_instruction_metadata_t list" where
  "arm64_instructions_2520 = [
     insn ''SETMT'' 0x3FE0FC00 0x19C05400 OPCODE_TRAP [op_imm 0 5, op_x 5 5, op_x 16 5],
     insn ''SETPT'' 0x3FE0FC00 0x19C01400 OPCODE_TRAP [op_x 0 5, op_x 5 5, op_x 16 5],
     insn ''SETETN'' 0x3FE0FC00 0x19C0B400 OPCODE_TRAP [op_imm 0 5, op_x 5 5, op_x 16 5],
     insn ''SETMTN'' 0x3FE0FC00 0x19C07400 OPCODE_TRAP [op_imm 0 5, op_x 5 5, op_x 16 5],
     insn ''SETPTN'' 0x3FE0FC00 0x19C03400 OPCODE_TRAP [op_x 0 5, op_x 5 5, op_x 16 5],
     insn ''SEV'' 0xFFFFFFFF 0xD503209F OPCODE_TRAP [],
     insn ''SEVL'' 0xFFFFFFFF 0xD50320BF OPCODE_TRAP [],
     insn ''SHA1C'' 0xFFE0FC00 0x5E000000 OPCODE_TRAP [op_v 0 5, op_w 5 5, op_v 16 5],
     insn ''SHA1H'' 0xFFFFFC00 0x5E280800 OPCODE_TRAP [op_w 0 5, op_w 5 5],
     insn ''SHA1M'' 0xFFE0FC00 0x5E002000 OPCODE_TRAP [op_v 0 5, op_w 5 5, op_v 16 5],
     insn ''SHA1P'' 0xFFE0FC00 0x5E001000 OPCODE_TRAP [op_v 0 5, op_w 5 5, op_v 16 5],
     insn ''SHA1SU0'' 0xFFE0FC00 0x5E003000 OPCODE_TRAP [op_v 0 5, op_v 5 5, op_v 16 5]]"

definition arm64_instructions_2532 :: "bal_decoder_instruction_metadata_t list" where
  "arm64_instructions_2532 = [
     insn ''SHA1SU1'' 0xFFFFFC00 0x5E281800 OPCODE_TRAP [op_v 0 5, op_v 5 5],
     insn ''SHA256H2'' 0xFFE0FC00 0x5E005000 OPCODE_TRAP [op_v 0 5, op_v 5 5, op_v 16 5],
     insn ''SHA256H'' 0xFFE0FC00 0x5E004000 OPCODE_TRAP [op_v 0 5, op_v 5 5, op_v 16 5],
     insn ''SHA256SU0'' 0xFFFFFC00 0x5E282800 OPCODE_TRAP [op_v 0 5, op_v 5 5],
     insn ''SHA256SU1'' 0xFFE0FC00 0x5E006000 OPCODE_TRAP [op_v 0 5, op_v 5 5, op_v 16 5],
     insn ''SHA512H2'' 0xFFE0FC00 0xCE608400 OPCODE_TRAP [op_v 0 5, op_v 5 5, op_v 16 5],
     insn ''SHA512H'' 0xFFE0FC00 0xCE608000 OPCODE_TRAP [op_v 0 5, op_v 5 5, op_v 16 5],
     insn ''SHA512SU0'' 0xFFFFFC00 0xCEC08000 OPCODE_TRAP [op_v 0 5, op_v 5 5],
     insn ''SHA512SU1'' 0xFFE0FC00 0xCE608800 OPCODE_TRAP [op_v 0 5, op_v 5 5, op_v 16 5],
     insn ''SHADD'' 0xBF20FC00 0x0E200400 OPCODE_TRAP [op_v 0 5, op_v 5 5, op_v 16 5],
     insn ''SHADD'' 0xFF3FE000 0x44108000 OPCODE_TRAP [op_v 0 5, op_v 5 5, op_v 10 3],
     insn ''SHL'' 0xBF8FFC00 0x0F005400 OPCODE_TRAP [op_v 0 5, op_v 5 5, op_imm 16 3, op_v 19 4, op_imm 19 4]]"

definition arm64_instructions_2544 :: "bal_decoder_instruction_metadata_t list" where
  "arm64_instructions_2544 = [
     insn ''SHL'' 0xFF8FFC00 0x5F005400 OPCODE_TRAP [op_v 0 5, op_v 5 5, op_imm 16 3, op_imm 19 4],
     insn ''SHLL'' 0xBF3FFC00 0x2E213800 OPCODE_TRAP [op_v 0 5, op_v 5 5, op_imm 22 2, op_cond 30 1],
     insn ''SHRN'' 0xBF8FFC00 0x0F008400 OPCODE_TRAP [op_v 0 5, op_v 5 5, op_v 19 4, op_v 30 1, op_cond 30 1],
     insn ''SHRNB'' 0xFFA0FC00 0x45201000 OPCODE_TRAP [op_v 0 5, op_v 5 5, op_imm 16 3, op_imm 19 2, op_imm 22 1],
     insn ''SHRNT'' 0xFFA0FC00 0x45201400 OPCODE_TRAP [op_v 0 5, op_v 5 5, op_imm 16 3, op_imm 19 2, op_imm 22 1],
     insn ''SHSUB'' 0xBF20FC00 0x0E202400 OPCODE_TRAP [op_v 0 5, op_v 5 5, op_v 16 5],
     insn ''SHSUB'' 0xFF3FE000 0x44128000 OPCODE_TRAP [op_v 0 5, op_v 5 5, op_v 10 3],
     insn ''SHSUBR'' 0xFF3FE000 0x44168000 OPCODE_TRAP [op_v 0 5, op_v 5 5, op_v 10 3],
     insn ''SLI'' 0xBF8FFC00 0x2F005400 OPCODE_TRAP [op_v 0 5, op_v 5 5, op_imm 16 3, op_v 19 4, op_imm 19 4],
     insn ''SLI'' 0xFF8FFC00 0x7F005400 OPCODE_TRAP [op_v 0 5, op_v 5 5, op_imm 16 3, op_imm 19 4],
     insn ''SLI'' 0xFF20FC00 0x4500F400 OPCODE_TRAP [op_v 0 5, op_v 5 5, op_imm 16 3, op_imm 19 2, op_imm 22 2],
     insn ''SM3PARTW1'' 0xFFE0FC00 0xCE60C000 OPCODE_TRAP [op_v 0 5, op_v 5 5, op_v 16 5]]"

definition arm64_instructions_2556 :: "bal_decoder_instruction_metadata_t list" where
  "arm64_instructions_2556 = [
     insn ''SM3PARTW2'' 0xFFE0FC00 0xCE60C400 OPCODE_TRAP [op_v 0 5, op_v 5 5, op_v 16 5],
     insn ''SM3SS1'' 0xFFE08000 0xCE400000 OPCODE_TRAP [op_v 0 5, op_v 5 5, op_v 10 5, op_v 16 5],
     insn ''SM3TT1A'' 0xFFE0CC00 0xCE408000 OPCODE_TRAP [op_v 0 5, op_v 5 5, op_imm 12 2, op_v 16 5],
     insn ''SM3TT1B'' 0xFFE0CC00 0xCE408400 OPCODE_TRAP [op_v 0 5, op_v 5 5, op_imm 12 2, op_v 16 5],
     insn ''SM3TT2A'' 0xFFE0CC00 0xCE408800 OPCODE_TRAP [op_v 0 5, op_v 5 5, op_imm 12 2, op_v 16 5],
     insn ''SM3TT2B'' 0xFFE0CC00 0xCE408C00 OPCODE_TRAP [op_v 0 5, op_v 5 5, op_imm 12 2, op_v 16 5],
     insn ''SM4E'' 0xFFFFFC00 0xCEC08400 OPCODE_TRAP [op_v 0 5, op_v 5 5],
     insn ''SM4E'' 0xFFFFFC00 0x4523E000 OPCODE_TRAP [op_v 0 5, op_v 5 5],
     insn ''SM4EKEY'' 0xFFE0FC00 0xCE60C800 OPCODE_TRAP [op_v 0 5, op_v 5 5, op_v 16 5],
     insn ''SM4EKEY'' 0xFFE0FC00 0x4520F000 OPCODE_TRAP [op_v 0 5, op_v 5 5, op_v 16 5],
     insn ''SMADDL'' 0xFFE08000 0x9B200000 OPCODE_TRAP [op_x 0 5, op_w 5 5, op_x 10 5, op_w 16 5],
     insn ''SMAX'' 0xBF20FC00 0x0E206400 OPCODE_TRAP [op_v 0 5, op_v 5 5, op_v 16 5]]"

definition arm64_instructions_2568 :: "bal_decoder_instruction_metadata_t list" where
  "arm64_instructions_2568 = [
     insn ''SMAX'' 0xFFFC0000 0x11C00000 OPCODE_TRAP [op_w 0 5, op_w 5 5, op_imm 10 8],
     insn ''SMAX'' 0xFFFC0000 0x91C00000 OPCODE_TRAP [op_x 0 5, op_x 5 5, op_imm 10 8],
     insn ''SMAX'' 0xFF30FFE1 0xC120A000 OPCODE_TRAP [op_v 1 4, op_v 16 4],
     insn ''SMAX'' 0xFF30FFE3 0xC120A800 OPCODE_TRAP [op_v 2 3, op_v 16 4],
     insn ''SMAX'' 0xFF21FFE1 0xC120B000 OPCODE_TRAP [op_v 1 4, op_v 17 4],
     insn ''SMAX'' 0xFF23FFE3 0xC120B800 OPCODE_TRAP [op_v 2 3, op_v 18 3],
     insn ''SMAX'' 0xFFE0FC00 0x1AC06000 OPCODE_TRAP [op_w 0 5, op_w 5 5, op_w 16 5],
     insn ''SMAX'' 0xFFE0FC00 0x9AC06000 OPCODE_TRAP [op_x 0 5, op_x 5 5, op_x 16 5],
     insn ''SMAX'' 0xFF3FE000 0x04080000 OPCODE_TRAP [op_v 0 5, op_v 5 5, op_v 10 3],
     insn ''SMAX'' 0xFF3FE000 0x2528C000 OPCODE_TRAP [op_v 0 5, op_imm 5 8],
     insn ''SMAXP'' 0xBF20FC00 0x0E20A400 OPCODE_TRAP [op_v 0 5, op_v 5 5, op_v 16 5],
     insn ''SMAXP'' 0xFF3FE000 0x4414A000 OPCODE_TRAP [op_v 0 5, op_v 5 5, op_v 10 3]]"

definition arm64_instructions_2580 :: "bal_decoder_instruction_metadata_t list" where
  "arm64_instructions_2580 = [
     insn ''SMAXQV'' 0xFF3FE000 0x040C2000 OPCODE_TRAP [op_v 0 5, op_v 5 5, op_v 10 3],
     insn ''SMAXV'' 0xBF3FFC00 0x0E30A800 OPCODE_TRAP [op_v 0 5, op_v 5 5],
     insn ''SMAXV'' 0xFF3FE000 0x04082000 OPCODE_TRAP [op_v 0 5, op_v 5 5, op_v 10 3],
     insn ''SMC'' 0xFFE0001F 0xD4000003 OPCODE_TRAP [op_imm 5 16],
     insn ''SMIN'' 0xBF20FC00 0x0E206C00 OPCODE_TRAP [op_v 0 5, op_v 5 5, op_v 16 5],
     insn ''SMIN'' 0xFFFC0000 0x11C80000 OPCODE_TRAP [op_w 0 5, op_w 5 5, op_imm 10 8],
     insn ''SMIN'' 0xFFFC0000 0x91C80000 OPCODE_TRAP [op_x 0 5, op_x 5 5, op_imm 10 8],
     insn ''SMIN'' 0xFF30FFE1 0xC120A020 OPCODE_TRAP [op_v 1 4, op_v 16 4],
     insn ''SMIN'' 0xFF30FFE3 0xC120A820 OPCODE_TRAP [op_v 2 3, op_v 16 4],
     insn ''SMIN'' 0xFF21FFE1 0xC120B020 OPCODE_TRAP [op_v 1 4, op_v 17 4],
     insn ''SMIN'' 0xFF23FFE3 0xC120B820 OPCODE_TRAP [op_v 2 3, op_v 18 3],
     insn ''SMIN'' 0xFFE0FC00 0x1AC06800 OPCODE_TRAP [op_w 0 5, op_w 5 5, op_w 16 5]]"

definition arm64_instructions_2592 :: "bal_decoder_instruction_metadata_t list" where
  "arm64_instructions_2592 = [
     insn ''SMIN'' 0xFFE0FC00 0x9AC06800 OPCODE_TRAP [op_x 0 5, op_x 5 5, op_x 16 5],
     insn ''SMIN'' 0xFF3FE000 0x040A0000 OPCODE_TRAP [op_v 0 5, op_v 5 5, op_v 10 3],
     insn ''SMIN'' 0xFF3FE000 0x252AC000 OPCODE_TRAP [op_v 0 5, op_imm 5 8],
     insn ''SMINP'' 0xBF20FC00 0x0E20AC00 OPCODE_TRAP [op_v 0 5, op_v 5 5, op_v 16 5],
     insn ''SMINP'' 0xFF3FE000 0x4416A000 OPCODE_TRAP [op_v 0 5, op_v 5 5, op_v 10 3],
     insn ''SMINQV'' 0xFF3FE000 0x040E2000 OPCODE_TRAP [op_v 0 5, op_v 5 5, op_v 10 3],
     insn ''SMINV'' 0xBF3FFC00 0x0E31A800 OPCODE_TRAP [op_v 0 5, op_v 5 5],
     insn ''SMINV'' 0xFF3FE000 0x040A2000 OPCODE_TRAP [op_v 0 5, op_v 5 5, op_v 10 3],
     insn ''SMLAL'' 0xBF00F400 0x0F002000 OPCODE_TRAP [op_v 0 5, op_v 5 5, op_v 16 4, op_v 20 1, op_v 22 2],
     insn ''SMLAL'' 0xBF20FC00 0x0E208000 OPCODE_TRAP [op_v 0 5, op_v 5 5, op_v 16 5, op_cond 30 1],
     insn ''SMLAL'' 0xFFF01018 0xC1C01000 OPCODE_TRAP [op_imm 0 3, op_v 5 5, op_imm 10 2, op_w 13 2, op_imm 15 1],
     insn ''SMLAL'' 0xFFF09038 0xC1D01000 OPCODE_TRAP [op_imm 0 2, op_imm 2 1, op_v 6 4, op_imm 10 2, op_w 13 2]]"

definition arm64_instructions_2604 :: "bal_decoder_instruction_metadata_t list" where
  "arm64_instructions_2604 = [
     insn ''SMLAL'' 0xFFF09078 0xC1D09000 OPCODE_TRAP [op_imm 0 2, op_imm 2 1, op_v 7 3, op_imm 10 2, op_w 13 2],
     insn ''SMLAL'' 0xFFF09C18 0xC1600C00 OPCODE_TRAP [op_imm 0 3, op_v 5 5, op_w 13 2, op_v 16 4],
     insn ''SMLAL'' 0xFFF09C1C 0xC1600800 OPCODE_TRAP [op_imm 0 2, op_v 5 5, op_w 13 2, op_v 16 4],
     insn ''SMLAL'' 0xFFF09C1C 0xC1700800 OPCODE_TRAP [op_imm 0 2, op_v 5 5, op_w 13 2, op_v 16 4],
     insn ''SMLAL'' 0xFFE19C3C 0xC1E00800 OPCODE_TRAP [op_imm 0 2, op_v 6 4, op_w 13 2, op_v 17 4],
     insn ''SMLAL'' 0xFFE39C7C 0xC1E10800 OPCODE_TRAP [op_imm 0 2, op_v 7 3, op_w 13 2, op_v 18 3],
     insn ''SMLALB'' 0xFF20FC00 0x44004000 OPCODE_TRAP [op_v 0 5, op_v 5 5, op_v 16 5],
     insn ''SMLALB'' 0xFFE0F400 0x44A08000 OPCODE_TRAP [op_v 0 5, op_v 5 5, op_imm 11 1, op_v 16 3, op_imm 19 2],
     insn ''SMLALB'' 0xFFE0F400 0x44E08000 OPCODE_TRAP [op_v 0 5, op_v 5 5, op_imm 11 1, op_v 16 4, op_imm 20 1],
     insn ''SMLALL'' 0xFFF0001C 0xC1000000 OPCODE_TRAP [op_imm 0 2, op_v 5 5, op_imm 10 3, op_w 13 2, op_imm 15 1],
     insn ''SMLALL'' 0xFFF0101C 0xC1800000 OPCODE_TRAP [op_imm 0 2, op_v 5 5, op_imm 10 2, op_w 13 2, op_imm 15 1],
     insn ''SMLALL'' 0xFFF09038 0xC1100000 OPCODE_TRAP [op_imm 0 1, op_imm 1 2, op_v 6 4, op_imm 10 2, op_w 13 2]]"

definition arm64_instructions_2616 :: "bal_decoder_instruction_metadata_t list" where
  "arm64_instructions_2616 = [
     insn ''SMLALL'' 0xFFF09078 0xC1108000 OPCODE_TRAP [op_imm 0 1, op_imm 1 2, op_v 7 3, op_imm 10 2, op_w 13 2],
     insn ''SMLALL'' 0xFFF09838 0xC1900000 OPCODE_TRAP [op_imm 0 1, op_imm 1 2, op_v 6 4, op_imm 10 1, op_w 13 2],
     insn ''SMLALL'' 0xFFF09878 0xC1908000 OPCODE_TRAP [op_imm 0 1, op_imm 1 2, op_v 7 3, op_imm 10 1, op_w 13 2],
     insn ''SMLALL'' 0xFFB09C1C 0xC1200400 OPCODE_TRAP [op_imm 0 2, op_v 5 5, op_w 13 2, op_v 16 4],
     insn ''SMLALL'' 0xFFB09C1E 0xC1200000 OPCODE_TRAP [op_imm 0 1, op_v 5 5, op_w 13 2, op_v 16 4],
     insn ''SMLALL'' 0xFFB09C1E 0xC1300000 OPCODE_TRAP [op_imm 0 1, op_v 5 5, op_w 13 2, op_v 16 4],
     insn ''SMLALL'' 0xFFA19C3E 0xC1A00000 OPCODE_TRAP [op_imm 0 1, op_v 6 4, op_w 13 2, op_v 17 4],
     insn ''SMLALL'' 0xFFA39C7E 0xC1A10000 OPCODE_TRAP [op_imm 0 1, op_v 7 3, op_w 13 2, op_v 18 3],
     insn ''SMLALT'' 0xFF20FC00 0x44004400 OPCODE_TRAP [op_v 0 5, op_v 5 5, op_v 16 5],
     insn ''SMLALT'' 0xFFE0F400 0x44A08400 OPCODE_TRAP [op_v 0 5, op_v 5 5, op_imm 11 1, op_v 16 3, op_imm 19 2],
     insn ''SMLALT'' 0xFFE0F400 0x44E08400 OPCODE_TRAP [op_v 0 5, op_v 5 5, op_imm 11 1, op_v 16 4, op_imm 20 1],
     insn ''SMLSL'' 0xBF00F400 0x0F006000 OPCODE_TRAP [op_v 0 5, op_v 5 5, op_v 16 4, op_v 20 1, op_v 22 2]]"

definition arm64_instructions_2628 :: "bal_decoder_instruction_metadata_t list" where
  "arm64_instructions_2628 = [
     insn ''SMLSL'' 0xBF20FC00 0x0E20A000 OPCODE_TRAP [op_v 0 5, op_v 5 5, op_v 16 5, op_cond 30 1],
     insn ''SMLSL'' 0xFFF01018 0xC1C01008 OPCODE_TRAP [op_imm 0 3, op_v 5 5, op_imm 10 2, op_w 13 2, op_imm 15 1],
     insn ''SMLSL'' 0xFFF09038 0xC1D01008 OPCODE_TRAP [op_imm 0 2, op_imm 2 1, op_v 6 4, op_imm 10 2, op_w 13 2],
     insn ''SMLSL'' 0xFFF09078 0xC1D09008 OPCODE_TRAP [op_imm 0 2, op_imm 2 1, op_v 7 3, op_imm 10 2, op_w 13 2],
     insn ''SMLSL'' 0xFFF09C18 0xC1600C08 OPCODE_TRAP [op_imm 0 3, op_v 5 5, op_w 13 2, op_v 16 4],
     insn ''SMLSL'' 0xFFF09C1C 0xC1600808 OPCODE_TRAP [op_imm 0 2, op_v 5 5, op_w 13 2, op_v 16 4],
     insn ''SMLSL'' 0xFFF09C1C 0xC1700808 OPCODE_TRAP [op_imm 0 2, op_v 5 5, op_w 13 2, op_v 16 4],
     insn ''SMLSL'' 0xFFE19C3C 0xC1E00808 OPCODE_TRAP [op_imm 0 2, op_v 6 4, op_w 13 2, op_v 17 4],
     insn ''SMLSL'' 0xFFE39C7C 0xC1E10808 OPCODE_TRAP [op_imm 0 2, op_v 7 3, op_w 13 2, op_v 18 3],
     insn ''SMLSLB'' 0xFF20FC00 0x44005000 OPCODE_TRAP [op_v 0 5, op_v 5 5, op_v 16 5],
     insn ''SMLSLB'' 0xFFE0F400 0x44A0A000 OPCODE_TRAP [op_v 0 5, op_v 5 5, op_imm 11 1, op_v 16 3, op_imm 19 2],
     insn ''SMLSLB'' 0xFFE0F400 0x44E0A000 OPCODE_TRAP [op_v 0 5, op_v 5 5, op_imm 11 1, op_v 16 4, op_imm 20 1]]"

definition arm64_instructions_2640 :: "bal_decoder_instruction_metadata_t list" where
  "arm64_instructions_2640 = [
     insn ''SMLSLL'' 0xFFF0001C 0xC1000008 OPCODE_TRAP [op_imm 0 2, op_v 5 5, op_imm 10 3, op_w 13 2, op_imm 15 1],
     insn ''SMLSLL'' 0xFFF0101C 0xC1800008 OPCODE_TRAP [op_imm 0 2, op_v 5 5, op_imm 10 2, op_w 13 2, op_imm 15 1],
     insn ''SMLSLL'' 0xFFF09038 0xC1100008 OPCODE_TRAP [op_imm 0 1, op_imm 1 2, op_v 6 4, op_imm 10 2, op_w 13 2],
     insn ''SMLSLL'' 0xFFF09078 0xC1108008 OPCODE_TRAP [op_imm 0 1, op_imm 1 2, op_v 7 3, op_imm 10 2, op_w 13 2],
     insn ''SMLSLL'' 0xFFF09838 0xC1900008 OPCODE_TRAP [op_imm 0 1, op_imm 1 2, op_v 6 4, op_imm 10 1, op_w 13 2],
     insn ''SMLSLL'' 0xFFF09878 0xC1908008 OPCODE_TRAP [op_imm 0 1, op_imm 1 2, op_v 7 3, op_imm 10 1, op_w 13 2],
     insn ''SMLSLL'' 0xFFB09C1C 0xC1200408 OPCODE_TRAP [op_imm 0 2, op_v 5 5, op_w 13 2, op_v 16 4],
     insn ''SMLSLL'' 0xFFB09C1E 0xC1200008 OPCODE_TRAP [op_imm 0 1, op_v 5 5, op_w 13 2, op_v 16 4],
     insn ''SMLSLL'' 0xFFB09C1E 0xC1300008 OPCODE_TRAP [op_imm 0 1, op_v 5 5, op_w 13 2, op_v 16 4],
     insn ''SMLSLL'' 0xFFA19C3E 0xC1A00008 OPCODE_TRAP [op_imm 0 1, op_v 6 4, op_w 13 2, op_v 17 4],
     insn ''SMLSLL'' 0xFFA39C7E 0xC1A10008 OPCODE_TRAP [op_imm 0 1, op_v 7 3, op_w 13 2, op_v 18 3],
     insn ''SMLSLT'' 0xFF20FC00 0x44005400 OPCODE_TRAP [op_v 0 5, op_v 5 5, op_v 16 5]]"

definition arm64_instructions_2652 :: "bal_decoder_instruction_metadata_t list" where
  "arm64_instructions_2652 = [
     insn ''SMLSLT'' 0xFFE0F400 0x44A0A400 OPCODE_TRAP [op_v 0 5, op_v 5 5, op_imm 11 1, op_v 16 3, op_imm 19 2],
     insn ''SMLSLT'' 0xFFE0F400 0x44E0A400 OPCODE_TRAP [op_v 0 5, op_v 5 5, op_imm 11 1, op_v 16 4, op_imm 20 1],
     insn ''SMMLA'' 0xFFE0FC00 0x4E80A400 OPCODE_TRAP [op_v 0 5, op_v 5 5, op_v 16 5],
     insn ''SMMLA'' 0xFFE0FC00 0x45009800 OPCODE_TRAP [op_v 0 5, op_v 5 5, op_v 16 5],
     insn ''SMSUBL'' 0xFFE0FC00 0x9B20FC00 OPCODE_TRAP [op_x 0 5, op_w 5 5, op_w 16 5],
     insn ''SMOPA'' 0xFFE0001C 0xA0800008 OPCODE_TRAP [op_v 5 5, op_v 10 3, op_v 13 3, op_v 16 5],
     insn ''SMOPA'' 0xFFE00018 0xA0C00000 OPCODE_TRAP [op_v 5 5, op_v 10 3, op_v 13 3, op_v 16 5],
     insn ''SMOPA'' 0xFFE0001C 0xA0800000 OPCODE_TRAP [op_v 5 5, op_v 10 3, op_v 13 3, op_v 16 5],
     insn ''SMOPS'' 0xFFE0001C 0xA0800018 OPCODE_TRAP [op_v 5 5, op_v 10 3, op_v 13 3, op_v 16 5],
     insn ''SMOPS'' 0xFFE00018 0xA0C00010 OPCODE_TRAP [op_v 5 5, op_v 10 3, op_v 13 3, op_v 16 5],
     insn ''SMOPS'' 0xFFE0001C 0xA0800010 OPCODE_TRAP [op_v 5 5, op_v 10 3, op_v 13 3, op_v 16 5],
     insn ''SMOV'' 0xFFE0FC00 0x0E002C00 OPCODE_TRAP [op_w 0 5, op_v 5 5, op_imm 16 5]]"

definition arm64_instructions_2664 :: "bal_decoder_instruction_metadata_t list" where
  "arm64_instructions_2664 = [
     insn ''SMOV'' 0xFFE0FC00 0x4E002C00 OPCODE_TRAP [op_x 0 5, op_v 5 5, op_imm 16 5],
     insn ''MSR'' 0xFFFFF9FF 0xD503417F OPCODE_TRAP [],
     insn ''MSR'' 0xFFFFF9FF 0xD503407F OPCODE_TRAP [],
     insn ''SMSUBL'' 0xFFE08000 0x9B208000 OPCODE_TRAP [op_x 0 5, op_w 5 5, op_x 10 5, op_w 16 5],
     insn ''SMULH'' 0xFFE0A492 0x9B402492 OPCODE_TRAP [op_x 0 5, op_x 5 5, op_x 16 5],
     insn ''SMULH'' 0xFF3FE000 0x04120000 OPCODE_TRAP [op_v 0 5, op_v 5 5, op_v 10 3],
     insn ''SMULH'' 0xFF20FC00 0x04206800 OPCODE_TRAP [op_v 0 5, op_v 5 5, op_v 16 5],
     insn ''SMULL'' 0xBF00F400 0x0F00A000 OPCODE_TRAP [op_v 0 5, op_v 5 5, op_v 16 4, op_v 20 1, op_v 22 2],
     insn ''SMULL'' 0xBF20FC00 0x0E20C000 OPCODE_TRAP [op_v 0 5, op_v 5 5, op_v 16 5, op_cond 30 1],
     insn ''SMADDL'' 0xFFE0FC00 0x9B207C00 OPCODE_TRAP [op_x 0 5, op_w 5 5, op_w 16 5],
     insn ''SMULLB'' 0xFF20FC00 0x45007000 OPCODE_TRAP [op_v 0 5, op_v 5 5, op_v 16 5],
     insn ''SMULLB'' 0xFFE0F400 0x44A0C000 OPCODE_TRAP [op_v 0 5, op_v 5 5, op_imm 11 1, op_v 16 3, op_imm 19 2]]"

definition arm64_instructions_2676 :: "bal_decoder_instruction_metadata_t list" where
  "arm64_instructions_2676 = [
     insn ''SMULLB'' 0xFFE0F400 0x44E0C000 OPCODE_TRAP [op_v 0 5, op_v 5 5, op_imm 11 1, op_v 16 4, op_imm 20 1],
     insn ''SMULLT'' 0xFF20FC00 0x45007400 OPCODE_TRAP [op_v 0 5, op_v 5 5, op_v 16 5],
     insn ''SMULLT'' 0xFFE0F400 0x44A0C400 OPCODE_TRAP [op_v 0 5, op_v 5 5, op_imm 11 1, op_v 16 3, op_imm 19 2],
     insn ''SMULLT'' 0xFFE0F400 0x44E0C400 OPCODE_TRAP [op_v 0 5, op_v 5 5, op_imm 11 1, op_v 16 4, op_imm 20 1],
     insn ''SPLICE'' 0xFF3FE000 0x052C8000 OPCODE_TRAP [op_v 0 5, op_v 5 5, op_v 10 3],
     insn ''SPLICE'' 0xFF3FE000 0x052D8000 OPCODE_TRAP [op_v 0 5, op_v 5 5, op_v 10 3],
     insn ''SQABS'' 0xBF3FFC00 0x0E207800 OPCODE_TRAP [op_v 0 5, op_v 5 5],
     insn ''SQABS'' 0xFF3FFC00 0x5E207800 OPCODE_TRAP [op_v 0 5, op_v 5 5],
     insn ''SQABS'' 0xFF3FE000 0x4408A000 OPCODE_TRAP [op_v 0 5, op_v 5 5, op_v 10 3],
     insn ''SQADD'' 0xBF20FC00 0x0E200C00 OPCODE_TRAP [op_v 0 5, op_v 5 5, op_v 16 5],
     insn ''SQADD'' 0xFF20FC00 0x5E200C00 OPCODE_TRAP [op_v 0 5, op_v 5 5, op_v 16 5],
     insn ''SQADD'' 0xFF3FE000 0x44188000 OPCODE_TRAP [op_v 0 5, op_v 5 5, op_v 10 3]]"

definition arm64_instructions_2688 :: "bal_decoder_instruction_metadata_t list" where
  "arm64_instructions_2688 = [
     insn ''SQADD'' 0xFF3FC000 0x2524C000 OPCODE_TRAP [op_v 0 5, op_imm 5 8, op_imm 13 1],
     insn ''SQADD'' 0xFF20FC00 0x04201000 OPCODE_TRAP [op_v 0 5, op_v 5 5, op_v 16 5],
     insn ''SQCADD'' 0xFF3FF800 0x4501D800 OPCODE_TRAP [op_v 0 5, op_v 5 5],
     insn ''SQCVT'' 0xFFFFFC20 0xC123E000 OPCODE_TRAP [op_v 0 5, op_v 6 4],
     insn ''SQCVT'' 0xFF7FFC60 0xC133E000 OPCODE_TRAP [op_v 0 5, op_v 7 3],
     insn ''SQCVTN'' 0xFFFFFC20 0x45314000 OPCODE_TRAP [op_v 0 5, op_v 6 4],
     insn ''SQCVTN'' 0xFF7FFC60 0xC133E040 OPCODE_TRAP [op_v 0 5, op_v 7 3],
     insn ''SQCVTU'' 0xFFFFFC20 0xC163E000 OPCODE_TRAP [op_v 0 5, op_v 6 4],
     insn ''SQCVTU'' 0xFF7FFC60 0xC173E000 OPCODE_TRAP [op_v 0 5, op_v 7 3],
     insn ''SQCVTUN'' 0xFFFFFC20 0x45315000 OPCODE_TRAP [op_v 0 5, op_v 6 4],
     insn ''SQCVTUN'' 0xFF7FFC60 0xC173E040 OPCODE_TRAP [op_v 0 5, op_v 7 3],
     insn ''SQDECB'' 0xFFF0FC00 0x0420F800 OPCODE_TRAP [op_x 0 5, op_w 0 5, op_imm 5 5, op_imm 16 4]]"

definition arm64_instructions_2700 :: "bal_decoder_instruction_metadata_t list" where
  "arm64_instructions_2700 = [
     insn ''SQDECB'' 0xFFF0FC00 0x0430F800 OPCODE_TRAP [op_x 0 5, op_imm 5 5, op_imm 16 4],
     insn ''SQDECD'' 0xFFF0FC00 0x04E0F800 OPCODE_TRAP [op_x 0 5, op_w 0 5, op_imm 5 5, op_imm 16 4],
     insn ''SQDECD'' 0xFFF0FC00 0x04F0F800 OPCODE_TRAP [op_x 0 5, op_imm 5 5, op_imm 16 4],
     insn ''SQDECD'' 0xFFF0FC00 0x04E0C800 OPCODE_TRAP [op_v 0 5, op_imm 5 5, op_imm 16 4],
     insn ''SQDECH'' 0xFFF0FC00 0x0460F800 OPCODE_TRAP [op_x 0 5, op_w 0 5, op_imm 5 5, op_imm 16 4],
     insn ''SQDECH'' 0xFFF0FC00 0x0470F800 OPCODE_TRAP [op_x 0 5, op_imm 5 5, op_imm 16 4],
     insn ''SQDECH'' 0xFFF0FC00 0x0460C800 OPCODE_TRAP [op_v 0 5, op_imm 5 5, op_imm 16 4],
     insn ''SQDECP'' 0xFF3FFE00 0x252A8800 OPCODE_TRAP [op_x 0 5, op_w 0 5, op_v 5 4],
     insn ''SQDECP'' 0xFF3FFE00 0x252A8C00 OPCODE_TRAP [op_x 0 5, op_v 5 4],
     insn ''SQDECP'' 0xFF3FFE00 0x252A8000 OPCODE_TRAP [op_v 0 5, op_v 5 4],
     insn ''SQDECW'' 0xFFF0FC00 0x04A0F800 OPCODE_TRAP [op_x 0 5, op_w 0 5, op_imm 5 5, op_imm 16 4],
     insn ''SQDECW'' 0xFFF0FC00 0x04B0F800 OPCODE_TRAP [op_x 0 5, op_imm 5 5, op_imm 16 4]]"

definition arm64_instructions_2712 :: "bal_decoder_instruction_metadata_t list" where
  "arm64_instructions_2712 = [
     insn ''SQDECW'' 0xFFF0FC00 0x04A0C800 OPCODE_TRAP [op_v 0 5, op_imm 5 5, op_imm 16 4],
     insn ''SQDMLAL'' 0xBF00F400 0x0F003000 OPCODE_TRAP [op_v 0 5, op_v 5 5, op_v 16 4, op_v 20 1, op_v 22 2],
     insn ''SQDMLAL'' 0xFF00F400 0x5F003000 OPCODE_TRAP [op_v 0 5, op_v 5 5, op_v 16 4, op_v 20 1, op_v 22 2],
     insn ''SQDMLAL'' 0xBF20FC00 0x0E209000 OPCODE_TRAP [op_v 0 5, op_v 5 5, op_v 16 5, op_cond 30 1],
     insn ''SQDMLAL'' 0xFF20FC00 0x5E209000 OPCODE_TRAP [op_v 0 5, op_v 5 5, op_v 16 5],
     insn ''SQDMLALB'' 0xFF20FC00 0x44006000 OPCODE_TRAP [op_v 0 5, op_v 5 5, op_v 16 5],
     insn ''SQDMLALB'' 0xFFE0F400 0x44A02000 OPCODE_TRAP [op_v 0 5, op_v 5 5, op_imm 11 1, op_v 16 3, op_imm 19 2],
     insn ''SQDMLALB'' 0xFFE0F400 0x44E02000 OPCODE_TRAP [op_v 0 5, op_v 5 5, op_imm 11 1, op_v 16 4, op_imm 20 1],
     insn ''SQDMLALBT'' 0xFF20FC00 0x44000800 OPCODE_TRAP [op_v 0 5, op_v 5 5, op_v 16 5],
     insn ''SQDMLALT'' 0xFF20FC00 0x44006400 OPCODE_TRAP [op_v 0 5, op_v 5 5, op_v 16 5],
     insn ''SQDMLALT'' 0xFFE0F400 0x44A02400 OPCODE_TRAP [op_v 0 5, op_v 5 5, op_imm 11 1, op_v 16 3, op_imm 19 2],
     insn ''SQDMLALT'' 0xFFE0F400 0x44E02400 OPCODE_TRAP [op_v 0 5, op_v 5 5, op_imm 11 1, op_v 16 4, op_imm 20 1]]"

definition arm64_instructions_2724 :: "bal_decoder_instruction_metadata_t list" where
  "arm64_instructions_2724 = [
     insn ''SQDMLSL'' 0xBF00F400 0x0F007000 OPCODE_TRAP [op_v 0 5, op_v 5 5, op_v 16 4, op_v 20 1, op_v 22 2],
     insn ''SQDMLSL'' 0xFF00F400 0x5F007000 OPCODE_TRAP [op_v 0 5, op_v 5 5, op_v 16 4, op_v 20 1, op_v 22 2],
     insn ''SQDMLSL'' 0xBF20FC00 0x0E20B000 OPCODE_TRAP [op_v 0 5, op_v 5 5, op_v 16 5, op_cond 30 1],
     insn ''SQDMLSL'' 0xFF20FC00 0x5E20B000 OPCODE_TRAP [op_v 0 5, op_v 5 5, op_v 16 5],
     insn ''SQDMLSLB'' 0xFF20FC00 0x44006800 OPCODE_TRAP [op_v 0 5, op_v 5 5, op_v 16 5],
     insn ''SQDMLSLB'' 0xFFE0F400 0x44A03000 OPCODE_TRAP [op_v 0 5, op_v 5 5, op_imm 11 1, op_v 16 3, op_imm 19 2],
     insn ''SQDMLSLB'' 0xFFE0F400 0x44E03000 OPCODE_TRAP [op_v 0 5, op_v 5 5, op_imm 11 1, op_v 16 4, op_imm 20 1],
     insn ''SQDMLSLBT'' 0xFF20FC00 0x44000C00 OPCODE_TRAP [op_v 0 5, op_v 5 5, op_v 16 5],
     insn ''SQDMLSLT'' 0xFF20FC00 0x44006C00 OPCODE_TRAP [op_v 0 5, op_v 5 5, op_v 16 5],
     insn ''SQDMLSLT'' 0xFFE0F400 0x44A03400 OPCODE_TRAP [op_v 0 5, op_v 5 5, op_imm 11 1, op_v 16 3, op_imm 19 2],
     insn ''SQDMLSLT'' 0xFFE0F400 0x44E03400 OPCODE_TRAP [op_v 0 5, op_v 5 5, op_imm 11 1, op_v 16 4, op_imm 20 1],
     insn ''SQDMULH'' 0xBF00F400 0x0F00C000 OPCODE_TRAP [op_v 0 5, op_v 5 5, op_v 16 4, op_v 20 1, op_v 22 2]]"

definition arm64_instructions_2736 :: "bal_decoder_instruction_metadata_t list" where
  "arm64_instructions_2736 = [
     insn ''SQDMULH'' 0xFF00F400 0x5F00C000 OPCODE_TRAP [op_v 0 5, op_v 5 5, op_v 16 4, op_v 20 1, op_v 22 2],
     insn ''SQDMULH'' 0xBF20FC00 0x0E20B400 OPCODE_TRAP [op_v 0 5, op_v 5 5, op_v 16 5],
     insn ''SQDMULH'' 0xFF20FC00 0x5E20B400 OPCODE_TRAP [op_v 0 5, op_v 5 5, op_v 16 5],
     insn ''SQDMULH'' 0xFF30FFE1 0xC120A400 OPCODE_TRAP [op_v 1 4, op_v 16 4],
     insn ''SQDMULH'' 0xFF30FFE3 0xC120AC00 OPCODE_TRAP [op_v 2 3, op_v 16 4],
     insn ''SQDMULH'' 0xFF21FFE1 0xC120B400 OPCODE_TRAP [op_v 1 4, op_v 17 4],
     insn ''SQDMULH'' 0xFF23FFE3 0xC120BC00 OPCODE_TRAP [op_v 2 3, op_v 18 3],
     insn ''SQDMULH'' 0xFF20FC00 0x04207000 OPCODE_TRAP [op_v 0 5, op_v 5 5, op_v 16 5],
     insn ''SQDMULH'' 0xFFA0FC00 0x4420F000 OPCODE_TRAP [op_v 0 5, op_v 5 5, op_v 16 3, op_imm 19 2, op_imm 22 1],
     insn ''SQDMULH'' 0xFFE0FC00 0x44A0F000 OPCODE_TRAP [op_v 0 5, op_v 5 5, op_v 16 3, op_imm 19 2],
     insn ''SQDMULH'' 0xFFE0FC00 0x44E0F000 OPCODE_TRAP [op_v 0 5, op_v 5 5, op_v 16 4, op_imm 20 1],
     insn ''SQDMULL'' 0xBF00F400 0x0F00B000 OPCODE_TRAP [op_v 0 5, op_v 5 5, op_v 16 4, op_v 20 1, op_v 22 2]]"

definition arm64_instructions_2748 :: "bal_decoder_instruction_metadata_t list" where
  "arm64_instructions_2748 = [
     insn ''SQDMULL'' 0xFF00F400 0x5F00B000 OPCODE_TRAP [op_v 0 5, op_v 5 5, op_v 16 4, op_v 20 1, op_v 22 2],
     insn ''SQDMULL'' 0xBF20FC00 0x0E20D000 OPCODE_TRAP [op_v 0 5, op_v 5 5, op_v 16 5, op_cond 30 1],
     insn ''SQDMULL'' 0xFF20FC00 0x5E20D000 OPCODE_TRAP [op_v 0 5, op_v 5 5, op_v 16 5],
     insn ''SQDMULLB'' 0xFF20FC00 0x45006000 OPCODE_TRAP [op_v 0 5, op_v 5 5, op_v 16 5],
     insn ''SQDMULLB'' 0xFFE0F400 0x44A0E000 OPCODE_TRAP [op_v 0 5, op_v 5 5, op_imm 11 1, op_v 16 3, op_imm 19 2],
     insn ''SQDMULLB'' 0xFFE0F400 0x44E0E000 OPCODE_TRAP [op_v 0 5, op_v 5 5, op_imm 11 1, op_v 16 4, op_imm 20 1],
     insn ''SQDMULLT'' 0xFF20FC00 0x45006400 OPCODE_TRAP [op_v 0 5, op_v 5 5, op_v 16 5],
     insn ''SQDMULLT'' 0xFFE0F400 0x44A0E400 OPCODE_TRAP [op_v 0 5, op_v 5 5, op_imm 11 1, op_v 16 3, op_imm 19 2],
     insn ''SQDMULLT'' 0xFFE0F400 0x44E0E400 OPCODE_TRAP [op_v 0 5, op_v 5 5, op_imm 11 1, op_v 16 4, op_imm 20 1],
     insn ''SQINCB'' 0xFFF0FC00 0x0420F000 OPCODE_TRAP [op_x 0 5, op_w 0 5, op_imm 5 5, op_imm 16 4],
     insn ''SQINCB'' 0xFFF0FC00 0x0430F000 OPCODE_TRAP [op_x 0 5, op_imm 5 5, op_imm 16 4],
     insn ''SQINCD'' 0xFFF0FC00 0x04E0F000 OPCODE_TRAP [op_x 0 5, op_w 0 5, op_imm 5 5, op_imm 16 4]]"

definition arm64_instructions_2760 :: "bal_decoder_instruction_metadata_t list" where
  "arm64_instructions_2760 = [
     insn ''SQINCD'' 0xFFF0FC00 0x04F0F000 OPCODE_TRAP [op_x 0 5, op_imm 5 5, op_imm 16 4],
     insn ''SQINCD'' 0xFFF0FC00 0x04E0C000 OPCODE_TRAP [op_v 0 5, op_imm 5 5, op_imm 16 4],
     insn ''SQINCH'' 0xFFF0FC00 0x0460F000 OPCODE_TRAP [op_x 0 5, op_w 0 5, op_imm 5 5, op_imm 16 4],
     insn ''SQINCH'' 0xFFF0FC00 0x0470F000 OPCODE_TRAP [op_x 0 5, op_imm 5 5, op_imm 16 4],
     insn ''SQINCH'' 0xFFF0FC00 0x0460C000 OPCODE_TRAP [op_v 0 5, op_imm 5 5, op_imm 16 4],
     insn ''SQINCP'' 0xFF3FFE00 0x25288800 OPCODE_TRAP [op_x 0 5, op_w 0 5, op_v 5 4],
     insn ''SQINCP'' 0xFF3FFE00 0x25288C00 OPCODE_TRAP [op_x 0 5, op_v 5 4],
     insn ''SQINCP'' 0xFF3FFE00 0x25288000 OPCODE_TRAP [op_v 0 5, op_v 5 4],
     insn ''SQINCW'' 0xFFF0FC00 0x04A0F000 OPCODE_TRAP [op_x 0 5, op_w 0 5, op_imm 5 5, op_imm 16 4],
     insn ''SQINCW'' 0xFFF0FC00 0x04B0F000 OPCODE_TRAP [op_x 0 5, op_imm 5 5, op_imm 16 4],
     insn ''SQINCW'' 0xFFF0FC00 0x04A0C000 OPCODE_TRAP [op_v 0 5, op_imm 5 5, op_imm 16 4],
     insn ''SQNEG'' 0xBF3FFC00 0x2E207800 OPCODE_TRAP [op_v 0 5, op_v 5 5]]"

definition arm64_instructions_2772 :: "bal_decoder_instruction_metadata_t list" where
  "arm64_instructions_2772 = [
     insn ''SQNEG'' 0xFF3FFC00 0x7E207800 OPCODE_TRAP [op_v 0 5, op_v 5 5],
     insn ''SQNEG'' 0xFF3FE000 0x4409A000 OPCODE_TRAP [op_v 0 5, op_v 5 5, op_v 10 3],
     insn ''SQRDCMLAH'' 0xFF20F000 0x44003000 OPCODE_TRAP [op_v 0 5, op_v 5 5, op_v 16 5],
     insn ''SQRDCMLAH'' 0xFFE0F000 0x44A07000 OPCODE_TRAP [op_v 0 5, op_v 5 5, op_v 16 3, op_imm 19 2],
     insn ''SQRDCMLAH'' 0xFFE0F000 0x44E07000 OPCODE_TRAP [op_v 0 5, op_v 5 5, op_v 16 4, op_imm 20 1],
     insn ''SQRDMLAH'' 0xBF00F400 0x2F00D000 OPCODE_TRAP [op_v 0 5, op_v 5 5, op_v 16 4, op_v 20 1, op_v 22 2],
     insn ''SQRDMLAH'' 0xFF00F400 0x7F00D000 OPCODE_TRAP [op_v 0 5, op_v 5 5, op_v 16 4, op_v 20 1, op_v 22 2],
     insn ''SQRDMLAH'' 0xBF20FC00 0x2E008400 OPCODE_TRAP [op_v 0 5, op_v 5 5, op_v 16 5],
     insn ''SQRDMLAH'' 0xFF20FC00 0x7E008400 OPCODE_TRAP [op_v 0 5, op_v 5 5, op_v 16 5],
     insn ''SQRDMLAH'' 0xFF20FC00 0x44007000 OPCODE_TRAP [op_v 0 5, op_v 5 5, op_v 16 5],
     insn ''SQRDMLAH'' 0xFFA0FC00 0x44201000 OPCODE_TRAP [op_v 0 5, op_v 5 5, op_v 16 3, op_imm 19 2, op_imm 22 1],
     insn ''SQRDMLAH'' 0xFFE0FC00 0x44A01000 OPCODE_TRAP [op_v 0 5, op_v 5 5, op_v 16 3, op_imm 19 2]]"

definition arm64_instructions_2784 :: "bal_decoder_instruction_metadata_t list" where
  "arm64_instructions_2784 = [
     insn ''SQRDMLAH'' 0xFFE0FC00 0x44E01000 OPCODE_TRAP [op_v 0 5, op_v 5 5, op_v 16 4, op_imm 20 1],
     insn ''SQRDMLSH'' 0xBF00F400 0x2F00F000 OPCODE_TRAP [op_v 0 5, op_v 5 5, op_v 16 4, op_v 20 1, op_v 22 2],
     insn ''SQRDMLSH'' 0xFF00F400 0x7F00F000 OPCODE_TRAP [op_v 0 5, op_v 5 5, op_v 16 4, op_v 20 1, op_v 22 2],
     insn ''SQRDMLSH'' 0xBF20FC00 0x2E008C00 OPCODE_TRAP [op_v 0 5, op_v 5 5, op_v 16 5],
     insn ''SQRDMLSH'' 0xFF20FC00 0x7E008C00 OPCODE_TRAP [op_v 0 5, op_v 5 5, op_v 16 5],
     insn ''SQRDMLSH'' 0xFF20FC00 0x44007400 OPCODE_TRAP [op_v 0 5, op_v 5 5, op_v 16 5],
     insn ''SQRDMLSH'' 0xFFA0FC00 0x44201400 OPCODE_TRAP [op_v 0 5, op_v 5 5, op_v 16 3, op_imm 19 2, op_imm 22 1],
     insn ''SQRDMLSH'' 0xFFE0FC00 0x44A01400 OPCODE_TRAP [op_v 0 5, op_v 5 5, op_v 16 3, op_imm 19 2],
     insn ''SQRDMLSH'' 0xFFE0FC00 0x44E01400 OPCODE_TRAP [op_v 0 5, op_v 5 5, op_v 16 4, op_imm 20 1],
     insn ''SQRDMULH'' 0xBF00F400 0x0F00D000 OPCODE_TRAP [op_v 0 5, op_v 5 5, op_v 16 4, op_v 20 1, op_v 22 2],
     insn ''SQRDMULH'' 0xFF00F400 0x5F00D000 OPCODE_TRAP [op_v 0 5, op_v 5 5, op_v 16 4, op_v 20 1, op_v 22 2],
     insn ''SQRDMULH'' 0xBF20FC00 0x2E20B400 OPCODE_TRAP [op_v 0 5, op_v 5 5, op_v 16 5]]"

definition arm64_instructions_2796 :: "bal_decoder_instruction_metadata_t list" where
  "arm64_instructions_2796 = [
     insn ''SQRDMULH'' 0xFF20FC00 0x7E20B400 OPCODE_TRAP [op_v 0 5, op_v 5 5, op_v 16 5],
     insn ''SQRDMULH'' 0xFF20FC00 0x04207400 OPCODE_TRAP [op_v 0 5, op_v 5 5, op_v 16 5],
     insn ''SQRDMULH'' 0xFFA0FC00 0x4420F400 OPCODE_TRAP [op_v 0 5, op_v 5 5, op_v 16 3, op_imm 19 2, op_imm 22 1],
     insn ''SQRDMULH'' 0xFFE0FC00 0x44A0F400 OPCODE_TRAP [op_v 0 5, op_v 5 5, op_v 16 3, op_imm 19 2],
     insn ''SQRDMULH'' 0xFFE0FC00 0x44E0F400 OPCODE_TRAP [op_v 0 5, op_v 5 5, op_v 16 4, op_imm 20 1],
     insn ''SQRSHL'' 0xBF20FC00 0x0E205C00 OPCODE_TRAP [op_v 0 5, op_v 5 5, op_v 16 5],
     insn ''SQRSHL'' 0xFF20FC00 0x5E205C00 OPCODE_TRAP [op_v 0 5, op_v 5 5, op_v 16 5],
     insn ''SQRSHL'' 0xFF3FE000 0x440A8000 OPCODE_TRAP [op_v 0 5, op_v 5 5, op_v 10 3],
     insn ''SQRSHLR'' 0xFF3FE000 0x440E8000 OPCODE_TRAP [op_v 0 5, op_v 5 5, op_v 10 3],
     insn ''SQRSHR'' 0xFFF0FC20 0xC1E0D400 OPCODE_TRAP [op_v 0 5, op_v 6 4, op_imm 16 4],
     insn ''SQRSHR'' 0xFF20FC60 0xC120D800 OPCODE_TRAP [op_v 0 5, op_v 7 3, op_imm 16 5, op_imm 22 2],
     insn ''SQRSHRN'' 0xBF8FFC00 0x0F009C00 OPCODE_TRAP [op_v 0 5, op_v 5 5, op_v 19 4, op_v 30 1, op_cond 30 1]]"

definition arm64_instructions_2808 :: "bal_decoder_instruction_metadata_t list" where
  "arm64_instructions_2808 = [
     insn ''SQRSHRN'' 0xFF8FFC00 0x5F009C00 OPCODE_TRAP [op_v 0 5, op_v 5 5, op_imm 16 3, op_imm 19 4],
     insn ''SQRSHRN'' 0xFFF0FC20 0x45B02800 OPCODE_TRAP [op_v 0 5, op_v 6 4, op_imm 16 4],
     insn ''SQRSHRN'' 0xFF20FC60 0xC120DC00 OPCODE_TRAP [op_v 0 5, op_v 7 3, op_imm 16 5, op_imm 22 2],
     insn ''SQRSHRNB'' 0xFFA0FC00 0x45202800 OPCODE_TRAP [op_v 0 5, op_v 5 5, op_imm 16 3, op_imm 19 2, op_imm 22 1],
     insn ''SQRSHRNT'' 0xFFA0FC00 0x45202C00 OPCODE_TRAP [op_v 0 5, op_v 5 5, op_imm 16 3, op_imm 19 2, op_imm 22 1],
     insn ''SQRSHRU'' 0xFFF0FC20 0xC1F0D400 OPCODE_TRAP [op_v 0 5, op_v 6 4, op_imm 16 4],
     insn ''SQRSHRU'' 0xFF20FC60 0xC120D840 OPCODE_TRAP [op_v 0 5, op_v 7 3, op_imm 16 5, op_imm 22 2],
     insn ''SQRSHRUN'' 0xBF8FFC00 0x2F008C00 OPCODE_TRAP [op_v 0 5, op_v 5 5, op_v 19 4, op_v 30 1, op_cond 30 1],
     insn ''SQRSHRUN'' 0xFF8FFC00 0x7F008C00 OPCODE_TRAP [op_v 0 5, op_v 5 5, op_imm 16 3, op_imm 19 4],
     insn ''SQRSHRUN'' 0xFFF0FC20 0x45B00800 OPCODE_TRAP [op_v 0 5, op_v 6 4, op_imm 16 4],
     insn ''SQRSHRUN'' 0xFF20FC60 0xC120DC40 OPCODE_TRAP [op_v 0 5, op_v 7 3, op_imm 16 5, op_imm 22 2],
     insn ''SQRSHRUNB'' 0xFFA0FC00 0x45200800 OPCODE_TRAP [op_v 0 5, op_v 5 5, op_imm 16 3, op_imm 19 2, op_imm 22 1]]"

definition arm64_instructions_2820 :: "bal_decoder_instruction_metadata_t list" where
  "arm64_instructions_2820 = [
     insn ''SQRSHRUNT'' 0xFFA0FC00 0x45200C00 OPCODE_TRAP [op_v 0 5, op_v 5 5, op_imm 16 3, op_imm 19 2, op_imm 22 1],
     insn ''SQSHL'' 0xBF8FFC00 0x0F007400 OPCODE_TRAP [op_v 0 5, op_v 5 5, op_imm 16 3, op_v 19 4, op_imm 19 4],
     insn ''SQSHL'' 0xFF8FFC00 0x5F007400 OPCODE_TRAP [op_v 0 5, op_v 5 5, op_imm 16 3, op_imm 19 4],
     insn ''SQSHL'' 0xBF20FC00 0x0E204C00 OPCODE_TRAP [op_v 0 5, op_v 5 5, op_v 16 5],
     insn ''SQSHL'' 0xFF20FC00 0x5E204C00 OPCODE_TRAP [op_v 0 5, op_v 5 5, op_v 16 5],
     insn ''SQSHL'' 0xFF3FE000 0x04068000 OPCODE_TRAP [op_v 0 5, op_imm 5 3, op_imm 8 2, op_v 10 3, op_imm 22 2],
     insn ''SQSHL'' 0xFF3FE000 0x44088000 OPCODE_TRAP [op_v 0 5, op_v 5 5, op_v 10 3],
     insn ''SQSHLR'' 0xFF3FE000 0x440C8000 OPCODE_TRAP [op_v 0 5, op_v 5 5, op_v 10 3],
     insn ''SQSHLU'' 0xBF8FFC00 0x2F006400 OPCODE_TRAP [op_v 0 5, op_v 5 5, op_imm 16 3, op_v 19 4, op_imm 19 4],
     insn ''SQSHLU'' 0xFF8FFC00 0x7F006400 OPCODE_TRAP [op_v 0 5, op_v 5 5, op_imm 16 3, op_imm 19 4],
     insn ''SQSHLU'' 0xFF3FE000 0x040F8000 OPCODE_TRAP [op_v 0 5, op_imm 5 3, op_imm 8 2, op_v 10 3, op_imm 22 2],
     insn ''SQSHRN'' 0xBF8FFC00 0x0F009400 OPCODE_TRAP [op_v 0 5, op_v 5 5, op_v 19 4, op_v 30 1, op_cond 30 1]]"

definition arm64_instructions_2832 :: "bal_decoder_instruction_metadata_t list" where
  "arm64_instructions_2832 = [
     insn ''SQSHRN'' 0xFF8FFC00 0x5F009400 OPCODE_TRAP [op_v 0 5, op_v 5 5, op_imm 16 3, op_imm 19 4],
     insn ''SQSHRNB'' 0xFFA0FC00 0x45202000 OPCODE_TRAP [op_v 0 5, op_v 5 5, op_imm 16 3, op_imm 19 2, op_imm 22 1],
     insn ''SQSHRNT'' 0xFFA0FC00 0x45202400 OPCODE_TRAP [op_v 0 5, op_v 5 5, op_imm 16 3, op_imm 19 2, op_imm 22 1],
     insn ''SQSHRUN'' 0xBF8FFC00 0x2F008400 OPCODE_TRAP [op_v 0 5, op_v 5 5, op_v 19 4, op_v 30 1, op_cond 30 1],
     insn ''SQSHRUN'' 0xFF8FFC00 0x7F008400 OPCODE_TRAP [op_v 0 5, op_v 5 5, op_imm 16 3, op_imm 19 4],
     insn ''SQSHRUNB'' 0xFFA0FC00 0x45200000 OPCODE_TRAP [op_v 0 5, op_v 5 5, op_imm 16 3, op_imm 19 2, op_imm 22 1],
     insn ''SQSHRUNT'' 0xFFA0FC00 0x45200400 OPCODE_TRAP [op_v 0 5, op_v 5 5, op_imm 16 3, op_imm 19 2, op_imm 22 1],
     insn ''SQSUB'' 0xBF20FC00 0x0E202C00 OPCODE_TRAP [op_v 0 5, op_v 5 5, op_v 16 5],
     insn ''SQSUB'' 0xFF20FC00 0x5E202C00 OPCODE_TRAP [op_v 0 5, op_v 5 5, op_v 16 5],
     insn ''SQSUB'' 0xFF3FE000 0x441A8000 OPCODE_TRAP [op_v 0 5, op_v 5 5, op_v 10 3],
     insn ''SQSUB'' 0xFF3FC000 0x2526C000 OPCODE_TRAP [op_v 0 5, op_imm 5 8, op_imm 13 1],
     insn ''SQSUB'' 0xFF20FC00 0x04201800 OPCODE_TRAP [op_v 0 5, op_v 5 5, op_v 16 5]]"

definition arm64_instructions_2844 :: "bal_decoder_instruction_metadata_t list" where
  "arm64_instructions_2844 = [
     insn ''SQSUBR'' 0xFF3FE000 0x441E8000 OPCODE_TRAP [op_v 0 5, op_v 5 5, op_v 10 3],
     insn ''SQXTN'' 0xBF3FFC00 0x0E214800 OPCODE_TRAP [op_v 0 5, op_v 5 5, op_cond 30 1],
     insn ''SQXTN'' 0xFF3FFC00 0x5E214800 OPCODE_TRAP [op_v 0 5, op_v 5 5],
     insn ''SQXTNB'' 0xFFA7FC00 0x45204000 OPCODE_TRAP [op_v 0 5, op_v 5 5],
     insn ''SQXTNT'' 0xFFA7FC00 0x45204400 OPCODE_TRAP [op_v 0 5, op_v 5 5],
     insn ''SQXTUN'' 0xBF3FFC00 0x2E212800 OPCODE_TRAP [op_v 0 5, op_v 5 5, op_cond 30 1],
     insn ''SQXTUN'' 0xFF3FFC00 0x7E212800 OPCODE_TRAP [op_v 0 5, op_v 5 5],
     insn ''SQXTUNB'' 0xFFA7FC00 0x45205000 OPCODE_TRAP [op_v 0 5, op_v 5 5],
     insn ''SQXTUNT'' 0xFFA7FC00 0x45205400 OPCODE_TRAP [op_v 0 5, op_v 5 5],
     insn ''SRHADD'' 0xBF20FC00 0x0E201400 OPCODE_TRAP [op_v 0 5, op_v 5 5, op_v 16 5],
     insn ''SRHADD'' 0xFF3FE000 0x44148000 OPCODE_TRAP [op_v 0 5, op_v 5 5, op_v 10 3],
     insn ''SRI'' 0xBF8FFC00 0x2F004400 OPCODE_TRAP [op_v 0 5, op_v 5 5, op_imm 16 3, op_v 19 4, op_imm 19 4]]"

definition arm64_instructions_2856 :: "bal_decoder_instruction_metadata_t list" where
  "arm64_instructions_2856 = [
     insn ''SRI'' 0xFF8FFC00 0x7F004400 OPCODE_TRAP [op_v 0 5, op_v 5 5, op_imm 16 3, op_imm 19 4],
     insn ''SRI'' 0xFF20FC00 0x4500F000 OPCODE_TRAP [op_v 0 5, op_v 5 5, op_imm 16 3, op_imm 19 2, op_imm 22 2],
     insn ''SRSHL'' 0xBF20FC00 0x0E205400 OPCODE_TRAP [op_v 0 5, op_v 5 5, op_v 16 5],
     insn ''SRSHL'' 0xFF20FC00 0x5E205400 OPCODE_TRAP [op_v 0 5, op_v 5 5, op_v 16 5],
     insn ''SRSHL'' 0xFF30FFE1 0xC120A220 OPCODE_TRAP [op_v 1 4, op_v 16 4],
     insn ''SRSHL'' 0xFF30FFE3 0xC120AA20 OPCODE_TRAP [op_v 2 3, op_v 16 4],
     insn ''SRSHL'' 0xFF21FFE1 0xC120B220 OPCODE_TRAP [op_v 1 4, op_v 17 4],
     insn ''SRSHL'' 0xFF23FFE3 0xC120BA20 OPCODE_TRAP [op_v 2 3, op_v 18 3],
     insn ''SRSHL'' 0xFF3FE000 0x44028000 OPCODE_TRAP [op_v 0 5, op_v 5 5, op_v 10 3],
     insn ''SRSHLR'' 0xFF3FE000 0x44068000 OPCODE_TRAP [op_v 0 5, op_v 5 5, op_v 10 3],
     insn ''SRSHR'' 0xBF8FFC00 0x0F002400 OPCODE_TRAP [op_v 0 5, op_v 5 5, op_imm 16 3, op_v 19 4, op_imm 19 4],
     insn ''SRSHR'' 0xFF8FFC00 0x5F002400 OPCODE_TRAP [op_v 0 5, op_v 5 5, op_imm 16 3, op_imm 19 4]]"

definition arm64_instructions_2868 :: "bal_decoder_instruction_metadata_t list" where
  "arm64_instructions_2868 = [
     insn ''SRSHR'' 0xFF3FE000 0x040C8000 OPCODE_TRAP [op_v 0 5, op_imm 5 3, op_imm 8 2, op_v 10 3, op_imm 22 2],
     insn ''SRSRA'' 0xBF8FFC00 0x0F003400 OPCODE_TRAP [op_v 0 5, op_v 5 5, op_imm 16 3, op_v 19 4, op_imm 19 4],
     insn ''SRSRA'' 0xFF8FFC00 0x5F003400 OPCODE_TRAP [op_v 0 5, op_v 5 5, op_imm 16 3, op_imm 19 4],
     insn ''SRSRA'' 0xFF20FC00 0x4500E800 OPCODE_TRAP [op_v 0 5, op_v 5 5, op_imm 16 3, op_imm 19 2, op_imm 22 2],
     insn ''DSB'' 0xFFFFFFFF 0xD503309F OPCODE_TRAP [],
     insn ''SSHL'' 0xBF20FC00 0x0E204400 OPCODE_TRAP [op_v 0 5, op_v 5 5, op_v 16 5],
     insn ''SSHL'' 0xFF20FC00 0x5E204400 OPCODE_TRAP [op_v 0 5, op_v 5 5, op_v 16 5],
     insn ''SSHLL'' 0xBF8FFC00 0x0F00A400 OPCODE_TRAP [op_v 0 5, op_v 5 5, op_v 19 4, op_cond 30 1, op_v 30 1],
     insn ''SSHLLB'' 0xFFA0FC00 0x4500A000 OPCODE_TRAP [op_v 0 5, op_v 5 5, op_imm 16 3, op_imm 19 2, op_imm 22 1],
     insn ''SSHLLT'' 0xFFA0FC00 0x4500A400 OPCODE_TRAP [op_v 0 5, op_v 5 5, op_imm 16 3, op_imm 19 2, op_imm 22 1],
     insn ''SSHR'' 0xBF8FFC00 0x0F000400 OPCODE_TRAP [op_v 0 5, op_v 5 5, op_imm 16 3, op_v 19 4, op_imm 19 4],
     insn ''SSHR'' 0xFF8FFC00 0x5F000400 OPCODE_TRAP [op_v 0 5, op_v 5 5, op_imm 16 3, op_imm 19 4]]"

definition arm64_instructions_2880 :: "bal_decoder_instruction_metadata_t list" where
  "arm64_instructions_2880 = [
     insn ''SSRA'' 0xBF8FFC00 0x0F001400 OPCODE_TRAP [op_v 0 5, op_v 5 5, op_imm 16 3, op_v 19 4, op_imm 19 4],
     insn ''SSRA'' 0xFF8FFC00 0x5F001400 OPCODE_TRAP [op_v 0 5, op_v 5 5, op_imm 16 3, op_imm 19 4],
     insn ''SSRA'' 0xFF20FC00 0x4500E000 OPCODE_TRAP [op_v 0 5, op_v 5 5, op_imm 16 3, op_imm 19 2, op_imm 22 2],
     insn ''SSUBL'' 0xBF20FC00 0x0E202000 OPCODE_TRAP [op_v 0 5, op_v 5 5, op_v 16 5, op_cond 30 1],
     insn ''SSUBLB'' 0xFF20FC00 0x45001000 OPCODE_TRAP [op_v 0 5, op_v 5 5, op_v 16 5],
     insn ''SSUBLBT'' 0xFF20FC00 0x45008800 OPCODE_TRAP [op_v 0 5, op_v 5 5, op_v 16 5],
     insn ''SSUBLT'' 0xFF20FC00 0x45001400 OPCODE_TRAP [op_v 0 5, op_v 5 5, op_v 16 5],
     insn ''SSUBLTB'' 0xFF20FC00 0x45008C00 OPCODE_TRAP [op_v 0 5, op_v 5 5, op_v 16 5],
     insn ''SSUBW'' 0xBF20FC00 0x0E203000 OPCODE_TRAP [op_v 0 5, op_v 5 5, op_v 16 5, op_cond 30 1],
     insn ''SSUBWB'' 0xFF20FC00 0x45005000 OPCODE_TRAP [op_v 0 5, op_v 5 5, op_v 16 5],
     insn ''SSUBWT'' 0xFF20FC00 0x45005400 OPCODE_TRAP [op_v 0 5, op_v 5 5, op_v 16 5],
     insn ''ST1'' 0xBFE0F000 0x0C802000 OPCODE_TRAP [op_v 0 5, op_x 5 5, op_imm 16 5]]"

definition arm64_instructions_2892 :: "bal_decoder_instruction_metadata_t list" where
  "arm64_instructions_2892 = [
     insn ''ST1'' 0xBFE0F000 0x0C806000 OPCODE_TRAP [op_v 0 5, op_x 5 5, op_imm 16 5],
     insn ''ST1'' 0xBFE0F000 0x0C807000 OPCODE_TRAP [op_v 0 5, op_x 5 5, op_imm 16 5],
     insn ''ST1'' 0xBFE0F000 0x0C80A000 OPCODE_TRAP [op_v 0 5, op_x 5 5, op_imm 16 5],
     insn ''ST1'' 0xBFFFF000 0x0C002000 OPCODE_TRAP [op_v 0 5, op_x 5 5],
     insn ''ST1'' 0xBFFFF000 0x0C006000 OPCODE_TRAP [op_v 0 5, op_x 5 5],
     insn ''ST1'' 0xBFFFF000 0x0C007000 OPCODE_TRAP [op_v 0 5, op_x 5 5],
     insn ''ST1'' 0xBFFFF000 0x0C00A000 OPCODE_TRAP [op_v 0 5, op_x 5 5],
     insn ''ST1'' 0xBFFFF000 0x0C9F2000 OPCODE_TRAP [op_v 0 5, op_x 5 5, op_imm 30 1],
     insn ''ST1'' 0xBFFFF000 0x0C9F6000 OPCODE_TRAP [op_v 0 5, op_x 5 5, op_imm 30 1],
     insn ''ST1'' 0xBFFFF000 0x0C9F7000 OPCODE_TRAP [op_v 0 5, op_x 5 5, op_imm 30 1],
     insn ''ST1'' 0xBFFFF000 0x0C9FA000 OPCODE_TRAP [op_v 0 5, op_x 5 5, op_imm 30 1],
     insn ''ST1'' 0xBFE0E000 0x0D800000 OPCODE_TRAP [op_v 0 5, op_x 5 5, op_imm 10 2, op_imm 12 1, op_imm 30 1]]"

definition arm64_instructions_2904 :: "bal_decoder_instruction_metadata_t list" where
  "arm64_instructions_2904 = [
     insn ''ST1'' 0xBFE0E400 0x0D804000 OPCODE_TRAP [op_v 0 5, op_x 5 5, op_imm 10 2, op_imm 12 1, op_imm 30 1],
     insn ''ST1'' 0xBFE0EC00 0x0D808000 OPCODE_TRAP [op_v 0 5, op_x 5 5, op_imm 12 1, op_imm 16 5, op_imm 30 1],
     insn ''ST1'' 0xBFE0FC00 0x0D808400 OPCODE_TRAP [op_v 0 5, op_x 5 5, op_imm 16 5, op_imm 30 1],
     insn ''ST1'' 0xBFFFE000 0x0D000000 OPCODE_TRAP [op_v 0 5, op_x 5 5, op_imm 10 2, op_imm 12 1, op_imm 30 1],
     insn ''ST1'' 0xBFFFE000 0x0D9F0000 OPCODE_TRAP [op_v 0 5, op_x 5 5, op_imm 10 2, op_imm 12 1, op_imm 30 1],
     insn ''ST1'' 0xBFFFE400 0x0D004000 OPCODE_TRAP [op_v 0 5, op_x 5 5, op_imm 10 2, op_imm 12 1, op_imm 30 1],
     insn ''ST1'' 0xBFFFE400 0x0D9F4000 OPCODE_TRAP [op_v 0 5, op_x 5 5, op_imm 10 2, op_imm 12 1, op_imm 30 1],
     insn ''ST1'' 0xBFFFEC00 0x0D008000 OPCODE_TRAP [op_v 0 5, op_x 5 5, op_imm 12 1, op_imm 30 1],
     insn ''ST1'' 0xBFFFEC00 0x0D9F8000 OPCODE_TRAP [op_v 0 5, op_x 5 5, op_imm 12 1, op_imm 30 1],
     insn ''ST1'' 0xBFFFFC00 0x0D008400 OPCODE_TRAP [op_v 0 5, op_x 5 5, op_imm 30 1],
     insn ''ST1'' 0xBFFFFC00 0x0D9F8400 OPCODE_TRAP [op_v 0 5, op_x 5 5, op_imm 30 1],
     insn ''ST1B'' 0xFFF0E001 0xA0600000 OPCODE_TRAP [op_v 1 4, op_x 5 5, op_v 10 3, op_imm 16 4]]"

definition arm64_instructions_2916 :: "bal_decoder_instruction_metadata_t list" where
  "arm64_instructions_2916 = [
     insn ''ST1B'' 0xFFF0E003 0xA0608000 OPCODE_TRAP [op_v 2 3, op_x 5 5, op_v 10 3, op_imm 16 4],
     insn ''ST1B'' 0xFFE0E001 0xA0200000 OPCODE_TRAP [op_v 1 4, op_x 5 5, op_v 10 3, op_imm 16 5],
     insn ''ST1B'' 0xFFE0E003 0xA0208000 OPCODE_TRAP [op_v 2 3, op_x 5 5, op_v 10 3, op_imm 16 5],
     insn ''ST1B'' 0xFFF0E008 0xA1600000 OPCODE_TRAP [op_v 0 3, op_v 4 1, op_x 5 5, op_v 10 3, op_imm 16 4],
     insn ''ST1B'' 0xFFF0E00C 0xA1608000 OPCODE_TRAP [op_v 0 2, op_v 4 1, op_x 5 5, op_v 10 3, op_imm 16 4],
     insn ''ST1B'' 0xFFE0E008 0xA1200000 OPCODE_TRAP [op_v 0 3, op_v 4 1, op_x 5 5, op_v 10 3, op_imm 16 5],
     insn ''ST1B'' 0xFFE0E00C 0xA1208000 OPCODE_TRAP [op_v 0 2, op_v 4 1, op_x 5 5, op_v 10 3, op_imm 16 5],
     insn ''ST1B'' 0xFFE0E000 0xE440A000 OPCODE_TRAP [op_v 0 5, op_v 5 5, op_v 10 3, op_imm 16 5],
     insn ''ST1B'' 0xFFE0E000 0xE460A000 OPCODE_TRAP [op_v 0 5, op_v 5 5, op_v 10 3, op_imm 16 5],
     insn ''ST1B'' 0xFF90E000 0xE400E000 OPCODE_TRAP [op_v 0 5, op_x 5 5, op_v 10 3, op_imm 16 4],
     insn ''ST1B'' 0xFF80E000 0xE4004000 OPCODE_TRAP [op_v 0 5, op_x 5 5, op_v 10 3, op_imm 16 5],
     insn ''ST1B'' 0xFFE0A000 0xE4008000 OPCODE_TRAP [op_v 0 5, op_x 5 5, op_v 10 3, op_imm 14 1, op_imm 16 5]]"

definition arm64_instructions_2928 :: "bal_decoder_instruction_metadata_t list" where
  "arm64_instructions_2928 = [
     insn ''ST1B'' 0xFFE0A000 0xE4408000 OPCODE_TRAP [op_v 0 5, op_x 5 5, op_v 10 3, op_imm 14 1, op_imm 16 5],
     insn ''ST1B'' 0xFFE0E000 0xE400A000 OPCODE_TRAP [op_v 0 5, op_x 5 5, op_v 10 3, op_imm 16 5],
     insn ''ST1B'' 0xFFE00010 0xE0200000 OPCODE_TRAP [op_imm 0 4, op_x 5 5, op_v 10 3, op_imm 13 2, op_imm 16 5],
     insn ''ST1D'' 0xFFF0E001 0xA0606000 OPCODE_TRAP [op_v 1 4, op_x 5 5, op_v 10 3, op_imm 16 4],
     insn ''ST1D'' 0xFFF0E003 0xA060E000 OPCODE_TRAP [op_v 2 3, op_x 5 5, op_v 10 3, op_imm 16 4],
     insn ''ST1D'' 0xFFE0E001 0xA0206000 OPCODE_TRAP [op_v 1 4, op_x 5 5, op_v 10 3, op_imm 16 5],
     insn ''ST1D'' 0xFFE0E003 0xA020E000 OPCODE_TRAP [op_v 2 3, op_x 5 5, op_v 10 3, op_imm 16 5],
     insn ''ST1D'' 0xFFF0E008 0xA1606000 OPCODE_TRAP [op_v 0 3, op_v 4 1, op_x 5 5, op_v 10 3, op_imm 16 4],
     insn ''ST1D'' 0xFFF0E00C 0xA160E000 OPCODE_TRAP [op_v 0 2, op_v 4 1, op_x 5 5, op_v 10 3, op_imm 16 4],
     insn ''ST1D'' 0xFFE0E008 0xA1206000 OPCODE_TRAP [op_v 0 3, op_v 4 1, op_x 5 5, op_v 10 3, op_imm 16 5],
     insn ''ST1D'' 0xFFE0E00C 0xA120E000 OPCODE_TRAP [op_v 0 2, op_v 4 1, op_x 5 5, op_v 10 3, op_imm 16 5],
     insn ''ST1D'' 0xFFE0E000 0xE5C0A000 OPCODE_TRAP [op_v 0 5, op_v 5 5, op_v 10 3, op_imm 16 5]]"

definition arm64_instructions_2940 :: "bal_decoder_instruction_metadata_t list" where
  "arm64_instructions_2940 = [
     insn ''ST1D'' 0xFFF0E000 0xE5C0E000 OPCODE_TRAP [op_v 0 5, op_x 5 5, op_v 10 3, op_imm 16 4],
     insn ''ST1D'' 0xFFF0E000 0xE5E0E000 OPCODE_TRAP [op_v 0 5, op_x 5 5, op_v 10 3, op_imm 16 4],
     insn ''ST1D'' 0xFFE0E000 0xE5C04000 OPCODE_TRAP [op_v 0 5, op_x 5 5, op_v 10 3, op_imm 16 5],
     insn ''ST1D'' 0xFFE0E000 0xE5E04000 OPCODE_TRAP [op_v 0 5, op_x 5 5, op_v 10 3, op_imm 16 5],
     insn ''ST1D'' 0xFFE0A000 0xE5808000 OPCODE_TRAP [op_v 0 5, op_x 5 5, op_v 10 3, op_imm 14 1, op_imm 16 5],
     insn ''ST1D'' 0xFFE0A000 0xE5A08000 OPCODE_TRAP [op_v 0 5, op_x 5 5, op_v 10 3, op_imm 14 1, op_imm 16 5],
     insn ''ST1D'' 0xFFE0E000 0xE580A000 OPCODE_TRAP [op_v 0 5, op_x 5 5, op_v 10 3, op_imm 16 5],
     insn ''ST1D'' 0xFFE0E000 0xE5A0A000 OPCODE_TRAP [op_v 0 5, op_x 5 5, op_v 10 3, op_imm 16 5],
     insn ''ST1D'' 0xFFE00010 0xE0E00000 OPCODE_TRAP [op_imm 0 1, op_x 5 5, op_v 10 3, op_imm 13 2, op_imm 16 5],
     insn ''ST1H'' 0xFFF0E001 0xA0602000 OPCODE_TRAP [op_v 1 4, op_x 5 5, op_v 10 3, op_imm 16 4],
     insn ''ST1H'' 0xFFF0E003 0xA060A000 OPCODE_TRAP [op_v 2 3, op_x 5 5, op_v 10 3, op_imm 16 4],
     insn ''ST1H'' 0xFFE0E001 0xA0202000 OPCODE_TRAP [op_v 1 4, op_x 5 5, op_v 10 3, op_imm 16 5]]"

definition arm64_part_6 :: "bal_decoder_instruction_metadata_t list list" where
  "arm64_part_6 = [
     arm64_instructions_2460, arm64_instructions_2472, arm64_instructions_2484,
     arm64_instructions_2496, arm64_instructions_2508, arm64_instructions_2520,
     arm64_instructions_2532, arm64_instructions_2544, arm64_instructions_2556,
     arm64_instructions_2568, arm64_instructions_2580, arm64_instructions_2592,
     arm64_instructions_2604, arm64_instructions_2616, arm64_instructions_2628,
     arm64_instructions_2640, arm64_instructions_2652, arm64_instructions_2664,
     arm64_instructions_2676, arm64_instructions_2688, arm64_instructions_2700,
     arm64_instructions_2712, arm64_instructions_2724, arm64_instructions_2736,
     arm64_instructions_2748, arm64_instructions_2760, arm64_instructions_2772,
     arm64_instructions_2784, arm64_instructions_2796, arm64_instructions_2808,
     arm64_instructions_2820, arm64_instructions_2832, arm64_instructions_2844,
     arm64_instructions_2856, arm64_instructions_2868, arm64_instructions_2880,
     arm64_instructions_2892, arm64_instructions_2904, arm64_instructions_2916,
     arm64_instructions_2928, arm64_instructions_2940]"

section \<open>The entries are complete, and their top bits\<close>

lemma keys_of_2460: "map mask_value arm64_instructions_2460 =
     [(0xFFFFFC21, 0xC122E000), (0xFFFFFC63, 0xC132E000), (0xFFFFE000, 0x6552A000),
      (0xFFFFE000, 0x6554A000), (0xFFFFE000, 0x6556A000), (0xFFFFE000, 0x6594A000),
      (0xFFFFE000, 0x65D0A000), (0xFFFFE000, 0x65D4A000), (0xFFFFE000, 0x65D6A000),
      (0xFFE0FC00, 0x1AC00C00), (0xFFE0FC00, 0x9AC00C00), (0xFF3FE000, 0x4140000)]"
  by (simp only: arm64_instructions_2460_def read_entries)

lemma entries_2460:
  "length arm64_instructions_2460 = 12" "list_all metadata_wf arm64_instructions_2460"
  "map top_bits arm64_instructions_2460 =
     [(2047, 1545), (2047, 1545), (2047, 810), (2047, 810), (2047, 810), (2047, 812),
      (2047, 814), (2047, 814), (2047, 814), (2047, 214), (2047, 1238), (2041, 32)]"
  by (simp add: arm64_instructions_2460_def, simp add: arm64_instructions_2460_def, simp add: top_bits_mask_value keys_of_2460)

lemma keys_of_2472: "map mask_value arm64_instructions_2472 =
     [(0xFF3FE000, 0x4160000), (0xBF00F400, 0xF00E000), (0xBF20FC00, 0xE009400),
      (0xFFE0FC00, 0x4400C800), (0xFFE0FC00, 0x4480C800), (0xFF20FC00, 0x44000000),
      (0xFFE0FC00, 0x44A00000), (0xFFE0FC00, 0x44E00000), (0xFFF09038, 0xC1501000),
      (0xFFF09078, 0xC1509000), (0xFFF09C18, 0xC1601408), (0xFFF09C18, 0xC1701408)]"
  by (simp only: arm64_instructions_2472_def read_entries)

lemma entries_2472:
  "length arm64_instructions_2472 = 12" "list_all metadata_wf arm64_instructions_2472"
  "map top_bits arm64_instructions_2472 =
     [(2041, 32), (1528, 120), (1529, 112), (2047, 544), (2047, 548), (2041, 544), (2047, 549),
      (2047, 551), (2047, 1546), (2047, 1546), (2047, 1547), (2047, 1547)]"
  by (simp add: arm64_instructions_2472_def, simp add: arm64_instructions_2472_def, simp add: top_bits_mask_value keys_of_2472)

lemma keys_of_2484: "map mask_value arm64_instructions_2484 =
     [(0xFFE19C38, 0xC1E01408), (0xFFE39C78, 0xC1E11408), (0xFFF09038, 0xC1501020),
      (0xFFF09078, 0xC1509020), (0xFFF09838, 0xC1D00008), (0xFFF09878, 0xC1D08008),
      (0xFFB09C18, 0xC1201400), (0xFFB09C18, 0xC1301400), (0xFFA19C38, 0xC1A01400),
      (0xFFA39C78, 0xC1A11400), (0xFF21E021, 0xC1208000), (0xFF23E063, 0xC1218000)]"
  by (simp only: arm64_instructions_2484_def read_entries)

lemma entries_2484:
  "length arm64_instructions_2484 = 12" "list_all metadata_wf arm64_instructions_2484"
  "map top_bits arm64_instructions_2484 =
     [(2047, 1551), (2047, 1551), (2047, 1546), (2047, 1546), (2047, 1550), (2047, 1550),
      (2045, 1545), (2045, 1545), (2045, 1549), (2045, 1549), (2041, 1545), (2041, 1545)]"
  by (simp add: arm64_instructions_2484_def, simp add: arm64_instructions_2484_def, simp add: top_bits_mask_value keys_of_2484)

lemma keys_of_2496: "map mask_value arm64_instructions_2496 =
     [(0xFFF0C210, 0x25004210), (0xFF20C000, 0x520C000), (0xFFFFFC1F, 0x3A00480D),
      (0xFFFFFC1F, 0x3A00080D), (0xFFFFFFFF, 0x252C9000), (0x3FE0FC00, 0x1DC08400),
      (0x3FE0FC00, 0x1DC04400), (0x3FE0FC00, 0x1DC00400), (0x3FE0FC00, 0x1DC0A400),
      (0x3FE0FC00, 0x1DC06400), (0x3FE0FC00, 0x1DC02400), (0x3FE0FC00, 0x1DC09400)]"
  by (simp only: arm64_instructions_2496_def read_entries)

lemma entries_2496:
  "length arm64_instructions_2496 = 12" "list_all metadata_wf arm64_instructions_2496"
  "map top_bits arm64_instructions_2496 =
     [(2047, 296), (2041, 41), (2047, 464), (2047, 464), (2047, 297), (511, 238), (511, 238),
      (511, 238), (511, 238), (511, 238), (511, 238), (511, 238)]"
  by (simp add: arm64_instructions_2496_def, simp add: arm64_instructions_2496_def, simp add: top_bits_mask_value keys_of_2496)

lemma keys_of_2508: "map mask_value arm64_instructions_2508 =
     [(0x3FE0FC00, 0x1DC05400), (0x3FE0FC00, 0x1DC01400), (0x3FE0FC00, 0x1DC0B400),
      (0x3FE0FC00, 0x1DC07400), (0x3FE0FC00, 0x1DC03400), (0x3FE0FC00, 0x19C08400),
      (0x3FE0FC00, 0x19C04400), (0x3FE0FC00, 0x19C00400), (0x3FE0FC00, 0x19C0A400),
      (0x3FE0FC00, 0x19C06400), (0x3FE0FC00, 0x19C02400), (0x3FE0FC00, 0x19C09400)]"
  by (simp only: arm64_instructions_2508_def read_entries)

lemma entries_2508:
  "length arm64_instructions_2508 = 12" "list_all metadata_wf arm64_instructions_2508"
  "map top_bits arm64_instructions_2508 =
     [(511, 238), (511, 238), (511, 238), (511, 238), (511, 238), (511, 206), (511, 206),
      (511, 206), (511, 206), (511, 206), (511, 206), (511, 206)]"
  by (simp add: arm64_instructions_2508_def, simp add: arm64_instructions_2508_def, simp add: top_bits_mask_value keys_of_2508)

lemma keys_of_2520: "map mask_value arm64_instructions_2520 =
     [(0x3FE0FC00, 0x19C05400), (0x3FE0FC00, 0x19C01400), (0x3FE0FC00, 0x19C0B400),
      (0x3FE0FC00, 0x19C07400), (0x3FE0FC00, 0x19C03400), (0xFFFFFFFF, 0xD503209F),
      (0xFFFFFFFF, 0xD50320BF), (0xFFE0FC00, 0x5E000000), (0xFFFFFC00, 0x5E280800),
      (0xFFE0FC00, 0x5E002000), (0xFFE0FC00, 0x5E001000), (0xFFE0FC00, 0x5E003000)]"
  by (simp only: arm64_instructions_2520_def read_entries)

lemma entries_2520:
  "length arm64_instructions_2520 = 12" "list_all metadata_wf arm64_instructions_2520"
  "map top_bits arm64_instructions_2520 =
     [(511, 206), (511, 206), (511, 206), (511, 206), (511, 206), (2047, 1704), (2047, 1704),
      (2047, 752), (2047, 753), (2047, 752), (2047, 752), (2047, 752)]"
  by (simp add: arm64_instructions_2520_def, simp add: arm64_instructions_2520_def, simp add: top_bits_mask_value keys_of_2520)

lemma keys_of_2532: "map mask_value arm64_instructions_2532 =
     [(0xFFFFFC00, 0x5E281800), (0xFFE0FC00, 0x5E005000), (0xFFE0FC00, 0x5E004000),
      (0xFFFFFC00, 0x5E282800), (0xFFE0FC00, 0x5E006000), (0xFFE0FC00, 0xCE608400),
      (0xFFE0FC00, 0xCE608000), (0xFFFFFC00, 0xCEC08000), (0xFFE0FC00, 0xCE608800),
      (0xBF20FC00, 0xE200400), (0xFF3FE000, 0x44108000), (0xBF8FFC00, 0xF005400)]"
  by (simp only: arm64_instructions_2532_def read_entries)

lemma entries_2532:
  "length arm64_instructions_2532 = 12" "list_all metadata_wf arm64_instructions_2532"
  "map top_bits arm64_instructions_2532 =
     [(2047, 753), (2047, 752), (2047, 752), (2047, 753), (2047, 752), (2047, 1651),
      (2047, 1651), (2047, 1654), (2047, 1651), (1529, 113), (2041, 544), (1532, 120)]"
  by (simp add: arm64_instructions_2532_def, simp add: arm64_instructions_2532_def, simp add: top_bits_mask_value keys_of_2532)

lemma keys_of_2544: "map mask_value arm64_instructions_2544 =
     [(0xFF8FFC00, 0x5F005400), (0xBF3FFC00, 0x2E213800), (0xBF8FFC00, 0xF008400),
      (0xFFA0FC00, 0x45201000), (0xFFA0FC00, 0x45201400), (0xBF20FC00, 0xE202400),
      (0xFF3FE000, 0x44128000), (0xFF3FE000, 0x44168000), (0xBF8FFC00, 0x2F005400),
      (0xFF8FFC00, 0x7F005400), (0xFF20FC00, 0x4500F400), (0xFFE0FC00, 0xCE60C000)]"
  by (simp only: arm64_instructions_2544_def read_entries)

lemma entries_2544:
  "length arm64_instructions_2544 = 12" "list_all metadata_wf arm64_instructions_2544"
  "map top_bits arm64_instructions_2544 =
     [(2044, 760), (1529, 369), (1532, 120), (2045, 553), (2045, 553), (1529, 113), (2041, 544),
      (2041, 544), (1532, 376), (2044, 1016), (2041, 552), (2047, 1651)]"
  by (simp add: arm64_instructions_2544_def, simp add: arm64_instructions_2544_def, simp add: top_bits_mask_value keys_of_2544)

lemma keys_of_2556: "map mask_value arm64_instructions_2556 =
     [(0xFFE0FC00, 0xCE60C400), (0xFFE08000, 0xCE400000), (0xFFE0CC00, 0xCE408000),
      (0xFFE0CC00, 0xCE408400), (0xFFE0CC00, 0xCE408800), (0xFFE0CC00, 0xCE408C00),
      (0xFFFFFC00, 0xCEC08400), (0xFFFFFC00, 0x4523E000), (0xFFE0FC00, 0xCE60C800),
      (0xFFE0FC00, 0x4520F000), (0xFFE08000, 0x9B200000), (0xBF20FC00, 0xE206400)]"
  by (simp only: arm64_instructions_2556_def read_entries)

lemma entries_2556:
  "length arm64_instructions_2556 = 12" "list_all metadata_wf arm64_instructions_2556"
  "map top_bits arm64_instructions_2556 =
     [(2047, 1651), (2047, 1650), (2047, 1650), (2047, 1650), (2047, 1650), (2047, 1650),
      (2047, 1654), (2047, 553), (2047, 1651), (2047, 553), (2047, 1241), (1529, 113)]"
  by (simp add: arm64_instructions_2556_def, simp add: arm64_instructions_2556_def, simp add: top_bits_mask_value keys_of_2556)

lemma keys_of_2568: "map mask_value arm64_instructions_2568 =
     [(0xFFFC0000, 0x11C00000), (0xFFFC0000, 0x91C00000), (0xFF30FFE1, 0xC120A000),
      (0xFF30FFE3, 0xC120A800), (0xFF21FFE1, 0xC120B000), (0xFF23FFE3, 0xC120B800),
      (0xFFE0FC00, 0x1AC06000), (0xFFE0FC00, 0x9AC06000), (0xFF3FE000, 0x4080000),
      (0xFF3FE000, 0x2528C000), (0xBF20FC00, 0xE20A400), (0xFF3FE000, 0x4414A000)]"
  by (simp only: arm64_instructions_2568_def read_entries)

lemma entries_2568:
  "length arm64_instructions_2568 = 12" "list_all metadata_wf arm64_instructions_2568"
  "map top_bits arm64_instructions_2568 =
     [(2047, 142), (2047, 1166), (2041, 1545), (2041, 1545), (2041, 1545), (2041, 1545),
      (2047, 214), (2047, 1238), (2041, 32), (2041, 297), (1529, 113), (2041, 544)]"
  by (simp add: arm64_instructions_2568_def, simp add: arm64_instructions_2568_def, simp add: top_bits_mask_value keys_of_2568)

lemma keys_of_2580: "map mask_value arm64_instructions_2580 =
     [(0xFF3FE000, 0x40C2000), (0xBF3FFC00, 0xE30A800), (0xFF3FE000, 0x4082000),
      (0xFFE0001F, 0xD4000003), (0xBF20FC00, 0xE206C00), (0xFFFC0000, 0x11C80000),
      (0xFFFC0000, 0x91C80000), (0xFF30FFE1, 0xC120A020), (0xFF30FFE3, 0xC120A820),
      (0xFF21FFE1, 0xC120B020), (0xFF23FFE3, 0xC120B820), (0xFFE0FC00, 0x1AC06800)]"
  by (simp only: arm64_instructions_2580_def read_entries)

lemma entries_2580:
  "length arm64_instructions_2580 = 12" "list_all metadata_wf arm64_instructions_2580"
  "map top_bits arm64_instructions_2580 =
     [(2041, 32), (1529, 113), (2041, 32), (2047, 1696), (1529, 113), (2047, 142), (2047, 1166),
      (2041, 1545), (2041, 1545), (2041, 1545), (2041, 1545), (2047, 214)]"
  by (simp add: arm64_instructions_2580_def, simp add: arm64_instructions_2580_def, simp add: top_bits_mask_value keys_of_2580)

lemma keys_of_2592: "map mask_value arm64_instructions_2592 =
     [(0xFFE0FC00, 0x9AC06800), (0xFF3FE000, 0x40A0000), (0xFF3FE000, 0x252AC000),
      (0xBF20FC00, 0xE20AC00), (0xFF3FE000, 0x4416A000), (0xFF3FE000, 0x40E2000),
      (0xBF3FFC00, 0xE31A800), (0xFF3FE000, 0x40A2000), (0xBF00F400, 0xF002000),
      (0xBF20FC00, 0xE208000), (0xFFF01018, 0xC1C01000), (0xFFF09038, 0xC1D01000)]"
  by (simp only: arm64_instructions_2592_def read_entries)

lemma entries_2592:
  "length arm64_instructions_2592 = 12" "list_all metadata_wf arm64_instructions_2592"
  "map top_bits arm64_instructions_2592 =
     [(2047, 1238), (2041, 32), (2041, 297), (1529, 113), (2041, 544), (2041, 32), (1529, 113),
      (2041, 32), (1528, 120), (1529, 113), (2047, 1550), (2047, 1550)]"
  by (simp add: arm64_instructions_2592_def, simp add: arm64_instructions_2592_def, simp add: top_bits_mask_value keys_of_2592)

lemma keys_of_2604: "map mask_value arm64_instructions_2604 =
     [(0xFFF09078, 0xC1D09000), (0xFFF09C18, 0xC1600C00), (0xFFF09C1C, 0xC1600800),
      (0xFFF09C1C, 0xC1700800), (0xFFE19C3C, 0xC1E00800), (0xFFE39C7C, 0xC1E10800),
      (0xFF20FC00, 0x44004000), (0xFFE0F400, 0x44A08000), (0xFFE0F400, 0x44E08000),
      (0xFFF0001C, 0xC1000000), (0xFFF0101C, 0xC1800000), (0xFFF09038, 0xC1100000)]"
  by (simp only: arm64_instructions_2604_def read_entries)

lemma entries_2604:
  "length arm64_instructions_2604 = 12" "list_all metadata_wf arm64_instructions_2604"
  "map top_bits arm64_instructions_2604 =
     [(2047, 1550), (2047, 1547), (2047, 1547), (2047, 1547), (2047, 1551), (2047, 1551),
      (2041, 544), (2047, 549), (2047, 551), (2047, 1544), (2047, 1548), (2047, 1544)]"
  by (simp add: arm64_instructions_2604_def, simp add: arm64_instructions_2604_def, simp add: top_bits_mask_value keys_of_2604)

lemma keys_of_2616: "map mask_value arm64_instructions_2616 =
     [(0xFFF09078, 0xC1108000), (0xFFF09838, 0xC1900000), (0xFFF09878, 0xC1908000),
      (0xFFB09C1C, 0xC1200400), (0xFFB09C1E, 0xC1200000), (0xFFB09C1E, 0xC1300000),
      (0xFFA19C3E, 0xC1A00000), (0xFFA39C7E, 0xC1A10000), (0xFF20FC00, 0x44004400),
      (0xFFE0F400, 0x44A08400), (0xFFE0F400, 0x44E08400), (0xBF00F400, 0xF006000)]"
  by (simp only: arm64_instructions_2616_def read_entries)

lemma entries_2616:
  "length arm64_instructions_2616 = 12" "list_all metadata_wf arm64_instructions_2616"
  "map top_bits arm64_instructions_2616 =
     [(2047, 1544), (2047, 1548), (2047, 1548), (2045, 1545), (2045, 1545), (2045, 1545),
      (2045, 1549), (2045, 1549), (2041, 544), (2047, 549), (2047, 551), (1528, 120)]"
  by (simp add: arm64_instructions_2616_def, simp add: arm64_instructions_2616_def, simp add: top_bits_mask_value keys_of_2616)

lemma keys_of_2628: "map mask_value arm64_instructions_2628 =
     [(0xBF20FC00, 0xE20A000), (0xFFF01018, 0xC1C01008), (0xFFF09038, 0xC1D01008),
      (0xFFF09078, 0xC1D09008), (0xFFF09C18, 0xC1600C08), (0xFFF09C1C, 0xC1600808),
      (0xFFF09C1C, 0xC1700808), (0xFFE19C3C, 0xC1E00808), (0xFFE39C7C, 0xC1E10808),
      (0xFF20FC00, 0x44005000), (0xFFE0F400, 0x44A0A000), (0xFFE0F400, 0x44E0A000)]"
  by (simp only: arm64_instructions_2628_def read_entries)

lemma entries_2628:
  "length arm64_instructions_2628 = 12" "list_all metadata_wf arm64_instructions_2628"
  "map top_bits arm64_instructions_2628 =
     [(1529, 113), (2047, 1550), (2047, 1550), (2047, 1550), (2047, 1547), (2047, 1547),
      (2047, 1547), (2047, 1551), (2047, 1551), (2041, 544), (2047, 549), (2047, 551)]"
  by (simp add: arm64_instructions_2628_def, simp add: arm64_instructions_2628_def, simp add: top_bits_mask_value keys_of_2628)

lemma keys_of_2640: "map mask_value arm64_instructions_2640 =
     [(0xFFF0001C, 0xC1000008), (0xFFF0101C, 0xC1800008), (0xFFF09038, 0xC1100008),
      (0xFFF09078, 0xC1108008), (0xFFF09838, 0xC1900008), (0xFFF09878, 0xC1908008),
      (0xFFB09C1C, 0xC1200408), (0xFFB09C1E, 0xC1200008), (0xFFB09C1E, 0xC1300008),
      (0xFFA19C3E, 0xC1A00008), (0xFFA39C7E, 0xC1A10008), (0xFF20FC00, 0x44005400)]"
  by (simp only: arm64_instructions_2640_def read_entries)

lemma entries_2640:
  "length arm64_instructions_2640 = 12" "list_all metadata_wf arm64_instructions_2640"
  "map top_bits arm64_instructions_2640 =
     [(2047, 1544), (2047, 1548), (2047, 1544), (2047, 1544), (2047, 1548), (2047, 1548),
      (2045, 1545), (2045, 1545), (2045, 1545), (2045, 1549), (2045, 1549), (2041, 544)]"
  by (simp add: arm64_instructions_2640_def, simp add: arm64_instructions_2640_def, simp add: top_bits_mask_value keys_of_2640)

lemma keys_of_2652: "map mask_value arm64_instructions_2652 =
     [(0xFFE0F400, 0x44A0A400), (0xFFE0F400, 0x44E0A400), (0xFFE0FC00, 0x4E80A400),
      (0xFFE0FC00, 0x45009800), (0xFFE0FC00, 0x9B20FC00), (0xFFE0001C, 0xA0800008),
      (0xFFE00018, 0xA0C00000), (0xFFE0001C, 0xA0800000), (0xFFE0001C, 0xA0800018),
      (0xFFE00018, 0xA0C00010), (0xFFE0001C, 0xA0800010), (0xFFE0FC00, 0xE002C00)]"
  by (simp only: arm64_instructions_2652_def read_entries)

lemma entries_2652:
  "length arm64_instructions_2652 = 12" "list_all metadata_wf arm64_instructions_2652"
  "map top_bits arm64_instructions_2652 =
     [(2047, 549), (2047, 551), (2047, 628), (2047, 552), (2047, 1241), (2047, 1284),
      (2047, 1286), (2047, 1284), (2047, 1284), (2047, 1286), (2047, 1284), (2047, 112)]"
  by (simp add: arm64_instructions_2652_def, simp add: arm64_instructions_2652_def, simp add: top_bits_mask_value keys_of_2652)

lemma keys_of_2664: "map mask_value arm64_instructions_2664 =
     [(0xFFE0FC00, 0x4E002C00), (0xFFFFF9FF, 0xD503417F), (0xFFFFF9FF, 0xD503407F),
      (0xFFE08000, 0x9B208000), (0xFFE0A492, 0x9B402492), (0xFF3FE000, 0x4120000),
      (0xFF20FC00, 0x4206800), (0xBF00F400, 0xF00A000), (0xBF20FC00, 0xE20C000),
      (0xFFE0FC00, 0x9B207C00), (0xFF20FC00, 0x45007000), (0xFFE0F400, 0x44A0C000)]"
  by (simp only: arm64_instructions_2664_def read_entries)

lemma entries_2664:
  "length arm64_instructions_2664 = 12" "list_all metadata_wf arm64_instructions_2664"
  "map top_bits arm64_instructions_2664 =
     [(2047, 624), (2047, 1704), (2047, 1704), (2047, 1241), (2047, 1242), (2041, 32),
      (2041, 33), (1528, 120), (1529, 113), (2047, 1241), (2041, 552), (2047, 549)]"
  by (simp add: arm64_instructions_2664_def, simp add: arm64_instructions_2664_def, simp add: top_bits_mask_value keys_of_2664)

lemma keys_of_2676: "map mask_value arm64_instructions_2676 =
     [(0xFFE0F400, 0x44E0C000), (0xFF20FC00, 0x45007400), (0xFFE0F400, 0x44A0C400),
      (0xFFE0F400, 0x44E0C400), (0xFF3FE000, 0x52C8000), (0xFF3FE000, 0x52D8000),
      (0xBF3FFC00, 0xE207800), (0xFF3FFC00, 0x5E207800), (0xFF3FE000, 0x4408A000),
      (0xBF20FC00, 0xE200C00), (0xFF20FC00, 0x5E200C00), (0xFF3FE000, 0x44188000)]"
  by (simp only: arm64_instructions_2676_def read_entries)

lemma entries_2676:
  "length arm64_instructions_2676 = 12" "list_all metadata_wf arm64_instructions_2676"
  "map top_bits arm64_instructions_2676 =
     [(2047, 551), (2041, 552), (2047, 549), (2047, 551), (2041, 41), (2041, 41), (1529, 113),
      (2041, 753), (2041, 544), (1529, 113), (2041, 753), (2041, 544)]"
  by (simp add: arm64_instructions_2676_def, simp add: arm64_instructions_2676_def, simp add: top_bits_mask_value keys_of_2676)

lemma keys_of_2688: "map mask_value arm64_instructions_2688 =
     [(0xFF3FC000, 0x2524C000), (0xFF20FC00, 0x4201000), (0xFF3FF800, 0x4501D800),
      (0xFFFFFC20, 0xC123E000), (0xFF7FFC60, 0xC133E000), (0xFFFFFC20, 0x45314000),
      (0xFF7FFC60, 0xC133E040), (0xFFFFFC20, 0xC163E000), (0xFF7FFC60, 0xC173E000),
      (0xFFFFFC20, 0x45315000), (0xFF7FFC60, 0xC173E040), (0xFFF0FC00, 0x420F800)]"
  by (simp only: arm64_instructions_2688_def read_entries)

lemma entries_2688:
  "length arm64_instructions_2688 = 12" "list_all metadata_wf arm64_instructions_2688"
  "map top_bits arm64_instructions_2688 =
     [(2041, 297), (2041, 33), (2041, 552), (2047, 1545), (2043, 1545), (2047, 553),
      (2043, 1545), (2047, 1547), (2043, 1547), (2047, 553), (2043, 1547), (2047, 33)]"
  by (simp add: arm64_instructions_2688_def, simp add: arm64_instructions_2688_def, simp add: top_bits_mask_value keys_of_2688)

lemma keys_of_2700: "map mask_value arm64_instructions_2700 =
     [(0xFFF0FC00, 0x430F800), (0xFFF0FC00, 0x4E0F800), (0xFFF0FC00, 0x4F0F800),
      (0xFFF0FC00, 0x4E0C800), (0xFFF0FC00, 0x460F800), (0xFFF0FC00, 0x470F800),
      (0xFFF0FC00, 0x460C800), (0xFF3FFE00, 0x252A8800), (0xFF3FFE00, 0x252A8C00),
      (0xFF3FFE00, 0x252A8000), (0xFFF0FC00, 0x4A0F800), (0xFFF0FC00, 0x4B0F800)]"
  by (simp only: arm64_instructions_2700_def read_entries)

lemma entries_2700:
  "length arm64_instructions_2700 = 12" "list_all metadata_wf arm64_instructions_2700"
  "map top_bits arm64_instructions_2700 =
     [(2047, 33), (2047, 39), (2047, 39), (2047, 39), (2047, 35), (2047, 35), (2047, 35),
      (2041, 297), (2041, 297), (2041, 297), (2047, 37), (2047, 37)]"
  by (simp add: arm64_instructions_2700_def, simp add: arm64_instructions_2700_def, simp add: top_bits_mask_value keys_of_2700)

lemma keys_of_2712: "map mask_value arm64_instructions_2712 =
     [(0xFFF0FC00, 0x4A0C800), (0xBF00F400, 0xF003000), (0xFF00F400, 0x5F003000),
      (0xBF20FC00, 0xE209000), (0xFF20FC00, 0x5E209000), (0xFF20FC00, 0x44006000),
      (0xFFE0F400, 0x44A02000), (0xFFE0F400, 0x44E02000), (0xFF20FC00, 0x44000800),
      (0xFF20FC00, 0x44006400), (0xFFE0F400, 0x44A02400), (0xFFE0F400, 0x44E02400)]"
  by (simp only: arm64_instructions_2712_def read_entries)

lemma entries_2712:
  "length arm64_instructions_2712 = 12" "list_all metadata_wf arm64_instructions_2712"
  "map top_bits arm64_instructions_2712 =
     [(2047, 37), (1528, 120), (2040, 760), (1529, 113), (2041, 753), (2041, 544), (2047, 549),
      (2047, 551), (2041, 544), (2041, 544), (2047, 549), (2047, 551)]"
  by (simp add: arm64_instructions_2712_def, simp add: arm64_instructions_2712_def, simp add: top_bits_mask_value keys_of_2712)

lemma keys_of_2724: "map mask_value arm64_instructions_2724 =
     [(0xBF00F400, 0xF007000), (0xFF00F400, 0x5F007000), (0xBF20FC00, 0xE20B000),
      (0xFF20FC00, 0x5E20B000), (0xFF20FC00, 0x44006800), (0xFFE0F400, 0x44A03000),
      (0xFFE0F400, 0x44E03000), (0xFF20FC00, 0x44000C00), (0xFF20FC00, 0x44006C00),
      (0xFFE0F400, 0x44A03400), (0xFFE0F400, 0x44E03400), (0xBF00F400, 0xF00C000)]"
  by (simp only: arm64_instructions_2724_def read_entries)

lemma entries_2724:
  "length arm64_instructions_2724 = 12" "list_all metadata_wf arm64_instructions_2724"
  "map top_bits arm64_instructions_2724 =
     [(1528, 120), (2040, 760), (1529, 113), (2041, 753), (2041, 544), (2047, 549), (2047, 551),
      (2041, 544), (2041, 544), (2047, 549), (2047, 551), (1528, 120)]"
  by (simp add: arm64_instructions_2724_def, simp add: arm64_instructions_2724_def, simp add: top_bits_mask_value keys_of_2724)

lemma keys_of_2736: "map mask_value arm64_instructions_2736 =
     [(0xFF00F400, 0x5F00C000), (0xBF20FC00, 0xE20B400), (0xFF20FC00, 0x5E20B400),
      (0xFF30FFE1, 0xC120A400), (0xFF30FFE3, 0xC120AC00), (0xFF21FFE1, 0xC120B400),
      (0xFF23FFE3, 0xC120BC00), (0xFF20FC00, 0x4207000), (0xFFA0FC00, 0x4420F000),
      (0xFFE0FC00, 0x44A0F000), (0xFFE0FC00, 0x44E0F000), (0xBF00F400, 0xF00B000)]"
  by (simp only: arm64_instructions_2736_def read_entries)

lemma entries_2736:
  "length arm64_instructions_2736 = 12" "list_all metadata_wf arm64_instructions_2736"
  "map top_bits arm64_instructions_2736 =
     [(2040, 760), (1529, 113), (2041, 753), (2041, 1545), (2041, 1545), (2041, 1545),
      (2041, 1545), (2041, 33), (2045, 545), (2047, 549), (2047, 551), (1528, 120)]"
  by (simp add: arm64_instructions_2736_def, simp add: arm64_instructions_2736_def, simp add: top_bits_mask_value keys_of_2736)

lemma keys_of_2748: "map mask_value arm64_instructions_2748 =
     [(0xFF00F400, 0x5F00B000), (0xBF20FC00, 0xE20D000), (0xFF20FC00, 0x5E20D000),
      (0xFF20FC00, 0x45006000), (0xFFE0F400, 0x44A0E000), (0xFFE0F400, 0x44E0E000),
      (0xFF20FC00, 0x45006400), (0xFFE0F400, 0x44A0E400), (0xFFE0F400, 0x44E0E400),
      (0xFFF0FC00, 0x420F000), (0xFFF0FC00, 0x430F000), (0xFFF0FC00, 0x4E0F000)]"
  by (simp only: arm64_instructions_2748_def read_entries)

lemma entries_2748:
  "length arm64_instructions_2748 = 12" "list_all metadata_wf arm64_instructions_2748"
  "map top_bits arm64_instructions_2748 =
     [(2040, 760), (1529, 113), (2041, 753), (2041, 552), (2047, 549), (2047, 551), (2041, 552),
      (2047, 549), (2047, 551), (2047, 33), (2047, 33), (2047, 39)]"
  by (simp add: arm64_instructions_2748_def, simp add: arm64_instructions_2748_def, simp add: top_bits_mask_value keys_of_2748)

lemma keys_of_2760: "map mask_value arm64_instructions_2760 =
     [(0xFFF0FC00, 0x4F0F000), (0xFFF0FC00, 0x4E0C000), (0xFFF0FC00, 0x460F000),
      (0xFFF0FC00, 0x470F000), (0xFFF0FC00, 0x460C000), (0xFF3FFE00, 0x25288800),
      (0xFF3FFE00, 0x25288C00), (0xFF3FFE00, 0x25288000), (0xFFF0FC00, 0x4A0F000),
      (0xFFF0FC00, 0x4B0F000), (0xFFF0FC00, 0x4A0C000), (0xBF3FFC00, 0x2E207800)]"
  by (simp only: arm64_instructions_2760_def read_entries)

lemma entries_2760:
  "length arm64_instructions_2760 = 12" "list_all metadata_wf arm64_instructions_2760"
  "map top_bits arm64_instructions_2760 =
     [(2047, 39), (2047, 39), (2047, 35), (2047, 35), (2047, 35), (2041, 297), (2041, 297),
      (2041, 297), (2047, 37), (2047, 37), (2047, 37), (1529, 369)]"
  by (simp add: arm64_instructions_2760_def, simp add: arm64_instructions_2760_def, simp add: top_bits_mask_value keys_of_2760)

lemma keys_of_2772: "map mask_value arm64_instructions_2772 =
     [(0xFF3FFC00, 0x7E207800), (0xFF3FE000, 0x4409A000), (0xFF20F000, 0x44003000),
      (0xFFE0F000, 0x44A07000), (0xFFE0F000, 0x44E07000), (0xBF00F400, 0x2F00D000),
      (0xFF00F400, 0x7F00D000), (0xBF20FC00, 0x2E008400), (0xFF20FC00, 0x7E008400),
      (0xFF20FC00, 0x44007000), (0xFFA0FC00, 0x44201000), (0xFFE0FC00, 0x44A01000)]"
  by (simp only: arm64_instructions_2772_def read_entries)

lemma entries_2772:
  "length arm64_instructions_2772 = 12" "list_all metadata_wf arm64_instructions_2772"
  "map top_bits arm64_instructions_2772 =
     [(2041, 1009), (2041, 544), (2041, 544), (2047, 549), (2047, 551), (1528, 376),
      (2040, 1016), (1529, 368), (2041, 1008), (2041, 544), (2045, 545), (2047, 549)]"
  by (simp add: arm64_instructions_2772_def, simp add: arm64_instructions_2772_def, simp add: top_bits_mask_value keys_of_2772)

lemma keys_of_2784: "map mask_value arm64_instructions_2784 =
     [(0xFFE0FC00, 0x44E01000), (0xBF00F400, 0x2F00F000), (0xFF00F400, 0x7F00F000),
      (0xBF20FC00, 0x2E008C00), (0xFF20FC00, 0x7E008C00), (0xFF20FC00, 0x44007400),
      (0xFFA0FC00, 0x44201400), (0xFFE0FC00, 0x44A01400), (0xFFE0FC00, 0x44E01400),
      (0xBF00F400, 0xF00D000), (0xFF00F400, 0x5F00D000), (0xBF20FC00, 0x2E20B400)]"
  by (simp only: arm64_instructions_2784_def read_entries)

lemma entries_2784:
  "length arm64_instructions_2784 = 12" "list_all metadata_wf arm64_instructions_2784"
  "map top_bits arm64_instructions_2784 =
     [(2047, 551), (1528, 376), (2040, 1016), (1529, 368), (2041, 1008), (2041, 544),
      (2045, 545), (2047, 549), (2047, 551), (1528, 120), (2040, 760), (1529, 369)]"
  by (simp add: arm64_instructions_2784_def, simp add: arm64_instructions_2784_def, simp add: top_bits_mask_value keys_of_2784)

lemma keys_of_2796: "map mask_value arm64_instructions_2796 =
     [(0xFF20FC00, 0x7E20B400), (0xFF20FC00, 0x4207400), (0xFFA0FC00, 0x4420F400),
      (0xFFE0FC00, 0x44A0F400), (0xFFE0FC00, 0x44E0F400), (0xBF20FC00, 0xE205C00),
      (0xFF20FC00, 0x5E205C00), (0xFF3FE000, 0x440A8000), (0xFF3FE000, 0x440E8000),
      (0xFFF0FC20, 0xC1E0D400), (0xFF20FC60, 0xC120D800), (0xBF8FFC00, 0xF009C00)]"
  by (simp only: arm64_instructions_2796_def read_entries)

lemma entries_2796:
  "length arm64_instructions_2796 = 12" "list_all metadata_wf arm64_instructions_2796"
  "map top_bits arm64_instructions_2796 =
     [(2041, 1009), (2041, 33), (2045, 545), (2047, 549), (2047, 551), (1529, 113), (2041, 753),
      (2041, 544), (2041, 544), (2047, 1551), (2041, 1545), (1532, 120)]"
  by (simp add: arm64_instructions_2796_def, simp add: arm64_instructions_2796_def, simp add: top_bits_mask_value keys_of_2796)

lemma keys_of_2808: "map mask_value arm64_instructions_2808 =
     [(0xFF8FFC00, 0x5F009C00), (0xFFF0FC20, 0x45B02800), (0xFF20FC60, 0xC120DC00),
      (0xFFA0FC00, 0x45202800), (0xFFA0FC00, 0x45202C00), (0xFFF0FC20, 0xC1F0D400),
      (0xFF20FC60, 0xC120D840), (0xBF8FFC00, 0x2F008C00), (0xFF8FFC00, 0x7F008C00),
      (0xFFF0FC20, 0x45B00800), (0xFF20FC60, 0xC120DC40), (0xFFA0FC00, 0x45200800)]"
  by (simp only: arm64_instructions_2808_def read_entries)

lemma entries_2808:
  "length arm64_instructions_2808 = 12" "list_all metadata_wf arm64_instructions_2808"
  "map top_bits arm64_instructions_2808 =
     [(2044, 760), (2047, 557), (2041, 1545), (2045, 553), (2045, 553), (2047, 1551),
      (2041, 1545), (1532, 376), (2044, 1016), (2047, 557), (2041, 1545), (2045, 553)]"
  by (simp add: arm64_instructions_2808_def, simp add: arm64_instructions_2808_def, simp add: top_bits_mask_value keys_of_2808)

lemma keys_of_2820: "map mask_value arm64_instructions_2820 =
     [(0xFFA0FC00, 0x45200C00), (0xBF8FFC00, 0xF007400), (0xFF8FFC00, 0x5F007400),
      (0xBF20FC00, 0xE204C00), (0xFF20FC00, 0x5E204C00), (0xFF3FE000, 0x4068000),
      (0xFF3FE000, 0x44088000), (0xFF3FE000, 0x440C8000), (0xBF8FFC00, 0x2F006400),
      (0xFF8FFC00, 0x7F006400), (0xFF3FE000, 0x40F8000), (0xBF8FFC00, 0xF009400)]"
  by (simp only: arm64_instructions_2820_def read_entries)

lemma entries_2820:
  "length arm64_instructions_2820 = 12" "list_all metadata_wf arm64_instructions_2820"
  "map top_bits arm64_instructions_2820 =
     [(2045, 553), (1532, 120), (2044, 760), (1529, 113), (2041, 753), (2041, 32), (2041, 544),
      (2041, 544), (1532, 376), (2044, 1016), (2041, 32), (1532, 120)]"
  by (simp add: arm64_instructions_2820_def, simp add: arm64_instructions_2820_def, simp add: top_bits_mask_value keys_of_2820)

lemma keys_of_2832: "map mask_value arm64_instructions_2832 =
     [(0xFF8FFC00, 0x5F009400), (0xFFA0FC00, 0x45202000), (0xFFA0FC00, 0x45202400),
      (0xBF8FFC00, 0x2F008400), (0xFF8FFC00, 0x7F008400), (0xFFA0FC00, 0x45200000),
      (0xFFA0FC00, 0x45200400), (0xBF20FC00, 0xE202C00), (0xFF20FC00, 0x5E202C00),
      (0xFF3FE000, 0x441A8000), (0xFF3FC000, 0x2526C000), (0xFF20FC00, 0x4201800)]"
  by (simp only: arm64_instructions_2832_def read_entries)

lemma entries_2832:
  "length arm64_instructions_2832 = 12" "list_all metadata_wf arm64_instructions_2832"
  "map top_bits arm64_instructions_2832 =
     [(2044, 760), (2045, 553), (2045, 553), (1532, 376), (2044, 1016), (2045, 553), (2045, 553),
      (1529, 113), (2041, 753), (2041, 544), (2041, 297), (2041, 33)]"
  by (simp add: arm64_instructions_2832_def, simp add: arm64_instructions_2832_def, simp add: top_bits_mask_value keys_of_2832)

lemma keys_of_2844: "map mask_value arm64_instructions_2844 =
     [(0xFF3FE000, 0x441E8000), (0xBF3FFC00, 0xE214800), (0xFF3FFC00, 0x5E214800),
      (0xFFA7FC00, 0x45204000), (0xFFA7FC00, 0x45204400), (0xBF3FFC00, 0x2E212800),
      (0xFF3FFC00, 0x7E212800), (0xFFA7FC00, 0x45205000), (0xFFA7FC00, 0x45205400),
      (0xBF20FC00, 0xE201400), (0xFF3FE000, 0x44148000), (0xBF8FFC00, 0x2F004400)]"
  by (simp only: arm64_instructions_2844_def read_entries)

lemma entries_2844:
  "length arm64_instructions_2844 = 12" "list_all metadata_wf arm64_instructions_2844"
  "map top_bits arm64_instructions_2844 =
     [(2041, 544), (1529, 113), (2041, 753), (2045, 553), (2045, 553), (1529, 369), (2041, 1009),
      (2045, 553), (2045, 553), (1529, 113), (2041, 544), (1532, 376)]"
  by (simp add: arm64_instructions_2844_def, simp add: arm64_instructions_2844_def, simp add: top_bits_mask_value keys_of_2844)

lemma keys_of_2856: "map mask_value arm64_instructions_2856 =
     [(0xFF8FFC00, 0x7F004400), (0xFF20FC00, 0x4500F000), (0xBF20FC00, 0xE205400),
      (0xFF20FC00, 0x5E205400), (0xFF30FFE1, 0xC120A220), (0xFF30FFE3, 0xC120AA20),
      (0xFF21FFE1, 0xC120B220), (0xFF23FFE3, 0xC120BA20), (0xFF3FE000, 0x44028000),
      (0xFF3FE000, 0x44068000), (0xBF8FFC00, 0xF002400), (0xFF8FFC00, 0x5F002400)]"
  by (simp only: arm64_instructions_2856_def read_entries)

lemma entries_2856:
  "length arm64_instructions_2856 = 12" "list_all metadata_wf arm64_instructions_2856"
  "map top_bits arm64_instructions_2856 =
     [(2044, 1016), (2041, 552), (1529, 113), (2041, 753), (2041, 1545), (2041, 1545),
      (2041, 1545), (2041, 1545), (2041, 544), (2041, 544), (1532, 120), (2044, 760)]"
  by (simp add: arm64_instructions_2856_def, simp add: arm64_instructions_2856_def, simp add: top_bits_mask_value keys_of_2856)

lemma keys_of_2868: "map mask_value arm64_instructions_2868 =
     [(0xFF3FE000, 0x40C8000), (0xBF8FFC00, 0xF003400), (0xFF8FFC00, 0x5F003400),
      (0xFF20FC00, 0x4500E800), (0xFFFFFFFF, 0xD503309F), (0xBF20FC00, 0xE204400),
      (0xFF20FC00, 0x5E204400), (0xBF8FFC00, 0xF00A400), (0xFFA0FC00, 0x4500A000),
      (0xFFA0FC00, 0x4500A400), (0xBF8FFC00, 0xF000400), (0xFF8FFC00, 0x5F000400)]"
  by (simp only: arm64_instructions_2868_def read_entries)

lemma entries_2868:
  "length arm64_instructions_2868 = 12" "list_all metadata_wf arm64_instructions_2868"
  "map top_bits arm64_instructions_2868 =
     [(2041, 32), (1532, 120), (2044, 760), (2041, 552), (2047, 1704), (1529, 113), (2041, 753),
      (1532, 120), (2045, 552), (2045, 552), (1532, 120), (2044, 760)]"
  by (simp add: arm64_instructions_2868_def, simp add: arm64_instructions_2868_def, simp add: top_bits_mask_value keys_of_2868)

lemma keys_of_2880: "map mask_value arm64_instructions_2880 =
     [(0xBF8FFC00, 0xF001400), (0xFF8FFC00, 0x5F001400), (0xFF20FC00, 0x4500E000),
      (0xBF20FC00, 0xE202000), (0xFF20FC00, 0x45001000), (0xFF20FC00, 0x45008800),
      (0xFF20FC00, 0x45001400), (0xFF20FC00, 0x45008C00), (0xBF20FC00, 0xE203000),
      (0xFF20FC00, 0x45005000), (0xFF20FC00, 0x45005400), (0xBFE0F000, 0xC802000)]"
  by (simp only: arm64_instructions_2880_def read_entries)

lemma entries_2880:
  "length arm64_instructions_2880 = 12" "list_all metadata_wf arm64_instructions_2880"
  "map top_bits arm64_instructions_2880 =
     [(1532, 120), (2044, 760), (2041, 552), (1529, 113), (2041, 552), (2041, 552), (2041, 552),
      (2041, 552), (1529, 113), (2041, 552), (2041, 552), (1535, 100)]"
  by (simp add: arm64_instructions_2880_def, simp add: arm64_instructions_2880_def, simp add: top_bits_mask_value keys_of_2880)

lemma keys_of_2892: "map mask_value arm64_instructions_2892 =
     [(0xBFE0F000, 0xC806000), (0xBFE0F000, 0xC807000), (0xBFE0F000, 0xC80A000),
      (0xBFFFF000, 0xC002000), (0xBFFFF000, 0xC006000), (0xBFFFF000, 0xC007000),
      (0xBFFFF000, 0xC00A000), (0xBFFFF000, 0xC9F2000), (0xBFFFF000, 0xC9F6000),
      (0xBFFFF000, 0xC9F7000), (0xBFFFF000, 0xC9FA000), (0xBFE0E000, 0xD800000)]"
  by (simp only: arm64_instructions_2892_def read_entries)

lemma entries_2892:
  "length arm64_instructions_2892 = 12" "list_all metadata_wf arm64_instructions_2892"
  "map top_bits arm64_instructions_2892 =
     [(1535, 100), (1535, 100), (1535, 100), (1535, 96), (1535, 96), (1535, 96), (1535, 96),
      (1535, 100), (1535, 100), (1535, 100), (1535, 100), (1535, 108)]"
  by (simp add: arm64_instructions_2892_def, simp add: arm64_instructions_2892_def, simp add: top_bits_mask_value keys_of_2892)

lemma keys_of_2904: "map mask_value arm64_instructions_2904 =
     [(0xBFE0E400, 0xD804000), (0xBFE0EC00, 0xD808000), (0xBFE0FC00, 0xD808400),
      (0xBFFFE000, 0xD000000), (0xBFFFE000, 0xD9F0000), (0xBFFFE400, 0xD004000),
      (0xBFFFE400, 0xD9F4000), (0xBFFFEC00, 0xD008000), (0xBFFFEC00, 0xD9F8000),
      (0xBFFFFC00, 0xD008400), (0xBFFFFC00, 0xD9F8400), (0xFFF0E001, 0xA0600000)]"
  by (simp only: arm64_instructions_2904_def read_entries)

lemma entries_2904:
  "length arm64_instructions_2904 = 12" "list_all metadata_wf arm64_instructions_2904"
  "map top_bits arm64_instructions_2904 =
     [(1535, 108), (1535, 108), (1535, 108), (1535, 104), (1535, 108), (1535, 104), (1535, 108),
      (1535, 104), (1535, 108), (1535, 104), (1535, 108), (2047, 1283)]"
  by (simp add: arm64_instructions_2904_def, simp add: arm64_instructions_2904_def, simp add: top_bits_mask_value keys_of_2904)

lemma keys_of_2916: "map mask_value arm64_instructions_2916 =
     [(0xFFF0E003, 0xA0608000), (0xFFE0E001, 0xA0200000), (0xFFE0E003, 0xA0208000),
      (0xFFF0E008, 0xA1600000), (0xFFF0E00C, 0xA1608000), (0xFFE0E008, 0xA1200000),
      (0xFFE0E00C, 0xA1208000), (0xFFE0E000, 0xE440A000), (0xFFE0E000, 0xE460A000),
      (0xFF90E000, 0xE400E000), (0xFF80E000, 0xE4004000), (0xFFE0A000, 0xE4008000)]"
  by (simp only: arm64_instructions_2916_def read_entries)

lemma entries_2916:
  "length arm64_instructions_2916 = 12" "list_all metadata_wf arm64_instructions_2916"
  "map top_bits arm64_instructions_2916 =
     [(2047, 1283), (2047, 1281), (2047, 1281), (2047, 1291), (2047, 1291), (2047, 1289),
      (2047, 1289), (2047, 1826), (2047, 1827), (2044, 1824), (2044, 1824), (2047, 1824)]"
  by (simp add: arm64_instructions_2916_def, simp add: arm64_instructions_2916_def, simp add: top_bits_mask_value keys_of_2916)

lemma keys_of_2928: "map mask_value arm64_instructions_2928 =
     [(0xFFE0A000, 0xE4408000), (0xFFE0E000, 0xE400A000), (0xFFE00010, 0xE0200000),
      (0xFFF0E001, 0xA0606000), (0xFFF0E003, 0xA060E000), (0xFFE0E001, 0xA0206000),
      (0xFFE0E003, 0xA020E000), (0xFFF0E008, 0xA1606000), (0xFFF0E00C, 0xA160E000),
      (0xFFE0E008, 0xA1206000), (0xFFE0E00C, 0xA120E000), (0xFFE0E000, 0xE5C0A000)]"
  by (simp only: arm64_instructions_2928_def read_entries)

lemma entries_2928:
  "length arm64_instructions_2928 = 12" "list_all metadata_wf arm64_instructions_2928"
  "map top_bits arm64_instructions_2928 =
     [(2047, 1826), (2047, 1824), (2047, 1793), (2047, 1283), (2047, 1283), (2047, 1281),
      (2047, 1281), (2047, 1291), (2047, 1291), (2047, 1289), (2047, 1289), (2047, 1838)]"
  by (simp add: arm64_instructions_2928_def, simp add: arm64_instructions_2928_def, simp add: top_bits_mask_value keys_of_2928)

lemma keys_of_2940: "map mask_value arm64_instructions_2940 =
     [(0xFFF0E000, 0xE5C0E000), (0xFFF0E000, 0xE5E0E000), (0xFFE0E000, 0xE5C04000),
      (0xFFE0E000, 0xE5E04000), (0xFFE0A000, 0xE5808000), (0xFFE0A000, 0xE5A08000),
      (0xFFE0E000, 0xE580A000), (0xFFE0E000, 0xE5A0A000), (0xFFE00010, 0xE0E00000),
      (0xFFF0E001, 0xA0602000), (0xFFF0E003, 0xA060A000), (0xFFE0E001, 0xA0202000)]"
  by (simp only: arm64_instructions_2940_def read_entries)

lemma entries_2940:
  "length arm64_instructions_2940 = 12" "list_all metadata_wf arm64_instructions_2940"
  "map top_bits arm64_instructions_2940 =
     [(2047, 1838), (2047, 1839), (2047, 1838), (2047, 1839), (2047, 1836), (2047, 1837),
      (2047, 1836), (2047, 1837), (2047, 1799), (2047, 1283), (2047, 1283), (2047, 1281)]"
  by (simp add: arm64_instructions_2940_def, simp add: arm64_instructions_2940_def, simp add: top_bits_mask_value keys_of_2940)

lemmas entries_part_6 =
  entries_2460 entries_2472 entries_2484 entries_2496 entries_2508 entries_2520 entries_2532
  entries_2544 entries_2556 entries_2568 entries_2580 entries_2592 entries_2604 entries_2616
  entries_2628 entries_2640 entries_2652 entries_2664 entries_2676 entries_2688 entries_2700
  entries_2712 entries_2724 entries_2736 entries_2748 entries_2760 entries_2772 entries_2784
  entries_2796 entries_2808 entries_2820 entries_2832 entries_2844 entries_2856 entries_2868
  entries_2880 entries_2892 entries_2904 entries_2916 entries_2928 entries_2940

lemma arm64_part_6:
  "length (concat arm64_part_6) = 492" "list_all metadata_wf (concat arm64_part_6)"
  "sum_list (map weight (map top_bits (concat arm64_part_6))) = 1566"
  by (simp_all add: arm64_part_6_def entries_part_6 weight_def bit_Suc_0_iff)

end
