(* ===== verification/Arm64_Instructions_7.thy ===== *)
theory Arm64_Instructions_7
  imports Table_Entries
begin

text \<open>
  Entries 2952 to 3443 of \<open>g_bal_decoder_arm64_instructions\<close> in \<open>src/generated/decoder_table.c\<close>,
  twelve to a list; a list is named after the index of its first entry.
\<close>

definition arm64_instructions_2952 :: "bal_decoder_instruction_metadata_t list" where
  "arm64_instructions_2952 = [
     insn ''ST1H'' 0xFFE0E003 0xA020A000 OPCODE_TRAP [op_v 2 3, op_x 5 5, op_v 10 3, op_imm 16 5],
     insn ''ST1H'' 0xFFF0E008 0xA1602000 OPCODE_TRAP [op_v 0 3, op_v 4 1, op_x 5 5, op_v 10 3, op_imm 16 4],
     insn ''ST1H'' 0xFFF0E00C 0xA160A000 OPCODE_TRAP [op_v 0 2, op_v 4 1, op_x 5 5, op_v 10 3, op_imm 16 4],
     insn ''ST1H'' 0xFFE0E008 0xA1202000 OPCODE_TRAP [op_v 0 3, op_v 4 1, op_x 5 5, op_v 10 3, op_imm 16 5],
     insn ''ST1H'' 0xFFE0E00C 0xA120A000 OPCODE_TRAP [op_v 0 2, op_v 4 1, op_x 5 5, op_v 10 3, op_imm 16 5],
     insn ''ST1H'' 0xFFE0E000 0xE4C0A000 OPCODE_TRAP [op_v 0 5, op_v 5 5, op_v 10 3, op_imm 16 5],
     insn ''ST1H'' 0xFFE0E000 0xE4E0A000 OPCODE_TRAP [op_v 0 5, op_v 5 5, op_v 10 3, op_imm 16 5],
     insn ''ST1H'' 0xFF90E000 0xE480E000 OPCODE_TRAP [op_v 0 5, op_x 5 5, op_v 10 3, op_imm 16 4],
     insn ''ST1H'' 0xFF80E000 0xE4804000 OPCODE_TRAP [op_v 0 5, op_x 5 5, op_v 10 3, op_imm 16 5],
     insn ''ST1H'' 0xFFE0A000 0xE4808000 OPCODE_TRAP [op_v 0 5, op_x 5 5, op_v 10 3, op_imm 14 1, op_imm 16 5],
     insn ''ST1H'' 0xFFE0A000 0xE4A08000 OPCODE_TRAP [op_v 0 5, op_x 5 5, op_v 10 3, op_imm 14 1, op_imm 16 5],
     insn ''ST1H'' 0xFFE0A000 0xE4C08000 OPCODE_TRAP [op_v 0 5, op_x 5 5, op_v 10 3, op_imm 14 1, op_imm 16 5]]"

definition arm64_instructions_2964 :: "bal_decoder_instruction_metadata_t list" where
  "arm64_instructions_2964 = [
     insn ''ST1H'' 0xFFE0A000 0xE4E08000 OPCODE_TRAP [op_v 0 5, op_x 5 5, op_v 10 3, op_imm 14 1, op_imm 16 5],
     insn ''ST1H'' 0xFFE0E000 0xE480A000 OPCODE_TRAP [op_v 0 5, op_x 5 5, op_v 10 3, op_imm 16 5],
     insn ''ST1H'' 0xFFE0E000 0xE4A0A000 OPCODE_TRAP [op_v 0 5, op_x 5 5, op_v 10 3, op_imm 16 5],
     insn ''ST1H'' 0xFFE00010 0xE0600000 OPCODE_TRAP [op_imm 0 3, op_x 5 5, op_v 10 3, op_imm 13 2, op_imm 16 5],
     insn ''ST1Q'' 0xFFE0E000 0xE4202000 OPCODE_TRAP [op_v 0 5, op_v 5 5, op_v 10 3, op_imm 16 5],
     insn ''ST1Q'' 0xFFE00010 0xE1E00000 OPCODE_TRAP [op_x 5 5, op_v 10 3, op_imm 13 2, op_imm 16 5],
     insn ''ST1W'' 0xFFF0E001 0xA0604000 OPCODE_TRAP [op_v 1 4, op_x 5 5, op_v 10 3, op_imm 16 4],
     insn ''ST1W'' 0xFFF0E003 0xA060C000 OPCODE_TRAP [op_v 2 3, op_x 5 5, op_v 10 3, op_imm 16 4],
     insn ''ST1W'' 0xFFE0E001 0xA0204000 OPCODE_TRAP [op_v 1 4, op_x 5 5, op_v 10 3, op_imm 16 5],
     insn ''ST1W'' 0xFFE0E003 0xA020C000 OPCODE_TRAP [op_v 2 3, op_x 5 5, op_v 10 3, op_imm 16 5],
     insn ''ST1W'' 0xFFF0E008 0xA1604000 OPCODE_TRAP [op_v 0 3, op_v 4 1, op_x 5 5, op_v 10 3, op_imm 16 4],
     insn ''ST1W'' 0xFFF0E00C 0xA160C000 OPCODE_TRAP [op_v 0 2, op_v 4 1, op_x 5 5, op_v 10 3, op_imm 16 4]]"

definition arm64_instructions_2976 :: "bal_decoder_instruction_metadata_t list" where
  "arm64_instructions_2976 = [
     insn ''ST1W'' 0xFFE0E008 0xA1204000 OPCODE_TRAP [op_v 0 3, op_v 4 1, op_x 5 5, op_v 10 3, op_imm 16 5],
     insn ''ST1W'' 0xFFE0E00C 0xA120C000 OPCODE_TRAP [op_v 0 2, op_v 4 1, op_x 5 5, op_v 10 3, op_imm 16 5],
     insn ''ST1W'' 0xFFE0E000 0xE540A000 OPCODE_TRAP [op_v 0 5, op_v 5 5, op_v 10 3, op_imm 16 5],
     insn ''ST1W'' 0xFFE0E000 0xE560A000 OPCODE_TRAP [op_v 0 5, op_v 5 5, op_v 10 3, op_imm 16 5],
     insn ''ST1W'' 0xFFD0E000 0xE540E000 OPCODE_TRAP [op_v 0 5, op_x 5 5, op_v 10 3, op_imm 16 4],
     insn ''ST1W'' 0xFFF0E000 0xE500E000 OPCODE_TRAP [op_v 0 5, op_x 5 5, op_v 10 3, op_imm 16 4],
     insn ''ST1W'' 0xFFC0E000 0xE5404000 OPCODE_TRAP [op_v 0 5, op_x 5 5, op_v 10 3, op_imm 16 5],
     insn ''ST1W'' 0xFFE0E000 0xE5004000 OPCODE_TRAP [op_v 0 5, op_x 5 5, op_v 10 3, op_imm 16 5],
     insn ''ST1W'' 0xFFE0A000 0xE5008000 OPCODE_TRAP [op_v 0 5, op_x 5 5, op_v 10 3, op_imm 14 1, op_imm 16 5],
     insn ''ST1W'' 0xFFE0A000 0xE5208000 OPCODE_TRAP [op_v 0 5, op_x 5 5, op_v 10 3, op_imm 14 1, op_imm 16 5],
     insn ''ST1W'' 0xFFE0A000 0xE5408000 OPCODE_TRAP [op_v 0 5, op_x 5 5, op_v 10 3, op_imm 14 1, op_imm 16 5],
     insn ''ST1W'' 0xFFE0A000 0xE5608000 OPCODE_TRAP [op_v 0 5, op_x 5 5, op_v 10 3, op_imm 14 1, op_imm 16 5]]"

definition arm64_instructions_2988 :: "bal_decoder_instruction_metadata_t list" where
  "arm64_instructions_2988 = [
     insn ''ST1W'' 0xFFE0E000 0xE500A000 OPCODE_TRAP [op_v 0 5, op_x 5 5, op_v 10 3, op_imm 16 5],
     insn ''ST1W'' 0xFFE0E000 0xE520A000 OPCODE_TRAP [op_v 0 5, op_x 5 5, op_v 10 3, op_imm 16 5],
     insn ''ST1W'' 0xFFE00010 0xE0A00000 OPCODE_TRAP [op_imm 0 2, op_x 5 5, op_v 10 3, op_imm 13 2, op_imm 16 5],
     insn ''ST2'' 0xBFE0F000 0x0C808000 OPCODE_TRAP [op_v 0 5, op_x 5 5, op_imm 16 5],
     insn ''ST2'' 0xBFFFF000 0x0C008000 OPCODE_TRAP [op_v 0 5, op_x 5 5],
     insn ''ST2'' 0xBFFFF000 0x0C9F8000 OPCODE_TRAP [op_v 0 5, op_x 5 5, op_imm 30 1],
     insn ''ST2'' 0xBFE0E000 0x0DA00000 OPCODE_TRAP [op_v 0 5, op_x 5 5, op_imm 10 2, op_imm 12 1, op_imm 30 1],
     insn ''ST2'' 0xBFE0E400 0x0DA04000 OPCODE_TRAP [op_v 0 5, op_x 5 5, op_imm 10 2, op_imm 12 1, op_imm 30 1],
     insn ''ST2'' 0xBFE0EC00 0x0DA08000 OPCODE_TRAP [op_v 0 5, op_x 5 5, op_imm 12 1, op_imm 16 5, op_imm 30 1],
     insn ''ST2'' 0xBFE0FC00 0x0DA08400 OPCODE_TRAP [op_v 0 5, op_x 5 5, op_imm 16 5, op_imm 30 1],
     insn ''ST2'' 0xBFFFE000 0x0D200000 OPCODE_TRAP [op_v 0 5, op_x 5 5, op_imm 10 2, op_imm 12 1, op_imm 30 1],
     insn ''ST2'' 0xBFFFE000 0x0DBF0000 OPCODE_TRAP [op_v 0 5, op_x 5 5, op_imm 10 2, op_imm 12 1, op_imm 30 1]]"

definition arm64_instructions_3000 :: "bal_decoder_instruction_metadata_t list" where
  "arm64_instructions_3000 = [
     insn ''ST2'' 0xBFFFE400 0x0D204000 OPCODE_TRAP [op_v 0 5, op_x 5 5, op_imm 10 2, op_imm 12 1, op_imm 30 1],
     insn ''ST2'' 0xBFFFE400 0x0DBF4000 OPCODE_TRAP [op_v 0 5, op_x 5 5, op_imm 10 2, op_imm 12 1, op_imm 30 1],
     insn ''ST2'' 0xBFFFEC00 0x0D208000 OPCODE_TRAP [op_v 0 5, op_x 5 5, op_imm 12 1, op_imm 30 1],
     insn ''ST2'' 0xBFFFEC00 0x0DBF8000 OPCODE_TRAP [op_v 0 5, op_x 5 5, op_imm 12 1, op_imm 30 1],
     insn ''ST2'' 0xBFFFFC00 0x0D208400 OPCODE_TRAP [op_v 0 5, op_x 5 5, op_imm 30 1],
     insn ''ST2'' 0xBFFFFC00 0x0DBF8400 OPCODE_TRAP [op_v 0 5, op_x 5 5, op_imm 30 1],
     insn ''ST2B'' 0xFFF0E000 0xE430E000 OPCODE_TRAP [op_v 0 5, op_x 5 5, op_v 10 3, op_imm 16 4],
     insn ''ST2B'' 0xFFE0E000 0xE4206000 OPCODE_TRAP [op_v 0 5, op_x 5 5, op_v 10 3, op_imm 16 5],
     insn ''ST2D'' 0xFFF0E000 0xE5B0E000 OPCODE_TRAP [op_v 0 5, op_x 5 5, op_v 10 3, op_imm 16 4],
     insn ''ST2D'' 0xFFE0E000 0xE5A06000 OPCODE_TRAP [op_v 0 5, op_x 5 5, op_v 10 3, op_imm 16 5],
     insn ''ST2G'' 0xFFE00C00 0xD9A00400 OPCODE_TRAP [op_x 0 5, op_x 5 5, op_imm 12 9],
     insn ''ST2G'' 0xFFE00C00 0xD9A00800 OPCODE_TRAP [op_x 0 5, op_x 5 5, op_imm 12 9]]"

definition arm64_instructions_3012 :: "bal_decoder_instruction_metadata_t list" where
  "arm64_instructions_3012 = [
     insn ''ST2G'' 0xFFE00C00 0xD9A00C00 OPCODE_TRAP [op_x 0 5, op_x 5 5, op_imm 12 9],
     insn ''ST2H'' 0xFFF0E000 0xE4B0E000 OPCODE_TRAP [op_v 0 5, op_x 5 5, op_v 10 3, op_imm 16 4],
     insn ''ST2H'' 0xFFE0E000 0xE4A06000 OPCODE_TRAP [op_v 0 5, op_x 5 5, op_v 10 3, op_imm 16 5],
     insn ''ST2Q'' 0xFFF0E000 0xE4400000 OPCODE_TRAP [op_v 0 5, op_x 5 5, op_v 10 3, op_imm 16 4],
     insn ''ST2Q'' 0xFFE0E000 0xE4600000 OPCODE_TRAP [op_v 0 5, op_x 5 5, op_v 10 3, op_imm 16 5],
     insn ''ST2W'' 0xFFF0E000 0xE530E000 OPCODE_TRAP [op_v 0 5, op_x 5 5, op_v 10 3, op_imm 16 4],
     insn ''ST2W'' 0xFFE0E000 0xE5206000 OPCODE_TRAP [op_v 0 5, op_x 5 5, op_v 10 3, op_imm 16 5],
     insn ''ST3'' 0xBFE0F000 0x0C804000 OPCODE_TRAP [op_v 0 5, op_x 5 5, op_imm 16 5],
     insn ''ST3'' 0xBFFFF000 0x0C004000 OPCODE_TRAP [op_v 0 5, op_x 5 5],
     insn ''ST3'' 0xBFFFF000 0x0C9F4000 OPCODE_TRAP [op_v 0 5, op_x 5 5, op_imm 30 1],
     insn ''ST3'' 0xBFE0E000 0x0D802000 OPCODE_TRAP [op_v 0 5, op_x 5 5, op_imm 10 2, op_imm 12 1, op_imm 30 1],
     insn ''ST3'' 0xBFE0E400 0x0D806000 OPCODE_TRAP [op_v 0 5, op_x 5 5, op_imm 10 2, op_imm 12 1, op_imm 30 1]]"

definition arm64_instructions_3024 :: "bal_decoder_instruction_metadata_t list" where
  "arm64_instructions_3024 = [
     insn ''ST3'' 0xBFE0EC00 0x0D80A000 OPCODE_TRAP [op_v 0 5, op_x 5 5, op_imm 12 1, op_imm 16 5, op_imm 30 1],
     insn ''ST3'' 0xBFE0FC00 0x0D80A400 OPCODE_TRAP [op_v 0 5, op_x 5 5, op_imm 16 5, op_imm 30 1],
     insn ''ST3'' 0xBFFFE000 0x0D002000 OPCODE_TRAP [op_v 0 5, op_x 5 5, op_imm 10 2, op_imm 12 1, op_imm 30 1],
     insn ''ST3'' 0xBFFFE000 0x0D9F2000 OPCODE_TRAP [op_v 0 5, op_x 5 5, op_imm 10 2, op_imm 12 1, op_imm 30 1],
     insn ''ST3'' 0xBFFFE400 0x0D006000 OPCODE_TRAP [op_v 0 5, op_x 5 5, op_imm 10 2, op_imm 12 1, op_imm 30 1],
     insn ''ST3'' 0xBFFFE400 0x0D9F6000 OPCODE_TRAP [op_v 0 5, op_x 5 5, op_imm 10 2, op_imm 12 1, op_imm 30 1],
     insn ''ST3'' 0xBFFFEC00 0x0D00A000 OPCODE_TRAP [op_v 0 5, op_x 5 5, op_imm 12 1, op_imm 30 1],
     insn ''ST3'' 0xBFFFEC00 0x0D9FA000 OPCODE_TRAP [op_v 0 5, op_x 5 5, op_imm 12 1, op_imm 30 1],
     insn ''ST3'' 0xBFFFFC00 0x0D00A400 OPCODE_TRAP [op_v 0 5, op_x 5 5, op_imm 30 1],
     insn ''ST3'' 0xBFFFFC00 0x0D9FA400 OPCODE_TRAP [op_v 0 5, op_x 5 5, op_imm 30 1],
     insn ''ST3B'' 0xFFF0E000 0xE450E000 OPCODE_TRAP [op_v 0 5, op_x 5 5, op_v 10 3, op_imm 16 4],
     insn ''ST3B'' 0xFFE0E000 0xE4406000 OPCODE_TRAP [op_v 0 5, op_x 5 5, op_v 10 3, op_imm 16 5]]"

definition arm64_instructions_3036 :: "bal_decoder_instruction_metadata_t list" where
  "arm64_instructions_3036 = [
     insn ''ST3D'' 0xFFF0E000 0xE5D0E000 OPCODE_TRAP [op_v 0 5, op_x 5 5, op_v 10 3, op_imm 16 4],
     insn ''ST3D'' 0xFFE0E000 0xE5C06000 OPCODE_TRAP [op_v 0 5, op_x 5 5, op_v 10 3, op_imm 16 5],
     insn ''ST3H'' 0xFFF0E000 0xE4D0E000 OPCODE_TRAP [op_v 0 5, op_x 5 5, op_v 10 3, op_imm 16 4],
     insn ''ST3H'' 0xFFE0E000 0xE4C06000 OPCODE_TRAP [op_v 0 5, op_x 5 5, op_v 10 3, op_imm 16 5],
     insn ''ST3Q'' 0xFFF0E000 0xE4800000 OPCODE_TRAP [op_v 0 5, op_x 5 5, op_v 10 3, op_imm 16 4],
     insn ''ST3Q'' 0xFFE0E000 0xE4A00000 OPCODE_TRAP [op_v 0 5, op_x 5 5, op_v 10 3, op_imm 16 5],
     insn ''ST3W'' 0xFFF0E000 0xE550E000 OPCODE_TRAP [op_v 0 5, op_x 5 5, op_v 10 3, op_imm 16 4],
     insn ''ST3W'' 0xFFE0E000 0xE5406000 OPCODE_TRAP [op_v 0 5, op_x 5 5, op_v 10 3, op_imm 16 5],
     insn ''ST4'' 0xBFE0F000 0x0C800000 OPCODE_TRAP [op_v 0 5, op_x 5 5, op_imm 16 5],
     insn ''ST4'' 0xBFFFF000 0x0C000000 OPCODE_TRAP [op_v 0 5, op_x 5 5],
     insn ''ST4'' 0xBFFFF000 0x0C9F0000 OPCODE_TRAP [op_v 0 5, op_x 5 5, op_imm 30 1],
     insn ''ST4'' 0xBFE0E000 0x0DA02000 OPCODE_TRAP [op_v 0 5, op_x 5 5, op_imm 10 2, op_imm 12 1, op_imm 30 1]]"

definition arm64_instructions_3048 :: "bal_decoder_instruction_metadata_t list" where
  "arm64_instructions_3048 = [
     insn ''ST4'' 0xBFE0E400 0x0DA06000 OPCODE_TRAP [op_v 0 5, op_x 5 5, op_imm 10 2, op_imm 12 1, op_imm 30 1],
     insn ''ST4'' 0xBFE0EC00 0x0DA0A000 OPCODE_TRAP [op_v 0 5, op_x 5 5, op_imm 12 1, op_imm 16 5, op_imm 30 1],
     insn ''ST4'' 0xBFE0FC00 0x0DA0A400 OPCODE_TRAP [op_v 0 5, op_x 5 5, op_imm 16 5, op_imm 30 1],
     insn ''ST4'' 0xBFFFE000 0x0D202000 OPCODE_TRAP [op_v 0 5, op_x 5 5, op_imm 10 2, op_imm 12 1, op_imm 30 1],
     insn ''ST4'' 0xBFFFE000 0x0DBF2000 OPCODE_TRAP [op_v 0 5, op_x 5 5, op_imm 10 2, op_imm 12 1, op_imm 30 1],
     insn ''ST4'' 0xBFFFE400 0x0D206000 OPCODE_TRAP [op_v 0 5, op_x 5 5, op_imm 10 2, op_imm 12 1, op_imm 30 1],
     insn ''ST4'' 0xBFFFE400 0x0DBF6000 OPCODE_TRAP [op_v 0 5, op_x 5 5, op_imm 10 2, op_imm 12 1, op_imm 30 1],
     insn ''ST4'' 0xBFFFEC00 0x0D20A000 OPCODE_TRAP [op_v 0 5, op_x 5 5, op_imm 12 1, op_imm 30 1],
     insn ''ST4'' 0xBFFFEC00 0x0DBFA000 OPCODE_TRAP [op_v 0 5, op_x 5 5, op_imm 12 1, op_imm 30 1],
     insn ''ST4'' 0xBFFFFC00 0x0D20A400 OPCODE_TRAP [op_v 0 5, op_x 5 5, op_imm 30 1],
     insn ''ST4'' 0xBFFFFC00 0x0DBFA400 OPCODE_TRAP [op_v 0 5, op_x 5 5, op_imm 30 1],
     insn ''ST4B'' 0xFFF0E000 0xE470E000 OPCODE_TRAP [op_v 0 5, op_x 5 5, op_v 10 3, op_imm 16 4]]"

definition arm64_instructions_3060 :: "bal_decoder_instruction_metadata_t list" where
  "arm64_instructions_3060 = [
     insn ''ST4B'' 0xFFE0E000 0xE4606000 OPCODE_TRAP [op_v 0 5, op_x 5 5, op_v 10 3, op_imm 16 5],
     insn ''ST4D'' 0xFFF0E000 0xE5F0E000 OPCODE_TRAP [op_v 0 5, op_x 5 5, op_v 10 3, op_imm 16 4],
     insn ''ST4D'' 0xFFE0E000 0xE5E06000 OPCODE_TRAP [op_v 0 5, op_x 5 5, op_v 10 3, op_imm 16 5],
     insn ''ST4H'' 0xFFF0E000 0xE4F0E000 OPCODE_TRAP [op_v 0 5, op_x 5 5, op_v 10 3, op_imm 16 4],
     insn ''ST4H'' 0xFFE0E000 0xE4E06000 OPCODE_TRAP [op_v 0 5, op_x 5 5, op_v 10 3, op_imm 16 5],
     insn ''ST4Q'' 0xFFF0E000 0xE4C00000 OPCODE_TRAP [op_v 0 5, op_x 5 5, op_v 10 3, op_imm 16 4],
     insn ''ST4Q'' 0xFFE0E000 0xE4E00000 OPCODE_TRAP [op_v 0 5, op_x 5 5, op_v 10 3, op_imm 16 5],
     insn ''ST4W'' 0xFFF0E000 0xE570E000 OPCODE_TRAP [op_v 0 5, op_x 5 5, op_v 10 3, op_imm 16 4],
     insn ''ST4W'' 0xFFE0E000 0xE5606000 OPCODE_TRAP [op_v 0 5, op_x 5 5, op_v 10 3, op_imm 16 5],
     insn ''ST64B'' 0xFFFFFC00 0xF83F9000 OPCODE_TRAP [op_x 0 5, op_x 5 5],
     insn ''ST64BV'' 0xFFE0FC00 0xF820B000 OPCODE_TRAP [op_x 0 5, op_x 5 5, op_x 16 5],
     insn ''ST64BV0'' 0xFFE0FC00 0xF820A000 OPCODE_TRAP [op_x 0 5, op_x 5 5, op_x 16 5]]"

definition arm64_instructions_3072 :: "bal_decoder_instruction_metadata_t list" where
  "arm64_instructions_3072 = [
     insn ''LDADD'' 0xFFE0FC1F 0xB820001F OPCODE_TRAP [op_x 5 5, op_w 16 5],
     insn ''LDADD'' 0xFFE0FC1F 0xF820001F OPCODE_TRAP [op_x 5 5, op_x 16 5],
     insn ''LDADDL'' 0xFFE0FC1F 0xB860001F OPCODE_TRAP [op_x 5 5, op_w 16 5],
     insn ''LDADDL'' 0xFFE0FC1F 0xF860001F OPCODE_TRAP [op_x 5 5, op_x 16 5],
     insn ''LDADDB'' 0xFFE0FC1F 0x3820001F OPCODE_TRAP [op_x 5 5, op_w 16 5],
     insn ''LDADDLB'' 0xFFE0FC1F 0x3860001F OPCODE_TRAP [op_x 5 5, op_w 16 5],
     insn ''LDADDH'' 0xFFE0FC1F 0x7820001F OPCODE_TRAP [op_x 5 5, op_w 16 5],
     insn ''LDADDLH'' 0xFFE0FC1F 0x7860001F OPCODE_TRAP [op_x 5 5, op_w 16 5],
     insn ''LDCLR'' 0xFFE0FC1F 0xB820101F OPCODE_TRAP [op_x 5 5, op_w 16 5],
     insn ''LDCLR'' 0xFFE0FC1F 0xF820101F OPCODE_TRAP [op_x 5 5, op_x 16 5],
     insn ''LDCLRL'' 0xFFE0FC1F 0xB860101F OPCODE_TRAP [op_x 5 5, op_w 16 5],
     insn ''LDCLRL'' 0xFFE0FC1F 0xF860101F OPCODE_TRAP [op_x 5 5, op_x 16 5]]"

definition arm64_instructions_3084 :: "bal_decoder_instruction_metadata_t list" where
  "arm64_instructions_3084 = [
     insn ''LDCLRB'' 0xFFE0FC1F 0x3820101F OPCODE_TRAP [op_x 5 5, op_w 16 5],
     insn ''LDCLRLB'' 0xFFE0FC1F 0x3860101F OPCODE_TRAP [op_x 5 5, op_w 16 5],
     insn ''LDCLRH'' 0xFFE0FC1F 0x7820101F OPCODE_TRAP [op_x 5 5, op_w 16 5],
     insn ''LDCLRLH'' 0xFFE0FC1F 0x7860101F OPCODE_TRAP [op_x 5 5, op_w 16 5],
     insn ''LDEOR'' 0xFFE0FC1F 0xB820201F OPCODE_TRAP [op_x 5 5, op_w 16 5],
     insn ''LDEOR'' 0xFFE0FC1F 0xF820201F OPCODE_TRAP [op_x 5 5, op_x 16 5],
     insn ''LDEORL'' 0xFFE0FC1F 0xB860201F OPCODE_TRAP [op_x 5 5, op_w 16 5],
     insn ''LDEORL'' 0xFFE0FC1F 0xF860201F OPCODE_TRAP [op_x 5 5, op_x 16 5],
     insn ''LDEORB'' 0xFFE0FC1F 0x3820201F OPCODE_TRAP [op_x 5 5, op_w 16 5],
     insn ''LDEORLB'' 0xFFE0FC1F 0x3860201F OPCODE_TRAP [op_x 5 5, op_w 16 5],
     insn ''LDEORH'' 0xFFE0FC1F 0x7820201F OPCODE_TRAP [op_x 5 5, op_w 16 5],
     insn ''LDEORLH'' 0xFFE0FC1F 0x7860201F OPCODE_TRAP [op_x 5 5, op_w 16 5]]"

definition arm64_instructions_3096 :: "bal_decoder_instruction_metadata_t list" where
  "arm64_instructions_3096 = [
     insn ''STG'' 0xFFE00C00 0xD9200400 OPCODE_TRAP [op_x 0 5, op_x 5 5, op_imm 12 9],
     insn ''STG'' 0xFFE00C00 0xD9200800 OPCODE_TRAP [op_x 0 5, op_x 5 5, op_imm 12 9],
     insn ''STG'' 0xFFE00C00 0xD9200C00 OPCODE_TRAP [op_x 0 5, op_x 5 5, op_imm 12 9],
     insn ''STGM'' 0xFFFFFC00 0xD9A00000 OPCODE_TRAP [op_x 0 5, op_x 5 5],
     insn ''STGP'' 0xFFC00000 0x68800000 OPCODE_TRAP [op_x 0 5, op_x 5 5, op_x 10 5, op_imm 15 7],
     insn ''STGP'' 0xFFC00000 0x69000000 OPCODE_TRAP [op_x 0 5, op_x 5 5, op_x 10 5, op_imm 15 7],
     insn ''STGP'' 0xFFC00000 0x69800000 OPCODE_TRAP [op_x 0 5, op_x 5 5, op_x 10 5, op_imm 15 7],
     insn ''STILP'' 0xFFE0FC00 0x99000800 OPCODE_TRAP [op_w 0 5, op_x 5 5, op_w 16 5],
     insn ''STILP'' 0xFFE0FC00 0x99001800 OPCODE_TRAP [op_w 0 5, op_x 5 5, op_w 16 5],
     insn ''STILP'' 0xFFE0FC00 0xD9000800 OPCODE_TRAP [op_x 0 5, op_x 5 5, op_x 16 5],
     insn ''STILP'' 0xFFE0FC00 0xD9001800 OPCODE_TRAP [op_x 0 5, op_x 5 5, op_x 16 5],
     insn ''STL1'' 0xBFFFFC00 0x0D018400 OPCODE_TRAP [op_v 0 5, op_x 5 5, op_imm 30 1]]"

definition arm64_instructions_3108 :: "bal_decoder_instruction_metadata_t list" where
  "arm64_instructions_3108 = [
     insn ''STLLR'' 0xFFE9A492 0x88892492 OPCODE_TRAP [op_w 0 5, op_x 5 5],
     insn ''STLLR'' 0xFFE9A492 0xC8892492 OPCODE_TRAP [op_x 0 5, op_x 5 5],
     insn ''STLLRB'' 0xFFE9A492 0x08892492 OPCODE_TRAP [op_w 0 5, op_x 5 5],
     insn ''STLLRH'' 0xFFE9A492 0x48892492 OPCODE_TRAP [op_w 0 5, op_x 5 5],
     insn ''STLR'' 0xFFE9A492 0x8889A492 OPCODE_TRAP [op_w 0 5, op_x 5 5],
     insn ''STLR'' 0xFFE9A492 0xC889A492 OPCODE_TRAP [op_x 0 5, op_x 5 5],
     insn ''STLR'' 0xFFFFFC00 0x99800800 OPCODE_TRAP [op_w 0 5, op_x 5 5],
     insn ''STLR'' 0xFFFFFC00 0xD9800800 OPCODE_TRAP [op_x 0 5, op_x 5 5],
     insn ''STLRB'' 0xFFE9A492 0x0889A492 OPCODE_TRAP [op_w 0 5, op_x 5 5],
     insn ''STLRH'' 0xFFE9A492 0x4889A492 OPCODE_TRAP [op_w 0 5, op_x 5 5],
     insn ''STLUR'' 0xFFE00C00 0x1D000800 OPCODE_TRAP [op_v 0 5, op_x 5 5, op_imm 12 9],
     insn ''STLUR'' 0xFFE00C00 0x1D800800 OPCODE_TRAP [op_v 0 5, op_x 5 5, op_imm 12 9]]"

definition arm64_instructions_3120 :: "bal_decoder_instruction_metadata_t list" where
  "arm64_instructions_3120 = [
     insn ''STLUR'' 0xFFE00C00 0x5D000800 OPCODE_TRAP [op_v 0 5, op_x 5 5, op_imm 12 9],
     insn ''STLUR'' 0xFFE00C00 0x9D000800 OPCODE_TRAP [op_w 0 5, op_x 5 5, op_imm 12 9],
     insn ''STLUR'' 0xFFE00C00 0xDD000800 OPCODE_TRAP [op_x 0 5, op_x 5 5, op_imm 12 9],
     insn ''STLUR'' 0xFFE00C00 0x99000000 OPCODE_TRAP [op_w 0 5, op_x 5 5, op_imm 12 9],
     insn ''STLUR'' 0xFFE00C00 0xD9000000 OPCODE_TRAP [op_x 0 5, op_x 5 5, op_imm 12 9],
     insn ''STLURB'' 0xFFE00C00 0x19000000 OPCODE_TRAP [op_w 0 5, op_x 5 5, op_imm 12 9],
     insn ''STLURH'' 0xFFE00C00 0x59000000 OPCODE_TRAP [op_w 0 5, op_x 5 5, op_imm 12 9],
     insn ''STLXP'' 0xFFE08000 0x88208000 OPCODE_TRAP [op_w 0 5, op_x 5 5, op_w 10 5, op_w 16 5],
     insn ''STLXP'' 0xFFE08000 0xC8208000 OPCODE_TRAP [op_x 0 5, op_x 5 5, op_x 10 5, op_w 16 5],
     insn ''STLXR'' 0xFFE0A492 0x8800A492 OPCODE_TRAP [op_w 0 5, op_x 5 5, op_w 16 5],
     insn ''STLXR'' 0xFFE0A492 0xC800A492 OPCODE_TRAP [op_x 0 5, op_x 5 5, op_w 16 5],
     insn ''STLXRB'' 0xFFE0A492 0x0800A492 OPCODE_TRAP [op_w 0 5, op_x 5 5, op_w 16 5]]"

definition arm64_instructions_3132 :: "bal_decoder_instruction_metadata_t list" where
  "arm64_instructions_3132 = [
     insn ''STLXRH'' 0xFFE0A492 0x4800A492 OPCODE_TRAP [op_w 0 5, op_x 5 5, op_w 16 5],
     insn ''STNP'' 0xFFC00000 0x2C000000 OPCODE_TRAP [op_w 0 5, op_x 5 5, op_w 10 5, op_imm 15 7],
     insn ''STNP'' 0xFFC00000 0x6C000000 OPCODE_TRAP [op_x 0 5, op_x 5 5, op_x 10 5, op_imm 15 7],
     insn ''STNP'' 0xFFC00000 0xAC000000 OPCODE_TRAP [op_v 0 5, op_x 5 5, op_v 10 5, op_imm 15 7],
     insn ''STNP'' 0xFFC00000 0x28000000 OPCODE_TRAP [op_w 0 5, op_x 5 5, op_w 10 5, op_imm 15 7],
     insn ''STNP'' 0xFFC00000 0xA8000000 OPCODE_TRAP [op_x 0 5, op_x 5 5, op_x 10 5, op_imm 15 7],
     insn ''STNT1B'' 0xFFF0E001 0xA0600001 OPCODE_TRAP [op_v 1 4, op_x 5 5, op_v 10 3, op_imm 16 4],
     insn ''STNT1B'' 0xFFF0E003 0xA0608001 OPCODE_TRAP [op_v 2 3, op_x 5 5, op_v 10 3, op_imm 16 4],
     insn ''STNT1B'' 0xFFE0E001 0xA0200001 OPCODE_TRAP [op_v 1 4, op_x 5 5, op_v 10 3, op_imm 16 5],
     insn ''STNT1B'' 0xFFE0E003 0xA0208001 OPCODE_TRAP [op_v 2 3, op_x 5 5, op_v 10 3, op_imm 16 5],
     insn ''STNT1B'' 0xFFF0E008 0xA1600008 OPCODE_TRAP [op_v 0 3, op_v 4 1, op_x 5 5, op_v 10 3, op_imm 16 4],
     insn ''STNT1B'' 0xFFF0E00C 0xA1608008 OPCODE_TRAP [op_v 0 2, op_v 4 1, op_x 5 5, op_v 10 3, op_imm 16 4]]"

definition arm64_instructions_3144 :: "bal_decoder_instruction_metadata_t list" where
  "arm64_instructions_3144 = [
     insn ''STNT1B'' 0xFFE0E008 0xA1200008 OPCODE_TRAP [op_v 0 3, op_v 4 1, op_x 5 5, op_v 10 3, op_imm 16 5],
     insn ''STNT1B'' 0xFFE0E00C 0xA1208008 OPCODE_TRAP [op_v 0 2, op_v 4 1, op_x 5 5, op_v 10 3, op_imm 16 5],
     insn ''STNT1B'' 0xFFE0E000 0xE4002000 OPCODE_TRAP [op_v 0 5, op_v 5 5, op_v 10 3, op_imm 16 5],
     insn ''STNT1B'' 0xFFE0E000 0xE4402000 OPCODE_TRAP [op_v 0 5, op_v 5 5, op_v 10 3, op_imm 16 5],
     insn ''STNT1B'' 0xFFF0E000 0xE410E000 OPCODE_TRAP [op_v 0 5, op_x 5 5, op_v 10 3, op_imm 16 4],
     insn ''STNT1B'' 0xFFE0E000 0xE4006000 OPCODE_TRAP [op_v 0 5, op_x 5 5, op_v 10 3, op_imm 16 5],
     insn ''STNT1D'' 0xFFF0E001 0xA0606001 OPCODE_TRAP [op_v 1 4, op_x 5 5, op_v 10 3, op_imm 16 4],
     insn ''STNT1D'' 0xFFF0E003 0xA060E001 OPCODE_TRAP [op_v 2 3, op_x 5 5, op_v 10 3, op_imm 16 4],
     insn ''STNT1D'' 0xFFE0E001 0xA0206001 OPCODE_TRAP [op_v 1 4, op_x 5 5, op_v 10 3, op_imm 16 5],
     insn ''STNT1D'' 0xFFE0E003 0xA020E001 OPCODE_TRAP [op_v 2 3, op_x 5 5, op_v 10 3, op_imm 16 5],
     insn ''STNT1D'' 0xFFF0E008 0xA1606008 OPCODE_TRAP [op_v 0 3, op_v 4 1, op_x 5 5, op_v 10 3, op_imm 16 4],
     insn ''STNT1D'' 0xFFF0E00C 0xA160E008 OPCODE_TRAP [op_v 0 2, op_v 4 1, op_x 5 5, op_v 10 3, op_imm 16 4]]"

definition arm64_instructions_3156 :: "bal_decoder_instruction_metadata_t list" where
  "arm64_instructions_3156 = [
     insn ''STNT1D'' 0xFFE0E008 0xA1206008 OPCODE_TRAP [op_v 0 3, op_v 4 1, op_x 5 5, op_v 10 3, op_imm 16 5],
     insn ''STNT1D'' 0xFFE0E00C 0xA120E008 OPCODE_TRAP [op_v 0 2, op_v 4 1, op_x 5 5, op_v 10 3, op_imm 16 5],
     insn ''STNT1D'' 0xFFE0E000 0xE5802000 OPCODE_TRAP [op_v 0 5, op_v 5 5, op_v 10 3, op_imm 16 5],
     insn ''STNT1D'' 0xFFF0E000 0xE590E000 OPCODE_TRAP [op_v 0 5, op_x 5 5, op_v 10 3, op_imm 16 4],
     insn ''STNT1D'' 0xFFE0E000 0xE5806000 OPCODE_TRAP [op_v 0 5, op_x 5 5, op_v 10 3, op_imm 16 5],
     insn ''STNT1H'' 0xFFF0E001 0xA0602001 OPCODE_TRAP [op_v 1 4, op_x 5 5, op_v 10 3, op_imm 16 4],
     insn ''STNT1H'' 0xFFF0E003 0xA060A001 OPCODE_TRAP [op_v 2 3, op_x 5 5, op_v 10 3, op_imm 16 4],
     insn ''STNT1H'' 0xFFE0E001 0xA0202001 OPCODE_TRAP [op_v 1 4, op_x 5 5, op_v 10 3, op_imm 16 5],
     insn ''STNT1H'' 0xFFE0E003 0xA020A001 OPCODE_TRAP [op_v 2 3, op_x 5 5, op_v 10 3, op_imm 16 5],
     insn ''STNT1H'' 0xFFF0E008 0xA1602008 OPCODE_TRAP [op_v 0 3, op_v 4 1, op_x 5 5, op_v 10 3, op_imm 16 4],
     insn ''STNT1H'' 0xFFF0E00C 0xA160A008 OPCODE_TRAP [op_v 0 2, op_v 4 1, op_x 5 5, op_v 10 3, op_imm 16 4],
     insn ''STNT1H'' 0xFFE0E008 0xA1202008 OPCODE_TRAP [op_v 0 3, op_v 4 1, op_x 5 5, op_v 10 3, op_imm 16 5]]"

definition arm64_instructions_3168 :: "bal_decoder_instruction_metadata_t list" where
  "arm64_instructions_3168 = [
     insn ''STNT1H'' 0xFFE0E00C 0xA120A008 OPCODE_TRAP [op_v 0 2, op_v 4 1, op_x 5 5, op_v 10 3, op_imm 16 5],
     insn ''STNT1H'' 0xFFE0E000 0xE4802000 OPCODE_TRAP [op_v 0 5, op_v 5 5, op_v 10 3, op_imm 16 5],
     insn ''STNT1H'' 0xFFE0E000 0xE4C02000 OPCODE_TRAP [op_v 0 5, op_v 5 5, op_v 10 3, op_imm 16 5],
     insn ''STNT1H'' 0xFFF0E000 0xE490E000 OPCODE_TRAP [op_v 0 5, op_x 5 5, op_v 10 3, op_imm 16 4],
     insn ''STNT1H'' 0xFFE0E000 0xE4806000 OPCODE_TRAP [op_v 0 5, op_x 5 5, op_v 10 3, op_imm 16 5],
     insn ''STNT1W'' 0xFFF0E001 0xA0604001 OPCODE_TRAP [op_v 1 4, op_x 5 5, op_v 10 3, op_imm 16 4],
     insn ''STNT1W'' 0xFFF0E003 0xA060C001 OPCODE_TRAP [op_v 2 3, op_x 5 5, op_v 10 3, op_imm 16 4],
     insn ''STNT1W'' 0xFFE0E001 0xA0204001 OPCODE_TRAP [op_v 1 4, op_x 5 5, op_v 10 3, op_imm 16 5],
     insn ''STNT1W'' 0xFFE0E003 0xA020C001 OPCODE_TRAP [op_v 2 3, op_x 5 5, op_v 10 3, op_imm 16 5],
     insn ''STNT1W'' 0xFFF0E008 0xA1604008 OPCODE_TRAP [op_v 0 3, op_v 4 1, op_x 5 5, op_v 10 3, op_imm 16 4],
     insn ''STNT1W'' 0xFFF0E00C 0xA160C008 OPCODE_TRAP [op_v 0 2, op_v 4 1, op_x 5 5, op_v 10 3, op_imm 16 4],
     insn ''STNT1W'' 0xFFE0E008 0xA1204008 OPCODE_TRAP [op_v 0 3, op_v 4 1, op_x 5 5, op_v 10 3, op_imm 16 5]]"

definition arm64_instructions_3180 :: "bal_decoder_instruction_metadata_t list" where
  "arm64_instructions_3180 = [
     insn ''STNT1W'' 0xFFE0E00C 0xA120C008 OPCODE_TRAP [op_v 0 2, op_v 4 1, op_x 5 5, op_v 10 3, op_imm 16 5],
     insn ''STNT1W'' 0xFFE0E000 0xE5002000 OPCODE_TRAP [op_v 0 5, op_v 5 5, op_v 10 3, op_imm 16 5],
     insn ''STNT1W'' 0xFFE0E000 0xE5402000 OPCODE_TRAP [op_v 0 5, op_v 5 5, op_v 10 3, op_imm 16 5],
     insn ''STNT1W'' 0xFFF0E000 0xE510E000 OPCODE_TRAP [op_v 0 5, op_x 5 5, op_v 10 3, op_imm 16 4],
     insn ''STNT1W'' 0xFFE0E000 0xE5006000 OPCODE_TRAP [op_v 0 5, op_x 5 5, op_v 10 3, op_imm 16 5],
     insn ''STP'' 0xFFC00000 0x2C800000 OPCODE_STORE [op_w 0 5, op_x 5 5, op_w 10 5, op_imm 15 7],
     insn ''STP'' 0xFFC00000 0x2D000000 OPCODE_STORE [op_w 0 5, op_x 5 5, op_w 10 5, op_imm 15 7],
     insn ''STP'' 0xFFC00000 0x2D800000 OPCODE_STORE [op_w 0 5, op_x 5 5, op_w 10 5, op_imm 15 7],
     insn ''STP'' 0xFFC00000 0x6C800000 OPCODE_STORE [op_x 0 5, op_x 5 5, op_x 10 5, op_imm 15 7],
     insn ''STP'' 0xFFC00000 0x6D000000 OPCODE_STORE [op_x 0 5, op_x 5 5, op_x 10 5, op_imm 15 7],
     insn ''STP'' 0xFFC00000 0x6D800000 OPCODE_STORE [op_x 0 5, op_x 5 5, op_x 10 5, op_imm 15 7],
     insn ''STP'' 0xFFC00000 0xAC800000 OPCODE_STORE [op_v 0 5, op_x 5 5, op_v 10 5, op_imm 15 7]]"

definition arm64_instructions_3192 :: "bal_decoder_instruction_metadata_t list" where
  "arm64_instructions_3192 = [
     insn ''STP'' 0xFFC00000 0xAD000000 OPCODE_STORE [op_v 0 5, op_x 5 5, op_v 10 5, op_imm 15 7],
     insn ''STP'' 0xFFC00000 0xAD800000 OPCODE_STORE [op_v 0 5, op_x 5 5, op_v 10 5, op_imm 15 7],
     insn ''STP'' 0xFFC00000 0x28800000 OPCODE_STORE [op_w 0 5, op_x 5 5, op_w 10 5, op_imm 15 7],
     insn ''STP'' 0xFFC00000 0x29000000 OPCODE_STORE [op_w 0 5, op_x 5 5, op_w 10 5, op_imm 15 7],
     insn ''STP'' 0xFFC00000 0x29800000 OPCODE_STORE [op_w 0 5, op_x 5 5, op_w 10 5, op_imm 15 7],
     insn ''STP'' 0xFFC00000 0xA8800000 OPCODE_STORE [op_x 0 5, op_x 5 5, op_x 10 5, op_imm 15 7],
     insn ''STP'' 0xFFC00000 0xA9000000 OPCODE_STORE [op_x 0 5, op_x 5 5, op_x 10 5, op_imm 15 7],
     insn ''STP'' 0xFFC00000 0xA9800000 OPCODE_STORE [op_x 0 5, op_x 5 5, op_x 10 5, op_imm 15 7],
     insn ''STR'' 0xFFC00000 0x3D000000 OPCODE_STORE [op_v 0 5, op_x 5 5, op_imm 10 12],
     insn ''STR'' 0xFFC00000 0x3D800000 OPCODE_STORE [op_v 0 5, op_x 5 5, op_imm 10 12],
     insn ''STR'' 0xFFC00000 0x7D000000 OPCODE_STORE [op_v 0 5, op_x 5 5, op_imm 10 12],
     insn ''STR'' 0xFFC00000 0xBD000000 OPCODE_STORE [op_w 0 5, op_x 5 5, op_imm 10 12]]"

definition arm64_instructions_3204 :: "bal_decoder_instruction_metadata_t list" where
  "arm64_instructions_3204 = [
     insn ''STR'' 0xFFC00000 0xFD000000 OPCODE_STORE [op_x 0 5, op_x 5 5, op_imm 10 12],
     insn ''STR'' 0xFFE00C00 0x3C000400 OPCODE_STORE [op_v 0 5, op_x 5 5, op_imm 12 9],
     insn ''STR'' 0xFFE00C00 0x3C000C00 OPCODE_STORE [op_v 0 5, op_x 5 5, op_imm 12 9],
     insn ''STR'' 0xFFE00C00 0x3C800400 OPCODE_STORE [op_v 0 5, op_x 5 5, op_imm 12 9],
     insn ''STR'' 0xFFE00C00 0x3C800C00 OPCODE_STORE [op_v 0 5, op_x 5 5, op_imm 12 9],
     insn ''STR'' 0xFFE00C00 0x7C000400 OPCODE_STORE [op_v 0 5, op_x 5 5, op_imm 12 9],
     insn ''STR'' 0xFFE00C00 0x7C000C00 OPCODE_STORE [op_v 0 5, op_x 5 5, op_imm 12 9],
     insn ''STR'' 0xFFE00C00 0xBC000400 OPCODE_STORE [op_w 0 5, op_x 5 5, op_imm 12 9],
     insn ''STR'' 0xFFE00C00 0xBC000C00 OPCODE_STORE [op_w 0 5, op_x 5 5, op_imm 12 9],
     insn ''STR'' 0xFFE00C00 0xFC000400 OPCODE_STORE [op_x 0 5, op_x 5 5, op_imm 12 9],
     insn ''STR'' 0xFFE00C00 0xFC000C00 OPCODE_STORE [op_x 0 5, op_x 5 5, op_imm 12 9],
     insn ''STR'' 0xFFC00000 0xB9000000 OPCODE_STORE [op_w 0 5, op_x 5 5, op_imm 10 12]]"

definition arm64_instructions_3216 :: "bal_decoder_instruction_metadata_t list" where
  "arm64_instructions_3216 = [
     insn ''STR'' 0xFFC00000 0xF9000000 OPCODE_STORE [op_x 0 5, op_x 5 5, op_imm 10 12],
     insn ''STR'' 0xFFE00C00 0xB8000400 OPCODE_STORE [op_w 0 5, op_x 5 5, op_imm 12 9],
     insn ''STR'' 0xFFE00C00 0xB8000C00 OPCODE_STORE [op_w 0 5, op_x 5 5, op_imm 12 9],
     insn ''STR'' 0xFFE00C00 0xF8000400 OPCODE_STORE [op_x 0 5, op_x 5 5, op_imm 12 9],
     insn ''STR'' 0xFFE00C00 0xF8000C00 OPCODE_STORE [op_x 0 5, op_x 5 5, op_imm 12 9],
     insn ''STR'' 0xFFC0E010 0xE5800000 OPCODE_STORE [op_v 0 4, op_x 5 5, op_imm 10 3, op_imm 16 6],
     insn ''STR'' 0xFFE00C00 0x3C200800 OPCODE_STORE [op_v 0 5, op_x 5 5, op_imm 12 1, op_imm 13 3, op_imm 16 5],
     insn ''STR'' 0xFFE00C00 0x3CA00800 OPCODE_STORE [op_v 0 5, op_x 5 5, op_imm 12 1, op_imm 13 3, op_imm 16 5],
     insn ''STR'' 0xFFE00C00 0x7C200800 OPCODE_STORE [op_v 0 5, op_x 5 5, op_imm 12 1, op_imm 13 3, op_imm 16 5],
     insn ''STR'' 0xFFE00C00 0xBC200800 OPCODE_STORE [op_w 0 5, op_x 5 5, op_imm 12 1, op_imm 13 3, op_imm 16 5],
     insn ''STR'' 0xFFE00C00 0xFC200800 OPCODE_STORE [op_x 0 5, op_x 5 5, op_imm 12 1, op_imm 13 3, op_imm 16 5],
     insn ''STR'' 0xFFE0EC00 0x3C206800 OPCODE_STORE [op_v 0 5, op_x 5 5, op_imm 12 1, op_imm 16 5]]"

definition arm64_instructions_3228 :: "bal_decoder_instruction_metadata_t list" where
  "arm64_instructions_3228 = [
     insn ''STR'' 0xFFE00C00 0xB8200800 OPCODE_STORE [op_w 0 5, op_x 5 5, op_imm 12 1, op_imm 13 3, op_imm 16 5],
     insn ''STR'' 0xFFE00C00 0xF8200800 OPCODE_STORE [op_x 0 5, op_x 5 5, op_imm 12 1, op_imm 13 3, op_imm 16 5],
     insn ''STR'' 0xFFC0E000 0xE5804000 OPCODE_STORE [op_v 0 5, op_x 5 5, op_imm 10 3, op_imm 16 6],
     insn ''STR'' 0xFFFF9C10 0xE1200000 OPCODE_STORE [op_imm 0 4, op_x 5 5, op_w 13 2],
     insn ''STR'' 0xFFFFFC1F 0xE13F8000 OPCODE_STORE [op_x 5 5],
     insn ''STRB'' 0xFFC00000 0x39000000 OPCODE_STORE [op_w 0 5, op_x 5 5, op_imm 10 12],
     insn ''STRB'' 0xFFE00C00 0x38000400 OPCODE_STORE [op_w 0 5, op_x 5 5, op_imm 12 9],
     insn ''STRB'' 0xFFE00C00 0x38000C00 OPCODE_STORE [op_w 0 5, op_x 5 5, op_imm 12 9],
     insn ''STRB'' 0xFFE00C00 0x38200800 OPCODE_STORE [op_w 0 5, op_x 5 5, op_imm 12 1, op_imm 13 3, op_imm 16 5],
     insn ''STRB'' 0xFFE0EC00 0x38206800 OPCODE_STORE [op_w 0 5, op_x 5 5, op_imm 12 1, op_imm 16 5],
     insn ''STRH'' 0xFFC00000 0x79000000 OPCODE_STORE [op_w 0 5, op_x 5 5, op_imm 10 12],
     insn ''STRH'' 0xFFE00C00 0x78000400 OPCODE_STORE [op_w 0 5, op_x 5 5, op_imm 12 9]]"

definition arm64_instructions_3240 :: "bal_decoder_instruction_metadata_t list" where
  "arm64_instructions_3240 = [
     insn ''STRH'' 0xFFE00C00 0x78000C00 OPCODE_STORE [op_w 0 5, op_x 5 5, op_imm 12 9],
     insn ''STRH'' 0xFFE00C00 0x78200800 OPCODE_STORE [op_w 0 5, op_x 5 5, op_imm 12 1, op_imm 13 3, op_imm 16 5],
     insn ''LDSET'' 0xFFE0FC1F 0xB820301F OPCODE_TRAP [op_x 5 5, op_w 16 5],
     insn ''LDSET'' 0xFFE0FC1F 0xF820301F OPCODE_TRAP [op_x 5 5, op_x 16 5],
     insn ''LDSETL'' 0xFFE0FC1F 0xB860301F OPCODE_TRAP [op_x 5 5, op_w 16 5],
     insn ''LDSETL'' 0xFFE0FC1F 0xF860301F OPCODE_TRAP [op_x 5 5, op_x 16 5],
     insn ''LDSETB'' 0xFFE0FC1F 0x3820301F OPCODE_TRAP [op_x 5 5, op_w 16 5],
     insn ''LDSETLB'' 0xFFE0FC1F 0x3860301F OPCODE_TRAP [op_x 5 5, op_w 16 5],
     insn ''LDSETH'' 0xFFE0FC1F 0x7820301F OPCODE_TRAP [op_x 5 5, op_w 16 5],
     insn ''LDSETLH'' 0xFFE0FC1F 0x7860301F OPCODE_TRAP [op_x 5 5, op_w 16 5],
     insn ''LDSMAX'' 0xFFE0FC1F 0xB820401F OPCODE_TRAP [op_x 5 5, op_w 16 5],
     insn ''LDSMAX'' 0xFFE0FC1F 0xF820401F OPCODE_TRAP [op_x 5 5, op_x 16 5]]"

definition arm64_instructions_3252 :: "bal_decoder_instruction_metadata_t list" where
  "arm64_instructions_3252 = [
     insn ''LDSMAXL'' 0xFFE0FC1F 0xB860401F OPCODE_TRAP [op_x 5 5, op_w 16 5],
     insn ''LDSMAXL'' 0xFFE0FC1F 0xF860401F OPCODE_TRAP [op_x 5 5, op_x 16 5],
     insn ''LDSMAXB'' 0xFFE0FC1F 0x3820401F OPCODE_TRAP [op_x 5 5, op_w 16 5],
     insn ''LDSMAXLB'' 0xFFE0FC1F 0x3860401F OPCODE_TRAP [op_x 5 5, op_w 16 5],
     insn ''LDSMAXH'' 0xFFE0FC1F 0x7820401F OPCODE_TRAP [op_x 5 5, op_w 16 5],
     insn ''LDSMAXLH'' 0xFFE0FC1F 0x7860401F OPCODE_TRAP [op_x 5 5, op_w 16 5],
     insn ''LDSMIN'' 0xFFE0FC1F 0xB820501F OPCODE_TRAP [op_x 5 5, op_w 16 5],
     insn ''LDSMIN'' 0xFFE0FC1F 0xF820501F OPCODE_TRAP [op_x 5 5, op_x 16 5],
     insn ''LDSMINL'' 0xFFE0FC1F 0xB860501F OPCODE_TRAP [op_x 5 5, op_w 16 5],
     insn ''LDSMINL'' 0xFFE0FC1F 0xF860501F OPCODE_TRAP [op_x 5 5, op_x 16 5],
     insn ''LDSMINB'' 0xFFE0FC1F 0x3820501F OPCODE_TRAP [op_x 5 5, op_w 16 5],
     insn ''LDSMINLB'' 0xFFE0FC1F 0x3860501F OPCODE_TRAP [op_x 5 5, op_w 16 5]]"

definition arm64_instructions_3264 :: "bal_decoder_instruction_metadata_t list" where
  "arm64_instructions_3264 = [
     insn ''LDSMINH'' 0xFFE0FC1F 0x7820501F OPCODE_TRAP [op_x 5 5, op_w 16 5],
     insn ''LDSMINLH'' 0xFFE0FC1F 0x7860501F OPCODE_TRAP [op_x 5 5, op_w 16 5],
     insn ''STTR'' 0xFFE00C00 0xB8000800 OPCODE_TRAP [op_w 0 5, op_x 5 5, op_imm 12 9],
     insn ''STTR'' 0xFFE00C00 0xF8000800 OPCODE_TRAP [op_x 0 5, op_x 5 5, op_imm 12 9],
     insn ''STTRB'' 0xFFE00C00 0x38000800 OPCODE_TRAP [op_w 0 5, op_x 5 5, op_imm 12 9],
     insn ''STTRH'' 0xFFE00C00 0x78000800 OPCODE_TRAP [op_w 0 5, op_x 5 5, op_imm 12 9],
     insn ''LDUMAX'' 0xFFE0FC1F 0xB820601F OPCODE_TRAP [op_x 5 5, op_w 16 5],
     insn ''LDUMAX'' 0xFFE0FC1F 0xF820601F OPCODE_TRAP [op_x 5 5, op_x 16 5],
     insn ''LDUMAXL'' 0xFFE0FC1F 0xB860601F OPCODE_TRAP [op_x 5 5, op_w 16 5],
     insn ''LDUMAXL'' 0xFFE0FC1F 0xF860601F OPCODE_TRAP [op_x 5 5, op_x 16 5],
     insn ''LDUMAXB'' 0xFFE0FC1F 0x3820601F OPCODE_TRAP [op_x 5 5, op_w 16 5],
     insn ''LDUMAXLB'' 0xFFE0FC1F 0x3860601F OPCODE_TRAP [op_x 5 5, op_w 16 5]]"

definition arm64_instructions_3276 :: "bal_decoder_instruction_metadata_t list" where
  "arm64_instructions_3276 = [
     insn ''LDUMAXH'' 0xFFE0FC1F 0x7820601F OPCODE_TRAP [op_x 5 5, op_w 16 5],
     insn ''LDUMAXLH'' 0xFFE0FC1F 0x7860601F OPCODE_TRAP [op_x 5 5, op_w 16 5],
     insn ''LDUMIN'' 0xFFE0FC1F 0xB820701F OPCODE_TRAP [op_x 5 5, op_w 16 5],
     insn ''LDUMIN'' 0xFFE0FC1F 0xF820701F OPCODE_TRAP [op_x 5 5, op_x 16 5],
     insn ''LDUMINL'' 0xFFE0FC1F 0xB860701F OPCODE_TRAP [op_x 5 5, op_w 16 5],
     insn ''LDUMINL'' 0xFFE0FC1F 0xF860701F OPCODE_TRAP [op_x 5 5, op_x 16 5],
     insn ''LDUMINB'' 0xFFE0FC1F 0x3820701F OPCODE_TRAP [op_x 5 5, op_w 16 5],
     insn ''LDUMINLB'' 0xFFE0FC1F 0x3860701F OPCODE_TRAP [op_x 5 5, op_w 16 5],
     insn ''LDUMINH'' 0xFFE0FC1F 0x7820701F OPCODE_TRAP [op_x 5 5, op_w 16 5],
     insn ''LDUMINLH'' 0xFFE0FC1F 0x7860701F OPCODE_TRAP [op_x 5 5, op_w 16 5],
     insn ''STUR'' 0xFFE00C00 0x3C000000 OPCODE_TRAP [op_v 0 5, op_x 5 5, op_imm 12 9],
     insn ''STUR'' 0xFFE00C00 0x3C800000 OPCODE_TRAP [op_v 0 5, op_x 5 5, op_imm 12 9]]"

definition arm64_instructions_3288 :: "bal_decoder_instruction_metadata_t list" where
  "arm64_instructions_3288 = [
     insn ''STUR'' 0xFFE00C00 0x7C000000 OPCODE_TRAP [op_v 0 5, op_x 5 5, op_imm 12 9],
     insn ''STUR'' 0xFFE00C00 0xBC000000 OPCODE_TRAP [op_w 0 5, op_x 5 5, op_imm 12 9],
     insn ''STUR'' 0xFFE00C00 0xFC000000 OPCODE_TRAP [op_x 0 5, op_x 5 5, op_imm 12 9],
     insn ''STUR'' 0xFFE00C00 0xB8000000 OPCODE_TRAP [op_w 0 5, op_x 5 5, op_imm 12 9],
     insn ''STUR'' 0xFFE00C00 0xF8000000 OPCODE_TRAP [op_x 0 5, op_x 5 5, op_imm 12 9],
     insn ''STURB'' 0xFFE00C00 0x38000000 OPCODE_TRAP [op_w 0 5, op_x 5 5, op_imm 12 9],
     insn ''STURH'' 0xFFE00C00 0x78000000 OPCODE_TRAP [op_w 0 5, op_x 5 5, op_imm 12 9],
     insn ''STXP'' 0xFFE08000 0x88200000 OPCODE_TRAP [op_w 0 5, op_x 5 5, op_w 10 5, op_w 16 5],
     insn ''STXP'' 0xFFE08000 0xC8200000 OPCODE_TRAP [op_x 0 5, op_x 5 5, op_x 10 5, op_w 16 5],
     insn ''STXR'' 0xFFE0A492 0x88002492 OPCODE_TRAP [op_w 0 5, op_x 5 5, op_w 16 5],
     insn ''STXR'' 0xFFE0A492 0xC8002492 OPCODE_TRAP [op_x 0 5, op_x 5 5, op_w 16 5],
     insn ''STXRB'' 0xFFE0A492 0x08002492 OPCODE_TRAP [op_w 0 5, op_x 5 5, op_w 16 5]]"

definition arm64_instructions_3300 :: "bal_decoder_instruction_metadata_t list" where
  "arm64_instructions_3300 = [
     insn ''STXRH'' 0xFFE0A492 0x48002492 OPCODE_TRAP [op_w 0 5, op_x 5 5, op_w 16 5],
     insn ''STZ2G'' 0xFFE00C00 0xD9E00400 OPCODE_TRAP [op_x 0 5, op_x 5 5, op_imm 12 9],
     insn ''STZ2G'' 0xFFE00C00 0xD9E00800 OPCODE_TRAP [op_x 0 5, op_x 5 5, op_imm 12 9],
     insn ''STZ2G'' 0xFFE00C00 0xD9E00C00 OPCODE_TRAP [op_x 0 5, op_x 5 5, op_imm 12 9],
     insn ''STZG'' 0xFFE00C00 0xD9600400 OPCODE_TRAP [op_x 0 5, op_x 5 5, op_imm 12 9],
     insn ''STZG'' 0xFFE00C00 0xD9600800 OPCODE_TRAP [op_x 0 5, op_x 5 5, op_imm 12 9],
     insn ''STZG'' 0xFFE00C00 0xD9600C00 OPCODE_TRAP [op_x 0 5, op_x 5 5, op_imm 12 9],
     insn ''STZGM'' 0xFFFFFC00 0xD9200000 OPCODE_TRAP [op_x 0 5, op_x 5 5],
     insn ''SUB'' 0xFFE00000 0x4B200000 OPCODE_SUB [op_w 0 5, op_w 5 5, op_imm 10 3, op_imm 13 3, op_w 16 5],
     insn ''SUB'' 0xFFE00000 0xCB200000 OPCODE_SUB [op_x 0 5, op_x 5 5, op_imm 10 3, op_imm 13 3, op_cond 16 5],
     insn ''SUB'' 0xFF800000 0x51000000 OPCODE_SUB [op_w 0 5, op_w 5 5, op_imm 10 12, op_imm 22 1],
     insn ''SUB'' 0xFF800000 0xD1000000 OPCODE_SUB [op_x 0 5, op_x 5 5, op_imm 10 12, op_imm 22 1]]"

definition arm64_instructions_3312 :: "bal_decoder_instruction_metadata_t list" where
  "arm64_instructions_3312 = [
     insn ''SUB'' 0xFF200000 0x4B000000 OPCODE_SUB [op_w 0 5, op_w 5 5, op_imm 10 6, op_w 16 5, op_imm 22 2],
     insn ''SUB'' 0xFF200000 0xCB000000 OPCODE_SUB [op_x 0 5, op_x 5 5, op_imm 10 6, op_x 16 5, op_imm 22 2],
     insn ''SUB'' 0xBF20FC00 0x2E208400 OPCODE_SUB [op_v 0 5, op_v 5 5, op_v 16 5],
     insn ''SUB'' 0xFF20FC00 0x7E208400 OPCODE_SUB [op_v 0 5, op_v 5 5, op_v 16 5],
     insn ''SUB'' 0xFF3FE000 0x04010000 OPCODE_SUB [op_v 0 5, op_v 5 5, op_v 10 3],
     insn ''SUB'' 0xFF3FC000 0x2521C000 OPCODE_SUB [op_v 0 5, op_imm 5 8, op_imm 13 1],
     insn ''SUB'' 0xFF20FC00 0x04200400 OPCODE_SUB [op_v 0 5, op_v 5 5, op_v 16 5],
     insn ''SUB'' 0xFFBF9C38 0xC1A01C18 OPCODE_SUB [op_imm 0 3, op_v 6 4, op_w 13 2],
     insn ''SUB'' 0xFFBF9C78 0xC1A11C18 OPCODE_SUB [op_imm 0 3, op_v 7 3, op_w 13 2],
     insn ''SUB'' 0xFFB09C18 0xC1201818 OPCODE_SUB [op_imm 0 3, op_v 5 5, op_w 13 2, op_v 16 4],
     insn ''SUB'' 0xFFB09C18 0xC1301818 OPCODE_SUB [op_imm 0 3, op_v 5 5, op_w 13 2, op_v 16 4],
     insn ''SUB'' 0xFFA19C38 0xC1A01818 OPCODE_SUB [op_imm 0 3, op_v 6 4, op_w 13 2, op_v 17 4]]"

definition arm64_instructions_3324 :: "bal_decoder_instruction_metadata_t list" where
  "arm64_instructions_3324 = [
     insn ''SUB'' 0xFFA39C78 0xC1A11818 OPCODE_SUB [op_imm 0 3, op_v 7 3, op_w 13 2, op_v 18 3],
     insn ''SUBG'' 0xFFC04800 0xD1800000 OPCODE_SUB [op_x 0 5, op_x 5 5, op_imm 10 4, op_imm 16 6],
     insn ''SUBHN'' 0xBF20FC00 0x0E206000 OPCODE_SUB [op_v 0 5, op_v 5 5, op_v 16 5, op_cond 30 1],
     insn ''SUBHNB'' 0xFF20FC00 0x45207000 OPCODE_SUB [op_v 0 5, op_v 5 5, op_v 16 5],
     insn ''SUBHNT'' 0xFF20FC00 0x45207400 OPCODE_SUB [op_v 0 5, op_v 5 5, op_v 16 5],
     insn ''SUBP'' 0xFFE0FC00 0x9AC00000 OPCODE_SUB [op_x 0 5, op_x 5 5, op_x 16 5],
     insn ''SUBPS'' 0xFFE0FC00 0xBAC00000 OPCODE_SUB [op_x 0 5, op_x 5 5, op_x 16 5],
     insn ''SUBR'' 0xFF3FE000 0x04030000 OPCODE_SUB [op_v 0 5, op_v 5 5, op_v 10 3],
     insn ''SUBR'' 0xFF3FC000 0x2523C000 OPCODE_SUB [op_v 0 5, op_imm 5 8, op_imm 13 1],
     insn ''SUBS'' 0xFFE00000 0x6B200000 OPCODE_SUB [op_w 0 5, op_w 5 5, op_imm 10 3, op_imm 13 3, op_w 16 5],
     insn ''SUBS'' 0xFFE00000 0xEB200000 OPCODE_SUB [op_x 0 5, op_x 5 5, op_imm 10 3, op_imm 13 3, op_cond 16 5],
     insn ''SUBS'' 0xFF800000 0x71000000 OPCODE_SUB [op_w 0 5, op_w 5 5, op_imm 10 12, op_imm 22 1]]"

definition arm64_instructions_3336 :: "bal_decoder_instruction_metadata_t list" where
  "arm64_instructions_3336 = [
     insn ''SUBS'' 0xFF800000 0xF1000000 OPCODE_SUB [op_x 0 5, op_x 5 5, op_imm 10 12, op_imm 22 1],
     insn ''SUBS'' 0xFF200000 0x6B000000 OPCODE_SUB [op_w 0 5, op_w 5 5, op_imm 10 6, op_w 16 5, op_imm 22 2],
     insn ''SUBS'' 0xFF200000 0xEB000000 OPCODE_SUB [op_x 0 5, op_x 5 5, op_imm 10 6, op_x 16 5, op_imm 22 2],
     insn ''SUDOT'' 0xBFC0F400 0x0F00F000 OPCODE_TRAP [op_v 0 5, op_v 5 5, op_imm 11 1, op_v 16 4, op_v 20 1],
     insn ''SUDOT'' 0xFFE0FC00 0x44A01C00 OPCODE_TRAP [op_v 0 5, op_v 5 5, op_v 16 3, op_imm 19 2],
     insn ''SUDOT'' 0xFFF09038 0xC1501038 OPCODE_TRAP [op_imm 0 3, op_v 6 4, op_imm 10 2, op_w 13 2, op_v 16 4],
     insn ''SUDOT'' 0xFFF09078 0xC1509038 OPCODE_TRAP [op_imm 0 3, op_v 7 3, op_imm 10 2, op_w 13 2, op_v 16 4],
     insn ''SUDOT'' 0xFFF09C18 0xC1201418 OPCODE_TRAP [op_imm 0 3, op_v 5 5, op_w 13 2, op_v 16 4],
     insn ''SUDOT'' 0xFFF09C18 0xC1301418 OPCODE_TRAP [op_imm 0 3, op_v 5 5, op_w 13 2, op_v 16 4],
     insn ''SUMLALL'' 0xFFF0001C 0xC1000014 OPCODE_TRAP [op_imm 0 2, op_v 5 5, op_imm 10 3, op_w 13 2, op_imm 15 1],
     insn ''SUMLALL'' 0xFFF09038 0xC1100030 OPCODE_TRAP [op_imm 0 1, op_imm 1 2, op_v 6 4, op_imm 10 2, op_w 13 2],
     insn ''SUMLALL'' 0xFFF09078 0xC1108030 OPCODE_TRAP [op_imm 0 1, op_imm 1 2, op_v 7 3, op_imm 10 2, op_w 13 2]]"

definition arm64_instructions_3348 :: "bal_decoder_instruction_metadata_t list" where
  "arm64_instructions_3348 = [
     insn ''SUMLALL'' 0xFFF09C1E 0xC1200014 OPCODE_TRAP [op_imm 0 1, op_v 5 5, op_w 13 2, op_v 16 4],
     insn ''SUMLALL'' 0xFFF09C1E 0xC1300014 OPCODE_TRAP [op_imm 0 1, op_v 5 5, op_w 13 2, op_v 16 4],
     insn ''SUMOPA'' 0xFFE00018 0xA0E00000 OPCODE_TRAP [op_v 5 5, op_v 10 3, op_v 13 3, op_v 16 5],
     insn ''SUMOPA'' 0xFFE0001C 0xA0A00000 OPCODE_TRAP [op_v 5 5, op_v 10 3, op_v 13 3, op_v 16 5],
     insn ''SUMOPS'' 0xFFE00018 0xA0E00010 OPCODE_TRAP [op_v 5 5, op_v 10 3, op_v 13 3, op_v 16 5],
     insn ''SUMOPS'' 0xFFE0001C 0xA0A00010 OPCODE_TRAP [op_v 5 5, op_v 10 3, op_v 13 3, op_v 16 5],
     insn ''SUNPK'' 0xFF3FFC01 0xC125E000 OPCODE_TRAP [op_v 1 4, op_v 5 5],
     insn ''SUNPK'' 0xFF3FFC23 0xC135E000 OPCODE_TRAP [op_v 2 3, op_v 6 4],
     insn ''SUNPKHI'' 0xFF3FFC00 0x05313800 OPCODE_TRAP [op_v 0 5, op_v 5 5],
     insn ''SUNPKLO'' 0xFF3FFC00 0x05303800 OPCODE_TRAP [op_v 0 5, op_v 5 5],
     insn ''SUQADD'' 0xBF3FFC00 0x0E203800 OPCODE_TRAP [op_v 0 5, op_v 5 5],
     insn ''SUQADD'' 0xFF3FFC00 0x5E203800 OPCODE_TRAP [op_v 0 5, op_v 5 5]]"

definition arm64_instructions_3360 :: "bal_decoder_instruction_metadata_t list" where
  "arm64_instructions_3360 = [
     insn ''SUQADD'' 0xFF3FE000 0x441C8000 OPCODE_TRAP [op_v 0 5, op_v 5 5, op_v 10 3],
     insn ''SUVDOT'' 0xFFF09078 0xC1508038 OPCODE_TRAP [op_imm 0 3, op_v 7 3, op_imm 10 2, op_w 13 2, op_v 16 4],
     insn ''SVC'' 0xFFE0001F 0xD4000001 OPCODE_TRAP [op_imm 5 16],
     insn ''SVDOT'' 0xFFF09038 0xC1500020 OPCODE_TRAP [op_imm 0 3, op_v 6 4, op_imm 10 2, op_w 13 2, op_v 16 4],
     insn ''SVDOT'' 0xFFF09078 0xC1508020 OPCODE_TRAP [op_imm 0 3, op_v 7 3, op_imm 10 2, op_w 13 2, op_v 16 4],
     insn ''SVDOT'' 0xFFF09878 0xC1D08808 OPCODE_TRAP [op_imm 0 3, op_v 7 3, op_imm 10 1, op_w 13 2, op_v 16 4],
     insn ''SWP'' 0xFFE0FC00 0xB8208000 OPCODE_TRAP [op_w 0 5, op_x 5 5, op_w 16 5],
     insn ''SWP'' 0xFFE0FC00 0xF8208000 OPCODE_TRAP [op_x 0 5, op_x 5 5, op_x 16 5],
     insn ''SWPA'' 0xFFE0FC00 0xB8A08000 OPCODE_TRAP [op_w 0 5, op_x 5 5, op_w 16 5],
     insn ''SWPA'' 0xFFE0FC00 0xF8A08000 OPCODE_TRAP [op_x 0 5, op_x 5 5, op_x 16 5],
     insn ''SWPAL'' 0xFFE0FC00 0xB8E08000 OPCODE_TRAP [op_w 0 5, op_x 5 5, op_w 16 5],
     insn ''SWPAL'' 0xFFE0FC00 0xF8E08000 OPCODE_TRAP [op_x 0 5, op_x 5 5, op_x 16 5]]"

definition arm64_instructions_3372 :: "bal_decoder_instruction_metadata_t list" where
  "arm64_instructions_3372 = [
     insn ''SWPL'' 0xFFE0FC00 0xB8608000 OPCODE_TRAP [op_w 0 5, op_x 5 5, op_w 16 5],
     insn ''SWPL'' 0xFFE0FC00 0xF8608000 OPCODE_TRAP [op_x 0 5, op_x 5 5, op_x 16 5],
     insn ''SWPAB'' 0xFFE0FC00 0x38A08000 OPCODE_TRAP [op_w 0 5, op_x 5 5, op_w 16 5],
     insn ''SWPALB'' 0xFFE0FC00 0x38E08000 OPCODE_TRAP [op_w 0 5, op_x 5 5, op_w 16 5],
     insn ''SWPB'' 0xFFE0FC00 0x38208000 OPCODE_TRAP [op_w 0 5, op_x 5 5, op_w 16 5],
     insn ''SWPLB'' 0xFFE0FC00 0x38608000 OPCODE_TRAP [op_w 0 5, op_x 5 5, op_w 16 5],
     insn ''SWPAH'' 0xFFE0FC00 0x78A08000 OPCODE_TRAP [op_w 0 5, op_x 5 5, op_w 16 5],
     insn ''SWPALH'' 0xFFE0FC00 0x78E08000 OPCODE_TRAP [op_w 0 5, op_x 5 5, op_w 16 5],
     insn ''SWPH'' 0xFFE0FC00 0x78208000 OPCODE_TRAP [op_w 0 5, op_x 5 5, op_w 16 5],
     insn ''SWPLH'' 0xFFE0FC00 0x78608000 OPCODE_TRAP [op_w 0 5, op_x 5 5, op_w 16 5],
     insn ''SWPP'' 0xFFE0FC00 0x19208000 OPCODE_TRAP [op_x 0 5, op_x 5 5, op_x 16 5],
     insn ''SWPPA'' 0xFFE0FC00 0x19A08000 OPCODE_TRAP [op_x 0 5, op_x 5 5, op_x 16 5]]"

definition arm64_instructions_3384 :: "bal_decoder_instruction_metadata_t list" where
  "arm64_instructions_3384 = [
     insn ''SWPPAL'' 0xFFE0FC00 0x19E08000 OPCODE_TRAP [op_x 0 5, op_x 5 5, op_x 16 5],
     insn ''SWPPL'' 0xFFE0FC00 0x19608000 OPCODE_TRAP [op_x 0 5, op_x 5 5, op_x 16 5],
     insn ''SBFM'' 0xFFFFFC00 0x13001C00 OPCODE_TRAP [op_w 0 5, op_w 5 5],
     insn ''SBFM'' 0xFFFFFC00 0x93401C00 OPCODE_TRAP [op_x 0 5, op_w 5 5],
     insn ''SXTB'' 0xFF3FE000 0x0410A000 OPCODE_TRAP [op_v 0 5, op_v 5 5, op_v 10 3],
     insn ''SXTH'' 0xFF3FE000 0x0412A000 OPCODE_TRAP [op_v 0 5, op_v 5 5, op_v 10 3],
     insn ''SXTW'' 0xFF3FE000 0x0414A000 OPCODE_TRAP [op_v 0 5, op_v 5 5, op_v 10 3],
     insn ''SBFM'' 0xFFFFFC00 0x13003C00 OPCODE_TRAP [op_w 0 5, op_w 5 5],
     insn ''SBFM'' 0xFFFFFC00 0x93403C00 OPCODE_TRAP [op_x 0 5, op_w 5 5],
     insn ''SSHLL'' 0xBF8FFC00 0x0F00A400 OPCODE_TRAP [op_v 0 5, op_v 5 5, op_v 19 4, op_cond 30 1, op_v 30 1],
     insn ''SBFM'' 0xFFFFFC00 0x93407C00 OPCODE_TRAP [op_x 0 5, op_w 5 5],
     insn ''SYS'' 0xFFF80000 0xD5080000 OPCODE_TRAP [op_imm 0 5, op_imm 5 3, op_imm 16 3]]"

definition arm64_instructions_3396 :: "bal_decoder_instruction_metadata_t list" where
  "arm64_instructions_3396 = [
     insn ''SYSL'' 0xFFF80000 0xD5280000 OPCODE_TRAP [op_x 0 5, op_imm 5 3, op_imm 16 3],
     insn ''SYSP'' 0xFFF80000 0xD5480000 OPCODE_TRAP [op_imm 0 5, op_imm 5 3, op_imm 16 3],
     insn ''TBL'' 0xBFE0FC00 0x0E000000 OPCODE_TRAP [op_v 0 5, op_v 5 5, op_imm 16 5],
     insn ''TBL'' 0xBFE0FC00 0x0E002000 OPCODE_TRAP [op_v 0 5, op_v 5 5, op_imm 16 5],
     insn ''TBL'' 0xBFE0FC00 0x0E004000 OPCODE_TRAP [op_v 0 5, op_v 5 5, op_imm 16 5],
     insn ''TBL'' 0xBFE0FC00 0x0E006000 OPCODE_TRAP [op_v 0 5, op_v 5 5, op_imm 16 5],
     insn ''TBL'' 0xFF20FC00 0x05202800 OPCODE_TRAP [op_v 0 5, op_v 5 5, op_v 16 5],
     insn ''TBL'' 0xFF20FC00 0x05203000 OPCODE_TRAP [op_v 0 5, op_v 5 5, op_v 16 5],
     insn ''TBLQ'' 0xFF20FC00 0x4400F800 OPCODE_TRAP [op_v 0 5, op_v 5 5, op_v 16 5],
     insn ''TBNZ'' 0x7F000000 0x37000000 OPCODE_TRAP [op_imm 5 14],
     insn ''TBX'' 0xBFE0FC00 0x0E001000 OPCODE_TRAP [op_v 0 5, op_v 5 5, op_imm 16 5],
     insn ''TBX'' 0xBFE0FC00 0x0E003000 OPCODE_TRAP [op_v 0 5, op_v 5 5, op_imm 16 5]]"

definition arm64_instructions_3408 :: "bal_decoder_instruction_metadata_t list" where
  "arm64_instructions_3408 = [
     insn ''TBX'' 0xBFE0FC00 0x0E005000 OPCODE_TRAP [op_v 0 5, op_v 5 5, op_imm 16 5],
     insn ''TBX'' 0xBFE0FC00 0x0E007000 OPCODE_TRAP [op_v 0 5, op_v 5 5, op_imm 16 5],
     insn ''TBX'' 0xFF20FC00 0x05202C00 OPCODE_TRAP [op_v 0 5, op_v 5 5, op_v 16 5],
     insn ''TBXQ'' 0xFF20FC00 0x05203400 OPCODE_TRAP [op_v 0 5, op_v 5 5, op_v 16 5],
     insn ''TBZ'' 0x7F000000 0x36000000 OPCODE_TRAP [op_imm 5 14],
     insn ''TCANCEL'' 0xFFE0001F 0xD4600000 OPCODE_TRAP [op_imm 5 16],
     insn ''TCOMMIT'' 0xFFFFFFFF 0xD503307F OPCODE_TRAP [],
     insn ''SYS'' 0xFFF8E000 0xD5088000 OPCODE_TRAP [op_imm 0 5],
     insn ''SYSP'' 0xFFF8E000 0xD5488000 OPCODE_TRAP [op_imm 0 5],
     insn ''SYS'' 0xFFFFFFE0 0xD50B72E0 OPCODE_TRAP [op_x 0 5],
     insn ''TRN1'' 0xBF20FC00 0x0E002800 OPCODE_TRAP [op_v 0 5, op_v 5 5, op_v 16 5],
     insn ''TRN1'' 0xFF30FE10 0x05205000 OPCODE_TRAP [op_v 0 4, op_v 5 4, op_v 16 4]]"

definition arm64_instructions_3420 :: "bal_decoder_instruction_metadata_t list" where
  "arm64_instructions_3420 = [
     insn ''TRN2'' 0xFF30FE10 0x05205400 OPCODE_TRAP [op_v 0 4, op_v 5 4, op_v 16 4],
     insn ''TRN1'' 0xFF20FC00 0x05207000 OPCODE_TRAP [op_v 0 5, op_v 5 5, op_v 16 5],
     insn ''TRN1'' 0xFFE0FC00 0x05A01800 OPCODE_TRAP [op_v 0 5, op_v 5 5, op_v 16 5],
     insn ''TRN2'' 0xFF20FC00 0x05207400 OPCODE_TRAP [op_v 0 5, op_v 5 5, op_v 16 5],
     insn ''TRN2'' 0xFFE0FC00 0x05A01C00 OPCODE_TRAP [op_v 0 5, op_v 5 5, op_v 16 5],
     insn ''TRN2'' 0xBF20FC00 0x0E006800 OPCODE_TRAP [op_v 0 5, op_v 5 5, op_v 16 5],
     insn ''TSB'' 0xFFFFFFFF 0xD503225F OPCODE_TRAP [],
     insn ''ANDS'' 0xFF80001F 0xF200001F OPCODE_AND [op_x 5 5, op_imm 10 6, op_imm 16 6, op_imm 22 1],
     insn ''ANDS'' 0xFFC0001F 0x7200001F OPCODE_AND [op_w 5 5, op_imm 10 6, op_imm 16 6],
     insn ''ANDS'' 0xFF20001F 0x6A00001F OPCODE_AND [op_w 5 5, op_imm 10 6, op_w 16 5, op_imm 22 2],
     insn ''ANDS'' 0xFF20001F 0xEA00001F OPCODE_AND [op_x 5 5, op_imm 10 6, op_x 16 5, op_imm 22 2],
     insn ''TSTART'' 0xFFFFFFE0 0xD5233060 OPCODE_TRAP [op_x 0 5]]"

definition arm64_instructions_3432 :: "bal_decoder_instruction_metadata_t list" where
  "arm64_instructions_3432 = [
     insn ''TTEST'' 0xFFFFFFE0 0xD5233160 OPCODE_TRAP [op_x 0 5],
     insn ''UABA'' 0xBF20FC00 0x2E207C00 OPCODE_TRAP [op_v 0 5, op_v 5 5, op_v 16 5],
     insn ''UABA'' 0xFF20FC00 0x4500FC00 OPCODE_TRAP [op_v 0 5, op_v 5 5, op_v 16 5],
     insn ''UABAL'' 0xBF20FC00 0x2E205000 OPCODE_TRAP [op_v 0 5, op_v 5 5, op_v 16 5, op_cond 30 1],
     insn ''UABALB'' 0xFF20FC00 0x4500C800 OPCODE_TRAP [op_v 0 5, op_v 5 5, op_v 16 5],
     insn ''UABALT'' 0xFF20FC00 0x4500CC00 OPCODE_TRAP [op_v 0 5, op_v 5 5, op_v 16 5],
     insn ''UABD'' 0xBF20FC00 0x2E207400 OPCODE_TRAP [op_v 0 5, op_v 5 5, op_v 16 5],
     insn ''UABD'' 0xFF3FE000 0x040D0000 OPCODE_TRAP [op_v 0 5, op_v 5 5, op_v 10 3],
     insn ''UABDL'' 0xBF20FC00 0x2E207000 OPCODE_TRAP [op_v 0 5, op_v 5 5, op_v 16 5, op_cond 30 1],
     insn ''UABDLB'' 0xFF20FC00 0x45003800 OPCODE_TRAP [op_v 0 5, op_v 5 5, op_v 16 5],
     insn ''UABDLT'' 0xFF20FC00 0x45003C00 OPCODE_TRAP [op_v 0 5, op_v 5 5, op_v 16 5],
     insn ''UADALP'' 0xBF3FFC00 0x2E206800 OPCODE_TRAP [op_v 0 5, op_v 5 5]]"

definition arm64_part_7 :: "bal_decoder_instruction_metadata_t list list" where
  "arm64_part_7 = [
     arm64_instructions_2952, arm64_instructions_2964, arm64_instructions_2976,
     arm64_instructions_2988, arm64_instructions_3000, arm64_instructions_3012,
     arm64_instructions_3024, arm64_instructions_3036, arm64_instructions_3048,
     arm64_instructions_3060, arm64_instructions_3072, arm64_instructions_3084,
     arm64_instructions_3096, arm64_instructions_3108, arm64_instructions_3120,
     arm64_instructions_3132, arm64_instructions_3144, arm64_instructions_3156,
     arm64_instructions_3168, arm64_instructions_3180, arm64_instructions_3192,
     arm64_instructions_3204, arm64_instructions_3216, arm64_instructions_3228,
     arm64_instructions_3240, arm64_instructions_3252, arm64_instructions_3264,
     arm64_instructions_3276, arm64_instructions_3288, arm64_instructions_3300,
     arm64_instructions_3312, arm64_instructions_3324, arm64_instructions_3336,
     arm64_instructions_3348, arm64_instructions_3360, arm64_instructions_3372,
     arm64_instructions_3384, arm64_instructions_3396, arm64_instructions_3408,
     arm64_instructions_3420, arm64_instructions_3432]"

section \<open>The entries are complete, and their top bits\<close>

lemma keys_of_2952: "map mask_value arm64_instructions_2952 =
     [(0xFFE0E003, 0xA020A000), (0xFFF0E008, 0xA1602000), (0xFFF0E00C, 0xA160A000),
      (0xFFE0E008, 0xA1202000), (0xFFE0E00C, 0xA120A000), (0xFFE0E000, 0xE4C0A000),
      (0xFFE0E000, 0xE4E0A000), (0xFF90E000, 0xE480E000), (0xFF80E000, 0xE4804000),
      (0xFFE0A000, 0xE4808000), (0xFFE0A000, 0xE4A08000), (0xFFE0A000, 0xE4C08000)]"
  by (simp only: arm64_instructions_2952_def read_entries)

lemma entries_2952:
  "length arm64_instructions_2952 = 12" "list_all metadata_wf arm64_instructions_2952"
  "map top_bits arm64_instructions_2952 =
     [(2047, 1281), (2047, 1291), (2047, 1291), (2047, 1289), (2047, 1289), (2047, 1830),
      (2047, 1831), (2044, 1828), (2044, 1828), (2047, 1828), (2047, 1829), (2047, 1830)]"
  by (simp add: arm64_instructions_2952_def, simp add: arm64_instructions_2952_def, simp add: top_bits_mask_value keys_of_2952)

lemma keys_of_2964: "map mask_value arm64_instructions_2964 =
     [(0xFFE0A000, 0xE4E08000), (0xFFE0E000, 0xE480A000), (0xFFE0E000, 0xE4A0A000),
      (0xFFE00010, 0xE0600000), (0xFFE0E000, 0xE4202000), (0xFFE00010, 0xE1E00000),
      (0xFFF0E001, 0xA0604000), (0xFFF0E003, 0xA060C000), (0xFFE0E001, 0xA0204000),
      (0xFFE0E003, 0xA020C000), (0xFFF0E008, 0xA1604000), (0xFFF0E00C, 0xA160C000)]"
  by (simp only: arm64_instructions_2964_def read_entries)

lemma entries_2964:
  "length arm64_instructions_2964 = 12" "list_all metadata_wf arm64_instructions_2964"
  "map top_bits arm64_instructions_2964 =
     [(2047, 1831), (2047, 1828), (2047, 1829), (2047, 1795), (2047, 1825), (2047, 1807),
      (2047, 1283), (2047, 1283), (2047, 1281), (2047, 1281), (2047, 1291), (2047, 1291)]"
  by (simp add: arm64_instructions_2964_def, simp add: arm64_instructions_2964_def, simp add: top_bits_mask_value keys_of_2964)

lemma keys_of_2976: "map mask_value arm64_instructions_2976 =
     [(0xFFE0E008, 0xA1204000), (0xFFE0E00C, 0xA120C000), (0xFFE0E000, 0xE540A000),
      (0xFFE0E000, 0xE560A000), (0xFFD0E000, 0xE540E000), (0xFFF0E000, 0xE500E000),
      (0xFFC0E000, 0xE5404000), (0xFFE0E000, 0xE5004000), (0xFFE0A000, 0xE5008000),
      (0xFFE0A000, 0xE5208000), (0xFFE0A000, 0xE5408000), (0xFFE0A000, 0xE5608000)]"
  by (simp only: arm64_instructions_2976_def read_entries)

lemma entries_2976:
  "length arm64_instructions_2976 = 12" "list_all metadata_wf arm64_instructions_2976"
  "map top_bits arm64_instructions_2976 =
     [(2047, 1289), (2047, 1289), (2047, 1834), (2047, 1835), (2046, 1834), (2047, 1832),
      (2046, 1834), (2047, 1832), (2047, 1832), (2047, 1833), (2047, 1834), (2047, 1835)]"
  by (simp add: arm64_instructions_2976_def, simp add: arm64_instructions_2976_def, simp add: top_bits_mask_value keys_of_2976)

lemma keys_of_2988: "map mask_value arm64_instructions_2988 =
     [(0xFFE0E000, 0xE500A000), (0xFFE0E000, 0xE520A000), (0xFFE00010, 0xE0A00000),
      (0xBFE0F000, 0xC808000), (0xBFFFF000, 0xC008000), (0xBFFFF000, 0xC9F8000),
      (0xBFE0E000, 0xDA00000), (0xBFE0E400, 0xDA04000), (0xBFE0EC00, 0xDA08000),
      (0xBFE0FC00, 0xDA08400), (0xBFFFE000, 0xD200000), (0xBFFFE000, 0xDBF0000)]"
  by (simp only: arm64_instructions_2988_def read_entries)

lemma entries_2988:
  "length arm64_instructions_2988 = 12" "list_all metadata_wf arm64_instructions_2988"
  "map top_bits arm64_instructions_2988 =
     [(2047, 1832), (2047, 1833), (2047, 1797), (1535, 100), (1535, 96), (1535, 100),
      (1535, 109), (1535, 109), (1535, 109), (1535, 109), (1535, 105), (1535, 109)]"
  by (simp add: arm64_instructions_2988_def, simp add: arm64_instructions_2988_def, simp add: top_bits_mask_value keys_of_2988)

lemma keys_of_3000: "map mask_value arm64_instructions_3000 =
     [(0xBFFFE400, 0xD204000), (0xBFFFE400, 0xDBF4000), (0xBFFFEC00, 0xD208000),
      (0xBFFFEC00, 0xDBF8000), (0xBFFFFC00, 0xD208400), (0xBFFFFC00, 0xDBF8400),
      (0xFFF0E000, 0xE430E000), (0xFFE0E000, 0xE4206000), (0xFFF0E000, 0xE5B0E000),
      (0xFFE0E000, 0xE5A06000), (0xFFE00C00, 0xD9A00400), (0xFFE00C00, 0xD9A00800)]"
  by (simp only: arm64_instructions_3000_def read_entries)

lemma entries_3000:
  "length arm64_instructions_3000 = 12" "list_all metadata_wf arm64_instructions_3000"
  "map top_bits arm64_instructions_3000 =
     [(1535, 105), (1535, 109), (1535, 105), (1535, 109), (1535, 105), (1535, 109), (2047, 1825),
      (2047, 1825), (2047, 1837), (2047, 1837), (2047, 1741), (2047, 1741)]"
  by (simp add: arm64_instructions_3000_def, simp add: arm64_instructions_3000_def, simp add: top_bits_mask_value keys_of_3000)

lemma keys_of_3012: "map mask_value arm64_instructions_3012 =
     [(0xFFE00C00, 0xD9A00C00), (0xFFF0E000, 0xE4B0E000), (0xFFE0E000, 0xE4A06000),
      (0xFFF0E000, 0xE4400000), (0xFFE0E000, 0xE4600000), (0xFFF0E000, 0xE530E000),
      (0xFFE0E000, 0xE5206000), (0xBFE0F000, 0xC804000), (0xBFFFF000, 0xC004000),
      (0xBFFFF000, 0xC9F4000), (0xBFE0E000, 0xD802000), (0xBFE0E400, 0xD806000)]"
  by (simp only: arm64_instructions_3012_def read_entries)

lemma entries_3012:
  "length arm64_instructions_3012 = 12" "list_all metadata_wf arm64_instructions_3012"
  "map top_bits arm64_instructions_3012 =
     [(2047, 1741), (2047, 1829), (2047, 1829), (2047, 1826), (2047, 1827), (2047, 1833),
      (2047, 1833), (1535, 100), (1535, 96), (1535, 100), (1535, 108), (1535, 108)]"
  by (simp add: arm64_instructions_3012_def, simp add: arm64_instructions_3012_def, simp add: top_bits_mask_value keys_of_3012)

lemma keys_of_3024: "map mask_value arm64_instructions_3024 =
     [(0xBFE0EC00, 0xD80A000), (0xBFE0FC00, 0xD80A400), (0xBFFFE000, 0xD002000),
      (0xBFFFE000, 0xD9F2000), (0xBFFFE400, 0xD006000), (0xBFFFE400, 0xD9F6000),
      (0xBFFFEC00, 0xD00A000), (0xBFFFEC00, 0xD9FA000), (0xBFFFFC00, 0xD00A400),
      (0xBFFFFC00, 0xD9FA400), (0xFFF0E000, 0xE450E000), (0xFFE0E000, 0xE4406000)]"
  by (simp only: arm64_instructions_3024_def read_entries)

lemma entries_3024:
  "length arm64_instructions_3024 = 12" "list_all metadata_wf arm64_instructions_3024"
  "map top_bits arm64_instructions_3024 =
     [(1535, 108), (1535, 108), (1535, 104), (1535, 108), (1535, 104), (1535, 108), (1535, 104),
      (1535, 108), (1535, 104), (1535, 108), (2047, 1826), (2047, 1826)]"
  by (simp add: arm64_instructions_3024_def, simp add: arm64_instructions_3024_def, simp add: top_bits_mask_value keys_of_3024)

lemma keys_of_3036: "map mask_value arm64_instructions_3036 =
     [(0xFFF0E000, 0xE5D0E000), (0xFFE0E000, 0xE5C06000), (0xFFF0E000, 0xE4D0E000),
      (0xFFE0E000, 0xE4C06000), (0xFFF0E000, 0xE4800000), (0xFFE0E000, 0xE4A00000),
      (0xFFF0E000, 0xE550E000), (0xFFE0E000, 0xE5406000), (0xBFE0F000, 0xC800000),
      (0xBFFFF000, 0xC000000), (0xBFFFF000, 0xC9F0000), (0xBFE0E000, 0xDA02000)]"
  by (simp only: arm64_instructions_3036_def read_entries)

lemma entries_3036:
  "length arm64_instructions_3036 = 12" "list_all metadata_wf arm64_instructions_3036"
  "map top_bits arm64_instructions_3036 =
     [(2047, 1838), (2047, 1838), (2047, 1830), (2047, 1830), (2047, 1828), (2047, 1829),
      (2047, 1834), (2047, 1834), (1535, 100), (1535, 96), (1535, 100), (1535, 109)]"
  by (simp add: arm64_instructions_3036_def, simp add: arm64_instructions_3036_def, simp add: top_bits_mask_value keys_of_3036)

lemma keys_of_3048: "map mask_value arm64_instructions_3048 =
     [(0xBFE0E400, 0xDA06000), (0xBFE0EC00, 0xDA0A000), (0xBFE0FC00, 0xDA0A400),
      (0xBFFFE000, 0xD202000), (0xBFFFE000, 0xDBF2000), (0xBFFFE400, 0xD206000),
      (0xBFFFE400, 0xDBF6000), (0xBFFFEC00, 0xD20A000), (0xBFFFEC00, 0xDBFA000),
      (0xBFFFFC00, 0xD20A400), (0xBFFFFC00, 0xDBFA400), (0xFFF0E000, 0xE470E000)]"
  by (simp only: arm64_instructions_3048_def read_entries)

lemma entries_3048:
  "length arm64_instructions_3048 = 12" "list_all metadata_wf arm64_instructions_3048"
  "map top_bits arm64_instructions_3048 =
     [(1535, 109), (1535, 109), (1535, 109), (1535, 105), (1535, 109), (1535, 105), (1535, 109),
      (1535, 105), (1535, 109), (1535, 105), (1535, 109), (2047, 1827)]"
  by (simp add: arm64_instructions_3048_def, simp add: arm64_instructions_3048_def, simp add: top_bits_mask_value keys_of_3048)

lemma keys_of_3060: "map mask_value arm64_instructions_3060 =
     [(0xFFE0E000, 0xE4606000), (0xFFF0E000, 0xE5F0E000), (0xFFE0E000, 0xE5E06000),
      (0xFFF0E000, 0xE4F0E000), (0xFFE0E000, 0xE4E06000), (0xFFF0E000, 0xE4C00000),
      (0xFFE0E000, 0xE4E00000), (0xFFF0E000, 0xE570E000), (0xFFE0E000, 0xE5606000),
      (0xFFFFFC00, 0xF83F9000), (0xFFE0FC00, 0xF820B000), (0xFFE0FC00, 0xF820A000)]"
  by (simp only: arm64_instructions_3060_def read_entries)

lemma entries_3060:
  "length arm64_instructions_3060 = 12" "list_all metadata_wf arm64_instructions_3060"
  "map top_bits arm64_instructions_3060 =
     [(2047, 1827), (2047, 1839), (2047, 1839), (2047, 1831), (2047, 1831), (2047, 1830),
      (2047, 1831), (2047, 1835), (2047, 1835), (2047, 1985), (2047, 1985), (2047, 1985)]"
  by (simp add: arm64_instructions_3060_def, simp add: arm64_instructions_3060_def, simp add: top_bits_mask_value keys_of_3060)

lemma keys_of_3072: "map mask_value arm64_instructions_3072 =
     [(0xFFE0FC1F, 0xB820001F), (0xFFE0FC1F, 0xF820001F), (0xFFE0FC1F, 0xB860001F),
      (0xFFE0FC1F, 0xF860001F), (0xFFE0FC1F, 0x3820001F), (0xFFE0FC1F, 0x3860001F),
      (0xFFE0FC1F, 0x7820001F), (0xFFE0FC1F, 0x7860001F), (0xFFE0FC1F, 0xB820101F),
      (0xFFE0FC1F, 0xF820101F), (0xFFE0FC1F, 0xB860101F), (0xFFE0FC1F, 0xF860101F)]"
  by (simp only: arm64_instructions_3072_def read_entries)

lemma entries_3072:
  "length arm64_instructions_3072 = 12" "list_all metadata_wf arm64_instructions_3072"
  "map top_bits arm64_instructions_3072 =
     [(2047, 1473), (2047, 1985), (2047, 1475), (2047, 1987), (2047, 449), (2047, 451),
      (2047, 961), (2047, 963), (2047, 1473), (2047, 1985), (2047, 1475), (2047, 1987)]"
  by (simp add: arm64_instructions_3072_def, simp add: arm64_instructions_3072_def, simp add: top_bits_mask_value keys_of_3072)

lemma keys_of_3084: "map mask_value arm64_instructions_3084 =
     [(0xFFE0FC1F, 0x3820101F), (0xFFE0FC1F, 0x3860101F), (0xFFE0FC1F, 0x7820101F),
      (0xFFE0FC1F, 0x7860101F), (0xFFE0FC1F, 0xB820201F), (0xFFE0FC1F, 0xF820201F),
      (0xFFE0FC1F, 0xB860201F), (0xFFE0FC1F, 0xF860201F), (0xFFE0FC1F, 0x3820201F),
      (0xFFE0FC1F, 0x3860201F), (0xFFE0FC1F, 0x7820201F), (0xFFE0FC1F, 0x7860201F)]"
  by (simp only: arm64_instructions_3084_def read_entries)

lemma entries_3084:
  "length arm64_instructions_3084 = 12" "list_all metadata_wf arm64_instructions_3084"
  "map top_bits arm64_instructions_3084 =
     [(2047, 449), (2047, 451), (2047, 961), (2047, 963), (2047, 1473), (2047, 1985),
      (2047, 1475), (2047, 1987), (2047, 449), (2047, 451), (2047, 961), (2047, 963)]"
  by (simp add: arm64_instructions_3084_def, simp add: arm64_instructions_3084_def, simp add: top_bits_mask_value keys_of_3084)

lemma keys_of_3096: "map mask_value arm64_instructions_3096 =
     [(0xFFE00C00, 0xD9200400), (0xFFE00C00, 0xD9200800), (0xFFE00C00, 0xD9200C00),
      (0xFFFFFC00, 0xD9A00000), (0xFFC00000, 0x68800000), (0xFFC00000, 0x69000000),
      (0xFFC00000, 0x69800000), (0xFFE0FC00, 0x99000800), (0xFFE0FC00, 0x99001800),
      (0xFFE0FC00, 0xD9000800), (0xFFE0FC00, 0xD9001800), (0xBFFFFC00, 0xD018400)]"
  by (simp only: arm64_instructions_3096_def read_entries)

lemma entries_3096:
  "length arm64_instructions_3096 = 12" "list_all metadata_wf arm64_instructions_3096"
  "map top_bits arm64_instructions_3096 =
     [(2047, 1737), (2047, 1737), (2047, 1737), (2047, 1741), (2046, 836), (2046, 840),
      (2046, 844), (2047, 1224), (2047, 1224), (2047, 1736), (2047, 1736), (1535, 104)]"
  by (simp add: arm64_instructions_3096_def, simp add: arm64_instructions_3096_def, simp add: top_bits_mask_value keys_of_3096)

lemma keys_of_3108: "map mask_value arm64_instructions_3108 =
     [(0xFFE9A492, 0x88892492), (0xFFE9A492, 0xC8892492), (0xFFE9A492, 0x8892492),
      (0xFFE9A492, 0x48892492), (0xFFE9A492, 0x8889A492), (0xFFE9A492, 0xC889A492),
      (0xFFFFFC00, 0x99800800), (0xFFFFFC00, 0xD9800800), (0xFFE9A492, 0x889A492),
      (0xFFE9A492, 0x4889A492), (0xFFE00C00, 0x1D000800), (0xFFE00C00, 0x1D800800)]"
  by (simp only: arm64_instructions_3108_def read_entries)

lemma entries_3108:
  "length arm64_instructions_3108 = 12" "list_all metadata_wf arm64_instructions_3108"
  "map top_bits arm64_instructions_3108 =
     [(2047, 1092), (2047, 1604), (2047, 68), (2047, 580), (2047, 1092), (2047, 1604),
      (2047, 1228), (2047, 1740), (2047, 68), (2047, 580), (2047, 232), (2047, 236)]"
  by (simp add: arm64_instructions_3108_def, simp add: arm64_instructions_3108_def, simp add: top_bits_mask_value keys_of_3108)

lemma keys_of_3120: "map mask_value arm64_instructions_3120 =
     [(0xFFE00C00, 0x5D000800), (0xFFE00C00, 0x9D000800), (0xFFE00C00, 0xDD000800),
      (0xFFE00C00, 0x99000000), (0xFFE00C00, 0xD9000000), (0xFFE00C00, 0x19000000),
      (0xFFE00C00, 0x59000000), (0xFFE08000, 0x88208000), (0xFFE08000, 0xC8208000),
      (0xFFE0A492, 0x8800A492), (0xFFE0A492, 0xC800A492), (0xFFE0A492, 0x800A492)]"
  by (simp only: arm64_instructions_3120_def read_entries)

lemma entries_3120:
  "length arm64_instructions_3120 = 12" "list_all metadata_wf arm64_instructions_3120"
  "map top_bits arm64_instructions_3120 =
     [(2047, 744), (2047, 1256), (2047, 1768), (2047, 1224), (2047, 1736), (2047, 200),
      (2047, 712), (2047, 1089), (2047, 1601), (2047, 1088), (2047, 1600), (2047, 64)]"
  by (simp add: arm64_instructions_3120_def, simp add: arm64_instructions_3120_def, simp add: top_bits_mask_value keys_of_3120)

lemma keys_of_3132: "map mask_value arm64_instructions_3132 =
     [(0xFFE0A492, 0x4800A492), (0xFFC00000, 0x2C000000), (0xFFC00000, 0x6C000000),
      (0xFFC00000, 0xAC000000), (0xFFC00000, 0x28000000), (0xFFC00000, 0xA8000000),
      (0xFFF0E001, 0xA0600001), (0xFFF0E003, 0xA0608001), (0xFFE0E001, 0xA0200001),
      (0xFFE0E003, 0xA0208001), (0xFFF0E008, 0xA1600008), (0xFFF0E00C, 0xA1608008)]"
  by (simp only: arm64_instructions_3132_def read_entries)

lemma entries_3132:
  "length arm64_instructions_3132 = 12" "list_all metadata_wf arm64_instructions_3132"
  "map top_bits arm64_instructions_3132 =
     [(2047, 576), (2046, 352), (2046, 864), (2046, 1376), (2046, 320), (2046, 1344),
      (2047, 1283), (2047, 1283), (2047, 1281), (2047, 1281), (2047, 1291), (2047, 1291)]"
  by (simp add: arm64_instructions_3132_def, simp add: arm64_instructions_3132_def, simp add: top_bits_mask_value keys_of_3132)

lemma keys_of_3144: "map mask_value arm64_instructions_3144 =
     [(0xFFE0E008, 0xA1200008), (0xFFE0E00C, 0xA1208008), (0xFFE0E000, 0xE4002000),
      (0xFFE0E000, 0xE4402000), (0xFFF0E000, 0xE410E000), (0xFFE0E000, 0xE4006000),
      (0xFFF0E001, 0xA0606001), (0xFFF0E003, 0xA060E001), (0xFFE0E001, 0xA0206001),
      (0xFFE0E003, 0xA020E001), (0xFFF0E008, 0xA1606008), (0xFFF0E00C, 0xA160E008)]"
  by (simp only: arm64_instructions_3144_def read_entries)

lemma entries_3144:
  "length arm64_instructions_3144 = 12" "list_all metadata_wf arm64_instructions_3144"
  "map top_bits arm64_instructions_3144 =
     [(2047, 1289), (2047, 1289), (2047, 1824), (2047, 1826), (2047, 1824), (2047, 1824),
      (2047, 1283), (2047, 1283), (2047, 1281), (2047, 1281), (2047, 1291), (2047, 1291)]"
  by (simp add: arm64_instructions_3144_def, simp add: arm64_instructions_3144_def, simp add: top_bits_mask_value keys_of_3144)

lemma keys_of_3156: "map mask_value arm64_instructions_3156 =
     [(0xFFE0E008, 0xA1206008), (0xFFE0E00C, 0xA120E008), (0xFFE0E000, 0xE5802000),
      (0xFFF0E000, 0xE590E000), (0xFFE0E000, 0xE5806000), (0xFFF0E001, 0xA0602001),
      (0xFFF0E003, 0xA060A001), (0xFFE0E001, 0xA0202001), (0xFFE0E003, 0xA020A001),
      (0xFFF0E008, 0xA1602008), (0xFFF0E00C, 0xA160A008), (0xFFE0E008, 0xA1202008)]"
  by (simp only: arm64_instructions_3156_def read_entries)

lemma entries_3156:
  "length arm64_instructions_3156 = 12" "list_all metadata_wf arm64_instructions_3156"
  "map top_bits arm64_instructions_3156 =
     [(2047, 1289), (2047, 1289), (2047, 1836), (2047, 1836), (2047, 1836), (2047, 1283),
      (2047, 1283), (2047, 1281), (2047, 1281), (2047, 1291), (2047, 1291), (2047, 1289)]"
  by (simp add: arm64_instructions_3156_def, simp add: arm64_instructions_3156_def, simp add: top_bits_mask_value keys_of_3156)

lemma keys_of_3168: "map mask_value arm64_instructions_3168 =
     [(0xFFE0E00C, 0xA120A008), (0xFFE0E000, 0xE4802000), (0xFFE0E000, 0xE4C02000),
      (0xFFF0E000, 0xE490E000), (0xFFE0E000, 0xE4806000), (0xFFF0E001, 0xA0604001),
      (0xFFF0E003, 0xA060C001), (0xFFE0E001, 0xA0204001), (0xFFE0E003, 0xA020C001),
      (0xFFF0E008, 0xA1604008), (0xFFF0E00C, 0xA160C008), (0xFFE0E008, 0xA1204008)]"
  by (simp only: arm64_instructions_3168_def read_entries)

lemma entries_3168:
  "length arm64_instructions_3168 = 12" "list_all metadata_wf arm64_instructions_3168"
  "map top_bits arm64_instructions_3168 =
     [(2047, 1289), (2047, 1828), (2047, 1830), (2047, 1828), (2047, 1828), (2047, 1283),
      (2047, 1283), (2047, 1281), (2047, 1281), (2047, 1291), (2047, 1291), (2047, 1289)]"
  by (simp add: arm64_instructions_3168_def, simp add: arm64_instructions_3168_def, simp add: top_bits_mask_value keys_of_3168)

lemma keys_of_3180: "map mask_value arm64_instructions_3180 =
     [(0xFFE0E00C, 0xA120C008), (0xFFE0E000, 0xE5002000), (0xFFE0E000, 0xE5402000),
      (0xFFF0E000, 0xE510E000), (0xFFE0E000, 0xE5006000), (0xFFC00000, 0x2C800000),
      (0xFFC00000, 0x2D000000), (0xFFC00000, 0x2D800000), (0xFFC00000, 0x6C800000),
      (0xFFC00000, 0x6D000000), (0xFFC00000, 0x6D800000), (0xFFC00000, 0xAC800000)]"
  by (simp only: arm64_instructions_3180_def read_entries)

lemma entries_3180:
  "length arm64_instructions_3180 = 12" "list_all metadata_wf arm64_instructions_3180"
  "map top_bits arm64_instructions_3180 =
     [(2047, 1289), (2047, 1832), (2047, 1834), (2047, 1832), (2047, 1832), (2046, 356),
      (2046, 360), (2046, 364), (2046, 868), (2046, 872), (2046, 876), (2046, 1380)]"
  by (simp add: arm64_instructions_3180_def, simp add: arm64_instructions_3180_def, simp add: top_bits_mask_value keys_of_3180)

lemma keys_of_3192: "map mask_value arm64_instructions_3192 =
     [(0xFFC00000, 0xAD000000), (0xFFC00000, 0xAD800000), (0xFFC00000, 0x28800000),
      (0xFFC00000, 0x29000000), (0xFFC00000, 0x29800000), (0xFFC00000, 0xA8800000),
      (0xFFC00000, 0xA9000000), (0xFFC00000, 0xA9800000), (0xFFC00000, 0x3D000000),
      (0xFFC00000, 0x3D800000), (0xFFC00000, 0x7D000000), (0xFFC00000, 0xBD000000)]"
  by (simp only: arm64_instructions_3192_def read_entries)

lemma entries_3192:
  "length arm64_instructions_3192 = 12" "list_all metadata_wf arm64_instructions_3192"
  "map top_bits arm64_instructions_3192 =
     [(2046, 1384), (2046, 1388), (2046, 324), (2046, 328), (2046, 332), (2046, 1348),
      (2046, 1352), (2046, 1356), (2046, 488), (2046, 492), (2046, 1000), (2046, 1512)]"
  by (simp add: arm64_instructions_3192_def, simp add: arm64_instructions_3192_def, simp add: top_bits_mask_value keys_of_3192)

lemma keys_of_3204: "map mask_value arm64_instructions_3204 =
     [(0xFFC00000, 0xFD000000), (0xFFE00C00, 0x3C000400), (0xFFE00C00, 0x3C000C00),
      (0xFFE00C00, 0x3C800400), (0xFFE00C00, 0x3C800C00), (0xFFE00C00, 0x7C000400),
      (0xFFE00C00, 0x7C000C00), (0xFFE00C00, 0xBC000400), (0xFFE00C00, 0xBC000C00),
      (0xFFE00C00, 0xFC000400), (0xFFE00C00, 0xFC000C00), (0xFFC00000, 0xB9000000)]"
  by (simp only: arm64_instructions_3204_def read_entries)

lemma entries_3204:
  "length arm64_instructions_3204 = 12" "list_all metadata_wf arm64_instructions_3204"
  "map top_bits arm64_instructions_3204 =
     [(2046, 2024), (2047, 480), (2047, 480), (2047, 484), (2047, 484), (2047, 992), (2047, 992),
      (2047, 1504), (2047, 1504), (2047, 2016), (2047, 2016), (2046, 1480)]"
  by (simp add: arm64_instructions_3204_def, simp add: arm64_instructions_3204_def, simp add: top_bits_mask_value keys_of_3204)

lemma keys_of_3216: "map mask_value arm64_instructions_3216 =
     [(0xFFC00000, 0xF9000000), (0xFFE00C00, 0xB8000400), (0xFFE00C00, 0xB8000C00),
      (0xFFE00C00, 0xF8000400), (0xFFE00C00, 0xF8000C00), (0xFFC0E010, 0xE5800000),
      (0xFFE00C00, 0x3C200800), (0xFFE00C00, 0x3CA00800), (0xFFE00C00, 0x7C200800),
      (0xFFE00C00, 0xBC200800), (0xFFE00C00, 0xFC200800), (0xFFE0EC00, 0x3C206800)]"
  by (simp only: arm64_instructions_3216_def read_entries)

lemma entries_3216:
  "length arm64_instructions_3216 = 12" "list_all metadata_wf arm64_instructions_3216"
  "map top_bits arm64_instructions_3216 =
     [(2046, 1992), (2047, 1472), (2047, 1472), (2047, 1984), (2047, 1984), (2046, 1836),
      (2047, 481), (2047, 485), (2047, 993), (2047, 1505), (2047, 2017), (2047, 481)]"
  by (simp add: arm64_instructions_3216_def, simp add: arm64_instructions_3216_def, simp add: top_bits_mask_value keys_of_3216)

lemma keys_of_3228: "map mask_value arm64_instructions_3228 =
     [(0xFFE00C00, 0xB8200800), (0xFFE00C00, 0xF8200800), (0xFFC0E000, 0xE5804000),
      (0xFFFF9C10, 0xE1200000), (0xFFFFFC1F, 0xE13F8000), (0xFFC00000, 0x39000000),
      (0xFFE00C00, 0x38000400), (0xFFE00C00, 0x38000C00), (0xFFE00C00, 0x38200800),
      (0xFFE0EC00, 0x38206800), (0xFFC00000, 0x79000000), (0xFFE00C00, 0x78000400)]"
  by (simp only: arm64_instructions_3228_def read_entries)

lemma entries_3228:
  "length arm64_instructions_3228 = 12" "list_all metadata_wf arm64_instructions_3228"
  "map top_bits arm64_instructions_3228 =
     [(2047, 1473), (2047, 1985), (2046, 1836), (2047, 1801), (2047, 1801), (2046, 456),
      (2047, 448), (2047, 448), (2047, 449), (2047, 449), (2046, 968), (2047, 960)]"
  by (simp add: arm64_instructions_3228_def, simp add: arm64_instructions_3228_def, simp add: top_bits_mask_value keys_of_3228)

lemma keys_of_3240: "map mask_value arm64_instructions_3240 =
     [(0xFFE00C00, 0x78000C00), (0xFFE00C00, 0x78200800), (0xFFE0FC1F, 0xB820301F),
      (0xFFE0FC1F, 0xF820301F), (0xFFE0FC1F, 0xB860301F), (0xFFE0FC1F, 0xF860301F),
      (0xFFE0FC1F, 0x3820301F), (0xFFE0FC1F, 0x3860301F), (0xFFE0FC1F, 0x7820301F),
      (0xFFE0FC1F, 0x7860301F), (0xFFE0FC1F, 0xB820401F), (0xFFE0FC1F, 0xF820401F)]"
  by (simp only: arm64_instructions_3240_def read_entries)

lemma entries_3240:
  "length arm64_instructions_3240 = 12" "list_all metadata_wf arm64_instructions_3240"
  "map top_bits arm64_instructions_3240 =
     [(2047, 960), (2047, 961), (2047, 1473), (2047, 1985), (2047, 1475), (2047, 1987),
      (2047, 449), (2047, 451), (2047, 961), (2047, 963), (2047, 1473), (2047, 1985)]"
  by (simp add: arm64_instructions_3240_def, simp add: arm64_instructions_3240_def, simp add: top_bits_mask_value keys_of_3240)

lemma keys_of_3252: "map mask_value arm64_instructions_3252 =
     [(0xFFE0FC1F, 0xB860401F), (0xFFE0FC1F, 0xF860401F), (0xFFE0FC1F, 0x3820401F),
      (0xFFE0FC1F, 0x3860401F), (0xFFE0FC1F, 0x7820401F), (0xFFE0FC1F, 0x7860401F),
      (0xFFE0FC1F, 0xB820501F), (0xFFE0FC1F, 0xF820501F), (0xFFE0FC1F, 0xB860501F),
      (0xFFE0FC1F, 0xF860501F), (0xFFE0FC1F, 0x3820501F), (0xFFE0FC1F, 0x3860501F)]"
  by (simp only: arm64_instructions_3252_def read_entries)

lemma entries_3252:
  "length arm64_instructions_3252 = 12" "list_all metadata_wf arm64_instructions_3252"
  "map top_bits arm64_instructions_3252 =
     [(2047, 1475), (2047, 1987), (2047, 449), (2047, 451), (2047, 961), (2047, 963),
      (2047, 1473), (2047, 1985), (2047, 1475), (2047, 1987), (2047, 449), (2047, 451)]"
  by (simp add: arm64_instructions_3252_def, simp add: arm64_instructions_3252_def, simp add: top_bits_mask_value keys_of_3252)

lemma keys_of_3264: "map mask_value arm64_instructions_3264 =
     [(0xFFE0FC1F, 0x7820501F), (0xFFE0FC1F, 0x7860501F), (0xFFE00C00, 0xB8000800),
      (0xFFE00C00, 0xF8000800), (0xFFE00C00, 0x38000800), (0xFFE00C00, 0x78000800),
      (0xFFE0FC1F, 0xB820601F), (0xFFE0FC1F, 0xF820601F), (0xFFE0FC1F, 0xB860601F),
      (0xFFE0FC1F, 0xF860601F), (0xFFE0FC1F, 0x3820601F), (0xFFE0FC1F, 0x3860601F)]"
  by (simp only: arm64_instructions_3264_def read_entries)

lemma entries_3264:
  "length arm64_instructions_3264 = 12" "list_all metadata_wf arm64_instructions_3264"
  "map top_bits arm64_instructions_3264 =
     [(2047, 961), (2047, 963), (2047, 1472), (2047, 1984), (2047, 448), (2047, 960),
      (2047, 1473), (2047, 1985), (2047, 1475), (2047, 1987), (2047, 449), (2047, 451)]"
  by (simp add: arm64_instructions_3264_def, simp add: arm64_instructions_3264_def, simp add: top_bits_mask_value keys_of_3264)

lemma keys_of_3276: "map mask_value arm64_instructions_3276 =
     [(0xFFE0FC1F, 0x7820601F), (0xFFE0FC1F, 0x7860601F), (0xFFE0FC1F, 0xB820701F),
      (0xFFE0FC1F, 0xF820701F), (0xFFE0FC1F, 0xB860701F), (0xFFE0FC1F, 0xF860701F),
      (0xFFE0FC1F, 0x3820701F), (0xFFE0FC1F, 0x3860701F), (0xFFE0FC1F, 0x7820701F),
      (0xFFE0FC1F, 0x7860701F), (0xFFE00C00, 0x3C000000), (0xFFE00C00, 0x3C800000)]"
  by (simp only: arm64_instructions_3276_def read_entries)

lemma entries_3276:
  "length arm64_instructions_3276 = 12" "list_all metadata_wf arm64_instructions_3276"
  "map top_bits arm64_instructions_3276 =
     [(2047, 961), (2047, 963), (2047, 1473), (2047, 1985), (2047, 1475), (2047, 1987),
      (2047, 449), (2047, 451), (2047, 961), (2047, 963), (2047, 480), (2047, 484)]"
  by (simp add: arm64_instructions_3276_def, simp add: arm64_instructions_3276_def, simp add: top_bits_mask_value keys_of_3276)

lemma keys_of_3288: "map mask_value arm64_instructions_3288 =
     [(0xFFE00C00, 0x7C000000), (0xFFE00C00, 0xBC000000), (0xFFE00C00, 0xFC000000),
      (0xFFE00C00, 0xB8000000), (0xFFE00C00, 0xF8000000), (0xFFE00C00, 0x38000000),
      (0xFFE00C00, 0x78000000), (0xFFE08000, 0x88200000), (0xFFE08000, 0xC8200000),
      (0xFFE0A492, 0x88002492), (0xFFE0A492, 0xC8002492), (0xFFE0A492, 0x8002492)]"
  by (simp only: arm64_instructions_3288_def read_entries)

lemma entries_3288:
  "length arm64_instructions_3288 = 12" "list_all metadata_wf arm64_instructions_3288"
  "map top_bits arm64_instructions_3288 =
     [(2047, 992), (2047, 1504), (2047, 2016), (2047, 1472), (2047, 1984), (2047, 448),
      (2047, 960), (2047, 1089), (2047, 1601), (2047, 1088), (2047, 1600), (2047, 64)]"
  by (simp add: arm64_instructions_3288_def, simp add: arm64_instructions_3288_def, simp add: top_bits_mask_value keys_of_3288)

lemma keys_of_3300: "map mask_value arm64_instructions_3300 =
     [(0xFFE0A492, 0x48002492), (0xFFE00C00, 0xD9E00400), (0xFFE00C00, 0xD9E00800),
      (0xFFE00C00, 0xD9E00C00), (0xFFE00C00, 0xD9600400), (0xFFE00C00, 0xD9600800),
      (0xFFE00C00, 0xD9600C00), (0xFFFFFC00, 0xD9200000), (0xFFE00000, 0x4B200000),
      (0xFFE00000, 0xCB200000), (0xFF800000, 0x51000000), (0xFF800000, 0xD1000000)]"
  by (simp only: arm64_instructions_3300_def read_entries)

lemma entries_3300:
  "length arm64_instructions_3300 = 12" "list_all metadata_wf arm64_instructions_3300"
  "map top_bits arm64_instructions_3300 =
     [(2047, 576), (2047, 1743), (2047, 1743), (2047, 1743), (2047, 1739), (2047, 1739),
      (2047, 1739), (2047, 1737), (2047, 601), (2047, 1625), (2044, 648), (2044, 1672)]"
  by (simp add: arm64_instructions_3300_def, simp add: arm64_instructions_3300_def, simp add: top_bits_mask_value keys_of_3300)

lemma keys_of_3312: "map mask_value arm64_instructions_3312 =
     [(0xFF200000, 0x4B000000), (0xFF200000, 0xCB000000), (0xBF20FC00, 0x2E208400),
      (0xFF20FC00, 0x7E208400), (0xFF3FE000, 0x4010000), (0xFF3FC000, 0x2521C000),
      (0xFF20FC00, 0x4200400), (0xFFBF9C38, 0xC1A01C18), (0xFFBF9C78, 0xC1A11C18),
      (0xFFB09C18, 0xC1201818), (0xFFB09C18, 0xC1301818), (0xFFA19C38, 0xC1A01818)]"
  by (simp only: arm64_instructions_3312_def read_entries)

lemma entries_3312:
  "length arm64_instructions_3312 = 12" "list_all metadata_wf arm64_instructions_3312"
  "map top_bits arm64_instructions_3312 =
     [(2041, 600), (2041, 1624), (1529, 369), (2041, 1009), (2041, 32), (2041, 297), (2041, 33),
      (2045, 1549), (2045, 1549), (2045, 1545), (2045, 1545), (2045, 1549)]"
  by (simp add: arm64_instructions_3312_def, simp add: arm64_instructions_3312_def, simp add: top_bits_mask_value keys_of_3312)

lemma keys_of_3324: "map mask_value arm64_instructions_3324 =
     [(0xFFA39C78, 0xC1A11818), (0xFFC04800, 0xD1800000), (0xBF20FC00, 0xE206000),
      (0xFF20FC00, 0x45207000), (0xFF20FC00, 0x45207400), (0xFFE0FC00, 0x9AC00000),
      (0xFFE0FC00, 0xBAC00000), (0xFF3FE000, 0x4030000), (0xFF3FC000, 0x2523C000),
      (0xFFE00000, 0x6B200000), (0xFFE00000, 0xEB200000), (0xFF800000, 0x71000000)]"
  by (simp only: arm64_instructions_3324_def read_entries)

lemma entries_3324:
  "length arm64_instructions_3324 = 12" "list_all metadata_wf arm64_instructions_3324"
  "map top_bits arm64_instructions_3324 =
     [(2045, 1549), (2046, 1676), (1529, 113), (2041, 553), (2041, 553), (2047, 1238),
      (2047, 1494), (2041, 32), (2041, 297), (2047, 857), (2047, 1881), (2044, 904)]"
  by (simp add: arm64_instructions_3324_def, simp add: arm64_instructions_3324_def, simp add: top_bits_mask_value keys_of_3324)

lemma keys_of_3336: "map mask_value arm64_instructions_3336 =
     [(0xFF800000, 0xF1000000), (0xFF200000, 0x6B000000), (0xFF200000, 0xEB000000),
      (0xBFC0F400, 0xF00F000), (0xFFE0FC00, 0x44A01C00), (0xFFF09038, 0xC1501038),
      (0xFFF09078, 0xC1509038), (0xFFF09C18, 0xC1201418), (0xFFF09C18, 0xC1301418),
      (0xFFF0001C, 0xC1000014), (0xFFF09038, 0xC1100030), (0xFFF09078, 0xC1108030)]"
  by (simp only: arm64_instructions_3336_def read_entries)

lemma entries_3336:
  "length arm64_instructions_3336 = 12" "list_all metadata_wf arm64_instructions_3336"
  "map top_bits arm64_instructions_3336 =
     [(2044, 1928), (2041, 856), (2041, 1880), (1534, 120), (2047, 549), (2047, 1546),
      (2047, 1546), (2047, 1545), (2047, 1545), (2047, 1544), (2047, 1544), (2047, 1544)]"
  by (simp add: arm64_instructions_3336_def, simp add: arm64_instructions_3336_def, simp add: top_bits_mask_value keys_of_3336)

lemma keys_of_3348: "map mask_value arm64_instructions_3348 =
     [(0xFFF09C1E, 0xC1200014), (0xFFF09C1E, 0xC1300014), (0xFFE00018, 0xA0E00000),
      (0xFFE0001C, 0xA0A00000), (0xFFE00018, 0xA0E00010), (0xFFE0001C, 0xA0A00010),
      (0xFF3FFC01, 0xC125E000), (0xFF3FFC23, 0xC135E000), (0xFF3FFC00, 0x5313800),
      (0xFF3FFC00, 0x5303800), (0xBF3FFC00, 0xE203800), (0xFF3FFC00, 0x5E203800)]"
  by (simp only: arm64_instructions_3348_def read_entries)

lemma entries_3348:
  "length arm64_instructions_3348 = 12" "list_all metadata_wf arm64_instructions_3348"
  "map top_bits arm64_instructions_3348 =
     [(2047, 1545), (2047, 1545), (2047, 1287), (2047, 1285), (2047, 1287), (2047, 1285),
      (2041, 1545), (2041, 1545), (2041, 41), (2041, 41), (1529, 113), (2041, 753)]"
  by (simp add: arm64_instructions_3348_def, simp add: arm64_instructions_3348_def, simp add: top_bits_mask_value keys_of_3348)

lemma keys_of_3360: "map mask_value arm64_instructions_3360 =
     [(0xFF3FE000, 0x441C8000), (0xFFF09078, 0xC1508038), (0xFFE0001F, 0xD4000001),
      (0xFFF09038, 0xC1500020), (0xFFF09078, 0xC1508020), (0xFFF09878, 0xC1D08808),
      (0xFFE0FC00, 0xB8208000), (0xFFE0FC00, 0xF8208000), (0xFFE0FC00, 0xB8A08000),
      (0xFFE0FC00, 0xF8A08000), (0xFFE0FC00, 0xB8E08000), (0xFFE0FC00, 0xF8E08000)]"
  by (simp only: arm64_instructions_3360_def read_entries)

lemma entries_3360:
  "length arm64_instructions_3360 = 12" "list_all metadata_wf arm64_instructions_3360"
  "map top_bits arm64_instructions_3360 =
     [(2041, 544), (2047, 1546), (2047, 1696), (2047, 1546), (2047, 1546), (2047, 1550),
      (2047, 1473), (2047, 1985), (2047, 1477), (2047, 1989), (2047, 1479), (2047, 1991)]"
  by (simp add: arm64_instructions_3360_def, simp add: arm64_instructions_3360_def, simp add: top_bits_mask_value keys_of_3360)

lemma keys_of_3372: "map mask_value arm64_instructions_3372 =
     [(0xFFE0FC00, 0xB8608000), (0xFFE0FC00, 0xF8608000), (0xFFE0FC00, 0x38A08000),
      (0xFFE0FC00, 0x38E08000), (0xFFE0FC00, 0x38208000), (0xFFE0FC00, 0x38608000),
      (0xFFE0FC00, 0x78A08000), (0xFFE0FC00, 0x78E08000), (0xFFE0FC00, 0x78208000),
      (0xFFE0FC00, 0x78608000), (0xFFE0FC00, 0x19208000), (0xFFE0FC00, 0x19A08000)]"
  by (simp only: arm64_instructions_3372_def read_entries)

lemma entries_3372:
  "length arm64_instructions_3372 = 12" "list_all metadata_wf arm64_instructions_3372"
  "map top_bits arm64_instructions_3372 =
     [(2047, 1475), (2047, 1987), (2047, 453), (2047, 455), (2047, 449), (2047, 451),
      (2047, 965), (2047, 967), (2047, 961), (2047, 963), (2047, 201), (2047, 205)]"
  by (simp add: arm64_instructions_3372_def, simp add: arm64_instructions_3372_def, simp add: top_bits_mask_value keys_of_3372)

lemma keys_of_3384: "map mask_value arm64_instructions_3384 =
     [(0xFFE0FC00, 0x19E08000), (0xFFE0FC00, 0x19608000), (0xFFFFFC00, 0x13001C00),
      (0xFFFFFC00, 0x93401C00), (0xFF3FE000, 0x410A000), (0xFF3FE000, 0x412A000),
      (0xFF3FE000, 0x414A000), (0xFFFFFC00, 0x13003C00), (0xFFFFFC00, 0x93403C00),
      (0xBF8FFC00, 0xF00A400), (0xFFFFFC00, 0x93407C00), (0xFFF80000, 0xD5080000)]"
  by (simp only: arm64_instructions_3384_def read_entries)

lemma entries_3384:
  "length arm64_instructions_3384 = 12" "list_all metadata_wf arm64_instructions_3384"
  "map top_bits arm64_instructions_3384 =
     [(2047, 207), (2047, 203), (2047, 152), (2047, 1178), (2041, 32), (2041, 32), (2041, 32),
      (2047, 152), (2047, 1178), (1532, 120), (2047, 1178), (2047, 1704)]"
  by (simp add: arm64_instructions_3384_def, simp add: arm64_instructions_3384_def, simp add: top_bits_mask_value keys_of_3384)

lemma keys_of_3396: "map mask_value arm64_instructions_3396 =
     [(0xFFF80000, 0xD5280000), (0xFFF80000, 0xD5480000), (0xBFE0FC00, 0xE000000),
      (0xBFE0FC00, 0xE002000), (0xBFE0FC00, 0xE004000), (0xBFE0FC00, 0xE006000),
      (0xFF20FC00, 0x5202800), (0xFF20FC00, 0x5203000), (0xFF20FC00, 0x4400F800),
      (0x7F000000, 0x37000000), (0xBFE0FC00, 0xE001000), (0xBFE0FC00, 0xE003000)]"
  by (simp only: arm64_instructions_3396_def read_entries)

lemma entries_3396:
  "length arm64_instructions_3396 = 12" "list_all metadata_wf arm64_instructions_3396"
  "map top_bits arm64_instructions_3396 =
     [(2047, 1705), (2047, 1706), (1535, 112), (1535, 112), (1535, 112), (1535, 112), (2041, 41),
      (2041, 41), (2041, 544), (1016, 440), (1535, 112), (1535, 112)]"
  by (simp add: arm64_instructions_3396_def, simp add: arm64_instructions_3396_def, simp add: top_bits_mask_value keys_of_3396)

lemma keys_of_3408: "map mask_value arm64_instructions_3408 =
     [(0xBFE0FC00, 0xE005000), (0xBFE0FC00, 0xE007000), (0xFF20FC00, 0x5202C00),
      (0xFF20FC00, 0x5203400), (0x7F000000, 0x36000000), (0xFFE0001F, 0xD4600000),
      (0xFFFFFFFF, 0xD503307F), (0xFFF8E000, 0xD5088000), (0xFFF8E000, 0xD5488000),
      (0xFFFFFFE0, 0xD50B72E0), (0xBF20FC00, 0xE002800), (0xFF30FE10, 0x5205000)]"
  by (simp only: arm64_instructions_3408_def read_entries)

lemma entries_3408:
  "length arm64_instructions_3408 = 12" "list_all metadata_wf arm64_instructions_3408"
  "map top_bits arm64_instructions_3408 =
     [(1535, 112), (1535, 112), (2041, 41), (2041, 41), (1016, 432), (2047, 1699), (2047, 1704),
      (2047, 1704), (2047, 1706), (2047, 1704), (1529, 112), (2041, 41)]"
  by (simp add: arm64_instructions_3408_def, simp add: arm64_instructions_3408_def, simp add: top_bits_mask_value keys_of_3408)

lemma keys_of_3420: "map mask_value arm64_instructions_3420 =
     [(0xFF30FE10, 0x5205400), (0xFF20FC00, 0x5207000), (0xFFE0FC00, 0x5A01800),
      (0xFF20FC00, 0x5207400), (0xFFE0FC00, 0x5A01C00), (0xBF20FC00, 0xE006800),
      (0xFFFFFFFF, 0xD503225F), (0xFF80001F, 0xF200001F), (0xFFC0001F, 0x7200001F),
      (0xFF20001F, 0x6A00001F), (0xFF20001F, 0xEA00001F), (0xFFFFFFE0, 0xD5233060)]"
  by (simp only: arm64_instructions_3420_def read_entries)

lemma entries_3420:
  "length arm64_instructions_3420 = 12" "list_all metadata_wf arm64_instructions_3420"
  "map top_bits arm64_instructions_3420 =
     [(2041, 41), (2041, 41), (2047, 45), (2041, 41), (2047, 45), (1529, 112), (2047, 1704),
      (2044, 1936), (2046, 912), (2041, 848), (2041, 1872), (2047, 1705)]"
  by (simp add: arm64_instructions_3420_def, simp add: arm64_instructions_3420_def, simp add: top_bits_mask_value keys_of_3420)

lemma keys_of_3432: "map mask_value arm64_instructions_3432 =
     [(0xFFFFFFE0, 0xD5233160), (0xBF20FC00, 0x2E207C00), (0xFF20FC00, 0x4500FC00),
      (0xBF20FC00, 0x2E205000), (0xFF20FC00, 0x4500C800), (0xFF20FC00, 0x4500CC00),
      (0xBF20FC00, 0x2E207400), (0xFF3FE000, 0x40D0000), (0xBF20FC00, 0x2E207000),
      (0xFF20FC00, 0x45003800), (0xFF20FC00, 0x45003C00), (0xBF3FFC00, 0x2E206800)]"
  by (simp only: arm64_instructions_3432_def read_entries)

lemma entries_3432:
  "length arm64_instructions_3432 = 12" "list_all metadata_wf arm64_instructions_3432"
  "map top_bits arm64_instructions_3432 =
     [(2047, 1705), (1529, 369), (2041, 552), (1529, 369), (2041, 552), (2041, 552), (1529, 369),
      (2041, 32), (1529, 369), (2041, 552), (2041, 552), (1529, 369)]"
  by (simp add: arm64_instructions_3432_def, simp add: arm64_instructions_3432_def, simp add: top_bits_mask_value keys_of_3432)

lemmas entries_part_7 =
  entries_2952 entries_2964 entries_2976 entries_2988 entries_3000 entries_3012 entries_3024
  entries_3036 entries_3048 entries_3060 entries_3072 entries_3084 entries_3096 entries_3108
  entries_3120 entries_3132 entries_3144 entries_3156 entries_3168 entries_3180 entries_3192
  entries_3204 entries_3216 entries_3228 entries_3240 entries_3252 entries_3264 entries_3276
  entries_3288 entries_3300 entries_3312 entries_3324 entries_3336 entries_3348 entries_3360
  entries_3372 entries_3384 entries_3396 entries_3408 entries_3420 entries_3432

lemma arm64_part_7:
  "length (concat arm64_part_7) = 492" "list_all metadata_wf (concat arm64_part_7)"
  "sum_list (map weight (map top_bits (concat arm64_part_7))) = 835"
  by (simp_all add: arm64_part_7_def entries_part_7 weight_def bit_Suc_0_iff)

end
