(* ===== verification/Arm64_Instructions_8.thy ===== *)
theory Arm64_Instructions_8
  imports Table_Entries
begin

text \<open>
  Entries 3444 to 3855 of \<open>g_bal_decoder_arm64_instructions\<close> in \<open>src/generated/decoder_table.c\<close>,
  twelve to a list; a list is named after the index of its first entry.
\<close>

definition arm64_instructions_3444 :: "bal_decoder_instruction_metadata_t list" where
  "arm64_instructions_3444 = [
     insn ''UADALP'' 0xFF3FE000 0x4405A000 OPCODE_TRAP [op_v 0 5, op_v 5 5, op_v 10 3],
     insn ''UADDL'' 0xBF20FC00 0x2E200000 OPCODE_TRAP [op_v 0 5, op_v 5 5, op_v 16 5, op_cond 30 1],
     insn ''UADDLB'' 0xFF20FC00 0x45000800 OPCODE_TRAP [op_v 0 5, op_v 5 5, op_v 16 5],
     insn ''UADDLP'' 0xBF3FFC00 0x2E202800 OPCODE_TRAP [op_v 0 5, op_v 5 5],
     insn ''UADDLT'' 0xFF20FC00 0x45000C00 OPCODE_TRAP [op_v 0 5, op_v 5 5, op_v 16 5],
     insn ''UADDLV'' 0xBF3FFC00 0x2E303800 OPCODE_TRAP [op_v 0 5, op_v 5 5],
     insn ''UADDV'' 0xFF3FE000 0x04012000 OPCODE_TRAP [op_x 0 5, op_v 5 5, op_v 10 3],
     insn ''UADDW'' 0xBF20FC00 0x2E201000 OPCODE_TRAP [op_v 0 5, op_v 5 5, op_v 16 5, op_cond 30 1],
     insn ''UADDWB'' 0xFF20FC00 0x45004800 OPCODE_TRAP [op_v 0 5, op_v 5 5, op_v 16 5],
     insn ''UADDWT'' 0xFF20FC00 0x45004C00 OPCODE_TRAP [op_v 0 5, op_v 5 5, op_v 16 5],
     insn ''UBFM'' 0xFFC00000 0x53000000 OPCODE_TRAP [op_w 0 5, op_w 5 5],
     insn ''UBFM'' 0xFFC00000 0xD3400000 OPCODE_TRAP [op_x 0 5, op_x 5 5]]"

definition arm64_instructions_3456 :: "bal_decoder_instruction_metadata_t list" where
  "arm64_instructions_3456 = [
     insn ''UBFM'' 0xFFC00000 0x53000000 OPCODE_TRAP [op_w 0 5, op_w 5 5, op_imm 10 6, op_imm 16 6],
     insn ''UBFM'' 0xFFC00000 0xD3400000 OPCODE_TRAP [op_x 0 5, op_x 5 5, op_imm 10 6, op_imm 16 6],
     insn ''UBFM'' 0xFFC00000 0x53000000 OPCODE_TRAP [op_w 0 5, op_w 5 5],
     insn ''UBFM'' 0xFFC00000 0xD3400000 OPCODE_TRAP [op_x 0 5, op_x 5 5],
     insn ''UCLAMP'' 0xFF20FC01 0xC120C401 OPCODE_TRAP [op_v 1 4, op_v 5 5, op_v 16 5],
     insn ''UCLAMP'' 0xFF20FC03 0xC120CC01 OPCODE_TRAP [op_v 2 3, op_v 5 5, op_v 16 5],
     insn ''UCLAMP'' 0xFF20FC00 0x4400C400 OPCODE_TRAP [op_v 0 5, op_v 5 5, op_v 16 5],
     insn ''UCVTF'' 0xBF8FFC00 0x2F00E400 OPCODE_TRAP [op_v 0 5, op_v 5 5, op_v 16 3, op_v 19 4, op_v 30 1],
     insn ''UCVTF'' 0xFF8FFC00 0x7F00E400 OPCODE_TRAP [op_v 0 5, op_v 5 5],
     insn ''UCVTF'' 0xBFBFFC00 0x2E21D800 OPCODE_TRAP [op_v 0 5, op_v 5 5],
     insn ''UCVTF'' 0xBFFFFC00 0x2E79D800 OPCODE_TRAP [op_v 0 5, op_v 5 5],
     insn ''UCVTF'' 0xFFBFFC00 0x7E21D800 OPCODE_TRAP [op_v 0 5, op_v 5 5]]"

definition arm64_instructions_3468 :: "bal_decoder_instruction_metadata_t list" where
  "arm64_instructions_3468 = [
     insn ''UCVTF'' 0xFFFFFC00 0x7E79D800 OPCODE_TRAP [op_v 0 5, op_v 5 5],
     insn ''UCVTF'' 0xFFFF0000 0x1E030000 OPCODE_TRAP [op_w 0 5, op_w 5 5],
     insn ''UCVTF'' 0xFFFF0000 0x1E430000 OPCODE_TRAP [op_x 0 5, op_w 5 5],
     insn ''UCVTF'' 0xFFFF0000 0x1EC30000 OPCODE_TRAP [op_v 0 5, op_w 5 5],
     insn ''UCVTF'' 0xFFFF0000 0x9E030000 OPCODE_TRAP [op_w 0 5, op_x 5 5],
     insn ''UCVTF'' 0xFFFF0000 0x9E430000 OPCODE_TRAP [op_x 0 5, op_x 5 5],
     insn ''UCVTF'' 0xFFFF0000 0x9EC30000 OPCODE_TRAP [op_v 0 5, op_x 5 5],
     insn ''UCVTF'' 0xFFFFFC00 0x1E230000 OPCODE_TRAP [op_w 0 5, op_w 5 5],
     insn ''UCVTF'' 0xFFFFFC00 0x1E630000 OPCODE_TRAP [op_x 0 5, op_w 5 5],
     insn ''UCVTF'' 0xFFFFFC00 0x1EE30000 OPCODE_TRAP [op_v 0 5, op_w 5 5],
     insn ''UCVTF'' 0xFFFFFC00 0x9E230000 OPCODE_TRAP [op_w 0 5, op_x 5 5],
     insn ''UCVTF'' 0xFFFFFC00 0x9E630000 OPCODE_TRAP [op_x 0 5, op_x 5 5]]"

definition arm64_instructions_3480 :: "bal_decoder_instruction_metadata_t list" where
  "arm64_instructions_3480 = [
     insn ''UCVTF'' 0xFFFFFC00 0x9EE30000 OPCODE_TRAP [op_v 0 5, op_x 5 5],
     insn ''UCVTF'' 0xFFFFFC21 0xC122E020 OPCODE_TRAP [op_v 1 4, op_v 6 4],
     insn ''UCVTF'' 0xFFFFFC63 0xC132E020 OPCODE_TRAP [op_v 2 3, op_v 7 3],
     insn ''UCVTF'' 0xFFFFE000 0x6553A000 OPCODE_TRAP [op_v 0 5, op_v 5 5, op_v 10 3],
     insn ''UCVTF'' 0xFFFFE000 0x6555A000 OPCODE_TRAP [op_v 0 5, op_v 5 5, op_v 10 3],
     insn ''UCVTF'' 0xFFFFE000 0x6557A000 OPCODE_TRAP [op_v 0 5, op_v 5 5, op_v 10 3],
     insn ''UCVTF'' 0xFFFFE000 0x6595A000 OPCODE_TRAP [op_v 0 5, op_v 5 5, op_v 10 3],
     insn ''UCVTF'' 0xFFFFE000 0x65D1A000 OPCODE_TRAP [op_v 0 5, op_v 5 5, op_v 10 3],
     insn ''UCVTF'' 0xFFFFE000 0x65D5A000 OPCODE_TRAP [op_v 0 5, op_v 5 5, op_v 10 3],
     insn ''UCVTF'' 0xFFFFE000 0x65D7A000 OPCODE_TRAP [op_v 0 5, op_v 5 5, op_v 10 3],
     insn ''UDF'' 0xFFFF0000 0x00000000 OPCODE_TRAP [op_imm 0 16],
     insn ''UDIV'' 0xFFE0FC00 0x1AC00800 OPCODE_DIV [op_w 0 5, op_w 5 5, op_w 16 5]]"

definition arm64_instructions_3492 :: "bal_decoder_instruction_metadata_t list" where
  "arm64_instructions_3492 = [
     insn ''UDIV'' 0xFFE0FC00 0x9AC00800 OPCODE_DIV [op_x 0 5, op_x 5 5, op_x 16 5],
     insn ''UDIV'' 0xFF3FE000 0x04150000 OPCODE_DIV [op_v 0 5, op_v 5 5, op_v 10 3],
     insn ''UDIVR'' 0xFF3FE000 0x04170000 OPCODE_DIV [op_v 0 5, op_v 5 5, op_v 10 3],
     insn ''UDOT'' 0xBF00F400 0x2F00E000 OPCODE_TRAP [op_v 0 5, op_v 5 5, op_imm 11 1, op_v 16 4, op_v 20 1],
     insn ''UDOT'' 0xBF20FC00 0x2E009400 OPCODE_TRAP [op_v 0 5, op_v 5 5, op_v 16 5],
     insn ''UDOT'' 0xFFE0FC00 0x4400CC00 OPCODE_TRAP [op_v 0 5, op_v 5 5, op_v 16 5],
     insn ''UDOT'' 0xFFE0FC00 0x4480CC00 OPCODE_TRAP [op_v 0 5, op_v 5 5, op_v 16 3, op_imm 19 2],
     insn ''UDOT'' 0xFF20FC00 0x44000400 OPCODE_TRAP [op_v 0 5, op_v 5 5, op_v 16 5],
     insn ''UDOT'' 0xFFE0FC00 0x44A00400 OPCODE_TRAP [op_v 0 5, op_v 5 5, op_v 16 3, op_imm 19 2],
     insn ''UDOT'' 0xFFE0FC00 0x44E00400 OPCODE_TRAP [op_v 0 5, op_v 5 5, op_v 16 4, op_imm 20 1],
     insn ''UDOT'' 0xFFF09038 0xC1501010 OPCODE_TRAP [op_imm 0 3, op_v 6 4, op_imm 10 2, op_w 13 2, op_v 16 4],
     insn ''UDOT'' 0xFFF09078 0xC1509010 OPCODE_TRAP [op_imm 0 3, op_v 7 3, op_imm 10 2, op_w 13 2, op_v 16 4]]"

definition arm64_instructions_3504 :: "bal_decoder_instruction_metadata_t list" where
  "arm64_instructions_3504 = [
     insn ''UDOT'' 0xFFF09C18 0xC1601418 OPCODE_TRAP [op_imm 0 3, op_v 5 5, op_w 13 2, op_v 16 4],
     insn ''UDOT'' 0xFFF09C18 0xC1701418 OPCODE_TRAP [op_imm 0 3, op_v 5 5, op_w 13 2, op_v 16 4],
     insn ''UDOT'' 0xFFE19C38 0xC1E01418 OPCODE_TRAP [op_imm 0 3, op_v 6 4, op_w 13 2, op_v 17 4],
     insn ''UDOT'' 0xFFE39C78 0xC1E11418 OPCODE_TRAP [op_imm 0 3, op_v 7 3, op_w 13 2, op_v 18 3],
     insn ''UDOT'' 0xFFF09038 0xC1501030 OPCODE_TRAP [op_imm 0 3, op_v 6 4, op_imm 10 2, op_w 13 2, op_v 16 4],
     insn ''UDOT'' 0xFFF09078 0xC1509030 OPCODE_TRAP [op_imm 0 3, op_v 7 3, op_imm 10 2, op_w 13 2, op_v 16 4],
     insn ''UDOT'' 0xFFF09838 0xC1D00018 OPCODE_TRAP [op_imm 0 3, op_v 6 4, op_imm 10 1, op_w 13 2, op_v 16 4],
     insn ''UDOT'' 0xFFF09878 0xC1D08018 OPCODE_TRAP [op_imm 0 3, op_v 7 3, op_imm 10 1, op_w 13 2, op_v 16 4],
     insn ''UDOT'' 0xFFB09C18 0xC1201410 OPCODE_TRAP [op_imm 0 3, op_v 5 5, op_w 13 2, op_v 16 4],
     insn ''UDOT'' 0xFFB09C18 0xC1301410 OPCODE_TRAP [op_imm 0 3, op_v 5 5, op_w 13 2, op_v 16 4],
     insn ''UDOT'' 0xFFA19C38 0xC1A01410 OPCODE_TRAP [op_imm 0 3, op_v 6 4, op_w 13 2, op_v 17 4],
     insn ''UDOT'' 0xFFA39C78 0xC1A11410 OPCODE_TRAP [op_imm 0 3, op_v 7 3, op_w 13 2, op_v 18 3]]"

definition arm64_instructions_3516 :: "bal_decoder_instruction_metadata_t list" where
  "arm64_instructions_3516 = [
     insn ''UHADD'' 0xBF20FC00 0x2E200400 OPCODE_TRAP [op_v 0 5, op_v 5 5, op_v 16 5],
     insn ''UHADD'' 0xFF3FE000 0x44118000 OPCODE_TRAP [op_v 0 5, op_v 5 5, op_v 10 3],
     insn ''UHSUB'' 0xBF20FC00 0x2E202400 OPCODE_TRAP [op_v 0 5, op_v 5 5, op_v 16 5],
     insn ''UHSUB'' 0xFF3FE000 0x44138000 OPCODE_TRAP [op_v 0 5, op_v 5 5, op_v 10 3],
     insn ''UHSUBR'' 0xFF3FE000 0x44178000 OPCODE_TRAP [op_v 0 5, op_v 5 5, op_v 10 3],
     insn ''UMADDL'' 0xFFE08000 0x9BA00000 OPCODE_TRAP [op_x 0 5, op_w 5 5, op_x 10 5, op_w 16 5],
     insn ''UMAX'' 0xBF20FC00 0x2E206400 OPCODE_TRAP [op_v 0 5, op_v 5 5, op_v 16 5],
     insn ''UMAX'' 0xFFFC0000 0x11C40000 OPCODE_TRAP [op_w 0 5, op_w 5 5, op_imm 10 8],
     insn ''UMAX'' 0xFFFC0000 0x91C40000 OPCODE_TRAP [op_x 0 5, op_x 5 5, op_imm 10 8],
     insn ''UMAX'' 0xFF30FFE1 0xC120A001 OPCODE_TRAP [op_v 1 4, op_v 16 4],
     insn ''UMAX'' 0xFF30FFE3 0xC120A801 OPCODE_TRAP [op_v 2 3, op_v 16 4],
     insn ''UMAX'' 0xFF21FFE1 0xC120B001 OPCODE_TRAP [op_v 1 4, op_v 17 4]]"

definition arm64_instructions_3528 :: "bal_decoder_instruction_metadata_t list" where
  "arm64_instructions_3528 = [
     insn ''UMAX'' 0xFF23FFE3 0xC120B801 OPCODE_TRAP [op_v 2 3, op_v 18 3],
     insn ''UMAX'' 0xFFE0FC00 0x1AC06400 OPCODE_TRAP [op_w 0 5, op_w 5 5, op_w 16 5],
     insn ''UMAX'' 0xFFE0FC00 0x9AC06400 OPCODE_TRAP [op_x 0 5, op_x 5 5, op_x 16 5],
     insn ''UMAX'' 0xFF3FE000 0x04090000 OPCODE_TRAP [op_v 0 5, op_v 5 5, op_v 10 3],
     insn ''UMAX'' 0xFF3FE000 0x2529C000 OPCODE_TRAP [op_v 0 5, op_imm 5 8],
     insn ''UMAXP'' 0xBF20FC00 0x2E20A400 OPCODE_TRAP [op_v 0 5, op_v 5 5, op_v 16 5],
     insn ''UMAXP'' 0xFF3FE000 0x4415A000 OPCODE_TRAP [op_v 0 5, op_v 5 5, op_v 10 3],
     insn ''UMAXQV'' 0xFF3FE000 0x040D2000 OPCODE_TRAP [op_v 0 5, op_v 5 5, op_v 10 3],
     insn ''UMAXV'' 0xBF3FFC00 0x2E30A800 OPCODE_TRAP [op_v 0 5, op_v 5 5],
     insn ''UMAXV'' 0xFF3FE000 0x04092000 OPCODE_TRAP [op_v 0 5, op_v 5 5, op_v 10 3],
     insn ''UMIN'' 0xBF20FC00 0x2E206C00 OPCODE_TRAP [op_v 0 5, op_v 5 5, op_v 16 5],
     insn ''UMIN'' 0xFFFC0000 0x11CC0000 OPCODE_TRAP [op_w 0 5, op_w 5 5, op_imm 10 8]]"

definition arm64_instructions_3540 :: "bal_decoder_instruction_metadata_t list" where
  "arm64_instructions_3540 = [
     insn ''UMIN'' 0xFFFC0000 0x91CC0000 OPCODE_TRAP [op_x 0 5, op_x 5 5, op_imm 10 8],
     insn ''UMIN'' 0xFF30FFE1 0xC120A021 OPCODE_TRAP [op_v 1 4, op_v 16 4],
     insn ''UMIN'' 0xFF30FFE3 0xC120A821 OPCODE_TRAP [op_v 2 3, op_v 16 4],
     insn ''UMIN'' 0xFF21FFE1 0xC120B021 OPCODE_TRAP [op_v 1 4, op_v 17 4],
     insn ''UMIN'' 0xFF23FFE3 0xC120B821 OPCODE_TRAP [op_v 2 3, op_v 18 3],
     insn ''UMIN'' 0xFFE0FC00 0x1AC06C00 OPCODE_TRAP [op_w 0 5, op_w 5 5, op_w 16 5],
     insn ''UMIN'' 0xFFE0FC00 0x9AC06C00 OPCODE_TRAP [op_x 0 5, op_x 5 5, op_x 16 5],
     insn ''UMIN'' 0xFF3FE000 0x040B0000 OPCODE_TRAP [op_v 0 5, op_v 5 5, op_v 10 3],
     insn ''UMIN'' 0xFF3FE000 0x252BC000 OPCODE_TRAP [op_v 0 5, op_imm 5 8],
     insn ''UMINP'' 0xBF20FC00 0x2E20AC00 OPCODE_TRAP [op_v 0 5, op_v 5 5, op_v 16 5],
     insn ''UMINP'' 0xFF3FE000 0x4417A000 OPCODE_TRAP [op_v 0 5, op_v 5 5, op_v 10 3],
     insn ''UMINQV'' 0xFF3FE000 0x040F2000 OPCODE_TRAP [op_v 0 5, op_v 5 5, op_v 10 3]]"

definition arm64_instructions_3552 :: "bal_decoder_instruction_metadata_t list" where
  "arm64_instructions_3552 = [
     insn ''UMINV'' 0xBF3FFC00 0x2E31A800 OPCODE_TRAP [op_v 0 5, op_v 5 5],
     insn ''UMINV'' 0xFF3FE000 0x040B2000 OPCODE_TRAP [op_v 0 5, op_v 5 5, op_v 10 3],
     insn ''UMLAL'' 0xBF00F400 0x2F002000 OPCODE_TRAP [op_v 0 5, op_v 5 5, op_v 16 4, op_v 20 1, op_v 22 2],
     insn ''UMLAL'' 0xBF20FC00 0x2E208000 OPCODE_TRAP [op_v 0 5, op_v 5 5, op_v 16 5, op_cond 30 1],
     insn ''UMLAL'' 0xFFF01018 0xC1C01010 OPCODE_TRAP [op_imm 0 3, op_v 5 5, op_imm 10 2, op_w 13 2, op_imm 15 1],
     insn ''UMLAL'' 0xFFF09038 0xC1D01010 OPCODE_TRAP [op_imm 0 2, op_imm 2 1, op_v 6 4, op_imm 10 2, op_w 13 2],
     insn ''UMLAL'' 0xFFF09078 0xC1D09010 OPCODE_TRAP [op_imm 0 2, op_imm 2 1, op_v 7 3, op_imm 10 2, op_w 13 2],
     insn ''UMLAL'' 0xFFF09C18 0xC1600C10 OPCODE_TRAP [op_imm 0 3, op_v 5 5, op_w 13 2, op_v 16 4],
     insn ''UMLAL'' 0xFFF09C1C 0xC1600810 OPCODE_TRAP [op_imm 0 2, op_v 5 5, op_w 13 2, op_v 16 4],
     insn ''UMLAL'' 0xFFF09C1C 0xC1700810 OPCODE_TRAP [op_imm 0 2, op_v 5 5, op_w 13 2, op_v 16 4],
     insn ''UMLAL'' 0xFFE19C3C 0xC1E00810 OPCODE_TRAP [op_imm 0 2, op_v 6 4, op_w 13 2, op_v 17 4],
     insn ''UMLAL'' 0xFFE39C7C 0xC1E10810 OPCODE_TRAP [op_imm 0 2, op_v 7 3, op_w 13 2, op_v 18 3]]"

definition arm64_instructions_3564 :: "bal_decoder_instruction_metadata_t list" where
  "arm64_instructions_3564 = [
     insn ''UMLALB'' 0xFF20FC00 0x44004800 OPCODE_TRAP [op_v 0 5, op_v 5 5, op_v 16 5],
     insn ''UMLALB'' 0xFFE0F400 0x44A09000 OPCODE_TRAP [op_v 0 5, op_v 5 5, op_imm 11 1, op_v 16 3, op_imm 19 2],
     insn ''UMLALB'' 0xFFE0F400 0x44E09000 OPCODE_TRAP [op_v 0 5, op_v 5 5, op_imm 11 1, op_v 16 4, op_imm 20 1],
     insn ''UMLALL'' 0xFFF0001C 0xC1000010 OPCODE_TRAP [op_imm 0 2, op_v 5 5, op_imm 10 3, op_w 13 2, op_imm 15 1],
     insn ''UMLALL'' 0xFFF0101C 0xC1800010 OPCODE_TRAP [op_imm 0 2, op_v 5 5, op_imm 10 2, op_w 13 2, op_imm 15 1],
     insn ''UMLALL'' 0xFFF09038 0xC1100010 OPCODE_TRAP [op_imm 0 1, op_imm 1 2, op_v 6 4, op_imm 10 2, op_w 13 2],
     insn ''UMLALL'' 0xFFF09078 0xC1108010 OPCODE_TRAP [op_imm 0 1, op_imm 1 2, op_v 7 3, op_imm 10 2, op_w 13 2],
     insn ''UMLALL'' 0xFFF09838 0xC1900010 OPCODE_TRAP [op_imm 0 1, op_imm 1 2, op_v 6 4, op_imm 10 1, op_w 13 2],
     insn ''UMLALL'' 0xFFF09878 0xC1908010 OPCODE_TRAP [op_imm 0 1, op_imm 1 2, op_v 7 3, op_imm 10 1, op_w 13 2],
     insn ''UMLALL'' 0xFFB09C1C 0xC1200410 OPCODE_TRAP [op_imm 0 2, op_v 5 5, op_w 13 2, op_v 16 4],
     insn ''UMLALL'' 0xFFB09C1E 0xC1200010 OPCODE_TRAP [op_imm 0 1, op_v 5 5, op_w 13 2, op_v 16 4],
     insn ''UMLALL'' 0xFFB09C1E 0xC1300010 OPCODE_TRAP [op_imm 0 1, op_v 5 5, op_w 13 2, op_v 16 4]]"

definition arm64_instructions_3576 :: "bal_decoder_instruction_metadata_t list" where
  "arm64_instructions_3576 = [
     insn ''UMLALL'' 0xFFA19C3E 0xC1A00010 OPCODE_TRAP [op_imm 0 1, op_v 6 4, op_w 13 2, op_v 17 4],
     insn ''UMLALL'' 0xFFA39C7E 0xC1A10010 OPCODE_TRAP [op_imm 0 1, op_v 7 3, op_w 13 2, op_v 18 3],
     insn ''UMLALT'' 0xFF20FC00 0x44004C00 OPCODE_TRAP [op_v 0 5, op_v 5 5, op_v 16 5],
     insn ''UMLALT'' 0xFFE0F400 0x44A09400 OPCODE_TRAP [op_v 0 5, op_v 5 5, op_imm 11 1, op_v 16 3, op_imm 19 2],
     insn ''UMLALT'' 0xFFE0F400 0x44E09400 OPCODE_TRAP [op_v 0 5, op_v 5 5, op_imm 11 1, op_v 16 4, op_imm 20 1],
     insn ''UMLSL'' 0xBF00F400 0x2F006000 OPCODE_TRAP [op_v 0 5, op_v 5 5, op_v 16 4, op_v 20 1, op_v 22 2],
     insn ''UMLSL'' 0xBF20FC00 0x2E20A000 OPCODE_TRAP [op_v 0 5, op_v 5 5, op_v 16 5, op_cond 30 1],
     insn ''UMLSL'' 0xFFF01018 0xC1C01018 OPCODE_TRAP [op_imm 0 3, op_v 5 5, op_imm 10 2, op_w 13 2, op_imm 15 1],
     insn ''UMLSL'' 0xFFF09038 0xC1D01018 OPCODE_TRAP [op_imm 0 2, op_imm 2 1, op_v 6 4, op_imm 10 2, op_w 13 2],
     insn ''UMLSL'' 0xFFF09078 0xC1D09018 OPCODE_TRAP [op_imm 0 2, op_imm 2 1, op_v 7 3, op_imm 10 2, op_w 13 2],
     insn ''UMLSL'' 0xFFF09C18 0xC1600C18 OPCODE_TRAP [op_imm 0 3, op_v 5 5, op_w 13 2, op_v 16 4],
     insn ''UMLSL'' 0xFFF09C1C 0xC1600818 OPCODE_TRAP [op_imm 0 2, op_v 5 5, op_w 13 2, op_v 16 4]]"

definition arm64_instructions_3588 :: "bal_decoder_instruction_metadata_t list" where
  "arm64_instructions_3588 = [
     insn ''UMLSL'' 0xFFF09C1C 0xC1700818 OPCODE_TRAP [op_imm 0 2, op_v 5 5, op_w 13 2, op_v 16 4],
     insn ''UMLSL'' 0xFFE19C3C 0xC1E00818 OPCODE_TRAP [op_imm 0 2, op_v 6 4, op_w 13 2, op_v 17 4],
     insn ''UMLSL'' 0xFFE39C7C 0xC1E10818 OPCODE_TRAP [op_imm 0 2, op_v 7 3, op_w 13 2, op_v 18 3],
     insn ''UMLSLB'' 0xFF20FC00 0x44005800 OPCODE_TRAP [op_v 0 5, op_v 5 5, op_v 16 5],
     insn ''UMLSLB'' 0xFFE0F400 0x44A0B000 OPCODE_TRAP [op_v 0 5, op_v 5 5, op_imm 11 1, op_v 16 3, op_imm 19 2],
     insn ''UMLSLB'' 0xFFE0F400 0x44E0B000 OPCODE_TRAP [op_v 0 5, op_v 5 5, op_imm 11 1, op_v 16 4, op_imm 20 1],
     insn ''UMLSLL'' 0xFFF0001C 0xC1000018 OPCODE_TRAP [op_imm 0 2, op_v 5 5, op_imm 10 3, op_w 13 2, op_imm 15 1],
     insn ''UMLSLL'' 0xFFF0101C 0xC1800018 OPCODE_TRAP [op_imm 0 2, op_v 5 5, op_imm 10 2, op_w 13 2, op_imm 15 1],
     insn ''UMLSLL'' 0xFFF09038 0xC1100018 OPCODE_TRAP [op_imm 0 1, op_imm 1 2, op_v 6 4, op_imm 10 2, op_w 13 2],
     insn ''UMLSLL'' 0xFFF09078 0xC1108018 OPCODE_TRAP [op_imm 0 1, op_imm 1 2, op_v 7 3, op_imm 10 2, op_w 13 2],
     insn ''UMLSLL'' 0xFFF09838 0xC1900018 OPCODE_TRAP [op_imm 0 1, op_imm 1 2, op_v 6 4, op_imm 10 1, op_w 13 2],
     insn ''UMLSLL'' 0xFFF09878 0xC1908018 OPCODE_TRAP [op_imm 0 1, op_imm 1 2, op_v 7 3, op_imm 10 1, op_w 13 2]]"

definition arm64_instructions_3600 :: "bal_decoder_instruction_metadata_t list" where
  "arm64_instructions_3600 = [
     insn ''UMLSLL'' 0xFFB09C1C 0xC1200418 OPCODE_TRAP [op_imm 0 2, op_v 5 5, op_w 13 2, op_v 16 4],
     insn ''UMLSLL'' 0xFFB09C1E 0xC1200018 OPCODE_TRAP [op_imm 0 1, op_v 5 5, op_w 13 2, op_v 16 4],
     insn ''UMLSLL'' 0xFFB09C1E 0xC1300018 OPCODE_TRAP [op_imm 0 1, op_v 5 5, op_w 13 2, op_v 16 4],
     insn ''UMLSLL'' 0xFFA19C3E 0xC1A00018 OPCODE_TRAP [op_imm 0 1, op_v 6 4, op_w 13 2, op_v 17 4],
     insn ''UMLSLL'' 0xFFA39C7E 0xC1A10018 OPCODE_TRAP [op_imm 0 1, op_v 7 3, op_w 13 2, op_v 18 3],
     insn ''UMLSLT'' 0xFF20FC00 0x44005C00 OPCODE_TRAP [op_v 0 5, op_v 5 5, op_v 16 5],
     insn ''UMLSLT'' 0xFFE0F400 0x44A0B400 OPCODE_TRAP [op_v 0 5, op_v 5 5, op_imm 11 1, op_v 16 3, op_imm 19 2],
     insn ''UMLSLT'' 0xFFE0F400 0x44E0B400 OPCODE_TRAP [op_v 0 5, op_v 5 5, op_imm 11 1, op_v 16 4, op_imm 20 1],
     insn ''UMMLA'' 0xFFE0FC00 0x6E80A400 OPCODE_TRAP [op_v 0 5, op_v 5 5, op_v 16 5],
     insn ''UMMLA'' 0xFFE0FC00 0x45C09800 OPCODE_TRAP [op_v 0 5, op_v 5 5, op_v 16 5],
     insn ''UMSUBL'' 0xFFE0FC00 0x9BA0FC00 OPCODE_TRAP [op_x 0 5, op_w 5 5, op_w 16 5],
     insn ''UMOPA'' 0xFFE0001C 0xA1800008 OPCODE_TRAP [op_v 5 5, op_v 10 3, op_v 13 3, op_v 16 5]]"

definition arm64_instructions_3612 :: "bal_decoder_instruction_metadata_t list" where
  "arm64_instructions_3612 = [
     insn ''UMOPA'' 0xFFE00018 0xA1E00000 OPCODE_TRAP [op_v 5 5, op_v 10 3, op_v 13 3, op_v 16 5],
     insn ''UMOPA'' 0xFFE0001C 0xA1A00000 OPCODE_TRAP [op_v 5 5, op_v 10 3, op_v 13 3, op_v 16 5],
     insn ''UMOPS'' 0xFFE0001C 0xA1800018 OPCODE_TRAP [op_v 5 5, op_v 10 3, op_v 13 3, op_v 16 5],
     insn ''UMOPS'' 0xFFE00018 0xA1E00010 OPCODE_TRAP [op_v 5 5, op_v 10 3, op_v 13 3, op_v 16 5],
     insn ''UMOPS'' 0xFFE0001C 0xA1A00010 OPCODE_TRAP [op_v 5 5, op_v 10 3, op_v 13 3, op_v 16 5],
     insn ''UMOV'' 0xFFE0FC00 0x0E003C00 OPCODE_TRAP [op_w 0 5, op_v 5 5, op_imm 16 5],
     insn ''UMOV'' 0xFFEFFC00 0x4E083C00 OPCODE_TRAP [op_x 0 5, op_v 5 5, op_imm 16 5],
     insn ''UMSUBL'' 0xFFE08000 0x9BA08000 OPCODE_TRAP [op_x 0 5, op_w 5 5, op_x 10 5, op_w 16 5],
     insn ''UMULH'' 0xFFE0A492 0x9BC02492 OPCODE_TRAP [op_x 0 5, op_x 5 5, op_x 16 5],
     insn ''UMULH'' 0xFF3FE000 0x04130000 OPCODE_TRAP [op_v 0 5, op_v 5 5, op_v 10 3],
     insn ''UMULH'' 0xFF20FC00 0x04206C00 OPCODE_TRAP [op_v 0 5, op_v 5 5, op_v 16 5],
     insn ''UMULL'' 0xBF00F400 0x2F00A000 OPCODE_TRAP [op_v 0 5, op_v 5 5, op_v 16 4, op_v 20 1, op_v 22 2]]"

definition arm64_instructions_3624 :: "bal_decoder_instruction_metadata_t list" where
  "arm64_instructions_3624 = [
     insn ''UMULL'' 0xBF20FC00 0x2E20C000 OPCODE_TRAP [op_v 0 5, op_v 5 5, op_v 16 5, op_cond 30 1],
     insn ''UMADDL'' 0xFFE0FC00 0x9BA07C00 OPCODE_TRAP [op_x 0 5, op_w 5 5, op_w 16 5],
     insn ''UMULLB'' 0xFF20FC00 0x45007800 OPCODE_TRAP [op_v 0 5, op_v 5 5, op_v 16 5],
     insn ''UMULLB'' 0xFFE0F400 0x44A0D000 OPCODE_TRAP [op_v 0 5, op_v 5 5, op_imm 11 1, op_v 16 3, op_imm 19 2],
     insn ''UMULLB'' 0xFFE0F400 0x44E0D000 OPCODE_TRAP [op_v 0 5, op_v 5 5, op_imm 11 1, op_v 16 4, op_imm 20 1],
     insn ''UMULLT'' 0xFF20FC00 0x45007C00 OPCODE_TRAP [op_v 0 5, op_v 5 5, op_v 16 5],
     insn ''UMULLT'' 0xFFE0F400 0x44A0D400 OPCODE_TRAP [op_v 0 5, op_v 5 5, op_imm 11 1, op_v 16 3, op_imm 19 2],
     insn ''UMULLT'' 0xFFE0F400 0x44E0D400 OPCODE_TRAP [op_v 0 5, op_v 5 5, op_imm 11 1, op_v 16 4, op_imm 20 1],
     insn ''UQADD'' 0xBF20FC00 0x2E200C00 OPCODE_TRAP [op_v 0 5, op_v 5 5, op_v 16 5],
     insn ''UQADD'' 0xFF20FC00 0x7E200C00 OPCODE_TRAP [op_v 0 5, op_v 5 5, op_v 16 5],
     insn ''UQADD'' 0xFF3FE000 0x44198000 OPCODE_TRAP [op_v 0 5, op_v 5 5, op_v 10 3],
     insn ''UQADD'' 0xFF3FC000 0x2525C000 OPCODE_TRAP [op_v 0 5, op_imm 5 8, op_imm 13 1]]"

definition arm64_instructions_3636 :: "bal_decoder_instruction_metadata_t list" where
  "arm64_instructions_3636 = [
     insn ''UQADD'' 0xFF20FC00 0x04201400 OPCODE_TRAP [op_v 0 5, op_v 5 5, op_v 16 5],
     insn ''UQCVT'' 0xFFFFFC20 0xC123E020 OPCODE_TRAP [op_v 0 5, op_v 6 4],
     insn ''UQCVT'' 0xFF7FFC60 0xC133E020 OPCODE_TRAP [op_v 0 5, op_v 7 3],
     insn ''UQCVTN'' 0xFFFFFC20 0x45314800 OPCODE_TRAP [op_v 0 5, op_v 6 4],
     insn ''UQCVTN'' 0xFF7FFC60 0xC133E060 OPCODE_TRAP [op_v 0 5, op_v 7 3],
     insn ''UQDECB'' 0xFFF0FC00 0x0420FC00 OPCODE_TRAP [op_w 0 5, op_imm 5 5, op_imm 16 4],
     insn ''UQDECB'' 0xFFF0FC00 0x0430FC00 OPCODE_TRAP [op_x 0 5, op_imm 5 5, op_imm 16 4],
     insn ''UQDECD'' 0xFFF0FC00 0x04E0FC00 OPCODE_TRAP [op_w 0 5, op_imm 5 5, op_imm 16 4],
     insn ''UQDECD'' 0xFFF0FC00 0x04F0FC00 OPCODE_TRAP [op_x 0 5, op_imm 5 5, op_imm 16 4],
     insn ''UQDECD'' 0xFFF0FC00 0x04E0CC00 OPCODE_TRAP [op_v 0 5, op_imm 5 5, op_imm 16 4],
     insn ''UQDECH'' 0xFFF0FC00 0x0460FC00 OPCODE_TRAP [op_w 0 5, op_imm 5 5, op_imm 16 4],
     insn ''UQDECH'' 0xFFF0FC00 0x0470FC00 OPCODE_TRAP [op_x 0 5, op_imm 5 5, op_imm 16 4]]"

definition arm64_instructions_3648 :: "bal_decoder_instruction_metadata_t list" where
  "arm64_instructions_3648 = [
     insn ''UQDECH'' 0xFFF0FC00 0x0460CC00 OPCODE_TRAP [op_v 0 5, op_imm 5 5, op_imm 16 4],
     insn ''UQDECP'' 0xFF3FFE00 0x252B8800 OPCODE_TRAP [op_w 0 5, op_v 5 4],
     insn ''UQDECP'' 0xFF3FFE00 0x252B8C00 OPCODE_TRAP [op_x 0 5, op_v 5 4],
     insn ''UQDECP'' 0xFF3FFE00 0x252B8000 OPCODE_TRAP [op_v 0 5, op_v 5 4],
     insn ''UQDECW'' 0xFFF0FC00 0x04A0FC00 OPCODE_TRAP [op_w 0 5, op_imm 5 5, op_imm 16 4],
     insn ''UQDECW'' 0xFFF0FC00 0x04B0FC00 OPCODE_TRAP [op_x 0 5, op_imm 5 5, op_imm 16 4],
     insn ''UQDECW'' 0xFFF0FC00 0x04A0CC00 OPCODE_TRAP [op_v 0 5, op_imm 5 5, op_imm 16 4],
     insn ''UQINCB'' 0xFFF0FC00 0x0420F400 OPCODE_TRAP [op_w 0 5, op_imm 5 5, op_imm 16 4],
     insn ''UQINCB'' 0xFFF0FC00 0x0430F400 OPCODE_TRAP [op_x 0 5, op_imm 5 5, op_imm 16 4],
     insn ''UQINCD'' 0xFFF0FC00 0x04E0F400 OPCODE_TRAP [op_w 0 5, op_imm 5 5, op_imm 16 4],
     insn ''UQINCD'' 0xFFF0FC00 0x04F0F400 OPCODE_TRAP [op_x 0 5, op_imm 5 5, op_imm 16 4],
     insn ''UQINCD'' 0xFFF0FC00 0x04E0C400 OPCODE_TRAP [op_v 0 5, op_imm 5 5, op_imm 16 4]]"

definition arm64_instructions_3660 :: "bal_decoder_instruction_metadata_t list" where
  "arm64_instructions_3660 = [
     insn ''UQINCH'' 0xFFF0FC00 0x0460F400 OPCODE_TRAP [op_w 0 5, op_imm 5 5, op_imm 16 4],
     insn ''UQINCH'' 0xFFF0FC00 0x0470F400 OPCODE_TRAP [op_x 0 5, op_imm 5 5, op_imm 16 4],
     insn ''UQINCH'' 0xFFF0FC00 0x0460C400 OPCODE_TRAP [op_v 0 5, op_imm 5 5, op_imm 16 4],
     insn ''UQINCP'' 0xFF3FFE00 0x25298800 OPCODE_TRAP [op_w 0 5, op_v 5 4],
     insn ''UQINCP'' 0xFF3FFE00 0x25298C00 OPCODE_TRAP [op_x 0 5, op_v 5 4],
     insn ''UQINCP'' 0xFF3FFE00 0x25298000 OPCODE_TRAP [op_v 0 5, op_v 5 4],
     insn ''UQINCW'' 0xFFF0FC00 0x04A0F400 OPCODE_TRAP [op_w 0 5, op_imm 5 5, op_imm 16 4],
     insn ''UQINCW'' 0xFFF0FC00 0x04B0F400 OPCODE_TRAP [op_x 0 5, op_imm 5 5, op_imm 16 4],
     insn ''UQINCW'' 0xFFF0FC00 0x04A0C400 OPCODE_TRAP [op_v 0 5, op_imm 5 5, op_imm 16 4],
     insn ''UQRSHL'' 0xBF20FC00 0x2E205C00 OPCODE_TRAP [op_v 0 5, op_v 5 5, op_v 16 5],
     insn ''UQRSHL'' 0xFF20FC00 0x7E205C00 OPCODE_TRAP [op_v 0 5, op_v 5 5, op_v 16 5],
     insn ''UQRSHL'' 0xFF3FE000 0x440B8000 OPCODE_TRAP [op_v 0 5, op_v 5 5, op_v 10 3]]"

definition arm64_instructions_3672 :: "bal_decoder_instruction_metadata_t list" where
  "arm64_instructions_3672 = [
     insn ''UQRSHLR'' 0xFF3FE000 0x440F8000 OPCODE_TRAP [op_v 0 5, op_v 5 5, op_v 10 3],
     insn ''UQRSHR'' 0xFFF0FC20 0xC1E0D420 OPCODE_TRAP [op_v 0 5, op_v 6 4, op_imm 16 4],
     insn ''UQRSHR'' 0xFF20FC60 0xC120D820 OPCODE_TRAP [op_v 0 5, op_v 7 3, op_imm 16 5, op_imm 22 2],
     insn ''UQRSHRN'' 0xBF8FFC00 0x2F009C00 OPCODE_TRAP [op_v 0 5, op_v 5 5, op_v 19 4, op_v 30 1, op_cond 30 1],
     insn ''UQRSHRN'' 0xFF8FFC00 0x7F009C00 OPCODE_TRAP [op_v 0 5, op_v 5 5, op_imm 16 3, op_imm 19 4],
     insn ''UQRSHRN'' 0xFFF0FC20 0x45B03800 OPCODE_TRAP [op_v 0 5, op_v 6 4, op_imm 16 4],
     insn ''UQRSHRN'' 0xFF20FC60 0xC120DC20 OPCODE_TRAP [op_v 0 5, op_v 7 3, op_imm 16 5, op_imm 22 2],
     insn ''UQRSHRNB'' 0xFFA0FC00 0x45203800 OPCODE_TRAP [op_v 0 5, op_v 5 5, op_imm 16 3, op_imm 19 2, op_imm 22 1],
     insn ''UQRSHRNT'' 0xFFA0FC00 0x45203C00 OPCODE_TRAP [op_v 0 5, op_v 5 5, op_imm 16 3, op_imm 19 2, op_imm 22 1],
     insn ''UQSHL'' 0xBF8FFC00 0x2F007400 OPCODE_TRAP [op_v 0 5, op_v 5 5, op_imm 16 3, op_v 19 4, op_imm 19 4],
     insn ''UQSHL'' 0xFF8FFC00 0x7F007400 OPCODE_TRAP [op_v 0 5, op_v 5 5, op_imm 16 3, op_imm 19 4],
     insn ''UQSHL'' 0xBF20FC00 0x2E204C00 OPCODE_TRAP [op_v 0 5, op_v 5 5, op_v 16 5]]"

definition arm64_instructions_3684 :: "bal_decoder_instruction_metadata_t list" where
  "arm64_instructions_3684 = [
     insn ''UQSHL'' 0xFF20FC00 0x7E204C00 OPCODE_TRAP [op_v 0 5, op_v 5 5, op_v 16 5],
     insn ''UQSHL'' 0xFF3FE000 0x04078000 OPCODE_TRAP [op_v 0 5, op_imm 5 3, op_imm 8 2, op_v 10 3, op_imm 22 2],
     insn ''UQSHL'' 0xFF3FE000 0x44098000 OPCODE_TRAP [op_v 0 5, op_v 5 5, op_v 10 3],
     insn ''UQSHLR'' 0xFF3FE000 0x440D8000 OPCODE_TRAP [op_v 0 5, op_v 5 5, op_v 10 3],
     insn ''UQSHRN'' 0xBF8FFC00 0x2F009400 OPCODE_TRAP [op_v 0 5, op_v 5 5, op_v 19 4, op_v 30 1, op_cond 30 1],
     insn ''UQSHRN'' 0xFF8FFC00 0x7F009400 OPCODE_TRAP [op_v 0 5, op_v 5 5, op_imm 16 3, op_imm 19 4],
     insn ''UQSHRNB'' 0xFFA0FC00 0x45203000 OPCODE_TRAP [op_v 0 5, op_v 5 5, op_imm 16 3, op_imm 19 2, op_imm 22 1],
     insn ''UQSHRNT'' 0xFFA0FC00 0x45203400 OPCODE_TRAP [op_v 0 5, op_v 5 5, op_imm 16 3, op_imm 19 2, op_imm 22 1],
     insn ''UQSUB'' 0xBF20FC00 0x2E202C00 OPCODE_TRAP [op_v 0 5, op_v 5 5, op_v 16 5],
     insn ''UQSUB'' 0xFF20FC00 0x7E202C00 OPCODE_TRAP [op_v 0 5, op_v 5 5, op_v 16 5],
     insn ''UQSUB'' 0xFF3FE000 0x441B8000 OPCODE_TRAP [op_v 0 5, op_v 5 5, op_v 10 3],
     insn ''UQSUB'' 0xFF3FC000 0x2527C000 OPCODE_TRAP [op_v 0 5, op_imm 5 8, op_imm 13 1]]"

definition arm64_instructions_3696 :: "bal_decoder_instruction_metadata_t list" where
  "arm64_instructions_3696 = [
     insn ''UQSUB'' 0xFF20FC00 0x04201C00 OPCODE_TRAP [op_v 0 5, op_v 5 5, op_v 16 5],
     insn ''UQSUBR'' 0xFF3FE000 0x441F8000 OPCODE_TRAP [op_v 0 5, op_v 5 5, op_v 10 3],
     insn ''UQXTN'' 0xBF3FFC00 0x2E214800 OPCODE_TRAP [op_v 0 5, op_v 5 5, op_cond 30 1],
     insn ''UQXTN'' 0xFF3FFC00 0x7E214800 OPCODE_TRAP [op_v 0 5, op_v 5 5],
     insn ''UQXTNB'' 0xFFA7FC00 0x45204800 OPCODE_TRAP [op_v 0 5, op_v 5 5],
     insn ''UQXTNT'' 0xFFA7FC00 0x45204C00 OPCODE_TRAP [op_v 0 5, op_v 5 5],
     insn ''URECPE'' 0xBFBFFC00 0x0EA1C800 OPCODE_TRAP [op_v 0 5, op_v 5 5],
     insn ''URECPE'' 0xFF3FE000 0x4400A000 OPCODE_TRAP [op_v 0 5, op_v 5 5, op_v 10 3],
     insn ''URHADD'' 0xBF20FC00 0x2E201400 OPCODE_TRAP [op_v 0 5, op_v 5 5, op_v 16 5],
     insn ''URHADD'' 0xFF3FE000 0x44158000 OPCODE_TRAP [op_v 0 5, op_v 5 5, op_v 10 3],
     insn ''URSHL'' 0xBF20FC00 0x2E205400 OPCODE_TRAP [op_v 0 5, op_v 5 5, op_v 16 5],
     insn ''URSHL'' 0xFF20FC00 0x7E205400 OPCODE_TRAP [op_v 0 5, op_v 5 5, op_v 16 5]]"

definition arm64_instructions_3708 :: "bal_decoder_instruction_metadata_t list" where
  "arm64_instructions_3708 = [
     insn ''URSHL'' 0xFF30FFE1 0xC120A221 OPCODE_TRAP [op_v 1 4, op_v 16 4],
     insn ''URSHL'' 0xFF30FFE3 0xC120AA21 OPCODE_TRAP [op_v 2 3, op_v 16 4],
     insn ''URSHL'' 0xFF21FFE1 0xC120B221 OPCODE_TRAP [op_v 1 4, op_v 17 4],
     insn ''URSHL'' 0xFF23FFE3 0xC120BA21 OPCODE_TRAP [op_v 2 3, op_v 18 3],
     insn ''URSHL'' 0xFF3FE000 0x44038000 OPCODE_TRAP [op_v 0 5, op_v 5 5, op_v 10 3],
     insn ''URSHLR'' 0xFF3FE000 0x44078000 OPCODE_TRAP [op_v 0 5, op_v 5 5, op_v 10 3],
     insn ''URSHR'' 0xBF8FFC00 0x2F002400 OPCODE_TRAP [op_v 0 5, op_v 5 5, op_imm 16 3, op_v 19 4, op_imm 19 4],
     insn ''URSHR'' 0xFF8FFC00 0x7F002400 OPCODE_TRAP [op_v 0 5, op_v 5 5, op_imm 16 3, op_imm 19 4],
     insn ''URSHR'' 0xFF3FE000 0x040D8000 OPCODE_TRAP [op_v 0 5, op_imm 5 3, op_imm 8 2, op_v 10 3, op_imm 22 2],
     insn ''URSQRTE'' 0xBFBFFC00 0x2EA1C800 OPCODE_TRAP [op_v 0 5, op_v 5 5],
     insn ''URSQRTE'' 0xFF3FE000 0x4401A000 OPCODE_TRAP [op_v 0 5, op_v 5 5, op_v 10 3],
     insn ''URSRA'' 0xBF8FFC00 0x2F003400 OPCODE_TRAP [op_v 0 5, op_v 5 5, op_imm 16 3, op_v 19 4, op_imm 19 4]]"

definition arm64_instructions_3720 :: "bal_decoder_instruction_metadata_t list" where
  "arm64_instructions_3720 = [
     insn ''URSRA'' 0xFF8FFC00 0x7F003400 OPCODE_TRAP [op_v 0 5, op_v 5 5, op_imm 16 3, op_imm 19 4],
     insn ''URSRA'' 0xFF20FC00 0x4500EC00 OPCODE_TRAP [op_v 0 5, op_v 5 5, op_imm 16 3, op_imm 19 2, op_imm 22 2],
     insn ''USDOT'' 0xBFC0F400 0x0F80F000 OPCODE_TRAP [op_v 0 5, op_v 5 5, op_imm 11 1, op_v 16 4, op_v 20 1],
     insn ''USDOT'' 0xBFE0FC00 0x0E809C00 OPCODE_TRAP [op_v 0 5, op_v 5 5, op_v 16 5],
     insn ''USDOT'' 0xFFE0FC00 0x44807800 OPCODE_TRAP [op_v 0 5, op_v 5 5, op_v 16 5],
     insn ''USDOT'' 0xFFE0FC00 0x44A01800 OPCODE_TRAP [op_v 0 5, op_v 5 5, op_v 16 3, op_imm 19 2],
     insn ''USDOT'' 0xFFF09038 0xC1501028 OPCODE_TRAP [op_imm 0 3, op_v 6 4, op_imm 10 2, op_w 13 2, op_v 16 4],
     insn ''USDOT'' 0xFFF09078 0xC1509028 OPCODE_TRAP [op_imm 0 3, op_v 7 3, op_imm 10 2, op_w 13 2, op_v 16 4],
     insn ''USDOT'' 0xFFF09C18 0xC1201408 OPCODE_TRAP [op_imm 0 3, op_v 5 5, op_w 13 2, op_v 16 4],
     insn ''USDOT'' 0xFFF09C18 0xC1301408 OPCODE_TRAP [op_imm 0 3, op_v 5 5, op_w 13 2, op_v 16 4],
     insn ''USDOT'' 0xFFE19C38 0xC1A01408 OPCODE_TRAP [op_imm 0 3, op_v 6 4, op_w 13 2, op_v 17 4],
     insn ''USDOT'' 0xFFE39C78 0xC1A11408 OPCODE_TRAP [op_imm 0 3, op_v 7 3, op_w 13 2, op_v 18 3]]"

definition arm64_instructions_3732 :: "bal_decoder_instruction_metadata_t list" where
  "arm64_instructions_3732 = [
     insn ''USHL'' 0xBF20FC00 0x2E204400 OPCODE_TRAP [op_v 0 5, op_v 5 5, op_v 16 5],
     insn ''USHL'' 0xFF20FC00 0x7E204400 OPCODE_TRAP [op_v 0 5, op_v 5 5, op_v 16 5],
     insn ''USHLL'' 0xBF8FFC00 0x2F00A400 OPCODE_TRAP [op_v 0 5, op_v 5 5, op_v 19 4, op_cond 30 1, op_v 30 1],
     insn ''USHLLB'' 0xFFA0FC00 0x4500A800 OPCODE_TRAP [op_v 0 5, op_v 5 5, op_imm 16 3, op_imm 19 2, op_imm 22 1],
     insn ''USHLLT'' 0xFFA0FC00 0x4500AC00 OPCODE_TRAP [op_v 0 5, op_v 5 5, op_imm 16 3, op_imm 19 2, op_imm 22 1],
     insn ''USHR'' 0xBF8FFC00 0x2F000400 OPCODE_TRAP [op_v 0 5, op_v 5 5, op_imm 16 3, op_v 19 4, op_imm 19 4],
     insn ''USHR'' 0xFF8FFC00 0x7F000400 OPCODE_TRAP [op_v 0 5, op_v 5 5, op_imm 16 3, op_imm 19 4],
     insn ''USMLALL'' 0xFFF0001C 0xC1000004 OPCODE_TRAP [op_imm 0 2, op_v 5 5, op_imm 10 3, op_w 13 2, op_imm 15 1],
     insn ''USMLALL'' 0xFFF09038 0xC1100020 OPCODE_TRAP [op_imm 0 1, op_imm 1 2, op_v 6 4, op_imm 10 2, op_w 13 2],
     insn ''USMLALL'' 0xFFF09078 0xC1108020 OPCODE_TRAP [op_imm 0 1, op_imm 1 2, op_v 7 3, op_imm 10 2, op_w 13 2],
     insn ''USMLALL'' 0xFFF09C1C 0xC1200404 OPCODE_TRAP [op_imm 0 2, op_v 5 5, op_w 13 2, op_v 16 4],
     insn ''USMLALL'' 0xFFF09C1E 0xC1200004 OPCODE_TRAP [op_imm 0 1, op_v 5 5, op_w 13 2, op_v 16 4]]"

definition arm64_instructions_3744 :: "bal_decoder_instruction_metadata_t list" where
  "arm64_instructions_3744 = [
     insn ''USMLALL'' 0xFFF09C1E 0xC1300004 OPCODE_TRAP [op_imm 0 1, op_v 5 5, op_w 13 2, op_v 16 4],
     insn ''USMLALL'' 0xFFE19C3E 0xC1A00004 OPCODE_TRAP [op_imm 0 1, op_v 6 4, op_w 13 2, op_v 17 4],
     insn ''USMLALL'' 0xFFE39C7E 0xC1A10004 OPCODE_TRAP [op_imm 0 1, op_v 7 3, op_w 13 2, op_v 18 3],
     insn ''USMMLA'' 0xFFE0FC00 0x4E80AC00 OPCODE_TRAP [op_v 0 5, op_v 5 5, op_v 16 5],
     insn ''USMMLA'' 0xFFE0FC00 0x45809800 OPCODE_TRAP [op_v 0 5, op_v 5 5, op_v 16 5],
     insn ''USMOPA'' 0xFFE00018 0xA1C00000 OPCODE_TRAP [op_v 5 5, op_v 10 3, op_v 13 3, op_v 16 5],
     insn ''USMOPA'' 0xFFE0001C 0xA1800000 OPCODE_TRAP [op_v 5 5, op_v 10 3, op_v 13 3, op_v 16 5],
     insn ''USMOPS'' 0xFFE00018 0xA1C00010 OPCODE_TRAP [op_v 5 5, op_v 10 3, op_v 13 3, op_v 16 5],
     insn ''USMOPS'' 0xFFE0001C 0xA1800010 OPCODE_TRAP [op_v 5 5, op_v 10 3, op_v 13 3, op_v 16 5],
     insn ''USQADD'' 0xBF3FFC00 0x2E203800 OPCODE_TRAP [op_v 0 5, op_v 5 5],
     insn ''USQADD'' 0xFF3FFC00 0x7E203800 OPCODE_TRAP [op_v 0 5, op_v 5 5],
     insn ''USQADD'' 0xFF3FE000 0x441D8000 OPCODE_TRAP [op_v 0 5, op_v 5 5, op_v 10 3]]"

definition arm64_instructions_3756 :: "bal_decoder_instruction_metadata_t list" where
  "arm64_instructions_3756 = [
     insn ''USRA'' 0xBF8FFC00 0x2F001400 OPCODE_TRAP [op_v 0 5, op_v 5 5, op_imm 16 3, op_v 19 4, op_imm 19 4],
     insn ''USRA'' 0xFF8FFC00 0x7F001400 OPCODE_TRAP [op_v 0 5, op_v 5 5, op_imm 16 3, op_imm 19 4],
     insn ''USRA'' 0xFF20FC00 0x4500E400 OPCODE_TRAP [op_v 0 5, op_v 5 5, op_imm 16 3, op_imm 19 2, op_imm 22 2],
     insn ''USUBL'' 0xBF20FC00 0x2E202000 OPCODE_TRAP [op_v 0 5, op_v 5 5, op_v 16 5, op_cond 30 1],
     insn ''USUBLB'' 0xFF20FC00 0x45001800 OPCODE_TRAP [op_v 0 5, op_v 5 5, op_v 16 5],
     insn ''USUBLT'' 0xFF20FC00 0x45001C00 OPCODE_TRAP [op_v 0 5, op_v 5 5, op_v 16 5],
     insn ''USUBW'' 0xBF20FC00 0x2E203000 OPCODE_TRAP [op_v 0 5, op_v 5 5, op_v 16 5, op_cond 30 1],
     insn ''USUBWB'' 0xFF20FC00 0x45005800 OPCODE_TRAP [op_v 0 5, op_v 5 5, op_v 16 5],
     insn ''USUBWT'' 0xFF20FC00 0x45005C00 OPCODE_TRAP [op_v 0 5, op_v 5 5, op_v 16 5],
     insn ''USVDOT'' 0xFFF09078 0xC1508028 OPCODE_TRAP [op_imm 0 3, op_v 7 3, op_imm 10 2, op_w 13 2, op_v 16 4],
     insn ''UUNPK'' 0xFF3FFC01 0xC125E001 OPCODE_TRAP [op_v 1 4, op_v 5 5],
     insn ''UUNPK'' 0xFF3FFC23 0xC135E001 OPCODE_TRAP [op_v 2 3, op_v 6 4]]"

definition arm64_instructions_3768 :: "bal_decoder_instruction_metadata_t list" where
  "arm64_instructions_3768 = [
     insn ''UUNPKHI'' 0xFF3FFC00 0x05333800 OPCODE_TRAP [op_v 0 5, op_v 5 5],
     insn ''UUNPKLO'' 0xFF3FFC00 0x05323800 OPCODE_TRAP [op_v 0 5, op_v 5 5],
     insn ''UVDOT'' 0xFFF09038 0xC1500030 OPCODE_TRAP [op_imm 0 3, op_v 6 4, op_imm 10 2, op_w 13 2, op_v 16 4],
     insn ''UVDOT'' 0xFFF09078 0xC1508030 OPCODE_TRAP [op_imm 0 3, op_v 7 3, op_imm 10 2, op_w 13 2, op_v 16 4],
     insn ''UVDOT'' 0xFFF09878 0xC1D08818 OPCODE_TRAP [op_imm 0 3, op_v 7 3, op_imm 10 1, op_w 13 2, op_v 16 4],
     insn ''UBFM'' 0xFFFFFC00 0x53001C00 OPCODE_TRAP [op_w 0 5, op_w 5 5],
     insn ''UXTB'' 0xFF3FE000 0x0411A000 OPCODE_TRAP [op_v 0 5, op_v 5 5, op_v 10 3],
     insn ''UXTH'' 0xFF3FE000 0x0413A000 OPCODE_TRAP [op_v 0 5, op_v 5 5, op_v 10 3],
     insn ''UXTW'' 0xFF3FE000 0x0415A000 OPCODE_TRAP [op_v 0 5, op_v 5 5, op_v 10 3],
     insn ''UBFM'' 0xFFFFFC00 0x53003C00 OPCODE_TRAP [op_w 0 5, op_w 5 5],
     insn ''USHLL'' 0xBF8FFC00 0x2F00A400 OPCODE_TRAP [op_v 0 5, op_v 5 5, op_v 19 4, op_cond 30 1, op_v 30 1],
     insn ''UZP1'' 0xBF20FC00 0x0E001800 OPCODE_TRAP [op_v 0 5, op_v 5 5, op_v 16 5]]"

definition arm64_instructions_3780 :: "bal_decoder_instruction_metadata_t list" where
  "arm64_instructions_3780 = [
     insn ''UZP1'' 0xFF30FE10 0x05204800 OPCODE_TRAP [op_v 0 4, op_v 5 4, op_v 16 4],
     insn ''UZP2'' 0xFF30FE10 0x05204C00 OPCODE_TRAP [op_v 0 4, op_v 5 4, op_v 16 4],
     insn ''UZP1'' 0xFF20FC00 0x05206800 OPCODE_TRAP [op_v 0 5, op_v 5 5, op_v 16 5],
     insn ''UZP1'' 0xFFE0FC00 0x05A00800 OPCODE_TRAP [op_v 0 5, op_v 5 5, op_v 16 5],
     insn ''UZP2'' 0xFF20FC00 0x05206C00 OPCODE_TRAP [op_v 0 5, op_v 5 5, op_v 16 5],
     insn ''UZP2'' 0xFFE0FC00 0x05A00C00 OPCODE_TRAP [op_v 0 5, op_v 5 5, op_v 16 5],
     insn ''UZP2'' 0xBF20FC00 0x0E005800 OPCODE_TRAP [op_v 0 5, op_v 5 5, op_v 16 5],
     insn ''UZP'' 0xFF3FFC63 0xC136E002 OPCODE_TRAP [op_v 2 3, op_v 7 3],
     insn ''UZP'' 0xFFFFFC63 0xC137E002 OPCODE_TRAP [op_v 2 3, op_v 7 3],
     insn ''UZP'' 0xFF20FC01 0xC120D001 OPCODE_TRAP [op_v 1 4, op_v 5 5, op_v 16 5],
     insn ''UZP'' 0xFFE0FC01 0xC120D401 OPCODE_TRAP [op_v 1 4, op_v 5 5, op_v 16 5],
     insn ''UZPQ1'' 0xFF20FC00 0x4400E800 OPCODE_TRAP [op_v 0 5, op_v 5 5, op_v 16 5]]"

definition arm64_instructions_3792 :: "bal_decoder_instruction_metadata_t list" where
  "arm64_instructions_3792 = [
     insn ''UZPQ2'' 0xFF20FC00 0x4400EC00 OPCODE_TRAP [op_v 0 5, op_v 5 5, op_v 16 5],
     insn ''WFE'' 0xFFFFFFFF 0xD503205F OPCODE_TRAP [],
     insn ''WFET'' 0xFFFFFFE0 0xD5031000 OPCODE_TRAP [op_x 0 5],
     insn ''WFI'' 0xFFFFFFFF 0xD503207F OPCODE_TRAP [],
     insn ''WFIT'' 0xFFFFFFE0 0xD5031020 OPCODE_TRAP [op_x 0 5],
     insn ''WHILEGE'' 0xFF20EC10 0x25200000 OPCODE_TRAP [op_v 0 4],
     insn ''WHILEGE'' 0xFF20DC18 0x25204010 OPCODE_TRAP [op_v 0 3, op_x 5 5, op_x 16 5],
     insn ''WHILEGE'' 0xFF20FC11 0x25205010 OPCODE_TRAP [op_v 1 3, op_x 5 5, op_x 16 5],
     insn ''WHILEGT'' 0xFF20EC10 0x25200010 OPCODE_TRAP [op_v 0 4],
     insn ''WHILEGT'' 0xFF20DC18 0x25204018 OPCODE_TRAP [op_v 0 3, op_x 5 5, op_x 16 5],
     insn ''WHILEGT'' 0xFF20FC11 0x25205011 OPCODE_TRAP [op_v 1 3, op_x 5 5, op_x 16 5],
     insn ''WHILEHI'' 0xFF20EC10 0x25200810 OPCODE_TRAP [op_v 0 4]]"

definition arm64_instructions_3804 :: "bal_decoder_instruction_metadata_t list" where
  "arm64_instructions_3804 = [
     insn ''WHILEHI'' 0xFF20DC18 0x25204818 OPCODE_TRAP [op_v 0 3, op_x 5 5, op_x 16 5],
     insn ''WHILEHI'' 0xFF20FC11 0x25205811 OPCODE_TRAP [op_v 1 3, op_x 5 5, op_x 16 5],
     insn ''WHILEHS'' 0xFF20EC10 0x25200800 OPCODE_TRAP [op_v 0 4],
     insn ''WHILEHS'' 0xFF20DC18 0x25204810 OPCODE_TRAP [op_v 0 3, op_x 5 5, op_x 16 5],
     insn ''WHILEHS'' 0xFF20FC11 0x25205810 OPCODE_TRAP [op_v 1 3, op_x 5 5, op_x 16 5],
     insn ''WHILELE'' 0xFF20EC10 0x25200410 OPCODE_TRAP [op_v 0 4],
     insn ''WHILELE'' 0xFF20DC18 0x25204418 OPCODE_TRAP [op_v 0 3, op_x 5 5, op_x 16 5],
     insn ''WHILELE'' 0xFF20FC11 0x25205411 OPCODE_TRAP [op_v 1 3, op_x 5 5, op_x 16 5],
     insn ''WHILELO'' 0xFF20EC10 0x25200C00 OPCODE_TRAP [op_v 0 4],
     insn ''WHILELO'' 0xFF20DC18 0x25204C10 OPCODE_TRAP [op_v 0 3, op_x 5 5, op_x 16 5],
     insn ''WHILELO'' 0xFF20FC11 0x25205C10 OPCODE_TRAP [op_v 1 3, op_x 5 5, op_x 16 5],
     insn ''WHILELS'' 0xFF20EC10 0x25200C10 OPCODE_TRAP [op_v 0 4]]"

definition arm64_instructions_3816 :: "bal_decoder_instruction_metadata_t list" where
  "arm64_instructions_3816 = [
     insn ''WHILELS'' 0xFF20DC18 0x25204C18 OPCODE_TRAP [op_v 0 3, op_x 5 5, op_x 16 5],
     insn ''WHILELS'' 0xFF20FC11 0x25205C11 OPCODE_TRAP [op_v 1 3, op_x 5 5, op_x 16 5],
     insn ''WHILELT'' 0xFF20EC10 0x25200400 OPCODE_TRAP [op_v 0 4],
     insn ''WHILELT'' 0xFF20DC18 0x25204410 OPCODE_TRAP [op_v 0 3, op_x 5 5, op_x 16 5],
     insn ''WHILELT'' 0xFF20FC11 0x25205410 OPCODE_TRAP [op_v 1 3, op_x 5 5, op_x 16 5],
     insn ''WHILERW'' 0xFF20FC10 0x25203010 OPCODE_TRAP [op_v 0 4, op_x 5 5, op_x 16 5],
     insn ''WHILEWR'' 0xFF20FC10 0x25203000 OPCODE_TRAP [op_v 0 4, op_x 5 5, op_x 16 5],
     insn ''WRFFR'' 0xFFFFFE1F 0x25289000 OPCODE_TRAP [op_v 5 4],
     insn ''XAFLAG'' 0xFFFFF4FF 0xD500403F OPCODE_TRAP [],
     insn ''XAR'' 0xFFE00000 0xCE800000 OPCODE_TRAP [op_v 0 5, op_v 5 5, op_v 16 5],
     insn ''XAR'' 0xFF20FC00 0x04203400 OPCODE_TRAP [op_v 0 5, op_v 5 5, op_imm 16 3, op_imm 19 2, op_imm 22 2],
     insn ''XPACD'' 0xFFFFFFE0 0xDAC147E0 OPCODE_TRAP [op_x 0 5]]"

definition arm64_instructions_3828 :: "bal_decoder_instruction_metadata_t list" where
  "arm64_instructions_3828 = [
     insn ''XPACI'' 0xFFFFFFE0 0xDAC143E0 OPCODE_TRAP [op_x 0 5],
     insn ''XPACLRI'' 0xFFFFFFFF 0xD50320FF OPCODE_TRAP [],
     insn ''XTN'' 0xBF3FFC00 0x0E212800 OPCODE_TRAP [op_v 0 5, op_v 5 5, op_cond 30 1],
     insn ''YIELD'' 0xFFFFFFFF 0xD503203F OPCODE_TRAP [],
     insn ''ZERO'' 0xFFFF9FF8 0xC00C0000 OPCODE_TRAP [op_imm 0 3, op_w 13 2],
     insn ''ZERO'' 0xFFFF9FF8 0xC00E0000 OPCODE_TRAP [op_imm 0 3, op_w 13 2],
     insn ''ZERO'' 0xFFFF9FF8 0xC00C8000 OPCODE_TRAP [op_imm 0 3, op_w 13 2],
     insn ''ZERO'' 0xFFFF9FFC 0xC00D0000 OPCODE_TRAP [op_imm 0 2, op_w 13 2],
     insn ''ZERO'' 0xFFFF9FFC 0xC00D8000 OPCODE_TRAP [op_imm 0 2, op_w 13 2],
     insn ''ZERO'' 0xFFFF9FFC 0xC00E8000 OPCODE_TRAP [op_imm 0 2, op_w 13 2],
     insn ''ZERO'' 0xFFFF9FFE 0xC00F0000 OPCODE_TRAP [op_imm 0 1, op_w 13 2],
     insn ''ZERO'' 0xFFFF9FFE 0xC00F8000 OPCODE_TRAP [op_imm 0 1, op_w 13 2]]"

definition arm64_instructions_3840 :: "bal_decoder_instruction_metadata_t list" where
  "arm64_instructions_3840 = [
     insn ''ZERO'' 0xFFFFFF00 0xC0080000 OPCODE_TRAP [],
     insn ''ZERO'' 0xFFFFFFFF 0xC0480001 OPCODE_TRAP [],
     insn ''ZIP1'' 0xBF20FC00 0x0E003800 OPCODE_TRAP [op_v 0 5, op_v 5 5, op_v 16 5],
     insn ''ZIP1'' 0xFF30FE10 0x05204000 OPCODE_TRAP [op_v 0 4, op_v 5 4, op_v 16 4],
     insn ''ZIP2'' 0xFF30FE10 0x05204400 OPCODE_TRAP [op_v 0 4, op_v 5 4, op_v 16 4],
     insn ''ZIP1'' 0xFF20FC00 0x05206000 OPCODE_TRAP [op_v 0 5, op_v 5 5, op_v 16 5],
     insn ''ZIP1'' 0xFFE0FC00 0x05A00000 OPCODE_TRAP [op_v 0 5, op_v 5 5, op_v 16 5],
     insn ''ZIP2'' 0xFF20FC00 0x05206400 OPCODE_TRAP [op_v 0 5, op_v 5 5, op_v 16 5],
     insn ''ZIP2'' 0xFFE0FC00 0x05A00400 OPCODE_TRAP [op_v 0 5, op_v 5 5, op_v 16 5],
     insn ''ZIP2'' 0xBF20FC00 0x0E007800 OPCODE_TRAP [op_v 0 5, op_v 5 5, op_v 16 5],
     insn ''ZIP'' 0xFF3FFC63 0xC136E000 OPCODE_TRAP [op_v 2 3, op_v 7 3],
     insn ''ZIP'' 0xFFFFFC63 0xC137E000 OPCODE_TRAP [op_v 2 3, op_v 7 3]]"

definition arm64_instructions_3852 :: "bal_decoder_instruction_metadata_t list" where
  "arm64_instructions_3852 = [
     insn ''ZIP'' 0xFF20FC01 0xC120D000 OPCODE_TRAP [op_v 1 4, op_v 5 5, op_v 16 5],
     insn ''ZIP'' 0xFFE0FC01 0xC120D400 OPCODE_TRAP [op_v 1 4, op_v 5 5, op_v 16 5],
     insn ''ZIPQ1'' 0xFF20FC00 0x4400E000 OPCODE_TRAP [op_v 0 5, op_v 5 5, op_v 16 5],
     insn ''ZIPQ2'' 0xFF20FC00 0x4400E400 OPCODE_TRAP [op_v 0 5, op_v 5 5, op_v 16 5]]"

definition arm64_part_8 :: "bal_decoder_instruction_metadata_t list list" where
  "arm64_part_8 = [
     arm64_instructions_3444, arm64_instructions_3456, arm64_instructions_3468,
     arm64_instructions_3480, arm64_instructions_3492, arm64_instructions_3504,
     arm64_instructions_3516, arm64_instructions_3528, arm64_instructions_3540,
     arm64_instructions_3552, arm64_instructions_3564, arm64_instructions_3576,
     arm64_instructions_3588, arm64_instructions_3600, arm64_instructions_3612,
     arm64_instructions_3624, arm64_instructions_3636, arm64_instructions_3648,
     arm64_instructions_3660, arm64_instructions_3672, arm64_instructions_3684,
     arm64_instructions_3696, arm64_instructions_3708, arm64_instructions_3720,
     arm64_instructions_3732, arm64_instructions_3744, arm64_instructions_3756,
     arm64_instructions_3768, arm64_instructions_3780, arm64_instructions_3792,
     arm64_instructions_3804, arm64_instructions_3816, arm64_instructions_3828,
     arm64_instructions_3840, arm64_instructions_3852]"

section \<open>The entries are complete, and their top bits\<close>

lemma keys_of_3444: "map mask_value arm64_instructions_3444 =
     [(0xFF3FE000, 0x4405A000), (0xBF20FC00, 0x2E200000), (0xFF20FC00, 0x45000800),
      (0xBF3FFC00, 0x2E202800), (0xFF20FC00, 0x45000C00), (0xBF3FFC00, 0x2E303800),
      (0xFF3FE000, 0x4012000), (0xBF20FC00, 0x2E201000), (0xFF20FC00, 0x45004800),
      (0xFF20FC00, 0x45004C00), (0xFFC00000, 0x53000000), (0xFFC00000, 0xD3400000)]"
  by (simp only: arm64_instructions_3444_def read_entries)

lemma entries_3444:
  "length arm64_instructions_3444 = 12" "list_all metadata_wf arm64_instructions_3444"
  "map top_bits arm64_instructions_3444 =
     [(2041, 544), (1529, 369), (2041, 552), (1529, 369), (2041, 552), (1529, 369), (2041, 32),
      (1529, 369), (2041, 552), (2041, 552), (2046, 664), (2046, 1690)]"
  by (simp add: arm64_instructions_3444_def, simp add: arm64_instructions_3444_def, simp add: top_bits_mask_value keys_of_3444)

lemma keys_of_3456: "map mask_value arm64_instructions_3456 =
     [(0xFFC00000, 0x53000000), (0xFFC00000, 0xD3400000), (0xFFC00000, 0x53000000),
      (0xFFC00000, 0xD3400000), (0xFF20FC01, 0xC120C401), (0xFF20FC03, 0xC120CC01),
      (0xFF20FC00, 0x4400C400), (0xBF8FFC00, 0x2F00E400), (0xFF8FFC00, 0x7F00E400),
      (0xBFBFFC00, 0x2E21D800), (0xBFFFFC00, 0x2E79D800), (0xFFBFFC00, 0x7E21D800)]"
  by (simp only: arm64_instructions_3456_def read_entries)

lemma entries_3456:
  "length arm64_instructions_3456 = 12" "list_all metadata_wf arm64_instructions_3456"
  "map top_bits arm64_instructions_3456 =
     [(2046, 664), (2046, 1690), (2046, 664), (2046, 1690), (2041, 1545), (2041, 1545),
      (2041, 544), (1532, 376), (2044, 1016), (1533, 369), (1535, 371), (2045, 1009)]"
  by (simp add: arm64_instructions_3456_def, simp add: arm64_instructions_3456_def, simp add: top_bits_mask_value keys_of_3456)

lemma keys_of_3468: "map mask_value arm64_instructions_3468 =
     [(0xFFFFFC00, 0x7E79D800), (0xFFFF0000, 0x1E030000), (0xFFFF0000, 0x1E430000),
      (0xFFFF0000, 0x1EC30000), (0xFFFF0000, 0x9E030000), (0xFFFF0000, 0x9E430000),
      (0xFFFF0000, 0x9EC30000), (0xFFFFFC00, 0x1E230000), (0xFFFFFC00, 0x1E630000),
      (0xFFFFFC00, 0x1EE30000), (0xFFFFFC00, 0x9E230000), (0xFFFFFC00, 0x9E630000)]"
  by (simp only: arm64_instructions_3468_def read_entries)

lemma entries_3468:
  "length arm64_instructions_3468 = 12" "list_all metadata_wf arm64_instructions_3468"
  "map top_bits arm64_instructions_3468 =
     [(2047, 1011), (2047, 240), (2047, 242), (2047, 246), (2047, 1264), (2047, 1266),
      (2047, 1270), (2047, 241), (2047, 243), (2047, 247), (2047, 1265), (2047, 1267)]"
  by (simp add: arm64_instructions_3468_def, simp add: arm64_instructions_3468_def, simp add: top_bits_mask_value keys_of_3468)

lemma keys_of_3480: "map mask_value arm64_instructions_3480 =
     [(0xFFFFFC00, 0x9EE30000), (0xFFFFFC21, 0xC122E020), (0xFFFFFC63, 0xC132E020),
      (0xFFFFE000, 0x6553A000), (0xFFFFE000, 0x6555A000), (0xFFFFE000, 0x6557A000),
      (0xFFFFE000, 0x6595A000), (0xFFFFE000, 0x65D1A000), (0xFFFFE000, 0x65D5A000),
      (0xFFFFE000, 0x65D7A000), (0xFFFF0000, 0x0), (0xFFE0FC00, 0x1AC00800)]"
  by (simp only: arm64_instructions_3480_def read_entries)

lemma entries_3480:
  "length arm64_instructions_3480 = 12" "list_all metadata_wf arm64_instructions_3480"
  "map top_bits arm64_instructions_3480 =
     [(2047, 1271), (2047, 1545), (2047, 1545), (2047, 810), (2047, 810), (2047, 810),
      (2047, 812), (2047, 814), (2047, 814), (2047, 814), (2047, 0), (2047, 214)]"
  by (simp add: arm64_instructions_3480_def, simp add: arm64_instructions_3480_def, simp add: top_bits_mask_value keys_of_3480)

lemma keys_of_3492: "map mask_value arm64_instructions_3492 =
     [(0xFFE0FC00, 0x9AC00800), (0xFF3FE000, 0x4150000), (0xFF3FE000, 0x4170000),
      (0xBF00F400, 0x2F00E000), (0xBF20FC00, 0x2E009400), (0xFFE0FC00, 0x4400CC00),
      (0xFFE0FC00, 0x4480CC00), (0xFF20FC00, 0x44000400), (0xFFE0FC00, 0x44A00400),
      (0xFFE0FC00, 0x44E00400), (0xFFF09038, 0xC1501010), (0xFFF09078, 0xC1509010)]"
  by (simp only: arm64_instructions_3492_def read_entries)

lemma entries_3492:
  "length arm64_instructions_3492 = 12" "list_all metadata_wf arm64_instructions_3492"
  "map top_bits arm64_instructions_3492 =
     [(2047, 1238), (2041, 32), (2041, 32), (1528, 376), (1529, 368), (2047, 544), (2047, 548),
      (2041, 544), (2047, 549), (2047, 551), (2047, 1546), (2047, 1546)]"
  by (simp add: arm64_instructions_3492_def, simp add: arm64_instructions_3492_def, simp add: top_bits_mask_value keys_of_3492)

lemma keys_of_3504: "map mask_value arm64_instructions_3504 =
     [(0xFFF09C18, 0xC1601418), (0xFFF09C18, 0xC1701418), (0xFFE19C38, 0xC1E01418),
      (0xFFE39C78, 0xC1E11418), (0xFFF09038, 0xC1501030), (0xFFF09078, 0xC1509030),
      (0xFFF09838, 0xC1D00018), (0xFFF09878, 0xC1D08018), (0xFFB09C18, 0xC1201410),
      (0xFFB09C18, 0xC1301410), (0xFFA19C38, 0xC1A01410), (0xFFA39C78, 0xC1A11410)]"
  by (simp only: arm64_instructions_3504_def read_entries)

lemma entries_3504:
  "length arm64_instructions_3504 = 12" "list_all metadata_wf arm64_instructions_3504"
  "map top_bits arm64_instructions_3504 =
     [(2047, 1547), (2047, 1547), (2047, 1551), (2047, 1551), (2047, 1546), (2047, 1546),
      (2047, 1550), (2047, 1550), (2045, 1545), (2045, 1545), (2045, 1549), (2045, 1549)]"
  by (simp add: arm64_instructions_3504_def, simp add: arm64_instructions_3504_def, simp add: top_bits_mask_value keys_of_3504)

lemma keys_of_3516: "map mask_value arm64_instructions_3516 =
     [(0xBF20FC00, 0x2E200400), (0xFF3FE000, 0x44118000), (0xBF20FC00, 0x2E202400),
      (0xFF3FE000, 0x44138000), (0xFF3FE000, 0x44178000), (0xFFE08000, 0x9BA00000),
      (0xBF20FC00, 0x2E206400), (0xFFFC0000, 0x11C40000), (0xFFFC0000, 0x91C40000),
      (0xFF30FFE1, 0xC120A001), (0xFF30FFE3, 0xC120A801), (0xFF21FFE1, 0xC120B001)]"
  by (simp only: arm64_instructions_3516_def read_entries)

lemma entries_3516:
  "length arm64_instructions_3516 = 12" "list_all metadata_wf arm64_instructions_3516"
  "map top_bits arm64_instructions_3516 =
     [(1529, 369), (2041, 544), (1529, 369), (2041, 544), (2041, 544), (2047, 1245), (1529, 369),
      (2047, 142), (2047, 1166), (2041, 1545), (2041, 1545), (2041, 1545)]"
  by (simp add: arm64_instructions_3516_def, simp add: arm64_instructions_3516_def, simp add: top_bits_mask_value keys_of_3516)

lemma keys_of_3528: "map mask_value arm64_instructions_3528 =
     [(0xFF23FFE3, 0xC120B801), (0xFFE0FC00, 0x1AC06400), (0xFFE0FC00, 0x9AC06400),
      (0xFF3FE000, 0x4090000), (0xFF3FE000, 0x2529C000), (0xBF20FC00, 0x2E20A400),
      (0xFF3FE000, 0x4415A000), (0xFF3FE000, 0x40D2000), (0xBF3FFC00, 0x2E30A800),
      (0xFF3FE000, 0x4092000), (0xBF20FC00, 0x2E206C00), (0xFFFC0000, 0x11CC0000)]"
  by (simp only: arm64_instructions_3528_def read_entries)

lemma entries_3528:
  "length arm64_instructions_3528 = 12" "list_all metadata_wf arm64_instructions_3528"
  "map top_bits arm64_instructions_3528 =
     [(2041, 1545), (2047, 214), (2047, 1238), (2041, 32), (2041, 297), (1529, 369), (2041, 544),
      (2041, 32), (1529, 369), (2041, 32), (1529, 369), (2047, 142)]"
  by (simp add: arm64_instructions_3528_def, simp add: arm64_instructions_3528_def, simp add: top_bits_mask_value keys_of_3528)

lemma keys_of_3540: "map mask_value arm64_instructions_3540 =
     [(0xFFFC0000, 0x91CC0000), (0xFF30FFE1, 0xC120A021), (0xFF30FFE3, 0xC120A821),
      (0xFF21FFE1, 0xC120B021), (0xFF23FFE3, 0xC120B821), (0xFFE0FC00, 0x1AC06C00),
      (0xFFE0FC00, 0x9AC06C00), (0xFF3FE000, 0x40B0000), (0xFF3FE000, 0x252BC000),
      (0xBF20FC00, 0x2E20AC00), (0xFF3FE000, 0x4417A000), (0xFF3FE000, 0x40F2000)]"
  by (simp only: arm64_instructions_3540_def read_entries)

lemma entries_3540:
  "length arm64_instructions_3540 = 12" "list_all metadata_wf arm64_instructions_3540"
  "map top_bits arm64_instructions_3540 =
     [(2047, 1166), (2041, 1545), (2041, 1545), (2041, 1545), (2041, 1545), (2047, 214),
      (2047, 1238), (2041, 32), (2041, 297), (1529, 369), (2041, 544), (2041, 32)]"
  by (simp add: arm64_instructions_3540_def, simp add: arm64_instructions_3540_def, simp add: top_bits_mask_value keys_of_3540)

lemma keys_of_3552: "map mask_value arm64_instructions_3552 =
     [(0xBF3FFC00, 0x2E31A800), (0xFF3FE000, 0x40B2000), (0xBF00F400, 0x2F002000),
      (0xBF20FC00, 0x2E208000), (0xFFF01018, 0xC1C01010), (0xFFF09038, 0xC1D01010),
      (0xFFF09078, 0xC1D09010), (0xFFF09C18, 0xC1600C10), (0xFFF09C1C, 0xC1600810),
      (0xFFF09C1C, 0xC1700810), (0xFFE19C3C, 0xC1E00810), (0xFFE39C7C, 0xC1E10810)]"
  by (simp only: arm64_instructions_3552_def read_entries)

lemma entries_3552:
  "length arm64_instructions_3552 = 12" "list_all metadata_wf arm64_instructions_3552"
  "map top_bits arm64_instructions_3552 =
     [(1529, 369), (2041, 32), (1528, 376), (1529, 369), (2047, 1550), (2047, 1550),
      (2047, 1550), (2047, 1547), (2047, 1547), (2047, 1547), (2047, 1551), (2047, 1551)]"
  by (simp add: arm64_instructions_3552_def, simp add: arm64_instructions_3552_def, simp add: top_bits_mask_value keys_of_3552)

lemma keys_of_3564: "map mask_value arm64_instructions_3564 =
     [(0xFF20FC00, 0x44004800), (0xFFE0F400, 0x44A09000), (0xFFE0F400, 0x44E09000),
      (0xFFF0001C, 0xC1000010), (0xFFF0101C, 0xC1800010), (0xFFF09038, 0xC1100010),
      (0xFFF09078, 0xC1108010), (0xFFF09838, 0xC1900010), (0xFFF09878, 0xC1908010),
      (0xFFB09C1C, 0xC1200410), (0xFFB09C1E, 0xC1200010), (0xFFB09C1E, 0xC1300010)]"
  by (simp only: arm64_instructions_3564_def read_entries)

lemma entries_3564:
  "length arm64_instructions_3564 = 12" "list_all metadata_wf arm64_instructions_3564"
  "map top_bits arm64_instructions_3564 =
     [(2041, 544), (2047, 549), (2047, 551), (2047, 1544), (2047, 1548), (2047, 1544),
      (2047, 1544), (2047, 1548), (2047, 1548), (2045, 1545), (2045, 1545), (2045, 1545)]"
  by (simp add: arm64_instructions_3564_def, simp add: arm64_instructions_3564_def, simp add: top_bits_mask_value keys_of_3564)

lemma keys_of_3576: "map mask_value arm64_instructions_3576 =
     [(0xFFA19C3E, 0xC1A00010), (0xFFA39C7E, 0xC1A10010), (0xFF20FC00, 0x44004C00),
      (0xFFE0F400, 0x44A09400), (0xFFE0F400, 0x44E09400), (0xBF00F400, 0x2F006000),
      (0xBF20FC00, 0x2E20A000), (0xFFF01018, 0xC1C01018), (0xFFF09038, 0xC1D01018),
      (0xFFF09078, 0xC1D09018), (0xFFF09C18, 0xC1600C18), (0xFFF09C1C, 0xC1600818)]"
  by (simp only: arm64_instructions_3576_def read_entries)

lemma entries_3576:
  "length arm64_instructions_3576 = 12" "list_all metadata_wf arm64_instructions_3576"
  "map top_bits arm64_instructions_3576 =
     [(2045, 1549), (2045, 1549), (2041, 544), (2047, 549), (2047, 551), (1528, 376),
      (1529, 369), (2047, 1550), (2047, 1550), (2047, 1550), (2047, 1547), (2047, 1547)]"
  by (simp add: arm64_instructions_3576_def, simp add: arm64_instructions_3576_def, simp add: top_bits_mask_value keys_of_3576)

lemma keys_of_3588: "map mask_value arm64_instructions_3588 =
     [(0xFFF09C1C, 0xC1700818), (0xFFE19C3C, 0xC1E00818), (0xFFE39C7C, 0xC1E10818),
      (0xFF20FC00, 0x44005800), (0xFFE0F400, 0x44A0B000), (0xFFE0F400, 0x44E0B000),
      (0xFFF0001C, 0xC1000018), (0xFFF0101C, 0xC1800018), (0xFFF09038, 0xC1100018),
      (0xFFF09078, 0xC1108018), (0xFFF09838, 0xC1900018), (0xFFF09878, 0xC1908018)]"
  by (simp only: arm64_instructions_3588_def read_entries)

lemma entries_3588:
  "length arm64_instructions_3588 = 12" "list_all metadata_wf arm64_instructions_3588"
  "map top_bits arm64_instructions_3588 =
     [(2047, 1547), (2047, 1551), (2047, 1551), (2041, 544), (2047, 549), (2047, 551),
      (2047, 1544), (2047, 1548), (2047, 1544), (2047, 1544), (2047, 1548), (2047, 1548)]"
  by (simp add: arm64_instructions_3588_def, simp add: arm64_instructions_3588_def, simp add: top_bits_mask_value keys_of_3588)

lemma keys_of_3600: "map mask_value arm64_instructions_3600 =
     [(0xFFB09C1C, 0xC1200418), (0xFFB09C1E, 0xC1200018), (0xFFB09C1E, 0xC1300018),
      (0xFFA19C3E, 0xC1A00018), (0xFFA39C7E, 0xC1A10018), (0xFF20FC00, 0x44005C00),
      (0xFFE0F400, 0x44A0B400), (0xFFE0F400, 0x44E0B400), (0xFFE0FC00, 0x6E80A400),
      (0xFFE0FC00, 0x45C09800), (0xFFE0FC00, 0x9BA0FC00), (0xFFE0001C, 0xA1800008)]"
  by (simp only: arm64_instructions_3600_def read_entries)

lemma entries_3600:
  "length arm64_instructions_3600 = 12" "list_all metadata_wf arm64_instructions_3600"
  "map top_bits arm64_instructions_3600 =
     [(2045, 1545), (2045, 1545), (2045, 1545), (2045, 1549), (2045, 1549), (2041, 544),
      (2047, 549), (2047, 551), (2047, 884), (2047, 558), (2047, 1245), (2047, 1292)]"
  by (simp add: arm64_instructions_3600_def, simp add: arm64_instructions_3600_def, simp add: top_bits_mask_value keys_of_3600)

lemma keys_of_3612: "map mask_value arm64_instructions_3612 =
     [(0xFFE00018, 0xA1E00000), (0xFFE0001C, 0xA1A00000), (0xFFE0001C, 0xA1800018),
      (0xFFE00018, 0xA1E00010), (0xFFE0001C, 0xA1A00010), (0xFFE0FC00, 0xE003C00),
      (0xFFEFFC00, 0x4E083C00), (0xFFE08000, 0x9BA08000), (0xFFE0A492, 0x9BC02492),
      (0xFF3FE000, 0x4130000), (0xFF20FC00, 0x4206C00), (0xBF00F400, 0x2F00A000)]"
  by (simp only: arm64_instructions_3612_def read_entries)

lemma entries_3612:
  "length arm64_instructions_3612 = 12" "list_all metadata_wf arm64_instructions_3612"
  "map top_bits arm64_instructions_3612 =
     [(2047, 1295), (2047, 1293), (2047, 1292), (2047, 1295), (2047, 1293), (2047, 112),
      (2047, 624), (2047, 1245), (2047, 1246), (2041, 32), (2041, 33), (1528, 376)]"
  by (simp add: arm64_instructions_3612_def, simp add: arm64_instructions_3612_def, simp add: top_bits_mask_value keys_of_3612)

lemma keys_of_3624: "map mask_value arm64_instructions_3624 =
     [(0xBF20FC00, 0x2E20C000), (0xFFE0FC00, 0x9BA07C00), (0xFF20FC00, 0x45007800),
      (0xFFE0F400, 0x44A0D000), (0xFFE0F400, 0x44E0D000), (0xFF20FC00, 0x45007C00),
      (0xFFE0F400, 0x44A0D400), (0xFFE0F400, 0x44E0D400), (0xBF20FC00, 0x2E200C00),
      (0xFF20FC00, 0x7E200C00), (0xFF3FE000, 0x44198000), (0xFF3FC000, 0x2525C000)]"
  by (simp only: arm64_instructions_3624_def read_entries)

lemma entries_3624:
  "length arm64_instructions_3624 = 12" "list_all metadata_wf arm64_instructions_3624"
  "map top_bits arm64_instructions_3624 =
     [(1529, 369), (2047, 1245), (2041, 552), (2047, 549), (2047, 551), (2041, 552), (2047, 549),
      (2047, 551), (1529, 369), (2041, 1009), (2041, 544), (2041, 297)]"
  by (simp add: arm64_instructions_3624_def, simp add: arm64_instructions_3624_def, simp add: top_bits_mask_value keys_of_3624)

lemma keys_of_3636: "map mask_value arm64_instructions_3636 =
     [(0xFF20FC00, 0x4201400), (0xFFFFFC20, 0xC123E020), (0xFF7FFC60, 0xC133E020),
      (0xFFFFFC20, 0x45314800), (0xFF7FFC60, 0xC133E060), (0xFFF0FC00, 0x420FC00),
      (0xFFF0FC00, 0x430FC00), (0xFFF0FC00, 0x4E0FC00), (0xFFF0FC00, 0x4F0FC00),
      (0xFFF0FC00, 0x4E0CC00), (0xFFF0FC00, 0x460FC00), (0xFFF0FC00, 0x470FC00)]"
  by (simp only: arm64_instructions_3636_def read_entries)

lemma entries_3636:
  "length arm64_instructions_3636 = 12" "list_all metadata_wf arm64_instructions_3636"
  "map top_bits arm64_instructions_3636 =
     [(2041, 33), (2047, 1545), (2043, 1545), (2047, 553), (2043, 1545), (2047, 33), (2047, 33),
      (2047, 39), (2047, 39), (2047, 39), (2047, 35), (2047, 35)]"
  by (simp add: arm64_instructions_3636_def, simp add: arm64_instructions_3636_def, simp add: top_bits_mask_value keys_of_3636)

lemma keys_of_3648: "map mask_value arm64_instructions_3648 =
     [(0xFFF0FC00, 0x460CC00), (0xFF3FFE00, 0x252B8800), (0xFF3FFE00, 0x252B8C00),
      (0xFF3FFE00, 0x252B8000), (0xFFF0FC00, 0x4A0FC00), (0xFFF0FC00, 0x4B0FC00),
      (0xFFF0FC00, 0x4A0CC00), (0xFFF0FC00, 0x420F400), (0xFFF0FC00, 0x430F400),
      (0xFFF0FC00, 0x4E0F400), (0xFFF0FC00, 0x4F0F400), (0xFFF0FC00, 0x4E0C400)]"
  by (simp only: arm64_instructions_3648_def read_entries)

lemma entries_3648:
  "length arm64_instructions_3648 = 12" "list_all metadata_wf arm64_instructions_3648"
  "map top_bits arm64_instructions_3648 =
     [(2047, 35), (2041, 297), (2041, 297), (2041, 297), (2047, 37), (2047, 37), (2047, 37),
      (2047, 33), (2047, 33), (2047, 39), (2047, 39), (2047, 39)]"
  by (simp add: arm64_instructions_3648_def, simp add: arm64_instructions_3648_def, simp add: top_bits_mask_value keys_of_3648)

lemma keys_of_3660: "map mask_value arm64_instructions_3660 =
     [(0xFFF0FC00, 0x460F400), (0xFFF0FC00, 0x470F400), (0xFFF0FC00, 0x460C400),
      (0xFF3FFE00, 0x25298800), (0xFF3FFE00, 0x25298C00), (0xFF3FFE00, 0x25298000),
      (0xFFF0FC00, 0x4A0F400), (0xFFF0FC00, 0x4B0F400), (0xFFF0FC00, 0x4A0C400),
      (0xBF20FC00, 0x2E205C00), (0xFF20FC00, 0x7E205C00), (0xFF3FE000, 0x440B8000)]"
  by (simp only: arm64_instructions_3660_def read_entries)

lemma entries_3660:
  "length arm64_instructions_3660 = 12" "list_all metadata_wf arm64_instructions_3660"
  "map top_bits arm64_instructions_3660 =
     [(2047, 35), (2047, 35), (2047, 35), (2041, 297), (2041, 297), (2041, 297), (2047, 37),
      (2047, 37), (2047, 37), (1529, 369), (2041, 1009), (2041, 544)]"
  by (simp add: arm64_instructions_3660_def, simp add: arm64_instructions_3660_def, simp add: top_bits_mask_value keys_of_3660)

lemma keys_of_3672: "map mask_value arm64_instructions_3672 =
     [(0xFF3FE000, 0x440F8000), (0xFFF0FC20, 0xC1E0D420), (0xFF20FC60, 0xC120D820),
      (0xBF8FFC00, 0x2F009C00), (0xFF8FFC00, 0x7F009C00), (0xFFF0FC20, 0x45B03800),
      (0xFF20FC60, 0xC120DC20), (0xFFA0FC00, 0x45203800), (0xFFA0FC00, 0x45203C00),
      (0xBF8FFC00, 0x2F007400), (0xFF8FFC00, 0x7F007400), (0xBF20FC00, 0x2E204C00)]"
  by (simp only: arm64_instructions_3672_def read_entries)

lemma entries_3672:
  "length arm64_instructions_3672 = 12" "list_all metadata_wf arm64_instructions_3672"
  "map top_bits arm64_instructions_3672 =
     [(2041, 544), (2047, 1551), (2041, 1545), (1532, 376), (2044, 1016), (2047, 557),
      (2041, 1545), (2045, 553), (2045, 553), (1532, 376), (2044, 1016), (1529, 369)]"
  by (simp add: arm64_instructions_3672_def, simp add: arm64_instructions_3672_def, simp add: top_bits_mask_value keys_of_3672)

lemma keys_of_3684: "map mask_value arm64_instructions_3684 =
     [(0xFF20FC00, 0x7E204C00), (0xFF3FE000, 0x4078000), (0xFF3FE000, 0x44098000),
      (0xFF3FE000, 0x440D8000), (0xBF8FFC00, 0x2F009400), (0xFF8FFC00, 0x7F009400),
      (0xFFA0FC00, 0x45203000), (0xFFA0FC00, 0x45203400), (0xBF20FC00, 0x2E202C00),
      (0xFF20FC00, 0x7E202C00), (0xFF3FE000, 0x441B8000), (0xFF3FC000, 0x2527C000)]"
  by (simp only: arm64_instructions_3684_def read_entries)

lemma entries_3684:
  "length arm64_instructions_3684 = 12" "list_all metadata_wf arm64_instructions_3684"
  "map top_bits arm64_instructions_3684 =
     [(2041, 1009), (2041, 32), (2041, 544), (2041, 544), (1532, 376), (2044, 1016), (2045, 553),
      (2045, 553), (1529, 369), (2041, 1009), (2041, 544), (2041, 297)]"
  by (simp add: arm64_instructions_3684_def, simp add: arm64_instructions_3684_def, simp add: top_bits_mask_value keys_of_3684)

lemma keys_of_3696: "map mask_value arm64_instructions_3696 =
     [(0xFF20FC00, 0x4201C00), (0xFF3FE000, 0x441F8000), (0xBF3FFC00, 0x2E214800),
      (0xFF3FFC00, 0x7E214800), (0xFFA7FC00, 0x45204800), (0xFFA7FC00, 0x45204C00),
      (0xBFBFFC00, 0xEA1C800), (0xFF3FE000, 0x4400A000), (0xBF20FC00, 0x2E201400),
      (0xFF3FE000, 0x44158000), (0xBF20FC00, 0x2E205400), (0xFF20FC00, 0x7E205400)]"
  by (simp only: arm64_instructions_3696_def read_entries)

lemma entries_3696:
  "length arm64_instructions_3696 = 12" "list_all metadata_wf arm64_instructions_3696"
  "map top_bits arm64_instructions_3696 =
     [(2041, 33), (2041, 544), (1529, 369), (2041, 1009), (2045, 553), (2045, 553), (1533, 117),
      (2041, 544), (1529, 369), (2041, 544), (1529, 369), (2041, 1009)]"
  by (simp add: arm64_instructions_3696_def, simp add: arm64_instructions_3696_def, simp add: top_bits_mask_value keys_of_3696)

lemma keys_of_3708: "map mask_value arm64_instructions_3708 =
     [(0xFF30FFE1, 0xC120A221), (0xFF30FFE3, 0xC120AA21), (0xFF21FFE1, 0xC120B221),
      (0xFF23FFE3, 0xC120BA21), (0xFF3FE000, 0x44038000), (0xFF3FE000, 0x44078000),
      (0xBF8FFC00, 0x2F002400), (0xFF8FFC00, 0x7F002400), (0xFF3FE000, 0x40D8000),
      (0xBFBFFC00, 0x2EA1C800), (0xFF3FE000, 0x4401A000), (0xBF8FFC00, 0x2F003400)]"
  by (simp only: arm64_instructions_3708_def read_entries)

lemma entries_3708:
  "length arm64_instructions_3708 = 12" "list_all metadata_wf arm64_instructions_3708"
  "map top_bits arm64_instructions_3708 =
     [(2041, 1545), (2041, 1545), (2041, 1545), (2041, 1545), (2041, 544), (2041, 544),
      (1532, 376), (2044, 1016), (2041, 32), (1533, 373), (2041, 544), (1532, 376)]"
  by (simp add: arm64_instructions_3708_def, simp add: arm64_instructions_3708_def, simp add: top_bits_mask_value keys_of_3708)

lemma keys_of_3720: "map mask_value arm64_instructions_3720 =
     [(0xFF8FFC00, 0x7F003400), (0xFF20FC00, 0x4500EC00), (0xBFC0F400, 0xF80F000),
      (0xBFE0FC00, 0xE809C00), (0xFFE0FC00, 0x44807800), (0xFFE0FC00, 0x44A01800),
      (0xFFF09038, 0xC1501028), (0xFFF09078, 0xC1509028), (0xFFF09C18, 0xC1201408),
      (0xFFF09C18, 0xC1301408), (0xFFE19C38, 0xC1A01408), (0xFFE39C78, 0xC1A11408)]"
  by (simp only: arm64_instructions_3720_def read_entries)

lemma entries_3720:
  "length arm64_instructions_3720 = 12" "list_all metadata_wf arm64_instructions_3720"
  "map top_bits arm64_instructions_3720 =
     [(2044, 1016), (2041, 552), (1534, 124), (1535, 116), (2047, 548), (2047, 549),
      (2047, 1546), (2047, 1546), (2047, 1545), (2047, 1545), (2047, 1549), (2047, 1549)]"
  by (simp add: arm64_instructions_3720_def, simp add: arm64_instructions_3720_def, simp add: top_bits_mask_value keys_of_3720)

lemma keys_of_3732: "map mask_value arm64_instructions_3732 =
     [(0xBF20FC00, 0x2E204400), (0xFF20FC00, 0x7E204400), (0xBF8FFC00, 0x2F00A400),
      (0xFFA0FC00, 0x4500A800), (0xFFA0FC00, 0x4500AC00), (0xBF8FFC00, 0x2F000400),
      (0xFF8FFC00, 0x7F000400), (0xFFF0001C, 0xC1000004), (0xFFF09038, 0xC1100020),
      (0xFFF09078, 0xC1108020), (0xFFF09C1C, 0xC1200404), (0xFFF09C1E, 0xC1200004)]"
  by (simp only: arm64_instructions_3732_def read_entries)

lemma entries_3732:
  "length arm64_instructions_3732 = 12" "list_all metadata_wf arm64_instructions_3732"
  "map top_bits arm64_instructions_3732 =
     [(1529, 369), (2041, 1009), (1532, 376), (2045, 552), (2045, 552), (1532, 376),
      (2044, 1016), (2047, 1544), (2047, 1544), (2047, 1544), (2047, 1545), (2047, 1545)]"
  by (simp add: arm64_instructions_3732_def, simp add: arm64_instructions_3732_def, simp add: top_bits_mask_value keys_of_3732)

lemma keys_of_3744: "map mask_value arm64_instructions_3744 =
     [(0xFFF09C1E, 0xC1300004), (0xFFE19C3E, 0xC1A00004), (0xFFE39C7E, 0xC1A10004),
      (0xFFE0FC00, 0x4E80AC00), (0xFFE0FC00, 0x45809800), (0xFFE00018, 0xA1C00000),
      (0xFFE0001C, 0xA1800000), (0xFFE00018, 0xA1C00010), (0xFFE0001C, 0xA1800010),
      (0xBF3FFC00, 0x2E203800), (0xFF3FFC00, 0x7E203800), (0xFF3FE000, 0x441D8000)]"
  by (simp only: arm64_instructions_3744_def read_entries)

lemma entries_3744:
  "length arm64_instructions_3744 = 12" "list_all metadata_wf arm64_instructions_3744"
  "map top_bits arm64_instructions_3744 =
     [(2047, 1545), (2047, 1549), (2047, 1549), (2047, 628), (2047, 556), (2047, 1294),
      (2047, 1292), (2047, 1294), (2047, 1292), (1529, 369), (2041, 1009), (2041, 544)]"
  by (simp add: arm64_instructions_3744_def, simp add: arm64_instructions_3744_def, simp add: top_bits_mask_value keys_of_3744)

lemma keys_of_3756: "map mask_value arm64_instructions_3756 =
     [(0xBF8FFC00, 0x2F001400), (0xFF8FFC00, 0x7F001400), (0xFF20FC00, 0x4500E400),
      (0xBF20FC00, 0x2E202000), (0xFF20FC00, 0x45001800), (0xFF20FC00, 0x45001C00),
      (0xBF20FC00, 0x2E203000), (0xFF20FC00, 0x45005800), (0xFF20FC00, 0x45005C00),
      (0xFFF09078, 0xC1508028), (0xFF3FFC01, 0xC125E001), (0xFF3FFC23, 0xC135E001)]"
  by (simp only: arm64_instructions_3756_def read_entries)

lemma entries_3756:
  "length arm64_instructions_3756 = 12" "list_all metadata_wf arm64_instructions_3756"
  "map top_bits arm64_instructions_3756 =
     [(1532, 376), (2044, 1016), (2041, 552), (1529, 369), (2041, 552), (2041, 552), (1529, 369),
      (2041, 552), (2041, 552), (2047, 1546), (2041, 1545), (2041, 1545)]"
  by (simp add: arm64_instructions_3756_def, simp add: arm64_instructions_3756_def, simp add: top_bits_mask_value keys_of_3756)

lemma keys_of_3768: "map mask_value arm64_instructions_3768 =
     [(0xFF3FFC00, 0x5333800), (0xFF3FFC00, 0x5323800), (0xFFF09038, 0xC1500030),
      (0xFFF09078, 0xC1508030), (0xFFF09878, 0xC1D08818), (0xFFFFFC00, 0x53001C00),
      (0xFF3FE000, 0x411A000), (0xFF3FE000, 0x413A000), (0xFF3FE000, 0x415A000),
      (0xFFFFFC00, 0x53003C00), (0xBF8FFC00, 0x2F00A400), (0xBF20FC00, 0xE001800)]"
  by (simp only: arm64_instructions_3768_def read_entries)

lemma entries_3768:
  "length arm64_instructions_3768 = 12" "list_all metadata_wf arm64_instructions_3768"
  "map top_bits arm64_instructions_3768 =
     [(2041, 41), (2041, 41), (2047, 1546), (2047, 1546), (2047, 1550), (2047, 664), (2041, 32),
      (2041, 32), (2041, 32), (2047, 664), (1532, 376), (1529, 112)]"
  by (simp add: arm64_instructions_3768_def, simp add: arm64_instructions_3768_def, simp add: top_bits_mask_value keys_of_3768)

lemma keys_of_3780: "map mask_value arm64_instructions_3780 =
     [(0xFF30FE10, 0x5204800), (0xFF30FE10, 0x5204C00), (0xFF20FC00, 0x5206800),
      (0xFFE0FC00, 0x5A00800), (0xFF20FC00, 0x5206C00), (0xFFE0FC00, 0x5A00C00),
      (0xBF20FC00, 0xE005800), (0xFF3FFC63, 0xC136E002), (0xFFFFFC63, 0xC137E002),
      (0xFF20FC01, 0xC120D001), (0xFFE0FC01, 0xC120D401), (0xFF20FC00, 0x4400E800)]"
  by (simp only: arm64_instructions_3780_def read_entries)

lemma entries_3780:
  "length arm64_instructions_3780 = 12" "list_all metadata_wf arm64_instructions_3780"
  "map top_bits arm64_instructions_3780 =
     [(2041, 41), (2041, 41), (2041, 41), (2047, 45), (2041, 41), (2047, 45), (1529, 112),
      (2041, 1545), (2047, 1545), (2041, 1545), (2047, 1545), (2041, 544)]"
  by (simp add: arm64_instructions_3780_def, simp add: arm64_instructions_3780_def, simp add: top_bits_mask_value keys_of_3780)

lemma keys_of_3792: "map mask_value arm64_instructions_3792 =
     [(0xFF20FC00, 0x4400EC00), (0xFFFFFFFF, 0xD503205F), (0xFFFFFFE0, 0xD5031000),
      (0xFFFFFFFF, 0xD503207F), (0xFFFFFFE0, 0xD5031020), (0xFF20EC10, 0x25200000),
      (0xFF20DC18, 0x25204010), (0xFF20FC11, 0x25205010), (0xFF20EC10, 0x25200010),
      (0xFF20DC18, 0x25204018), (0xFF20FC11, 0x25205011), (0xFF20EC10, 0x25200810)]"
  by (simp only: arm64_instructions_3792_def read_entries)

lemma entries_3792:
  "length arm64_instructions_3792 = 12" "list_all metadata_wf arm64_instructions_3792"
  "map top_bits arm64_instructions_3792 =
     [(2041, 544), (2047, 1704), (2047, 1704), (2047, 1704), (2047, 1704), (2041, 297),
      (2041, 297), (2041, 297), (2041, 297), (2041, 297), (2041, 297), (2041, 297)]"
  by (simp add: arm64_instructions_3792_def, simp add: arm64_instructions_3792_def, simp add: top_bits_mask_value keys_of_3792)

lemma keys_of_3804: "map mask_value arm64_instructions_3804 =
     [(0xFF20DC18, 0x25204818), (0xFF20FC11, 0x25205811), (0xFF20EC10, 0x25200800),
      (0xFF20DC18, 0x25204810), (0xFF20FC11, 0x25205810), (0xFF20EC10, 0x25200410),
      (0xFF20DC18, 0x25204418), (0xFF20FC11, 0x25205411), (0xFF20EC10, 0x25200C00),
      (0xFF20DC18, 0x25204C10), (0xFF20FC11, 0x25205C10), (0xFF20EC10, 0x25200C10)]"
  by (simp only: arm64_instructions_3804_def read_entries)

lemma entries_3804:
  "length arm64_instructions_3804 = 12" "list_all metadata_wf arm64_instructions_3804"
  "map top_bits arm64_instructions_3804 =
     [(2041, 297), (2041, 297), (2041, 297), (2041, 297), (2041, 297), (2041, 297), (2041, 297),
      (2041, 297), (2041, 297), (2041, 297), (2041, 297), (2041, 297)]"
  by (simp add: arm64_instructions_3804_def, simp add: arm64_instructions_3804_def, simp add: top_bits_mask_value keys_of_3804)

lemma keys_of_3816: "map mask_value arm64_instructions_3816 =
     [(0xFF20DC18, 0x25204C18), (0xFF20FC11, 0x25205C11), (0xFF20EC10, 0x25200400),
      (0xFF20DC18, 0x25204410), (0xFF20FC11, 0x25205410), (0xFF20FC10, 0x25203010),
      (0xFF20FC10, 0x25203000), (0xFFFFFE1F, 0x25289000), (0xFFFFF4FF, 0xD500403F),
      (0xFFE00000, 0xCE800000), (0xFF20FC00, 0x4203400), (0xFFFFFFE0, 0xDAC147E0)]"
  by (simp only: arm64_instructions_3816_def read_entries)

lemma entries_3816:
  "length arm64_instructions_3816 = 12" "list_all metadata_wf arm64_instructions_3816"
  "map top_bits arm64_instructions_3816 =
     [(2041, 297), (2041, 297), (2041, 297), (2041, 297), (2041, 297), (2041, 297), (2041, 297),
      (2047, 297), (2047, 1704), (2047, 1652), (2041, 33), (2047, 1750)]"
  by (simp add: arm64_instructions_3816_def, simp add: arm64_instructions_3816_def, simp add: top_bits_mask_value keys_of_3816)

lemma keys_of_3828: "map mask_value arm64_instructions_3828 =
     [(0xFFFFFFE0, 0xDAC143E0), (0xFFFFFFFF, 0xD50320FF), (0xBF3FFC00, 0xE212800),
      (0xFFFFFFFF, 0xD503203F), (0xFFFF9FF8, 0xC00C0000), (0xFFFF9FF8, 0xC00E0000),
      (0xFFFF9FF8, 0xC00C8000), (0xFFFF9FFC, 0xC00D0000), (0xFFFF9FFC, 0xC00D8000),
      (0xFFFF9FFC, 0xC00E8000), (0xFFFF9FFE, 0xC00F0000), (0xFFFF9FFE, 0xC00F8000)]"
  by (simp only: arm64_instructions_3828_def read_entries)

lemma entries_3828:
  "length arm64_instructions_3828 = 12" "list_all metadata_wf arm64_instructions_3828"
  "map top_bits arm64_instructions_3828 =
     [(2047, 1750), (2047, 1704), (1529, 113), (2047, 1704), (2047, 1536), (2047, 1536),
      (2047, 1536), (2047, 1536), (2047, 1536), (2047, 1536), (2047, 1536), (2047, 1536)]"
  by (simp add: arm64_instructions_3828_def, simp add: arm64_instructions_3828_def, simp add: top_bits_mask_value keys_of_3828)

lemma keys_of_3840: "map mask_value arm64_instructions_3840 =
     [(0xFFFFFF00, 0xC0080000), (0xFFFFFFFF, 0xC0480001), (0xBF20FC00, 0xE003800),
      (0xFF30FE10, 0x5204000), (0xFF30FE10, 0x5204400), (0xFF20FC00, 0x5206000),
      (0xFFE0FC00, 0x5A00000), (0xFF20FC00, 0x5206400), (0xFFE0FC00, 0x5A00400),
      (0xBF20FC00, 0xE007800), (0xFF3FFC63, 0xC136E000), (0xFFFFFC63, 0xC137E000)]"
  by (simp only: arm64_instructions_3840_def read_entries)

lemma entries_3840:
  "length arm64_instructions_3840 = 12" "list_all metadata_wf arm64_instructions_3840"
  "map top_bits arm64_instructions_3840 =
     [(2047, 1536), (2047, 1538), (1529, 112), (2041, 41), (2041, 41), (2041, 41), (2047, 45),
      (2041, 41), (2047, 45), (1529, 112), (2041, 1545), (2047, 1545)]"
  by (simp add: arm64_instructions_3840_def, simp add: arm64_instructions_3840_def, simp add: top_bits_mask_value keys_of_3840)

lemma keys_of_3852: "map mask_value arm64_instructions_3852 =
     [(0xFF20FC01, 0xC120D000), (0xFFE0FC01, 0xC120D400), (0xFF20FC00, 0x4400E000),
      (0xFF20FC00, 0x4400E400)]"
  by (simp only: arm64_instructions_3852_def read_entries)

lemma entries_3852:
  "length arm64_instructions_3852 = 4" "list_all metadata_wf arm64_instructions_3852"
  "map top_bits arm64_instructions_3852 =
     [(2041, 1545), (2047, 1545), (2041, 544), (2041, 544)]"
  by (simp add: arm64_instructions_3852_def, simp add: arm64_instructions_3852_def, simp add: top_bits_mask_value keys_of_3852)

lemmas entries_part_8 =
  entries_3444 entries_3456 entries_3468 entries_3480 entries_3492 entries_3504 entries_3516
  entries_3528 entries_3540 entries_3552 entries_3564 entries_3576 entries_3588 entries_3600
  entries_3612 entries_3624 entries_3636 entries_3648 entries_3660 entries_3672 entries_3684
  entries_3696 entries_3708 entries_3720 entries_3732 entries_3744 entries_3756 entries_3768
  entries_3780 entries_3792 entries_3804 entries_3816 entries_3828 entries_3840 entries_3852

lemma arm64_part_8:
  "length (concat arm64_part_8) = 412" "list_all metadata_wf (concat arm64_part_8)"
  "sum_list (map weight (map top_bits (concat arm64_part_8))) = 1243"
  by (simp_all add: arm64_part_8_def entries_part_8 weight_def bit_Suc_0_iff)

end
