(* ===== verification/Arm64_Table.thy ===== *)
theory Arm64_Table
  imports Arm64_Candidates
    Arm64_Instructions_1 Arm64_Instructions_2 Arm64_Instructions_3 Arm64_Instructions_4
    Arm64_Instructions_5 Arm64_Instructions_6 Arm64_Instructions_7 Arm64_Instructions_8
begin

text \<open>
  The generated decoder table as a whole (\<open>src/generated/decoder_table.c\<close>), with the two checks
  its correctness rests on: every entry of every range is one of the bucket, and no entry is
  listed twice. What follows from them is in \<^theory_text>\<open>Arm64_Decoding\<close>.
\<close>

section \<open>The tables\<close>

definition arm64_chunks :: "bal_decoder_instruction_metadata_t list list" where
  "arm64_chunks = arm64_part_1 @ arm64_part_2 @ arm64_part_3 @ arm64_part_4 @ arm64_part_5 @ arm64_part_6 @
     arm64_part_7 @ arm64_part_8"

definition g_bal_decoder_arm64_instructions :: "bal_decoder_instruction_metadata_t list" where
  "g_bal_decoder_arm64_instructions = concat arm64_chunks"

definition arm64_buckets :: "decoder_bucket_t list" where
  "arm64_buckets = buckets_0 @ buckets_256 @ buckets_512 @ buckets_768 @ buckets_1024 @ buckets_1280 @
     buckets_1536 @ buckets_1792"

definition arm64_tables :: decoder_tables where
  "arm64_tables = \<lparr>g_decoder_lookup_table = arm64_buckets,
     g_decoder_hash_candidates = map (\<lambda>i. g_bal_decoder_arm64_instructions ! i) candidate_indexes\<rparr>"

lemmas arm64_parts = arm64_part_1 arm64_part_2 arm64_part_3 arm64_part_4 arm64_part_5 arm64_part_6 arm64_part_7 arm64_part_8

section \<open>Top bits, mask, pattern, name and opcode of an entry, by its index\<close>

definition entry_top :: "nat \<Rightarrow> nat \<times> nat" where
  "entry_top i = top_bits (g_bal_decoder_arm64_instructions ! i)"

definition entry_key :: "nat \<Rightarrow> nat \<times> nat" where
  "entry_key i = mask_value (g_bal_decoder_arm64_instructions ! i)"

definition entry_tag :: "nat \<Rightarrow> string \<times> bal_opcode_t" where
  "entry_tag i = tag_of (g_bal_decoder_arm64_instructions ! i)"

lemma map_middle:
  assumes "xs = pre @ mid @ post" "length pre = k" "k + length mid = n"
  shows "map (\<lambda>i. f (xs ! i)) [k ..< n] = map f mid"
proof (rule nth_equalityI)
  show "length (map (\<lambda>i. f (xs ! i)) [k ..< n]) = length (map f mid)" using assms by auto
  show "map (\<lambda>i. f (xs ! i)) [k ..< n] ! i = map f mid ! i" if "i < length (map (\<lambda>i. f (xs ! i)) [k ..< n])" for i
    using assms that by (auto simp: nth_append)
qed

lemma entries_of_part_1:
  "map (\<lambda>i. f (g_bal_decoder_arm64_instructions ! i)) [0 ..< 492] = map f (concat arm64_part_1)"
  by (rule map_middle [where pre = "concat ([])" and post = "concat (arm64_part_2 @ arm64_part_3 @ arm64_part_4 @ arm64_part_5 @ arm64_part_6 @ arm64_part_7 @ arm64_part_8)"])
    (simp_all add: g_bal_decoder_arm64_instructions_def arm64_chunks_def arm64_parts)

lemma entries_of_part_2:
  "map (\<lambda>i. f (g_bal_decoder_arm64_instructions ! i)) [492 ..< 984] = map f (concat arm64_part_2)"
  by (rule map_middle [where pre = "concat (arm64_part_1)" and post = "concat (arm64_part_3 @ arm64_part_4 @ arm64_part_5 @ arm64_part_6 @ arm64_part_7 @ arm64_part_8)"])
    (simp_all add: g_bal_decoder_arm64_instructions_def arm64_chunks_def arm64_parts)

lemma entries_of_part_3:
  "map (\<lambda>i. f (g_bal_decoder_arm64_instructions ! i)) [984 ..< 1476] = map f (concat arm64_part_3)"
  by (rule map_middle [where pre = "concat (arm64_part_1 @ arm64_part_2)" and post = "concat (arm64_part_4 @ arm64_part_5 @ arm64_part_6 @ arm64_part_7 @ arm64_part_8)"])
    (simp_all add: g_bal_decoder_arm64_instructions_def arm64_chunks_def arm64_parts)

lemma entries_of_part_4:
  "map (\<lambda>i. f (g_bal_decoder_arm64_instructions ! i)) [1476 ..< 1968] = map f (concat arm64_part_4)"
  by (rule map_middle [where pre = "concat (arm64_part_1 @ arm64_part_2 @ arm64_part_3)" and post = "concat (arm64_part_5 @ arm64_part_6 @ arm64_part_7 @ arm64_part_8)"])
    (simp_all add: g_bal_decoder_arm64_instructions_def arm64_chunks_def arm64_parts)

lemma entries_of_part_5:
  "map (\<lambda>i. f (g_bal_decoder_arm64_instructions ! i)) [1968 ..< 2460] = map f (concat arm64_part_5)"
  by (rule map_middle [where pre = "concat (arm64_part_1 @ arm64_part_2 @ arm64_part_3 @ arm64_part_4)" and post = "concat (arm64_part_6 @ arm64_part_7 @ arm64_part_8)"])
    (simp_all add: g_bal_decoder_arm64_instructions_def arm64_chunks_def arm64_parts)

lemma entries_of_part_6:
  "map (\<lambda>i. f (g_bal_decoder_arm64_instructions ! i)) [2460 ..< 2952] = map f (concat arm64_part_6)"
  by (rule map_middle [where pre = "concat (arm64_part_1 @ arm64_part_2 @ arm64_part_3 @ arm64_part_4 @ arm64_part_5)" and post = "concat (arm64_part_7 @ arm64_part_8)"])
    (simp_all add: g_bal_decoder_arm64_instructions_def arm64_chunks_def arm64_parts)

lemma entries_of_part_7:
  "map (\<lambda>i. f (g_bal_decoder_arm64_instructions ! i)) [2952 ..< 3444] = map f (concat arm64_part_7)"
  by (rule map_middle [where pre = "concat (arm64_part_1 @ arm64_part_2 @ arm64_part_3 @ arm64_part_4 @ arm64_part_5 @ arm64_part_6)" and post = "concat (arm64_part_8)"])
    (simp_all add: g_bal_decoder_arm64_instructions_def arm64_chunks_def arm64_parts)

lemma entries_of_part_8:
  "map (\<lambda>i. f (g_bal_decoder_arm64_instructions ! i)) [3444 ..< 3856] = map f (concat arm64_part_8)"
  by (rule map_middle [where pre = "concat (arm64_part_1 @ arm64_part_2 @ arm64_part_3 @ arm64_part_4 @ arm64_part_5 @ arm64_part_6 @ arm64_part_7)" and post = "concat ([])"])
    (simp_all add: g_bal_decoder_arm64_instructions_def arm64_chunks_def arm64_parts)

text \<open>The entries of one list.\<close>

lemma entries_of_list:
  assumes "map (\<lambda>i. f (g_bal_decoder_arm64_instructions ! i)) [a ..< b] = map f ys" "zs = take n (drop k ys)" "a + k + n \<le> b"
  shows "map (\<lambda>i. f (g_bal_decoder_arm64_instructions ! i)) [a + k ..< a + k + n] = map f zs"
proof -
  have "map f zs = take n (drop k (map (\<lambda>i. f (g_bal_decoder_arm64_instructions ! i)) [a ..< b]))" using assms(1,2) by (simp add: take_map drop_map)
  also have "\<dots> = map (\<lambda>i. f (g_bal_decoder_arm64_instructions ! i)) (take n (drop k [a ..< b]))" by (simp only: take_map drop_map)
  also have "take n (drop k [a ..< b]) = [a + k ..< a + k + n]" using assms(3) by simp
  finally show ?thesis by (rule HOL.sym)
qed

lemma upt_first: "[0 ..< 12] = 0 # 1 # [2 ..< 12]"
  by (simp add: upt_conv_Cons)

lemmas lengths_part_1 =
  entries_0(1) entries_12(1) entries_24(1) entries_36(1) entries_48(1) entries_60(1)
  entries_72(1) entries_84(1) entries_96(1) entries_108(1) entries_120(1) entries_132(1)
  entries_144(1) entries_156(1) entries_168(1) entries_180(1) entries_192(1) entries_204(1)
  entries_216(1) entries_228(1) entries_240(1) entries_252(1) entries_264(1) entries_276(1)
  entries_288(1) entries_300(1) entries_312(1) entries_324(1) entries_336(1) entries_348(1)
  entries_360(1) entries_372(1) entries_384(1) entries_396(1) entries_408(1) entries_420(1)
  entries_432(1) entries_444(1) entries_456(1) entries_468(1) entries_480(1)

lemmas lengths_part_2 =
  entries_492(1) entries_504(1) entries_516(1) entries_528(1) entries_540(1) entries_552(1)
  entries_564(1) entries_576(1) entries_588(1) entries_600(1) entries_612(1) entries_624(1)
  entries_636(1) entries_648(1) entries_660(1) entries_672(1) entries_684(1) entries_696(1)
  entries_708(1) entries_720(1) entries_732(1) entries_744(1) entries_756(1) entries_768(1)
  entries_780(1) entries_792(1) entries_804(1) entries_816(1) entries_828(1) entries_840(1)
  entries_852(1) entries_864(1) entries_876(1) entries_888(1) entries_900(1) entries_912(1)
  entries_924(1) entries_936(1) entries_948(1) entries_960(1) entries_972(1)

lemmas lengths_part_3 =
  entries_984(1) entries_996(1) entries_1008(1) entries_1020(1) entries_1032(1) entries_1044(1)
  entries_1056(1) entries_1068(1) entries_1080(1) entries_1092(1) entries_1104(1)
  entries_1116(1) entries_1128(1) entries_1140(1) entries_1152(1) entries_1164(1)
  entries_1176(1) entries_1188(1) entries_1200(1) entries_1212(1) entries_1224(1)
  entries_1236(1) entries_1248(1) entries_1260(1) entries_1272(1) entries_1284(1)
  entries_1296(1) entries_1308(1) entries_1320(1) entries_1332(1) entries_1344(1)
  entries_1356(1) entries_1368(1) entries_1380(1) entries_1392(1) entries_1404(1)
  entries_1416(1) entries_1428(1) entries_1440(1) entries_1452(1) entries_1464(1)

lemmas lengths_part_4 =
  entries_1476(1) entries_1488(1) entries_1500(1) entries_1512(1) entries_1524(1)
  entries_1536(1) entries_1548(1) entries_1560(1) entries_1572(1) entries_1584(1)
  entries_1596(1) entries_1608(1) entries_1620(1) entries_1632(1) entries_1644(1)
  entries_1656(1) entries_1668(1) entries_1680(1) entries_1692(1) entries_1704(1)
  entries_1716(1) entries_1728(1) entries_1740(1) entries_1752(1) entries_1764(1)
  entries_1776(1) entries_1788(1) entries_1800(1) entries_1812(1) entries_1824(1)
  entries_1836(1) entries_1848(1) entries_1860(1) entries_1872(1) entries_1884(1)
  entries_1896(1) entries_1908(1) entries_1920(1) entries_1932(1) entries_1944(1)
  entries_1956(1)

lemmas lengths_part_5 =
  entries_1968(1) entries_1980(1) entries_1992(1) entries_2004(1) entries_2016(1)
  entries_2028(1) entries_2040(1) entries_2052(1) entries_2064(1) entries_2076(1)
  entries_2088(1) entries_2100(1) entries_2112(1) entries_2124(1) entries_2136(1)
  entries_2148(1) entries_2160(1) entries_2172(1) entries_2184(1) entries_2196(1)
  entries_2208(1) entries_2220(1) entries_2232(1) entries_2244(1) entries_2256(1)
  entries_2268(1) entries_2280(1) entries_2292(1) entries_2304(1) entries_2316(1)
  entries_2328(1) entries_2340(1) entries_2352(1) entries_2364(1) entries_2376(1)
  entries_2388(1) entries_2400(1) entries_2412(1) entries_2424(1) entries_2436(1)
  entries_2448(1)

lemmas lengths_part_6 =
  entries_2460(1) entries_2472(1) entries_2484(1) entries_2496(1) entries_2508(1)
  entries_2520(1) entries_2532(1) entries_2544(1) entries_2556(1) entries_2568(1)
  entries_2580(1) entries_2592(1) entries_2604(1) entries_2616(1) entries_2628(1)
  entries_2640(1) entries_2652(1) entries_2664(1) entries_2676(1) entries_2688(1)
  entries_2700(1) entries_2712(1) entries_2724(1) entries_2736(1) entries_2748(1)
  entries_2760(1) entries_2772(1) entries_2784(1) entries_2796(1) entries_2808(1)
  entries_2820(1) entries_2832(1) entries_2844(1) entries_2856(1) entries_2868(1)
  entries_2880(1) entries_2892(1) entries_2904(1) entries_2916(1) entries_2928(1)
  entries_2940(1)

lemmas lengths_part_7 =
  entries_2952(1) entries_2964(1) entries_2976(1) entries_2988(1) entries_3000(1)
  entries_3012(1) entries_3024(1) entries_3036(1) entries_3048(1) entries_3060(1)
  entries_3072(1) entries_3084(1) entries_3096(1) entries_3108(1) entries_3120(1)
  entries_3132(1) entries_3144(1) entries_3156(1) entries_3168(1) entries_3180(1)
  entries_3192(1) entries_3204(1) entries_3216(1) entries_3228(1) entries_3240(1)
  entries_3252(1) entries_3264(1) entries_3276(1) entries_3288(1) entries_3300(1)
  entries_3312(1) entries_3324(1) entries_3336(1) entries_3348(1) entries_3360(1)
  entries_3372(1) entries_3384(1) entries_3396(1) entries_3408(1) entries_3420(1)
  entries_3432(1)

lemmas lengths_part_8 =
  entries_3444(1) entries_3456(1) entries_3468(1) entries_3480(1) entries_3492(1)
  entries_3504(1) entries_3516(1) entries_3528(1) entries_3540(1) entries_3552(1)
  entries_3564(1) entries_3576(1) entries_3588(1) entries_3600(1) entries_3612(1)
  entries_3624(1) entries_3636(1) entries_3648(1) entries_3660(1) entries_3672(1)
  entries_3684(1) entries_3696(1) entries_3708(1) entries_3720(1) entries_3732(1)
  entries_3744(1) entries_3756(1) entries_3768(1) entries_3780(1) entries_3792(1)
  entries_3804(1) entries_3816(1) entries_3828(1) entries_3840(1) entries_3852(1)

lemma list_0: "map (\<lambda>i. f (g_bal_decoder_arm64_instructions ! i)) [0 ..< 12] = map f arm64_instructions_0"
  using entries_of_list [OF entries_of_part_1, where zs = arm64_instructions_0 and n = 12 and k = 0]
  by (simp add: arm64_part_1_def lengths_part_1)

lemmas tops_0 = list_0 [of top_bits, folded entry_top_def, unfolded entries_0 upt_first, simplified]
lemmas keys_0 = list_0 [of mask_value, folded entry_key_def, unfolded keys_of_0 upt_first, simplified]

lemma list_12: "map (\<lambda>i. f (g_bal_decoder_arm64_instructions ! i)) [12 ..< 24] = map f arm64_instructions_12"
  using entries_of_list [OF entries_of_part_1, where zs = arm64_instructions_12 and n = 12 and k = 12]
  by (simp add: arm64_part_1_def lengths_part_1)

lemmas tops_12 = list_12 [of top_bits, folded entry_top_def, unfolded entries_12, simplified]
lemmas keys_12 = list_12 [of mask_value, folded entry_key_def, unfolded keys_of_12, simplified]

lemma list_24: "map (\<lambda>i. f (g_bal_decoder_arm64_instructions ! i)) [24 ..< 36] = map f arm64_instructions_24"
  using entries_of_list [OF entries_of_part_1, where zs = arm64_instructions_24 and n = 12 and k = 24]
  by (simp add: arm64_part_1_def lengths_part_1)

lemmas tops_24 = list_24 [of top_bits, folded entry_top_def, unfolded entries_24, simplified]
lemmas keys_24 = list_24 [of mask_value, folded entry_key_def, unfolded keys_of_24, simplified]

lemma list_36: "map (\<lambda>i. f (g_bal_decoder_arm64_instructions ! i)) [36 ..< 48] = map f arm64_instructions_36"
  using entries_of_list [OF entries_of_part_1, where zs = arm64_instructions_36 and n = 12 and k = 36]
  by (simp add: arm64_part_1_def lengths_part_1)

lemmas tops_36 = list_36 [of top_bits, folded entry_top_def, unfolded entries_36, simplified]
lemmas keys_36 = list_36 [of mask_value, folded entry_key_def, unfolded keys_of_36, simplified]

lemma list_48: "map (\<lambda>i. f (g_bal_decoder_arm64_instructions ! i)) [48 ..< 60] = map f arm64_instructions_48"
  using entries_of_list [OF entries_of_part_1, where zs = arm64_instructions_48 and n = 12 and k = 48]
  by (simp add: arm64_part_1_def lengths_part_1)

lemmas tops_48 = list_48 [of top_bits, folded entry_top_def, unfolded entries_48, simplified]
lemmas keys_48 = list_48 [of mask_value, folded entry_key_def, unfolded keys_of_48, simplified]

lemma list_60: "map (\<lambda>i. f (g_bal_decoder_arm64_instructions ! i)) [60 ..< 72] = map f arm64_instructions_60"
  using entries_of_list [OF entries_of_part_1, where zs = arm64_instructions_60 and n = 12 and k = 60]
  by (simp add: arm64_part_1_def lengths_part_1)

lemmas tops_60 = list_60 [of top_bits, folded entry_top_def, unfolded entries_60, simplified]
lemmas keys_60 = list_60 [of mask_value, folded entry_key_def, unfolded keys_of_60, simplified]

lemma list_72: "map (\<lambda>i. f (g_bal_decoder_arm64_instructions ! i)) [72 ..< 84] = map f arm64_instructions_72"
  using entries_of_list [OF entries_of_part_1, where zs = arm64_instructions_72 and n = 12 and k = 72]
  by (simp add: arm64_part_1_def lengths_part_1)

lemmas tops_72 = list_72 [of top_bits, folded entry_top_def, unfolded entries_72, simplified]
lemmas keys_72 = list_72 [of mask_value, folded entry_key_def, unfolded keys_of_72, simplified]

lemma list_84: "map (\<lambda>i. f (g_bal_decoder_arm64_instructions ! i)) [84 ..< 96] = map f arm64_instructions_84"
  using entries_of_list [OF entries_of_part_1, where zs = arm64_instructions_84 and n = 12 and k = 84]
  by (simp add: arm64_part_1_def lengths_part_1)

lemmas tops_84 = list_84 [of top_bits, folded entry_top_def, unfolded entries_84, simplified]
lemmas keys_84 = list_84 [of mask_value, folded entry_key_def, unfolded keys_of_84, simplified]

lemma list_96: "map (\<lambda>i. f (g_bal_decoder_arm64_instructions ! i)) [96 ..< 108] = map f arm64_instructions_96"
  using entries_of_list [OF entries_of_part_1, where zs = arm64_instructions_96 and n = 12 and k = 96]
  by (simp add: arm64_part_1_def lengths_part_1)

lemmas tops_96 = list_96 [of top_bits, folded entry_top_def, unfolded entries_96, simplified]
lemmas keys_96 = list_96 [of mask_value, folded entry_key_def, unfolded keys_of_96, simplified]

lemma list_108: "map (\<lambda>i. f (g_bal_decoder_arm64_instructions ! i)) [108 ..< 120] = map f arm64_instructions_108"
  using entries_of_list [OF entries_of_part_1, where zs = arm64_instructions_108 and n = 12 and k = 108]
  by (simp add: arm64_part_1_def lengths_part_1)

lemmas tops_108 = list_108 [of top_bits, folded entry_top_def, unfolded entries_108, simplified]
lemmas keys_108 = list_108 [of mask_value, folded entry_key_def, unfolded keys_of_108, simplified]

lemma list_120: "map (\<lambda>i. f (g_bal_decoder_arm64_instructions ! i)) [120 ..< 132] = map f arm64_instructions_120"
  using entries_of_list [OF entries_of_part_1, where zs = arm64_instructions_120 and n = 12 and k = 120]
  by (simp add: arm64_part_1_def lengths_part_1)

lemmas tops_120 = list_120 [of top_bits, folded entry_top_def, unfolded entries_120, simplified]
lemmas keys_120 = list_120 [of mask_value, folded entry_key_def, unfolded keys_of_120, simplified]

lemma list_132: "map (\<lambda>i. f (g_bal_decoder_arm64_instructions ! i)) [132 ..< 144] = map f arm64_instructions_132"
  using entries_of_list [OF entries_of_part_1, where zs = arm64_instructions_132 and n = 12 and k = 132]
  by (simp add: arm64_part_1_def lengths_part_1)

lemmas tops_132 = list_132 [of top_bits, folded entry_top_def, unfolded entries_132, simplified]
lemmas keys_132 = list_132 [of mask_value, folded entry_key_def, unfolded keys_of_132, simplified]

lemma list_144: "map (\<lambda>i. f (g_bal_decoder_arm64_instructions ! i)) [144 ..< 156] = map f arm64_instructions_144"
  using entries_of_list [OF entries_of_part_1, where zs = arm64_instructions_144 and n = 12 and k = 144]
  by (simp add: arm64_part_1_def lengths_part_1)

lemmas tops_144 = list_144 [of top_bits, folded entry_top_def, unfolded entries_144, simplified]
lemmas keys_144 = list_144 [of mask_value, folded entry_key_def, unfolded keys_of_144, simplified]

lemma list_156: "map (\<lambda>i. f (g_bal_decoder_arm64_instructions ! i)) [156 ..< 168] = map f arm64_instructions_156"
  using entries_of_list [OF entries_of_part_1, where zs = arm64_instructions_156 and n = 12 and k = 156]
  by (simp add: arm64_part_1_def lengths_part_1)

lemmas tops_156 = list_156 [of top_bits, folded entry_top_def, unfolded entries_156, simplified]
lemmas keys_156 = list_156 [of mask_value, folded entry_key_def, unfolded keys_of_156, simplified]

lemma list_168: "map (\<lambda>i. f (g_bal_decoder_arm64_instructions ! i)) [168 ..< 180] = map f arm64_instructions_168"
  using entries_of_list [OF entries_of_part_1, where zs = arm64_instructions_168 and n = 12 and k = 168]
  by (simp add: arm64_part_1_def lengths_part_1)

lemmas tops_168 = list_168 [of top_bits, folded entry_top_def, unfolded entries_168, simplified]
lemmas keys_168 = list_168 [of mask_value, folded entry_key_def, unfolded keys_of_168, simplified]

lemma list_180: "map (\<lambda>i. f (g_bal_decoder_arm64_instructions ! i)) [180 ..< 192] = map f arm64_instructions_180"
  using entries_of_list [OF entries_of_part_1, where zs = arm64_instructions_180 and n = 12 and k = 180]
  by (simp add: arm64_part_1_def lengths_part_1)

lemmas tops_180 = list_180 [of top_bits, folded entry_top_def, unfolded entries_180, simplified]
lemmas keys_180 = list_180 [of mask_value, folded entry_key_def, unfolded keys_of_180, simplified]

lemma list_192: "map (\<lambda>i. f (g_bal_decoder_arm64_instructions ! i)) [192 ..< 204] = map f arm64_instructions_192"
  using entries_of_list [OF entries_of_part_1, where zs = arm64_instructions_192 and n = 12 and k = 192]
  by (simp add: arm64_part_1_def lengths_part_1)

lemmas tops_192 = list_192 [of top_bits, folded entry_top_def, unfolded entries_192, simplified]
lemmas keys_192 = list_192 [of mask_value, folded entry_key_def, unfolded keys_of_192, simplified]

lemma list_204: "map (\<lambda>i. f (g_bal_decoder_arm64_instructions ! i)) [204 ..< 216] = map f arm64_instructions_204"
  using entries_of_list [OF entries_of_part_1, where zs = arm64_instructions_204 and n = 12 and k = 204]
  by (simp add: arm64_part_1_def lengths_part_1)

lemmas tops_204 = list_204 [of top_bits, folded entry_top_def, unfolded entries_204, simplified]
lemmas keys_204 = list_204 [of mask_value, folded entry_key_def, unfolded keys_of_204, simplified]

lemma list_216: "map (\<lambda>i. f (g_bal_decoder_arm64_instructions ! i)) [216 ..< 228] = map f arm64_instructions_216"
  using entries_of_list [OF entries_of_part_1, where zs = arm64_instructions_216 and n = 12 and k = 216]
  by (simp add: arm64_part_1_def lengths_part_1)

lemmas tops_216 = list_216 [of top_bits, folded entry_top_def, unfolded entries_216, simplified]
lemmas keys_216 = list_216 [of mask_value, folded entry_key_def, unfolded keys_of_216, simplified]

lemma list_228: "map (\<lambda>i. f (g_bal_decoder_arm64_instructions ! i)) [228 ..< 240] = map f arm64_instructions_228"
  using entries_of_list [OF entries_of_part_1, where zs = arm64_instructions_228 and n = 12 and k = 228]
  by (simp add: arm64_part_1_def lengths_part_1)

lemmas tops_228 = list_228 [of top_bits, folded entry_top_def, unfolded entries_228, simplified]
lemmas keys_228 = list_228 [of mask_value, folded entry_key_def, unfolded keys_of_228, simplified]

lemma list_240: "map (\<lambda>i. f (g_bal_decoder_arm64_instructions ! i)) [240 ..< 252] = map f arm64_instructions_240"
  using entries_of_list [OF entries_of_part_1, where zs = arm64_instructions_240 and n = 12 and k = 240]
  by (simp add: arm64_part_1_def lengths_part_1)

lemmas tops_240 = list_240 [of top_bits, folded entry_top_def, unfolded entries_240, simplified]
lemmas keys_240 = list_240 [of mask_value, folded entry_key_def, unfolded keys_of_240, simplified]

lemma list_252: "map (\<lambda>i. f (g_bal_decoder_arm64_instructions ! i)) [252 ..< 264] = map f arm64_instructions_252"
  using entries_of_list [OF entries_of_part_1, where zs = arm64_instructions_252 and n = 12 and k = 252]
  by (simp add: arm64_part_1_def lengths_part_1)

lemmas tops_252 = list_252 [of top_bits, folded entry_top_def, unfolded entries_252, simplified]
lemmas keys_252 = list_252 [of mask_value, folded entry_key_def, unfolded keys_of_252, simplified]

lemma list_264: "map (\<lambda>i. f (g_bal_decoder_arm64_instructions ! i)) [264 ..< 276] = map f arm64_instructions_264"
  using entries_of_list [OF entries_of_part_1, where zs = arm64_instructions_264 and n = 12 and k = 264]
  by (simp add: arm64_part_1_def lengths_part_1)

lemmas tops_264 = list_264 [of top_bits, folded entry_top_def, unfolded entries_264, simplified]
lemmas keys_264 = list_264 [of mask_value, folded entry_key_def, unfolded keys_of_264, simplified]

lemma list_276: "map (\<lambda>i. f (g_bal_decoder_arm64_instructions ! i)) [276 ..< 288] = map f arm64_instructions_276"
  using entries_of_list [OF entries_of_part_1, where zs = arm64_instructions_276 and n = 12 and k = 276]
  by (simp add: arm64_part_1_def lengths_part_1)

lemmas tops_276 = list_276 [of top_bits, folded entry_top_def, unfolded entries_276, simplified]
lemmas keys_276 = list_276 [of mask_value, folded entry_key_def, unfolded keys_of_276, simplified]

lemma list_288: "map (\<lambda>i. f (g_bal_decoder_arm64_instructions ! i)) [288 ..< 300] = map f arm64_instructions_288"
  using entries_of_list [OF entries_of_part_1, where zs = arm64_instructions_288 and n = 12 and k = 288]
  by (simp add: arm64_part_1_def lengths_part_1)

lemmas tops_288 = list_288 [of top_bits, folded entry_top_def, unfolded entries_288, simplified]
lemmas keys_288 = list_288 [of mask_value, folded entry_key_def, unfolded keys_of_288, simplified]

lemma list_300: "map (\<lambda>i. f (g_bal_decoder_arm64_instructions ! i)) [300 ..< 312] = map f arm64_instructions_300"
  using entries_of_list [OF entries_of_part_1, where zs = arm64_instructions_300 and n = 12 and k = 300]
  by (simp add: arm64_part_1_def lengths_part_1)

lemmas tops_300 = list_300 [of top_bits, folded entry_top_def, unfolded entries_300, simplified]
lemmas keys_300 = list_300 [of mask_value, folded entry_key_def, unfolded keys_of_300, simplified]

lemma list_312: "map (\<lambda>i. f (g_bal_decoder_arm64_instructions ! i)) [312 ..< 324] = map f arm64_instructions_312"
  using entries_of_list [OF entries_of_part_1, where zs = arm64_instructions_312 and n = 12 and k = 312]
  by (simp add: arm64_part_1_def lengths_part_1)

lemmas tops_312 = list_312 [of top_bits, folded entry_top_def, unfolded entries_312, simplified]
lemmas keys_312 = list_312 [of mask_value, folded entry_key_def, unfolded keys_of_312, simplified]

lemma list_324: "map (\<lambda>i. f (g_bal_decoder_arm64_instructions ! i)) [324 ..< 336] = map f arm64_instructions_324"
  using entries_of_list [OF entries_of_part_1, where zs = arm64_instructions_324 and n = 12 and k = 324]
  by (simp add: arm64_part_1_def lengths_part_1)

lemmas tops_324 = list_324 [of top_bits, folded entry_top_def, unfolded entries_324, simplified]
lemmas keys_324 = list_324 [of mask_value, folded entry_key_def, unfolded keys_of_324, simplified]

lemma list_336: "map (\<lambda>i. f (g_bal_decoder_arm64_instructions ! i)) [336 ..< 348] = map f arm64_instructions_336"
  using entries_of_list [OF entries_of_part_1, where zs = arm64_instructions_336 and n = 12 and k = 336]
  by (simp add: arm64_part_1_def lengths_part_1)

lemmas tops_336 = list_336 [of top_bits, folded entry_top_def, unfolded entries_336, simplified]
lemmas keys_336 = list_336 [of mask_value, folded entry_key_def, unfolded keys_of_336, simplified]

lemma list_348: "map (\<lambda>i. f (g_bal_decoder_arm64_instructions ! i)) [348 ..< 360] = map f arm64_instructions_348"
  using entries_of_list [OF entries_of_part_1, where zs = arm64_instructions_348 and n = 12 and k = 348]
  by (simp add: arm64_part_1_def lengths_part_1)

lemmas tops_348 = list_348 [of top_bits, folded entry_top_def, unfolded entries_348, simplified]
lemmas keys_348 = list_348 [of mask_value, folded entry_key_def, unfolded keys_of_348, simplified]

lemma list_360: "map (\<lambda>i. f (g_bal_decoder_arm64_instructions ! i)) [360 ..< 372] = map f arm64_instructions_360"
  using entries_of_list [OF entries_of_part_1, where zs = arm64_instructions_360 and n = 12 and k = 360]
  by (simp add: arm64_part_1_def lengths_part_1)

lemmas tops_360 = list_360 [of top_bits, folded entry_top_def, unfolded entries_360, simplified]
lemmas keys_360 = list_360 [of mask_value, folded entry_key_def, unfolded keys_of_360, simplified]

lemma list_372: "map (\<lambda>i. f (g_bal_decoder_arm64_instructions ! i)) [372 ..< 384] = map f arm64_instructions_372"
  using entries_of_list [OF entries_of_part_1, where zs = arm64_instructions_372 and n = 12 and k = 372]
  by (simp add: arm64_part_1_def lengths_part_1)

lemmas tops_372 = list_372 [of top_bits, folded entry_top_def, unfolded entries_372, simplified]
lemmas keys_372 = list_372 [of mask_value, folded entry_key_def, unfolded keys_of_372, simplified]

lemma list_384: "map (\<lambda>i. f (g_bal_decoder_arm64_instructions ! i)) [384 ..< 396] = map f arm64_instructions_384"
  using entries_of_list [OF entries_of_part_1, where zs = arm64_instructions_384 and n = 12 and k = 384]
  by (simp add: arm64_part_1_def lengths_part_1)

lemmas tops_384 = list_384 [of top_bits, folded entry_top_def, unfolded entries_384, simplified]
lemmas keys_384 = list_384 [of mask_value, folded entry_key_def, unfolded keys_of_384, simplified]

lemma list_396: "map (\<lambda>i. f (g_bal_decoder_arm64_instructions ! i)) [396 ..< 408] = map f arm64_instructions_396"
  using entries_of_list [OF entries_of_part_1, where zs = arm64_instructions_396 and n = 12 and k = 396]
  by (simp add: arm64_part_1_def lengths_part_1)

lemmas tops_396 = list_396 [of top_bits, folded entry_top_def, unfolded entries_396, simplified]
lemmas keys_396 = list_396 [of mask_value, folded entry_key_def, unfolded keys_of_396, simplified]

lemma list_408: "map (\<lambda>i. f (g_bal_decoder_arm64_instructions ! i)) [408 ..< 420] = map f arm64_instructions_408"
  using entries_of_list [OF entries_of_part_1, where zs = arm64_instructions_408 and n = 12 and k = 408]
  by (simp add: arm64_part_1_def lengths_part_1)

lemmas tops_408 = list_408 [of top_bits, folded entry_top_def, unfolded entries_408, simplified]
lemmas keys_408 = list_408 [of mask_value, folded entry_key_def, unfolded keys_of_408, simplified]

lemma list_420: "map (\<lambda>i. f (g_bal_decoder_arm64_instructions ! i)) [420 ..< 432] = map f arm64_instructions_420"
  using entries_of_list [OF entries_of_part_1, where zs = arm64_instructions_420 and n = 12 and k = 420]
  by (simp add: arm64_part_1_def lengths_part_1)

lemmas tops_420 = list_420 [of top_bits, folded entry_top_def, unfolded entries_420, simplified]
lemmas keys_420 = list_420 [of mask_value, folded entry_key_def, unfolded keys_of_420, simplified]

lemma list_432: "map (\<lambda>i. f (g_bal_decoder_arm64_instructions ! i)) [432 ..< 444] = map f arm64_instructions_432"
  using entries_of_list [OF entries_of_part_1, where zs = arm64_instructions_432 and n = 12 and k = 432]
  by (simp add: arm64_part_1_def lengths_part_1)

lemmas tops_432 = list_432 [of top_bits, folded entry_top_def, unfolded entries_432, simplified]
lemmas keys_432 = list_432 [of mask_value, folded entry_key_def, unfolded keys_of_432, simplified]

lemma list_444: "map (\<lambda>i. f (g_bal_decoder_arm64_instructions ! i)) [444 ..< 456] = map f arm64_instructions_444"
  using entries_of_list [OF entries_of_part_1, where zs = arm64_instructions_444 and n = 12 and k = 444]
  by (simp add: arm64_part_1_def lengths_part_1)

lemmas tops_444 = list_444 [of top_bits, folded entry_top_def, unfolded entries_444, simplified]
lemmas keys_444 = list_444 [of mask_value, folded entry_key_def, unfolded keys_of_444, simplified]

lemma list_456: "map (\<lambda>i. f (g_bal_decoder_arm64_instructions ! i)) [456 ..< 468] = map f arm64_instructions_456"
  using entries_of_list [OF entries_of_part_1, where zs = arm64_instructions_456 and n = 12 and k = 456]
  by (simp add: arm64_part_1_def lengths_part_1)

lemmas tops_456 = list_456 [of top_bits, folded entry_top_def, unfolded entries_456, simplified]
lemmas keys_456 = list_456 [of mask_value, folded entry_key_def, unfolded keys_of_456, simplified]

lemma list_468: "map (\<lambda>i. f (g_bal_decoder_arm64_instructions ! i)) [468 ..< 480] = map f arm64_instructions_468"
  using entries_of_list [OF entries_of_part_1, where zs = arm64_instructions_468 and n = 12 and k = 468]
  by (simp add: arm64_part_1_def lengths_part_1)

lemmas tops_468 = list_468 [of top_bits, folded entry_top_def, unfolded entries_468, simplified]
lemmas keys_468 = list_468 [of mask_value, folded entry_key_def, unfolded keys_of_468, simplified]

lemma list_480: "map (\<lambda>i. f (g_bal_decoder_arm64_instructions ! i)) [480 ..< 492] = map f arm64_instructions_480"
  using entries_of_list [OF entries_of_part_1, where zs = arm64_instructions_480 and n = 12 and k = 480]
  by (simp add: arm64_part_1_def lengths_part_1)

lemmas tops_480 = list_480 [of top_bits, folded entry_top_def, unfolded entries_480, simplified]
lemmas keys_480 = list_480 [of mask_value, folded entry_key_def, unfolded keys_of_480, simplified]

lemma list_492: "map (\<lambda>i. f (g_bal_decoder_arm64_instructions ! i)) [492 ..< 504] = map f arm64_instructions_492"
  using entries_of_list [OF entries_of_part_2, where zs = arm64_instructions_492 and n = 12 and k = 0]
  by (simp add: arm64_part_2_def lengths_part_2)

lemmas tops_492 = list_492 [of top_bits, folded entry_top_def, unfolded entries_492, simplified]
lemmas keys_492 = list_492 [of mask_value, folded entry_key_def, unfolded keys_of_492, simplified]

lemma list_504: "map (\<lambda>i. f (g_bal_decoder_arm64_instructions ! i)) [504 ..< 516] = map f arm64_instructions_504"
  using entries_of_list [OF entries_of_part_2, where zs = arm64_instructions_504 and n = 12 and k = 12]
  by (simp add: arm64_part_2_def lengths_part_2)

lemmas tops_504 = list_504 [of top_bits, folded entry_top_def, unfolded entries_504, simplified]
lemmas keys_504 = list_504 [of mask_value, folded entry_key_def, unfolded keys_of_504, simplified]

lemma list_516: "map (\<lambda>i. f (g_bal_decoder_arm64_instructions ! i)) [516 ..< 528] = map f arm64_instructions_516"
  using entries_of_list [OF entries_of_part_2, where zs = arm64_instructions_516 and n = 12 and k = 24]
  by (simp add: arm64_part_2_def lengths_part_2)

lemmas tops_516 = list_516 [of top_bits, folded entry_top_def, unfolded entries_516, simplified]
lemmas keys_516 = list_516 [of mask_value, folded entry_key_def, unfolded keys_of_516, simplified]

lemma list_528: "map (\<lambda>i. f (g_bal_decoder_arm64_instructions ! i)) [528 ..< 540] = map f arm64_instructions_528"
  using entries_of_list [OF entries_of_part_2, where zs = arm64_instructions_528 and n = 12 and k = 36]
  by (simp add: arm64_part_2_def lengths_part_2)

lemmas tops_528 = list_528 [of top_bits, folded entry_top_def, unfolded entries_528, simplified]
lemmas keys_528 = list_528 [of mask_value, folded entry_key_def, unfolded keys_of_528, simplified]

lemma list_540: "map (\<lambda>i. f (g_bal_decoder_arm64_instructions ! i)) [540 ..< 552] = map f arm64_instructions_540"
  using entries_of_list [OF entries_of_part_2, where zs = arm64_instructions_540 and n = 12 and k = 48]
  by (simp add: arm64_part_2_def lengths_part_2)

lemmas tops_540 = list_540 [of top_bits, folded entry_top_def, unfolded entries_540, simplified]
lemmas keys_540 = list_540 [of mask_value, folded entry_key_def, unfolded keys_of_540, simplified]

lemma list_552: "map (\<lambda>i. f (g_bal_decoder_arm64_instructions ! i)) [552 ..< 564] = map f arm64_instructions_552"
  using entries_of_list [OF entries_of_part_2, where zs = arm64_instructions_552 and n = 12 and k = 60]
  by (simp add: arm64_part_2_def lengths_part_2)

lemmas tops_552 = list_552 [of top_bits, folded entry_top_def, unfolded entries_552, simplified]
lemmas keys_552 = list_552 [of mask_value, folded entry_key_def, unfolded keys_of_552, simplified]

lemma list_564: "map (\<lambda>i. f (g_bal_decoder_arm64_instructions ! i)) [564 ..< 576] = map f arm64_instructions_564"
  using entries_of_list [OF entries_of_part_2, where zs = arm64_instructions_564 and n = 12 and k = 72]
  by (simp add: arm64_part_2_def lengths_part_2)

lemmas tops_564 = list_564 [of top_bits, folded entry_top_def, unfolded entries_564, simplified]
lemmas keys_564 = list_564 [of mask_value, folded entry_key_def, unfolded keys_of_564, simplified]

lemma list_576: "map (\<lambda>i. f (g_bal_decoder_arm64_instructions ! i)) [576 ..< 588] = map f arm64_instructions_576"
  using entries_of_list [OF entries_of_part_2, where zs = arm64_instructions_576 and n = 12 and k = 84]
  by (simp add: arm64_part_2_def lengths_part_2)

lemmas tops_576 = list_576 [of top_bits, folded entry_top_def, unfolded entries_576, simplified]
lemmas keys_576 = list_576 [of mask_value, folded entry_key_def, unfolded keys_of_576, simplified]

lemma list_588: "map (\<lambda>i. f (g_bal_decoder_arm64_instructions ! i)) [588 ..< 600] = map f arm64_instructions_588"
  using entries_of_list [OF entries_of_part_2, where zs = arm64_instructions_588 and n = 12 and k = 96]
  by (simp add: arm64_part_2_def lengths_part_2)

lemmas tops_588 = list_588 [of top_bits, folded entry_top_def, unfolded entries_588, simplified]
lemmas keys_588 = list_588 [of mask_value, folded entry_key_def, unfolded keys_of_588, simplified]

lemma list_600: "map (\<lambda>i. f (g_bal_decoder_arm64_instructions ! i)) [600 ..< 612] = map f arm64_instructions_600"
  using entries_of_list [OF entries_of_part_2, where zs = arm64_instructions_600 and n = 12 and k = 108]
  by (simp add: arm64_part_2_def lengths_part_2)

lemmas tops_600 = list_600 [of top_bits, folded entry_top_def, unfolded entries_600, simplified]
lemmas keys_600 = list_600 [of mask_value, folded entry_key_def, unfolded keys_of_600, simplified]

lemma list_612: "map (\<lambda>i. f (g_bal_decoder_arm64_instructions ! i)) [612 ..< 624] = map f arm64_instructions_612"
  using entries_of_list [OF entries_of_part_2, where zs = arm64_instructions_612 and n = 12 and k = 120]
  by (simp add: arm64_part_2_def lengths_part_2)

lemmas tops_612 = list_612 [of top_bits, folded entry_top_def, unfolded entries_612, simplified]
lemmas keys_612 = list_612 [of mask_value, folded entry_key_def, unfolded keys_of_612, simplified]

lemma list_624: "map (\<lambda>i. f (g_bal_decoder_arm64_instructions ! i)) [624 ..< 636] = map f arm64_instructions_624"
  using entries_of_list [OF entries_of_part_2, where zs = arm64_instructions_624 and n = 12 and k = 132]
  by (simp add: arm64_part_2_def lengths_part_2)

lemmas tops_624 = list_624 [of top_bits, folded entry_top_def, unfolded entries_624, simplified]
lemmas keys_624 = list_624 [of mask_value, folded entry_key_def, unfolded keys_of_624, simplified]

lemma list_636: "map (\<lambda>i. f (g_bal_decoder_arm64_instructions ! i)) [636 ..< 648] = map f arm64_instructions_636"
  using entries_of_list [OF entries_of_part_2, where zs = arm64_instructions_636 and n = 12 and k = 144]
  by (simp add: arm64_part_2_def lengths_part_2)

lemmas tops_636 = list_636 [of top_bits, folded entry_top_def, unfolded entries_636, simplified]
lemmas keys_636 = list_636 [of mask_value, folded entry_key_def, unfolded keys_of_636, simplified]

lemma list_648: "map (\<lambda>i. f (g_bal_decoder_arm64_instructions ! i)) [648 ..< 660] = map f arm64_instructions_648"
  using entries_of_list [OF entries_of_part_2, where zs = arm64_instructions_648 and n = 12 and k = 156]
  by (simp add: arm64_part_2_def lengths_part_2)

lemmas tops_648 = list_648 [of top_bits, folded entry_top_def, unfolded entries_648, simplified]
lemmas keys_648 = list_648 [of mask_value, folded entry_key_def, unfolded keys_of_648, simplified]

lemma list_660: "map (\<lambda>i. f (g_bal_decoder_arm64_instructions ! i)) [660 ..< 672] = map f arm64_instructions_660"
  using entries_of_list [OF entries_of_part_2, where zs = arm64_instructions_660 and n = 12 and k = 168]
  by (simp add: arm64_part_2_def lengths_part_2)

lemmas tops_660 = list_660 [of top_bits, folded entry_top_def, unfolded entries_660, simplified]
lemmas keys_660 = list_660 [of mask_value, folded entry_key_def, unfolded keys_of_660, simplified]

lemma list_672: "map (\<lambda>i. f (g_bal_decoder_arm64_instructions ! i)) [672 ..< 684] = map f arm64_instructions_672"
  using entries_of_list [OF entries_of_part_2, where zs = arm64_instructions_672 and n = 12 and k = 180]
  by (simp add: arm64_part_2_def lengths_part_2)

lemmas tops_672 = list_672 [of top_bits, folded entry_top_def, unfolded entries_672, simplified]
lemmas keys_672 = list_672 [of mask_value, folded entry_key_def, unfolded keys_of_672, simplified]

lemma list_684: "map (\<lambda>i. f (g_bal_decoder_arm64_instructions ! i)) [684 ..< 696] = map f arm64_instructions_684"
  using entries_of_list [OF entries_of_part_2, where zs = arm64_instructions_684 and n = 12 and k = 192]
  by (simp add: arm64_part_2_def lengths_part_2)

lemmas tops_684 = list_684 [of top_bits, folded entry_top_def, unfolded entries_684, simplified]
lemmas keys_684 = list_684 [of mask_value, folded entry_key_def, unfolded keys_of_684, simplified]

lemma list_696: "map (\<lambda>i. f (g_bal_decoder_arm64_instructions ! i)) [696 ..< 708] = map f arm64_instructions_696"
  using entries_of_list [OF entries_of_part_2, where zs = arm64_instructions_696 and n = 12 and k = 204]
  by (simp add: arm64_part_2_def lengths_part_2)

lemmas tops_696 = list_696 [of top_bits, folded entry_top_def, unfolded entries_696, simplified]
lemmas keys_696 = list_696 [of mask_value, folded entry_key_def, unfolded keys_of_696, simplified]

lemma list_708: "map (\<lambda>i. f (g_bal_decoder_arm64_instructions ! i)) [708 ..< 720] = map f arm64_instructions_708"
  using entries_of_list [OF entries_of_part_2, where zs = arm64_instructions_708 and n = 12 and k = 216]
  by (simp add: arm64_part_2_def lengths_part_2)

lemmas tops_708 = list_708 [of top_bits, folded entry_top_def, unfolded entries_708, simplified]
lemmas keys_708 = list_708 [of mask_value, folded entry_key_def, unfolded keys_of_708, simplified]

lemma list_720: "map (\<lambda>i. f (g_bal_decoder_arm64_instructions ! i)) [720 ..< 732] = map f arm64_instructions_720"
  using entries_of_list [OF entries_of_part_2, where zs = arm64_instructions_720 and n = 12 and k = 228]
  by (simp add: arm64_part_2_def lengths_part_2)

lemmas tops_720 = list_720 [of top_bits, folded entry_top_def, unfolded entries_720, simplified]
lemmas keys_720 = list_720 [of mask_value, folded entry_key_def, unfolded keys_of_720, simplified]

lemma list_732: "map (\<lambda>i. f (g_bal_decoder_arm64_instructions ! i)) [732 ..< 744] = map f arm64_instructions_732"
  using entries_of_list [OF entries_of_part_2, where zs = arm64_instructions_732 and n = 12 and k = 240]
  by (simp add: arm64_part_2_def lengths_part_2)

lemmas tops_732 = list_732 [of top_bits, folded entry_top_def, unfolded entries_732, simplified]
lemmas keys_732 = list_732 [of mask_value, folded entry_key_def, unfolded keys_of_732, simplified]

lemma list_744: "map (\<lambda>i. f (g_bal_decoder_arm64_instructions ! i)) [744 ..< 756] = map f arm64_instructions_744"
  using entries_of_list [OF entries_of_part_2, where zs = arm64_instructions_744 and n = 12 and k = 252]
  by (simp add: arm64_part_2_def lengths_part_2)

lemmas tops_744 = list_744 [of top_bits, folded entry_top_def, unfolded entries_744, simplified]
lemmas keys_744 = list_744 [of mask_value, folded entry_key_def, unfolded keys_of_744, simplified]

lemma list_756: "map (\<lambda>i. f (g_bal_decoder_arm64_instructions ! i)) [756 ..< 768] = map f arm64_instructions_756"
  using entries_of_list [OF entries_of_part_2, where zs = arm64_instructions_756 and n = 12 and k = 264]
  by (simp add: arm64_part_2_def lengths_part_2)

lemmas tops_756 = list_756 [of top_bits, folded entry_top_def, unfolded entries_756, simplified]
lemmas keys_756 = list_756 [of mask_value, folded entry_key_def, unfolded keys_of_756, simplified]

lemma list_768: "map (\<lambda>i. f (g_bal_decoder_arm64_instructions ! i)) [768 ..< 780] = map f arm64_instructions_768"
  using entries_of_list [OF entries_of_part_2, where zs = arm64_instructions_768 and n = 12 and k = 276]
  by (simp add: arm64_part_2_def lengths_part_2)

lemmas tops_768 = list_768 [of top_bits, folded entry_top_def, unfolded entries_768, simplified]
lemmas keys_768 = list_768 [of mask_value, folded entry_key_def, unfolded keys_of_768, simplified]

lemma list_780: "map (\<lambda>i. f (g_bal_decoder_arm64_instructions ! i)) [780 ..< 792] = map f arm64_instructions_780"
  using entries_of_list [OF entries_of_part_2, where zs = arm64_instructions_780 and n = 12 and k = 288]
  by (simp add: arm64_part_2_def lengths_part_2)

lemmas tops_780 = list_780 [of top_bits, folded entry_top_def, unfolded entries_780, simplified]
lemmas keys_780 = list_780 [of mask_value, folded entry_key_def, unfolded keys_of_780, simplified]

lemma list_792: "map (\<lambda>i. f (g_bal_decoder_arm64_instructions ! i)) [792 ..< 804] = map f arm64_instructions_792"
  using entries_of_list [OF entries_of_part_2, where zs = arm64_instructions_792 and n = 12 and k = 300]
  by (simp add: arm64_part_2_def lengths_part_2)

lemmas tops_792 = list_792 [of top_bits, folded entry_top_def, unfolded entries_792, simplified]
lemmas keys_792 = list_792 [of mask_value, folded entry_key_def, unfolded keys_of_792, simplified]

lemma list_804: "map (\<lambda>i. f (g_bal_decoder_arm64_instructions ! i)) [804 ..< 816] = map f arm64_instructions_804"
  using entries_of_list [OF entries_of_part_2, where zs = arm64_instructions_804 and n = 12 and k = 312]
  by (simp add: arm64_part_2_def lengths_part_2)

lemmas tops_804 = list_804 [of top_bits, folded entry_top_def, unfolded entries_804, simplified]
lemmas keys_804 = list_804 [of mask_value, folded entry_key_def, unfolded keys_of_804, simplified]

lemma list_816: "map (\<lambda>i. f (g_bal_decoder_arm64_instructions ! i)) [816 ..< 828] = map f arm64_instructions_816"
  using entries_of_list [OF entries_of_part_2, where zs = arm64_instructions_816 and n = 12 and k = 324]
  by (simp add: arm64_part_2_def lengths_part_2)

lemmas tops_816 = list_816 [of top_bits, folded entry_top_def, unfolded entries_816, simplified]
lemmas keys_816 = list_816 [of mask_value, folded entry_key_def, unfolded keys_of_816, simplified]

lemma list_828: "map (\<lambda>i. f (g_bal_decoder_arm64_instructions ! i)) [828 ..< 840] = map f arm64_instructions_828"
  using entries_of_list [OF entries_of_part_2, where zs = arm64_instructions_828 and n = 12 and k = 336]
  by (simp add: arm64_part_2_def lengths_part_2)

lemmas tops_828 = list_828 [of top_bits, folded entry_top_def, unfolded entries_828, simplified]
lemmas keys_828 = list_828 [of mask_value, folded entry_key_def, unfolded keys_of_828, simplified]

lemma list_840: "map (\<lambda>i. f (g_bal_decoder_arm64_instructions ! i)) [840 ..< 852] = map f arm64_instructions_840"
  using entries_of_list [OF entries_of_part_2, where zs = arm64_instructions_840 and n = 12 and k = 348]
  by (simp add: arm64_part_2_def lengths_part_2)

lemmas tops_840 = list_840 [of top_bits, folded entry_top_def, unfolded entries_840, simplified]
lemmas keys_840 = list_840 [of mask_value, folded entry_key_def, unfolded keys_of_840, simplified]

lemma list_852: "map (\<lambda>i. f (g_bal_decoder_arm64_instructions ! i)) [852 ..< 864] = map f arm64_instructions_852"
  using entries_of_list [OF entries_of_part_2, where zs = arm64_instructions_852 and n = 12 and k = 360]
  by (simp add: arm64_part_2_def lengths_part_2)

lemmas tops_852 = list_852 [of top_bits, folded entry_top_def, unfolded entries_852, simplified]
lemmas keys_852 = list_852 [of mask_value, folded entry_key_def, unfolded keys_of_852, simplified]

lemma list_864: "map (\<lambda>i. f (g_bal_decoder_arm64_instructions ! i)) [864 ..< 876] = map f arm64_instructions_864"
  using entries_of_list [OF entries_of_part_2, where zs = arm64_instructions_864 and n = 12 and k = 372]
  by (simp add: arm64_part_2_def lengths_part_2)

lemmas tops_864 = list_864 [of top_bits, folded entry_top_def, unfolded entries_864, simplified]
lemmas keys_864 = list_864 [of mask_value, folded entry_key_def, unfolded keys_of_864, simplified]

lemma list_876: "map (\<lambda>i. f (g_bal_decoder_arm64_instructions ! i)) [876 ..< 888] = map f arm64_instructions_876"
  using entries_of_list [OF entries_of_part_2, where zs = arm64_instructions_876 and n = 12 and k = 384]
  by (simp add: arm64_part_2_def lengths_part_2)

lemmas tops_876 = list_876 [of top_bits, folded entry_top_def, unfolded entries_876, simplified]
lemmas keys_876 = list_876 [of mask_value, folded entry_key_def, unfolded keys_of_876, simplified]

lemma list_888: "map (\<lambda>i. f (g_bal_decoder_arm64_instructions ! i)) [888 ..< 900] = map f arm64_instructions_888"
  using entries_of_list [OF entries_of_part_2, where zs = arm64_instructions_888 and n = 12 and k = 396]
  by (simp add: arm64_part_2_def lengths_part_2)

lemmas tops_888 = list_888 [of top_bits, folded entry_top_def, unfolded entries_888, simplified]
lemmas keys_888 = list_888 [of mask_value, folded entry_key_def, unfolded keys_of_888, simplified]

lemma list_900: "map (\<lambda>i. f (g_bal_decoder_arm64_instructions ! i)) [900 ..< 912] = map f arm64_instructions_900"
  using entries_of_list [OF entries_of_part_2, where zs = arm64_instructions_900 and n = 12 and k = 408]
  by (simp add: arm64_part_2_def lengths_part_2)

lemmas tops_900 = list_900 [of top_bits, folded entry_top_def, unfolded entries_900, simplified]
lemmas keys_900 = list_900 [of mask_value, folded entry_key_def, unfolded keys_of_900, simplified]

lemma list_912: "map (\<lambda>i. f (g_bal_decoder_arm64_instructions ! i)) [912 ..< 924] = map f arm64_instructions_912"
  using entries_of_list [OF entries_of_part_2, where zs = arm64_instructions_912 and n = 12 and k = 420]
  by (simp add: arm64_part_2_def lengths_part_2)

lemmas tops_912 = list_912 [of top_bits, folded entry_top_def, unfolded entries_912, simplified]
lemmas keys_912 = list_912 [of mask_value, folded entry_key_def, unfolded keys_of_912, simplified]

lemma list_924: "map (\<lambda>i. f (g_bal_decoder_arm64_instructions ! i)) [924 ..< 936] = map f arm64_instructions_924"
  using entries_of_list [OF entries_of_part_2, where zs = arm64_instructions_924 and n = 12 and k = 432]
  by (simp add: arm64_part_2_def lengths_part_2)

lemmas tops_924 = list_924 [of top_bits, folded entry_top_def, unfolded entries_924, simplified]
lemmas keys_924 = list_924 [of mask_value, folded entry_key_def, unfolded keys_of_924, simplified]

lemma list_936: "map (\<lambda>i. f (g_bal_decoder_arm64_instructions ! i)) [936 ..< 948] = map f arm64_instructions_936"
  using entries_of_list [OF entries_of_part_2, where zs = arm64_instructions_936 and n = 12 and k = 444]
  by (simp add: arm64_part_2_def lengths_part_2)

lemmas tops_936 = list_936 [of top_bits, folded entry_top_def, unfolded entries_936, simplified]
lemmas keys_936 = list_936 [of mask_value, folded entry_key_def, unfolded keys_of_936, simplified]

lemma list_948: "map (\<lambda>i. f (g_bal_decoder_arm64_instructions ! i)) [948 ..< 960] = map f arm64_instructions_948"
  using entries_of_list [OF entries_of_part_2, where zs = arm64_instructions_948 and n = 12 and k = 456]
  by (simp add: arm64_part_2_def lengths_part_2)

lemmas tops_948 = list_948 [of top_bits, folded entry_top_def, unfolded entries_948, simplified]
lemmas keys_948 = list_948 [of mask_value, folded entry_key_def, unfolded keys_of_948, simplified]

lemma list_960: "map (\<lambda>i. f (g_bal_decoder_arm64_instructions ! i)) [960 ..< 972] = map f arm64_instructions_960"
  using entries_of_list [OF entries_of_part_2, where zs = arm64_instructions_960 and n = 12 and k = 468]
  by (simp add: arm64_part_2_def lengths_part_2)

lemmas tops_960 = list_960 [of top_bits, folded entry_top_def, unfolded entries_960, simplified]
lemmas keys_960 = list_960 [of mask_value, folded entry_key_def, unfolded keys_of_960, simplified]

lemma list_972: "map (\<lambda>i. f (g_bal_decoder_arm64_instructions ! i)) [972 ..< 984] = map f arm64_instructions_972"
  using entries_of_list [OF entries_of_part_2, where zs = arm64_instructions_972 and n = 12 and k = 480]
  by (simp add: arm64_part_2_def lengths_part_2)

lemmas tops_972 = list_972 [of top_bits, folded entry_top_def, unfolded entries_972, simplified]
lemmas keys_972 = list_972 [of mask_value, folded entry_key_def, unfolded keys_of_972, simplified]

lemma list_984: "map (\<lambda>i. f (g_bal_decoder_arm64_instructions ! i)) [984 ..< 996] = map f arm64_instructions_984"
  using entries_of_list [OF entries_of_part_3, where zs = arm64_instructions_984 and n = 12 and k = 0]
  by (simp add: arm64_part_3_def lengths_part_3)

lemmas tops_984 = list_984 [of top_bits, folded entry_top_def, unfolded entries_984, simplified]
lemmas keys_984 = list_984 [of mask_value, folded entry_key_def, unfolded keys_of_984, simplified]

lemma list_996: "map (\<lambda>i. f (g_bal_decoder_arm64_instructions ! i)) [996 ..< 1008] = map f arm64_instructions_996"
  using entries_of_list [OF entries_of_part_3, where zs = arm64_instructions_996 and n = 12 and k = 12]
  by (simp add: arm64_part_3_def lengths_part_3)

lemmas tops_996 = list_996 [of top_bits, folded entry_top_def, unfolded entries_996, simplified]
lemmas keys_996 = list_996 [of mask_value, folded entry_key_def, unfolded keys_of_996, simplified]

lemma list_1008: "map (\<lambda>i. f (g_bal_decoder_arm64_instructions ! i)) [1008 ..< 1020] = map f arm64_instructions_1008"
  using entries_of_list [OF entries_of_part_3, where zs = arm64_instructions_1008 and n = 12 and k = 24]
  by (simp add: arm64_part_3_def lengths_part_3)

lemmas tops_1008 = list_1008 [of top_bits, folded entry_top_def, unfolded entries_1008, simplified]
lemmas keys_1008 = list_1008 [of mask_value, folded entry_key_def, unfolded keys_of_1008, simplified]

lemma list_1020: "map (\<lambda>i. f (g_bal_decoder_arm64_instructions ! i)) [1020 ..< 1032] = map f arm64_instructions_1020"
  using entries_of_list [OF entries_of_part_3, where zs = arm64_instructions_1020 and n = 12 and k = 36]
  by (simp add: arm64_part_3_def lengths_part_3)

lemmas tops_1020 = list_1020 [of top_bits, folded entry_top_def, unfolded entries_1020, simplified]
lemmas keys_1020 = list_1020 [of mask_value, folded entry_key_def, unfolded keys_of_1020, simplified]

lemma list_1032: "map (\<lambda>i. f (g_bal_decoder_arm64_instructions ! i)) [1032 ..< 1044] = map f arm64_instructions_1032"
  using entries_of_list [OF entries_of_part_3, where zs = arm64_instructions_1032 and n = 12 and k = 48]
  by (simp add: arm64_part_3_def lengths_part_3)

lemmas tops_1032 = list_1032 [of top_bits, folded entry_top_def, unfolded entries_1032, simplified]
lemmas keys_1032 = list_1032 [of mask_value, folded entry_key_def, unfolded keys_of_1032, simplified]

lemma list_1044: "map (\<lambda>i. f (g_bal_decoder_arm64_instructions ! i)) [1044 ..< 1056] = map f arm64_instructions_1044"
  using entries_of_list [OF entries_of_part_3, where zs = arm64_instructions_1044 and n = 12 and k = 60]
  by (simp add: arm64_part_3_def lengths_part_3)

lemmas tops_1044 = list_1044 [of top_bits, folded entry_top_def, unfolded entries_1044, simplified]
lemmas keys_1044 = list_1044 [of mask_value, folded entry_key_def, unfolded keys_of_1044, simplified]

lemma list_1056: "map (\<lambda>i. f (g_bal_decoder_arm64_instructions ! i)) [1056 ..< 1068] = map f arm64_instructions_1056"
  using entries_of_list [OF entries_of_part_3, where zs = arm64_instructions_1056 and n = 12 and k = 72]
  by (simp add: arm64_part_3_def lengths_part_3)

lemmas tops_1056 = list_1056 [of top_bits, folded entry_top_def, unfolded entries_1056, simplified]
lemmas keys_1056 = list_1056 [of mask_value, folded entry_key_def, unfolded keys_of_1056, simplified]

lemma list_1068: "map (\<lambda>i. f (g_bal_decoder_arm64_instructions ! i)) [1068 ..< 1080] = map f arm64_instructions_1068"
  using entries_of_list [OF entries_of_part_3, where zs = arm64_instructions_1068 and n = 12 and k = 84]
  by (simp add: arm64_part_3_def lengths_part_3)

lemmas tops_1068 = list_1068 [of top_bits, folded entry_top_def, unfolded entries_1068, simplified]
lemmas keys_1068 = list_1068 [of mask_value, folded entry_key_def, unfolded keys_of_1068, simplified]

lemma list_1080: "map (\<lambda>i. f (g_bal_decoder_arm64_instructions ! i)) [1080 ..< 1092] = map f arm64_instructions_1080"
  using entries_of_list [OF entries_of_part_3, where zs = arm64_instructions_1080 and n = 12 and k = 96]
  by (simp add: arm64_part_3_def lengths_part_3)

lemmas tops_1080 = list_1080 [of top_bits, folded entry_top_def, unfolded entries_1080, simplified]
lemmas keys_1080 = list_1080 [of mask_value, folded entry_key_def, unfolded keys_of_1080, simplified]

lemma list_1092: "map (\<lambda>i. f (g_bal_decoder_arm64_instructions ! i)) [1092 ..< 1104] = map f arm64_instructions_1092"
  using entries_of_list [OF entries_of_part_3, where zs = arm64_instructions_1092 and n = 12 and k = 108]
  by (simp add: arm64_part_3_def lengths_part_3)

lemmas tops_1092 = list_1092 [of top_bits, folded entry_top_def, unfolded entries_1092, simplified]
lemmas keys_1092 = list_1092 [of mask_value, folded entry_key_def, unfolded keys_of_1092, simplified]

lemma list_1104: "map (\<lambda>i. f (g_bal_decoder_arm64_instructions ! i)) [1104 ..< 1116] = map f arm64_instructions_1104"
  using entries_of_list [OF entries_of_part_3, where zs = arm64_instructions_1104 and n = 12 and k = 120]
  by (simp add: arm64_part_3_def lengths_part_3)

lemmas tops_1104 = list_1104 [of top_bits, folded entry_top_def, unfolded entries_1104, simplified]
lemmas keys_1104 = list_1104 [of mask_value, folded entry_key_def, unfolded keys_of_1104, simplified]

lemma list_1116: "map (\<lambda>i. f (g_bal_decoder_arm64_instructions ! i)) [1116 ..< 1128] = map f arm64_instructions_1116"
  using entries_of_list [OF entries_of_part_3, where zs = arm64_instructions_1116 and n = 12 and k = 132]
  by (simp add: arm64_part_3_def lengths_part_3)

lemmas tops_1116 = list_1116 [of top_bits, folded entry_top_def, unfolded entries_1116, simplified]
lemmas keys_1116 = list_1116 [of mask_value, folded entry_key_def, unfolded keys_of_1116, simplified]

lemma list_1128: "map (\<lambda>i. f (g_bal_decoder_arm64_instructions ! i)) [1128 ..< 1140] = map f arm64_instructions_1128"
  using entries_of_list [OF entries_of_part_3, where zs = arm64_instructions_1128 and n = 12 and k = 144]
  by (simp add: arm64_part_3_def lengths_part_3)

lemmas tops_1128 = list_1128 [of top_bits, folded entry_top_def, unfolded entries_1128, simplified]
lemmas keys_1128 = list_1128 [of mask_value, folded entry_key_def, unfolded keys_of_1128, simplified]

lemma list_1140: "map (\<lambda>i. f (g_bal_decoder_arm64_instructions ! i)) [1140 ..< 1152] = map f arm64_instructions_1140"
  using entries_of_list [OF entries_of_part_3, where zs = arm64_instructions_1140 and n = 12 and k = 156]
  by (simp add: arm64_part_3_def lengths_part_3)

lemmas tops_1140 = list_1140 [of top_bits, folded entry_top_def, unfolded entries_1140, simplified]
lemmas keys_1140 = list_1140 [of mask_value, folded entry_key_def, unfolded keys_of_1140, simplified]

lemma list_1152: "map (\<lambda>i. f (g_bal_decoder_arm64_instructions ! i)) [1152 ..< 1164] = map f arm64_instructions_1152"
  using entries_of_list [OF entries_of_part_3, where zs = arm64_instructions_1152 and n = 12 and k = 168]
  by (simp add: arm64_part_3_def lengths_part_3)

lemmas tops_1152 = list_1152 [of top_bits, folded entry_top_def, unfolded entries_1152, simplified]
lemmas keys_1152 = list_1152 [of mask_value, folded entry_key_def, unfolded keys_of_1152, simplified]

lemma list_1164: "map (\<lambda>i. f (g_bal_decoder_arm64_instructions ! i)) [1164 ..< 1176] = map f arm64_instructions_1164"
  using entries_of_list [OF entries_of_part_3, where zs = arm64_instructions_1164 and n = 12 and k = 180]
  by (simp add: arm64_part_3_def lengths_part_3)

lemmas tops_1164 = list_1164 [of top_bits, folded entry_top_def, unfolded entries_1164, simplified]
lemmas keys_1164 = list_1164 [of mask_value, folded entry_key_def, unfolded keys_of_1164, simplified]

lemma list_1176: "map (\<lambda>i. f (g_bal_decoder_arm64_instructions ! i)) [1176 ..< 1188] = map f arm64_instructions_1176"
  using entries_of_list [OF entries_of_part_3, where zs = arm64_instructions_1176 and n = 12 and k = 192]
  by (simp add: arm64_part_3_def lengths_part_3)

lemmas tops_1176 = list_1176 [of top_bits, folded entry_top_def, unfolded entries_1176, simplified]
lemmas keys_1176 = list_1176 [of mask_value, folded entry_key_def, unfolded keys_of_1176, simplified]

lemma list_1188: "map (\<lambda>i. f (g_bal_decoder_arm64_instructions ! i)) [1188 ..< 1200] = map f arm64_instructions_1188"
  using entries_of_list [OF entries_of_part_3, where zs = arm64_instructions_1188 and n = 12 and k = 204]
  by (simp add: arm64_part_3_def lengths_part_3)

lemmas tops_1188 = list_1188 [of top_bits, folded entry_top_def, unfolded entries_1188, simplified]
lemmas keys_1188 = list_1188 [of mask_value, folded entry_key_def, unfolded keys_of_1188, simplified]

lemma list_1200: "map (\<lambda>i. f (g_bal_decoder_arm64_instructions ! i)) [1200 ..< 1212] = map f arm64_instructions_1200"
  using entries_of_list [OF entries_of_part_3, where zs = arm64_instructions_1200 and n = 12 and k = 216]
  by (simp add: arm64_part_3_def lengths_part_3)

lemmas tops_1200 = list_1200 [of top_bits, folded entry_top_def, unfolded entries_1200, simplified]
lemmas keys_1200 = list_1200 [of mask_value, folded entry_key_def, unfolded keys_of_1200, simplified]

lemma list_1212: "map (\<lambda>i. f (g_bal_decoder_arm64_instructions ! i)) [1212 ..< 1224] = map f arm64_instructions_1212"
  using entries_of_list [OF entries_of_part_3, where zs = arm64_instructions_1212 and n = 12 and k = 228]
  by (simp add: arm64_part_3_def lengths_part_3)

lemmas tops_1212 = list_1212 [of top_bits, folded entry_top_def, unfolded entries_1212, simplified]
lemmas keys_1212 = list_1212 [of mask_value, folded entry_key_def, unfolded keys_of_1212, simplified]

lemma list_1224: "map (\<lambda>i. f (g_bal_decoder_arm64_instructions ! i)) [1224 ..< 1236] = map f arm64_instructions_1224"
  using entries_of_list [OF entries_of_part_3, where zs = arm64_instructions_1224 and n = 12 and k = 240]
  by (simp add: arm64_part_3_def lengths_part_3)

lemmas tops_1224 = list_1224 [of top_bits, folded entry_top_def, unfolded entries_1224, simplified]
lemmas keys_1224 = list_1224 [of mask_value, folded entry_key_def, unfolded keys_of_1224, simplified]

lemma list_1236: "map (\<lambda>i. f (g_bal_decoder_arm64_instructions ! i)) [1236 ..< 1248] = map f arm64_instructions_1236"
  using entries_of_list [OF entries_of_part_3, where zs = arm64_instructions_1236 and n = 12 and k = 252]
  by (simp add: arm64_part_3_def lengths_part_3)

lemmas tops_1236 = list_1236 [of top_bits, folded entry_top_def, unfolded entries_1236, simplified]
lemmas keys_1236 = list_1236 [of mask_value, folded entry_key_def, unfolded keys_of_1236, simplified]

lemma list_1248: "map (\<lambda>i. f (g_bal_decoder_arm64_instructions ! i)) [1248 ..< 1260] = map f arm64_instructions_1248"
  using entries_of_list [OF entries_of_part_3, where zs = arm64_instructions_1248 and n = 12 and k = 264]
  by (simp add: arm64_part_3_def lengths_part_3)

lemmas tops_1248 = list_1248 [of top_bits, folded entry_top_def, unfolded entries_1248, simplified]
lemmas keys_1248 = list_1248 [of mask_value, folded entry_key_def, unfolded keys_of_1248, simplified]

lemma list_1260: "map (\<lambda>i. f (g_bal_decoder_arm64_instructions ! i)) [1260 ..< 1272] = map f arm64_instructions_1260"
  using entries_of_list [OF entries_of_part_3, where zs = arm64_instructions_1260 and n = 12 and k = 276]
  by (simp add: arm64_part_3_def lengths_part_3)

lemmas tops_1260 = list_1260 [of top_bits, folded entry_top_def, unfolded entries_1260, simplified]
lemmas keys_1260 = list_1260 [of mask_value, folded entry_key_def, unfolded keys_of_1260, simplified]

lemma list_1272: "map (\<lambda>i. f (g_bal_decoder_arm64_instructions ! i)) [1272 ..< 1284] = map f arm64_instructions_1272"
  using entries_of_list [OF entries_of_part_3, where zs = arm64_instructions_1272 and n = 12 and k = 288]
  by (simp add: arm64_part_3_def lengths_part_3)

lemmas tops_1272 = list_1272 [of top_bits, folded entry_top_def, unfolded entries_1272, simplified]
lemmas keys_1272 = list_1272 [of mask_value, folded entry_key_def, unfolded keys_of_1272, simplified]

lemma list_1284: "map (\<lambda>i. f (g_bal_decoder_arm64_instructions ! i)) [1284 ..< 1296] = map f arm64_instructions_1284"
  using entries_of_list [OF entries_of_part_3, where zs = arm64_instructions_1284 and n = 12 and k = 300]
  by (simp add: arm64_part_3_def lengths_part_3)

lemmas tops_1284 = list_1284 [of top_bits, folded entry_top_def, unfolded entries_1284, simplified]
lemmas keys_1284 = list_1284 [of mask_value, folded entry_key_def, unfolded keys_of_1284, simplified]

lemma list_1296: "map (\<lambda>i. f (g_bal_decoder_arm64_instructions ! i)) [1296 ..< 1308] = map f arm64_instructions_1296"
  using entries_of_list [OF entries_of_part_3, where zs = arm64_instructions_1296 and n = 12 and k = 312]
  by (simp add: arm64_part_3_def lengths_part_3)

lemmas tops_1296 = list_1296 [of top_bits, folded entry_top_def, unfolded entries_1296, simplified]
lemmas keys_1296 = list_1296 [of mask_value, folded entry_key_def, unfolded keys_of_1296, simplified]

lemma list_1308: "map (\<lambda>i. f (g_bal_decoder_arm64_instructions ! i)) [1308 ..< 1320] = map f arm64_instructions_1308"
  using entries_of_list [OF entries_of_part_3, where zs = arm64_instructions_1308 and n = 12 and k = 324]
  by (simp add: arm64_part_3_def lengths_part_3)

lemmas tops_1308 = list_1308 [of top_bits, folded entry_top_def, unfolded entries_1308, simplified]
lemmas keys_1308 = list_1308 [of mask_value, folded entry_key_def, unfolded keys_of_1308, simplified]

lemma list_1320: "map (\<lambda>i. f (g_bal_decoder_arm64_instructions ! i)) [1320 ..< 1332] = map f arm64_instructions_1320"
  using entries_of_list [OF entries_of_part_3, where zs = arm64_instructions_1320 and n = 12 and k = 336]
  by (simp add: arm64_part_3_def lengths_part_3)

lemmas tops_1320 = list_1320 [of top_bits, folded entry_top_def, unfolded entries_1320, simplified]
lemmas keys_1320 = list_1320 [of mask_value, folded entry_key_def, unfolded keys_of_1320, simplified]

lemma list_1332: "map (\<lambda>i. f (g_bal_decoder_arm64_instructions ! i)) [1332 ..< 1344] = map f arm64_instructions_1332"
  using entries_of_list [OF entries_of_part_3, where zs = arm64_instructions_1332 and n = 12 and k = 348]
  by (simp add: arm64_part_3_def lengths_part_3)

lemmas tops_1332 = list_1332 [of top_bits, folded entry_top_def, unfolded entries_1332, simplified]
lemmas keys_1332 = list_1332 [of mask_value, folded entry_key_def, unfolded keys_of_1332, simplified]

lemma list_1344: "map (\<lambda>i. f (g_bal_decoder_arm64_instructions ! i)) [1344 ..< 1356] = map f arm64_instructions_1344"
  using entries_of_list [OF entries_of_part_3, where zs = arm64_instructions_1344 and n = 12 and k = 360]
  by (simp add: arm64_part_3_def lengths_part_3)

lemmas tops_1344 = list_1344 [of top_bits, folded entry_top_def, unfolded entries_1344, simplified]
lemmas keys_1344 = list_1344 [of mask_value, folded entry_key_def, unfolded keys_of_1344, simplified]

lemma list_1356: "map (\<lambda>i. f (g_bal_decoder_arm64_instructions ! i)) [1356 ..< 1368] = map f arm64_instructions_1356"
  using entries_of_list [OF entries_of_part_3, where zs = arm64_instructions_1356 and n = 12 and k = 372]
  by (simp add: arm64_part_3_def lengths_part_3)

lemmas tops_1356 = list_1356 [of top_bits, folded entry_top_def, unfolded entries_1356, simplified]
lemmas keys_1356 = list_1356 [of mask_value, folded entry_key_def, unfolded keys_of_1356, simplified]

lemma list_1368: "map (\<lambda>i. f (g_bal_decoder_arm64_instructions ! i)) [1368 ..< 1380] = map f arm64_instructions_1368"
  using entries_of_list [OF entries_of_part_3, where zs = arm64_instructions_1368 and n = 12 and k = 384]
  by (simp add: arm64_part_3_def lengths_part_3)

lemmas tops_1368 = list_1368 [of top_bits, folded entry_top_def, unfolded entries_1368, simplified]
lemmas keys_1368 = list_1368 [of mask_value, folded entry_key_def, unfolded keys_of_1368, simplified]

lemma list_1380: "map (\<lambda>i. f (g_bal_decoder_arm64_instructions ! i)) [1380 ..< 1392] = map f arm64_instructions_1380"
  using entries_of_list [OF entries_of_part_3, where zs = arm64_instructions_1380 and n = 12 and k = 396]
  by (simp add: arm64_part_3_def lengths_part_3)

lemmas tops_1380 = list_1380 [of top_bits, folded entry_top_def, unfolded entries_1380, simplified]
lemmas keys_1380 = list_1380 [of mask_value, folded entry_key_def, unfolded keys_of_1380, simplified]

lemma list_1392: "map (\<lambda>i. f (g_bal_decoder_arm64_instructions ! i)) [1392 ..< 1404] = map f arm64_instructions_1392"
  using entries_of_list [OF entries_of_part_3, where zs = arm64_instructions_1392 and n = 12 and k = 408]
  by (simp add: arm64_part_3_def lengths_part_3)

lemmas tops_1392 = list_1392 [of top_bits, folded entry_top_def, unfolded entries_1392, simplified]
lemmas keys_1392 = list_1392 [of mask_value, folded entry_key_def, unfolded keys_of_1392, simplified]

lemma list_1404: "map (\<lambda>i. f (g_bal_decoder_arm64_instructions ! i)) [1404 ..< 1416] = map f arm64_instructions_1404"
  using entries_of_list [OF entries_of_part_3, where zs = arm64_instructions_1404 and n = 12 and k = 420]
  by (simp add: arm64_part_3_def lengths_part_3)

lemmas tops_1404 = list_1404 [of top_bits, folded entry_top_def, unfolded entries_1404, simplified]
lemmas keys_1404 = list_1404 [of mask_value, folded entry_key_def, unfolded keys_of_1404, simplified]

lemma list_1416: "map (\<lambda>i. f (g_bal_decoder_arm64_instructions ! i)) [1416 ..< 1428] = map f arm64_instructions_1416"
  using entries_of_list [OF entries_of_part_3, where zs = arm64_instructions_1416 and n = 12 and k = 432]
  by (simp add: arm64_part_3_def lengths_part_3)

lemmas tops_1416 = list_1416 [of top_bits, folded entry_top_def, unfolded entries_1416, simplified]
lemmas keys_1416 = list_1416 [of mask_value, folded entry_key_def, unfolded keys_of_1416, simplified]

lemma list_1428: "map (\<lambda>i. f (g_bal_decoder_arm64_instructions ! i)) [1428 ..< 1440] = map f arm64_instructions_1428"
  using entries_of_list [OF entries_of_part_3, where zs = arm64_instructions_1428 and n = 12 and k = 444]
  by (simp add: arm64_part_3_def lengths_part_3)

lemmas tops_1428 = list_1428 [of top_bits, folded entry_top_def, unfolded entries_1428, simplified]
lemmas keys_1428 = list_1428 [of mask_value, folded entry_key_def, unfolded keys_of_1428, simplified]

lemma list_1440: "map (\<lambda>i. f (g_bal_decoder_arm64_instructions ! i)) [1440 ..< 1452] = map f arm64_instructions_1440"
  using entries_of_list [OF entries_of_part_3, where zs = arm64_instructions_1440 and n = 12 and k = 456]
  by (simp add: arm64_part_3_def lengths_part_3)

lemmas tops_1440 = list_1440 [of top_bits, folded entry_top_def, unfolded entries_1440, simplified]
lemmas keys_1440 = list_1440 [of mask_value, folded entry_key_def, unfolded keys_of_1440, simplified]

lemma list_1452: "map (\<lambda>i. f (g_bal_decoder_arm64_instructions ! i)) [1452 ..< 1464] = map f arm64_instructions_1452"
  using entries_of_list [OF entries_of_part_3, where zs = arm64_instructions_1452 and n = 12 and k = 468]
  by (simp add: arm64_part_3_def lengths_part_3)

lemmas tops_1452 = list_1452 [of top_bits, folded entry_top_def, unfolded entries_1452, simplified]
lemmas keys_1452 = list_1452 [of mask_value, folded entry_key_def, unfolded keys_of_1452, simplified]

lemma list_1464: "map (\<lambda>i. f (g_bal_decoder_arm64_instructions ! i)) [1464 ..< 1476] = map f arm64_instructions_1464"
  using entries_of_list [OF entries_of_part_3, where zs = arm64_instructions_1464 and n = 12 and k = 480]
  by (simp add: arm64_part_3_def lengths_part_3)

lemmas tops_1464 = list_1464 [of top_bits, folded entry_top_def, unfolded entries_1464, simplified]
lemmas keys_1464 = list_1464 [of mask_value, folded entry_key_def, unfolded keys_of_1464, simplified]

lemma list_1476: "map (\<lambda>i. f (g_bal_decoder_arm64_instructions ! i)) [1476 ..< 1488] = map f arm64_instructions_1476"
  using entries_of_list [OF entries_of_part_4, where zs = arm64_instructions_1476 and n = 12 and k = 0]
  by (simp add: arm64_part_4_def lengths_part_4)

lemmas tops_1476 = list_1476 [of top_bits, folded entry_top_def, unfolded entries_1476, simplified]
lemmas keys_1476 = list_1476 [of mask_value, folded entry_key_def, unfolded keys_of_1476, simplified]

lemma list_1488: "map (\<lambda>i. f (g_bal_decoder_arm64_instructions ! i)) [1488 ..< 1500] = map f arm64_instructions_1488"
  using entries_of_list [OF entries_of_part_4, where zs = arm64_instructions_1488 and n = 12 and k = 12]
  by (simp add: arm64_part_4_def lengths_part_4)

lemmas tops_1488 = list_1488 [of top_bits, folded entry_top_def, unfolded entries_1488, simplified]
lemmas keys_1488 = list_1488 [of mask_value, folded entry_key_def, unfolded keys_of_1488, simplified]

lemma list_1500: "map (\<lambda>i. f (g_bal_decoder_arm64_instructions ! i)) [1500 ..< 1512] = map f arm64_instructions_1500"
  using entries_of_list [OF entries_of_part_4, where zs = arm64_instructions_1500 and n = 12 and k = 24]
  by (simp add: arm64_part_4_def lengths_part_4)

lemmas tops_1500 = list_1500 [of top_bits, folded entry_top_def, unfolded entries_1500, simplified]
lemmas keys_1500 = list_1500 [of mask_value, folded entry_key_def, unfolded keys_of_1500, simplified]

lemma list_1512: "map (\<lambda>i. f (g_bal_decoder_arm64_instructions ! i)) [1512 ..< 1524] = map f arm64_instructions_1512"
  using entries_of_list [OF entries_of_part_4, where zs = arm64_instructions_1512 and n = 12 and k = 36]
  by (simp add: arm64_part_4_def lengths_part_4)

lemmas tops_1512 = list_1512 [of top_bits, folded entry_top_def, unfolded entries_1512, simplified]
lemmas keys_1512 = list_1512 [of mask_value, folded entry_key_def, unfolded keys_of_1512, simplified]

lemma list_1524: "map (\<lambda>i. f (g_bal_decoder_arm64_instructions ! i)) [1524 ..< 1536] = map f arm64_instructions_1524"
  using entries_of_list [OF entries_of_part_4, where zs = arm64_instructions_1524 and n = 12 and k = 48]
  by (simp add: arm64_part_4_def lengths_part_4)

lemmas tops_1524 = list_1524 [of top_bits, folded entry_top_def, unfolded entries_1524, simplified]
lemmas keys_1524 = list_1524 [of mask_value, folded entry_key_def, unfolded keys_of_1524, simplified]

lemma list_1536: "map (\<lambda>i. f (g_bal_decoder_arm64_instructions ! i)) [1536 ..< 1548] = map f arm64_instructions_1536"
  using entries_of_list [OF entries_of_part_4, where zs = arm64_instructions_1536 and n = 12 and k = 60]
  by (simp add: arm64_part_4_def lengths_part_4)

lemmas tops_1536 = list_1536 [of top_bits, folded entry_top_def, unfolded entries_1536, simplified]
lemmas keys_1536 = list_1536 [of mask_value, folded entry_key_def, unfolded keys_of_1536, simplified]

lemma list_1548: "map (\<lambda>i. f (g_bal_decoder_arm64_instructions ! i)) [1548 ..< 1560] = map f arm64_instructions_1548"
  using entries_of_list [OF entries_of_part_4, where zs = arm64_instructions_1548 and n = 12 and k = 72]
  by (simp add: arm64_part_4_def lengths_part_4)

lemmas tops_1548 = list_1548 [of top_bits, folded entry_top_def, unfolded entries_1548, simplified]
lemmas keys_1548 = list_1548 [of mask_value, folded entry_key_def, unfolded keys_of_1548, simplified]

lemma list_1560: "map (\<lambda>i. f (g_bal_decoder_arm64_instructions ! i)) [1560 ..< 1572] = map f arm64_instructions_1560"
  using entries_of_list [OF entries_of_part_4, where zs = arm64_instructions_1560 and n = 12 and k = 84]
  by (simp add: arm64_part_4_def lengths_part_4)

lemmas tops_1560 = list_1560 [of top_bits, folded entry_top_def, unfolded entries_1560, simplified]
lemmas keys_1560 = list_1560 [of mask_value, folded entry_key_def, unfolded keys_of_1560, simplified]

lemma list_1572: "map (\<lambda>i. f (g_bal_decoder_arm64_instructions ! i)) [1572 ..< 1584] = map f arm64_instructions_1572"
  using entries_of_list [OF entries_of_part_4, where zs = arm64_instructions_1572 and n = 12 and k = 96]
  by (simp add: arm64_part_4_def lengths_part_4)

lemmas tops_1572 = list_1572 [of top_bits, folded entry_top_def, unfolded entries_1572, simplified]
lemmas keys_1572 = list_1572 [of mask_value, folded entry_key_def, unfolded keys_of_1572, simplified]

lemma list_1584: "map (\<lambda>i. f (g_bal_decoder_arm64_instructions ! i)) [1584 ..< 1596] = map f arm64_instructions_1584"
  using entries_of_list [OF entries_of_part_4, where zs = arm64_instructions_1584 and n = 12 and k = 108]
  by (simp add: arm64_part_4_def lengths_part_4)

lemmas tops_1584 = list_1584 [of top_bits, folded entry_top_def, unfolded entries_1584, simplified]
lemmas keys_1584 = list_1584 [of mask_value, folded entry_key_def, unfolded keys_of_1584, simplified]

lemma list_1596: "map (\<lambda>i. f (g_bal_decoder_arm64_instructions ! i)) [1596 ..< 1608] = map f arm64_instructions_1596"
  using entries_of_list [OF entries_of_part_4, where zs = arm64_instructions_1596 and n = 12 and k = 120]
  by (simp add: arm64_part_4_def lengths_part_4)

lemmas tops_1596 = list_1596 [of top_bits, folded entry_top_def, unfolded entries_1596, simplified]
lemmas keys_1596 = list_1596 [of mask_value, folded entry_key_def, unfolded keys_of_1596, simplified]

lemma list_1608: "map (\<lambda>i. f (g_bal_decoder_arm64_instructions ! i)) [1608 ..< 1620] = map f arm64_instructions_1608"
  using entries_of_list [OF entries_of_part_4, where zs = arm64_instructions_1608 and n = 12 and k = 132]
  by (simp add: arm64_part_4_def lengths_part_4)

lemmas tops_1608 = list_1608 [of top_bits, folded entry_top_def, unfolded entries_1608, simplified]
lemmas keys_1608 = list_1608 [of mask_value, folded entry_key_def, unfolded keys_of_1608, simplified]

lemma list_1620: "map (\<lambda>i. f (g_bal_decoder_arm64_instructions ! i)) [1620 ..< 1632] = map f arm64_instructions_1620"
  using entries_of_list [OF entries_of_part_4, where zs = arm64_instructions_1620 and n = 12 and k = 144]
  by (simp add: arm64_part_4_def lengths_part_4)

lemmas tops_1620 = list_1620 [of top_bits, folded entry_top_def, unfolded entries_1620, simplified]
lemmas keys_1620 = list_1620 [of mask_value, folded entry_key_def, unfolded keys_of_1620, simplified]

lemma list_1632: "map (\<lambda>i. f (g_bal_decoder_arm64_instructions ! i)) [1632 ..< 1644] = map f arm64_instructions_1632"
  using entries_of_list [OF entries_of_part_4, where zs = arm64_instructions_1632 and n = 12 and k = 156]
  by (simp add: arm64_part_4_def lengths_part_4)

lemmas tops_1632 = list_1632 [of top_bits, folded entry_top_def, unfolded entries_1632, simplified]
lemmas keys_1632 = list_1632 [of mask_value, folded entry_key_def, unfolded keys_of_1632, simplified]

lemma list_1644: "map (\<lambda>i. f (g_bal_decoder_arm64_instructions ! i)) [1644 ..< 1656] = map f arm64_instructions_1644"
  using entries_of_list [OF entries_of_part_4, where zs = arm64_instructions_1644 and n = 12 and k = 168]
  by (simp add: arm64_part_4_def lengths_part_4)

lemmas tops_1644 = list_1644 [of top_bits, folded entry_top_def, unfolded entries_1644, simplified]
lemmas keys_1644 = list_1644 [of mask_value, folded entry_key_def, unfolded keys_of_1644, simplified]

lemma list_1656: "map (\<lambda>i. f (g_bal_decoder_arm64_instructions ! i)) [1656 ..< 1668] = map f arm64_instructions_1656"
  using entries_of_list [OF entries_of_part_4, where zs = arm64_instructions_1656 and n = 12 and k = 180]
  by (simp add: arm64_part_4_def lengths_part_4)

lemmas tops_1656 = list_1656 [of top_bits, folded entry_top_def, unfolded entries_1656, simplified]
lemmas keys_1656 = list_1656 [of mask_value, folded entry_key_def, unfolded keys_of_1656, simplified]

lemma list_1668: "map (\<lambda>i. f (g_bal_decoder_arm64_instructions ! i)) [1668 ..< 1680] = map f arm64_instructions_1668"
  using entries_of_list [OF entries_of_part_4, where zs = arm64_instructions_1668 and n = 12 and k = 192]
  by (simp add: arm64_part_4_def lengths_part_4)

lemmas tops_1668 = list_1668 [of top_bits, folded entry_top_def, unfolded entries_1668, simplified]
lemmas keys_1668 = list_1668 [of mask_value, folded entry_key_def, unfolded keys_of_1668, simplified]

lemma list_1680: "map (\<lambda>i. f (g_bal_decoder_arm64_instructions ! i)) [1680 ..< 1692] = map f arm64_instructions_1680"
  using entries_of_list [OF entries_of_part_4, where zs = arm64_instructions_1680 and n = 12 and k = 204]
  by (simp add: arm64_part_4_def lengths_part_4)

lemmas tops_1680 = list_1680 [of top_bits, folded entry_top_def, unfolded entries_1680, simplified]
lemmas keys_1680 = list_1680 [of mask_value, folded entry_key_def, unfolded keys_of_1680, simplified]

lemma list_1692: "map (\<lambda>i. f (g_bal_decoder_arm64_instructions ! i)) [1692 ..< 1704] = map f arm64_instructions_1692"
  using entries_of_list [OF entries_of_part_4, where zs = arm64_instructions_1692 and n = 12 and k = 216]
  by (simp add: arm64_part_4_def lengths_part_4)

lemmas tops_1692 = list_1692 [of top_bits, folded entry_top_def, unfolded entries_1692, simplified]
lemmas keys_1692 = list_1692 [of mask_value, folded entry_key_def, unfolded keys_of_1692, simplified]

lemma list_1704: "map (\<lambda>i. f (g_bal_decoder_arm64_instructions ! i)) [1704 ..< 1716] = map f arm64_instructions_1704"
  using entries_of_list [OF entries_of_part_4, where zs = arm64_instructions_1704 and n = 12 and k = 228]
  by (simp add: arm64_part_4_def lengths_part_4)

lemmas tops_1704 = list_1704 [of top_bits, folded entry_top_def, unfolded entries_1704, simplified]
lemmas keys_1704 = list_1704 [of mask_value, folded entry_key_def, unfolded keys_of_1704, simplified]

lemma list_1716: "map (\<lambda>i. f (g_bal_decoder_arm64_instructions ! i)) [1716 ..< 1728] = map f arm64_instructions_1716"
  using entries_of_list [OF entries_of_part_4, where zs = arm64_instructions_1716 and n = 12 and k = 240]
  by (simp add: arm64_part_4_def lengths_part_4)

lemmas tops_1716 = list_1716 [of top_bits, folded entry_top_def, unfolded entries_1716, simplified]
lemmas keys_1716 = list_1716 [of mask_value, folded entry_key_def, unfolded keys_of_1716, simplified]

lemma list_1728: "map (\<lambda>i. f (g_bal_decoder_arm64_instructions ! i)) [1728 ..< 1740] = map f arm64_instructions_1728"
  using entries_of_list [OF entries_of_part_4, where zs = arm64_instructions_1728 and n = 12 and k = 252]
  by (simp add: arm64_part_4_def lengths_part_4)

lemmas tops_1728 = list_1728 [of top_bits, folded entry_top_def, unfolded entries_1728, simplified]
lemmas keys_1728 = list_1728 [of mask_value, folded entry_key_def, unfolded keys_of_1728, simplified]

lemma list_1740: "map (\<lambda>i. f (g_bal_decoder_arm64_instructions ! i)) [1740 ..< 1752] = map f arm64_instructions_1740"
  using entries_of_list [OF entries_of_part_4, where zs = arm64_instructions_1740 and n = 12 and k = 264]
  by (simp add: arm64_part_4_def lengths_part_4)

lemmas tops_1740 = list_1740 [of top_bits, folded entry_top_def, unfolded entries_1740, simplified]
lemmas keys_1740 = list_1740 [of mask_value, folded entry_key_def, unfolded keys_of_1740, simplified]

lemma list_1752: "map (\<lambda>i. f (g_bal_decoder_arm64_instructions ! i)) [1752 ..< 1764] = map f arm64_instructions_1752"
  using entries_of_list [OF entries_of_part_4, where zs = arm64_instructions_1752 and n = 12 and k = 276]
  by (simp add: arm64_part_4_def lengths_part_4)

lemmas tops_1752 = list_1752 [of top_bits, folded entry_top_def, unfolded entries_1752, simplified]
lemmas keys_1752 = list_1752 [of mask_value, folded entry_key_def, unfolded keys_of_1752, simplified]

lemma list_1764: "map (\<lambda>i. f (g_bal_decoder_arm64_instructions ! i)) [1764 ..< 1776] = map f arm64_instructions_1764"
  using entries_of_list [OF entries_of_part_4, where zs = arm64_instructions_1764 and n = 12 and k = 288]
  by (simp add: arm64_part_4_def lengths_part_4)

lemmas tops_1764 = list_1764 [of top_bits, folded entry_top_def, unfolded entries_1764, simplified]
lemmas keys_1764 = list_1764 [of mask_value, folded entry_key_def, unfolded keys_of_1764, simplified]

lemma list_1776: "map (\<lambda>i. f (g_bal_decoder_arm64_instructions ! i)) [1776 ..< 1788] = map f arm64_instructions_1776"
  using entries_of_list [OF entries_of_part_4, where zs = arm64_instructions_1776 and n = 12 and k = 300]
  by (simp add: arm64_part_4_def lengths_part_4)

lemmas tops_1776 = list_1776 [of top_bits, folded entry_top_def, unfolded entries_1776, simplified]
lemmas keys_1776 = list_1776 [of mask_value, folded entry_key_def, unfolded keys_of_1776, simplified]

lemma list_1788: "map (\<lambda>i. f (g_bal_decoder_arm64_instructions ! i)) [1788 ..< 1800] = map f arm64_instructions_1788"
  using entries_of_list [OF entries_of_part_4, where zs = arm64_instructions_1788 and n = 12 and k = 312]
  by (simp add: arm64_part_4_def lengths_part_4)

lemmas tops_1788 = list_1788 [of top_bits, folded entry_top_def, unfolded entries_1788, simplified]
lemmas keys_1788 = list_1788 [of mask_value, folded entry_key_def, unfolded keys_of_1788, simplified]

lemma list_1800: "map (\<lambda>i. f (g_bal_decoder_arm64_instructions ! i)) [1800 ..< 1812] = map f arm64_instructions_1800"
  using entries_of_list [OF entries_of_part_4, where zs = arm64_instructions_1800 and n = 12 and k = 324]
  by (simp add: arm64_part_4_def lengths_part_4)

lemmas tops_1800 = list_1800 [of top_bits, folded entry_top_def, unfolded entries_1800, simplified]
lemmas keys_1800 = list_1800 [of mask_value, folded entry_key_def, unfolded keys_of_1800, simplified]

lemma list_1812: "map (\<lambda>i. f (g_bal_decoder_arm64_instructions ! i)) [1812 ..< 1824] = map f arm64_instructions_1812"
  using entries_of_list [OF entries_of_part_4, where zs = arm64_instructions_1812 and n = 12 and k = 336]
  by (simp add: arm64_part_4_def lengths_part_4)

lemmas tops_1812 = list_1812 [of top_bits, folded entry_top_def, unfolded entries_1812, simplified]
lemmas keys_1812 = list_1812 [of mask_value, folded entry_key_def, unfolded keys_of_1812, simplified]

lemma list_1824: "map (\<lambda>i. f (g_bal_decoder_arm64_instructions ! i)) [1824 ..< 1836] = map f arm64_instructions_1824"
  using entries_of_list [OF entries_of_part_4, where zs = arm64_instructions_1824 and n = 12 and k = 348]
  by (simp add: arm64_part_4_def lengths_part_4)

lemmas tops_1824 = list_1824 [of top_bits, folded entry_top_def, unfolded entries_1824, simplified]
lemmas keys_1824 = list_1824 [of mask_value, folded entry_key_def, unfolded keys_of_1824, simplified]

lemma list_1836: "map (\<lambda>i. f (g_bal_decoder_arm64_instructions ! i)) [1836 ..< 1848] = map f arm64_instructions_1836"
  using entries_of_list [OF entries_of_part_4, where zs = arm64_instructions_1836 and n = 12 and k = 360]
  by (simp add: arm64_part_4_def lengths_part_4)

lemmas tops_1836 = list_1836 [of top_bits, folded entry_top_def, unfolded entries_1836, simplified]
lemmas keys_1836 = list_1836 [of mask_value, folded entry_key_def, unfolded keys_of_1836, simplified]

lemma list_1848: "map (\<lambda>i. f (g_bal_decoder_arm64_instructions ! i)) [1848 ..< 1860] = map f arm64_instructions_1848"
  using entries_of_list [OF entries_of_part_4, where zs = arm64_instructions_1848 and n = 12 and k = 372]
  by (simp add: arm64_part_4_def lengths_part_4)

lemmas tops_1848 = list_1848 [of top_bits, folded entry_top_def, unfolded entries_1848, simplified]
lemmas keys_1848 = list_1848 [of mask_value, folded entry_key_def, unfolded keys_of_1848, simplified]

lemma list_1860: "map (\<lambda>i. f (g_bal_decoder_arm64_instructions ! i)) [1860 ..< 1872] = map f arm64_instructions_1860"
  using entries_of_list [OF entries_of_part_4, where zs = arm64_instructions_1860 and n = 12 and k = 384]
  by (simp add: arm64_part_4_def lengths_part_4)

lemmas tops_1860 = list_1860 [of top_bits, folded entry_top_def, unfolded entries_1860, simplified]
lemmas keys_1860 = list_1860 [of mask_value, folded entry_key_def, unfolded keys_of_1860, simplified]

lemma list_1872: "map (\<lambda>i. f (g_bal_decoder_arm64_instructions ! i)) [1872 ..< 1884] = map f arm64_instructions_1872"
  using entries_of_list [OF entries_of_part_4, where zs = arm64_instructions_1872 and n = 12 and k = 396]
  by (simp add: arm64_part_4_def lengths_part_4)

lemmas tops_1872 = list_1872 [of top_bits, folded entry_top_def, unfolded entries_1872, simplified]
lemmas keys_1872 = list_1872 [of mask_value, folded entry_key_def, unfolded keys_of_1872, simplified]

lemma list_1884: "map (\<lambda>i. f (g_bal_decoder_arm64_instructions ! i)) [1884 ..< 1896] = map f arm64_instructions_1884"
  using entries_of_list [OF entries_of_part_4, where zs = arm64_instructions_1884 and n = 12 and k = 408]
  by (simp add: arm64_part_4_def lengths_part_4)

lemmas tops_1884 = list_1884 [of top_bits, folded entry_top_def, unfolded entries_1884, simplified]
lemmas keys_1884 = list_1884 [of mask_value, folded entry_key_def, unfolded keys_of_1884, simplified]

lemma list_1896: "map (\<lambda>i. f (g_bal_decoder_arm64_instructions ! i)) [1896 ..< 1908] = map f arm64_instructions_1896"
  using entries_of_list [OF entries_of_part_4, where zs = arm64_instructions_1896 and n = 12 and k = 420]
  by (simp add: arm64_part_4_def lengths_part_4)

lemmas tops_1896 = list_1896 [of top_bits, folded entry_top_def, unfolded entries_1896, simplified]
lemmas keys_1896 = list_1896 [of mask_value, folded entry_key_def, unfolded keys_of_1896, simplified]

lemma list_1908: "map (\<lambda>i. f (g_bal_decoder_arm64_instructions ! i)) [1908 ..< 1920] = map f arm64_instructions_1908"
  using entries_of_list [OF entries_of_part_4, where zs = arm64_instructions_1908 and n = 12 and k = 432]
  by (simp add: arm64_part_4_def lengths_part_4)

lemmas tops_1908 = list_1908 [of top_bits, folded entry_top_def, unfolded entries_1908, simplified]
lemmas keys_1908 = list_1908 [of mask_value, folded entry_key_def, unfolded keys_of_1908, simplified]

lemma list_1920: "map (\<lambda>i. f (g_bal_decoder_arm64_instructions ! i)) [1920 ..< 1932] = map f arm64_instructions_1920"
  using entries_of_list [OF entries_of_part_4, where zs = arm64_instructions_1920 and n = 12 and k = 444]
  by (simp add: arm64_part_4_def lengths_part_4)

lemmas tops_1920 = list_1920 [of top_bits, folded entry_top_def, unfolded entries_1920, simplified]
lemmas keys_1920 = list_1920 [of mask_value, folded entry_key_def, unfolded keys_of_1920, simplified]

lemma list_1932: "map (\<lambda>i. f (g_bal_decoder_arm64_instructions ! i)) [1932 ..< 1944] = map f arm64_instructions_1932"
  using entries_of_list [OF entries_of_part_4, where zs = arm64_instructions_1932 and n = 12 and k = 456]
  by (simp add: arm64_part_4_def lengths_part_4)

lemmas tops_1932 = list_1932 [of top_bits, folded entry_top_def, unfolded entries_1932, simplified]
lemmas keys_1932 = list_1932 [of mask_value, folded entry_key_def, unfolded keys_of_1932, simplified]

lemma list_1944: "map (\<lambda>i. f (g_bal_decoder_arm64_instructions ! i)) [1944 ..< 1956] = map f arm64_instructions_1944"
  using entries_of_list [OF entries_of_part_4, where zs = arm64_instructions_1944 and n = 12 and k = 468]
  by (simp add: arm64_part_4_def lengths_part_4)

lemmas tops_1944 = list_1944 [of top_bits, folded entry_top_def, unfolded entries_1944, simplified]
lemmas keys_1944 = list_1944 [of mask_value, folded entry_key_def, unfolded keys_of_1944, simplified]

lemma list_1956: "map (\<lambda>i. f (g_bal_decoder_arm64_instructions ! i)) [1956 ..< 1968] = map f arm64_instructions_1956"
  using entries_of_list [OF entries_of_part_4, where zs = arm64_instructions_1956 and n = 12 and k = 480]
  by (simp add: arm64_part_4_def lengths_part_4)

lemmas tops_1956 = list_1956 [of top_bits, folded entry_top_def, unfolded entries_1956, simplified]
lemmas keys_1956 = list_1956 [of mask_value, folded entry_key_def, unfolded keys_of_1956, simplified]

lemma list_1968: "map (\<lambda>i. f (g_bal_decoder_arm64_instructions ! i)) [1968 ..< 1980] = map f arm64_instructions_1968"
  using entries_of_list [OF entries_of_part_5, where zs = arm64_instructions_1968 and n = 12 and k = 0]
  by (simp add: arm64_part_5_def lengths_part_5)

lemmas tops_1968 = list_1968 [of top_bits, folded entry_top_def, unfolded entries_1968, simplified]
lemmas keys_1968 = list_1968 [of mask_value, folded entry_key_def, unfolded keys_of_1968, simplified]

lemma list_1980: "map (\<lambda>i. f (g_bal_decoder_arm64_instructions ! i)) [1980 ..< 1992] = map f arm64_instructions_1980"
  using entries_of_list [OF entries_of_part_5, where zs = arm64_instructions_1980 and n = 12 and k = 12]
  by (simp add: arm64_part_5_def lengths_part_5)

lemmas tops_1980 = list_1980 [of top_bits, folded entry_top_def, unfolded entries_1980, simplified]
lemmas keys_1980 = list_1980 [of mask_value, folded entry_key_def, unfolded keys_of_1980, simplified]

lemma list_1992: "map (\<lambda>i. f (g_bal_decoder_arm64_instructions ! i)) [1992 ..< 2004] = map f arm64_instructions_1992"
  using entries_of_list [OF entries_of_part_5, where zs = arm64_instructions_1992 and n = 12 and k = 24]
  by (simp add: arm64_part_5_def lengths_part_5)

lemmas tops_1992 = list_1992 [of top_bits, folded entry_top_def, unfolded entries_1992, simplified]
lemmas keys_1992 = list_1992 [of mask_value, folded entry_key_def, unfolded keys_of_1992, simplified]

lemma list_2004: "map (\<lambda>i. f (g_bal_decoder_arm64_instructions ! i)) [2004 ..< 2016] = map f arm64_instructions_2004"
  using entries_of_list [OF entries_of_part_5, where zs = arm64_instructions_2004 and n = 12 and k = 36]
  by (simp add: arm64_part_5_def lengths_part_5)

lemmas tops_2004 = list_2004 [of top_bits, folded entry_top_def, unfolded entries_2004, simplified]
lemmas keys_2004 = list_2004 [of mask_value, folded entry_key_def, unfolded keys_of_2004, simplified]

lemma list_2016: "map (\<lambda>i. f (g_bal_decoder_arm64_instructions ! i)) [2016 ..< 2028] = map f arm64_instructions_2016"
  using entries_of_list [OF entries_of_part_5, where zs = arm64_instructions_2016 and n = 12 and k = 48]
  by (simp add: arm64_part_5_def lengths_part_5)

lemmas tops_2016 = list_2016 [of top_bits, folded entry_top_def, unfolded entries_2016, simplified]
lemmas keys_2016 = list_2016 [of mask_value, folded entry_key_def, unfolded keys_of_2016, simplified]

lemma list_2028: "map (\<lambda>i. f (g_bal_decoder_arm64_instructions ! i)) [2028 ..< 2040] = map f arm64_instructions_2028"
  using entries_of_list [OF entries_of_part_5, where zs = arm64_instructions_2028 and n = 12 and k = 60]
  by (simp add: arm64_part_5_def lengths_part_5)

lemmas tops_2028 = list_2028 [of top_bits, folded entry_top_def, unfolded entries_2028, simplified]
lemmas keys_2028 = list_2028 [of mask_value, folded entry_key_def, unfolded keys_of_2028, simplified]

lemma list_2040: "map (\<lambda>i. f (g_bal_decoder_arm64_instructions ! i)) [2040 ..< 2052] = map f arm64_instructions_2040"
  using entries_of_list [OF entries_of_part_5, where zs = arm64_instructions_2040 and n = 12 and k = 72]
  by (simp add: arm64_part_5_def lengths_part_5)

lemmas tops_2040 = list_2040 [of top_bits, folded entry_top_def, unfolded entries_2040, simplified]
lemmas keys_2040 = list_2040 [of mask_value, folded entry_key_def, unfolded keys_of_2040, simplified]

lemma list_2052: "map (\<lambda>i. f (g_bal_decoder_arm64_instructions ! i)) [2052 ..< 2064] = map f arm64_instructions_2052"
  using entries_of_list [OF entries_of_part_5, where zs = arm64_instructions_2052 and n = 12 and k = 84]
  by (simp add: arm64_part_5_def lengths_part_5)

lemmas tops_2052 = list_2052 [of top_bits, folded entry_top_def, unfolded entries_2052, simplified]
lemmas keys_2052 = list_2052 [of mask_value, folded entry_key_def, unfolded keys_of_2052, simplified]

lemma list_2064: "map (\<lambda>i. f (g_bal_decoder_arm64_instructions ! i)) [2064 ..< 2076] = map f arm64_instructions_2064"
  using entries_of_list [OF entries_of_part_5, where zs = arm64_instructions_2064 and n = 12 and k = 96]
  by (simp add: arm64_part_5_def lengths_part_5)

lemmas tops_2064 = list_2064 [of top_bits, folded entry_top_def, unfolded entries_2064, simplified]
lemmas keys_2064 = list_2064 [of mask_value, folded entry_key_def, unfolded keys_of_2064, simplified]

lemma list_2076: "map (\<lambda>i. f (g_bal_decoder_arm64_instructions ! i)) [2076 ..< 2088] = map f arm64_instructions_2076"
  using entries_of_list [OF entries_of_part_5, where zs = arm64_instructions_2076 and n = 12 and k = 108]
  by (simp add: arm64_part_5_def lengths_part_5)

lemmas tops_2076 = list_2076 [of top_bits, folded entry_top_def, unfolded entries_2076, simplified]
lemmas keys_2076 = list_2076 [of mask_value, folded entry_key_def, unfolded keys_of_2076, simplified]

lemma list_2088: "map (\<lambda>i. f (g_bal_decoder_arm64_instructions ! i)) [2088 ..< 2100] = map f arm64_instructions_2088"
  using entries_of_list [OF entries_of_part_5, where zs = arm64_instructions_2088 and n = 12 and k = 120]
  by (simp add: arm64_part_5_def lengths_part_5)

lemmas tops_2088 = list_2088 [of top_bits, folded entry_top_def, unfolded entries_2088, simplified]
lemmas keys_2088 = list_2088 [of mask_value, folded entry_key_def, unfolded keys_of_2088, simplified]

lemma list_2100: "map (\<lambda>i. f (g_bal_decoder_arm64_instructions ! i)) [2100 ..< 2112] = map f arm64_instructions_2100"
  using entries_of_list [OF entries_of_part_5, where zs = arm64_instructions_2100 and n = 12 and k = 132]
  by (simp add: arm64_part_5_def lengths_part_5)

lemmas tops_2100 = list_2100 [of top_bits, folded entry_top_def, unfolded entries_2100, simplified]
lemmas keys_2100 = list_2100 [of mask_value, folded entry_key_def, unfolded keys_of_2100, simplified]

lemma list_2112: "map (\<lambda>i. f (g_bal_decoder_arm64_instructions ! i)) [2112 ..< 2124] = map f arm64_instructions_2112"
  using entries_of_list [OF entries_of_part_5, where zs = arm64_instructions_2112 and n = 12 and k = 144]
  by (simp add: arm64_part_5_def lengths_part_5)

lemmas tops_2112 = list_2112 [of top_bits, folded entry_top_def, unfolded entries_2112, simplified]
lemmas keys_2112 = list_2112 [of mask_value, folded entry_key_def, unfolded keys_of_2112, simplified]

lemma list_2124: "map (\<lambda>i. f (g_bal_decoder_arm64_instructions ! i)) [2124 ..< 2136] = map f arm64_instructions_2124"
  using entries_of_list [OF entries_of_part_5, where zs = arm64_instructions_2124 and n = 12 and k = 156]
  by (simp add: arm64_part_5_def lengths_part_5)

lemmas tops_2124 = list_2124 [of top_bits, folded entry_top_def, unfolded entries_2124, simplified]
lemmas keys_2124 = list_2124 [of mask_value, folded entry_key_def, unfolded keys_of_2124, simplified]

lemma list_2136: "map (\<lambda>i. f (g_bal_decoder_arm64_instructions ! i)) [2136 ..< 2148] = map f arm64_instructions_2136"
  using entries_of_list [OF entries_of_part_5, where zs = arm64_instructions_2136 and n = 12 and k = 168]
  by (simp add: arm64_part_5_def lengths_part_5)

lemmas tops_2136 = list_2136 [of top_bits, folded entry_top_def, unfolded entries_2136, simplified]
lemmas keys_2136 = list_2136 [of mask_value, folded entry_key_def, unfolded keys_of_2136, simplified]

lemma list_2148: "map (\<lambda>i. f (g_bal_decoder_arm64_instructions ! i)) [2148 ..< 2160] = map f arm64_instructions_2148"
  using entries_of_list [OF entries_of_part_5, where zs = arm64_instructions_2148 and n = 12 and k = 180]
  by (simp add: arm64_part_5_def lengths_part_5)

lemmas tops_2148 = list_2148 [of top_bits, folded entry_top_def, unfolded entries_2148, simplified]
lemmas keys_2148 = list_2148 [of mask_value, folded entry_key_def, unfolded keys_of_2148, simplified]

lemma list_2160: "map (\<lambda>i. f (g_bal_decoder_arm64_instructions ! i)) [2160 ..< 2172] = map f arm64_instructions_2160"
  using entries_of_list [OF entries_of_part_5, where zs = arm64_instructions_2160 and n = 12 and k = 192]
  by (simp add: arm64_part_5_def lengths_part_5)

lemmas tops_2160 = list_2160 [of top_bits, folded entry_top_def, unfolded entries_2160, simplified]
lemmas keys_2160 = list_2160 [of mask_value, folded entry_key_def, unfolded keys_of_2160, simplified]

lemma list_2172: "map (\<lambda>i. f (g_bal_decoder_arm64_instructions ! i)) [2172 ..< 2184] = map f arm64_instructions_2172"
  using entries_of_list [OF entries_of_part_5, where zs = arm64_instructions_2172 and n = 12 and k = 204]
  by (simp add: arm64_part_5_def lengths_part_5)

lemmas tops_2172 = list_2172 [of top_bits, folded entry_top_def, unfolded entries_2172, simplified]
lemmas keys_2172 = list_2172 [of mask_value, folded entry_key_def, unfolded keys_of_2172, simplified]

lemma list_2184: "map (\<lambda>i. f (g_bal_decoder_arm64_instructions ! i)) [2184 ..< 2196] = map f arm64_instructions_2184"
  using entries_of_list [OF entries_of_part_5, where zs = arm64_instructions_2184 and n = 12 and k = 216]
  by (simp add: arm64_part_5_def lengths_part_5)

lemmas tops_2184 = list_2184 [of top_bits, folded entry_top_def, unfolded entries_2184, simplified]
lemmas keys_2184 = list_2184 [of mask_value, folded entry_key_def, unfolded keys_of_2184, simplified]

lemma list_2196: "map (\<lambda>i. f (g_bal_decoder_arm64_instructions ! i)) [2196 ..< 2208] = map f arm64_instructions_2196"
  using entries_of_list [OF entries_of_part_5, where zs = arm64_instructions_2196 and n = 12 and k = 228]
  by (simp add: arm64_part_5_def lengths_part_5)

lemmas tops_2196 = list_2196 [of top_bits, folded entry_top_def, unfolded entries_2196, simplified]
lemmas keys_2196 = list_2196 [of mask_value, folded entry_key_def, unfolded keys_of_2196, simplified]

lemma list_2208: "map (\<lambda>i. f (g_bal_decoder_arm64_instructions ! i)) [2208 ..< 2220] = map f arm64_instructions_2208"
  using entries_of_list [OF entries_of_part_5, where zs = arm64_instructions_2208 and n = 12 and k = 240]
  by (simp add: arm64_part_5_def lengths_part_5)

lemmas tops_2208 = list_2208 [of top_bits, folded entry_top_def, unfolded entries_2208, simplified]
lemmas keys_2208 = list_2208 [of mask_value, folded entry_key_def, unfolded keys_of_2208, simplified]

lemma list_2220: "map (\<lambda>i. f (g_bal_decoder_arm64_instructions ! i)) [2220 ..< 2232] = map f arm64_instructions_2220"
  using entries_of_list [OF entries_of_part_5, where zs = arm64_instructions_2220 and n = 12 and k = 252]
  by (simp add: arm64_part_5_def lengths_part_5)

lemmas tops_2220 = list_2220 [of top_bits, folded entry_top_def, unfolded entries_2220, simplified]
lemmas keys_2220 = list_2220 [of mask_value, folded entry_key_def, unfolded keys_of_2220, simplified]

lemma list_2232: "map (\<lambda>i. f (g_bal_decoder_arm64_instructions ! i)) [2232 ..< 2244] = map f arm64_instructions_2232"
  using entries_of_list [OF entries_of_part_5, where zs = arm64_instructions_2232 and n = 12 and k = 264]
  by (simp add: arm64_part_5_def lengths_part_5)

lemmas tops_2232 = list_2232 [of top_bits, folded entry_top_def, unfolded entries_2232, simplified]
lemmas keys_2232 = list_2232 [of mask_value, folded entry_key_def, unfolded keys_of_2232, simplified]

lemma list_2244: "map (\<lambda>i. f (g_bal_decoder_arm64_instructions ! i)) [2244 ..< 2256] = map f arm64_instructions_2244"
  using entries_of_list [OF entries_of_part_5, where zs = arm64_instructions_2244 and n = 12 and k = 276]
  by (simp add: arm64_part_5_def lengths_part_5)

lemmas tops_2244 = list_2244 [of top_bits, folded entry_top_def, unfolded entries_2244, simplified]
lemmas keys_2244 = list_2244 [of mask_value, folded entry_key_def, unfolded keys_of_2244, simplified]

lemma list_2256: "map (\<lambda>i. f (g_bal_decoder_arm64_instructions ! i)) [2256 ..< 2268] = map f arm64_instructions_2256"
  using entries_of_list [OF entries_of_part_5, where zs = arm64_instructions_2256 and n = 12 and k = 288]
  by (simp add: arm64_part_5_def lengths_part_5)

lemmas tops_2256 = list_2256 [of top_bits, folded entry_top_def, unfolded entries_2256, simplified]
lemmas keys_2256 = list_2256 [of mask_value, folded entry_key_def, unfolded keys_of_2256, simplified]

lemma list_2268: "map (\<lambda>i. f (g_bal_decoder_arm64_instructions ! i)) [2268 ..< 2280] = map f arm64_instructions_2268"
  using entries_of_list [OF entries_of_part_5, where zs = arm64_instructions_2268 and n = 12 and k = 300]
  by (simp add: arm64_part_5_def lengths_part_5)

lemmas tops_2268 = list_2268 [of top_bits, folded entry_top_def, unfolded entries_2268, simplified]
lemmas keys_2268 = list_2268 [of mask_value, folded entry_key_def, unfolded keys_of_2268, simplified]

lemma list_2280: "map (\<lambda>i. f (g_bal_decoder_arm64_instructions ! i)) [2280 ..< 2292] = map f arm64_instructions_2280"
  using entries_of_list [OF entries_of_part_5, where zs = arm64_instructions_2280 and n = 12 and k = 312]
  by (simp add: arm64_part_5_def lengths_part_5)

lemmas tops_2280 = list_2280 [of top_bits, folded entry_top_def, unfolded entries_2280, simplified]
lemmas keys_2280 = list_2280 [of mask_value, folded entry_key_def, unfolded keys_of_2280, simplified]

lemma list_2292: "map (\<lambda>i. f (g_bal_decoder_arm64_instructions ! i)) [2292 ..< 2304] = map f arm64_instructions_2292"
  using entries_of_list [OF entries_of_part_5, where zs = arm64_instructions_2292 and n = 12 and k = 324]
  by (simp add: arm64_part_5_def lengths_part_5)

lemmas tops_2292 = list_2292 [of top_bits, folded entry_top_def, unfolded entries_2292, simplified]
lemmas keys_2292 = list_2292 [of mask_value, folded entry_key_def, unfolded keys_of_2292, simplified]

lemma list_2304: "map (\<lambda>i. f (g_bal_decoder_arm64_instructions ! i)) [2304 ..< 2316] = map f arm64_instructions_2304"
  using entries_of_list [OF entries_of_part_5, where zs = arm64_instructions_2304 and n = 12 and k = 336]
  by (simp add: arm64_part_5_def lengths_part_5)

lemmas tops_2304 = list_2304 [of top_bits, folded entry_top_def, unfolded entries_2304, simplified]
lemmas keys_2304 = list_2304 [of mask_value, folded entry_key_def, unfolded keys_of_2304, simplified]

lemma list_2316: "map (\<lambda>i. f (g_bal_decoder_arm64_instructions ! i)) [2316 ..< 2328] = map f arm64_instructions_2316"
  using entries_of_list [OF entries_of_part_5, where zs = arm64_instructions_2316 and n = 12 and k = 348]
  by (simp add: arm64_part_5_def lengths_part_5)

lemmas tops_2316 = list_2316 [of top_bits, folded entry_top_def, unfolded entries_2316, simplified]
lemmas keys_2316 = list_2316 [of mask_value, folded entry_key_def, unfolded keys_of_2316, simplified]

lemma list_2328: "map (\<lambda>i. f (g_bal_decoder_arm64_instructions ! i)) [2328 ..< 2340] = map f arm64_instructions_2328"
  using entries_of_list [OF entries_of_part_5, where zs = arm64_instructions_2328 and n = 12 and k = 360]
  by (simp add: arm64_part_5_def lengths_part_5)

lemmas tops_2328 = list_2328 [of top_bits, folded entry_top_def, unfolded entries_2328, simplified]
lemmas keys_2328 = list_2328 [of mask_value, folded entry_key_def, unfolded keys_of_2328, simplified]

lemma list_2340: "map (\<lambda>i. f (g_bal_decoder_arm64_instructions ! i)) [2340 ..< 2352] = map f arm64_instructions_2340"
  using entries_of_list [OF entries_of_part_5, where zs = arm64_instructions_2340 and n = 12 and k = 372]
  by (simp add: arm64_part_5_def lengths_part_5)

lemmas tops_2340 = list_2340 [of top_bits, folded entry_top_def, unfolded entries_2340, simplified]
lemmas keys_2340 = list_2340 [of mask_value, folded entry_key_def, unfolded keys_of_2340, simplified]

lemma list_2352: "map (\<lambda>i. f (g_bal_decoder_arm64_instructions ! i)) [2352 ..< 2364] = map f arm64_instructions_2352"
  using entries_of_list [OF entries_of_part_5, where zs = arm64_instructions_2352 and n = 12 and k = 384]
  by (simp add: arm64_part_5_def lengths_part_5)

lemmas tops_2352 = list_2352 [of top_bits, folded entry_top_def, unfolded entries_2352, simplified]
lemmas keys_2352 = list_2352 [of mask_value, folded entry_key_def, unfolded keys_of_2352, simplified]

lemma list_2364: "map (\<lambda>i. f (g_bal_decoder_arm64_instructions ! i)) [2364 ..< 2376] = map f arm64_instructions_2364"
  using entries_of_list [OF entries_of_part_5, where zs = arm64_instructions_2364 and n = 12 and k = 396]
  by (simp add: arm64_part_5_def lengths_part_5)

lemmas tops_2364 = list_2364 [of top_bits, folded entry_top_def, unfolded entries_2364, simplified]
lemmas keys_2364 = list_2364 [of mask_value, folded entry_key_def, unfolded keys_of_2364, simplified]

lemma list_2376: "map (\<lambda>i. f (g_bal_decoder_arm64_instructions ! i)) [2376 ..< 2388] = map f arm64_instructions_2376"
  using entries_of_list [OF entries_of_part_5, where zs = arm64_instructions_2376 and n = 12 and k = 408]
  by (simp add: arm64_part_5_def lengths_part_5)

lemmas tops_2376 = list_2376 [of top_bits, folded entry_top_def, unfolded entries_2376, simplified]
lemmas keys_2376 = list_2376 [of mask_value, folded entry_key_def, unfolded keys_of_2376, simplified]

lemma list_2388: "map (\<lambda>i. f (g_bal_decoder_arm64_instructions ! i)) [2388 ..< 2400] = map f arm64_instructions_2388"
  using entries_of_list [OF entries_of_part_5, where zs = arm64_instructions_2388 and n = 12 and k = 420]
  by (simp add: arm64_part_5_def lengths_part_5)

lemmas tops_2388 = list_2388 [of top_bits, folded entry_top_def, unfolded entries_2388, simplified]
lemmas keys_2388 = list_2388 [of mask_value, folded entry_key_def, unfolded keys_of_2388, simplified]

lemma list_2400: "map (\<lambda>i. f (g_bal_decoder_arm64_instructions ! i)) [2400 ..< 2412] = map f arm64_instructions_2400"
  using entries_of_list [OF entries_of_part_5, where zs = arm64_instructions_2400 and n = 12 and k = 432]
  by (simp add: arm64_part_5_def lengths_part_5)

lemmas tops_2400 = list_2400 [of top_bits, folded entry_top_def, unfolded entries_2400, simplified]
lemmas keys_2400 = list_2400 [of mask_value, folded entry_key_def, unfolded keys_of_2400, simplified]

lemma list_2412: "map (\<lambda>i. f (g_bal_decoder_arm64_instructions ! i)) [2412 ..< 2424] = map f arm64_instructions_2412"
  using entries_of_list [OF entries_of_part_5, where zs = arm64_instructions_2412 and n = 12 and k = 444]
  by (simp add: arm64_part_5_def lengths_part_5)

lemmas tops_2412 = list_2412 [of top_bits, folded entry_top_def, unfolded entries_2412, simplified]
lemmas keys_2412 = list_2412 [of mask_value, folded entry_key_def, unfolded keys_of_2412, simplified]

lemma list_2424: "map (\<lambda>i. f (g_bal_decoder_arm64_instructions ! i)) [2424 ..< 2436] = map f arm64_instructions_2424"
  using entries_of_list [OF entries_of_part_5, where zs = arm64_instructions_2424 and n = 12 and k = 456]
  by (simp add: arm64_part_5_def lengths_part_5)

lemmas tops_2424 = list_2424 [of top_bits, folded entry_top_def, unfolded entries_2424, simplified]
lemmas keys_2424 = list_2424 [of mask_value, folded entry_key_def, unfolded keys_of_2424, simplified]

lemma list_2436: "map (\<lambda>i. f (g_bal_decoder_arm64_instructions ! i)) [2436 ..< 2448] = map f arm64_instructions_2436"
  using entries_of_list [OF entries_of_part_5, where zs = arm64_instructions_2436 and n = 12 and k = 468]
  by (simp add: arm64_part_5_def lengths_part_5)

lemmas tops_2436 = list_2436 [of top_bits, folded entry_top_def, unfolded entries_2436, simplified]
lemmas keys_2436 = list_2436 [of mask_value, folded entry_key_def, unfolded keys_of_2436, simplified]

lemma list_2448: "map (\<lambda>i. f (g_bal_decoder_arm64_instructions ! i)) [2448 ..< 2460] = map f arm64_instructions_2448"
  using entries_of_list [OF entries_of_part_5, where zs = arm64_instructions_2448 and n = 12 and k = 480]
  by (simp add: arm64_part_5_def lengths_part_5)

lemmas tops_2448 = list_2448 [of top_bits, folded entry_top_def, unfolded entries_2448, simplified]
lemmas keys_2448 = list_2448 [of mask_value, folded entry_key_def, unfolded keys_of_2448, simplified]

lemma list_2460: "map (\<lambda>i. f (g_bal_decoder_arm64_instructions ! i)) [2460 ..< 2472] = map f arm64_instructions_2460"
  using entries_of_list [OF entries_of_part_6, where zs = arm64_instructions_2460 and n = 12 and k = 0]
  by (simp add: arm64_part_6_def lengths_part_6)

lemmas tops_2460 = list_2460 [of top_bits, folded entry_top_def, unfolded entries_2460, simplified]
lemmas keys_2460 = list_2460 [of mask_value, folded entry_key_def, unfolded keys_of_2460, simplified]

lemma list_2472: "map (\<lambda>i. f (g_bal_decoder_arm64_instructions ! i)) [2472 ..< 2484] = map f arm64_instructions_2472"
  using entries_of_list [OF entries_of_part_6, where zs = arm64_instructions_2472 and n = 12 and k = 12]
  by (simp add: arm64_part_6_def lengths_part_6)

lemmas tops_2472 = list_2472 [of top_bits, folded entry_top_def, unfolded entries_2472, simplified]
lemmas keys_2472 = list_2472 [of mask_value, folded entry_key_def, unfolded keys_of_2472, simplified]

lemma list_2484: "map (\<lambda>i. f (g_bal_decoder_arm64_instructions ! i)) [2484 ..< 2496] = map f arm64_instructions_2484"
  using entries_of_list [OF entries_of_part_6, where zs = arm64_instructions_2484 and n = 12 and k = 24]
  by (simp add: arm64_part_6_def lengths_part_6)

lemmas tops_2484 = list_2484 [of top_bits, folded entry_top_def, unfolded entries_2484, simplified]
lemmas keys_2484 = list_2484 [of mask_value, folded entry_key_def, unfolded keys_of_2484, simplified]

lemma list_2496: "map (\<lambda>i. f (g_bal_decoder_arm64_instructions ! i)) [2496 ..< 2508] = map f arm64_instructions_2496"
  using entries_of_list [OF entries_of_part_6, where zs = arm64_instructions_2496 and n = 12 and k = 36]
  by (simp add: arm64_part_6_def lengths_part_6)

lemmas tops_2496 = list_2496 [of top_bits, folded entry_top_def, unfolded entries_2496, simplified]
lemmas keys_2496 = list_2496 [of mask_value, folded entry_key_def, unfolded keys_of_2496, simplified]

lemma list_2508: "map (\<lambda>i. f (g_bal_decoder_arm64_instructions ! i)) [2508 ..< 2520] = map f arm64_instructions_2508"
  using entries_of_list [OF entries_of_part_6, where zs = arm64_instructions_2508 and n = 12 and k = 48]
  by (simp add: arm64_part_6_def lengths_part_6)

lemmas tops_2508 = list_2508 [of top_bits, folded entry_top_def, unfolded entries_2508, simplified]
lemmas keys_2508 = list_2508 [of mask_value, folded entry_key_def, unfolded keys_of_2508, simplified]

lemma list_2520: "map (\<lambda>i. f (g_bal_decoder_arm64_instructions ! i)) [2520 ..< 2532] = map f arm64_instructions_2520"
  using entries_of_list [OF entries_of_part_6, where zs = arm64_instructions_2520 and n = 12 and k = 60]
  by (simp add: arm64_part_6_def lengths_part_6)

lemmas tops_2520 = list_2520 [of top_bits, folded entry_top_def, unfolded entries_2520, simplified]
lemmas keys_2520 = list_2520 [of mask_value, folded entry_key_def, unfolded keys_of_2520, simplified]

lemma list_2532: "map (\<lambda>i. f (g_bal_decoder_arm64_instructions ! i)) [2532 ..< 2544] = map f arm64_instructions_2532"
  using entries_of_list [OF entries_of_part_6, where zs = arm64_instructions_2532 and n = 12 and k = 72]
  by (simp add: arm64_part_6_def lengths_part_6)

lemmas tops_2532 = list_2532 [of top_bits, folded entry_top_def, unfolded entries_2532, simplified]
lemmas keys_2532 = list_2532 [of mask_value, folded entry_key_def, unfolded keys_of_2532, simplified]

lemma list_2544: "map (\<lambda>i. f (g_bal_decoder_arm64_instructions ! i)) [2544 ..< 2556] = map f arm64_instructions_2544"
  using entries_of_list [OF entries_of_part_6, where zs = arm64_instructions_2544 and n = 12 and k = 84]
  by (simp add: arm64_part_6_def lengths_part_6)

lemmas tops_2544 = list_2544 [of top_bits, folded entry_top_def, unfolded entries_2544, simplified]
lemmas keys_2544 = list_2544 [of mask_value, folded entry_key_def, unfolded keys_of_2544, simplified]

lemma list_2556: "map (\<lambda>i. f (g_bal_decoder_arm64_instructions ! i)) [2556 ..< 2568] = map f arm64_instructions_2556"
  using entries_of_list [OF entries_of_part_6, where zs = arm64_instructions_2556 and n = 12 and k = 96]
  by (simp add: arm64_part_6_def lengths_part_6)

lemmas tops_2556 = list_2556 [of top_bits, folded entry_top_def, unfolded entries_2556, simplified]
lemmas keys_2556 = list_2556 [of mask_value, folded entry_key_def, unfolded keys_of_2556, simplified]

lemma list_2568: "map (\<lambda>i. f (g_bal_decoder_arm64_instructions ! i)) [2568 ..< 2580] = map f arm64_instructions_2568"
  using entries_of_list [OF entries_of_part_6, where zs = arm64_instructions_2568 and n = 12 and k = 108]
  by (simp add: arm64_part_6_def lengths_part_6)

lemmas tops_2568 = list_2568 [of top_bits, folded entry_top_def, unfolded entries_2568, simplified]
lemmas keys_2568 = list_2568 [of mask_value, folded entry_key_def, unfolded keys_of_2568, simplified]

lemma list_2580: "map (\<lambda>i. f (g_bal_decoder_arm64_instructions ! i)) [2580 ..< 2592] = map f arm64_instructions_2580"
  using entries_of_list [OF entries_of_part_6, where zs = arm64_instructions_2580 and n = 12 and k = 120]
  by (simp add: arm64_part_6_def lengths_part_6)

lemmas tops_2580 = list_2580 [of top_bits, folded entry_top_def, unfolded entries_2580, simplified]
lemmas keys_2580 = list_2580 [of mask_value, folded entry_key_def, unfolded keys_of_2580, simplified]

lemma list_2592: "map (\<lambda>i. f (g_bal_decoder_arm64_instructions ! i)) [2592 ..< 2604] = map f arm64_instructions_2592"
  using entries_of_list [OF entries_of_part_6, where zs = arm64_instructions_2592 and n = 12 and k = 132]
  by (simp add: arm64_part_6_def lengths_part_6)

lemmas tops_2592 = list_2592 [of top_bits, folded entry_top_def, unfolded entries_2592, simplified]
lemmas keys_2592 = list_2592 [of mask_value, folded entry_key_def, unfolded keys_of_2592, simplified]

lemma list_2604: "map (\<lambda>i. f (g_bal_decoder_arm64_instructions ! i)) [2604 ..< 2616] = map f arm64_instructions_2604"
  using entries_of_list [OF entries_of_part_6, where zs = arm64_instructions_2604 and n = 12 and k = 144]
  by (simp add: arm64_part_6_def lengths_part_6)

lemmas tops_2604 = list_2604 [of top_bits, folded entry_top_def, unfolded entries_2604, simplified]
lemmas keys_2604 = list_2604 [of mask_value, folded entry_key_def, unfolded keys_of_2604, simplified]

lemma list_2616: "map (\<lambda>i. f (g_bal_decoder_arm64_instructions ! i)) [2616 ..< 2628] = map f arm64_instructions_2616"
  using entries_of_list [OF entries_of_part_6, where zs = arm64_instructions_2616 and n = 12 and k = 156]
  by (simp add: arm64_part_6_def lengths_part_6)

lemmas tops_2616 = list_2616 [of top_bits, folded entry_top_def, unfolded entries_2616, simplified]
lemmas keys_2616 = list_2616 [of mask_value, folded entry_key_def, unfolded keys_of_2616, simplified]

lemma list_2628: "map (\<lambda>i. f (g_bal_decoder_arm64_instructions ! i)) [2628 ..< 2640] = map f arm64_instructions_2628"
  using entries_of_list [OF entries_of_part_6, where zs = arm64_instructions_2628 and n = 12 and k = 168]
  by (simp add: arm64_part_6_def lengths_part_6)

lemmas tops_2628 = list_2628 [of top_bits, folded entry_top_def, unfolded entries_2628, simplified]
lemmas keys_2628 = list_2628 [of mask_value, folded entry_key_def, unfolded keys_of_2628, simplified]

lemma list_2640: "map (\<lambda>i. f (g_bal_decoder_arm64_instructions ! i)) [2640 ..< 2652] = map f arm64_instructions_2640"
  using entries_of_list [OF entries_of_part_6, where zs = arm64_instructions_2640 and n = 12 and k = 180]
  by (simp add: arm64_part_6_def lengths_part_6)

lemmas tops_2640 = list_2640 [of top_bits, folded entry_top_def, unfolded entries_2640, simplified]
lemmas keys_2640 = list_2640 [of mask_value, folded entry_key_def, unfolded keys_of_2640, simplified]

lemma list_2652: "map (\<lambda>i. f (g_bal_decoder_arm64_instructions ! i)) [2652 ..< 2664] = map f arm64_instructions_2652"
  using entries_of_list [OF entries_of_part_6, where zs = arm64_instructions_2652 and n = 12 and k = 192]
  by (simp add: arm64_part_6_def lengths_part_6)

lemmas tops_2652 = list_2652 [of top_bits, folded entry_top_def, unfolded entries_2652, simplified]
lemmas keys_2652 = list_2652 [of mask_value, folded entry_key_def, unfolded keys_of_2652, simplified]

lemma list_2664: "map (\<lambda>i. f (g_bal_decoder_arm64_instructions ! i)) [2664 ..< 2676] = map f arm64_instructions_2664"
  using entries_of_list [OF entries_of_part_6, where zs = arm64_instructions_2664 and n = 12 and k = 204]
  by (simp add: arm64_part_6_def lengths_part_6)

lemmas tops_2664 = list_2664 [of top_bits, folded entry_top_def, unfolded entries_2664, simplified]
lemmas keys_2664 = list_2664 [of mask_value, folded entry_key_def, unfolded keys_of_2664, simplified]

lemma list_2676: "map (\<lambda>i. f (g_bal_decoder_arm64_instructions ! i)) [2676 ..< 2688] = map f arm64_instructions_2676"
  using entries_of_list [OF entries_of_part_6, where zs = arm64_instructions_2676 and n = 12 and k = 216]
  by (simp add: arm64_part_6_def lengths_part_6)

lemmas tops_2676 = list_2676 [of top_bits, folded entry_top_def, unfolded entries_2676, simplified]
lemmas keys_2676 = list_2676 [of mask_value, folded entry_key_def, unfolded keys_of_2676, simplified]

lemma list_2688: "map (\<lambda>i. f (g_bal_decoder_arm64_instructions ! i)) [2688 ..< 2700] = map f arm64_instructions_2688"
  using entries_of_list [OF entries_of_part_6, where zs = arm64_instructions_2688 and n = 12 and k = 228]
  by (simp add: arm64_part_6_def lengths_part_6)

lemmas tops_2688 = list_2688 [of top_bits, folded entry_top_def, unfolded entries_2688, simplified]
lemmas keys_2688 = list_2688 [of mask_value, folded entry_key_def, unfolded keys_of_2688, simplified]

lemma list_2700: "map (\<lambda>i. f (g_bal_decoder_arm64_instructions ! i)) [2700 ..< 2712] = map f arm64_instructions_2700"
  using entries_of_list [OF entries_of_part_6, where zs = arm64_instructions_2700 and n = 12 and k = 240]
  by (simp add: arm64_part_6_def lengths_part_6)

lemmas tops_2700 = list_2700 [of top_bits, folded entry_top_def, unfolded entries_2700, simplified]
lemmas keys_2700 = list_2700 [of mask_value, folded entry_key_def, unfolded keys_of_2700, simplified]

lemma list_2712: "map (\<lambda>i. f (g_bal_decoder_arm64_instructions ! i)) [2712 ..< 2724] = map f arm64_instructions_2712"
  using entries_of_list [OF entries_of_part_6, where zs = arm64_instructions_2712 and n = 12 and k = 252]
  by (simp add: arm64_part_6_def lengths_part_6)

lemmas tops_2712 = list_2712 [of top_bits, folded entry_top_def, unfolded entries_2712, simplified]
lemmas keys_2712 = list_2712 [of mask_value, folded entry_key_def, unfolded keys_of_2712, simplified]

lemma list_2724: "map (\<lambda>i. f (g_bal_decoder_arm64_instructions ! i)) [2724 ..< 2736] = map f arm64_instructions_2724"
  using entries_of_list [OF entries_of_part_6, where zs = arm64_instructions_2724 and n = 12 and k = 264]
  by (simp add: arm64_part_6_def lengths_part_6)

lemmas tops_2724 = list_2724 [of top_bits, folded entry_top_def, unfolded entries_2724, simplified]
lemmas keys_2724 = list_2724 [of mask_value, folded entry_key_def, unfolded keys_of_2724, simplified]

lemma list_2736: "map (\<lambda>i. f (g_bal_decoder_arm64_instructions ! i)) [2736 ..< 2748] = map f arm64_instructions_2736"
  using entries_of_list [OF entries_of_part_6, where zs = arm64_instructions_2736 and n = 12 and k = 276]
  by (simp add: arm64_part_6_def lengths_part_6)

lemmas tops_2736 = list_2736 [of top_bits, folded entry_top_def, unfolded entries_2736, simplified]
lemmas keys_2736 = list_2736 [of mask_value, folded entry_key_def, unfolded keys_of_2736, simplified]

lemma list_2748: "map (\<lambda>i. f (g_bal_decoder_arm64_instructions ! i)) [2748 ..< 2760] = map f arm64_instructions_2748"
  using entries_of_list [OF entries_of_part_6, where zs = arm64_instructions_2748 and n = 12 and k = 288]
  by (simp add: arm64_part_6_def lengths_part_6)

lemmas tops_2748 = list_2748 [of top_bits, folded entry_top_def, unfolded entries_2748, simplified]
lemmas keys_2748 = list_2748 [of mask_value, folded entry_key_def, unfolded keys_of_2748, simplified]

lemma list_2760: "map (\<lambda>i. f (g_bal_decoder_arm64_instructions ! i)) [2760 ..< 2772] = map f arm64_instructions_2760"
  using entries_of_list [OF entries_of_part_6, where zs = arm64_instructions_2760 and n = 12 and k = 300]
  by (simp add: arm64_part_6_def lengths_part_6)

lemmas tops_2760 = list_2760 [of top_bits, folded entry_top_def, unfolded entries_2760, simplified]
lemmas keys_2760 = list_2760 [of mask_value, folded entry_key_def, unfolded keys_of_2760, simplified]

lemma list_2772: "map (\<lambda>i. f (g_bal_decoder_arm64_instructions ! i)) [2772 ..< 2784] = map f arm64_instructions_2772"
  using entries_of_list [OF entries_of_part_6, where zs = arm64_instructions_2772 and n = 12 and k = 312]
  by (simp add: arm64_part_6_def lengths_part_6)

lemmas tops_2772 = list_2772 [of top_bits, folded entry_top_def, unfolded entries_2772, simplified]
lemmas keys_2772 = list_2772 [of mask_value, folded entry_key_def, unfolded keys_of_2772, simplified]

lemma list_2784: "map (\<lambda>i. f (g_bal_decoder_arm64_instructions ! i)) [2784 ..< 2796] = map f arm64_instructions_2784"
  using entries_of_list [OF entries_of_part_6, where zs = arm64_instructions_2784 and n = 12 and k = 324]
  by (simp add: arm64_part_6_def lengths_part_6)

lemmas tops_2784 = list_2784 [of top_bits, folded entry_top_def, unfolded entries_2784, simplified]
lemmas keys_2784 = list_2784 [of mask_value, folded entry_key_def, unfolded keys_of_2784, simplified]

lemma list_2796: "map (\<lambda>i. f (g_bal_decoder_arm64_instructions ! i)) [2796 ..< 2808] = map f arm64_instructions_2796"
  using entries_of_list [OF entries_of_part_6, where zs = arm64_instructions_2796 and n = 12 and k = 336]
  by (simp add: arm64_part_6_def lengths_part_6)

lemmas tops_2796 = list_2796 [of top_bits, folded entry_top_def, unfolded entries_2796, simplified]
lemmas keys_2796 = list_2796 [of mask_value, folded entry_key_def, unfolded keys_of_2796, simplified]

lemma list_2808: "map (\<lambda>i. f (g_bal_decoder_arm64_instructions ! i)) [2808 ..< 2820] = map f arm64_instructions_2808"
  using entries_of_list [OF entries_of_part_6, where zs = arm64_instructions_2808 and n = 12 and k = 348]
  by (simp add: arm64_part_6_def lengths_part_6)

lemmas tops_2808 = list_2808 [of top_bits, folded entry_top_def, unfolded entries_2808, simplified]
lemmas keys_2808 = list_2808 [of mask_value, folded entry_key_def, unfolded keys_of_2808, simplified]

lemma list_2820: "map (\<lambda>i. f (g_bal_decoder_arm64_instructions ! i)) [2820 ..< 2832] = map f arm64_instructions_2820"
  using entries_of_list [OF entries_of_part_6, where zs = arm64_instructions_2820 and n = 12 and k = 360]
  by (simp add: arm64_part_6_def lengths_part_6)

lemmas tops_2820 = list_2820 [of top_bits, folded entry_top_def, unfolded entries_2820, simplified]
lemmas keys_2820 = list_2820 [of mask_value, folded entry_key_def, unfolded keys_of_2820, simplified]

lemma list_2832: "map (\<lambda>i. f (g_bal_decoder_arm64_instructions ! i)) [2832 ..< 2844] = map f arm64_instructions_2832"
  using entries_of_list [OF entries_of_part_6, where zs = arm64_instructions_2832 and n = 12 and k = 372]
  by (simp add: arm64_part_6_def lengths_part_6)

lemmas tops_2832 = list_2832 [of top_bits, folded entry_top_def, unfolded entries_2832, simplified]
lemmas keys_2832 = list_2832 [of mask_value, folded entry_key_def, unfolded keys_of_2832, simplified]

lemma list_2844: "map (\<lambda>i. f (g_bal_decoder_arm64_instructions ! i)) [2844 ..< 2856] = map f arm64_instructions_2844"
  using entries_of_list [OF entries_of_part_6, where zs = arm64_instructions_2844 and n = 12 and k = 384]
  by (simp add: arm64_part_6_def lengths_part_6)

lemmas tops_2844 = list_2844 [of top_bits, folded entry_top_def, unfolded entries_2844, simplified]
lemmas keys_2844 = list_2844 [of mask_value, folded entry_key_def, unfolded keys_of_2844, simplified]

lemma list_2856: "map (\<lambda>i. f (g_bal_decoder_arm64_instructions ! i)) [2856 ..< 2868] = map f arm64_instructions_2856"
  using entries_of_list [OF entries_of_part_6, where zs = arm64_instructions_2856 and n = 12 and k = 396]
  by (simp add: arm64_part_6_def lengths_part_6)

lemmas tops_2856 = list_2856 [of top_bits, folded entry_top_def, unfolded entries_2856, simplified]
lemmas keys_2856 = list_2856 [of mask_value, folded entry_key_def, unfolded keys_of_2856, simplified]

lemma list_2868: "map (\<lambda>i. f (g_bal_decoder_arm64_instructions ! i)) [2868 ..< 2880] = map f arm64_instructions_2868"
  using entries_of_list [OF entries_of_part_6, where zs = arm64_instructions_2868 and n = 12 and k = 408]
  by (simp add: arm64_part_6_def lengths_part_6)

lemmas tops_2868 = list_2868 [of top_bits, folded entry_top_def, unfolded entries_2868, simplified]
lemmas keys_2868 = list_2868 [of mask_value, folded entry_key_def, unfolded keys_of_2868, simplified]

lemma list_2880: "map (\<lambda>i. f (g_bal_decoder_arm64_instructions ! i)) [2880 ..< 2892] = map f arm64_instructions_2880"
  using entries_of_list [OF entries_of_part_6, where zs = arm64_instructions_2880 and n = 12 and k = 420]
  by (simp add: arm64_part_6_def lengths_part_6)

lemmas tops_2880 = list_2880 [of top_bits, folded entry_top_def, unfolded entries_2880, simplified]
lemmas keys_2880 = list_2880 [of mask_value, folded entry_key_def, unfolded keys_of_2880, simplified]

lemma list_2892: "map (\<lambda>i. f (g_bal_decoder_arm64_instructions ! i)) [2892 ..< 2904] = map f arm64_instructions_2892"
  using entries_of_list [OF entries_of_part_6, where zs = arm64_instructions_2892 and n = 12 and k = 432]
  by (simp add: arm64_part_6_def lengths_part_6)

lemmas tops_2892 = list_2892 [of top_bits, folded entry_top_def, unfolded entries_2892, simplified]
lemmas keys_2892 = list_2892 [of mask_value, folded entry_key_def, unfolded keys_of_2892, simplified]

lemma list_2904: "map (\<lambda>i. f (g_bal_decoder_arm64_instructions ! i)) [2904 ..< 2916] = map f arm64_instructions_2904"
  using entries_of_list [OF entries_of_part_6, where zs = arm64_instructions_2904 and n = 12 and k = 444]
  by (simp add: arm64_part_6_def lengths_part_6)

lemmas tops_2904 = list_2904 [of top_bits, folded entry_top_def, unfolded entries_2904, simplified]
lemmas keys_2904 = list_2904 [of mask_value, folded entry_key_def, unfolded keys_of_2904, simplified]

lemma list_2916: "map (\<lambda>i. f (g_bal_decoder_arm64_instructions ! i)) [2916 ..< 2928] = map f arm64_instructions_2916"
  using entries_of_list [OF entries_of_part_6, where zs = arm64_instructions_2916 and n = 12 and k = 456]
  by (simp add: arm64_part_6_def lengths_part_6)

lemmas tops_2916 = list_2916 [of top_bits, folded entry_top_def, unfolded entries_2916, simplified]
lemmas keys_2916 = list_2916 [of mask_value, folded entry_key_def, unfolded keys_of_2916, simplified]

lemma list_2928: "map (\<lambda>i. f (g_bal_decoder_arm64_instructions ! i)) [2928 ..< 2940] = map f arm64_instructions_2928"
  using entries_of_list [OF entries_of_part_6, where zs = arm64_instructions_2928 and n = 12 and k = 468]
  by (simp add: arm64_part_6_def lengths_part_6)

lemmas tops_2928 = list_2928 [of top_bits, folded entry_top_def, unfolded entries_2928, simplified]
lemmas keys_2928 = list_2928 [of mask_value, folded entry_key_def, unfolded keys_of_2928, simplified]

lemma list_2940: "map (\<lambda>i. f (g_bal_decoder_arm64_instructions ! i)) [2940 ..< 2952] = map f arm64_instructions_2940"
  using entries_of_list [OF entries_of_part_6, where zs = arm64_instructions_2940 and n = 12 and k = 480]
  by (simp add: arm64_part_6_def lengths_part_6)

lemmas tops_2940 = list_2940 [of top_bits, folded entry_top_def, unfolded entries_2940, simplified]
lemmas keys_2940 = list_2940 [of mask_value, folded entry_key_def, unfolded keys_of_2940, simplified]

lemma list_2952: "map (\<lambda>i. f (g_bal_decoder_arm64_instructions ! i)) [2952 ..< 2964] = map f arm64_instructions_2952"
  using entries_of_list [OF entries_of_part_7, where zs = arm64_instructions_2952 and n = 12 and k = 0]
  by (simp add: arm64_part_7_def lengths_part_7)

lemmas tops_2952 = list_2952 [of top_bits, folded entry_top_def, unfolded entries_2952, simplified]
lemmas keys_2952 = list_2952 [of mask_value, folded entry_key_def, unfolded keys_of_2952, simplified]

lemma list_2964: "map (\<lambda>i. f (g_bal_decoder_arm64_instructions ! i)) [2964 ..< 2976] = map f arm64_instructions_2964"
  using entries_of_list [OF entries_of_part_7, where zs = arm64_instructions_2964 and n = 12 and k = 12]
  by (simp add: arm64_part_7_def lengths_part_7)

lemmas tops_2964 = list_2964 [of top_bits, folded entry_top_def, unfolded entries_2964, simplified]
lemmas keys_2964 = list_2964 [of mask_value, folded entry_key_def, unfolded keys_of_2964, simplified]

lemma list_2976: "map (\<lambda>i. f (g_bal_decoder_arm64_instructions ! i)) [2976 ..< 2988] = map f arm64_instructions_2976"
  using entries_of_list [OF entries_of_part_7, where zs = arm64_instructions_2976 and n = 12 and k = 24]
  by (simp add: arm64_part_7_def lengths_part_7)

lemmas tops_2976 = list_2976 [of top_bits, folded entry_top_def, unfolded entries_2976, simplified]
lemmas keys_2976 = list_2976 [of mask_value, folded entry_key_def, unfolded keys_of_2976, simplified]

lemma list_2988: "map (\<lambda>i. f (g_bal_decoder_arm64_instructions ! i)) [2988 ..< 3000] = map f arm64_instructions_2988"
  using entries_of_list [OF entries_of_part_7, where zs = arm64_instructions_2988 and n = 12 and k = 36]
  by (simp add: arm64_part_7_def lengths_part_7)

lemmas tops_2988 = list_2988 [of top_bits, folded entry_top_def, unfolded entries_2988, simplified]
lemmas keys_2988 = list_2988 [of mask_value, folded entry_key_def, unfolded keys_of_2988, simplified]

lemma list_3000: "map (\<lambda>i. f (g_bal_decoder_arm64_instructions ! i)) [3000 ..< 3012] = map f arm64_instructions_3000"
  using entries_of_list [OF entries_of_part_7, where zs = arm64_instructions_3000 and n = 12 and k = 48]
  by (simp add: arm64_part_7_def lengths_part_7)

lemmas tops_3000 = list_3000 [of top_bits, folded entry_top_def, unfolded entries_3000, simplified]
lemmas keys_3000 = list_3000 [of mask_value, folded entry_key_def, unfolded keys_of_3000, simplified]

lemma list_3012: "map (\<lambda>i. f (g_bal_decoder_arm64_instructions ! i)) [3012 ..< 3024] = map f arm64_instructions_3012"
  using entries_of_list [OF entries_of_part_7, where zs = arm64_instructions_3012 and n = 12 and k = 60]
  by (simp add: arm64_part_7_def lengths_part_7)

lemmas tops_3012 = list_3012 [of top_bits, folded entry_top_def, unfolded entries_3012, simplified]
lemmas keys_3012 = list_3012 [of mask_value, folded entry_key_def, unfolded keys_of_3012, simplified]

lemma list_3024: "map (\<lambda>i. f (g_bal_decoder_arm64_instructions ! i)) [3024 ..< 3036] = map f arm64_instructions_3024"
  using entries_of_list [OF entries_of_part_7, where zs = arm64_instructions_3024 and n = 12 and k = 72]
  by (simp add: arm64_part_7_def lengths_part_7)

lemmas tops_3024 = list_3024 [of top_bits, folded entry_top_def, unfolded entries_3024, simplified]
lemmas keys_3024 = list_3024 [of mask_value, folded entry_key_def, unfolded keys_of_3024, simplified]

lemma list_3036: "map (\<lambda>i. f (g_bal_decoder_arm64_instructions ! i)) [3036 ..< 3048] = map f arm64_instructions_3036"
  using entries_of_list [OF entries_of_part_7, where zs = arm64_instructions_3036 and n = 12 and k = 84]
  by (simp add: arm64_part_7_def lengths_part_7)

lemmas tops_3036 = list_3036 [of top_bits, folded entry_top_def, unfolded entries_3036, simplified]
lemmas keys_3036 = list_3036 [of mask_value, folded entry_key_def, unfolded keys_of_3036, simplified]

lemma list_3048: "map (\<lambda>i. f (g_bal_decoder_arm64_instructions ! i)) [3048 ..< 3060] = map f arm64_instructions_3048"
  using entries_of_list [OF entries_of_part_7, where zs = arm64_instructions_3048 and n = 12 and k = 96]
  by (simp add: arm64_part_7_def lengths_part_7)

lemmas tops_3048 = list_3048 [of top_bits, folded entry_top_def, unfolded entries_3048, simplified]
lemmas keys_3048 = list_3048 [of mask_value, folded entry_key_def, unfolded keys_of_3048, simplified]

lemma list_3060: "map (\<lambda>i. f (g_bal_decoder_arm64_instructions ! i)) [3060 ..< 3072] = map f arm64_instructions_3060"
  using entries_of_list [OF entries_of_part_7, where zs = arm64_instructions_3060 and n = 12 and k = 108]
  by (simp add: arm64_part_7_def lengths_part_7)

lemmas tops_3060 = list_3060 [of top_bits, folded entry_top_def, unfolded entries_3060, simplified]
lemmas keys_3060 = list_3060 [of mask_value, folded entry_key_def, unfolded keys_of_3060, simplified]

lemma list_3072: "map (\<lambda>i. f (g_bal_decoder_arm64_instructions ! i)) [3072 ..< 3084] = map f arm64_instructions_3072"
  using entries_of_list [OF entries_of_part_7, where zs = arm64_instructions_3072 and n = 12 and k = 120]
  by (simp add: arm64_part_7_def lengths_part_7)

lemmas tops_3072 = list_3072 [of top_bits, folded entry_top_def, unfolded entries_3072, simplified]
lemmas keys_3072 = list_3072 [of mask_value, folded entry_key_def, unfolded keys_of_3072, simplified]

lemma list_3084: "map (\<lambda>i. f (g_bal_decoder_arm64_instructions ! i)) [3084 ..< 3096] = map f arm64_instructions_3084"
  using entries_of_list [OF entries_of_part_7, where zs = arm64_instructions_3084 and n = 12 and k = 132]
  by (simp add: arm64_part_7_def lengths_part_7)

lemmas tops_3084 = list_3084 [of top_bits, folded entry_top_def, unfolded entries_3084, simplified]
lemmas keys_3084 = list_3084 [of mask_value, folded entry_key_def, unfolded keys_of_3084, simplified]

lemma list_3096: "map (\<lambda>i. f (g_bal_decoder_arm64_instructions ! i)) [3096 ..< 3108] = map f arm64_instructions_3096"
  using entries_of_list [OF entries_of_part_7, where zs = arm64_instructions_3096 and n = 12 and k = 144]
  by (simp add: arm64_part_7_def lengths_part_7)

lemmas tops_3096 = list_3096 [of top_bits, folded entry_top_def, unfolded entries_3096, simplified]
lemmas keys_3096 = list_3096 [of mask_value, folded entry_key_def, unfolded keys_of_3096, simplified]

lemma list_3108: "map (\<lambda>i. f (g_bal_decoder_arm64_instructions ! i)) [3108 ..< 3120] = map f arm64_instructions_3108"
  using entries_of_list [OF entries_of_part_7, where zs = arm64_instructions_3108 and n = 12 and k = 156]
  by (simp add: arm64_part_7_def lengths_part_7)

lemmas tops_3108 = list_3108 [of top_bits, folded entry_top_def, unfolded entries_3108, simplified]
lemmas keys_3108 = list_3108 [of mask_value, folded entry_key_def, unfolded keys_of_3108, simplified]

lemma list_3120: "map (\<lambda>i. f (g_bal_decoder_arm64_instructions ! i)) [3120 ..< 3132] = map f arm64_instructions_3120"
  using entries_of_list [OF entries_of_part_7, where zs = arm64_instructions_3120 and n = 12 and k = 168]
  by (simp add: arm64_part_7_def lengths_part_7)

lemmas tops_3120 = list_3120 [of top_bits, folded entry_top_def, unfolded entries_3120, simplified]
lemmas keys_3120 = list_3120 [of mask_value, folded entry_key_def, unfolded keys_of_3120, simplified]

lemma list_3132: "map (\<lambda>i. f (g_bal_decoder_arm64_instructions ! i)) [3132 ..< 3144] = map f arm64_instructions_3132"
  using entries_of_list [OF entries_of_part_7, where zs = arm64_instructions_3132 and n = 12 and k = 180]
  by (simp add: arm64_part_7_def lengths_part_7)

lemmas tops_3132 = list_3132 [of top_bits, folded entry_top_def, unfolded entries_3132, simplified]
lemmas keys_3132 = list_3132 [of mask_value, folded entry_key_def, unfolded keys_of_3132, simplified]

lemma list_3144: "map (\<lambda>i. f (g_bal_decoder_arm64_instructions ! i)) [3144 ..< 3156] = map f arm64_instructions_3144"
  using entries_of_list [OF entries_of_part_7, where zs = arm64_instructions_3144 and n = 12 and k = 192]
  by (simp add: arm64_part_7_def lengths_part_7)

lemmas tops_3144 = list_3144 [of top_bits, folded entry_top_def, unfolded entries_3144, simplified]
lemmas keys_3144 = list_3144 [of mask_value, folded entry_key_def, unfolded keys_of_3144, simplified]

lemma list_3156: "map (\<lambda>i. f (g_bal_decoder_arm64_instructions ! i)) [3156 ..< 3168] = map f arm64_instructions_3156"
  using entries_of_list [OF entries_of_part_7, where zs = arm64_instructions_3156 and n = 12 and k = 204]
  by (simp add: arm64_part_7_def lengths_part_7)

lemmas tops_3156 = list_3156 [of top_bits, folded entry_top_def, unfolded entries_3156, simplified]
lemmas keys_3156 = list_3156 [of mask_value, folded entry_key_def, unfolded keys_of_3156, simplified]

lemma list_3168: "map (\<lambda>i. f (g_bal_decoder_arm64_instructions ! i)) [3168 ..< 3180] = map f arm64_instructions_3168"
  using entries_of_list [OF entries_of_part_7, where zs = arm64_instructions_3168 and n = 12 and k = 216]
  by (simp add: arm64_part_7_def lengths_part_7)

lemmas tops_3168 = list_3168 [of top_bits, folded entry_top_def, unfolded entries_3168, simplified]
lemmas keys_3168 = list_3168 [of mask_value, folded entry_key_def, unfolded keys_of_3168, simplified]

lemma list_3180: "map (\<lambda>i. f (g_bal_decoder_arm64_instructions ! i)) [3180 ..< 3192] = map f arm64_instructions_3180"
  using entries_of_list [OF entries_of_part_7, where zs = arm64_instructions_3180 and n = 12 and k = 228]
  by (simp add: arm64_part_7_def lengths_part_7)

lemmas tops_3180 = list_3180 [of top_bits, folded entry_top_def, unfolded entries_3180, simplified]
lemmas keys_3180 = list_3180 [of mask_value, folded entry_key_def, unfolded keys_of_3180, simplified]

lemma list_3192: "map (\<lambda>i. f (g_bal_decoder_arm64_instructions ! i)) [3192 ..< 3204] = map f arm64_instructions_3192"
  using entries_of_list [OF entries_of_part_7, where zs = arm64_instructions_3192 and n = 12 and k = 240]
  by (simp add: arm64_part_7_def lengths_part_7)

lemmas tops_3192 = list_3192 [of top_bits, folded entry_top_def, unfolded entries_3192, simplified]
lemmas keys_3192 = list_3192 [of mask_value, folded entry_key_def, unfolded keys_of_3192, simplified]

lemma list_3204: "map (\<lambda>i. f (g_bal_decoder_arm64_instructions ! i)) [3204 ..< 3216] = map f arm64_instructions_3204"
  using entries_of_list [OF entries_of_part_7, where zs = arm64_instructions_3204 and n = 12 and k = 252]
  by (simp add: arm64_part_7_def lengths_part_7)

lemmas tops_3204 = list_3204 [of top_bits, folded entry_top_def, unfolded entries_3204, simplified]
lemmas keys_3204 = list_3204 [of mask_value, folded entry_key_def, unfolded keys_of_3204, simplified]

lemma list_3216: "map (\<lambda>i. f (g_bal_decoder_arm64_instructions ! i)) [3216 ..< 3228] = map f arm64_instructions_3216"
  using entries_of_list [OF entries_of_part_7, where zs = arm64_instructions_3216 and n = 12 and k = 264]
  by (simp add: arm64_part_7_def lengths_part_7)

lemmas tops_3216 = list_3216 [of top_bits, folded entry_top_def, unfolded entries_3216, simplified]
lemmas keys_3216 = list_3216 [of mask_value, folded entry_key_def, unfolded keys_of_3216, simplified]

lemma list_3228: "map (\<lambda>i. f (g_bal_decoder_arm64_instructions ! i)) [3228 ..< 3240] = map f arm64_instructions_3228"
  using entries_of_list [OF entries_of_part_7, where zs = arm64_instructions_3228 and n = 12 and k = 276]
  by (simp add: arm64_part_7_def lengths_part_7)

lemmas tops_3228 = list_3228 [of top_bits, folded entry_top_def, unfolded entries_3228, simplified]
lemmas keys_3228 = list_3228 [of mask_value, folded entry_key_def, unfolded keys_of_3228, simplified]

lemma list_3240: "map (\<lambda>i. f (g_bal_decoder_arm64_instructions ! i)) [3240 ..< 3252] = map f arm64_instructions_3240"
  using entries_of_list [OF entries_of_part_7, where zs = arm64_instructions_3240 and n = 12 and k = 288]
  by (simp add: arm64_part_7_def lengths_part_7)

lemmas tops_3240 = list_3240 [of top_bits, folded entry_top_def, unfolded entries_3240, simplified]
lemmas keys_3240 = list_3240 [of mask_value, folded entry_key_def, unfolded keys_of_3240, simplified]

lemma list_3252: "map (\<lambda>i. f (g_bal_decoder_arm64_instructions ! i)) [3252 ..< 3264] = map f arm64_instructions_3252"
  using entries_of_list [OF entries_of_part_7, where zs = arm64_instructions_3252 and n = 12 and k = 300]
  by (simp add: arm64_part_7_def lengths_part_7)

lemmas tops_3252 = list_3252 [of top_bits, folded entry_top_def, unfolded entries_3252, simplified]
lemmas keys_3252 = list_3252 [of mask_value, folded entry_key_def, unfolded keys_of_3252, simplified]

lemma list_3264: "map (\<lambda>i. f (g_bal_decoder_arm64_instructions ! i)) [3264 ..< 3276] = map f arm64_instructions_3264"
  using entries_of_list [OF entries_of_part_7, where zs = arm64_instructions_3264 and n = 12 and k = 312]
  by (simp add: arm64_part_7_def lengths_part_7)

lemmas tops_3264 = list_3264 [of top_bits, folded entry_top_def, unfolded entries_3264, simplified]
lemmas keys_3264 = list_3264 [of mask_value, folded entry_key_def, unfolded keys_of_3264, simplified]

lemma list_3276: "map (\<lambda>i. f (g_bal_decoder_arm64_instructions ! i)) [3276 ..< 3288] = map f arm64_instructions_3276"
  using entries_of_list [OF entries_of_part_7, where zs = arm64_instructions_3276 and n = 12 and k = 324]
  by (simp add: arm64_part_7_def lengths_part_7)

lemmas tops_3276 = list_3276 [of top_bits, folded entry_top_def, unfolded entries_3276, simplified]
lemmas keys_3276 = list_3276 [of mask_value, folded entry_key_def, unfolded keys_of_3276, simplified]

lemma list_3288: "map (\<lambda>i. f (g_bal_decoder_arm64_instructions ! i)) [3288 ..< 3300] = map f arm64_instructions_3288"
  using entries_of_list [OF entries_of_part_7, where zs = arm64_instructions_3288 and n = 12 and k = 336]
  by (simp add: arm64_part_7_def lengths_part_7)

lemmas tops_3288 = list_3288 [of top_bits, folded entry_top_def, unfolded entries_3288, simplified]
lemmas keys_3288 = list_3288 [of mask_value, folded entry_key_def, unfolded keys_of_3288, simplified]

lemma list_3300: "map (\<lambda>i. f (g_bal_decoder_arm64_instructions ! i)) [3300 ..< 3312] = map f arm64_instructions_3300"
  using entries_of_list [OF entries_of_part_7, where zs = arm64_instructions_3300 and n = 12 and k = 348]
  by (simp add: arm64_part_7_def lengths_part_7)

lemmas tops_3300 = list_3300 [of top_bits, folded entry_top_def, unfolded entries_3300, simplified]
lemmas keys_3300 = list_3300 [of mask_value, folded entry_key_def, unfolded keys_of_3300, simplified]

lemma list_3312: "map (\<lambda>i. f (g_bal_decoder_arm64_instructions ! i)) [3312 ..< 3324] = map f arm64_instructions_3312"
  using entries_of_list [OF entries_of_part_7, where zs = arm64_instructions_3312 and n = 12 and k = 360]
  by (simp add: arm64_part_7_def lengths_part_7)

lemmas tops_3312 = list_3312 [of top_bits, folded entry_top_def, unfolded entries_3312, simplified]
lemmas keys_3312 = list_3312 [of mask_value, folded entry_key_def, unfolded keys_of_3312, simplified]

lemma list_3324: "map (\<lambda>i. f (g_bal_decoder_arm64_instructions ! i)) [3324 ..< 3336] = map f arm64_instructions_3324"
  using entries_of_list [OF entries_of_part_7, where zs = arm64_instructions_3324 and n = 12 and k = 372]
  by (simp add: arm64_part_7_def lengths_part_7)

lemmas tops_3324 = list_3324 [of top_bits, folded entry_top_def, unfolded entries_3324, simplified]
lemmas keys_3324 = list_3324 [of mask_value, folded entry_key_def, unfolded keys_of_3324, simplified]

lemma list_3336: "map (\<lambda>i. f (g_bal_decoder_arm64_instructions ! i)) [3336 ..< 3348] = map f arm64_instructions_3336"
  using entries_of_list [OF entries_of_part_7, where zs = arm64_instructions_3336 and n = 12 and k = 384]
  by (simp add: arm64_part_7_def lengths_part_7)

lemmas tops_3336 = list_3336 [of top_bits, folded entry_top_def, unfolded entries_3336, simplified]
lemmas keys_3336 = list_3336 [of mask_value, folded entry_key_def, unfolded keys_of_3336, simplified]

lemma list_3348: "map (\<lambda>i. f (g_bal_decoder_arm64_instructions ! i)) [3348 ..< 3360] = map f arm64_instructions_3348"
  using entries_of_list [OF entries_of_part_7, where zs = arm64_instructions_3348 and n = 12 and k = 396]
  by (simp add: arm64_part_7_def lengths_part_7)

lemmas tops_3348 = list_3348 [of top_bits, folded entry_top_def, unfolded entries_3348, simplified]
lemmas keys_3348 = list_3348 [of mask_value, folded entry_key_def, unfolded keys_of_3348, simplified]

lemma list_3360: "map (\<lambda>i. f (g_bal_decoder_arm64_instructions ! i)) [3360 ..< 3372] = map f arm64_instructions_3360"
  using entries_of_list [OF entries_of_part_7, where zs = arm64_instructions_3360 and n = 12 and k = 408]
  by (simp add: arm64_part_7_def lengths_part_7)

lemmas tops_3360 = list_3360 [of top_bits, folded entry_top_def, unfolded entries_3360, simplified]
lemmas keys_3360 = list_3360 [of mask_value, folded entry_key_def, unfolded keys_of_3360, simplified]

lemma list_3372: "map (\<lambda>i. f (g_bal_decoder_arm64_instructions ! i)) [3372 ..< 3384] = map f arm64_instructions_3372"
  using entries_of_list [OF entries_of_part_7, where zs = arm64_instructions_3372 and n = 12 and k = 420]
  by (simp add: arm64_part_7_def lengths_part_7)

lemmas tops_3372 = list_3372 [of top_bits, folded entry_top_def, unfolded entries_3372, simplified]
lemmas keys_3372 = list_3372 [of mask_value, folded entry_key_def, unfolded keys_of_3372, simplified]

lemma list_3384: "map (\<lambda>i. f (g_bal_decoder_arm64_instructions ! i)) [3384 ..< 3396] = map f arm64_instructions_3384"
  using entries_of_list [OF entries_of_part_7, where zs = arm64_instructions_3384 and n = 12 and k = 432]
  by (simp add: arm64_part_7_def lengths_part_7)

lemmas tops_3384 = list_3384 [of top_bits, folded entry_top_def, unfolded entries_3384, simplified]
lemmas keys_3384 = list_3384 [of mask_value, folded entry_key_def, unfolded keys_of_3384, simplified]

lemma list_3396: "map (\<lambda>i. f (g_bal_decoder_arm64_instructions ! i)) [3396 ..< 3408] = map f arm64_instructions_3396"
  using entries_of_list [OF entries_of_part_7, where zs = arm64_instructions_3396 and n = 12 and k = 444]
  by (simp add: arm64_part_7_def lengths_part_7)

lemmas tops_3396 = list_3396 [of top_bits, folded entry_top_def, unfolded entries_3396, simplified]
lemmas keys_3396 = list_3396 [of mask_value, folded entry_key_def, unfolded keys_of_3396, simplified]

lemma list_3408: "map (\<lambda>i. f (g_bal_decoder_arm64_instructions ! i)) [3408 ..< 3420] = map f arm64_instructions_3408"
  using entries_of_list [OF entries_of_part_7, where zs = arm64_instructions_3408 and n = 12 and k = 456]
  by (simp add: arm64_part_7_def lengths_part_7)

lemmas tops_3408 = list_3408 [of top_bits, folded entry_top_def, unfolded entries_3408, simplified]
lemmas keys_3408 = list_3408 [of mask_value, folded entry_key_def, unfolded keys_of_3408, simplified]

lemma list_3420: "map (\<lambda>i. f (g_bal_decoder_arm64_instructions ! i)) [3420 ..< 3432] = map f arm64_instructions_3420"
  using entries_of_list [OF entries_of_part_7, where zs = arm64_instructions_3420 and n = 12 and k = 468]
  by (simp add: arm64_part_7_def lengths_part_7)

lemmas tops_3420 = list_3420 [of top_bits, folded entry_top_def, unfolded entries_3420, simplified]
lemmas keys_3420 = list_3420 [of mask_value, folded entry_key_def, unfolded keys_of_3420, simplified]

lemma list_3432: "map (\<lambda>i. f (g_bal_decoder_arm64_instructions ! i)) [3432 ..< 3444] = map f arm64_instructions_3432"
  using entries_of_list [OF entries_of_part_7, where zs = arm64_instructions_3432 and n = 12 and k = 480]
  by (simp add: arm64_part_7_def lengths_part_7)

lemmas tops_3432 = list_3432 [of top_bits, folded entry_top_def, unfolded entries_3432, simplified]
lemmas keys_3432 = list_3432 [of mask_value, folded entry_key_def, unfolded keys_of_3432, simplified]

lemma list_3444: "map (\<lambda>i. f (g_bal_decoder_arm64_instructions ! i)) [3444 ..< 3456] = map f arm64_instructions_3444"
  using entries_of_list [OF entries_of_part_8, where zs = arm64_instructions_3444 and n = 12 and k = 0]
  by (simp add: arm64_part_8_def lengths_part_8)

lemmas tops_3444 = list_3444 [of top_bits, folded entry_top_def, unfolded entries_3444, simplified]
lemmas keys_3444 = list_3444 [of mask_value, folded entry_key_def, unfolded keys_of_3444, simplified]

lemma list_3456: "map (\<lambda>i. f (g_bal_decoder_arm64_instructions ! i)) [3456 ..< 3468] = map f arm64_instructions_3456"
  using entries_of_list [OF entries_of_part_8, where zs = arm64_instructions_3456 and n = 12 and k = 12]
  by (simp add: arm64_part_8_def lengths_part_8)

lemmas tops_3456 = list_3456 [of top_bits, folded entry_top_def, unfolded entries_3456, simplified]
lemmas keys_3456 = list_3456 [of mask_value, folded entry_key_def, unfolded keys_of_3456, simplified]

lemma list_3468: "map (\<lambda>i. f (g_bal_decoder_arm64_instructions ! i)) [3468 ..< 3480] = map f arm64_instructions_3468"
  using entries_of_list [OF entries_of_part_8, where zs = arm64_instructions_3468 and n = 12 and k = 24]
  by (simp add: arm64_part_8_def lengths_part_8)

lemmas tops_3468 = list_3468 [of top_bits, folded entry_top_def, unfolded entries_3468, simplified]
lemmas keys_3468 = list_3468 [of mask_value, folded entry_key_def, unfolded keys_of_3468, simplified]

lemma list_3480: "map (\<lambda>i. f (g_bal_decoder_arm64_instructions ! i)) [3480 ..< 3492] = map f arm64_instructions_3480"
  using entries_of_list [OF entries_of_part_8, where zs = arm64_instructions_3480 and n = 12 and k = 36]
  by (simp add: arm64_part_8_def lengths_part_8)

lemmas tops_3480 = list_3480 [of top_bits, folded entry_top_def, unfolded entries_3480, simplified]
lemmas keys_3480 = list_3480 [of mask_value, folded entry_key_def, unfolded keys_of_3480, simplified]

lemma list_3492: "map (\<lambda>i. f (g_bal_decoder_arm64_instructions ! i)) [3492 ..< 3504] = map f arm64_instructions_3492"
  using entries_of_list [OF entries_of_part_8, where zs = arm64_instructions_3492 and n = 12 and k = 48]
  by (simp add: arm64_part_8_def lengths_part_8)

lemmas tops_3492 = list_3492 [of top_bits, folded entry_top_def, unfolded entries_3492, simplified]
lemmas keys_3492 = list_3492 [of mask_value, folded entry_key_def, unfolded keys_of_3492, simplified]

lemma list_3504: "map (\<lambda>i. f (g_bal_decoder_arm64_instructions ! i)) [3504 ..< 3516] = map f arm64_instructions_3504"
  using entries_of_list [OF entries_of_part_8, where zs = arm64_instructions_3504 and n = 12 and k = 60]
  by (simp add: arm64_part_8_def lengths_part_8)

lemmas tops_3504 = list_3504 [of top_bits, folded entry_top_def, unfolded entries_3504, simplified]
lemmas keys_3504 = list_3504 [of mask_value, folded entry_key_def, unfolded keys_of_3504, simplified]

lemma list_3516: "map (\<lambda>i. f (g_bal_decoder_arm64_instructions ! i)) [3516 ..< 3528] = map f arm64_instructions_3516"
  using entries_of_list [OF entries_of_part_8, where zs = arm64_instructions_3516 and n = 12 and k = 72]
  by (simp add: arm64_part_8_def lengths_part_8)

lemmas tops_3516 = list_3516 [of top_bits, folded entry_top_def, unfolded entries_3516, simplified]
lemmas keys_3516 = list_3516 [of mask_value, folded entry_key_def, unfolded keys_of_3516, simplified]

lemma list_3528: "map (\<lambda>i. f (g_bal_decoder_arm64_instructions ! i)) [3528 ..< 3540] = map f arm64_instructions_3528"
  using entries_of_list [OF entries_of_part_8, where zs = arm64_instructions_3528 and n = 12 and k = 84]
  by (simp add: arm64_part_8_def lengths_part_8)

lemmas tops_3528 = list_3528 [of top_bits, folded entry_top_def, unfolded entries_3528, simplified]
lemmas keys_3528 = list_3528 [of mask_value, folded entry_key_def, unfolded keys_of_3528, simplified]

lemma list_3540: "map (\<lambda>i. f (g_bal_decoder_arm64_instructions ! i)) [3540 ..< 3552] = map f arm64_instructions_3540"
  using entries_of_list [OF entries_of_part_8, where zs = arm64_instructions_3540 and n = 12 and k = 96]
  by (simp add: arm64_part_8_def lengths_part_8)

lemmas tops_3540 = list_3540 [of top_bits, folded entry_top_def, unfolded entries_3540, simplified]
lemmas keys_3540 = list_3540 [of mask_value, folded entry_key_def, unfolded keys_of_3540, simplified]

lemma list_3552: "map (\<lambda>i. f (g_bal_decoder_arm64_instructions ! i)) [3552 ..< 3564] = map f arm64_instructions_3552"
  using entries_of_list [OF entries_of_part_8, where zs = arm64_instructions_3552 and n = 12 and k = 108]
  by (simp add: arm64_part_8_def lengths_part_8)

lemmas tops_3552 = list_3552 [of top_bits, folded entry_top_def, unfolded entries_3552, simplified]
lemmas keys_3552 = list_3552 [of mask_value, folded entry_key_def, unfolded keys_of_3552, simplified]

lemma list_3564: "map (\<lambda>i. f (g_bal_decoder_arm64_instructions ! i)) [3564 ..< 3576] = map f arm64_instructions_3564"
  using entries_of_list [OF entries_of_part_8, where zs = arm64_instructions_3564 and n = 12 and k = 120]
  by (simp add: arm64_part_8_def lengths_part_8)

lemmas tops_3564 = list_3564 [of top_bits, folded entry_top_def, unfolded entries_3564, simplified]
lemmas keys_3564 = list_3564 [of mask_value, folded entry_key_def, unfolded keys_of_3564, simplified]

lemma list_3576: "map (\<lambda>i. f (g_bal_decoder_arm64_instructions ! i)) [3576 ..< 3588] = map f arm64_instructions_3576"
  using entries_of_list [OF entries_of_part_8, where zs = arm64_instructions_3576 and n = 12 and k = 132]
  by (simp add: arm64_part_8_def lengths_part_8)

lemmas tops_3576 = list_3576 [of top_bits, folded entry_top_def, unfolded entries_3576, simplified]
lemmas keys_3576 = list_3576 [of mask_value, folded entry_key_def, unfolded keys_of_3576, simplified]

lemma list_3588: "map (\<lambda>i. f (g_bal_decoder_arm64_instructions ! i)) [3588 ..< 3600] = map f arm64_instructions_3588"
  using entries_of_list [OF entries_of_part_8, where zs = arm64_instructions_3588 and n = 12 and k = 144]
  by (simp add: arm64_part_8_def lengths_part_8)

lemmas tops_3588 = list_3588 [of top_bits, folded entry_top_def, unfolded entries_3588, simplified]
lemmas keys_3588 = list_3588 [of mask_value, folded entry_key_def, unfolded keys_of_3588, simplified]

lemma list_3600: "map (\<lambda>i. f (g_bal_decoder_arm64_instructions ! i)) [3600 ..< 3612] = map f arm64_instructions_3600"
  using entries_of_list [OF entries_of_part_8, where zs = arm64_instructions_3600 and n = 12 and k = 156]
  by (simp add: arm64_part_8_def lengths_part_8)

lemmas tops_3600 = list_3600 [of top_bits, folded entry_top_def, unfolded entries_3600, simplified]
lemmas keys_3600 = list_3600 [of mask_value, folded entry_key_def, unfolded keys_of_3600, simplified]

lemma list_3612: "map (\<lambda>i. f (g_bal_decoder_arm64_instructions ! i)) [3612 ..< 3624] = map f arm64_instructions_3612"
  using entries_of_list [OF entries_of_part_8, where zs = arm64_instructions_3612 and n = 12 and k = 168]
  by (simp add: arm64_part_8_def lengths_part_8)

lemmas tops_3612 = list_3612 [of top_bits, folded entry_top_def, unfolded entries_3612, simplified]
lemmas keys_3612 = list_3612 [of mask_value, folded entry_key_def, unfolded keys_of_3612, simplified]

lemma list_3624: "map (\<lambda>i. f (g_bal_decoder_arm64_instructions ! i)) [3624 ..< 3636] = map f arm64_instructions_3624"
  using entries_of_list [OF entries_of_part_8, where zs = arm64_instructions_3624 and n = 12 and k = 180]
  by (simp add: arm64_part_8_def lengths_part_8)

lemmas tops_3624 = list_3624 [of top_bits, folded entry_top_def, unfolded entries_3624, simplified]
lemmas keys_3624 = list_3624 [of mask_value, folded entry_key_def, unfolded keys_of_3624, simplified]

lemma list_3636: "map (\<lambda>i. f (g_bal_decoder_arm64_instructions ! i)) [3636 ..< 3648] = map f arm64_instructions_3636"
  using entries_of_list [OF entries_of_part_8, where zs = arm64_instructions_3636 and n = 12 and k = 192]
  by (simp add: arm64_part_8_def lengths_part_8)

lemmas tops_3636 = list_3636 [of top_bits, folded entry_top_def, unfolded entries_3636, simplified]
lemmas keys_3636 = list_3636 [of mask_value, folded entry_key_def, unfolded keys_of_3636, simplified]

lemma list_3648: "map (\<lambda>i. f (g_bal_decoder_arm64_instructions ! i)) [3648 ..< 3660] = map f arm64_instructions_3648"
  using entries_of_list [OF entries_of_part_8, where zs = arm64_instructions_3648 and n = 12 and k = 204]
  by (simp add: arm64_part_8_def lengths_part_8)

lemmas tops_3648 = list_3648 [of top_bits, folded entry_top_def, unfolded entries_3648, simplified]
lemmas keys_3648 = list_3648 [of mask_value, folded entry_key_def, unfolded keys_of_3648, simplified]

lemma list_3660: "map (\<lambda>i. f (g_bal_decoder_arm64_instructions ! i)) [3660 ..< 3672] = map f arm64_instructions_3660"
  using entries_of_list [OF entries_of_part_8, where zs = arm64_instructions_3660 and n = 12 and k = 216]
  by (simp add: arm64_part_8_def lengths_part_8)

lemmas tops_3660 = list_3660 [of top_bits, folded entry_top_def, unfolded entries_3660, simplified]
lemmas keys_3660 = list_3660 [of mask_value, folded entry_key_def, unfolded keys_of_3660, simplified]

lemma list_3672: "map (\<lambda>i. f (g_bal_decoder_arm64_instructions ! i)) [3672 ..< 3684] = map f arm64_instructions_3672"
  using entries_of_list [OF entries_of_part_8, where zs = arm64_instructions_3672 and n = 12 and k = 228]
  by (simp add: arm64_part_8_def lengths_part_8)

lemmas tops_3672 = list_3672 [of top_bits, folded entry_top_def, unfolded entries_3672, simplified]
lemmas keys_3672 = list_3672 [of mask_value, folded entry_key_def, unfolded keys_of_3672, simplified]

lemma list_3684: "map (\<lambda>i. f (g_bal_decoder_arm64_instructions ! i)) [3684 ..< 3696] = map f arm64_instructions_3684"
  using entries_of_list [OF entries_of_part_8, where zs = arm64_instructions_3684 and n = 12 and k = 240]
  by (simp add: arm64_part_8_def lengths_part_8)

lemmas tops_3684 = list_3684 [of top_bits, folded entry_top_def, unfolded entries_3684, simplified]
lemmas keys_3684 = list_3684 [of mask_value, folded entry_key_def, unfolded keys_of_3684, simplified]

lemma list_3696: "map (\<lambda>i. f (g_bal_decoder_arm64_instructions ! i)) [3696 ..< 3708] = map f arm64_instructions_3696"
  using entries_of_list [OF entries_of_part_8, where zs = arm64_instructions_3696 and n = 12 and k = 252]
  by (simp add: arm64_part_8_def lengths_part_8)

lemmas tops_3696 = list_3696 [of top_bits, folded entry_top_def, unfolded entries_3696, simplified]
lemmas keys_3696 = list_3696 [of mask_value, folded entry_key_def, unfolded keys_of_3696, simplified]

lemma list_3708: "map (\<lambda>i. f (g_bal_decoder_arm64_instructions ! i)) [3708 ..< 3720] = map f arm64_instructions_3708"
  using entries_of_list [OF entries_of_part_8, where zs = arm64_instructions_3708 and n = 12 and k = 264]
  by (simp add: arm64_part_8_def lengths_part_8)

lemmas tops_3708 = list_3708 [of top_bits, folded entry_top_def, unfolded entries_3708, simplified]
lemmas keys_3708 = list_3708 [of mask_value, folded entry_key_def, unfolded keys_of_3708, simplified]

lemma list_3720: "map (\<lambda>i. f (g_bal_decoder_arm64_instructions ! i)) [3720 ..< 3732] = map f arm64_instructions_3720"
  using entries_of_list [OF entries_of_part_8, where zs = arm64_instructions_3720 and n = 12 and k = 276]
  by (simp add: arm64_part_8_def lengths_part_8)

lemmas tops_3720 = list_3720 [of top_bits, folded entry_top_def, unfolded entries_3720, simplified]
lemmas keys_3720 = list_3720 [of mask_value, folded entry_key_def, unfolded keys_of_3720, simplified]

lemma list_3732: "map (\<lambda>i. f (g_bal_decoder_arm64_instructions ! i)) [3732 ..< 3744] = map f arm64_instructions_3732"
  using entries_of_list [OF entries_of_part_8, where zs = arm64_instructions_3732 and n = 12 and k = 288]
  by (simp add: arm64_part_8_def lengths_part_8)

lemmas tops_3732 = list_3732 [of top_bits, folded entry_top_def, unfolded entries_3732, simplified]
lemmas keys_3732 = list_3732 [of mask_value, folded entry_key_def, unfolded keys_of_3732, simplified]

lemma list_3744: "map (\<lambda>i. f (g_bal_decoder_arm64_instructions ! i)) [3744 ..< 3756] = map f arm64_instructions_3744"
  using entries_of_list [OF entries_of_part_8, where zs = arm64_instructions_3744 and n = 12 and k = 300]
  by (simp add: arm64_part_8_def lengths_part_8)

lemmas tops_3744 = list_3744 [of top_bits, folded entry_top_def, unfolded entries_3744, simplified]
lemmas keys_3744 = list_3744 [of mask_value, folded entry_key_def, unfolded keys_of_3744, simplified]

lemma list_3756: "map (\<lambda>i. f (g_bal_decoder_arm64_instructions ! i)) [3756 ..< 3768] = map f arm64_instructions_3756"
  using entries_of_list [OF entries_of_part_8, where zs = arm64_instructions_3756 and n = 12 and k = 312]
  by (simp add: arm64_part_8_def lengths_part_8)

lemmas tops_3756 = list_3756 [of top_bits, folded entry_top_def, unfolded entries_3756, simplified]
lemmas keys_3756 = list_3756 [of mask_value, folded entry_key_def, unfolded keys_of_3756, simplified]

lemma list_3768: "map (\<lambda>i. f (g_bal_decoder_arm64_instructions ! i)) [3768 ..< 3780] = map f arm64_instructions_3768"
  using entries_of_list [OF entries_of_part_8, where zs = arm64_instructions_3768 and n = 12 and k = 324]
  by (simp add: arm64_part_8_def lengths_part_8)

lemmas tops_3768 = list_3768 [of top_bits, folded entry_top_def, unfolded entries_3768, simplified]
lemmas keys_3768 = list_3768 [of mask_value, folded entry_key_def, unfolded keys_of_3768, simplified]

lemma list_3780: "map (\<lambda>i. f (g_bal_decoder_arm64_instructions ! i)) [3780 ..< 3792] = map f arm64_instructions_3780"
  using entries_of_list [OF entries_of_part_8, where zs = arm64_instructions_3780 and n = 12 and k = 336]
  by (simp add: arm64_part_8_def lengths_part_8)

lemmas tops_3780 = list_3780 [of top_bits, folded entry_top_def, unfolded entries_3780, simplified]
lemmas keys_3780 = list_3780 [of mask_value, folded entry_key_def, unfolded keys_of_3780, simplified]

lemma list_3792: "map (\<lambda>i. f (g_bal_decoder_arm64_instructions ! i)) [3792 ..< 3804] = map f arm64_instructions_3792"
  using entries_of_list [OF entries_of_part_8, where zs = arm64_instructions_3792 and n = 12 and k = 348]
  by (simp add: arm64_part_8_def lengths_part_8)

lemmas tops_3792 = list_3792 [of top_bits, folded entry_top_def, unfolded entries_3792, simplified]
lemmas keys_3792 = list_3792 [of mask_value, folded entry_key_def, unfolded keys_of_3792, simplified]

lemma list_3804: "map (\<lambda>i. f (g_bal_decoder_arm64_instructions ! i)) [3804 ..< 3816] = map f arm64_instructions_3804"
  using entries_of_list [OF entries_of_part_8, where zs = arm64_instructions_3804 and n = 12 and k = 360]
  by (simp add: arm64_part_8_def lengths_part_8)

lemmas tops_3804 = list_3804 [of top_bits, folded entry_top_def, unfolded entries_3804, simplified]
lemmas keys_3804 = list_3804 [of mask_value, folded entry_key_def, unfolded keys_of_3804, simplified]

lemma list_3816: "map (\<lambda>i. f (g_bal_decoder_arm64_instructions ! i)) [3816 ..< 3828] = map f arm64_instructions_3816"
  using entries_of_list [OF entries_of_part_8, where zs = arm64_instructions_3816 and n = 12 and k = 372]
  by (simp add: arm64_part_8_def lengths_part_8)

lemmas tops_3816 = list_3816 [of top_bits, folded entry_top_def, unfolded entries_3816, simplified]
lemmas keys_3816 = list_3816 [of mask_value, folded entry_key_def, unfolded keys_of_3816, simplified]

lemma list_3828: "map (\<lambda>i. f (g_bal_decoder_arm64_instructions ! i)) [3828 ..< 3840] = map f arm64_instructions_3828"
  using entries_of_list [OF entries_of_part_8, where zs = arm64_instructions_3828 and n = 12 and k = 384]
  by (simp add: arm64_part_8_def lengths_part_8)

lemmas tops_3828 = list_3828 [of top_bits, folded entry_top_def, unfolded entries_3828, simplified]
lemmas keys_3828 = list_3828 [of mask_value, folded entry_key_def, unfolded keys_of_3828, simplified]

lemma list_3840: "map (\<lambda>i. f (g_bal_decoder_arm64_instructions ! i)) [3840 ..< 3852] = map f arm64_instructions_3840"
  using entries_of_list [OF entries_of_part_8, where zs = arm64_instructions_3840 and n = 12 and k = 396]
  by (simp add: arm64_part_8_def lengths_part_8)

lemmas tops_3840 = list_3840 [of top_bits, folded entry_top_def, unfolded entries_3840, simplified]
lemmas keys_3840 = list_3840 [of mask_value, folded entry_key_def, unfolded keys_of_3840, simplified]

lemma list_3852: "map (\<lambda>i. f (g_bal_decoder_arm64_instructions ! i)) [3852 ..< 3856] = map f arm64_instructions_3852"
  using entries_of_list [OF entries_of_part_8, where zs = arm64_instructions_3852 and n = 4 and k = 408]
  by (simp add: arm64_part_8_def lengths_part_8)

lemmas tops_3852 = list_3852 [of top_bits, folded entry_top_def, unfolded entries_3852, simplified]
lemmas keys_3852 = list_3852 [of mask_value, folded entry_key_def, unfolded keys_of_3852, simplified]

text \<open>Name and opcode, of the lists with an entry that another one repeats.\<close>

lemmas tags_60 = list_60 [of tag_of, folded entry_tag_def, unfolded arm64_instructions_60_def, simplified]
lemmas tags_72 = list_72 [of tag_of, folded entry_tag_def, unfolded arm64_instructions_72_def, simplified]
lemmas tags_84 = list_84 [of tag_of, folded entry_tag_def, unfolded arm64_instructions_84_def, simplified]
lemmas tags_144 = list_144 [of tag_of, folded entry_tag_def, unfolded arm64_instructions_144_def, simplified]
lemmas tags_216 = list_216 [of tag_of, folded entry_tag_def, unfolded arm64_instructions_216_def, simplified]
lemmas tags_228 = list_228 [of tag_of, folded entry_tag_def, unfolded arm64_instructions_228_def, simplified]
lemmas tags_384 = list_384 [of tag_of, folded entry_tag_def, unfolded arm64_instructions_384_def, simplified]
lemmas tags_396 = list_396 [of tag_of, folded entry_tag_def, unfolded arm64_instructions_396_def, simplified]
lemmas tags_408 = list_408 [of tag_of, folded entry_tag_def, unfolded arm64_instructions_408_def, simplified]
lemmas tags_420 = list_420 [of tag_of, folded entry_tag_def, unfolded arm64_instructions_420_def, simplified]
lemmas tags_540 = list_540 [of tag_of, folded entry_tag_def, unfolded arm64_instructions_540_def, simplified]
lemmas tags_552 = list_552 [of tag_of, folded entry_tag_def, unfolded arm64_instructions_552_def, simplified]
lemmas tags_564 = list_564 [of tag_of, folded entry_tag_def, unfolded arm64_instructions_564_def, simplified]
lemmas tags_576 = list_576 [of tag_of, folded entry_tag_def, unfolded arm64_instructions_576_def, simplified]
lemmas tags_588 = list_588 [of tag_of, folded entry_tag_def, unfolded arm64_instructions_588_def, simplified]
lemmas tags_612 = list_612 [of tag_of, folded entry_tag_def, unfolded arm64_instructions_612_def, simplified]
lemmas tags_660 = list_660 [of tag_of, folded entry_tag_def, unfolded arm64_instructions_660_def, simplified]
lemmas tags_696 = list_696 [of tag_of, folded entry_tag_def, unfolded arm64_instructions_696_def, simplified]
lemmas tags_708 = list_708 [of tag_of, folded entry_tag_def, unfolded arm64_instructions_708_def, simplified]
lemmas tags_888 = list_888 [of tag_of, folded entry_tag_def, unfolded arm64_instructions_888_def, simplified]
lemmas tags_1068 = list_1068 [of tag_of, folded entry_tag_def, unfolded arm64_instructions_1068_def, simplified]
lemmas tags_1260 = list_1260 [of tag_of, folded entry_tag_def, unfolded arm64_instructions_1260_def, simplified]
lemmas tags_1272 = list_1272 [of tag_of, folded entry_tag_def, unfolded arm64_instructions_1272_def, simplified]
lemmas tags_1980 = list_1980 [of tag_of, folded entry_tag_def, unfolded arm64_instructions_1980_def, simplified]
lemmas tags_1992 = list_1992 [of tag_of, folded entry_tag_def, unfolded arm64_instructions_1992_def, simplified]
lemmas tags_2004 = list_2004 [of tag_of, folded entry_tag_def, unfolded arm64_instructions_2004_def, simplified]
lemmas tags_2028 = list_2028 [of tag_of, folded entry_tag_def, unfolded arm64_instructions_2028_def, simplified]
lemmas tags_2040 = list_2040 [of tag_of, folded entry_tag_def, unfolded arm64_instructions_2040_def, simplified]
lemmas tags_2052 = list_2052 [of tag_of, folded entry_tag_def, unfolded arm64_instructions_2052_def, simplified]
lemmas tags_2064 = list_2064 [of tag_of, folded entry_tag_def, unfolded arm64_instructions_2064_def, simplified]
lemmas tags_2076 = list_2076 [of tag_of, folded entry_tag_def, unfolded arm64_instructions_2076_def, simplified]
lemmas tags_2088 = list_2088 [of tag_of, folded entry_tag_def, unfolded arm64_instructions_2088_def, simplified]
lemmas tags_2100 = list_2100 [of tag_of, folded entry_tag_def, unfolded arm64_instructions_2100_def, simplified]
lemmas tags_2112 = list_2112 [of tag_of, folded entry_tag_def, unfolded arm64_instructions_2112_def, simplified]
lemmas tags_2136 = list_2136 [of tag_of, folded entry_tag_def, unfolded arm64_instructions_2136_def, simplified]
lemmas tags_2148 = list_2148 [of tag_of, folded entry_tag_def, unfolded arm64_instructions_2148_def, simplified]
lemmas tags_2172 = list_2172 [of tag_of, folded entry_tag_def, unfolded arm64_instructions_2172_def, simplified]
lemmas tags_2184 = list_2184 [of tag_of, folded entry_tag_def, unfolded arm64_instructions_2184_def, simplified]
lemmas tags_2196 = list_2196 [of tag_of, folded entry_tag_def, unfolded arm64_instructions_2196_def, simplified]
lemmas tags_2208 = list_2208 [of tag_of, folded entry_tag_def, unfolded arm64_instructions_2208_def, simplified]
lemmas tags_2376 = list_2376 [of tag_of, folded entry_tag_def, unfolded arm64_instructions_2376_def, simplified]
lemmas tags_2388 = list_2388 [of tag_of, folded entry_tag_def, unfolded arm64_instructions_2388_def, simplified]
lemmas tags_2424 = list_2424 [of tag_of, folded entry_tag_def, unfolded arm64_instructions_2424_def, simplified]
lemmas tags_2436 = list_2436 [of tag_of, folded entry_tag_def, unfolded arm64_instructions_2436_def, simplified]
lemmas tags_2496 = list_2496 [of tag_of, folded entry_tag_def, unfolded arm64_instructions_2496_def, simplified]
lemmas tags_2868 = list_2868 [of tag_of, folded entry_tag_def, unfolded arm64_instructions_2868_def, simplified]
lemmas tags_3384 = list_3384 [of tag_of, folded entry_tag_def, unfolded arm64_instructions_3384_def, simplified]
lemmas tags_3444 = list_3444 [of tag_of, folded entry_tag_def, unfolded arm64_instructions_3444_def, simplified]
lemmas tags_3456 = list_3456 [of tag_of, folded entry_tag_def, unfolded arm64_instructions_3456_def, simplified]
lemmas tags_3612 = list_3612 [of tag_of, folded entry_tag_def, unfolded arm64_instructions_3612_def, simplified]
lemmas tags_3732 = list_3732 [of tag_of, folded entry_tag_def, unfolded arm64_instructions_3732_def, simplified]
lemmas tags_3768 = list_3768 [of tag_of, folded entry_tag_def, unfolded arm64_instructions_3768_def, simplified]

lemmas tags =
  tags_60 tags_72 tags_84 tags_144 tags_216 tags_228 tags_384 tags_396 tags_408 tags_420
  tags_540 tags_552 tags_564 tags_576 tags_588 tags_612 tags_660 tags_696 tags_708 tags_888
  tags_1068 tags_1260 tags_1272 tags_1980 tags_1992 tags_2004 tags_2028 tags_2040 tags_2052
  tags_2064 tags_2076 tags_2088 tags_2100 tags_2112 tags_2136 tags_2148 tags_2172 tags_2184
  tags_2196 tags_2208 tags_2376 tags_2388 tags_2424 tags_2436 tags_2496 tags_2868 tags_3384
  tags_3444 tags_3456 tags_3612 tags_3732 tags_3768

lemmas tops =
  tops_0 tops_12 tops_24 tops_36 tops_48 tops_60 tops_72 tops_84 tops_96 tops_108 tops_120
  tops_132 tops_144 tops_156 tops_168 tops_180 tops_192 tops_204 tops_216 tops_228 tops_240
  tops_252 tops_264 tops_276 tops_288 tops_300 tops_312 tops_324 tops_336 tops_348 tops_360
  tops_372 tops_384 tops_396 tops_408 tops_420 tops_432 tops_444 tops_456 tops_468 tops_480
  tops_492 tops_504 tops_516 tops_528 tops_540 tops_552 tops_564 tops_576 tops_588 tops_600
  tops_612 tops_624 tops_636 tops_648 tops_660 tops_672 tops_684 tops_696 tops_708 tops_720
  tops_732 tops_744 tops_756 tops_768 tops_780 tops_792 tops_804 tops_816 tops_828 tops_840
  tops_852 tops_864 tops_876 tops_888 tops_900 tops_912 tops_924 tops_936 tops_948 tops_960
  tops_972 tops_984 tops_996 tops_1008 tops_1020 tops_1032 tops_1044 tops_1056 tops_1068
  tops_1080 tops_1092 tops_1104 tops_1116 tops_1128 tops_1140 tops_1152 tops_1164 tops_1176
  tops_1188 tops_1200 tops_1212 tops_1224 tops_1236 tops_1248 tops_1260 tops_1272 tops_1284
  tops_1296 tops_1308 tops_1320 tops_1332 tops_1344 tops_1356 tops_1368 tops_1380 tops_1392
  tops_1404 tops_1416 tops_1428 tops_1440 tops_1452 tops_1464 tops_1476 tops_1488 tops_1500
  tops_1512 tops_1524 tops_1536 tops_1548 tops_1560 tops_1572 tops_1584 tops_1596 tops_1608
  tops_1620 tops_1632 tops_1644 tops_1656 tops_1668 tops_1680 tops_1692 tops_1704 tops_1716
  tops_1728 tops_1740 tops_1752 tops_1764 tops_1776 tops_1788 tops_1800 tops_1812 tops_1824
  tops_1836 tops_1848 tops_1860 tops_1872 tops_1884 tops_1896 tops_1908 tops_1920 tops_1932
  tops_1944 tops_1956 tops_1968 tops_1980 tops_1992 tops_2004 tops_2016 tops_2028 tops_2040
  tops_2052 tops_2064 tops_2076 tops_2088 tops_2100 tops_2112 tops_2124 tops_2136 tops_2148
  tops_2160 tops_2172 tops_2184 tops_2196 tops_2208 tops_2220 tops_2232 tops_2244 tops_2256
  tops_2268 tops_2280 tops_2292 tops_2304 tops_2316 tops_2328 tops_2340 tops_2352 tops_2364
  tops_2376 tops_2388 tops_2400 tops_2412 tops_2424 tops_2436 tops_2448 tops_2460 tops_2472
  tops_2484 tops_2496 tops_2508 tops_2520 tops_2532 tops_2544 tops_2556 tops_2568 tops_2580
  tops_2592 tops_2604 tops_2616 tops_2628 tops_2640 tops_2652 tops_2664 tops_2676 tops_2688
  tops_2700 tops_2712 tops_2724 tops_2736 tops_2748 tops_2760 tops_2772 tops_2784 tops_2796
  tops_2808 tops_2820 tops_2832 tops_2844 tops_2856 tops_2868 tops_2880 tops_2892 tops_2904
  tops_2916 tops_2928 tops_2940 tops_2952 tops_2964 tops_2976 tops_2988 tops_3000 tops_3012
  tops_3024 tops_3036 tops_3048 tops_3060 tops_3072 tops_3084 tops_3096 tops_3108 tops_3120
  tops_3132 tops_3144 tops_3156 tops_3168 tops_3180 tops_3192 tops_3204 tops_3216 tops_3228
  tops_3240 tops_3252 tops_3264 tops_3276 tops_3288 tops_3300 tops_3312 tops_3324 tops_3336
  tops_3348 tops_3360 tops_3372 tops_3384 tops_3396 tops_3408 tops_3420 tops_3432 tops_3444
  tops_3456 tops_3468 tops_3480 tops_3492 tops_3504 tops_3516 tops_3528 tops_3540 tops_3552
  tops_3564 tops_3576 tops_3588 tops_3600 tops_3612 tops_3624 tops_3636 tops_3648 tops_3660
  tops_3672 tops_3684 tops_3696 tops_3708 tops_3720 tops_3732 tops_3744 tops_3756 tops_3768
  tops_3780 tops_3792 tops_3804 tops_3816 tops_3828 tops_3840 tops_3852

lemmas keys =
  keys_0 keys_12 keys_24 keys_36 keys_48 keys_60 keys_72 keys_84 keys_96 keys_108 keys_120
  keys_132 keys_144 keys_156 keys_168 keys_180 keys_192 keys_204 keys_216 keys_228 keys_240
  keys_252 keys_264 keys_276 keys_288 keys_300 keys_312 keys_324 keys_336 keys_348 keys_360
  keys_372 keys_384 keys_396 keys_408 keys_420 keys_432 keys_444 keys_456 keys_468 keys_480
  keys_492 keys_504 keys_516 keys_528 keys_540 keys_552 keys_564 keys_576 keys_588 keys_600
  keys_612 keys_624 keys_636 keys_648 keys_660 keys_672 keys_684 keys_696 keys_708 keys_720
  keys_732 keys_744 keys_756 keys_768 keys_780 keys_792 keys_804 keys_816 keys_828 keys_840
  keys_852 keys_864 keys_876 keys_888 keys_900 keys_912 keys_924 keys_936 keys_948 keys_960
  keys_972 keys_984 keys_996 keys_1008 keys_1020 keys_1032 keys_1044 keys_1056 keys_1068
  keys_1080 keys_1092 keys_1104 keys_1116 keys_1128 keys_1140 keys_1152 keys_1164 keys_1176
  keys_1188 keys_1200 keys_1212 keys_1224 keys_1236 keys_1248 keys_1260 keys_1272 keys_1284
  keys_1296 keys_1308 keys_1320 keys_1332 keys_1344 keys_1356 keys_1368 keys_1380 keys_1392
  keys_1404 keys_1416 keys_1428 keys_1440 keys_1452 keys_1464 keys_1476 keys_1488 keys_1500
  keys_1512 keys_1524 keys_1536 keys_1548 keys_1560 keys_1572 keys_1584 keys_1596 keys_1608
  keys_1620 keys_1632 keys_1644 keys_1656 keys_1668 keys_1680 keys_1692 keys_1704 keys_1716
  keys_1728 keys_1740 keys_1752 keys_1764 keys_1776 keys_1788 keys_1800 keys_1812 keys_1824
  keys_1836 keys_1848 keys_1860 keys_1872 keys_1884 keys_1896 keys_1908 keys_1920 keys_1932
  keys_1944 keys_1956 keys_1968 keys_1980 keys_1992 keys_2004 keys_2016 keys_2028 keys_2040
  keys_2052 keys_2064 keys_2076 keys_2088 keys_2100 keys_2112 keys_2124 keys_2136 keys_2148
  keys_2160 keys_2172 keys_2184 keys_2196 keys_2208 keys_2220 keys_2232 keys_2244 keys_2256
  keys_2268 keys_2280 keys_2292 keys_2304 keys_2316 keys_2328 keys_2340 keys_2352 keys_2364
  keys_2376 keys_2388 keys_2400 keys_2412 keys_2424 keys_2436 keys_2448 keys_2460 keys_2472
  keys_2484 keys_2496 keys_2508 keys_2520 keys_2532 keys_2544 keys_2556 keys_2568 keys_2580
  keys_2592 keys_2604 keys_2616 keys_2628 keys_2640 keys_2652 keys_2664 keys_2676 keys_2688
  keys_2700 keys_2712 keys_2724 keys_2736 keys_2748 keys_2760 keys_2772 keys_2784 keys_2796
  keys_2808 keys_2820 keys_2832 keys_2844 keys_2856 keys_2868 keys_2880 keys_2892 keys_2904
  keys_2916 keys_2928 keys_2940 keys_2952 keys_2964 keys_2976 keys_2988 keys_3000 keys_3012
  keys_3024 keys_3036 keys_3048 keys_3060 keys_3072 keys_3084 keys_3096 keys_3108 keys_3120
  keys_3132 keys_3144 keys_3156 keys_3168 keys_3180 keys_3192 keys_3204 keys_3216 keys_3228
  keys_3240 keys_3252 keys_3264 keys_3276 keys_3288 keys_3300 keys_3312 keys_3324 keys_3336
  keys_3348 keys_3360 keys_3372 keys_3384 keys_3396 keys_3408 keys_3420 keys_3432 keys_3444
  keys_3456 keys_3468 keys_3480 keys_3492 keys_3504 keys_3516 keys_3528 keys_3540 keys_3552
  keys_3564 keys_3576 keys_3588 keys_3600 keys_3612 keys_3624 keys_3636 keys_3648 keys_3660
  keys_3672 keys_3684 keys_3696 keys_3708 keys_3720 keys_3732 keys_3744 keys_3756 keys_3768
  keys_3780 keys_3792 keys_3804 keys_3816 keys_3828 keys_3840 keys_3852

end
