(* ===== verification/Arm64_Ranges.thy ===== *)
theory Arm64_Ranges
  imports Arm64_Table
begin

text \<open>
  The ranges of the generated decoder table, checked bucket by bucket: every candidate of a
  bucket belongs to it, no candidate is listed twice, and the candidates stand in the order of
  the generator. Two neighbours with the same mask and pattern have the same name and opcode.
\<close>

section \<open>What is checked\<close>

definition bucket_range :: "decoder_bucket_t \<Rightarrow> nat list" where
  "bucket_range x = candidate_slice (unat (db_index x)) (unat (db_count x))"

definition in_order :: "nat \<Rightarrow> nat \<Rightarrow> bool" where
  "in_order i j = (if rank (entry_key i) < rank (entry_key j) then True
     else entry_key i = entry_key j \<and> entry_tag i = entry_tag j)"

fun sound_range :: "nat \<Rightarrow> nat list \<Rightarrow> bool" where
  "sound_range b [] = True"
| "sound_range b (i # is) = (i < 3856 \<and> in_bucket b (entry_top i) \<and> i \<notin> set is \<and>
     (case is of [] \<Rightarrow> True | j # js \<Rightarrow> in_order i j) \<and>
     sound_range b is)"

fun sound_ranges :: "nat \<Rightarrow> decoder_bucket_t list \<Rightarrow> bool" where
  "sound_ranges b [] = True"
| "sound_ranges b (x # xs) = (sound_range b (bucket_range x) \<and> sound_ranges (b + 1) xs)"

definition in_candidates :: "decoder_bucket_t \<Rightarrow> bool" where
  "in_candidates x = (unat (db_index x) + unat (db_count x) \<le> 6417)"

lemma candidate_slice_empty: "candidate_slice i 0 = []"
  by (simp add: candidate_slice_def)

lemmas range_rules = candidate_slice_empty bucket_range_def in_bucket_def in_order_def rank_def
  priority_def numeral_2_eq_2 [symmetric] tops keys tags

section \<open>The buckets\<close>

lemma buckets_0:
  "length buckets_0 = 256" "list_all in_candidates buckets_0"
  "sum_list (map (\<lambda>x. unat (db_count x)) buckets_0) = 1889"
  by (simp_all add: buckets_0_def in_candidates_def)

lemma buckets_0_sound: "sound_ranges 0 buckets_0"
  by (simp add: buckets_0_def range_rules
    slice_0 slice_115 slice_250 slice_383 slice_531 slice_676 slice_787 slice_875 slice_964
    slice_1109 slice_1256 slice_1383 slice_1533 candidate_indexes_0_def
    candidate_indexes_115_def candidate_indexes_250_def candidate_indexes_383_def
    candidate_indexes_531_def candidate_indexes_676_def candidate_indexes_787_def
    candidate_indexes_875_def candidate_indexes_964_def candidate_indexes_1109_def
    candidate_indexes_1256_def candidate_indexes_1383_def candidate_indexes_1533_def)

lemma buckets_256:
  "length buckets_256 = 256" "list_all in_candidates buckets_256"
  "sum_list (map (\<lambda>x. unat (db_count x)) buckets_256) = 1145"
  by (simp_all add: buckets_256_def in_candidates_def)

lemma buckets_256_sound: "sound_ranges 256 buckets_256"
  by (simp add: buckets_256_def range_rules
    slice_1109 slice_1533 slice_1678 slice_1825 slice_1954 slice_2099 slice_2239 slice_2389
    candidate_indexes_1109_def candidate_indexes_1533_def candidate_indexes_1678_def
    candidate_indexes_1825_def candidate_indexes_1954_def candidate_indexes_2099_def
    candidate_indexes_2239_def candidate_indexes_2389_def)

lemma buckets_512:
  "length buckets_512 = 256" "list_all in_candidates buckets_512"
  "sum_list (map (\<lambda>x. unat (db_count x)) buckets_512) = 1887"
  by (simp_all add: buckets_512_def in_candidates_def)

lemma buckets_512_sound: "sound_ranges 512 buckets_512"
  by (simp add: buckets_512_def range_rules
    slice_383 slice_531 slice_676 slice_787 slice_875 slice_964 slice_1109 slice_2389 slice_2493
    slice_2630 slice_2751 slice_2885 slice_3035 slice_3171 slice_3321 slice_3449
    candidate_indexes_383_def candidate_indexes_531_def candidate_indexes_676_def
    candidate_indexes_787_def candidate_indexes_875_def candidate_indexes_964_def
    candidate_indexes_1109_def candidate_indexes_2389_def candidate_indexes_2493_def
    candidate_indexes_2630_def candidate_indexes_2751_def candidate_indexes_2885_def
    candidate_indexes_3035_def candidate_indexes_3171_def candidate_indexes_3321_def
    candidate_indexes_3449_def)

lemma buckets_768:
  "length buckets_768 = 256" "list_all in_candidates buckets_768"
  "sum_list (map (\<lambda>x. unat (db_count x)) buckets_768) = 1295"
  by (simp_all add: buckets_768_def in_candidates_def)

lemma buckets_768_sound: "sound_ranges 768 buckets_768"
  by (simp add: buckets_768_def range_rules
    slice_1109 slice_1825 slice_1954 slice_2099 slice_2239 slice_3449 slice_3589 slice_3715
    slice_3797 slice_3947 slice_4084 slice_4232 candidate_indexes_1109_def
    candidate_indexes_1825_def candidate_indexes_1954_def candidate_indexes_2099_def
    candidate_indexes_2239_def candidate_indexes_3449_def candidate_indexes_3589_def
    candidate_indexes_3715_def candidate_indexes_3797_def candidate_indexes_3947_def
    candidate_indexes_4084_def candidate_indexes_4232_def)

lemma buckets_1024:
  "length buckets_1024 = 256" "list_all in_candidates buckets_1024"
  "sum_list (map (\<lambda>x. unat (db_count x)) buckets_1024) = 466"
  by (simp_all add: buckets_1024_def in_candidates_def)

lemma buckets_1024_sound: "sound_ranges 1024 buckets_1024"
  by (simp add: buckets_1024_def range_rules
    slice_3171 slice_3321 slice_4232 slice_4379 slice_4517 candidate_indexes_3171_def
    candidate_indexes_3321_def candidate_indexes_4232_def candidate_indexes_4379_def
    candidate_indexes_4517_def)

lemma buckets_1280:
  "length buckets_1280 = 256" "list_all in_candidates buckets_1280"
  "sum_list (map (\<lambda>x. unat (db_count x)) buckets_1280) = 481"
  by (simp_all add: buckets_1280_def in_candidates_def)

lemma buckets_1280_sound: "sound_ranges 1280 buckets_1280"
  by (simp add: buckets_1280_def range_rules
    slice_2239 slice_4379 slice_4658 slice_4806 slice_4955 candidate_indexes_2239_def
    candidate_indexes_4379_def candidate_indexes_4658_def candidate_indexes_4806_def
    candidate_indexes_4955_def)

lemma buckets_1536:
  "length buckets_1536 = 256" "list_all in_candidates buckets_1536"
  "sum_list (map (\<lambda>x. unat (db_count x)) buckets_1536) = 1218"
  by (simp_all add: buckets_1536_def in_candidates_def)

lemma buckets_1536_sound: "sound_ranges 1536 buckets_1536"
  by (simp add: buckets_1536_def range_rules
    slice_3171 slice_3321 slice_4379 slice_4955 slice_5102 slice_5177 slice_5336 slice_5481
    slice_5505 slice_5639 slice_5782 slice_5932 slice_6065 candidate_indexes_3171_def
    candidate_indexes_3321_def candidate_indexes_4379_def candidate_indexes_4955_def
    candidate_indexes_5102_def candidate_indexes_5177_def candidate_indexes_5336_def
    candidate_indexes_5481_def candidate_indexes_5505_def candidate_indexes_5639_def
    candidate_indexes_5782_def candidate_indexes_5932_def candidate_indexes_6065_def)

lemma buckets_1792:
  "length buckets_1792 = 256" "list_all in_candidates buckets_1792"
  "sum_list (map (\<lambda>x. unat (db_count x)) buckets_1792) = 265"
  by (simp_all add: buckets_1792_def in_candidates_def)

lemma buckets_1792_sound: "sound_ranges 1792 buckets_1792"
  by (simp add: buckets_1792_def range_rules
    slice_4379 slice_6065 slice_6209 slice_6355 candidate_indexes_4379_def
    candidate_indexes_6065_def candidate_indexes_6209_def candidate_indexes_6355_def)

end
