(* ===== verification/Arm64_Decoding.thy ===== *)
theory Arm64_Decoding
  imports Arm64_Ranges
begin

text \<open>
  The decoder over the generated table (\<open>bal_decode_arm64\<close> with \<open>src/generated/decoder_table.c\<close>):
  the two level table answers as a search through all entries does, in the order of the
  generator. One half is checked entry by entry (\<^theory_text>\<open>Arm64_Ranges\<close>), the other half is a count: the
  ranges hold as many entries as the masks leave places for.
\<close>

section \<open>The tables are well formed\<close>

lemmas bucket_lists = buckets_0 buckets_256 buckets_512 buckets_768 buckets_1024 buckets_1280
  buckets_1536 buckets_1792

lemma arm64_buckets:
  "length arm64_buckets = 2048" "list_all in_candidates arm64_buckets"
  "sum_list (map (\<lambda>x. unat (db_count x)) arm64_buckets) = 8646"
  by (simp_all add: arm64_buckets_def bucket_lists)

lemma arm64_instructions:
  "length g_bal_decoder_arm64_instructions = 3856"
  "list_all metadata_wf g_bal_decoder_arm64_instructions"
  "sum_list (map weight (map top_bits g_bal_decoder_arm64_instructions)) = 8646"
  using arm64_parts by (simp_all add: g_bal_decoder_arm64_instructions_def arm64_chunks_def)

lemma sound_ranges_append:
  "sound_ranges b (xs @ ys) = (sound_ranges b xs \<and> sound_ranges (b + length xs) ys)"
  by (induction xs arbitrary: b) auto

lemma sound_ranges_nth: "sound_ranges b xs \<Longrightarrow> k < length xs \<Longrightarrow> sound_range (b + k) (bucket_range (xs ! k))"
proof (induction xs arbitrary: b k)
  case (Cons x xs)
  then show ?case by (cases k) fastforce+
qed simp

lemma arm64_buckets_sound: "sound_ranges 0 arm64_buckets"
  by (simp add: arm64_buckets_def sound_ranges_append bucket_lists buckets_0_sound buckets_256_sound
      buckets_512_sound buckets_768_sound buckets_1024_sound buckets_1280_sound buckets_1536_sound
      buckets_1792_sound)

section \<open>The range of a bucket\<close>

definition arm64_range :: "nat \<Rightarrow> nat list" where
  "arm64_range b = bucket_range (arm64_buckets ! b)"

lemma range_sound: "b < 2048 \<Longrightarrow> sound_range b (arm64_range b)"
  using sound_ranges_nth [OF arm64_buckets_sound, of b] by (simp add: arm64_buckets arm64_range_def)

lemma sound_rangeD:
  "sound_range b is \<Longrightarrow> distinct is \<and> (\<forall>i \<in> set is. i < 3856 \<and> in_bucket b (entry_top i)) \<and> successively in_order is"
  by (induction b "is" rule: sound_range.induct) (auto simp: successively_Cons split: list.splits)

lemma in_order_trans: "transp in_order"
  by (rule transpI) (auto simp: in_order_def split: if_splits)

lemma range_in_order: "b < 2048 \<Longrightarrow> sorted_wrt in_order (arm64_range b)"
  using sound_rangeD [OF range_sound] successively_conv_sorted_wrt [OF in_order_trans] by blast

lemma range_length:
  assumes "b < 2048"
  shows "length (arm64_range b) = unat (db_count (arm64_buckets ! b))"
proof -
  have "unat (db_index (arm64_buckets ! b)) + unat (db_count (arm64_buckets ! b)) \<le> 6417"
    using arm64_buckets(1,2) assms by (simp add: list_all_length in_candidates_def)
  then show ?thesis by (simp add: arm64_range_def bucket_range_def candidate_slice_def candidate_indexes_length)
qed

section \<open>Every entry of a bucket is in its range\<close>

text \<open>
  Pairs of a bucket and an entry: the ranges list 8646 of them without repetition, and there are
  no more that belong together.
\<close>

lemma listed_pairs: "card (SIGMA b:{..<2048}. set (arm64_range b)) = 8646"
proof -
  have "card (set (arm64_range b)) = unat (db_count (arm64_buckets ! b))" if "b < 2048" for b
    using that sound_rangeD [OF range_sound [OF that]] by (simp add: distinct_card range_length)
  then have "card (SIGMA b:{..<2048}. set (arm64_range b)) = (\<Sum>b<2048. unat (db_count (arm64_buckets ! b)))"
    by (subst card_SigmaI) auto
  also have "\<dots> = sum_list (map (\<lambda>x. unat (db_count x)) arm64_buckets)"
    by (simp add: sum_list_sum_nth arm64_buckets(1) atLeast0LessThan)
  finally show ?thesis by (simp add: arm64_buckets)
qed

lemma belonging_pairs:
  "card (SIGMA b:{..<2048}. {i. i < 3856 \<and> in_bucket b (entry_top i)}) \<le> 8646"
proof -
  have "(SIGMA b:{..<2048}. {i. i < 3856 \<and> in_bucket b (entry_top i)}) =
      prod.swap ` (SIGMA i:{..<3856}. {b. b < 2048 \<and> in_bucket b (entry_top i)})" by auto
  then have "card (SIGMA b:{..<2048}. {i. i < 3856 \<and> in_bucket b (entry_top i)}) =
      card (SIGMA i:{..<3856 :: nat}. {b. b < 2048 \<and> in_bucket b (entry_top i)})"
    by (simp add: card_image)
  also have "\<dots> = (\<Sum>i<3856. card {b. b < 2048 \<and> in_bucket b (entry_top i)})"
    by (subst card_SigmaI) auto
  also have "\<dots> \<le> (\<Sum>i<3856. weight (entry_top i))" by (rule sum_mono) (rule weight_bound)
  also have "\<dots> = 8646"
    using arm64_instructions(3)
    by (simp add: sum_list_sum_nth arm64_instructions(1) entry_top_def atLeast0LessThan)
  finally show ?thesis .
qed

lemma range_complete:
  assumes "b < 2048"
  shows "set (arm64_range b) = {i. i < 3856 \<and> in_bucket b (entry_top i)}"
proof -
  have "(SIGMA b:{..<2048}. set (arm64_range b)) \<subseteq> (SIGMA b:{..<2048}. {i. i < 3856 \<and> in_bucket b (entry_top i)})"
    using sound_rangeD [OF range_sound] by (intro Sigma_mono) auto
  then have "(SIGMA b:{..<2048}. set (arm64_range b)) = (SIGMA b:{..<2048}. {i. i < 3856 \<and> in_bucket b (entry_top i)})"
    by (rule card_seteq [rotated]) (use listed_pairs belonging_pairs in auto)
  with assms show ?thesis by (auto simp: set_eq_iff)
qed

section \<open>Decoding is a search in the order of the generator\<close>

definition matches_word :: "u32 \<Rightarrow> bal_decoder_instruction_metadata_t \<Rightarrow> bool" where
  "matches_word w m = (w AND dm_mask m = dm_expected m)"

definition linear_decode :: "u32 \<Rightarrow> bal_decoder_instruction_metadata_t option" where
  "linear_decode w = find (matches_word w) (sort_key (\<lambda>m. rank (mask_value m)) g_bal_decoder_arm64_instructions)"

definition identity_of :: "bal_decoder_instruction_metadata_t \<Rightarrow> string \<times> u32 \<times> u32 \<times> bal_opcode_t" where
  "identity_of m = (dm_name m, dm_mask m, dm_expected m, dm_ir_opcode m)"

lemma decode_candidates_find: "decode_candidates w ms = find (matches_word w) ms"
  by (induction ms) (auto simp: matches_word_def)

lemma find_SomeD: "find P xs = Some x \<Longrightarrow> x \<in> set xs \<and> P x"
  by (induction xs) (auto split: if_splits)

lemma find_first:
  "sorted_wrt R xs \<Longrightarrow> find P xs = Some x \<Longrightarrow> x \<in> set xs \<and> P x \<and> (\<forall>y \<in> set xs. P y \<longrightarrow> y = x \<or> R x y)"
  by (induction xs) (auto split: if_splits)

lemma find_map_index: "find P (map f xs) = map_option f (find (\<lambda>x. P (f x)) xs)"
  by (induction xs) auto

text \<open>The candidates of a word, by their indexes.\<close>

definition word_range :: "u32 \<Rightarrow> nat list" where
  "word_range w = arm64_range (drop_bit 21 (unat w))"

lemma word_bucket: "drop_bit 21 (unat (w :: u32)) < 2048"
  using unsigned_less [of w, where 'a = nat] by (simp add: drop_bit_eq_div less_mult_imp_div_less)

lemma arm64_decode:
  "bal_decode_arm64 arm64_tables w =
    map_option (\<lambda>i. g_bal_decoder_arm64_instructions ! i)
      (find (\<lambda>i. matches_word w (g_bal_decoder_arm64_instructions ! i)) (word_range w))"
proof -
  have "unat (ucast (drop_bit 21 w) :: u16) = drop_bit 21 (unat w)"
    using word_bucket [of w] unsigned_less [of w, where 'a = nat]
    by (simp add: unsigned_ucast_eq unsigned_drop_bit_eq take_bit_nat_eq_self)
  then show ?thesis
    by (simp add: bal_decode_arm64_def arm64_tables_def Let_def decode_candidates_find drop_map take_map
        find_map_index word_range_def arm64_range_def bucket_range_def candidate_slice_def)
qed

text \<open>Every entry of the table that matches a word is among the word's candidates.\<close>

lemma matching_listed:
  assumes "i < 3856" "matches_word w (g_bal_decoder_arm64_instructions ! i)"
  shows "i \<in> set (word_range w)"
  using assms in_bucket_match [of w] word_bucket [of w]
  by (simp add: word_range_def range_complete entry_top_def matches_word_def)

lemma word_range_bound: "i \<in> set (word_range w) \<Longrightarrow> i < 3856"
  using word_bucket [of w] by (simp add: word_range_def range_complete)

lemma arm64_decode_None:
  "bal_decode_arm64 arm64_tables w = None \<longleftrightarrow> (\<forall>m \<in> set g_bal_decoder_arm64_instructions. \<not> matches_word w m)"
  using matching_listed [of _ w] word_range_bound [of _ w] arm64_instructions(1)
  by (fastforce simp: arm64_decode find_None_iff in_set_conv_nth)

lemma arm64_decode_first:
  assumes "bal_decode_arm64 arm64_tables w = Some m" "m' \<in> set g_bal_decoder_arm64_instructions" "matches_word w m'"
  shows "rank (mask_value m) < rank (mask_value m') \<or> identity_of m = identity_of m'"
proof -
  from assms(1) obtain i where i: "find (\<lambda>i. matches_word w (g_bal_decoder_arm64_instructions ! i)) (word_range w) = Some i"
    "m = g_bal_decoder_arm64_instructions ! i" by (auto simp: arm64_decode)
  from assms(2) obtain j where j: "j < 3856" "m' = g_bal_decoder_arm64_instructions ! j"
    by (auto simp: in_set_conv_nth arm64_instructions)
  have "sorted_wrt in_order (word_range w)" using range_in_order word_bucket by (simp add: word_range_def)
  from find_first [OF this i(1)] matching_listed [OF j(1), of w] assms(3) j(2) have "j = i \<or> in_order i j" by auto
  then show ?thesis
    by (auto simp: i(2) j(2) in_order_def entry_key_def entry_tag_def identity_of_def tag_of_def mask_value_def
        word_eq_iff_unsigned [where 'a = nat] split: if_splits)
qed

lemma arm64_decode_Some:
  "bal_decode_arm64 arm64_tables w = Some m \<Longrightarrow> m \<in> set g_bal_decoder_arm64_instructions \<and> matches_word w m"
  using word_range_bound [of _ w] by (auto simp: arm64_decode arm64_instructions dest!: find_SomeD)

lemma linear_decode_first:
  assumes "linear_decode w = Some m"
  shows "m \<in> set g_bal_decoder_arm64_instructions \<and> matches_word w m \<and>
    (\<forall>m' \<in> set g_bal_decoder_arm64_instructions. matches_word w m' \<longrightarrow> rank (mask_value m) \<le> rank (mask_value m'))"
proof -
  let ?k = "\<lambda>m. rank (mask_value m)"
  have "sorted_wrt (\<lambda>x y. ?k x \<le> ?k y) (sort_key ?k g_bal_decoder_arm64_instructions)"
    using sorted_sort_key [of ?k] by (simp add: sorted_map)
  from find_first [OF this assms [unfolded linear_decode_def]] show ?thesis by auto
qed

lemma decode_is_linear:
  "map_option identity_of (bal_decode_arm64 arm64_tables w) = map_option identity_of (linear_decode w)"
proof (cases "linear_decode w")
  case None
  then have "bal_decode_arm64 arm64_tables w = None" by (auto simp: linear_decode_def find_None_iff arm64_decode_None)
  with None show ?thesis by simp
next
  case (Some m)
  note first = linear_decode_first [OF Some]
  then have "bal_decode_arm64 arm64_tables w \<noteq> None" using arm64_decode_None [of w] by blast
  then obtain m' where m': "bal_decode_arm64 arm64_tables w = Some m'" by blast
  have "identity_of m' = identity_of m"
    using arm64_decode_first [OF m', of m] first arm64_decode_Some [OF m'] by (auto simp: not_less [symmetric])
  with Some m' show ?thesis by simp
qed

lemma arm64_tables_wf: "decoder_tables_wf arm64_tables"
proof -
  have "\<forall>i \<in> set candidate_indexes. metadata_wf (g_bal_decoder_arm64_instructions ! i)"
    using candidate_bounds arm64_instructions(1,2) by (simp add: list_all_iff)
  moreover have "list_all in_candidates arm64_buckets" by (rule arm64_buckets)
  ultimately show ?thesis
    by (simp add: decoder_tables_wf_def arm64_tables_def arm64_buckets candidate_indexes_length list_all_iff
        in_candidates_def)
qed

text \<open>
  C16: the decoder over its generated table is a search through all of the instructions. For
  every word the answer has the name, mask, pattern and opcode of the first matching entry in
  the order of the generator; there is no answer only when no entry of the whole array
  matches. The tables are well formed, so no index leaves an array, and the answer is a
  complete entry of the array that matches the word.
\<close>

theorem generated_table_decodes:
  "map_option identity_of (bal_decode_arm64 arm64_tables w) = map_option identity_of (linear_decode w) \<and>
   decoder_tables_wf arm64_tables \<and>
   set_option (bal_decode_arm64 arm64_tables w) \<subseteq>
     {m \<in> set g_bal_decoder_arm64_instructions. matches_word w m \<and> metadata_wf m}"
  using decode_is_linear [of w] arm64_tables_wf arm64_instructions(2) arm64_decode_Some [of w]
  by (auto simp: list_all_iff)

end
