(* ===== verification/Supported_Words.thy ===== *)
theory Supported_Words
  imports Arm64_Decoding Block_Translation
begin

text \<open>
  The words of the supported instructions in the generated decoder table: whatever the
  architecture manual reads as one of these instructions, \<open>bal_decode_arm64\<close> finds the entry for,
  because that entry is the first candidate of every bucket its words fall in.
\<close>

section \<open>Entries and the buckets they head\<close>

lemma replicate_small: "replicate 2 x = [x, x]" "replicate 3 x = [x, x, x]" "replicate 4 x = [x, x, x, x]"
  by (simp_all add: numeral_eq_Suc)

lemmas table_entries =
  list_12 [of "\<lambda>m. m", unfolded arm64_instructions_12_def, simplified]
  list_36 [of "\<lambda>m. m", unfolded arm64_instructions_36_def, simplified]
  list_60 [of "\<lambda>m. m", unfolded arm64_instructions_60_def, simplified]
  list_108 [of "\<lambda>m. m", unfolded arm64_instructions_108_def, simplified]
  list_2076 [of "\<lambda>m. m", unfolded arm64_instructions_2076_def, simplified]
  list_2136 [of "\<lambda>m. m", unfolded arm64_instructions_2136_def, simplified]
  list_2364 [of "\<lambda>m. m", unfolded arm64_instructions_2364_def, simplified]
  list_3300 [of "\<lambda>m. m", unfolded arm64_instructions_3300_def, simplified]
  list_3312 [of "\<lambda>m. m", unfolded arm64_instructions_3312_def, simplified]
  list_3336 [of "\<lambda>m. m", unfolded arm64_instructions_3336_def, simplified]

lemma supported_entries:
  "g_bal_decoder_arm64_instructions ! 2079 = metadata_movz64"
  "g_bal_decoder_arm64_instructions ! 2077 = metadata_movn64"
  "g_bal_decoder_arm64_instructions ! 2143 = metadata_movk64"
  "g_bal_decoder_arm64_instructions ! 14 = metadata_add_imm64"
  "g_bal_decoder_arm64_instructions ! 44 = metadata_adds_imm64"
  "g_bal_decoder_arm64_instructions ! 3311 = metadata_sub_imm64"
  "g_bal_decoder_arm64_instructions ! 3336 = metadata_subs_imm64"
  "g_bal_decoder_arm64_instructions ! 16 = metadata_add_reg64"
  "g_bal_decoder_arm64_instructions ! 46 = metadata_adds_reg64"
  "g_bal_decoder_arm64_instructions ! 3313 = metadata_sub_reg64"
  "g_bal_decoder_arm64_instructions ! 3338 = metadata_subs_reg64"
  "g_bal_decoder_arm64_instructions ! 70 = metadata_and_reg64"
  "g_bal_decoder_arm64_instructions ! 112 = metadata_b"
  "g_bal_decoder_arm64_instructions ! 2372 = metadata_ret"
  by (simp_all add: table_entries metadata_defs metadata_ret_def metadata_b_def table_entry_def insn_def op_x_def op_imm_def
      BAL_OPERANDS_SIZE_def reg64_def imm_field_def no_operand_def unused_operand_def replicate_small)

lemma bucket_in_list:
  "b < 256 \<Longrightarrow> arm64_buckets ! b = buckets_0 ! b"
  "1024 \<le> b \<Longrightarrow> b < 1280 \<Longrightarrow> arm64_buckets ! b = buckets_1024 ! (b - 1024)"
  "1280 \<le> b \<Longrightarrow> b < 1536 \<Longrightarrow> arm64_buckets ! b = buckets_1280 ! (b - 1280)"
  "1536 \<le> b \<Longrightarrow> b < 1792 \<Longrightarrow> arm64_buckets ! b = buckets_1536 ! (b - 1536)"
  "1792 \<le> b \<Longrightarrow> b < 2048 \<Longrightarrow> arm64_buckets ! b = buckets_1792 ! (b - 1792)"
  by (simp_all add: arm64_buckets_def bucket_lists nth_append)

definition heads :: "nat \<Rightarrow> nat \<Rightarrow> bool" where
  "heads i b = (arm64_range b \<noteq> [] \<and> hd (arm64_range b) = i)"

lemmas heads_rules = heads_def arm64_range_def bucket_in_list bucket_range_def

lemma heads_2079: "list_all (heads 2079) [1684, 1685, 1686, 1687]"
  by (simp add: heads_rules buckets_1536_def
    slice_5932 candidate_indexes_5932_def)

lemma heads_2077: "list_all (heads 2077) [1172, 1173, 1174, 1175]"
  by (simp add: heads_rules buckets_1024_def
    slice_4379 candidate_indexes_4379_def)

lemma heads_2143: "list_all (heads 2143) [1940, 1941, 1942, 1943]"
  by (simp add: heads_rules buckets_1792_def
    slice_6209 candidate_indexes_6209_def)

lemma heads_14: "list_all (heads 14) [1160, 1161, 1162, 1163]"
  by (simp add: heads_rules buckets_1024_def
    slice_4379 candidate_indexes_4379_def)

lemma heads_44: "list_all (heads 44) [1416, 1417, 1418, 1419]"
  by (simp add: heads_rules buckets_1280_def
    slice_4806 candidate_indexes_4806_def)

lemma heads_3311: "list_all (heads 3311) [1672, 1673, 1674, 1675]"
  by (simp add: heads_rules buckets_1536_def
    slice_5782 candidate_indexes_5782_def)

lemma heads_3336: "list_all (heads 3336) [1928, 1929, 1930, 1931]"
  by (simp add: heads_rules buckets_1792_def
    slice_6209 candidate_indexes_6209_def)

lemma heads_16: "list_all (heads 16) [1112, 1114, 1116, 1118]"
  by (simp add: heads_rules buckets_1024_def
    slice_4379 candidate_indexes_4379_def)

lemma heads_46: "list_all (heads 46) [1368, 1370, 1372, 1374]"
  by (simp add: heads_rules buckets_1280_def
    slice_4806 candidate_indexes_4806_def)

lemma heads_3313: "list_all (heads 3313) [1624, 1626, 1628, 1630]"
  by (simp add: heads_rules buckets_1536_def
    slice_5782 candidate_indexes_5782_def)

lemma heads_3338: "list_all (heads 3338) [1880, 1882, 1884, 1886]"
  by (simp add: heads_rules buckets_1792_def
    slice_6209 candidate_indexes_6209_def)

lemma heads_70: "list_all (heads 70) [1104, 1106, 1108, 1110]"
  by (simp add: heads_rules buckets_1024_def
    slice_4379 candidate_indexes_4379_def)

lemma heads_112: "list_all (heads 112) [160, 161, 162, 163, 164, 165, 166, 167, 168, 169, 170, 171, 172, 173, 174, 175, 176, 177,
    178, 179, 180, 181, 182, 183, 184, 185, 186, 187, 188, 189, 190, 191]"
  by (simp add: heads_rules buckets_0_def
    slice_1109 candidate_indexes_1109_def)

lemma heads_2372: "list_all (heads 2372) [1714]"
  by (simp add: heads_rules buckets_1536_def
    slice_5932 candidate_indexes_5932_def)

section \<open>The buckets of a pattern\<close>

text \<open>A bucket number that agrees with a pattern is the pattern with some free bits set.\<close>

lemma bucket_of_pattern:
  assumes "b < 2048" "b AND t = e" "t OR f = (2047 :: nat)"
  shows "b = e OR (b AND f)"
proof -
  have "b = b AND mask 11" using assms(1) by (simp add: take_bit_nat_eq_self flip: take_bit_eq_mask)
  also have "mask 11 = t OR f" by (simp add: assms(3) mask_eq_exp_minus_1)
  also have "b AND (t OR f) = (b AND t) OR (b AND f)" by (rule bit_eqI) (auto simp: bit_simps)
  finally show ?thesis by (simp add: assms(2))
qed

lemma free_bits:
  "b AND 3 \<in> {0, 1, 2, 3 :: nat}" "b AND 6 \<in> {0, 2, 4, 6 :: nat}" "b AND 31 \<in> set [0, 1, 2, 3, 4, 5, 6, 7, 8, 9, 10, 11, 12, 13, 14, 15, 16, 17, 18, 19, 20, 21, 22, 23, 24, 25, 26, 27, 28, 29, 30, 31]"
proof -
  have low: "c AND mask n = c mod 2 ^ n" for c n :: nat by (simp add: take_bit_eq_mod flip: take_bit_eq_mask)
  have three: "c AND 3 \<in> {0, 1, 2, 3}" for c :: nat
    using low [of c 2] by (simp add: mask_eq_exp_minus_1) linarith
  then show "b AND 3 \<in> {0, 1, 2, 3}" .
  have "b AND 31 \<in> set [0 ..< 32]" using low [of b 5] by (simp add: mask_eq_exp_minus_1)
  also have "[0 ..< 32] = [0, 1, 2, 3, 4, 5, 6, 7, 8, 9, 10, 11, 12, 13, 14, 15, 16, 17, 18, 19, 20, 21, 22, 23, 24, 25, 26, 27, 28, 29, 30, 31]" by (simp add: upt_rec)
  finally show "b AND 31 \<in> set [0, 1, 2, 3, 4, 5, 6, 7, 8, 9, 10, 11, 12, 13, 14, 15, 16, 17, 18, 19, 20, 21, 22, 23, 24, 25, 26, 27, 28, 29, 30, 31]" .
  have "b AND 6 = push_bit 1 (drop_bit 1 b AND 3)"
  proof (rule bit_eqI)
    have "(6 :: nat) = push_bit 1 3" by simp
    then show "bit (b AND 6) n = bit (push_bit 1 (drop_bit 1 b AND 3)) n" for n
      by (metis bit_and_iff bit_push_bit_iff bit_drop_bit_eq drop_bit_and drop_bit_push_bit comp_apply le_add_diff_inverse)
  qed
  then have "b AND 6 = 2 * (drop_bit 1 b AND 3)" by (simp only: push_bit_eq_mult) (simp only: power_one_right mult.commute)
  moreover have "y \<in> {0, 1, 2, 3} \<Longrightarrow> 2 * y \<in> {0, 2, 4, 6}" for y :: nat by auto
  ultimately show "b AND 6 \<in> {0, 2, 4, 6}" using three [of "drop_bit 1 b"] by presburger
qed

section \<open>Words of supported instructions\<close>

lemma first_decodes:
  assumes "list_all (heads i) bs" "drop_bit 21 (unat w) \<in> set bs" "g_bal_decoder_arm64_instructions ! i = m" "matches m w"
  shows "bal_decode_arm64 arm64_tables w = Some m"
proof -
  obtain rest where "word_range w = i # rest"
    using assms(1,2) by (cases "word_range w") (auto simp: list_all_iff heads_def word_range_def)
  with assms(3,4) show ?thesis by (simp add: arm64_decode matches_word_def matches_def)
qed

lemma word_bucket_of:
  assumes "matches m w" "drop_bit 21 (unat (dm_mask m)) OR f = 2047"
  shows "drop_bit 21 (unat w) = drop_bit 21 (unat (dm_expected m)) OR (drop_bit 21 (unat w) AND f)"
proof (rule bucket_of_pattern [OF word_bucket _ assms(2)])
  have "unat w AND unat (dm_mask m) = unat (dm_expected m)"
    using assms(1) by (simp add: matches_def flip: unsigned_and_eq)
  then show "drop_bit 21 (unat w) AND drop_bit 21 (unat (dm_mask m)) = drop_bit 21 (unat (dm_expected m))"
    by (simp flip: drop_bit_and)
qed

lemmas supported_defs = metadata_defs metadata_ret_def metadata_b_def table_entry_def

lemma metadata_movz64_decodes: "matches metadata_movz64 w \<Longrightarrow> bal_decode_arm64 arm64_tables w = Some metadata_movz64"
  using word_bucket_of [of metadata_movz64 w 3] free_bits(1) [of "drop_bit 21 (unat w)"]
  by (intro first_decodes [OF heads_2079 _ supported_entries(1)]) (auto simp: supported_defs)

lemma metadata_movn64_decodes: "matches metadata_movn64 w \<Longrightarrow> bal_decode_arm64 arm64_tables w = Some metadata_movn64"
  using word_bucket_of [of metadata_movn64 w 3] free_bits(1) [of "drop_bit 21 (unat w)"]
  by (intro first_decodes [OF heads_2077 _ supported_entries(2)]) (auto simp: supported_defs)

lemma metadata_movk64_decodes: "matches metadata_movk64 w \<Longrightarrow> bal_decode_arm64 arm64_tables w = Some metadata_movk64"
  using word_bucket_of [of metadata_movk64 w 3] free_bits(1) [of "drop_bit 21 (unat w)"]
  by (intro first_decodes [OF heads_2143 _ supported_entries(3)]) (auto simp: supported_defs)

lemma metadata_add_imm64_decodes: "matches metadata_add_imm64 w \<Longrightarrow> bal_decode_arm64 arm64_tables w = Some metadata_add_imm64"
  using word_bucket_of [of metadata_add_imm64 w 3] free_bits(1) [of "drop_bit 21 (unat w)"]
  by (intro first_decodes [OF heads_14 _ supported_entries(4)]) (auto simp: supported_defs)

lemma metadata_adds_imm64_decodes: "matches metadata_adds_imm64 w \<Longrightarrow> bal_decode_arm64 arm64_tables w = Some metadata_adds_imm64"
  using word_bucket_of [of metadata_adds_imm64 w 3] free_bits(1) [of "drop_bit 21 (unat w)"]
  by (intro first_decodes [OF heads_44 _ supported_entries(5)]) (auto simp: supported_defs)

lemma metadata_sub_imm64_decodes: "matches metadata_sub_imm64 w \<Longrightarrow> bal_decode_arm64 arm64_tables w = Some metadata_sub_imm64"
  using word_bucket_of [of metadata_sub_imm64 w 3] free_bits(1) [of "drop_bit 21 (unat w)"]
  by (intro first_decodes [OF heads_3311 _ supported_entries(6)]) (auto simp: supported_defs)

lemma metadata_subs_imm64_decodes: "matches metadata_subs_imm64 w \<Longrightarrow> bal_decode_arm64 arm64_tables w = Some metadata_subs_imm64"
  using word_bucket_of [of metadata_subs_imm64 w 3] free_bits(1) [of "drop_bit 21 (unat w)"]
  by (intro first_decodes [OF heads_3336 _ supported_entries(7)]) (auto simp: supported_defs)

lemma metadata_add_reg64_decodes: "matches metadata_add_reg64 w \<Longrightarrow> bal_decode_arm64 arm64_tables w = Some metadata_add_reg64"
  using word_bucket_of [of metadata_add_reg64 w 6] free_bits(2) [of "drop_bit 21 (unat w)"]
  by (intro first_decodes [OF heads_16 _ supported_entries(8)]) (auto simp: supported_defs)

lemma metadata_adds_reg64_decodes: "matches metadata_adds_reg64 w \<Longrightarrow> bal_decode_arm64 arm64_tables w = Some metadata_adds_reg64"
  using word_bucket_of [of metadata_adds_reg64 w 6] free_bits(2) [of "drop_bit 21 (unat w)"]
  by (intro first_decodes [OF heads_46 _ supported_entries(9)]) (auto simp: supported_defs)

lemma metadata_sub_reg64_decodes: "matches metadata_sub_reg64 w \<Longrightarrow> bal_decode_arm64 arm64_tables w = Some metadata_sub_reg64"
  using word_bucket_of [of metadata_sub_reg64 w 6] free_bits(2) [of "drop_bit 21 (unat w)"]
  by (intro first_decodes [OF heads_3313 _ supported_entries(10)]) (auto simp: supported_defs)

lemma metadata_subs_reg64_decodes: "matches metadata_subs_reg64 w \<Longrightarrow> bal_decode_arm64 arm64_tables w = Some metadata_subs_reg64"
  using word_bucket_of [of metadata_subs_reg64 w 6] free_bits(2) [of "drop_bit 21 (unat w)"]
  by (intro first_decodes [OF heads_3338 _ supported_entries(11)]) (auto simp: supported_defs)

lemma metadata_and_reg64_decodes: "matches metadata_and_reg64 w \<Longrightarrow> bal_decode_arm64 arm64_tables w = Some metadata_and_reg64"
  using word_bucket_of [of metadata_and_reg64 w 6] free_bits(2) [of "drop_bit 21 (unat w)"]
  by (intro first_decodes [OF heads_70 _ supported_entries(12)]) (auto simp: supported_defs)

lemma metadata_b_decodes: "matches metadata_b w \<Longrightarrow> bal_decode_arm64 arm64_tables w = Some metadata_b"
  using word_bucket_of [of metadata_b w 31] free_bits(3) [of "drop_bit 21 (unat w)"]
  by (intro first_decodes [OF heads_112 _ supported_entries(13)]) (auto simp: supported_defs)

lemma metadata_ret_decodes: "matches metadata_ret w \<Longrightarrow> bal_decode_arm64 arm64_tables w = Some metadata_ret"
  using word_bucket_of [of metadata_ret w 0]
  by (intro first_decodes [OF heads_2372 _ supported_entries(14)]) (auto simp: supported_defs)

lemma bits_30_29: "w AND 0x60000000 \<in> {0, 0x20000000, 0x40000000, 0x60000000 :: u32}"
proof -
  have three: "y AND 3 \<in> {0, 1, 2, 3}" for y :: u32
    using word_and_le1 [of y 3] by (auto simp: word_le_nat_alt word_unat_eq_iff)
  have shifted: "w AND push_bit k t = push_bit k (drop_bit k w AND t)" for k t
    by (rule bit_word_eqI) (auto simp: bit_simps)
  have "(0x60000000 :: u32) = push_bit 29 3" by simp
  then have "w AND 0x60000000 \<in> push_bit 29 ` {0, 1, 2, 3}"
    using three [of "drop_bit 29 w"] by (metis shifted image_eqI)
  then show ?thesis by simp
qed

lemma split_mask: "M = t OR (f :: u32) \<Longrightarrow> w AND M = (w AND t) OR (w AND f)"
  by (rule bit_word_eqI) (auto simp: bit_simps)

lemma data_processing_decodes:
  assumes "m \<in> set data_processing_metadata" "matches m w"
  shows "bal_decode_arm64 arm64_tables w = Some m"
proof -
  from assms(1) have "m \<in> {metadata_movz64, metadata_movn64, metadata_movk64, metadata_add_imm64, metadata_adds_imm64,
      metadata_sub_imm64, metadata_subs_imm64, metadata_add_reg64, metadata_adds_reg64, metadata_sub_reg64,
      metadata_subs_reg64, metadata_and_reg64}"
    by (simp add: data_processing_metadata_def)
  with assms(2) show ?thesis
    by (elim insertE emptyE) (simp_all only: metadata_movz64_decodes metadata_movn64_decodes metadata_movk64_decodes
        metadata_add_imm64_decodes metadata_adds_imm64_decodes metadata_sub_imm64_decodes metadata_subs_imm64_decodes
        metadata_add_reg64_decodes metadata_adds_reg64_decodes metadata_sub_reg64_decodes metadata_subs_reg64_decodes
        metadata_and_reg64_decodes)
qed

lemma arm_decode_recognised:
  assumes "arm_decode w = Some i"
  shows "\<exists>m \<in> set data_processing_metadata. bal_decode_arm64 arm64_tables w = Some m"
proof -
  have imm: "w AND 0xFF800000 = (w AND 0x9F800000) OR (w AND 0x60000000)" by (rule split_mask) simp
  have reg: "w AND 0xFF200000 = (w AND 0x9F200000) OR (w AND 0x60000000)" by (rule split_mask) simp
  from assms have "w AND 0xFF800000 = 0xD2800000 \<or> w AND 0xFF800000 = 0x92800000 \<or> w AND 0xFF800000 = 0xF2800000 \<or>
      w AND 0x9F800000 = 0x91000000 \<or> w AND 0x9F200000 = 0x8B000000 \<or> w AND 0xFF200000 = 0x8A000000"
    by (auto simp: arm_decode_def Let_def split: if_splits)
  then have "\<exists>m \<in> set data_processing_metadata. matches m w"
    using bits_30_29 [of w] imm reg by (auto simp: data_processing_metadata_def matches_def supported_defs)
  then show ?thesis using data_processing_decodes by blast
qed

lemma supported_words: "arm_decode w = Some i \<Longrightarrow> operands_agree i \<Longrightarrow> supported arm64_tables w i"
  using arm_decode_recognised [of w i] by (auto simp: supported_def)

lemma supported_branch_words:
  assumes "arm_decode_branch w = Some e" "31 \<notin> branch_registers e"
  shows "supported_branch arm64_tables w e"
proof -
  have "matches metadata_ret w \<or> matches metadata_b w"
    using assms(1) by (auto simp: arm_decode_branch_def matches_def supported_defs split: if_splits)
  with assms show ?thesis by (auto simp: supported_branch_def dest: metadata_ret_decodes metadata_b_decodes)
qed

text \<open>The words of a straight line.\<close>

lemma supported_line:
  "map arm_decode ws = map Some is \<Longrightarrow> list_all operands_agree is \<Longrightarrow> list_all2 (supported arm64_tables) ws is"
proof (induction ws arbitrary: "is")
  case (Cons w ws)
  then obtain i js where "is = i # js" "arm_decode w = Some i" "map arm_decode ws = map Some js" by auto
  with Cons supported_words show ?case by simp
qed simp

end
