(* ===== verification/Assembled_Programs.thy ===== *)
theory Assembled_Programs
  imports Arm_Assembler_Facts Block_Correctness Supported_Words
begin

text \<open>
  Programs written with the ARM64 assembler and run by the block compiler: the words the
  emitters produce mean to the compiler, over the generated decoder table, what the calls say.
\<close>

section \<open>The calls as instructions\<close>

primrec call_instr :: "arm_call \<Rightarrow> arm_instr option" where
  "call_instr (Emit_add_immediate rd rn imm sh) =
     Some (A_add_sub_imm False False (unat rd) (unat rn) (push_bit (12 * unat sh) (ucast imm)))"
| "call_instr (Emit_add_shifted_register rd rn rm sh ty) =
     (if sh = 0 then Some (A_add_sub_reg False False (unat rd) (unat rn) (unat rm)) else None)"
| "call_instr (Emit_b offset) = None"
| "call_instr (Emit_br rn) = None"
| "call_instr (Emit_sub_immediate rd rn imm sh) =
     Some (A_add_sub_imm True False (unat rd) (unat rn) (push_bit (12 * unat sh) (ucast imm)))"
| "call_instr (Emit_movz rd imm sh) = Some (A_movz (unat rd) (ucast imm) (unat sh))"
| "call_instr (Emit_movk rd imm sh) = Some (A_movk (unat rd) (ucast imm) (unat sh))"
| "call_instr (Emit_movn rd imm sh) = Some (A_movn (unat rd) (ucast imm) (unat sh))"
| "call_instr (Emit_arm_ret rn) = None"

lemma field_bits_at: "field w lo width = unat (bits_at w lo width)"
  by (simp add: field_def bits_at_def)

lemma ucast_ucast16 [simp]: "ucast (ucast (x :: u16) :: u32) = (ucast x :: u64)"
  by (rule bit_word_eqI) (auto simp: bit_simps dest: bit_imp_le_length)

lemma of_nat_ucast16: "of_nat (unat (ucast (x :: u16) :: u32)) = (ucast x :: u64)"
  by simp

lemma move_word:
  assumes "move_args rd sh" "opcode \<in> {0, 2, 3}"
  shows "field (move_wide_word opcode rd imm sh) 0 5 = unat rd"
    and "of_nat (field (move_wide_word opcode rd imm sh) 5 16) = (ucast imm :: u64)"
    and "16 * field (move_wide_word opcode rd imm sh) 21 2 = unat sh"
proof -
  note f = move_wide_fields [OF assms]
  show "field (move_wide_word opcode rd imm sh) 0 5 = unat rd"
    "of_nat (field (move_wide_word opcode rd imm sh) 5 16) = (ucast imm :: u64)"
    by (simp_all only: field_bits_at f of_nat_ucast16)
  have "bits_at (move_wide_word opcode rd imm sh) 21 2 = ucast sh div 16"
    using assms by (auto simp: move_args_def move_wide_word_def bits_at_def field_simps_at narrow_fields)
  then show "16 * field (move_wide_word opcode rd imm sh) 21 2 = unat sh"
    using assms(1) by (auto simp: field_bits_at move_args_def)
qed

lemma add_sub_word:
  assumes "add_sub_args rd rn imm sh" "hb \<in> {0x22, 0xA2}"
  defines "w \<equiv> add_sub_imm_word hb rd rn imm sh"
  shows "field w 0 5 = unat rd" "field w 5 5 = unat rn"
    and "push_bit (if bit w 22 then 12 else 0) (of_nat (field w 10 12)) = (push_bit (12 * unat sh) (ucast imm) :: u64)"
    and "bit w 30 = (hb = 0xA2)" "\<not> bit w 29"
proof -
  note f = add_sub_imm_fields [OF assms(1,2), folded w_def]
  show "field w 0 5 = unat rd" "field w 5 5 = unat rn" by (simp_all only: field_bits_at f)
  have r: "take_bit 5 rd = rd" "take_bit 5 rn = rn" "take_bit 12 (ucast imm :: u32) = ucast imm"
    using assms(1) by (simp_all add: add_sub_args_def narrow_fields)
  have imm: "bits_at w 10 12 = ucast imm"
    using assms r by (auto simp: add_sub_args_def add_sub_imm_word_def bits_at_def field_simps_at)
  have bit: "bit w k = bit (w AND 0xFF800000) k" if "bit (0xFF800000 :: u32) k" for k
    using that by (simp add: bit_and_iff)
  show "bit w 30 = (hb = 0xA2)" "\<not> bit w 29"
    using assms(2) bit [of 30] bit [of 29] unfolding f(1) by auto
  have "bit w 22 = bit (bits_at w 22 1) 0" by (simp add: bits_at_def bit_iff_odd_drop_bit)
  then have "bit w 22 = (sh = 1)"
    using assms r by (auto simp: add_sub_args_def add_sub_imm_word_def bits_at_def field_simps_at)
  then show "push_bit (if bit w 22 then 12 else 0) (of_nat (field w 10 12)) = (push_bit (12 * unat sh) (ucast imm) :: u64)"
    using assms(1) by (auto simp: field_bits_at imm of_nat_ucast16 add_sub_args_def)
qed

text \<open>A call for a supported instruction is recognised and decoded as that instruction.\<close>

lemma call_decode:
  assumes "call_error c = BAL_SUCCESS" "call_instr c = Some i"
  shows "arm_decode (arm_word c) = Some i"
proof (cases c)
  case (Emit_add_immediate rd rn imm sh)
  then have args: "add_sub_args rd rn imm sh" using assms(1) by (simp add: invalid_unless_def split: if_splits)
  note w = add_sub_word [OF args, of "0x22", simplified] add_sub_imm_fields(1) [OF args, of "0x22", simplified]
  have "add_sub_imm_word 0x22 rd rn imm sh AND 0x9F800000 = 0x91000000"
    using masked_less [OF w(6), of "0x9F800000"] by simp
  then show ?thesis using w assms(2) Emit_add_immediate by (simp add: arm_decode_def Let_def)
next
  case (Emit_sub_immediate rd rn imm sh)
  then have args: "add_sub_args rd rn imm sh" using assms(1) by (simp add: invalid_unless_def split: if_splits)
  note w = add_sub_word [OF args, of "0xA2", simplified] add_sub_imm_fields(1) [OF args, of "0xA2", simplified]
  have "add_sub_imm_word 0xA2 rd rn imm sh AND 0x9F800000 = 0x91000000"
    using masked_less [OF w(6), of "0x9F800000"] by simp
  then show ?thesis using w assms(2) Emit_sub_immediate by (simp add: arm_decode_def Let_def)
next
  case (Emit_add_shifted_register rd rn rm sh ty)
  then have args: "shifted_args rd rn rm sh ty" using assms(1) by (simp add: invalid_unless_def split: if_splits)
  note w = shifted_fields [OF args]
  let ?w = "arm_word (Emit_add_shifted_register rd rn rm sh ty)"
  have sh: "sh = 0" "i = A_add_sub_reg False False (unat rd) (unat rn) (unat rm)"
    using assms(2) Emit_add_shifted_register by (simp_all split: if_splits)
  have "?w AND 0x9F200000 = 0x8B000000" "\<not> bit ?w 30" "\<not> bit ?w 29"
    using masked_less [OF w(1), of "0x9F200000"] masked_bit [OF w(1), of 30] masked_bit [OF w(1), of 29] by simp_all
  moreover have "?w AND 0x9F800000 \<noteq> 0x91000000"
    using mask_differs [OF w(1), of "0x9F800000" "0x91000000"] by simp
  ultimately show ?thesis
    using w(2-6) sh Emit_add_shifted_register
    by (simp add: arm_decode_def Let_def field_bits_at del: arm_word.simps)
next
  case (Emit_movz rd imm sh)
  then have args: "move_args rd sh" using assms(1) by (simp add: invalid_unless_def split: if_splits)
  from move_word [OF args, of 2] move_wide_fields(1) [OF args, of 2] assms(2) Emit_movz show ?thesis
    by (simp add: arm_decode_def Let_def)
next
  case (Emit_movk rd imm sh)
  then have args: "move_args rd sh" using assms(1) by (simp add: invalid_unless_def split: if_splits)
  from move_word [OF args, of 3] move_wide_fields(1) [OF args, of 3] assms(2) Emit_movk show ?thesis
    by (simp add: arm_decode_def Let_def)
next
  case (Emit_movn rd imm sh)
  then have args: "move_args rd sh" using assms(1) by (simp add: invalid_unless_def split: if_splits)
  from move_word [OF args, of 0] move_wide_fields(1) [OF args, of 0] assms(2) Emit_movn show ?thesis
    by (simp add: arm_decode_def Let_def)
qed (use assms(2) in simp_all)

lemma ret_recognised:
  assumes "rn \<le> 30"
  shows "supported_branch arm64_tables (arm_word (Emit_arm_ret rn)) (A_ret (unat rn))"
proof (rule supported_branch_words)
  have "rn \<le> 31" using assms by (rule order_trans) simp
  note w = register_branch_fields [OF this, of "0xD65F0000", simplified]
  then show "arm_decode_branch (arm_word (Emit_arm_ret rn)) = Some (A_ret (unat rn))"
    by (simp add: arm_decode_branch_def field_bits_at)
  show "31 \<notin> branch_registers (A_ret (unat rn))" using assms by (auto simp: word_le_nat_alt)
qed

text \<open>The words of a program, as the block compiler wants them.\<close>

lemma program_supported:
  assumes "map call_instr cs = map Some is" "\<forall>c \<in> set cs. call_error c = BAL_SUCCESS"
    and "list_all operands_agree is"
  shows "list_all2 (supported arm64_tables) (map arm_word cs) is"
proof (rule supported_line [OF _ assms(3)])
  show "map arm_decode (map arm_word cs) = map Some is"
    using assms(1,2)
  proof (induction cs arbitrary: "is")
    case (Cons c cs)
    then obtain i js where "is = i # js" "call_instr c = Some i" "map call_instr cs = map Some js" by auto
    with Cons call_decode [of c i] show ?case by simp
  qed simp
qed

text \<open>The translator's view of the words: it reads guest code at the host address of the buffer.\<close>

lemma host_holds_nth:
  "(\<forall>i < length ws. host (base + 4 * of_nat i) = ws ! i) \<Longrightarrow> host_holds host base ws"
proof (induction ws arbitrary: base)
  case (Cons w ws)
  have "host (base + 4 * of_nat 0) = w" using Cons.prems by fastforce
  moreover have "host (base + 4 + 4 * of_nat i) = ws ! i" if "i < length ws" for i
    using Cons.prems [rule_format, of "Suc i"] that by (simp add: algebra_simps)
  ultimately show ?case using Cons.IH [of "base + 4"] by simp
qed simp

section \<open>Assembled programs run\<close>

text \<open>
  C30: a program written with the assembler runs as it was written, where the compiler gets
  its instructions right. Take a valid sequence of moves, additions and subtractions closed by
  a return, whose instructions satisfy \<open>operands_agree\<close> and use at most eight registers in
  all. A new assembler with room for it accepts it; the block compiler, reading the
  assembler's buffer as guest code, translates it with the generated decoder table into
  machine code that has exactly the effect the architecture gives to the calls.

  \<open>operands_agree\<close> leaves out what the assembler accepts and the compiler mistranslates: an
  addition or subtraction whose destination is its second but not its first operand (see
  \<^theory_text>\<open>Translation_Deviations\<close>), and the uses of register 31 that the compiler takes for an
  ordinary register. For the ninth register see \<^theory_text>\<open>Register_Maps\<close>.
\<close>

theorem assembled_block_runs:
  assumes "bal_assembler_init (Some a) buffer words n = (BAL_SUCCESS, Some a')" "\<not> as_oob a" "unat n \<le> length words"
    and "map call_instr cs = map Some is" "\<forall>c \<in> set cs. call_error c = BAL_SUCCESS" "list_all operands_agree is"
    and "rn \<le> 30" "length cs < unat n"
    and "program = foldl arm_emit a' (cs @ [Emit_arm_ret rn])"
    and "\<forall>i < length (as_code program). host (as_buffer a' + 4 * of_nat i) = as_code program ! i"
    and "mi_translate interface = Some translate" "translate (mi_context interface) pc = (as_buffer a', bytes)"
      "4 * length (as_code program) \<le> unat bytes"
    and "card (\<Union> (guest_registers ` set is) \<union> {unat rn}) \<le> 8"
    and "ready (block_bytes (length cs)) c" "length cs < unat max_instructions" "length cs + 1 < 2 ^ 31"
    and "flag_set flags BAL_ENGINE_FLAG_STRICT_ALIGNMENT \<Longrightarrow> pc mod 4 = 0"
  shows "as_status program = BAL_SUCCESS \<and>
    (\<exists>h c'. bal_tier1_compiler_translate host arm64_tables c (Some interface) pc max_instructions flags = Some (h, c') \<and>
      h = xa_rx_buffer (tc_assembler c) + xa_offset (tc_assembler c) \<and>
      block_computes (code_of c') (length (code_of c)) (arm_run_block flags pc is (A_ret (unat rn))))"
proof -
  note init = init_live [OF assms(1-3)]
  have "rn \<le> 31" using assms(7) by (rule order_trans) simp
  then have ok: "\<forall>c \<in> set (cs @ [Emit_arm_ret rn]). call_error c = BAL_SUCCESS" "length (cs @ [Emit_arm_ret rn]) \<le> unat n"
    using assms(5,8) by (auto simp: invalid_unless_def)
  note asm = assembled_words [OF assms(1-3) ok, folded assms(9)]
  let ?ws = "map arm_word cs" and ?w = "arm_word (Emit_arm_ret rn)"
  have code: "as_code program = ?ws @ [?w]" using asm(2) by simp
  have "length is = length cs" using assms(4) by (metis length_map)
  have memory: "block_in_memory host interface pc (?ws @ [?w])"
    using assms(10-13) init(6,8) host_holds_nth [of "?ws @ [?w]" host "as_buffer a'"]
    by (simp add: block_in_memory_def code)
  have regs: "card (\<Union> (guest_registers ` set is) \<union> branch_registers (A_ret (unat rn))) \<le> 8" using assms(14) by simp
  have room: "ready (block_bytes (length ?ws) + MACRO_BYTES * 0) c" using assms(15) by simp
  from translate_block_correct [OF room program_supported [OF assms(4,5,6)] ret_recognised [OF assms(7)] regs memory
      _ _ assms(18)] assms(16,17) asm(1)
  show ?thesis by auto
qed

definition sample_assembler :: bal_assembler_t where
  "sample_assembler = \<lparr>as_buffer = 0, as_capacity = 0, as_offset = 0, as_status = BAL_SUCCESS, as_magic = 0,
     as_mem = [], as_oob = False\<rparr>"

lemma sample_compiler_ready: "ready (block_bytes 2) sample_compiler"
proof -
  have "xa_room (block_bytes 2) (fresh_assembler 1000)"
    by (rule xa_room_mono [OF fresh_assembler_room [of 1000]])
      (simp_all add: block_bytes_def PROLOGUE_BYTES_def MACRO_BYTES_def MACROS_PER_INSTRUCTION_def)
  then show ?thesis
    using fresh_window_denotes(1) [of "fresh_assembler 1000"]
    by (simp add: ready_def sample_compiler_def xa_room_def) (simp add: fresh_window_def)
qed

theorem assembled_block_runs_witness:
  "\<exists>a' h c'. bal_assembler_init (Some sample_assembler) 0x8000 (replicate 4 0) 4 = (BAL_SUCCESS, Some a') \<and>
    as_status (foldl arm_emit a' [Emit_movz 0 42 0, Emit_add_immediate 1 0 1 0, Emit_arm_ret 30]) = BAL_SUCCESS \<and>
    bal_tier1_compiler_translate sample_host arm64_tables sample_compiler (Some sample_interface) 0 16 0 = Some (h, c') \<and>
    block_computes (code_of c') (length (code_of sample_compiler))
      (arm_run_block 0 0 [A_movz 0 42 0, A_add_sub_imm False False 1 0 1] (A_ret 30))"
proof -
  let ?cs = "[Emit_movz 0 42 0, Emit_add_immediate 1 0 1 0]"
  let ?is = "[A_movz 0 42 0, A_add_sub_imm False False 1 0 1]"
  obtain a' where init: "bal_assembler_init (Some sample_assembler) 0x8000 (replicate 4 0) 4 = (BAL_SUCCESS, Some a')"
    by (simp add: bal_assembler_init_def bal_pointer_is_aligned_def Let_def SIZE_MAX_def)
  have start: "\<not> as_oob sample_assembler" "unat (4 :: size_t) \<le> length (replicate 4 (0 :: u32))"
    by (simp_all add: sample_assembler_def)
  have cs: "map call_instr ?cs = map Some ?is" "\<forall>c \<in> set ?cs. call_error c = BAL_SUCCESS" "list_all operands_agree ?is"
    by (simp_all add: invalid_unless_def move_args_def add_sub_args_def)
  have "\<forall>c \<in> set (?cs @ [Emit_arm_ret 30]). call_error c = BAL_SUCCESS" "length (?cs @ [Emit_arm_ret 30]) \<le> unat (4 :: size_t)"
    using cs(2) by (simp_all add: invalid_unless_def)
  note code = assembled_words(2) [OF init start this]
  have words: "arm_word (Emit_movz 0 42 0) = 0xD2800540" "arm_word (Emit_add_immediate 1 0 1 0) = 0x91000401"
    "arm_word (Emit_arm_ret 30) = 0xD65F03C0"
    by (simp_all add: move_wide_word_def add_sub_imm_word_def)
  let ?p = "foldl arm_emit a' (?cs @ [Emit_arm_ret 30])"
  have code': "as_code ?p = [0xD2800540, 0x91000401, 0xD65F03C0]"
    unfolding code using words by simp
  have buffer: "as_buffer a' = 0x8000" by (rule init_live(6) [OF init start])
  have host: "\<forall>i < length (as_code ?p). sample_host (as_buffer a' + 4 * of_nat i) = as_code ?p ! i"
    unfolding code' buffer by (simp add: sample_host_def All_less_Suc)
  have iface: "mi_translate sample_interface = Some bal_flat_translation_interface_translate"
    "bal_flat_translation_interface_translate (mi_context sample_interface) 0 = (as_buffer a', 12)"
    by (simp_all add: sample_interface_def bal_flat_translation_interface_translate_def buffer)
  have "4 * length (as_code ?p) \<le> unat (12 :: size_t)" unfolding code' by simp
  note assembled_block_runs [OF init start cs _ _ refl host iface this, of sample_compiler 16 0]
  moreover have "ready (block_bytes (length ?cs)) sample_compiler"
    using sample_compiler_ready by (simp add: numeral_2_eq_2)
  ultimately show ?thesis using init by (auto simp: flag_set_def BAL_ENGINE_FLAG_STRICT_ALIGNMENT_def)
qed

end
