(* ===== verification/Hint_Instructions.thy ===== *)
theory Hint_Instructions
  imports Arm64_Decoding Block_Correctness
begin

text \<open>
  The hint instructions in the generated decoder table: the entry HINT answers for every one of
  them, the ones with an entry of their own included, and the compiler refuses it.
\<close>

lemma bucket_0x6A8: "arm64_buckets ! 0x6A8 = buckets_1536 ! 0xA8"
  by (simp add: arm64_buckets_def bucket_lists nth_append)

text \<open>A word that matches one entry does not match another one that asks for other bits.\<close>

lemma other_entry:
  assumes "unat w AND M = E" "matches_word w (g_bal_decoder_arm64_instructions ! i)"
  shows "E AND fst (entry_key i) = snd (entry_key i) AND M"
proof -
  have "unat w AND fst (entry_key i) = snd (entry_key i)"
    using assms(2) by (simp add: matches_word_def entry_key_def mask_value_def flip: unsigned_and_eq)
  with assms(1) show ?thesis by (metis and.assoc and.commute)
qed

definition metadata_hint :: bal_decoder_instruction_metadata_t where
  "metadata_hint = insn ''HINT'' 0xFFFFF01F 0xD503201F OPCODE_TRAP [op_imm 5 3, op_imm 8 4]"

definition metadata_nop :: bal_decoder_instruction_metadata_t where
  "metadata_nop = insn ''NOP'' 0xFFFFFFFF 0xD503201F OPCODE_TRAP []"

definition metadata_wfi :: bal_decoder_instruction_metadata_t where
  "metadata_wfi = insn ''WFI'' 0xFFFFFFFF 0xD503207F OPCODE_TRAP []"

lemma hint_entries:
  "g_bal_decoder_arm64_instructions ! 1263 = metadata_hint"
  "g_bal_decoder_arm64_instructions ! 2192 = metadata_nop"
  "g_bal_decoder_arm64_instructions ! 3795 = metadata_wfi"
  using list_1260 [of "\<lambda>m. m", unfolded arm64_instructions_1260_def, simplified]
    list_2184 [of "\<lambda>m. m", unfolded arm64_instructions_2184_def, simplified]
    list_3792 [of "\<lambda>m. m", unfolded arm64_instructions_3792_def, simplified]
  by (simp_all add: metadata_hint_def metadata_nop_def metadata_wfi_def)

lemma hint_range:
  "\<exists>rest. arm64_range 0x6A8 = [2158, 310, 3824, 110, 3794, 3796, 1263] @ rest"
  by (simp add: arm64_range_def bucket_0x6A8 bucket_range_def buckets_1536_def slice_5932 candidate_indexes_5932_def)

lemma hint_decodes:
  assumes "w AND 0xFFFFF01F = 0xD503201F"
  shows "bal_decode_arm64 arm64_tables w = Some metadata_hint"
proof -
  have w: "unat w AND 0xFFFFF01F = 0xD503201F"
    using arg_cong [OF assms, of unat] by (simp add: unsigned_and_eq)
  have "drop_bit 21 (unat w) AND drop_bit 21 0xFFFFF01F = drop_bit 21 (0xD503201F :: nat)"
    by (simp only: w flip: drop_bit_and)
  then have "drop_bit 21 (unat w) AND mask 11 = 0x6A8" by (simp add: mask_eq_exp_minus_1)
  then have "drop_bit 21 (unat w) = 0x6A8"
    using word_bucket [of w] by (simp add: take_bit_nat_eq_self flip: take_bit_eq_mask)
  then obtain rest where range: "word_range w = [2158, 310, 3824, 110, 3794, 3796, 1263] @ rest"
    using hint_range by (auto simp: word_range_def)
  have "\<not> matches_word w (g_bal_decoder_arm64_instructions ! i)" if "i \<in> {2158, 310, 3824, 110, 3794, 3796}" for i
    using that other_entry [OF w, of i] by (auto simp: keys_108 keys_300 keys_2148 keys_3792 keys_3816)
  moreover have "matches_word w (g_bal_decoder_arm64_instructions ! 1263)"
    using assms by (simp add: hint_entries matches_word_def metadata_hint_def insn_def)
  ultimately show ?thesis by (simp add: arm64_decode range hint_entries)
qed

text \<open>
  C31: hint instructions are not executed. NOP, WFI, YIELD, the barriers for speculation and
  pointer authentication and every other word of the hint space decode to the entry HINT, even
  where the table holds an entry for the one instruction, as for NOP and WFI. The compiler
  reports an unknown instruction for it whatever the flags of the engine are, so the flag that
  makes WFI return to the host changes nothing, and a NOP ends the block with an error.
\<close>

theorem hint_instructions_unknown:
  assumes "w AND 0xFFFFF01F = 0xD503201F"
  shows "{metadata_nop, metadata_wfi} \<subseteq> set g_bal_decoder_arm64_instructions \<and>
    matches_word 0xD503201F metadata_nop \<and> matches_word 0xD503207F metadata_wfi \<and>
    bal_decode_arm64 arm64_tables w = Some metadata_hint \<and>
    (\<exists>s'. translate_one arm64_tables flags max_instructions debug i w s = (s', False) \<and>
      tc_status (ts_compiler s') = BAL_ERROR_UNKNOWN_INSTRUCTION \<and> ts_is_block_terminated s')"
proof (intro conjI)
  have "metadata_nop \<in> set g_bal_decoder_arm64_instructions"
    unfolding hint_entries(2) [symmetric] by (rule nth_mem) (simp add: arm64_instructions)
  moreover have "metadata_wfi \<in> set g_bal_decoder_arm64_instructions"
    unfolding hint_entries(3) [symmetric] by (rule nth_mem) (simp add: arm64_instructions)
  ultimately show "{metadata_nop, metadata_wfi} \<subseteq> set g_bal_decoder_arm64_instructions" by simp
  show "matches_word 0xD503201F metadata_nop" "matches_word 0xD503207F metadata_wfi"
    by (simp_all add: matches_word_def metadata_nop_def metadata_wfi_def insn_def)
  show decode: "bal_decode_arm64 arm64_tables w = Some metadata_hint" using assms by (rule hint_decodes)
  have "\<not> trapped flags metadata_hint" "dm_ir_opcode metadata_hint = OPCODE_TRAP"
    by (simp_all add: trapped_def name_starts_def metadata_hint_def insn_def)
  moreover obtain c where c: "c = push_macro (flush_window (ts_compiler s)) (macro_zero\<lparr>mc_opcode := BAL_X86_MACRO_UD2\<rparr>)"
    by simp
  ultimately have "translate_opcode s metadata_hint w = ends_block s (c\<lparr>tc_status := BAL_ERROR_UNKNOWN_INSTRUCTION\<rparr>)"
    by (simp only: translate_opcode_def Let_def bal_opcode_t.case)
  with decode \<open>\<not> trapped flags metadata_hint\<close> show "\<exists>s'. translate_one arm64_tables flags max_instructions debug i w s = (s', False) \<and>
      tc_status (ts_compiler s') = BAL_ERROR_UNKNOWN_INSTRUCTION \<and> ts_is_block_terminated s'"
    by (simp add: translate_one_def ends_block_def)
qed

text \<open>The word of WFI, with the flag for it set, in front of a compiler without an error.\<close>

theorem hint_instructions_unknown_witness:
  "\<exists>s'. translate_one arm64_tables BAL_ENGINE_FLAG_WFI_YIELDS_HOST 16 None 0 0xD503207F
      \<lparr>ts_compiler = sample_compiler, ts_guest_address = 0, ts_is_block_terminated = False,
         ts_is_pc_dynamic = False, ts_count = 0, ts_mappings = []\<rparr> = (s', False) \<and>
    tc_status (ts_compiler s') = BAL_ERROR_UNKNOWN_INSTRUCTION"
proof -
  have "(0xD503207F :: u32) AND 0xFFFFF01F = 0xD503201F" by simp
  from hint_instructions_unknown [OF this] show ?thesis by blast
qed

end
