(* ===== verification/Guest_Programs.thy ===== *)
theory Guest_Programs
  imports Supported_Words Engine_Correctness
begin

text \<open>
  The program as it is built, with its generated decoder table, on guest code given by the
  architecture manual: one block through the compiler, and a whole guest program from the
  initialisation of the engine to its last state.
\<close>

section \<open>A block\<close>

text \<open>
  C1: block correctness. With the generated decoder table, a compiler that is ready and has
  room translates any block of words that the architecture reads as supported instructions
  over at most eight guest registers and a final RET or B. The
  answer is the address of new code behind the old code, which is unchanged; calling it with
  the CPU structure in RDI returns to its caller with the stack and the callee saved
  registers restored, the guest state changed exactly as the architecture says (registers,
  flags, program counter, instruction count), and no other memory written. The compiler is
  ready for the next block.
\<close>

theorem tier1_block_correct:
  assumes "ready (block_bytes (length ws) + MACRO_BYTES * k) c"
    and "map arm_decode ws = map Some is" "list_all operands_agree is"
    and "arm_decode_branch w = Some e" "31 \<notin> branch_registers e"
    and "card (\<Union> (guest_registers ` set is) \<union> branch_registers e) \<le> 8"
    and "block_in_memory host interface pc (ws @ [w])"
    and "length ws < unat max_instructions" "length ws + 1 < 2 ^ 31"
    and "flag_set flags BAL_ENGINE_FLAG_STRICT_ALIGNMENT \<Longrightarrow> pc mod 4 = 0"
  shows "\<exists>c'. bal_tier1_compiler_translate host arm64_tables c (Some interface) pc max_instructions flags =
      Some (xa_rx_buffer (tc_assembler c) + xa_offset (tc_assembler c), c') \<and>
    block_computes (code_of c') (length (code_of c)) (arm_run_block flags pc is e) \<and>
    take (length (code_of c)) (code_of c') = code_of c \<and>
    buffer_of (tc_assembler c') = buffer_of (tc_assembler c) \<and> ready (MACRO_BYTES * k) c'"
  by (rule translate_block_correct [OF assms(1) supported_line [OF assms(2,3)] supported_branch_words [OF assms(4,5)]
      assms(6-10)])

theorem tier1_block_correct_witness:
  "\<exists>c'. bal_tier1_compiler_translate sample_host arm64_tables sample_compiler (Some sample_interface)
      0 16 BAL_ENGINE_FLAG_INSTRUCTION_COUNTING = Some (0x20000, c') \<and>
    block_computes (code_of c') 0 (arm_run_block BAL_ENGINE_FLAG_INSTRUCTION_COUNTING 0
      [A_movz 0 42 0, A_add_sub_imm False False 1 0 1] (A_ret 30)) \<and>
    take 0 (code_of c') = [] \<and>
    buffer_of (tc_assembler c') = buffer_of (tc_assembler sample_compiler) \<and> ready (MACRO_BYTES * 0) c'"
proof -
  let ?ws = "[0xD2800540, 0x91000401] :: u32 list"
  have code: "code_of sample_compiler = []"
    "xa_rx_buffer (tc_assembler sample_compiler) + xa_offset (tc_assembler sample_compiler) = 0x20000"
    by (simp_all add: code_of_def xa_code_def sample_compiler_def fresh_assembler_def)
  have "xa_room (block_bytes (length ?ws)) (fresh_assembler 1000)"
    by (rule xa_room_mono [OF fresh_assembler_room [of 1000]])
      (simp_all add: block_bytes_def PROLOGUE_BYTES_def MACRO_BYTES_def MACROS_PER_INSTRUCTION_def)
  then have ready: "ready (block_bytes (length ?ws) + MACRO_BYTES * 0) sample_compiler"
    using fresh_window_denotes(1) [of "fresh_assembler 1000"]
    by (simp add: ready_def sample_compiler_def xa_room_def) (simp add: fresh_window_def)
  have words: "map arm_decode ?ws = map Some [A_movz 0 42 0, A_add_sub_imm False False 1 0 1]"
    "list_all operands_agree [A_movz 0 42 0, A_add_sub_imm False False 1 0 1]"
    and branch: "arm_decode_branch 0xD65F03C0 = Some (A_ret 30)" by code_simp+
  have memory: "block_in_memory sample_host sample_interface 0 (?ws @ [0xD65F03C0])"
    by (simp add: block_in_memory_def sample_interface_def bal_flat_translation_interface_translate_def
        sample_host_def)
  show ?thesis
    using tier1_block_correct [OF ready words branch _ _ memory, of 16 BAL_ENGINE_FLAG_INSTRUCTION_COUNTING]
    by (simp add: code)
qed

section \<open>A guest program\<close>

text \<open>
  A guest program in memory: at each program counter it is entered at, words that the
  architecture reads as a line of supported instructions and the branch behind it.
\<close>

definition guest_block ::
  "u32 \<Rightarrow> 'c bal_memory_interface_t \<Rightarrow> nat \<Rightarrow> x86_state \<Rightarrow> u64 \<Rightarrow> arm_instr list \<Rightarrow> arm_branch \<Rightarrow> bool" where
  "guest_block flags interface L m pc is e \<longleftrightarrow> (\<exists>ws w.
     map arm_decode ws = map Some is \<and> list_all operands_agree is \<and>
     arm_decode_branch w = Some e \<and> 31 \<notin> branch_registers e \<and>
     card (\<Union> (guest_registers ` set is) \<union> branch_registers e) \<le> 8 \<and>
     block_in_memory (host_word m) interface pc (ws @ [w]) \<and> length ws \<le> L \<and>
     (flag_set flags BAL_ENGINE_FLAG_STRICT_ALIGNMENT \<longrightarrow> pc mod 4 = 0))"

definition guest_program_in_memory ::
  "u32 \<Rightarrow> 'c bal_memory_interface_t \<Rightarrow> nat \<Rightarrow> u64 \<Rightarrow> guest_program \<Rightarrow> x86_state \<Rightarrow> bool" where
  "guest_program_in_memory flags interface L cpu P m \<longleftrightarrow>
     (\<forall>m' pc is e. outside_cpu cpu m m' \<longrightarrow> P pc = Some (is, e) \<longrightarrow> guest_block flags interface L m' pc is e)"

lemma guest_program_supported:
  "guest_program_in_memory flags interface L cpu P m \<Longrightarrow> program_in_memory arm64_tables flags interface L cpu P m"
  unfolding guest_program_in_memory_def program_in_memory_def guest_block_def program_block_def
  by (blast intro: supported_line supported_branch_words)

text \<open>
  C3: from initialisation to the last state. With valid arguments, an allocator whose requests
  succeed and an executable mapping that does not wrap around the address space,
  \<open>bal_engine_init\<close> succeeds. If guest memory holds, as words of the architecture, a program of
  supported blocks that reaches the sentinel after at most \<open>n\<close> blocks that fit the 16 MiB
  buffer, the thread function of the new engine, with the generated decoder table, returns
  success, and the CPU structure holds the state the architecture prescribes; no other memory
  of the guest is changed.
\<close>

theorem engine_executes_program:
  assumes "init_arguments_ok cpu (Some a) (Some interface)"
    and "the (al_allocate a) heap MEMORY_ALIGNMENT SIZEOF_INTERNAL_ENGINE_STATE = (state, heap1)" "state \<noteq> 0"
    and "the (al_allocate_executable a) heap1 4096 TIER1_BUFFER_SIZE_BYTES = (buffer, heap2)"
    and "eb_rw_pointer buffer \<noteq> 0" "eb_rx_pointer buffer \<noteq> 0" "unat (eb_rx_pointer buffer) < 2 ^ 64 - 2 ^ 24"
    and "length bytes = 2 ^ 24" "MACRO_BYTES * (BLOCK_MACROS L * n) \<le> 2 ^ 24"
    and "bal_engine_init installs bytes (Some engine) cpu (Some a) (Some interface) heap mem = (err, engine', heap', mem')"
    and "guest_program_in_memory flags interface L cpu P (m\<lparr>xs_mem := mem'\<rparr>)"
    and "free_running flags" "L < 65535" "arm_run_program flags P n (cpu_view mem' cpu) = Some g"
  shows "err = BAL_SUCCESS \<and> (\<exists>e k w'. engine' = Some e \<and>
    (\<forall>steps \<ge> k. bal_engine_run_thread arm64_tables return_site steps
      \<lparr>ew_engine = e\<lparr>en_flags := flags\<rparr>, ew_heap = heap', ew_machine = m\<lparr>xs_mem := mem'\<rparr>\<rparr> =
        Some (Inr (BAL_SUCCESS, w'))) \<and>
    cpu_view (xs_mem (ew_machine w')) cpu = g \<and> outside_cpu cpu (m\<lparr>xs_mem := mem'\<rparr>) (ew_machine w'))"
proof -
  from engine_init_ready [OF assms(1-10) guest_program_supported [OF assms(11)]] obtain e where
    e: "err = BAL_SUCCESS" "engine' = Some e" "en_status e = BAL_SUCCESS"
      "engine_runs arm64_tables flags interface L cpu P n
        \<lparr>ew_engine = e\<lparr>en_flags := flags\<rparr>, ew_heap = heap', ew_machine = m\<lparr>xs_mem := mem'\<rparr>\<rparr>" by blast
  from engine_runs_guest [OF e(4) assms(12,13), of g return_site] assms(14) e(1-3) show ?thesis by auto
qed

lemma sample_guest_program:
  assumes "\<And>p. 0x8000 \<le> p \<Longrightarrow> p < 0x800C \<Longrightarrow> xs_mem m p = sample_memory p"
  shows "guest_program_in_memory 0 sample_interface 2 0x4000 sample_program m"
proof -
  have words: "map arm_decode [0xD2800540, 0x91000401] = map Some [A_movz 0 42 0, A_add_sub_imm False False 1 0 1]"
    "list_all operands_agree [A_movz 0 42 0, A_add_sub_imm False False 1 0 1]"
    and branch: "arm_decode_branch 0xD65F03C0 = Some (A_ret 30)" by code_simp+
  have "guest_block 0 sample_interface 2 m' 0 [A_movz 0 42 0, A_add_sub_imm False False 1 0 1] (A_ret 30)"
    if "outside_cpu 0x4000 m m'" for m'
    using words branch sample_block [OF assms that] unfolding guest_block_def
    by (intro exI [of _ "[0xD2800540, 0x91000401]"] exI [of _ "0xD65F03C0"]) (simp add: flag_set_def)
  then show ?thesis by (auto simp: guest_program_in_memory_def sample_program_def)
qed

theorem engine_executes_program_witness:
  "\<exists>e heap mem k w'. bal_engine_init (True, True) sample_mapping (Some engine_zero) 0x4000
      (Some sample_allocator) (Some sample_interface) 0x100000 sample_memory = (BAL_SUCCESS, Some e, heap, mem) \<and>
    (\<forall>steps \<ge> k. bal_engine_run_thread arm64_tables 0x400000 steps
      \<lparr>ew_engine = e\<lparr>en_flags := 0\<rparr>, ew_heap = heap, ew_machine = sample_machine\<lparr>xs_mem := mem\<rparr>\<rparr> =
        Some (Inr (BAL_SUCCESS, w'))) \<and>
    gs_x (cpu_view (xs_mem (ew_machine w')) 0x4000) 0 = 42 \<and>
    gs_x (cpu_view (xs_mem (ew_machine w')) 0x4000) 1 = 43 \<and>
    gs_pc (cpu_view (xs_mem (ew_machine w')) 0x4000) = BAL_ENGINE_SENTINEL"
proof -
  obtain err e heap mem where init: "bal_engine_init (True, True) sample_mapping (Some engine_zero) 0x4000
      (Some sample_allocator) (Some sample_interface) 0x100000 sample_memory = (err, e, heap, mem)"
    by (rule prod_cases4)
  have prog: "guest_program_in_memory 0 sample_interface 2 0x4000 sample_program (sample_machine\<lparr>xs_mem := mem\<rparr>)"
    using sample_memory_after(1) [OF engine_init_memory [OF init]] by (intro sample_guest_program) simp
  from sample_outcome [OF init] obtain g where g: "arm_run_program 0 sample_program 1 (cpu_view mem 0x4000) = Some g"
    "gs_pc g = BAL_ENGINE_SENTINEL" "gs_x g 0 = 42" "gs_x g 1 = 43" .
  from engine_executes_program [OF sample_init_arguments(1,2) _ sample_init_arguments(3) _ _ _ sample_mapping_length
      sample_init_arguments(4) init prog _ _ g(1), of "0x400000"] init g(2-4)
  show ?thesis by (fastforce simp: free_running_def flag_set_def)
qed

end
