(* ===== verification/Translation_Ending.thy ===== *)
theory Translation_Ending
  imports Block_Correctness
begin

text \<open>
  When a translation ends: over the flat memory interface it returns if every word of guest
  memory decodes, and then it refuses every block after an error; it never returns when it
  reaches a word that does not decode.
\<close>

section \<open>Progress of the loops\<close>

lemma translate_opcode_address:
  "\<not> ts_is_block_terminated (translate_opcode s m w) \<Longrightarrow>
   ts_guest_address (translate_opcode s m w) = ts_guest_address s"
  by (cases "dm_ir_opcode m") (auto simp: translate_opcode_def Let_def ends_block_def split: prod.splits if_splits)

lemma translate_one_progress:
  assumes "bal_decode_arm64 tables w \<noteq> None" "translate_one tables flags max_instructions debug i w s = (s', go)"
  shows "if go then \<not> ts_is_block_terminated s' \<and> ts_guest_address s' = ts_guest_address s + 4 \<and> i + 1 \<noteq> max_instructions
    else ts_is_block_terminated s'"
  using assms translate_opcode_address [of s _ w]
  by (auto simp: translate_one_def Let_def split: option.splits if_splits)

lemma translate_words_progress:
  assumes "\<forall>k < n. bal_decode_arm64 tables (host (cursor + 4 * of_nat k)) \<noteq> None"
    and "unat i + n \<le> unat max_instructions" "0 < n"
    and "translate_words host tables flags max_instructions debug n i cursor s = s'"
  shows "ts_is_block_terminated s' \<or>
    ts_guest_address s' = ts_guest_address s + 4 * of_nat n \<and> unat i + n < unat max_instructions"
  using assms
proof (induction n arbitrary: i cursor s)
  case (Suc n)
  have i: "unat (i + 1) = unat i + 1"
    using Suc.prems(2) length_bound_size_t [of max_instructions] unat_add_of_nat [of i 1] by simp
  obtain s1 go where one: "translate_one tables flags max_instructions debug i (host cursor) s = (s1, go)" by fastforce
  have dec: "bal_decode_arm64 tables (host cursor) \<noteq> None" using Suc.prems(1) by fastforce
  note p = translate_one_progress [OF dec one]
  show ?case
  proof (cases go)
    case False
    then show ?thesis using p one Suc.prems(4) by simp
  next
    case True
    then have s': "translate_words host tables flags max_instructions debug n (i + 1) (cursor + 4) s1 = s'"
      using one Suc.prems(4) by simp
    show ?thesis
    proof (cases "n = 0")
      case True
      have "i + 1 \<noteq> max_instructions" using p \<open>go\<close> by simp
      then have "unat i + 1 \<noteq> unat max_instructions" using i by (metis word_unat_eq_iff)
      then show ?thesis using True p \<open>go\<close> s' Suc.prems(2) by simp
    next
      case False
      have "\<forall>k < n. bal_decode_arm64 tables (host (cursor + 4 + 4 * of_nat k)) \<noteq> None"
      proof (intro allI impI)
        fix k assume "k < n"
        then show "bal_decode_arm64 tables (host (cursor + 4 + 4 * of_nat k)) \<noteq> None"
          using Suc.prems(1) [rule_format, of "Suc k"] by (simp add: algebra_simps)
      qed
      from Suc.IH [OF this _ _ s'] False Suc.prems(2) i p \<open>go\<close> show ?thesis by (auto simp: algebra_simps)
    qed
  qed
qed simp

text \<open>
  Over the flat interface the second pass of the outer loop is the last one: the first reads
  all whole words up to the end of the buffer.
\<close>

definition flat_decodes :: "decoder_tables \<Rightarrow> (u64 \<Rightarrow> u32) \<Rightarrow> flat_translation_interface_t \<Rightarrow> bool" where
  "flat_decodes tables host ctx \<longleftrightarrow> (\<forall>off < ft_size ctx. bal_decode_arm64 tables (host (ft_host ctx + off)) \<noteq> None)"

lemma flat_readable:
  assumes "g < (sz :: u64)" "r = (sz - g) div 4"
  shows "\<forall>k < unat r. g + 4 * of_nat k < sz"
    and "sz \<le> g + 4 * of_nat (unat r) \<or> (sz - (g + 4 * of_nat (unat r))) div 4 = 0"
proof -
  have less: "unat g < unat sz" using assms(1) by (simp add: word_less_nat_alt)
  have diff: "unat (sz - g) = unat sz - unat g" using assms(1) by (simp add: unat_sub)
  have r: "unat r = (unat sz - unat g) div 4" by (simp add: assms(2) unat_div diff)
  have at: "unat (g + 4 * of_nat k) = unat g + 4 * k" if "k \<le> unat r" for k
  proof -
    have "4 * k \<le> unat sz - unat g" using that unfolding r by linarith
    moreover have "unat sz < 2 ^ 64" by (rule length_bound_size_t)
    ultimately show ?thesis using less unat_add_of_nat [of g "4 * k"] by simp
  qed
  show "\<forall>k < unat r. g + 4 * of_nat k < sz"
  proof (intro allI impI)
    fix k assume "k < unat r"
    moreover have "k < x div 4 \<Longrightarrow> 4 * (k + 1) \<le> x" for x :: nat by presburger
    ultimately have "4 * (k + 1) \<le> unat sz - unat g" unfolding r by blast
    with at [of k] \<open>k < unat r\<close> less show "g + 4 * of_nat k < sz" by (simp add: word_less_nat_alt)
  qed
  let ?g = "g + 4 * of_nat (unat r)"
  have g: "unat ?g = unat g + 4 * unat r" by (rule at) simp
  show "sz \<le> ?g \<or> (sz - ?g) div 4 = 0"
  proof (cases "sz \<le> ?g")
    case False
    then have "?g \<le> sz" by simp
    then have "unat (sz - ?g) = unat sz - unat ?g" by (rule unat_sub)
    then have "unat (sz - ?g) = unat sz - unat g - 4 * unat r" by (simp only: g diff_diff_left)
    moreover have "x - 4 * (x div 4) < 4" for x :: nat by (simp add: minus_mult_div_eq_mod)
    then have "unat sz - unat g - 4 * ((unat sz - unat g) div 4) < 4" .
    ultimately have "unat (sz - ?g) < 4" by (simp only: r)
    then have "unat ((sz - ?g) div 4) = 0" by (simp add: unat_div)
    then show ?thesis by (simp only: unat_eq_0) simp
  qed simp
qed

lemma flat_loop_returns:
  assumes dec: "flat_decodes tables host ctx" and max: "max_instructions \<noteq> 0"
  shows "\<exists>s'. translate_loop host (bal_flat_translation_interface_translate (Some ctx)) tables flags max_instructions debug s = Some s'"
proof -
  let ?T = "bal_flat_translation_interface_translate (Some ctx)"
  let ?loop = "translate_loop host ?T tables flags max_instructions debug"
  have stops: "\<exists>s'. ?loop s = Some s'" if "\<exists>s1. translate_chunk host ?T tables flags max_instructions debug s = Inl s1" for s
    using that by (subst translate_loop.simps) auto
  have over: "\<exists>s'. ?loop s = Some s'" if "ts_is_block_terminated s" for s
    using that by (subst translate_loop.simps) simp
  have late: "\<exists>s'. ?loop s = Some s'"
    if "ft_size ctx \<le> ts_guest_address s \<or> (ft_size ctx - ts_guest_address s) div 4 = 0" for s
    using that by (intro stops) (auto simp: translate_chunk_def bal_flat_translation_interface_translate_def Let_def)
  show ?thesis
  proof (cases "translate_chunk host ?T tables flags max_instructions debug s")
    case (Inl s1)
    then show ?thesis by (intro stops) blast
  next
    case (Inr s1)
    let ?g = "ts_guest_address s" and ?r = "(ft_size ctx - ts_guest_address s) div 4"
    let ?n = "unat (if max_instructions < ?r then max_instructions else ?r)"
    from Inr have in_range: "?g < ft_size ctx" "?r \<noteq> 0"
      and s1: "translate_words host tables flags max_instructions debug ?n 0 (ft_host ctx + ?g) s = s1"
      by (auto simp: translate_chunk_def bal_flat_translation_interface_translate_def Let_def not_le split: if_splits)
    note readable = flat_readable [OF in_range(1) refl]
    have le: "?n \<le> unat ?r" by (simp add: word_less_nat_alt)
    have "\<forall>k < ?n. bal_decode_arm64 tables (host (ft_host ctx + ?g + 4 * of_nat k)) \<noteq> None"
    proof (intro allI impI)
      fix k assume "k < ?n"
      then have "?g + 4 * of_nat k < ft_size ctx" using readable(1) le by simp
      with dec show "bal_decode_arm64 tables (host (ft_host ctx + ?g + 4 * of_nat k)) \<noteq> None"
        by (simp add: flat_decodes_def add.assoc)
    qed
    moreover have "unat (0 :: size_t) + ?n \<le> unat max_instructions" by (simp add: word_less_nat_alt)
    moreover have "0 < ?n" using max in_range(2) by (simp add: unat_gt_0)
    ultimately have progress: "ts_is_block_terminated s1 \<or>
        ts_guest_address s1 = ?g + 4 * of_nat ?n \<and> unat (0 :: size_t) + ?n < unat max_instructions"
      using s1 by (rule translate_words_progress)
    have "\<exists>s'. ?loop s1 = Some s'"
    proof (cases "ts_is_block_terminated s1")
      case False
      with progress have "\<not> max_instructions < ?r" "ts_guest_address s1 = ?g + 4 * of_nat (unat ?r)"
        by (auto split: if_splits)
      with readable(2) show ?thesis by (intro late) simp
    qed (rule over)
    then show ?thesis using over Inr by (subst translate_loop.simps) auto
  qed
qed

section \<open>Words that do not decode\<close>

text \<open>
  A pass that starts at an undecodable word leaves the inner loop at once, with the block
  not terminated and the state unchanged: the outer loop repeats it forever.
\<close>

lemma loop_stuck:
  assumes "translate (ts_guest_address s) = (base, bytes)" "base \<noteq> 0" "4 \<le> unat bytes" "max_instructions \<noteq> 0"
    and "flag_set flags BAL_ENGINE_FLAG_STRICT_ALIGNMENT \<Longrightarrow> ts_guest_address s mod 4 = 0"
    and "bal_decode_arm64 tables (host base) = None" "\<not> ts_is_block_terminated s"
  shows "translate_loop host translate tables flags max_instructions debug s = None"
proof -
  have nz: "bytes div 4 \<noteq> 0"
  proof
    assume "bytes div 4 = 0"
    then have "unat (bytes div 4) = 0" by simp
    then show False using assms(3) by (simp add: unat_div)
  qed
  have one: "translate_one tables flags max_instructions debug 0 (host base) s = (s, False)"
    using assms(6,7) by (simp add: translate_one_def)
  have words: "translate_words host tables flags max_instructions debug n 0 base s = s" for n
    by (cases n) (simp_all add: one)
  have chunk: "translate_chunk host translate tables flags max_instructions debug s = Inr s"
    using assms nz by (auto simp: translate_chunk_def Let_def words)
  let ?P = "\<lambda>h tr ta fl mx db t y. h = host \<longrightarrow> tr = translate \<longrightarrow> ta = tables \<longrightarrow> fl = flags \<longrightarrow>
      mx = max_instructions \<longrightarrow> db = debug \<longrightarrow> t \<noteq> s"
  have "?P h tr ta fl mx db t y" if "translate_loop h tr ta fl mx db t = Some y" for h tr ta fl mx db t y
    using that
  proof (rule translate_loop.raw_induct [where P = ?P, rotated], goal_cases)
    case (1 f h tr ta fl mx db t y)
    show ?case
    proof (intro impI notI)
      assume "h = host" "tr = translate" "ta = tables" "fl = flags" "mx = max_instructions" "db = debug" "t = s"
      with 1(2) chunk assms(7) have "f host translate tables flags max_instructions debug s = Some y" by simp
      from 1(1) [OF this] show False by simp
    qed
  qed
  then have "translate_loop host translate tables flags max_instructions debug s \<noteq> Some y" for y by blast
  then show ?thesis by fastforce
qed


section \<open>Errors stay\<close>

text \<open>No operation of the compiler but its reset turns a failed compiler into a good one.\<close>

lemma allocate_failed [simp]:
  "tc_status c \<noteq> BAL_SUCCESS \<Longrightarrow> allocate_x86_register c arm skip = (BAL_X86_INVALID, c)"
  by (simp add: allocate_x86_register_def Let_def)

lemma push_macros_status [simp]: "tc_status (push_macros c ms) = tc_status c"
  by (induction ms arbitrary: c) (simp_all add: push_macros_def)

lemma flush_dirty_status [simp]: "tc_status (flush_dirty_registers c) = tc_status c"
  by (simp add: flush_dirty_eq del: upt_rec_numeral)

lemma emit_call_status [simp]: "tc_status (emit_call c x) = tc_status c"
  by (simp add: emit_call_def)

lemma terminate_block_status [simp]: "tc_status (terminate_block c pc dyn n flags) = tc_status c"
  by (simp add: terminate_block_def Let_def)

lemma terminate_block_conditional_status [simp]:
  "tc_status (terminate_block_conditional c cond ft taken) = tc_status c"
  by (simp add: terminate_block_conditional_def Let_def)

lemma mark_dirty_status [simp]: "tc_status (mark_dirty c rd) = tc_status c"
  by (simp add: mark_dirty_def)

lemma prepare_destination_status:
  assumes "tc_status c \<noteq> BAL_SUCCESS"
  shows "tc_status (snd (prepare_destination c discard rd rn)) = tc_status c"
  using assms by (simp add: prepare_destination_def)

lemma translate_status:
  assumes "tc_status c \<noteq> BAL_SUCCESS"
  shows "tc_status (translate_add_sub_imm c m w is_sub) \<noteq> BAL_SUCCESS"
    "tc_status (translate_add_sub_reg c m w is_sub) \<noteq> BAL_SUCCESS"
    "tc_status (translate_mov_immediate c m w) \<noteq> BAL_SUCCESS"
    "tc_status (translate_cbz_cbnz c m w pc nz) \<noteq> BAL_SUCCESS"
    "tc_status (translate_and c m w) \<noteq> BAL_SUCCESS"
    "tc_status (translate_mov_register c m w) \<noteq> BAL_SUCCESS"
    "tc_status (translate_b_cond c w pc) \<noteq> BAL_SUCCESS"
  by (simp_all add: assms prepare_destination_status translate_add_sub_imm_def translate_add_sub_reg_def translate_mov_immediate_def
      translate_cbz_cbnz_def translate_and_def translate_mov_register_def translate_b_cond_def
      Let_def case_prod_unfold split: option.split)

lemma translate_opcode_status:
  assumes "tc_status (ts_compiler s) \<noteq> BAL_SUCCESS"
  shows "tc_status (ts_compiler (translate_opcode s m w)) \<noteq> BAL_SUCCESS"
  by (cases "dm_ir_opcode m")
    (simp_all add: translate_opcode_def Let_def ends_block_def translate_status assms)

lemma translate_one_status:
  assumes "tc_status (ts_compiler s) \<noteq> BAL_SUCCESS"
  shows "tc_status (ts_compiler (fst (translate_one tables flags max_instructions debug i w s))) \<noteq> BAL_SUCCESS"
  by (simp add: translate_one_def Let_def translate_opcode_status assms split: option.split)

lemma translate_words_status:
  "tc_status (ts_compiler s) \<noteq> BAL_SUCCESS \<Longrightarrow>
   tc_status (ts_compiler (translate_words host tables flags max_instructions debug n i cursor s)) \<noteq> BAL_SUCCESS"
  by (induction n arbitrary: i cursor s) (simp_all add: case_prod_unfold translate_one_status)

lemma translate_chunk_status:
  "translate_chunk host translate tables flags max_instructions debug s = Inr s' \<Longrightarrow>
     tc_status (ts_compiler s) \<noteq> BAL_SUCCESS \<Longrightarrow> tc_status (ts_compiler s') \<noteq> BAL_SUCCESS"
  "translate_chunk host translate tables flags max_instructions debug s = Inl s' \<Longrightarrow>
     tc_status (ts_compiler s') \<noteq> BAL_SUCCESS"
  by (auto simp: translate_chunk_def Let_def translate_words_status split: prod.splits if_splits)

lemma translate_loop_status:
  assumes "translate_loop host translate tables flags max_instructions debug s = Some s'"
    "tc_status (ts_compiler s') = BAL_SUCCESS"
  shows "tc_status (ts_compiler s) = BAL_SUCCESS"
proof -
  let ?P = "\<lambda>h tr ta fl mx db t t'. tc_status (ts_compiler t') = BAL_SUCCESS \<longrightarrow> tc_status (ts_compiler t) = BAL_SUCCESS"
  have "?P host translate tables flags max_instructions debug s s'"
    using assms(1)
  proof (rule translate_loop.raw_induct [where P = ?P, rotated], goal_cases)
    case (1 f h tr ta fl mx db t y)
    show ?case
    proof (cases "ts_is_block_terminated t")
      case False
      with 1(2) 1(1) show ?thesis
        by (auto split: sum.splits dest: translate_chunk_status)
    qed (use 1(2) in simp)
  qed
  with assms(2) show ?thesis by simp
qed


section \<open>The results\<close>

definition start_state :: "bal_tier1_compiler_t \<Rightarrow> u64 \<Rightarrow> translate_state" where
  "start_state c pc = \<lparr>ts_compiler = emit_calls (reset_register_allocator c) block_prologue, ts_guest_address = pc,
     ts_is_block_terminated = False, ts_is_pc_dynamic = False, ts_count = 0, ts_mappings = []\<rparr>"

definition block_answer :: "bal_tier1_compiler_t \<Rightarrow> translate_state \<Rightarrow> u64 \<Rightarrow> bal_tier1_compiler_t \<Rightarrow> bool" where
  "block_answer c s h c' \<longleftrightarrow> tc_status c' = tc_status (ts_compiler s) \<and>
     h = (if tc_status c' = BAL_SUCCESS \<and> xa_status (tc_assembler c') = BAL_SUCCESS
       then xa_rx_buffer (tc_assembler c) + xa_offset (tc_assembler c) else 0)"

lemma translate_from_loop:
  fixes c :: bal_tier1_compiler_t
  assumes mi: "mi_translate interface = Some translate" and max: "max_instructions \<noteq> 0"
  obtains debug where
    "translate_loop host (translate (mi_context interface)) tables flags max_instructions debug (start_state c pc) = None \<Longrightarrow>
      bal_tier1_compiler_translate host tables c (Some interface) pc max_instructions flags = None"
    "\<And>s. translate_loop host (translate (mi_context interface)) tables flags max_instructions debug (start_state c pc) = Some s \<Longrightarrow>
      \<exists>h c'. bal_tier1_compiler_translate host tables c (Some interface) pc max_instructions flags = Some (h, c') \<and>
        block_answer c s h c'"
proof -
  have asm: "tc_assembler (reset_register_allocator c) = tc_assembler c" by (simp add: reset_register_allocator_def)
  define debug where "debug = (if debug_enabled (reset_register_allocator c) flags then Some (xa_offset (tc_assembler c), pc) else None)"
  show thesis
  proof (rule that [of debug], goal_cases)
    case 1
    then show ?case
      using mi max unfolding bal_tier1_compiler_translate_def Let_def asm debug_def start_state_def by simp
  next
    case (2 s)
    then show ?case
      using mi max unfolding bal_tier1_compiler_translate_def Let_def asm debug_def start_state_def block_answer_def by auto
  qed
qed

text \<open>
  C32: over the flat interface with a memory of decodable words a translation always returns,
  and its answer is the address behind the old code when no error has occurred and NULL
  otherwise.
\<close>

theorem flat_translation_returns:
  fixes c :: bal_tier1_compiler_t
  assumes "mi_translate interface = Some bal_flat_translation_interface_translate"
    and "mi_context interface = Some ctx" "flat_decodes tables host ctx"
  shows "\<exists>h c'. bal_tier1_compiler_translate host tables c (Some interface) pc max_instructions flags = Some (h, c') \<and>
    h = (if tc_status c' = BAL_SUCCESS \<and> xa_status (tc_assembler c') = BAL_SUCCESS
         then xa_rx_buffer (tc_assembler c) + xa_offset (tc_assembler c) else 0)"
proof (cases "max_instructions = 0")
  case True
  then show ?thesis using assms by (simp add: bal_tier1_compiler_translate_def)
next
  case False
  from flat_loop_returns [OF assms(3) False] have returns: "\<exists>s. translate_loop host
      (bal_flat_translation_interface_translate (mi_context interface)) tables flags max_instructions debug (start_state c pc) = Some s"
    for debug unfolding assms(2) by blast
  show ?thesis
  proof (rule translate_from_loop [OF assms(1) False])
    fix debug
    assume "\<And>s. translate_loop host (bal_flat_translation_interface_translate (mi_context interface)) tables flags
        max_instructions debug (start_state c pc) = Some s \<Longrightarrow>
      \<exists>h c'. bal_tier1_compiler_translate host tables c (Some interface) pc max_instructions flags = Some (h, c') \<and>
        block_answer c s h c'"
    with returns [of debug] show ?thesis unfolding block_answer_def by blast
  qed
qed

definition sample_context :: flat_translation_interface_t where
  "sample_context = \<lparr>ft_host = 0x8000, ft_size = 12, ft_block = 0x100\<rparr>"

lemma sample_flat_decodes: "flat_decodes sample_tables sample_host sample_context"
  by (simp add: flat_decodes_def sample_host_def sample_decode)

lemma sample_interface_flat:
  "mi_translate sample_interface = Some bal_flat_translation_interface_translate"
  "mi_context sample_interface = Some sample_context"
  by (simp_all add: sample_interface_def sample_context_def)

theorem flat_translation_returns_witness:
  "\<exists>h c'. bal_tier1_compiler_translate sample_host sample_tables sample_compiler (Some sample_interface) 4 1 0 = Some (h, c') \<and>
    h = (if tc_status c' = BAL_SUCCESS \<and> xa_status (tc_assembler c') = BAL_SUCCESS
         then xa_rx_buffer (tc_assembler sample_compiler) + xa_offset (tc_assembler sample_compiler) else 0)"
  by (rule flat_translation_returns [OF sample_interface_flat sample_flat_decodes])

text \<open>
  A failed compiler stays failed: over the flat interface and a memory of decodable words a
  translation that starts with an error in the status ends with NULL and an error in the
  status. (Without these it may also hang, see below.)
\<close>

lemma compiler_failure_sticks:
  fixes c :: bal_tier1_compiler_t
  assumes "tc_status c \<noteq> BAL_SUCCESS"
    and "mi_translate interface = Some bal_flat_translation_interface_translate"
    and "mi_context interface = Some ctx" "flat_decodes tables host ctx"
  shows "\<exists>c'. bal_tier1_compiler_translate host tables c (Some interface) pc max_instructions flags = Some (0, c') \<and>
    tc_status c' \<noteq> BAL_SUCCESS"
proof (cases "max_instructions = 0")
  case True
  then show ?thesis
    using assms by (simp add: bal_tier1_compiler_translate_def)
next
  case False
  have start: "tc_status (ts_compiler (start_state c pc)) \<noteq> BAL_SUCCESS"
    using assms(1) by (simp add: start_state_def reset_register_allocator_def)
  from flat_loop_returns [OF assms(4) False] have returns: "\<exists>s. translate_loop host
      (bal_flat_translation_interface_translate (mi_context interface)) tables flags max_instructions debug (start_state c pc) = Some s"
    for debug unfolding assms(3) by blast
  show ?thesis
  proof (rule translate_from_loop [OF assms(2) False])
    fix debug
    assume answer: "\<And>s. translate_loop host (bal_flat_translation_interface_translate (mi_context interface)) tables flags
        max_instructions debug (start_state c pc) = Some s \<Longrightarrow>
      \<exists>h c'. bal_tier1_compiler_translate host tables c (Some interface) pc max_instructions flags = Some (h, c') \<and>
        block_answer c s h c'"
    from returns obtain s where s: "translate_loop host (bal_flat_translation_interface_translate (mi_context interface))
        tables flags max_instructions debug (start_state c pc) = Some s" by blast
    with translate_loop_status start have "tc_status (ts_compiler s) \<noteq> BAL_SUCCESS" by blast
    with answer [OF s] show ?thesis by (auto simp: block_answer_def)
  qed
qed

lemma translate_words_unknown:
  assumes "bal_decode_arm64 tables (host cursor) = None" "\<not> ts_is_block_terminated s"
  shows "translate_words host tables flags max_instructions debug m i cursor s = s"
  using assms by (cases m) (simp_all add: translate_one_def)

text \<open>
  C33: a word that does not decode hangs the compiler. When the supported instructions in
  front of it have been translated the loop comes to the word again and again: it never
  returns, with an error or otherwise.
\<close>

theorem undecodable_word_hangs:
  fixes c :: bal_tier1_compiler_t
  assumes "ready (block_bytes (length ws)) c" "list_all2 (supported tables) ws is"
    and "card (\<Union> (guest_registers ` set is)) \<le> 8"
    and "mi_translate interface = Some bal_flat_translation_interface_translate"
    and "mi_context interface = Some ctx"
    and "unat pc + 4 * (length ws + 1) \<le> unat (ft_size ctx)"
    and "ft_host ctx + pc \<noteq> 0" "ft_host ctx + (pc + 4 * of_nat (length ws)) \<noteq> 0"
    and "host_holds host (ft_host ctx + pc) (ws @ [w])" "bal_decode_arm64 tables w = None"
    and "length ws < unat max_instructions"
    and "flag_set flags BAL_ENGINE_FLAG_STRICT_ALIGNMENT \<Longrightarrow> pc mod 4 = 0"
  shows "bal_tier1_compiler_translate host tables c (Some interface) pc max_instructions flags = None"
proof -
  let ?T = "bal_flat_translation_interface_translate (mi_context interface)"
  let ?D = "\<Union> (guest_registers ` set is)" and ?n = "length ws"
  let ?pc' = "pc + 4 * of_nat ?n"
  have max: "max_instructions \<noteq> 0" using assms(11) by auto
  have "finite (guest_registers i)" for i by (cases i) simp_all
  then have fin: "finite ?D" by simp
  have "ready (PROLOGUE_BYTES + MACRO_BYTES * (MACROS_PER_INSTRUCTION * ?n + 38)) c"
    using assms(1) by (simp add: block_bytes_def)
  note room = ready_begins(2) [OF this fin assms(3)]
  have size: "unat (ft_size ctx) < 2 ^ 64" by (rule length_bound_size_t)
  have pc': "unat ?pc' = unat pc + 4 * ?n" using assms(6) size unat_add_of_nat [of pc "4 * ?n"] by simp
  have below: "pc < ft_size ctx" "?pc' < ft_size ctx"
    using assms(6) pc' by (simp_all add: word_less_nat_alt)
  have rest: "unat (ft_size ctx - pc) = unat (ft_size ctx) - unat pc" "4 \<le> unat (ft_size ctx - ?pc')"
    using below assms(6) pc' by (simp_all add: unat_sub)
  let ?r = "(ft_size ctx - pc) div 4"
  have r: "?n < unat ?r" using rest(1) assms(6) by (simp add: unat_div)
  then have nz: "?r \<noteq> 0" by (cases "?r = 0") simp_all
  define k where "k = unat (if max_instructions < ?r then max_instructions else ?r)"
  have "?n < k" using r assms(11) by (simp add: k_def)
  then obtain m where k: "k = ?n + Suc m" using less_iff_Suc_add by auto
  have hosts: "host_holds host (ft_host ctx + pc) ws" "host (ft_host ctx + pc + 4 * of_nat ?n) = w"
    using assms(9) by (simp_all add: host_holds_append)
  have stuck: "translate_loop host ?T tables flags max_instructions debug (start_state c pc) = None" for debug
  proof -
    have "unat (0 :: size_t) + ?n < unat max_instructions" "\<not> ts_is_block_terminated (start_state c pc)"
      using assms(11) by (simp_all add: start_state_def)
    from translate_words_straight [OF assms(2) subset_refl _ this hosts(1), of 38 flags debug "Suc m"] room obtain s where
      s: "translate_words host tables flags max_instructions debug k 0 (ft_host ctx + pc) (start_state c pc) =
          translate_words host tables flags max_instructions debug (Suc m) (0 + of_nat ?n) (ft_host ctx + pc + 4 * of_nat ?n) s"
        "advanced ?D 38 (start_state c pc) ?n is s"
      by (auto simp: start_state_def k)
    have s': "\<not> ts_is_block_terminated s" "ts_guest_address s = ?pc'"
      using s(2) by (simp_all add: advanced_def start_state_def)
    have "translate_words host tables flags max_instructions debug k 0 (ft_host ctx + pc) (start_state c pc) = s"
      unfolding s(1) using hosts(2) assms(10) s'(1) by (intro translate_words_unknown) simp_all
    then have "translate_chunk host ?T tables flags max_instructions debug (start_state c pc) = Inr s"
      using below(1) nz assms(5,7,12)
      by (auto simp: translate_chunk_def Let_def start_state_def bal_flat_translation_interface_translate_def
          not_le [symmetric] k_def)
    moreover have "translate_loop host ?T tables flags max_instructions debug s = None"
    proof (rule loop_stuck [OF _ _ rest(2) max _ _ s'(1)])
      show "?T (ts_guest_address s) = (ft_host ctx + ?pc', ft_size ctx - ?pc')"
        using below(2) assms(5) s'(2) by (simp add: bal_flat_translation_interface_translate_def not_le [symmetric])
      show "ft_host ctx + ?pc' \<noteq> 0" by (rule assms(8))
      show "bal_decode_arm64 tables (host (ft_host ctx + ?pc')) = None" using hosts(2) assms(10) by (simp add: add.assoc)
      show "ts_guest_address s mod 4 = 0" if "flag_set flags BAL_ENGINE_FLAG_STRICT_ALIGNMENT"
        using assms(12) [OF that] s'(2) by (simp add: word_unat_eq_iff unat_mod pc' mod_mult_self2)
    qed
    ultimately show ?thesis
      by (subst translate_loop.simps) (simp add: start_state_def)
  qed
  show ?thesis
  proof (rule translate_from_loop [OF assms(4) max])
    fix debug
    assume "translate_loop host ?T tables flags max_instructions debug (start_state c pc) = None \<Longrightarrow>
      bal_tier1_compiler_translate host tables c (Some interface) pc max_instructions flags = None"
    from this [OF stuck] show ?thesis .
  qed
qed


definition broken_host :: "u64 \<Rightarrow> u32" where
  "broken_host a = (if a = 0x8000 then 0xD2800540 else 0)"

theorem undecodable_word_hangs_witness:
  "bal_tier1_compiler_translate broken_host sample_tables sample_compiler (Some sample_interface) 0 16 0 = None"
proof -
  have "xa_room (block_bytes 1) (fresh_assembler 1000)"
    by (rule xa_room_mono [OF fresh_assembler_room [of 1000]])
      (simp_all add: block_bytes_def PROLOGUE_BYTES_def MACRO_BYTES_def MACROS_PER_INSTRUCTION_def)
  then have ready: "ready (block_bytes (length [0xD2800540 :: u32])) sample_compiler"
    using fresh_window_denotes(1) [of "fresh_assembler 1000"]
    by (simp add: ready_def sample_compiler_def xa_room_def) (simp add: fresh_window_def)
  have words: "list_all2 (supported sample_tables) [0xD2800540] [A_movz 0 42 0]"
    by (simp add: supported_def sample_decode data_processing_metadata_def) code_simp
  have unknown: "bal_decode_arm64 sample_tables 0 = None"
    by (simp add: bal_decode_arm64_def Let_def sample_tables_def metadata_defs metadata_ret_def
        word_less_nat_alt nth_replicate bucket_index_bound)
  show ?thesis
    by (rule undecodable_word_hangs [OF ready words _ sample_interface_flat _ _ _ _ unknown])
      (simp_all add: sample_context_def broken_host_def flag_set_def)
qed

end
