(* ===== verification/Branch_Code.thy ===== *)
theory Branch_Code
  imports Block_Correctness
begin

text \<open>
  Blocks that end in a conditional branch: the code of both ways out, with the jump over the
  first of them, and what it does when it runs.
\<close>

section \<open>Macros that are lowered as they are\<close>

text \<open>
  The peephole pass looks at register moves only, so without them the window is a queue: what
  is flushed are the calls of all macros in order.
\<close>

definition plain :: "bal_x86_macro_t \<Rightarrow> bool" where
  "plain m \<longleftrightarrow> mc_opcode m \<noteq> BAL_X86_MACRO_MOV_REGISTER_REGISTER"

definition queue_code :: "window_state \<Rightarrow> bal_x86_assembler_t" where
  "queue_code ws = foldl flush_single_macro (snd ws) (pending (fst ws))"

lemma flush_all_queue:
  assumes "sw_wf ws"
  shows "snd (bal_sliding_window_flush_all ws) = queue_code ws"
    "pending (fst (bal_sliding_window_flush_all ws)) = []"
    "sw_count (fst (bal_sliding_window_flush_all ws)) = 0"
  using assms
  by (simp_all add: bal_sliding_window_flush_all_def queue_code_def pending_def flush_macros_def sw_wf_def case_prod_unfold)

lemma queue_push:
  assumes wf: "sw_wf ws" and "plain m"
  shows "queue_code (bal_sliding_window_push ws m) = flush_single_macro (queue_code ws) m"
proof -
  obtain w a where r: "make_room ws = (w, a)" by (cases "make_room ws")
  have q: "queue_code (make_room ws) = queue_code ws"
    using flush_all_queue [OF wf] by (simp add: make_room_def) (simp add: queue_code_def)
  have lt: "sw_count w < length (sw_macros w)"
    using make_room(1,2) [OF wf] by (simp add: r sw_wf_def)
  have "run_peephole_optimizer (store_macro (w, a) m) = store_macro (w, a) m"
    using lt \<open>plain m\<close> by (simp add: store_macro_def run_peephole_optimizer_def plain_def Let_def)
  then show ?thesis
    using lt q [symmetric]
    by (simp add: push_split [OF wf] r) (simp add: queue_code_def store_macro_def pending_def take_Suc_conv_app_nth)
qed

lemma queue_pushes:
  "sw_wf ws \<Longrightarrow> list_all plain ms \<Longrightarrow>
   queue_code (foldl bal_sliding_window_push ws ms) = foldl flush_single_macro (queue_code ws) ms"
  by (induction ms arbitrary: ws) (simp_all add: queue_push push_wf)

definition calls_size :: "x86_call list \<Rightarrow> nat" where
  "calls_size cs = (\<Sum>x\<leftarrow>cs. length (x86_bytes x))"

lemma calls_size_simps [simp]:
  "calls_size [] = 0" "calls_size (c # cs) = length (x86_bytes c) + calls_size cs"
  "calls_size (cs @ ds) = calls_size cs + calls_size ds"
  by (simp_all add: calls_size_def)

lemma calls_size_room:
  "xa_room (calls_size cs + n) a \<Longrightarrow> \<forall>x \<in> set cs. x86_valid x \<Longrightarrow> xa_room n (foldl x86_emit a cs)"
  by (simp add: calls_size_def x86_calls_room)

lemma calls_bytes_length: "length (concat (map x86_bytes cs)) = calls_size cs"
  by (simp add: calls_size_def length_concat comp_def)

definition calls_of :: "bal_x86_macro_t list \<Rightarrow> x86_call list" where
  "calls_of ms = concat (map macro_calls ms)"

lemma calls_of_simps [simp]:
  "calls_of [] = []" "calls_of (m # ms) = macro_calls m @ calls_of ms"
  by (simp_all add: calls_of_def)

lemma calls_of_valid: "list_all macro_valid ms \<Longrightarrow> \<forall>x \<in> set (calls_of ms). x86_valid x"
  by (auto simp: calls_of_def macro_valid_def list_all_iff)

lemma flush_list_calls:
  "xa_room (calls_size (calls_of ms)) a \<Longrightarrow> list_all macro_valid ms \<Longrightarrow>
   foldl flush_single_macro a ms = foldl x86_emit a (calls_of ms)"
proof (induction ms arbitrary: a)
  case (Cons m ms)
  have "xa_status a = BAL_SUCCESS" using Cons.prems(1) by (simp add: xa_room_def xa_ok_def)
  with Cons.prems(2) have one: "flush_single_macro a m = foldl x86_emit a (macro_calls m)"
    by (simp add: flush_single_calls macro_valid_def)
  have "xa_room (calls_size (calls_of ms)) (foldl x86_emit a (macro_calls m))"
    using Cons.prems by (intro calls_size_room) (simp_all add: macro_valid_def)
  with Cons one show ?case by simp
qed simp

section \<open>Calls behind the code\<close>

text \<open>
  \<open>appends c cs c'\<close>: with an empty window, \<open>c'\<close> is \<open>c\<close> after the emitter calls \<open>cs\<close>, its register
  maps as before.
\<close>

definition idle :: "bal_tier1_compiler_t \<Rightarrow> bool" where
  "idle c \<longleftrightarrow> tc_sw c \<and> sw_count (tc_window c) = 0"

definition appends :: "bal_tier1_compiler_t \<Rightarrow> x86_call list \<Rightarrow> bal_tier1_compiler_t \<Rightarrow> bool" where
  "appends c cs c' \<longleftrightarrow> tc_assembler c' = foldl x86_emit (tc_assembler c) cs \<and> idle c' \<and>
     tc_arm_to_x86 c' = tc_arm_to_x86 c \<and> tc_is_dirty c' = tc_is_dirty c \<and> tc_status c' = tc_status c"

lemma appends_trans: "appends c cs d \<Longrightarrow> appends d ds e \<Longrightarrow> appends c (cs @ ds) e"
  by (simp add: appends_def)

lemma appends_idle: "appends c cs d \<Longrightarrow> idle d"
  by (simp add: appends_def)

lemma appends_room:
  "appends c cs d \<Longrightarrow> xa_room (calls_size cs + n) (tc_assembler c) \<Longrightarrow> \<forall>x \<in> set cs. x86_valid x \<Longrightarrow>
   xa_room n (tc_assembler d)"
  by (simp add: appends_def calls_size_room)

lemma emit_calls_maps [simp]:
  "tc_arm_to_x86 (emit_calls c cs) = tc_arm_to_x86 c" "tc_is_dirty (emit_calls c cs) = tc_is_dirty c"
proof -
  have "emit_calls c cs = c\<lparr>tc_assembler := foldl x86_emit (tc_assembler c) cs\<rparr>"
    by (induction cs arbitrary: c) (simp_all add: emit_calls_def emit_call_def)
  then show "tc_arm_to_x86 (emit_calls c cs) = tc_arm_to_x86 c" "tc_is_dirty (emit_calls c cs) = tc_is_dirty c"
    by simp_all
qed

lemma appends_emit: "idle c \<Longrightarrow> appends c cs (emit_calls c cs)"
  by (auto simp: appends_def idle_def tc_sw_def sw_wf_def x86_buffer.run_wf)

lemma flush_window_maps [simp]:
  "tc_arm_to_x86 (flush_window c) = tc_arm_to_x86 c" "tc_is_dirty (flush_window c) = tc_is_dirty c"
  by (simp_all add: flush_window_def case_prod_unfold Let_def)

lemma push_macros_maps [simp]:
  "tc_arm_to_x86 (push_macros c ms) = tc_arm_to_x86 c" "tc_is_dirty (push_macros c ms) = tc_is_dirty c"
  "tc_status (push_macros c ms) = tc_status c"
  by (induction ms arbitrary: c) (simp_all add: push_macros_def)

lemma flush_window_pair:
  "tc_sw c \<Longrightarrow> (tc_window (flush_window c), tc_assembler (flush_window c)) =
     bal_sliding_window_flush_all (tc_window c, tc_assembler c)"
  by (simp add: flush_window_def case_prod_unfold Let_def)

lemma flush_window_idle:
  assumes "tc_sw c"
  shows "idle (flush_window c)" "tc_assembler (flush_window c) = queue_code (tc_window c, tc_assembler c)"
proof -
  note pair = flush_window_pair [OF assms]
  have wf: "sw_wf (tc_window c, tc_assembler c)" using assms by (simp add: tc_sw_def)
  have "tc_sw (flush_window c)" unfolding tc_sw_def pair by (rule flush_all_wf [OF wf])
  with flush_all_queue(3) [OF wf] show "idle (flush_window c)"
    by (simp add: idle_def pair [THEN arg_cong, of fst, unfolded fst_conv])
  show "tc_assembler (flush_window c) = queue_code (tc_window c, tc_assembler c)"
    using flush_all_queue(1) [OF wf] pair [THEN arg_cong, of snd] by simp
qed

lemma appends_macros:
  assumes "idle c" "list_all plain ms" "list_all macro_valid ms"
    and "xa_room (calls_size (calls_of ms)) (tc_assembler c)"
  shows "appends c (calls_of ms) (flush_window (push_macros c ms))"
proof -
  let ?ws = "(tc_window c, tc_assembler c)"
  have wf: "sw_wf ?ws" and none: "pending (tc_window c) = []"
    using assms(1) by (simp_all add: idle_def tc_sw_def pending_def)
  have pushed: "(tc_window (push_macros c ms), tc_assembler (push_macros c ms)) = foldl bal_sliding_window_push ?ws ms"
    using emits_macros [of c ms] by (simp add: emits_def)
  have sw: "tc_sw (push_macros c ms)" unfolding tc_sw_def pushed by (rule sw.pushes_wf [OF wf])
  have "tc_assembler (flush_window (push_macros c ms)) = foldl flush_single_macro (tc_assembler c) ms"
    using queue_pushes [OF wf assms(2)]
    by (simp add: flush_window_idle(2) [OF sw] pushed) (simp add: queue_code_def none)
  then show ?thesis
    using flush_window_idle(1) [OF sw] flush_list_calls [OF assms(4,3)] by (simp add: appends_def)
qed

lemma appends_flush: "idle c \<Longrightarrow> appends c [] (flush_window c)"
  using flush_window_idle [of c] by (auto simp: appends_def idle_def queue_code_def pending_def)

section \<open>The two ways out\<close>

definition dirty_stores :: "bal_tier1_compiler_t \<Rightarrow> bal_x86_macro_t list" where
  "dirty_stores c = map (\<lambda>r. store_register_macro (reg_of_int (tc_arm_to_x86 c ! r)) r) (filter (is_dirty c) [0..<32])"

definition store_calls :: "bal_tier1_compiler_t \<Rightarrow> x86_call list" where
  "store_calls c = calls_of (dirty_stores c)"

lemma dirty_stores_plain: "list_all plain (dirty_stores c)"
  by (simp add: dirty_stores_def list_all_iff plain_def store_register_macro_def)

lemma dirty_stores_valid: "ra_wf c \<Longrightarrow> list_all macro_valid (dirty_stores c)"
  unfolding dirty_stores_def by (rule dirty_macros_valid)

lemma store_calls_size: "calls_size (store_calls c) = 7 * count_dirty (tc_is_dirty c)"
proof -
  have "calls_size (calls_of (map (\<lambda>r. store_register_macro (Q r) r) rs)) = 7 * length rs" for Q rs
    by (induction rs) (simp_all add: macro_calls_def Let_def store_register_macro_def macro_zero_def byte_table_defs)
  moreover have "is_dirty c = (\<lambda>r. tc_is_dirty c AND dirty_bit r \<noteq> 0)" by (simp add: is_dirty_def fun_eq_iff)
  ultimately show ?thesis by (simp add: store_calls_def dirty_stores_def count_dirty_def del: upt_rec_numeral)
qed

lemma dirty_stores_cong:
  "tc_arm_to_x86 d = tc_arm_to_x86 c \<Longrightarrow> tc_is_dirty d = tc_is_dirty c \<Longrightarrow> dirty_stores d = dirty_stores c"
proof -
  assume "tc_arm_to_x86 d = tc_arm_to_x86 c" "tc_is_dirty d = tc_is_dirty c"
  moreover from this have "is_dirty d = is_dirty c" by (simp add: is_dirty_def fun_eq_iff)
  ultimately show ?thesis by (simp add: dirty_stores_def del: upt_rec_numeral)
qed

lemma appends_stores:
  assumes "appends c cs d" "ra_wf c" "xa_room (calls_size cs + (calls_size (store_calls c) + n)) (tc_assembler c)"
    and "\<forall>x \<in> set cs. x86_valid x"
  shows "appends c (cs @ store_calls c) (flush_window (flush_dirty_registers d))"
proof -
  have d: "dirty_stores d = dirty_stores c" using assms(1) by (intro dirty_stores_cong) (simp_all add: appends_def)
  have "xa_room (calls_size (store_calls c) + n) (tc_assembler d)" by (rule appends_room [OF assms(1,3,4)])
  then have "xa_room (calls_size (store_calls c)) (tc_assembler d)" by (rule xa_room_mono) simp
  then have "appends d (store_calls c) (flush_window (push_macros d (dirty_stores c)))"
    unfolding store_calls_def
    by (intro appends_macros appends_idle [OF assms(1)] dirty_stores_plain dirty_stores_valid assms(2)) simp
  moreover have "flush_dirty_registers d = push_macros d (dirty_stores c)"
    unfolding d [symmetric] unfolding flush_dirty_eq dirty_stores_def ..
  ultimately show ?thesis using appends_trans [OF assms(1)] by simp
qed

text \<open>
  The code of the fallthrough and of the taken way; the jump over the former has its size as
  its offset.
\<close>

definition fallthrough_calls :: "x86_call list \<Rightarrow> u64 \<Rightarrow> x86_call list" where
  "fallthrough_calls stores pc = stores @ store_pc_calls pc @ restore_and_return"

definition taken_calls :: "x86_call list \<Rightarrow> u64 \<Rightarrow> x86_call list" where
  "taken_calls stores pc = stores @ store_pc_calls pc @ [Emit_pop_r64 BAL_X86_RBP, Emit_ret]"

definition branch_calls :: "bal_x86_condition_t \<Rightarrow> x86_call list \<Rightarrow> u64 \<Rightarrow> u64 \<Rightarrow> x86_call list" where
  "branch_calls cond stores ft taken =
     Emit_jcc_rel32 cond (of_nat (calls_size (fallthrough_calls stores ft))) #
       fallthrough_calls stores ft @ taken_calls stores taken"

lemma conditional_epilogue_size_exact:
  "conditional_epilogue_size (count_dirty (tc_is_dirty c)) ft = calls_size (fallthrough_calls (store_calls c) ft)"
  by (simp add: conditional_epilogue_size_def fallthrough_calls_def store_calls_size store_pc_calls_def
      restore_and_return_def byte_table_defs reg_high_def del: upt_rec_numeral)

lemma exits_valid: "x86_valid (Emit_pop_r64 BAL_X86_RBP)" "x86_valid Emit_ret"
  "x \<in> set (store_pc_calls pc) \<Longrightarrow> x86_valid x" "x \<in> set restore_and_return \<Longrightarrow> x86_valid x"
  by (auto simp: store_pc_calls_def restore_and_return_def is_valid_register_def)

lemma store_calls_valid: "ra_wf c \<Longrightarrow> \<forall>x \<in> set (store_calls c). x86_valid x"
  unfolding store_calls_def by (intro calls_of_valid dirty_stores_valid)

lemma branch_calls_valid: "ra_wf c \<Longrightarrow> \<forall>x \<in> set (branch_calls cond (store_calls c) ft taken). x86_valid x"
  using store_calls_valid exits_valid by (auto simp: branch_calls_def fallthrough_calls_def taken_calls_def)

lemma terminate_conditional_appends:
  assumes "idle c" "ra_wf c"
    and room: "xa_room (calls_size (branch_calls cond (store_calls c) ft taken) + n) (tc_assembler c)"
  shows "appends c (branch_calls cond (store_calls c) ft taken) (terminate_block_conditional c cond ft taken)"
proof -
  let ?S = "store_calls c" and ?j = "Emit_jcc_rel32 cond (of_nat (calls_size (fallthrough_calls (store_calls c) ft)))"
  note valid = store_calls_valid [OF assms(2)] exits_valid
  let ?c1 = "emit_call (flush_window c) ?j"
  have "appends c ([] @ [?j]) (emit_calls (flush_window c) [?j])"
    using appends_flush [OF assms(1)] appends_emit appends_idle by (blast intro: appends_trans)
  then have c1: "appends c [?j] ?c1" by (simp add: emit_calls_def)
  let ?c2 = "flush_window (flush_dirty_registers ?c1)"
  have c2: "appends c ([?j] @ ?S) ?c2"
    using room by (intro appends_stores [OF c1 assms(2)])
      (auto simp: branch_calls_def fallthrough_calls_def taken_calls_def elim: xa_room_mono)
  let ?c3 = "emit_calls (emit_calls ?c2 (store_pc_calls ft)) restore_and_return"
  have c3: "appends c ((([?j] @ ?S) @ store_pc_calls ft) @ restore_and_return) ?c3"
    using c2 appends_emit appends_idle by (blast intro: appends_trans)
  let ?c4 = "flush_window (flush_dirty_registers ?c3)"
  have c4: "appends c (((([?j] @ ?S) @ store_pc_calls ft) @ restore_and_return) @ ?S) ?c4"
    using room valid by (intro appends_stores [OF c3 assms(2)])
      (auto simp: branch_calls_def fallthrough_calls_def taken_calls_def elim: xa_room_mono)
  have "appends c (((((([?j] @ ?S) @ store_pc_calls ft) @ restore_and_return) @ ?S) @ store_pc_calls taken) @
      [Emit_pop_r64 BAL_X86_RBP, Emit_ret])
      (emit_calls (emit_calls ?c4 (store_pc_calls taken)) [Emit_pop_r64 BAL_X86_RBP, Emit_ret])"
    using c4 appends_emit appends_idle by (blast intro: appends_trans)
  moreover have "conditional_epilogue_size (count_dirty (tc_is_dirty (flush_window c))) ft =
      calls_size (fallthrough_calls ?S ft)"
    by (simp add: conditional_epilogue_size_exact)
  ultimately show ?thesis
    by (simp add: branch_calls_def fallthrough_calls_def taken_calls_def terminate_block_conditional_def Let_def)
qed

section \<open>The translation of a conditional branch\<close>

definition b_cond_calls :: "u64 \<Rightarrow> bool \<Rightarrow> x86_call list \<Rightarrow> u64 \<Rightarrow> u64 \<Rightarrow> x86_call list" where
  "b_cond_calls off test_for_zero stores ft taken =
     Emit_cmp_mem8_rbp_offset_imm (ucast off) 0 #
       branch_calls (if test_for_zero then BAL_X86_COND_E else BAL_X86_COND_NE) stores ft taken"

lemma count_dirty_bound: "count_dirty d \<le> 32"
  using length_filter_le [of "\<lambda>i. d AND dirty_bit i \<noteq> 0" "[0..<32]"] by (simp add: count_dirty_def del: upt_rec_numeral)

lemma b_cond_calls_size: "calls_size (b_cond_calls off z (store_calls c) ft taken) \<le> 508"
  using count_dirty_bound [of "tc_is_dirty c"]
  by (simp add: b_cond_calls_def branch_calls_def fallthrough_calls_def taken_calls_def store_calls_size
      store_pc_calls_def restore_and_return_def byte_table_defs reg_high_def)

lemma b_cond_calls_valid: "ra_wf c \<Longrightarrow> \<forall>x \<in> set (b_cond_calls off z (store_calls c) ft taken). x86_valid x"
  using branch_calls_valid [of c] by (simp add: b_cond_calls_def)

lemma store_calls_cong:
  "tc_arm_to_x86 d = tc_arm_to_x86 c \<Longrightarrow> tc_is_dirty d = tc_is_dirty c \<Longrightarrow> store_calls d = store_calls c"
  by (simp add: store_calls_def dirty_stores_cong [of d c])

lemma b_cond_appends:
  assumes "tc_sw c" "ra_wf c" and flag: "b_cond_flag (w AND 0xF) = Some (off, z)"
    and room: "xa_room (calls_size (b_cond_calls off z (store_calls c) (pc + 4) (b_cond_taken_pc w pc)) + n)
      (tc_assembler (flush_window c))"
  shows "appends (flush_window c) (b_cond_calls off z (store_calls c) (pc + 4) (b_cond_taken_pc w pc)) (translate_b_cond c w pc)"
proof -
  let ?cmp = "Emit_cmp_mem8_rbp_offset_imm (ucast off) 0" and ?cond = "if z then BAL_X86_COND_E else BAL_X86_COND_NE"
  let ?c = "emit_calls (flush_window c) [?cmp]"
  have one: "appends (flush_window c) [?cmp] ?c" by (rule appends_emit [OF flush_window_idle(1) [OF assms(1)]])
  have S: "store_calls ?c = store_calls c" by (rule store_calls_cong) simp_all
  have "xa_room (calls_size (branch_calls ?cond (store_calls c) (pc + 4) (b_cond_taken_pc w pc)) + n) (tc_assembler ?c)"
    using room by (intro appends_room [OF one]) (simp_all add: b_cond_calls_def add.assoc)
  then have "appends ?c (branch_calls ?cond (store_calls c) (pc + 4) (b_cond_taken_pc w pc))
      (terminate_block_conditional ?c ?cond (pc + 4) (b_cond_taken_pc w pc))"
    using assms(2) appends_idle [OF one] by (intro terminate_conditional_appends [where c = ?c, unfolded S]) simp_all
  moreover have "w AND 0xF \<noteq> 0xE" using flag by (auto simp: b_cond_flag_def)
  ultimately show ?thesis
    using appends_trans [OF one] flag
    by (simp add: translate_b_cond_def Let_def b_cond_calls_def emit_calls_def)
qed

text \<open>What the end of the translation puts behind the two ways out is never reached.\<close>

definition end_calls :: "bal_tier1_compiler_t \<Rightarrow> u64 option \<Rightarrow> size_t \<Rightarrow> u32 \<Rightarrow> x86_call list" where
  "end_calls c pc num flags =
     calls_of (if flag_set flags BAL_ENGINE_FLAG_INSTRUCTION_COUNTING then [icount_macro num] else []) @
     store_calls c @ epilogue_calls pc"

lemma end_calls_size: "calls_size (end_calls c pc num flags) \<le> 276"
proof -
  have "calls_size (macro_calls (icount_macro num)) \<le> 13"
    using macro_calls_size [of "icount_macro num"] by (simp add: calls_size_def MACRO_BYTES_def)
  moreover have "calls_size (epilogue_calls pc) \<le> 39" using epilogue_size by (simp add: calls_size_def)
  ultimately show ?thesis
    using count_dirty_bound [of "tc_is_dirty c"] by (simp add: end_calls_def store_calls_size)
qed

lemma icount_plain: "plain (icount_macro num)" "macro_valid (icount_macro num)"
  by (simp add: plain_def imm_macro_def) (intro macros_valid(2); simp add: is_valid_register_def)

lemma end_calls_valid:
  "list_all macro_valid (dirty_stores c) \<Longrightarrow> \<forall>x \<in> set (end_calls c pc num flags). x86_valid x"
  using calls_of_valid [of "dirty_stores c", folded store_calls_def] epilogue_valid [of pc] icount_plain(2) [of num]
  by (auto simp: end_calls_def macro_valid_def)

lemma terminate_block_appends:
  assumes "idle c" "list_all macro_valid (dirty_stores c)" "xa_room 276 (tc_assembler c)"
  shows "appends c (end_calls c (if dyn then None else Some pc) num flags) (terminate_block c pc dyn num flags)"
proof -
  let ?i = "if flag_set flags BAL_ENGINE_FLAG_INSTRUCTION_COUNTING then [icount_macro num] else []"
  let ?ms = "?i @ dirty_stores c"
  have calls: "calls_of ?ms = calls_of ?i @ store_calls c" by (simp add: store_calls_def)
  have "calls_size (calls_of ?ms) \<le> 276"
    using end_calls_size [of c "if dyn then None else Some pc" num flags] by (simp add: end_calls_def calls)
  then have "xa_room (calls_size (calls_of ?ms)) (tc_assembler c)" using assms(3) by (auto elim: xa_room_mono)
  then have one: "appends c (calls_of ?ms) (flush_window (push_macros c ?ms))"
    using dirty_stores_plain [of c] icount_plain [of num] assms(1,2)
    by (intro appends_macros) auto
  have "flush_dirty_registers (push_macros c ?i) = push_macros (push_macros c ?i) (dirty_stores c)"
    using dirty_stores_cong [of "push_macros c ?i" c] by (simp only: flush_dirty_eq dirty_stores_def push_macros_maps)
  then have "terminate_block c pc dyn num flags =
      emit_calls (flush_window (push_macros c ?ms)) (epilogue_calls (if dyn then None else Some pc))"
    by (cases "flag_set flags BAL_ENGINE_FLAG_INSTRUCTION_COUNTING") (simp_all add: terminate_block_eq push_macros_def)
  moreover have "appends (flush_window (push_macros c ?ms)) (epilogue_calls (if dyn then None else Some pc))
      (emit_calls (flush_window (push_macros c ?ms)) (epilogue_calls (if dyn then None else Some pc)))"
    by (rule appends_emit [OF appends_idle [OF one]])
  ultimately show ?thesis using appends_trans [OF one] by (simp add: end_calls_def calls)
qed

section \<open>Running the code\<close>

lemma sint_of_nat_small: "n < 2 ^ 31 \<Longrightarrow> sint (of_nat n :: u32) = int n"
  by (simp add: signed_of_nat signed_take_bit_int_eq_self)

lemma x86_run_jcc:
  assumes "encodes b (X_jcc cnd d)"
  shows "x86_run (Suc n) (pre @ b @ post) (int (length pre)) s =
    x86_run n (pre @ b @ post) (int (length pre + length b) + (if cond_holds cnd s then sint d else 0)) s"
proof -
  have "x86_decode (b @ post) = Some (X_jcc cnd d, post)" using assms by (simp add: encodes_def)
  moreover have "int (length pre + (length b + length post)) - int (length post) = int (length pre + length b)" by simp
  ultimately show ?thesis by (simp add: Let_def)
qed

lemma calls_bytes_encode:
  "\<forall>x \<in> set cs. x86_valid x \<Longrightarrow> encodes_seq (concat (map x86_bytes cs)) (map x86_instr_of cs)"
  by (induction cs) (auto intro: encodes_seq.intros x86_bytes_encode)

lemma calls_of_exec:
  "list_all lowered ms \<Longrightarrow> x86_exec (map x86_instr_of (calls_of ms)) s = run_effects macro_exec ms s"
proof (induction ms arbitrary: s)
  case (Cons m ms)
  then have "x86_exec (map x86_instr_of (calls_of ms)) = run_effects macro_exec ms" by (intro ext) simp
  with Cons.prems show ?case by (simp add: x86_exec_append lowered_calls macro_exec_def [of m])
qed simp

lemma dirty_stores_lowered: "list_all lowered (dirty_stores c)"
  by (simp add: dirty_stores_def list_all_iff lowered_def store_register_macro_def)

lemma store_calls_run:
  assumes "ra_wf c" "consistent_but {} c s"
  shows "\<exists>t. x86_exec (map x86_instr_of (store_calls c)) s = Some t \<and> jit_frame s t \<and>
    cpu_view (xs_mem t) (xs_reg t BAL_X86_RBP) = view c s"
  using flush_dirty_run [OF assms]
  by (simp add: store_calls_def calls_of_exec [OF dirty_stores_lowered]) (simp add: dirty_stores_def)

text \<open>
  The taken way pops one register only: RBP gets the value saved for R15, and the return
  goes to the value saved for R14.
\<close>

lemma taken_exec:
  assumes "xs_stack t = a # b # st"
  shows "\<exists>t'. x86_exec (map x86_instr_of (store_pc_calls pc @ [Emit_pop_r64 BAL_X86_RBP])) t = Some t' \<and>
    xs_stack t' = b # st \<and> xs_reg t' BAL_X86_RBP = a \<and>
    cpu_view (xs_mem t') (xs_reg t BAL_X86_RBP) = (cpu_view (xs_mem t) (xs_reg t BAL_X86_RBP))\<lparr>gs_pc := pc\<rparr> \<and>
    (\<forall>p. 288 \<le> unat (p - xs_reg t BAL_X86_RBP) \<longrightarrow> xs_mem t' p = xs_mem t p)"
proof -
  from store_pc_exec [of pc t] obtain u where
    u: "x86_exec (map x86_instr_of (store_pc_calls pc)) t = Some u" "xs_stack u = xs_stack t"
      "cpu_view (xs_mem u) (xs_reg t BAL_X86_RBP) = (cpu_view (xs_mem t) (xs_reg t BAL_X86_RBP))\<lparr>gs_pc := pc\<rparr>"
      "\<forall>p. 288 \<le> unat (p - xs_reg t BAL_X86_RBP) \<longrightarrow> xs_mem u p = xs_mem t p" by blast
  with assms show ?thesis by (simp add: x86_exec_append write_reg_def)
qed


text \<open>The conditions, from the manual's pseudocode.\<close>

definition arm_condition_holds :: "u32 \<Rightarrow> guest_state \<Rightarrow> bool" where
  "arm_condition_holds cond g =
    (let top = drop_bit 1 cond AND 7;
         result = (if top = 0 then gs_z g else if top = 1 then gs_c g
           else if top = 2 then gs_n g else if top = 3 then gs_v g
           else if top = 4 then gs_c g \<and> \<not> gs_z g
           else if top = 5 then gs_n g = gs_v g
           else if top = 6 then gs_n g = gs_v g \<and> \<not> gs_z g else True)
     in if bit cond 0 \<and> cond \<noteq> 15 then \<not> result else result)"

lemma flag_condition:
  assumes "b_cond_flag cond = Some (off, z)"
  shows "unat off \<le> 512"
    "arm_condition_holds cond (view c t) = ((xs_mem t (xs_reg t BAL_X86_RBP + off) = 0) = z)"
  using assms
  by (auto simp: b_cond_flag_def arm_condition_holds_def view_def flag_byte_def Let_def cpu_offset_defs
      bit_numeral_rec split: if_splits)

text \<open>
  What the code of a conditional branch does: not taken, it returns to its caller like any
  block; taken, it stores the right program counter, but returns to the address in the
  caller's R14, with the caller's R15 in RBP and five words too many on the stack.
\<close>

definition branch_computes ::
  "u8 list \<Rightarrow> nat \<Rightarrow> (guest_state \<Rightarrow> guest_state) \<Rightarrow> (guest_state \<Rightarrow> bool) \<Rightarrow> u64 \<Rightarrow> u64 \<Rightarrow> bool" where
  "branch_computes code start F P ft taken \<longleftrightarrow> (\<forall>s ra st. xs_stack s = ra # st \<longrightarrow>
     (\<exists>n s'. let base = xs_reg s BAL_X86_ABI_ARG1; g = F (cpu_view (xs_mem s) base) in
        (\<forall>p. 288 \<le> unat (p - base) \<longrightarrow> xs_mem s' p = xs_mem s p) \<and>
        (if P g then (\<forall>post. x86_run n (code @ post) (int start) s = X_returned (xs_reg s BAL_X86_R14) s') \<and>
           cpu_view (xs_mem s') base = g\<lparr>gs_pc := taken\<rparr> \<and> xs_reg s' BAL_X86_RBP = xs_reg s BAL_X86_R15 \<and>
           xs_stack s' = [xs_reg s BAL_X86_R13, xs_reg s BAL_X86_R12, xs_reg s BAL_X86_RBP, ra] @ st
         else (\<forall>post. x86_run n (code @ post) (int start) s = X_returned ra s') \<and>
           cpu_view (xs_mem s') base = g\<lparr>gs_pc := ft\<rparr> \<and> xs_stack s' = st \<and>
           (\<forall>q \<in> set callee_saved. xs_reg s' q = xs_reg s q))))"

text \<open>The comparison and the jump.\<close>

lemma compare_and_jump:
  assumes flag: "b_cond_flag cond = Some (off, z)"
  defines "cnd \<equiv> if z then BAL_X86_COND_E else BAL_X86_COND_NE"
  shows "\<exists>t'. (\<forall>pre post n d. x86_run (Suc (Suc n))
        (pre @ (x86_bytes (Emit_cmp_mem8_rbp_offset_imm (ucast off) 0) @ x86_bytes (Emit_jcc_rel32 cnd d)) @ post)
        (int (length pre)) t =
      x86_run n (pre @ (x86_bytes (Emit_cmp_mem8_rbp_offset_imm (ucast off) 0) @ x86_bytes (Emit_jcc_rel32 cnd d)) @ post)
        (int (length pre + (length (x86_bytes (Emit_cmp_mem8_rbp_offset_imm (ucast off) 0)) + length (x86_bytes (Emit_jcc_rel32 cnd d)))) +
          (if arm_condition_holds cond (view c t) then sint d else 0)) t') \<and>
    xs_reg t' = xs_reg t \<and> xs_mem t' = xs_mem t \<and> xs_stack t' = xs_stack t"
proof -
  let ?cmp = "Emit_cmp_mem8_rbp_offset_imm (ucast off) 0"
  have ea: "ea t BAL_X86_RBP (ucast off) = xs_reg t BAL_X86_RBP + off"
    using flag_condition(1) [OF flag] by (rule ea_rbp)
  obtain t' where t': "x86_step (x86_instr_of ?cmp) t = Some t'" "xs_reg t' = xs_reg t" "xs_mem t' = xs_mem t"
      "xs_stack t' = xs_stack t" "xs_zf t' = (xs_mem t (xs_reg t BAL_X86_RBP + off) = 0)"
    by (simp add: ea Let_def)
  have holds: "cond_holds cnd t' = arm_condition_holds cond (view c t)"
    using flag_condition(2) [OF flag, of c t] t'(5) by (simp add: cnd_def)
  have enc: "encodes (x86_bytes ?cmp) (x86_instr_of ?cmp)" by (intro x86_bytes_encode) simp
  have jcc: "encodes (x86_bytes (Emit_jcc_rel32 cnd d)) (X_jcc cnd d)" for d
    using x86_bytes_encode [of "Emit_jcc_rel32 cnd d"] by simp
  have run: "x86_run (Suc (Suc n)) (pre @ (x86_bytes ?cmp @ x86_bytes (Emit_jcc_rel32 cnd d)) @ post) (int (length pre)) t =
      x86_run n (pre @ (x86_bytes ?cmp @ x86_bytes (Emit_jcc_rel32 cnd d)) @ post)
        (int (length pre + (length (x86_bytes ?cmp) + length (x86_bytes (Emit_jcc_rel32 cnd d)))) +
          (if arm_condition_holds cond (view c t) then sint d else 0)) t'" for pre post n d
    using x86_run_step [OF enc t'(1), of "Suc n" pre "x86_bytes (Emit_jcc_rel32 cnd d) @ post"]
      x86_run_jcc [OF jcc [of d], of n "pre @ x86_bytes ?cmp" post t']
    by (simp only: holds append_assoc length_append add.assoc)
  show ?thesis by (rule exI [of _ t']) (simp only: run t'(2-4) simp_thms)
qed

text \<open>A way out: the write back of the dirty registers, some more instructions, and the return.\<close>

lemma way_out:
  assumes "ra_wf c" "consistent_but {} c t" "jit_frame (prologue_state s) t" "xs_stack s = ra # st"
    and body: "\<And>u. jit_frame (prologue_state s) u \<Longrightarrow> \<exists>v. x86_exec body u = Some v \<and> R u v"
    and calls: "\<forall>x \<in> set cs. x86_valid x" "map x86_instr_of cs = body @ [X_ret]"
    and ret: "\<And>u v. R u v \<Longrightarrow> jit_frame (prologue_state s) u \<Longrightarrow> \<exists>a rest. xs_stack v = a # rest"
  shows "\<exists>n u v. R u v \<and> jit_frame (prologue_state s) u \<and>
    cpu_view (xs_mem u) (xs_reg s BAL_X86_ABI_ARG1) = view c t \<and>
    (\<forall>pre post. x86_run n (pre @ concat (map x86_bytes (store_calls c @ cs)) @ post) (int (length pre)) t =
      X_returned (hd (xs_stack v)) (v\<lparr>xs_stack := tl (xs_stack v)\<rparr>))"
proof -
  from store_calls_run [OF assms(1,2)] obtain u where
    u: "x86_exec (map x86_instr_of (store_calls c)) t = Some u" "jit_frame t u"
      "cpu_view (xs_mem u) (xs_reg u BAL_X86_RBP) = view c t" by blast
  have frame: "jit_frame (prologue_state s) u" using assms(3) u(2) by (rule jit_frame_trans)
  from body [OF frame] obtain v where v: "x86_exec body u = Some v" "R u v" by blast
  from ret [OF v(2) frame] obtain a rest where stack: "xs_stack v = a # rest" by blast
  have enc: "encodes_seq (concat (map x86_bytes (store_calls c @ cs))) ((map x86_instr_of (store_calls c) @ body) @ [X_ret])"
    using calls_bytes_encode [of "store_calls c @ cs"] store_calls_valid [OF assms(1)] calls by auto
  have "x86_exec (map x86_instr_of (store_calls c) @ body) t = Some v" using u(1) v(1) by (simp add: x86_exec_append)
  from x86_run_block [OF enc this stack] v(2) frame u(3) jit_frame_prologue(2) [OF frame] show ?thesis
    by (intro exI [of _ "length (map x86_instr_of (store_calls c) @ body) + 1"] exI [of _ u] exI [of _ v]) (simp add: stack)
qed

lemma consistent_flags:
  assumes "xs_reg t' = xs_reg t" "xs_mem t' = xs_mem t" "xs_stack t' = xs_stack t"
  shows "consistent_but X c t' = consistent_but X c t" "view c t' = view c t" "jit_frame s t' = jit_frame s t"
proof -
  have "slot c t' = slot c t" by (intro ext) (simp add: slot_def slot_addr_def assms split: option.split)
  with assms show "consistent_but X c t' = consistent_but X c t" "view c t' = view c t" "jit_frame s t' = jit_frame s t"
    by (simp_all add: consistent_but_def view_def slot_addr_def flag_byte_def jit_frame_def cong: if_cong)
qed

text \<open>The whole block.\<close>

lemma branch_runs:
  assumes begins: "begins a0 c0" and comp: "compiles c0 c F" and ok: "tc_ok (flush_window c)"
    and flag: "b_cond_flag cond = Some (off, z)"
    and code: "code = xa_code (tc_assembler (flush_window c)) @
      concat (map x86_bytes (b_cond_calls off z (store_calls c) ft taken)) @ dead"
  shows "branch_computes code (length (xa_code a0)) F (arm_condition_holds cond) ft taken"
  unfolding branch_computes_def
proof (intro allI impI)
  fix s :: x86_state and ra st assume stack: "xs_stack s = ra # st"
  let ?s0 = "prologue_state s" and ?base = "xs_reg s BAL_X86_ABI_ARG1"
  let ?cnd = "if z then BAL_X86_COND_E else BAL_X86_COND_NE" and ?S = "store_calls c"
  let ?cmp = "x86_bytes (Emit_cmp_mem8_rbp_offset_imm (ucast off) 0)"
  let ?d = "of_nat (calls_size (fallthrough_calls ?S ft)) :: u32"
  let ?jcc = "x86_bytes (Emit_jcc_rel32 ?cnd ?d)"
  let ?N = "concat (map x86_bytes (fallthrough_calls ?S ft))" and ?T = "concat (map x86_bytes (taken_calls ?S taken))"
  from comp obtain ms where ms: "emits c0 ms c" "list_all lowered ms" "ra_wf c"
    and run: "\<And>s. consistent_but {} c0 s \<Longrightarrow> \<exists>s'. run_effects macro_exec ms s = Some s' \<and>
        consistent_but {} c s' \<and> view c s' = F (view c0 s) \<and> jit_frame s s'"
    unfolding compiles_def by blast
  from flushed_code [OF begins ms(1,2) ok] obtain as "is" where
    as: "xa_code (tc_assembler (flush_window c)) = xa_code a0 @ as" "encodes_seq as is"
      "\<And>s. x86_exec is s = run_effects macro_exec ms (prologue_state s)" by blast
  from run [OF begins_consistent [OF begins], of ?s0] obtain t where
    t: "run_effects macro_exec ms ?s0 = Some t" "consistent_but {} c t" "view c t = F (view c0 ?s0)" "jit_frame ?s0 t"
    by blast
  have guest: "view c t = F (cpu_view (xs_mem s) ?base)"
    using t(3) by (simp add: begins_view [OF begins]) (simp add: prologue_state_def)
  from compare_and_jump [OF flag, of t c] obtain t' where
    jump: "\<And>pre post n d. x86_run (Suc (Suc n)) (pre @ (?cmp @ x86_bytes (Emit_jcc_rel32 ?cnd d)) @ post) (int (length pre)) t =
      x86_run n (pre @ (?cmp @ x86_bytes (Emit_jcc_rel32 ?cnd d)) @ post)
        (int (length pre + (length ?cmp + length (x86_bytes (Emit_jcc_rel32 ?cnd d)))) +
          (if arm_condition_holds cond (view c t) then sint d else 0)) t'"
    and same: "xs_reg t' = xs_reg t" "xs_mem t' = xs_mem t" "xs_stack t' = xs_stack t" by blast
  have con': "consistent_but {} c t'" and frame': "jit_frame ?s0 t'"
    using t(2,4) consistent_flags [OF same] by simp_all
  have view': "view c t' = F (cpu_view (xs_mem s) ?base)" using guest consistent_flags(2) [OF same] by simp
  have bytes: "code @ post = (xa_code a0 @ as) @ (?cmp @ ?jcc) @ ?N @ ?T @ dead @ post" for post
    by (simp add: code as(1) b_cond_calls_def branch_calls_def)
  have "calls_size (fallthrough_calls ?S ft) < 2 ^ 31"
    using b_cond_calls_size [of off z c ft taken] by (simp add: b_cond_calls_def branch_calls_def)
  then have d: "sint ?d = int (length ?N)" by (simp add: calls_bytes_length sint_of_nat_small)
  have start: "x86_run (length is + Suc (Suc n)) (code @ post) (int (length (xa_code a0))) s =
      x86_run n (code @ post) (int (length (xa_code a0 @ as @ ?cmp @ ?jcc @ (if arm_condition_holds cond (view c t) then ?N else []))) ) t'"
    for n post
  proof -
    have "x86_exec is s = Some t" using as(3) t(1) by simp
    from x86_run_straight [OF as(2) this, of "Suc (Suc n)" "xa_code a0" "(?cmp @ ?jcc) @ ?N @ ?T @ dead @ post"]
      jump [of n "xa_code a0 @ as" ?d "?N @ ?T @ dead @ post"]
    show ?thesis by (simp add: bytes d add.assoc)
  qed
  show "\<exists>n s'. let base = ?base; g = F (cpu_view (xs_mem s) base) in
        (\<forall>p. 288 \<le> unat (p - base) \<longrightarrow> xs_mem s' p = xs_mem s p) \<and>
        (if arm_condition_holds cond g
         then (\<forall>post. x86_run n (code @ post) (int (length (xa_code a0))) s = X_returned (xs_reg s BAL_X86_R14) s') \<and>
           cpu_view (xs_mem s') base = g\<lparr>gs_pc := taken\<rparr> \<and> xs_reg s' BAL_X86_RBP = xs_reg s BAL_X86_R15 \<and>
           xs_stack s' = [xs_reg s BAL_X86_R13, xs_reg s BAL_X86_R12, xs_reg s BAL_X86_RBP, ra] @ st
         else (\<forall>post. x86_run n (code @ post) (int (length (xa_code a0))) s = X_returned ra s') \<and>
           cpu_view (xs_mem s') base = g\<lparr>gs_pc := ft\<rparr> \<and> xs_stack s' = st \<and>
           (\<forall>q \<in> set callee_saved. xs_reg s' q = xs_reg s q))"
  proof (cases "arm_condition_holds cond (view c t)")
    case False
    let ?R = "\<lambda>u v. xs_stack v = ra # st \<and> (\<forall>q \<in> set callee_saved. xs_reg v q = xs_reg s q) \<and>
      cpu_view (xs_mem v) ?base = (cpu_view (xs_mem u) ?base)\<lparr>gs_pc := ft\<rparr> \<and>
      (\<forall>p. 288 \<le> unat (p - ?base) \<longrightarrow> xs_mem v p = xs_mem s p)"
    have body: "\<exists>v. x86_exec (epilogue_body (Some ft)) u = Some v \<and> ?R u v" if "jit_frame ?s0 u" for u
    proof -
      note jf = jit_frame_prologue [OF that]
      from epilogue_exec [OF jf(1), of "Some ft", unfolded jf(2)] show ?thesis
        using jf(3,4) stack by (auto simp: callee_saved_def)
    qed
    have "\<exists>n u v. ?R u v \<and> jit_frame ?s0 u \<and> cpu_view (xs_mem u) ?base = view c t' \<and>
        (\<forall>pre post. x86_run n (pre @ concat (map x86_bytes (?S @ epilogue_calls (Some ft))) @ post) (int (length pre)) t' =
          X_returned (hd (xs_stack v)) (v\<lparr>xs_stack := tl (xs_stack v)\<rparr>))"
      by (rule way_out [OF ms(3) con' frame' stack body epilogue_valid epilogue_instrs]) auto
    then obtain n u v where all: "?R u v \<and> jit_frame ?s0 u \<and> cpu_view (xs_mem u) ?base = view c t' \<and>
        (\<forall>pre post. x86_run n (pre @ concat (map x86_bytes (?S @ epilogue_calls (Some ft))) @ post) (int (length pre)) t' =
          X_returned (hd (xs_stack v)) (v\<lparr>xs_stack := tl (xs_stack v)\<rparr>))"
      by (elim exE) (rule that)
    note o = all [THEN conjunct1] all [THEN conjunct2, THEN conjunct2, THEN conjunct1]
      all [THEN conjunct2, THEN conjunct2, THEN conjunct2]
    have "?S @ epilogue_calls (Some ft) = fallthrough_calls ?S ft" by (simp add: fallthrough_calls_def epilogue_calls_def)
    with o(3) [rule_format, of "xa_code a0 @ as @ ?cmp @ ?jcc" "?T @ dead @ post" for post] o(1) False
    have "x86_run (length is + Suc (Suc n)) (code @ post) (int (length (xa_code a0))) s = X_returned ra (v\<lparr>xs_stack := st\<rparr>)" for post
      unfolding start by (simp add: bytes)
    with o(1,2) False guest view' show ?thesis
      by (intro exI [of _ "length is + Suc (Suc n)"] exI [of _ "v\<lparr>xs_stack := st\<rparr>"]) (simp add: Let_def)
  next
    case True
    let ?body = "map x86_instr_of (store_pc_calls taken @ [Emit_pop_r64 BAL_X86_RBP])"
    let ?cs = "store_pc_calls taken @ [Emit_pop_r64 BAL_X86_RBP, Emit_ret]"
    let ?rest = "[xs_reg s BAL_X86_R13, xs_reg s BAL_X86_R12, xs_reg s BAL_X86_RBP, ra] @ st"
    let ?R = "\<lambda>u v. xs_stack v = xs_reg s BAL_X86_R14 # ?rest \<and> xs_reg v BAL_X86_RBP = xs_reg s BAL_X86_R15 \<and>
      cpu_view (xs_mem v) ?base = (cpu_view (xs_mem u) ?base)\<lparr>gs_pc := taken\<rparr> \<and>
      (\<forall>p. 288 \<le> unat (p - ?base) \<longrightarrow> xs_mem v p = xs_mem s p)"
    have body: "\<exists>v. x86_exec ?body u = Some v \<and> ?R u v" if "jit_frame ?s0 u" for u
    proof -
      note jf = jit_frame_prologue [OF that]
      from jf(1) have "xs_stack u = xs_reg s BAL_X86_R15 # xs_reg s BAL_X86_R14 # ?rest" by (simp add: stack)
      from taken_exec [OF this, of taken, unfolded jf(2)] show ?thesis using jf(4) by auto
    qed
    have cs: "\<forall>x \<in> set ?cs. x86_valid x" "map x86_instr_of ?cs = ?body @ [X_ret]"
      using exits_valid by auto
    have "\<exists>n u v. ?R u v \<and> jit_frame ?s0 u \<and> cpu_view (xs_mem u) ?base = view c t' \<and>
        (\<forall>pre post. x86_run n (pre @ concat (map x86_bytes (?S @ ?cs)) @ post) (int (length pre)) t' =
          X_returned (hd (xs_stack v)) (v\<lparr>xs_stack := tl (xs_stack v)\<rparr>))"
      by (rule way_out [OF ms(3) con' frame' stack body cs]) auto
    then obtain n u v where all: "?R u v \<and> jit_frame ?s0 u \<and> cpu_view (xs_mem u) ?base = view c t' \<and>
        (\<forall>pre post. x86_run n (pre @ concat (map x86_bytes (?S @ ?cs)) @ post) (int (length pre)) t' =
          X_returned (hd (xs_stack v)) (v\<lparr>xs_stack := tl (xs_stack v)\<rparr>))"
      by (elim exE) (rule that)
    note o = all [THEN conjunct1] all [THEN conjunct2, THEN conjunct2, THEN conjunct1]
      all [THEN conjunct2, THEN conjunct2, THEN conjunct2]
    have "?S @ ?cs = taken_calls ?S taken" by (simp add: taken_calls_def)
    with o(3) [rule_format, of "xa_code a0 @ as @ ?cmp @ ?jcc @ ?N" "dead @ post" for post] o(1) True
    have "x86_run (length is + Suc (Suc n)) (code @ post) (int (length (xa_code a0))) s =
        X_returned (xs_reg s BAL_X86_R14) (v\<lparr>xs_stack := ?rest\<rparr>)" for post
      unfolding start by (simp add: bytes)
    with o(1,2) True guest view' show ?thesis
      by (intro exI [of _ "length is + Suc (Suc n)"] exI [of _ "v\<lparr>xs_stack := ?rest\<rparr>"]) (simp add: Let_def)
  qed
qed

end
