(* ===== verification/Conditional_Branches.thy ===== *)
theory Conditional_Branches
  imports Branch_Code
begin

text \<open>
  Blocks of supported instructions that end in a conditional branch: the translation, and
  what the code does.
\<close>

section \<open>The translation of the block\<close>

text \<open>A conditional branch as the architecture reads it: the condition and the byte offset.\<close>

definition arm_decode_cond :: "u32 \<Rightarrow> (u32 \<times> u64) option" where
  "arm_decode_cond w = (if w AND 0xFF000010 = 0x54000000
     then Some (w AND 0xF, 4 * word_of_int (signed_take_bit 18 (uint (drop_bit 5 w)))) else None)"

text \<open>The conditions on one flag; the compiler knows no others.\<close>

definition supported_cond :: "decoder_tables \<Rightarrow> u32 \<Rightarrow> u32 \<Rightarrow> u64 \<Rightarrow> bool" where
  "supported_cond tables w cond off \<longleftrightarrow> bal_decode_arm64 tables w = Some metadata_b_cond \<and>
     arm_decode_cond w = Some (cond, off) \<and> cond < 8"

lemma xor_sign_extend: "(take_bit 19 (y :: u32) XOR 0x40000) - 0x40000 = signed_take_bit 18 y"
proof -
  let ?z = "take_bit 18 y"
  have "(0x40000 :: u32) = push_bit 18 1" by simp
  then have pow: "bit (0x40000 :: u32) n = (n = 18)" for n by (simp only: bit_push_bit_iff) (auto simp: bit_1_iff)
  have less: "n < 19 \<longleftrightarrow> n < 18 \<or> n = 18" for n :: nat by auto
  have neg: "NOT (mask 18) = - (0x40000 :: u32)" by (simp add: not_eq_complement mask_eq_exp_minus_1)
  show ?thesis
  proof (cases "bit y 18")
    case True
    have "take_bit 19 y XOR 0x40000 = ?z"
      by (rule bit_word_eqI) (use True in \<open>auto simp del: bit_numeral_word_iff simp: bit_simps pow less\<close>)
    moreover have "?z + NOT (mask 18) = ?z OR NOT (mask 18)"
      by (rule disjunctive_add) (simp add: bit_simps)
    moreover have "?z OR NOT (mask 18) = signed_take_bit 18 y"
      by (rule bit_word_eqI) (use True in \<open>auto simp: bit_simps min_def\<close>)
    ultimately show ?thesis by (simp add: neg)
  next
    case False
    have "take_bit 19 y XOR 0x40000 = ?z OR 0x40000"
      by (rule bit_word_eqI) (use False in \<open>auto simp del: bit_numeral_word_iff simp: bit_simps pow less\<close>)
    moreover have "?z OR 0x40000 = ?z + 0x40000"
      by (rule disjunctive_add [symmetric]) (auto simp del: bit_numeral_word_iff simp: bit_simps pow)
    moreover have "?z = signed_take_bit 18 y"
      by (rule bit_word_eqI) (use False in \<open>auto simp: bit_simps min_def le_less\<close>)
    ultimately show ?thesis by simp
  qed
qed

lemma b_cond_target:
  assumes "arm_decode_cond w = Some (cond, off)"
  shows "b_cond_taken_pc w pc = pc + off" "w AND 0xF = cond"
proof -
  have "scast (signed_take_bit 18 (drop_bit 5 w) :: u32) = (word_of_int (signed_take_bit 18 (uint (drop_bit 5 w))) :: u64)"
  proof (rule bit_word_eqI)
    fix k assume "k < LENGTH(64)"
    then show "bit (scast (signed_take_bit 18 (drop_bit 5 w) :: u32) :: u64) k =
        bit (word_of_int (signed_take_bit 18 (uint (drop_bit 5 w))) :: u64) k"
      by (auto simp: bit_simps min_def)
  qed
  moreover have "drop_bit 5 w AND 0x7FFFF = take_bit 19 (drop_bit 5 w)" by (simp add: take_bit_eq_mask mask_eq_exp_minus_1)
  ultimately show "b_cond_taken_pc w pc = pc + off" "w AND 0xF = cond"
    using assms xor_sign_extend [of "drop_bit 5 w"]
    by (simp_all add: b_cond_taken_pc_def arm_decode_cond_def branch_offset_def Let_def mult.commute split: if_splits)
qed

text \<open>Macros of room that are enough for a conditional branch and what follows it.\<close>

definition BRANCH_MACROS :: nat where
  "BRANCH_MACROS = 61"

lemma translated_b_cond:
  assumes b: "budget D (BRANCH_MACROS + n) c" and flag: "b_cond_flag (w AND 0xF) = Some (off, z)"
    and e_def: "e = translate_b_cond c w pc"
  shows "appends (flush_window c) (b_cond_calls off z (store_calls c) (pc + 4) (b_cond_taken_pc w pc)) e"
    "xa_room (276 + MACRO_BYTES * n) (tc_assembler e)" "tc_ok (flush_window c)" "ra_wf c" "tc_status e = BAL_SUCCESS"
proof -
  let ?calls = "b_cond_calls off z (store_calls c) (pc + 4) (b_cond_taken_pc w pc)"
  note bd = budgetD [OF b]
  have sw: "tc_sw c" using bd(1) by auto
  show wf: "ra_wf c" by (rule bd(4))
  have "sw_room (BRANCH_MACROS + n) (tc_window (flush_window c), tc_assembler (flush_window c))"
    unfolding flush_window_pair [OF sw] using b by (intro flush_all_room) (simp add: budget_def)
  then have room: "xa_room (MACRO_BYTES * (BRANCH_MACROS + n)) (tc_assembler (flush_window c))"
    using flush_window_idle(1) [OF sw] by (simp add: sw_room_def idle_def)
  then have "xa_room (calls_size ?calls + (276 + MACRO_BYTES * n)) (tc_assembler (flush_window c))"
    by (rule xa_room_mono)
      (use b_cond_calls_size [of off z c "pc + 4" "b_cond_taken_pc w pc"] in \<open>simp add: MACRO_BYTES_def BRANCH_MACROS_def\<close>)
  note room' = this
  show "tc_ok (flush_window c)" using room bd(6) by (simp add: tc_ok_def sw_ok_def xa_room_def)
  show app: "appends (flush_window c) ?calls e" unfolding e_def by (rule b_cond_appends [OF sw wf flag room'])
  show "xa_room (276 + MACRO_BYTES * n) (tc_assembler e)"
    by (rule appends_room [OF app room' b_cond_calls_valid [OF wf]])
  show "tc_status e = BAL_SUCCESS" using app bd(6) by (simp add: appends_def)
qed

lemma flag_of_cond:
  assumes "cond < (8 :: u32)"
  shows "b_cond_flag cond \<noteq> None"
proof -
  have "unat cond < 8" using assms by (simp add: word_less_nat_alt)
  then have "unat cond \<in> {0, 1, 2, 3, 4, 5, 6, 7}" by (auto simp: less_Suc_eq numeral_eq_Suc)
  then have "cond \<in> {0, 1, 2, 3, 4, 5, 6, 7}" by (auto simp: word_unat_eq_iff)
  then show ?thesis by (auto simp: b_cond_flag_def)
qed

definition branched :: "u32 \<Rightarrow> translate_state \<Rightarrow> translate_state \<Rightarrow> bool" where
  "branched w s s' \<longleftrightarrow> ts_compiler s' = translate_b_cond (ts_compiler s) w (ts_guest_address s) \<and>
     ts_is_pc_dynamic s' = ts_is_pc_dynamic s"

lemma translate_words_cond:
  assumes sup: "supported_cond tables w cond off" and b: "budget D (BRANCH_MACROS + n) (ts_compiler s)"
    and host: "host cursor = w"
  shows "\<exists>s'. translate_words host tables flags max_instructions debug (Suc m) i cursor s = s' \<and>
    ts_is_block_terminated s' \<and> branched w s s'"
proof -
  from sup have dec: "bal_decode_arm64 tables w = Some metadata_b_cond" and cond: "w AND 0xF = cond" "cond < 8"
    by (auto simp: supported_cond_def b_cond_target)
  from flag_of_cond [OF cond(2)] obtain fo z where flag: "b_cond_flag (w AND 0xF) = Some (fo, z)"
    unfolding cond(1) by fastforce
  note e = translated_b_cond [OF b flag refl [of "translate_b_cond (ts_compiler s) w (ts_guest_address s)"]]
  have "xa_status (tc_assembler (translate_b_cond (ts_compiler s) w (ts_guest_address s))) = BAL_SUCCESS"
    using e(2) by (simp add: xa_room_def xa_ok_def)
  moreover have "\<not> trapped flags metadata_b_cond"
    by (simp add: trapped_def name_starts_def metadata_b_cond_def table_entry_def)
  moreover have "translate_opcode s metadata_b_cond w =
      ends_block s (translate_b_cond (ts_compiler s) w (ts_guest_address s))"
    by (simp add: translate_opcode_def metadata_b_cond_def table_entry_def Let_def)
  ultimately show ?thesis
    using host dec e(5) by (simp add: translate_one_def Let_def ends_block_def branched_def split: option.split)
qed

definition branch_bytes :: "nat \<Rightarrow> nat" where
  "branch_bytes n = PROLOGUE_BYTES + MACRO_BYTES * (MACROS_PER_INSTRUCTION * n + BRANCH_MACROS)"

lemma branch_end:
  assumes begins: "begins a0 c0" and comp: "compiles c0 c F" and b: "budget D (BRANCH_MACROS + n) c"
    and flag: "b_cond_flag (w AND 0xF) = Some (fo, z)"
    and t: "t = terminate_block (translate_b_cond c w pc) pc' dyn num flags"
  shows "branch_computes (code_of t) (length (xa_code a0)) F (arm_condition_holds (w AND 0xF)) (pc + 4) (b_cond_taken_pc w pc)"
    "take (length (xa_code a0)) (code_of t) = xa_code a0" "ready (MACRO_BYTES * n) t"
proof -
  let ?e = "translate_b_cond c w pc"
  let ?calls = "b_cond_calls fo z (store_calls c) (pc + 4) (b_cond_taken_pc w pc)"
  let ?tail = "end_calls ?e (if dyn then None else Some pc') num flags"
  note e = translated_b_cond [OF b flag refl [of "translate_b_cond c w pc"]]
  have idle: "idle ?e" by (rule appends_idle [OF e(1)])
  have maps: "tc_arm_to_x86 ?e = tc_arm_to_x86 c" "tc_is_dirty ?e = tc_is_dirty c"
    using e(1) by (simp_all add: appends_def)
  have valid: "list_all macro_valid (dirty_stores ?e)"
    unfolding dirty_stores_cong [OF maps] by (rule dirty_stores_valid [OF e(4)])
  have "xa_room 276 (tc_assembler ?e)" using e(2) by (rule xa_room_mono) simp
  then have app: "appends ?e ?tail t" unfolding t by (rule terminate_block_appends [OF idle valid])
  have "xa_room (calls_size ?tail + MACRO_BYTES * n) (tc_assembler ?e)"
    using e(2) by (rule xa_room_mono) (use end_calls_size in simp)
  then have room: "xa_room (MACRO_BYTES * n) (tc_assembler t)"
    by (rule appends_room [OF app _ end_calls_valid [OF valid]])
  have all: "appends (flush_window c) (?calls @ ?tail) t" by (rule appends_trans [OF e(1) app])
  show ready: "ready (MACRO_BYTES * n) t"
    using appends_idle [OF app] room app e(5) by (simp add: ready_def idle_def tc_sw_def appends_def)
  obtain ms where ms: "emits c0 ms c" "list_all lowered ms" using comp unfolding compiles_def by blast
  from flushed_code [OF begins ms e(3)] obtain as where
    as: "xa_code (tc_assembler (flush_window c)) = xa_code a0 @ as" by blast
  have "xa_wf (tc_assembler (flush_window c))" by (rule flushed_wf [OF begins ms(1)])
  moreover have "xa_ok (tc_assembler t)" using room by (simp add: xa_room_def)
  ultimately have code: "code_of t = xa_code (tc_assembler (flush_window c)) @ concat (map x86_bytes ?calls) @
      concat (map x86_bytes ?tail)"
    using all x86_buffer.run_code [of "tc_assembler (flush_window c)" "?calls @ ?tail"]
    by (simp add: appends_def code_of_def)
  then show "take (length (xa_code a0)) (code_of t) = xa_code a0" by (simp add: as)
  show "branch_computes (code_of t) (length (xa_code a0)) F (arm_condition_holds (w AND 0xF)) (pc + 4) (b_cond_taken_pc w pc)"
    by (rule branch_runs [OF begins comp e(3) flag code])
qed

lemma translate_conditional_block:
  assumes "ready (branch_bytes (length ws) + MACRO_BYTES * k) c"
    and "list_all2 (supported tables) ws is" "supported_cond tables w cond off"
    and "card (\<Union> (guest_registers ` set is)) \<le> 8"
    and "block_in_memory host interface pc (ws @ [w])"
    and "length ws < unat max_instructions"
    and "flag_set flags BAL_ENGINE_FLAG_STRICT_ALIGNMENT \<Longrightarrow> pc mod 4 = 0"
    and next_def: "next = pc + 4 * of_nat (length ws)"
  shows "\<exists>c'. bal_tier1_compiler_translate host tables c (Some interface) pc max_instructions flags =
      Some (xa_rx_buffer (tc_assembler c) + xa_offset (tc_assembler c), c') \<and>
    branch_computes (code_of c') (length (code_of c)) (arm_exec is) (arm_condition_holds cond) (next + 4) (next + off) \<and>
    take (length (code_of c)) (code_of c') = code_of c \<and> ready (MACRO_BYTES * k) c'"
proof -
  let ?D = "\<Union> (guest_registers ` set is)"
  let ?c0 = "emit_calls (reset_register_allocator c) block_prologue"
  have "finite (guest_registers i)" for i by (cases i) simp_all
  then have fin: "finite ?D" by simp
  have "ready (PROLOGUE_BYTES + MACRO_BYTES * (MACROS_PER_INSTRUCTION * length ws + (BRANCH_MACROS + k))) c"
    using assms(1) by (simp add: branch_bytes_def algebra_simps)
  note c0 = ready_begins [OF this fin assms(4)]
  from assms(5) obtain translate base bytes where mi: "mi_translate interface = Some translate"
      "translate (mi_context interface) pc = (base, bytes)" "base \<noteq> 0" "4 * (length ws + 1) \<le> unat bytes"
      "host_holds host base (ws @ [w])"
    by (auto simp: block_in_memory_def split: option.splits prod.splits)
  from assms(3) have cond: "arm_decode_cond w = Some (cond, off)" "cond < 8" by (simp_all add: supported_cond_def)
  from flag_of_cond [OF cond(2)] b_cond_target(2) [OF cond(1)] obtain fo z where
    flag: "b_cond_flag (w AND 0xF) = Some (fo, z)" by fastforce
  let ?P = "\<lambda>t. branch_computes (code_of t) (length (code_of c)) (arm_exec is) (arm_condition_holds cond) (next + 4) (next + off) \<and>
    take (length (code_of c)) (code_of t) = code_of c \<and> ready (MACRO_BYTES * k) t"
  show ?thesis
  proof (rule translate_unfold [OF mi(1), where P = ?P])
    show "max_instructions \<noteq> 0" using assms(6) by auto
    show "?P t \<Longrightarrow> ?P (t\<lparr>tc_debug_context := x\<rparr>)" for t x by (simp add: code_of_def)
  next
    fix debug
    let ?s = "\<lparr>ts_compiler = ?c0, ts_guest_address = pc, ts_is_block_terminated = False,
      ts_is_pc_dynamic = False, ts_count = 0, ts_mappings = []\<rparr>"
    have "\<exists>s1 s2. translate_loop host (translate (mi_context interface)) tables flags max_instructions debug ?s = Some s2 \<and>
        advanced ?D (BRANCH_MACROS + k) ?s (length ws) is s1 \<and> branched w s1 s2"
    proof (rule translate_loop_last [OF assms(2) subset_refl])
      show "\<exists>s2. translate_words host tables flags max_instructions debug (Suc m) (of_nat (length ws)) cursor s1 = s2 \<and>
          ts_is_block_terminated s2 \<and> branched w s1 s2"
        if "advanced ?D (BRANCH_MACROS + k) ?s (length ws) is s1" "host cursor = w" for s1 m cursor
      proof -
        have "budget ?D (BRANCH_MACROS + k) (ts_compiler s1)" using that(1) by (simp add: advanced_def)
        from translate_words_cond [where host = host, OF assms(3) this that(2)] show ?thesis .
      qed
    qed (use c0(2) mi(2-5) assms(6,7) in simp_all)
    then obtain s1 s2 where s: "translate_loop host (translate (mi_context interface)) tables flags max_instructions debug ?s = Some s2"
        "advanced ?D (BRANCH_MACROS + k) ?s (length ws) is s1" "branched w s1 s2" by blast
    have s1: "compiles ?c0 (ts_compiler s1) (arm_exec is)" "budget ?D (BRANCH_MACROS + k) (ts_compiler s1)"
        "ts_guest_address s1 = next"
      using s(2) by (simp_all add: advanced_def next_def)
    define t where "t = terminate_block (ts_compiler s2) (ts_guest_address s2) (ts_is_pc_dynamic s2) (ts_count s2) flags"
    have t: "t = terminate_block (translate_b_cond (ts_compiler s1) w next) (ts_guest_address s2) (ts_is_pc_dynamic s2) (ts_count s2) flags"
      using s(3) s1(3) by (simp add: t_def branched_def)
    have "?P t"
      using branch_end [OF c0(1) s1(1,2) flag t] b_cond_target [OF cond(1)] by (simp add: code_of_def [of c])
    with ready_ok [of "MACRO_BYTES * k" t] s(1) show "\<exists>s. translate_loop host (translate (mi_context interface)) tables flags max_instructions debug ?s = Some s \<and>
        (let t = terminate_block (ts_compiler s) (ts_guest_address s) (ts_is_pc_dynamic s) (ts_count s) flags
         in tc_status t = BAL_SUCCESS \<and> xa_status (tc_assembler t) = BAL_SUCCESS \<and> ?P t)"
      by (intro exI [of _ s2]) (simp add: Let_def t_def ready_def)
  qed
qed

text \<open>
  C35: a block that ends in a conditional branch on one flag. The translation succeeds, and
  the jump offset it computes from the number of dirty registers is exact. When the condition
  is false the code is right: it returns to its caller with the registers written back, the
  program counter of the next instruction and everything restored. When it holds, the guest
  state is right too, but the code returns to whatever the caller had in R14: the taken way
  leaves four of the five saved registers on the stack. Neither way counts instructions.
\<close>

theorem conditional_block_correct:
  assumes "ready (branch_bytes (length ws) + MACRO_BYTES * k) c"
    and "list_all2 (supported tables) ws is" "supported_cond tables w cond off"
    and "card (\<Union> (guest_registers ` set is)) \<le> 8"
    and "block_in_memory host interface pc (ws @ [w])"
    and "length ws < unat max_instructions"
    and "flag_set flags BAL_ENGINE_FLAG_STRICT_ALIGNMENT \<Longrightarrow> pc mod 4 = 0"
    and "next = pc + 4 * of_nat (length ws)"
  shows "\<exists>c'. bal_tier1_compiler_translate host tables c (Some interface) pc max_instructions flags =
      Some (xa_rx_buffer (tc_assembler c) + xa_offset (tc_assembler c), c') \<and>
    branch_computes (code_of c') (length (code_of c)) (arm_exec is) (arm_condition_holds cond) (next + 4) (next + off) \<and>
    take (length (code_of c)) (code_of c') = code_of c \<and> ready (MACRO_BYTES * k) c'"
  using assms by (rule translate_conditional_block)

definition branch_tables :: decoder_tables where
  "branch_tables = \<lparr>g_decoder_lookup_table = replicate 2048 \<lparr>db_index = 0, db_count = 3\<rparr>,
     g_decoder_hash_candidates = [metadata_movz64, metadata_add_imm64, metadata_b_cond]\<rparr>"

text \<open>MOVZ X0, #42; ADD X1, X0, #1; B.NE back to the start.\<close>

definition branch_host :: "u64 \<Rightarrow> u32" where
  "branch_host a = (if a = 0x8000 then 0xD2800540 else if a = 0x8004 then 0x91000401 else 0x54FFFFC1)"

lemma branch_decode:
  "bal_decode_arm64 branch_tables 0xD2800540 = Some metadata_movz64"
  "bal_decode_arm64 branch_tables 0x91000401 = Some metadata_add_imm64"
  "bal_decode_arm64 branch_tables 0x54FFFFC1 = Some metadata_b_cond"
  by (simp_all add: bal_decode_arm64_def Let_def branch_tables_def metadata_defs metadata_b_cond_def table_entry_def
      word_less_nat_alt nth_replicate bucket_index_bound)

definition roomy_compiler :: bal_tier1_compiler_t where
  "roomy_compiler = sample_compiler\<lparr>tc_assembler := fresh_assembler 2000\<rparr>"

theorem conditional_block_correct_witness:
  "\<exists>c'. bal_tier1_compiler_translate branch_host branch_tables roomy_compiler (Some sample_interface)
      0 16 BAL_ENGINE_FLAG_INSTRUCTION_COUNTING = Some (0x20000, c') \<and>
    branch_computes (code_of c') 0 (arm_exec [A_movz 0 42 0, A_add_sub_imm False False 1 0 1])
      (arm_condition_holds 1) 12 0 \<and>
    take 0 (code_of c') = [] \<and> ready (MACRO_BYTES * 0) c'"
proof -
  let ?ws = "[0xD2800540, 0x91000401] :: u32 list"
  have code: "code_of roomy_compiler = []"
    "xa_rx_buffer (tc_assembler roomy_compiler) + xa_offset (tc_assembler roomy_compiler) = 0x20000"
    by (simp_all add: code_of_def xa_code_def roomy_compiler_def sample_compiler_def fresh_assembler_def)
  have "xa_room (branch_bytes (length ?ws)) (fresh_assembler 2000)" 
    by (rule xa_room_mono [OF fresh_assembler_room [of 2000]])
      (simp_all add: branch_bytes_def PROLOGUE_BYTES_def MACRO_BYTES_def MACROS_PER_INSTRUCTION_def BRANCH_MACROS_def)
  then have ready: "ready (branch_bytes (length ?ws) + MACRO_BYTES * 0) roomy_compiler"
    using fresh_window_denotes(1) [of "fresh_assembler 2000"]
    by (simp add: ready_def roomy_compiler_def sample_compiler_def xa_room_def) (simp add: fresh_window_def)
  have words: "list_all2 (supported branch_tables) ?ws [A_movz 0 42 0, A_add_sub_imm False False 1 0 1]"
    by (simp add: supported_def branch_decode data_processing_metadata_def) code_simp
  have branch: "supported_cond branch_tables 0x54FFFFC1 1 (- 8)"
    by (simp add: supported_cond_def branch_decode) code_simp
  have memory: "block_in_memory branch_host sample_interface 0 (?ws @ [0x54FFFFC1])"
    by (simp add: block_in_memory_def sample_interface_def bal_flat_translation_interface_translate_def
        branch_host_def)
  show ?thesis
    using conditional_block_correct [OF ready words branch _ memory, of 16 BAL_ENGINE_FLAG_INSTRUCTION_COUNTING, OF _ _ _ refl]
    by (simp add: code)
qed

end
