(* ===== verification/Translation_Deviations.thy ===== *)
theory Translation_Deviations
  imports Block_Correctness
begin

text \<open>
  Words the compiler translates into something else than the architecture says, and blocks it
  ends in the wrong place.
\<close>

section \<open>The instruction limit\<close>

lemma translate_words_limit:
  assumes sup: "supported tables w ins" and regs: "guest_registers ins \<subseteq> D"
    and b: "budget D (MACROS_PER_INSTRUCTION + n) (ts_compiler s)" and host: "host cursor = w"
    and i: "i + 1 = max_instructions"
  shows "\<exists>s'. translate_words host tables flags max_instructions debug (Suc m) i cursor s = s' \<and>
    ts_is_block_terminated s' \<and> ts_guest_address s' = ts_guest_address s \<and>
    ts_is_pc_dynamic s' = ts_is_pc_dynamic s \<and> ts_count s' = ts_count s + 1 \<and>
    budget D n (ts_compiler s') \<and> compiles (ts_compiler s) (ts_compiler s') (arm_step ins)"
proof -
  from sup obtain m where m: "bal_decode_arm64 tables w = Some m" "m \<in> set data_processing_metadata"
      "arm_decode w = Some ins" "operands_agree ins" by (auto simp: supported_def split: option.splits)
  from translate_data_processing [OF m(2) decode_Some_matches [OF m(1)] m(3,4) regs b]
  obtain c' where c': "translate_opcode s m w = s\<lparr>ts_compiler := c'\<rparr>" "budget D n c'"
      "compiles (ts_compiler s) c' (arm_step ins)" by (auto simp: translated_def)
  note ok = budgetD(5,6) [OF c'(2)]
  show ?thesis
    using host m(1) data_processing_not_trapped [OF m(2), of flags] c' ok i
    by (simp add: translate_one_def Let_def split: option.split)
qed

text \<open>The state after a block that the limit has cut, at its last instruction.\<close>

definition limited :: "nat set \<Rightarrow> nat \<Rightarrow> arm_instr \<Rightarrow> translate_state \<Rightarrow> translate_state \<Rightarrow> bool" where
  "limited D n ins s s' \<longleftrightarrow> ts_guest_address s' = ts_guest_address s \<and>
     ts_is_pc_dynamic s' = ts_is_pc_dynamic s \<and> ts_count s' = ts_count s + 1 \<and>
     budget D n (ts_compiler s') \<and> compiles (ts_compiler s) (ts_compiler s') (arm_step ins)"

lemma translate_limited_block:
  assumes "ready (block_bytes (length ws + 1) + MACRO_BYTES * k) c"
    and "list_all2 (supported tables) ws is" "supported tables w ins"
    and "card (\<Union> (guest_registers ` set (is @ [ins]))) \<le> 8"
    and "block_in_memory host interface pc (ws @ [w])"
    and "max_instructions = of_nat (length ws + 1)" "length ws + 1 < 2 ^ 31"
    and "flag_set flags BAL_ENGINE_FLAG_STRICT_ALIGNMENT \<Longrightarrow> pc mod 4 = 0"
  shows "\<exists>c'. bal_tier1_compiler_translate host tables c (Some interface) pc max_instructions flags =
      Some (xa_rx_buffer (tc_assembler c) + xa_offset (tc_assembler c), c') \<and>
    block_computes (code_of c') (length (code_of c))
      (\<lambda>g. arm_block flags max_instructions (Some (pc + 4 * of_nat (length ws))) (arm_exec (is @ [ins]) g)) \<and>
    take (length (code_of c)) (code_of c') = code_of c \<and> ready (MACRO_BYTES * k) c'"
proof -
  let ?D = "\<Union> (guest_registers ` set (is @ [ins]))"
  let ?c0 = "emit_calls (reset_register_allocator c) block_prologue" and ?n = "MACROS_PER_INSTRUCTION + (36 + k)"
  have "finite (guest_registers i)" for i by (cases i) simp_all
  then have fin: "finite ?D" by simp
  have max: "unat max_instructions = length ws + 1"
    using assms(7) unat_add_of_nat [of 0 "length ws + 1"] by (simp add: assms(6))
  have "ready (PROLOGUE_BYTES + MACRO_BYTES * (MACROS_PER_INSTRUCTION * length ws + ?n)) c"
    using assms(1) by (auto simp: block_bytes_def ready_def algebra_simps elim: xa_room_mono)
  note c0 = ready_begins [OF this fin assms(4)]
  from assms(5) obtain translate base bytes where mi: "mi_translate interface = Some translate"
      "translate (mi_context interface) pc = (base, bytes)" "base \<noteq> 0" "4 * (length ws + 1) \<le> unat bytes"
      "host_holds host base (ws @ [w])"
    by (auto simp: block_in_memory_def split: option.splits prod.splits)
  let ?P = "\<lambda>t. block_computes (code_of t) (length (code_of c))
      (\<lambda>g. arm_block flags max_instructions (Some (pc + 4 * of_nat (length ws))) (arm_exec (is @ [ins]) g)) \<and>
    take (length (code_of c)) (code_of t) = code_of c \<and> ready (MACRO_BYTES * k) t"
  show ?thesis
  proof (rule translate_unfold [OF mi(1), where P = ?P])
    show "max_instructions \<noteq> 0" using max by auto
    show "?P t \<Longrightarrow> ?P (t\<lparr>tc_debug_context := x\<rparr>)" for t x by (simp add: code_of_def)
  next
    fix debug
    let ?s = "\<lparr>ts_compiler = ?c0, ts_guest_address = pc, ts_is_block_terminated = False,
      ts_is_pc_dynamic = False, ts_count = 0, ts_mappings = []\<rparr>"
    have "\<exists>s1 s2. translate_loop host (translate (mi_context interface)) tables flags max_instructions debug ?s = Some s2 \<and>
        advanced ?D ?n ?s (length ws) is s1 \<and> limited ?D (36 + k) ins s1 s2"
    proof (rule translate_loop_last [OF assms(2)])
      show "\<exists>s2. translate_words host tables flags max_instructions debug (Suc m) (of_nat (length ws)) cursor s1 = s2 \<and>
          ts_is_block_terminated s2 \<and> limited ?D (36 + k) ins s1 s2"
        if "advanced ?D ?n ?s (length ws) is s1" "host cursor = w" for s1 m cursor
      proof -
        have "guest_registers ins \<subseteq> ?D" "budget ?D ?n (ts_compiler s1)" using that(1) by (auto simp: advanced_def)
        from translate_words_limit [where host = host, OF assms(3) this that(2)] assms(6) show ?thesis
          by (simp add: limited_def)
      qed
    qed (use c0(2) mi(2-5) max assms(8) in auto)
    then obtain s1 s2 where s: "translate_loop host (translate (mi_context interface)) tables flags max_instructions debug ?s = Some s2"
        "advanced ?D ?n ?s (length ws) is s1" "limited ?D (36 + k) ins s1 s2" by blast
    have "arm_exec (is @ [ins]) = (\<lambda>g. arm_step ins (arm_exec is g))" by (rule ext, induction "is") simp_all
    moreover have "compiles ?c0 (ts_compiler s2) (\<lambda>g. arm_step ins (arm_exec is g))"
      by (rule compiles_trans [of _ "ts_compiler s1"]) (use s(2,3) in \<open>simp_all add: advanced_def limited_def\<close>)
    ultimately have s2: "compiles ?c0 (ts_compiler s2) (arm_exec (is @ [ins]))" "budget ?D (36 + k) (ts_compiler s2)"
        "ts_guest_address s2 = pc + 4 * of_nat (length ws)" "\<not> ts_is_pc_dynamic s2" "ts_count s2 = max_instructions"
      using s(2,3) by (simp_all add: advanced_def limited_def assms(6))
    define t where "t = terminate_block (ts_compiler s2) (ts_guest_address s2) (ts_is_pc_dynamic s2) (ts_count s2) flags"
    have ready: "ready (MACRO_BYTES * k) t" unfolding t_def by (rule terminate_block_ok [OF s2(2)])
    have num: "unat (ts_count s2) < 2 ^ 31" using max assms(7) s2(5) by simp
    have ok: "tc_ok t" "xa_status (tc_assembler t) = BAL_SUCCESS" "tc_status t = BAL_SUCCESS"
      using ready_ok [OF ready] by (auto dest: tc_ok_status)
    note comp = terminate_block_computes [OF c0(1) s2(1) num ok(1) [unfolded t_def], folded t_def]
    have "?P t" using comp(1,2) ready s2(3-5) by (simp add: code_of_def)
    with ok s(1) show "\<exists>s. translate_loop host (translate (mi_context interface)) tables flags max_instructions debug ?s = Some s \<and>
        (let t = terminate_block (ts_compiler s) (ts_guest_address s) (ts_is_pc_dynamic s) (ts_count s) flags
         in tc_status t = BAL_SUCCESS \<and> xa_status (tc_assembler t) = BAL_SUCCESS \<and> ?P t)"
      by (intro exI [of _ s2]) (simp add: Let_def t_def)
  qed
qed

section \<open>A destination that is also an operand\<close>

lemma translate_reg_overlap:
  assumes m: "m \<in> {metadata_add_reg64, metadata_adds_reg64, metadata_sub_reg64, metadata_subs_reg64}"
    and w: "matches m w" and ins: "arm_decode w = Some (A_add_sub_reg is_sub st rd rn rd)"
    and regs: "rd \<noteq> 31" "rn \<noteq> 31" "{rd, rn} \<subseteq> D"
    and b: "budget D (MACROS_PER_INSTRUCTION + n) (ts_compiler s)"
  shows "translated D n s (translate_opcode s m w) (A_add_sub_reg is_sub st rd rn rn)"
proof -
  have shape: "dm_operands m = [reg64 0, reg64 5, imm_field 10 6, reg64 16, imm_field 22 2]"
    using m by (auto simp: metadata_defs)
  have E: "w AND 0xFF200000 = dm_expected m"
    "dm_expected m \<in> {0x8B000000, 0xAB000000, 0xCB000000, 0xEB000000}"
    using m w by auto
  have bits: "bit (dm_expected m) 30 = (m \<in> {metadata_sub_reg64, metadata_subs_reg64})"
    "bit (dm_expected m) 29 = is_setting_flags m"
    using m by (auto simp: setting_flags_table bit_numeral_rec)
  note dec = decode_add_sub_reg [OF E ins, unfolded bits]
  from dec(1) have f: "is_sub = (m \<in> {metadata_sub_reg64, metadata_subs_reg64})" "st = is_setting_flags m"
    "field w 0 5 = rd" "field w 5 5 = rn" "field w 16 5 = rd" by simp_all
  have opc: "dm_ir_opcode m = (if is_sub then OPCODE_SUB else OPCODE_ADD)"
    using m by (auto simp: f(1)) (simp_all add: metadata_defs)
  let ?c = "translate_add_sub_reg (ts_compiler s) m w is_sub"
  have t: "translate_opcode s m w = s\<lparr>ts_compiler := ?c\<rparr>"
    by (cases is_sub) (simp_all add: translate_opcode_def opc operand_type_def shape is_register_type_def Let_def)
  note o = reg_operands [OF shape, of w]
  have "operand8 m w 0 = operand8 m w 3" by (simp add: word_unat_eq_iff o f del: One_nat_def)
  moreover have "operand8 m w 0 \<noteq> 31" using regs(1) by (simp add: rd_31 o f del: One_nat_def)
  ultimately have k: "second_operand m w = 1" by (simp add: second_operand_def del: One_nat_def)
  have "budget D n ?c \<and> compiles (ts_compiler s) ?c (add_sub_effect is_sub (is_setting_flags m)
      (unat (operand8 m w 0)) (unat (operand8 m w 1)) (\<lambda>g. gs_x g (unat (operand8 m w (second_operand m w)))))"
    using regs dec(2) field5 [of w 0] field5 [of w 5] field5 [of w 16]
    by (intro conjI translate_add_sub_reg_general [where D = D and n = n])
      (simp_all only: o f b insert_subset simp_thms)
  moreover have "add_sub_effect is_sub st rd rn (\<lambda>g. gs_x g rn) = arm_step (A_add_sub_reg is_sub st rd rn rn)"
    using regs by (intro add_sub_effect_reg) simp
  ultimately show ?thesis by (auto simp del: One_nat_def simp: translated_def t k o f(3-5) f(2) [symmetric])
qed

lemma operand_matters:
  assumes "rd \<noteq> rn" "rd \<noteq> 31" "rn \<noteq> 31"
  shows "arm_step (A_add_sub_reg is_sub st rd rn rn) \<noteq> arm_step (A_add_sub_reg is_sub st rd rn rd)"
proof
  let ?g = "\<lparr>gs_x = (\<lambda>r. if r = rd then 1 else 0), gs_n = False, gs_z = False, gs_c = False, gs_v = False,
    gs_pc = 0, gs_icount = 0\<rparr>"
  assume "arm_step (A_add_sub_reg is_sub st rd rn rn) = arm_step (A_add_sub_reg is_sub st rd rn rd)"
  then have "gs_x (arm_step (A_add_sub_reg is_sub st rd rn rn) ?g) rd = gs_x (arm_step (A_add_sub_reg is_sub st rd rn rd) ?g) rd"
    by simp
  with assms show False
    by (cases is_sub; cases st)
      (simp_all add: arm_add_sub_def add_with_carry_def read_zr_def write_zr_def set_nzcv_def Let_def)
qed

section \<open>Extended registers\<close>

text \<open>
  The table entries: option and amount are immediate operands, and the second register is
  the last operand.
\<close>

definition metadata_add_ext64 :: bal_decoder_instruction_metadata_t where
  "metadata_add_ext64 = table_entry ''ADD'' 0xFFE00000 0x8B200000 OPCODE_ADD
     [reg64 0, reg64 5, imm_field 10 3, imm_field 13 3, cond_field 16 5]"

definition metadata_adds_ext64 :: bal_decoder_instruction_metadata_t where
  "metadata_adds_ext64 = table_entry ''ADDS'' 0xFFE00000 0xAB200000 OPCODE_ADD
     [reg64 0, reg64 5, imm_field 10 3, imm_field 13 3, cond_field 16 5]"

definition metadata_sub_ext64 :: bal_decoder_instruction_metadata_t where
  "metadata_sub_ext64 = table_entry ''SUB'' 0xFFE00000 0xCB200000 OPCODE_SUB
     [reg64 0, reg64 5, imm_field 10 3, imm_field 13 3, cond_field 16 5]"

definition metadata_subs_ext64 :: bal_decoder_instruction_metadata_t where
  "metadata_subs_ext64 = table_entry ''SUBS'' 0xFFE00000 0xEB200000 OPCODE_SUB
     [reg64 0, reg64 5, imm_field 10 3, imm_field 13 3, cond_field 16 5]"

definition extended_metadata :: "bal_decoder_instruction_metadata_t list" where
  "extended_metadata = [metadata_add_ext64, metadata_adds_ext64, metadata_sub_ext64, metadata_subs_ext64]"

lemmas ext_defs = metadata_add_ext64_def metadata_adds_ext64_def metadata_sub_ext64_def metadata_subs_ext64_def
  table_entry_def

text \<open>\<open>ExtendReg\<close> of the manual: the low part of the register, extended and shifted.\<close>

definition arm_extend :: "nat \<Rightarrow> nat \<Rightarrow> u64 \<Rightarrow> u64" where
  "arm_extend option shift x = push_bit shift
    (if option = 0 then take_bit 8 x else if option = 1 then take_bit 16 x
     else if option = 2 then take_bit 32 x else if option = 4 then signed_take_bit 7 x
     else if option = 5 then signed_take_bit 15 x else if option = 6 then signed_take_bit 31 x else x)"

text \<open>
  Addition and subtraction of an extended register: as with an immediate, register 31 is the
  stack pointer, except as a destination that only sets the flags.
\<close>

definition arm_add_sub_ext ::
  "bool \<Rightarrow> bool \<Rightarrow> nat \<Rightarrow> nat \<Rightarrow> nat \<Rightarrow> nat \<Rightarrow> nat \<Rightarrow> guest_state \<Rightarrow> guest_state" where
  "arm_add_sub_ext is_sub s rd rn rm option shift g =
     arm_step (A_add_sub_imm is_sub s rd rn (arm_extend option shift (read_zr g rm))) g"

text \<open>What the block compiler makes of the two fields: a short immediate.\<close>

definition extend_fields_value :: "nat \<Rightarrow> nat \<Rightarrow> u64" where
  "extend_fields_value option shift = push_bit (if option = 1 then 12 else 0) (of_nat shift)"

lemma ext_operands:
  assumes "dm_operands m = [reg64 0, reg64 5, imm_field 10 3, imm_field 13 3, cond_field 16 5]"
  shows "unat (operand8 m w 0) = field w 0 5" "unat (operand8 m w 1) = field w 5 5"
    "add_sub_imm_value m w = extend_fields_value (field w 13 3) (field w 10 3)"
proof -
  have o: "dm_operands m ! 0 = reg64 0" "dm_operands m ! 1 = reg64 5"
    "dm_operands m ! 2 = imm_field 10 3" "dm_operands m ! 3 = imm_field 13 3" by (simp_all add: assms)
  show "unat (operand8 m w 0) = field w 0 5" "unat (operand8 m w 1) = field w 5 5"
    using operand_fields(2) [OF o(1)] operand_fields(2) [OF o(2)] by simp_all
  have "(operand32 m w 3 = 1) = (unat (operand32 m w 3) = 1)" by (simp add: word_unat_eq_iff)
  then show "add_sub_imm_value m w = extend_fields_value (field w 13 3) (field w 10 3)"
    using operand_fields(1) [OF o(4), of w] operand_fields(3) [OF o(3), of w]
    by (simp add: add_sub_imm_value_def extend_fields_value_def)
qed

lemma translate_extended:
  assumes m: "m \<in> set extended_metadata"
    and b: "budget D (MACROS_PER_INSTRUCTION + n) (ts_compiler s)"
    and regs: "field w 0 5 \<in> D" "field w 5 5 \<in> D"
  shows "translated D n s (translate_opcode s m w)
    (A_add_sub_imm (m \<in> {metadata_sub_ext64, metadata_subs_ext64}) (m \<in> {metadata_adds_ext64, metadata_subs_ext64})
      (field w 0 5) (field w 5 5) (extend_fields_value (field w 13 3) (field w 10 3)))"
proof -
  have shape: "dm_operands m = [reg64 0, reg64 5, imm_field 10 3, imm_field 13 3, cond_field 16 5]"
    using m by (auto simp: extended_metadata_def ext_defs)
  define is_sub where "is_sub = (m \<in> {metadata_sub_ext64, metadata_subs_ext64})"
  have opc: "dm_ir_opcode m = (if is_sub then OPCODE_SUB else OPCODE_ADD)"
    using m by (auto simp: is_sub_def extended_metadata_def) (simp_all add: ext_defs)
  have flags: "is_setting_flags m = (m \<in> {metadata_adds_ext64, metadata_subs_ext64})"
    using m by (auto simp: extended_metadata_def) (simp_all add: ext_defs is_setting_flags_def name_char_def)
  let ?c = "translate_add_sub_imm (ts_compiler s) m w is_sub"
  have t: "translate_opcode s m w = s\<lparr>ts_compiler := ?c\<rparr>"
    by (cases is_sub) (simp_all add: translate_opcode_def opc operand_type_def shape is_register_type_def Let_def)
  note o = ext_operands [OF shape, of w]
  have res: "budget D n ?c" using b by (rule translate_add_sub_imm_budget) (simp_all add: o regs del: One_nat_def)
  have "do_bit_width (dm_operands m ! 2) \<le> 12" by (simp add: shape)
  from translate_add_sub_imm_compiles [OF budgetD(1) [OF b] budgetD(2) [OF res] this] res
  show ?thesis unfolding is_sub_def [symmetric] flags [symmetric]
    by (auto simp del: One_nat_def simp: translated_def t o add_sub_effect_imm)
qed

lemma extended_operand_matters:
  assumes "rd \<noteq> 31" "rm \<noteq> 31" "shift < 8"
  shows "arm_step (A_add_sub_imm is_sub s rd rn (extend_fields_value option shift)) \<noteq>
    arm_add_sub_ext is_sub s rd rn rm option shift"
proof
  let ?v = "if shift = 0 then 1 else 0 :: u64"
  let ?g = "\<lparr>gs_x = (\<lambda>r. ?v), gs_n = False, gs_z = False, gs_c = False, gs_v = False, gs_pc = 0, gs_icount = 0\<rparr>"
  assume "arm_step (A_add_sub_imm is_sub s rd rn (extend_fields_value option shift)) =
    arm_add_sub_ext is_sub s rd rn rm option shift"
  then have "gs_x (arm_step (A_add_sub_imm is_sub s rd rn (extend_fields_value option shift)) ?g) rd =
    gs_x (arm_add_sub_ext is_sub s rd rn rm option shift ?g) rd" by simp
  moreover have "gs_x (arm_step (A_add_sub_imm is_sub s rd rn v) ?g) rd = (if is_sub then ?v - v else ?v + v)" for v
    using assms(1)
    by (cases s; cases is_sub) (simp_all add: arm_add_sub_def add_with_carry_def write_zr_def write_sp_def
        set_nzcv_def not_eq_complement Let_def)
  ultimately have "extend_fields_value option shift = arm_extend option shift ?v"
    using assms(2) by (simp add: arm_add_sub_ext_def read_zr_def split: if_splits)
  moreover have "shift \<in> {0, 1, 2, 3, 4, 5, 6, 7}" using assms(3) by auto
  ultimately show False
    by (auto simp: extend_fields_value_def arm_extend_def split: if_splits)
qed

section \<open>The results\<close>

text \<open>
  C36: the instruction limit. A block of supported instructions that reaches the limit stops
  at its last instruction without stepping over it: the code executes all of them and then
  stores the address of the last one as the program counter, so that the next block executes
  it again. With a limit of one, as in single stepping, the program counter does not move.
\<close>

theorem instruction_limit_repeats:
  assumes "ready (block_bytes (length ws + 1) + MACRO_BYTES * k) c"
    and "list_all2 (supported tables) ws is" "supported tables w ins"
    and "card (\<Union> (guest_registers ` set (is @ [ins]))) \<le> 8"
    and "block_in_memory host interface pc (ws @ [w])"
    and "max_instructions = of_nat (length ws + 1)" "length ws + 1 < 2 ^ 31"
    and "flag_set flags BAL_ENGINE_FLAG_STRICT_ALIGNMENT \<Longrightarrow> pc mod 4 = 0"
  shows "\<exists>c'. bal_tier1_compiler_translate host tables c (Some interface) pc max_instructions flags =
      Some (xa_rx_buffer (tc_assembler c) + xa_offset (tc_assembler c), c') \<and>
    block_computes (code_of c') (length (code_of c))
      (\<lambda>g. arm_block flags max_instructions (Some (pc + 4 * of_nat (length ws))) (arm_exec (is @ [ins]) g)) \<and>
    take (length (code_of c)) (code_of c') = code_of c \<and> ready (MACRO_BYTES * k) c'"
  using assms by (rule translate_limited_block)

text \<open>Single stepping over ADD X1, X0, #1 at address 4.\<close>

theorem instruction_limit_repeats_witness:
  "\<exists>c'. bal_tier1_compiler_translate sample_host sample_tables sample_compiler (Some sample_interface)
      4 1 BAL_ENGINE_FLAG_SINGLE_STEP = Some (0x20000, c') \<and>
    block_computes (code_of c') 0
      (\<lambda>g. arm_block BAL_ENGINE_FLAG_SINGLE_STEP 1 (Some 4) (arm_exec [A_add_sub_imm False False 1 0 1] g)) \<and>
    take 0 (code_of c') = [] \<and> ready (MACRO_BYTES * 0) c'"
proof -
  have code: "code_of sample_compiler = []"
    "xa_rx_buffer (tc_assembler sample_compiler) + xa_offset (tc_assembler sample_compiler) = 0x20000"
    by (simp_all add: code_of_def xa_code_def sample_compiler_def fresh_assembler_def)
  have "xa_room (block_bytes (length ([] :: u32 list) + 1)) (fresh_assembler 1000)"
    by (rule xa_room_mono [OF fresh_assembler_room [of 1000]])
      (simp_all add: block_bytes_def PROLOGUE_BYTES_def MACRO_BYTES_def MACROS_PER_INSTRUCTION_def)
  then have ready: "ready (block_bytes (length ([] :: u32 list) + 1) + MACRO_BYTES * 0) sample_compiler"
    using fresh_window_denotes(1) [of "fresh_assembler 1000"]
    by (simp add: ready_def sample_compiler_def xa_room_def) (simp add: fresh_window_def)
  have word: "supported sample_tables 0x91000401 (A_add_sub_imm False False 1 0 1)"
    by (simp add: supported_def sample_decode data_processing_metadata_def) code_simp
  have memory: "block_in_memory sample_host sample_interface 4 ([] @ [0x91000401])"
    by (simp add: block_in_memory_def sample_interface_def bal_flat_translation_interface_translate_def
        sample_host_def)
  show ?thesis
    using instruction_limit_repeats [OF ready list_all2_Nil [THEN iffD2, OF refl] word _ memory, of 1 BAL_ENGINE_FLAG_SINGLE_STEP]
    by (simp add: code)
qed

text \<open>
  C37: an addition or subtraction of registers whose destination is also the second operand
  and not the first is translated wrongly: the move of the first operand overwrites the
  second, and the code computes the operation of the first operand with itself.
\<close>

theorem add_sub_destroys_operand:
  assumes "m \<in> {metadata_add_reg64, metadata_adds_reg64, metadata_sub_reg64, metadata_subs_reg64}"
    and "matches m w" "arm_decode w = Some (A_add_sub_reg is_sub st rd rn rd)"
    and "rd \<noteq> rn" "rd \<noteq> 31" "rn \<noteq> 31" "{rd, rn} \<subseteq> D"
    and "budget D (MACROS_PER_INSTRUCTION + n) (ts_compiler s)"
  shows "translated D n s (translate_opcode s m w) (A_add_sub_reg is_sub st rd rn rn) \<and>
    arm_step (A_add_sub_reg is_sub st rd rn rn) \<noteq> arm_step (A_add_sub_reg is_sub st rd rn rd)"
  using translate_reg_overlap [OF assms(1-3,5-8)] operand_matters [OF assms(4-6)] by blast

definition sample_state :: translate_state where
  "sample_state = \<lparr>ts_compiler = emit_calls (reset_register_allocator sample_compiler) block_prologue,
     ts_guest_address = 0, ts_is_block_terminated = False, ts_is_pc_dynamic = False, ts_count = 0, ts_mappings = []\<rparr>"

lemma sample_state_budget: "budget {1, 0} (MACROS_PER_INSTRUCTION + 10) (ts_compiler sample_state)"
proof -
  have "xa_room (PROLOGUE_BYTES + MACRO_BYTES * 40) (fresh_assembler 1000)"
    by (rule xa_room_mono [OF fresh_assembler_room [of 1000]])
      (simp_all add: PROLOGUE_BYTES_def MACRO_BYTES_def)
  then have "ready (PROLOGUE_BYTES + MACRO_BYTES * 40) sample_compiler"
    using fresh_window_denotes(1) [of "fresh_assembler 1000"]
    by (simp add: ready_def sample_compiler_def xa_room_def) (simp add: fresh_window_def)
  from ready_begins(2) [OF this, of "{1, 0}"] show ?thesis
    by (auto simp: sample_state_def MACROS_PER_INSTRUCTION_def elim: budget_mono)
qed

text \<open>SUB X1, X0, X1 becomes X0 - X0.\<close>

theorem add_sub_destroys_operand_witness:
  "translated {1, 0} 10 sample_state (translate_opcode sample_state metadata_sub_reg64 0xCB010001)
     (A_add_sub_reg True False 1 0 0) \<and>
   arm_step (A_add_sub_reg True False 1 0 0) \<noteq> arm_step (A_add_sub_reg True False 1 0 1)"
proof -
  note sample_state_budget
  moreover have "arm_decode 0xCB010001 = Some (A_add_sub_reg True False 1 0 1)" by code_simp
  ultimately show ?thesis
    by (intro add_sub_destroys_operand) simp_all
qed

text \<open>
  C38: an addition or subtraction of an extended register adds an immediate. The compiler takes
  the entry of the decoder table for one with an immediate: the code adds or subtracts the
  shift amount (shifted by 12 if the extension is UXTH) and does not read the second register,
  which is not what the instruction means, unless a flag result or register 31 hides it.
\<close>

theorem extended_register_becomes_immediate:
  assumes "m \<in> set extended_metadata" "matches m w"
    and "field w 0 5 \<noteq> 31" "field w 16 5 \<noteq> 31" "{field w 0 5, field w 5 5} \<subseteq> D"
    and "budget D (MACROS_PER_INSTRUCTION + n) (ts_compiler s)"
    and "is_sub = (m \<in> {metadata_sub_ext64, metadata_subs_ext64})"
    and "st = (m \<in> {metadata_adds_ext64, metadata_subs_ext64})"
    and "wrong = A_add_sub_imm is_sub st (field w 0 5) (field w 5 5) (extend_fields_value (field w 13 3) (field w 10 3))"
  shows "translated D n s (translate_opcode s m w) wrong \<and>
    arm_step wrong \<noteq> arm_add_sub_ext is_sub st (field w 0 5) (field w 5 5) (field w 16 5) (field w 13 3) (field w 10 3)"
  using translate_extended [OF assms(1,6), of w] extended_operand_matters [OF assms(3,4), of "field w 10 3"]
    field_bound [of w 10 3] assms(5,7-9) by simp

text \<open>ADD X1, X0, W2, UXTW becomes X0 + 0.\<close>

theorem extended_register_becomes_immediate_witness:
  "translated {1, 0} 10 sample_state (translate_opcode sample_state metadata_add_ext64 0x8B224001)
     (A_add_sub_imm False False 1 0 0) \<and>
   arm_step (A_add_sub_imm False False 1 0 0) \<noteq> arm_add_sub_ext False False 1 0 2 2 0"
proof -
  have f: "field 0x8B224001 0 5 = 1" "field 0x8B224001 5 5 = 0" "field 0x8B224001 16 5 = 2"
    "field 0x8B224001 13 3 = 2" "field 0x8B224001 10 3 = 0" by code_simp+
  have m: "metadata_add_ext64 \<in> set extended_metadata" "matches metadata_add_ext64 0x8B224001"
    "\<not> metadata_add_ext64 \<in> {metadata_sub_ext64, metadata_subs_ext64}"
    "\<not> metadata_add_ext64 \<in> {metadata_adds_ext64, metadata_subs_ext64}"
    by (simp_all add: extended_metadata_def matches_def ext_defs)
  have v: "extend_fields_value 2 0 = 0" by (simp add: extend_fields_value_def)
  from extended_register_becomes_immediate [OF m(1,2) _ _ _ sample_state_budget HOL.refl HOL.refl HOL.refl] m(3,4)
  show ?thesis by (simp add: f v)
qed

end
