(* ===== verification/Register_Maps.thy ===== *)
theory Register_Maps
  imports Block_Correctness
begin

text \<open>
  The register allocator over whole histories: the two register maps stay inverse to each
  other, and the ninth scratch register can be given but not used again.
\<close>

section \<open>The register maps\<close>

text \<open>What the translation of instructions does with the allocator: reads, writes, new blocks.\<close>

datatype allocator_op = Op_read u8 | Op_write u8 | Op_new_block

primrec allocator_step :: "bal_tier1_compiler_t \<Rightarrow> allocator_op \<Rightarrow> bal_tier1_compiler_t" where
  "allocator_step c (Op_read r) = snd (allocate_x86_register c r False)"
| "allocator_step c (Op_write r) = mark_dirty (snd (allocate_x86_register c r True)) r"
| "allocator_step c Op_new_block = reset_register_allocator c"

lemma reset_tc: "tc_sw (reset_register_allocator c) = tc_sw c" "tc_ok (reset_register_allocator c) = tc_ok c"
  by (simp_all add: reset_register_allocator_def tc_sw_def tc_ok_def)

lemma allocator_step_sw:
  assumes "tc_sw c"
  shows "tc_sw (allocator_step c op)" "tc_ok (allocator_step c op) \<Longrightarrow> tc_ok c"
  using allocate_sw [OF assms prod.collapse [symmetric]] assms by (cases op; simp add: reset_tc)+

lemma allocator_step_wf:
  assumes "tc_wf c" "tc_ok (allocator_step c op)"
  shows "tc_wf (allocator_step c op)"
proof (cases op)
  case (Op_read r)
  with assms show ?thesis using allocate_tc(2) [OF assms(1) prod.collapse [symmetric]] by simp
next
  case (Op_write r)
  let ?c = "snd (allocate_x86_register c r True)"
  have "tc_ok ?c" using assms(2) Op_write by simp
  note a = allocate_tc(2,6) [OF assms(1) prod.collapse [symmetric] this]
  have "ra_wf (mark_dirty ?c r)" using a by (intro ra_wf_mark) auto
  moreover have "tc_sw ?c" using a(1) by auto
  ultimately show ?thesis by (simp add: Op_write tc_wf_def)
next
  case Op_new_block
  with assms(1) show ?thesis by (auto simp: tc_wf_def reset_tc reset_ra_wf)
qed

lemma allocator_steps_wf:
  "tc_wf c \<Longrightarrow> tc_ok (foldl allocator_step c ops) \<Longrightarrow> tc_ok c \<and> tc_wf (foldl allocator_step c ops)"
proof (induction ops arbitrary: c)
  case (Cons op ops)
  have sw: "tc_sw c" using Cons.prems(1) by auto
  have "tc_sw c \<Longrightarrow> tc_ok (foldl allocator_step c ops) \<Longrightarrow> tc_ok c" for c
    by (induction ops arbitrary: c) (auto dest: allocator_step_sw)
  with allocator_step_sw(1) [OF sw] Cons.prems(2) have ok: "tc_ok (allocator_step c op)" by simp
  from Cons.IH [OF allocator_step_wf [OF Cons.prems(1) ok]] Cons.prems(2) allocator_step_sw(2) [OF sw ok]
  show ?case by simp
qed simp

text \<open>
  C39: the two register maps stay inverse to each other as long as there is no error. After any
  sequence of register reads and writes and new blocks that ends without an error in either
  status (when it ends without one there was none before), every entry of one map is the inverse
  of an entry of the other and names a scratch register, no two guest registers share a host
  register, and every register with a write to give back is cached. An error can leave the
  maps inconsistent: a refused ninth register loses its entry in one map and keeps it in the
  other.
\<close>

theorem register_maps_inverse:
  assumes "tc_sw c" "c' = foldl allocator_step (reset_register_allocator c) ops" "tc_ok c'"
  shows "length (tc_arm_to_x86 c') = 32 \<and> length (tc_x86_to_arm c') = 16 \<and>
    (\<forall>r < 32. tc_arm_to_x86 c' ! r = -1 \<or> (\<exists>q \<in> set SCRATCH_REGISTERS.
       tc_arm_to_x86 c' ! r = reg_int q \<and> tc_x86_to_arm c' ! nat (reg_int q) = int r)) \<and>
    (\<forall>k < 16. tc_x86_to_arm c' ! k = -1 \<or>
       (\<exists>r < 32. tc_x86_to_arm c' ! k = int r \<and> tc_arm_to_x86 c' ! r = int k)) \<and>
    (\<forall>r < 32. \<forall>p < 32. tc_arm_to_x86 c' ! r = tc_arm_to_x86 c' ! p \<longrightarrow> tc_arm_to_x86 c' ! r \<noteq> -1 \<longrightarrow> r = p) \<and>
    (\<forall>r < 32. tc_is_dirty c' AND dirty_bit r \<noteq> 0 \<longrightarrow> tc_arm_to_x86 c' ! r \<noteq> -1)"
proof -
  have "tc_wf (reset_register_allocator c)" using assms(1) by (simp add: tc_wf_def reset_tc reset_ra_wf)
  from allocator_steps_wf [OF this, of ops] assms(2,3) have wf: "ra_wf c'" by auto
  have "r = p" if "r < 32" "p < 32" "tc_arm_to_x86 c' ! r = tc_arm_to_x86 c' ! p" "tc_arm_to_x86 c' ! r \<noteq> -1" for r p
  proof -
    have inv: "tc_x86_to_arm c' ! nat (tc_arm_to_x86 c' ! r) = int r"
      if "r < 32" "tc_arm_to_x86 c' ! r \<noteq> -1" for r
    proof -
      note maps = wf [unfolded ra_wf_def, THEN conjunct2, THEN conjunct2, THEN conjunct1]
      from maps [rule_format, OF that(1)] that(2) obtain q where
        "tc_arm_to_x86 c' ! r = reg_int q" "tc_x86_to_arm c' ! nat (reg_int q) = int r" by blast
      then show ?thesis by simp
    qed
    have "tc_x86_to_arm c' ! nat (tc_arm_to_x86 c' ! p) = int r"
      using inv [OF that(1,4)] by (simp only: that(3))
    moreover have "tc_x86_to_arm c' ! nat (tc_arm_to_x86 c' ! p) = int p"
      by (rule inv [OF that(2)]) (use that(3,4) in simp)
    ultimately show ?thesis by simp
  qed
  moreover have "tc_arm_to_x86 c' ! r \<noteq> -1" if "r < 32" "tc_is_dirty c' AND dirty_bit r \<noteq> 0" for r
  proof -
    have "cached c' r \<noteq> None" using wf that unfolding ra_wf_def is_dirty_def by blast
    then show ?thesis by (simp add: cached_def split: if_splits)
  qed
  ultimately show ?thesis using wf unfolding ra_wf_def by blast
qed

definition tiny_compiler :: bal_tier1_compiler_t where
  "tiny_compiler = sample_compiler\<lparr>tc_assembler := fresh_assembler 16\<rparr>"

theorem register_maps_inverse_witness:
  "let c' = foldl allocator_step (reset_register_allocator tiny_compiler) [Op_read 1, Op_write 2, Op_read 2]
   in length (tc_arm_to_x86 c') = 32 \<and> length (tc_x86_to_arm c') = 16 \<and>
    (\<forall>r < 32. tc_arm_to_x86 c' ! r = -1 \<or> (\<exists>q \<in> set SCRATCH_REGISTERS.
       tc_arm_to_x86 c' ! r = reg_int q \<and> tc_x86_to_arm c' ! nat (reg_int q) = int r)) \<and>
    (\<forall>k < 16. tc_x86_to_arm c' ! k = -1 \<or>
       (\<exists>r < 32. tc_x86_to_arm c' ! k = int r \<and> tc_arm_to_x86 c' ! r = int k)) \<and>
    (\<forall>r < 32. \<forall>p < 32. tc_arm_to_x86 c' ! r = tc_arm_to_x86 c' ! p \<longrightarrow> tc_arm_to_x86 c' ! r \<noteq> -1 \<longrightarrow> r = p) \<and>
    (\<forall>r < 32. tc_is_dirty c' AND dirty_bit r \<noteq> 0 \<longrightarrow> tc_arm_to_x86 c' ! r \<noteq> -1)"
proof -
  have sw: "tc_sw tiny_compiler"
    using fresh_window_denotes(1) [of "fresh_assembler 16"] fresh_assembler_room [of 16]
    by (simp add: tc_sw_def tiny_compiler_def sample_compiler_def xa_room_def)
  have "tc_ok (foldl allocator_step (reset_register_allocator tiny_compiler) [Op_read 1, Op_write 2, Op_read 2])"
    by code_simp
  then show ?thesis unfolding Let_def by (rule register_maps_inverse [OF sw refl])
qed

section \<open>The ninth register\<close>

text \<open>
  \<open>allocated c rs\<close>: the registers \<open>rs\<close> have got the scratch registers in order and nothing
  else is cached.
\<close>

definition allocated :: "bal_tier1_compiler_t \<Rightarrow> u8 list \<Rightarrow> bool" where
  "allocated c rs \<longleftrightarrow> tc_status c = BAL_SUCCESS \<and> xa_status (tc_assembler c) = BAL_SUCCESS \<and>
     length (tc_arm_to_x86 c) = 32 \<and> length (tc_x86_to_arm c) = 16 \<and>
     (\<forall>j < 9. tc_x86_to_arm c ! nat (reg_int (SCRATCH_REGISTERS ! j)) =
        (if j < length rs then int (unat (rs ! j)) else -1)) \<and>
     (\<forall>r < 32. tc_arm_to_x86 c ! unat r = -1 \<or> r \<in> set rs) \<and>
     (\<forall>j < length rs. tc_arm_to_x86 c ! unat (rs ! j) = reg_int (SCRATCH_REGISTERS ! j))"

lemma find_free_at:
  "k < length qs \<Longrightarrow> (\<forall>j < length qs. 0 \<le> reg_int (qs ! j) \<and> reg_int (qs ! j) \<le> 15 \<and>
     (X ! nat (reg_int (qs ! j)) = -1) = (k \<le> j)) \<Longrightarrow>
   find_free_register X qs = Inr (Some (qs ! k))"
proof (induction qs arbitrary: k)
  case (Cons q qs)
  have q: "0 \<le> reg_int q" "reg_int q \<le> 15" "(X ! nat (reg_int q) = -1) = (k = 0)"
    using Cons.prems(2) [rule_format, of 0] by simp_all
  show ?case
  proof (cases k)
    case (Suc j)
    have "find_free_register X qs = Inr (Some (qs ! j))"
    proof (rule Cons.IH)
      show "j < length qs" using Cons.prems(1) Suc by simp
      show "\<forall>i < length qs. 0 \<le> reg_int (qs ! i) \<and> reg_int (qs ! i) \<le> 15 \<and> (X ! nat (reg_int (qs ! i)) = -1) = (j \<le> i)"
      proof (intro allI impI)
        fix i assume "i < length qs"
        then show "0 \<le> reg_int (qs ! i) \<and> reg_int (qs ! i) \<le> 15 \<and> (X ! nat (reg_int (qs ! i)) = -1) = (j \<le> i)"
          using Cons.prems(2) [rule_format, of "Suc i"] Suc by simp
      qed
    qed
    then show ?thesis using q Suc by simp
  qed (use q in simp)
qed simp

lemma scratch_numbers:
  "j < 9 \<Longrightarrow> 0 \<le> reg_int (SCRATCH_REGISTERS ! j) \<and> reg_int (SCRATCH_REGISTERS ! j) \<le> 15"
  "i < 9 \<Longrightarrow> j < 9 \<Longrightarrow> nat (reg_int (SCRATCH_REGISTERS ! i)) = nat (reg_int (SCRATCH_REGISTERS ! j)) \<Longrightarrow> i = j"
proof -
  have "\<forall>j < 9. 0 \<le> reg_int (SCRATCH_REGISTERS ! j) \<and> reg_int (SCRATCH_REGISTERS ! j) \<le> 15"
    by (simp add: SCRATCH_REGISTERS_def numeral_eq_Suc All_less_Suc)
  then show "j < 9 \<Longrightarrow> 0 \<le> reg_int (SCRATCH_REGISTERS ! j) \<and> reg_int (SCRATCH_REGISTERS ! j) \<le> 15" by blast
  have "distinct (map (\<lambda>q. nat (reg_int q)) SCRATCH_REGISTERS)" "length SCRATCH_REGISTERS = 9"
    by (simp_all add: SCRATCH_REGISTERS_def)
  then show "i < 9 \<Longrightarrow> j < 9 \<Longrightarrow> nat (reg_int (SCRATCH_REGISTERS ! i)) = nat (reg_int (SCRATCH_REGISTERS ! j)) \<Longrightarrow> i = j"
    by (metis nth_eq_iff_index_eq length_map nth_map)
qed

lemma allocated_step:
  assumes al: "allocated c rs" and n: "length rs < 9" and a: "a \<notin> set rs" "a < 32"
  shows "allocated (snd (allocate_x86_register c a True)) (rs @ [a])"
proof -
  let ?q = "SCRATCH_REGISTERS ! length rs"
  have len: "length SCRATCH_REGISTERS = 9" by (simp add: SCRATCH_REGISTERS_def)
  have free: "tc_arm_to_x86 c ! unat a = -1" using al a by (auto simp: allocated_def)
  have "uint (x :: u8) \<noteq> -1" for x using unsigned_greater_eq [where w = x] by (metis neg_0_le_iff_le not_one_le_zero)
  then have "find_free_register (tc_x86_to_arm c) SCRATCH_REGISTERS = Inr (Some ?q)"
    using al n scratch_numbers(1) by (intro find_free_at) (auto simp: len allocated_def)
  then have c': "snd (allocate_x86_register c a True) =
      c\<lparr>tc_arm_to_x86 := (tc_arm_to_x86 c)[unat a := reg_int ?q],
        tc_x86_to_arm := (tc_x86_to_arm c)[nat (reg_int ?q) := int (unat a)]\<rparr>"
    using al free a(2) by (simp add: allocate_x86_register_def allocated_def Let_def not_le [symmetric])
  have ua: "unat a < 32" using a(2) by (simp add: word_less_nat_alt)
  have q16: "nat (reg_int ?q) < 16" using scratch_numbers(1) [OF n] by linarith
  have x86: "(tc_x86_to_arm c)[nat (reg_int ?q) := int (unat a)] ! nat (reg_int (SCRATCH_REGISTERS ! j)) =
      (if j < length (rs @ [a]) then int (unat ((rs @ [a]) ! j)) else -1)" if "j < 9" for j
  proof (cases "j = length rs")
    case True
    then show ?thesis using al q16 by (simp add: allocated_def)
  next
    case False
    then have "nat (reg_int (SCRATCH_REGISTERS ! j)) \<noteq> nat (reg_int ?q)" using scratch_numbers(2) [OF that n] by blast
    then show ?thesis using al that False by (simp add: allocated_def nth_append)
  qed
  have arm: "(tc_arm_to_x86 c)[unat a := reg_int ?q] ! unat ((rs @ [a]) ! j) = reg_int (SCRATCH_REGISTERS ! j)"
    if "j < length (rs @ [a])" for j
  proof (cases "j = length rs")
    case True
    then show ?thesis using al ua by (simp add: allocated_def)
  next
    case False
    then have j: "j < length rs" using that by simp
    then have "rs ! j \<noteq> a" using a(1) nth_mem [of j rs] by blast
    then have "unat (rs ! j) \<noteq> unat a" by (simp add: word_unat_eq_iff)
    then show ?thesis using al j by (simp add: allocated_def nth_append)
  qed
  have other: "(tc_arm_to_x86 c)[unat a := reg_int ?q] ! unat r = -1 \<or> r \<in> set (rs @ [a])" if "r < 32" for r
  proof (cases "r = a")
    case False
    then have "unat r \<noteq> unat a" by (simp add: word_unat_eq_iff)
    moreover have "tc_arm_to_x86 c ! unat r = -1 \<or> r \<in> set rs" using al that by (simp add: allocated_def)
    ultimately show ?thesis by auto
  qed simp
  show ?thesis
    unfolding c' allocated_def using al x86 arm other by (simp add: allocated_def)
qed

lemma allocated_run:
  "allocated c rs \<Longrightarrow> length (rs @ as) \<le> 9 \<Longrightarrow> distinct (rs @ as) \<Longrightarrow> \<forall>a \<in> set as. a < 32 \<Longrightarrow>
   allocated (foldl (\<lambda>c a. snd (allocate_x86_register c a True)) c as) (rs @ as)"
proof (induction as arbitrary: c rs)
  case (Cons a as)
  have "allocated (snd (allocate_x86_register c a True)) (rs @ [a])"
    using Cons.prems by (intro allocated_step) simp_all
  from Cons.IH [OF this] Cons.prems show ?case by simp
qed simp

text \<open>
  C40: a block gets eight registers, not nine. Nine different guest registers can be allocated
  after a reset of the allocator, without an error. But the next use of the ninth fails: its
  host register R15 is refused as a corrupted entry, and the compilation ends with an error.
\<close>

theorem ninth_register_is_lost:
  assumes "tc_status c = BAL_SUCCESS" "xa_status (tc_assembler c) = BAL_SUCCESS"
    and "distinct rs" "length rs = 9" "\<forall>r \<in> set rs. r < 32"
    and "c9 = foldl (\<lambda>c r. snd (allocate_x86_register c r True)) (reset_register_allocator c) rs"
  shows "tc_status c9 = BAL_SUCCESS \<and>
    (\<forall>j < 8. fst (allocate_x86_register c9 (rs ! j) skip) = SCRATCH_REGISTERS ! j \<and>
       snd (allocate_x86_register c9 (rs ! j) skip) = c9) \<and>
    fst (allocate_x86_register c9 (rs ! 8) skip) = BAL_X86_INVALID \<and>
    tc_status (snd (allocate_x86_register c9 (rs ! 8) skip)) = BAL_ERROR_REGISTER_ALLOCATOR_CORRUPTED"
proof -
  have "\<forall>j < 9. nat (reg_int (SCRATCH_REGISTERS ! j)) < 16"
  proof (intro allI impI)
    fix j :: nat assume "j < 9"
    from scratch_numbers(1) [OF this] show "nat (reg_int (SCRATCH_REGISTERS ! j)) < 16" by linarith
  qed
  then have "allocated (reset_register_allocator c) []"
    using assms(1,2) by (auto simp: allocated_def reset_register_allocator_def word_less_nat_alt)
  from allocated_run [OF this, of rs] assms(3-5) have al: "allocated c9 rs" by (simp add: assms(6))
  have r: "\<not> 32 \<le> rs ! j" if "j < 9" for j using assms(4,5) that by (simp add: not_le)
  have "SCRATCH_REGISTERS ! 8 = BAL_X86_R15" by (simp add: SCRATCH_REGISTERS_def)
  then have "tc_arm_to_x86 c9 ! unat (rs ! 8) = reg_int BAL_X86_R15" using al assms(4) by (auto simp: allocated_def)
  with al r [of 8] have ninth: "fst (allocate_x86_register c9 (rs ! 8) skip) = BAL_X86_INVALID"
      "tc_status (snd (allocate_x86_register c9 (rs ! 8) skip)) = BAL_ERROR_REGISTER_ALLOCATOR_CORRUPTED"
    by (simp_all add: allocate_x86_register_def allocated_def Let_def)
  have small: "\<forall>j < 8. reg_int (SCRATCH_REGISTERS ! j) < 15 \<and> 0 \<le> reg_int (SCRATCH_REGISTERS ! j) \<and>
      reg_of_int (reg_int (SCRATCH_REGISTERS ! j)) = SCRATCH_REGISTERS ! j"
    by (simp add: SCRATCH_REGISTERS_def numeral_eq_Suc All_less_Suc)
  have "allocate_x86_register c9 (rs ! j) skip = (SCRATCH_REGISTERS ! j, c9)" if j: "j < 8" for j
  proof -
    have "tc_arm_to_x86 c9 ! unat (rs ! j) = reg_int (SCRATCH_REGISTERS ! j)"
      "tc_x86_to_arm c9 ! nat (reg_int (SCRATCH_REGISTERS ! j)) = int (unat (rs ! j))"
      using al assms(4) j by (auto simp: allocated_def)
    then show ?thesis using al small j r [of j]
      by (auto simp: allocate_x86_register_def allocated_def Let_def)
  qed
  with ninth al show ?thesis by (simp add: allocated_def)
qed

theorem ninth_register_is_lost_witness:
  "let rs = [0, 1, 2, 3, 4, 5, 6, 7, 30];
       c9 = foldl (\<lambda>c r. snd (allocate_x86_register c r True)) (reset_register_allocator sample_compiler) rs
   in tc_status c9 = BAL_SUCCESS \<and>
    (\<forall>j < 8. fst (allocate_x86_register c9 (rs ! j) False) = SCRATCH_REGISTERS ! j \<and>
       snd (allocate_x86_register c9 (rs ! j) False) = c9) \<and>
    fst (allocate_x86_register c9 (rs ! 8) False) = BAL_X86_INVALID \<and>
    tc_status (snd (allocate_x86_register c9 (rs ! 8) False)) = BAL_ERROR_REGISTER_ALLOCATOR_CORRUPTED"
  unfolding Let_def
  by (rule ninth_register_is_lost [OF _ _ _ _ _ refl]) (simp_all add: sample_compiler_def fresh_assembler_def)

end
