(* ===== verification/Executable_Memory.thy ===== *)
theory Executable_Memory
  imports Bal_Memory
begin

text \<open>
  The executable allocations of the default allocator (\<open>src/bal_memory.c\<close>, the Linux branch):
  a shared memory object mapped twice, once for writing and once for running code. The system
  calls are modelled after their manual pages, the allocator after the source.
\<close>

section \<open>The process\<close>

text \<open>
  What the allocator sees of its Linux process, beside the heap of the C library: the open
  descriptors with the object each refers to, the names of shared memory objects, the sizes
  of all objects created so far, and the mappings. As for the heap, the answers the kernel
  will give are part of the state: the next descriptors, whether an object can be given its
  size, and where the next mappings go. A call fails when there is no further answer or the
  next one is not possible.
\<close>

record vm_mapping =
  vm_start :: u64
  vm_size :: size_t
  vm_writable :: bool
  vm_executable :: bool
  vm_object :: nat

record linux_process = libc_heap +
  lp_limit :: nat
  lp_descriptors :: "(int \<times> nat) list"
  lp_names :: "(string \<times> nat) list"
  lp_sizes :: "size_t list"
  lp_mappings :: "vm_mapping list"
  lp_next_descriptors :: "int list"
  lp_truncates :: "bool list"
  lp_next_addresses :: "u64 list"

definition MAP_FAILED :: u64 where "MAP_FAILED = - 1"
definition LONG_MAX :: size_t where "LONG_MAX = 0x7FFFFFFFFFFFFFFF"

text \<open>
  \<open>shm_open\<close> with \<open>O_CREAT | O_EXCL\<close>: it fails when the name exists and when the process has
  as many descriptors as it may have.
\<close>

definition shm_open_exclusive :: "string \<Rightarrow> linux_process \<Rightarrow> int \<times> linux_process" where
  "shm_open_exclusive name p =
    (if name \<in> fst ` set (lp_names p) \<or> lp_limit p \<le> length (lp_descriptors p) then (- 1, p)
     else case lp_next_descriptors p of
       [] \<Rightarrow> (- 1, p)
     | fd # fds \<Rightarrow>
         if fd < 0 \<or> fd \<in> fst ` set (lp_descriptors p) then (- 1, p\<lparr>lp_next_descriptors := fds\<rparr>)
         else (fd, p\<lparr>lp_next_descriptors := fds,
           lp_descriptors := (fd, length (lp_sizes p)) # lp_descriptors p,
           lp_names := (name, length (lp_sizes p)) # lp_names p, lp_sizes := lp_sizes p @ [0]\<rparr>))"

definition shm_unlink :: "string \<Rightarrow> linux_process \<Rightarrow> linux_process" where
  "shm_unlink name p = p\<lparr>lp_names := filter (\<lambda>b. fst b \<noteq> name) (lp_names p)\<rparr>"

definition ftruncate :: "int \<Rightarrow> size_t \<Rightarrow> linux_process \<Rightarrow> bool \<times> linux_process" where
  "ftruncate fd n p =
    (case (map_of (lp_descriptors p) fd, lp_truncates p) of
       (Some obj, t # ts) \<Rightarrow>
         if t then (True, p\<lparr>lp_truncates := ts, lp_sizes := (lp_sizes p)[obj := n]\<rparr>)
         else (False, p\<lparr>lp_truncates := ts\<rparr>)
     | _ \<Rightarrow> (False, p))"

definition close_descriptor :: "int \<Rightarrow> linux_process \<Rightarrow> linux_process" where
  "close_descriptor fd p = p\<lparr>lp_descriptors := filter (\<lambda>d. fst d \<noteq> fd) (lp_descriptors p)\<rparr>"

text \<open>
  A shared mapping at an address of the kernel's choice: a page, below the end of the address
  space, and apart from all mappings there are.
\<close>

definition apart :: "u64 \<Rightarrow> size_t \<Rightarrow> vm_mapping \<Rightarrow> bool" where
  "apart a n m \<longleftrightarrow> unat a + unat n \<le> unat (vm_start m) \<or> unat (vm_start m) + unat (vm_size m) \<le> unat a"

definition mmap_shared ::
  "bool \<Rightarrow> bool \<Rightarrow> size_t \<Rightarrow> int \<Rightarrow> linux_process \<Rightarrow> u64 \<times> linux_process" where
  "mmap_shared writable executable n fd p =
    (case (map_of (lp_descriptors p) fd, lp_next_addresses p) of
       (Some obj, a # as) \<Rightarrow>
         if n = 0 \<or> a = 0 \<or> a AND 4095 \<noteq> 0 \<or> 2 ^ 64 \<le> unat a + unat n \<or>
            \<not> list_all (apart a n) (lp_mappings p)
         then (MAP_FAILED, p\<lparr>lp_next_addresses := as\<rparr>)
         else (a, p\<lparr>lp_next_addresses := as,
           lp_mappings := \<lparr>vm_start = a, vm_size = n, vm_writable = writable,
             vm_executable = executable, vm_object = obj\<rparr> # lp_mappings p\<rparr>)
     | _ \<Rightarrow> (MAP_FAILED, p))"

text \<open>
  \<open>munmap\<close> refuses an address that is not a page (\<open>MAP_FAILED\<close> is none) and removes the
  mappings in the range. A range that cuts a mapping is outside the model.
\<close>

definition inside :: "u64 \<Rightarrow> size_t \<Rightarrow> vm_mapping \<Rightarrow> bool" where
  "inside a n m \<longleftrightarrow> unat a \<le> unat (vm_start m) \<and>
     unat (vm_start m) + unat (vm_size m) \<le> unat a + unat n"

definition munmap :: "u64 \<Rightarrow> size_t \<Rightarrow> linux_process \<Rightarrow> linux_process" where
  "munmap a n p =
    (if a AND 4095 \<noteq> 0 \<or> n = 0 then p
     else p\<lparr>lp_mappings := filter (\<lambda>m. \<not> inside a n m) (lp_mappings p)\<rparr>)"

section \<open>The executable allocator\<close>

text \<open>
  The write permission of the second mapping is also that of the buffer's executable view.
\<close>

definition shm_name :: string where "shm_name = ''/ballistic_jit_compiler_shm''"

definition invalid_buffer :: bal_executable_buffer_t where
  "invalid_buffer = \<lparr>eb_rw_pointer = 0, eb_rx_pointer = 0, eb_rx_writable = False\<rparr>"

definition bal_default_allocate_executable ::
  "linux_process \<Rightarrow> size_t \<Rightarrow> size_t \<Rightarrow> bal_executable_buffer_t \<times> linux_process" where
  "bal_default_allocate_executable p alignment bytes =
    (if bytes = 0 then (invalid_buffer, p)
     else
      (let (fd, p) = shm_open_exclusive shm_name p in
       if fd = - 1 then (invalid_buffer, p)
       else
        (let p = shm_unlink shm_name p in
         if LONG_MAX < bytes then (invalid_buffer, p)
         else
          (let (truncated, p) = ftruncate fd bytes p in
           if \<not> truncated then (invalid_buffer, close_descriptor fd p)
           else
            (let rx_writable = False;
                 (rw_ptr, p) = mmap_shared True False bytes fd p;
                 (rx_ptr, p) = mmap_shared rx_writable True bytes fd p in
             if rw_ptr = MAP_FAILED then (invalid_buffer, munmap rw_ptr bytes p)
             else if rx_ptr = MAP_FAILED then (invalid_buffer, munmap rw_ptr bytes p)
             else (\<lparr>eb_rw_pointer = rw_ptr, eb_rx_pointer = rx_ptr, eb_rx_writable = rx_writable\<rparr>, p))))))"

definition bal_default_free_executable ::
  "linux_process \<Rightarrow> bal_executable_buffer_t \<Rightarrow> size_t \<Rightarrow> linux_process" where
  "bal_default_free_executable p buffer bytes =
    (let p = (if eb_rx_pointer buffer \<noteq> 0 then munmap (eb_rx_pointer buffer) bytes p else p)
     in if eb_rw_pointer buffer \<noteq> 0 then munmap (eb_rw_pointer buffer) bytes p else p)"

text \<open>
  With two mappings there is nothing to protect; making code visible to instruction fetch
  changes nothing in this state.
\<close>

definition bal_default_protect_rw ::
  "linux_process \<Rightarrow> bal_executable_buffer_t \<Rightarrow> size_t \<Rightarrow> linux_process" where
  "bal_default_protect_rw p buffer bytes = p"

definition bal_default_protect_rx ::
  "linux_process \<Rightarrow> bal_executable_buffer_t \<Rightarrow> size_t \<Rightarrow> linux_process" where
  "bal_default_protect_rx p buffer bytes = p"

text \<open>The default allocator; it has no context of its own.\<close>

definition bal_allocator_default_init :: "linux_process bal_allocator_t" where
  "bal_allocator_default_init = \<lparr>al_allocate = Some bal_default_allocate,
     al_free = Some bal_default_free,
     al_allocate_executable = Some bal_default_allocate_executable,
     al_free_executable = Some bal_default_free_executable,
     al_protect_rw = Some bal_default_protect_rw, al_protect_rx = Some bal_default_protect_rx\<rparr>"

lemma default_view_read_only: "\<not> eb_rx_writable (fst (bal_default_allocate_executable p alignment n))"
  by (simp add: bal_default_allocate_executable_def Let_def case_prod_unfold invalid_buffer_def)

section \<open>The invariant\<close>

definition disjoint_mappings :: "vm_mapping list \<Rightarrow> bool" where
  "disjoint_mappings ms \<longleftrightarrow> sorted_wrt (\<lambda>m m'. apart (vm_start m) (vm_size m) m') ms"

definition mapping_wf :: "nat \<Rightarrow> vm_mapping \<Rightarrow> bool" where
  "mapping_wf objects m \<longleftrightarrow> vm_size m \<noteq> 0 \<and> vm_start m \<noteq> 0 \<and> vm_start m AND 4095 = 0 \<and>
     unat (vm_start m) + unat (vm_size m) < 2 ^ 64 \<and> vm_object m < objects \<and>
     \<not> (vm_writable m \<and> vm_executable m)"

text \<open>
  The invariant: the mappings are apart and none is writable and executable; descriptors and
  mappings refer to objects there are, and the limit holds.
\<close>

definition lp_wf :: "linux_process \<Rightarrow> bool" where
  "lp_wf p \<longleftrightarrow> lh_wf p \<and> length (lp_descriptors p) \<le> lp_limit p \<and>
     distinct (map fst (lp_descriptors p)) \<and> list_all (\<lambda>d. snd d < length (lp_sizes p)) (lp_descriptors p) \<and>
     list_all (mapping_wf (length (lp_sizes p))) (lp_mappings p) \<and> disjoint_mappings (lp_mappings p)"


lemma apart_not_inside:
  "apart a n m \<Longrightarrow> vm_size m \<noteq> 0 \<Longrightarrow> \<not> inside a n m"
  using unat_gt_0 [of "vm_size m"] by (auto simp: apart_def inside_def)

lemma disjoint_Cons [simp]:
  "disjoint_mappings (m # ms) \<longleftrightarrow> list_all (apart (vm_start m) (vm_size m)) ms \<and> disjoint_mappings ms"
  by (simp add: disjoint_mappings_def list_all_iff)

text \<open>More objects keep descriptors and mappings well formed.\<close>

lemma objects_Suc:
  "list_all (\<lambda>d. snd d < k) ds \<Longrightarrow> list_all (\<lambda>d. snd d < Suc k) (ds :: (int \<times> nat) list)"
  "list_all (mapping_wf k) ms \<Longrightarrow> list_all (mapping_wf (Suc k)) ms"
  by (auto simp: list_all_iff mapping_wf_def)

lemma list_all_filter: "list_all P xs \<Longrightarrow> list_all P (filter Q xs)"
  by (simp add: list_all_iff)

text \<open>What a system call leaves alone.\<close>

definition same_heap :: "linux_process \<Rightarrow> linux_process \<Rightarrow> bool" where
  "same_heap p q \<longleftrightarrow> lh_live q = lh_live p \<and> lh_next q = lh_next p \<and> lp_limit q = lp_limit p"

lemma same_heap_refl [simp]: "same_heap p p"
  by (simp add: same_heap_def)

lemma same_heap_trans: "same_heap p q \<Longrightarrow> same_heap q r \<Longrightarrow> same_heap p r"
  by (simp add: same_heap_def)

lemma shm_open_outcome:
  assumes "lp_wf p" "shm_open_exclusive name p = (fd, q)"
  shows "lp_wf q" "same_heap p q" "lp_mappings q = lp_mappings p"
    "fd = - 1 \<Longrightarrow> lp_descriptors q = lp_descriptors p \<and> lp_sizes q = lp_sizes p"
    "fd \<noteq> - 1 \<Longrightarrow> lp_descriptors q = (fd, length (lp_sizes p)) # lp_descriptors p \<and>
       lp_sizes q = lp_sizes p @ [0] \<and> fd \<notin> fst ` set (lp_descriptors p)"
  using assms
  by (auto simp: shm_open_exclusive_def same_heap_def lp_wf_def lh_wf_def objects_Suc
      split: if_splits list.splits)

lemma shm_unlink_outcome:
  "lp_wf (shm_unlink name p) = lp_wf p" "same_heap p (shm_unlink name p)"
  "lp_mappings (shm_unlink name p) = lp_mappings p"
  "lp_descriptors (shm_unlink name p) = lp_descriptors p" "lp_sizes (shm_unlink name p) = lp_sizes p"
  by (simp_all add: shm_unlink_def same_heap_def lp_wf_def lh_wf_def)

lemma ftruncate_outcome:
  assumes "lp_wf p" "ftruncate fd n p = (t, q)"
  shows "lp_wf q" "same_heap p q" "lp_mappings q = lp_mappings p"
    "lp_descriptors q = lp_descriptors p"
    "lp_sizes q = (if t then (lp_sizes p)[the (map_of (lp_descriptors p) fd) := n] else lp_sizes p)"
  using assms
  by (auto simp: ftruncate_def same_heap_def lp_wf_def lh_wf_def split: if_splits list.splits option.splits)

lemma close_outcome:
  "lp_wf p \<Longrightarrow> lp_wf (close_descriptor fd p)" "same_heap p (close_descriptor fd p)"
  "lp_mappings (close_descriptor fd p) = lp_mappings p"
  "lp_sizes (close_descriptor fd p) = lp_sizes p"
  by (auto simp: close_descriptor_def same_heap_def lp_wf_def lh_wf_def list_all_filter
      intro: distinct_map_filter le_trans [OF length_filter_le])

lemma mmap_outcome:
  assumes "lp_wf p" "mmap_shared w x n fd p = (a, q)" "\<not> (w \<and> x)"
  shows "lp_wf q" "same_heap p q" "lp_descriptors q = lp_descriptors p" "lp_sizes q = lp_sizes p"
    "a = MAP_FAILED \<Longrightarrow> lp_mappings q = lp_mappings p"
    "a \<noteq> MAP_FAILED \<Longrightarrow> lp_mappings q = \<lparr>vm_start = a, vm_size = n, vm_writable = w, vm_executable = x,
       vm_object = the (map_of (lp_descriptors p) fd)\<rparr> # lp_mappings p \<and> a \<noteq> 0"
proof -
  have "map_of (lp_descriptors p) fd = Some obj \<Longrightarrow> obj < length (lp_sizes p)" for obj
    using assms(1) by (auto simp: lp_wf_def list_all_iff dest!: map_of_SomeD)
  moreover have "- 1 AND 4095 \<noteq> (0 :: u64)" by simp
  ultimately show "lp_wf q" "same_heap p q" "lp_descriptors q = lp_descriptors p" "lp_sizes q = lp_sizes p"
    "a = MAP_FAILED \<Longrightarrow> lp_mappings q = lp_mappings p"
    "a \<noteq> MAP_FAILED \<Longrightarrow> lp_mappings q = \<lparr>vm_start = a, vm_size = n, vm_writable = w, vm_executable = x,
       vm_object = the (map_of (lp_descriptors p) fd)\<rparr> # lp_mappings p \<and> a \<noteq> 0"
    using assms
    by (auto simp: mmap_shared_def same_heap_def lp_wf_def lh_wf_def mapping_wf_def MAP_FAILED_def not_le
        split: if_splits list.splits option.splits)
qed

lemma disjoint_filter: "disjoint_mappings ms \<Longrightarrow> disjoint_mappings (filter P ms)"
  by (simp add: disjoint_mappings_def sorted_wrt_filter)

lemma munmap_outcome:
  "lp_wf p \<Longrightarrow> lp_wf (munmap a n p)" "same_heap p (munmap a n p)"
  "lp_descriptors (munmap a n p) = lp_descriptors p" "lp_sizes (munmap a n p) = lp_sizes p"
  by (auto simp: munmap_def same_heap_def lp_wf_def lh_wf_def list_all_filter disjoint_filter)

lemma munmap_failed [simp]: "munmap MAP_FAILED n p = p"
  by (simp add: munmap_def MAP_FAILED_def)

text \<open>Unmapping the mapping made last removes exactly that one.\<close>

lemma munmap_last:
  assumes "lp_wf p" "lp_mappings p = m # ms"
  shows "lp_mappings (munmap (vm_start m) (vm_size m) p) = ms"
proof -
  from assms have wf: "mapping_wf (length (lp_sizes p)) m" "list_all (apart (vm_start m) (vm_size m)) ms"
      "list_all (mapping_wf (length (lp_sizes p))) ms"
    by (simp_all add: lp_wf_def)
  then have "filter (\<lambda>m'. \<not> inside (vm_start m) (vm_size m) m') ms = ms"
    by (intro filter_True) (auto simp: list_all_iff mapping_wf_def intro: apart_not_inside [THEN notE])
  with wf(1) assms(2) show ?thesis by (simp add: munmap_def mapping_wf_def inside_def)
qed

section \<open>One allocation\<close>

lemma allocate_executable_outcome:
  assumes wf: "lp_wf p" and alloc: "bal_default_allocate_executable p alignment n = (b, q)"
  shows "lp_wf q" "same_heap p q"
    "eb_rw_pointer b = 0 \<Longrightarrow> b = invalid_buffer \<and>
       length (lp_descriptors p) \<le> length (lp_descriptors q) \<and> length (lp_descriptors q) \<le> length (lp_descriptors p) + 1"
    "eb_rw_pointer b \<noteq> 0 \<Longrightarrow> eb_rx_pointer b \<noteq> 0 \<and>
      (\<exists>fd. fd \<notin> fst ` set (lp_descriptors p) \<and>
        lp_descriptors q = (fd, length (lp_sizes p)) # lp_descriptors p \<and>
        lp_sizes q = lp_sizes p @ [n] \<and>
        lp_mappings q =
          \<lparr>vm_start = eb_rx_pointer b, vm_size = n, vm_writable = False, vm_executable = True,
            vm_object = length (lp_sizes p)\<rparr> #
          \<lparr>vm_start = eb_rw_pointer b, vm_size = n, vm_writable = True, vm_executable = False,
            vm_object = length (lp_sizes p)\<rparr> # lp_mappings p)"
proof -
  obtain fd p1 where o: "shm_open_exclusive shm_name p = (fd, p1)" by fastforce
  note o1 = shm_open_outcome [OF wf o]
  define p2 where "p2 = shm_unlink shm_name p1"
  have u: "lp_wf p2" "same_heap p1 p2" "lp_mappings p2 = lp_mappings p1"
      "lp_descriptors p2 = lp_descriptors p1" "lp_sizes p2 = lp_sizes p1"
    using o1(1) by (simp_all add: p2_def shm_unlink_outcome)
  obtain t p3 where f: "ftruncate fd n p2 = (t, p3)" by fastforce
  note f1 = ftruncate_outcome [OF u(1) f]
  obtain rw p4 where rw: "mmap_shared True False n fd p3 = (rw, p4)" by fastforce
  note rw1 = mmap_outcome [OF f1(1) rw, simplified]
  obtain rx p5 where rx: "mmap_shared False True n fd p4 = (rx, p5)" by fastforce
  note rx1 = mmap_outcome [OF rw1(1) rx, simplified]
  note steps = alloc [unfolded bal_default_allocate_executable_def, unfolded Let_def o prod.case, folded p2_def,
      unfolded f rw rx prod.case]
  have heaps: "same_heap p p1" "same_heap p p2" "same_heap p p3" "same_heap p p4" "same_heap p p5"
    using o1(2) u(2) f1(2) rw1(2) rx1(2) by (auto simp: same_heap_def)
  note outcomes = o1(1) u(1) f1(1) rx1(1) close_outcome(1) [OF f1(1)] munmap_outcome(1) [OF rx1(1)]
  show "lp_wf q" using steps wf outcomes by (auto split: if_splits)
  show "same_heap p q"
    using steps heaps close_outcome(2) [of p3] munmap_outcome(2) [of p5]
    by (auto split: if_splits intro: same_heap_trans)
  have fd: "fd \<noteq> - 1 \<Longrightarrow> map_of (lp_descriptors p3) fd = Some (length (lp_sizes p))"
    using o1(5) u f1(4) by simp
  have closed: "fd \<noteq> - 1 \<Longrightarrow> lp_descriptors (close_descriptor fd p3) = lp_descriptors p"
    using o1(5) u f1(4) by (auto simp: close_descriptor_def intro!: filter_True)
  show "b = invalid_buffer \<and> length (lp_descriptors p) \<le> length (lp_descriptors q) \<and>
      length (lp_descriptors q) \<le> length (lp_descriptors p) + 1" if "eb_rw_pointer b = 0"
    using steps that o1(4,5) u(4) f1(4) rw1(3) rx1(3) rw1(6) closed
    by (auto simp: munmap_outcome invalid_buffer_def split: if_splits)
  show "eb_rx_pointer b \<noteq> 0 \<and> (\<exists>fd. fd \<notin> fst ` set (lp_descriptors p) \<and>
        lp_descriptors q = (fd, length (lp_sizes p)) # lp_descriptors p \<and>
        lp_sizes q = lp_sizes p @ [n] \<and>
        lp_mappings q =
          \<lparr>vm_start = eb_rx_pointer b, vm_size = n, vm_writable = False, vm_executable = True,
            vm_object = length (lp_sizes p)\<rparr> #
          \<lparr>vm_start = eb_rw_pointer b, vm_size = n, vm_writable = True, vm_executable = False,
            vm_object = length (lp_sizes p)\<rparr> # lp_mappings p)" if "eb_rw_pointer b \<noteq> 0"
    using steps that o1(3,5) u(3-5) f1(3-5) rw1(3-6) rx1(3-6) fd
    by (intro conjI exI [of _ fd]) (auto simp: invalid_buffer_def split: if_splits)
qed

text \<open>Freeing an allocation at once removes its two mappings, and nothing else.\<close>

lemma free_executable_restores:
  assumes "lp_wf q" "eb_rx_pointer b \<noteq> 0" "eb_rw_pointer b \<noteq> 0"
    and "lp_mappings q = \<lparr>vm_start = eb_rx_pointer b, vm_size = n, vm_writable = wx, vm_executable = xx, vm_object = obj\<rparr> #
      \<lparr>vm_start = eb_rw_pointer b, vm_size = n, vm_writable = ww, vm_executable = xw, vm_object = obj\<rparr> # ms"
  shows "lp_mappings (bal_default_free_executable q b n) = ms"
proof -
  let ?q = "munmap (eb_rx_pointer b) n q"
  from munmap_last [OF assms(1,4)] have 1: "lp_mappings ?q = \<lparr>vm_start = eb_rw_pointer b, vm_size = n,
      vm_writable = ww, vm_executable = xw, vm_object = obj\<rparr> # ms" by simp
  from munmap_last [OF munmap_outcome(1) [OF assms(1)] 1] assms(2,3) show ?thesis
    by (simp add: bal_default_free_executable_def)
qed

lemma free_executable_outcome:
  "lp_wf p \<Longrightarrow> lp_wf (bal_default_free_executable p b n)" "same_heap p (bal_default_free_executable p b n)"
  "lp_descriptors (bal_default_free_executable p b n) = lp_descriptors p"
  "lp_sizes (bal_default_free_executable p b n) = lp_sizes p"
  by (auto simp: bal_default_free_executable_def Let_def munmap_outcome
      intro: same_heap_trans munmap_outcome(2))

section \<open>Histories\<close>

text \<open>Any sequence of the two operations, with any arguments.\<close>

datatype executable_op = Op_allocate size_t size_t | Op_free bal_executable_buffer_t size_t

primrec executable_step :: "linux_process \<Rightarrow> executable_op \<Rightarrow> linux_process" where
  "executable_step p (Op_allocate alignment n) = snd (bal_default_allocate_executable p alignment n)"
| "executable_step p (Op_free b n) = bal_default_free_executable p b n"

text \<open>The buffers the allocations of a history gave.\<close>

fun given_buffers :: "linux_process \<Rightarrow> executable_op list \<Rightarrow> bal_executable_buffer_t list" where
  "given_buffers p [] = []"
| "given_buffers p (op # ops) =
    (case op of Op_allocate alignment n \<Rightarrow>
         let b = fst (bal_default_allocate_executable p alignment n)
         in if eb_rw_pointer b = 0 then [] else [b]
     | Op_free b n \<Rightarrow> []) @ given_buffers (executable_step p op) ops"

lemma executable_step_outcome:
  assumes "lp_wf p"
  shows "lp_wf (executable_step p op) \<and> same_heap p (executable_step p op) \<and>
    length (given_buffers p [op]) + length (lp_descriptors p) \<le> length (lp_descriptors (executable_step p op))"
proof (cases op)
  case (Op_allocate alignment n)
  obtain b q where a: "bal_default_allocate_executable p alignment n = (b, q)" by fastforce
  show ?thesis using allocate_executable_outcome [OF assms a] a Op_allocate by auto
next
  case (Op_free b n)
  then show ?thesis by (simp add: assms free_executable_outcome)
qed

lemma executable_histories:
  "lp_wf p \<Longrightarrow> lp_wf (foldl executable_step p ops) \<and> same_heap p (foldl executable_step p ops) \<and>
    length (given_buffers p ops) + length (lp_descriptors p) \<le> length (lp_descriptors (foldl executable_step p ops))"
proof (induction ops arbitrary: p)
  case (Cons op ops)
  from executable_step_outcome [OF Cons.prems, of op] Cons.IH [of "executable_step p op"]
  show ?case by (auto simp: same_heap_def)
qed (simp add: same_heap_def)

text \<open>
  C21: executable memory is never writable where it is executable, and it runs out. Whatever
  is allocated and freed, in whatever order and with whatever arguments, no mapping is both
  writable and executable, the mappings stay apart from each other, and the heap is not
  touched. (A release whose range cuts a mapping in two is modelled as leaving it whole; the
  three statements hold for the parts the kernel would leave, too.) But each buffer given costs a descriptor that no operation ever closes, so over
  the whole life of a process there are at most as many as the descriptor limit leaves.
\<close>

theorem executable_memory_histories:
  assumes "lp_wf p" "q = foldl executable_step p ops"
  shows "(\<forall>m \<in> set (lp_mappings q). \<not> (vm_writable m \<and> vm_executable m)) \<and>
    disjoint_mappings (lp_mappings q) \<and> lh_live q = lh_live p \<and>
    length (given_buffers p ops) + length (lp_descriptors p) \<le> lp_limit p"
  using executable_histories [OF assms(1), of ops] assms(2)
  by (auto simp: lp_wf_def same_heap_def mapping_wf_def list_all_iff)


text \<open>A process with the three standard descriptors, and room for one more.\<close>

definition sample_process :: linux_process where
  "sample_process = \<lparr>lh_live = [(0x100, 8)], lh_next = [0x100000, 0x200000, 0x300000], lp_limit = 4,
     lp_descriptors = [(2, 0), (1, 0), (0, 0)], lp_names = [], lp_sizes = [0], lp_mappings = [],
     lp_next_descriptors = [3], lp_truncates = [True], lp_next_addresses = [0x10000000, 0x20000000]\<rparr>"

lemma sample_process_wf: "lp_wf sample_process"
  by (simp add: lp_wf_def sample_process_def lh_wf_def disjoint_mappings_def)

lemmas linux_simps = bal_default_allocate_executable_def bal_default_free_executable_def shm_open_exclusive_def
  shm_unlink_def ftruncate_def mmap_shared_def munmap_def close_descriptor_def inside_def apart_def
  MAP_FAILED_def LONG_MAX_def invalid_buffer_def shm_name_def Let_def

theorem executable_memory_histories_witness:
  "let b = \<lparr>eb_rw_pointer = 0x10000000, eb_rx_pointer = 0x20000000, eb_rx_writable = False\<rparr>;
       ops = [Op_allocate 4096 8192, Op_free b 8192, Op_allocate 4096 8192]
   in given_buffers sample_process ops = [b] \<and> lp_mappings (foldl executable_step sample_process ops) = [] \<and>
      length (given_buffers sample_process ops) + length (lp_descriptors sample_process) \<le> lp_limit sample_process"
proof -
  let ?b = "\<lparr>eb_rw_pointer = 0x10000000, eb_rx_pointer = 0x20000000, eb_rx_writable = False\<rparr>"
  let ?ops = "[Op_allocate 4096 8192, Op_free ?b 8192, Op_allocate 4096 8192]"
  have "given_buffers sample_process ?ops = [?b]" "lp_mappings (foldl executable_step sample_process ?ops) = []"
    by (simp_all add: linux_simps sample_process_def)
  with executable_memory_histories [OF sample_process_wf HOL.refl, of ?ops] show ?thesis by simp
qed

end
