(* ===== verification/Engine_Lifetimes.thy ===== *)
theory Engine_Lifetimes
  imports Engine_Facts Executable_Memory
begin

text \<open>
  Engines over the default allocator of the program, on Linux: what a process has left when
  engines have been created and destroyed again.
\<close>

section \<open>Engines over the default allocator\<close>

lemma calls_same_heap:
  "same_heap p (snd (shm_open_exclusive name p))" "same_heap p (snd (ftruncate fd n p))"
  "same_heap p (snd (mmap_shared w x n fd p))"
  by (auto simp: shm_open_exclusive_def ftruncate_def mmap_shared_def same_heap_def split: list.split option.split)

lemma allocate_executable_same_heap: "same_heap p (snd (bal_default_allocate_executable p alignment n))"
proof -
  let ?p1 = "snd (shm_open_exclusive shm_name p)" and ?fd = "fst (shm_open_exclusive shm_name p)"
  let ?p2 = "shm_unlink shm_name ?p1"
  let ?p3 = "snd (ftruncate ?fd n ?p2)"
  let ?p4 = "snd (mmap_shared True False n ?fd ?p3)"
  let ?p5 = "snd (mmap_shared False True n ?fd ?p4)"
  have "same_heap p ?p1" "same_heap ?p1 ?p2" "same_heap ?p2 ?p3" "same_heap ?p3 ?p4" "same_heap ?p4 ?p5"
    by (rule calls_same_heap shm_unlink_outcome)+
  then have "same_heap p ?p1" "same_heap p ?p2" "same_heap p ?p3" "same_heap p ?p5"
    by (simp_all add: same_heap_def)
  with close_outcome(2) [of ?p3 ?fd] munmap_outcome(2) [of ?p5] show ?thesis
    by (auto simp: bal_default_allocate_executable_def Let_def case_prod_unfold intro: same_heap_trans)
qed

lemma default_mappings_apart: "libc.mappings_apart bal_allocator_default_init"
proof -
  have "lh_wf q = lh_wf p" "lh_live q = lh_live p" if "same_heap p q" for p q
    using that by (simp_all add: same_heap_def lh_wf_def)
  from this [OF allocate_executable_same_heap] this [OF free_executable_outcome(2)] show ?thesis
    by (simp add: libc.mappings_apart_def bal_allocator_default_init_def)
qed

text \<open>What the heap's functions leave alone.\<close>

definition same_files :: "linux_process \<Rightarrow> linux_process \<Rightarrow> bool" where
  "same_files p q \<longleftrightarrow> lp_limit q = lp_limit p \<and> lp_descriptors q = lp_descriptors p \<and>
     lp_sizes q = lp_sizes p \<and> lp_mappings q = lp_mappings p"

lemma same_files_trans: "same_files p q \<Longrightarrow> same_files q r \<Longrightarrow> same_files p r"
  by (simp add: same_files_def)

lemma heap_calls_same_files:
  "same_files p (snd (bal_default_allocate p al n))" "same_files p (bal_default_free p a n)"
  by (auto simp: same_files_def bal_default_allocate_def bal_default_free_def posix_memalign_def libc_free_def Let_def
      split: list.split)

lemma lp_wf_files: "same_files p q \<Longrightarrow> lh_wf q \<Longrightarrow> lp_wf p \<Longrightarrow> lp_wf q"
  by (simp add: same_files_def lp_wf_def)

lemma debug_same_files:
  assumes "bal_jit_debug_init (Some (bal_default_allocate, bal_default_free)) p c = (st, d, q)"
  shows "same_files p q"
proof (cases c)
  case None
  with assms show ?thesis by (simp add: bal_jit_debug_init_def same_files_def)
next
  case (Some c')
  let ?n = "BAL_JIT_DEBUG_ENTRY_CAPACITY * SIZEOF_BLOCK_ENTRY"
  let ?a = "bal_default_allocate p 64 ?n"
  let ?b = "bal_default_allocate (snd ?a) 64 BAL_JIT_DEBUG_ARENA_CAPACITY_BYTES"
  have "same_files p (snd ?a)" "same_files (snd ?a) (snd ?b)"
    "same_files (snd ?b) (bal_default_free (snd ?b) (fst ?a) ?n)"
    by (rule heap_calls_same_files)+
  then show ?thesis using assms Some
    by (auto simp: bal_jit_debug_init_def Let_def case_prod_unfold split: if_splits intro: same_files_trans)
qed

lemma debug_destroy_same_files:
  "same_files p (snd (bal_jit_debug_destroy (Some bal_default_free) p (Some d)))"
  by (auto simp: bal_jit_debug_destroy_def Let_def same_files_def heap_calls_same_files [unfolded same_files_def]
      split: option.split)

text \<open>The stations of a successful initialisation.\<close>

lemma engine_init_success:
  assumes init: "bal_engine_init installs bytes (Some engine) cpu (Some a) interface h mem = (BAL_SUCCESS, Some e, h', mem')"
    and a: "al_allocate a = Some allocate" "al_free a = Some free" "al_allocate_executable a = Some ax"
  obtains p h1 b h2 st c s where "allocate h MEMORY_ALIGNMENT SIZEOF_INTERNAL_ENGINE_STATE = (p, h1)"
    "ax h1 4096 TIER1_BUFFER_SIZE_BYTES = (b, h2)" "eb_rw_pointer b \<noteq> 0"
    "bal_jit_debug_init (Some (allocate, free)) h2 (Some jit_debug_zero) = (st, c, h')"
    "en_engine_state e = Some (p, s)" "es_tier1_buffer s = b" "es_tier1_buffer_size s = TIER1_BUFFER_SIZE_BYTES"
proof -
  obtain p h1 where p: "allocate h MEMORY_ALIGNMENT SIZEOF_INTERNAL_ENGINE_STATE = (p, h1)" by fastforce
  obtain b h2 where b: "ax h1 4096 TIER1_BUFFER_SIZE_BYTES = (b, h2)" by fastforce
  obtain st c h3 where d: "bal_jit_debug_init (Some (allocate, free)) h2 (Some jit_debug_zero) = (st, c, h3)"
    by (rule prod_cases3)
  have "eb_rw_pointer b \<noteq> 0 \<and> h3 = h' \<and> (\<exists>s. en_engine_state e = Some (p, s) \<and> es_tier1_buffer s = b \<and>
      es_tier1_buffer_size s = TIER1_BUFFER_SIZE_BYTES)"
    using init a p b d
    by (cases "st = BAL_SUCCESS") (auto simp: bal_engine_init_def Let_def split: if_splits prod.splits)
  with that [OF p b] d show thesis by blast
qed

text \<open>The life of an engine: initialisation over the default allocator, then destruction.\<close>

definition engine_lifetime ::
  "bool \<times> bool \<Rightarrow> u8 list \<Rightarrow> u64 \<Rightarrow> 'c bal_memory_interface_t \<Rightarrow> linux_process \<times> (u64 \<Rightarrow> u8) \<Rightarrow>
   (linux_process \<times> (u64 \<Rightarrow> u8)) option" where
  "engine_lifetime installs bytes cpu interface world =
    (case bal_engine_init installs bytes (Some engine_zero) cpu (Some bal_allocator_default_init)
            (Some interface) (fst world) (snd world) of
       (status, Some e, p, mem) \<Rightarrow>
         if status = BAL_SUCCESS then Some (snd (bal_engine_destroy (Some e) p), mem) else None
     | _ \<Rightarrow> None)"

primrec engine_lifetimes ::
  "bool \<times> bool \<Rightarrow> u8 list \<Rightarrow> u64 \<Rightarrow> 'c bal_memory_interface_t \<Rightarrow> nat \<Rightarrow>
   linux_process \<times> (u64 \<Rightarrow> u8) \<Rightarrow> (linux_process \<times> (u64 \<Rightarrow> u8)) option" where
  "engine_lifetimes installs bytes cpu interface 0 world = Some world"
| "engine_lifetimes installs bytes cpu interface (Suc k) world =
    (case engine_lifetime installs bytes cpu interface world of None \<Rightarrow> None
     | Some world \<Rightarrow> engine_lifetimes installs bytes cpu interface k world)"

text \<open>Everything is given back but one descriptor and the 16 MiB object it keeps alive.\<close>

definition leaves_objects :: "nat \<Rightarrow> linux_process \<Rightarrow> linux_process \<Rightarrow> bool" where
  "leaves_objects k p q \<longleftrightarrow> lp_wf q \<and> mset (lh_live q) = mset (lh_live p) \<and> lp_limit q = lp_limit p \<and>
     lp_mappings q = lp_mappings p \<and> lp_sizes q = lp_sizes p @ replicate k TIER1_BUFFER_SIZE_BYTES \<and>
     map snd (lp_descriptors q) =
       rev [length (lp_sizes p) ..< length (lp_sizes p) + k] @ map snd (lp_descriptors p)"

lemma engine_destroy_files:
  assumes "en_engine_state e = Some (p, s)" "en_allocator e = Some bal_allocator_default_init"
    and "tc_debug_context (es_tier1_compiler s) = Some d" "eb_rw_pointer (es_tier1_buffer s) \<noteq> 0"
  shows "same_files (bal_default_free_executable q (es_tier1_buffer s) (es_tier1_buffer_size s))
    (snd (bal_engine_destroy (Some e) q))"
proof -
  let ?q = "bal_default_free_executable q (es_tier1_buffer s) (es_tier1_buffer_size s)"
  let ?r = "snd (bal_jit_debug_destroy (Some bal_default_free) ?q (Some (bal_jit_debug_unregister_signal_handler d)))"
  have "same_files ?q (bal_default_free ?r p SIZEOF_INTERNAL_ENGINE_STATE)"
    by (rule same_files_trans [OF debug_destroy_same_files heap_calls_same_files(2)])
  with assms show ?thesis
    by (simp add: bal_engine_destroy_def Let_def bal_allocator_default_init_def case_prod_unfold)
qed

lemma lh_wf_mset:
  assumes "mset (lh_live q) = mset (lh_live p)"
  shows "lh_wf q = lh_wf p"
proof -
  from assms have "mset (map fst (lh_live q)) = mset (map fst (lh_live p))" by simp
  then have "distinct (map fst (lh_live q)) = distinct (map fst (lh_live p))"
    by (rule mset_eq_imp_distinct_iff)
  with mset_eq_setD [OF assms] show ?thesis by (simp add: lh_wf_def)
qed

lemma engine_lifetime_leaves:
  assumes wf: "lp_wf p" and life: "engine_lifetime installs bytes cpu interface (p, mem) = Some (q, mem')"
  shows "leaves_objects 1 p q"
proof -
  let ?a = bal_allocator_default_init
  have a: "al_allocate ?a = Some bal_default_allocate" "al_free ?a = Some bal_default_free"
    "al_allocate_executable ?a = Some bal_default_allocate_executable"
    by (simp_all add: bal_allocator_default_init_def)
  have h: "lh_wf p" using wf by (simp add: lp_wf_def)
  obtain e r where init: "bal_engine_init installs bytes (Some engine_zero) cpu (Some ?a) (Some interface) p mem =
      (BAL_SUCCESS, Some e, r, mem')" and q: "q = snd (bal_engine_destroy (Some e) r)"
    using life by (auto simp: engine_lifetime_def split: prod.splits option.splits if_splits)
  from libc.engine_init_live [OF h a(1,2) default_mappings_apart init] obtain b0 s d where
    live: "en_engine_state e = Some (b0, s)" "en_allocator e = Some ?a" "b0 \<noteq> 0" "lh_wf r"
      "tc_debug_context (es_tier1_compiler s) = Some d" "debug_pointers_ok d"
      "mset (lh_live r) = debug_blocks d + add_mset (b0, SIZEOF_INTERNAL_ENGINE_STATE) (mset (lh_live p))" by blast
  obtain p1 b p2 st c where
    steps: "bal_default_allocate p MEMORY_ALIGNMENT SIZEOF_INTERNAL_ENGINE_STATE = (b0, p1)"
      "bal_default_allocate_executable p1 4096 TIER1_BUFFER_SIZE_BYTES = (b, p2)" "eb_rw_pointer b \<noteq> 0"
      "bal_jit_debug_init (Some (bal_default_allocate, bal_default_free)) p2 (Some jit_debug_zero) = (st, c, r)"
      "es_tier1_buffer s = b" "es_tier1_buffer_size s = TIER1_BUFFER_SIZE_BYTES"
    using live(1) by (auto intro: engine_init_success [OF init a])
  have f1: "same_files p p1" using heap_calls_same_files(1) [of p MEMORY_ALIGNMENT SIZEOF_INTERNAL_ENGINE_STATE] steps(1) by simp
  have wf1: "lp_wf p1" using lp_wf_files [OF f1 _ wf] libc.allocate_live [OF h steps(1)] by blast
  note x = allocate_executable_outcome [OF wf1 steps(2)]
  from x(4) [OF steps(3)] obtain fd where fd: "lp_descriptors p2 = (fd, length (lp_sizes p1)) # lp_descriptors p1"
      "lp_sizes p2 = lp_sizes p1 @ [TIER1_BUFFER_SIZE_BYTES]" "eb_rx_pointer b \<noteq> 0"
      "lp_mappings p2 = \<lparr>vm_start = eb_rx_pointer b, vm_size = TIER1_BUFFER_SIZE_BYTES, vm_writable = False,
          vm_executable = True, vm_object = length (lp_sizes p1)\<rparr> #
        \<lparr>vm_start = eb_rw_pointer b, vm_size = TIER1_BUFFER_SIZE_BYTES, vm_writable = True, vm_executable = False,
          vm_object = length (lp_sizes p1)\<rparr> # lp_mappings p1" by blast
  have f2: "same_files p2 r" by (rule debug_same_files [OF steps(4)])
  have wfr: "lp_wf r" by (rule lp_wf_files [OF f2 live(4) x(1)])
  have "lp_mappings r = lp_mappings p2" using f2 by (simp add: same_files_def)
  note rest = free_executable_restores [OF wfr fd(3) steps(3) trans [OF this fd(4)]]
  have f3: "same_files (bal_default_free_executable r b TIER1_BUFFER_SIZE_BYTES) q"
    using engine_destroy_files [OF live(1,2,5), of r] steps(3,5,6) q by simp
  have live_q: "mset (lh_live q) = mset (lh_live p)"
    unfolding q by (rule libc.engine_destroy_live [OF live(4) a(2) default_mappings_apart live(1-3,5-7)])
  have "lp_wf q"
    using lp_wf_files [OF f3 _ free_executable_outcome(1) [OF wfr]] lh_wf_mset [OF live_q] h by blast
  with live_q rest f1 f2 f3 fd(1,2) x(2) show ?thesis
    by (simp add: leaves_objects_def same_files_def same_heap_def free_executable_outcome
        free_executable_outcome(2) [unfolded same_heap_def])
qed

lemma leaves_objects_trans:
  assumes "leaves_objects 1 p q" "leaves_objects k q r"
  shows "leaves_objects (Suc k) p r"
proof -
  have "[n ..< n + Suc k] = n # [Suc n ..< Suc n + k]" for n by (simp add: upt_conv_Cons del: upt_Suc)
  moreover have "[n ..< n + 1] = [n]" for n by simp
  ultimately show ?thesis using assms by (simp add: leaves_objects_def del: upt_Suc)
qed

lemma engine_lifetimes_leave:
  "lp_wf p \<Longrightarrow> engine_lifetimes installs bytes cpu interface k (p, mem) = Some (q, mem') \<Longrightarrow> leaves_objects k p q"
proof (induction k arbitrary: p mem)
  case 0
  then show ?case by (simp add: leaves_objects_def)
next
  case (Suc k)
  then obtain r mem1 where r: "engine_lifetime installs bytes cpu interface (p, mem) = Some (r, mem1)"
      "engine_lifetimes installs bytes cpu interface k (r, mem1) = Some (q, mem')"
    by (auto split: option.splits)
  from engine_lifetime_leaves [OF Suc.prems(1) r(1)] have l: "leaves_objects 1 p r" .
  then have "lp_wf r" by (simp add: leaves_objects_def)
  from leaves_objects_trans [OF l Suc.IH [OF this r(2)]] show ?case .
qed

text \<open>
  C20: an engine gives back everything but one descriptor. Over the default allocator of the
  program on Linux, after any number of engines that were initialised and destroyed the heap
  and the mappings are what they were before. But every engine leaves a descriptor open and
  with it a shared memory object of 16 MiB; so the number of engines a process can create is
  bounded by its descriptor limit.
\<close>

theorem engine_lifetimes_bounded:
  assumes "lp_wf p" and "engine_lifetimes installs bytes cpu interface k (p, mem) = Some (q, mem')"
  shows "leaves_objects k p q \<and> k + length (lp_descriptors p) \<le> lp_limit p"
proof -
  from engine_lifetimes_leave [OF assms] have l: "leaves_objects k p q" .
  then have "length (map snd (lp_descriptors q)) = k + length (map snd (lp_descriptors p))"
    by (simp only: leaves_objects_def length_append length_rev length_upt)
  moreover have "length (lp_descriptors q) \<le> lp_limit p" using l by (simp add: leaves_objects_def lp_wf_def)
  ultimately show ?thesis using l by simp
qed


section \<open>Witness\<close>

lemma sample_default_init:
  "\<exists>e h mem. bal_engine_init (True, True) sample_mapping (Some engine_zero) 0x4000 (Some bal_allocator_default_init)
      (Some sample_interface) sample_process sample_memory = (BAL_SUCCESS, Some e, h, mem)"
proof -
  let ?a = bal_allocator_default_init
  obtain err e h mem where init: "bal_engine_init (True, True) sample_mapping (Some engine_zero) 0x4000
      (Some ?a) (Some sample_interface) sample_process sample_memory = (err, e, h, mem)"
    by (rule prod_cases4)
  let ?P = "(\<lambda>pc. None) :: guest_program"
  have args: "init_arguments_ok 0x4000 (Some ?a) (Some sample_interface)"
    by (simp add: bal_allocator_default_init_def init_arguments_ok_def sample_interface_def)
  have a1: "the (al_allocate ?a) sample_process MEMORY_ALIGNMENT SIZEOF_INTERNAL_ENGINE_STATE =
      (0x100000, snd (bal_default_allocate sample_process MEMORY_ALIGNMENT SIZEOF_INTERNAL_ENGINE_STATE))" by code_simp
  have a2: "the (al_allocate_executable ?a) (snd (bal_default_allocate sample_process MEMORY_ALIGNMENT
        SIZEOF_INTERNAL_ENGINE_STATE)) 4096 TIER1_BUFFER_SIZE_BYTES =
      (\<lparr>eb_rw_pointer = 0x10000000, eb_rx_pointer = 0x20000000, eb_rx_writable = False\<rparr>,
       snd (bal_default_allocate_executable (snd (bal_default_allocate sample_process MEMORY_ALIGNMENT
        SIZEOF_INTERNAL_ENGINE_STATE)) 4096 TIER1_BUFFER_SIZE_BYTES))"
    using a1 by (simp add: bal_allocator_default_init_def linux_simps sample_process_def TIER1_BUFFER_SIZE_BYTES_def
        bal_default_allocate_def posix_memalign_def)
  have "program_in_memory sample_tables 0 sample_interface 0 0x4000 ?P (sample_machine\<lparr>xs_mem := mem\<rparr>)"
    by (simp add: program_in_memory_def)
  from engine_init_ready [OF args a1 _ a2 _ _ _ sample_mapping_length _ init this, of 0]
  show ?thesis using init by auto
qed

theorem engine_lifetimes_bounded_witness:
  "\<exists>q mem. engine_lifetimes (True, True) sample_mapping 0x4000 sample_interface 1 (sample_process, sample_memory) =
      Some (q, mem) \<and> map snd (lp_descriptors q) = [1, 0, 0, 0] \<and> lp_sizes q = [0, TIER1_BUFFER_SIZE_BYTES] \<and>
    lp_mappings q = []"
proof -
  from sample_default_init obtain e h mem where init: "bal_engine_init (True, True) sample_mapping (Some engine_zero) 0x4000
      (Some bal_allocator_default_init) (Some sample_interface) sample_process sample_memory =
      (BAL_SUCCESS, Some e, h, mem)" by blast
  let ?q = "snd (bal_engine_destroy (Some e) h)"
  have run: "engine_lifetimes (True, True) sample_mapping 0x4000 sample_interface 1 (sample_process, sample_memory) =
      Some (?q, mem)" using init by (simp add: engine_lifetime_def)
  from engine_lifetimes_bounded [OF sample_process_wf this] have "leaves_objects 1 sample_process ?q" by blast
  then show ?thesis using run by (simp add: leaves_objects_def sample_process_def)
qed

end
