(* ===== verification/Default_Engine.thy ===== *)
theory Default_Engine
  imports Engine_Lifetimes
begin

text \<open>
  The engine over the default allocator, whose executable view may not be written: no part of
  the block compiler changes the buffer it works on, so in the whole life of such an engine
  every reset of its code faults.
\<close>

section \<open>What every operation of the compiler keeps\<close>


section \<open>The read-only view\<close>











section \<open>Property\<close>



end
