(* ===== verification/Fault_Handler.thy ===== *)
theory Fault_Handler
  imports Jit_Debug_Facts
begin

text \<open>
  The signal handler around the lookup (\<open>src/bal_jit_debug_signal.c\<close>, the Linux branches):
  the dispositions of the two signals, what the handler reads from the interrupted context,
  and how it ends.
\<close>

section \<open>Dispositions\<close>

text \<open>\<open>Sig_other\<close> is a handler of the host program.\<close>

datatype disposition = Sig_default | Sig_jit_handler | Sig_other nat

record signal_table =
  sg_segv :: disposition
  sg_ill :: disposition

text \<open>
  The \<open>sigaction\<close> calls of the registration: the second is not made when the first fails.
\<close>

definition register_dispositions :: "bool \<Rightarrow> bool \<Rightarrow> signal_table \<Rightarrow> signal_table" where
  "register_dispositions installs_segv installs_ill table =
    (if \<not> installs_segv then table
     else
      (let table = table\<lparr>sg_segv := Sig_jit_handler\<rparr>
       in if \<not> installs_ill then table else table\<lparr>sg_ill := Sig_jit_handler\<rparr>))"

definition default_dispositions :: "signal_table \<Rightarrow> signal_table" where
  "default_dispositions table = table\<lparr>sg_segv := Sig_default, sg_ill := Sig_default\<rparr>"

section \<open>The handler\<close>

text \<open>
  The interrupted context holds RIP and RBP; a null context leaves the two variables of the
  handler at zero.
\<close>

definition extract_fault_context :: "(u64 \<times> u64) option \<Rightarrow> bool \<times> u64 \<times> u64" where
  "extract_fault_context ucontext =
    (case ucontext of None \<Rightarrow> (False, 0, 0) | Some (rip, rbp) \<Rightarrow> (True, rip, rbp))"

datatype handler_end = Handler_returns | Handler_aborts jit_fault_result

text \<open>
  When \<open>handle_jit_fault\<close> comes back at all, it answers false: a fault of the JIT ends in
  \<open>abort\<close>. So the early return of the handler is never taken.
\<close>

definition segv_handler ::
  "(u64 \<Rightarrow> bal_jit_debug_context_t option) \<Rightarrow> (u64 \<times> u64) option \<Rightarrow> signal_table \<Rightarrow>
   handler_end \<times> signal_table" where
  "segv_handler debug_context_of ucontext table =
    (let (extract_status, rip, rbp) = extract_fault_context ucontext in
     case handle_jit_fault debug_context_of rip rbp of
       Fault_not_jit \<Rightarrow>
         (let handler_status = False in
          if extract_status \<and> handler_status then (Handler_returns, table)
          else (Handler_returns, default_dispositions table))
     | crash \<Rightarrow> (Handler_aborts crash, table))"

section \<open>Recorded blocks\<close>

text \<open>A recording: start and size of the code, guest address, instruction map and its length.\<close>

type_synonym block_record = "u64 \<times> u32 \<times> u64 \<times> bal_jit_instruction_map_t list \<times> u32"

definition try_record :: "bal_jit_debug_context_t \<Rightarrow> block_record \<Rightarrow> bal_error_t \<times> bal_jit_debug_context_t" where
  "try_record c r = (case r of (rx, n, pc, ms, ic) \<Rightarrow>
     map_prod id the (bal_jit_debug_add_block (Some c) rx n pc (Some ms) ic))"

definition record_well :: "block_record \<Rightarrow> bool" where
  "record_well r = (case r of (rx, n, pc, ms, ic) \<Rightarrow> length ms = unat ic)"

fun accepted :: "bal_jit_debug_context_t \<Rightarrow> block_record list \<Rightarrow> (u64 \<times> u32) list" where
  "accepted c [] = []"
| "accepted c (r # rs) =
    (if fst (try_record c r) = BAL_SUCCESS then [(fst r, fst (snd r))] else []) @
    accepted (snd (try_record c r)) rs"

definition record_all :: "bal_jit_debug_context_t \<Rightarrow> block_record list \<Rightarrow> bal_jit_debug_context_t" where
  "record_all c rs = foldl (\<lambda>c r. snd (try_record c r)) c rs"

lemma record_all_simps [simp]:
  "record_all c [] = c" "record_all c (r # rs) = record_all (snd (try_record c r)) rs"
  by (simp_all add: record_all_def)

definition entries_of :: "bal_jit_debug_context_t \<Rightarrow> bal_jit_block_entry_t list" where
  "entries_of c = take (unat (jd_entry_count c)) (snd (the (jd_entries c)))"

definition ranges_of :: "bal_jit_debug_context_t \<Rightarrow> (u64 \<times> u32) list" where
  "ranges_of c = map (\<lambda>e. (je_rx_start e, je_rx_size e)) (entries_of c)"

definition bounds_of :: "bal_jit_debug_context_t \<Rightarrow> u64 \<times> u64" where
  "bounds_of c = (jd_jit_buffer_start c, jd_jit_buffer_end c)"

lemma try_record_outcome:
  assumes wf: "jd_wf c" and "record_well r"
  shows "jd_wf (snd (try_record c r)) \<and> bounds_of (snd (try_record c r)) = bounds_of c \<and>
    ranges_of (snd (try_record c r)) = ranges_of c @ accepted c [r]"
proof -
  obtain rx n pc ms ic where r: "r = (rx, n, pc, ms, ic)" by (metis surj_pair)
  have len: "length ms = unat ic" using assms(2) r by (simp add: record_well_def)
  have "snd (bal_jit_debug_add_block (Some c) rx n pc (Some ms) ic) \<noteq> None"
    by (simp add: bal_jit_debug_add_block_def Let_def)
  then obtain e c' where a: "bal_jit_debug_add_block (Some c) rx n pc (Some ms) ic = (e, Some c')"
    by (metis prod.collapse option.collapse)
  have bounds: "bounds_of c' = bounds_of c"
    using a by (auto simp: bal_jit_debug_add_block_def Let_def bounds_of_def split: if_splits)
  have wf': "jd_wf c'" by (rule add_block_wf [OF wf a len])
  have "ranges_of c' = ranges_of c @ (if e = BAL_SUCCESS then [(rx, n)] else [])"
  proof (cases "e = BAL_SUCCESS")
    case True
    note room = add_block_room [OF wf a [unfolded True]]
    from add_block_success [OF wf room(1-3) len room(4,5), of n pc] a show ?thesis
      by (auto simp: ranges_of_def entries_of_def)
  next
    case False
    from add_block_failure [OF a False] False show ?thesis by (simp add: ranges_of_def entries_of_def)
  qed
  with a r bounds wf' show ?thesis by (simp add: try_record_def)
qed

lemma record_all_outcome:
  "jd_wf c \<Longrightarrow> list_all record_well rs \<Longrightarrow> jd_wf (record_all c rs) \<and>
    bounds_of (record_all c rs) = bounds_of c \<and> ranges_of (record_all c rs) = ranges_of c @ accepted c rs"
proof (induction rs arbitrary: c)
  case (Cons r rs)
  from try_record_outcome [OF Cons.prems(1), of r] Cons.prems(2) Cons.IH [of "snd (try_record c r)"]
  show ?case by simp
qed simp

definition in_range :: "u64 \<Rightarrow> u64 \<times> u32 \<Rightarrow> bool" where
  "in_range rip r \<longleftrightarrow> fst r \<le> rip \<and> rip < fst r + ucast (snd r)"

lemma find_entry_None:
  "fault_find_entry rip es = None \<longleftrightarrow> \<not> list_ex (in_range rip) (map (\<lambda>e. (je_rx_start e, je_rx_size e)) es)"
  by (induction es) (auto simp: in_range_def)

lemma find_entry_Some:
  "fault_find_entry rip es = Some e \<Longrightarrow> e \<in> set es \<and> in_range rip (je_rx_start e, je_rx_size e)"
  by (induction es) (auto simp: in_range_def split: if_splits)

section \<open>Property\<close>

text \<open>
  C15: how a fault ends. After any sequence of recordings, with the handlers registered and
  RBP at a CPU structure of the engine: a fault inside a block whose recording was accepted
  is reported with an entry that contains it, and the process aborts; a fault elsewhere in
  the buffer aborts it without a block; and any other fault returns with both signals at
  their default action. Neither then nor later is the handler called again, nor is the one
  the host had before.
\<close>

theorem fault_handler_outcome:
  assumes "jd_wf c" "jd_entry_count c = 0" "list_all record_well rs"
    and "rbp AND 63 = 0" "rbp \<noteq> 0" "debug_context_of rbp = Some (record_all c rs)"
    and "segv_handler debug_context_of (Some (rip, rbp)) (register_dispositions True True host) = (result, table')"
  shows "if list_ex (in_range rip) (accepted c rs) then
      (\<exists>callback pc offset e. result = Handler_aborts (Fault_reported callback pc offset e) \<and>
         (je_rx_start e, je_rx_size e) \<in> set (accepted c rs) \<and> in_range rip (je_rx_start e, je_rx_size e)) \<and>
      table' = \<lparr>sg_segv = Sig_jit_handler, sg_ill = Sig_jit_handler\<rparr>
    else if jd_jit_buffer_start c \<le> rip \<and> rip < jd_jit_buffer_end c then
      result = Handler_aborts Fault_unknown_block \<and> table' = \<lparr>sg_segv = Sig_jit_handler, sg_ill = Sig_jit_handler\<rparr>
    else result = Handler_returns \<and> table' = \<lparr>sg_segv = Sig_default, sg_ill = Sig_default\<rparr>"
proof -
  have host: "register_dispositions True True host = \<lparr>sg_segv = Sig_jit_handler, sg_ill = Sig_jit_handler\<rparr>"
    by (simp add: register_dispositions_def)
  let ?c = "record_all c rs"
  from record_all_outcome [OF assms(1,3)] assms(2) have r: "jd_wf ?c" "ranges_of ?c = accepted c rs"
      "jd_jit_buffer_start ?c = jd_jit_buffer_start c" "jd_jit_buffer_end ?c = jd_jit_buffer_end c"
    by (simp_all add: bounds_of_def ranges_of_def entries_of_def)
  obtain p es where es: "jd_entries ?c = Some (p, es)" using r(1) by (auto simp: jd_wf_def split: option.splits)
  let ?es = "take (unat (jd_entry_count ?c)) es"
  have ranges: "map (\<lambda>e. (je_rx_start e, je_rx_size e)) ?es = accepted c rs"
    using r(2) es by (simp add: ranges_of_def entries_of_def)
  show ?thesis
  proof (cases "fault_find_entry rip ?es")
    case None
    then have "\<not> list_ex (in_range rip) (accepted c rs)" by (simp add: find_entry_None ranges)
    with None assms(4-7) [unfolded host] es r(3,4) show ?thesis
      by (auto simp: segv_handler_def extract_fault_context_def handle_jit_fault_def Let_def default_dispositions_def
          split: if_splits)
  next
    case (Some e)
    then have "list_ex (in_range rip) (accepted c rs)"
      using find_entry_None [of rip ?es] ranges by auto
    moreover have "(je_rx_start e, je_rx_size e) \<in> set (accepted c rs)" "in_range rip (je_rx_start e, je_rx_size e)"
      using find_entry_Some [OF Some] by (auto simp flip: ranges)
    ultimately show ?thesis using Some assms(4-7) [unfolded host] es
      by (auto simp: segv_handler_def extract_fault_context_def handle_jit_fault_def Let_def)
  qed
qed

text \<open>Two faults: behind the only block in the buffer, and outside the buffer.\<close>

definition debug_in_buffer :: bal_jit_debug_context_t where
  "debug_in_buffer = debug_example\<lparr>jd_jit_buffer_start := 0x5000, jd_jit_buffer_end := 0x6000\<rparr>"

definition one_record :: "block_record list" where
  "one_record = [(0x5000, 64, 0x80000, mapping_example, 2)]"

theorem fault_handler_outcome_witness:
  "let c = record_all debug_in_buffer one_record;
       table = register_dispositions True True \<lparr>sg_segv = Sig_other 1, sg_ill = Sig_default\<rparr>
   in segv_handler (\<lambda>_. Some c) (Some (0x5800, 0x40)) table = (Handler_aborts Fault_unknown_block, table) \<and>
      segv_handler (\<lambda>_. Some c) (Some (0x7000, 0x40)) table =
        (Handler_returns, \<lparr>sg_segv = Sig_default, sg_ill = Sig_default\<rparr>)"
proof -
  let ?c = "record_all debug_in_buffer one_record"
  let ?host = "\<lparr>sg_segv = Sig_other 1, sg_ill = Sig_default\<rparr>"
  have c: "jd_wf debug_in_buffer" "jd_entry_count debug_in_buffer = 0" "list_all record_well one_record"
    by (simp_all add: debug_in_buffer_def one_record_def debug_example_def jit_debug_zero_def jd_wf_def
        record_well_def mapping_example_def)
  have accepted: "accepted debug_in_buffer one_record = [(0x5000, 64)]"
    by (simp add: try_record_def bal_jit_debug_add_block_def debug_example_def jit_debug_zero_def magic_ok_def
        SIZEOF_INSTRUCTION_MAP_def SIZEOF_BLOCK_METADATA_def debug_in_buffer_def one_record_def Let_def)
  have bounds: "jd_jit_buffer_start debug_in_buffer = 0x5000" "jd_jit_buffer_end debug_in_buffer = 0x6000"
    by (simp_all add: debug_in_buffer_def)
  note out = fault_handler_outcome [OF c, where rbp = "0x40" and debug_context_of = "\<lambda>_. Some ?c" and host = ?host,
      OF _ _ HOL.refl prod.collapse [symmetric], unfolded accepted bounds]
  from out [of "0x5800"] out [of "0x7000"] show ?thesis
    by (simp add: in_range_def prod_eq_iff register_dispositions_def)
qed

end
