(* ===== verification/Spec2Isabelle.thy ===== *)
theory Spec2Isabelle
  imports X86_Assembler_Facts Sliding_Window_Facts Bal_Memory Jit_Debug_Facts Engine_Facts Assembled_Programs Hint_Instructions
    Guest_Programs Translation_Ending Conditional_Branches
    Translation_Deviations Register_Maps Default_Engine Fault_Handler
begin

text \<open>
  Ballistic is a just-in-time compiler from ARM64 to x86-64, written in C. This development
  models its core (\<open>src/\<close>, \<open>include/\<close> of the repository) as HOL functions and proves what its
  parts promise to each other, up to the statement that a guest program run by the engine ends
  in the state the ARM architecture gives it.

  \<^bold>\<open>How the program works.\<close> The engine (\<open>bal_engine.c\<close>) runs a guest thread in a loop: it looks the
  program counter up in the block cache, asks the tier 1 compiler for a block when there is
  none, calls the code, and goes on with the program counter the code left in \<open>bal_cpu_t\<close>. The
  compiler (\<open>bal_x86_tier1_compiler.c\<close>) reads guest words through a memory interface
  (\<open>bal_memory.c\<close>), decodes them with a generated table (\<open>bal_decoder.c\<close>,
  \<open>generated/decoder_table.c\<close>), keeps guest registers in host registers, and pushes macro
  instructions into a sliding window (\<open>bal_x86_sliding_window.c\<close>), whose peephole pass drops
  redundant moves before the x86-64 assembler (\<open>bal_x86_assembler.c\<close>) writes the bytes. Debug
  tables (\<open>bal_jit_debug.c\<close>, \<open>bal_jit_debug_signal.c\<close>) map a host address back to a guest address
  when the code faults. The ARM64 assembler (\<open>bal_assembler.c\<close>) writes guest programs.

  \<^bold>\<open>Theories, by component.\<close>

  \<^item> Shared: \<^theory_text>\<open>Bal_Prelude\<close> (integer types, rule collections, byte sequences), \<^theory_text>\<open>Bal_Errors\<close>
    (\<open>bal_error_t\<close>), \<^theory_text>\<open>Bal_Safety\<close> (magic numbers), \<^theory_text>\<open>Bal_Cpu\<close> (layout of \<open>bal_cpu_t\<close>), \<^theory_text>\<open>Cpu_Memory\<close>
    (its members in byte memory).
  \<^item> Interfaces: \<^theory_text>\<open>Code_Buffer\<close> (what both assemblers offer), \<^theory_text>\<open>Macro_Buffer\<close> (what the window
    offers the compiler), the locales of the heap and of the code cache in \<^theory_text>\<open>Bal_Memory\<close> and
    \<^theory_text>\<open>Block_Cache\<close>, and in \<^theory_text>\<open>Default_Engine\<close> what all operations of the compiler keep. Each is
    interpreted on the model of the code that provides it.
  \<^item> x86-64 assembler: \<^theory_text>\<open>X86_Registers\<close>, \<^theory_text>\<open>X86_Assembler\<close>, one function for each emitter; the
    buffer is a byte list, and a write behind its end is recorded (\<open>xa_oob\<close>). \<^theory_text>\<open>X86_Isa\<close> and
    \<^theory_text>\<open>X86_Semantics\<close> are its specification, a decoder and the effect of the instructions from
    the Intel manual. \<^theory_text>\<open>X86_Assembler_Facts\<close>: encodings, every status, the writes out of bounds.
  \<^item> Sliding window: \<^theory_text>\<open>Sliding_Window\<close>, \<^theory_text>\<open>Sliding_Window_Facts\<close> (lowering, meaning of the queue,
    capacity).
  \<^item> Memory: \<^theory_text>\<open>Bal_Memory\<close> (flat interface over a model of the C heap), \<^theory_text>\<open>Executable_Memory\<close>
    (\<open>shm_open\<close>, \<open>mmap\<close> and their release over a model of the process).
  \<^item> Debug tables: \<^theory_text>\<open>Jit_Debug\<close>, \<^theory_text>\<open>Jit_Debug_Facts\<close>, \<^theory_text>\<open>Fault_Handler\<close>.
  \<^item> Decoder: \<^theory_text>\<open>Decoder\<close> (\<open>bal_decode_arm64\<close>; the tables are an argument); \<^theory_text>\<open>Table_Entries\<close>,
    \<^theory_text>\<open>Arm64_Instructions_1\<close> to \<^theory_text>\<open>Arm64_Instructions_8\<close>, \<^theory_text>\<open>Arm64_Candidates\<close>, \<^theory_text>\<open>Arm64_Table\<close> (the
    generated arrays, all 3856 entries, 6417 candidates and 2048 buckets, as \<open>arm64_tables\<close>);
    \<^theory_text>\<open>Arm64_Ranges\<close> (each range checked entry by entry), \<^theory_text>\<open>Arm64_Decoding\<close> (the two level lookup
    is a search through all entries), \<^theory_text>\<open>Supported_Words\<close> (the words of the supported
    instructions decode as the compiler needs it), \<^theory_text>\<open>Hint_Instructions\<close> (NOP, WFI and their kind
    do not). A pointer of \<open>g_decoder_hash_candidates\<close> is given
    by its index; the padding members are left out.
  \<^item> Tier 1 compiler: \<^theory_text>\<open>Register_Allocator\<close>, \<^theory_text>\<open>Tier1_Compiler\<close> (the \<open>switch\<close> over the opcode, the
    block endings, the loops). Its correctness, from one instruction to a block:
    \<^theory_text>\<open>Register_Allocator_Facts\<close>, \<^theory_text>\<open>Register_Maps\<close>, \<^theory_text>\<open>Register_Pressure\<close>, \<^theory_text>\<open>Arithmetic_Agreement\<close>,
    \<^theory_text>\<open>Instruction_Facts\<close>, \<^theory_text>\<open>Supported_Instructions\<close>, \<^theory_text>\<open>Data_Processing\<close>, \<^theory_text>\<open>Translation_Steps\<close>,
    \<^theory_text>\<open>Block_Translation\<close>, \<^theory_text>\<open>Block_Code\<close>, \<^theory_text>\<open>Block_Correctness\<close>; conditional endings in \<^theory_text>\<open>Branch_Code\<close>
    and \<^theory_text>\<open>Conditional_Branches\<close>; errors and the end of a translation in \<^theory_text>\<open>Translation_Ending\<close>;
    what is translated wrongly in \<^theory_text>\<open>Translation_Deviations\<close>. \<^theory_text>\<open>Arm_Semantics\<close> is the
    specification, from the architecture manual.
  \<^item> Engine: \<^theory_text>\<open>Block_Cache\<close> (refines a finite map), \<^theory_text>\<open>Engine\<close>, \<^theory_text>\<open>Engine_Facts\<close> (requests of other
    threads, reset, release), \<^theory_text>\<open>Engine_Run\<close> and \<^theory_text>\<open>Engine_Correctness\<close> (initialisation and guest
    programs over any table), \<^theory_text>\<open>Guest_Programs\<close> (the same over the generated table, for guest code
    given by the architecture only), \<^theory_text>\<open>Engine_Lifetimes\<close> (what a process has left),
    \<^theory_text>\<open>Default_Engine\<close> (over the default allocator the code of an engine cannot be cleared).
  \<^item> ARM64 assembler: \<^theory_text>\<open>Arm_Assembler\<close>, \<^theory_text>\<open>Arm_Assembler_Facts\<close> (round trip with a disassembler),
    \<^theory_text>\<open>Assembled_Programs\<close> (the block compiler on what was assembled).

  \<^bold>\<open>Conventions.\<close> A C structure is a record, an enumeration a datatype, a fixed width integer a
  word. Functions keep the names of the code; where a function is long its parts have names of
  their own. A pointer argument that may be null is an option. Statuses are values of
  \<open>bal_error_t\<close>; an assertion is an operation that records its failure. Code that is not in the
  repository is a parameter: the host's memory (a function from addresses to words), the answers
  of the operating system, the addresses the allocator gives.

  \<^bold>\<open>Crashes.\<close> Where the process may get a segmentation fault the result is an option (or
  \<open>Pass_crash\<close>, \<open>Inl\<close> for a pass and a run of the engine). The read-write and the executable
  pointer of a code buffer are two views of one memory; the ghost flag \<open>eb_rx_writable\<close> says
  whether the second may be written. It may not be over the default allocator, and the reset
  of the assembler writes to it: this is where \<open>bal_tier1_compiler_reset\<close>,
  \<open>handle_clear_request\<close>, \<open>compile_block\<close> and \<open>bal_engine_reset\<close> may crash. What the bytes behind
  the engine's state belong to, which \<open>bal_engine_reset\<close> clears, is not modelled; their number is.

  \<^bold>\<open>Callbacks.\<close> The compiler passes the address of the memory interface to its callback, the
  documentation promises the context; the model's callback gets the context, which is what
  the flat interface, the only one in the repository, takes out of the interface.

  \<^bold>\<open>Loops and bounds.\<close> Loops over arrays are structural. The loop of the translator
  (\<open>translate_loop\<close>) and of the engine (\<open>run_loop\<close>) may run forever and are partial functions
  into an option, so that not returning is \<open>None\<close>; that they return, or do not, is a theorem
  of its own. The execution of machine code takes a number of steps as fuel: the properties say
  that some number is enough and that every larger one gives the same result.
  A block of the correctness theorems has at most eight guest registers, because the ninth
  host register cannot be used again, and the room it needs is \<open>block_bytes\<close>.

  \<^bold>\<open>The decoder table.\<close> That every candidate belongs to its bucket, is listed once, and stands in
  order is checked by rewriting over the real arrays. That no entry is missing from a bucket is
  a count: an entry whose mask leaves n of the top eleven bits free belongs to at most
  \<open>2 ^ n\<close> buckets, the sum over all entries is 8646, and so is the sum of the counts of the
  buckets.

  \<^bold>\<open>Not modelled.\<close> Log output (\<open>bal_log.c\<close>) and the tables of names it uses; the branches for
  Windows and Apple; the generator of the decoder table, apart from its sort order; the
  documentation generator, the command line around the decoder, the fuzzer, the tests, and the
  vendored LuaJIT and Unicorn. Of concurrency, requests of other threads take effect between two
  passes of the loop. The correctness theorems for blocks cover the 64 bit moves of
  immediates, additions and subtractions of immediates and registers, AND of registers, RET and
  B, and (in \<^theory_text>\<open>Conditional_Branches\<close>) the branch on one flag; the 32 bit forms and register moves are modelled as the code has them, without an
  architectural specification beside them.
\<close>

end
